(* ===== verification/Prelude.thy ===== *)
theory Prelude
  imports Main "HOL-Library.AList" "HOL-Library.List_Lexorder" "HOL-Library.Char_ord"
    "HOL-Library.Product_Lexorder"
begin

text \<open>
  What every component of the development shares: actions that may raise an exception
  over an explicit state, the rules that prove an invariant of an action from its parts,
  JSON values, the string functions of Python the sources use, and facts about tables
  kept as association lists.
\<close>

named_theorems wp_simps "weakest preconditions of the action combinators"
named_theorems keeps_intros "invariance of the action combinators and of the operations"

section \<open>Actions: state and exceptions\<close>

text \<open>
  An action takes the state and returns the new state with either the raised exception
  (\<open>Inl\<close>) or its result (\<open>Inr\<close>). As in Python, the state changes made before an exception
  stay: undoing them is the business of an explicit rollback.
\<close>

type_synonym ('s, 'e, 'a) act = "'s \<Rightarrow> ('e + 'a) \<times> 's"

definition ret :: "'a \<Rightarrow> ('s, 'e, 'a) act" where
  "ret x s = (Inr x, s)"

definition raise :: "'e \<Rightarrow> ('s, 'e, 'a) act" where
  "raise e s = (Inl e, s)"

definition bnd :: "('s, 'e, 'a) act \<Rightarrow> ('a \<Rightarrow> ('s, 'e, 'b) act) \<Rightarrow> ('s, 'e, 'b) act" where
  "bnd m f s = (case m s of (Inl e, s') \<Rightarrow> (Inl e, s') | (Inr x, s') \<Rightarrow> f x s')"

definition gets :: "('s \<Rightarrow> 'a) \<Rightarrow> ('s, 'e, 'a) act" where
  "gets f s = (Inr (f s), s)"

definition modify :: "('s \<Rightarrow> 's) \<Rightarrow> ('s, 'e, unit) act" where
  "modify f s = (Inr (), f s)"

definition try_catch :: "('s, 'e, 'a) act \<Rightarrow> ('e \<Rightarrow> ('s, 'e, 'a) act) \<Rightarrow> ('s, 'e, 'a) act" where
  "try_catch m h s = (case m s of (Inl e, s') \<Rightarrow> h e s' | (Inr x, s') \<Rightarrow> (Inr x, s'))"

definition only_if :: "bool \<Rightarrow> ('s, 'e, unit) act \<Rightarrow> ('s, 'e, unit) act" where
  "only_if c m = (if c then m else ret ())"

text \<open>The loop \<^verbatim>\<open>for x in xs: f(x)\<close>, which stops at the first exception.\<close>

primrec for_each :: "('a \<Rightarrow> ('s, 'e, unit) act) \<Rightarrow> 'a list \<Rightarrow> ('s, 'e, unit) act" where
  "for_each f [] = ret ()"
| "for_each f (x # xs) = bnd (f x) (\<lambda>_. for_each f xs)"

text \<open>The loop that also collects what each iteration returns.\<close>

primrec map_act :: "('a \<Rightarrow> ('s, 'e, 'b) act) \<Rightarrow> 'a list \<Rightarrow> ('s, 'e, 'b list) act" where
  "map_act f [] = ret []"
| "map_act f (x # xs) =
     bnd (f x) (\<lambda>y. bnd (map_act f xs) (\<lambda>ys. ret (y # ys)))"

section \<open>Weakest preconditions\<close>

text \<open>
  \<open>wp m Q E s\<close> says that running \<open>m\<close> from \<open>s\<close> ends either normally with \<open>Q\<close> of the result
  and the state, or with an exception and \<open>E\<close> of it and the state. Every action ends, so
  this is total correctness.
\<close>

definition wp :: "('s, 'e, 'a) act \<Rightarrow> ('a \<Rightarrow> 's \<Rightarrow> bool) \<Rightarrow> ('e \<Rightarrow> 's \<Rightarrow> bool) \<Rightarrow> 's \<Rightarrow> bool" where
  "wp m Q E s \<longleftrightarrow> (case m s of (Inl e, s') \<Rightarrow> E e s' | (Inr x, s') \<Rightarrow> Q x s')"

lemma bnd_assoc: "bnd (bnd m f) g = bnd m (\<lambda>x. bnd (f x) g)"
  by (rule ext) (simp add: bnd_def split: prod.split sum.split)

lemma bnd_ret: "bnd (ret x) f = f x"
  by (rule ext) (simp add: bnd_def ret_def)

lemma wp_ret [wp_simps]: "wp (ret x) Q E s = Q x s"
  by (simp add: wp_def ret_def)

lemma wp_raise [wp_simps]: "wp (raise e) Q E s = E e s"
  by (simp add: wp_def raise_def)

lemma wp_bnd [wp_simps]: "wp (bnd m f) Q E s = wp m (\<lambda>x. wp (f x) Q E) E s"
  by (simp add: wp_def bnd_def split: prod.split sum.split)

lemma wp_gets [wp_simps]: "wp (gets f) Q E s = Q (f s) s"
  by (simp add: wp_def gets_def)

lemma wp_modify [wp_simps]: "wp (modify f) Q E s = Q () (f s)"
  by (simp add: wp_def modify_def)

lemma wp_try_catch [wp_simps]: "wp (try_catch m h) Q E s = wp m Q (\<lambda>e. wp (h e) Q E) s"
  by (simp add: wp_def try_catch_def split: prod.split sum.split)

lemma wp_only_if [wp_simps]: "wp (only_if c m) Q E s = (if c then wp m Q E s else Q () s)"
  by (simp add: only_if_def wp_ret)

lemma wp_if [wp_simps]: "wp (if c then m else n) Q E s = (if c then wp m Q E s else wp n Q E s)"
  by simp

lemma wp_option [wp_simps]:
  "wp (case x of None \<Rightarrow> m | Some y \<Rightarrow> f y) Q E s =
     (case x of None \<Rightarrow> wp m Q E s | Some y \<Rightarrow> wp (f y) Q E s)"
  by (simp split: option.split)

lemma wp_sum [wp_simps]:
  "wp (case x of Inl y \<Rightarrow> f y | Inr z \<Rightarrow> g z) Q E s =
     (case x of Inl y \<Rightarrow> wp (f y) Q E s | Inr z \<Rightarrow> wp (g z) Q E s)"
  by (simp split: sum.split)

lemma wp_let [wp_simps]: "wp (let x = t in f x) Q E s = (let x = t in wp (f x) Q E s)"
  by simp

lemma wp_any: "wp m (\<lambda>_ _. True) (\<lambda>_ _. True) s"
  by (simp add: wp_def split: prod.split sum.split)

lemma wp_mono:
  assumes "wp m Q E s"
    and "\<And>x s'. Q x s' \<Longrightarrow> Q' x s'" and "\<And>e s'. E e s' \<Longrightarrow> E' e s'"
  shows "wp m Q' E' s"
  using assms by (auto simp: wp_def split: prod.splits sum.splits)

lemma wp_conj:
  "wp m Q E s \<Longrightarrow> wp m Q' E' s \<Longrightarrow> wp m (\<lambda>x t. Q x t \<and> Q' x t) (\<lambda>e t. E e t \<and> E' e t) s"
  by (auto simp: wp_def split: prod.splits sum.splits)

text \<open>Reading a result back from a weakest precondition.\<close>

lemma wp_InrD: "wp m Q E s \<Longrightarrow> m s = (Inr x, s') \<Longrightarrow> Q x s'"
  by (simp add: wp_def)

lemma wp_InlD: "wp m Q E s \<Longrightarrow> m s = (Inl e, s') \<Longrightarrow> E e s'"
  by (simp add: wp_def)

lemma wp_run: "wp m Q E s = (\<forall>r s'. m s = (r, s') \<longrightarrow>
    (case r of Inl e \<Rightarrow> E e s' | Inr x \<Rightarrow> Q x s'))"
  by (simp add: wp_def split: prod.split sum.split)

section \<open>Invariance\<close>

text \<open>
  \<open>keeps I C m\<close>: from a state with \<open>I\<close>, the action ends normally with \<open>I\<close>, or with an
  exception \<open>e\<close> and \<open>C e\<close>. The rules follow the combinators, so an invariant of a handler
  is the invariants of the operations it calls. With \<open>C = (\<lambda>_. I)\<close> the invariant holds on
  every way out.
\<close>

definition keeps :: "('s \<Rightarrow> bool) \<Rightarrow> ('e \<Rightarrow> 's \<Rightarrow> bool) \<Rightarrow> ('s, 'e, 'a) act \<Rightarrow> bool" where
  "keeps I C m \<longleftrightarrow> (\<forall>s. I s \<longrightarrow> wp m (\<lambda>_. I) C s)"

lemma keepsI: "(\<And>s. I s \<Longrightarrow> wp m (\<lambda>_. I) C s) \<Longrightarrow> keeps I C m"
  by (simp add: keeps_def)

lemma keepsD: "keeps I C m \<Longrightarrow> I s \<Longrightarrow> wp m (\<lambda>_. I) C s"
  by (simp add: keeps_def)

lemma keeps_ret [keeps_intros]: "keeps I C (ret x)"
  by (simp add: keeps_def wp_simps)

lemma keeps_gets [keeps_intros]: "keeps I C (gets f)"
  by (simp add: keeps_def wp_simps)

lemma keeps_raise [keeps_intros]: "(\<And>s. I s \<Longrightarrow> C e s) \<Longrightarrow> keeps I C (raise e)"
  by (simp add: keeps_def wp_simps)

lemma keeps_bnd [keeps_intros]:
  "keeps I C m \<Longrightarrow> (\<And>x. keeps I C (f x)) \<Longrightarrow> keeps I C (bnd m f)"
  unfolding keeps_def wp_bnd by (blast intro: wp_mono)

lemma keeps_modify [keeps_intros]: "(\<And>s. I s \<Longrightarrow> I (f s)) \<Longrightarrow> keeps I C (modify f)"
  by (simp add: keeps_def wp_simps)

lemma keeps_only_if [keeps_intros]: "(c \<Longrightarrow> keeps I C m) \<Longrightarrow> keeps I C (only_if c m)"
  by (simp add: keeps_def wp_simps)

lemma keeps_if [keeps_intros]:
  "(c \<Longrightarrow> keeps I C m) \<Longrightarrow> (\<not> c \<Longrightarrow> keeps I C n) \<Longrightarrow> keeps I C (if c then m else n)"
  by simp

lemma keeps_option [keeps_intros]:
  "(x = None \<Longrightarrow> keeps I C m) \<Longrightarrow> (\<And>y. x = Some y \<Longrightarrow> keeps I C (f y)) \<Longrightarrow>
     keeps I C (case x of None \<Rightarrow> m | Some y \<Rightarrow> f y)"
  by (simp split: option.split)

lemma keeps_sum [keeps_intros]:
  "(\<And>y. x = Inl y \<Longrightarrow> keeps I C (f y)) \<Longrightarrow> (\<And>z. x = Inr z \<Longrightarrow> keeps I C (g z)) \<Longrightarrow>
     keeps I C (case x of Inl y \<Rightarrow> f y | Inr z \<Rightarrow> g z)"
  by (simp split: sum.split)

lemma keeps_prod [keeps_intros]:
  "(\<And>a b. x = (a, b) \<Longrightarrow> keeps I C (f a b)) \<Longrightarrow> keeps I C (case x of (a, b) \<Rightarrow> f a b)"
  by (simp split: prod.split)

lemma keeps_let [keeps_intros]: "(\<And>x. keeps I C (f x)) \<Longrightarrow> keeps I C (let x = t in f x)"
  by (simp add: Let_def)

lemma keeps_for_each [keeps_intros]: "(\<And>x. keeps I C (f x)) \<Longrightarrow> keeps I C (for_each f xs)"
  by (induction xs) (auto intro!: keeps_intros)

lemma keeps_map_act [keeps_intros]: "(\<And>x. keeps I C (f x)) \<Longrightarrow> keeps I C (map_act f xs)"
  by (induction xs) (auto intro!: keeps_intros)

lemma keeps_try_catch:
  assumes "keeps I C' m" and "\<And>e s. C' e s \<Longrightarrow> wp (h e) (\<lambda>_. I) C s"
  shows "keeps I C (try_catch m h)"
proof (rule keepsI)
  fix s assume "I s"
  with assms(1) have "wp m (\<lambda>_. I) C' s" by (rule keepsD)
  then show "wp (try_catch m h) (\<lambda>_. I) C s"
    unfolding wp_try_catch by (rule wp_mono) (simp_all add: assms(2))
qed

lemma keeps_weaken: "keeps I C m \<Longrightarrow> (\<And>e s. C e s \<Longrightarrow> C' e s) \<Longrightarrow> keeps I C' m"
  unfolding keeps_def by (blast intro: wp_mono)

section \<open>JSON values\<close>

text \<open>
  What the JSON columns and the payloads hold. A dictionary keeps its insertion order; a float
  is kept as the decimal text Python prints for it.
\<close>

datatype json =
    JNull
  | JBool bool
  | JInt int
  | JFloat string
  | JStr string
  | JList "json list"
  | JObj "(string \<times> json) list"

definition jopt :: "string option \<Rightarrow> json" where
  "jopt x = (case x of None \<Rightarrow> JNull | Some s \<Rightarrow> JStr s)"

definition jstrs :: "string list \<Rightarrow> json" where
  "jstrs xs = JList (map JStr xs)"

text \<open>\<^verbatim>\<open>d.get(key)\<close> on a dictionary value; on any other value there is no key.\<close>

definition jget :: "json \<Rightarrow> string \<Rightarrow> json option" where
  "jget j k = (case j of JObj kvs \<Rightarrow> map_of kvs k | _ \<Rightarrow> None)"

text \<open>\<^verbatim>\<open>x or None\<close> on a payload: an empty dictionary is false.\<close>

definition jtruthy :: "json \<Rightarrow> bool" where
  "jtruthy j = (case j of
      JNull \<Rightarrow> False
    | JBool b \<Rightarrow> b
    | JInt n \<Rightarrow> n \<noteq> 0
    | JFloat x \<Rightarrow> x \<notin> {''0.0'', ''-0.0''}
    | JStr s \<Rightarrow> s \<noteq> []
    | JList xs \<Rightarrow> xs \<noteq> []
    | JObj kvs \<Rightarrow> kvs \<noteq> [])"

section \<open>Python strings\<close>

definition lower_char :: "char \<Rightarrow> char" where
  "lower_char c = (let n = (of_char c :: nat) in
     if 65 \<le> n \<and> n \<le> 90 \<or> 192 \<le> n \<and> n \<le> 222 \<and> n \<noteq> 215
     then char_of (n + 32) else c)"

definition lower :: "string \<Rightarrow> string" where
  "lower s = map lower_char s"

definition is_alnum :: "char \<Rightarrow> bool" where
  "is_alnum c = (let n = (of_char c :: nat) in
     48 \<le> n \<and> n \<le> 57 \<or> 65 \<le> n \<and> n \<le> 90 \<or> 97 \<le> n \<and> n \<le> 122)"

text \<open>\<^verbatim>\<open>str.isalnum\<close>, which counts the letters and figures of the upper half too.\<close>

definition py_isalnum :: "char \<Rightarrow> bool" where
  "py_isalnum c \<longleftrightarrow> is_alnum c \<or> (let n = (of_char c :: nat) in
     n \<in> {170, 178, 179, 181, 185, 186, 188, 189, 190} \<or>
     192 \<le> n \<and> n \<noteq> 215 \<and> n \<noteq> 247)"

definition is_space :: "char \<Rightarrow> bool" where
  "is_space c = (let n = (of_char c :: nat) in 9 \<le> n \<and> n \<le> 13 \<or> 28 \<le> n \<and> n \<le> 32 \<or> n = 133 \<or> n = 160)"

definition strip :: "string \<Rightarrow> string" where
  "strip s = rev (dropWhile is_space (rev (dropWhile is_space s)))"

text \<open>\<^verbatim>\<open>needle in haystack\<close> and \<^verbatim>\<open>s.startswith(p)\<close>.\<close>

fun starts_with :: "string \<Rightarrow> string \<Rightarrow> bool" where
  "starts_with [] s = True"
| "starts_with (p # ps) [] = False"
| "starts_with (p # ps) (c # cs) = (p = c \<and> starts_with ps cs)"

fun is_infix :: "string \<Rightarrow> string \<Rightarrow> bool" where
  "is_infix p [] = (p = [])"
| "is_infix p (c # cs) = (starts_with p (c # cs) \<or> is_infix p cs)"

text \<open>\<^verbatim>\<open>s[-n:]\<close> for positive \<open>n\<close>.\<close>

definition last_chars :: "nat \<Rightarrow> string \<Rightarrow> string" where
  "last_chars n s = drop (length s - n) s"

text \<open>The text after the last separator: \<^verbatim>\<open>s.rsplit(sep, 1)[-1]\<close>.\<close>

definition after_last :: "char \<Rightarrow> string \<Rightarrow> string" where
  "after_last c s = rev (takeWhile (\<lambda>d. d \<noteq> c) (rev s))"

text \<open>\<^verbatim>\<open>a or b\<close> on strings that may be None.\<close>

definition str_or :: "string option \<Rightarrow> string \<Rightarrow> string" where
  "str_or a b = (case a of None \<Rightarrow> b | Some s \<Rightarrow> if s = [] then b else s)"

text \<open>The first element, when there is one.\<close>

definition first_of :: "'a list \<Rightarrow> 'a option" where
  "first_of xs = (case xs of [] \<Rightarrow> None | x # _ \<Rightarrow> Some x)"

text \<open>\<^verbatim>\<open>sep.join(xs)\<close>.\<close>

fun join_with :: "string \<Rightarrow> string list \<Rightarrow> string" where
  "join_with sep [] = []"
| "join_with sep [x] = x"
| "join_with sep (x # y # xs) = x @ sep @ join_with sep (y # xs)"

text \<open>\<^verbatim>\<open>list(dict.fromkeys(xs))\<close>: the first occurrences, in order.\<close>

fun dedup :: "'a list \<Rightarrow> 'a list" where
  "dedup [] = []"
| "dedup (x # xs) = x # filter (\<lambda>y. y \<noteq> x) (dedup xs)"

lemma set_dedup [simp]: "set (dedup xs) = set xs"
  by (induction xs) auto

lemma distinct_dedup [simp]: "distinct (dedup xs)"
  by (induction xs) auto

lemma starts_with_append [simp]: "starts_with p (p @ s)"
  by (induction p) auto

lemma starts_with_iff: "starts_with p s \<longleftrightarrow> (\<exists>t. s = p @ t)"
  by (induction p s rule: starts_with.induct) auto

section \<open>Tables\<close>

text \<open>
  A table is an association list from primary keys to rows, in insertion order. The sum of
  a column over the rows that satisfy a condition is \<open>sum_rows\<close>; an update of one row
  changes it by the difference of that row's contributions.
\<close>

type_synonym 'r table = "(string \<times> 'r) list"

definition rows :: "'r table \<Rightarrow> 'r list" where
  "rows t = map snd t"

definition sum_rows :: "('r \<Rightarrow> int) \<Rightarrow> 'r table \<Rightarrow> int" where
  "sum_rows f t = sum_list (map f (rows t))"

lemma rows_Nil [simp]: "rows [] = []"
  by (simp add: rows_def)

lemma sum_rows_Nil [simp]: "sum_rows f [] = 0"
  by (simp add: sum_rows_def)

lemma sum_rows_append [simp]: "sum_rows f (t @ [(k, r)]) = sum_rows f t + f r"
  by (simp add: sum_rows_def rows_def)

lemma sum_rows_update:
  assumes "map_of t k = Some r"
  shows "sum_rows f (AList.update k r' t) = sum_rows f t - f r + f r'"
  using assms
proof (induction t)
  case Nil
  then show ?case by simp
next
  case (Cons kv t)
  then show ?case
    by (cases kv) (auto simp: sum_rows_def rows_def split: if_splits)
qed

lemma sum_rows_nonneg: "(\<And>r. r \<in> set (rows t) \<Longrightarrow> 0 \<le> f r) \<Longrightarrow> 0 \<le> sum_rows f t"
  unfolding sum_rows_def by (intro sum_list_nonneg) auto

lemma map_of_rows: "map_of t k = Some r \<Longrightarrow> r \<in> set (rows t)"
  unfolding rows_def by (force dest: map_of_SomeD)

lemma map_of_append_new:
  "map_of t k = None \<Longrightarrow> map_of (t @ [(k, r)]) = (map_of t)(k \<mapsto> r)"
  by (auto simp: fun_eq_iff map_add_def split: option.splits)

lemma map_of_update: "map_of (AList.update k r t) = (map_of t)(k \<mapsto> r)"
  by (simp add: update_conv')

lemma set_rows_update:
  "map_of t k = Some r \<Longrightarrow> set (rows (AList.update k r' t)) \<subseteq> insert r' (set (rows t))"
  by (induction t) (auto simp: rows_def split: if_splits)

lemma fst_update: "map_of t k = Some r \<Longrightarrow> map fst (AList.update k r' t) = map fst t"
  by (induction t) (auto split: if_splits)

end
