(* ===== verification/TaskState.thy ===== *)
theory TaskState
  imports Prelude
begin

text \<open>
  \<^verbatim>\<open>services/task_state.py\<close>: the statuses of a task, the table of allowed transitions and
  \<^verbatim>\<open>validate_transition\<close>, which every component that moves a task calls. The lemmas show which
  transitions it accepts, that terminal statuses are final, that no task is stuck, and that a
  task is merged only after a human approval.
\<close>

section \<open>Statuses and the transition table\<close>

datatype task_status =
    CREATED | SPEC_DRAFTED | USER_APPROVED_SPEC | TASKS_CREATED | ASSIGNED | IN_PROGRESS
  | PATCH_READY | SELF_TESTING | REVIEWING | FIX_REQUESTED | APPROVED | CI_RUNNING
  | MERGE_READY | HUMAN_APPROVAL | PR_CREATED | MERGED | CLOSED | CANCELLED

fun task_status_value :: "task_status \<Rightarrow> string" where
    "task_status_value CREATED = ''CREATED''"
  | "task_status_value SPEC_DRAFTED = ''SPEC_DRAFTED''"
  | "task_status_value USER_APPROVED_SPEC = ''USER_APPROVED_SPEC''"
  | "task_status_value TASKS_CREATED = ''TASKS_CREATED''"
  | "task_status_value ASSIGNED = ''ASSIGNED''"
  | "task_status_value IN_PROGRESS = ''IN_PROGRESS''"
  | "task_status_value PATCH_READY = ''PATCH_READY''"
  | "task_status_value SELF_TESTING = ''SELF_TESTING''"
  | "task_status_value REVIEWING = ''REVIEWING''"
  | "task_status_value FIX_REQUESTED = ''FIX_REQUESTED''"
  | "task_status_value APPROVED = ''APPROVED''"
  | "task_status_value CI_RUNNING = ''CI_RUNNING''"
  | "task_status_value MERGE_READY = ''MERGE_READY''"
  | "task_status_value HUMAN_APPROVAL = ''HUMAN_APPROVAL''"
  | "task_status_value PR_CREATED = ''PR_CREATED''"
  | "task_status_value MERGED = ''MERGED''"
  | "task_status_value CLOSED = ''CLOSED''"
  | "task_status_value CANCELLED = ''CANCELLED''"

definition terminal_statuses :: "task_status list" where
  "terminal_statuses = [MERGED, CLOSED, CANCELLED]"

fun transitions :: "task_status \<Rightarrow> task_status list" where
    "transitions CREATED = [SPEC_DRAFTED, ASSIGNED, CANCELLED]"
  | "transitions SPEC_DRAFTED = [USER_APPROVED_SPEC, CANCELLED]"
  | "transitions USER_APPROVED_SPEC = [TASKS_CREATED, CANCELLED]"
  | "transitions TASKS_CREATED = [ASSIGNED, CANCELLED]"
  | "transitions ASSIGNED = [IN_PROGRESS, CANCELLED]"
  | "transitions IN_PROGRESS = [PATCH_READY, FIX_REQUESTED, CANCELLED]"
  | "transitions PATCH_READY = [SELF_TESTING, REVIEWING, CANCELLED]"
  | "transitions SELF_TESTING = [REVIEWING, FIX_REQUESTED, CANCELLED]"
  | "transitions REVIEWING = [APPROVED, FIX_REQUESTED, CANCELLED]"
  | "transitions FIX_REQUESTED = [IN_PROGRESS, CANCELLED]"
  | "transitions APPROVED = [CI_RUNNING, MERGE_READY, CANCELLED]"
  | "transitions CI_RUNNING = [MERGE_READY, FIX_REQUESTED, CANCELLED]"
  | "transitions MERGE_READY = [HUMAN_APPROVAL, CANCELLED]"
  | "transitions HUMAN_APPROVAL = [PR_CREATED, MERGED, CLOSED]"
  | "transitions PR_CREATED = [MERGED, CLOSED, CANCELLED]"
  | "transitions MERGED = []"
  | "transitions CLOSED = []"
  | "transitions CANCELLED = []"

definition allowed_next_statuses :: "task_status \<Rightarrow> string list" where
  "allowed_next_statuses current = sort (map task_status_value (transitions current))"

section \<open>Validation\<close>

text \<open>The printed form of a list of plain strings, as in the messages.\<close>

definition py_quote :: "string \<Rightarrow> string" where
  "py_quote s = [CHR 0x27] @ s @ [CHR 0x27]"

definition py_list :: "string list \<Rightarrow> string" where
  "py_list xs = ''['' @ join_with '', '' (map py_quote xs) @ '']''"

text \<open>
  \<open>Inl\<close> is the message of the raised \<^verbatim>\<open>InvalidTaskTransition\<close>; the checks are in the order of
  the code.
\<close>

definition validate_transition :: "task_status \<Rightarrow> task_status \<Rightarrow> string \<Rightarrow> string + task_status" where
  "validate_transition current requested actor_type =
     (let allowed = py_list (allowed_next_statuses current);
          transition = task_status_value current @ '' -> '' @ task_status_value requested
      in if current \<in> set terminal_statuses
         then Inl (''Invalid task transition '' @ transition @
                   ''; terminal status cannot transition; allowed='' @ allowed)
         else if requested = MERGED \<and>
                 (current \<notin> {HUMAN_APPROVAL, PR_CREATED} \<or> actor_type \<noteq> ''system'')
         then Inl (''Invalid task transition '' @ transition @ '' for actor_type='' @ actor_type @
                   ''; MERGED requires HUMAN_APPROVAL or PR_CREATED and actor_type=system; allowed='' @
                   allowed)
         else if requested \<notin> set (transitions current)
         then Inl (''Invalid task transition '' @ transition @ ''; allowed='' @ allowed)
         else Inr requested)"

section \<open>Lifecycles\<close>

text \<open>
  The shape of a lifecycle: a step relation in which terminal states have no successor and
  every other state has a way to a terminal one. A task's status and, in
  \<open>CloudRunStates\<close>, a cloud run's status are instances.
\<close>

locale lifecycle =
  fixes step :: "'s \<Rightarrow> 's \<Rightarrow> bool"
    and terminal :: "'s \<Rightarrow> bool"
  assumes terminal_final: "terminal s \<Longrightarrow> \<not> step s t"
    and exit_step: "\<not> terminal s \<Longrightarrow> \<exists>t. step s t \<and> terminal t"
begin

lemma terminal_stays: "step\<^sup>*\<^sup>* s t \<Longrightarrow> terminal s \<Longrightarrow> t = s"
  by (induction rule: rtranclp_induct) (auto dest: terminal_final)

lemma can_finish: "\<exists>t. step\<^sup>*\<^sup>* s t \<and> terminal t"
proof (cases "terminal s")
  case True
  then show ?thesis by blast
next
  case False
  then show ?thesis using exit_step by blast
qed

lemma stuck_iff_terminal: "(\<forall>t. \<not> step s t) \<longleftrightarrow> terminal s"
  using terminal_final exit_step by blast

end

definition task_step :: "string \<Rightarrow> task_status \<Rightarrow> task_status \<Rightarrow> bool" where
  "task_step actor s t \<longleftrightarrow> validate_transition s t actor = Inr t"

lemma validate_transition_Inr:
  "validate_transition s t actor = Inr r \<longleftrightarrow>
     r = t \<and> t \<in> set (transitions s) \<and>
     (t = MERGED \<longrightarrow> s \<in> {HUMAN_APPROVAL, PR_CREATED} \<and> actor = ''system'')"
  by (cases s) (auto simp: validate_transition_def terminal_statuses_def Let_def)

lemma task_step_iff:
  "task_step actor s t \<longleftrightarrow> t \<in> set (transitions s) \<and> (t = MERGED \<longrightarrow> actor = ''system'')"
  by (cases s) (auto simp: task_step_def validate_transition_Inr)

interpretation task_lifecycle: lifecycle "task_step actor" "\<lambda>s. s \<in> set terminal_statuses"
proof unfold_locales
  fix s t
  assume "s \<in> set terminal_statuses"
  then show "\<not> task_step actor s t"
    by (auto simp: terminal_statuses_def task_step_iff)
next
  fix s
  assume "s \<notin> set terminal_statuses"
  then have "task_step actor s CANCELLED \<or> task_step actor s CLOSED"
    by (cases s) (auto simp: terminal_statuses_def task_step_iff)
  then show "\<exists>t. task_step actor s t \<and> t \<in> set terminal_statuses"
    by (auto simp: terminal_statuses_def)
qed

section \<open>Histories\<close>

text \<open>
  A history is the list of accepted requests, each with the type of the actor that made it.
\<close>

fun run_transitions :: "task_status \<Rightarrow> (task_status \<times> string) list \<Rightarrow> string + task_status" where
  "run_transitions s [] = Inr s"
| "run_transitions s ((t, actor) # rest) =
     (case validate_transition s t actor of
        Inl e \<Rightarrow> Inl e
      | Inr s' \<Rightarrow> run_transitions s' rest)"

lemma run_transitions_Cons:
  "run_transitions s ((t, actor) # rest) = Inr u \<longleftrightarrow>
     task_step actor s t \<and> run_transitions t rest = Inr u"
proof (cases "validate_transition s t actor")
  case (Inr r)
  then have "r = t" by (simp add: validate_transition_Inr)
  with Inr show ?thesis by (simp add: task_step_def)
qed (simp add: task_step_def)

definition before_approval :: "task_status \<Rightarrow> bool" where
  "before_approval s \<longleftrightarrow> s \<notin> {HUMAN_APPROVAL, PR_CREATED, MERGED}"

text \<open>Only the human approval leads out of the statuses before it towards a merge.\<close>

lemma approval_gate:
  assumes "before_approval s" and "run_transitions s hist = Inr u" and "\<not> before_approval u"
  shows "HUMAN_APPROVAL \<in> fst ` set hist"
  using assms
proof (induction hist arbitrary: s)
  case Nil
  then show ?case by simp
next
  case (Cons ta hist)
  obtain t actor where ta: "ta = (t, actor)" by (cases ta)
  from Cons.prems ta have step: "task_step actor s t" and rest: "run_transitions t hist = Inr u"
    by (simp_all only: run_transitions_Cons)
  show ?case
  proof (cases "before_approval t")
    case True
    with Cons.IH rest Cons.prems(3) show ?thesis by auto
  next
    case False
    with step Cons.prems(1) have "t = HUMAN_APPROVAL"
      by (cases s) (auto simp: before_approval_def task_step_iff)
    with ta show ?thesis by simp
  qed
qed

text \<open>The last step of a history that ends merged was made by the system.\<close>

lemma merged_by_system:
  assumes "s \<noteq> MERGED" and "run_transitions s hist = Inr MERGED"
  shows "(MERGED, ''system'') \<in> set hist"
  using assms
proof (induction hist arbitrary: s)
  case Nil
  then show ?case by simp
next
  case (Cons ta hist)
  obtain t actor where ta: "ta = (t, actor)" by (cases ta)
  from Cons.prems ta have "task_step actor s t" and rest: "run_transitions t hist = Inr MERGED"
    by (simp_all only: run_transitions_Cons)
  then show ?case
    using Cons.IH [of t] ta by (cases "t = MERGED") (auto simp: task_step_iff)
qed

section \<open>Properties\<close>

text \<open>
  Validate_transition accepts a request exactly when the requested status is in the
  transition table of the current one and, for MERGED, the actor is the system; it then
  returns the requested status.
\<close>

theorem validate_transition_accepts:
  "validate_transition current requested actor = Inr r \<longleftrightarrow>
     r = requested \<and> requested \<in> set (transitions current) \<and>
     (if requested = MERGED then actor = ''system'' else True)"
  by (cases current) (auto simp: validate_transition_Inr)

text \<open>
  C13: no history of accepted transitions takes a new task to a merge, or even to a pull
  request, without the human approval, and the merge itself was requested by the system.
\<close>

theorem merged_only_after_human_approval:
  assumes "run_transitions CREATED hist = Inr u" and "u \<in> {PR_CREATED, MERGED}"
  shows "HUMAN_APPROVAL \<in> fst ` set hist \<and> (u = MERGED \<longrightarrow> (MERGED, ''system'') \<in> set hist)"
proof -
  have "HUMAN_APPROVAL \<in> fst ` set hist"
    using approval_gate [of CREATED hist u] assms by (auto simp: before_approval_def)
  moreover have "u = MERGED \<longrightarrow> (MERGED, ''system'') \<in> set hist"
    using merged_by_system [of CREATED hist] assms by simp
  ultimately show ?thesis by blast
qed

theorem merged_only_after_human_approval_witness:
  "HUMAN_APPROVAL \<in> fst ` set [(ASSIGNED, ''user''), (IN_PROGRESS, ''user''), (PATCH_READY, ''system''),
      (REVIEWING, ''system''), (APPROVED, ''system''), (MERGE_READY, ''system''),
      (HUMAN_APPROVAL, ''system''), (MERGED, ''system'')]"
proof -
  have "run_transitions CREATED [(ASSIGNED, ''user''), (IN_PROGRESS, ''user''),
      (PATCH_READY, ''system''), (REVIEWING, ''system''), (APPROVED, ''system''),
      (MERGE_READY, ''system''), (HUMAN_APPROVAL, ''system''), (MERGED, ''system'')] = Inr MERGED"
    by (simp add: run_transitions_Cons task_step_iff del: run_transitions.simps(2))
  from merged_only_after_human_approval [OF this] show ?thesis by simp
qed

text \<open>
  A task whose status is terminal never changes it again, whatever transitions are
  accepted; from every other status some accepted transition leads directly to a terminal
  status, so no task is stuck, whichever actor asks.
\<close>

theorem task_status_final_or_finishable:
  "(s \<in> set terminal_statuses \<longrightarrow> (\<forall>t. (task_step actor)\<^sup>*\<^sup>* s t \<longrightarrow> t = s)) \<and>
   (s \<notin> set terminal_statuses \<longrightarrow> (\<exists>t. task_step actor s t \<and> t \<in> set terminal_statuses))"
  using task_lifecycle.terminal_stays task_lifecycle.exit_step by blast

theorem task_status_finishable_example:
  "\<exists>t. task_step ''user'' HUMAN_APPROVAL t \<and> t \<in> set terminal_statuses"
proof -
  have "HUMAN_APPROVAL \<notin> set terminal_statuses" by (simp add: terminal_statuses_def)
  then show ?thesis using task_status_final_or_finishable [of HUMAN_APPROVAL "''user''"] by blast
qed

end
