(* ===== verification/Calendar.thy ===== *)
theory Calendar
  imports Main
begin

text \<open>
  The part of Python's \<^verbatim>\<open>datetime\<close> the budget code uses: the month a moment belongs to. A moment is
  the number of microseconds since 1970-01-01T00:00:00 UTC. Days are counted as
  \<^verbatim>\<open>date.toordinal\<close> does (1 January of year 1 is day 1).
\<close>

definition leap :: "int \<Rightarrow> bool" where
  "leap y \<longleftrightarrow> y mod 4 = 0 \<and> (y mod 100 \<noteq> 0 \<or> y mod 400 = 0)"

definition days_before_year :: "int \<Rightarrow> int" where
  "days_before_year y = (let p = y - 1 in p * 365 + p div 4 - p div 100 + p div 400)"

definition month_lengths :: "int \<Rightarrow> int list" where
  "month_lengths y = [31, if leap y then 29 else 28, 31, 30, 31, 30, 31, 31, 30, 31, 30, 31]"

definition days_before_month :: "int \<Rightarrow> nat \<Rightarrow> int" where
  "days_before_month y m = sum_list (take (m - 1) (month_lengths y))"

definition ymd2ord :: "int \<Rightarrow> nat \<Rightarrow> int \<Rightarrow> int" where
  "ymd2ord y m d = days_before_year y + days_before_month y m + d"

lemma div_pred:
  fixes y k :: int
  assumes "0 < k"
  shows "(y - 1) div k = y div k - (if k dvd y then 1 else 0)"
proof (cases "k dvd y")
  case True
  then have "y - 1 = k * (y div k - 1) + (k - 1)"
    by (simp add: right_diff_distrib)
  then have "(y - 1) div k = y div k - 1"
    using assms by (intro int_div_pos_eq [of "y - 1" k "y div k - 1" "k - 1"]) auto
  with True show ?thesis by simp
next
  case False
  then have "0 < y mod k"
    using assms pos_mod_sign [of k y] by (auto simp: dvd_eq_mod_eq_0 less_le)
  moreover have "y - 1 = k * (y div k) + (y mod k - 1)" by simp
  moreover have "y mod k - 1 < k" using pos_mod_bound [OF assms, of y] by linarith
  ultimately have "(y - 1) div k = y div k"
    by (intro int_div_pos_eq [of "y - 1" k "y div k" "y mod k - 1"]) auto
  with False show ?thesis by simp
qed

lemma century_dvd: "(400::int) dvd y \<Longrightarrow> 100 dvd y" "(100::int) dvd y \<Longrightarrow> 4 dvd y"
  by (rule dvd_trans [rotated], assumption, simp)+

lemma year_length:
  "days_before_year (y + 1) - days_before_year y = (if leap y then 366 else 365)"
proof -
  define a where "a = y div 4 - (y - 1) div 4"
  define b where "b = y div 100 - (y - 1) div 100"
  define c where "c = y div 400 - (y - 1) div 400"
  have "days_before_year (y + 1) - days_before_year y = 365 + a - b + c"
    by (simp add: days_before_year_def Let_def a_def b_def c_def)
  moreover have "a = (if 4 dvd y then 1 else 0)" "b = (if 100 dvd y then 1 else 0)"
    "c = (if 400 dvd y then 1 else 0)"
    unfolding a_def b_def c_def by (subst div_pred; simp)+
  ultimately show ?thesis
    unfolding leap_def dvd_eq_mod_eq_0 [symmetric] using century_dvd [of y]
    by (cases "4 dvd y"; cases "100 dvd y"; cases "400 dvd y") simp_all
qed

lemma days_before_year_less: "days_before_year y < days_before_year (y + 1)"
  using year_length [of y] by (simp split: if_splits)

text \<open>The year of a day: from a year that is not too late, go on while the day is beyond it.\<close>

function find_year :: "int \<Rightarrow> int \<Rightarrow> int" where
  "find_year y n = (if days_before_year (y + 1) < n then find_year (y + 1) n else y)"
  by pat_completeness auto
termination
proof (relation "measure (\<lambda>(y, n). nat (n - days_before_year y))")
  fix y n :: int
  assume "days_before_year (y + 1) < n"
  then show "((y + 1, n), y, n) \<in> measure (\<lambda>(y, n). nat (n - days_before_year y))"
    using days_before_year_less [of y] by simp
qed simp

declare find_year.simps [simp del]

lemma find_year_bounds:
  "days_before_year y < n \<Longrightarrow>
     days_before_year (find_year y n) < n \<and> n \<le> days_before_year (find_year y n + 1)"
proof (induction y n rule: find_year.induct)
  case (1 y n)
  show ?case
  proof (cases "days_before_year (y + 1) < n")
    case True
    with 1 show ?thesis by (simp add: find_year.simps [of y n])
  next
    case False
    with 1 show ?thesis by (simp add: find_year.simps [of y n])
  qed
qed

definition year_of_day :: "int \<Rightarrow> int" where
  "year_of_day n = find_year ((n - 1) div 366 + 1) n"

lemma year_of_day_bounds:
  assumes "1 \<le> n"
  shows "days_before_year (year_of_day n) < n \<and> n \<le> days_before_year (year_of_day n + 1)"
proof -
  define k where "k = (n - 1) div 366"
  have "0 \<le> k" using assms by (simp add: k_def pos_imp_zdiv_nonneg_iff)
  moreover have "366 * k \<le> n - 1"
    unfolding k_def using mult_div_mod_eq [of 366 "n - 1"] pos_mod_sign [of 366 "n - 1"] by linarith
  moreover have "k div 4 \<le> k" "k div 400 \<le> k div 100"
    using \<open>0 \<le> k\<close> zdiv_mono2 [of k 1 4] zdiv_mono2 [of k 100 400] by simp_all
  ultimately have "days_before_year (k + 1) < n"
    by (simp add: days_before_year_def Let_def)
  then show ?thesis
    unfolding year_of_day_def k_def [symmetric] by (rule find_year_bounds)
qed

text \<open>The month of a day within its year.\<close>

fun find_month :: "int list \<Rightarrow> nat \<Rightarrow> int \<Rightarrow> nat" where
  "find_month (l # k # ls) m d = (if l < d then find_month (k # ls) (m + 1) (d - l) else m)"
| "find_month ls m d = m"

definition month_of_day :: "int \<Rightarrow> nat" where
  "month_of_day n =
     find_month (month_lengths (year_of_day n)) 1 (n - days_before_year (year_of_day n))"

lemma find_month_bounds:
  assumes "ls \<noteq> []" and "0 < d" and "d \<le> sum_list ls"
  shows "m \<le> find_month ls m d \<and> find_month ls m d < m + length ls \<and>
    sum_list (take (find_month ls m d - m) ls) < d \<and>
    d \<le> sum_list (take (find_month ls m d - m + 1) ls)"
  using assms
proof (induction ls m d rule: find_month.induct)
  case (1 l k ls m d)
  show ?case
  proof (cases "l < d")
    case True
    with 1 have IH: "m + 1 \<le> find_month (k # ls) (m + 1) (d - l)"
      "find_month (k # ls) (m + 1) (d - l) < m + 1 + length (k # ls)"
      "sum_list (take (find_month (k # ls) (m + 1) (d - l) - (m + 1)) (k # ls)) < d - l"
      "d - l \<le> sum_list (take (find_month (k # ls) (m + 1) (d - l) - (m + 1) + 1) (k # ls))"
      by auto
    obtain j where j: "find_month (k # ls) (m + 1) (d - l) = m + 1 + j"
      using IH(1) le_Suc_ex by blast
    then have j': "find_month (k # ls) (Suc m) (d - l) = Suc (m + j)" by simp
    show ?thesis using IH True unfolding j by (simp add: j' Suc_diff_le)
  next
    case False
    with 1 show ?thesis by simp
  qed
qed auto

section \<open>The month a moment belongs to\<close>

definition day_us :: int where
  "day_us = 86400000000"

definition epoch_day :: int where
  "epoch_day = 719163"

definition day_of :: "int \<Rightarrow> int" where
  "day_of t = t div day_us + epoch_day"

definition month_start :: "int \<Rightarrow> int" where
  "month_start t = (let n = day_of t in
     (ymd2ord (year_of_day n) (month_of_day n) 1 - epoch_day) * day_us)"

definition next_month_start :: "int \<Rightarrow> int" where
  "next_month_start t = (let n = day_of t; y = year_of_day n; m = month_of_day n in
     (if m = 12 then (ymd2ord (y + 1) 1 1 - epoch_day) * day_us
      else (ymd2ord y (m + 1) 1 - epoch_day) * day_us))"

lemma sum_month_lengths:
  "sum_list (month_lengths y) = days_before_year (y + 1) - days_before_year y"
  by (simp add: month_lengths_def year_length)

lemma month_of_day_bounds:
  assumes "1 \<le> n"
  shows "1 \<le> month_of_day n \<and> month_of_day n \<le> 12 \<and>
    ymd2ord (year_of_day n) (month_of_day n) 1 \<le> n \<and>
    n < (if month_of_day n = 12 then ymd2ord (year_of_day n + 1) 1 1
         else ymd2ord (year_of_day n) (month_of_day n + 1) 1)"
proof -
  let ?y = "year_of_day n"
  let ?d = "n - days_before_year ?y"
  let ?ls = "month_lengths ?y"
  have "0 < ?d" "?d \<le> sum_list ?ls"
    using year_of_day_bounds [OF assms] by (simp_all add: sum_month_lengths)
  moreover have "?ls \<noteq> []" by (simp add: month_lengths_def)
  ultimately have b: "1 \<le> find_month ?ls 1 ?d" "find_month ?ls 1 ?d < 1 + length ?ls"
    "sum_list (take (find_month ?ls 1 ?d - 1) ?ls) < ?d"
    "?d \<le> sum_list (take (find_month ?ls 1 ?d - 1 + 1) ?ls)"
    using find_month_bounds [of ?ls ?d 1] by auto
  have m: "month_of_day n = find_month ?ls 1 ?d" by (simp add: month_of_day_def)
  have len: "length ?ls = 12" by (simp add: month_lengths_def)
  have full: "month_of_day n = 12 \<Longrightarrow> sum_list (take 12 ?ls) = sum_list ?ls"
    using len by simp
  have next_year: "ymd2ord (?y + 1) 1 1 = days_before_year ?y + sum_list ?ls + 1"
    by (simp add: ymd2ord_def days_before_month_def sum_month_lengths)
  show ?thesis
    using b len full unfolding m [symmetric] next_year
    by (auto simp: ymd2ord_def days_before_month_def)
qed

lemma month_contains:
  assumes "- (719162 * day_us) \<le> t"
  shows "month_start t \<le> t \<and> t < next_month_start t"
proof -
  let ?n = "day_of t"
  have n: "1 \<le> ?n"
    using assms by (simp add: day_of_def day_us_def epoch_day_def)
  have t: "(?n - epoch_day) * day_us \<le> t" "t < (?n - epoch_day + 1) * day_us"
    by (simp_all add: day_of_def day_us_def)
  have mono: "\<And>a b. a \<le> b \<Longrightarrow> a * day_us \<le> b * day_us"
    by (simp add: day_us_def)
  from month_of_day_bounds [OF n]
  have lo: "ymd2ord (year_of_day ?n) (month_of_day ?n) 1 \<le> ?n"
    and hi: "?n + 1 \<le> (if month_of_day ?n = 12 then ymd2ord (year_of_day ?n + 1) 1 1
         else ymd2ord (year_of_day ?n) (month_of_day ?n + 1) 1)"
    by auto
  have "month_start t \<le> t"
    using mono [of "ymd2ord (year_of_day ?n) (month_of_day ?n) 1 - epoch_day" "?n - epoch_day"]
      lo t by (simp add: month_start_def Let_def)
  moreover have "t < next_month_start t"
    using mono [of "?n - epoch_day + 1" "ymd2ord (year_of_day ?n + 1) 1 1 - epoch_day"]
      mono [of "?n - epoch_day + 1" "ymd2ord (year_of_day ?n) (month_of_day ?n + 1) 1 - epoch_day"]
      hi t by (auto simp: next_month_start_def Let_def split: if_splits)
  ultimately show ?thesis by blast
qed

lemma days_before_next_month:
  "1 \<le> m \<Longrightarrow> m \<le> 12 \<Longrightarrow>
     days_before_month y (m + 1) = days_before_month y m + month_lengths y ! (m - 1)"
  unfolding days_before_month_def
  using take_Suc_conv_app_nth [of "m - 1" "month_lengths y"]
  by (simp add: month_lengths_def)

lemma month_length:
  assumes "- (719162 * day_us) \<le> t"
  shows "next_month_start t - month_start t =
    month_lengths (year_of_day (day_of t)) ! (month_of_day (day_of t) - 1) * day_us"
proof -
  let ?n = "day_of t"
  let ?y = "year_of_day ?n"
  let ?m = "month_of_day ?n"
  have n: "1 \<le> ?n" using assms by (simp add: day_of_def day_us_def epoch_day_def)
  then have m: "1 \<le> ?m" "?m \<le> 12" using month_of_day_bounds by auto
  have december: "days_before_year (?y + 1) = days_before_year ?y + days_before_month ?y 13"
    using sum_month_lengths [of ?y] by (simp add: days_before_month_def month_lengths_def)
  show ?thesis
    using days_before_next_month [OF m, of ?y] december
    by (cases "?m = 12")
      (simp_all add: next_month_start_def month_start_def Let_def ymd2ord_def algebra_simps
        days_before_month_def [of _ "Suc 0"])
qed

text \<open>
  The month a spend limit counts. For every moment from year 1 on, the window of the
  monthly limit starts at or before it, ends after it, and is as long as the calendar month the
  moment lies in, leap years included: no reservation of the current month is missed.
\<close>

theorem month_window:
  assumes "- (719162 * day_us) \<le> t"
  shows "month_start t \<le> t \<and> t < next_month_start t \<and>
    next_month_start t - month_start t =
      month_lengths (year_of_day (day_of t)) ! (month_of_day (day_of t) - 1) * day_us"
  using month_contains [OF assms] month_length [OF assms] by blast

text \<open>29 February 2024, 12:00 UTC.\<close>

theorem month_window_example:
  "month_start 1709208000000000 \<le> 1709208000000000 \<and>
   1709208000000000 < next_month_start 1709208000000000 \<and>
   next_month_start 1709208000000000 - month_start 1709208000000000 =
     month_lengths (year_of_day (day_of 1709208000000000)) !
       (month_of_day (day_of 1709208000000000) - 1) * day_us"
  by (rule month_window) (simp add: day_us_def)

end
