(* ===== verification/Entities.thy ===== *)
theory Entities
  imports Prelude TaskState
begin

text \<open>
  The database rows of \<^verbatim>\<open>models/entities.py\<close>: one record per table class, with the columns in
  the order the class declares them, and \<open>blank_<class>\<close>, the row of the declared defaults
  (columns without a default are given when a row is made). Fields carry a prefix because
  the classes share column names. A datetime is the number of microseconds since the epoch,
  in UTC; the naive datetimes SQLite hands back are read as UTC by the code
  (\<^verbatim>\<open>replace(tzinfo=timezone.utc)\<close>), so the conversion is the identity here. JSON columns
  hold \<open>json\<close> values.
\<close>

section \<open>Enumerations\<close>

datatype planner_run_status =
    PR_DRAFTED
  | PR_APPROVED
  | PR_REJECTED

fun planner_run_status_value :: "planner_run_status \<Rightarrow> string" where
    "planner_run_status_value PR_DRAFTED = ''DRAFTED''"
  | "planner_run_status_value PR_APPROVED = ''APPROVED''"
  | "planner_run_status_value PR_REJECTED = ''REJECTED''"

datatype approval_status =
    AP_APPROVED
  | AP_REJECTED

fun approval_status_value :: "approval_status \<Rightarrow> string" where
    "approval_status_value AP_APPROVED = ''approved''"
  | "approval_status_value AP_REJECTED = ''rejected''"

datatype model_provider_type =
    MT_FAKE
  | MT_OPENAI_COMPATIBLE
  | MT_DEEPSEEK

fun model_provider_type_value :: "model_provider_type \<Rightarrow> string" where
    "model_provider_type_value MT_FAKE = ''fake''"
  | "model_provider_type_value MT_OPENAI_COMPATIBLE = ''openai_compatible''"
  | "model_provider_type_value MT_DEEPSEEK = ''deepseek''"

datatype model_provider_status =
    MP_ACTIVE
  | MP_DISABLED

fun model_provider_status_value :: "model_provider_status \<Rightarrow> string" where
    "model_provider_status_value MP_ACTIVE = ''active''"
  | "model_provider_status_value MP_DISABLED = ''disabled''"

datatype model_credential_status =
    MC_ACTIVE
  | MC_DELETED

fun model_credential_status_value :: "model_credential_status \<Rightarrow> string" where
    "model_credential_status_value MC_ACTIVE = ''active''"
  | "model_credential_status_value MC_DELETED = ''deleted''"

datatype github_credential_status =
    GC_ACTIVE
  | GC_DELETED

fun github_credential_status_value :: "github_credential_status \<Rightarrow> string" where
    "github_credential_status_value GC_ACTIVE = ''active''"
  | "github_credential_status_value GC_DELETED = ''deleted''"

datatype model_route_status =
    MR_ACTIVE
  | MR_DISABLED

fun model_route_status_value :: "model_route_status \<Rightarrow> string" where
    "model_route_status_value MR_ACTIVE = ''active''"
  | "model_route_status_value MR_DISABLED = ''disabled''"

datatype usage_type =
    UT_MODEL_TOKENS
  | UT_CLOUD_RUN_RUNTIME_SECONDS
  | UT_WORKER_SUBMISSIONS
  | UT_OBJECT_STORAGE_BYTES
  | UT_OBJECT_STORAGE_READS
  | UT_LOG_SYNC_CALLS
  | UT_QUEUE_MESSAGES
  | UT_PR_PUBLISH_ATTEMPTS

fun usage_type_value :: "usage_type \<Rightarrow> string" where
    "usage_type_value UT_MODEL_TOKENS = ''model_tokens''"
  | "usage_type_value UT_CLOUD_RUN_RUNTIME_SECONDS = ''cloud_run_runtime_seconds''"
  | "usage_type_value UT_WORKER_SUBMISSIONS = ''worker_submissions''"
  | "usage_type_value UT_OBJECT_STORAGE_BYTES = ''object_storage_bytes''"
  | "usage_type_value UT_OBJECT_STORAGE_READS = ''object_storage_reads''"
  | "usage_type_value UT_LOG_SYNC_CALLS = ''log_sync_calls''"
  | "usage_type_value UT_QUEUE_MESSAGES = ''queue_messages''"
  | "usage_type_value UT_PR_PUBLISH_ATTEMPTS = ''pr_publish_attempts''"

datatype budget_reservation_status =
    BR_RESERVED
  | BR_RELEASED
  | BR_SETTLED

fun budget_reservation_status_value :: "budget_reservation_status \<Rightarrow> string" where
    "budget_reservation_status_value BR_RESERVED = ''reserved''"
  | "budget_reservation_status_value BR_RELEASED = ''released''"
  | "budget_reservation_status_value BR_SETTLED = ''settled''"

datatype workspace_audit_access_level =
    AL_HIGH_VALUE_WRITE
  | AL_HIGH_SENSITIVE_READ
  | AL_SYSTEM_EVENT

fun workspace_audit_access_level_value :: "workspace_audit_access_level \<Rightarrow> string" where
    "workspace_audit_access_level_value AL_HIGH_VALUE_WRITE = ''high_value_write''"
  | "workspace_audit_access_level_value AL_HIGH_SENSITIVE_READ = ''high_sensitive_read''"
  | "workspace_audit_access_level_value AL_SYSTEM_EVENT = ''system_event''"

datatype workspace_role =
    OWNER
  | ADMIN
  | DEVELOPER
  | REVIEWER
  | BILLING_MANAGER
  | VIEWER

fun workspace_role_value :: "workspace_role \<Rightarrow> string" where
    "workspace_role_value OWNER = ''owner''"
  | "workspace_role_value ADMIN = ''admin''"
  | "workspace_role_value DEVELOPER = ''developer''"
  | "workspace_role_value REVIEWER = ''reviewer''"
  | "workspace_role_value BILLING_MANAGER = ''billing_manager''"
  | "workspace_role_value VIEWER = ''viewer''"

datatype account_kind =
    AK_LEGACY
  | AK_PERSONAL

fun account_kind_value :: "account_kind \<Rightarrow> string" where
    "account_kind_value AK_LEGACY = ''legacy''"
  | "account_kind_value AK_PERSONAL = ''personal''"

section \<open>Rows\<close>

record project =
  pj_id :: "string"
  pj_workspace_id :: "string"
  pj_name :: "string"
  pj_description :: "string"
  pj_created_by :: "string"
  pj_created_at :: "int"

definition blank_project :: project where
  "blank_project = \<lparr>
     pj_id = [],
     pj_workspace_id = ''dev_workspace'',
     pj_name = [],
     pj_description = [],
     pj_created_by = ''dev_user'',
     pj_created_at = 0\<rparr>"

record conversation =
  cv_id :: "string"
  cv_project_id :: "string"
  cv_user_id :: "string"
  cv_title :: "string"
  cv_conversation_type :: "string"
  cv_created_at :: "int"

definition blank_conversation :: conversation where
  "blank_conversation = \<lparr>
     cv_id = [],
     cv_project_id = [],
     cv_user_id = ''dev_user'',
     cv_title = [],
     cv_conversation_type = ''planning'',
     cv_created_at = 0\<rparr>"

record user_account =
  us_id :: "string"
  us_email :: "string option"
  us_display_name :: "string"
  us_status :: "string"
  us_created_at :: "int"
  us_updated_at :: "int"

definition blank_user_account :: user_account where
  "blank_user_account = \<lparr>
     us_id = [],
     us_email = None,
     us_display_name = [],
     us_status = ''active'',
     us_created_at = 0,
     us_updated_at = 0\<rparr>"

record organization =
  og_id :: "string"
  og_name :: "string"
  og_account_kind :: "account_kind"
  og_personal_owner_user_id :: "string option"
  og_status :: "string"
  og_created_at :: "int"
  og_updated_at :: "int"

definition blank_organization :: organization where
  "blank_organization = \<lparr>
     og_id = [],
     og_name = [],
     og_account_kind = AK_LEGACY,
     og_personal_owner_user_id = None,
     og_status = ''active'',
     og_created_at = 0,
     og_updated_at = 0\<rparr>"

record workspace =
  ws_id :: "string"
  ws_organization_id :: "string"
  ws_name :: "string"
  ws_status :: "string"
  ws_created_at :: "int"
  ws_updated_at :: "int"

definition blank_workspace :: workspace where
  "blank_workspace = \<lparr>
     ws_id = [],
     ws_organization_id = [],
     ws_name = [],
     ws_status = ''active'',
     ws_created_at = 0,
     ws_updated_at = 0\<rparr>"

record organization_member =
  om_id :: "string"
  om_organization_id :: "string"
  om_workspace_id :: "string"
  om_user_id :: "string"
  om_role :: "workspace_role"
  om_api_token_hash :: "string option"
  om_status :: "string"
  om_created_at :: "int"
  om_updated_at :: "int"

definition blank_organization_member :: organization_member where
  "blank_organization_member = \<lparr>
     om_id = [],
     om_organization_id = [],
     om_workspace_id = [],
     om_user_id = [],
     om_role = DEVELOPER,
     om_api_token_hash = None,
     om_status = ''active'',
     om_created_at = 0,
     om_updated_at = 0\<rparr>"

record external_identity =
  xi_id :: "string"
  xi_issuer :: "string"
  xi_subject :: "string"
  xi_user_id :: "string"
  xi_email :: "string option"
  xi_status :: "string"
  xi_last_confirmed_status :: "string"
  xi_last_confirmed_at :: "int"
  xi_last_status_checked_at :: "int"
  xi_status_check_token :: "string option"
  xi_account_link_correlation_id :: "string option"
  xi_created_at :: "int"
  xi_updated_at :: "int"

definition blank_external_identity :: external_identity where
  "blank_external_identity = \<lparr>
     xi_id = [],
     xi_issuer = [],
     xi_subject = [],
     xi_user_id = [],
     xi_email = None,
     xi_status = ''active'',
     xi_last_confirmed_status = ''active'',
     xi_last_confirmed_at = 0,
     xi_last_status_checked_at = 0,
     xi_status_check_token = None,
     xi_account_link_correlation_id = None,
     xi_created_at = 0,
     xi_updated_at = 0\<rparr>"

record account_link_recovery =
  ar_id :: "string"
  ar_issuer :: "string"
  ar_subject :: "string"
  ar_verified_email :: "string"
  ar_correlation_id :: "string"
  ar_status :: "string"
  ar_target_user_id :: "string option"
  ar_created_at :: "int"
  ar_completed_at :: "int option"

definition blank_account_link_recovery :: account_link_recovery where
  "blank_account_link_recovery = \<lparr>
     ar_id = [],
     ar_issuer = [],
     ar_subject = [],
     ar_verified_email = [],
     ar_correlation_id = [],
     ar_status = ''pending'',
     ar_target_user_id = None,
     ar_created_at = 0,
     ar_completed_at = None\<rparr>"

record device_session =
  ds_id :: "string"
  ds_user_id :: "string"
  ds_active_workspace_id :: "string"
  ds_active_organization_id :: "string"
  ds_secret_hash :: "string"
  ds_previous_secret_hash :: "string option"
  ds_previous_secret_valid_until :: "int option"
  ds_secret_rotated_at :: "int"
  ds_recent_authenticated_at :: "int option"
  ds_device_description :: "string"
  ds_status :: "string"
  ds_idle_expires_at :: "int"
  ds_last_seen_at :: "int"
  ds_created_at :: "int"
  ds_updated_at :: "int"
  ds_revoked_at :: "int option"

definition blank_device_session :: device_session where
  "blank_device_session = \<lparr>
     ds_id = [],
     ds_user_id = [],
     ds_active_workspace_id = [],
     ds_active_organization_id = [],
     ds_secret_hash = [],
     ds_previous_secret_hash = None,
     ds_previous_secret_valid_until = None,
     ds_secret_rotated_at = 0,
     ds_recent_authenticated_at = None,
     ds_device_description = ''Unknown browser on Unknown device'',
     ds_status = ''active'',
     ds_idle_expires_at = 0,
     ds_last_seen_at = 0,
     ds_created_at = 0,
     ds_updated_at = 0,
     ds_revoked_at = None\<rparr>"

record login_transaction =
  lt_id :: "string"
  lt_state_hash :: "string"
  lt_nonce_hash :: "string"
  lt_pkce_verifier :: "string"
  lt_return_to :: "string"
  lt_browser_binding_hash :: "string"
  lt_redirect_uri :: "string"
  lt_correlation_id :: "string"
  lt_purpose :: "string"
  lt_requested_session_id :: "string option"
  lt_status :: "string"
  lt_completed_session_id :: "string option"
  lt_expires_at :: "int"
  lt_created_at :: "int"
  lt_completed_at :: "int option"

definition blank_login_transaction :: login_transaction where
  "blank_login_transaction = \<lparr>
     lt_id = [],
     lt_state_hash = [],
     lt_nonce_hash = [],
     lt_pkce_verifier = [],
     lt_return_to = [],
     lt_browser_binding_hash = [],
     lt_redirect_uri = [],
     lt_correlation_id = [],
     lt_purpose = ''login'',
     lt_requested_session_id = None,
     lt_status = ''pending'',
     lt_completed_session_id = None,
     lt_expires_at = 0,
     lt_created_at = 0,
     lt_completed_at = None\<rparr>"

record provider_logout_continuation =
  plc_id :: "string"
  plc_device_session_id :: "string"
  plc_sealed_provider_hint :: "string option"
  plc_status :: "string"
  plc_correlation_id :: "string option"
  plc_browser_secret_hash :: "string option"
  plc_browser_secret_expires_at :: "int option"
  plc_consumed_at :: "int option"
  plc_created_at :: "int"
  plc_updated_at :: "int"

definition blank_provider_logout_continuation :: provider_logout_continuation where
  "blank_provider_logout_continuation = \<lparr>
     plc_id = [],
     plc_device_session_id = [],
     plc_sealed_provider_hint = None,
     plc_status = ''available'',
     plc_correlation_id = None,
     plc_browser_secret_hash = None,
     plc_browser_secret_expires_at = None,
     plc_consumed_at = None,
     plc_created_at = 0,
     plc_updated_at = 0\<rparr>"

record identity_audit_event =
  ie_id :: "string"
  ie_event_type :: "string"
  ie_outcome :: "string"
  ie_reason_code :: "string"
  ie_request_id :: "string option"
  ie_correlation_id :: "string"
  ie_related_correlation_id :: "string option"
  ie_actor_user_id :: "string option"
  ie_operator_reason :: "string option"
  ie_user_id :: "string option"
  ie_external_identity_id :: "string option"
  ie_device_session_id :: "string option"
  ie_client_ip_address :: "string option"
  ie_user_agent :: "string option"
  ie_created_at :: "int"

definition blank_identity_audit_event :: identity_audit_event where
  "blank_identity_audit_event = \<lparr>
     ie_id = [],
     ie_event_type = [],
     ie_outcome = [],
     ie_reason_code = [],
     ie_request_id = None,
     ie_correlation_id = [],
     ie_related_correlation_id = None,
     ie_actor_user_id = None,
     ie_operator_reason = None,
     ie_user_id = None,
     ie_external_identity_id = None,
     ie_device_session_id = None,
     ie_client_ip_address = None,
     ie_user_agent = None,
     ie_created_at = 0\<rparr>"

record audit_retention_state =
  art_id :: "string"
  art_last_completed_at :: "int option"
  art_claim_token :: "string option"
  art_claimed_at :: "int option"

definition blank_audit_retention_state :: audit_retention_state where
  "blank_audit_retention_state = \<lparr>
     art_id = ''default'',
     art_last_completed_at = None,
     art_claim_token = None,
     art_claimed_at = None\<rparr>"

record repository =
  rp_id :: "string"
  rp_workspace_id :: "string"
  rp_project_id :: "string"
  rp_name :: "string"
  rp_local_path :: "string"
  rp_default_branch :: "string"
  rp_provider :: "string"
  rp_repo_url :: "string"
  rp_github_owner :: "string option"
  rp_github_repo :: "string option"
  rp_github_credential_id :: "string option"
  rp_connection_status :: "string"
  rp_status :: "string"
  rp_created_at :: "int"
  rp_updated_at :: "int"

definition blank_repository :: repository where
  "blank_repository = \<lparr>
     rp_id = [],
     rp_workspace_id = ''dev_workspace'',
     rp_project_id = [],
     rp_name = [],
     rp_local_path = [],
     rp_default_branch = ''main'',
     rp_provider = ''local'',
     rp_repo_url = [],
     rp_github_owner = None,
     rp_github_repo = None,
     rp_github_credential_id = None,
     rp_connection_status = ''active'',
     rp_status = ''active'',
     rp_created_at = 0,
     rp_updated_at = 0\<rparr>"

record planner_run =
  pr_id :: "string"
  pr_project_id :: "string"
  pr_conversation_id :: "string option"
  pr_goal :: "string"
  pr_status :: "planner_run_status"
  pr_planner_kind :: "string"
  pr_model_route_id :: "string option"
  pr_model_provider_name :: "string option"
  pr_model_name :: "string option"
  pr_fallback_reason :: "string option"
  pr_draft_count :: "int"
  pr_created_by :: "string"
  pr_created_at :: "int"
  pr_updated_at :: "int"

definition blank_planner_run :: planner_run where
  "blank_planner_run = \<lparr>
     pr_id = [],
     pr_project_id = [],
     pr_conversation_id = None,
     pr_goal = [],
     pr_status = PR_DRAFTED,
     pr_planner_kind = ''fake'',
     pr_model_route_id = None,
     pr_model_provider_name = None,
     pr_model_name = None,
     pr_fallback_reason = None,
     pr_draft_count = 0,
     pr_created_by = ''dev_user'',
     pr_created_at = 0,
     pr_updated_at = 0\<rparr>"

record planner_task_draft =
  pd_id :: "string"
  pd_planner_run_id :: "string"
  pd_sequence :: "int"
  pd_title :: "string"
  pd_role_required :: "string"
  pd_objective :: "string"
  pd_acceptance_criteria :: "string list"
  pd_allowed_paths :: "string list"
  pd_required_tests :: "string list"
  pd_risk_level :: "string"
  pd_created_at :: "int"

definition blank_planner_task_draft :: planner_task_draft where
  "blank_planner_task_draft = \<lparr>
     pd_id = [],
     pd_planner_run_id = [],
     pd_sequence = 0,
     pd_title = [],
     pd_role_required = [],
     pd_objective = [],
     pd_acceptance_criteria = [],
     pd_allowed_paths = [],
     pd_required_tests = [],
     pd_risk_level = ''medium'',
     pd_created_at = 0\<rparr>"

record approval =
  ap_id :: "string"
  ap_workspace_id :: "string"
  ap_project_id :: "string"
  ap_planner_run_id :: "string"
  ap_action_type :: "string"
  ap_risk_level :: "string"
  ap_reason :: "string"
  ap_status :: "approval_status"
  ap_decided_by :: "string option"
  ap_decided_at :: "int option"
  ap_created_at :: "int"

definition blank_approval :: approval where
  "blank_approval = \<lparr>
     ap_id = [],
     ap_workspace_id = ''dev_workspace'',
     ap_project_id = [],
     ap_planner_run_id = [],
     ap_action_type = ''approve_planner_run'',
     ap_risk_level = ''medium'',
     ap_reason = [],
     ap_status = AP_APPROVED,
     ap_decided_by = None,
     ap_decided_at = None,
     ap_created_at = 0\<rparr>"

record model_provider =
  mp_id :: "string"
  mp_workspace_id :: "string"
  mp_name :: "string"
  mp_provider_type :: "model_provider_type"
  mp_base_url :: "string option"
  mp_default_headers :: "json"
  mp_status :: "model_provider_status"
  mp_created_at :: "int"
  mp_updated_at :: "int"

definition blank_model_provider :: model_provider where
  "blank_model_provider = \<lparr>
     mp_id = [],
     mp_workspace_id = ''dev_workspace'',
     mp_name = [],
     mp_provider_type = MT_FAKE,
     mp_base_url = None,
     mp_default_headers = JObj [],
     mp_status = MP_ACTIVE,
     mp_created_at = 0,
     mp_updated_at = 0\<rparr>"

record model_credential =
  mc_id :: "string"
  mc_workspace_id :: "string"
  mc_provider_id :: "string"
  mc_display_name :: "string"
  mc_secret_last4 :: "string"
  mc_encrypted_secret :: "string"
  mc_status :: "model_credential_status"
  mc_created_at :: "int"
  mc_updated_at :: "int"

definition blank_model_credential :: model_credential where
  "blank_model_credential = \<lparr>
     mc_id = [],
     mc_workspace_id = ''dev_workspace'',
     mc_provider_id = [],
     mc_display_name = [],
     mc_secret_last4 = [],
     mc_encrypted_secret = [],
     mc_status = MC_ACTIVE,
     mc_created_at = 0,
     mc_updated_at = 0\<rparr>"

record github_credential =
  gc_id :: "string"
  gc_workspace_id :: "string"
  gc_display_name :: "string"
  gc_token_last4 :: "string"
  gc_encrypted_token :: "string"
  gc_status :: "github_credential_status"
  gc_created_at :: "int"
  gc_updated_at :: "int"

definition blank_github_credential :: github_credential where
  "blank_github_credential = \<lparr>
     gc_id = [],
     gc_workspace_id = ''dev_workspace'',
     gc_display_name = [],
     gc_token_last4 = [],
     gc_encrypted_token = [],
     gc_status = GC_ACTIVE,
     gc_created_at = 0,
     gc_updated_at = 0\<rparr>"

record sandbox_profile =
  sp_id :: "string"
  sp_workspace_id :: "string"
  sp_project_id :: "string"
  sp_repo_id :: "string"
  sp_name :: "string"
  sp_docker_image :: "string"
  sp_patch_commands :: "json list"
  sp_test_commands :: "json list"
  sp_allowed_env_vars :: "string list"
  sp_network_enabled :: "bool"
  sp_status :: "string"
  sp_created_at :: "int"
  sp_updated_at :: "int"

definition blank_sandbox_profile :: sandbox_profile where
  "blank_sandbox_profile = \<lparr>
     sp_id = [],
     sp_workspace_id = ''dev_workspace'',
     sp_project_id = [],
     sp_repo_id = [],
     sp_name = [],
     sp_docker_image = [],
     sp_patch_commands = [],
     sp_test_commands = [],
     sp_allowed_env_vars = [],
     sp_network_enabled = True,
     sp_status = ''active'',
     sp_created_at = 0,
     sp_updated_at = 0\<rparr>"

record model_route =
  mr_id :: "string"
  mr_workspace_id :: "string"
  mr_agent_role :: "string"
  mr_provider_id :: "string"
  mr_credential_id :: "string option"
  mr_model_name :: "string"
  mr_fallback_models :: "string list"
  mr_status :: "model_route_status"
  mr_created_at :: "int"
  mr_updated_at :: "int"

definition blank_model_route :: model_route where
  "blank_model_route = \<lparr>
     mr_id = [],
     mr_workspace_id = ''dev_workspace'',
     mr_agent_role = [],
     mr_provider_id = [],
     mr_credential_id = None,
     mr_model_name = [],
     mr_fallback_models = [],
     mr_status = MR_ACTIVE,
     mr_created_at = 0,
     mr_updated_at = 0\<rparr>"

record usage_ledger_entry =
  ul_id :: "string"
  ul_workspace_id :: "string"
  ul_organization_id :: "string"
  ul_user_id :: "string"
  ul_project_id :: "string option"
  ul_task_id :: "string option"
  ul_cloud_run_id :: "string option"
  ul_planner_run_id :: "string option"
  ul_usage_type :: "usage_type"
  ul_provider_name :: "string"
  ul_model_name :: "string"
  ul_prompt_tokens :: "int"
  ul_completion_tokens :: "int"
  ul_total_tokens :: "int"
  ul_quantity :: "int"
  ul_unit_name :: "string"
  ul_unit_price_cents :: "int"
  ul_amount_cents :: "int"
  ul_raw_usage_json :: "json"
  ul_created_at :: "int"

definition blank_usage_ledger_entry :: usage_ledger_entry where
  "blank_usage_ledger_entry = \<lparr>
     ul_id = [],
     ul_workspace_id = ''dev_workspace'',
     ul_organization_id = ''dev_organization'',
     ul_user_id = ''dev_user'',
     ul_project_id = None,
     ul_task_id = None,
     ul_cloud_run_id = None,
     ul_planner_run_id = None,
     ul_usage_type = UT_MODEL_TOKENS,
     ul_provider_name = [],
     ul_model_name = [],
     ul_prompt_tokens = 0,
     ul_completion_tokens = 0,
     ul_total_tokens = 0,
     ul_quantity = 0,
     ul_unit_name = [],
     ul_unit_price_cents = 0,
     ul_amount_cents = 0,
     ul_raw_usage_json = JObj [],
     ul_created_at = 0\<rparr>"

record secret_access_audit_log =
  sx_id :: "string"
  sx_workspace_id :: "string"
  sx_organization_id :: "string"
  sx_user_id :: "string"
  sx_auth_mode :: "string"
  sx_request_id :: "string option"
  sx_correlation_id :: "string option"
  sx_secret_kind :: "string"
  sx_secret_id :: "string"
  sx_operation :: "string"
  sx_access_reason :: "string"
  sx_success :: "bool"
  sx_created_at :: "int"

definition blank_secret_access_audit_log :: secret_access_audit_log where
  "blank_secret_access_audit_log = \<lparr>
     sx_id = [],
     sx_workspace_id = ''dev_workspace'',
     sx_organization_id = ''dev_organization'',
     sx_user_id = ''dev_user'',
     sx_auth_mode = ''system'',
     sx_request_id = None,
     sx_correlation_id = None,
     sx_secret_kind = [],
     sx_secret_id = [],
     sx_operation = ''open'',
     sx_access_reason = [],
     sx_success = True,
     sx_created_at = 0\<rparr>"

record workspace_audit_log =
  wa_id :: "string"
  wa_workspace_id :: "string"
  wa_organization_id :: "string"
  wa_user_id :: "string"
  wa_auth_mode :: "string"
  wa_request_id :: "string option"
  wa_correlation_id :: "string option"
  wa_operation :: "string"
  wa_resource_type :: "string"
  wa_resource_id :: "string option"
  wa_access_level :: "workspace_audit_access_level"
  wa_success :: "bool"
  wa_status_code :: "int"
  wa_error_code :: "string option"
  wa_metadata_json :: "json"
  wa_created_at :: "int"

definition blank_workspace_audit_log :: workspace_audit_log where
  "blank_workspace_audit_log = \<lparr>
     wa_id = [],
     wa_workspace_id = ''dev_workspace'',
     wa_organization_id = ''dev_organization'',
     wa_user_id = ''dev_user'',
     wa_auth_mode = ''system'',
     wa_request_id = None,
     wa_correlation_id = None,
     wa_operation = [],
     wa_resource_type = [],
     wa_resource_id = None,
     wa_access_level = AL_HIGH_VALUE_WRITE,
     wa_success = True,
     wa_status_code = 200,
     wa_error_code = None,
     wa_metadata_json = JObj [],
     wa_created_at = 0\<rparr>"

record credit_wallet =
  wl_id :: "string"
  wl_workspace_id :: "string"
  wl_organization_id :: "string"
  wl_balance_cents :: "int"
  wl_created_at :: "int"
  wl_updated_at :: "int"

definition blank_credit_wallet :: credit_wallet where
  "blank_credit_wallet = \<lparr>
     wl_id = [],
     wl_workspace_id = ''dev_workspace'',
     wl_organization_id = ''dev_organization'',
     wl_balance_cents = 0,
     wl_created_at = 0,
     wl_updated_at = 0\<rparr>"

record spend_limit =
  sl_id :: "string"
  sl_workspace_id :: "string"
  sl_monthly_limit_cents :: "int"
  sl_per_run_limit_cents :: "int"
  sl_status :: "string"
  sl_created_at :: "int"
  sl_updated_at :: "int"

definition blank_spend_limit :: spend_limit where
  "blank_spend_limit = \<lparr>
     sl_id = [],
     sl_workspace_id = ''dev_workspace'',
     sl_monthly_limit_cents = 0,
     sl_per_run_limit_cents = 0,
     sl_status = ''active'',
     sl_created_at = 0,
     sl_updated_at = 0\<rparr>"

record budget_reservation =
  rs_id :: "string"
  rs_workspace_id :: "string"
  rs_organization_id :: "string"
  rs_project_id :: "string"
  rs_task_id :: "string"
  rs_cloud_run_id :: "string option"
  rs_reserved_cents :: "int"
  rs_settled_cents :: "int"
  rs_status :: "budget_reservation_status"
  rs_created_at :: "int"
  rs_updated_at :: "int"
  rs_settled_at :: "int option"

definition blank_budget_reservation :: budget_reservation where
  "blank_budget_reservation = \<lparr>
     rs_id = [],
     rs_workspace_id = ''dev_workspace'',
     rs_organization_id = ''dev_organization'',
     rs_project_id = [],
     rs_task_id = [],
     rs_cloud_run_id = None,
     rs_reserved_cents = 0,
     rs_settled_cents = 0,
     rs_status = BR_RESERVED,
     rs_created_at = 0,
     rs_updated_at = 0,
     rs_settled_at = None\<rparr>"

record task =
  tk_id :: "string"
  tk_project_id :: "string"
  tk_conversation_id :: "string option"
  tk_parent_task_id :: "string option"
  tk_title :: "string"
  tk_description :: "string"
  tk_role_required :: "string"
  tk_status :: "task_status"
  tk_priority :: "int"
  tk_risk_level :: "string"
  tk_acceptance_criteria :: "string list"
  tk_allowed_paths :: "string list"
  tk_required_tests :: "string list"
  tk_assigned_agent_profile_id :: "string option"
  tk_repo_id :: "string option"
  tk_branch_name :: "string option"
  tk_worktree_ref :: "string option"
  tk_budget_limit :: "int option"
  tk_created_at :: "int"
  tk_updated_at :: "int"

definition blank_task :: task where
  "blank_task = \<lparr>
     tk_id = [],
     tk_project_id = [],
     tk_conversation_id = None,
     tk_parent_task_id = None,
     tk_title = [],
     tk_description = [],
     tk_role_required = [],
     tk_status = CREATED,
     tk_priority = 0,
     tk_risk_level = ''medium'',
     tk_acceptance_criteria = [],
     tk_allowed_paths = [],
     tk_required_tests = [],
     tk_assigned_agent_profile_id = None,
     tk_repo_id = None,
     tk_branch_name = None,
     tk_worktree_ref = None,
     tk_budget_limit = None,
     tk_created_at = 0,
     tk_updated_at = 0\<rparr>"

record local_task_run =
  lr_id :: "string"
  lr_workspace_id :: "string"
  lr_project_id :: "string"
  lr_task_id :: "string"
  lr_repo_id :: "string"
  lr_status :: "string"
  lr_runner_kind :: "string"
  lr_base_branch :: "string"
  lr_base_sha :: "string option"
  lr_head_sha :: "string option"
  lr_worktree_path :: "string option"
  lr_patch_artifact_id :: "string option"
  lr_failure_reason :: "string option"
  lr_created_at :: "int"
  lr_updated_at :: "int"

definition blank_local_task_run :: local_task_run where
  "blank_local_task_run = \<lparr>
     lr_id = [],
     lr_workspace_id = ''dev_workspace'',
     lr_project_id = [],
     lr_task_id = [],
     lr_repo_id = [],
     lr_status = ''queued'',
     lr_runner_kind = ''local_worktree'',
     lr_base_branch = [],
     lr_base_sha = None,
     lr_head_sha = None,
     lr_worktree_path = None,
     lr_patch_artifact_id = None,
     lr_failure_reason = None,
     lr_created_at = 0,
     lr_updated_at = 0\<rparr>"

record cloud_run =
  cr_id :: "string"
  cr_workspace_id :: "string"
  cr_project_id :: "string"
  cr_task_id :: "string"
  cr_repo_id :: "string"
  cr_local_run_id :: "string option"
  cr_sandbox_profile_id :: "string option"
  cr_patch_command_key :: "string option"
  cr_test_command_keys :: "string list"
  cr_command_results :: "json list"
  cr_base_branch :: "string"
  cr_head_branch :: "string"
  cr_status :: "string"
  cr_sandbox_kind :: "string"
  cr_patch_artifact_id :: "string option"
  cr_failure_reason :: "string option"
  cr_cancel_requested :: "bool"
  cr_cancel_requested_at :: "int option"
  cr_cancelled_at :: "int option"
  cr_worker_id :: "string option"
  cr_claimed_at :: "int option"
  cr_completed_at :: "int option"
  cr_queue_provider :: "string"
  cr_remote_worker_kind :: "string option"
  cr_lease_id :: "string option"
  cr_lease_expires_at :: "int option"
  cr_heartbeat_at :: "int option"
  cr_attempt_count :: "int"
  cr_max_attempts :: "int"
  cr_last_queue_error :: "string option"
  cr_queue_message_id :: "string option"
  cr_queue_receipt :: "string option"
  cr_runtime_provider :: "string option"
  cr_runtime_job_id :: "string option"
  cr_storage_provider :: "string option"
  cr_artifact_manifest_uri :: "string option"
  cr_log_stream_uri :: "string option"
  cr_artifact_manifest_sha256 :: "string option"
  cr_artifact_manifest_size_bytes :: "int option"
  cr_artifact_manifest_content_type :: "string option"
  cr_log_stream_sha256 :: "string option"
  cr_log_stream_size_bytes :: "int option"
  cr_log_stream_content_type :: "string option"
  cr_external_status :: "string option"
  cr_external_error :: "string option"
  cr_callback_token_hash :: "string option"
  cr_callback_token_expires_at :: "int option"
  cr_callback_token_used_at :: "int option"
  cr_budget_reservation_id :: "string option"
  cr_estimated_cost_cents :: "int"
  cr_actual_cost_cents :: "int"
  cr_cost_summary_json :: "json"
  cr_created_at :: "int"
  cr_updated_at :: "int"

definition blank_cloud_run :: cloud_run where
  "blank_cloud_run = \<lparr>
     cr_id = [],
     cr_workspace_id = ''dev_workspace'',
     cr_project_id = [],
     cr_task_id = [],
     cr_repo_id = [],
     cr_local_run_id = None,
     cr_sandbox_profile_id = None,
     cr_patch_command_key = None,
     cr_test_command_keys = [],
     cr_command_results = [],
     cr_base_branch = [],
     cr_head_branch = [],
     cr_status = ''queued'',
     cr_sandbox_kind = ''fake'',
     cr_patch_artifact_id = None,
     cr_failure_reason = None,
     cr_cancel_requested = False,
     cr_cancel_requested_at = None,
     cr_cancelled_at = None,
     cr_worker_id = None,
     cr_claimed_at = None,
     cr_completed_at = None,
     cr_queue_provider = ''local_db'',
     cr_remote_worker_kind = None,
     cr_lease_id = None,
     cr_lease_expires_at = None,
     cr_heartbeat_at = None,
     cr_attempt_count = 0,
     cr_max_attempts = 3,
     cr_last_queue_error = None,
     cr_queue_message_id = None,
     cr_queue_receipt = None,
     cr_runtime_provider = None,
     cr_runtime_job_id = None,
     cr_storage_provider = None,
     cr_artifact_manifest_uri = None,
     cr_log_stream_uri = None,
     cr_artifact_manifest_sha256 = None,
     cr_artifact_manifest_size_bytes = None,
     cr_artifact_manifest_content_type = None,
     cr_log_stream_sha256 = None,
     cr_log_stream_size_bytes = None,
     cr_log_stream_content_type = None,
     cr_external_status = None,
     cr_external_error = None,
     cr_callback_token_hash = None,
     cr_callback_token_expires_at = None,
     cr_callback_token_used_at = None,
     cr_budget_reservation_id = None,
     cr_estimated_cost_cents = 0,
     cr_actual_cost_cents = 0,
     cr_cost_summary_json = JObj [],
     cr_created_at = 0,
     cr_updated_at = 0\<rparr>"

record cloud_run_log_entry =
  lg_id :: "string"
  lg_cloud_run_id :: "string"
  lg_workspace_id :: "string"
  lg_level :: "string"
  lg_event :: "string"
  lg_message :: "string"
  lg_payload :: "json option"
  lg_created_at :: "int"

definition blank_cloud_run_log_entry :: cloud_run_log_entry where
  "blank_cloud_run_log_entry = \<lparr>
     lg_id = [],
     lg_cloud_run_id = [],
     lg_workspace_id = [],
     lg_level = ''info'',
     lg_event = [],
     lg_message = [],
     lg_payload = None,
     lg_created_at = 0\<rparr>"

record cloud_run_stored_object =
  so_id :: "string"
  so_workspace_id :: "string"
  so_cloud_run_id :: "string"
  so_kind :: "string"
  so_uri :: "string"
  so_sha256 :: "string"
  so_size_bytes :: "int"
  so_content_type :: "string"
  so_text_content :: "string"
  so_expires_at :: "int option"
  so_retention_policy :: "string option"
  so_created_at :: "int"

definition blank_cloud_run_stored_object :: cloud_run_stored_object where
  "blank_cloud_run_stored_object = \<lparr>
     so_id = [],
     so_workspace_id = [],
     so_cloud_run_id = [],
     so_kind = [],
     so_uri = [],
     so_sha256 = [],
     so_size_bytes = 0,
     so_content_type = ''text/plain'',
     so_text_content = [],
     so_expires_at = None,
     so_retention_policy = None,
     so_created_at = 0\<rparr>"

record patch_artifact =
  pa_id :: "string"
  pa_workspace_id :: "string"
  pa_project_id :: "string"
  pa_task_id :: "string"
  pa_local_run_id :: "string"
  pa_summary :: "string"
  pa_files_changed :: "string list"
  pa_tests_run :: "string list"
  pa_test_result :: "string"
  pa_risks :: "string list"
  pa_diff_text :: "string"
  pa_created_at :: "int"

definition blank_patch_artifact :: patch_artifact where
  "blank_patch_artifact = \<lparr>
     pa_id = [],
     pa_workspace_id = ''dev_workspace'',
     pa_project_id = [],
     pa_task_id = [],
     pa_local_run_id = [],
     pa_summary = [],
     pa_files_changed = [],
     pa_tests_run = [],
     pa_test_result = ''not_run'',
     pa_risks = [],
     pa_diff_text = [],
     pa_created_at = 0\<rparr>"

record local_test_run =
  tr_id :: "string"
  tr_workspace_id :: "string"
  tr_project_id :: "string"
  tr_task_id :: "string"
  tr_local_run_id :: "string"
  tr_patch_artifact_id :: "string option"
  tr_status :: "string"
  tr_commands :: "string list"
  tr_command_results :: "json list"
  tr_failure_reason :: "string option"
  tr_started_at :: "int"
  tr_completed_at :: "int option"
  tr_created_at :: "int"

definition blank_local_test_run :: local_test_run where
  "blank_local_test_run = \<lparr>
     tr_id = [],
     tr_workspace_id = ''dev_workspace'',
     tr_project_id = [],
     tr_task_id = [],
     tr_local_run_id = [],
     tr_patch_artifact_id = None,
     tr_status = ''running'',
     tr_commands = [],
     tr_command_results = [],
     tr_failure_reason = None,
     tr_started_at = 0,
     tr_completed_at = None,
     tr_created_at = 0\<rparr>"

record patch_review =
  rv_id :: "string"
  rv_workspace_id :: "string"
  rv_project_id :: "string"
  rv_task_id :: "string"
  rv_local_run_id :: "string"
  rv_patch_artifact_id :: "string"
  rv_test_run_id :: "string option"
  rv_reviewer_kind :: "string"
  rv_verdict :: "string"
  rv_issues :: "json list"
  rv_required_changes :: "string list"
  rv_created_at :: "int"

definition blank_patch_review :: patch_review where
  "blank_patch_review = \<lparr>
     rv_id = [],
     rv_workspace_id = ''dev_workspace'',
     rv_project_id = [],
     rv_task_id = [],
     rv_local_run_id = [],
     rv_patch_artifact_id = [],
     rv_test_run_id = None,
     rv_reviewer_kind = ''deterministic'',
     rv_verdict = [],
     rv_issues = [],
     rv_required_changes = [],
     rv_created_at = 0\<rparr>"

record patch_approval =
  pp_id :: "string"
  pp_workspace_id :: "string"
  pp_project_id :: "string"
  pp_task_id :: "string"
  pp_local_run_id :: "string"
  pp_patch_artifact_id :: "string"
  pp_review_id :: "string"
  pp_status :: "string"
  pp_approved_by :: "string"
  pp_merge_instructions :: "string"
  pp_created_at :: "int"

definition blank_patch_approval :: patch_approval where
  "blank_patch_approval = \<lparr>
     pp_id = [],
     pp_workspace_id = ''dev_workspace'',
     pp_project_id = [],
     pp_task_id = [],
     pp_local_run_id = [],
     pp_patch_artifact_id = [],
     pp_review_id = [],
     pp_status = ''approved'',
     pp_approved_by = ''dev_user'',
     pp_merge_instructions = [],
     pp_created_at = 0\<rparr>"

record pull_request_record =
  pl_id :: "string"
  pl_workspace_id :: "string"
  pl_project_id :: "string"
  pl_task_id :: "string"
  pl_repo_id :: "string"
  pl_patch_artifact_id :: "string"
  pl_patch_approval_id :: "string"
  pl_cloud_run_id :: "string option"
  pl_head_branch :: "string"
  pl_base_branch :: "string"
  pl_github_pr_number :: "int"
  pl_github_pr_url :: "string"
  pl_status :: "string"
  pl_created_by :: "string"
  pl_created_at :: "int"

definition blank_pull_request_record :: pull_request_record where
  "blank_pull_request_record = \<lparr>
     pl_id = [],
     pl_workspace_id = ''dev_workspace'',
     pl_project_id = [],
     pl_task_id = [],
     pl_repo_id = [],
     pl_patch_artifact_id = [],
     pl_patch_approval_id = [],
     pl_cloud_run_id = None,
     pl_head_branch = [],
     pl_base_branch = [],
     pl_github_pr_number = 0,
     pl_github_pr_url = [],
     pl_status = ''created'',
     pl_created_by = ''dev_user'',
     pl_created_at = 0\<rparr>"

record debug_attempt =
  da_id :: "string"
  da_workspace_id :: "string"
  da_project_id :: "string"
  da_task_id :: "string"
  da_patch_artifact_id :: "string"
  da_review_id :: "string option"
  da_test_run_id :: "string option"
  da_status :: "string"
  da_root_cause :: "string"
  da_fix_summary :: "string"
  da_created_at :: "int"

definition blank_debug_attempt :: debug_attempt where
  "blank_debug_attempt = \<lparr>
     da_id = [],
     da_workspace_id = ''dev_workspace'',
     da_project_id = [],
     da_task_id = [],
     da_patch_artifact_id = [],
     da_review_id = None,
     da_test_run_id = None,
     da_status = ''requested'',
     da_root_cause = [],
     da_fix_summary = [],
     da_created_at = 0\<rparr>"

record task_event =
  te_id :: "string"
  te_task_id :: "string"
  te_event_type :: "string"
  te_actor_type :: "string"
  te_actor_id :: "string"
  te_payload :: "json"
  te_created_at :: "int"

definition blank_task_event :: task_event where
  "blank_task_event = \<lparr>
     te_id = [],
     te_task_id = [],
     te_event_type = [],
     te_actor_type = [],
     te_actor_id = [],
     te_payload = JObj [],
     te_created_at = 0\<rparr>"

end
