(* ===== verification/World.thy ===== *)
theory World
  imports Entities
begin

text \<open>
  The state a request runs in: the database as the session sees it, the database as last
  committed, and the environment (clock, random identifiers, the operating system's
  variables, the request's authentication context). Operations of the SQLModel session are
  actions on this state. \<open>commit\<close> and \<open>rollback\<close> end a transaction; between transactions other
  sessions may commit changes of their own, which the environment gives as \<open>e_others\<close>.
  Within a transaction the session is isolated, except that a guarded \<^verbatim>\<open>UPDATE ... WHERE\<close> that
  opens a transaction sees what others committed since (\<open>sync\<close>).
\<close>

section \<open>Exceptions\<close>

text \<open>
  \<^verbatim>\<open>HTTPException(status_code, detail)\<close> with the value of its \<^verbatim>\<open>X-Correlation-ID\<close> header, and the
  other exception classes the modelled code raises or catches.
\<close>

datatype exn =
    HTTPException int json "string option"
  | IntegrityError
  | InvalidRequestError
  | ValueError string
  | CloudQueueProviderError string
  | CloudQueueProviderNotFound string
  | ObjectStorageReadError string
  | ObjectStorageProviderNotFound string
  | RemoteRuntimeProviderNotFound string
  | RemoteRuntimeSubmissionError string
  | RemoteRuntimeLogSyncError string
  | AliyunConfigurationError string
  | SdkError
  | TypeError
  | AttributeError
  | AssertionError
  | SQLAlchemyError string
  | UserSessionCredentialRejected string "string option"
  | DeviceSessionRevocationOperationError
  | PersonalOnboardingInjectedFailure string
  | CustomerIdentityProviderUnavailable
  | CustomerIdentityProviderError
  | RuntimeError string

definition http :: "int \<Rightarrow> string \<Rightarrow> exn" where
  "http code detail = HTTPException code (JStr detail) None"

fun is_http :: "exn \<Rightarrow> bool" where
  "is_http (HTTPException _ _ _) = True"
| "is_http _ = False"

fun http_status :: "exn \<Rightarrow> int option" where
  "http_status (HTTPException code _ _) = Some code"
| "http_status _ = None"

text \<open>\<^verbatim>\<open>except SQLAlchemyError\<close>: the errors of the database layer share this base class.\<close>

fun is_sql_error :: "exn \<Rightarrow> bool" where
  "is_sql_error (SQLAlchemyError _) = True"
| "is_sql_error IntegrityError = True"
| "is_sql_error InvalidRequestError = True"
| "is_sql_error _ = False"

section \<open>Request context\<close>

text \<open>The dataclass \<^verbatim>\<open>AuthContext\<close> of \<^verbatim>\<open>services/auth_context.py\<close>, a context variable of the request.\<close>

record auth_context =
  ac_user_id :: string
  ac_workspace_id :: string
  ac_organization_id :: string
  ac_roles :: "workspace_role set"
  ac_auth_mode :: string
  ac_device_session_id :: "string option"

text \<open>
  The dataclass \<^verbatim>\<open>AuditRequestContext\<close> of \<^verbatim>\<open>services/audit_request_context.py\<close>. Its event
  counter is part of the state (\<open>w_audit_seq\<close>); a timestamp source, when the application
  installs one, gives the time of the n-th event.
\<close>

record audit_request_context =
  arc_request_id :: string
  arc_correlation_id :: string
  arc_occurred_at :: int
  arc_client_ip_address :: "string option"
  arc_user_agent :: "string option"
  arc_timestamp_source :: "(nat \<Rightarrow> int) option"

text \<open>
  The attributes the handlers keep in \<^verbatim>\<open>request.state\<close>: the session that authenticated the request,
  the rotated cookie to set on the response, and the correlation identifier of the request.
\<close>

record request_state =
  rq_device_session :: "device_session option"
  rq_cookie_rotation :: "(string \<times> string) option"
  rq_workspace_selection_required :: bool
  rq_correlation_id :: "string option"

section \<open>The database and the world\<close>

record db =
  t_project :: "project table"
  t_conversation :: "conversation table"
  t_user_account :: "user_account table"
  t_organization :: "organization table"
  t_workspace :: "workspace table"
  t_organization_member :: "organization_member table"
  t_external_identity :: "external_identity table"
  t_account_link_recovery :: "account_link_recovery table"
  t_device_session :: "device_session table"
  t_login_transaction :: "login_transaction table"
  t_provider_logout_continuation :: "provider_logout_continuation table"
  t_identity_audit_event :: "identity_audit_event table"
  t_audit_retention_state :: "audit_retention_state table"
  t_repository :: "repository table"
  t_planner_run :: "planner_run table"
  t_planner_task_draft :: "planner_task_draft table"
  t_approval :: "approval table"
  t_model_provider :: "model_provider table"
  t_model_credential :: "model_credential table"
  t_github_credential :: "github_credential table"
  t_sandbox_profile :: "sandbox_profile table"
  t_model_route :: "model_route table"
  t_usage_ledger_entry :: "usage_ledger_entry table"
  t_secret_access_audit_log :: "secret_access_audit_log table"
  t_workspace_audit_log :: "workspace_audit_log table"
  t_credit_wallet :: "credit_wallet table"
  t_spend_limit :: "spend_limit table"
  t_budget_reservation :: "budget_reservation table"
  t_task :: "task table"
  t_local_task_run :: "local_task_run table"
  t_cloud_run :: "cloud_run table"
  t_cloud_run_log_entry :: "cloud_run_log_entry table"
  t_cloud_run_stored_object :: "cloud_run_stored_object table"
  t_patch_artifact :: "patch_artifact table"
  t_local_test_run :: "local_test_run table"
  t_patch_review :: "patch_review table"
  t_patch_approval :: "patch_approval table"
  t_pull_request_record :: "pull_request_record table"
  t_debug_attempt :: "debug_attempt table"
  t_task_event :: "task_event table"

record env =
  e_clock :: "nat \<Rightarrow> int"
  e_uuid :: "nat \<Rightarrow> string"
  e_token :: "nat \<Rightarrow> string"
  e_sha256 :: "string \<Rightarrow> string"
  e_hmac :: "string \<Rightarrow> string \<Rightarrow> string"
  e_environ :: "string \<rightharpoonup> string"
  e_others :: "nat \<Rightarrow> db \<Rightarrow> db"
  e_auth :: "auth_context option"
  e_audit :: "audit_request_context option"

record world =
  w_db :: db
  w_committed :: db
  w_env :: env
  w_ticks :: nat
  w_ids :: nat
  w_tokens :: nat
  w_turns :: nat
  w_calls :: nat
  w_audit_seq :: nat
  w_request :: request_state

type_synonym 'a action = "(world, exn, 'a) act"

section \<open>Clock, identifiers, tokens\<close>

text \<open>Each reading takes the environment's next value.\<close>

definition utc_now :: "int action" where
  "utc_now w = (Inr (e_clock (w_env w) (w_ticks w)), w\<lparr>w_ticks := Suc (w_ticks w)\<rparr>)"

definition uuid_hex :: "string action" where
  "uuid_hex w = (Inr (e_uuid (w_env w) (w_ids w)), w\<lparr>w_ids := Suc (w_ids w)\<rparr>)"

definition prefixed_id :: "string \<Rightarrow> string action" where
  "prefixed_id prefix = bnd uuid_hex (\<lambda>h. ret (prefix @ ''_'' @ take 12 h))"

definition random_token :: "string action" where
  "random_token w = (Inr (e_token (w_env w) (w_tokens w)), w\<lparr>w_tokens := Suc (w_tokens w)\<rparr>)"

text \<open>\<^verbatim>\<open>timedelta(seconds=n)\<close>.\<close>

definition seconds :: "int \<Rightarrow> int" where
  "seconds n = n * 1000000"

section \<open>The session\<close>

text \<open>
  \<open>others_commit\<close>: between two transactions, the changes other sessions commit become
  visible. A session with writes of its own pending holds the database, so nothing changes
  under it.
\<close>

definition sync_world :: "world \<Rightarrow> world" where
  "sync_world w =
     (if w_db w = w_committed w
      then (let d = e_others (w_env w) (w_turns w) (w_committed w)
            in w\<lparr>w_db := d, w_committed := d, w_turns := Suc (w_turns w)\<rparr>)
      else w)"

definition sync :: "unit action" where
  "sync = modify sync_world"

definition commit :: "unit action" where
  "commit = modify (\<lambda>w. sync_world (w\<lparr>w_committed := w_db w\<rparr>))"

definition rollback :: "unit action" where
  "rollback = modify (\<lambda>w. sync_world (w\<lparr>w_db := w_committed w\<rparr>))"

text \<open>\<^verbatim>\<open>with session.begin_nested()\<close>: an exception undoes what the block wrote.\<close>

definition begin_nested :: "'a action \<Rightarrow> 'a action" where
  "begin_nested m w =
     (case m w of (Inl e, w') \<Rightarrow> (Inl e, w'\<lparr>w_db := w_db w\<rparr>) | (Inr x, w') \<Rightarrow> (Inr x, w'))"

text \<open>
  A row lookup by primary key, an insert, which the primary key and the table's unique
  constraint may refuse, the change of an object's attributes (the row with its key changes;
  the action returns the changed object), and \<^verbatim>\<open>UPDATE ... WHERE\<close>, which returns the row count.
\<close>

definition db_get :: "(db \<Rightarrow> 'r table) \<Rightarrow> string \<Rightarrow> 'r option action" where
  "db_get tab k = gets (\<lambda>w. map_of (tab (w_db w)) k)"

definition db_insert ::
  "(db \<Rightarrow> 'r table) \<Rightarrow> (('r table \<Rightarrow> 'r table) \<Rightarrow> db \<Rightarrow> db) \<Rightarrow> ('r \<Rightarrow> string) \<Rightarrow>
     ('r \<Rightarrow> 'r \<Rightarrow> bool) \<Rightarrow> 'r \<Rightarrow> unit action" where
  "db_insert tab upd key clash r w =
     (if map_of (tab (w_db w)) (key r) \<noteq> None \<or> list_ex (clash r) (rows (tab (w_db w)))
      then (Inl IntegrityError, w)
      else (Inr (), w\<lparr>w_db := upd (\<lambda>t. t @ [(key r, r)]) (w_db w)\<rparr>))"

definition row_modify :: "string \<Rightarrow> ('r \<Rightarrow> 'r) \<Rightarrow> 'r table \<Rightarrow> 'r table" where
  "row_modify k f t = (case map_of t k of None \<Rightarrow> t | Some r \<Rightarrow> AList.update k (f r) t)"

definition db_modify ::
  "(('r table \<Rightarrow> 'r table) \<Rightarrow> db \<Rightarrow> db) \<Rightarrow> ('r \<Rightarrow> string) \<Rightarrow> 'r \<Rightarrow> ('r \<Rightarrow> 'r) \<Rightarrow> 'r action" where
  "db_modify upd key r f w = (Inr (f r), w\<lparr>w_db := upd (row_modify (key r) f) (w_db w)\<rparr>)"

definition rows_where :: "('r \<Rightarrow> bool) \<Rightarrow> ('r \<Rightarrow> 'r) \<Rightarrow> 'r table \<Rightarrow> 'r table" where
  "rows_where P f t = map (\<lambda>(k, r). (k, if P r then f r else r)) t"

definition db_update_where ::
  "(db \<Rightarrow> 'r table) \<Rightarrow> (('r table \<Rightarrow> 'r table) \<Rightarrow> db \<Rightarrow> db) \<Rightarrow> ('r \<Rightarrow> bool) \<Rightarrow> ('r \<Rightarrow> 'r) \<Rightarrow>
     nat action" where
  "db_update_where tab upd P f w =
     (Inr (length (filter P (rows (tab (w_db w))))),
      w\<lparr>w_db := upd (rows_where P f) (w_db w)\<rparr>)"

definition db_select :: "(db \<Rightarrow> 'r table) \<Rightarrow> ('r \<Rightarrow> bool) \<Rightarrow> 'r list action" where
  "db_select tab P = gets (\<lambda>w. filter P (rows (tab (w_db w))))"

text \<open>A condition of a select that applies only when its value is given.\<close>

definition given_is :: "string option \<Rightarrow> string option \<Rightarrow> bool" where
  "given_is given value = (case given of None \<Rightarrow> True | Some i \<Rightarrow> value = Some i)"

text \<open>\<^verbatim>\<open>session.refresh(obj)\<close>: the row is read again.\<close>

definition db_refresh :: "(db \<Rightarrow> 'r table) \<Rightarrow> ('r \<Rightarrow> string) \<Rightarrow> 'r \<Rightarrow> 'r action" where
  "db_refresh tab key r =
     bnd (db_get tab (key r)) (\<lambda>x.
     case x of None \<Rightarrow> raise InvalidRequestError | Some r' \<Rightarrow> ret r')"

text \<open>
  The end of a request: the session is closed, and what was not committed is lost.
\<close>

definition run_request :: "'a action \<Rightarrow> 'a action" where
  "run_request m w = (case m w of (r, w') \<Rightarrow> (r, w'\<lparr>w_db := w_committed w'\<rparr>))"

section \<open>Inserting and changing the rows of each table\<close>

text \<open>
  The unique constraints are those of the table classes; the tables without one refuse a
  duplicate primary key only.
\<close>

definition add_project :: "project \<Rightarrow> unit action" where
  "add_project = db_insert t_project t_project_update pj_id
     (\<lambda>_ _. False)"

definition set_project :: "project \<Rightarrow> (project \<Rightarrow> project) \<Rightarrow> project action" where
  "set_project = db_modify t_project_update pj_id"

definition add_conversation :: "conversation \<Rightarrow> unit action" where
  "add_conversation = db_insert t_conversation t_conversation_update cv_id
     (\<lambda>_ _. False)"

definition set_conversation :: "conversation \<Rightarrow> (conversation \<Rightarrow> conversation) \<Rightarrow> conversation action" where
  "set_conversation = db_modify t_conversation_update cv_id"

definition add_user_account :: "user_account \<Rightarrow> unit action" where
  "add_user_account = db_insert t_user_account t_user_account_update us_id
     (\<lambda>_ _. False)"

definition set_user_account :: "user_account \<Rightarrow> (user_account \<Rightarrow> user_account) \<Rightarrow> user_account action" where
  "set_user_account = db_modify t_user_account_update us_id"

definition add_organization :: "organization \<Rightarrow> unit action" where
  "add_organization = db_insert t_organization t_organization_update og_id
     (\<lambda>r r'. og_personal_owner_user_id r \<noteq> None \<and>
       og_personal_owner_user_id r = og_personal_owner_user_id r')"

definition set_organization :: "organization \<Rightarrow> (organization \<Rightarrow> organization) \<Rightarrow> organization action" where
  "set_organization = db_modify t_organization_update og_id"

definition add_workspace :: "workspace \<Rightarrow> unit action" where
  "add_workspace = db_insert t_workspace t_workspace_update ws_id
     (\<lambda>_ _. False)"

definition set_workspace :: "workspace \<Rightarrow> (workspace \<Rightarrow> workspace) \<Rightarrow> workspace action" where
  "set_workspace = db_modify t_workspace_update ws_id"

definition add_organization_member :: "organization_member \<Rightarrow> unit action" where
  "add_organization_member = db_insert t_organization_member t_organization_member_update om_id
     (\<lambda>r r'. om_workspace_id r = om_workspace_id r' \<and> om_user_id r = om_user_id r')"

definition set_organization_member :: "organization_member \<Rightarrow> (organization_member \<Rightarrow> organization_member) \<Rightarrow> organization_member action" where
  "set_organization_member = db_modify t_organization_member_update om_id"

definition add_external_identity :: "external_identity \<Rightarrow> unit action" where
  "add_external_identity = db_insert t_external_identity t_external_identity_update xi_id
     (\<lambda>r r'. xi_issuer r = xi_issuer r' \<and> xi_subject r = xi_subject r')"

definition set_external_identity :: "external_identity \<Rightarrow> (external_identity \<Rightarrow> external_identity) \<Rightarrow> external_identity action" where
  "set_external_identity = db_modify t_external_identity_update xi_id"

definition add_account_link_recovery :: "account_link_recovery \<Rightarrow> unit action" where
  "add_account_link_recovery = db_insert t_account_link_recovery t_account_link_recovery_update ar_id
     (\<lambda>r r'. ar_issuer r = ar_issuer r' \<and> ar_subject r = ar_subject r' \<or>
       ar_correlation_id r = ar_correlation_id r')"

definition set_account_link_recovery :: "account_link_recovery \<Rightarrow> (account_link_recovery \<Rightarrow> account_link_recovery) \<Rightarrow> account_link_recovery action" where
  "set_account_link_recovery = db_modify t_account_link_recovery_update ar_id"

definition add_device_session :: "device_session \<Rightarrow> unit action" where
  "add_device_session = db_insert t_device_session t_device_session_update ds_id
     (\<lambda>_ _. False)"

definition set_device_session :: "device_session \<Rightarrow> (device_session \<Rightarrow> device_session) \<Rightarrow> device_session action" where
  "set_device_session = db_modify t_device_session_update ds_id"

definition add_login_transaction :: "login_transaction \<Rightarrow> unit action" where
  "add_login_transaction = db_insert t_login_transaction t_login_transaction_update lt_id
     (\<lambda>r r'. lt_state_hash r = lt_state_hash r')"

definition set_login_transaction :: "login_transaction \<Rightarrow> (login_transaction \<Rightarrow> login_transaction) \<Rightarrow> login_transaction action" where
  "set_login_transaction = db_modify t_login_transaction_update lt_id"

definition add_provider_logout_continuation :: "provider_logout_continuation \<Rightarrow> unit action" where
  "add_provider_logout_continuation = db_insert t_provider_logout_continuation t_provider_logout_continuation_update plc_id
     (\<lambda>_ _. False)"

definition set_provider_logout_continuation :: "provider_logout_continuation \<Rightarrow> (provider_logout_continuation \<Rightarrow> provider_logout_continuation) \<Rightarrow> provider_logout_continuation action" where
  "set_provider_logout_continuation = db_modify t_provider_logout_continuation_update plc_id"

definition add_identity_audit_event :: "identity_audit_event \<Rightarrow> unit action" where
  "add_identity_audit_event = db_insert t_identity_audit_event t_identity_audit_event_update ie_id
     (\<lambda>r r'. ie_event_type r = ''identity_security_rollback'' \<and>
       ie_event_type r' = ''identity_security_rollback'' \<and>
       ie_correlation_id r = ie_correlation_id r')"

definition set_identity_audit_event :: "identity_audit_event \<Rightarrow> (identity_audit_event \<Rightarrow> identity_audit_event) \<Rightarrow> identity_audit_event action" where
  "set_identity_audit_event = db_modify t_identity_audit_event_update ie_id"

definition add_audit_retention_state :: "audit_retention_state \<Rightarrow> unit action" where
  "add_audit_retention_state = db_insert t_audit_retention_state t_audit_retention_state_update art_id
     (\<lambda>_ _. False)"

definition set_audit_retention_state :: "audit_retention_state \<Rightarrow> (audit_retention_state \<Rightarrow> audit_retention_state) \<Rightarrow> audit_retention_state action" where
  "set_audit_retention_state = db_modify t_audit_retention_state_update art_id"

definition add_repository :: "repository \<Rightarrow> unit action" where
  "add_repository = db_insert t_repository t_repository_update rp_id
     (\<lambda>_ _. False)"

definition set_repository :: "repository \<Rightarrow> (repository \<Rightarrow> repository) \<Rightarrow> repository action" where
  "set_repository = db_modify t_repository_update rp_id"

definition add_planner_run :: "planner_run \<Rightarrow> unit action" where
  "add_planner_run = db_insert t_planner_run t_planner_run_update pr_id
     (\<lambda>_ _. False)"

definition set_planner_run :: "planner_run \<Rightarrow> (planner_run \<Rightarrow> planner_run) \<Rightarrow> planner_run action" where
  "set_planner_run = db_modify t_planner_run_update pr_id"

definition add_planner_task_draft :: "planner_task_draft \<Rightarrow> unit action" where
  "add_planner_task_draft = db_insert t_planner_task_draft t_planner_task_draft_update pd_id
     (\<lambda>_ _. False)"

definition set_planner_task_draft :: "planner_task_draft \<Rightarrow> (planner_task_draft \<Rightarrow> planner_task_draft) \<Rightarrow> planner_task_draft action" where
  "set_planner_task_draft = db_modify t_planner_task_draft_update pd_id"

definition add_approval :: "approval \<Rightarrow> unit action" where
  "add_approval = db_insert t_approval t_approval_update ap_id
     (\<lambda>r r'. ap_planner_run_id r = ap_planner_run_id r')"

definition set_approval :: "approval \<Rightarrow> (approval \<Rightarrow> approval) \<Rightarrow> approval action" where
  "set_approval = db_modify t_approval_update ap_id"

definition add_model_provider :: "model_provider \<Rightarrow> unit action" where
  "add_model_provider = db_insert t_model_provider t_model_provider_update mp_id
     (\<lambda>r r'. mp_workspace_id r = mp_workspace_id r' \<and> mp_name r = mp_name r')"

definition set_model_provider :: "model_provider \<Rightarrow> (model_provider \<Rightarrow> model_provider) \<Rightarrow> model_provider action" where
  "set_model_provider = db_modify t_model_provider_update mp_id"

definition add_model_credential :: "model_credential \<Rightarrow> unit action" where
  "add_model_credential = db_insert t_model_credential t_model_credential_update mc_id
     (\<lambda>_ _. False)"

definition set_model_credential :: "model_credential \<Rightarrow> (model_credential \<Rightarrow> model_credential) \<Rightarrow> model_credential action" where
  "set_model_credential = db_modify t_model_credential_update mc_id"

definition add_github_credential :: "github_credential \<Rightarrow> unit action" where
  "add_github_credential = db_insert t_github_credential t_github_credential_update gc_id
     (\<lambda>_ _. False)"

definition set_github_credential :: "github_credential \<Rightarrow> (github_credential \<Rightarrow> github_credential) \<Rightarrow> github_credential action" where
  "set_github_credential = db_modify t_github_credential_update gc_id"

definition add_sandbox_profile :: "sandbox_profile \<Rightarrow> unit action" where
  "add_sandbox_profile = db_insert t_sandbox_profile t_sandbox_profile_update sp_id
     (\<lambda>_ _. False)"

definition set_sandbox_profile :: "sandbox_profile \<Rightarrow> (sandbox_profile \<Rightarrow> sandbox_profile) \<Rightarrow> sandbox_profile action" where
  "set_sandbox_profile = db_modify t_sandbox_profile_update sp_id"

definition add_model_route :: "model_route \<Rightarrow> unit action" where
  "add_model_route = db_insert t_model_route t_model_route_update mr_id
     (\<lambda>r r'. mr_status r = MR_ACTIVE \<and> mr_status r' = MR_ACTIVE \<and>
       mr_workspace_id r = mr_workspace_id r' \<and> mr_agent_role r = mr_agent_role r')"

definition set_model_route :: "model_route \<Rightarrow> (model_route \<Rightarrow> model_route) \<Rightarrow> model_route action" where
  "set_model_route = db_modify t_model_route_update mr_id"

definition add_usage_ledger_entry :: "usage_ledger_entry \<Rightarrow> unit action" where
  "add_usage_ledger_entry = db_insert t_usage_ledger_entry t_usage_ledger_entry_update ul_id
     (\<lambda>r r'. ul_cloud_run_id r \<noteq> None \<and> ul_cloud_run_id r = ul_cloud_run_id r' \<and>
       ul_usage_type r = ul_usage_type r')"

definition set_usage_ledger_entry :: "usage_ledger_entry \<Rightarrow> (usage_ledger_entry \<Rightarrow> usage_ledger_entry) \<Rightarrow> usage_ledger_entry action" where
  "set_usage_ledger_entry = db_modify t_usage_ledger_entry_update ul_id"

definition add_secret_access_audit_log :: "secret_access_audit_log \<Rightarrow> unit action" where
  "add_secret_access_audit_log = db_insert t_secret_access_audit_log t_secret_access_audit_log_update sx_id
     (\<lambda>_ _. False)"

definition set_secret_access_audit_log :: "secret_access_audit_log \<Rightarrow> (secret_access_audit_log \<Rightarrow> secret_access_audit_log) \<Rightarrow> secret_access_audit_log action" where
  "set_secret_access_audit_log = db_modify t_secret_access_audit_log_update sx_id"

definition add_workspace_audit_log :: "workspace_audit_log \<Rightarrow> unit action" where
  "add_workspace_audit_log = db_insert t_workspace_audit_log t_workspace_audit_log_update wa_id
     (\<lambda>_ _. False)"

definition set_workspace_audit_log :: "workspace_audit_log \<Rightarrow> (workspace_audit_log \<Rightarrow> workspace_audit_log) \<Rightarrow> workspace_audit_log action" where
  "set_workspace_audit_log = db_modify t_workspace_audit_log_update wa_id"

definition add_credit_wallet :: "credit_wallet \<Rightarrow> unit action" where
  "add_credit_wallet = db_insert t_credit_wallet t_credit_wallet_update wl_id
     (\<lambda>r r'. wl_workspace_id r = wl_workspace_id r')"

definition set_credit_wallet :: "credit_wallet \<Rightarrow> (credit_wallet \<Rightarrow> credit_wallet) \<Rightarrow> credit_wallet action" where
  "set_credit_wallet = db_modify t_credit_wallet_update wl_id"

definition add_spend_limit :: "spend_limit \<Rightarrow> unit action" where
  "add_spend_limit = db_insert t_spend_limit t_spend_limit_update sl_id
     (\<lambda>r r'. sl_workspace_id r = sl_workspace_id r')"

definition set_spend_limit :: "spend_limit \<Rightarrow> (spend_limit \<Rightarrow> spend_limit) \<Rightarrow> spend_limit action" where
  "set_spend_limit = db_modify t_spend_limit_update sl_id"

definition add_budget_reservation :: "budget_reservation \<Rightarrow> unit action" where
  "add_budget_reservation = db_insert t_budget_reservation t_budget_reservation_update rs_id
     (\<lambda>_ _. False)"

definition set_budget_reservation :: "budget_reservation \<Rightarrow> (budget_reservation \<Rightarrow> budget_reservation) \<Rightarrow> budget_reservation action" where
  "set_budget_reservation = db_modify t_budget_reservation_update rs_id"

definition add_task :: "task \<Rightarrow> unit action" where
  "add_task = db_insert t_task t_task_update tk_id
     (\<lambda>_ _. False)"

definition set_task :: "task \<Rightarrow> (task \<Rightarrow> task) \<Rightarrow> task action" where
  "set_task = db_modify t_task_update tk_id"

definition add_local_task_run :: "local_task_run \<Rightarrow> unit action" where
  "add_local_task_run = db_insert t_local_task_run t_local_task_run_update lr_id
     (\<lambda>_ _. False)"

definition set_local_task_run :: "local_task_run \<Rightarrow> (local_task_run \<Rightarrow> local_task_run) \<Rightarrow> local_task_run action" where
  "set_local_task_run = db_modify t_local_task_run_update lr_id"

definition add_cloud_run :: "cloud_run \<Rightarrow> unit action" where
  "add_cloud_run = db_insert t_cloud_run t_cloud_run_update cr_id
     (\<lambda>_ _. False)"

definition set_cloud_run :: "cloud_run \<Rightarrow> (cloud_run \<Rightarrow> cloud_run) \<Rightarrow> cloud_run action" where
  "set_cloud_run = db_modify t_cloud_run_update cr_id"

definition add_cloud_run_log_entry :: "cloud_run_log_entry \<Rightarrow> unit action" where
  "add_cloud_run_log_entry = db_insert t_cloud_run_log_entry t_cloud_run_log_entry_update lg_id
     (\<lambda>_ _. False)"

definition set_cloud_run_log_entry :: "cloud_run_log_entry \<Rightarrow> (cloud_run_log_entry \<Rightarrow> cloud_run_log_entry) \<Rightarrow> cloud_run_log_entry action" where
  "set_cloud_run_log_entry = db_modify t_cloud_run_log_entry_update lg_id"

definition add_cloud_run_stored_object :: "cloud_run_stored_object \<Rightarrow> unit action" where
  "add_cloud_run_stored_object = db_insert t_cloud_run_stored_object t_cloud_run_stored_object_update so_id
     (\<lambda>_ _. False)"

definition set_cloud_run_stored_object :: "cloud_run_stored_object \<Rightarrow> (cloud_run_stored_object \<Rightarrow> cloud_run_stored_object) \<Rightarrow> cloud_run_stored_object action" where
  "set_cloud_run_stored_object = db_modify t_cloud_run_stored_object_update so_id"

definition add_patch_artifact :: "patch_artifact \<Rightarrow> unit action" where
  "add_patch_artifact = db_insert t_patch_artifact t_patch_artifact_update pa_id
     (\<lambda>_ _. False)"

definition set_patch_artifact :: "patch_artifact \<Rightarrow> (patch_artifact \<Rightarrow> patch_artifact) \<Rightarrow> patch_artifact action" where
  "set_patch_artifact = db_modify t_patch_artifact_update pa_id"

definition add_local_test_run :: "local_test_run \<Rightarrow> unit action" where
  "add_local_test_run = db_insert t_local_test_run t_local_test_run_update tr_id
     (\<lambda>_ _. False)"

definition set_local_test_run :: "local_test_run \<Rightarrow> (local_test_run \<Rightarrow> local_test_run) \<Rightarrow> local_test_run action" where
  "set_local_test_run = db_modify t_local_test_run_update tr_id"

definition add_patch_review :: "patch_review \<Rightarrow> unit action" where
  "add_patch_review = db_insert t_patch_review t_patch_review_update rv_id
     (\<lambda>r r'. rv_patch_artifact_id r = rv_patch_artifact_id r' \<and>
       rv_reviewer_kind r = rv_reviewer_kind r')"

definition set_patch_review :: "patch_review \<Rightarrow> (patch_review \<Rightarrow> patch_review) \<Rightarrow> patch_review action" where
  "set_patch_review = db_modify t_patch_review_update rv_id"

definition add_patch_approval :: "patch_approval \<Rightarrow> unit action" where
  "add_patch_approval = db_insert t_patch_approval t_patch_approval_update pp_id
     (\<lambda>r r'. pp_patch_artifact_id r = pp_patch_artifact_id r')"

definition set_patch_approval :: "patch_approval \<Rightarrow> (patch_approval \<Rightarrow> patch_approval) \<Rightarrow> patch_approval action" where
  "set_patch_approval = db_modify t_patch_approval_update pp_id"

definition add_pull_request_record :: "pull_request_record \<Rightarrow> unit action" where
  "add_pull_request_record = db_insert t_pull_request_record t_pull_request_record_update pl_id
     (\<lambda>r r'. pl_patch_approval_id r = pl_patch_approval_id r')"

definition set_pull_request_record :: "pull_request_record \<Rightarrow> (pull_request_record \<Rightarrow> pull_request_record) \<Rightarrow> pull_request_record action" where
  "set_pull_request_record = db_modify t_pull_request_record_update pl_id"

definition add_debug_attempt :: "debug_attempt \<Rightarrow> unit action" where
  "add_debug_attempt = db_insert t_debug_attempt t_debug_attempt_update da_id
     (\<lambda>_ _. False)"

definition set_debug_attempt :: "debug_attempt \<Rightarrow> (debug_attempt \<Rightarrow> debug_attempt) \<Rightarrow> debug_attempt action" where
  "set_debug_attempt = db_modify t_debug_attempt_update da_id"

definition add_task_event :: "task_event \<Rightarrow> unit action" where
  "add_task_event = db_insert t_task_event t_task_event_update te_id
     (\<lambda>_ _. False)"

definition set_task_event :: "task_event \<Rightarrow> (task_event \<Rightarrow> task_event) \<Rightarrow> task_event action" where
  "set_task_event = db_modify t_task_event_update te_id"


section \<open>New objects\<close>

text \<open>
  \<open>new_<class> f\<close> draws the identifier and the timestamps of the default factories and lets \<open>f\<close>
  set the columns the call gives.
\<close>

definition new_project :: "(project \<Rightarrow> project) \<Rightarrow> project action" where
  "new_project f =
     bnd (prefixed_id ''project'') (\<lambda>i.
     bnd utc_now (\<lambda>t0.
     ret (f (blank_project\<lparr>pj_id := i, pj_created_at := t0\<rparr>))))"

definition new_conversation :: "(conversation \<Rightarrow> conversation) \<Rightarrow> conversation action" where
  "new_conversation f =
     bnd (prefixed_id ''conversation'') (\<lambda>i.
     bnd utc_now (\<lambda>t0.
     ret (f (blank_conversation\<lparr>cv_id := i, cv_created_at := t0\<rparr>))))"

definition new_user_account :: "(user_account \<Rightarrow> user_account) \<Rightarrow> user_account action" where
  "new_user_account f =
     bnd (prefixed_id ''user'') (\<lambda>i.
     bnd utc_now (\<lambda>t0.
     bnd utc_now (\<lambda>t1.
     ret (f (blank_user_account\<lparr>us_id := i, us_created_at := t0, us_updated_at := t1\<rparr>)))))"

definition new_organization :: "(organization \<Rightarrow> organization) \<Rightarrow> organization action" where
  "new_organization f =
     bnd (prefixed_id ''org'') (\<lambda>i.
     bnd utc_now (\<lambda>t0.
     bnd utc_now (\<lambda>t1.
     ret (f (blank_organization\<lparr>og_id := i, og_created_at := t0, og_updated_at := t1\<rparr>)))))"

definition new_workspace :: "(workspace \<Rightarrow> workspace) \<Rightarrow> workspace action" where
  "new_workspace f =
     bnd (prefixed_id ''workspace'') (\<lambda>i.
     bnd utc_now (\<lambda>t0.
     bnd utc_now (\<lambda>t1.
     ret (f (blank_workspace\<lparr>ws_id := i, ws_created_at := t0, ws_updated_at := t1\<rparr>)))))"

definition new_organization_member :: "(organization_member \<Rightarrow> organization_member) \<Rightarrow> organization_member action" where
  "new_organization_member f =
     bnd (prefixed_id ''member'') (\<lambda>i.
     bnd utc_now (\<lambda>t0.
     bnd utc_now (\<lambda>t1.
     ret (f (blank_organization_member\<lparr>om_id := i, om_created_at := t0, om_updated_at := t1\<rparr>)))))"

definition new_external_identity :: "(external_identity \<Rightarrow> external_identity) \<Rightarrow> external_identity action" where
  "new_external_identity f =
     bnd (prefixed_id ''external_identity'') (\<lambda>i.
     bnd utc_now (\<lambda>t0.
     bnd utc_now (\<lambda>t1.
     bnd utc_now (\<lambda>t2.
     bnd utc_now (\<lambda>t3.
     ret (f (blank_external_identity\<lparr>xi_id := i, xi_last_confirmed_at := t0, xi_last_status_checked_at := t1, xi_created_at := t2, xi_updated_at := t3\<rparr>)))))))"

definition new_account_link_recovery :: "(account_link_recovery \<Rightarrow> account_link_recovery) \<Rightarrow> account_link_recovery action" where
  "new_account_link_recovery f =
     bnd (prefixed_id ''account_link_recovery'') (\<lambda>i.
     bnd utc_now (\<lambda>t0.
     ret (f (blank_account_link_recovery\<lparr>ar_id := i, ar_created_at := t0\<rparr>))))"

definition new_device_session :: "(device_session \<Rightarrow> device_session) \<Rightarrow> device_session action" where
  "new_device_session f =
     bnd (prefixed_id ''device_session'') (\<lambda>i.
     bnd utc_now (\<lambda>t0.
     bnd utc_now (\<lambda>t1.
     bnd utc_now (\<lambda>t2.
     bnd utc_now (\<lambda>t3.
     ret (f (blank_device_session\<lparr>ds_id := i, ds_secret_rotated_at := t0, ds_last_seen_at := t1, ds_created_at := t2, ds_updated_at := t3\<rparr>)))))))"

definition new_login_transaction :: "(login_transaction \<Rightarrow> login_transaction) \<Rightarrow> login_transaction action" where
  "new_login_transaction f =
     bnd (prefixed_id ''login_transaction'') (\<lambda>i.
     bnd utc_now (\<lambda>t0.
     ret (f (blank_login_transaction\<lparr>lt_id := i, lt_created_at := t0\<rparr>))))"

definition new_provider_logout_continuation :: "(provider_logout_continuation \<Rightarrow> provider_logout_continuation) \<Rightarrow> provider_logout_continuation action" where
  "new_provider_logout_continuation f =
     bnd (prefixed_id ''provider_logout'') (\<lambda>i.
     bnd utc_now (\<lambda>t0.
     bnd utc_now (\<lambda>t1.
     ret (f (blank_provider_logout_continuation\<lparr>plc_id := i, plc_created_at := t0, plc_updated_at := t1\<rparr>)))))"

definition new_identity_audit_event :: "(identity_audit_event \<Rightarrow> identity_audit_event) \<Rightarrow> identity_audit_event action" where
  "new_identity_audit_event f =
     bnd (prefixed_id ''identity_audit'') (\<lambda>i.
     bnd utc_now (\<lambda>t0.
     ret (f (blank_identity_audit_event\<lparr>ie_id := i, ie_created_at := t0\<rparr>))))"

definition new_repository :: "(repository \<Rightarrow> repository) \<Rightarrow> repository action" where
  "new_repository f =
     bnd (prefixed_id ''repo'') (\<lambda>i.
     bnd utc_now (\<lambda>t0.
     bnd utc_now (\<lambda>t1.
     ret (f (blank_repository\<lparr>rp_id := i, rp_created_at := t0, rp_updated_at := t1\<rparr>)))))"

definition new_planner_run :: "(planner_run \<Rightarrow> planner_run) \<Rightarrow> planner_run action" where
  "new_planner_run f =
     bnd (prefixed_id ''planner_run'') (\<lambda>i.
     bnd utc_now (\<lambda>t0.
     bnd utc_now (\<lambda>t1.
     ret (f (blank_planner_run\<lparr>pr_id := i, pr_created_at := t0, pr_updated_at := t1\<rparr>)))))"

definition new_planner_task_draft :: "(planner_task_draft \<Rightarrow> planner_task_draft) \<Rightarrow> planner_task_draft action" where
  "new_planner_task_draft f =
     bnd (prefixed_id ''planner_draft'') (\<lambda>i.
     bnd utc_now (\<lambda>t0.
     ret (f (blank_planner_task_draft\<lparr>pd_id := i, pd_created_at := t0\<rparr>))))"

definition new_approval :: "(approval \<Rightarrow> approval) \<Rightarrow> approval action" where
  "new_approval f =
     bnd (prefixed_id ''approval'') (\<lambda>i.
     bnd utc_now (\<lambda>t0.
     ret (f (blank_approval\<lparr>ap_id := i, ap_created_at := t0\<rparr>))))"

definition new_model_provider :: "(model_provider \<Rightarrow> model_provider) \<Rightarrow> model_provider action" where
  "new_model_provider f =
     bnd (prefixed_id ''model_provider'') (\<lambda>i.
     bnd utc_now (\<lambda>t0.
     bnd utc_now (\<lambda>t1.
     ret (f (blank_model_provider\<lparr>mp_id := i, mp_created_at := t0, mp_updated_at := t1\<rparr>)))))"

definition new_model_credential :: "(model_credential \<Rightarrow> model_credential) \<Rightarrow> model_credential action" where
  "new_model_credential f =
     bnd (prefixed_id ''model_credential'') (\<lambda>i.
     bnd utc_now (\<lambda>t0.
     bnd utc_now (\<lambda>t1.
     ret (f (blank_model_credential\<lparr>mc_id := i, mc_created_at := t0, mc_updated_at := t1\<rparr>)))))"

definition new_github_credential :: "(github_credential \<Rightarrow> github_credential) \<Rightarrow> github_credential action" where
  "new_github_credential f =
     bnd (prefixed_id ''github_credential'') (\<lambda>i.
     bnd utc_now (\<lambda>t0.
     bnd utc_now (\<lambda>t1.
     ret (f (blank_github_credential\<lparr>gc_id := i, gc_created_at := t0, gc_updated_at := t1\<rparr>)))))"

definition new_sandbox_profile :: "(sandbox_profile \<Rightarrow> sandbox_profile) \<Rightarrow> sandbox_profile action" where
  "new_sandbox_profile f =
     bnd (prefixed_id ''sandbox_profile'') (\<lambda>i.
     bnd utc_now (\<lambda>t0.
     bnd utc_now (\<lambda>t1.
     ret (f (blank_sandbox_profile\<lparr>sp_id := i, sp_created_at := t0, sp_updated_at := t1\<rparr>)))))"

definition new_model_route :: "(model_route \<Rightarrow> model_route) \<Rightarrow> model_route action" where
  "new_model_route f =
     bnd (prefixed_id ''model_route'') (\<lambda>i.
     bnd utc_now (\<lambda>t0.
     bnd utc_now (\<lambda>t1.
     ret (f (blank_model_route\<lparr>mr_id := i, mr_created_at := t0, mr_updated_at := t1\<rparr>)))))"

definition new_usage_ledger_entry :: "(usage_ledger_entry \<Rightarrow> usage_ledger_entry) \<Rightarrow> usage_ledger_entry action" where
  "new_usage_ledger_entry f =
     bnd (prefixed_id ''usage'') (\<lambda>i.
     bnd utc_now (\<lambda>t0.
     ret (f (blank_usage_ledger_entry\<lparr>ul_id := i, ul_created_at := t0\<rparr>))))"

definition new_secret_access_audit_log :: "(secret_access_audit_log \<Rightarrow> secret_access_audit_log) \<Rightarrow> secret_access_audit_log action" where
  "new_secret_access_audit_log f =
     bnd (prefixed_id ''secret_access'') (\<lambda>i.
     bnd utc_now (\<lambda>t0.
     ret (f (blank_secret_access_audit_log\<lparr>sx_id := i, sx_created_at := t0\<rparr>))))"

definition new_workspace_audit_log :: "(workspace_audit_log \<Rightarrow> workspace_audit_log) \<Rightarrow> workspace_audit_log action" where
  "new_workspace_audit_log f =
     bnd (prefixed_id ''workspace_audit'') (\<lambda>i.
     bnd utc_now (\<lambda>t0.
     ret (f (blank_workspace_audit_log\<lparr>wa_id := i, wa_created_at := t0\<rparr>))))"

definition new_credit_wallet :: "(credit_wallet \<Rightarrow> credit_wallet) \<Rightarrow> credit_wallet action" where
  "new_credit_wallet f =
     bnd (prefixed_id ''wallet'') (\<lambda>i.
     bnd utc_now (\<lambda>t0.
     bnd utc_now (\<lambda>t1.
     ret (f (blank_credit_wallet\<lparr>wl_id := i, wl_created_at := t0, wl_updated_at := t1\<rparr>)))))"

definition new_spend_limit :: "(spend_limit \<Rightarrow> spend_limit) \<Rightarrow> spend_limit action" where
  "new_spend_limit f =
     bnd (prefixed_id ''spend_limit'') (\<lambda>i.
     bnd utc_now (\<lambda>t0.
     bnd utc_now (\<lambda>t1.
     ret (f (blank_spend_limit\<lparr>sl_id := i, sl_created_at := t0, sl_updated_at := t1\<rparr>)))))"

definition new_budget_reservation :: "(budget_reservation \<Rightarrow> budget_reservation) \<Rightarrow> budget_reservation action" where
  "new_budget_reservation f =
     bnd (prefixed_id ''budget_reservation'') (\<lambda>i.
     bnd utc_now (\<lambda>t0.
     bnd utc_now (\<lambda>t1.
     ret (f (blank_budget_reservation\<lparr>rs_id := i, rs_created_at := t0, rs_updated_at := t1\<rparr>)))))"

definition new_task :: "(task \<Rightarrow> task) \<Rightarrow> task action" where
  "new_task f =
     bnd (prefixed_id ''task'') (\<lambda>i.
     bnd utc_now (\<lambda>t0.
     bnd utc_now (\<lambda>t1.
     ret (f (blank_task\<lparr>tk_id := i, tk_created_at := t0, tk_updated_at := t1\<rparr>)))))"

definition new_local_task_run :: "(local_task_run \<Rightarrow> local_task_run) \<Rightarrow> local_task_run action" where
  "new_local_task_run f =
     bnd (prefixed_id ''local_run'') (\<lambda>i.
     bnd utc_now (\<lambda>t0.
     bnd utc_now (\<lambda>t1.
     ret (f (blank_local_task_run\<lparr>lr_id := i, lr_created_at := t0, lr_updated_at := t1\<rparr>)))))"

definition new_cloud_run :: "(cloud_run \<Rightarrow> cloud_run) \<Rightarrow> cloud_run action" where
  "new_cloud_run f =
     bnd (prefixed_id ''cloud_run'') (\<lambda>i.
     bnd utc_now (\<lambda>t0.
     bnd utc_now (\<lambda>t1.
     ret (f (blank_cloud_run\<lparr>cr_id := i, cr_created_at := t0, cr_updated_at := t1\<rparr>)))))"

definition new_cloud_run_log_entry :: "(cloud_run_log_entry \<Rightarrow> cloud_run_log_entry) \<Rightarrow> cloud_run_log_entry action" where
  "new_cloud_run_log_entry f =
     bnd (uuid_hex) (\<lambda>i.
     bnd utc_now (\<lambda>t0.
     ret (f (blank_cloud_run_log_entry\<lparr>lg_id := i, lg_created_at := t0\<rparr>))))"

definition new_cloud_run_stored_object :: "(cloud_run_stored_object \<Rightarrow> cloud_run_stored_object) \<Rightarrow> cloud_run_stored_object action" where
  "new_cloud_run_stored_object f =
     bnd (uuid_hex) (\<lambda>i.
     bnd utc_now (\<lambda>t0.
     ret (f (blank_cloud_run_stored_object\<lparr>so_id := i, so_created_at := t0\<rparr>))))"

definition new_patch_artifact :: "(patch_artifact \<Rightarrow> patch_artifact) \<Rightarrow> patch_artifact action" where
  "new_patch_artifact f =
     bnd (prefixed_id ''patch'') (\<lambda>i.
     bnd utc_now (\<lambda>t0.
     ret (f (blank_patch_artifact\<lparr>pa_id := i, pa_created_at := t0\<rparr>))))"

definition new_local_test_run :: "(local_test_run \<Rightarrow> local_test_run) \<Rightarrow> local_test_run action" where
  "new_local_test_run f =
     bnd (prefixed_id ''test_run'') (\<lambda>i.
     bnd utc_now (\<lambda>t0.
     bnd utc_now (\<lambda>t1.
     ret (f (blank_local_test_run\<lparr>tr_id := i, tr_started_at := t0, tr_created_at := t1\<rparr>)))))"

definition new_patch_review :: "(patch_review \<Rightarrow> patch_review) \<Rightarrow> patch_review action" where
  "new_patch_review f =
     bnd (prefixed_id ''review'') (\<lambda>i.
     bnd utc_now (\<lambda>t0.
     ret (f (blank_patch_review\<lparr>rv_id := i, rv_created_at := t0\<rparr>))))"

definition new_patch_approval :: "(patch_approval \<Rightarrow> patch_approval) \<Rightarrow> patch_approval action" where
  "new_patch_approval f =
     bnd (prefixed_id ''patch_approval'') (\<lambda>i.
     bnd utc_now (\<lambda>t0.
     ret (f (blank_patch_approval\<lparr>pp_id := i, pp_created_at := t0\<rparr>))))"

definition new_pull_request_record :: "(pull_request_record \<Rightarrow> pull_request_record) \<Rightarrow> pull_request_record action" where
  "new_pull_request_record f =
     bnd (prefixed_id ''pull_request'') (\<lambda>i.
     bnd utc_now (\<lambda>t0.
     ret (f (blank_pull_request_record\<lparr>pl_id := i, pl_created_at := t0\<rparr>))))"

definition new_debug_attempt :: "(debug_attempt \<Rightarrow> debug_attempt) \<Rightarrow> debug_attempt action" where
  "new_debug_attempt f =
     bnd (prefixed_id ''debug'') (\<lambda>i.
     bnd utc_now (\<lambda>t0.
     ret (f (blank_debug_attempt\<lparr>da_id := i, da_created_at := t0\<rparr>))))"

definition new_task_event :: "(task_event \<Rightarrow> task_event) \<Rightarrow> task_event action" where
  "new_task_event f =
     bnd (prefixed_id ''event'') (\<lambda>i.
     bnd utc_now (\<lambda>t0.
     ret (f (blank_task_event\<lparr>te_id := i, te_created_at := t0\<rparr>))))"

lemmas add_row_defs =
  add_project_def
  add_conversation_def
  add_user_account_def
  add_organization_def
  add_workspace_def
  add_organization_member_def
  add_external_identity_def
  add_account_link_recovery_def
  add_device_session_def
  add_login_transaction_def
  add_provider_logout_continuation_def
  add_identity_audit_event_def
  add_audit_retention_state_def
  add_repository_def
  add_planner_run_def
  add_planner_task_draft_def
  add_approval_def
  add_model_provider_def
  add_model_credential_def
  add_github_credential_def
  add_sandbox_profile_def
  add_model_route_def
  add_usage_ledger_entry_def
  add_secret_access_audit_log_def
  add_workspace_audit_log_def
  add_credit_wallet_def
  add_spend_limit_def
  add_budget_reservation_def
  add_task_def
  add_local_task_run_def
  add_cloud_run_def
  add_cloud_run_log_entry_def
  add_cloud_run_stored_object_def
  add_patch_artifact_def
  add_local_test_run_def
  add_patch_review_def
  add_patch_approval_def
  add_pull_request_record_def
  add_debug_attempt_def
  add_task_event_def

lemmas set_row_defs =
  set_project_def
  set_conversation_def
  set_user_account_def
  set_organization_def
  set_workspace_def
  set_organization_member_def
  set_external_identity_def
  set_account_link_recovery_def
  set_device_session_def
  set_login_transaction_def
  set_provider_logout_continuation_def
  set_identity_audit_event_def
  set_audit_retention_state_def
  set_repository_def
  set_planner_run_def
  set_planner_task_draft_def
  set_approval_def
  set_model_provider_def
  set_model_credential_def
  set_github_credential_def
  set_sandbox_profile_def
  set_model_route_def
  set_usage_ledger_entry_def
  set_secret_access_audit_log_def
  set_workspace_audit_log_def
  set_credit_wallet_def
  set_spend_limit_def
  set_budget_reservation_def
  set_task_def
  set_local_task_run_def
  set_cloud_run_def
  set_cloud_run_log_entry_def
  set_cloud_run_stored_object_def
  set_patch_artifact_def
  set_local_test_run_def
  set_patch_review_def
  set_patch_approval_def
  set_pull_request_record_def
  set_debug_attempt_def
  set_task_event_def

lemmas new_row_defs =
  new_project_def
  new_conversation_def
  new_user_account_def
  new_organization_def
  new_workspace_def
  new_organization_member_def
  new_external_identity_def
  new_account_link_recovery_def
  new_device_session_def
  new_login_transaction_def
  new_provider_logout_continuation_def
  new_identity_audit_event_def
  new_repository_def
  new_planner_run_def
  new_planner_task_draft_def
  new_approval_def
  new_model_provider_def
  new_model_credential_def
  new_github_credential_def
  new_sandbox_profile_def
  new_model_route_def
  new_usage_ledger_entry_def
  new_secret_access_audit_log_def
  new_workspace_audit_log_def
  new_credit_wallet_def
  new_spend_limit_def
  new_budget_reservation_def
  new_task_def
  new_local_task_run_def
  new_cloud_run_def
  new_cloud_run_log_entry_def
  new_cloud_run_stored_object_def
  new_patch_artifact_def
  new_local_test_run_def
  new_patch_review_def
  new_patch_approval_def
  new_pull_request_record_def
  new_debug_attempt_def
  new_task_event_def

section \<open>The interface of a table\<close>

text \<open>
  What a component relies on when it keeps rows in a table: the accessor sees what the
  updater wrote. From this follow the facts about lookups, inserts and changes of single
  rows; every table of \<open>db\<close> is an instance.
\<close>

locale row_store =
  fixes tab :: "db \<Rightarrow> 'r table"
    and upd :: "('r table \<Rightarrow> 'r table) \<Rightarrow> db \<Rightarrow> db"
    and key :: "'r \<Rightarrow> string"
  assumes tab_upd [simp]: "tab (upd f d) = f (tab d)"
begin

lemma get_after_modify:
  assumes "map_of (tab d) (key r) = Some r0"
  shows "map_of (tab (upd (row_modify (key r) f) d)) k =
    (if k = key r then Some (f r0) else map_of (tab d) k)"
  using assms by (simp add: row_modify_def map_of_update)

lemma sum_after_modify:
  assumes "map_of (tab d) (key r) = Some r0"
  shows "sum_rows g (tab (upd (row_modify (key r) f) d)) =
    sum_rows g (tab d) - g r0 + g (f r0)"
  using assms by (simp add: row_modify_def sum_rows_update)

lemma sum_after_insert:
  "sum_rows g (tab (upd (\<lambda>t. t @ [(key r, r)]) d)) = sum_rows g (tab d) + g r"
  by simp

lemma get_after_insert:
  assumes "map_of (tab d) (key r) = None"
  shows "map_of (tab (upd (\<lambda>t. t @ [(key r, r)]) d)) k =
    (if k = key r then Some r else map_of (tab d) k)"
  using assms by (simp add: map_of_append_new del: map_of_append)

lemma wp_insert:
  "wp (db_insert tab upd key clash r) Q E w =
     (if map_of (tab (w_db w)) (key r) \<noteq> None \<or> list_ex (clash r) (rows (tab (w_db w)))
      then E IntegrityError w
      else Q () (w\<lparr>w_db := upd (\<lambda>t. t @ [(key r, r)]) (w_db w)\<rparr>))"
  by (simp add: wp_def db_insert_def)

end

interpretation projects: row_store t_project t_project_update pj_id
  by unfold_locales simp_all

interpretation conversations: row_store t_conversation t_conversation_update cv_id
  by unfold_locales simp_all

interpretation user_accounts: row_store t_user_account t_user_account_update us_id
  by unfold_locales simp_all

interpretation organizations: row_store t_organization t_organization_update og_id
  by unfold_locales simp_all

interpretation workspaces: row_store t_workspace t_workspace_update ws_id
  by unfold_locales simp_all

interpretation organization_members: row_store t_organization_member t_organization_member_update om_id
  by unfold_locales simp_all

interpretation external_identitys: row_store t_external_identity t_external_identity_update xi_id
  by unfold_locales simp_all

interpretation account_link_recoverys: row_store t_account_link_recovery t_account_link_recovery_update ar_id
  by unfold_locales simp_all

interpretation device_sessions: row_store t_device_session t_device_session_update ds_id
  by unfold_locales simp_all

interpretation login_transactions: row_store t_login_transaction t_login_transaction_update lt_id
  by unfold_locales simp_all

interpretation provider_logout_continuations: row_store t_provider_logout_continuation t_provider_logout_continuation_update plc_id
  by unfold_locales simp_all

interpretation identity_audit_events: row_store t_identity_audit_event t_identity_audit_event_update ie_id
  by unfold_locales simp_all

interpretation audit_retention_states: row_store t_audit_retention_state t_audit_retention_state_update art_id
  by unfold_locales simp_all

interpretation repositorys: row_store t_repository t_repository_update rp_id
  by unfold_locales simp_all

interpretation planner_runs: row_store t_planner_run t_planner_run_update pr_id
  by unfold_locales simp_all

interpretation planner_task_drafts: row_store t_planner_task_draft t_planner_task_draft_update pd_id
  by unfold_locales simp_all

interpretation approvals: row_store t_approval t_approval_update ap_id
  by unfold_locales simp_all

interpretation model_providers: row_store t_model_provider t_model_provider_update mp_id
  by unfold_locales simp_all

interpretation model_credentials: row_store t_model_credential t_model_credential_update mc_id
  by unfold_locales simp_all

interpretation github_credentials: row_store t_github_credential t_github_credential_update gc_id
  by unfold_locales simp_all

interpretation sandbox_profiles: row_store t_sandbox_profile t_sandbox_profile_update sp_id
  by unfold_locales simp_all

interpretation model_routes: row_store t_model_route t_model_route_update mr_id
  by unfold_locales simp_all

interpretation usage_ledger_entrys: row_store t_usage_ledger_entry t_usage_ledger_entry_update ul_id
  by unfold_locales simp_all

interpretation secret_access_audit_logs: row_store t_secret_access_audit_log t_secret_access_audit_log_update sx_id
  by unfold_locales simp_all

interpretation workspace_audit_logs: row_store t_workspace_audit_log t_workspace_audit_log_update wa_id
  by unfold_locales simp_all

interpretation credit_wallets: row_store t_credit_wallet t_credit_wallet_update wl_id
  by unfold_locales simp_all

interpretation spend_limits: row_store t_spend_limit t_spend_limit_update sl_id
  by unfold_locales simp_all

interpretation budget_reservations: row_store t_budget_reservation t_budget_reservation_update rs_id
  by unfold_locales simp_all

interpretation tasks: row_store t_task t_task_update tk_id
  by unfold_locales simp_all

interpretation local_task_runs: row_store t_local_task_run t_local_task_run_update lr_id
  by unfold_locales simp_all

interpretation cloud_runs: row_store t_cloud_run t_cloud_run_update cr_id
  by unfold_locales simp_all

interpretation cloud_run_log_entrys: row_store t_cloud_run_log_entry t_cloud_run_log_entry_update lg_id
  by unfold_locales simp_all

interpretation cloud_run_stored_objects: row_store t_cloud_run_stored_object t_cloud_run_stored_object_update so_id
  by unfold_locales simp_all

interpretation patch_artifacts: row_store t_patch_artifact t_patch_artifact_update pa_id
  by unfold_locales simp_all

interpretation local_test_runs: row_store t_local_test_run t_local_test_run_update tr_id
  by unfold_locales simp_all

interpretation patch_reviews: row_store t_patch_review t_patch_review_update rv_id
  by unfold_locales simp_all

interpretation patch_approvals: row_store t_patch_approval t_patch_approval_update pp_id
  by unfold_locales simp_all

interpretation pull_request_records: row_store t_pull_request_record t_pull_request_record_update pl_id
  by unfold_locales simp_all

interpretation debug_attempts: row_store t_debug_attempt t_debug_attempt_update da_id
  by unfold_locales simp_all

interpretation task_events: row_store t_task_event t_task_event_update te_id
  by unfold_locales simp_all


section \<open>Weakest preconditions of the session operations\<close>

lemma wp_utc_now [wp_simps]:
  "wp utc_now Q E w = Q (e_clock (w_env w) (w_ticks w)) (w\<lparr>w_ticks := Suc (w_ticks w)\<rparr>)"
  by (simp add: wp_def utc_now_def)

lemma wp_uuid_hex [wp_simps]:
  "wp uuid_hex Q E w = Q (e_uuid (w_env w) (w_ids w)) (w\<lparr>w_ids := Suc (w_ids w)\<rparr>)"
  by (simp add: wp_def uuid_hex_def)

lemma wp_prefixed_id [wp_simps]:
  "wp (prefixed_id p) Q E w =
     Q (p @ ''_'' @ take 12 (e_uuid (w_env w) (w_ids w))) (w\<lparr>w_ids := Suc (w_ids w)\<rparr>)"
  by (simp add: prefixed_id_def wp_simps)

lemma wp_random_token [wp_simps]:
  "wp random_token Q E w = Q (e_token (w_env w) (w_tokens w)) (w\<lparr>w_tokens := Suc (w_tokens w)\<rparr>)"
  by (simp add: wp_def random_token_def)

lemma wp_db_get [wp_simps]: "wp (db_get tab k) Q E w = Q (map_of (tab (w_db w)) k) w"
  by (simp add: db_get_def wp_simps)

lemma wp_db_select [wp_simps]:
  "wp (db_select tab P) Q E w = Q (filter P (rows (tab (w_db w)))) w"
  by (simp add: db_select_def wp_simps)

lemma wp_db_insert [wp_simps]:
  "wp (db_insert tab upd key clash r) Q E w =
     (if map_of (tab (w_db w)) (key r) \<noteq> None \<or> list_ex (clash r) (rows (tab (w_db w)))
      then E IntegrityError w
      else Q () (w\<lparr>w_db := upd (\<lambda>t. t @ [(key r, r)]) (w_db w)\<rparr>))"
  by (simp add: wp_def db_insert_def)

lemma wp_db_modify [wp_simps]:
  "wp (db_modify upd key r f) Q E w =
     Q (f r) (w\<lparr>w_db := upd (row_modify (key r) f) (w_db w)\<rparr>)"
  by (simp add: wp_def db_modify_def)

lemma wp_db_update_where [wp_simps]:
  "wp (db_update_where tab upd P f) Q E w =
     Q (length (filter P (rows (tab (w_db w))))) (w\<lparr>w_db := upd (rows_where P f) (w_db w)\<rparr>)"
  by (simp add: wp_def db_update_where_def)

lemma wp_db_refresh [wp_simps]:
  "wp (db_refresh tab key r) Q E w =
     (case map_of (tab (w_db w)) (key r) of
        None \<Rightarrow> E InvalidRequestError w | Some r' \<Rightarrow> Q r' w)"
  by (simp add: db_refresh_def wp_simps split: option.split)

lemma wp_sync [wp_simps]: "wp sync Q E w = Q () (sync_world w)"
  by (simp add: sync_def wp_simps)

lemma wp_commit [wp_simps]: "wp commit Q E w = Q () (sync_world (w\<lparr>w_committed := w_db w\<rparr>))"
  by (simp add: commit_def wp_simps)

lemma wp_rollback [wp_simps]: "wp rollback Q E w = Q () (sync_world (w\<lparr>w_db := w_committed w\<rparr>))"
  by (simp add: rollback_def wp_simps)

lemma wp_begin_nested [wp_simps]:
  "wp (begin_nested m) Q E w = wp m Q (\<lambda>e w'. E e (w'\<lparr>w_db := w_db w\<rparr>)) w"
  by (simp add: wp_def begin_nested_def split: prod.split sum.split)

section \<open>Worlds without interference\<close>

text \<open>
  In a quiet world no other session commits anything: the setting of the functional
  theorems about a single request.
\<close>

definition quiet :: "world \<Rightarrow> bool" where
  "quiet w \<longleftrightarrow> e_others (w_env w) = (\<lambda>_ d. d)"

definition clean :: "world \<Rightarrow> bool" where
  "clean w \<longleftrightarrow> w_db w = w_committed w"

lemma sync_world_env [simp]: "w_env (sync_world w) = w_env w"
  by (simp add: sync_world_def Let_def)

lemma sync_world_calls [simp]: "w_calls (sync_world w) = w_calls w"
  by (simp add: sync_world_def Let_def)

lemma sync_world_request [simp]: "w_request (sync_world w) = w_request w"
  by (simp add: sync_world_def Let_def)

lemma quiet_sync_db [simp]: "quiet w \<Longrightarrow> w_db (sync_world w) = w_db w"
  by (simp add: sync_world_def quiet_def Let_def)

lemma quiet_sync_committed [simp]: "quiet w \<Longrightarrow> w_committed (sync_world w) = w_committed w"
  by (simp add: sync_world_def quiet_def Let_def)

lemma quiet_sync [simp]: "quiet (sync_world w) = quiet w"
  by (simp add: quiet_def)

lemma quiet_upd [simp]:
  "quiet (w\<lparr>w_db := d\<rparr>) = quiet w" "quiet (w\<lparr>w_committed := d\<rparr>) = quiet w"
  "quiet (w\<lparr>w_ticks := n\<rparr>) = quiet w" "quiet (w\<lparr>w_ids := n\<rparr>) = quiet w"
  "quiet (w\<lparr>w_tokens := n\<rparr>) = quiet w" "quiet (w\<lparr>w_calls := n\<rparr>) = quiet w"
  "quiet (w\<lparr>w_audit_seq := n\<rparr>) = quiet w" "quiet (w\<lparr>w_request := q\<rparr>) = quiet w"
  by (simp_all add: quiet_def)

end
