(* ===== verification/PyText.thy ===== *)
theory PyText
  imports Prelude
begin

text \<open>
  The text functions of Python's standard library that the services call: decimal numbers,
  \<^verbatim>\<open>str.replace\<close>, \<^verbatim>\<open>str.join\<close>, the length of a UTF-8 encoding, \<^verbatim>\<open>json.dumps(..., sort_keys=True)\<close>,
  \<^verbatim>\<open>urllib.parse.urlsplit\<close>, \<^verbatim>\<open>urlunsplit\<close> and \<^verbatim>\<open>unquote\<close>. A string is a list of characters with code
  points below 256.
\<close>

section \<open>Strings\<close>

fun nat_digits :: "nat \<Rightarrow> string" where
  "nat_digits n =
     (if n < 10 then [char_of (48 + n)]
      else nat_digits (n div 10) @ [char_of (48 + n mod 10)])"

declare nat_digits.simps [simp del]

definition show_int :: "int \<Rightarrow> string" where
  "show_int n = (if n < 0 then CHR ''-'' # nat_digits (nat (- n)) else nat_digits (nat n))"

text \<open>\<^verbatim>\<open>s.replace(old, new)\<close> for a non-empty \<open>old\<close>: left to right, without overlaps.\<close>

function replace_all :: "string \<Rightarrow> string \<Rightarrow> string \<Rightarrow> string" where
  "replace_all old new [] = []"
| "replace_all old new (c # cs) =
     (if old \<noteq> [] \<and> starts_with old (c # cs)
      then new @ replace_all old new (drop (length old) (c # cs))
      else c # replace_all old new cs)"
  by pat_completeness auto
termination
  by (relation "measure (\<lambda>(old, new, s). length s)") (auto simp: Suc_le_eq)

text \<open>\<^verbatim>\<open>part in s\<close>.\<close>

fun occurs_in :: "string \<Rightarrow> string \<Rightarrow> bool" where
  "occurs_in p [] = (p = [])"
| "occurs_in p (c # cs) = (starts_with p (c # cs) \<or> occurs_in p cs)"

text \<open>\<^verbatim>\<open>len(s.encode("utf-8"))\<close>.\<close>

definition utf8_length :: "string \<Rightarrow> int" where
  "utf8_length s = sum_list (map (\<lambda>c. if of_char c < (128::nat) then 1 else 2) s)"

definition strip_char :: "char \<Rightarrow> string \<Rightarrow> string" where
  "strip_char d s = rev (dropWhile (\<lambda>c. c = d) (rev (dropWhile (\<lambda>c. c = d) s)))"

text \<open>\<^verbatim>\<open>s.partition(sep)\<close> at the first and \<^verbatim>\<open>s.rpartition(sep)\<close> at the last separator character.\<close>

definition partition_at :: "char \<Rightarrow> string \<Rightarrow> string \<times> bool \<times> string" where
  "partition_at d s =
     (let a = takeWhile (\<lambda>c. c \<noteq> d) s; r = dropWhile (\<lambda>c. c \<noteq> d) s
      in (a, r \<noteq> [], drop 1 r))"

definition rpartition_at :: "char \<Rightarrow> string \<Rightarrow> string \<times> bool \<times> string" where
  "rpartition_at d s =
     (case partition_at d (rev s) of
        (a, True, b) \<Rightarrow> (rev b, True, rev a)
      | (a, False, b) \<Rightarrow> ([], False, s))"

section \<open>JSON text\<close>

definition hex_digit :: "nat \<Rightarrow> char" where
  "hex_digit n = char_of (if n < 10 then 48 + n else 87 + n)"

definition json_char :: "char \<Rightarrow> string" where
  "json_char c =
     (let n = (of_char c :: nat); bs = CHR 0x5C in
      if n = 34 then [bs, c]
      else if n = 92 then [bs, bs]
      else if n = 10 then [bs, CHR ''n'']
      else if n = 13 then [bs, CHR ''r'']
      else if n = 9 then [bs, CHR ''t'']
      else if n = 8 then [bs, CHR ''b'']
      else if n = 12 then [bs, CHR ''f'']
      else if 32 \<le> n \<and> n \<le> 126 then [c]
      else [bs, CHR ''u'', CHR ''0'', CHR ''0'', hex_digit (n div 16), hex_digit (n mod 16)])"

definition json_string :: "string \<Rightarrow> string" where
  "json_string s = [CHR 0x22] @ concat (map json_char s) @ [CHR 0x22]"

fun json_dumps :: "json \<Rightarrow> string" where
  "json_dumps JNull = ''null''"
| "json_dumps (JBool b) = (if b then ''true'' else ''false'')"
| "json_dumps (JInt n) = show_int n"
| "json_dumps (JFloat x) = x"
| "json_dumps (JStr s) = json_string s"
| "json_dumps (JList xs) = ''['' @ join_with '', '' (map json_dumps xs) @ '']''"
| "json_dumps (JObj kvs) =
     ''{'' @ join_with '', ''
       (map (\<lambda>(k, v). json_string k @ '': '' @ v)
          (sort_key fst (map (\<lambda>(k, v). (k, json_dumps v)) kvs))) @ ''}''"

section \<open>URLs\<close>

record url =
  url_scheme :: string
  url_netloc :: string
  url_path :: string
  url_query :: string
  url_fragment :: string

definition is_letter :: "char \<Rightarrow> bool" where
  "is_letter c \<longleftrightarrow> is_alnum c \<and> (57::nat) < of_char c"

definition scheme_char :: "char \<Rightarrow> bool" where
  "scheme_char c \<longleftrightarrow> is_alnum c \<or> c \<in> set ''+-.''"

definition clean_url :: "string \<Rightarrow> string" where
  "clean_url s =
     filter (\<lambda>c. of_char c \<notin> {9, 10, 13::nat}) (dropWhile (\<lambda>c. of_char c \<le> (32::nat)) s)"

text \<open>
  \<^verbatim>\<open>urlsplit\<close>; \<open>None\<close> is its \<^verbatim>\<open>ValueError\<close> for unbalanced brackets. The validation of a bracketed
  IPv6 host is not repeated.
\<close>

definition urlsplit :: "string \<Rightarrow> url option" where
  "urlsplit text =
     (let s = clean_url text;
          (a, colon, b) = partition_at (CHR '':'') s;
          has_scheme = (colon \<and> a \<noteq> [] \<and> is_letter (hd a) \<and> list_all scheme_char a);
          scheme = (if has_scheme then lower a else []);
          rest = (if has_scheme then b else s);
          has_net = starts_with ''//'' rest;
          tail = (if has_net then drop 2 rest else rest);
          stop = (\<lambda>c. c \<in> set ''/?#'');
          netloc = (if has_net then takeWhile (\<lambda>c. \<not> stop c) tail else []);
          rest = (if has_net then dropWhile (\<lambda>c. \<not> stop c) tail else rest);
          (rest, _, fragment) = partition_at (CHR ''#'') rest;
          (path, _, query) = partition_at (CHR ''?'') rest
      in if (CHR ''['' \<in> set netloc) \<noteq> (CHR '']'' \<in> set netloc) then None
         else Some \<lparr>url_scheme = scheme, url_netloc = netloc, url_path = path,
                    url_query = query, url_fragment = fragment\<rparr>)"

definition uses_netloc :: "string list" where
  "uses_netloc = [[], ''ftp'', ''http'', ''gopher'', ''nntp'', ''telnet'', ''imap'', ''wais'',
     ''file'', ''mms'', ''https'', ''shttp'', ''snews'', ''prospero'', ''rtsp'', ''rtspu'', ''rsync'',
     ''svn'', ''svn+ssh'', ''sftp'', ''nfs'', ''git'', ''git+ssh'', ''ws'', ''wss'']"

text \<open>\<^verbatim>\<open>urlunsplit((scheme, netloc, path, "", ""))\<close>.\<close>

definition url_without_query :: "url \<Rightarrow> string" where
  "url_without_query u =
     (let path = url_path u;
          body = (if url_netloc u \<noteq> [] \<or>
                     (url_scheme u \<noteq> [] \<and> url_scheme u \<in> set uses_netloc \<and> \<not> starts_with ''//'' path)
                  then ''//'' @ url_netloc u @
                       (if path \<noteq> [] \<and> hd path \<noteq> CHR ''/'' then ''/'' @ path else path)
                  else path)
      in if url_scheme u \<noteq> [] then url_scheme u @ '':'' @ body else body)"

definition url_username :: "url \<Rightarrow> string option" where
  "url_username u =
     (case rpartition_at (CHR ''@'') (url_netloc u) of
        (info, has, _) \<Rightarrow> if has then Some (fst (partition_at (CHR '':'') info)) else None)"

definition url_password :: "url \<Rightarrow> string option" where
  "url_password u =
     (case rpartition_at (CHR ''@'') (url_netloc u) of
        (info, has, _) \<Rightarrow>
          (case partition_at (CHR '':'') info of
             (_, has_password, password) \<Rightarrow> if has \<and> has_password then Some password else None))"

definition url_hostname :: "url \<Rightarrow> string option" where
  "url_hostname u =
     (case rpartition_at (CHR ''@'') (url_netloc u) of
        (_, _, hostinfo) \<Rightarrow>
          (case partition_at (CHR ''['') hostinfo of
             (_, bracket, bracketed) \<Rightarrow>
               (let host = (if bracket then fst (partition_at (CHR '']'') bracketed)
                            else fst (partition_at (CHR '':'') hostinfo))
                in if host = [] then None
                   else case partition_at (CHR ''%'') host of
                     (name, percent, zone) \<Rightarrow>
                       Some (lower name @ (if percent then ''%'' @ zone else [])))))"

definition hex_value :: "char \<Rightarrow> nat option" where
  "hex_value c =
     (let n = (of_char c :: nat) in
      if 48 \<le> n \<and> n \<le> 57 then Some (n - 48)
      else if 97 \<le> n \<and> n \<le> 102 then Some (n - 87)
      else if 65 \<le> n \<and> n \<le> 70 then Some (n - 55)
      else None)"

text \<open>\<^verbatim>\<open>unquote\<close>: percent escapes as the bytes they name.\<close>

fun unquote :: "string \<Rightarrow> string" where
  "unquote (c # x # y # cs) =
     (case (hex_value x, hex_value y) of
        (Some a, Some b) \<Rightarrow>
          if c = CHR ''%'' then char_of (16 * a + b) # unquote cs else c # unquote (x # y # cs)
      | _ \<Rightarrow> c # unquote (x # y # cs))"
| "unquote s = s"

section \<open>Facts\<close>

lemma replace_all_Nil [simp]: "replace_all [] new s = s"
  by (induction s) auto

text \<open>A replacement whose new text shares no character with the old one removes the old one.\<close>

lemma starts_with_prefix: "starts_with p s \<Longrightarrow> s = p @ drop (length p) s"
  by (induction p s rule: starts_with.induct) auto

lemma join_with_Cons: "xs \<noteq> [] \<Longrightarrow> join_with sep (x # xs) = x @ sep @ join_with sep xs"
  by (cases xs) simp_all

end
