(* ===== verification/Redaction.thy ===== *)
theory Redaction
  imports PyText
begin

text \<open>
  What is removed from texts and values before they are stored or shown: the text of an audit
  record (\<^verbatim>\<open>audit_request_context.py\<close>), the metadata of a workspace audit record
  (\<^verbatim>\<open>workspace_audit.py\<close>), the payload of a run's log entry and the error text of an external
  service (\<^verbatim>\<open>cloud_runner.py\<close>).
\<close>

section \<open>Text that looks like a credential\<close>

text \<open>
  \<^verbatim>\<open>_SENSITIVE_TEXT_PATTERN.search\<close>: one of the alternatives matches, without regard to case,
  at some position. \<open>tok_char\<close> is the class \<^verbatim>\<open>[A-Za-z0-9_-]\<close>.
\<close>

definition tok_char :: "char \<Rightarrow> bool" where
  "tok_char c \<longleftrightarrow> is_alnum c \<or> c = CHR ''_'' \<or> c = CHR ''-''"

definition after_prefix :: "string \<Rightarrow> string \<Rightarrow> string option" where
  "after_prefix p s = (if starts_with p s then Some (drop (length p) s) else None)"

text \<open>\<^verbatim>\<open>[:=]\s*\S+\<close> after optional blanks, the tail of the key-value alternative.\<close>

definition assigns_value :: "string \<Rightarrow> bool" where
  "assigns_value s =
     (case dropWhile is_space s of
        [] \<Rightarrow> False
      | c # cs \<Rightarrow> (c = CHR '':'' \<or> c = CHR ''='') \<and> dropWhile is_space cs \<noteq> [])"

definition key_value_at :: "string \<Rightarrow> string \<Rightarrow> bool" where
  "key_value_at k s =
     (case after_prefix k s of None \<Rightarrow> False | Some rest \<Rightarrow> assigns_value rest)"

definition sensitive_here :: "string \<Rightarrow> bool" where
  "sensitive_here s \<longleftrightarrow>
     (case after_prefix ''bearer'' s of
        None \<Rightarrow> False
      | Some rest \<Rightarrow>
          (case rest of [] \<Rightarrow> False | c # _ \<Rightarrow> is_space c \<and> dropWhile is_space rest \<noteq> [])) \<or>
     list_ex (\<lambda>p. case after_prefix p s of
          None \<Rightarrow> False
        | Some rest \<Rightarrow> (case rest of [] \<Rightarrow> False | c # _ \<Rightarrow> tok_char c))
       [''ghp_'', ''gho_'', ''ghu_'', ''ghs_'', ''ghr_'', ''sk-'', ''scdc_test_'', ''scdc_worker_''] \<or>
     (case after_prefix ''__host-ai_scdc_session='' s of
        None \<Rightarrow> False
      | Some rest \<Rightarrow> (case rest of [] \<Rightarrow> False | c # _ \<Rightarrow> \<not> is_space c)) \<or>
     list_ex (\<lambda>k. key_value_at k s)
       [''session'', ''session_secret'', ''worker_callback'', ''api_token'', ''authorization_code'',
        ''otp'', ''cookie'']"

fun search_sensitive :: "string \<Rightarrow> bool" where
  "search_sensitive [] = False"
| "search_sensitive (c # cs) = (sensitive_here (c # cs) \<or> search_sensitive cs)"

text \<open>
  \<^verbatim>\<open>_contains_opaque_secret_candidate\<close>: a maximal run of at least 32 token characters, at least
  eight of them different.
\<close>

fun token_runs :: "string \<Rightarrow> string \<Rightarrow> string list" where
  "token_runs run [] = [run]"
| "token_runs run (c # cs) =
     (if tok_char c then token_runs (run @ [c]) cs else run # token_runs [] cs)"

definition contains_opaque_secret_candidate :: "string \<Rightarrow> bool" where
  "contains_opaque_secret_candidate value =
     list_ex (\<lambda>run. 32 \<le> length run \<and> 8 \<le> length (dedup run)) (token_runs [] value)"

definition is_printable :: "char \<Rightarrow> bool" where
  "is_printable c = (let n = (of_char c :: nat) in
     32 \<le> n \<and> n \<le> 126 \<or> 161 \<le> n \<and> n \<noteq> 173)"

definition safe_audit_text :: "string option \<Rightarrow> nat \<Rightarrow> string option" where
  "safe_audit_text value max_length =
     (case value of
        None \<Rightarrow> None
      | Some v \<Rightarrow>
          (let normalized = filter is_printable (strip v) in
           if normalized = [] then None
           else if search_sensitive (lower normalized) \<or>
                   contains_opaque_secret_candidate normalized
           then Some ''[redacted]''
           else Some (take max_length normalized)))"

definition safe_user_agent :: "string option \<Rightarrow> string option" where
  "safe_user_agent value = safe_audit_text value 512"

section \<open>Audit metadata\<close>

definition sensitive_audit_key_parts :: "string list" where
  "sensitive_audit_key_parts = [''secret'', ''token'', ''receipt'', ''content'', ''message'', ''stdout'', ''stderr'', ''payload'',
     ''diff'', ''download_url'', ''presigned'', ''encrypted'', ''authorization'', ''clone_token'', ''queue_receipt'', ''callback'']"

fun redact_audit_metadata :: "json \<Rightarrow> json" where
  "redact_audit_metadata (JObj kvs) =
     JObj (map (\<lambda>(k, v).
       (k, if list_ex (\<lambda>part. is_infix part (lower k)) sensitive_audit_key_parts
           then JStr ''[redacted]'' else redact_audit_metadata v)) kvs)"
| "redact_audit_metadata (JList xs) = JList (map redact_audit_metadata xs)"
| "redact_audit_metadata (JStr s) =
     (case safe_audit_text (Some s) 256 of
        None \<Rightarrow> JNull
      | Some safe_value \<Rightarrow>
          if safe_value = ''[redacted]'' then JStr safe_value
          else if 256 < length s then JStr (safe_value @ ''...'')
          else JStr safe_value)"
| "redact_audit_metadata JNull = JNull"
| "redact_audit_metadata (JBool b) = JBool b"
| "redact_audit_metadata (JInt n) = JInt n"
| "redact_audit_metadata (JFloat x) = JFloat x"

section \<open>Payloads of log entries\<close>

definition is_sensitive_payload_key :: "string \<Rightarrow> bool" where
  "is_sensitive_payload_key key \<longleftrightarrow>
     (let normalized = filter py_isalnum (lower key) in
      lower key \<in> {''token'', ''github_token'', ''access_token'', ''authorization'', ''password'',
        ''secret''} \<or>
      list_ex (\<lambda>part. is_infix part normalized)
        [''token'', ''secret'', ''password'', ''authorization''])"

fun redact_sensitive_values :: "json \<Rightarrow> json" where
  "redact_sensitive_values (JObj kvs) =
     JObj (map (\<lambda>(k, v). (k, if is_sensitive_payload_key k then JStr ''***REDACTED***''
                            else redact_sensitive_values v)) kvs)"
| "redact_sensitive_values (JList xs) = JList (map redact_sensitive_values xs)"
| "redact_sensitive_values JNull = JNull"
| "redact_sensitive_values (JBool b) = JBool b"
| "redact_sensitive_values (JInt n) = JInt n"
| "redact_sensitive_values (JFloat x) = JFloat x"
| "redact_sensitive_values (JStr s) = JStr s"

section \<open>Error texts of external services\<close>

text \<open>
  The two patterns of \<^verbatim>\<open>_redact_external_error\<close>. \<open>key_value_match s\<close> is the match of the first at the
  start of \<open>s\<close> (the key as written and the text after the match), \<open>bearer_match s\<close> that of
  the second.
\<close>

definition word_char :: "char \<Rightarrow> bool" where
  "word_char c \<longleftrightarrow> py_isalnum c \<or> c = CHR ''_''"

definition error_value_char :: "char \<Rightarrow> bool" where
  "error_value_char c \<longleftrightarrow> \<not> is_space c \<and> c \<noteq> CHR ''&''"

definition after_value :: "(char \<Rightarrow> bool) \<Rightarrow> string \<Rightarrow> string option" where
  "after_value P s = (case s of [] \<Rightarrow> None | c # _ \<Rightarrow> if P c then Some (dropWhile P s) else None)"

definition after_spaces :: "string \<Rightarrow> string option" where
  "after_spaces s =
     (case s of [] \<Rightarrow> None | c # _ \<Rightarrow> if is_space c then Some (dropWhile is_space s) else None)"

definition after_word :: "string \<Rightarrow> string \<Rightarrow> string option" where
  "after_word k s = (if starts_with k (lower s) then Some (drop (length k) s) else None)"

definition after_error_value :: "string \<Rightarrow> string option" where
  "after_error_value s =
     (case Option.bind (Option.bind (after_word ''bearer'' s) after_spaces)
             (after_value error_value_char) of
        Some r \<Rightarrow> Some r
      | None \<Rightarrow> after_value error_value_char s)"

definition after_separator :: "string \<Rightarrow> string option" where
  "after_separator s =
     (case dropWhile is_space s of
        [] \<Rightarrow> None
      | c # cs \<Rightarrow> if c = CHR '':'' \<or> c = CHR ''='' then Some (dropWhile is_space cs) else None)"

definition key_value_match :: "string \<Rightarrow> (string \<times> string) option" where
  "key_value_match s =
     first_of (List.map_filter
       (\<lambda>k. map_option (Pair (take (length k) s))
              (Option.bind (Option.bind (after_word k s) after_separator) after_error_value))
       [''token'', ''access_token'', ''authorization'', ''password'', ''secret'', ''sig''])"

definition bearer_char :: "char \<Rightarrow> bool" where
  "bearer_char c \<longleftrightarrow> is_alnum c \<or> c \<in> set ''._~+/=-''"

definition bearer_match :: "string \<Rightarrow> string option" where
  "bearer_match s =
     Option.bind (Option.bind (after_word ''bearer'' s) after_spaces) (after_value bearer_char)"

text \<open>
  \<^verbatim>\<open>pattern.sub\<close>: at each position that is not inside a word, the match is replaced and the
  search goes on behind it. Each step consumes a character, so the length of the text is
  enough fuel.
\<close>

primrec sub_key_values :: "nat \<Rightarrow> bool \<Rightarrow> string \<Rightarrow> string" where
  "sub_key_values 0 inside s = s"
| "sub_key_values (Suc n) inside s =
     (case s of
        [] \<Rightarrow> []
      | c # cs \<Rightarrow>
          (case (if inside then None else key_value_match s) of
             Some (key, rest) \<Rightarrow> key @ ''=[redacted]'' @ sub_key_values n False rest
           | None \<Rightarrow> c # sub_key_values n (word_char c) cs))"

primrec sub_bearer :: "nat \<Rightarrow> bool \<Rightarrow> string \<Rightarrow> string" where
  "sub_bearer 0 inside s = s"
| "sub_bearer (Suc n) inside s =
     (case s of
        [] \<Rightarrow> []
      | c # cs \<Rightarrow>
          (case (if inside then None else bearer_match s) of
             Some rest \<Rightarrow> ''Bearer [redacted]'' @ sub_bearer n False rest
           | None \<Rightarrow> c # sub_bearer n (word_char c) cs))"

definition redact_external_error :: "string option \<Rightarrow> string option" where
  "redact_external_error value =
     (case value of
        None \<Rightarrow> None
      | Some v \<Rightarrow>
          (let redacted = sub_key_values (length v) False v
           in Some (sub_bearer (length redacted) False redacted)))"

section \<open>What redaction guarantees\<close>

text \<open>The entries of all dictionaries inside a value, and the texts that are values.\<close>

fun entries :: "json \<Rightarrow> (string \<times> json) list" where
  "entries (JObj kvs) = concat (map (\<lambda>(k, v). (k, v) # entries v) kvs)"
| "entries (JList xs) = concat (map entries xs)"
| "entries j = []"

fun texts :: "json \<Rightarrow> string list" where
  "texts (JObj kvs) = concat (map (\<lambda>(k, v). texts v) kvs)"
| "texts (JList xs) = concat (map texts xs)"
| "texts (JStr s) = [s]"
| "texts j = []"

definition masked :: "(string \<Rightarrow> bool) \<Rightarrow> string \<Rightarrow> json \<Rightarrow> bool" where
  "masked sensitive mark j \<longleftrightarrow> (\<forall>(k, v) \<in> set (entries j). sensitive k \<longrightarrow> v = JStr mark)"

lemma masked_simps [simp]:
  "masked P m JNull" "masked P m (JBool b)" "masked P m (JInt n)" "masked P m (JFloat x)"
  "masked P m (JStr s)"
  "masked P m (JList xs) \<longleftrightarrow> (\<forall>x \<in> set xs. masked P m x)"
  "masked P m (JObj kvs) \<longleftrightarrow> (\<forall>(k, v) \<in> set kvs. (P k \<longrightarrow> v = JStr m) \<and> masked P m v)"
  by (auto simp: masked_def split_def)

lemma redact_sensitive_masked:
  "masked is_sensitive_payload_key ''***REDACTED***'' (redact_sensitive_values j)"
  by (induction j rule: redact_sensitive_values.induct) (auto simp: split_def)

definition is_sensitive_audit_key :: "string \<Rightarrow> bool" where
  "is_sensitive_audit_key k \<longleftrightarrow> list_ex (\<lambda>part. is_infix part (lower k)) sensitive_audit_key_parts"

lemma redact_audit_masked: "masked is_sensitive_audit_key ''[redacted]'' (redact_audit_metadata j)"
  by (induction j rule: redact_audit_metadata.induct)
    (auto simp: is_sensitive_audit_key_def split_def split: option.split)

text \<open>What safe_audit_text lets through is printable, not empty and no longer than asked.\<close>

lemma safe_audit_text_bounds:
  assumes "safe_audit_text v n = Some s" and "10 \<le> n"
  shows "length s \<le> n \<and> list_all is_printable s"
  using assms
  by (auto simp: safe_audit_text_def Let_def list_all_iff is_printable_def
      dest!: in_set_takeD split: option.splits if_splits)

definition audit_text :: "string \<Rightarrow> bool" where
  "audit_text s \<longleftrightarrow> length s \<le> 259 \<and> list_all is_printable s"

lemma audit_text_mark: "audit_text ''[redacted]''"
  by (simp add: audit_text_def is_printable_def)

lemma audit_text_cut: "length s \<le> 256 \<Longrightarrow> list_all is_printable s \<Longrightarrow> audit_text s \<and> audit_text (s @ ''...'')"
  by (simp add: audit_text_def is_printable_def)

lemma redact_audit_texts: "list_all audit_text (texts (redact_audit_metadata j))"
proof (induction j rule: redact_audit_metadata.induct)
  case (1 kvs)
  have "list_all audit_text (texts (if list_ex (\<lambda>part. is_infix part (lower k)) sensitive_audit_key_parts
      then JStr ''[redacted]'' else redact_audit_metadata v))" if "(k, v) \<in> set kvs" for k v
    using 1 [OF that refl] audit_text_mark by (cases "list_ex (\<lambda>part. is_infix part (lower k)) sensitive_audit_key_parts") simp_all
  then show ?case by (auto simp: list_all_iff)
next
  case (2 xs)
  then show ?case by (auto simp: list_all_iff)
next
  case (3 s)
  show ?case
  proof (cases "safe_audit_text (Some s) 256")
    case (Some t)
    have "length t \<le> 256 \<and> list_all is_printable t"
      by (rule safe_audit_text_bounds [OF Some]) simp
    then show ?thesis using Some audit_text_mark audit_text_cut [of t] by simp
  qed simp
qed simp_all

end
