(* ===== verification/Invariance.thy ===== *)
theory Invariance
  imports World Redaction
begin

text \<open>
  Tables under their keys, and how an invariant of the database survives requests. \<open>good G\<close>: the property holds of what the
  session sees and of what is committed, and the other sessions keep it. \<open>safe G\<close> is what is
  left when an action raises: the committed database is good, and for an \<^verbatim>\<open>HTTPException\<close>, which
  services catch and go on from, the session's view is good too. A crash of another kind in the
  middle of a transaction may leave uncommitted changes, which the end of the request discards.
\<close>

section \<open>Keyed tables\<close>

text \<open>
  A table is keyed when no key occurs twice and every row sits under its own key: what the
  primary key constraint of the database guarantees.
\<close>

definition keyed :: "('r \<Rightarrow> string) \<Rightarrow> 'r table \<Rightarrow> bool" where
  "keyed key t \<longleftrightarrow> distinct (map fst t) \<and> list_all (\<lambda>(k, r). key r = k) t"

lemma keyed_Nil [simp]: "keyed key []"
  by (simp add: keyed_def)

lemma keyed_elem: "keyed key t \<Longrightarrow> (k, r) \<in> set t \<Longrightarrow> key r = k"
  by (auto simp: keyed_def list_all_iff)

lemma keyed_get: "keyed key t \<Longrightarrow> r \<in> set (rows t) \<Longrightarrow> map_of t (key r) = Some r"
  by (auto simp: keyed_def rows_def list_all_iff)

lemma keyed_key: "keyed key t \<Longrightarrow> map_of t k = Some r \<Longrightarrow> key r = k"
  by (auto simp: keyed_def list_all_iff dest!: map_of_SomeD)

lemma keyed_insert:
  "keyed key t \<Longrightarrow> map_of t (key r) = None \<Longrightarrow> keyed key (t @ [(key r, r)])"
  by (auto simp: keyed_def map_of_eq_None_iff)

lemma keyed_row_modify:
  assumes "keyed key t" and "\<And>r. key (f r) = key r"
  shows "keyed key (row_modify k f t)"
proof (cases "map_of t k")
  case None
  then show ?thesis using assms(1) by (simp add: row_modify_def)
next
  case (Some r)
  have "list_all (\<lambda>(k, r). key r = k) (AList.update k (f r) t)"
    using assms Some keyed_key [OF assms(1) Some]
    by (induction t) (auto simp: keyed_def split: if_splits)
  then show ?thesis
    using assms(1) Some by (simp add: row_modify_def keyed_def fst_update)
qed

lemma rows_rows_where: "rows (rows_where P f t) = map (\<lambda>r. if P r then f r else r) (rows t)"
  by (simp add: rows_where_def rows_def comp_def split_def)

lemma map_of_rows_where:
  "map_of (rows_where P f t) k = map_option (\<lambda>r. if P r then f r else r) (map_of t k)"
  by (induction t) (auto simp: rows_where_def)

lemma keyed_rows_where:
  assumes "keyed key t" and "\<And>r. key (f r) = key r"
  shows "keyed key (rows_where P f t)"
proof -
  have "map fst (rows_where P f t) = map fst t"
    by (simp add: rows_where_def comp_def split_def)
  moreover have "list_all (\<lambda>(k, r). key r = k) (rows_where P f t)"
    using assms by (auto simp: keyed_def rows_where_def list_all_iff)
  ultimately show ?thesis using assms(1) by (simp add: keyed_def)
qed

text \<open>Lookup after the change of a row.\<close>

lemma map_of_row_modify [simp]:
  "map_of (row_modify k f t) j = (if j = k then map_option f (map_of t k) else map_of t j)"
  by (simp add: row_modify_def update_conv split: option.split)

text \<open>A guarded update of one row by its key.\<close>

lemma rows_where_one:
  assumes "keyed key t" and "map_of t k = Some r" and "Q r"
  shows "rows_where (\<lambda>x. key x = k \<and> Q x) f t = AList.update k (f r) t"
  using assms
proof (induction t)
  case Nil
  then show ?case by simp
next
  case (Cons kv t)
  obtain k' r' where kv: "kv = (k', r')" by (cases kv)
  from Cons.prems(1) have key: "key r' = k'" and t: "keyed key t" and new: "k' \<notin> fst ` set t"
    by (auto simp: keyed_def kv)
  show ?case
  proof (cases "k' = k")
    case True
    have "key x \<noteq> k" if "(a, x) \<in> set t" for a x
      using keyed_elem [OF t that] new that True by force
    then have "rows_where (\<lambda>x. key x = k \<and> Q x) f t = t"
      unfolding rows_where_def by (intro map_idI) auto
    then show ?thesis using True Cons.prems key by (simp add: kv rows_where_def)
  next
    case False
    then show ?thesis using Cons.IH [OF t] Cons.prems key by (simp add: kv rows_where_def)
  qed
qed

lemma count_one:
  assumes "keyed key t" and "map_of t k = Some r"
  shows "length (filter (\<lambda>x. key x = k \<and> Q x) (rows t)) = (if Q r then 1 else 0)"
  using assms
proof (induction t)
  case Nil
  then show ?case by simp
next
  case (Cons kv t)
  obtain k' r' where kv: "kv = (k', r')" by (cases kv)
  from Cons.prems(1) have key: "key r' = k'" and t: "keyed key t" and new: "k' \<notin> fst ` set t"
    by (auto simp: keyed_def kv)
  show ?case
  proof (cases "k' = k")
    case True
    have "key x \<noteq> k" if "x \<in> set (rows t)" for x
      using keyed_elem [OF t] new that True by (force simp: rows_def)
    then have "filter (\<lambda>x. key x = k \<and> Q x) (rows t) = []" by (simp add: filter_empty_conv)
    then show ?thesis using True Cons.prems key by (simp add: kv rows_def)
  next
    case False
    then show ?thesis using Cons.IH [OF t] Cons.prems key by (simp add: kv rows_def)
  qed
qed

lemma count_none:
  assumes "keyed key t" and "map_of t k = None"
  shows "length (filter (\<lambda>x. key x = k \<and> Q x) (rows t)) = 0"
  using assms by (auto simp: filter_empty_conv dest: keyed_get)

lemma set_rows_modify:
  "set (rows (row_modify k f t)) \<subseteq> set (rows t) \<union> {f r | r. map_of t k = Some r}"
  using set_rows_update [of t k] by (fastforce simp: row_modify_def split: option.splits)

section \<open>Invariants of the database\<close>

definition good :: "(db \<Rightarrow> bool) \<Rightarrow> world \<Rightarrow> bool" where
  "good G w \<longleftrightarrow> G (w_db w) \<and> G (w_committed w) \<and> (\<forall>k d. G d \<longrightarrow> G (e_others (w_env w) k d))"

definition safe :: "(db \<Rightarrow> bool) \<Rightarrow> exn \<Rightarrow> world \<Rightarrow> bool" where
  "safe G e w \<longleftrightarrow> G (w_committed w) \<and> (\<forall>k d. G d \<longrightarrow> G (e_others (w_env w) k d)) \<and>
     (is_http e \<longrightarrow> G (w_db w))"

lemma good_safe [intro, keeps_intros]: "good G w \<Longrightarrow> safe G e w"
  by (simp add: good_def safe_def)

lemma safe_http: "safe G e w \<Longrightarrow> is_http e \<Longrightarrow> good G w"
  by (simp add: good_def safe_def)

text \<open>The committed database and the others are all that a new session depends on.\<close>

definition based :: "(db \<Rightarrow> bool) \<Rightarrow> world \<Rightarrow> bool" where
  "based G w \<longleftrightarrow> G (w_committed w) \<and> (\<forall>k d. G d \<longrightarrow> G (e_others (w_env w) k d))"

lemma good_based: "good G w \<Longrightarrow> based G w"
  by (simp add: good_def based_def)

lemma safe_based: "safe G e w \<Longrightarrow> based G w"
  by (simp add: safe_def based_def)

lemma based_upd [simp]:
  "based G (w\<lparr>w_db := d\<rparr>) = based G w" "based G (w\<lparr>w_tokens := n\<rparr>) = based G w"
  by (simp_all add: based_def)

lemma good_sync: "good G w \<Longrightarrow> good G (sync_world w)"
  by (simp add: good_def sync_world_def Let_def)

lemma based_sync: "based G w \<Longrightarrow> based G (sync_world w)"
  by (simp add: based_def sync_world_def Let_def)

lemma based_fresh: "based G w \<Longrightarrow> good G (sync_world (w\<lparr>w_db := w_committed w\<rparr>))"
  by (rule good_sync) (simp add: based_def good_def)

lemma good_committed: "good G w \<Longrightarrow> G (w_committed w)"
  by (simp add: good_def)

lemma safe_rollback: "safe G e w \<Longrightarrow> good G (sync_world (w\<lparr>w_db := w_committed w\<rparr>))"
  by (rule good_sync) (simp add: good_def safe_def)

lemma good_upd [simp]:
  "good G (w\<lparr>w_audit_seq := n\<rparr>) = good G w" "good G (w\<lparr>w_calls := n\<rparr>) = good G w"
  "good G (w\<lparr>w_ticks := n\<rparr>) = good G w" "good G (w\<lparr>w_ids := n\<rparr>) = good G w"
  "good G (w\<lparr>w_tokens := n\<rparr>) = good G w" "good G (w\<lparr>w_request := q\<rparr>) = good G w"
  by (simp_all add: good_def)

text \<open>The rollback that follows a caught exception restores the invariant.\<close>

lemma wp_rollback_safe:
  "safe G e w \<Longrightarrow> (\<And>w'. good G w' \<Longrightarrow> Q () w') \<Longrightarrow> wp rollback Q E w"
  by (simp add: wp_simps safe_rollback)

section \<open>The session operations\<close>

lemma keeps_session [keeps_intros]:
  "keeps (good G) (safe G) utc_now" "keeps (good G) (safe G) uuid_hex"
  "keeps (good G) (safe G) (prefixed_id p)" "keeps (good G) (safe G) random_token"
  "keeps (good G) (safe G) sync" "keeps (good G) (safe G) commit"
  "keeps (good G) (safe G) rollback" "keeps (good G) (safe G) (db_get tab k)"
  "keeps (good G) (safe G) (db_select tab' P)" "keeps (good G) (safe G) (db_refresh tab'' key r)"
  by (auto intro!: keepsI simp: wp_simps good_def safe_def sync_world_def Let_def split: option.split)

lemma keeps_http [keeps_intros]: "keeps (good G) (safe G) (raise e)"
  by (rule keeps_raise) (rule good_safe)

lemma keeps_insert:
  assumes "\<And>d. G d \<Longrightarrow> map_of (tab d) (key r) = None \<Longrightarrow> \<not> list_ex (clash r) (rows (tab d)) \<Longrightarrow>
    G (upd (\<lambda>t. t @ [(key r, r)]) d)"
  shows "keeps (good G) (safe G) (db_insert tab upd key clash r)"
  by (rule keepsI) (use assms in \<open>simp add: wp_simps good_def safe_def\<close>)

lemma keeps_row_modify:
  assumes "\<And>d. G d \<Longrightarrow> G (upd (row_modify (key r) f) d)"
  shows "keeps (good G) (safe G) (db_modify upd key r f)"
  by (rule keepsI) (use assms in \<open>simp add: wp_simps good_def\<close>)

lemma keeps_update_where:
  assumes "\<And>d. G d \<Longrightarrow> G (upd (rows_where P f) d)"
  shows "keeps (good G) (safe G) (db_update_where tab upd P f)"
  by (rule keepsI) (use assms in \<open>simp add: wp_simps good_def\<close>)

text \<open>A savepoint leaves the invariant on every way out.\<close>

lemma keeps_begin_nested:
  assumes "keeps (good G) (safe G) m"
  shows "keeps (good G) (\<lambda>_. good G) (begin_nested m)"
proof (rule keepsI)
  fix w assume g: "good G w"
  then have "wp m (\<lambda>_. good G) (safe G) w" by (rule keepsD [OF assms])
  then show "wp (begin_nested m) (\<lambda>_. good G) (\<lambda>_. good G) w"
    unfolding wp_begin_nested by (rule wp_mono) (use g in \<open>simp_all add: good_def safe_def\<close>)
qed

lemma keeps_begin_nested_safe [keeps_intros]:
  "keeps (good G) (safe G) m \<Longrightarrow> keeps (good G) (safe G) (begin_nested m)"
  by (rule keeps_weaken [OF keeps_begin_nested good_safe])

text \<open>
  An action that writes nothing to the database leaves the invariant even when it raises:
  any exception of it may be handled.
\<close>

lemma keeps_safe_calm:
  "keeps (good G) (\<lambda>_. good G) m \<Longrightarrow> keeps (good G) (safe G) m"
  by (rule keeps_weaken [OF _ good_safe])

lemma keeps_try_calm:
  assumes "keeps (good G) (\<lambda>_. good G) m" and "\<And>e. keeps (good G) (safe G) (h e)"
  shows "keeps (good G) (safe G) (try_catch m h)"
  by (rule keeps_try_catch [OF assms(1)]) (rule keepsD [OF assms(2)])

lemma calm_reads [keeps_intros]:
  "keeps (good G) (\<lambda>_. good G) (db_get tab k)" "keeps (good G) (\<lambda>_. good G) (db_select tab' P)"
  by (auto intro!: keepsI simp: wp_simps)

text \<open>Only an \<^verbatim>\<open>HTTPException\<close> may be handled without a rollback.\<close>

lemma keeps_try_http:
  assumes "keeps (good G) (safe G) m"
    and "\<And>e. is_http e \<Longrightarrow> keeps (good G) (safe G) (h e)"
    and "\<And>e. \<not> is_http e \<Longrightarrow> h e = raise e"
  shows "keeps (good G) (safe G) (try_catch m h)"
proof (rule keeps_try_catch [OF assms(1)])
  fix e w assume s: "safe G e w"
  show "wp (h e) (\<lambda>_. good G) (safe G) w"
  proof (cases "is_http e")
    case True
    then show ?thesis using keepsD [OF assms(2) safe_http [OF s]] by blast
  next
    case False
    then show ?thesis using s by (simp add: assms(3) wp_simps)
  qed
qed

text \<open>Any exception may be handled after a rollback.\<close>

lemma keeps_try_rollback:
  assumes "keeps (good G) (safe G) m"
    and "\<And>e. h e = raise e \<or> (\<exists>k. h e = bnd rollback (\<lambda>_. k) \<and> keeps (good G) (safe G) k)"
  shows "keeps (good G) (safe G) (try_catch m h)"
proof (rule keeps_try_catch [OF assms(1)])
  fix e w assume s: "safe G e w"
  from assms(2) [of e] show "wp (h e) (\<lambda>_. good G) (safe G) w"
  proof (elim disjE exE conjE)
    assume "h e = raise e"
    then show ?thesis using s by (simp add: wp_simps)
  next
    fix k assume "h e = bnd rollback (\<lambda>_. k)" and k: "keeps (good G) (safe G) k"
    then show ?thesis
      using keepsD [OF k safe_rollback [OF s]] by (simp add: wp_simps)
  qed
qed

lemma keeps_new_row [keeps_intros]:
  "keeps (good G) (safe G) (new_workspace f_workspace)"
  "keeps (good G) (safe G) (new_secret_access_audit_log f_secret_access_audit_log)"
  "keeps (good G) (safe G) (new_project f_project)"
  "keeps (good G) (safe G) (new_conversation f_conversation)"
  "keeps (good G) (safe G) (new_identity_audit_event f_identity_audit_event)"
  "keeps (good G) (safe G) (new_repository f_repository)"
  "keeps (good G) (safe G) (new_planner_run f_planner_run)"
  "keeps (good G) (safe G) (new_planner_task_draft f_planner_task_draft)"
  "keeps (good G) (safe G) (new_approval f_approval)"
  "keeps (good G) (safe G) (new_github_credential f_github_credential)"
  "keeps (good G) (safe G) (new_sandbox_profile f_sandbox_profile)"
  "keeps (good G) (safe G) (new_workspace_audit_log f_workspace_audit_log)"
  "keeps (good G) (safe G) (new_task f_task)"
  "keeps (good G) (safe G) (new_local_task_run f_local_task_run)"
  "keeps (good G) (safe G) (new_patch_artifact f_patch_artifact)"
  "keeps (good G) (safe G) (new_local_test_run f_local_test_run)"
  "keeps (good G) (safe G) (new_patch_review f_patch_review)"
  "keeps (good G) (safe G) (new_patch_approval f_patch_approval)"
  "keeps (good G) (safe G) (new_task_event f_task_event)"
  "keeps (good G) (safe G) (new_cloud_run_log_entry f_cloud_run_log_entry)"
  "keeps (good G) (safe G) (new_cloud_run_stored_object f_cloud_run_stored_object)"
  "keeps (good G) (safe G) (new_user_account f_user_account)"
  "keeps (good G) (safe G) (new_organization f_organization)"
  "keeps (good G) (safe G) (new_organization_member f_organization_member)"
  "keeps (good G) (safe G) (new_device_session f_device_session)"
  "keeps (good G) (safe G) (new_provider_logout_continuation f_provider_logout_continuation)"
  "keeps (good G) (safe G) (new_external_identity f_external_identity)"
  "keeps (good G) (safe G) (new_login_transaction f_login_transaction)"
  "keeps (good G) (safe G) (new_account_link_recovery f_account_link_recovery)"
  "keeps (good G) (safe G) (new_debug_attempt f_debug_attempt)"
  "keeps (good G) (safe G) (new_pull_request_record f_pull_request_record)"
  "keeps (good G) (safe G) (new_model_provider f_model_provider)"
  "keeps (good G) (safe G) (new_model_credential f_model_credential)"
  "keeps (good G) (safe G) (new_model_route f_model_route)"
  "keeps (good G) (safe G) (new_usage_ledger_entry f_usage_ledger_entry)"
  "keeps (good G) (safe G) (new_credit_wallet f_credit_wallet)"
  "keeps (good G) (safe G) (new_spend_limit f_spend_limit)"
  "keeps (good G) (safe G) (new_budget_reservation f_budget_reservation)"
  "keeps (good G) (safe G) (new_cloud_run f_cloud_run)"
  unfolding new_row_defs by (intro keeps_intros)+

text \<open>The end of a request: whatever happened, what remains is good.\<close>

lemma run_request_good:
  assumes "keeps (good G) (safe G) m" and "good G w"
  shows "good G (snd (run_request m w))"
proof -
  have "wp m (\<lambda>_. good G) (safe G) w" using assms by (rule keepsD)
  then show ?thesis
    by (auto simp: wp_def run_request_def good_def safe_def split: prod.splits sum.splits)
qed

section \<open>Invariants that do not see the audit trail\<close>

text \<open>
  The contract between an invariant and the audit trail. Of the workspace log an invariant may ask
  that what is stored has been redacted: a row is only ever appended there, and with redacted
  contents.
\<close>

locale audit_invariant =
  fixes G :: "db \<Rightarrow> bool"
  assumes ignores_identity_audit_event [simp]: "\<And>f d. G (t_identity_audit_event_update f d) = G d"
    and audit_appended: "\<And>l m k d. wa_metadata_json l = redact_audit_metadata m \<Longrightarrow>
      G (t_workspace_audit_log_update (\<lambda>t. t @ [(k, l)]) d) = G d"
begin

lemma keeps_add_identity_event [keeps_intros]:
  "keeps (good G) (safe G) (add_identity_audit_event e)"
  unfolding add_identity_audit_event_def by (rule keeps_insert) simp

lemma keeps_new_audit:
  assumes "\<And>l. \<exists>m. wa_metadata_json (f l) = redact_audit_metadata m"
    and "\<And>l. keeps (good G) (safe G) (k l)"
  shows "keeps (good G) (safe G)
    (bnd (new_workspace_audit_log f) (\<lambda>l. bnd (add_workspace_audit_log l) (\<lambda>_. k l)))"
proof -
  have "keeps (good G) (safe G) (add_workspace_audit_log (f l))" for l
    using assms(1) [of l] unfolding add_workspace_audit_log_def
    by (auto intro!: keeps_insert simp: audit_appended)
  then show ?thesis
    unfolding new_workspace_audit_log_def bnd_assoc bnd_ret by (intro keeps_intros assms(2))
qed

end

section \<open>Invariants that do not see the side tables\<close>

text \<open>
  The contract between an invariant and the services: it constrains the ledger and the cloud
  runs only, so whatever is written to the other tables keeps it. Of the runs' log it may ask, as
  of the audit log, that what is stored has been redacted.
\<close>

locale db_invariant = audit_invariant +
  assumes ignores_workspace [simp]: "\<And>f d. G (t_workspace_update f d) = G d"
    and ignores_secret_access_audit_log [simp]: "\<And>f d. G (t_secret_access_audit_log_update f d) = G d"
    and ignores_project [simp]: "\<And>f d. G (t_project_update f d) = G d"
    and ignores_conversation [simp]: "\<And>f d. G (t_conversation_update f d) = G d"
    and ignores_repository [simp]: "\<And>f d. G (t_repository_update f d) = G d"
    and ignores_planner_run [simp]: "\<And>f d. G (t_planner_run_update f d) = G d"
    and ignores_planner_task_draft [simp]: "\<And>f d. G (t_planner_task_draft_update f d) = G d"
    and ignores_approval [simp]: "\<And>f d. G (t_approval_update f d) = G d"
    and ignores_github_credential [simp]: "\<And>f d. G (t_github_credential_update f d) = G d"
    and ignores_sandbox_profile [simp]: "\<And>f d. G (t_sandbox_profile_update f d) = G d"
    and ignores_task [simp]: "\<And>f d. G (t_task_update f d) = G d"
    and ignores_local_task_run [simp]: "\<And>f d. G (t_local_task_run_update f d) = G d"
    and ignores_patch_artifact [simp]: "\<And>f d. G (t_patch_artifact_update f d) = G d"
    and ignores_local_test_run [simp]: "\<And>f d. G (t_local_test_run_update f d) = G d"
    and ignores_patch_review [simp]: "\<And>f d. G (t_patch_review_update f d) = G d"
    and ignores_patch_approval [simp]: "\<And>f d. G (t_patch_approval_update f d) = G d"
    and ignores_task_event [simp]: "\<And>f d. G (t_task_event_update f d) = G d"
    and ignores_cloud_run_stored_object [simp]: "\<And>f d. G (t_cloud_run_stored_object_update f d) = G d"
    and ignores_user_account [simp]: "\<And>f d. G (t_user_account_update f d) = G d"
    and ignores_organization [simp]: "\<And>f d. G (t_organization_update f d) = G d"
    and ignores_organization_member [simp]: "\<And>f d. G (t_organization_member_update f d) = G d"
    and ignores_device_session [simp]: "\<And>f d. G (t_device_session_update f d) = G d"
    and ignores_provider_logout_continuation [simp]: "\<And>f d. G (t_provider_logout_continuation_update f d) = G d"
    and ignores_external_identity [simp]: "\<And>f d. G (t_external_identity_update f d) = G d"
    and ignores_login_transaction [simp]: "\<And>f d. G (t_login_transaction_update f d) = G d"
    and ignores_account_link_recovery [simp]: "\<And>f d. G (t_account_link_recovery_update f d) = G d"
    and ignores_debug_attempt [simp]: "\<And>f d. G (t_debug_attempt_update f d) = G d"
    and log_appended: "\<And>e p k d. lg_payload e = map_option redact_sensitive_values p \<Longrightarrow>
      G (t_cloud_run_log_entry_update (\<lambda>t. t @ [(k, e)]) d) = G d"
begin

lemma keeps_add_side [keeps_intros]:
  "keeps (good G) (safe G) (add_workspace r_workspace)"
  "keeps (good G) (safe G) (add_secret_access_audit_log r_secret_access_audit_log)"
  "keeps (good G) (safe G) (add_project r_project)"
  "keeps (good G) (safe G) (add_conversation r_conversation)"
  "keeps (good G) (safe G) (add_identity_audit_event r_identity_audit_event)"
  "keeps (good G) (safe G) (add_repository r_repository)"
  "keeps (good G) (safe G) (add_planner_run r_planner_run)"
  "keeps (good G) (safe G) (add_planner_task_draft r_planner_task_draft)"
  "keeps (good G) (safe G) (add_approval r_approval)"
  "keeps (good G) (safe G) (add_github_credential r_github_credential)"
  "keeps (good G) (safe G) (add_sandbox_profile r_sandbox_profile)"
  "keeps (good G) (safe G) (add_task r_task)"
  "keeps (good G) (safe G) (add_local_task_run r_local_task_run)"
  "keeps (good G) (safe G) (add_patch_artifact r_patch_artifact)"
  "keeps (good G) (safe G) (add_local_test_run r_local_test_run)"
  "keeps (good G) (safe G) (add_patch_review r_patch_review)"
  "keeps (good G) (safe G) (add_patch_approval r_patch_approval)"
  "keeps (good G) (safe G) (add_task_event r_task_event)"
  "keeps (good G) (safe G) (add_cloud_run_stored_object r_cloud_run_stored_object)"
  "keeps (good G) (safe G) (add_user_account r_user_account)"
  "keeps (good G) (safe G) (add_organization r_organization)"
  "keeps (good G) (safe G) (add_organization_member r_organization_member)"
  "keeps (good G) (safe G) (add_device_session r_device_session)"
  "keeps (good G) (safe G) (add_provider_logout_continuation r_provider_logout_continuation)"
  "keeps (good G) (safe G) (add_external_identity r_external_identity)"
  "keeps (good G) (safe G) (add_login_transaction r_login_transaction)"
  "keeps (good G) (safe G) (add_account_link_recovery r_account_link_recovery)"
  "keeps (good G) (safe G) (add_debug_attempt r_debug_attempt)"
  unfolding add_row_defs by (rule keeps_insert; simp)+

lemma keeps_set_side [keeps_intros]:
  "keeps (good G) (safe G) (set_workspace r_workspace f_workspace)"
  "keeps (good G) (safe G) (set_secret_access_audit_log r_secret_access_audit_log f_secret_access_audit_log)"
  "keeps (good G) (safe G) (set_project r_project f_project)"
  "keeps (good G) (safe G) (set_conversation r_conversation f_conversation)"
  "keeps (good G) (safe G) (set_identity_audit_event r_identity_audit_event f_identity_audit_event)"
  "keeps (good G) (safe G) (set_repository r_repository f_repository)"
  "keeps (good G) (safe G) (set_planner_run r_planner_run f_planner_run)"
  "keeps (good G) (safe G) (set_planner_task_draft r_planner_task_draft f_planner_task_draft)"
  "keeps (good G) (safe G) (set_approval r_approval f_approval)"
  "keeps (good G) (safe G) (set_github_credential r_github_credential f_github_credential)"
  "keeps (good G) (safe G) (set_sandbox_profile r_sandbox_profile f_sandbox_profile)"
  "keeps (good G) (safe G) (set_task r_task f_task)"
  "keeps (good G) (safe G) (set_local_task_run r_local_task_run f_local_task_run)"
  "keeps (good G) (safe G) (set_patch_artifact r_patch_artifact f_patch_artifact)"
  "keeps (good G) (safe G) (set_local_test_run r_local_test_run f_local_test_run)"
  "keeps (good G) (safe G) (set_patch_review r_patch_review f_patch_review)"
  "keeps (good G) (safe G) (set_patch_approval r_patch_approval f_patch_approval)"
  "keeps (good G) (safe G) (set_task_event r_task_event f_task_event)"
  "keeps (good G) (safe G) (set_cloud_run_stored_object r_cloud_run_stored_object f_cloud_run_stored_object)"
  "keeps (good G) (safe G) (set_user_account r_user_account f_user_account)"
  "keeps (good G) (safe G) (set_organization r_organization f_organization)"
  "keeps (good G) (safe G) (set_organization_member r_organization_member f_organization_member)"
  "keeps (good G) (safe G) (set_device_session r_device_session f_device_session)"
  "keeps (good G) (safe G) (set_provider_logout_continuation r_provider_logout_continuation f_provider_logout_continuation)"
  "keeps (good G) (safe G) (set_external_identity r_external_identity f_external_identity)"
  "keeps (good G) (safe G) (set_login_transaction r_login_transaction f_login_transaction)"
  "keeps (good G) (safe G) (set_account_link_recovery r_account_link_recovery f_account_link_recovery)"
  "keeps (good G) (safe G) (set_debug_attempt r_debug_attempt f_debug_attempt)"
  unfolding set_row_defs by (rule keeps_row_modify; simp)+

lemma keeps_new_log:
  assumes "\<And>e. \<exists>p. lg_payload (f e) = map_option redact_sensitive_values p"
  shows "keeps (good G) (safe G)
    (bnd (new_cloud_run_log_entry f) add_cloud_run_log_entry)"
proof -
  have "keeps (good G) (safe G) (add_cloud_run_log_entry (f e))" for e
    using assms(1) [of e] unfolding add_cloud_run_log_entry_def
    by (auto intro!: keeps_insert simp: log_appended)
  then show ?thesis
    unfolding new_cloud_run_log_entry_def bnd_assoc bnd_ret by (intro keeps_intros)
qed

end

end
