(* ===== verification/Auth.thy ===== *)
theory Auth
  imports Invariance
begin

text \<open>
  Who may do what: \<^verbatim>\<open>services/auth_policy.py\<close> (which credentials an environment accepts),
  the context functions of \<^verbatim>\<open>services/auth_context.py\<close>, the development headers, and the
  permission table of \<^verbatim>\<open>services/workspace_permissions.py\<close>.
\<close>

section \<open>Authentication policy\<close>

datatype authentication_environment = LOCAL | TEST | STAGING | PRODUCTION

datatype human_credential_type = DEV_AUTH | WORKSPACE_API_TOKEN | USER_SESSION

text \<open>The enum call \<^verbatim>\<open>AuthenticationEnvironment(value)\<close>; \<^verbatim>\<open>None\<close> is its \<^verbatim>\<open>ValueError\<close>.\<close>

definition environment_of :: "string \<Rightarrow> authentication_environment option" where
  "environment_of v =
     map_of [(''local'', LOCAL), (''test'', TEST), (''staging'', STAGING),
             (''production'', PRODUCTION)] v"

definition credential_of :: "string \<Rightarrow> human_credential_type option" where
  "credential_of v =
     map_of [(''dev'', DEV_AUTH), (''api_token'', WORKSPACE_API_TOKEN),
             (''user_session'', USER_SESSION)] v"

record authentication_policy =
  apo_environment :: authentication_environment
  apo_accepted :: "human_credential_type set"

text \<open>The constructor call, \<^verbatim>\<open>__post_init__\<close> included: values are strings before validation.\<close>

definition make_authentication_policy :: "string \<Rightarrow> string list \<Rightarrow> string + authentication_policy" where
  "make_authentication_policy environment credentials =
     (case environment_of environment of
        None \<Rightarrow> Inl (''Unsupported authentication environment: '' @ environment)
      | Some env \<Rightarrow>
          (case filter (\<lambda>c. credential_of c = None) credentials of
             bad # _ \<Rightarrow> Inl (''Unsupported human credential: '' @ bad)
           | [] \<Rightarrow>
               (let accepted = set (List.map_filter credential_of credentials) in
                if accepted = {}
                then Inl ''Authentication policy must accept at least one human credential''
                else if DEV_AUTH \<in> accepted \<and> env \<notin> {LOCAL, TEST}
                then Inl ''Dev Auth is allowed only in local or test environments''
                else Inr \<lparr>apo_environment = env, apo_accepted = accepted\<rparr>)))"

definition authentication_policy_for_environment :: "string option \<Rightarrow> string + authentication_policy" where
  "authentication_policy_for_environment environment_value =
     (case environment_value of
        None \<Rightarrow> Inl ''AI_SCDC_AUTHENTICATION_ENVIRONMENT must explicitly select an authentication environment''
      | Some v \<Rightarrow>
          if strip v = []
          then Inl ''AI_SCDC_AUTHENTICATION_ENVIRONMENT must explicitly select an authentication environment''
          else
            (case environment_of (strip v) of
               None \<Rightarrow> Inl (''Unsupported authentication environment: '' @ v)
             | Some env \<Rightarrow>
                 make_authentication_policy (strip v)
                   (if env \<in> {LOCAL, TEST} then [''dev''] else [''user_session'', ''api_token''])))"

section \<open>The request's authentication context\<close>

definition get_current_auth_context :: "auth_context option action" where
  "get_current_auth_context = gets (\<lambda>w. e_auth (w_env w))"

definition require_current_auth_context :: "auth_context action" where
  "require_current_auth_context =
     bnd get_current_auth_context (\<lambda>context.
     case context of
            None \<Rightarrow> raise (http 401 ''Authentication is required'')
          | Some c \<Rightarrow> ret c)"

definition current_user_id :: "string action" where
  "current_user_id = bnd require_current_auth_context (\<lambda>c.
                     ret (ac_user_id c))"

definition current_workspace_id :: "string action" where
  "current_workspace_id = bnd require_current_auth_context (\<lambda>c.
                          ret (ac_workspace_id c))"

definition current_organization_id :: "string action" where
  "current_organization_id = bnd require_current_auth_context (\<lambda>c.
                             ret (ac_organization_id c))"

definition enforce_workspace_access :: "string \<Rightarrow> string \<Rightarrow> unit action" where
  "enforce_workspace_access workspace_id detail =
     bnd get_current_auth_context (\<lambda>context.
     case context of
            None \<Rightarrow> ret ()
          | Some c \<Rightarrow> only_if (workspace_id \<noteq> ac_workspace_id c) (raise (http 404 detail)))"

definition has_any_role :: "auth_context \<Rightarrow> workspace_role list \<Rightarrow> bool" where
  "has_any_role c roles = list_ex (\<lambda>r. r \<in> ac_roles c) roles"

definition require_workspace_role :: "workspace_role list \<Rightarrow> string \<Rightarrow> auth_context action" where
  "require_workspace_role allowed_roles detail =
     bnd require_current_auth_context (\<lambda>context.
     bnd (only_if (\<not> has_any_role context allowed_roles) (raise (http 403 detail))) (\<lambda>_.
     ret context))"

section \<open>Permissions\<close>

definition all_workspace_roles :: "workspace_role list" where
  "all_workspace_roles = [OWNER, ADMIN, DEVELOPER, REVIEWER, BILLING_MANAGER, VIEWER]"

definition owner_admin_roles :: "workspace_role list" where
  "owner_admin_roles = [OWNER, ADMIN]"

definition developer_execution_roles :: "workspace_role list" where
  "developer_execution_roles = [OWNER, ADMIN, DEVELOPER]"

definition review_execution_roles :: "workspace_role list" where
  "review_execution_roles = [OWNER, ADMIN, REVIEWER]"

definition evidence_read_roles :: "workspace_role list" where
  "evidence_read_roles = [OWNER, ADMIN, DEVELOPER, REVIEWER]"

definition billing_roles :: "workspace_role list" where
  "billing_roles = [OWNER, ADMIN, BILLING_MANAGER]"

definition permission_roles :: "(string \<times> workspace_role list) list" where
  "permission_roles =
     [(''workspace.metadata.read'', all_workspace_roles),
      (''project.write'', developer_execution_roles),
      (''repository.write'', developer_execution_roles),
      (''conversation.write'', developer_execution_roles),
      (''planner.write'', developer_execution_roles),
      (''planner.review'', review_execution_roles),
      (''task.write'', developer_execution_roles),
      (''run.write'', developer_execution_roles),
      (''execution.evidence.read'', evidence_read_roles),
      (''conversation.sensitive.read'', evidence_read_roles),
      (''execution_config.read'', evidence_read_roles),
      (''artifact.sensitive.read'', evidence_read_roles),
      (''artifact.cleanup'', owner_admin_roles),
      (''log.sensitive.read'', evidence_read_roles),
      (''review.write'', review_execution_roles),
      (''approval.write'', review_execution_roles),
      (''pull_request.publish'', developer_execution_roles),
      (''credential.metadata.read'', owner_admin_roles),
      (''credential.write'', owner_admin_roles),
      (''model_config.read'', evidence_read_roles),
      (''model_config.write'', owner_admin_roles),
      (''billing.read'', billing_roles),
      (''billing.write'', billing_roles),
      (''operator.write'', owner_admin_roles)]"

definition allowed_roles_for_permission :: "string \<Rightarrow> workspace_role list action" where
  "allowed_roles_for_permission permission =
     (case map_of permission_roles permission of
        None \<Rightarrow> raise (ValueError (''Unknown workspace permission: '' @ permission))
      | Some roles \<Rightarrow> ret roles)"

definition require_workspace_permission :: "string \<Rightarrow> auth_context action" where
  "require_workspace_permission permission =
     bnd (allowed_roles_for_permission permission) (\<lambda>roles.
     require_workspace_role roles ''Insufficient workspace role'')"

section \<open>Development headers\<close>

text \<open>
  \<^verbatim>\<open>_parse_roles\<close>: a comma-separated list; blank entries are skipped, an unknown name or no
  name at all is refused, a missing or blank header means the owner.
\<close>

definition role_of :: "string \<Rightarrow> workspace_role option" where
  "role_of v =
     map_of (map (\<lambda>r. (workspace_role_value r, r)) all_workspace_roles) v"

fun split_on :: "char \<Rightarrow> string \<Rightarrow> string list" where
  "split_on c [] = [[]]"
| "split_on c (d # ds) =
     (if d = c then [] # split_on c ds
      else (case split_on c ds of [] \<Rightarrow> [[d]] | p # ps \<Rightarrow> (d # p) # ps))"

definition parse_roles :: "string option \<Rightarrow> exn + workspace_role set" where
  "parse_roles value =
     (case value of
        None \<Rightarrow> Inr {OWNER}
      | Some v \<Rightarrow>
          if strip v = [] then Inr {OWNER}
          else
            (let names = filter (\<lambda>r. r \<noteq> []) (map strip (split_on (CHR '','') v)) in
             if list_ex (\<lambda>r. role_of r = None) names \<or> names = []
             then Inl (http 400 ''Invalid workspace role'')
             else Inr (set (List.map_filter role_of names))))"

text \<open>The headers of a request, by lower-case name.\<close>

definition dev_header_value :: "(string \<rightharpoonup> string) \<Rightarrow> string \<Rightarrow> string \<Rightarrow> exn + string" where
  "dev_header_value headers name dflt =
     (let value = strip (case headers (''x-ai-scdc-'' @ name) of None \<Rightarrow> dflt | Some v \<Rightarrow> v) in
      if value = [] then Inl (http 400 (''Invalid dev auth '' @ name)) else Inr value)"

definition dev_auth_context :: "(string \<rightharpoonup> string) \<Rightarrow> exn + auth_context" where
  "dev_auth_context headers =
     (case dev_header_value headers ''user-id'' ''dev_user'' of
        Inl e \<Rightarrow> Inl e
      | Inr user_id \<Rightarrow>
     (case dev_header_value headers ''workspace-id'' ''dev_workspace'' of
        Inl e \<Rightarrow> Inl e
      | Inr workspace_id \<Rightarrow>
     (case dev_header_value headers ''organization-id'' ''dev_organization'' of
        Inl e \<Rightarrow> Inl e
      | Inr organization_id \<Rightarrow>
     (case parse_roles (headers ''x-ai-scdc-roles'') of
        Inl e \<Rightarrow> Inl e
      | Inr roles \<Rightarrow>
          Inr \<lparr>ac_user_id = user_id, ac_workspace_id = workspace_id,
               ac_organization_id = organization_id, ac_roles = roles,
               ac_auth_mode = ''dev'', ac_device_session_id = None\<rparr>))))"

section \<open>Rules\<close>

lemma wp_get_current_auth_context [wp_simps]:
  "wp get_current_auth_context Q E w = Q (e_auth (w_env w)) w"
  by (simp add: get_current_auth_context_def wp_simps)

lemma wp_require_current_auth_context [wp_simps]:
  "wp require_current_auth_context Q E w =
     (case e_auth (w_env w) of
        None \<Rightarrow> E (http 401 ''Authentication is required'') w
      | Some c \<Rightarrow> Q c w)"
  by (simp add: require_current_auth_context_def wp_simps split: option.split)

lemma wp_current_user_id [wp_simps]:
  "wp current_user_id Q E w =
     (case e_auth (w_env w) of
        None \<Rightarrow> E (http 401 ''Authentication is required'') w
      | Some c \<Rightarrow> Q (ac_user_id c) w)"
  by (simp add: current_user_id_def wp_simps split: option.split)

lemma wp_current_workspace_id [wp_simps]:
  "wp current_workspace_id Q E w =
     (case e_auth (w_env w) of
        None \<Rightarrow> E (http 401 ''Authentication is required'') w
      | Some c \<Rightarrow> Q (ac_workspace_id c) w)"
  by (simp add: current_workspace_id_def wp_simps split: option.split)

lemma wp_current_organization_id [wp_simps]:
  "wp current_organization_id Q E w =
     (case e_auth (w_env w) of
        None \<Rightarrow> E (http 401 ''Authentication is required'') w
      | Some c \<Rightarrow> Q (ac_organization_id c) w)"
  by (simp add: current_organization_id_def wp_simps split: option.split)

lemma wp_enforce_workspace_access [wp_simps]:
  "wp (enforce_workspace_access workspace_id detail) Q E w =
     (case e_auth (w_env w) of
        None \<Rightarrow> Q () w
      | Some c \<Rightarrow> if workspace_id = ac_workspace_id c then Q () w else E (http 404 detail) w)"
  by (simp add: enforce_workspace_access_def wp_simps split: option.split)

text \<open>These actions read the context only.\<close>

lemma auth_reads_keep:
  "(\<And>e w. is_http e \<Longrightarrow> I w \<Longrightarrow> C e w) \<Longrightarrow> keeps I C require_current_auth_context"
  "keeps I C get_current_auth_context"
  "(\<And>e w. is_http e \<Longrightarrow> I w \<Longrightarrow> C e w) \<Longrightarrow> keeps I C current_user_id"
  "(\<And>e w. is_http e \<Longrightarrow> I w \<Longrightarrow> C e w) \<Longrightarrow> keeps I C current_workspace_id"
  "(\<And>e w. is_http e \<Longrightarrow> I w \<Longrightarrow> C e w) \<Longrightarrow> keeps I C current_organization_id"
  "(\<And>e w. is_http e \<Longrightarrow> I w \<Longrightarrow> C e w) \<Longrightarrow> keeps I C (enforce_workspace_access ws detail)"
  by (auto simp: keeps_def wp_simps http_def split: option.split)

lemma auth_reads_safe [keeps_intros]:
  "keeps (good G) (safe G) require_current_auth_context"
  "keeps (good G) (safe G) get_current_auth_context"
  "keeps (good G) (safe G) current_user_id"
  "keeps (good G) (safe G) current_workspace_id"
  "keeps (good G) (safe G) current_organization_id"
  "keeps (good G) (safe G) (enforce_workspace_access ws detail)"
  by (rule auth_reads_keep good_safe, assumption?)+

end
