(* ===== verification/AuditTrail.thy ===== *)
theory AuditTrail
  imports Auth
begin

text \<open>
  The audit trail: \<^verbatim>\<open>services/audit_request_context.py\<close> (identifiers and times of events), \<^verbatim>\<open>services/identity_audit.py\<close> and
  \<^verbatim>\<open>services/workspace_audit.py\<close>, with the permission check that records a refusal.
\<close>

section \<open>Identifiers and times\<close>

definition resolved_request_id :: "string option \<Rightarrow> string action" where
  "resolved_request_id value =
     (case Option.bind value (\<lambda>v. if v = [] then None else Some v) of
        Some v \<Rightarrow> ret v
      | None \<Rightarrow>
          bnd (gets (\<lambda>w. e_audit (w_env w))) (\<lambda>context.
          case context of
                 Some c \<Rightarrow> ret (arc_request_id c)
               | None \<Rightarrow> bnd random_token (\<lambda>t.
                        ret (''request_'' @ t))))"

definition resolved_correlation_id :: "string option \<Rightarrow> string action" where
  "resolved_correlation_id value =
     (case Option.bind value (\<lambda>v. if v = [] then None else Some v) of
        Some v \<Rightarrow> ret v
      | None \<Rightarrow>
          bnd (gets (\<lambda>w. e_audit (w_env w))) (\<lambda>context.
          case context of
                 Some c \<Rightarrow> ret (arc_correlation_id c)
               | None \<Rightarrow> bnd random_token (\<lambda>t.
                        ret (''correlation_'' @ t))))"

text \<open>\<^verbatim>\<open>AuditRequestContext.next_occurred_at\<close>: the n-th event of a request.\<close>

definition next_occurred_at :: "audit_request_context \<Rightarrow> int option \<Rightarrow> int action" where
  "next_occurred_at c explicit_value =
     bnd (gets w_audit_seq) (\<lambda>n.
     bnd (modify (\<lambda>w. w\<lparr>w_audit_seq := Suc n\<rparr>)) (\<lambda>_.
     ret (case explicit_value of
                 Some v \<Rightarrow> v
               | None \<Rightarrow>
                   (case arc_timestamp_source c of
                      Some f \<Rightarrow> f n
                    | None \<Rightarrow> arc_occurred_at c + int n))))"

definition resolved_audit_time :: "int option \<Rightarrow> int action" where
  "resolved_audit_time value =
     bnd (gets (\<lambda>w. e_audit (w_env w))) (\<lambda>context.
     case context of
            Some c \<Rightarrow> next_occurred_at c value
          | None \<Rightarrow> (case value of Some v \<Rightarrow> ret v | None \<Rightarrow> utc_now))"

section \<open>Identity audit events\<close>

text \<open>The keyword parameters of \<^verbatim>\<open>record_identity_audit_event\<close> with their defaults.\<close>

record identity_audit_args =
  ia_event_type :: string
  ia_outcome :: string
  ia_reason_code :: string
  ia_correlation_id :: string
  ia_request_id :: "string option"
  ia_related_correlation_id :: "string option"
  ia_actor_user_id :: "string option"
  ia_operator_reason :: "string option"
  ia_user_id :: "string option"
  ia_external_identity_id :: "string option"
  ia_device_session_id :: "string option"
  ia_client_ip_address :: "string option"
  ia_user_agent :: "string option"
  ia_created_at :: "int option"
  ia_commit :: bool

definition identity_audit_defaults :: "string \<Rightarrow> string \<Rightarrow> string \<Rightarrow> string \<Rightarrow> identity_audit_args" where
  "identity_audit_defaults event_type outcome reason_code correlation_id =
     \<lparr>ia_event_type = event_type, ia_outcome = outcome, ia_reason_code = reason_code,
      ia_correlation_id = correlation_id, ia_request_id = None, ia_related_correlation_id = None,
      ia_actor_user_id = None, ia_operator_reason = None, ia_user_id = None,
      ia_external_identity_id = None, ia_device_session_id = None, ia_client_ip_address = None,
      ia_user_agent = None, ia_created_at = None, ia_commit = True\<rparr>"

definition record_identity_audit_event :: "identity_audit_args \<Rightarrow> identity_audit_event action" where
  "record_identity_audit_event a =
     bnd (gets (\<lambda>w. e_audit (w_env w))) (\<lambda>request_context.
     bnd (resolved_request_id (ia_request_id a)) (\<lambda>request_id.
     bnd (resolved_audit_time (ia_created_at a)) (\<lambda>created_at.
     bnd (new_identity_audit_event (\<lambda>e. e\<lparr>
            ie_event_type := ia_event_type a,
            ie_outcome := ia_outcome a,
            ie_reason_code := ia_reason_code a,
            ie_request_id := Some request_id,
            ie_correlation_id := ia_correlation_id a,
            ie_related_correlation_id := ia_related_correlation_id a,
            ie_actor_user_id := ia_actor_user_id a,
            ie_operator_reason := ia_operator_reason a,
            ie_user_id := ia_user_id a,
            ie_external_identity_id := ia_external_identity_id a,
            ie_device_session_id := ia_device_session_id a,
            ie_client_ip_address :=
              (case ia_client_ip_address a of
                 Some ip \<Rightarrow> Some ip
               | None \<Rightarrow> Option.bind request_context arc_client_ip_address),
            ie_user_agent := safe_user_agent
              (case ia_user_agent a of
                 Some ua \<Rightarrow> Some ua
               | None \<Rightarrow> Option.bind request_context arc_user_agent),
            ie_created_at := created_at\<rparr>)) (\<lambda>event.
     bnd (add_identity_audit_event event) (\<lambda>_.
     bnd (only_if (ia_commit a) commit) (\<lambda>_.
     ret event))))))"

section \<open>Workspace audit log\<close>

text \<open>The keyword parameters of \<^verbatim>\<open>record_workspace_audit\<close> with their defaults.\<close>

record workspace_audit_args =
  wk_operation :: string
  wk_resource_type :: string
  wk_resource_id :: "string option"
  wk_access_level :: workspace_audit_access_level
  wk_success :: bool
  wk_status_code :: int
  wk_error_code :: "string option"
  wk_metadata :: "(string \<times> json) list"
  wk_workspace_id :: "string option"
  wk_organization_id :: "string option"
  wk_user_id :: "string option"
  wk_auth_mode :: "string option"
  wk_request_id :: "string option"
  wk_correlation_id :: "string option"
  wk_created_at :: "int option"
  wk_commit :: bool

definition workspace_audit_defaults ::
  "string \<Rightarrow> string \<Rightarrow> string option \<Rightarrow> workspace_audit_access_level \<Rightarrow> bool \<Rightarrow> int \<Rightarrow>
     workspace_audit_args" where
  "workspace_audit_defaults operation resource_type resource_id access_level success status_code =
     \<lparr>wk_operation = operation, wk_resource_type = resource_type, wk_resource_id = resource_id,
      wk_access_level = access_level, wk_success = success, wk_status_code = status_code,
      wk_error_code = None, wk_metadata = [], wk_workspace_id = None, wk_organization_id = None,
      wk_user_id = None, wk_auth_mode = None, wk_request_id = None, wk_correlation_id = None,
      wk_created_at = None, wk_commit = False\<rparr>"

definition record_workspace_audit :: "workspace_audit_args \<Rightarrow> workspace_audit_log action" where
  "record_workspace_audit a =
     bnd get_current_auth_context (\<lambda>context.
     bnd (resolved_request_id (wk_request_id a)) (\<lambda>request_id.
     bnd (resolved_correlation_id (wk_correlation_id a)) (\<lambda>correlation_id.
     bnd (resolved_audit_time (wk_created_at a)) (\<lambda>created_at.
     bnd (new_workspace_audit_log (\<lambda>l. l\<lparr>
            wa_workspace_id := str_or (wk_workspace_id a)
              (case context of None \<Rightarrow> ''dev_workspace'' | Some c \<Rightarrow> ac_workspace_id c),
            wa_organization_id := str_or (wk_organization_id a)
              (case context of None \<Rightarrow> ''dev_organization'' | Some c \<Rightarrow> ac_organization_id c),
            wa_user_id := str_or (wk_user_id a)
              (case context of None \<Rightarrow> ''dev_user'' | Some c \<Rightarrow> ac_user_id c),
            wa_auth_mode := str_or (wk_auth_mode a)
              (case context of None \<Rightarrow> ''system'' | Some c \<Rightarrow> ac_auth_mode c),
            wa_request_id := Some request_id,
            wa_correlation_id := Some correlation_id,
            wa_operation := wk_operation a,
            wa_resource_type := wk_resource_type a,
            wa_resource_id := wk_resource_id a,
            wa_access_level := wk_access_level a,
            wa_success := wk_success a,
            wa_status_code := wk_status_code a,
            wa_error_code := wk_error_code a,
            wa_metadata_json := redact_audit_metadata (JObj (wk_metadata a)),
            wa_created_at := created_at\<rparr>)) (\<lambda>log.
     bnd (add_workspace_audit_log log) (\<lambda>_.
     bnd (only_if (wk_commit a) commit) (\<lambda>_.
     ret log)))))))"

section \<open>Permission checks that leave a trace\<close>

definition record_denial ::
  "string \<Rightarrow> string \<Rightarrow> string option \<Rightarrow> workspace_audit_access_level \<Rightarrow> string action" where
  "record_denial operation resource_type resource_id access_level =
     bnd rollback (\<lambda>_.
     bnd random_token (\<lambda>correlation_id.
     bnd (record_workspace_audit
            ((workspace_audit_defaults operation resource_type resource_id access_level False 403)
             \<lparr>wk_error_code := Some ''insufficient_workspace_role'',
              wk_metadata := [(''correlation_id'', JStr correlation_id)],
              wk_correlation_id := Some correlation_id\<rparr>)) (\<lambda>_.
     bnd get_current_auth_context (\<lambda>context.
     bnd (case context of
            None \<Rightarrow> ret ()
          | Some c \<Rightarrow> only_if (ac_auth_mode c = ''user_session'')
              (bnd (record_identity_audit_event
                      ((identity_audit_defaults ''workspace_authorization_denied'' ''failure''
                          ''insufficient_workspace_role'' correlation_id)
                       \<lparr>ia_user_id := Some (ac_user_id c),
                        ia_device_session_id := ac_device_session_id c,
                        ia_commit := False\<rparr>)) (\<lambda>_.
               ret ()))) (\<lambda>_.
     bnd commit (\<lambda>_.
     ret correlation_id))))))"

definition require_audited_workspace_permission ::
  "string \<Rightarrow> string \<Rightarrow> string \<Rightarrow> string option \<Rightarrow> workspace_audit_access_level \<Rightarrow> unit action" where
  "require_audited_workspace_permission permission operation resource_type resource_id access_level =
     try_catch (bnd (require_workspace_permission permission) (\<lambda>_.
                ret ()))
       (\<lambda>exc. case exc of
          HTTPException code detail _ \<Rightarrow>
            if code = 403
            then bnd (record_denial operation resource_type resource_id access_level) (\<lambda>correlation_id.
                 raise (HTTPException code detail (Some correlation_id)))
            else raise exc
        | _ \<Rightarrow> raise exc)"

definition require_audited_workspace_permission_if_authenticated ::
  "string \<Rightarrow> string \<Rightarrow> string \<Rightarrow> string option \<Rightarrow> workspace_audit_access_level \<Rightarrow> bool action" where
  "require_audited_workspace_permission_if_authenticated permission operation resource_type
       resource_id access_level =
     bnd get_current_auth_context (\<lambda>context.
     if context = None then ret False
          else bnd (require_audited_workspace_permission permission operation resource_type
                      resource_id access_level) (\<lambda>_.
               ret True))"

text \<open>
  The helper of the same shape that each service repeats
  (\<^verbatim>\<open>_require_audited_permission_if_authenticated\<close>): a high-value write.
\<close>

definition require_audited_permission_if_authenticated ::
  "string \<Rightarrow> string \<Rightarrow> string \<Rightarrow> string option \<Rightarrow> unit action" where
  "require_audited_permission_if_authenticated permission operation resource_type resource_id =
     bnd get_current_auth_context (\<lambda>context.
     only_if (context \<noteq> None)
            (require_audited_workspace_permission permission operation resource_type resource_id
               AL_HIGH_VALUE_WRITE))"

section \<open>What a record writes\<close>

text \<open>An action that appends to the audit tables and leaves the committed state to a later commit.\<close>

lemma wp_record_workspace_audit:
  assumes "\<not> wk_commit a"
  shows "wp (record_workspace_audit a)
    (\<lambda>l w'. w_env w' = w_env w \<and> w_committed w' = w_committed w \<and>
       w_db w' = t_workspace_audit_log_update (\<lambda>t. t @ [(wa_id l, l)]) (w_db w) \<and>
       wa_operation l = wk_operation a \<and> wa_resource_id l = wk_resource_id a \<and>
       wa_success l = wk_success a \<and> wa_status_code l = wk_status_code a \<and>
       (case e_auth (w_env w) of None \<Rightarrow> True | Some c \<Rightarrow>
          wa_user_id l = str_or (wk_user_id a) (ac_user_id c) \<and>
          wa_workspace_id l = str_or (wk_workspace_id a) (ac_workspace_id c)))
    (\<lambda>e w'. e = IntegrityError \<and> w_env w' = w_env w \<and> w_committed w' = w_committed w \<and>
       w_db w' = w_db w) w"
  using assms
  by (auto simp: record_workspace_audit_def resolved_request_id_def resolved_correlation_id_def
      resolved_audit_time_def next_occurred_at_def new_workspace_audit_log_def
      add_workspace_audit_log_def wp_simps split: option.splits)

lemma wp_record_identity_audit:
  assumes "\<not> ia_commit a"
  shows "wp (record_identity_audit_event a)
    (\<lambda>l w'. w_env w' = w_env w \<and> w_calls w' = w_calls w \<and>
       w_request w' = w_request w \<and> w_committed w' = w_committed w \<and>
       w_db w' = t_identity_audit_event_update (\<lambda>t. t @ [(ie_id l, l)]) (w_db w))
    (\<lambda>e w'. e = IntegrityError \<and> w_env w' = w_env w \<and> w_calls w' = w_calls w \<and>
       w_committed w' = w_committed w \<and>
       w_db w' = w_db w) w"
  using assms
  by (auto simp: record_identity_audit_event_def resolved_request_id_def
      resolved_audit_time_def next_occurred_at_def new_identity_audit_event_def
      add_identity_audit_event_def wp_simps split: option.splits)

lemma wp_record_identity_committed:
  assumes "ia_commit a" and "quiet w"
  shows "wp (record_identity_audit_event a)
    (\<lambda>l w'. w_env w' = w_env w \<and> w_calls w' = w_calls w \<and>
       w_request w' = w_request w \<and> w_committed w' = w_db w' \<and>
       w_db w' = t_identity_audit_event_update (\<lambda>t. t @ [(ie_id l, l)]) (w_db w) \<and>
       ie_event_type l = ia_event_type a \<and> ie_reason_code l = ia_reason_code a \<and>
       ie_correlation_id l = ia_correlation_id a \<and> ie_user_id l = ia_user_id a)
    (\<lambda>e w'. e = IntegrityError \<and> w_env w' = w_env w \<and> w_calls w' = w_calls w \<and>
       w_committed w' = w_committed w \<and>
       w_db w' = w_db w) w"
  using assms
  by (auto simp: record_identity_audit_event_def resolved_request_id_def
      resolved_audit_time_def next_occurred_at_def new_identity_audit_event_def
      add_identity_audit_event_def wp_simps split: option.splits)

section \<open>Invariance\<close>

text \<open>The audit trail touches no table an invariant of the ledger or of the runs looks at.\<close>

lemma keeps_resolved [keeps_intros]:
  "keeps (good G) (safe G) (resolved_request_id v)"
  "keeps (good G) (safe G) (resolved_correlation_id v)"
  "keeps (good G) (safe G) (resolved_audit_time t)"
  unfolding resolved_request_id_def resolved_correlation_id_def resolved_audit_time_def
    next_occurred_at_def
  by (intro keeps_intros; simp)+

lemma keeps_require_permission [keeps_intros]:
  "keeps (good G) (safe G) (require_workspace_permission p)"
  unfolding require_workspace_permission_def allowed_roles_for_permission_def
    require_workspace_role_def
  by (intro keeps_intros)

context audit_invariant
begin

lemma keeps_record_audit [keeps_intros]:
  "keeps (good G) (safe G) (record_identity_audit_event a)"
  "keeps (good G) (safe G) (record_workspace_audit b)"
  subgoal unfolding record_identity_audit_event_def by (intro keeps_intros)
  subgoal unfolding record_workspace_audit_def
    by ((rule keeps_new_audit | rule keeps_intros)+,
        rule exI, simp del: redact_audit_metadata.simps, (rule keeps_intros)+)
  done

lemma keeps_record_denial [keeps_intros]:
  "keeps (good G) (safe G) (record_denial operation resource_type resource_id level)"
  unfolding record_denial_def by (intro keeps_intros)

lemma keeps_audited_permission [keeps_intros]:
  "keeps (good G) (safe G) (require_audited_workspace_permission p oper typ i level)"
  unfolding require_audited_workspace_permission_def
  by (rule keeps_try_http; (intro keeps_intros)?; auto intro!: keeps_intros split: exn.split)

lemma keeps_audited_permission_if [keeps_intros]:
  "keeps (good G) (safe G)
     (require_audited_workspace_permission_if_authenticated p oper typ i level)"
  "keeps (good G) (safe G) (require_audited_permission_if_authenticated p oper typ i)"
  unfolding require_audited_workspace_permission_if_authenticated_def
    require_audited_permission_if_authenticated_def
  by (intro keeps_intros)+

end

end
