(* ===== verification/TaskRepo.thy ===== *)
theory TaskRepo
  imports AuditTrail
begin

text \<open>
  \<^verbatim>\<open>services/repository.py\<close>: projects, repositories, tasks and their events, and the decision on
  a planner run. A task's status changes only through \<open>transition_task\<close> and the services
  that call \<open>validate_transition\<close> themselves.
\<close>

section \<open>Projects and repositories\<close>

record project_create =
  pc_name :: string
  pc_description :: string

definition create_project :: "project_create \<Rightarrow> project action" where
  "create_project data =
     bnd (require_audited_permission_if_authenticated ''project.write'' ''project.create'' ''project'' None) (\<lambda>_.
     bnd current_workspace_id (\<lambda>workspace_id.
     bnd current_user_id (\<lambda>user_id.
     bnd (new_project (\<lambda>p. p\<lparr>pj_workspace_id := workspace_id, pj_name := pc_name data,
            pj_description := pc_description data, pj_created_by := user_id\<rparr>)) (\<lambda>project.
     bnd (add_project project) (\<lambda>_.
     bnd (record_workspace_audit
            (workspace_audit_defaults ''project.create'' ''project'' (Some (pj_id project))
               AL_HIGH_VALUE_WRITE True 201)) (\<lambda>_.
     bnd commit (\<lambda>_.
     db_refresh t_project pj_id project)))))))"

definition list_projects :: "project list action" where
  "list_projects =
     bnd get_current_auth_context (\<lambda>context.
     bnd (db_select t_project (\<lambda>p. case context of
                    None \<Rightarrow> True | Some c \<Rightarrow> pj_workspace_id p = ac_workspace_id c)) (\<lambda>ps.
     ret (sort_key pj_created_at ps)))"

definition get_project :: "string \<Rightarrow> project action" where
  "get_project project_id =
     bnd (db_get t_project project_id) (\<lambda>project.
     case project of
            None \<Rightarrow> raise (http 404 ''Project not found'')
          | Some p \<Rightarrow>
              bnd (enforce_workspace_access (pj_workspace_id p) ''Project not found'') (\<lambda>_.
              ret p))"

definition get_repository :: "string \<Rightarrow> repository action" where
  "get_repository repo_id =
     bnd (db_get t_repository repo_id) (\<lambda>repository.
     case repository of
            None \<Rightarrow> raise (http 404 ''Repository not found'')
          | Some r \<Rightarrow>
              bnd (enforce_workspace_access (rp_workspace_id r) ''Repository not found'') (\<lambda>_.
              ret r))"

definition delete_repository :: "string \<Rightarrow> repository action" where
  "delete_repository repo_id =
     bnd (get_repository repo_id) (\<lambda>repository.
     bnd (require_audited_permission_if_authenticated ''repository.write'' ''repository.delete''
            ''repository'' (Some (rp_id repository))) (\<lambda>_.
     bnd utc_now (\<lambda>now.
     bnd (set_repository repository (\<lambda>r. r\<lparr>rp_status := ''deleted'',
            rp_connection_status := ''inactive'', rp_updated_at := now\<rparr>)) (\<lambda>repository.
     bnd (record_workspace_audit
            (workspace_audit_defaults ''repository.delete'' ''repository'' (Some (rp_id repository))
               AL_HIGH_VALUE_WRITE True 200)) (\<lambda>_.
     bnd commit (\<lambda>_.
     db_refresh t_repository rp_id repository))))))"

section \<open>Conversations\<close>

record conversation_create =
  cvc_title :: string
  cvc_conversation_type :: string

definition create_conversation :: "string \<Rightarrow> conversation_create \<Rightarrow> conversation action" where
  "create_conversation project_id data =
     bnd (get_project project_id) (\<lambda>_.
     bnd (require_audited_permission_if_authenticated ''conversation.write'' ''conversation.create''
            ''conversation'' None) (\<lambda>_.
     bnd current_user_id (\<lambda>user_id.
     bnd (new_conversation (\<lambda>c. c\<lparr>cv_project_id := project_id, cv_user_id := user_id,
            cv_title := cvc_title data, cv_conversation_type := cvc_conversation_type data\<rparr>)) (\<lambda>conversation.
     bnd (add_conversation conversation) (\<lambda>_.
     bnd (record_workspace_audit
            (workspace_audit_defaults ''conversation.create'' ''conversation''
               (Some (cv_id conversation)) AL_HIGH_VALUE_WRITE True 201)) (\<lambda>_.
     bnd commit (\<lambda>_.
     db_refresh t_conversation cv_id conversation)))))))"

definition get_conversation :: "string \<Rightarrow> conversation action" where
  "get_conversation conversation_id =
     bnd (db_get t_conversation conversation_id) (\<lambda>conversation.
     case conversation of
            None \<Rightarrow> raise (http 404 ''Conversation not found'')
          | Some c \<Rightarrow> bnd (get_project (cv_project_id c)) (\<lambda>_.
                     ret c))"

section \<open>Tasks and events\<close>

definition get_task :: "string \<Rightarrow> task action" where
  "get_task task_id =
     bnd (db_get t_task task_id) (\<lambda>task.
     case task of
            None \<Rightarrow> raise (http 404 ''Task not found'')
          | Some t \<Rightarrow> bnd (get_project (tk_project_id t)) (\<lambda>_.
                     ret t))"

definition create_task_event :: "string \<Rightarrow> string \<Rightarrow> string \<Rightarrow> string \<Rightarrow> json \<Rightarrow> task_event action" where
  "create_task_event task_id event_type actor_type actor_id payload =
     bnd (new_task_event (\<lambda>e. e\<lparr>te_task_id := task_id, te_event_type := event_type,
            te_actor_type := actor_type, te_actor_id := actor_id, te_payload := payload\<rparr>)) (\<lambda>event.
     bnd (add_task_event event) (\<lambda>_.
     ret event))"

record task_create =
  tc_conversation_id :: "string option"
  tc_parent_task_id :: "string option"
  tc_title :: string
  tc_description :: string
  tc_role_required :: string
  tc_priority :: int
  tc_risk_level :: string
  tc_acceptance_criteria :: "string list"
  tc_allowed_paths :: "string list"
  tc_required_tests :: "string list"
  tc_assigned_agent_profile_id :: "string option"
  tc_repo_id :: "string option"
  tc_branch_name :: "string option"
  tc_worktree_ref :: "string option"
  tc_budget_limit :: "int option"

text \<open>\<^verbatim>\<open>x = f(data.y) if data.y is not None else None\<close>, where \<open>f\<close> may raise.\<close>

definition opt_act :: "('a \<Rightarrow> 'b action) \<Rightarrow> 'a option \<Rightarrow> 'b option action" where
  "opt_act f x = (case x of None \<Rightarrow> ret None | Some y \<Rightarrow> bnd (f y) (\<lambda>z.
                                                       ret (Some z)))"

definition create_task :: "string \<Rightarrow> task_create \<Rightarrow> task action" where
  "create_task project_id data =
     bnd (get_project project_id) (\<lambda>_.
     bnd (opt_act get_conversation (tc_conversation_id data)) (\<lambda>conversation.
     bnd (opt_act get_task (tc_parent_task_id data)) (\<lambda>parent_task.
     bnd (opt_act get_repository (tc_repo_id data)) (\<lambda>repository.
     bnd (require_audited_permission_if_authenticated ''task.write'' ''task.create'' ''task'' None) (\<lambda>_.
     bnd (only_if (case conversation of None \<Rightarrow> False | Some c \<Rightarrow> cv_project_id c \<noteq> project_id)
            (raise (http 400 ''Conversation does not belong to project''))) (\<lambda>_.
     bnd (only_if (case parent_task of None \<Rightarrow> False | Some t \<Rightarrow> tk_project_id t \<noteq> project_id)
            (raise (http 400 ''Parent task does not belong to project''))) (\<lambda>_.
     bnd (only_if (case repository of None \<Rightarrow> False | Some r \<Rightarrow> rp_project_id r \<noteq> project_id)
            (raise (http 400 ''Repository does not belong to project''))) (\<lambda>_.
     bnd (new_task (\<lambda>t. t\<lparr>tk_project_id := project_id,
            tk_conversation_id := tc_conversation_id data,
            tk_parent_task_id := tc_parent_task_id data,
            tk_title := tc_title data,
            tk_description := tc_description data,
            tk_role_required := tc_role_required data,
            tk_priority := tc_priority data,
            tk_risk_level := tc_risk_level data,
            tk_acceptance_criteria := tc_acceptance_criteria data,
            tk_allowed_paths := tc_allowed_paths data,
            tk_required_tests := tc_required_tests data,
            tk_assigned_agent_profile_id := tc_assigned_agent_profile_id data,
            tk_repo_id := tc_repo_id data,
            tk_branch_name := tc_branch_name data,
            tk_worktree_ref := tc_worktree_ref data,
            tk_budget_limit := tc_budget_limit data\<rparr>)) (\<lambda>task.
     bnd (add_task task) (\<lambda>_.
     bnd current_user_id (\<lambda>user_id.
     bnd (create_task_event (tk_id task) ''task_created'' ''user'' user_id
            (JObj [(''status'', JStr (task_status_value (tk_status task)))])) (\<lambda>_.
     bnd (record_workspace_audit
            (workspace_audit_defaults ''task.create'' ''task'' (Some (tk_id task))
               AL_HIGH_VALUE_WRITE True 201)) (\<lambda>_.
     bnd commit (\<lambda>_.
     db_refresh t_task tk_id task))))))))))))))"

definition list_tasks :: "string \<Rightarrow> task list action" where
  "list_tasks project_id =
     bnd (get_project project_id) (\<lambda>_.
     bnd (db_select t_task (\<lambda>t. tk_project_id t = project_id)) (\<lambda>ts.
     ret (sort_key tk_created_at ts)))"

definition list_task_events :: "string \<Rightarrow> task_event list action" where
  "list_task_events task_id =
     bnd (get_task task_id) (\<lambda>_.
     bnd (db_select t_task_event (\<lambda>e. te_task_id e = task_id)) (\<lambda>es.
     ret (sort_key (\<lambda>e. (te_created_at e, te_id e)) es)))"

text \<open>The body of the 400 that every service raises for a refused transition.\<close>

definition transition_error :: "string \<Rightarrow> task_status \<Rightarrow> task_status \<Rightarrow> exn" where
  "transition_error message current requested =
     HTTPException 400
       (JObj [(''message'', JStr message),
              (''current_status'', JStr (task_status_value current)),
              (''requested_status'', JStr (task_status_value requested)),
              (''allowed_next_statuses'', jstrs (allowed_next_statuses current))]) None"

definition transition_payload :: "task_status \<Rightarrow> task_status \<Rightarrow> json" where
  "transition_payload from_status to_status =
     JObj [(''from_status'', JStr (task_status_value from_status)),
           (''to_status'', JStr (task_status_value to_status))]"

definition transition_task :: "string \<Rightarrow> task_status \<Rightarrow> string \<Rightarrow> string \<Rightarrow> task action" where
  "transition_task task_id requested_status actor_type actor_id =
     bnd (get_task task_id) (\<lambda>task.
     let current_status = tk_status task in
     bnd (require_audited_permission_if_authenticated ''task.write'' ''task.transition'' ''task''
            (Some (tk_id task))) (\<lambda>_.
     case validate_transition current_status requested_status actor_type of
            Inl msg \<Rightarrow> raise (transition_error msg current_status requested_status)
          | Inr next_status \<Rightarrow>
              bnd utc_now (\<lambda>now.
              bnd (set_task task (\<lambda>t. t\<lparr>tk_status := next_status, tk_updated_at := now\<rparr>)) (\<lambda>task.
              bnd (create_task_event (tk_id task) ''task_transitioned'' actor_type actor_id
                     (transition_payload current_status next_status)) (\<lambda>_.
              bnd (record_workspace_audit
                     (workspace_audit_defaults ''task.transition'' ''task'' (Some (tk_id task))
                        AL_HIGH_VALUE_WRITE True 200)) (\<lambda>_.
              bnd commit (\<lambda>_.
              db_refresh t_task tk_id task)))))))"

section \<open>Planner runs\<close>

definition get_planner_run :: "string \<Rightarrow> planner_run action" where
  "get_planner_run planner_run_id =
     bnd (db_get t_planner_run planner_run_id) (\<lambda>planner_run.
     case planner_run of
            None \<Rightarrow> raise (http 404 ''Planner run not found'')
          | Some r \<Rightarrow> bnd (get_project (pr_project_id r)) (\<lambda>_.
                     ret r))"

definition list_planner_task_drafts :: "string \<Rightarrow> planner_task_draft list action" where
  "list_planner_task_drafts planner_run_id =
     bnd (db_select t_planner_task_draft (\<lambda>d. pd_planner_run_id d = planner_run_id)) (\<lambda>ds.
     ret (sort_key pd_sequence ds))"

definition ensure_planner_run_is_drafted :: "planner_run \<Rightarrow> unit action" where
  "ensure_planner_run_is_drafted planner_run =
     only_if (pr_status planner_run \<noteq> PR_DRAFTED)
       (raise (http 400 ''Planner run has already been decided''))"

record planner_run_decision =
  dec_planner_run_id :: string
  dec_approval_id :: string
  dec_status :: string
  dec_created_tasks :: "task list"

definition create_task_from_draft ::
  "project \<Rightarrow> planner_run \<Rightarrow> string \<Rightarrow> planner_task_draft \<Rightarrow> task action" where
  "create_task_from_draft project planner_run user_id draft =
     bnd (new_task (\<lambda>t. t\<lparr>tk_project_id := pj_id project,
            tk_conversation_id := pr_conversation_id planner_run,
            tk_title := pd_title draft,
            tk_description := pd_objective draft,
            tk_role_required := pd_role_required draft,
            tk_risk_level := pd_risk_level draft,
            tk_acceptance_criteria := pd_acceptance_criteria draft,
            tk_allowed_paths := pd_allowed_paths draft,
            tk_required_tests := pd_required_tests draft\<rparr>)) (\<lambda>task.
     bnd (add_task task) (\<lambda>_.
     bnd (create_task_event (tk_id task) ''task_created'' ''user'' user_id
            (JObj [(''status'', JStr (task_status_value (tk_status task))),
                   (''planner_run_id'', JStr (pr_id planner_run)),
                   (''planner_task_draft_id'', JStr (pd_id draft))])) (\<lambda>_.
     ret task)))"

text \<open>\<^verbatim>\<open>except IntegrityError\<close>: the run was decided by someone else in the meantime.\<close>

definition already_decided :: "'a action \<Rightarrow> 'a action" where
  "already_decided m =
     try_catch m (\<lambda>exc. if exc = IntegrityError
       then bnd rollback (\<lambda>_.
            raise (http 400 ''Planner run has already been decided''))
       else raise exc)"

definition approve_planner_run :: "string \<Rightarrow> planner_run_decision action" where
  "approve_planner_run planner_run_id =
     bnd (get_planner_run planner_run_id) (\<lambda>planner_run.
     bnd (get_project (pr_project_id planner_run)) (\<lambda>project.
     bnd (require_audited_permission_if_authenticated ''planner.review'' ''planner_run.approve''
            ''planner_run'' (Some (pr_id planner_run))) (\<lambda>_.
     bnd (ensure_planner_run_is_drafted planner_run) (\<lambda>_.
     bnd (list_planner_task_drafts (pr_id planner_run)) (\<lambda>drafts.
     bnd (already_decided
            (bnd current_user_id (\<lambda>user_id.
             bnd utc_now (\<lambda>now.
             bnd (new_approval (\<lambda>a. a\<lparr>ap_workspace_id := pj_workspace_id project,
                    ap_project_id := pj_id project, ap_planner_run_id := pr_id planner_run,
                    ap_status := AP_APPROVED, ap_decided_by := Some user_id,
                    ap_decided_at := Some now\<rparr>)) (\<lambda>approval.
             bnd (add_approval approval) (\<lambda>_.
             bnd (map_act (create_task_from_draft project planner_run user_id) drafts) (\<lambda>created_tasks.
             bnd utc_now (\<lambda>now.
             bnd (set_planner_run planner_run (\<lambda>r. r\<lparr>pr_status := PR_APPROVED, pr_updated_at := now\<rparr>)) (\<lambda>_.
             bnd (record_workspace_audit
                    (workspace_audit_defaults ''planner_run.approve'' ''planner_run''
                       (Some (pr_id planner_run)) AL_HIGH_VALUE_WRITE True 200)) (\<lambda>_.
             bnd commit (\<lambda>_.
             ret (approval, created_tasks)))))))))))) (\<lambda>(approval, created_tasks).
     bnd (db_refresh t_approval ap_id approval) (\<lambda>approval.
     bnd (db_refresh t_planner_run pr_id planner_run) (\<lambda>planner_run.
     bnd (map_act (db_refresh t_task tk_id) created_tasks) (\<lambda>created_tasks.
     ret \<lparr>dec_planner_run_id = pr_id planner_run, dec_approval_id = ap_id approval,
               dec_status = ''APPROVED'', dec_created_tasks = created_tasks\<rparr>)))))))))"

definition reject_planner_run :: "string \<Rightarrow> string \<Rightarrow> planner_run_decision action" where
  "reject_planner_run planner_run_id reason =
     bnd (get_planner_run planner_run_id) (\<lambda>planner_run.
     bnd (get_project (pr_project_id planner_run)) (\<lambda>project.
     bnd (require_audited_permission_if_authenticated ''planner.review'' ''planner_run.reject''
            ''planner_run'' (Some (pr_id planner_run))) (\<lambda>_.
     bnd (ensure_planner_run_is_drafted planner_run) (\<lambda>_.
     bnd (already_decided
            (bnd current_user_id (\<lambda>user_id.
             bnd utc_now (\<lambda>now.
             bnd (new_approval (\<lambda>a. a\<lparr>ap_workspace_id := pj_workspace_id project,
                    ap_project_id := pj_id project, ap_planner_run_id := pr_id planner_run,
                    ap_reason := reason,
                    ap_status := AP_REJECTED, ap_decided_by := Some user_id,
                    ap_decided_at := Some now\<rparr>)) (\<lambda>approval.
             bnd (add_approval approval) (\<lambda>_.
             bnd utc_now (\<lambda>now.
             bnd (set_planner_run planner_run (\<lambda>r. r\<lparr>pr_status := PR_REJECTED, pr_updated_at := now\<rparr>)) (\<lambda>_.
             bnd (record_workspace_audit
                    (workspace_audit_defaults ''planner_run.reject'' ''planner_run''
                       (Some (pr_id planner_run)) AL_HIGH_VALUE_WRITE True 200)) (\<lambda>_.
             bnd commit (\<lambda>_.
             ret approval)))))))))) (\<lambda>approval.
     bnd (db_refresh t_approval ap_id approval) (\<lambda>approval.
     bnd (db_refresh t_planner_run pr_id planner_run) (\<lambda>planner_run.
     ret \<lparr>dec_planner_run_id = pr_id planner_run, dec_approval_id = ap_id approval,
               dec_status = ''REJECTED'', dec_created_tasks = []\<rparr>)))))))"

section \<open>Invariance\<close>

context db_invariant
begin

lemma keeps_task_reads [keeps_intros]:
  "keeps (good G) (safe G) (get_project i)" "keeps (good G) (safe G) (get_repository i)"
  "keeps (good G) (safe G) (get_conversation i)" "keeps (good G) (safe G) (get_task i)"
  "keeps (good G) (safe G) (get_planner_run i)"
  unfolding get_project_def get_repository_def get_conversation_def get_task_def
    get_planner_run_def
  by (intro keeps_intros)+

lemma keeps_opt_act [keeps_intros]:
  "(\<And>y. keeps (good G) (safe G) (f y)) \<Longrightarrow> keeps (good G) (safe G) (opt_act f x)"
  unfolding opt_act_def by (intro keeps_intros)

lemma keeps_create_task_event [keeps_intros]:
  "keeps (good G) (safe G) (create_task_event i typ actor actor_id payload)"
  unfolding create_task_event_def by (intro keeps_intros)

lemma keeps_task_writes [keeps_intros]:
  "keeps (good G) (safe G) (create_project p)"
  "keeps (good G) (safe G) (create_task i d)"
  "keeps (good G) (safe G) (transition_task i st actor actor_id)"
  unfolding create_project_def create_task_def transition_task_def
  by (intro keeps_intros)+

end

end
