(* ===== verification/Budgeting.thy ===== *)
theory Budgeting
  imports TaskRepo Calendar
begin

text \<open>
  \<^verbatim>\<open>services/budgeting.py\<close>: a workspace's prepaid credits. A cloud run reserves a fixed amount
  when it is queued; the reservation is released (credited back) when the run never ran, or
  settled (the measured cost, at most the reserved amount, is kept and the rest credited
  back) when it ended. Amounts are cents, Python integers.

  The \<^verbatim>\<open>*_read\<close> helpers that copy a row into a response are not repeated: the actions return
  the row.
\<close>

section \<open>Constants\<close>

definition default_cloud_run_reservation_cents :: int where
  "default_cloud_run_reservation_cents = 100"

definition worker_submission_cents :: int where
  "worker_submission_cents = 25"

definition runtime_second_cents :: int where
  "runtime_second_cents = 1"

definition queue_message_cents :: int where
  "queue_message_cents = 1"

definition object_storage_byte_cents :: int where
  "object_storage_byte_cents = 0"

definition log_sync_call_cents :: int where
  "log_sync_call_cents = 1"

section \<open>Wallets and spend limits\<close>

definition get_or_create_wallet_for_scope :: "string \<Rightarrow> string \<Rightarrow> credit_wallet action" where
  "get_or_create_wallet_for_scope workspace_id organization_id =
     bnd (db_select t_credit_wallet (\<lambda>x. wl_workspace_id x = workspace_id)) (\<lambda>found.
     case first_of found of
            Some wallet \<Rightarrow> ret wallet
          | None \<Rightarrow>
              bnd (new_credit_wallet (\<lambda>x. x\<lparr>wl_workspace_id := workspace_id,
                     wl_organization_id := organization_id\<rparr>)) (\<lambda>wallet.
              bnd (add_credit_wallet wallet) (\<lambda>_.
              ret wallet)))"

definition get_or_create_wallet :: "credit_wallet action" where
  "get_or_create_wallet =
     bnd current_workspace_id (\<lambda>workspace_id.
     bnd current_organization_id (\<lambda>organization_id.
     get_or_create_wallet_for_scope workspace_id organization_id))"

definition get_or_create_spend_limit :: "spend_limit action" where
  "get_or_create_spend_limit =
     bnd current_workspace_id (\<lambda>workspace_id.
     bnd (db_select t_spend_limit (\<lambda>x. sl_workspace_id x = workspace_id)) (\<lambda>found.
     case first_of found of
            Some spend_limit \<Rightarrow> ret spend_limit
          | None \<Rightarrow>
              bnd (new_spend_limit (\<lambda>x. x\<lparr>sl_workspace_id := workspace_id\<rparr>)) (\<lambda>spend_limit.
              bnd (add_spend_limit spend_limit) (\<lambda>_.
              ret spend_limit))))"

definition active_wallet_or_402 :: "credit_wallet action" where
  "active_wallet_or_402 =
     bnd current_workspace_id (\<lambda>workspace_id.
     bnd (db_select t_credit_wallet (\<lambda>x. wl_workspace_id x = workspace_id)) (\<lambda>found.
     case first_of found of
            None \<Rightarrow> raise (http 402 ''Insufficient credits'')
          | Some wallet \<Rightarrow>
              if wl_balance_cents wallet \<le> 0 then raise (http 402 ''Insufficient credits'')
              else ret wallet))"

definition current_month_reserved_and_settled_cents :: "string \<Rightarrow> int action" where
  "current_month_reserved_and_settled_cents workspace_id =
     bnd utc_now (\<lambda>now.
     let from = month_start now in
     let until = next_month_start now in
     bnd (db_select t_budget_reservation (\<lambda>r. rs_workspace_id r = workspace_id \<and>
            rs_status r = BR_RESERVED \<and> from \<le> rs_created_at r \<and> rs_created_at r < until)) (\<lambda>active.
     bnd (db_select t_budget_reservation (\<lambda>r. rs_workspace_id r = workspace_id \<and>
            rs_status r = BR_SETTLED \<and>
            (case rs_settled_at r of None \<Rightarrow> False | Some t \<Rightarrow> from \<le> t \<and> t < until))) (\<lambda>settled.
     ret (sum_list (map rs_reserved_cents active) + sum_list (map rs_settled_cents settled)))))"

definition ensure_spend_limit_allows :: "int \<Rightarrow> unit action" where
  "ensure_spend_limit_allows estimate_cents =
     bnd current_workspace_id (\<lambda>workspace_id.
     bnd (db_select t_spend_limit
            (\<lambda>x. sl_workspace_id x = workspace_id \<and> sl_status x = ''active'')) (\<lambda>found.
     case first_of found of
            None \<Rightarrow> ret ()
          | Some spend_limit \<Rightarrow>
              bnd (only_if (0 < sl_per_run_limit_cents spend_limit \<and>
                            sl_per_run_limit_cents spend_limit < estimate_cents)
                     (raise (http 402 ''Spend limit exceeded''))) (\<lambda>_.
              only_if (0 < sl_monthly_limit_cents spend_limit)
                     (bnd (current_month_reserved_and_settled_cents workspace_id) (\<lambda>used.
                      only_if (sl_monthly_limit_cents spend_limit < used + estimate_cents)
                             (raise (http 402 ''Spend limit exceeded'')))))))"

definition grant_manual_credit :: "int \<Rightarrow> bool \<Rightarrow> credit_wallet action" where
  "grant_manual_credit amount_cents commit_now =
     bnd get_or_create_wallet (\<lambda>wallet.
     bnd utc_now (\<lambda>now.
     bnd (set_credit_wallet wallet (\<lambda>x. x\<lparr>
            wl_balance_cents := wl_balance_cents wallet + amount_cents, wl_updated_at := now\<rparr>)) (\<lambda>wallet.
     bnd (only_if commit_now commit) (\<lambda>_.
     db_refresh t_credit_wallet wl_id wallet))))"

definition set_workspace_spend_limit :: "int \<Rightarrow> int \<Rightarrow> bool \<Rightarrow> spend_limit action" where
  "set_workspace_spend_limit monthly_limit_cents per_run_limit_cents commit_now =
     bnd get_or_create_spend_limit (\<lambda>spend_limit.
     bnd utc_now (\<lambda>now.
     bnd (set_spend_limit spend_limit (\<lambda>x. x\<lparr>
            sl_monthly_limit_cents := monthly_limit_cents,
            sl_per_run_limit_cents := per_run_limit_cents, sl_updated_at := now\<rparr>)) (\<lambda>spend_limit.
     bnd (only_if commit_now commit) (\<lambda>_.
     db_refresh t_spend_limit sl_id spend_limit))))"

section \<open>Reserving\<close>

definition reserve_cloud_run_budget :: "string \<Rightarrow> string \<Rightarrow> budget_reservation action" where
  "reserve_cloud_run_budget project_id task_id =
     (let estimate_cents = default_cloud_run_reservation_cents in
     bnd (ensure_spend_limit_allows estimate_cents) (\<lambda>_.
     bnd active_wallet_or_402 (\<lambda>wallet.
     bnd (only_if (wl_balance_cents wallet < estimate_cents)
            (raise (http 402 ''Insufficient credits''))) (\<lambda>_.
     bnd utc_now (\<lambda>now.
     bnd (set_credit_wallet wallet (\<lambda>x. x\<lparr>
            wl_balance_cents := wl_balance_cents wallet - estimate_cents, wl_updated_at := now\<rparr>)) (\<lambda>wallet.
     bnd current_workspace_id (\<lambda>workspace_id.
     bnd current_organization_id (\<lambda>organization_id.
     bnd (new_budget_reservation (\<lambda>r. r\<lparr>rs_workspace_id := workspace_id,
            rs_organization_id := organization_id, rs_project_id := project_id,
            rs_task_id := task_id, rs_reserved_cents := estimate_cents,
            rs_status := BR_RESERVED\<rparr>)) (\<lambda>reservation.
     bnd (add_budget_reservation reservation) (\<lambda>_.
     ret reservation))))))))))"

section \<open>Releasing and settling\<close>

definition active_reservation_for_cloud_run :: "cloud_run \<Rightarrow> budget_reservation option action" where
  "active_reservation_for_cloud_run cloud_run =
     (case cr_budget_reservation_id cloud_run of
        None \<Rightarrow> ret None
      | Some reservation_id \<Rightarrow>
          bnd (db_get t_budget_reservation reservation_id) (\<lambda>reservation.
          ret (case reservation of
                      None \<Rightarrow> None
                    | Some r \<Rightarrow> if rs_status r \<noteq> BR_RESERVED then None else Some r)))"

text \<open>
  The guarded \<^verbatim>\<open>UPDATE\<close>: only a reservation that is still reserved moves. \<^verbatim>\<open>False\<close> leaves the
  object as the database has it.
\<close>

definition transition_reserved_reservation ::
  "budget_reservation \<Rightarrow> budget_reservation_status \<Rightarrow> int \<Rightarrow> int \<Rightarrow> bool action" where
  "transition_reserved_reservation reservation status settled_cents settled_at =
     bnd (db_update_where t_budget_reservation t_budget_reservation_update
            (\<lambda>r. rs_id r = rs_id reservation \<and> rs_status r = BR_RESERVED)
            (\<lambda>r. r\<lparr>rs_status := status, rs_settled_cents := settled_cents,
                   rs_settled_at := Some settled_at, rs_updated_at := settled_at\<rparr>)) (\<lambda>n.
     if n \<noteq> 1
          then bnd (db_refresh t_budget_reservation rs_id reservation) (\<lambda>_.
               ret False)
          else ret True)"

definition release_cloud_run_reservation :: "cloud_run \<Rightarrow> cloud_run action" where
  "release_cloud_run_reservation cloud_run =
     bnd (active_reservation_for_cloud_run cloud_run) (\<lambda>found.
     case found of
            None \<Rightarrow> ret cloud_run
          | Some reservation \<Rightarrow>
              bnd utc_now (\<lambda>now.
              bnd (transition_reserved_reservation reservation BR_RELEASED 0 now) (\<lambda>moved.
              if \<not> moved then ret cloud_run
                   else
                     bnd (get_or_create_wallet_for_scope (rs_workspace_id reservation)
                            (rs_organization_id reservation)) (\<lambda>wallet.
                     bnd utc_now (\<lambda>now.
                     bnd (set_credit_wallet wallet (\<lambda>x. x\<lparr>
                            wl_balance_cents := wl_balance_cents wallet + rs_reserved_cents reservation,
                            wl_updated_at := now\<rparr>)) (\<lambda>_.
                     set_cloud_run cloud_run (\<lambda>r. r\<lparr>
                            cr_actual_cost_cents := 0,
                            cr_cost_summary_json := JObj
                              [(''reservation_id'', JStr (rs_id reservation)),
                               (''reserved_cents'', JInt (rs_reserved_cents reservation)),
                               (''measured_cents'', JInt 0),
                               (''measured_cost_cents'', JInt 0),
                               (''actual_cents'', JInt 0),
                               (''actual_cost_cents'', JInt 0),
                               (''billable_cost_cents'', JInt 0),
                               (''status'', JStr ''released'')]\<rparr>)))))))"

text \<open>
  \<^verbatim>\<open>int(timedelta.total_seconds())\<close> rounds towards zero; a run that was claimed and completed
  counts for a second at least.
\<close>

definition cloud_run_runtime_seconds :: "cloud_run \<Rightarrow> int" where
  "cloud_run_runtime_seconds cloud_run =
     (case (cr_claimed_at cloud_run, cr_completed_at cloud_run) of
        (Some started_at, Some completed_at) \<Rightarrow>
          (let d = completed_at - started_at;
               elapsed = (if 0 \<le> d then d div 1000000 else - ((- d) div 1000000))
           in max elapsed 1)
      | _ \<Rightarrow> 0)"

text \<open>The nested function \<^verbatim>\<open>add_size\<close>: the largest size seen for each reference.\<close>

definition add_size :: "string \<Rightarrow> int option \<Rightarrow> (string \<times> int) list \<Rightarrow> (string \<times> int) list" where
  "add_size ref size_bytes sizes =
     (case size_bytes of
        None \<Rightarrow> sizes
      | Some n \<Rightarrow>
          if n \<le> 0 then sizes
          else AList.update ref (max (case map_of sizes ref of None \<Rightarrow> 0 | Some m \<Rightarrow> m) n) sizes)"

definition cloud_run_object_storage_bytes :: "cloud_run \<Rightarrow> int action" where
  "cloud_run_object_storage_bytes cloud_run =
     bnd (db_select t_cloud_run_stored_object
            (\<lambda>x. so_cloud_run_id x = cr_id cloud_run)) (\<lambda>stored_objects.
     let sizes = add_size
              (str_or (cr_artifact_manifest_uri cloud_run) ''cloud_run:artifact_manifest'')
              (cr_artifact_manifest_size_bytes cloud_run) [] in
     let sizes = add_size (str_or (cr_log_stream_uri cloud_run) ''cloud_run:log_stream'')
              (cr_log_stream_size_bytes cloud_run) sizes in
     let sizes = fold (\<lambda>x. add_size (so_uri x) (Some (so_size_bytes x))) stored_objects sizes in
     ret (sum_list (map snd sizes)))"

text \<open>\<^verbatim>\<open>isinstance(x, int)\<close> holds of booleans too, which count as 0 and 1.\<close>

definition int_instance :: "json option \<Rightarrow> int option" where
  "int_instance j = (case j of
      Some (JInt n) \<Rightarrow> Some n
    | Some (JBool b) \<Rightarrow> Some (if b then 1 else 0)
    | _ \<Rightarrow> None)"

definition known_cloud_run_log_sync_calls :: "cloud_run \<Rightarrow> int" where
  "known_cloud_run_log_sync_calls cloud_run =
     (case int_instance (jget (cr_cost_summary_json cloud_run) ''log_sync_calls'') of
        Some n \<Rightarrow>
          if 0 < n then n
          else if cr_runtime_provider cloud_run \<noteq> None \<and> cr_log_stream_uri cloud_run \<noteq> None then 1
          else 0
      | None \<Rightarrow>
          if cr_runtime_provider cloud_run \<noteq> None \<and> cr_log_stream_uri cloud_run \<noteq> None then 1
          else 0)"

record usage_measurement =
  um_usage_type :: usage_type
  um_quantity :: int
  um_unit_name :: string
  um_amount_cents :: int

definition cloud_run_usage_measurements :: "cloud_run \<Rightarrow> usage_measurement list action" where
  "cloud_run_usage_measurements cloud_run =
     (let runtime_seconds = cloud_run_runtime_seconds cloud_run in
     bnd (cloud_run_object_storage_bytes cloud_run) (\<lambda>object_storage_bytes.
     let log_sync_calls = known_cloud_run_log_sync_calls cloud_run in
     ret ([\<lparr>um_usage_type = UT_WORKER_SUBMISSIONS, um_quantity = 1,
                 um_unit_name = ''submission'', um_amount_cents = worker_submission_cents\<rparr>] @
               (if 0 < runtime_seconds
                then [\<lparr>um_usage_type = UT_CLOUD_RUN_RUNTIME_SECONDS, um_quantity = runtime_seconds,
                       um_unit_name = ''seconds'',
                       um_amount_cents = runtime_seconds * runtime_second_cents\<rparr>] else []) @
               (if cr_queue_message_id cloud_run \<noteq> None
                then [\<lparr>um_usage_type = UT_QUEUE_MESSAGES, um_quantity = 1,
                       um_unit_name = ''message'', um_amount_cents = queue_message_cents\<rparr>] else []) @
               (if 0 < object_storage_bytes
                then [\<lparr>um_usage_type = UT_OBJECT_STORAGE_BYTES, um_quantity = object_storage_bytes,
                       um_unit_name = ''bytes'',
                       um_amount_cents = object_storage_bytes * object_storage_byte_cents\<rparr>] else []) @
               (if 0 < log_sync_calls
                then [\<lparr>um_usage_type = UT_LOG_SYNC_CALLS, um_quantity = log_sync_calls,
                       um_unit_name = ''call'',
                       um_amount_cents = log_sync_calls * log_sync_call_cents\<rparr>] else []))))"

text \<open>
  A run has at most one ledger entry per usage type: an existing one is kept, and an insert
  that loses the race against another session is undone.
\<close>

definition append_cloud_run_usage ::
  "cloud_run \<Rightarrow> string \<Rightarrow> usage_measurement \<Rightarrow> unit action" where
  "append_cloud_run_usage cloud_run organization_id m =
     bnd (db_select t_usage_ledger_entry
            (\<lambda>u. ul_cloud_run_id u = Some (cr_id cloud_run) \<and> ul_usage_type u = um_usage_type m)) (\<lambda>existing.
     if existing \<noteq> [] then ret ()
          else
            (let unit_price_cents =
                   (if 0 < um_quantity m then um_amount_cents m div um_quantity m else 0) in
            bnd (new_usage_ledger_entry (\<lambda>u. u\<lparr>
                   ul_workspace_id := cr_workspace_id cloud_run,
                   ul_organization_id := organization_id,
                   ul_user_id := ''system'',
                   ul_project_id := Some (cr_project_id cloud_run),
                   ul_task_id := Some (cr_task_id cloud_run),
                   ul_cloud_run_id := Some (cr_id cloud_run),
                   ul_usage_type := um_usage_type m,
                   ul_provider_name := cr_queue_provider cloud_run,
                   ul_model_name := ''execution'',
                   ul_quantity := um_quantity m,
                   ul_unit_name := um_unit_name m,
                   ul_unit_price_cents := unit_price_cents,
                   ul_amount_cents := um_amount_cents m,
                   ul_raw_usage_json := JObj
                     [(''cloud_run_id'', JStr (cr_id cloud_run)),
                      (''usage_type'', JStr (usage_type_value (um_usage_type m)))]\<rparr>)) (\<lambda>entry.
            try_catch (begin_nested (add_usage_ledger_entry entry))
                   (\<lambda>exc. if exc = IntegrityError then ret () else raise exc))))"

definition measurement_json :: "usage_measurement \<Rightarrow> json" where
  "measurement_json m = JObj
     [(''usage_type'', JStr (usage_type_value (um_usage_type m))),
      (''quantity'', JInt (um_quantity m)),
      (''unit_name'', JStr (um_unit_name m)),
      (''amount_cents'', JInt (um_amount_cents m))]"

definition settle_cloud_run_budget :: "cloud_run \<Rightarrow> cloud_run action" where
  "settle_cloud_run_budget cloud_run =
     bnd (active_reservation_for_cloud_run cloud_run) (\<lambda>found.
     case found of
            None \<Rightarrow> ret cloud_run
          | Some reservation \<Rightarrow>
              bnd (cloud_run_usage_measurements cloud_run) (\<lambda>usage_measurements.
              let measured_cents = sum_list (map um_amount_cents usage_measurements) in
              let billable_cents = min measured_cents (rs_reserved_cents reservation) in
              bnd utc_now (\<lambda>now.
              bnd (transition_reserved_reservation reservation BR_SETTLED billable_cents now) (\<lambda>moved.
              if \<not> moved then ret cloud_run
                   else
                     bnd (for_each (append_cloud_run_usage cloud_run (rs_organization_id reservation))
                            usage_measurements) (\<lambda>_.
                     bnd (get_or_create_wallet_for_scope (rs_workspace_id reservation)
                            (rs_organization_id reservation)) (\<lambda>wallet.
                     bnd utc_now (\<lambda>now.
                     bnd (set_credit_wallet wallet (\<lambda>x. x\<lparr>
                            wl_balance_cents := wl_balance_cents wallet +
                              max (rs_reserved_cents reservation - billable_cents) 0,
                            wl_updated_at := now\<rparr>)) (\<lambda>_.
                     set_cloud_run cloud_run (\<lambda>r. r\<lparr>
                            cr_actual_cost_cents := billable_cents,
                            cr_cost_summary_json := JObj
                              [(''reservation_id'', JStr (rs_id reservation)),
                               (''reserved_cents'', JInt (rs_reserved_cents reservation)),
                               (''actual_cents'', JInt billable_cents),
                               (''actual_cost_cents'', JInt billable_cents),
                               (''measured_cents'', JInt measured_cents),
                               (''measured_cost_cents'', JInt measured_cents),
                               (''billable_cost_cents'', JInt billable_cents),
                               (''usage'', JList (map measurement_json usage_measurements)),
                               (''status'', JStr ''settled'')]\<rparr>)))))))))"

section \<open>Summaries\<close>

definition cost_summary_int :: "json \<Rightarrow> string list \<Rightarrow> int \<Rightarrow> int" where
  "cost_summary_int cost_summary keys fallback =
     (case List.map_filter (\<lambda>k. case jget cost_summary k of Some (JInt n) \<Rightarrow> Some n | _ \<Rightarrow> None) keys of
        [] \<Rightarrow> fallback
      | n # _ \<Rightarrow> n)"

record cloud_run_cost_summary_read =
  cs_cloud_run_id :: string
  cs_workspace_id :: string
  cs_project_id :: string
  cs_task_id :: string
  cs_estimated_cost_cents :: int
  cs_measured_cost_cents :: int
  cs_billable_cost_cents :: int
  cs_actual_cost_cents :: int
  cs_reservation :: "budget_reservation option"
  cs_usage_entries :: "usage_ledger_entry list"

definition cloud_run_cost_summary :: "string \<Rightarrow> cloud_run_cost_summary_read action" where
  "cloud_run_cost_summary cloud_run_id =
     bnd (db_get t_cloud_run cloud_run_id) (\<lambda>found.
     case found of
            None \<Rightarrow> raise (http 404 ''Cloud run not found'')
          | Some cloud_run \<Rightarrow>
     bnd (enforce_workspace_access (cr_workspace_id cloud_run) ''Cloud run not found'') (\<lambda>_.
     bnd (require_audited_workspace_permission_if_authenticated ''billing.read''
            ''billing.cloud_run_cost_summary.read'' ''cloud_run'' (Some (cr_id cloud_run))
            AL_HIGH_SENSITIVE_READ) (\<lambda>should_audit.
     bnd (case cr_budget_reservation_id cloud_run of
              None \<Rightarrow> ret None
            | Some i \<Rightarrow> db_get t_budget_reservation i) (\<lambda>reservation.
     bnd (db_select t_usage_ledger_entry
            (\<lambda>u. ul_cloud_run_id u = Some (cr_id cloud_run) \<and>
                 ul_workspace_id u = cr_workspace_id cloud_run)) (\<lambda>entries.
     let usage_entries = sort_key (\<lambda>u. (ul_created_at u, ul_id u)) entries in
     let cost_summary = cr_cost_summary_json cloud_run in
     let result = \<lparr>
            cs_cloud_run_id = cr_id cloud_run,
            cs_workspace_id = cr_workspace_id cloud_run,
            cs_project_id = cr_project_id cloud_run,
            cs_task_id = cr_task_id cloud_run,
            cs_estimated_cost_cents = cr_estimated_cost_cents cloud_run,
            cs_measured_cost_cents =
              cost_summary_int cost_summary [''measured_cost_cents'', ''measured_cents'']
                (cr_actual_cost_cents cloud_run),
            cs_billable_cost_cents =
              cost_summary_int cost_summary
                [''billable_cost_cents'', ''actual_cost_cents'', ''actual_cents'']
                (cr_actual_cost_cents cloud_run),
            cs_actual_cost_cents = cr_actual_cost_cents cloud_run,
            cs_reservation = reservation,
            cs_usage_entries = usage_entries\<rparr> in
     bnd (only_if should_audit
            (bnd (record_workspace_audit
                    ((workspace_audit_defaults ''billing.cloud_run_cost_summary.read'' ''cloud_run''
                        (Some (cr_id cloud_run)) AL_HIGH_SENSITIVE_READ True 200)
                     \<lparr>wk_metadata :=
                        [(''cloud_run_id'', JStr (cr_id cloud_run)),
                         (''usage_entry_count'', JInt (int (length usage_entries))),
                         (''has_reservation'', JBool (reservation \<noteq> None))],
                      wk_commit := True\<rparr>)) (\<lambda>_.
             ret ()))) (\<lambda>_.
     ret result))))))"

record usage_summary_item =
  ui_usage_type :: string
  ui_quantity :: int
  ui_amount_cents :: int

record usage_summary_read =
  us_workspace_id :: string
  us_project_id :: "string option"
  us_task_id :: "string option"
  us_total_amount_cents :: int
  us_items :: "usage_summary_item list"

text \<open>The dictionary \<^verbatim>\<open>totals\<close>: per usage type the quantity and the amount so far.\<close>

definition add_usage_total ::
  "usage_ledger_entry \<Rightarrow> (string \<times> int \<times> int) list \<Rightarrow> (string \<times> int \<times> int) list" where
  "add_usage_total entry totals =
     (let k = usage_type_value (ul_usage_type entry);
          (q, a) = (case map_of totals k of None \<Rightarrow> (0, 0) | Some qa \<Rightarrow> qa)
      in AList.update k (q + ul_quantity entry, a + ul_amount_cents entry) totals)"

definition workspace_usage_summary :: "string option \<Rightarrow> string option \<Rightarrow> usage_summary_read action" where
  "workspace_usage_summary project_id task_id =
     bnd (opt_act get_project project_id) (\<lambda>_.
     bnd (opt_act (\<lambda>i.
            bnd (db_get t_task i) (\<lambda>found.
            case found of
                   None \<Rightarrow> raise (http 404 ''Task not found'')
                 | Some task \<Rightarrow>
                     bnd (db_get t_project (tk_project_id task)) (\<lambda>task_project.
                     case task_project of
                            None \<Rightarrow> raise (http 404 ''Task not found'')
                          | Some p \<Rightarrow>
                              bnd (enforce_workspace_access (pj_workspace_id p) ''Task not found'') (\<lambda>_.
                              only_if (project_id \<noteq> None \<and> project_id \<noteq> Some (tk_project_id task))
                                     (raise (http 400 ''Task does not belong to project''))))))
            task_id) (\<lambda>_.
     bnd current_workspace_id (\<lambda>workspace_id.
     bnd (db_select t_usage_ledger_entry (\<lambda>u. ul_workspace_id u = workspace_id \<and>
            (project_id = None \<or> ul_project_id u = project_id) \<and>
            (task_id = None \<or> ul_task_id u = task_id))) (\<lambda>entries.
     let totals = fold add_usage_total entries [] in
     let items = map (\<lambda>(k, q, a). \<lparr>ui_usage_type = k, ui_quantity = q, ui_amount_cents = a\<rparr>)
              (sort_key fst totals) in
     ret \<lparr>us_workspace_id = workspace_id, us_project_id = project_id, us_task_id = task_id,
               us_total_amount_cents = sum_list (map ui_amount_cents items), us_items = items\<rparr>))))"


end
