(* ===== verification/BudgetLaws.thy ===== *)
theory BudgetLaws
  imports Budgeting
begin

text \<open>
  The laws of the credit ledger. The funds of a workspace are the balance of its wallet, what
  its open reservations hold and what its settled reservations kept. Reserving, releasing and
  settling move money between the three and never create or lose any; a balance never falls
  below zero and a settled amount never exceeds the reserved one.
\<close>

section \<open>The books\<close>

definition wallet_funds :: "string \<Rightarrow> credit_wallet \<Rightarrow> int" where
  "wallet_funds ws x = (if wl_workspace_id x = ws then wl_balance_cents x else 0)"

definition reservation_funds :: "string \<Rightarrow> budget_reservation \<Rightarrow> int" where
  "reservation_funds ws r =
     (if rs_workspace_id r = ws
      then (case rs_status r of
              BR_RESERVED \<Rightarrow> rs_reserved_cents r
            | BR_SETTLED \<Rightarrow> rs_settled_cents r
            | BR_RELEASED \<Rightarrow> 0)
      else 0)"

definition workspace_funds :: "db \<Rightarrow> string \<Rightarrow> int" where
  "workspace_funds d ws =
     sum_rows (wallet_funds ws) (t_credit_wallet d) +
     sum_rows (reservation_funds ws) (t_budget_reservation d)"

definition reservation_ok :: "budget_reservation \<Rightarrow> bool" where
  "reservation_ok r \<longleftrightarrow> 0 \<le> rs_settled_cents r \<and> rs_settled_cents r \<le> rs_reserved_cents r"

definition books :: "(string \<Rightarrow> int) \<Rightarrow> db \<Rightarrow> bool" where
  "books F d \<longleftrightarrow>
     keyed wl_id (t_credit_wallet d) \<and> keyed rs_id (t_budget_reservation d) \<and>
     (\<forall>x \<in> set (rows (t_credit_wallet d)). 0 \<le> wl_balance_cents x) \<and>
     (\<forall>r \<in> set (rows (t_budget_reservation d)). reservation_ok r) \<and>
     (\<forall>ws. workspace_funds d ws = F ws)"

lemma books_keyed:
  "books F d \<Longrightarrow> keyed wl_id (t_credit_wallet d)"
  "books F d \<Longrightarrow> keyed rs_id (t_budget_reservation d)"
  by (simp_all add: books_def)

lemma rows_append [simp]: "rows (t @ [(k, r)]) = rows t @ [r]"
  by (simp add: rows_def)

interpretation books_db: db_invariant "books F" for F
  by unfold_locales (simp_all add: books_def workspace_funds_def)

lemma books_ignores [simp]:
  "books F (t_usage_ledger_entry_update f1 d) = books F d"
  "books F (t_spend_limit_update f2 d) = books F d"
  "books F (t_cloud_run_update f3 d) = books F d"
  by (simp_all add: books_def workspace_funds_def)

section \<open>Moving money\<close>

lemma books_wallet_change:
  assumes b: "books F d" and x: "map_of (t_credit_wallet d) (wl_id x) = Some x"
    and f: "\<And>y. wl_id (f y) = wl_id y" "wl_workspace_id (f x) = wl_workspace_id x"
      "wl_balance_cents (f x) = wl_balance_cents x + c"
    and nonneg: "0 \<le> wl_balance_cents x + c"
  shows "books (F(wl_workspace_id x := F (wl_workspace_id x) + c))
    (t_credit_wallet_update (row_modify (wl_id x) f) d)"
proof -
  have k: "keyed wl_id (row_modify (wl_id x) f (t_credit_wallet d))"
    using books_keyed(1) [OF b] f(1) by (rule keyed_row_modify)
  have n: "\<forall>y \<in> set (rows (row_modify (wl_id x) f (t_credit_wallet d))). 0 \<le> wl_balance_cents y"
    using b x f(3) nonneg set_rows_modify [of "wl_id x" f "t_credit_wallet d"]
    by (auto simp: books_def)
  have s: "sum_rows (wallet_funds ws) (row_modify (wl_id x) f (t_credit_wallet d)) =
      sum_rows (wallet_funds ws) (t_credit_wallet d) + (if ws = wl_workspace_id x then c else 0)" for ws
    using x f by (simp add: row_modify_def sum_rows_update wallet_funds_def)
  show ?thesis using b k n by (auto simp: books_def workspace_funds_def s)
qed

lemma books_new_wallet:
  assumes "books F d" and "map_of (t_credit_wallet d) k = None" and "wl_balance_cents x = 0"
    and "k = wl_id x"
  shows "books F (t_credit_wallet_update (\<lambda>t. t @ [(k, x)]) d)"
  using assms by (auto simp: books_def workspace_funds_def wallet_funds_def keyed_insert)

lemma books_new_reservation:
  assumes "books F d" and "map_of (t_budget_reservation d) k = None" and "reservation_ok r"
    and "k = rs_id r" and "ws = rs_workspace_id r"
  shows "books (F(ws := F ws + reservation_funds ws r))
    (t_budget_reservation_update (\<lambda>t. t @ [(k, r)]) d)"
  using assms by (auto simp: books_def workspace_funds_def reservation_funds_def keyed_insert)

text \<open>The update of \<^verbatim>\<open>_transition_reserved_reservation\<close> frees what it does not keep.\<close>

lemma books_transition:
  assumes b: "books F d" and r: "map_of (t_budget_reservation d) i = Some r"
    and reserved: "rs_status r = BR_RESERVED"
    and f: "\<And>y. rs_id (f y) = rs_id y" "rs_workspace_id (f r) = rs_workspace_id r"
      "reservation_ok (f r)"
  shows "books (F(rs_workspace_id r := F (rs_workspace_id r) - rs_reserved_cents r +
      reservation_funds (rs_workspace_id r) (f r)))
    (t_budget_reservation_update (rows_where (\<lambda>y. rs_id y = i \<and> rs_status y = BR_RESERVED) f) d)"
proof -
  let ?t = "t_budget_reservation d"
  have one: "rows_where (\<lambda>y. rs_id y = i \<and> rs_status y = BR_RESERVED) f ?t = AList.update i (f r) ?t"
    using books_keyed(2) [OF b] r reserved by (rule rows_where_one)
  have k: "keyed rs_id (AList.update i (f r) ?t)"
    using keyed_rows_where [OF books_keyed(2) [OF b] f(1)] by (simp add: one [symmetric])
  have n: "\<forall>y \<in> set (rows (AList.update i (f r) ?t)). reservation_ok y"
    using b f(3) set_rows_update [OF r, of "f r"] by (auto simp: books_def)
  have s: "sum_rows (reservation_funds ws) (AList.update i (f r) ?t) =
      sum_rows (reservation_funds ws) ?t - reservation_funds ws r + reservation_funds ws (f r)" for ws
    by (rule sum_rows_update [OF r])
  have here: "reservation_funds (rs_workspace_id r) r = rs_reserved_cents r"
    by (simp add: reservation_funds_def reserved)
  have there: "reservation_funds ws r = 0" "reservation_funds ws (f r) = 0"
    if "ws \<noteq> rs_workspace_id r" for ws
    using that f(2) by (simp_all add: reservation_funds_def)
  show ?thesis
    using b k n here there by (auto simp: books_def workspace_funds_def one s)
qed

section \<open>In the middle of a transaction\<close>

text \<open>
  Between two steps of one operation the session's view may owe the workspace some money, or
  hold too much; what is committed does not.
\<close>

definition owing :: "(string \<Rightarrow> int) \<Rightarrow> (string \<Rightarrow> int) \<Rightarrow> world \<Rightarrow> bool" where
  "owing F F' w \<longleftrightarrow> books F' (w_db w) \<and> books F (w_committed w) \<and>
     (\<forall>k d. books F d \<longrightarrow> books F (e_others (w_env w) k d))"

lemma owing_none: "owing F F w = good (books F) w"
  by (simp add: owing_def good_def)

lemma owing_safe: "owing F F' w \<Longrightarrow> \<not> is_http e \<Longrightarrow> safe (books F) e w"
  by (simp add: owing_def safe_def)

lemma owing_change:
  "owing F F' w \<Longrightarrow> (\<And>d. d = w_db w \<Longrightarrow> books F' d \<Longrightarrow> books F'' (g d)) \<Longrightarrow>
     owing F F'' (w\<lparr>w_db := g (w_db w)\<rparr>)"
  by (simp add: owing_def)

lemma owing_upd [simp]:
  "owing F F' (w\<lparr>w_ticks := n\<rparr>) = owing F F' w" "owing F F' (w\<lparr>w_ids := n\<rparr>) = owing F F' w"
  by (simp_all add: owing_def)

lemma wp_get_wallet:
  assumes "owing F F' w"
  shows "wp (get_or_create_wallet_for_scope ws org)
    (\<lambda>x w'. owing F F' w' \<and> map_of (t_credit_wallet (w_db w')) (wl_id x) = Some x \<and>
      wl_workspace_id x = ws)
    (\<lambda>e w'. safe (books F) e w') w"
proof (cases "filter (\<lambda>x. wl_workspace_id x = ws) (rows (t_credit_wallet (w_db w)))")
  case Nil
  show ?thesis
    using assms
    by (auto simp: get_or_create_wallet_for_scope_def wp_simps Nil first_of_def
        new_credit_wallet_def add_credit_wallet_def blank_credit_wallet_def map_of_append_new
        simp del: map_of_append
        intro!: owing_change books_new_wallet owing_safe)
next
  case (Cons x xs)
  then have "x \<in> set (filter (\<lambda>x. wl_workspace_id x = ws) (rows (t_credit_wallet (w_db w))))"
    by simp
  then have "x \<in> set (rows (t_credit_wallet (w_db w)))" and "wl_workspace_id x = ws"
    by simp_all
  moreover have "keyed wl_id (t_credit_wallet (w_db w))"
    using assms books_keyed(1) by (auto simp: owing_def)
  ultimately show ?thesis
    using assms
    by (simp add: get_or_create_wallet_for_scope_def wp_simps Cons first_of_def keyed_get)
qed

text \<open>What appending usage changes: the usage ledger and the counters.\<close>

definition ledger_frame :: "world \<Rightarrow> world \<Rightarrow> bool" where
  "ledger_frame w w' \<longleftrightarrow>
     (w_db w')\<lparr>t_usage_ledger_entry := []\<rparr> = (w_db w)\<lparr>t_usage_ledger_entry := []\<rparr> \<and>
     w_committed w' = w_committed w \<and> w_env w' = w_env w"

lemma ledger_frame_refl: "ledger_frame w w"
  by (simp add: ledger_frame_def)

lemma keeps_append_usage: "keeps (ledger_frame w) (\<lambda>_ _. False) (append_cloud_run_usage run org m)"
proof (rule keepsI)
  fix w' assume "ledger_frame w w'"
  then show "wp (append_cloud_run_usage run org m) (\<lambda>_. ledger_frame w) (\<lambda>_ _. False) w'"
    by (auto simp: append_cloud_run_usage_def wp_simps new_usage_ledger_entry_def
        add_usage_ledger_entry_def ledger_frame_def Let_def)
qed

lemma wp_append_usages:
  "wp (for_each (append_cloud_run_usage run org) ms) (\<lambda>_. ledger_frame w) (\<lambda>_ _. False) w"
  by (rule keepsD [OF keeps_for_each [OF keeps_append_usage] ledger_frame_refl])

lemma owing_frame: "owing F F' w \<Longrightarrow> ledger_frame w w' \<Longrightarrow> owing F F' w'"
  unfolding owing_def ledger_frame_def
  by (metis books_ignores(1))

text \<open>The credit at the end of a release and of a settlement.\<close>

lemma wp_credit_back:
  assumes w: "owing F (F(ws := F ws - c)) w" and c: "0 \<le> c" "c' = c"
    and k: "keeps (good (books F)) (safe (books F)) k"
  shows "wp (bnd (get_or_create_wallet_for_scope ws org) (\<lambda>wallet.
     bnd utc_now (\<lambda>now.
     bnd (set_credit_wallet wallet (\<lambda>x. x\<lparr>wl_balance_cents := wl_balance_cents wallet + c',
       wl_updated_at := now\<rparr>)) (\<lambda>_. k)))) (\<lambda>_. good (books F)) (safe (books F)) w"
  unfolding wp_bnd [of "get_or_create_wallet_for_scope ws org"]
proof (rule wp_mono [OF wp_get_wallet [OF w]])
  fix x w' assume a: "owing F (F(ws := F ws - c)) w' \<and>
    map_of (t_credit_wallet (w_db w')) (wl_id x) = Some x \<and> wl_workspace_id x = ws"
  from a have b: "books (F(ws := F ws - c)) (w_db w')" and x: "wl_workspace_id x = ws"
    "map_of (t_credit_wallet (w_db w')) (wl_id x) = Some x"
    by (simp_all add: owing_def)
  from b have "\<forall>y \<in> set (rows (t_credit_wallet (w_db w'))). 0 \<le> wl_balance_cents y"
    unfolding books_def by blast
  then have "0 \<le> wl_balance_cents x" using map_of_rows [OF x(2)] by blast
  then have "books F (t_credit_wallet_update (row_modify (wl_id x)
      (\<lambda>x'. x'\<lparr>wl_balance_cents := wl_balance_cents x + c', wl_updated_at := t\<rparr>)) (w_db w'))" for t
    using books_wallet_change [OF b x(2), of
        "\<lambda>x'. x'\<lparr>wl_balance_cents := wl_balance_cents x + c', wl_updated_at := t\<rparr>" c] c x(1)
    by (simp add: fun_upd_idem)
  then have "good (books F) (w'\<lparr>w_ticks := n, w_db := t_credit_wallet_update (row_modify (wl_id x)
      (\<lambda>x'. x'\<lparr>wl_balance_cents := wl_balance_cents x + c', wl_updated_at := t\<rparr>)) (w_db w')\<rparr>)" for n t
    using a by (simp add: owing_def good_def)
  then show "wp (bnd utc_now (\<lambda>now. bnd (set_credit_wallet x (\<lambda>x'. x'\<lparr>wl_balance_cents :=
      wl_balance_cents x + c', wl_updated_at := now\<rparr>)) (\<lambda>_. k))) (\<lambda>_. good (books F)) (safe (books F)) w'"
    using keepsD [OF k] by (simp add: wp_simps set_credit_wallet_def)
qed

section \<open>Open reservations\<close>

definition open_reservation :: "db \<Rightarrow> cloud_run \<Rightarrow> budget_reservation option" where
  "open_reservation d run =
     (case cr_budget_reservation_id run of
        None \<Rightarrow> None
      | Some i \<Rightarrow>
          (case map_of (t_budget_reservation d) i of
             None \<Rightarrow> None
           | Some r \<Rightarrow> if rs_status r = BR_RESERVED then Some r else None))"

lemma wp_active_reservation [wp_simps]:
  "wp (active_reservation_for_cloud_run run) Q E w = Q (open_reservation (w_db w) run) w"
  by (simp add: active_reservation_for_cloud_run_def open_reservation_def wp_simps
      split: option.split)

lemma open_reservation_row:
  assumes "keyed rs_id (t_budget_reservation d)" and "open_reservation d run = Some r"
  shows "map_of (t_budget_reservation d) (rs_id r) = Some r" and "rs_status r = BR_RESERVED"
  using assms keyed_key [OF assms(1)]
  by (auto simp: open_reservation_def split: option.splits if_splits)

text \<open>What the guarded update writes.\<close>

definition moved_reservation :: "budget_reservation_status \<Rightarrow> int \<Rightarrow> int \<Rightarrow> budget_reservation \<Rightarrow>
    budget_reservation" where
  "moved_reservation status settled_cents t r =
     r\<lparr>rs_status := status, rs_settled_cents := settled_cents, rs_settled_at := Some t,
       rs_updated_at := t\<rparr>"

definition move_reservation :: "string \<Rightarrow> budget_reservation_status \<Rightarrow> int \<Rightarrow> int \<Rightarrow> db \<Rightarrow> db" where
  "move_reservation i status settled_cents t =
     t_budget_reservation_update
       (rows_where (\<lambda>y. rs_id y = i \<and> rs_status y = BR_RESERVED)
          (moved_reservation status settled_cents t))"

lemma wp_transition_open:
  assumes "keyed rs_id (t_budget_reservation (w_db w))"
    and "open_reservation (w_db w) run = Some r"
  shows "wp (transition_reserved_reservation r status settled_cents t) Q E w =
    Q True (w\<lparr>w_db := move_reservation (rs_id r) status settled_cents t (w_db w)\<rparr>)"
  using count_one [OF assms(1) open_reservation_row(1) [OF assms],
      where Q = "\<lambda>y. rs_status y = BR_RESERVED"]
    open_reservation_row(2) [OF assms]
  by (simp add: transition_reserved_reservation_def wp_simps move_reservation_def
      moved_reservation_def [abs_def] cong: if_cong)

lemma books_moved:
  assumes b: "books F d" and r: "open_reservation d run = Some r"
    and c: "0 \<le> c" "c \<le> rs_reserved_cents r" and st: "st = BR_SETTLED \<or> st = BR_RELEASED \<and> c = 0"
  shows "books (F(rs_workspace_id r := F (rs_workspace_id r) - (rs_reserved_cents r - c)))
    (move_reservation (rs_id r) st c t d)"
proof -
  note row = open_reservation_row [OF books_keyed(2) [OF b] r]
  have "reservation_funds (rs_workspace_id r) (moved_reservation st c t r) = c"
    using st by (auto simp: reservation_funds_def moved_reservation_def)
  moreover have "reservation_ok (moved_reservation st c t r)"
    using c by (simp add: reservation_ok_def moved_reservation_def)
  ultimately show ?thesis
    using books_transition [OF b row, of "moved_reservation st c t"]
    by (simp add: move_reservation_def moved_reservation_def algebra_simps)
qed

section \<open>Every ledger operation balances the books\<close>

lemma keeps_set_cloud_run: "keeps (good (books F)) (safe (books F)) (set_cloud_run run f)"
  unfolding set_cloud_run_def by (rule keeps_row_modify) simp

lemmas budget_wp_bnds =
  wp_bnd [of "active_reservation_for_cloud_run x" for x] wp_bnd [of utc_now]
  wp_bnd [of "transition_reserved_reservation a b c d" for a b c d]
  wp_active_reservation

lemma keeps_release: "keeps (good (books F)) (safe (books F)) (release_cloud_run_reservation run)"
proof (rule keepsI)
  fix w assume g: "good (books F) w"
  then have b: "books F (w_db w)" by (simp add: good_def)
  note k = books_keyed(2) [OF b]
  show "wp (release_cloud_run_reservation run) (\<lambda>_. good (books F)) (safe (books F)) w"
  proof (cases "open_reservation (w_db w) run")
    case None
    then show ?thesis using g by (simp add: release_cloud_run_reservation_def wp_simps)
  next
    case (Some r)
    have "0 \<le> rs_reserved_cents r"
      using b map_of_rows [OF open_reservation_row(1) [OF k Some]]
      by (auto simp: books_def reservation_ok_def)
    then have "owing F (F(rs_workspace_id r := F (rs_workspace_id r) - rs_reserved_cents r))
        (w\<lparr>w_ticks := n, w_db := move_reservation (rs_id r) BR_RELEASED 0 t (w_db w)\<rparr>)" for n t
      using g books_moved [OF b Some, of 0 BR_RELEASED t] by (simp add: owing_def good_def)
    note tail = wp_credit_back [OF this]
    show ?thesis
      using Some k \<open>0 \<le> rs_reserved_cents r\<close>
      by (simp add: release_cloud_run_reservation_def budget_wp_bnds wp_utc_now
          wp_transition_open [where run = run] tail keeps_set_cloud_run)
  qed
qed

text \<open>The measured cost of a run is at least the price of a submission.\<close>

lemma wp_measurements:
  "wp (cloud_run_usage_measurements run)
     (\<lambda>ms w'. w' = w \<and> worker_submission_cents \<le> sum_list (map um_amount_cents ms)) E w"
  by (auto simp: cloud_run_usage_measurements_def cloud_run_object_storage_bytes_def wp_simps
      Let_def runtime_second_cents_def queue_message_cents_def object_storage_byte_cents_def
      log_sync_call_cents_def)

lemma keeps_settle: "keeps (good (books F)) (safe (books F)) (settle_cloud_run_budget run)"
proof (rule keepsI)
  fix w assume g: "good (books F) w"
  then have b: "books F (w_db w)" by (simp add: good_def)
  note k = books_keyed(2) [OF b]
  show "wp (settle_cloud_run_budget run) (\<lambda>_. good (books F)) (safe (books F)) w"
  proof (cases "open_reservation (w_db w) run")
    case None
    then show ?thesis using g by (simp add: settle_cloud_run_budget_def wp_simps)
  next
    case (Some r)
    have pos: "0 \<le> rs_reserved_cents r"
      using b map_of_rows [OF open_reservation_row(1) [OF k Some]]
      by (auto simp: books_def reservation_ok_def)
    have tail: "wp (bnd (for_each (append_cloud_run_usage run (rs_organization_id r)) ms) (\<lambda>_.
        bnd (get_or_create_wallet_for_scope (rs_workspace_id r) (rs_organization_id r)) (\<lambda>wallet.
        bnd utc_now (\<lambda>now.
        bnd (set_credit_wallet wallet (\<lambda>x. x\<lparr>wl_balance_cents := wl_balance_cents wallet +
            c', wl_updated_at := now\<rparr>)) (\<lambda>_. set_cloud_run run f)))))
        (\<lambda>_. good (books F)) (safe (books F))
        (w\<lparr>w_ticks := n, w_db := move_reservation (rs_id r) BR_SETTLED c t (w_db w)\<rparr>)"
      if c: "0 \<le> c" "c \<le> rs_reserved_cents r" "c' = rs_reserved_cents r - c" for ms c c' f n t
    proof -
      let ?w = "w\<lparr>w_ticks := n, w_db := move_reservation (rs_id r) BR_SETTLED c t (w_db w)\<rparr>"
      have o: "owing F (F(rs_workspace_id r := F (rs_workspace_id r) - (rs_reserved_cents r - c))) ?w"
        using g books_moved [OF b Some c(1,2), of BR_SETTLED t] by (simp add: owing_def good_def)
      show ?thesis
        unfolding wp_bnd [of "for_each g xs" for g xs]
        by (rule wp_mono [OF wp_append_usages])
          (use c in \<open>auto intro: wp_credit_back [OF owing_frame [OF o]] keeps_set_cloud_run\<close>)
    qed
    show ?thesis
      unfolding settle_cloud_run_budget_def wp_bnd [of "active_reservation_for_cloud_run x" for x]
        wp_active_reservation Some option.case wp_bnd [of "cloud_run_usage_measurements x" for x]
      by (rule wp_mono [OF wp_measurements])
        (auto simp: budget_wp_bnds wp_utc_now Let_def worker_submission_cents_def
          wp_transition_open [where run = run] k Some pos intro!: tail)
  qed
qed

lemma keeps_spend_limit [keeps_intros]:
  "keeps (good (books F)) (safe (books F)) (ensure_spend_limit_allows n)"
  unfolding ensure_spend_limit_allows_def current_month_reserved_and_settled_cents_def
  by (intro keeps_intros)

lemma wp_active_wallet:
  assumes "good (books F) w"
  shows "wp active_wallet_or_402
    (\<lambda>x w'. w' = w \<and> map_of (t_credit_wallet (w_db w)) (wl_id x) = Some x \<and>
      (\<exists>c. e_auth (w_env w) = Some c \<and> wl_workspace_id x = ac_workspace_id c))
    (safe (books F)) w"
proof -
  have "keyed wl_id (t_credit_wallet (w_db w))"
    using assms by (simp add: good_def books_def)
  then show ?thesis
    using assms
    by (auto simp: active_wallet_or_402_def wp_simps first_of_def keyed_get filter_eq_Cons_iff
        split: option.split list.split intro!: good_safe)
qed

text \<open>The two writes of a reservation: the wallet gives what the reservation holds.\<close>

lemma books_reserve:
  assumes b: "books F d" and x: "map_of (t_credit_wallet d) (wl_id x) = Some x"
    and c: "0 \<le> c" "c \<le> wl_balance_cents x"
    and r: "map_of (t_budget_reservation d) k = None" "k = rs_id r" "rs_reserved_cents r = c"
      "rs_settled_cents r = 0" "rs_status r = BR_RESERVED" "rs_workspace_id r = wl_workspace_id x"
  shows "books F (t_budget_reservation_update (\<lambda>t. t @ [(k, r)])
    (t_credit_wallet_update (row_modify (wl_id x)
      (\<lambda>x'. x'\<lparr>wl_balance_cents := wl_balance_cents x - c, wl_updated_at := t\<rparr>)) d))"
proof -
  let ?f = "\<lambda>x'. x'\<lparr>wl_balance_cents := wl_balance_cents x - c, wl_updated_at := t\<rparr>"
  let ?F = "F(wl_workspace_id x := F (wl_workspace_id x) + - c)"
  have same: "?F(wl_workspace_id x := ?F (wl_workspace_id x) + c) = F"
    by (simp add: fun_eq_iff)
  have w: "books ?F (t_credit_wallet_update (row_modify (wl_id x) ?f) d)"
    by (rule books_wallet_change [OF b x]) (use c in simp_all)
  have n: "map_of (t_budget_reservation (t_credit_wallet_update (row_modify (wl_id x) ?f) d)) k = None"
    using r(1) by simp
  have ok: "reservation_ok r" and f: "reservation_funds (wl_workspace_id x) r = c"
    using c r by (simp_all add: reservation_ok_def reservation_funds_def)
  show ?thesis
    using books_new_reservation [OF w n ok r(2) r(6) [symmetric]] unfolding f same .
qed

lemma keeps_reserve: "keeps (good (books F)) (safe (books F)) (reserve_cloud_run_budget project task)"
proof -
  have "wp (bnd active_wallet_or_402 f) (\<lambda>_. good (books F)) (safe (books F)) w"
    if g: "good (books F) w"
      and f: "\<And>x c. \<lbrakk>map_of (t_credit_wallet (w_db w)) (wl_id x) = Some x;
        e_auth (w_env w) = Some c; wl_workspace_id x = ac_workspace_id c\<rbrakk> \<Longrightarrow>
        wp (f x) (\<lambda>_. good (books F)) (safe (books F)) w"
    for f :: "credit_wallet \<Rightarrow> budget_reservation action" and w
    unfolding wp_bnd by (rule wp_mono [OF wp_active_wallet [OF g]]) (auto intro: f)
  note wallet = this
  show ?thesis
    unfolding reserve_cloud_run_budget_def Let_def
  proof (rule keeps_bnd [OF keeps_spend_limit], rule keepsI, rule wallet)
    fix w x c
    assume g: "good (books F) w" and x: "map_of (t_credit_wallet (w_db w)) (wl_id x) = Some x"
      and c: "e_auth (w_env w) = Some c" "wl_workspace_id x = ac_workspace_id c"
    from g have b: "books F (w_db w)" by (simp add: good_def)
    show "wp (bnd (only_if (wl_balance_cents x < default_cloud_run_reservation_cents)
        (raise (http 402 ''Insufficient credits''))) (\<lambda>_. bnd utc_now (\<lambda>now.
        bnd (set_credit_wallet x (\<lambda>x'. x'\<lparr>wl_balance_cents := wl_balance_cents x -
          default_cloud_run_reservation_cents, wl_updated_at := now\<rparr>)) (\<lambda>_.
        bnd current_workspace_id (\<lambda>workspace_id. bnd current_organization_id (\<lambda>organization_id.
        bnd (new_budget_reservation (\<lambda>r. r\<lparr>rs_workspace_id := workspace_id,
          rs_organization_id := organization_id, rs_project_id := project, rs_task_id := task,
          rs_reserved_cents := default_cloud_run_reservation_cents, rs_status := BR_RESERVED\<rparr>))
        (\<lambda>reservation. bnd (add_budget_reservation reservation) (\<lambda>_. ret reservation))))))))
        (\<lambda>_. good (books F)) (safe (books F)) w"
      using g x c
      by (auto simp: wp_simps set_credit_wallet_def new_budget_reservation_def
          add_budget_reservation_def good_def safe_def blank_budget_reservation_def
          default_cloud_run_reservation_cents_def intro!: books_reserve)
  qed
qed

text \<open>Noting the run a reservation belongs to moves no money.\<close>

lemma keeps_attach:
  "keeps (good (books F)) (safe (books F))
     (set_budget_reservation r (\<lambda>x. x\<lparr>rs_cloud_run_id := i, rs_updated_at := t\<rparr>))"
  unfolding set_budget_reservation_def
proof (rule keeps_row_modify)
  fix d assume b: "books F d"
  let ?f = "\<lambda>x. x\<lparr>rs_cloud_run_id := i, rs_updated_at := t\<rparr>"
  show "books F (t_budget_reservation_update (row_modify (rs_id r) ?f) d)"
  proof (cases "map_of (t_budget_reservation d) (rs_id r)")
    case None
    then have "row_modify (rs_id r) ?f (t_budget_reservation d) = t_budget_reservation d"
      by (simp add: row_modify_def)
    then show ?thesis using b by (simp add: books_def workspace_funds_def)
  next
    case (Some x)
    have k: "keyed rs_id (row_modify (rs_id r) ?f (t_budget_reservation d))"
      by (rule keyed_row_modify [OF books_keyed(2) [OF b]]) simp
    have n: "\<forall>y \<in> set (rows (row_modify (rs_id r) ?f (t_budget_reservation d))). reservation_ok y"
      using b set_rows_modify [of "rs_id r" ?f "t_budget_reservation d"] Some map_of_rows [OF Some]
      by (auto simp: books_def reservation_ok_def)
    have s: "sum_rows (reservation_funds ws) (row_modify (rs_id r) ?f (t_budget_reservation d)) =
        sum_rows (reservation_funds ws) (t_budget_reservation d)" for ws
      by (simp add: row_modify_def Some sum_rows_update [OF Some] reservation_funds_def
          split: budget_reservation_status.split)
    show ?thesis using b k n by (auto simp: books_def workspace_funds_def s)
  qed
qed

end
