(* ===== verification/JsonText.thy ===== *)
theory JsonText
  imports PyText
begin

text \<open>
  \<^verbatim>\<open>json.loads\<close>: the scanner of the standard library, by recursive descent. A value is read from
  the front of a text and the rest is handed on. A dictionary keeps the place of the first
  and the value of the last occurrence of a key. An escape of a code point above 255 has no
  character in this model and is refused. Reading back what \<^verbatim>\<open>json.dumps\<close> wrote gives the value with its
  dictionaries sorted.
\<close>

section \<open>Scanning\<close>

definition skip_blanks :: "string \<Rightarrow> string" where
  "skip_blanks = dropWhile (\<lambda>c. of_char c \<in> {9, 10, 13, 32::nat})"

definition escaped_char :: "char \<Rightarrow> char option" where
  "escaped_char c =
     (let n = (of_char c :: nat) in
      if n \<in> {34, 92, 47} then Some c
      else if n = 98 then Some (char_of (8::nat))
      else if n = 102 then Some (char_of (12::nat))
      else if n = 110 then Some (char_of (10::nat))
      else if n = 114 then Some (char_of (13::nat))
      else if n = 116 then Some (char_of (9::nat))
      else None)"

definition hex4 :: "char \<Rightarrow> char \<Rightarrow> char \<Rightarrow> char \<Rightarrow> nat option" where
  "hex4 a b c d =
     (case (hex_value a, hex_value b, hex_value c, hex_value d) of
        (Some w, Some x, Some y, Some z) \<Rightarrow> Some (4096 * w + 256 * x + 16 * y + z)
      | _ \<Rightarrow> None)"

definition put_char :: "char \<Rightarrow> (string \<times> string) option \<Rightarrow> (string \<times> string) option" where
  "put_char c = map_option (\<lambda>(t, rest). (c # t, rest))"

text \<open>The text of a string after its opening quote, and what follows its closing quote.\<close>

fun scan_string :: "string \<Rightarrow> (string \<times> string) option" where
  "scan_string [] = None"
| "scan_string (c # cs) =
     (if c = CHR 0x22 then Some ([], cs)
      else if c = CHR 0x5C then
        (case cs of
           [] \<Rightarrow> None
         | e # rest \<Rightarrow>
             if e = CHR ''u'' then
               (case rest of
                  h1 # h2 # h3 # h4 # after \<Rightarrow>
                    (case hex4 h1 h2 h3 h4 of
                       None \<Rightarrow> None
                     | Some n \<Rightarrow>
                         if n < 256 then put_char (char_of n) (scan_string after) else None)
                | _ \<Rightarrow> None)
             else
               (case escaped_char e of
                  None \<Rightarrow> None
                | Some x \<Rightarrow> put_char x (scan_string rest)))
      else if of_char c < (32::nat) then None
      else put_char c (scan_string cs))"

definition is_digit :: "char \<Rightarrow> bool" where
  "is_digit c = (let n = (of_char c :: nat) in 48 \<le> n \<and> n \<le> 57)"

definition digits_value :: "string \<Rightarrow> int" where
  "digits_value ds = foldl (\<lambda>v c. 10 * v + (int (of_char c) - 48)) 0 ds"

text \<open>The fraction and the exponent of a number, when there are any.\<close>

definition scan_fraction :: "string \<Rightarrow> string \<times> string" where
  "scan_fraction s =
     (case s of
        c # d # cs \<Rightarrow>
          if c = CHR ''.'' \<and> is_digit d
          then (c # takeWhile is_digit (d # cs), dropWhile is_digit (d # cs)) else ([], s)
      | _ \<Rightarrow> ([], s))"

definition scan_exponent :: "string \<Rightarrow> string \<times> string" where
  "scan_exponent s =
     (case s of
        c # cs \<Rightarrow>
          if c \<in> {CHR ''e'', CHR ''E''}
          then (let (sign, ds) = (case cs of
                      x # xs \<Rightarrow> if x \<in> {CHR ''+'', CHR ''-''} then ([x], xs) else ([], cs)
                    | [] \<Rightarrow> ([], []))
                in if takeWhile is_digit ds = [] then ([], s)
                   else (c # sign @ takeWhile is_digit ds, dropWhile is_digit ds))
          else ([], s)
      | [] \<Rightarrow> ([], []))"

definition scan_number :: "string \<Rightarrow> (json \<times> string) option" where
  "scan_number s =
     (let negative = starts_with ''-'' s;
          body = (if negative then drop 1 s else s);
          digits = (if starts_with ''0'' body then ''0'' else takeWhile is_digit body)
      in if digits = [] then None
         else
           (let (fraction, rest) = scan_fraction (drop (length digits) body);
                (exponent, rest) = scan_exponent rest
            in if fraction = [] \<and> exponent = []
               then Some (JInt (if negative then - digits_value digits else digits_value digits), rest)
               else Some (JFloat ((if negative then ''-'' else []) @ digits @ fraction @ exponent), rest)))"

definition literals :: "(string \<times> json) list" where
  "literals = [(''null'', JNull), (''true'', JBool True), (''false'', JBool False),
     (''NaN'', JFloat ''nan''), (''Infinity'', JFloat ''inf''), (''-Infinity'', JFloat ''-inf'')]"

definition scan_literal :: "string \<Rightarrow> (json \<times> string) option" where
  "scan_literal s =
     (case filter (\<lambda>(name, j). starts_with name s) literals of
        [] \<Rightarrow> None
      | (name, j) # _ \<Rightarrow> Some (j, drop (length name) s))"

definition dict_of :: "(string \<times> json) list \<Rightarrow> (string \<times> json) list" where
  "dict_of kvs = foldl (\<lambda>d (k, v). AList.update k v d) [] kvs"

fun scan_value :: "nat \<Rightarrow> string \<Rightarrow> (json \<times> string) option"
  and scan_items :: "nat \<Rightarrow> string \<Rightarrow> (json list \<times> string) option"
  and scan_members :: "nat \<Rightarrow> string \<Rightarrow> ((string \<times> json) list \<times> string) option" where
  "scan_value 0 s = None"
| "scan_value (Suc n) s =
     (case s of
        [] \<Rightarrow> None
      | c # cs \<Rightarrow>
          if c = CHR 0x22 then map_option (\<lambda>(t, r). (JStr t, r)) (scan_string cs)
          else if c = CHR ''['' then
            (if starts_with '']'' (skip_blanks cs) then Some (JList [], drop 1 (skip_blanks cs))
             else map_option (\<lambda>(xs, r). (JList xs, r)) (scan_items n (skip_blanks cs)))
          else if c = CHR ''{'' then
            (if starts_with ''}'' (skip_blanks cs) then Some (JObj [], drop 1 (skip_blanks cs))
             else map_option (\<lambda>(kvs, r). (JObj (dict_of kvs), r)) (scan_members n (skip_blanks cs)))
          else (case scan_literal s of Some found \<Rightarrow> Some found | None \<Rightarrow> scan_number s))"
| "scan_items 0 s = None"
| "scan_items (Suc n) s =
     (case scan_value n s of
        None \<Rightarrow> None
      | Some (x, r) \<Rightarrow>
          (case skip_blanks r of
             [] \<Rightarrow> None
           | c # cs \<Rightarrow>
               if c = CHR '']'' then Some ([x], cs)
               else if c = CHR '','' then
                 map_option (\<lambda>(xs, r). (x # xs, r)) (scan_items n (skip_blanks cs))
               else None))"
| "scan_members 0 s = None"
| "scan_members (Suc n) s =
     (case s of
        [] \<Rightarrow> None
      | q # qs \<Rightarrow>
          if q \<noteq> CHR 0x22 then None
          else
            (case scan_string qs of
               None \<Rightarrow> None
             | Some (k, r) \<Rightarrow>
                 (case skip_blanks r of
                    [] \<Rightarrow> None
                  | c # cs \<Rightarrow>
                      if c \<noteq> CHR '':'' then None
                      else
                        (case scan_value n (skip_blanks cs) of
                           None \<Rightarrow> None
                         | Some (v, r) \<Rightarrow>
                             (case skip_blanks r of
                                [] \<Rightarrow> None
                              | d # ds \<Rightarrow>
                                  if d = CHR ''}'' then Some ([(k, v)], ds)
                                  else if d = CHR '','' then
                                    map_option (\<lambda>(kvs, r). ((k, v) # kvs, r))
                                      (scan_members n (skip_blanks ds))
                                  else None)))))"

text \<open>Each step of the descent reads a character, so twice the length of the text is enough fuel.\<close>

definition json_loads :: "string \<Rightarrow> json option" where
  "json_loads s =
     (case scan_value (2 * length s + 2) (skip_blanks s) of
        None \<Rightarrow> None
      | Some (j, rest) \<Rightarrow> if skip_blanks rest = [] then Some j else None)"

section \<open>Reading back strings and numbers\<close>

lemma hex_value_digit: "d < 16 \<Longrightarrow> hex_value (hex_digit d) = Some d"
  by (auto simp: hex_value_def hex_digit_def Let_def)

lemma hex4_byte:
  "n < 256 \<Longrightarrow> hex4 (CHR ''0'') (CHR ''0'') (hex_digit (n div 16)) (hex_digit (n mod 16)) = Some n"
  by (simp add: hex4_def hex_value_digit less_mult_imp_div_less) (simp add: hex_value_def)

lemma scan_json_char: "scan_string (json_char c @ rest) = put_char c (scan_string rest)"
proof -
  have plain: "c = char_of n" if "of_char c = (n :: nat)" for n
    using that by (metis char_of_char)
  have "92 = (of_char (CHR 0x5C) :: nat)" by simp
  then have backslash: "char_of (92 :: nat) = CHR 0x5C" by (simp only: char_of_char)
  show ?thesis
    using hex4_byte [of "of_char c"]
    by (auto simp: json_char_def Let_def escaped_char_def backslash dest!: plain split: option.split)
qed

lemma scan_json_string: "scan_string (concat (map json_char s) @ CHR 0x22 # r) = Some (s, r)"
  by (induction s) (simp_all add: scan_json_char put_char_def)

text \<open>What may follow a number without becoming part of it.\<close>

definition stops :: "string \<Rightarrow> bool" where
  "stops r \<longleftrightarrow> (case r of [] \<Rightarrow> True
     | c # _ \<Rightarrow> \<not> is_digit c \<and> c \<notin> {CHR ''.'', CHR ''e'', CHR ''E''})"

lemma stops_simps [simp]: "stops ('','' @ r)" "stops (CHR '']'' # r)" "stops (CHR ''}'' # r)" "stops []"
  "stops (CHR '','' # r)"
  by (simp_all add: stops_def is_digit_def)

lemma is_digit_figure: "n < 10 \<Longrightarrow> is_digit (char_of (48 + n :: nat))"
  by (simp add: is_digit_def Let_def)

lemma nat_digits_digits: "list_all is_digit (nat_digits n)"
  by (induction n rule: nat_digits.induct) (subst nat_digits.simps, simp add: is_digit_figure)

lemma nat_digits_value: "digits_value (nat_digits n) = int n"
proof (induction n rule: nat_digits.induct)
  case (1 n)
  show ?case
  proof (cases "n < 10")
    case True
    then show ?thesis by (subst nat_digits.simps) (simp add: digits_value_def)
  next
    case False
    have "int n = 10 * (int n div 10) + int n mod 10" by simp
    then show ?thesis
      using 1 [OF False] False by (subst nat_digits.simps) (simp add: digits_value_def zdiv_int zmod_int)
  qed
qed

lemma nat_digits_head: "\<exists>d ds. nat_digits n = d # ds \<and> is_digit d \<and> (d = CHR ''0'' \<longrightarrow> ds = [])"
proof (induction n rule: nat_digits.induct)
  case (1 n)
  show ?case
  proof (cases "n < 10")
    case True
    then show ?thesis by (subst nat_digits.simps) (simp add: is_digit_figure)
  next
    case False
    then obtain d ds where d: "nat_digits (n div 10) = d # ds" "is_digit d" "d = CHR ''0'' \<longrightarrow> ds = []"
      using 1 by blast
    have "d \<noteq> CHR ''0''"
    proof
      assume "d = CHR ''0''"
      then have "digits_value (nat_digits (n div 10)) = 0" using d by (simp add: digits_value_def)
      then show False using False by (simp add: nat_digits_value)
    qed
    then show ?thesis using d False by (subst nat_digits.simps) simp
  qed
qed

lemma scan_nat_digits:
  assumes "stops r"
  shows "takeWhile is_digit (nat_digits n @ r) = nat_digits n"
    and "scan_fraction r = ([], r)" and "scan_exponent r = ([], r)"
proof -
  show "takeWhile is_digit (nat_digits n @ r) = nat_digits n"
    using nat_digits_digits [of n] assms
    by (subst takeWhile_append2) (auto simp: list_all_iff stops_def takeWhile_eq_Nil_iff split: list.splits)
  show "scan_fraction r = ([], r)" and "scan_exponent r = ([], r)"
    using assms by (auto simp: stops_def scan_fraction_def scan_exponent_def split: list.splits)
qed

lemma scan_number_nat: "starts_with ''0'' (nat_digits n @ r) \<Longrightarrow> nat_digits n = ''0''"
  using nat_digits_head [of n] by auto

lemma nat_digits_front [simp]: "nat_digits n \<noteq> []" "\<not> starts_with ''-'' (nat_digits n @ r)"
  using nat_digits_head [of n] by (auto simp: is_digit_def)

lemma scan_show_int:
  assumes "stops r"
  shows "scan_number (show_int n @ r) = Some (JInt n, r)"
proof -
  have pos: "scan_number (nat_digits m @ r) = Some (JInt (int m), r)"
    and neg: "scan_number (CHR ''-'' # nat_digits m @ r) = Some (JInt (- int m), r)" for m
    using scan_number_nat [of m r] nat_digits_value [of m]
    by (cases "starts_with ''0'' (nat_digits m @ r)";
        simp add: scan_number_def Let_def scan_nat_digits [OF assms])+
  show ?thesis using pos [of "nat n"] neg [of "nat (- n)"] by (simp add: show_int_def)
qed

section \<open>Reading back values\<close>

text \<open>The values the round trip speaks of: dictionaries without duplicate keys, no floats.\<close>

fun plain :: "json \<Rightarrow> bool" where
  "plain (JObj kvs) = (distinct (map fst kvs) \<and> (\<forall>(k, v) \<in> set kvs. plain v))"
| "plain (JList xs) = (\<forall>x \<in> set xs. plain x)"
| "plain (JFloat x) = False"
| "plain j = True"

fun sorted_json :: "json \<Rightarrow> json" where
  "sorted_json (JObj kvs) = JObj (sort_key fst (map (\<lambda>(k, v). (k, sorted_json v)) kvs))"
| "sorted_json (JList xs) = JList (map sorted_json xs)"
| "sorted_json j = j"

lemma insort_map_snd:
  "insort_key fst (k, f v) (map (\<lambda>(k, v). (k, f v)) kvs) = map (\<lambda>(k, v). (k, f v)) (insort_key fst (k, v) kvs)"
  by (induction kvs) (auto simp: split_def)

lemma sort_map_snd:
  "sort_key fst (map (\<lambda>(k, v). (k, f v)) kvs) = map (\<lambda>(k, v). (k, f v)) (sort_key fst kvs)"
  by (induction kvs) (auto simp: insort_map_snd)

lemma dict_of_distinct: "distinct (map fst kvs) \<Longrightarrow> dict_of kvs = kvs"
proof -
  have new: "k \<notin> fst ` set d \<Longrightarrow> AList.update k v d = d @ [(k, v)]" for k v and d :: "(string \<times> json) list"
    by (induction d) auto
  have "distinct (map fst (d @ kvs)) \<Longrightarrow> foldl (\<lambda>d (k, v). AList.update k v d) d kvs = d @ kvs" for d
    by (induction kvs arbitrary: d) (auto simp: new split_def)
  from this [of "[]"] show "distinct (map fst kvs) \<Longrightarrow> dict_of kvs = kvs" by (simp add: dict_of_def)
qed

lemma json_dumps_head:
  "plain j \<Longrightarrow> \<exists>c cs. json_dumps j = c # cs \<and> c \<notin> {CHR '']'', CHR ''}''} \<and> of_char c \<notin> {9, 10, 13, 32::nat}"
proof (cases j)
  case (JInt n)
  obtain d ds where "nat_digits (nat n) = d # ds" "is_digit d"
    using nat_digits_head by blast
  then show ?thesis by (auto simp: JInt show_int_def is_digit_def Let_def)
qed (auto simp: json_string_def)

lemma skip_blanks_dumps [simp]: "plain j \<Longrightarrow> skip_blanks (json_dumps j @ r) = json_dumps j @ r"
  using json_dumps_head [of j] by (auto simp: skip_blanks_def)

lemma skip_blanks_Cons [simp]:
  "skip_blanks [] = []"
  "skip_blanks (c # s) = (if of_char c \<in> {9, 10, 13, 32::nat} then skip_blanks s else c # s)"
  by (simp_all add: skip_blanks_def)

lemma join_with_split: "join_with sep (x # xs) = x @ (if xs = [] then [] else sep @ join_with sep xs)"
  by (cases xs) simp_all

definition reads :: "json \<Rightarrow> bool" where
  "reads j \<longleftrightarrow> (\<forall>n r. 2 * length (json_dumps j) + 2 \<le> n \<longrightarrow> stops r \<longrightarrow>
     scan_value n (json_dumps j @ r) = Some (sorted_json j, r))"

lemma scan_items_dumps:
  assumes "\<forall>x \<in> set xs. plain x \<and> reads x" and "xs \<noteq> []"
    and "2 * length (join_with '', '' (map json_dumps xs)) + 3 \<le> n"
  shows "scan_items n (join_with '', '' (map json_dumps xs) @ '']'' @ r) = Some (map sorted_json xs, r)"
  using assms
proof (induction xs arbitrary: n)
  case Nil
  then show ?case by simp
next
  case (Cons x xs)
  then obtain m where n: "n = Suc m" by (cases n) simp_all
  have x: "scan_value m (json_dumps x @ s) = Some (sorted_json x, s)" if "stops s" for s
    using Cons.prems that unfolding n by (cases xs) (auto simp: reads_def)
  show ?case
  proof (cases xs)
    case Nil
    then show ?thesis by (simp add: n x)
  next
    case (Cons y ys)
    let ?tail = "join_with '', '' (map json_dumps xs)"
    have "scan_items m (?tail @ '']'' @ r) = Some (map sorted_json xs, r)"
      using Cons.IH [of m] Cons.prems by (simp add: n local.Cons)
    moreover have "skip_blanks (CHR '' '' # ?tail @ '']'' @ r) = ?tail @ '']'' @ r"
      using Cons.prems(1) by (simp add: local.Cons join_with_split [of _ "json_dumps y"])
    ultimately show ?thesis
      using Cons.prems by (simp add: n local.Cons x)
  qed
qed

definition member_text :: "string \<times> json \<Rightarrow> string" where
  "member_text kv = json_string (fst kv) @ '': '' @ json_dumps (snd kv)"

lemma members_front: "kvs \<noteq> [] \<Longrightarrow> \<exists>t. join_with sep (map member_text kvs) = CHR 0x22 # t"
  by (cases kvs) (auto simp: join_with_split member_text_def json_string_def)

lemma scan_members_dumps:
  assumes "\<forall>(k, v) \<in> set kvs. plain v \<and> reads v" and "kvs \<noteq> []"
    and "2 * length (join_with '', '' (map member_text kvs)) + 3 \<le> n"
  shows "scan_members n (join_with '', '' (map member_text kvs) @ ''}'' @ r) =
    Some (map (\<lambda>(k, v). (k, sorted_json v)) kvs, r)"
  using assms
proof (induction kvs arbitrary: n)
  case Nil
  then show ?case by simp
next
  case (Cons kv kvs)
  obtain k v where kv: "kv = (k, v)" by (cases kv)
  from Cons.prems obtain m where n: "n = Suc m" by (cases n) simp_all
  have shape: "member_text kv @ s = CHR 0x22 # concat (map json_char k) @ CHR 0x22 # '': '' @ json_dumps v @ s" for s
    by (simp add: member_text_def kv json_string_def)
  have v: "scan_value m (json_dumps v @ s) = Some (sorted_json v, s)" if "stops s" for s
    using Cons.prems that unfolding n kv
    by (cases kvs) (auto simp: reads_def member_text_def)
  have blanks: "skip_blanks (json_dumps v @ s) = json_dumps v @ s" for s
    using Cons.prems(1) by (simp add: kv)
  show ?case
  proof (cases kvs)
    case Nil
    have "scan_members n (member_text kv @ ''}'' @ r) = Some ([(k, sorted_json v)], r)"
      unfolding shape by (simp add: n scan_json_string v blanks)
    then show ?thesis by (simp add: Nil kv)
  next
    case (Cons y ys)
    let ?tail = "join_with '', '' (map member_text kvs)"
    have "scan_members m (?tail @ ''}'' @ r) = Some (map (\<lambda>(k, v). (k, sorted_json v)) kvs, r)"
      using Cons.IH [of m] Cons.prems by (simp add: n local.Cons)
    moreover have "skip_blanks (CHR '' '' # ?tail @ ''}'' @ r) = ?tail @ ''}'' @ r"
      using members_front [of kvs "'', ''"] local.Cons by auto
    ultimately have "scan_members n (member_text kv @ '', '' @ ?tail @ ''}'' @ r) =
        Some ((k, sorted_json v) # map (\<lambda>(k, v). (k, sorted_json v)) kvs, r)"
      unfolding shape by (simp add: n scan_json_string v blanks)
    then show ?thesis by (simp add: local.Cons kv)
  qed
qed

lemma dumps_obj:
  "json_dumps (JObj kvs) = ''{'' @ join_with '', '' (map member_text (sort_key fst kvs)) @ ''}''"
  by (simp add: sort_map_snd) (simp add: comp_def split_def member_text_def [abs_def])

lemma readsI:
  assumes "\<And>m r. 2 * length (json_dumps j) + 2 \<le> Suc m \<Longrightarrow> stops r \<Longrightarrow>
    scan_value (Suc m) (json_dumps j @ r) = Some (sorted_json j, r)"
  shows "reads j"
  unfolding reads_def
proof (intro allI impI)
  fix n r assume "2 * length (json_dumps j) + 2 \<le> n" and "stops r"
  then show "scan_value n (json_dumps j @ r) = Some (sorted_json j, r)"
    using assms by (cases n) simp_all
qed

lemma reads_plain: "plain j \<Longrightarrow> reads j"
proof (induction j)
  case (JStr s)
  show ?case
    by (rule readsI) (simp add: json_string_def scan_json_string)
next
  case (JInt i)
  show ?case
  proof (rule readsI)
    fix m r assume r: "stops r"
    obtain d ds where d: "nat_digits (nat (if i < 0 then - i else i)) = d # ds" "is_digit d"
      using nat_digits_head by blast
    then have "d \<notin> {CHR 0x22, CHR ''['', CHR ''{'', CHR ''n'', CHR ''t'', CHR ''f'', CHR ''N'', CHR ''I'', CHR ''-''}"
      by (auto simp: is_digit_def Let_def)
    then show "scan_value (Suc m) (json_dumps (JInt i) @ r) = Some (sorted_json (JInt i), r)"
      using scan_show_int [OF r, of i] d(1) by (auto simp: show_int_def scan_literal_def literals_def split: if_splits)
  qed
next
  case (JList xs)
  show ?case
  proof (rule readsI)
    fix m r assume n: "2 * length (json_dumps (JList xs)) + 2 \<le> Suc m"
    show "scan_value (Suc m) (json_dumps (JList xs) @ r) = Some (sorted_json (JList xs), r)"
    proof (cases xs)
      case (Cons x ys)
      have "scan_items m (join_with '', '' (map json_dumps xs) @ '']'' @ r) = Some (map sorted_json xs, r)"
        using JList n by (intro scan_items_dumps) (auto simp: Cons)
      moreover have "skip_blanks (join_with '', '' (map json_dumps xs) @ s) =
          join_with '', '' (map json_dumps xs) @ s" for s
        using JList.prems by (simp add: Cons join_with_split [of _ "json_dumps x"])
      moreover have "\<not> starts_with '']'' (join_with '', '' (map json_dumps xs) @ s)" for s
        using JList.prems json_dumps_head [of x] by (auto simp: Cons join_with_split)
      ultimately show ?thesis by simp
    qed simp
  qed
next
  case (JObj kvs)
  let ?kvs = "sort_key fst kvs"
  show ?case
  proof (rule readsI)
    fix m r assume n: "2 * length (json_dumps (JObj kvs)) + 2 \<le> Suc m"
    have d: "distinct (map fst ?kvs)"
      using JObj.prems by (simp add: distinct_map inj_on_def)
    then have d': "dict_of (map (\<lambda>(k, v). (k, sorted_json v)) ?kvs) = map (\<lambda>(k, v). (k, sorted_json v)) ?kvs"
      by (intro dict_of_distinct) (simp add: comp_def split_def)
    show "scan_value (Suc m) (json_dumps (JObj kvs) @ r) = Some (sorted_json (JObj kvs), r)"
    proof (cases ?kvs)
      case Nil
      then show ?thesis unfolding dumps_obj by (simp add: sort_map_snd)
    next
      case (Cons y ys)
      have "scan_members m (join_with '', '' (map member_text ?kvs) @ ''}'' @ r) =
          Some (map (\<lambda>(k, v). (k, sorted_json v)) ?kvs, r)"
      proof (rule scan_members_dumps)
        show "\<forall>(k, v) \<in> set ?kvs. plain v \<and> reads v"
          using JObj by (fastforce simp: snds.simps)
        show "2 * length (join_with '', '' (map member_text ?kvs)) + 3 \<le> m"
          using n unfolding dumps_obj by simp
      qed (simp add: Cons)
      moreover obtain t where "join_with '', '' (map member_text ?kvs) = CHR 0x22 # t"
        using members_front [of ?kvs "'', ''"] Cons by auto
      ultimately show ?thesis
        unfolding dumps_obj by (simp add: d' sort_map_snd)
    qed
  qed
qed (auto intro!: readsI simp: scan_literal_def literals_def)

text \<open>What was written is read back, dictionaries sorted.\<close>

lemma json_loads_dumps: "plain j \<Longrightarrow> json_loads (json_dumps j) = Some (sorted_json j)"
proof -
  assume j: "plain j"
  have "scan_value (2 * length (json_dumps j) + 2) (json_dumps j @ []) = Some (sorted_json j, [])"
    using reads_plain [OF j] by (simp add: reads_def del: scan_value.simps append_Nil2)
  then show ?thesis
    using skip_blanks_dumps [OF j, of "[]"] by (simp add: json_loads_def del: scan_value.simps)
qed

text \<open>Sorting loses no entry.\<close>

lemma insort_map_of:
  "k \<notin> fst ` set kvs \<Longrightarrow> map_of (insort_key fst (k, v) kvs) = (map_of kvs)(k \<mapsto> v)"
  by (induction kvs) (auto simp: fun_eq_iff)

lemma sort_map_of: "distinct (map fst kvs) \<Longrightarrow> map_of (sort_key fst kvs) = map_of kvs"
  by (induction kvs) (auto simp: insort_map_of image_iff)

lemma jget_sorted:
  "plain j \<Longrightarrow> jget (sorted_json j) k = map_option sorted_json (jget j k)"
  by (cases j) (auto simp: jget_def sort_map_snd map_of_map sort_map_of)

section \<open>Enough fuel\<close>

text \<open>
  What is read is always shorter than the text, so more fuel than twice the length of the text
  changes nothing: the scanner never stops for want of fuel.
\<close>

lemma skip_blanks_length: "length (skip_blanks s) \<le> length s"
  by (simp add: skip_blanks_def length_dropWhile_le)

lemma scan_string_shorter: "scan_string s = Some (t, r) \<Longrightarrow> length r < length s"
  by (induction s arbitrary: t r rule: scan_string.induct)
    (fastforce simp: put_char_def split: if_splits list.splits option.splits)+

lemma scan_fraction_rest: "scan_fraction s = (x, r) \<Longrightarrow> length r \<le> length s"
  by (auto simp: scan_fraction_def length_dropWhile_le le_SucI split: list.splits if_splits)

lemma scan_exponent_rest: "scan_exponent s = (x, r) \<Longrightarrow> length r \<le> length s"
  by (auto simp: scan_exponent_def length_dropWhile_le le_SucI Let_def split: list.splits if_splits)

lemma scan_number_shorter:
  assumes "scan_number s = Some (j, r)"
  shows "length r < length s"
proof -
  define b where "b = (if starts_with ''-'' s then drop 1 s else s)"
  define ds where "ds = (if starts_with ''0'' b then ''0'' else takeWhile is_digit b)"
  obtain x y where f: "scan_fraction (drop (length ds) b) = (x, y)" by fastforce
  obtain u v where e: "scan_exponent y = (u, v)" by fastforce
  from assms have "ds \<noteq> []" and "r = v"
    unfolding scan_number_def Let_def b_def [symmetric] ds_def [symmetric] f e
    by (simp_all add: e split: if_splits)
  moreover have "length (drop (length ds) b) < length b"
    using \<open>ds \<noteq> []\<close> by (cases b) (auto simp: ds_def split: if_splits)
  moreover have "length b \<le> length s" by (simp add: b_def)
  ultimately show ?thesis
    using scan_fraction_rest [OF f] scan_exponent_rest [OF e] by (simp del: length_drop)
qed

lemma scan_literal_shorter:
  assumes "scan_literal s = Some (j, r)"
  shows "length r < length s"
proof -
  from assms obtain name rest where f: "filter (\<lambda>(name, j). starts_with name s) literals = (name, j) # rest"
    and r: "r = drop (length name) s"
    unfolding scan_literal_def by (auto split: list.splits prod.splits)
  have "(name, j) \<in> set (filter (\<lambda>(name, j). starts_with name s) literals)" unfolding f by simp
  then have "starts_with name s" and "(name, j) \<in> set literals" by simp_all
  moreover from this have "name \<noteq> []" by (auto simp: literals_def)
  ultimately show ?thesis unfolding r by (cases s; cases name) simp_all
qed

lemma skip_blanks_less: "length r < length (skip_blanks s) \<Longrightarrow> length r < length s"
  using skip_blanks_length [of s] by linarith

lemma starts_with_length: "starts_with p s \<Longrightarrow> length p \<le> length s"
  by (auto simp: starts_with_iff)

lemma scan_shorter:
  "(\<forall>s j r. scan_value n s = Some (j, r) \<longrightarrow> length r < length s) \<and>
   (\<forall>s xs r. scan_items n s = Some (xs, r) \<longrightarrow> length r < length s) \<and>
   (\<forall>s kvs r. scan_members n s = Some (kvs, r) \<longrightarrow> length r < length s)"
proof (induction n)
  case 0
  then show ?case by simp
next
  case (Suc n)
  then have V: "scan_value n s = Some (j, r) \<Longrightarrow> length r < length s"
    and I: "scan_items n s = Some (xs, r) \<Longrightarrow> length r < length s"
    and M: "scan_members n s = Some (kvs, r) \<Longrightarrow> length r < length s" for s j xs kvs r
    by blast+
  have "length r < length s" if v: "scan_value (Suc n) s = Some (j, r)" for s j r
  proof (cases s)
    case (Cons c cs)
    have b: "length (drop 1 (skip_blanks cs)) < Suc (length cs)"
      using skip_blanks_length [of cs] by simp
    from v show ?thesis
      unfolding Cons scan_value.simps list.case
      using b by (auto split: if_splits option.splits dest!: I M skip_blanks_less scan_string_shorter
          dest: scan_number_shorter scan_literal_shorter)
  qed (use v in simp)
  moreover have "length r < length s" if i: "scan_items (Suc n) s = Some (xs, r)" for s xs r
  proof -
    obtain x r1 where x: "scan_value n s = Some (x, r1)" using i by (auto split: option.splits)
    then have "length (skip_blanks r1) < length s"
      using V [OF x] skip_blanks_length [of r1] by linarith
    then show ?thesis
      using i x by (auto split: list.splits if_splits dest!: I skip_blanks_less)
  qed
  moreover have "length r < length s" if m: "scan_members (Suc n) s = Some (kvs, r)" for s kvs r
  proof -
    obtain qs where s: "s = CHR 0x22 # qs" using m by (auto split: list.splits if_splits)
    obtain k r1 where k: "scan_string qs = Some (k, r1)"
      using m by (auto simp: s split: option.splits)
    obtain cs where c: "skip_blanks r1 = CHR '':'' # cs"
      using m by (auto simp: s k split: list.splits if_splits)
    obtain v r2 where v: "scan_value n (skip_blanks cs) = Some (v, r2)"
      using m by (auto simp: s k c split: option.splits)
    have "length (skip_blanks r2) \<le> length r2" "length (skip_blanks r1) \<le> length r1"
      by (rule skip_blanks_length)+
    then have "length (skip_blanks r2) < length qs"
      using scan_string_shorter [OF k] skip_blanks_less [OF V [OF v]] c by simp
    then show ?thesis
      using m by (auto simp: s k c v split: list.splits if_splits dest!: M skip_blanks_less)
  qed
  ultimately show ?case by blast
qed

lemma scan_more_fuel:
  "(\<forall>s. 2 * length s + 1 \<le> n \<longrightarrow> scan_value (Suc n) s = scan_value n s) \<and>
   (\<forall>s. 2 * length s + 2 \<le> n \<longrightarrow> scan_items (Suc n) s = scan_items n s) \<and>
   (\<forall>s. 2 * length s + 2 \<le> n \<longrightarrow> scan_members (Suc n) s = scan_members n s)"
proof (induction n)
  case 0
  then show ?case by simp
next
  case (Suc n)
  then have V: "2 * length s + 1 \<le> n \<Longrightarrow> scan_value (Suc n) s = scan_value n s"
    and I: "2 * length s + 2 \<le> n \<Longrightarrow> scan_items (Suc n) s = scan_items n s"
    and M: "2 * length s + 2 \<le> n \<Longrightarrow> scan_members (Suc n) s = scan_members n s" for s
    by blast+
  have "scan_value (Suc (Suc n)) s = scan_value (Suc n) s" if v: "2 * length s + 1 \<le> Suc n" for s
  proof (cases s)
    case (Cons c cs)
    have "2 * length (skip_blanks cs) + 2 \<le> n" using v skip_blanks_length [of cs] by (simp add: Cons)
    then have "scan_items (Suc n) (skip_blanks cs) = scan_items n (skip_blanks cs)"
      and "scan_members (Suc n) (skip_blanks cs) = scan_members n (skip_blanks cs)"
      using I M by blast+
    then show ?thesis unfolding Cons scan_value.simps list.case by simp
  qed simp
  moreover have "scan_items (Suc (Suc n)) s = scan_items (Suc n) s" if i: "2 * length s + 2 \<le> Suc n" for s
  proof -
    have v: "scan_value (Suc n) s = scan_value n s" using V i by simp
    have "scan_items (Suc n) (skip_blanks cs) = scan_items n (skip_blanks cs)"
      if x: "scan_value n s = Some (x, r)" and c: "skip_blanks r = c # cs" for x r c cs
    proof -
      have "length r < length s" using scan_shorter [of n] x by blast
      then have "2 * length (skip_blanks cs) + 2 \<le> n"
        using c skip_blanks_length [of r] skip_blanks_length [of cs] i by simp
      then show ?thesis by (rule I)
    qed
    then show ?thesis
      unfolding scan_items.simps(2) [of "Suc n"] scan_items.simps(2) [of n] v
      by (auto split: option.splits list.splits)
  qed
  moreover have "scan_members (Suc (Suc n)) s = scan_members (Suc n) s"
    if m: "2 * length s + 2 \<le> Suc n" for s
  proof -
    have v: "scan_value (Suc n) (skip_blanks cs) = scan_value n (skip_blanks cs)"
      and w: "scan_value n (skip_blanks cs) = Some (z, r') \<Longrightarrow> skip_blanks r' = d # ds \<Longrightarrow>
        scan_members (Suc n) (skip_blanks ds) = scan_members n (skip_blanks ds)"
      if "s = q # qs" and "scan_string qs = Some (k, r)" and "skip_blanks r = c # cs"
      for q qs k r c cs z r' d ds
    proof -
      have "length (skip_blanks cs) \<le> length cs" by (rule skip_blanks_length)
      then have cs: "2 * length (skip_blanks cs) + 4 \<le> n"
        using that scan_string_shorter [of qs] skip_blanks_length [of r] m by fastforce
      then show "scan_value (Suc n) (skip_blanks cs) = scan_value n (skip_blanks cs)"
        by (intro V) simp
      show "scan_members (Suc n) (skip_blanks ds) = scan_members n (skip_blanks ds)"
        if z: "scan_value n (skip_blanks cs) = Some (z, r')" and d: "skip_blanks r' = d # ds"
      proof (rule M)
        have "length r' < length (skip_blanks cs)" using scan_shorter [of n] z by blast
        then show "2 * length (skip_blanks ds) + 2 \<le> n"
          using d skip_blanks_length [of r'] skip_blanks_length [of ds] cs by simp
      qed
    qed
    then show ?thesis
      unfolding scan_members.simps(2) [of "Suc n"] scan_members.simps(2) [of n]
      by (auto split: option.splits list.splits simp del: scan_value.simps scan_members.simps)
  qed
  ultimately show ?case by blast
qed

lemma scan_value_fuel: "2 * length s + 1 \<le> n \<Longrightarrow> scan_value n s = scan_value (2 * length s + 1) s"
  by (induction n rule: nat_induct_at_least) (simp_all only: scan_more_fuel)

end
