(* ===== verification/Providers.thy ===== *)
theory Providers
  imports BudgetLaws JsonText
begin

text \<open>
  The providers behind a cloud run: the configuration of the Aliyun clients
  (\<^verbatim>\<open>aliyun_config.py\<close>), the queues (\<^verbatim>\<open>cloud_queue_providers.py\<close>), the object stores
  (\<^verbatim>\<open>object_storage.py\<close>), the remote runtimes (\<^verbatim>\<open>remote_runtime.py\<close>) and the sandbox executors
  (\<^verbatim>\<open>cloud_sandbox_executor.py\<close>). What happens outside the program (the SDK calls of
  \<^verbatim>\<open>aliyun_clients.py\<close>, the Docker executor with its subprocesses, the secret vault's key service) is the record \<open>services\<close>, a parameter: each call gets a serial number, so the
  same request may be answered differently later; \<open>None\<close> is an exception.
\<close>

section \<open>Commands and executions\<close>

record command_result =
  cm_command :: string
  cm_exit_code :: "int option"
  cm_stdout :: string
  cm_stderr :: string
  cm_duration_ms :: int
  cm_timed_out :: bool

record sandbox_command_selection =
  sc_key :: string
  sc_label :: string
  sc_command :: string
  sc_timeout_seconds :: int

record sandbox_execution_request =
  sq_task_id :: string
  sq_cloud_run_id :: string
  sq_title :: string
  sq_description :: string
  sq_repo_url :: string
  sq_base_branch :: string
  sq_head_branch :: string
  sq_allowed_paths :: "string list"
  sq_required_tests :: "string list"
  sq_docker_image :: "string option"
  sq_patch_command :: "sandbox_command_selection option"
  sq_test_commands :: "sandbox_command_selection list"
  sq_env :: "(string \<times> string) list"
  sq_network_enabled :: bool
  sq_github_owner :: "string option"
  sq_github_repo :: "string option"
  sq_github_token :: "string option"

record sandbox_execution_result =
  sr_status :: string
  sr_runner_kind :: string
  sr_base_sha :: "string option"
  sr_head_sha :: "string option"
  sr_worktree_ref :: "string option"
  sr_summary :: string
  sr_files_changed :: "string list"
  sr_tests_run :: "string list"
  sr_test_result :: string
  sr_risks :: "string list"
  sr_diff_text :: string
  sr_command_results :: "command_result list"
  sr_test_command_results :: "command_result list"
  sr_failure_reason :: "string option"

section \<open>The world outside\<close>

record aliyun_settings =
  as_region_id :: "string option"
  as_access_key_id :: "string option"
  as_access_key_secret :: "string option"
  as_mns_endpoint :: "string option"
  as_mns_queue_name :: "string option"
  as_oss_endpoint :: "string option"
  as_oss_bucket :: "string option"
  as_eci_vswitch_id :: "string option"
  as_eci_security_group_id :: "string option"
  as_eci_image :: "string option"
  as_api_public_base_url :: "string option"
  as_eci_container_group_prefix :: string
  as_oss_prefix :: string

record mns_delivery =
  md_message_id :: string
  md_receipt_handle :: string
  md_body :: string

record eci_create_request =
  ec_region_id :: string
  ec_cloud_run_id :: string
  ec_container_group_name :: string
  ec_image :: string
  ec_vswitch_id :: string
  ec_security_group_id :: string
  ec_restart_policy :: string
  ec_client_token :: string
  ec_environment :: "(string \<times> string) list"

record sealed_secret =
  ss_encrypted_secret :: string
  ss_secret_last4 :: string

record services =
  sv_mns_send :: "nat \<Rightarrow> string \<Rightarrow> string \<Rightarrow> string option option"
  sv_mns_receive :: "nat \<Rightarrow> string \<Rightarrow> int \<Rightarrow> mns_delivery option option"
  sv_mns_delete :: "nat \<Rightarrow> string \<Rightarrow> string \<Rightarrow> bool"
  sv_oss_put :: "nat \<Rightarrow> string \<Rightarrow> string \<Rightarrow> string \<Rightarrow> string \<Rightarrow> bool"
  sv_oss_get :: "nat \<Rightarrow> string \<Rightarrow> string \<Rightarrow> string option"
  sv_eci_create :: "nat \<Rightarrow> eci_create_request \<Rightarrow> string option option"
  sv_eci_delete :: "nat \<Rightarrow> string \<Rightarrow> string \<Rightarrow> bool"
  sv_eci_log :: "nat \<Rightarrow> string \<Rightarrow> string \<Rightarrow> string \<Rightarrow> json option"
  sv_docker_run :: "nat \<Rightarrow> sandbox_execution_request \<Rightarrow> sandbox_execution_result option"
  sv_vault_seal :: "nat \<Rightarrow> string \<Rightarrow> sealed_secret option"
  sv_vault_open :: "nat \<Rightarrow> string \<Rightarrow> string option"
  sv_vault_rotate :: "nat \<Rightarrow> string \<Rightarrow> string \<Rightarrow> sealed_secret option"
  sv_vault_delete :: "nat \<Rightarrow> string \<Rightarrow> bool"

definition external :: "(nat \<Rightarrow> 'a) \<Rightarrow> 'a action" where
  "external f w = (Inr (f (w_calls w)), w\<lparr>w_calls := Suc (w_calls w)\<rparr>)"

lemma wp_external [wp_simps]:
  "wp (external f) Q E w = Q (f (w_calls w)) (w\<lparr>w_calls := Suc (w_calls w)\<rparr>)"
  by (simp add: wp_def external_def)

lemma keeps_external [keeps_intros]:
  "keeps (good G) (safe G) (external f)" "keeps (good G) (\<lambda>_. good G) (external f)"
  by (auto intro!: keepsI simp: wp_simps)

text \<open>An external call that raises when the answer is \<open>None\<close>, or false.\<close>

definition external_or :: "exn \<Rightarrow> (nat \<Rightarrow> 'a option) \<Rightarrow> 'a action" where
  "external_or e f = bnd (external f) (\<lambda>x.
                     case x of None \<Rightarrow> raise e | Some y \<Rightarrow> ret y)"

definition external_ok :: "exn \<Rightarrow> (nat \<Rightarrow> bool) \<Rightarrow> unit action" where
  "external_ok e f = bnd (external f) (\<lambda>b.
                     only_if (\<not> b) (raise e))"

lemma keeps_external_or [keeps_intros]:
  "keeps (good G) (safe G) (external_or e f)" "keeps (good G) (safe G) (external_ok e g)"
  "keeps (good G) (\<lambda>_. good G) (external_or e f)" "keeps (good G) (\<lambda>_. good G) (external_ok e g)"
  unfolding external_or_def external_ok_def by (intro keeps_intros; assumption?)+

section \<open>Configuration\<close>

definition environ :: "string \<Rightarrow> string option action" where
  "environ name = gets (\<lambda>w. e_environ (w_env w) name)"

definition stripped_env :: "string \<Rightarrow> string option action" where
  "stripped_env name =
     bnd (environ name) (\<lambda>value.
     ret (case value of
                 None \<Rightarrow> None
               | Some v \<Rightarrow> if strip v = [] then None else Some (strip v)))"

text \<open>
  \<^verbatim>\<open>load_aliyun_settings\<close>. The four numeric tuning fields (\<^verbatim>\<open>eci_cpu\<close>, \<^verbatim>\<open>eci_memory_gb\<close>, \<^verbatim>\<open>eci_auto_create_eip\<close>,
  \<^verbatim>\<open>eci_eip_bandwidth\<close>), which only the SDK request carries, are left out.
\<close>

definition load_aliyun_settings :: "aliyun_settings action" where
  "load_aliyun_settings =
     bnd (stripped_env ''AI_SCDC_ALIYUN_REGION_ID'') (\<lambda>region_id.
     bnd (stripped_env ''AI_SCDC_ALIYUN_ACCESS_KEY_ID'') (\<lambda>access_key_id.
     bnd (stripped_env ''AI_SCDC_ALIYUN_ACCESS_KEY_SECRET'') (\<lambda>access_key_secret.
     bnd (stripped_env ''AI_SCDC_ALIYUN_MNS_ENDPOINT'') (\<lambda>mns_endpoint.
     bnd (stripped_env ''AI_SCDC_ALIYUN_MNS_QUEUE_NAME'') (\<lambda>mns_queue_name.
     bnd (stripped_env ''AI_SCDC_ALIYUN_OSS_ENDPOINT'') (\<lambda>oss_endpoint.
     bnd (stripped_env ''AI_SCDC_ALIYUN_OSS_BUCKET'') (\<lambda>oss_bucket.
     bnd (stripped_env ''AI_SCDC_ALIYUN_ECI_VSWITCH_ID'') (\<lambda>eci_vswitch_id.
     bnd (stripped_env ''AI_SCDC_ALIYUN_ECI_SECURITY_GROUP_ID'') (\<lambda>eci_security_group_id.
     bnd (stripped_env ''AI_SCDC_ALIYUN_ECI_IMAGE'') (\<lambda>eci_image.
     bnd (stripped_env ''AI_SCDC_API_PUBLIC_BASE_URL'') (\<lambda>api_public_base_url.
     bnd (stripped_env ''AI_SCDC_ALIYUN_ECI_CONTAINER_GROUP_PREFIX'') (\<lambda>prefix.
     bnd (stripped_env ''AI_SCDC_ALIYUN_OSS_PREFIX'') (\<lambda>oss_prefix.
     ret \<lparr>as_region_id = region_id, as_access_key_id = access_key_id,
               as_access_key_secret = access_key_secret, as_mns_endpoint = mns_endpoint,
               as_mns_queue_name = mns_queue_name, as_oss_endpoint = oss_endpoint,
               as_oss_bucket = oss_bucket, as_eci_vswitch_id = eci_vswitch_id,
               as_eci_security_group_id = eci_security_group_id, as_eci_image = eci_image,
               as_api_public_base_url = api_public_base_url,
               as_eci_container_group_prefix = str_or prefix ''ai-scdc-run'',
               as_oss_prefix = str_or oss_prefix ''ai-scdc/dev''\<rparr>)))))))))))))"

text \<open>\<^verbatim>\<open>_ENV_BY_FIELD\<close> with \<^verbatim>\<open>getattr\<close>: the variable and the value of a required field.\<close>

definition aliyun_fields :: "(string \<times> string \<times> (aliyun_settings \<Rightarrow> string option)) list" where
  "aliyun_fields =
     [(''region_id'', ''AI_SCDC_ALIYUN_REGION_ID'', as_region_id),
      (''access_key_id'', ''AI_SCDC_ALIYUN_ACCESS_KEY_ID'', as_access_key_id),
      (''access_key_secret'', ''AI_SCDC_ALIYUN_ACCESS_KEY_SECRET'', as_access_key_secret),
      (''mns_endpoint'', ''AI_SCDC_ALIYUN_MNS_ENDPOINT'', as_mns_endpoint),
      (''mns_queue_name'', ''AI_SCDC_ALIYUN_MNS_QUEUE_NAME'', as_mns_queue_name),
      (''oss_endpoint'', ''AI_SCDC_ALIYUN_OSS_ENDPOINT'', as_oss_endpoint),
      (''oss_bucket'', ''AI_SCDC_ALIYUN_OSS_BUCKET'', as_oss_bucket),
      (''eci_vswitch_id'', ''AI_SCDC_ALIYUN_ECI_VSWITCH_ID'', as_eci_vswitch_id),
      (''eci_security_group_id'', ''AI_SCDC_ALIYUN_ECI_SECURITY_GROUP_ID'', as_eci_security_group_id),
      (''eci_image'', ''AI_SCDC_ALIYUN_ECI_IMAGE'', as_eci_image),
      (''api_public_base_url'', ''AI_SCDC_API_PUBLIC_BASE_URL'', as_api_public_base_url)]"

definition aliyun_field :: "aliyun_settings \<Rightarrow> string \<Rightarrow> string option" where
  "aliyun_field settings name =
     (case map_of aliyun_fields name of None \<Rightarrow> None | Some (_, f) \<Rightarrow> f settings)"

definition aliyun_env_name :: "string \<Rightarrow> string" where
  "aliyun_env_name name = (case map_of aliyun_fields name of None \<Rightarrow> [] | Some (v, _) \<Rightarrow> v)"

definition require_aliyun_settings :: "string \<Rightarrow> string list \<Rightarrow> aliyun_settings action" where
  "require_aliyun_settings provider_name required_names =
     bnd load_aliyun_settings (\<lambda>settings.
     let missing = filter (\<lambda>n. str_or (aliyun_field settings n) [] = []) required_names in
     let safe_names = map aliyun_env_name (filter (\<lambda>n. n \<noteq> ''access_key_secret'') missing) @
              (if ''access_key_secret'' \<in> set missing
               then [''required secret environment variable''] else []) in
     if missing \<noteq> []
          then raise (AliyunConfigurationError (''Aliyun provider '' @ provider_name @
                 '' is missing configuration: '' @ join_with '', '' safe_names))
          else ret settings)"

lemma keeps_environ [keeps_intros]:
  "keeps (good G) (safe G) (environ n)" "keeps (good G) (safe G) (stripped_env n)"
  unfolding environ_def stripped_env_def by (intro keeps_intros)+

lemma calm_environ [keeps_intros]:
  "keeps (good G) (\<lambda>_. good G) (environ n)" "keeps (good G) (\<lambda>_. good G) (stripped_env n)"
  unfolding environ_def stripped_env_def by (intro keeps_intros)+

lemma keeps_aliyun_settings [keeps_intros]:
  "keeps (good G) (\<lambda>_. good G) (require_aliyun_settings p ns)"
  "keeps (good G) (safe G) (require_aliyun_settings p ns)"
  unfolding require_aliyun_settings_def load_aliyun_settings_def
  by (intro keeps_intros; assumption?)+

end
