(* ===== verification/Queues.thy ===== *)
theory Queues
  imports Providers
begin

text \<open>
  \<^verbatim>\<open>cloud_queue_providers.py\<close>: the local database queue and its external stub keep nothing
  outside the database; Aliyun MNS sends, receives and deletes messages.
\<close>

datatype cloud_queue_provider =
    RegisteredCloudQueueProvider string
  | AliyunMnsQueueProvider

definition known_queue_providers :: "(string \<times> cloud_queue_provider) list" where
  "known_queue_providers =
     [(''local_db'', RegisteredCloudQueueProvider ''local_db''),
      (''external_stub'', RegisteredCloudQueueProvider ''external_stub''),
      (''aliyun_mns'', AliyunMnsQueueProvider)]"

definition get_cloud_queue_provider :: "string \<Rightarrow> cloud_queue_provider action" where
  "get_cloud_queue_provider name =
     (case map_of known_queue_providers name of
        None \<Rightarrow> raise (CloudQueueProviderNotFound (''Unknown cloud queue provider: '' @ name))
      | Some p \<Rightarrow> ret p)"

definition mns_required_names :: "string list" where
  "mns_required_names =
     [''region_id'', ''access_key_id'', ''access_key_secret'', ''mns_endpoint'', ''mns_queue_name'']"

fun queue_validate_configuration :: "cloud_queue_provider \<Rightarrow> unit action" where
  "queue_validate_configuration (RegisteredCloudQueueProvider name) = ret ()"
| "queue_validate_configuration AliyunMnsQueueProvider =
     bnd (require_aliyun_settings ''aliyun_mns'' mns_required_names) (\<lambda>_.
     ret ())"

record cloud_queue_enqueue_request =
  qr_workspace_id :: string
  qr_project_id :: string
  qr_task_id :: string
  qr_cloud_run_id :: string
  qr_queue_provider :: string
  qr_runtime_provider :: "string option"
  qr_storage_provider :: "string option"
  qr_worker_id :: "string option"
  qr_callback_token :: "string option"
  qr_callback_token_expires_at :: "string option"

record cloud_queue_enqueue_result =
  qe_queue_message_id :: "string option"
  qe_queue_receipt :: "string option"
  qe_external_status :: "string option"

definition mns_message_body :: "cloud_queue_enqueue_request \<Rightarrow> json" where
  "mns_message_body request = JObj
     ([(''workspace_id'', JStr (qr_workspace_id request)),
       (''project_id'', JStr (qr_project_id request)),
       (''task_id'', JStr (qr_task_id request)),
       (''cloud_run_id'', JStr (qr_cloud_run_id request)),
       (''queue_provider'', JStr (qr_queue_provider request)),
       (''runtime_provider'', jopt (qr_runtime_provider request)),
       (''storage_provider'', jopt (qr_storage_provider request))] @
      (if str_or (qr_worker_id request) [] \<noteq> [] \<and> str_or (qr_callback_token request) [] \<noteq> [] \<and>
          str_or (qr_callback_token_expires_at request) [] \<noteq> []
       then [(''worker_id'', jopt (qr_worker_id request)),
             (''callback_token'', jopt (qr_callback_token request)),
             (''callback_token_expires_at'', jopt (qr_callback_token_expires_at request))]
       else []))"

fun queue_enqueue ::
  "services \<Rightarrow> cloud_queue_provider \<Rightarrow> cloud_queue_enqueue_request \<Rightarrow> cloud_queue_enqueue_result action" where
  "queue_enqueue sv (RegisteredCloudQueueProvider name) request =
     ret \<lparr>qe_queue_message_id = None, qe_queue_receipt = None,
          qe_external_status = (if name = ''external_stub'' then Some ''queued'' else None)\<rparr>"
| "queue_enqueue sv AliyunMnsQueueProvider request =
     bnd (require_aliyun_settings ''aliyun_mns'' mns_required_names) (\<lambda>settings.
     let body = json_dumps (mns_message_body request) in
     bnd (external_or
            (CloudQueueProviderError ''Cloud queue provider aliyun_mns failed to enqueue message'')
            (\<lambda>n. sv_mns_send sv n (str_or (as_mns_queue_name settings) []) body)) (\<lambda>message_id.
     ret \<lparr>qe_queue_message_id = message_id, qe_queue_receipt = None,
               qe_external_status = Some ''queued''\<rparr>))"

fun queue_delete :: "services \<Rightarrow> cloud_queue_provider \<Rightarrow> string \<Rightarrow> unit action" where
  "queue_delete sv (RegisteredCloudQueueProvider name) queue_receipt =
     raise (CloudQueueProviderError
       (''Cloud queue provider '' @ name @ '' does not support delete()''))"
| "queue_delete sv AliyunMnsQueueProvider queue_receipt =
     bnd (require_aliyun_settings ''aliyun_mns'' mns_required_names) (\<lambda>settings.
     external_ok
            (CloudQueueProviderError ''Cloud queue provider aliyun_mns failed to delete message'')
            (\<lambda>n. sv_mns_delete sv n (str_or (as_mns_queue_name settings) []) queue_receipt))"

section \<open>Received messages\<close>

record cloud_queue_received_message =
  qm_queue_message_id :: string
  qm_queue_receipt :: string
  qm_workspace_id :: string
  qm_project_id :: string
  qm_task_id :: string
  qm_cloud_run_id :: string
  qm_queue_provider :: string
  qm_runtime_provider :: "string option"
  qm_storage_provider :: string
  qm_worker_id :: string
  qm_callback_token :: string
  qm_callback_token_expires_at :: string

definition required_message_fields :: "string list" where
  "required_message_fields =
     [''workspace_id'', ''project_id'', ''task_id'', ''cloud_run_id'', ''queue_provider'',
      ''storage_provider'', ''worker_id'', ''callback_token'', ''callback_token_expires_at'']"

definition message_field :: "json \<Rightarrow> string \<Rightarrow> exn + string" where
  "message_field payload field =
     (case jget payload field of
        Some (JStr v) \<Rightarrow>
          if v = [] then Inl (CloudQueueProviderError (''invalid MNS message: field '' @ field @
            '' must be a non-empty string''))
          else Inr v
      | _ \<Rightarrow> Inl (CloudQueueProviderError (''invalid MNS message: field '' @ field @
            '' must be a non-empty string'')))"

fun message_fields :: "json \<Rightarrow> string list \<Rightarrow> exn + (string \<times> string) list" where
  "message_fields payload [] = Inr []"
| "message_fields payload (f # fs) =
     (case message_field payload f of
        Inl e \<Rightarrow> Inl e
      | Inr v \<Rightarrow>
          (case message_fields payload fs of Inl e \<Rightarrow> Inl e | Inr vs \<Rightarrow> Inr ((f, v) # vs)))"

definition field_value :: "(string \<times> string) list \<Rightarrow> string \<Rightarrow> string" where
  "field_value values f = (case map_of values f of None \<Rightarrow> [] | Some v \<Rightarrow> v)"

definition parse_mns_received_message ::
  "string \<Rightarrow> string \<Rightarrow> json \<Rightarrow> exn + cloud_queue_received_message" where
  "parse_mns_received_message queue_message_id queue_receipt payload =
     (if queue_message_id = [] then Inl (CloudQueueProviderError
        ''invalid MNS message: field message_id must be a non-empty string'')
      else if queue_receipt = [] then Inl (CloudQueueProviderError
        ''invalid MNS message: field receipt_handle must be a non-empty string'')
      else
        (case payload of
           JObj kvs \<Rightarrow>
             (case message_fields payload required_message_fields of
                Inl e \<Rightarrow> Inl e
              | Inr values \<Rightarrow>
                  (let result = (\<lambda>runtime_provider. \<lparr>
                         qm_queue_message_id = queue_message_id,
                         qm_queue_receipt = queue_receipt,
                         qm_workspace_id = field_value values ''workspace_id'',
                         qm_project_id = field_value values ''project_id'',
                         qm_task_id = field_value values ''task_id'',
                         qm_cloud_run_id = field_value values ''cloud_run_id'',
                         qm_queue_provider = field_value values ''queue_provider'',
                         qm_runtime_provider = runtime_provider,
                         qm_storage_provider = field_value values ''storage_provider'',
                         qm_worker_id = field_value values ''worker_id'',
                         qm_callback_token = field_value values ''callback_token'',
                         qm_callback_token_expires_at =
                           field_value values ''callback_token_expires_at''\<rparr>)
                   in (case jget payload ''runtime_provider'' of
                         None \<Rightarrow> Inr (result None)
                       | Some JNull \<Rightarrow> Inr (result None)
                       | Some (JStr r) \<Rightarrow> Inr (result (Some r))
                       | _ \<Rightarrow> Inl (CloudQueueProviderError
                           ''invalid MNS message: field runtime_provider must be a string or null''))))
         | _ \<Rightarrow> Inl (CloudQueueProviderError ''invalid MNS message: body is not an object'')))"

fun queue_receive ::
  "services \<Rightarrow> cloud_queue_provider \<Rightarrow> int \<Rightarrow> cloud_queue_received_message option action" where
  "queue_receive sv (RegisteredCloudQueueProvider name) wait_seconds =
     raise (CloudQueueProviderError
       (''Cloud queue provider '' @ name @ '' does not support receive()''))"
| "queue_receive sv AliyunMnsQueueProvider wait_seconds =
     bnd (require_aliyun_settings ''aliyun_mns'' mns_required_names) (\<lambda>settings.
     bnd (external_or
            (CloudQueueProviderError ''Cloud queue provider aliyun_mns failed to receive message'')
            (\<lambda>n. sv_mns_receive sv n (str_or (as_mns_queue_name settings) []) wait_seconds)) (\<lambda>received.
     case received of
            None \<Rightarrow> ret None
          | Some m \<Rightarrow>
              (case json_loads (md_body m) of
                 None \<Rightarrow> raise (CloudQueueProviderError ''invalid MNS message: body is not JSON'')
               | Some payload \<Rightarrow>
                   (case parse_mns_received_message (md_message_id m) (md_receipt_handle m) payload of
                      Inl e \<Rightarrow> raise e
                    | Inr message \<Rightarrow> ret (Some message)))))"

section \<open>Facts\<close>

lemma keeps_queue [keeps_intros]:
  "keeps (good G) (safe G) (get_cloud_queue_provider n)"
  "keeps (good G) (safe G) (queue_validate_configuration q)"
  "keeps (good G) (safe G) (queue_enqueue sv q r)"
  "keeps (good G) (safe G) (queue_delete sv q i)"
  subgoal unfolding get_cloud_queue_provider_def by (intro keeps_intros)
  subgoal by (cases q; simp only: queue_validate_configuration.simps; intro keeps_intros)
  subgoal by (cases q; simp only: queue_enqueue.simps Let_def; intro keeps_intros)
  subgoal by (cases q; simp only: queue_delete.simps; intro keeps_intros)
  done

text \<open>
  Round trip: the message the enqueuing side sends, with a worker and a token in it, is parsed
  back by the receiving side into the fields it was made of.
\<close>

lemma parse_enqueued_message:
  assumes "message_id \<noteq> []" and "receipt \<noteq> []"
    and "qr_workspace_id r \<noteq> []" and "qr_project_id r \<noteq> []" and "qr_task_id r \<noteq> []"
    and "qr_cloud_run_id r \<noteq> []" and "qr_queue_provider r \<noteq> []"
    and "qr_storage_provider r = Some storage" and "storage \<noteq> []"
    and "qr_worker_id r = Some worker" and "worker \<noteq> []"
    and "qr_callback_token r = Some token" and "token \<noteq> []"
    and "qr_callback_token_expires_at r = Some expires" and "expires \<noteq> []"
  shows "parse_mns_received_message message_id receipt (mns_message_body r) =
    Inr \<lparr>qm_queue_message_id = message_id, qm_queue_receipt = receipt,
         qm_workspace_id = qr_workspace_id r, qm_project_id = qr_project_id r,
         qm_task_id = qr_task_id r, qm_cloud_run_id = qr_cloud_run_id r,
         qm_queue_provider = qr_queue_provider r, qm_runtime_provider = qr_runtime_provider r,
         qm_storage_provider = storage, qm_worker_id = worker, qm_callback_token = token,
         qm_callback_token_expires_at = expires\<rparr>"
  using assms
  by (simp add: parse_mns_received_message_def mns_message_body_def required_message_fields_def
      message_field_def jget_def str_or_def field_value_def jopt_def Let_def split: option.split)

text \<open>The sorted dictionary that \<^verbatim>\<open>json.loads\<close> gives back is parsed like the one that was dumped.\<close>

lemma message_field_sorted: "plain p \<Longrightarrow> message_field (sorted_json p) f = message_field p f"
proof -
  assume p: "plain p"
  have "sorted_json j = JStr v \<longleftrightarrow> j = JStr v" for j v by (cases j) simp_all
  then show ?thesis
    unfolding message_field_def jget_sorted [OF p]
    by (cases "jget p f"; simp; rename_tac j; case_tac j; simp)
qed

lemma message_fields_sorted: "plain p \<Longrightarrow> message_fields (sorted_json p) fs = message_fields p fs"
  by (induction fs) (simp_all add: message_field_sorted split: sum.split)

lemma parse_sorted:
  assumes "plain (JObj kvs)"
  shows "parse_mns_received_message i j (sorted_json (JObj kvs)) =
    parse_mns_received_message i j (JObj kvs)"
proof -
  obtain kvs' where s: "sorted_json (JObj kvs) = JObj kvs'" by simp
  have f: "message_fields (JObj kvs') fs = message_fields (JObj kvs) fs" for fs
    using message_fields_sorted [OF assms] by (simp only: s)
  have r: "jget (JObj kvs') k = map_option sorted_json (jget (JObj kvs) k)" for k
    using jget_sorted [OF assms] by (simp only: s)
  have c: "(case map_option sorted_json x of None \<Rightarrow> a | Some JNull \<Rightarrow> b | Some (JStr r) \<Rightarrow> c r | _ \<Rightarrow> d) =
      (case x of None \<Rightarrow> a | Some JNull \<Rightarrow> b | Some (JStr r) \<Rightarrow> c r | _ \<Rightarrow> d)"
    for x and a b d :: "exn + cloud_queue_received_message" and c
    by (cases x; simp; rename_tac v; case_tac v; simp)
  show ?thesis
    unfolding s parse_mns_received_message_def Let_def json.case f r c ..
qed

lemma plain_body: "plain (mns_message_body r)"
proof -
  have j: "plain (jopt x)" for x by (simp add: jopt_def split: option.split)
  show ?thesis
    by (cases "str_or (qr_worker_id r) [] \<noteq> [] \<and> str_or (qr_callback_token r) [] \<noteq> [] \<and>
        str_or (qr_callback_token_expires_at r) [] \<noteq> []")
      (simp_all only: mns_message_body_def if_True if_False, simp_all add: j)
qed


definition sample_queue_request :: cloud_queue_enqueue_request where
  "sample_queue_request = \<lparr>qr_workspace_id = ''w'', qr_project_id = ''p'', qr_task_id = ''t'',
     qr_cloud_run_id = ''run 1'', qr_queue_provider = ''aliyun_mns'', qr_runtime_provider = None,
     qr_storage_provider = Some ''aliyun_oss'', qr_worker_id = Some ''worker'',
     qr_callback_token = Some ''tok'', qr_callback_token_expires_at = Some ''2024''\<rparr>"


end
