(* ===== verification/Storage.thy ===== *)
theory Storage
  imports Queues
begin

text \<open>
  \<^verbatim>\<open>object_storage.py\<close>: texts stored in the database itself (\<^verbatim>\<open>local_inline\<close>) or in Aliyun OSS, with
  the digest and the size checked on every read; and \<^verbatim>\<open>remote_runtime.py\<close>, which submits a run to a
  stub or to Aliyun ECI.
\<close>

section \<open>Object storage\<close>

definition artifact_kinds :: "string list" where
  "artifact_kinds = [''diff'', ''log'', ''command_result'', ''test_result'', ''manifest'']"

record object_storage_write =
  ow_workspace_id :: string
  ow_cloud_run_id :: string
  ow_kind :: string
  ow_content :: string
  ow_content_type :: string
  ow_expires_at :: "int option"
  ow_retention_policy :: "string option"

record object_storage_ref =
  or_kind :: string
  or_uri :: string
  or_sha256 :: string
  or_size_bytes :: int
  or_content_type :: string

definition sha256_hex :: "string \<Rightarrow> string action" where
  "sha256_hex text = gets (\<lambda>w. e_sha256 (w_env w) text)"

definition validate_artifact_kind :: "string \<Rightarrow> unit action" where
  "validate_artifact_kind kind =
     only_if (kind \<notin> set artifact_kinds)
       (raise (ObjectStorageReadError (''Unsupported object storage artifact kind: '' @ kind)))"

definition local_inline_uri :: "string \<Rightarrow> string" where
  "local_inline_uri stored_object_id = ''local-inline://cloud-run-objects/'' @ stored_object_id"

definition split_url :: "string \<Rightarrow> url action" where
  "split_url uri =
     (case urlsplit uri of None \<Rightarrow> raise (ValueError ''Invalid IPv6 URL'') | Some u \<Rightarrow> ret u)"

definition parse_local_inline_object_id :: "string \<Rightarrow> string action" where
  "parse_local_inline_object_id uri =
     bnd (split_url uri) (\<lambda>parsed.
     bnd (only_if (url_scheme parsed \<noteq> ''local-inline'')
            (raise (ObjectStorageReadError ''Object storage reference scheme mismatch''))) (\<lambda>_.
     bnd (only_if (url_netloc parsed \<noteq> ''cloud-run-objects'')
            (raise (ObjectStorageReadError ''Object storage reference authority mismatch''))) (\<lambda>_.
     let stored_object_id = dropWhile (\<lambda>c. c = CHR ''/'') (url_path parsed) in
     bnd (only_if (stored_object_id = [])
            (raise (ObjectStorageReadError ''Object storage reference object id missing''))) (\<lambda>_.
     ret stored_object_id))))"

definition parse_oss_ref :: "string \<Rightarrow> (string \<times> string) action" where
  "parse_oss_ref uri =
     bnd (split_url uri) (\<lambda>parsed.
     bnd (only_if (url_scheme parsed \<noteq> ''oss'')
            (raise (ObjectStorageReadError ''Object storage reference scheme mismatch''))) (\<lambda>_.
     bnd (only_if (url_netloc parsed = [])
            (raise (ObjectStorageReadError ''Object storage reference bucket missing''))) (\<lambda>_.
     bnd (only_if (url_query parsed \<noteq> [] \<or> url_fragment parsed \<noteq> [])
            (raise (ObjectStorageReadError
              ''Object storage reference must not include query or fragment''))) (\<lambda>_.
     let object_key = dropWhile (\<lambda>c. c = CHR ''/'') (url_path parsed) in
     bnd (only_if (object_key = [])
            (raise (ObjectStorageReadError ''Object storage reference object key missing''))) (\<lambda>_.
     ret (url_netloc parsed, object_key))))))"

datatype object_storage_provider = LocalInlineObjectStorage | AliyunOssObjectStorage

definition get_object_storage_provider :: "string option \<Rightarrow> object_storage_provider action" where
  "get_object_storage_provider name =
     (case name of
        None \<Rightarrow> ret LocalInlineObjectStorage
      | Some n \<Rightarrow>
          if n = ''local_inline'' then ret LocalInlineObjectStorage
          else if n = ''aliyun_oss'' then ret AliyunOssObjectStorage
          else raise (ObjectStorageProviderNotFound (''Unknown object storage provider: '' @ n)))"

definition oss_required_names :: "string list" where
  "oss_required_names =
     [''region_id'', ''access_key_id'', ''access_key_secret'', ''oss_endpoint'', ''oss_bucket'']"

definition require_aliyun_oss_settings :: "aliyun_settings action" where
  "require_aliyun_oss_settings = require_aliyun_settings ''aliyun_oss'' oss_required_names"

fun storage_validate_configuration :: "object_storage_provider \<Rightarrow> unit action" where
  "storage_validate_configuration LocalInlineObjectStorage = ret ()"
| "storage_validate_configuration AliyunOssObjectStorage =
     bnd (require_aliyun_settings ''aliyun_oss'' oss_required_names) (\<lambda>_.
     ret ())"

definition normalized_oss_prefix :: "string \<Rightarrow> string" where
  "normalized_oss_prefix prefix =
     (let stripped = strip_char (CHR ''/'') prefix in if stripped = [] then [] else stripped @ ''/'')"

definition put_text_local_inline :: "object_storage_write \<Rightarrow> object_storage_ref action" where
  "put_text_local_inline write =
     bnd (validate_artifact_kind (ow_kind write)) (\<lambda>_.
     bnd (sha256_hex (ow_content write)) (\<lambda>digest.
     bnd (new_cloud_run_stored_object (\<lambda>x. x\<lparr>
            so_workspace_id := ow_workspace_id write,
            so_cloud_run_id := ow_cloud_run_id write,
            so_kind := ow_kind write,
            so_uri := [],
            so_sha256 := digest,
            so_size_bytes := utf8_length (ow_content write),
            so_content_type := ow_content_type write,
            so_text_content := ow_content write,
            so_expires_at := ow_expires_at write,
            so_retention_policy := ow_retention_policy write\<rparr>)) (\<lambda>stored_object.
     bnd (add_cloud_run_stored_object stored_object) (\<lambda>_.
     bnd (set_cloud_run_stored_object stored_object
            (\<lambda>x. x\<lparr>so_uri := local_inline_uri (so_id stored_object)\<rparr>)) (\<lambda>stored_object.
     ret \<lparr>or_kind = so_kind stored_object, or_uri = so_uri stored_object,
               or_sha256 = so_sha256 stored_object, or_size_bytes = so_size_bytes stored_object,
               or_content_type = so_content_type stored_object\<rparr>)))))"

definition read_text_local_inline :: "object_storage_ref \<Rightarrow> string action" where
  "read_text_local_inline ref =
     bnd (validate_artifact_kind (or_kind ref)) (\<lambda>_.
     bnd (parse_local_inline_object_id (or_uri ref)) (\<lambda>stored_object_id.
     bnd (db_get t_cloud_run_stored_object stored_object_id) (\<lambda>found.
     case found of
            None \<Rightarrow> raise (ObjectStorageReadError ''Object storage reference was not found'')
          | Some stored_object \<Rightarrow>
     bnd (only_if (so_kind stored_object \<noteq> or_kind ref)
            (raise (ObjectStorageReadError ''Object storage reference kind mismatch''))) (\<lambda>_.
     bnd (only_if (so_sha256 stored_object \<noteq> or_sha256 ref)
            (raise (ObjectStorageReadError ''Object storage reference sha256 mismatch''))) (\<lambda>_.
     bnd (only_if (so_size_bytes stored_object \<noteq> or_size_bytes ref)
            (raise (ObjectStorageReadError ''Object storage reference size mismatch''))) (\<lambda>_.
     bnd (sha256_hex (so_text_content stored_object)) (\<lambda>digest.
     bnd (only_if (digest \<noteq> or_sha256 ref)
            (raise (ObjectStorageReadError ''Object storage content sha256 mismatch''))) (\<lambda>_.
     bnd (only_if (utf8_length (so_text_content stored_object) \<noteq> or_size_bytes ref)
            (raise (ObjectStorageReadError ''Object storage content size mismatch''))) (\<lambda>_.
     ret (so_text_content stored_object))))))))))"

definition put_text_aliyun_oss :: "services \<Rightarrow> object_storage_write \<Rightarrow> object_storage_ref action" where
  "put_text_aliyun_oss sv write =
     bnd (storage_validate_configuration AliyunOssObjectStorage) (\<lambda>_.
     bnd (validate_artifact_kind (ow_kind write)) (\<lambda>_.
     bnd require_aliyun_oss_settings (\<lambda>settings.
     bnd (sha256_hex (ow_content write)) (\<lambda>digest.
     let suffix = (if ow_content_type write = ''application/json'' then ''json'' else ''txt'') in
     let object_key = normalized_oss_prefix (as_oss_prefix settings) @ ''workspaces/'' @
              ow_workspace_id write @ ''/cloud-runs/'' @ ow_cloud_run_id write @ ''/'' @
              ow_kind write @ ''/'' @ digest @ ''.'' @ suffix in
     let bucket = str_or (as_oss_bucket settings) [] in
     bnd (external_ok SdkError
            (\<lambda>n. sv_oss_put sv n bucket object_key (ow_content write) (ow_content_type write))) (\<lambda>_.
     let uri = ''oss://'' @ bucket @ ''/'' @ object_key in
     bnd (new_cloud_run_stored_object (\<lambda>x. x\<lparr>
            so_workspace_id := ow_workspace_id write,
            so_cloud_run_id := ow_cloud_run_id write,
            so_kind := ow_kind write,
            so_uri := uri,
            so_sha256 := digest,
            so_size_bytes := utf8_length (ow_content write),
            so_content_type := ow_content_type write,
            so_text_content := [],
            so_expires_at := ow_expires_at write,
            so_retention_policy := ow_retention_policy write\<rparr>)) (\<lambda>stored_object.
     bnd (add_cloud_run_stored_object stored_object) (\<lambda>_.
     ret \<lparr>or_kind = ow_kind write, or_uri = uri, or_sha256 = digest,
               or_size_bytes = utf8_length (ow_content write),
               or_content_type = ow_content_type write\<rparr>)))))))"

definition read_text_aliyun_oss :: "services \<Rightarrow> object_storage_ref \<Rightarrow> string action" where
  "read_text_aliyun_oss sv ref =
     bnd (storage_validate_configuration AliyunOssObjectStorage) (\<lambda>_.
     bnd (validate_artifact_kind (or_kind ref)) (\<lambda>_.
     bnd require_aliyun_oss_settings (\<lambda>settings.
     bnd (parse_oss_ref (or_uri ref)) (\<lambda>(bucket, object_key).
     bnd (only_if (Some bucket \<noteq> as_oss_bucket settings)
            (raise (ObjectStorageReadError ''Object storage reference bucket mismatch''))) (\<lambda>_.
     bnd (only_if (\<not> starts_with (normalized_oss_prefix (as_oss_prefix settings) @ ''workspaces/'')
                     object_key)
            (raise (ObjectStorageReadError ''Object storage reference prefix mismatch''))) (\<lambda>_.
     bnd (only_if (\<not> is_infix (''/'' @ or_kind ref @ ''/'') (''/'' @ object_key))
            (raise (ObjectStorageReadError ''Object storage reference kind mismatch''))) (\<lambda>_.
     bnd (external_or SdkError (\<lambda>n. sv_oss_get sv n bucket object_key)) (\<lambda>content.
     bnd (sha256_hex content) (\<lambda>digest.
     bnd (only_if (digest \<noteq> or_sha256 ref)
            (raise (ObjectStorageReadError ''Object storage content sha256 mismatch''))) (\<lambda>_.
     bnd (only_if (utf8_length content \<noteq> or_size_bytes ref)
            (raise (ObjectStorageReadError ''Object storage content size mismatch''))) (\<lambda>_.
     ret content)))))))))))"

definition put_text ::
  "services \<Rightarrow> object_storage_provider \<Rightarrow> object_storage_write \<Rightarrow> object_storage_ref action" where
  "put_text sv provider write =
     (case provider of
        LocalInlineObjectStorage \<Rightarrow> put_text_local_inline write
      | AliyunOssObjectStorage \<Rightarrow> put_text_aliyun_oss sv write)"

definition read_text :: "services \<Rightarrow> object_storage_provider \<Rightarrow> object_storage_ref \<Rightarrow> string action" where
  "read_text sv provider ref =
     (case provider of
        LocalInlineObjectStorage \<Rightarrow> read_text_local_inline ref
      | AliyunOssObjectStorage \<Rightarrow> read_text_aliyun_oss sv ref)"

section \<open>Remote runtimes\<close>

record remote_runtime_submission =
  rm_workspace_id :: string
  rm_project_id :: string
  rm_task_id :: string
  rm_cloud_run_id :: string
  rm_worker_id :: "string option"
  rm_callback_token :: "string option"
  rm_callback_token_expires_at :: "int option"
  rm_queue_provider :: string
  rm_runtime_provider :: string
  rm_storage_provider :: "string option"
  rm_status :: string

record remote_runtime_submission_result =
  rx_runtime_job_id :: string
  rx_external_status :: string
  rx_artifact_manifest_ref :: "object_storage_ref option"
  rx_log_stream_ref :: "object_storage_ref option"

definition artifact_manifest_uri :: "remote_runtime_submission_result \<Rightarrow> string option" where
  "artifact_manifest_uri r = map_option or_uri (rx_artifact_manifest_ref r)"

definition log_stream_uri :: "remote_runtime_submission_result \<Rightarrow> string option" where
  "log_stream_uri r = map_option or_uri (rx_log_stream_ref r)"

datatype remote_runtime_provider = RemoteStubRuntime | AliyunEciRuntime

definition get_remote_runtime_provider :: "string option \<Rightarrow> remote_runtime_provider option action" where
  "get_remote_runtime_provider name =
     (case name of
        None \<Rightarrow> ret None
      | Some n \<Rightarrow>
          if n = ''remote_stub'' then ret (Some RemoteStubRuntime)
          else if n = ''aliyun_eci'' then ret (Some AliyunEciRuntime)
          else raise (RemoteRuntimeProviderNotFound (''Unknown remote runtime provider: '' @ n)))"

definition eci_required_names :: "string list" where
  "eci_required_names =
     [''region_id'', ''access_key_id'', ''access_key_secret'', ''eci_vswitch_id'',
      ''eci_security_group_id'', ''eci_image'', ''api_public_base_url'']"

fun runtime_validate_configuration :: "remote_runtime_provider \<Rightarrow> unit action" where
  "runtime_validate_configuration RemoteStubRuntime = ret ()"
| "runtime_validate_configuration AliyunEciRuntime =
     bnd (require_aliyun_settings ''aliyun_eci'' eci_required_names) (\<lambda>_.
     ret ())"

text \<open>A write with the defaults of the dataclass.\<close>

definition plain_write :: "string \<Rightarrow> string \<Rightarrow> string \<Rightarrow> string \<Rightarrow> string \<Rightarrow> object_storage_write" where
  "plain_write workspace_id cloud_run_id kind content content_type =
     \<lparr>ow_workspace_id = workspace_id, ow_cloud_run_id = cloud_run_id, ow_kind = kind,
      ow_content = content, ow_content_type = content_type, ow_expires_at = None,
      ow_retention_policy = None\<rparr>"

definition submit_remote_stub ::
  "services \<Rightarrow> remote_runtime_submission \<Rightarrow> remote_runtime_submission_result action" where
  "submit_remote_stub sv submission =
     bnd (if rm_storage_provider submission = Some ''local_inline''
             then bnd (get_object_storage_provider (Some ''local_inline'')) (\<lambda>storage.
                  bnd (put_text sv storage (plain_write (rm_workspace_id submission)
                         (rm_cloud_run_id submission) ''manifest''
                         (json_dumps (JObj
                            [(''cloud_run_id'', JStr (rm_cloud_run_id submission)),
                             (''queue_provider'', JStr (rm_queue_provider submission)),
                             (''runtime_provider'', JStr (rm_runtime_provider submission)),
                             (''storage_provider'', jopt (rm_storage_provider submission)),
                             (''status'', JStr ''submitted'')]))
                         ''application/json'')) (\<lambda>manifest.
                  bnd (put_text sv storage (plain_write (rm_workspace_id submission)
                         (rm_cloud_run_id submission) ''log''
                         (''Remote runtime submitted via remote_stub.'' @ [CHR 0x0A])
                         ''text/plain'')) (\<lambda>log.
                  ret (Some manifest, Some log))))
             else ret (None, None)) (\<lambda>(manifest, log).
     ret \<lparr>rx_runtime_job_id = ''remote-stub-job-'' @ rm_cloud_run_id submission,
               rx_external_status = ''submitted'',
               rx_artifact_manifest_ref = manifest, rx_log_stream_ref = log\<rparr>)"

text \<open>\<^verbatim>\<open>re.sub(r"[^A-Za-z0-9-]+", "-", s).strip("-").lower()\<close>.\<close>

fun squash_other :: "bool \<Rightarrow> string \<Rightarrow> string" where
  "squash_other other [] = []"
| "squash_other other (c # cs) =
     (if is_alnum c \<or> c = CHR ''-'' then c # squash_other False cs
      else if other then squash_other True cs
      else CHR ''-'' # squash_other True cs)"

definition normalized_name :: "string \<Rightarrow> string" where
  "normalized_name s = lower (strip_char (CHR ''-'') (squash_other False s))"

definition rstrip_char :: "char \<Rightarrow> string \<Rightarrow> string" where
  "rstrip_char d s = rev (dropWhile (\<lambda>c. c = d) (rev s))"

definition eci_container_group_name :: "string \<Rightarrow> string \<Rightarrow> string" where
  "eci_container_group_name prefix cloud_run_id =
     (let normalized = normalized_name (prefix @ ''-'' @ cloud_run_id) in
      if normalized = [] then ''ai-scdc-run''
      else
        (let named = (if is_letter (hd normalized) then normalized
                      else ''ai-scdc-run-'' @ normalized)
         in rstrip_char (CHR ''-'') (take 128 named)))"

definition eci_client_token :: "string \<Rightarrow> string" where
  "eci_client_token cloud_run_id =
     (let normalized = normalized_name cloud_run_id;
          named = (if normalized = [] then ''run'' else normalized)
      in rstrip_char (CHR ''-'') (take 64 (''ai-scdc-'' @ named)))"

definition eci_submission_environment ::
  "aliyun_settings \<Rightarrow> remote_runtime_submission \<Rightarrow> (string \<times> string) list" where
  "eci_submission_environment settings submission =
     [(''AI_SCDC_API_BASE_URL'', str_or (as_api_public_base_url settings) []),
      (''AI_SCDC_CLOUD_RUN_ID'', rm_cloud_run_id submission),
      (''AI_SCDC_WORKER_ID'',
         str_or (rm_worker_id submission) (''aliyun-eci-'' @ rm_cloud_run_id submission)),
      (''AI_SCDC_QUEUE_PROVIDER'', rm_queue_provider submission),
      (''AI_SCDC_STORAGE_PROVIDER'', str_or (rm_storage_provider submission) [])] @
     (case rm_callback_token submission of
        None \<Rightarrow> [] | Some t \<Rightarrow> [(''AI_SCDC_CALLBACK_TOKEN'', t)])"

text \<open>What is stored once the container group exists.\<close>

definition store_eci_submission ::
  "services \<Rightarrow> remote_runtime_submission \<Rightarrow> string \<Rightarrow>
     (object_storage_ref option \<times> object_storage_ref option) action" where
  "store_eci_submission sv submission runtime_job_id =
     (if rm_storage_provider submission = Some ''aliyun_oss''
      then bnd (get_object_storage_provider (Some ''aliyun_oss'')) (\<lambda>storage.
           bnd (put_text sv storage (plain_write (rm_workspace_id submission)
                  (rm_cloud_run_id submission) ''manifest''
                  (json_dumps (JObj
                     [(''cloud_run_id'', JStr (rm_cloud_run_id submission)),
                      (''queue_provider'', JStr (rm_queue_provider submission)),
                      (''runtime_job_id'', JStr runtime_job_id),
                      (''runtime_provider'', JStr ''aliyun_eci''),
                      (''status'', JStr ''submitted''),
                      (''storage_provider'', jopt (rm_storage_provider submission))]))
                  ''application/json'')) (\<lambda>manifest.
           bnd (put_text sv storage (plain_write (rm_workspace_id submission)
                  (rm_cloud_run_id submission) ''log''
                  (''Remote runtime submitted via aliyun_eci.'' @ [CHR 0x0A]) ''text/plain'')) (\<lambda>log.
           ret (Some manifest, Some log))))
      else ret (None, None))"

definition eci_submission_failed :: exn where
  "eci_submission_failed = RemoteRuntimeSubmissionError
     ''Cloud runtime provider aliyun_eci failed to submit container group''"

text \<open>
  \<^verbatim>\<open>except Exception\<close>: the container group, when it was created, is deleted again, and whatever was
  raised becomes a submission error.
\<close>

definition submit_aliyun_eci ::
  "services \<Rightarrow> remote_runtime_submission \<Rightarrow> remote_runtime_submission_result action" where
  "submit_aliyun_eci sv submission =
     bnd (require_aliyun_settings ''aliyun_eci'' eci_required_names) (\<lambda>settings.
     let container_group_name = eci_container_group_name
              (as_eci_container_group_prefix settings) (rm_cloud_run_id submission) in
     bnd (external_or eci_submission_failed (\<lambda>n. sv_eci_create sv n
            \<lparr>ec_region_id = str_or (as_region_id settings) [],
             ec_cloud_run_id = rm_cloud_run_id submission,
             ec_container_group_name = container_group_name,
             ec_image = str_or (as_eci_image settings) [],
             ec_vswitch_id = str_or (as_eci_vswitch_id settings) [],
             ec_security_group_id = str_or (as_eci_security_group_id settings) [],
             ec_restart_policy = ''Never'',
             ec_client_token = eci_client_token (rm_cloud_run_id submission),
             ec_environment = eci_submission_environment settings submission\<rparr>)) (\<lambda>created.
     let runtime_job_id = str_or created container_group_name in
     bnd (try_catch (store_eci_submission sv submission runtime_job_id)
            (\<lambda>exc. bnd (external (\<lambda>n. sv_eci_delete sv n (str_or (as_region_id settings) [])
                          runtime_job_id)) (\<lambda>_.
                   raise eci_submission_failed))) (\<lambda>(manifest, log).
     ret \<lparr>rx_runtime_job_id = runtime_job_id, rx_external_status = ''submitted'',
               rx_artifact_manifest_ref = manifest, rx_log_stream_ref = log\<rparr>)))"

definition runtime_submit ::
  "services \<Rightarrow> remote_runtime_provider \<Rightarrow> remote_runtime_submission \<Rightarrow>
     remote_runtime_submission_result action" where
  "runtime_submit sv provider submission =
     (case provider of
        RemoteStubRuntime \<Rightarrow> submit_remote_stub sv submission
      | AliyunEciRuntime \<Rightarrow> submit_aliyun_eci sv submission)"

section \<open>Log synchronisation\<close>

datatype log_sync_status = LS_UPDATED | LS_UNCHANGED | LS_SKIPPED | LS_UNSUPPORTED

record remote_runtime_log_sync_request =
  lq_workspace_id :: string
  lq_project_id :: string
  lq_task_id :: string
  lq_cloud_run_id :: string
  lq_runtime_job_id :: "string option"
  lq_storage_provider :: "string option"
  lq_current_log_stream_ref :: "object_storage_ref option"

record remote_runtime_log_sync_result =
  ly_status :: log_sync_status
  ly_log_stream_ref :: "object_storage_ref option"
  ly_reason :: "string option"

definition sync_result :: "log_sync_status \<Rightarrow> string option \<Rightarrow> remote_runtime_log_sync_result" where
  "sync_result status reason = \<lparr>ly_status = status, ly_log_stream_ref = None, ly_reason = reason\<rparr>"

definition store_synced_log ::
  "services \<Rightarrow> string \<Rightarrow> remote_runtime_log_sync_request \<Rightarrow> string \<Rightarrow>
     remote_runtime_log_sync_result action" where
  "store_synced_log sv storage_name request content =
     bnd (sha256_hex content) (\<lambda>digest.
     if (case lq_current_log_stream_ref request of
                None \<Rightarrow> False | Some r \<Rightarrow> or_sha256 r = digest)
          then ret (sync_result LS_UNCHANGED None)
          else
            bnd (get_object_storage_provider (Some storage_name)) (\<lambda>storage.
            bnd (put_text sv storage (plain_write (lq_workspace_id request)
                   (lq_cloud_run_id request) ''log'' content ''text/plain'')) (\<lambda>ref.
            ret \<lparr>ly_status = LS_UPDATED, ly_log_stream_ref = Some ref, ly_reason = None\<rparr>)))"

definition sync_logs_remote_stub ::
  "services \<Rightarrow> remote_runtime_log_sync_request \<Rightarrow> remote_runtime_log_sync_result action" where
  "sync_logs_remote_stub sv request =
     (if lq_storage_provider request \<noteq> Some ''local_inline''
      then ret (sync_result LS_SKIPPED (Some ''remote_stub_log_sync_requires_local_inline_storage''))
      else store_synced_log sv ''local_inline'' request
        (''Remote runtime submitted via remote_stub.'' @ [CHR 0x0A] @
         ''Remote runtime log sync via remote_stub.'' @ [CHR 0x0A]))"

text \<open>A response whose content is bytes that are not text is an answer that is not a string.\<close>

definition aliyun_log_content_text :: "json \<Rightarrow> string action" where
  "aliyun_log_content_text content =
     (case content of
        JNull \<Rightarrow> ret []
      | JStr s \<Rightarrow> ret s
      | _ \<Rightarrow> raise (RemoteRuntimeLogSyncError
          ''Cloud runtime provider aliyun_eci returned non-text log content''))"

definition sync_logs_aliyun_eci ::
  "services \<Rightarrow> remote_runtime_log_sync_request \<Rightarrow> remote_runtime_log_sync_result action" where
  "sync_logs_aliyun_eci sv request =
     (if lq_storage_provider request \<noteq> Some ''aliyun_oss''
      then ret (sync_result LS_SKIPPED (Some ''aliyun_eci_log_sync_requires_aliyun_oss_storage''))
      else
        (case lq_runtime_job_id request of
           None \<Rightarrow> ret (sync_result LS_SKIPPED (Some ''aliyun_eci_log_sync_missing_runtime_job_id''))
         | Some runtime_job_id \<Rightarrow>
     bnd (require_aliyun_settings ''aliyun_eci'' oss_required_names) (\<lambda>settings.
     let container_name = eci_container_group_name
              (as_eci_container_group_prefix settings) (lq_cloud_run_id request) in
     bnd (external_or SdkError (\<lambda>n. sv_eci_log sv n (str_or (as_region_id settings) [])
            runtime_job_id container_name)) (\<lambda>result.
     bnd (aliyun_log_content_text result) (\<lambda>content.
     if content = []
          then ret (sync_result LS_UNCHANGED (Some ''aliyun_eci_log_sync_empty_provider_content''))
          else store_synced_log sv ''aliyun_oss'' request content)))))"

section \<open>Invariance\<close>

context db_invariant
begin

lemma keeps_storage_parts [keeps_intros]:
  "keeps (good G) (safe G) (sha256_hex t)" "keeps (good G) (safe G) (validate_artifact_kind k)"
  "keeps (good G) (safe G) (split_url u)" "keeps (good G) (safe G) (get_object_storage_provider n)"
  "keeps (good G) (safe G) (get_remote_runtime_provider n)"
  "keeps (good G) (safe G) require_aliyun_oss_settings"
  unfolding sha256_hex_def validate_artifact_kind_def split_url_def get_object_storage_provider_def
    get_remote_runtime_provider_def require_aliyun_oss_settings_def
  by (intro keeps_intros)+

lemma keeps_storage_urls [keeps_intros]:
  "keeps (good G) (safe G) (parse_local_inline_object_id u)"
  "keeps (good G) (safe G) (parse_oss_ref u)"
  "keeps (good G) (safe G) (storage_validate_configuration p)"
  "keeps (good G) (safe G) (runtime_validate_configuration q)"
  subgoal unfolding parse_local_inline_object_id_def by (intro keeps_intros)
  subgoal unfolding parse_oss_ref_def by (intro keeps_intros)
  subgoal by (cases p; simp only: storage_validate_configuration.simps; intro keeps_intros)
  subgoal by (cases q; simp only: runtime_validate_configuration.simps; intro keeps_intros)
  done

lemma keeps_texts [keeps_intros]:
  "keeps (good G) (safe G) (put_text sv p x)" "keeps (good G) (safe G) (read_text sv p r)"
  unfolding put_text_def read_text_def put_text_local_inline_def read_text_local_inline_def
    put_text_aliyun_oss_def read_text_aliyun_oss_def
  subgoal by (cases p; simp only: object_storage_provider.case; intro keeps_intros)
  subgoal by (cases p; simp only: object_storage_provider.case; intro keeps_intros)
  done

lemma keeps_store_eci [keeps_intros]: "keeps (good G) (safe G) (store_eci_submission sv x j)"
  unfolding store_eci_submission_def by (intro keeps_intros)

end

end
