(* ===== verification/GitHubRepo.thy ===== *)
theory GitHubRepo
  imports Storage
begin

text \<open>
  \<^verbatim>\<open>secret_access_audit.py\<close>: every use of a sealed secret leaves a log entry, the failed ones too.
  \<^verbatim>\<open>github_repository.py\<close>: a workspace's GitHub credentials, sealed by the vault, and the check of
  a repository's URL.
\<close>

section \<open>Secrets\<close>

record secret_access =
  se_secret_kind :: string
  se_secret_id :: string
  se_access_reason :: string
  se_workspace_id :: "string option"
  se_operation :: string

definition secret_organization_id :: "string \<Rightarrow> string action" where
  "secret_organization_id workspace_id =
     bnd get_current_auth_context (\<lambda>context.
     case (case context of
                  None \<Rightarrow> None
                | Some c \<Rightarrow> if ac_workspace_id c = workspace_id then Some (ac_organization_id c)
                           else None) of
            Some i \<Rightarrow> ret i
          | None \<Rightarrow>
              bnd (db_get t_workspace workspace_id) (\<lambda>workspace.
              case workspace of
                     Some x \<Rightarrow> ret (ws_organization_id x)
                   | None \<Rightarrow> current_organization_id))"

definition record_secret_access :: "secret_access \<Rightarrow> bool \<Rightarrow> bool \<Rightarrow> secret_access_audit_log action" where
  "record_secret_access a success commit_now =
     bnd (if str_or (se_workspace_id a) [] \<noteq> [] then ret (str_or (se_workspace_id a) [])
                           else current_workspace_id) (\<lambda>workspace_id.
     bnd get_current_auth_context (\<lambda>context.
     bnd (secret_organization_id workspace_id) (\<lambda>organization_id.
     bnd current_user_id (\<lambda>user_id.
     bnd (resolved_request_id None) (\<lambda>request_id.
     bnd (resolved_correlation_id None) (\<lambda>correlation_id.
     bnd (resolved_audit_time None) (\<lambda>created_at.
     bnd (new_secret_access_audit_log (\<lambda>x. x\<lparr>
            sx_workspace_id := workspace_id,
            sx_organization_id := organization_id,
            sx_user_id := user_id,
            sx_auth_mode := (case context of None \<Rightarrow> ''system'' | Some c \<Rightarrow> ac_auth_mode c),
            sx_request_id := Some request_id,
            sx_correlation_id := Some correlation_id,
            sx_secret_kind := se_secret_kind a,
            sx_secret_id := se_secret_id a,
            sx_operation := se_operation a,
            sx_access_reason := se_access_reason a,
            sx_success := success,
            sx_created_at := created_at\<rparr>)) (\<lambda>log.
     bnd (add_secret_access_audit_log log) (\<lambda>_.
     bnd (only_if commit_now commit) (\<lambda>_.
     ret log))))))))))"

definition open_secret :: "services \<Rightarrow> string \<Rightarrow> secret_access \<Rightarrow> string action" where
  "open_secret sv encrypted_secret a =
     bnd (external (\<lambda>n. sv_vault_open sv n encrypted_secret)) (\<lambda>opened.
     case opened of
            None \<Rightarrow> bnd (record_secret_access a False False) (\<lambda>_.
                   raise SdkError)
          | Some secret \<Rightarrow> bnd (record_secret_access a True False) (\<lambda>_.
                          ret secret))"

definition fail_closed_secret_operation :: "secret_access \<Rightarrow> 'a action" where
  "fail_closed_secret_operation a =
     bnd rollback (\<lambda>_.
     bnd (record_secret_access a False True) (\<lambda>_.
     raise (http 503 ''secret_vault_unavailable'')))"

section \<open>Repository URLs\<close>

definition is_single_github_path_segment :: "string \<Rightarrow> bool" where
  "is_single_github_path_segment value \<longleftrightarrow>
     (let decoded = unquote value; slash = CHR ''/''; backslash = CHR 0x5C in
      strip value \<noteq> [] \<and> slash \<notin> set value \<and> backslash \<notin> set value \<and>
      slash \<notin> set decoded \<and> backslash \<notin> set decoded)"

definition validate_github_repository_url :: "string \<Rightarrow> string \<Rightarrow> string \<Rightarrow> exn + string" where
  "validate_github_repository_url repo_url owner repo =
     (if \<not> is_single_github_path_segment owner \<or> \<not> is_single_github_path_segment repo
      then Inl (http 400 ''GitHub owner and repo must be single path segments'')
      else
        (case urlsplit repo_url of
           None \<Rightarrow> Inl (http 400 ''GitHub repository URL must match owner/repo'')
         | Some parsed \<Rightarrow>
             if str_or (url_username parsed) [] \<noteq> [] \<or> str_or (url_password parsed) [] \<noteq> []
             then Inl (http 400 ''GitHub repository URL must not include credentials'')
             else if url_scheme parsed \<noteq> ''https'' \<or> url_hostname parsed \<noteq> Some ''github.com''
             then Inl (http 400 ''GitHub repository URL must match owner/repo'')
             else
               (case filter (\<lambda>p. p \<noteq> []) (split_on (CHR ''/'') (url_path parsed)) of
                  [path_owner, path_repo] \<Rightarrow>
                    if path_owner \<noteq> owner \<or> (path_repo \<noteq> repo \<and> path_repo \<noteq> repo @ ''.git'') \<or>
                       url_query parsed \<noteq> [] \<or> url_fragment parsed \<noteq> []
                    then Inl (http 400 ''GitHub repository URL must match owner/repo'')
                    else Inr repo_url
                | _ \<Rightarrow> Inl (http 400 ''GitHub repository URL must match owner/repo''))))"

definition check :: "exn + 'a \<Rightarrow> 'a action" where
  "check r = (case r of Inl e \<Rightarrow> raise e | Inr x \<Rightarrow> ret x)"

section \<open>Credentials\<close>

definition list_github_credentials :: "github_credential list action" where
  "list_github_credentials =
     bnd get_current_auth_context (\<lambda>context.
     bnd (db_select t_github_credential (\<lambda>g.
            case context of None \<Rightarrow> True | Some c \<Rightarrow> gc_workspace_id g = ac_workspace_id c)) (\<lambda>credentials.
     ret (sort_key (\<lambda>g. (gc_created_at g, gc_id g)) credentials)))"

definition credential_access :: "string \<Rightarrow> string \<Rightarrow> string \<Rightarrow> string \<Rightarrow> secret_access" where
  "credential_access secret_id operation access_reason workspace_id =
     \<lparr>se_secret_kind = ''github_credential'', se_secret_id = secret_id,
      se_access_reason = access_reason, se_workspace_id = Some workspace_id,
      se_operation = operation\<rparr>"

definition create_github_credential ::
  "services \<Rightarrow> string \<Rightarrow> string \<Rightarrow> bool \<Rightarrow> github_credential action" where
  "create_github_credential sv display_name token commit_now =
     bnd (prefixed_id ''github_credential'') (\<lambda>credential_id.
     bnd current_workspace_id (\<lambda>workspace_id.
     bnd (external (\<lambda>n. sv_vault_seal sv n token)) (\<lambda>sealed.
     case sealed of
            None \<Rightarrow> fail_closed_secret_operation
              (credential_access credential_id ''create'' ''github_credential_create'' workspace_id)
          | Some secret \<Rightarrow>
     bnd (new_github_credential (\<lambda>g. g\<lparr>gc_id := credential_id,
            gc_workspace_id := workspace_id, gc_display_name := display_name,
            gc_token_last4 := ss_secret_last4 secret,
            gc_encrypted_token := ss_encrypted_secret secret\<rparr>)) (\<lambda>credential.
     bnd (add_github_credential credential) (\<lambda>_.
     bnd (record_secret_access
            (credential_access (gc_id credential) ''create'' ''github_credential_create''
               (gc_workspace_id credential)) True False) (\<lambda>_.
     bnd (only_if commit_now commit) (\<lambda>_.
     db_refresh t_github_credential gc_id credential)))))))"

definition get_active_github_credential :: "string \<Rightarrow> github_credential action" where
  "get_active_github_credential credential_id =
     bnd (db_get t_github_credential credential_id) (\<lambda>found.
     case found of
            None \<Rightarrow> raise (http 404 ''GitHub credential not found'')
          | Some credential \<Rightarrow>
              if gc_status credential \<noteq> GC_ACTIVE
              then raise (http 404 ''GitHub credential not found'')
              else bnd (enforce_workspace_access (gc_workspace_id credential)
                          ''GitHub credential not found'') (\<lambda>_.
                   ret credential))"

definition delete_github_credential :: "services \<Rightarrow> string \<Rightarrow> bool \<Rightarrow> github_credential action" where
  "delete_github_credential sv credential_id commit_now =
     bnd (db_get t_github_credential credential_id) (\<lambda>found.
     case found of
            None \<Rightarrow> raise (http 404 ''GitHub credential not found'')
          | Some credential \<Rightarrow>
     bnd (enforce_workspace_access (gc_workspace_id credential) ''GitHub credential not found'') (\<lambda>_.
     bnd (require_audited_workspace_permission ''credential.write'' ''github_credential.delete''
            ''github_credential'' (Some (gc_id credential)) AL_HIGH_VALUE_WRITE) (\<lambda>_.
     bnd (external (\<lambda>n. sv_vault_delete sv n (gc_encrypted_token credential))) (\<lambda>deleted.
     if \<not> deleted
          then fail_closed_secret_operation
            (credential_access (gc_id credential) ''delete'' ''github_credential_delete''
               (gc_workspace_id credential))
          else
     bnd utc_now (\<lambda>now.
     bnd (set_github_credential credential (\<lambda>g. g\<lparr>gc_status := GC_DELETED,
            gc_updated_at := now\<rparr>)) (\<lambda>credential.
     bnd (record_secret_access
            (credential_access (gc_id credential) ''delete'' ''github_credential_delete''
               (gc_workspace_id credential)) True False) (\<lambda>_.
     bnd (only_if commit_now commit) (\<lambda>_.
     db_refresh t_github_credential gc_id credential))))))))"

definition replace_github_credential ::
  "services \<Rightarrow> string \<Rightarrow> string \<Rightarrow> string \<Rightarrow> bool \<Rightarrow> github_credential action" where
  "replace_github_credential sv credential_id display_name token commit_now =
     bnd (get_active_github_credential credential_id) (\<lambda>credential.
     bnd (require_audited_workspace_permission ''credential.write'' ''github_credential.replace''
            ''github_credential'' (Some (gc_id credential)) AL_HIGH_VALUE_WRITE) (\<lambda>_.
     bnd (external (\<lambda>n. sv_vault_rotate sv n (gc_encrypted_token credential) token)) (\<lambda>sealed.
     case sealed of
            None \<Rightarrow> fail_closed_secret_operation
              (credential_access (gc_id credential) ''rotate'' ''github_credential_replace''
                 (gc_workspace_id credential))
          | Some secret \<Rightarrow>
     bnd utc_now (\<lambda>now.
     bnd (set_github_credential credential (\<lambda>g. g\<lparr>gc_display_name := display_name,
            gc_token_last4 := ss_secret_last4 secret,
            gc_encrypted_token := ss_encrypted_secret secret, gc_updated_at := now\<rparr>)) (\<lambda>credential.
     bnd (record_secret_access
            (credential_access (gc_id credential) ''rotate'' ''github_credential_replace''
               (gc_workspace_id credential)) True False) (\<lambda>_.
     bnd (only_if commit_now commit) (\<lambda>_.
     db_refresh t_github_credential gc_id credential)))))))"

record github_repository_create =
  ghc_name :: string
  ghc_repo_url :: string
  ghc_github_owner :: string
  ghc_github_repo :: string
  ghc_github_credential_id :: string
  ghc_default_branch :: string

definition create_github_repository :: "string \<Rightarrow> github_repository_create \<Rightarrow> repository action" where
  "create_github_repository project_id data =
     bnd (get_project project_id) (\<lambda>project.
     bnd (require_audited_workspace_permission_if_authenticated ''repository.write''
            ''github_repository.create'' ''repository'' None AL_HIGH_VALUE_WRITE) (\<lambda>should_audit.
     bnd (get_active_github_credential (ghc_github_credential_id data)) (\<lambda>credential.
     bnd (only_if (gc_workspace_id credential \<noteq> pj_workspace_id project)
            (raise (http 404 ''GitHub credential not found''))) (\<lambda>_.
     bnd (check (validate_github_repository_url (ghc_repo_url data)
            (ghc_github_owner data) (ghc_github_repo data))) (\<lambda>repo_url.
     bnd (new_repository (\<lambda>r. r\<lparr>
            rp_workspace_id := pj_workspace_id project,
            rp_project_id := project_id,
            rp_name := ghc_name data,
            rp_local_path := [],
            rp_default_branch := ghc_default_branch data,
            rp_provider := ''github'',
            rp_repo_url := repo_url,
            rp_github_owner := Some (ghc_github_owner data),
            rp_github_repo := Some (ghc_github_repo data),
            rp_github_credential_id := Some (ghc_github_credential_id data),
            rp_connection_status := ''active''\<rparr>)) (\<lambda>repository.
     bnd (add_repository repository) (\<lambda>_.
     bnd (only_if should_audit
            (bnd (record_workspace_audit
                    ((workspace_audit_defaults ''github_repository.create'' ''repository''
                        (Some (rp_id repository)) AL_HIGH_VALUE_WRITE True 201)
                     \<lparr>wk_metadata :=
                        [(''github_credential_id'', JStr (gc_id credential)),
                         (''project_id'', JStr (pj_id project)),
                         (''provider'', JStr ''github'')]\<rparr>)) (\<lambda>_.
             ret ()))) (\<lambda>_.
     bnd commit (\<lambda>_.
     db_refresh t_repository rp_id repository)))))))))"

section \<open>Invariance\<close>

context db_invariant
begin

lemma keeps_secrets [keeps_intros]:
  "keeps (good G) (safe G) (record_secret_access a b c)"
  "keeps (good G) (safe G) (open_secret sv s a)"
  "keeps (good G) (safe G) (fail_closed_secret_operation a)"
  unfolding open_secret_def fail_closed_secret_operation_def record_secret_access_def
    secret_organization_id_def
  by (intro keeps_intros)+

lemma keeps_check [keeps_intros]: "keeps (good G) (safe G) (check r)"
  unfolding check_def by (intro keeps_intros)

lemma keeps_credential [keeps_intros]:
  "keeps (good G) (safe G) (get_active_github_credential i)"
  unfolding get_active_github_credential_def by (intro keeps_intros)

end

end
