(* ===== verification/Sandbox.thy ===== *)
theory Sandbox
  imports GitHubRepo
begin

text \<open>
  \<^verbatim>\<open>cloud_sandbox_executor.py\<close>: the executor that carries out a run, and the removal of secrets from
  what it printed; \<^verbatim>\<open>sandbox_profiles.py\<close>: which commands, image and environment variables a
  repository's runs may use. The Docker executor is an external call.
\<close>

section \<open>Removing secrets from text\<close>

definition redact_secrets :: "string \<Rightarrow> string list \<Rightarrow> string" where
  "redact_secrets text secrets =
     fold (\<lambda>secret t. replace_all secret ''[redacted]'' t)
       (sort_key (\<lambda>s. - int (length s)) (filter (\<lambda>s. s \<noteq> []) secrets)) text"

definition repo_url_redaction_secrets :: "string \<Rightarrow> string list" where
  "repo_url_redaction_secrets repo_url =
     (case urlsplit repo_url of
        None \<Rightarrow> []
      | Some parsed \<Rightarrow>
          if url_netloc parsed = [] \<or> CHR ''@'' \<notin> set (url_netloc parsed) then []
          else
            (let userinfo = fst (rpartition_at (CHR ''@'') (url_netloc parsed));
                 username = str_or (url_username parsed) [];
                 password = str_or (url_password parsed) [];
                 secrets = [repo_url, userinfo, userinfo @ ''@''] @
                   (if username \<noteq> [] then [username, unquote username] else []) @
                   (if password \<noteq> [] then [password, unquote password] else [])
             in dedup (filter (\<lambda>s. s \<noteq> []) secrets)))"

definition redacted_result :: "string list \<Rightarrow> command_result \<Rightarrow> command_result" where
  "redacted_result secrets r =
     r\<lparr>cm_command := redact_secrets (cm_command r) secrets,
       cm_stdout := redact_secrets (cm_stdout r) secrets,
       cm_stderr := redact_secrets (cm_stderr r) secrets\<rparr>"

definition as_payload :: "string list \<Rightarrow> command_result \<Rightarrow> json" where
  "as_payload secrets r =
     (let result = redacted_result secrets r in JObj
        [(''command'', JStr (cm_command result)),
         (''exit_code'', case cm_exit_code result of None \<Rightarrow> JNull | Some n \<Rightarrow> JInt n),
         (''stdout'', JStr (cm_stdout result)),
         (''stderr'', JStr (cm_stderr result)),
         (''duration_ms'', JInt (cm_duration_ms result)),
         (''timed_out'', JBool (cm_timed_out result))])"

section \<open>Executors\<close>

datatype cloud_sandbox_executor = FakeCloudSandboxExecutor | DockerLocalSandboxExecutor

definition sandbox_kind :: "cloud_sandbox_executor \<Rightarrow> string" where
  "sandbox_kind x = (case x of FakeCloudSandboxExecutor \<Rightarrow> ''fake''
     | DockerLocalSandboxExecutor \<Rightarrow> ''docker_local'')"

definition select_cloud_sandbox_executor :: "cloud_sandbox_executor action" where
  "select_cloud_sandbox_executor =
     bnd (environ ''AI_SCDC_CLOUD_RUNNER'') (\<lambda>value.
     let runner = lower (strip (case value of None \<Rightarrow> ''fake'' | Some v \<Rightarrow> v)) in
     if runner = ''docker_local'' then ret DockerLocalSandboxExecutor
          else if runner = ''fake'' then ret FakeCloudSandboxExecutor
          else raise (ValueError (''Unsupported cloud sandbox runner: '' @ runner)))"

definition text_lines :: "string list \<Rightarrow> string" where
  "text_lines ls = concat (map (\<lambda>l. l @ [CHR 0x0A]) ls)"

definition fake_cloud_diff :: "sandbox_execution_request \<Rightarrow> string" where
  "fake_cloud_diff request = text_lines
     [''diff --git a/AI_SCDC_CLOUD_RUN.md b/AI_SCDC_CLOUD_RUN.md'',
      ''new file mode 100644'',
      ''index 0000000..1111111'',
      ''--- /dev/null'',
      ''+++ b/AI_SCDC_CLOUD_RUN.md'',
      ''@@ -0,0 +1,3 @@'',
      ''+# AI-SCDC Cloud Run'',
      ''+Task: '' @ sq_title request,
      ''+Cloud run: '' @ sq_cloud_run_id request]"

definition fake_execution :: "sandbox_execution_request \<Rightarrow> sandbox_execution_result" where
  "fake_execution request =
     \<lparr>sr_status = ''patch_ready'', sr_runner_kind = ''cloud_fake'', sr_base_sha = None,
      sr_head_sha = None, sr_worktree_ref = Some (''cloud://fake/'' @ sq_cloud_run_id request),
      sr_summary = ''Fake cloud run prepared a deterministic patch artifact.'',
      sr_files_changed = [''AI_SCDC_CLOUD_RUN.md''], sr_tests_run = [],
      sr_test_result = ''not_run'', sr_risks = [], sr_diff_text = fake_cloud_diff request,
      sr_command_results = [], sr_test_command_results = [], sr_failure_reason = None\<rparr>"

definition executor_run ::
  "services \<Rightarrow> cloud_sandbox_executor \<Rightarrow> sandbox_execution_request \<Rightarrow> sandbox_execution_result action" where
  "executor_run sv executor request =
     (case executor of
        FakeCloudSandboxExecutor \<Rightarrow> ret (fake_execution request)
      | DockerLocalSandboxExecutor \<Rightarrow> external_or SdkError (\<lambda>n. sv_docker_run sv n request))"

section \<open>What a profile may name\<close>

definition docker_cli_env_denylist :: "string list" where
  "docker_cli_env_denylist =
     [''ALL_PROXY'', ''DOCKER_CERT_PATH'', ''DOCKER_CONFIG'', ''DOCKER_CONTEXT'', ''DOCKER_HOST'',
      ''DOCKER_TLS_VERIFY'', ''HTTPS_PROXY'', ''HTTP_PROXY'', ''NO_PROXY'', ''PATH'', ''PATHEXT'']"

definition upper_char :: "char \<Rightarrow> char" where
  "upper_char c = (if of_char c \<in> {97..122::nat} then char_of (of_char c - 32 :: nat) else c)"

definition is_safe_sandbox_env_name :: "string \<Rightarrow> bool" where
  "is_safe_sandbox_env_name name \<longleftrightarrow>
     (case name of
        [] \<Rightarrow> False
      | c # cs \<Rightarrow> (is_letter c \<or> c = CHR ''_'') \<and> list_all (\<lambda>d. is_alnum d \<or> d = CHR ''_'') cs) \<and>
     map upper_char name \<notin> set docker_cli_env_denylist"

definition validate_docker_image :: "string option \<Rightarrow> string option" where
  "validate_docker_image img =
     (case img of
        None \<Rightarrow> Some ''python:3.11-bookworm''
      | Some text \<Rightarrow>
          (let candidate = strip text in
           case candidate of
             [] \<Rightarrow> None
           | c # cs \<Rightarrow>
               if c \<noteq> CHR ''-'' \<and> is_alnum c \<and>
                  list_all (\<lambda>d. is_alnum d \<or> d \<in> set ''._:/@-'') cs
               then Some candidate else None))"

section \<open>Profiles\<close>

record sandbox_command =
  sk_key :: string
  sk_label :: string
  sk_command :: string
  sk_timeout_seconds :: int
  sk_is_default :: bool

record sandbox_profile_create =
  spc_repo_id :: string
  spc_name :: string
  spc_docker_image :: string
  spc_patch_commands :: "sandbox_command list"
  spc_test_commands :: "sandbox_command list"
  spc_allowed_env_vars :: "string list"
  spc_network_enabled :: bool

definition command_dump :: "sandbox_command \<Rightarrow> json" where
  "command_dump c = JObj
     [(''key'', JStr (sk_key c)), (''label'', JStr (sk_label c)), (''command'', JStr (sk_command c)),
      (''timeout_seconds'', JInt (sk_timeout_seconds c)), (''is_default'', JBool (sk_is_default c))]"

definition validate_unique_command_keys :: "sandbox_command list \<Rightarrow> unit action" where
  "validate_unique_command_keys commands =
     only_if (\<not> distinct (map sk_key commands))
       (raise (http 400 ''Sandbox command keys must be unique''))"

definition validate_sandbox_commands :: "sandbox_command list \<Rightarrow> string \<Rightarrow> unit action" where
  "validate_sandbox_commands commands command_kind =
     (if command_kind = ''test'' \<and> commands = [] then ret ()
      else
        (let default_count = length (filter sk_is_default commands) in
         if command_kind = ''patch'' \<and> default_count \<noteq> 1
         then raise (http 400 ''Sandbox profile requires exactly one default patch command'')
         else if command_kind = ''test'' \<and> default_count \<noteq> 1
         then raise (http 400 ''Sandbox profile requires exactly one default test command'')
         else ret ()))"

definition validated_allowed_env_vars :: "string list \<Rightarrow> string list action" where
  "validated_allowed_env_vars names =
     (let deduped = dedup names in
      if list_ex (\<lambda>n. \<not> is_safe_sandbox_env_name n) deduped
      then raise (http 400 ''Sandbox profile allowed env vars are invalid'')
      else ret deduped)"

definition create_sandbox_profile :: "string \<Rightarrow> sandbox_profile_create \<Rightarrow> sandbox_profile action" where
  "create_sandbox_profile project_id data =
     bnd (get_project project_id) (\<lambda>project.
     bnd (get_repository (spc_repo_id data)) (\<lambda>repository.
     bnd (require_audited_permission_if_authenticated ''repository.write'' ''sandbox_profile.create''
            ''sandbox_profile'' None) (\<lambda>_.
     bnd (only_if (rp_project_id repository \<noteq> pj_id project)
            (raise (http 400 ''Repository does not belong to project''))) (\<lambda>_.
     bnd (only_if (rp_provider repository \<noteq> ''github'')
            (raise (http 400 ''Sandbox profiles require a GitHub repository''))) (\<lambda>_.
     bnd (validate_unique_command_keys (spc_patch_commands data @ spc_test_commands data)) (\<lambda>_.
     bnd (validate_sandbox_commands (spc_patch_commands data) ''patch'') (\<lambda>_.
     bnd (validate_sandbox_commands (spc_test_commands data) ''test'') (\<lambda>_.
     case validate_docker_image (Some (spc_docker_image data)) of
            None \<Rightarrow> raise (http 400 ''Invalid Docker image'')
          | Some docker_image \<Rightarrow>
     bnd (validated_allowed_env_vars (spc_allowed_env_vars data)) (\<lambda>allowed_env_vars.
     bnd (new_sandbox_profile (\<lambda>p. p\<lparr>
            sp_workspace_id := pj_workspace_id project,
            sp_project_id := pj_id project,
            sp_repo_id := rp_id repository,
            sp_name := spc_name data,
            sp_docker_image := docker_image,
            sp_patch_commands := map command_dump (spc_patch_commands data),
            sp_test_commands := map command_dump (spc_test_commands data),
            sp_allowed_env_vars := allowed_env_vars,
            sp_network_enabled := spc_network_enabled data\<rparr>)) (\<lambda>profile.
     bnd (add_sandbox_profile profile) (\<lambda>_.
     bnd (record_workspace_audit
            (workspace_audit_defaults ''sandbox_profile.create'' ''sandbox_profile''
               (Some (sp_id profile)) AL_HIGH_VALUE_WRITE True 201)) (\<lambda>_.
     bnd commit (\<lambda>_.
     db_refresh t_sandbox_profile sp_id profile)))))))))))))"

definition get_sandbox_profile :: "string \<Rightarrow> sandbox_profile action" where
  "get_sandbox_profile profile_id =
     bnd (db_get t_sandbox_profile profile_id) (\<lambda>found.
     case found of
            None \<Rightarrow> raise (http 404 ''Sandbox profile not found'')
          | Some profile \<Rightarrow>
              bnd (enforce_workspace_access (sp_workspace_id profile) ''Sandbox profile not found'') (\<lambda>_.
              ret profile))"

text \<open>The audit entry of a sensitive read, committed at once.\<close>

definition audit_sensitive_read ::
  "string \<Rightarrow> string \<Rightarrow> string option \<Rightarrow> (string \<times> json) list \<Rightarrow> unit action" where
  "audit_sensitive_read operation resource_type resource_id metadata =
     bnd (record_workspace_audit
            ((workspace_audit_defaults operation resource_type resource_id
                AL_HIGH_SENSITIVE_READ True 200)
             \<lparr>wk_metadata := metadata, wk_commit := True\<rparr>)) (\<lambda>_.
     ret ())"

definition list_sandbox_profiles :: "string \<Rightarrow> sandbox_profile list action" where
  "list_sandbox_profiles project_id =
     bnd (get_project project_id) (\<lambda>project.
     bnd (require_audited_workspace_permission_if_authenticated
            ''execution_config.read'' ''sandbox_profile.list'' ''sandbox_profile'' None
            AL_HIGH_SENSITIVE_READ) (\<lambda>should_audit.
     bnd (db_select t_sandbox_profile (\<lambda>p. sp_project_id p = project_id)) (\<lambda>found.
     let profiles = sort_key (\<lambda>p. (sp_created_at p, sp_id p)) found in
     bnd (only_if should_audit
            (audit_sensitive_read ''sandbox_profile.list'' ''sandbox_profile'' None
               [(''project_id'', JStr (pj_id project)), (''count'', JInt (int (length profiles)))])) (\<lambda>_.
     ret profiles))))"

definition get_sandbox_profile_read :: "string \<Rightarrow> sandbox_profile action" where
  "get_sandbox_profile_read sandbox_profile_id =
     bnd (get_sandbox_profile sandbox_profile_id) (\<lambda>profile.
     bnd (require_audited_workspace_permission_if_authenticated
            ''execution_config.read'' ''sandbox_profile.read'' ''sandbox_profile''
            (Some (sp_id profile)) AL_HIGH_SENSITIVE_READ) (\<lambda>should_audit.
     bnd (only_if should_audit
            (audit_sensitive_read ''sandbox_profile.read'' ''sandbox_profile'' (Some (sp_id profile))
               [(''project_id'', JStr (sp_project_id profile)), (''repo_id'', JStr (sp_repo_id profile))])) (\<lambda>_.
     ret profile)))"

definition validate_sandbox_profile_for_repo :: "string \<Rightarrow> string \<Rightarrow> string \<Rightarrow> sandbox_profile action" where
  "validate_sandbox_profile_for_repo profile_id project_id repo_id =
     bnd (get_sandbox_profile profile_id) (\<lambda>profile.
     bnd (only_if (sp_status profile \<noteq> ''active'')
            (raise (http 400 ''Sandbox profile is not active''))) (\<lambda>_.
     bnd (only_if (sp_project_id profile \<noteq> project_id)
            (raise (http 400 ''Sandbox profile does not belong to project''))) (\<lambda>_.
     bnd (only_if (sp_repo_id profile \<noteq> repo_id)
            (raise (http 400 ''Sandbox profile does not belong to repository''))) (\<lambda>_.
     ret profile))))"

section \<open>Choosing the commands of a run\<close>

record cloud_run_create =
  crc_repo_id :: string
  crc_sandbox_profile_id :: "string option"
  crc_patch_command_key :: "string option"
  crc_test_command_keys :: "string list"
  crc_queue_provider :: string
  crc_runtime_provider :: "string option"
  crc_storage_provider :: "string option"

text \<open>\<^verbatim>\<open>command["key"]\<close> on a dictionary that does not have the key raises a \<^verbatim>\<open>KeyError\<close>.\<close>

definition json_str :: "json option \<Rightarrow> string action" where
  "json_str j = (case j of Some (JStr s) \<Rightarrow> ret s | _ \<Rightarrow> raise SdkError)"

definition command_selection :: "json \<Rightarrow> sandbox_command_selection action" where
  "command_selection command =
     bnd (json_str (jget command ''key'')) (\<lambda>key.
     bnd (json_str (jget command ''label'')) (\<lambda>label.
     bnd (json_str (jget command ''command'')) (\<lambda>text.
     ret \<lparr>sc_key = key, sc_label = label, sc_command = text,
               sc_timeout_seconds =
                 (case jget command ''timeout_seconds'' of Some (JInt n) \<Rightarrow> n | _ \<Rightarrow> 300)\<rparr>)))"

definition is_default_command :: "json \<Rightarrow> bool" where
  "is_default_command command \<longleftrightarrow> jget command ''is_default'' = Some (JBool True)"

definition select_command :: "json list \<Rightarrow> string option \<Rightarrow> string \<Rightarrow> sandbox_command_selection action" where
  "select_command commands requested_key kind =
     (case requested_key of
        Some k \<Rightarrow>
          (case first_of (filter (\<lambda>c. jget c ''key'' = Some (JStr k)) commands) of
             Some command \<Rightarrow> command_selection command
           | None \<Rightarrow> raise (http 400 (''Unknown sandbox '' @ kind @ '' command key'')))
      | None \<Rightarrow>
          (case filter is_default_command commands of
             [command] \<Rightarrow> command_selection command
           | _ \<Rightarrow>
               if kind = ''patch''
               then raise (http 400 ''Sandbox profile requires exactly one default patch command'')
               else raise (http 400 ''Sandbox profile requires exactly one default test command'')))"

definition select_profile_commands ::
  "sandbox_profile \<Rightarrow> cloud_run_create \<Rightarrow>
     (sandbox_command_selection \<times> sandbox_command_selection list) action" where
  "select_profile_commands profile data =
     bnd (select_command (sp_patch_commands profile) (crc_patch_command_key data)
            ''patch'') (\<lambda>patch_command.
     bnd (if crc_test_command_keys data \<noteq> []
             then map_act (\<lambda>key. select_command (sp_test_commands profile) (Some key) ''test'')
                    (crc_test_command_keys data)
             else bnd (map_act command_selection
                         (filter is_default_command (sp_test_commands profile))) (\<lambda>test_commands.
                  bnd (only_if (sp_test_commands profile \<noteq> [] \<and> length test_commands \<noteq> 1)
                         (raise (http 400
                           ''Sandbox profile requires exactly one default test command''))) (\<lambda>_.
                  ret test_commands))) (\<lambda>test_commands.
     ret (patch_command, test_commands)))"

definition sandbox_profile_env :: "string list \<Rightarrow> (string \<times> string) list action" where
  "sandbox_profile_env allowed_env_vars =
     gets (\<lambda>w. List.map_filter
       (\<lambda>name. map_option (Pair name) (e_environ (w_env w) name)) allowed_env_vars)"

section \<open>Invariance\<close>

lemma keeps_commands [keeps_intros]:
  "keeps (good G) (safe G) (json_str j)" "keeps (good G) (safe G) (command_selection c)"
  "keeps (good G) (safe G) select_cloud_sandbox_executor"
  "keeps (good G) (safe G) (sandbox_profile_env ns)"
  unfolding json_str_def command_selection_def select_cloud_sandbox_executor_def
    sandbox_profile_env_def
  subgoal by (cases j; simp split: json.split; intro keeps_intros conjI allI impI)
  subgoal
    by (intro keeps_intros; cases "jget c ''key''"; cases "jget c ''label''";
        cases "jget c ''command''"; simp split: json.split; intro keeps_intros conjI allI impI)
  subgoal by (intro keeps_intros)
  subgoal by (intro keeps_intros)
  done

lemma keeps_select_command [keeps_intros]:
  "keeps (good G) (safe G) (select_command cs k kind)"
  unfolding select_command_def
  by (intro keeps_intros; simp split: list.split; intro keeps_intros conjI allI impI)

lemma keeps_select_commands [keeps_intros]:
  "keeps (good G) (safe G) (select_profile_commands p d)"
  unfolding select_profile_commands_def by (intro keeps_intros)

lemma keeps_executor_run [keeps_intros]: "keeps (good G) (safe G) (executor_run sv x q)"
  unfolding executor_run_def by (cases x; simp; intro keeps_intros)

context db_invariant
begin

lemma keeps_profiles [keeps_intros]:
  "keeps (good G) (safe G) (get_sandbox_profile i)"
  "keeps (good G) (safe G) (validate_sandbox_profile_for_repo i p r)"
  "keeps (good G) (safe G) (audit_sensitive_read oper typ j meta)"
  unfolding validate_sandbox_profile_for_repo_def get_sandbox_profile_def audit_sensitive_read_def
  by (intro keeps_intros)+

end

end
