(* ===== verification/CloudRunCore.thy ===== *)
theory CloudRunCore
  imports Sandbox
begin

text \<open>
  What every part of the cloud runner (\<^verbatim>\<open>cloud_runner.py\<close>) uses: the names of statuses and
  providers, the redaction of payloads and of external texts, the run's log, the check of a
  worker's callback token (with \<^verbatim>\<open>worker_callback_auth.py\<close> and \<^verbatim>\<open>worker_route_auth.py\<close>), the lookup
  of runs and leases, and the view of a run an API caller gets.
\<close>

section \<open>Constants\<close>

definition cloud_run_terminal_statuses :: "string list" where
  "cloud_run_terminal_statuses = [''patch_ready'', ''failed'', ''cancelled'']"

definition is_terminal_run :: "cloud_run \<Rightarrow> bool" where
  "is_terminal_run r \<longleftrightarrow> cr_status r \<in> set cloud_run_terminal_statuses"

definition default_lease_claim_candidate_limit :: nat where
  "default_lease_claim_candidate_limit = 25"

section \<open>Redaction\<close>

definition redact_external_uri :: "string option \<Rightarrow> string option action" where
  "redact_external_uri value =
     (case value of
        None \<Rightarrow> ret None
      | Some v \<Rightarrow> bnd (split_url v) (\<lambda>parsed.
                 ret (Some (url_without_query parsed))))"

section \<open>The log of a run\<close>

definition append_cloud_run_log ::
  "cloud_run \<Rightarrow> string \<Rightarrow> string \<Rightarrow> string \<Rightarrow> json option \<Rightarrow> int option \<Rightarrow> unit action" where
  "append_cloud_run_log cloud_run event message level payload created_at =
     bnd (case created_at of None \<Rightarrow> utc_now | Some t \<Rightarrow> ret t) (\<lambda>time.
     bnd (new_cloud_run_log_entry (\<lambda>x. x\<lparr>
            lg_cloud_run_id := cr_id cloud_run,
            lg_workspace_id := cr_workspace_id cloud_run,
            lg_event := event,
            lg_message := message,
            lg_level := level,
            lg_payload :=
              (case payload of
                 None \<Rightarrow> None
               | Some p \<Rightarrow> if jtruthy p then Some (redact_sensitive_values p) else None),
            lg_created_at := time\<rparr>)) (\<lambda>entry.
     add_cloud_run_log_entry entry))"

text \<open>\<^verbatim>\<open>_EventClock\<close>: times one microsecond apart, so that the entries of a step stay in order.\<close>

record event_clock =
  ev_base :: int
  ev_offset :: int

definition event_clock_new :: "event_clock action" where
  "event_clock_new = bnd utc_now (\<lambda>now.
                     ret \<lparr>ev_base = now, ev_offset = 0\<rparr>)"

definition event_clock_next :: "event_clock \<Rightarrow> event_clock \<times> int" where
  "event_clock_next c =
     (let offset = ev_offset c + 1 in (c\<lparr>ev_offset := offset\<rparr>, ev_base c + offset))"

definition create_cloud_run_event ::
  "event_clock \<Rightarrow> string \<Rightarrow> string \<Rightarrow> json \<Rightarrow> event_clock action" where
  "create_cloud_run_event clock task_id event_type payload =
     bnd (create_task_event task_id event_type ''system'' ''cloud_runner'' payload) (\<lambda>event.
     let (clock, time) = event_clock_next clock in
     bnd (set_task_event event (\<lambda>e. e\<lparr>te_created_at := time\<rparr>)) (\<lambda>_.
     ret clock))"

definition append_clocked_log ::
  "event_clock \<Rightarrow> cloud_run \<Rightarrow> string \<Rightarrow> string \<Rightarrow> string \<Rightarrow> json option \<Rightarrow> event_clock action" where
  "append_clocked_log clock cloud_run event message level payload =
     (let (clock, time) = event_clock_next clock in
      bnd (append_cloud_run_log cloud_run event message level payload (Some time)) (\<lambda>_.
      ret clock))"

section \<open>Worker authentication\<close>

definition generate_callback_token :: "string action" where
  "generate_callback_token = random_token"

definition hash_callback_token :: "env \<Rightarrow> string \<Rightarrow> string \<Rightarrow> string \<Rightarrow> string" where
  "hash_callback_token env cloud_run_id worker_id token =
     e_sha256 env (cloud_run_id @ '':'' @ worker_id @ '':'' @ token)"

definition verify_callback_token :: "env \<Rightarrow> string \<Rightarrow> string \<Rightarrow> string \<Rightarrow> string \<Rightarrow> bool" where
  "verify_callback_token env cloud_run_id worker_id token expected_hash \<longleftrightarrow>
     hash_callback_token env cloud_run_id worker_id token = expected_hash"

definition worker_callback_token_required :: "authentication_policy \<Rightarrow> bool" where
  "worker_callback_token_required policy \<longleftrightarrow> DEV_AUTH \<notin> apo_accepted policy"

definition reject_worker_authentication :: "string \<Rightarrow> int \<Rightarrow> string \<Rightarrow> 'a action" where
  "reject_worker_authentication reason_code status_code detail =
     bnd random_token (\<lambda>correlation_id.
     bnd (record_identity_audit_event
            (identity_audit_defaults ''authentication_failure'' ''failure'' reason_code correlation_id)) (\<lambda>_.
     raise (HTTPException status_code (JStr detail) (Some correlation_id))))"

definition require_local_worker_harness :: "authentication_policy \<Rightarrow> unit action" where
  "require_local_worker_harness policy =
     only_if (worker_callback_token_required policy)
       (reject_worker_authentication ''worker_route_not_available'' 403
          ''Worker route is not available'')"

definition require_presented_worker_callback_credential ::
  "string option \<Rightarrow> string option \<Rightarrow> bool \<Rightarrow> unit action" where
  "require_presented_worker_callback_credential callback_token cloud_run_id require_cloud_run_id =
     bnd (only_if (callback_token = None)
            (reject_worker_authentication ''worker_callback_token_required'' 401
               ''Worker callback token is required'')) (\<lambda>_.
     only_if (require_cloud_run_id \<and> cloud_run_id = None)
            (reject_worker_authentication ''worker_callback_scope_required'' 400
               ''Cloud run id is required''))"

definition reject_callback_token :: "'a action" where
  "reject_callback_token =
     reject_worker_authentication ''worker_callback_token_invalid'' 403
       ''Worker callback token is not valid''"

definition verify_cloud_run_callback_token_or_403 ::
  "cloud_run \<Rightarrow> string \<Rightarrow> string option \<Rightarrow> int option \<Rightarrow> bool \<Rightarrow> unit action" where
  "verify_cloud_run_callback_token_or_403 cloud_run worker_id callback_token now require_token =
     (case cr_callback_token_hash cloud_run of
        None \<Rightarrow> only_if require_token reject_callback_token
      | Some expected_hash \<Rightarrow>
          (case callback_token of
             None \<Rightarrow> reject_worker_authentication ''worker_callback_token_required'' 401
                      ''Worker callback token is required''
           | Some token \<Rightarrow>
               if cr_callback_token_used_at cloud_run \<noteq> None then reject_callback_token
               else
                 (case cr_callback_token_expires_at cloud_run of
                    None \<Rightarrow> reject_callback_token
                  | Some expires_at \<Rightarrow>
     bnd (case now of None \<Rightarrow> utc_now | Some t \<Rightarrow> ret t) (\<lambda>time.
     if expires_at < time then reject_callback_token
          else
            bnd (gets (\<lambda>w. verify_callback_token (w_env w) (cr_id cloud_run) worker_id token
                   expected_hash)) (\<lambda>valid.
            only_if (\<not> valid) reject_callback_token)))))"

section \<open>Runs and leases\<close>

definition get_cloud_run_or_404 :: "string \<Rightarrow> cloud_run action" where
  "get_cloud_run_or_404 cloud_run_id =
     bnd (db_get t_cloud_run cloud_run_id) (\<lambda>found.
     case found of
            None \<Rightarrow> raise (http 404 ''Cloud run not found'')
          | Some cloud_run \<Rightarrow>
              bnd (enforce_workspace_access (cr_workspace_id cloud_run) ''Cloud run not found'') (\<lambda>_.
              ret cloud_run))"

definition get_cloud_run_local_run_or_404 :: "cloud_run \<Rightarrow> local_task_run action" where
  "get_cloud_run_local_run_or_404 cloud_run =
     (case cr_local_run_id cloud_run of
        None \<Rightarrow> raise (http 404 ''Cloud run local run not found'')
      | Some i \<Rightarrow>
          bnd (db_get t_local_task_run i) (\<lambda>found.
          case found of
                 None \<Rightarrow> raise (http 404 ''Cloud run local run not found'')
               | Some local_run \<Rightarrow> ret local_run))"

definition lease_not_current :: exn where
  "lease_not_current = http 409 ''Cloud run lease is not current''"

definition ensure_current_cloud_run_lease_or_409 :: "cloud_run \<Rightarrow> string \<Rightarrow> unit action" where
  "ensure_current_cloud_run_lease_or_409 cloud_run worker_id =
     bnd (only_if (cr_worker_id cloud_run \<noteq> Some worker_id \<or> cr_status cloud_run \<noteq> ''running'' \<or>
                   cr_completed_at cloud_run \<noteq> None)
            (raise lease_not_current)) (\<lambda>_.
     case cr_lease_expires_at cloud_run of
            None \<Rightarrow> raise lease_not_current
          | Some lease_expires_at \<Rightarrow>
              bnd utc_now (\<lambda>now.
              only_if (lease_expires_at < now) (raise lease_not_current)))"

definition get_current_cloud_run_lease_or_409 :: "string \<Rightarrow> string \<Rightarrow> cloud_run action" where
  "get_current_cloud_run_lease_or_409 lease_id worker_id =
     bnd (db_select t_cloud_run (\<lambda>r. cr_lease_id r = Some lease_id \<and>
            cr_worker_id r = Some worker_id \<and> cr_status r = ''running'' \<and> cr_completed_at r = None)) (\<lambda>found.
     case first_of found of
            None \<Rightarrow> raise lease_not_current
          | Some cloud_run \<Rightarrow>
              bnd (ensure_current_cloud_run_lease_or_409 cloud_run worker_id) (\<lambda>_.
              ret cloud_run))"

definition resolve_cloud_run_callback_lease ::
  "string \<Rightarrow> string \<Rightarrow> string option \<Rightarrow> bool \<Rightarrow> cloud_run action" where
  "resolve_cloud_run_callback_lease lease_id worker_id callback_token require_callback_token =
     (if \<not> require_callback_token
      then bnd (get_current_cloud_run_lease_or_409 lease_id worker_id) (\<lambda>cloud_run.
           bnd (verify_cloud_run_callback_token_or_403 cloud_run worker_id callback_token None False) (\<lambda>_.
           ret cloud_run))
      else bnd (require_presented_worker_callback_credential callback_token None False) (\<lambda>_.
           bnd (db_select t_cloud_run (\<lambda>r. cr_lease_id r = Some lease_id)) (\<lambda>found.
           case first_of found of
                  None \<Rightarrow> reject_callback_token
                | Some cloud_run \<Rightarrow>
                    bnd (verify_cloud_run_callback_token_or_403 cloud_run worker_id callback_token
                           None True) (\<lambda>_.
                    bnd (ensure_current_cloud_run_lease_or_409 cloud_run worker_id) (\<lambda>_.
                    ret cloud_run)))))"

section \<open>What a caller sees\<close>

text \<open>
  \<^verbatim>\<open>CloudRunRead\<close>: the run without the columns the response does not have (receipt, token
  columns, digests), its external texts redacted.
\<close>

definition cloud_run_read :: "cloud_run \<Rightarrow> cloud_run action" where
  "cloud_run_read cloud_run =
     bnd (redact_external_uri (cr_artifact_manifest_uri cloud_run)) (\<lambda>manifest.
     bnd (redact_external_uri (cr_log_stream_uri cloud_run)) (\<lambda>log_stream.
     ret (cloud_run\<lparr>
            cr_artifact_manifest_uri := manifest,
            cr_log_stream_uri := log_stream,
            cr_external_error := redact_external_error (cr_external_error cloud_run),
            cr_queue_receipt := None,
            cr_artifact_manifest_sha256 := None,
            cr_artifact_manifest_size_bytes := None,
            cr_artifact_manifest_content_type := None,
            cr_log_stream_sha256 := None,
            cr_log_stream_size_bytes := None,
            cr_log_stream_content_type := None,
            cr_callback_token_hash := None,
            cr_callback_token_expires_at := None,
            cr_callback_token_used_at := None\<rparr>)))"

record lease_read =
  cle_cloud_run :: cloud_run
  cle_queue_provider :: string
  cle_queue_message_id :: "string option"
  cle_lease_id :: string
  cle_lease_expires_at :: int
  cle_heartbeat_at :: int
  cle_attempt_count :: int
  cle_cancel_requested :: bool

definition cloud_run_lease_read :: "cloud_run \<Rightarrow> lease_read action" where
  "cloud_run_lease_read cloud_run =
     (case (cr_lease_id cloud_run, cr_lease_expires_at cloud_run, cr_heartbeat_at cloud_run) of
        (Some lease_id, Some lease_expires_at, Some heartbeat_at) \<Rightarrow>
          bnd (cloud_run_read cloud_run) (\<lambda>read.
          ret \<lparr>cle_cloud_run = read, cle_queue_provider = cr_queue_provider cloud_run,
                    cle_queue_message_id = cr_queue_message_id cloud_run,
                    cle_lease_id = lease_id, cle_lease_expires_at = lease_expires_at,
                    cle_heartbeat_at = heartbeat_at,
                    cle_attempt_count = cr_attempt_count cloud_run,
                    cle_cancel_requested = cr_cancel_requested cloud_run\<rparr>)
      | _ \<Rightarrow> raise (http 409 ''Cloud run lease is incomplete''))"

record cloud_run_result_read =
  crr_cloud_run :: cloud_run
  crr_patch_artifact :: "patch_artifact option"

definition cloud_run_result ::
  "cloud_run \<Rightarrow> patch_artifact option \<Rightarrow> cloud_run_result_read action" where
  "cloud_run_result cloud_run artifact =
     bnd (cloud_run_read cloud_run) (\<lambda>read.
     ret \<lparr>crr_cloud_run = read, crr_patch_artifact = artifact\<rparr>)"

section \<open>Reading runs and logs\<close>

definition list_cloud_runs :: "string \<Rightarrow> cloud_run list action" where
  "list_cloud_runs task_id =
     bnd (get_task task_id) (\<lambda>task.
     bnd (require_audited_workspace_permission_if_authenticated
            ''execution.evidence.read'' ''cloud_run.list'' ''cloud_run'' None AL_HIGH_SENSITIVE_READ) (\<lambda>should_audit.
     bnd (db_select t_cloud_run (\<lambda>r. cr_task_id r = task_id)) (\<lambda>found.
     bnd (map_act cloud_run_read (sort_key (\<lambda>r. (cr_created_at r, cr_id r)) found)) (\<lambda>runs.
     bnd (only_if should_audit
            (audit_sensitive_read ''cloud_run.list'' ''cloud_run'' None
               [(''task_id'', JStr (tk_id task)), (''count'', JInt (int (length runs)))])) (\<lambda>_.
     ret runs)))))"

definition get_cloud_run_read :: "string \<Rightarrow> cloud_run action" where
  "get_cloud_run_read cloud_run_id =
     bnd (get_cloud_run_or_404 cloud_run_id) (\<lambda>cloud_run.
     bnd (require_audited_workspace_permission_if_authenticated
            ''execution.evidence.read'' ''cloud_run.read'' ''cloud_run'' (Some (cr_id cloud_run))
            AL_HIGH_SENSITIVE_READ) (\<lambda>should_audit.
     bnd (cloud_run_read cloud_run) (\<lambda>result.
     bnd (only_if should_audit
            (audit_sensitive_read ''cloud_run.read'' ''cloud_run'' (Some (cr_id cloud_run))
               [(''task_id'', JStr (cr_task_id cloud_run)),
                (''project_id'', JStr (cr_project_id cloud_run))])) (\<lambda>_.
     ret result))))"

definition list_cloud_run_logs :: "string \<Rightarrow> cloud_run_log_entry list action" where
  "list_cloud_run_logs cloud_run_id =
     bnd (get_cloud_run_or_404 cloud_run_id) (\<lambda>cloud_run.
     bnd (require_audited_workspace_permission_if_authenticated
            ''log.sensitive.read'' ''cloud_log.list'' ''cloud_run_log'' (Some (cr_id cloud_run))
            AL_HIGH_SENSITIVE_READ) (\<lambda>should_audit.
     bnd (db_select t_cloud_run_log_entry (\<lambda>l. lg_cloud_run_id l = cloud_run_id)) (\<lambda>found.
     let result = sort_key (\<lambda>l. (lg_created_at l, lg_id l)) found in
     bnd (only_if should_audit
            (audit_sensitive_read ''cloud_log.list'' ''cloud_run_log'' (Some (cr_id cloud_run))
               [(''count'', JInt (int (length result)))])) (\<lambda>_.
     ret result))))"

section \<open>Invariance\<close>

context db_invariant
begin

lemma keeps_run_log [keeps_intros]:
  "keeps (good G) (safe G) (append_cloud_run_log r event message level payload t)"
proof -
  have "\<exists>p. lg_payload (entry\<lparr>lg_cloud_run_id := i, lg_workspace_id := j, lg_event := a,
      lg_message := b, lg_level := c, lg_payload := (case payload of None \<Rightarrow> None
        | Some p \<Rightarrow> if jtruthy p then Some (redact_sensitive_values p) else None),
      lg_created_at := time\<rparr>) = map_option redact_sensitive_values p"
    for entry :: cloud_run_log_entry and i j a b c time
    by (rule exI [of _ "case payload of None \<Rightarrow> None | Some p \<Rightarrow> if jtruthy p then Some p else None"])
      (simp split: option.split)
  then show ?thesis
    unfolding append_cloud_run_log_def by (intro keeps_bnd keeps_option keeps_new_log) (intro keeps_intros)+
qed

lemma keeps_clocked [keeps_intros]:
  "keeps (good G) (safe G) event_clock_new"
  "keeps (good G) (safe G) (create_cloud_run_event c i typ payload)"
  "keeps (good G) (safe G) (append_clocked_log c r event message level payload_opt)"
  unfolding event_clock_new_def create_cloud_run_event_def append_clocked_log_def
  by (intro keeps_intros)+

lemma keeps_reject [keeps_intros]:
  "keeps (good G) (safe G) (reject_worker_authentication reason code detail)"
  "keeps (good G) (safe G) reject_callback_token"
  unfolding reject_callback_token_def reject_worker_authentication_def by (intro keeps_intros)+

lemma keeps_worker_auth [keeps_intros]:
  "keeps (good G) (safe G) (require_presented_worker_callback_credential t i b)"
  "keeps (good G) (safe G) (verify_cloud_run_callback_token_or_403 r worker t now required)"
  unfolding require_presented_worker_callback_credential_def
    verify_cloud_run_callback_token_or_403_def
  by (intro keeps_intros)+

lemma keeps_lookups [keeps_intros]:
  "keeps (good G) (safe G) (get_cloud_run_or_404 i)"
  "keeps (good G) (safe G) (get_cloud_run_local_run_or_404 r)"
  "keeps (good G) (safe G) (ensure_current_cloud_run_lease_or_409 r worker)"
  "keeps (good G) (safe G) (get_current_cloud_run_lease_or_409 lease worker)"
  unfolding get_cloud_run_or_404_def get_cloud_run_local_run_or_404_def
    get_current_cloud_run_lease_or_409_def ensure_current_cloud_run_lease_or_409_def
  by (intro keeps_intros)+

lemma keeps_resolve [keeps_intros]:
  "keeps (good G) (safe G) (resolve_cloud_run_callback_lease lease worker t required)"
  unfolding resolve_cloud_run_callback_lease_def by (intro keeps_intros)

lemma keeps_reads [keeps_intros]:
  "keeps (good G) (safe G) (redact_external_uri u)"
  "keeps (good G) (safe G) (cloud_run_read r)"
  "keeps (good G) (safe G) (cloud_run_lease_read r)"
  "keeps (good G) (safe G) (cloud_run_result r a)"
  unfolding cloud_run_lease_read_def cloud_run_result_def cloud_run_read_def redact_external_uri_def
  by (intro keeps_intros)+

end

end
