(* ===== verification/CloudRunLease.thy ===== *)
theory CloudRunLease
  imports CloudRunCore
begin

text \<open>
  Leases: a remote worker claims the oldest queued run of its queue, keeps the lease alive with
  heartbeats and uploads artifacts under it; a lease that expires sends the run back to the
  queue, or fails it when its attempts are used up. The deletion of the queue's message, with
  its operator's retry, and the cleanup of a finished run's container are here too.
\<close>

section \<open>Claiming\<close>

record lease_claim =
  lc_worker_id :: string
  lc_worker_kind :: string
  lc_queue_provider :: string
  lc_cloud_run_id :: "string option"
  lc_callback_token :: "string option"
  lc_queue_message_id :: "string option"
  lc_queue_receipt :: "string option"
  lc_lease_seconds :: int
  lc_require_callback_token :: bool

definition queue_provider_or_400 :: "string \<Rightarrow> unit action" where
  "queue_provider_or_400 name =
     try_catch (bnd (get_cloud_queue_provider name) (\<lambda>_.
                ret ()))
       (\<lambda>exc. case exc of
          CloudQueueProviderNotFound msg \<Rightarrow> raise (http 400 msg)
        | _ \<Rightarrow> raise exc)"

text \<open>The conditions of the guarded \<^verbatim>\<open>UPDATE\<close>, and what it writes.\<close>

definition lease_claimable :: "cloud_run \<Rightarrow> bool" where
  "lease_claimable r \<longleftrightarrow> cr_status r = ''queued'' \<and> \<not> cr_cancel_requested r \<and>
     cr_attempt_count r < cr_max_attempts r"

definition lease_claimed :: "lease_claim \<Rightarrow> string \<Rightarrow> int \<Rightarrow> int \<Rightarrow> cloud_run \<Rightarrow> cloud_run" where
  "lease_claimed a lease_id lease_expires_at now r = r\<lparr>
     cr_status := ''running'',
     cr_remote_worker_kind := Some (lc_worker_kind a),
     cr_worker_id := Some (lc_worker_id a),
     cr_lease_id := Some lease_id,
     cr_lease_expires_at := Some lease_expires_at,
     cr_heartbeat_at := Some now,
     cr_attempt_count := cr_attempt_count r + 1,
     cr_claimed_at := Some now,
     cr_last_queue_error := None,
     cr_updated_at := now\<rparr>"

definition claim_cloud_run_lease :: "lease_claim \<Rightarrow> string \<Rightarrow> string \<Rightarrow> int \<Rightarrow> int \<Rightarrow> bool action" where
  "claim_cloud_run_lease a cloud_run_id lease_id lease_expires_at now =
     bnd sync (\<lambda>_.
     bnd (db_update_where t_cloud_run t_cloud_run_update
            (\<lambda>r. cr_id r = cloud_run_id \<and> lease_claimable r)
            (lease_claimed a lease_id lease_expires_at now)) (\<lambda>n.
     ret (n = 1)))"

definition validated_aliyun_mns_claim_receipt :: "lease_claim \<Rightarrow> cloud_run \<Rightarrow> string option action" where
  "validated_aliyun_mns_claim_receipt a cloud_run =
     (if lc_queue_provider a \<noteq> ''aliyun_mns'' \<or> cr_queue_message_id cloud_run = None then ret None
      else if cr_runtime_provider cloud_run = Some ''aliyun_eci'' \<and>
              cr_queue_receipt cloud_run = None \<and> lc_queue_message_id a = None \<and>
              lc_queue_receipt a = None
      then ret None
      else if str_or (lc_queue_message_id a) [] = [] \<or> str_or (lc_queue_receipt a) [] = []
      then raise (http 400 ''MNS delivery metadata is required'')
      else if lc_queue_message_id a \<noteq> cr_queue_message_id cloud_run
      then raise (http 409 ''MNS message id does not match cloud run delivery'')
      else ret (lc_queue_receipt a))"

definition claimed_queue_fields ::
  "lease_claim \<Rightarrow> string \<Rightarrow> int \<Rightarrow> string option \<Rightarrow> cloud_run \<Rightarrow> cloud_run" where
  "claimed_queue_fields a lease_id now mns_queue_receipt r =
     (if lc_queue_provider a = ''external_stub''
      then r\<lparr>cr_queue_message_id :=
               (case cr_queue_message_id r of
                  None \<Rightarrow> Some (''external-stub-message-'' @ cr_id r)
                | Some m \<Rightarrow> Some m),
             cr_queue_receipt := Some (''external-stub-receipt-'' @ lease_id),
             cr_external_status := Some ''claimed'',
             cr_updated_at := now\<rparr>
      else if lc_queue_provider a = ''aliyun_mns'' \<and> mns_queue_receipt \<noteq> None
      then r\<lparr>cr_queue_receipt := mns_queue_receipt,
             cr_external_status := Some ''mns_message_claimed'',
             cr_updated_at := now\<rparr>
      else r)"

text \<open>The rest of an iteration, once the run is this worker's.\<close>

definition finish_lease_claim ::
  "lease_claim \<Rightarrow> string \<Rightarrow> int \<Rightarrow> string option \<Rightarrow> cloud_run \<Rightarrow> lease_read action" where
  "finish_lease_claim a lease_id now mns_queue_receipt cloud_run =
     bnd (db_refresh t_cloud_run cr_id cloud_run) (\<lambda>cloud_run.
     bnd (set_cloud_run cloud_run (claimed_queue_fields a lease_id now mns_queue_receipt)) (\<lambda>cloud_run.
     bnd (get_cloud_run_local_run_or_404 cloud_run) (\<lambda>local_run.
     bnd (set_local_task_run local_run (\<lambda>r. r\<lparr>lr_status := ''running'', lr_updated_at := now\<rparr>)) (\<lambda>_.
     bnd (append_cloud_run_log cloud_run ''lease_claimed''
            ''Cloud run lease claimed by remote worker.'' ''info''
            (Some (JObj
              [(''worker_id'', JStr (lc_worker_id a)),
               (''worker_kind'', JStr (lc_worker_kind a)),
               (''lease_id_suffix'', JStr (after_last (CHR ''_'') lease_id)),
               (''lease_seconds'', JInt (lc_lease_seconds a)),
               (''attempt_count'', JInt (cr_attempt_count cloud_run)),
               (''queue_provider'', JStr (lc_queue_provider a)),
               (''queue_message_id'', jopt (cr_queue_message_id cloud_run))])) None) (\<lambda>_.
     bnd commit (\<lambda>_.
     bnd (db_refresh t_cloud_run cr_id cloud_run) (\<lambda>cloud_run.
     cloud_run_lease_read cloud_run)))))))"

text \<open>
  The loop over the candidates: a run someone else took in the meantime is skipped, a run whose
  token this worker does not have ends the claim.
\<close>

primrec claim_candidates ::
  "lease_claim \<Rightarrow> int \<Rightarrow> string list \<Rightarrow> lease_read option action" where
  "claim_candidates a now [] = ret None"
| "claim_candidates a now (candidate_id # candidates) =
     bnd (db_get t_cloud_run candidate_id) (\<lambda>found.
     case found of
            None \<Rightarrow> claim_candidates a now candidates
          | Some cloud_run \<Rightarrow>
              bnd (verify_cloud_run_callback_token_or_403 cloud_run (lc_worker_id a)
                     (lc_callback_token a) (Some now) (lc_require_callback_token a)) (\<lambda>_.
              bnd (validated_aliyun_mns_claim_receipt a cloud_run) (\<lambda>mns_queue_receipt.
              bnd (prefixed_id ''lease'') (\<lambda>lease_id.
              let lease_expires_at = now + seconds (lc_lease_seconds a) in
              bnd (claim_cloud_run_lease a (cr_id cloud_run) lease_id lease_expires_at now) (\<lambda>claimed.
              if \<not> claimed
                   then bnd rollback (\<lambda>_.
                        claim_candidates a now candidates)
                   else bnd (finish_lease_claim a lease_id now mns_queue_receipt cloud_run) (\<lambda>lease.
                        ret (Some lease)))))))"

definition candidate_order :: "cloud_run \<Rightarrow> int \<times> string" where
  "candidate_order r = (cr_created_at r, cr_id r)"

definition lease_candidates :: "lease_claim \<Rightarrow> db \<Rightarrow> cloud_run list" where
  "lease_candidates a d =
     take default_lease_claim_candidate_limit
       (sort_key candidate_order
         (filter (\<lambda>r. lease_claimable r \<and> cr_queue_provider r = lc_queue_provider a \<and>
                      (lc_cloud_run_id a = None \<or> lc_cloud_run_id a = Some (cr_id r)))
           (rows (t_cloud_run d))))"

text \<open>When a worker asks for one run and it is not claimable: why.\<close>

definition explain_unclaimable :: "lease_claim \<Rightarrow> int \<Rightarrow> string \<Rightarrow> unit action" where
  "explain_unclaimable a now cloud_run_id =
     bnd (db_get t_cloud_run cloud_run_id) (\<lambda>found.
     bnd (only_if (lc_require_callback_token a)
            (case found of
               None \<Rightarrow> reject_callback_token
             | Some cloud_run \<Rightarrow>
                 verify_cloud_run_callback_token_or_403 cloud_run (lc_worker_id a)
                   (lc_callback_token a) (Some now) True)) (\<lambda>_.
     case found of
            None \<Rightarrow> ret ()
          | Some cloud_run \<Rightarrow>
              only_if (cr_queue_provider cloud_run = lc_queue_provider a \<and>
                       cr_status cloud_run = ''running'' \<and> cr_completed_at cloud_run = None)
                (bnd (only_if (\<not> lc_require_callback_token a)
                        (verify_cloud_run_callback_token_or_403 cloud_run (lc_worker_id a)
                           (lc_callback_token a) (Some now) False)) (\<lambda>_.
                 only_if (case cr_lease_expires_at cloud_run of
                                 None \<Rightarrow> False | Some lease_expires_at \<Rightarrow> now \<le> lease_expires_at)
                        (raise (http 409 ''Cloud run already has an active lease''))))))"

definition claim_next_cloud_run_lease :: "lease_claim \<Rightarrow> lease_read option action" where
  "claim_next_cloud_run_lease a =
     bnd (only_if (lc_require_callback_token a)
            (require_presented_worker_callback_credential (lc_callback_token a) (lc_cloud_run_id a) True)) (\<lambda>_.
     bnd (queue_provider_or_400 (lc_queue_provider a)) (\<lambda>_.
     bnd (gets (\<lambda>w. lease_candidates a (w_db w))) (\<lambda>candidates.
     bnd utc_now (\<lambda>now.
     bnd (case (candidates, lc_cloud_run_id a) of
             ([], Some cloud_run_id) \<Rightarrow> explain_unclaimable a now cloud_run_id
           | _ \<Rightarrow> ret ()) (\<lambda>_.
     claim_candidates a now (map cr_id candidates))))))"

section \<open>Heartbeats\<close>

definition heartbeat_cloud_run_lease ::
  "string \<Rightarrow> string \<Rightarrow> string option \<Rightarrow> int \<Rightarrow> bool \<Rightarrow> lease_read action" where
  "heartbeat_cloud_run_lease lease_id worker_id callback_token lease_seconds require_callback_token =
     bnd (resolve_cloud_run_callback_lease lease_id worker_id callback_token
            require_callback_token) (\<lambda>cloud_run.
     bnd utc_now (\<lambda>now.
     bnd (set_cloud_run cloud_run (\<lambda>r. r\<lparr>
            cr_heartbeat_at := Some now,
            cr_lease_expires_at := Some (now + seconds lease_seconds),
            cr_updated_at := now\<rparr>)) (\<lambda>cloud_run.
     bnd (append_cloud_run_log cloud_run ''lease_heartbeat''
            ''Cloud run lease heartbeat accepted.'' ''info''
            (Some (JObj
              [(''worker_id'', JStr worker_id),
               (''lease_id_suffix'', JStr (last_chars 6 lease_id)),
               (''lease_seconds'', JInt lease_seconds),
               (''cancel_requested'', JBool (cr_cancel_requested cloud_run))])) None) (\<lambda>_.
     bnd commit (\<lambda>_.
     bnd (db_refresh t_cloud_run cr_id cloud_run) (\<lambda>cloud_run.
     cloud_run_lease_read cloud_run))))))"

section \<open>Expired leases\<close>

definition lease_expired :: "string \<Rightarrow> int \<Rightarrow> cloud_run \<Rightarrow> bool" where
  "lease_expired queue_provider now r \<longleftrightarrow>
     cr_status r = ''running'' \<and> cr_queue_provider r = queue_provider \<and> cr_completed_at r = None \<and>
     (case cr_lease_expires_at r of None \<Rightarrow> False | Some t \<Rightarrow> t < now)"

definition requeue_order :: "cloud_run \<Rightarrow> int \<times> string" where
  "requeue_order r = (case cr_lease_expires_at r of None \<Rightarrow> 0 | Some t \<Rightarrow> t, cr_id r)"

text \<open>The two ways on of an expired run.\<close>

definition attempts_exhausted_row :: "int \<Rightarrow> cloud_run \<Rightarrow> cloud_run" where
  "attempts_exhausted_row completed_at r =
     (let r' = r\<lparr>cr_status := ''failed'',
                 cr_failure_reason := Some ''lease_attempts_exhausted'',
                 cr_last_queue_error := Some ''lease_attempts_exhausted'',
                 cr_completed_at := Some completed_at, cr_updated_at := completed_at\<rparr>
      in if cr_queue_provider r = ''external_stub''
         then r'\<lparr>cr_queue_receipt := None, cr_external_status := Some ''failed''\<rparr> else r')"

definition requeued_row :: "int \<Rightarrow> cloud_run \<Rightarrow> cloud_run" where
  "requeued_row now r =
     (let r' = r\<lparr>cr_status := ''queued'', cr_worker_id := None, cr_lease_id := None,
                 cr_lease_expires_at := None, cr_heartbeat_at := None,
                 cr_last_queue_error := None, cr_updated_at := now\<rparr>
      in if cr_queue_provider r = ''external_stub''
         then r'\<lparr>cr_queue_receipt := None, cr_external_status := Some ''requeued''\<rparr> else r')"

definition requeue_one :: "cloud_run \<Rightarrow> cloud_run action" where
  "requeue_one cloud_run =
     bnd (get_cloud_run_local_run_or_404 cloud_run) (\<lambda>local_run.
     bnd (append_cloud_run_log cloud_run ''lease_expired'' ''Cloud run lease expired.'' ''warning''
            (Some (JObj
              [(''worker_id'', jopt (cr_worker_id cloud_run)),
               (''lease_id_suffix'',
                  (case cr_lease_id cloud_run of
                     None \<Rightarrow> JNull
                   | Some i \<Rightarrow> if i = [] then JNull else JStr (last_chars 6 i))),
               (''attempt_count'', JInt (cr_attempt_count cloud_run)),
               (''max_attempts'', JInt (cr_max_attempts cloud_run))])) None) (\<lambda>_.
     if cr_max_attempts cloud_run \<le> cr_attempt_count cloud_run
          then
            bnd utc_now (\<lambda>completed_at.
            bnd (set_cloud_run cloud_run (attempts_exhausted_row completed_at)) (\<lambda>cloud_run.
            bnd (set_local_task_run local_run (\<lambda>r. r\<lparr>lr_status := ''failed'',
                   lr_failure_reason := Some ''lease_attempts_exhausted'',
                   lr_updated_at := completed_at\<rparr>)) (\<lambda>_.
            bnd (append_cloud_run_log cloud_run ''failed'' ''Cloud run exhausted lease attempts.''
                   ''error'' (Some (JObj [(''failure_reason'', JStr ''lease_attempts_exhausted'')]))
                   None) (\<lambda>_.
            settle_cloud_run_budget cloud_run))))
          else
            bnd utc_now (\<lambda>now.
            bnd (set_cloud_run cloud_run (requeued_row now)) (\<lambda>cloud_run.
            bnd (set_local_task_run local_run (\<lambda>r. r\<lparr>lr_status := ''queued'', lr_updated_at := now\<rparr>)) (\<lambda>_.
            bnd (append_cloud_run_log cloud_run ''run_requeued''
                   ''Cloud run requeued after expired lease.'' ''info''
                   (Some (JObj [(''attempt_count'', JInt (cr_attempt_count cloud_run))])) None) (\<lambda>_.
            ret cloud_run))))))"

definition requeue_expired_cloud_run_leases :: "string \<Rightarrow> nat \<Rightarrow> cloud_run list action" where
  "requeue_expired_cloud_run_leases queue_provider limit =
     bnd (queue_provider_or_400 queue_provider) (\<lambda>_.
     bnd utc_now (\<lambda>now.
     bnd (db_select t_cloud_run (lease_expired queue_provider now)) (\<lambda>expired.
     bnd (map_act requeue_one (take limit (sort_key requeue_order expired))) (\<lambda>changed.
     bnd commit (\<lambda>_.
     bnd (map_act (db_refresh t_cloud_run cr_id) changed) (\<lambda>changed.
     map_act cloud_run_read changed))))))"

section \<open>Deleting the queue's message\<close>

text \<open>\<^verbatim>\<open>try: ... except CloudQueueProviderError: ... else: ...\<close>: whether the deletion succeeded.\<close>

definition try_queue_delete :: "services \<Rightarrow> string \<Rightarrow> bool action" where
  "try_queue_delete sv queue_receipt =
     try_catch
       (bnd (get_cloud_queue_provider ''aliyun_mns'') (\<lambda>provider.
        bnd (queue_delete sv provider queue_receipt) (\<lambda>_.
        ret True)))
       (\<lambda>exc. case exc of CloudQueueProviderError msg \<Rightarrow> ret False | _ \<Rightarrow> raise exc)"

definition ack_mns_queue_receipt_after_terminal_commit :: "services \<Rightarrow> cloud_run \<Rightarrow> cloud_run action" where
  "ack_mns_queue_receipt_after_terminal_commit sv cloud_run =
     (if cr_queue_provider cloud_run \<noteq> ''aliyun_mns'' \<or> str_or (cr_queue_receipt cloud_run) [] = []
      then ret cloud_run
      else
        bnd (try_queue_delete sv (str_or (cr_queue_receipt cloud_run) [])) (\<lambda>deleted.
        bnd (set_cloud_run cloud_run (\<lambda>r.
               if deleted
               then r\<lparr>cr_queue_receipt := None, cr_external_status := Some ''mns_message_deleted''\<rparr>
               else r\<lparr>cr_external_status := Some ''mns_message_delete_failed''\<rparr>)) (\<lambda>cloud_run.
        bnd utc_now (\<lambda>now.
        bnd (set_cloud_run cloud_run (\<lambda>r. r\<lparr>cr_updated_at := now\<rparr>)) (\<lambda>cloud_run.
        bnd commit (\<lambda>_.
        db_refresh t_cloud_run cr_id cloud_run))))))"

datatype cloud_run_provider_operation_status = OP_SKIPPED | OP_SUCCEEDED | OP_FAILED

fun operation_status_value :: "cloud_run_provider_operation_status \<Rightarrow> string" where
  "operation_status_value OP_SKIPPED = ''skipped''"
| "operation_status_value OP_SUCCEEDED = ''succeeded''"
| "operation_status_value OP_FAILED = ''failed''"

record cloud_run_provider_operation_result =
  por_status :: cloud_run_provider_operation_status
  por_reason :: string
  por_cloud_run :: cloud_run

definition mns_receipt_recovery_skip_reason :: "cloud_run \<Rightarrow> string option" where
  "mns_receipt_recovery_skip_reason cloud_run =
     (if cr_queue_provider cloud_run \<noteq> ''aliyun_mns''
      then Some ''mns_receipt_recovery_requires_aliyun_mns''
      else if \<not> is_terminal_run cloud_run
      then Some ''mns_receipt_recovery_requires_terminal_state''
      else if str_or (cr_queue_receipt cloud_run) [] = []
      then Some ''mns_receipt_recovery_missing_receipt''
      else None)"

text \<open>The audit entry of an operator's operation and the end of the request.\<close>

definition finish_provider_operation ::
  "string \<Rightarrow> bool \<Rightarrow> cloud_run_provider_operation_status \<Rightarrow> string \<Rightarrow> cloud_run \<Rightarrow>
     cloud_run_provider_operation_result action" where
  "finish_provider_operation operation should_audit status reason cloud_run =
     bnd utc_now (\<lambda>now.
     bnd (set_cloud_run cloud_run (\<lambda>r. r\<lparr>cr_updated_at := now\<rparr>)) (\<lambda>cloud_run.
     bnd (only_if should_audit
            (bnd (record_workspace_audit
                    ((workspace_audit_defaults operation ''cloud_run'' (Some (cr_id cloud_run))
                        AL_HIGH_VALUE_WRITE True 200)
                     \<lparr>wk_metadata := [(''operation_status'', JStr (operation_status_value status)),
                                      (''reason'', JStr reason)]\<rparr>)) (\<lambda>_.
             ret ()))) (\<lambda>_.
     bnd commit (\<lambda>_.
     bnd (db_refresh t_cloud_run cr_id cloud_run) (\<lambda>cloud_run.
     bnd (cloud_run_read cloud_run) (\<lambda>read.
     ret \<lparr>por_status = status, por_reason = reason, por_cloud_run = read\<rparr>))))))"

definition retry_retained_mns_queue_receipt_delete ::
  "services \<Rightarrow> string \<Rightarrow> cloud_run_provider_operation_result action" where
  "retry_retained_mns_queue_receipt_delete sv cloud_run_id =
     bnd (get_cloud_run_or_404 cloud_run_id) (\<lambda>cloud_run.
     bnd (require_audited_workspace_permission_if_authenticated ''operator.write''
            ''operator.mns_receipt_retry'' ''cloud_run'' (Some (cr_id cloud_run))
            AL_HIGH_VALUE_WRITE) (\<lambda>should_audit.
     case mns_receipt_recovery_skip_reason cloud_run of
            Some skip_reason \<Rightarrow>
              bnd (append_cloud_run_log cloud_run ''mns_message_delete_retry_skipped''
                     ''Aliyun MNS receipt recovery skipped.'' ''info''
                     (Some (JObj [(''queue_provider'', JStr (cr_queue_provider cloud_run)),
                                  (''reason'', JStr skip_reason)])) None) (\<lambda>_.
              finish_provider_operation ''operator.mns_receipt_retry'' should_audit OP_SKIPPED
                     skip_reason cloud_run)
          | None \<Rightarrow>
     bnd (append_cloud_run_log cloud_run ''mns_message_delete_retry_attempted''
            ''Aliyun MNS receipt recovery attempted.'' ''info''
            (Some (JObj [(''queue_provider'', JStr (cr_queue_provider cloud_run))])) None) (\<lambda>_.
     bnd (try_queue_delete sv (str_or (cr_queue_receipt cloud_run) [])) (\<lambda>deleted.
     if \<not> deleted
          then
            bnd (set_cloud_run cloud_run (\<lambda>r. r\<lparr>
                   cr_external_status := Some ''mns_message_delete_failed'',
                   cr_external_error := Some ''mns_message_delete_failed''\<rparr>)) (\<lambda>cloud_run.
            bnd (append_cloud_run_log cloud_run ''mns_message_delete_retry_failed''
                   ''Aliyun MNS receipt recovery failed.'' ''warning''
                   (Some (JObj [(''queue_provider'', JStr (cr_queue_provider cloud_run)),
                                (''reason'', JStr ''mns_message_delete_failed''),
                                (''external_error'', jopt (cr_external_error cloud_run))])) None) (\<lambda>_.
            finish_provider_operation ''operator.mns_receipt_retry'' should_audit OP_FAILED
                   ''mns_message_delete_failed'' cloud_run))
          else
            bnd (set_cloud_run cloud_run (\<lambda>r. r\<lparr>cr_queue_receipt := None,
                   cr_external_status := Some ''mns_message_deleted'', cr_external_error := None\<rparr>)) (\<lambda>cloud_run.
            bnd (append_cloud_run_log cloud_run ''mns_message_delete_recovered''
                   ''Aliyun MNS receipt recovered and deleted.'' ''info''
                   (Some (JObj [(''queue_provider'', JStr (cr_queue_provider cloud_run))])) None) (\<lambda>_.
            finish_provider_operation ''operator.mns_receipt_retry'' should_audit OP_SUCCEEDED
                   ''mns_message_deleted'' cloud_run))))))"

section \<open>Cleaning up containers\<close>

definition runtime_job_id_log_suffix :: "string option \<Rightarrow> string" where
  "runtime_job_id_log_suffix value =
     (let v = str_or value [] in
      if v = [] then ''missing'' else if length v \<le> 6 then ''short-runtime-id'' else last_chars 6 v)"

definition aliyun_eci_runtime_cleanup_skip_reason :: "cloud_run \<Rightarrow> string option" where
  "aliyun_eci_runtime_cleanup_skip_reason cloud_run =
     (if cr_runtime_provider cloud_run \<noteq> Some ''aliyun_eci''
      then Some ''runtime_cleanup_requires_aliyun_eci''
      else if \<not> is_terminal_run cloud_run
      then Some ''runtime_cleanup_requires_terminal_state''
      else if cr_external_status cloud_run = Some ''runtime_cleanup_deleted''
      then Some ''runtime_cleanup_already_deleted''
      else if str_or (cr_runtime_job_id cloud_run) [] = []
      then Some ''runtime_cleanup_missing_runtime_job_id''
      else None)"

definition try_eci_delete :: "services \<Rightarrow> string \<Rightarrow> bool action" where
  "try_eci_delete sv runtime_job_id =
     try_catch
       (bnd (require_aliyun_settings ''eci''
               [''region_id'', ''access_key_id'', ''access_key_secret'']) (\<lambda>settings.
        bnd (external_ok SdkError
               (\<lambda>n. sv_eci_delete sv n (str_or (as_region_id settings) []) runtime_job_id)) (\<lambda>_.
        ret True)))
       (\<lambda>exc. ret False)"

definition cleanup_aliyun_eci_terminal_runtime_job ::
  "services \<Rightarrow> string \<Rightarrow> cloud_run_provider_operation_result action" where
  "cleanup_aliyun_eci_terminal_runtime_job sv cloud_run_id =
     bnd (get_cloud_run_or_404 cloud_run_id) (\<lambda>cloud_run.
     bnd (require_audited_workspace_permission_if_authenticated ''operator.write''
            ''operator.eci_runtime_cleanup'' ''cloud_run'' (Some (cr_id cloud_run))
            AL_HIGH_VALUE_WRITE) (\<lambda>should_audit.
     case aliyun_eci_runtime_cleanup_skip_reason cloud_run of
            Some skip_reason \<Rightarrow>
              bnd (append_cloud_run_log cloud_run ''runtime_cleanup_skipped''
                     ''Aliyun ECI runtime cleanup skipped.'' ''info''
                     (Some (JObj [(''reason'', JStr skip_reason),
                                  (''runtime_provider'', jopt (cr_runtime_provider cloud_run))])) None) (\<lambda>_.
              finish_provider_operation ''operator.eci_runtime_cleanup'' should_audit OP_SKIPPED
                     skip_reason cloud_run)
          | None \<Rightarrow>
     (let runtime_job_id = str_or (cr_runtime_job_id cloud_run) [] in
     let where_is = [(''runtime_provider'', jopt (cr_runtime_provider cloud_run)),
            (''runtime_job_id_suffix'', JStr (runtime_job_id_log_suffix (Some runtime_job_id)))] in
     bnd (append_cloud_run_log cloud_run ''runtime_cleanup_attempted''
            ''Aliyun ECI runtime cleanup attempted.'' ''info'' (Some (JObj where_is)) None) (\<lambda>_.
     bnd (try_eci_delete sv runtime_job_id) (\<lambda>deleted.
     if \<not> deleted
          then
            bnd (set_cloud_run cloud_run (\<lambda>r. r\<lparr>
                   cr_external_status := Some ''runtime_cleanup_failed'',
                   cr_external_error := Some ''runtime_cleanup_failed''\<rparr>)) (\<lambda>cloud_run.
            bnd (append_cloud_run_log cloud_run ''runtime_cleanup_failed''
                   ''Aliyun ECI runtime cleanup failed.'' ''warning''
                   (Some (JObj ([(''external_error'', jopt (cr_external_error cloud_run)),
                                 (''reason'', JStr ''runtime_cleanup_failed'')] @ where_is))) None) (\<lambda>_.
            finish_provider_operation ''operator.eci_runtime_cleanup'' should_audit OP_FAILED
                   ''runtime_cleanup_failed'' cloud_run))
          else
            bnd (set_cloud_run cloud_run (\<lambda>r. r\<lparr>
                   cr_external_status := Some ''runtime_cleanup_deleted'',
                   cr_external_error := None\<rparr>)) (\<lambda>cloud_run.
            bnd (append_cloud_run_log cloud_run ''runtime_cleanup_deleted''
                   ''Aliyun ECI runtime cleanup deleted.'' ''info'' (Some (JObj where_is)) None) (\<lambda>_.
            finish_provider_operation ''operator.eci_runtime_cleanup'' should_audit OP_SUCCEEDED
                   ''runtime_cleanup_deleted'' cloud_run)))))))"

section \<open>Uploading artifacts\<close>

record cloud_run_artifact_upload =
  au_worker_id :: string
  au_callback_token :: "string option"
  au_kind :: string
  au_content :: string
  au_content_type :: string

definition upload_cloud_run_lease_artifact ::
  "services \<Rightarrow> string \<Rightarrow> cloud_run_artifact_upload \<Rightarrow> bool \<Rightarrow> object_storage_ref action" where
  "upload_cloud_run_lease_artifact sv lease_id data require_callback_token =
     bnd (resolve_cloud_run_callback_lease lease_id (au_worker_id data)
            (au_callback_token data) require_callback_token) (\<lambda>cloud_run.
     bnd (try_catch
            (bnd (get_object_storage_provider (cr_storage_provider cloud_run)) (\<lambda>provider.
             put_text sv provider (plain_write (cr_workspace_id cloud_run) (cr_id cloud_run)
                    (au_kind data) (au_content data) (au_content_type data))))
            (\<lambda>exc. case exc of
               ObjectStorageProviderNotFound msg \<Rightarrow> bnd rollback (\<lambda>_.
                                                   raise (http 400 msg))
             | ObjectStorageReadError msg \<Rightarrow> bnd rollback (\<lambda>_.
                                            raise (http 400 msg))
             | _ \<Rightarrow> raise exc)) (\<lambda>ref.
     bnd (redact_external_uri (Some (or_uri ref))) (\<lambda>uri.
     bnd (append_cloud_run_log cloud_run ''worker_artifact_uploaded''
            ''Cloud run worker artifact uploaded.'' ''info''
            (Some (JObj [(''kind'', JStr (or_kind ref)), (''uri'', jopt uri),
                         (''size_bytes'', JInt (or_size_bytes ref)),
                         (''content_type'', JStr (or_content_type ref))])) None) (\<lambda>_.
     bnd commit (\<lambda>_.
     ret ref)))))"

end
