(* ===== verification/CloudRunFinalize.thy ===== *)
theory CloudRunFinalize
  imports CloudRunLease
begin

text \<open>
  Executing a run and recording its outcome: the local worker's \<^verbatim>\<open>process_cloud_run\<close>, the remote
  worker's \<^verbatim>\<open>complete_cloud_run_lease\<close>, and \<^verbatim>\<open>_finalize_claimed_cloud_run_result\<close>, which both end in:
  a run whose cancellation was requested is cancelled, a failed one recorded, a successful one
  gets its patch artifact and moves its task to PATCH_READY.
\<close>

section \<open>Redacting a run's results\<close>

definition redaction_secrets :: "(string \<times> string) list \<Rightarrow> string \<Rightarrow> string option \<Rightarrow> string list" where
  "redaction_secrets env_vars repo_url github_token =
     filter (\<lambda>v. v \<noteq> [])
       (map snd env_vars @ (case github_token of None \<Rightarrow> [] | Some t \<Rightarrow> [t]) @
        repo_url_redaction_secrets repo_url)"

definition command_result_payloads :: "string list \<Rightarrow> command_result list \<Rightarrow> json list" where
  "command_result_payloads secrets results = map (as_payload secrets) results"

section \<open>The task follows the run\<close>

definition transition_task_for_cloud_runner ::
  "event_clock \<Rightarrow> task \<Rightarrow> task_status \<Rightarrow> (event_clock \<times> task) action" where
  "transition_task_for_cloud_runner clock task requested_status =
     (let current_status = tk_status task in
      case validate_transition current_status requested_status ''system'' of
        Inl msg \<Rightarrow> raise (transition_error msg current_status requested_status)
      | Inr next_status \<Rightarrow>
          bnd utc_now (\<lambda>now.
          bnd (set_task task (\<lambda>t. t\<lparr>tk_status := next_status, tk_updated_at := now\<rparr>)) (\<lambda>task.
          bnd (create_cloud_run_event clock (tk_id task) ''task_transitioned''
                 (transition_payload current_status next_status)) (\<lambda>clock.
          ret (clock, task)))))"

definition transition_task_to_patch_ready ::
  "event_clock \<Rightarrow> task \<Rightarrow> (event_clock \<times> task) action" where
  "transition_task_to_patch_ready clock task =
     bnd (if tk_status task = CREATED
             then bnd (transition_task_for_cloud_runner clock task ASSIGNED) (\<lambda>(clock, task).
                  transition_task_for_cloud_runner clock task IN_PROGRESS)
             else if tk_status task = ASSIGNED \<or> tk_status task = FIX_REQUESTED
             then transition_task_for_cloud_runner clock task IN_PROGRESS
             else ret (clock, task)) (\<lambda>(clock, task).
     if tk_status task \<noteq> PATCH_READY
          then transition_task_for_cloud_runner clock task PATCH_READY
          else ret (clock, task))"

section \<open>Terminal outcomes\<close>

text \<open>A run that ends without a result.\<close>

definition preflight_result :: "string \<Rightarrow> json" where
  "preflight_result message = JObj
     [(''command'', JStr ''cloud run preflight''), (''exit_code'', JInt 1), (''stdout'', JStr []),
      (''stderr'', JStr message), (''duration_ms'', JInt 0), (''timed_out'', JBool False)]"

definition mark_claimed_cloud_run_failed ::
  "services \<Rightarrow> cloud_run \<Rightarrow> local_task_run \<Rightarrow> string \<Rightarrow> string \<Rightarrow> cloud_run_result_read action" where
  "mark_claimed_cloud_run_failed sv cloud_run local_run failure_reason message =
     bnd utc_now (\<lambda>completed_at.
     bnd (set_local_task_run local_run (\<lambda>r. r\<lparr>lr_status := ''failed'',
            lr_failure_reason := Some failure_reason, lr_updated_at := completed_at\<rparr>)) (\<lambda>_.
     bnd (set_cloud_run cloud_run (\<lambda>r. r\<lparr>
            cr_status := ''failed'',
            cr_failure_reason := Some failure_reason,
            cr_command_results := [preflight_result message],
            cr_completed_at := Some completed_at,
            cr_updated_at := completed_at\<rparr>)) (\<lambda>cloud_run.
     bnd (append_cloud_run_log cloud_run ''failed'' ''Cloud run preflight failed.'' ''error''
            (Some (JObj [(''failure_reason'', JStr failure_reason), (''message'', JStr message)])) None) (\<lambda>_.
     bnd (append_cloud_run_log cloud_run ''completed'' ''Cloud run processing completed.'' ''info''
            (Some (JObj [(''status'', JStr ''failed'')])) None) (\<lambda>_.
     bnd (settle_cloud_run_budget cloud_run) (\<lambda>cloud_run.
     bnd commit (\<lambda>_.
     bnd (db_refresh t_cloud_run cr_id cloud_run) (\<lambda>cloud_run.
     bnd (ack_mns_queue_receipt_after_terminal_commit sv cloud_run) (\<lambda>cloud_run.
     cloud_run_result cloud_run None)))))))))"

definition cancelled_run_row ::
  "string list \<Rightarrow> sandbox_execution_result \<Rightarrow> int \<Rightarrow> cloud_run \<Rightarrow> cloud_run" where
  "cancelled_run_row secrets x completed_at r = r\<lparr>
     cr_status := ''cancelled'',
     cr_patch_artifact_id := None,
     cr_command_results :=
       command_result_payloads secrets (sr_command_results x @ sr_test_command_results x),
     cr_failure_reason := None,
     cr_cancel_requested := True,
     cr_cancel_requested_at :=
       Some (case cr_cancel_requested_at r of None \<Rightarrow> completed_at | Some t \<Rightarrow> t),
     cr_cancelled_at := Some (case cr_cancelled_at r of None \<Rightarrow> completed_at | Some t \<Rightarrow> t),
     cr_completed_at := Some completed_at,
     cr_updated_at := completed_at,
     cr_callback_token_used_at :=
       (if cr_callback_token_hash r \<noteq> None \<and> cr_callback_token_used_at r = None
        then Some completed_at else cr_callback_token_used_at r)\<rparr>"

definition mark_claimed_cloud_run_cancelled ::
  "services \<Rightarrow> cloud_run \<Rightarrow> local_task_run \<Rightarrow> sandbox_execution_result \<Rightarrow> string list \<Rightarrow> event_clock \<Rightarrow>
     cloud_run_result_read action" where
  "mark_claimed_cloud_run_cancelled sv cloud_run local_run execution_result secrets log_clock =
     bnd utc_now (\<lambda>completed_at.
     bnd (set_local_task_run local_run (\<lambda>r. r\<lparr>lr_status := ''cancelled'',
            lr_patch_artifact_id := None, lr_failure_reason := None, lr_updated_at := completed_at\<rparr>)) (\<lambda>_.
     bnd (set_cloud_run cloud_run
            (cancelled_run_row secrets execution_result completed_at)) (\<lambda>cloud_run.
     bnd (append_clocked_log log_clock cloud_run ''cancelled''
            ''Running cloud run cancelled after execution finished.'' ''info''
            (Some (JObj [(''status'', JStr ''cancelled'')]))) (\<lambda>log_clock.
     bnd (append_clocked_log log_clock cloud_run ''completed'' ''Cloud run processing completed.''
            ''info'' (Some (JObj [(''status'', JStr ''cancelled'')]))) (\<lambda>_.
     bnd (settle_cloud_run_budget cloud_run) (\<lambda>cloud_run.
     bnd commit (\<lambda>_.
     bnd (db_refresh t_cloud_run cr_id cloud_run) (\<lambda>cloud_run.
     bnd (ack_mns_queue_receipt_after_terminal_commit sv cloud_run) (\<lambda>cloud_run.
     cloud_run_result cloud_run None)))))))))"

section \<open>Finalizing\<close>

definition should_create_patch_artifact :: "sandbox_execution_result \<Rightarrow> bool" where
  "should_create_patch_artifact x \<longleftrightarrow>
     sr_status x = ''patch_ready'' \<or>
     (sr_failure_reason x = Some ''test_failed'' \<and> sr_files_changed x \<noteq> [] \<and>
      strip (sr_diff_text x) \<noteq> [])"

definition finalization_claimable :: "cloud_run \<Rightarrow> bool" where
  "finalization_claimable r \<longleftrightarrow>
     cr_status r = ''running'' \<and> cr_completed_at r = None \<and> \<not> cr_cancel_requested r"

definition claim_cloud_run_finalization :: "string \<Rightarrow> int \<Rightarrow> bool action" where
  "claim_cloud_run_finalization cloud_run_id now =
     bnd sync (\<lambda>_.
     bnd (db_update_where t_cloud_run t_cloud_run_update
            (\<lambda>r. cr_id r = cloud_run_id \<and> finalization_claimable r) (\<lambda>r. r\<lparr>cr_updated_at := now\<rparr>)) (\<lambda>n.
     ret (n = 1)))"

definition reload_claimed_cloud_run ::
  "string \<Rightarrow> string \<Rightarrow> sandbox_execution_result \<Rightarrow>
     (cloud_run \<times> task \<times> repository \<times> local_task_run) action" where
  "reload_claimed_cloud_run cloud_run_id task_id execution_result =
     bnd rollback (\<lambda>_.
     bnd (get_cloud_run_or_404 cloud_run_id) (\<lambda>cloud_run.
     bnd (get_task task_id) (\<lambda>task.
     bnd (get_repository (cr_repo_id cloud_run)) (\<lambda>repository.
     bnd (get_cloud_run_local_run_or_404 cloud_run) (\<lambda>local_run.
     bnd (set_local_task_run local_run (\<lambda>r. r\<lparr>
            lr_runner_kind := sr_runner_kind execution_result,
            lr_base_sha := sr_base_sha execution_result,
            lr_head_sha := sr_head_sha execution_result,
            lr_worktree_path := sr_worktree_ref execution_result\<rparr>)) (\<lambda>local_run.
     ret (cloud_run, task, repository, local_run)))))))"

definition existing_cloud_run_result :: "cloud_run \<Rightarrow> cloud_run_result_read action" where
  "existing_cloud_run_result cloud_run =
     bnd (case cr_patch_artifact_id cloud_run of
              None \<Rightarrow> ret None
            | Some i \<Rightarrow> db_get t_patch_artifact i) (\<lambda>artifact.
     cloud_run_result cloud_run artifact)"

text \<open>
  The outcome without an artifact. The test run it records leaves the workspace to the
  default of the table.
\<close>

definition finalize_without_artifact ::
  "services \<Rightarrow> cloud_run \<Rightarrow> task \<Rightarrow> local_task_run \<Rightarrow> sandbox_execution_result \<Rightarrow> string list \<Rightarrow>
     event_clock \<Rightarrow> event_clock \<Rightarrow> cloud_run_result_read action" where
  "finalize_without_artifact sv cloud_run task local_run x secrets event_clock log_clock =
     bnd (only_if (sr_test_command_results x \<noteq> [])
            (bnd utc_now (\<lambda>now.
             bnd (new_local_test_run (\<lambda>r. r\<lparr>
                    tr_project_id := tk_project_id task,
                    tr_task_id := tk_id task,
                    tr_local_run_id := lr_id local_run,
                    tr_patch_artifact_id := None,
                    tr_status := sr_test_result x,
                    tr_commands := sr_tests_run x,
                    tr_command_results := command_result_payloads secrets (sr_test_command_results x),
                    tr_failure_reason := sr_failure_reason x,
                    tr_completed_at := Some now\<rparr>)) (\<lambda>test_run.
             add_local_test_run test_run)))) (\<lambda>_.
     bnd utc_now (\<lambda>now.
     bnd (set_local_task_run local_run (\<lambda>r. r\<lparr>lr_status := sr_status x,
            lr_failure_reason := sr_failure_reason x, lr_updated_at := now\<rparr>)) (\<lambda>local_run.
     bnd utc_now (\<lambda>completed_at.
     bnd (set_cloud_run cloud_run (\<lambda>r. r\<lparr>
            cr_status := sr_status x,
            cr_command_results :=
              command_result_payloads secrets (sr_command_results x @ sr_test_command_results x),
            cr_failure_reason := sr_failure_reason x,
            cr_completed_at := Some completed_at,
            cr_updated_at := completed_at\<rparr>)) (\<lambda>cloud_run.
     bnd (create_cloud_run_event event_clock (tk_id task) ''cloud_run_failed''
            (JObj [(''cloud_run_id'', JStr (cr_id cloud_run)),
                   (''local_run_id'', JStr (lr_id local_run)),
                   (''failure_reason'', jopt (sr_failure_reason x))])) (\<lambda>_.
     bnd (append_clocked_log log_clock cloud_run ''failed'' ''Cloud run failed.''
            ''error'' (Some (JObj [(''failure_reason'', jopt (sr_failure_reason x))]))) (\<lambda>log_clock.
     bnd (append_clocked_log log_clock cloud_run ''completed'' ''Cloud run processing completed.''
            ''info'' (Some (JObj [(''status'', JStr (sr_status x))]))) (\<lambda>_.
     bnd (settle_cloud_run_budget cloud_run) (\<lambda>cloud_run.
     bnd commit (\<lambda>_.
     bnd (db_refresh t_cloud_run cr_id cloud_run) (\<lambda>cloud_run.
     bnd (ack_mns_queue_receipt_after_terminal_commit sv cloud_run) (\<lambda>cloud_run.
     cloud_run_result cloud_run None))))))))))))"

definition finalize_with_artifact ::
  "services \<Rightarrow> cloud_run \<Rightarrow> task \<Rightarrow> repository \<Rightarrow> local_task_run \<Rightarrow> sandbox_execution_result \<Rightarrow>
     string list \<Rightarrow> event_clock \<Rightarrow> event_clock \<Rightarrow> cloud_run_result_read action" where
  "finalize_with_artifact sv cloud_run task repository local_run x secrets event_clock log_clock =
     bnd (new_patch_artifact (\<lambda>r. r\<lparr>
            pa_workspace_id := cr_workspace_id cloud_run,
            pa_project_id := tk_project_id task,
            pa_task_id := tk_id task,
            pa_local_run_id := lr_id local_run,
            pa_summary := sr_summary x,
            pa_files_changed := sr_files_changed x,
            pa_tests_run := sr_tests_run x,
            pa_test_result := sr_test_result x,
            pa_risks := sr_risks x,
            pa_diff_text := sr_diff_text x\<rparr>)) (\<lambda>artifact.
     bnd (add_patch_artifact artifact) (\<lambda>_.
     bnd (only_if (sr_test_command_results x \<noteq> [])
            (bnd utc_now (\<lambda>now.
             bnd (new_local_test_run (\<lambda>r. r\<lparr>
                    tr_workspace_id := cr_workspace_id cloud_run,
                    tr_project_id := tk_project_id task,
                    tr_task_id := tk_id task,
                    tr_local_run_id := lr_id local_run,
                    tr_patch_artifact_id := Some (pa_id artifact),
                    tr_status := sr_test_result x,
                    tr_commands := sr_tests_run x,
                    tr_command_results := command_result_payloads secrets (sr_test_command_results x),
                    tr_failure_reason := sr_failure_reason x,
                    tr_completed_at := Some now\<rparr>)) (\<lambda>test_run.
             add_local_test_run test_run)))) (\<lambda>_.
     bnd utc_now (\<lambda>now.
     bnd (set_local_task_run local_run (\<lambda>r. r\<lparr>lr_status := sr_status x,
            lr_patch_artifact_id := Some (pa_id artifact),
            lr_failure_reason := sr_failure_reason x, lr_updated_at := now\<rparr>)) (\<lambda>local_run.
     bnd utc_now (\<lambda>completed_at.
     bnd (set_cloud_run cloud_run (\<lambda>r. r\<lparr>
            cr_status := sr_status x,
            cr_patch_artifact_id := Some (pa_id artifact),
            cr_command_results := command_result_payloads secrets (sr_command_results x),
            cr_failure_reason := sr_failure_reason x,
            cr_completed_at := Some completed_at,
            cr_updated_at := completed_at\<rparr>)) (\<lambda>cloud_run.
     bnd (create_cloud_run_event event_clock (tk_id task) ''patch_artifact_created''
            (JObj [(''cloud_run_id'', JStr (cr_id cloud_run)),
                   (''local_run_id'', JStr (lr_id local_run)),
                   (''patch_artifact_id'', JStr (pa_id artifact)),
                   (''files_changed'', jstrs (pa_files_changed artifact))])) (\<lambda>event_clock.
     bnd (if sr_status x = ''failed''
             then create_cloud_run_event event_clock (tk_id task) ''cloud_run_failed''
               (JObj [(''cloud_run_id'', JStr (cr_id cloud_run)),
                      (''local_run_id'', JStr (lr_id local_run)),
                      (''failure_reason'', jopt (sr_failure_reason x)),
                      (''patch_artifact_id'', JStr (pa_id artifact))])
             else ret event_clock) (\<lambda>event_clock.
     let ready = (sr_status x = ''patch_ready'') in
     bnd (append_clocked_log log_clock cloud_run
            (if ready then ''patch_ready'' else ''failed'')
            (if ready then ''Cloud run produced a patch artifact.''
             else ''Cloud run failed after producing a patch artifact.'')
            (if ready then ''info'' else ''error'')
            (Some (JObj [(''patch_artifact_id'', JStr (pa_id artifact)),
                         (''failure_reason'', jopt (sr_failure_reason x))]))) (\<lambda>log_clock.
     bnd (append_clocked_log log_clock cloud_run ''completed'' ''Cloud run processing completed.''
            ''info'' (Some (JObj [(''status'', JStr (sr_status x))]))) (\<lambda>_.
     bnd (set_task task (\<lambda>t. t\<lparr>tk_repo_id := Some (rp_id repository),
            tk_branch_name := Some (cr_head_branch cloud_run),
            tk_worktree_ref := sr_worktree_ref x\<rparr>)) (\<lambda>task.
     bnd (transition_task_to_patch_ready event_clock task) (\<lambda>_.
     bnd (settle_cloud_run_budget cloud_run) (\<lambda>cloud_run.
     bnd commit (\<lambda>_.
     bnd (db_refresh t_cloud_run cr_id cloud_run) (\<lambda>cloud_run.
     bnd (ack_mns_queue_receipt_after_terminal_commit sv cloud_run) (\<lambda>cloud_run.
     bnd (db_refresh t_patch_artifact pa_id artifact) (\<lambda>artifact.
     cloud_run_result cloud_run (Some artifact)))))))))))))))))))"

definition finalize_claimed_cloud_run_result ::
  "services \<Rightarrow> cloud_run \<Rightarrow> sandbox_execution_result \<Rightarrow> string list \<Rightarrow> cloud_run_result_read action" where
  "finalize_claimed_cloud_run_result sv claimed_run execution_result secrets =
     (let reload = reload_claimed_cloud_run (cr_id claimed_run) (cr_task_id claimed_run)
            execution_result in
     bnd reload (\<lambda>(cloud_run, task, repository, local_run).
     bnd event_clock_new (\<lambda>event_clock.
     bnd event_clock_new (\<lambda>log_clock.
     if cr_cancel_requested cloud_run
          then mark_claimed_cloud_run_cancelled sv cloud_run local_run execution_result secrets
            log_clock
          else
     bnd reload (\<lambda>(cloud_run, task, repository, local_run).
     bnd event_clock_new (\<lambda>event_clock.
     bnd event_clock_new (\<lambda>log_clock.
     if cr_cancel_requested cloud_run
          then mark_claimed_cloud_run_cancelled sv cloud_run local_run execution_result secrets
            log_clock
          else
     bnd utc_now (\<lambda>now.
     bnd (claim_cloud_run_finalization (cr_id claimed_run) now) (\<lambda>claimed.
     if \<not> claimed
          then
            bnd rollback (\<lambda>_.
            bnd reload (\<lambda>(cloud_run, task, repository, local_run).
            bnd event_clock_new (\<lambda>log_clock.
            if cr_cancel_requested cloud_run
                 then mark_claimed_cloud_run_cancelled sv cloud_run local_run execution_result
                   secrets log_clock
                 else existing_cloud_run_result cloud_run)))
          else
            bnd (db_refresh t_cloud_run cr_id cloud_run) (\<lambda>cloud_run.
            if \<not> should_create_patch_artifact execution_result
                 then finalize_without_artifact sv cloud_run task local_run execution_result secrets
                   event_clock log_clock
                 else finalize_with_artifact sv cloud_run task repository local_run execution_result
                   secrets event_clock log_clock))))))))))"

section \<open>The remote worker's completion\<close>

record cloud_run_execution_result_create =
  xc_result :: sandbox_execution_result
  xc_artifact_refs :: "object_storage_ref list"

text \<open>\<^verbatim>\<open>uri.split("://", 1)[0]\<close>, when the separator occurs.\<close>

fun before_infix :: "string \<Rightarrow> string \<Rightarrow> string" where
  "before_infix sep [] = []"
| "before_infix sep (c # cs) = (if starts_with sep (c # cs) then [] else c # before_infix sep cs)"

definition object_storage_provider_name_from_uri :: "string \<Rightarrow> string action" where
  "object_storage_provider_name_from_uri uri =
     (if starts_with ''local-inline://'' uri then ret ''local_inline''
      else if starts_with ''oss://'' uri then ret ''aliyun_oss''
      else
        (let scheme = (if is_infix ''://'' uri then before_infix ''://'' uri else [])
         in raise (http 400 (''Unsupported object storage artifact URI scheme: '' @
              (if scheme = [] then ''missing'' else scheme)))))"

definition read_completion_diff :: "services \<Rightarrow> object_storage_ref \<Rightarrow> string action" where
  "read_completion_diff sv ref =
     bnd (object_storage_provider_name_from_uri (or_uri ref)) (\<lambda>name.
     bnd (get_object_storage_provider (Some name)) (\<lambda>provider.
     try_catch (read_text sv provider ref)
            (\<lambda>exc. case exc of ObjectStorageReadError msg \<Rightarrow> raise (http 400 msg) | _ \<Rightarrow> raise exc)))"

definition resolve_cloud_run_completion_artifacts ::
  "services \<Rightarrow> cloud_run \<Rightarrow> cloud_run_execution_result_create \<Rightarrow>
     cloud_run_execution_result_create action" where
  "resolve_cloud_run_completion_artifacts sv cloud_run result =
     (if xc_artifact_refs result = [] then ret result
      else
        bnd (map_act (read_completion_diff sv)
               (filter (\<lambda>ref. or_kind ref = ''diff'') (xc_artifact_refs result))) (\<lambda>contents.
        case first_of contents of
               None \<Rightarrow> ret result
             | Some diff_text \<Rightarrow>
     bnd (append_cloud_run_log cloud_run ''artifact_ref_resolved''
            ''Cloud run completion diff resolved from artifact_ref.'' ''info''
            (Some (JObj [(''kind'', JStr ''diff'')])) None) (\<lambda>_.
     bnd (only_if (sr_diff_text (xc_result result) \<noteq> [])
            (append_cloud_run_log cloud_run ''artifact_ref_inline_diff_ignored''
               ''Inline diff_text ignored because diff artifact_ref was provided.'' ''info''
               (Some (JObj [(''kind'', JStr ''diff'')])) None)) (\<lambda>_.
     ret (result\<lparr>xc_result := (xc_result result)\<lparr>sr_diff_text := diff_text\<rparr>\<rparr>)))))"

definition complete_cloud_run_lease ::
  "services \<Rightarrow> string \<Rightarrow> string \<Rightarrow> string option \<Rightarrow> cloud_run_execution_result_create \<Rightarrow> bool \<Rightarrow>
     cloud_run_result_read action" where
  "complete_cloud_run_lease sv lease_id worker_id callback_token result require_callback_token =
     bnd (resolve_cloud_run_callback_lease lease_id worker_id callback_token
            require_callback_token) (\<lambda>cloud_run.
     bnd (resolve_cloud_run_completion_artifacts sv cloud_run result) (\<lambda>result.
     let execution_result = xc_result result in
     bnd (if cr_queue_provider cloud_run = ''external_stub''
             then bnd utc_now (\<lambda>now.
                  set_cloud_run cloud_run (\<lambda>r. r\<lparr>cr_queue_receipt := None,
                         cr_external_status :=
                           Some (if sr_status execution_result = ''patch_ready'' then ''completed''
                                 else ''failed''),
                         cr_updated_at := now\<rparr>))
             else ret cloud_run) (\<lambda>cloud_run.
     bnd (if cr_callback_token_hash cloud_run \<noteq> None
             then bnd utc_now (\<lambda>now.
                  set_cloud_run cloud_run (\<lambda>r. r\<lparr>cr_callback_token_used_at := Some now\<rparr>))
             else ret cloud_run) (\<lambda>cloud_run.
     bnd (get_repository (cr_repo_id cloud_run)) (\<lambda>repository.
     let secrets = redaction_secrets [] (rp_repo_url repository) None in
     bnd (append_cloud_run_log cloud_run ''worker_completed''
            ''Cloud run worker completion received.'' ''info''
            (Some (JObj
              [(''worker_id'', JStr worker_id),
               (''lease_id_suffix'', JStr (last_chars 6 lease_id)),
               (''status'', JStr (sr_status execution_result)),
               (''runner_kind'', JStr (sr_runner_kind execution_result))])) None) (\<lambda>_.
     bnd commit (\<lambda>_.
     bnd (db_refresh t_cloud_run cr_id cloud_run) (\<lambda>cloud_run.
     finalize_claimed_cloud_run_result sv cloud_run execution_result secrets))))))))"

section \<open>The local worker\<close>

definition claim_cloud_run :: "string \<Rightarrow> string \<Rightarrow> int \<Rightarrow> bool action" where
  "claim_cloud_run cloud_run_id worker_id now =
     bnd sync (\<lambda>_.
     bnd (db_update_where t_cloud_run t_cloud_run_update
            (\<lambda>r. cr_id r = cloud_run_id \<and> cr_status r = ''queued'')
            (\<lambda>r. r\<lparr>cr_status := ''running'', cr_worker_id := Some worker_id,
                   cr_claimed_at := Some now, cr_updated_at := now\<rparr>)) (\<lambda>n.
     ret (n = 1)))"

definition executor_exception_result :: "string \<Rightarrow> sandbox_execution_result" where
  "executor_exception_result runner_kind =
     \<lparr>sr_status = ''failed'', sr_runner_kind = runner_kind, sr_base_sha = None, sr_head_sha = None,
      sr_worktree_ref = None, sr_summary = [], sr_files_changed = [], sr_tests_run = [],
      sr_test_result = ''not_run'', sr_risks = [], sr_diff_text = [],
      sr_command_results =
        [\<lparr>cm_command = runner_kind @ '' executor'', cm_exit_code = Some 1, cm_stdout = [],
          cm_stderr = ''Executor failed before returning a result.'', cm_duration_ms = 0,
          cm_timed_out = False\<rparr>],
      sr_test_command_results = [], sr_failure_reason = Some ''executor_failed''\<rparr>"

text \<open>What a Docker run needs besides the task: profile, environment and clone token.\<close>

record docker_setup =
  dk_image :: "string option"
  dk_patch_command :: "sandbox_command_selection option"
  dk_test_commands :: "sandbox_command_selection list"
  dk_env :: "(string \<times> string) list"
  dk_network_enabled :: bool
  dk_github_token :: "string option"

definition docker_setup_for :: "services \<Rightarrow> cloud_run \<Rightarrow> task \<Rightarrow> repository \<Rightarrow> docker_setup action" where
  "docker_setup_for sv cloud_run task repository =
     (if cr_sandbox_kind cloud_run \<noteq> ''docker_local''
      then ret \<lparr>dk_image = None, dk_patch_command = None, dk_test_commands = [], dk_env = [],
                dk_network_enabled = True, dk_github_token = None\<rparr>
      else
        (case cr_sandbox_profile_id cloud_run of
           None \<Rightarrow> raise (http 400 ''Docker cloud runs require a sandbox profile'')
         | Some profile_id \<Rightarrow>
        (case rp_github_credential_id repository of
           None \<Rightarrow> raise (http 404 ''GitHub credential not found'')
         | Some credential_id \<Rightarrow>
     bnd (check (validate_github_repository_url (rp_repo_url repository)
            (str_or (rp_github_owner repository) []) (str_or (rp_github_repo repository) []))) (\<lambda>_.
     bnd (validate_sandbox_profile_for_repo profile_id (tk_project_id task)
            (rp_id repository)) (\<lambda>profile.
     bnd (select_profile_commands profile
            \<lparr>crc_repo_id = rp_id repository, crc_sandbox_profile_id = Some profile_id,
             crc_patch_command_key = cr_patch_command_key cloud_run,
             crc_test_command_keys = cr_test_command_keys cloud_run,
             crc_queue_provider = ''local_db'', crc_runtime_provider = None,
             crc_storage_provider = None\<rparr>) (\<lambda>(patch_command, test_commands).
     bnd (sandbox_profile_env (sp_allowed_env_vars profile)) (\<lambda>env_vars.
     bnd (get_active_github_credential credential_id) (\<lambda>credential.
     bnd (open_secret sv (gc_encrypted_token credential)
            \<lparr>se_secret_kind = ''github_credential'', se_secret_id = gc_id credential,
             se_access_reason = ''docker_cloud_run_clone'',
             se_workspace_id = Some (gc_workspace_id credential), se_operation = ''open''\<rparr>) (\<lambda>token.
     ret \<lparr>dk_image = Some (sp_docker_image profile), dk_patch_command = Some patch_command,
               dk_test_commands = test_commands, dk_env = env_vars,
               dk_network_enabled = sp_network_enabled profile, dk_github_token = Some token\<rparr>)))))))))"

definition execution_request ::
  "cloud_run \<Rightarrow> task \<Rightarrow> repository \<Rightarrow> docker_setup \<Rightarrow> sandbox_execution_request" where
  "execution_request cloud_run task repository setup =
     \<lparr>sq_task_id = tk_id task, sq_cloud_run_id = cr_id cloud_run, sq_title = tk_title task,
      sq_description = tk_description task, sq_repo_url = rp_repo_url repository,
      sq_base_branch = str_or (Some (cr_base_branch cloud_run)) (rp_default_branch repository),
      sq_head_branch = cr_head_branch cloud_run, sq_allowed_paths = tk_allowed_paths task,
      sq_required_tests = tk_required_tests task, sq_docker_image = dk_image setup,
      sq_patch_command = dk_patch_command setup, sq_test_commands = dk_test_commands setup,
      sq_env = dk_env setup, sq_network_enabled = dk_network_enabled setup,
      sq_github_owner = rp_github_owner repository, sq_github_repo = rp_github_repo repository,
      sq_github_token = dk_github_token setup\<rparr>"

definition execute_claimed_cloud_run :: "services \<Rightarrow> cloud_run \<Rightarrow> cloud_run_result_read action" where
  "execute_claimed_cloud_run sv cloud_run =
     bnd (get_task (cr_task_id cloud_run)) (\<lambda>task.
     bnd (get_repository (cr_repo_id cloud_run)) (\<lambda>repository.
     bnd (get_cloud_run_local_run_or_404 cloud_run) (\<lambda>local_run.
     bnd select_cloud_sandbox_executor (\<lambda>executor.
     bnd (docker_setup_for sv cloud_run task repository) (\<lambda>setup.
     bnd (try_catch
            (executor_run sv executor (execution_request cloud_run task repository setup))
            (\<lambda>exc. ret (executor_exception_result (cr_sandbox_kind cloud_run)))) (\<lambda>execution_result.
     finalize_claimed_cloud_run_result sv cloud_run execution_result
            (redaction_secrets (dk_env setup) (rp_repo_url repository) (dk_github_token setup))))))))"

text \<open>\<^verbatim>\<open>str(exc.detail)\<close>: a text is itself, a dictionary is printed.\<close>

definition py_repr_char :: "char \<Rightarrow> char \<Rightarrow> string" where
  "py_repr_char quote c =
     (let n = (of_char c :: nat); bs = CHR 0x5C in
      if c = quote \<or> n = 92 then [bs, c]
      else if n = 10 then [bs, CHR ''n'']
      else if n = 13 then [bs, CHR ''r'']
      else if n = 9 then [bs, CHR ''t'']
      else if is_printable c then [c]
      else [bs, CHR ''x'', hex_digit (n div 16), hex_digit (n mod 16)])"

definition py_repr_string :: "string \<Rightarrow> string" where
  "py_repr_string s =
     (let quote = (if CHR 0x27 \<in> set s \<and> CHR 0x22 \<notin> set s then CHR 0x22 else CHR 0x27)
      in [quote] @ concat (map (py_repr_char quote) s) @ [quote])"

fun py_repr :: "json \<Rightarrow> string" where
  "py_repr JNull = ''None''"
| "py_repr (JBool b) = (if b then ''True'' else ''False'')"
| "py_repr (JInt n) = show_int n"
| "py_repr (JFloat x) = x"
| "py_repr (JStr s) = py_repr_string s"
| "py_repr (JList xs) = ''['' @ join_with '', '' (map py_repr xs) @ '']''"
| "py_repr (JObj kvs) =
     ''{'' @ join_with '', '' (map (\<lambda>(k, v). py_repr_string k @ '': '' @ v)
                             (map (\<lambda>(k, v). (k, py_repr v)) kvs)) @ ''}''"

definition detail_text :: "json \<Rightarrow> string" where
  "detail_text detail = (case detail of JStr s \<Rightarrow> s | _ \<Rightarrow> py_repr detail)"

definition process_cloud_run :: "services \<Rightarrow> string \<Rightarrow> string \<Rightarrow> cloud_run_result_read action" where
  "process_cloud_run sv cloud_run_id worker_id =
     bnd (get_cloud_run_or_404 cloud_run_id) (\<lambda>cloud_run.
     bnd (require_audited_permission_if_authenticated ''run.write'' ''cloud_run.process'' ''cloud_run''
            (Some (cr_id cloud_run))) (\<lambda>_.
     bnd (only_if (cr_status cloud_run \<noteq> ''queued'') (raise (http 409 ''Cloud run is not queued''))) (\<lambda>_.
     bnd (get_cloud_run_local_run_or_404 cloud_run) (\<lambda>local_run.
     bnd utc_now (\<lambda>now.
     bnd (claim_cloud_run (cr_id cloud_run) worker_id now) (\<lambda>claimed.
     bnd (only_if (\<not> claimed) (bnd rollback (\<lambda>_.
                               raise (http 409 ''Cloud run is not queued'')))) (\<lambda>_.
     bnd (db_refresh t_cloud_run cr_id cloud_run) (\<lambda>cloud_run.
     bnd (set_local_task_run local_run (\<lambda>r. r\<lparr>lr_status := ''running'',
            lr_updated_at := now\<rparr>)) (\<lambda>local_run.
     bnd event_clock_new (\<lambda>log_clock.
     bnd (append_clocked_log log_clock cloud_run ''claimed''
            ''Cloud run claimed by local worker.'' ''info''
            (Some (JObj [(''worker_id'', JStr worker_id)]))) (\<lambda>log_clock.
     bnd (append_clocked_log log_clock cloud_run ''started'' ''Cloud run execution started.'' ''info''
            (Some (JObj [(''worker_id'', JStr worker_id)]))) (\<lambda>_.
     bnd event_clock_new (\<lambda>event_clock.
     bnd (create_cloud_run_event event_clock (cr_task_id cloud_run) ''cloud_run_started''
            (JObj [(''cloud_run_id'', JStr (cr_id cloud_run)),
                   (''repo_id'', JStr (cr_repo_id cloud_run))])) (\<lambda>_.
     bnd commit (\<lambda>_.
     bnd (db_refresh t_cloud_run cr_id cloud_run) (\<lambda>cloud_run.
     bnd (db_refresh t_local_task_run lr_id local_run) (\<lambda>local_run.
     bnd (try_catch (execute_claimed_cloud_run sv cloud_run)
            (\<lambda>exc. case exc of
               HTTPException code detail header \<Rightarrow>
                 bnd (db_refresh t_cloud_run cr_id cloud_run) (\<lambda>cloud_run.
                 bnd (db_refresh t_local_task_run lr_id local_run) (\<lambda>local_run.
                 mark_claimed_cloud_run_failed sv cloud_run local_run
                        ''cloud_run_preflight_failed'' (detail_text detail)))
             | _ \<Rightarrow> raise exc)) (\<lambda>result.
     bnd (record_workspace_audit
            ((workspace_audit_defaults ''cloud_run.process'' ''cloud_run'' (Some (cr_id cloud_run))
                AL_HIGH_VALUE_WRITE True 200)
             \<lparr>wk_workspace_id := Some (cr_workspace_id cloud_run), wk_commit := True\<rparr>)) (\<lambda>_.
     ret result)))))))))))))))))))"

definition process_next_cloud_run :: "services \<Rightarrow> string \<Rightarrow> cloud_run_result_read option action" where
  "process_next_cloud_run sv worker_id =
     bnd (db_select t_cloud_run (\<lambda>r. cr_status r = ''queued'')) (\<lambda>queued.
     case first_of (sort_key candidate_order queued) of
            None \<Rightarrow> ret None
          | Some cloud_run \<Rightarrow>
              bnd (process_cloud_run sv (cr_id cloud_run) worker_id) (\<lambda>result.
              ret (Some result)))"

end
