(* ===== verification/CloudRunQueue.thy ===== *)
theory CloudRunQueue
  imports CloudRunFinalize
begin

text \<open>
  Both ends of a run's wait in the queue: \<^verbatim>\<open>enqueue_cloud_run\<close> reserves the budget, creates the
  run, hands it to the queue and, for a remote runtime, submits it; \<^verbatim>\<open>cancel_cloud_run\<close> takes a
  queued run out again and asks a running one to stop.
\<close>

section \<open>Cancelling\<close>

definition cancel_queued_cloud_run :: "string \<Rightarrow> int \<Rightarrow> bool action" where
  "cancel_queued_cloud_run cloud_run_id now =
     bnd sync (\<lambda>_.
     bnd (db_update_where t_cloud_run t_cloud_run_update
            (\<lambda>r. cr_id r = cloud_run_id \<and> cr_status r = ''queued'')
            (\<lambda>r. r\<lparr>cr_status := ''cancelled'', cr_cancel_requested := True,
                   cr_cancel_requested_at := Some now, cr_cancelled_at := Some now,
                   cr_completed_at := Some now, cr_updated_at := now\<rparr>)) (\<lambda>n.
     ret (n = 1)))"

definition request_running_cloud_run_cancel :: "string \<Rightarrow> int \<Rightarrow> bool action" where
  "request_running_cloud_run_cancel cloud_run_id now =
     bnd sync (\<lambda>_.
     bnd (db_update_where t_cloud_run t_cloud_run_update
            (\<lambda>r. cr_id r = cloud_run_id \<and> cr_status r = ''running'' \<and> cr_completed_at r = None)
            (\<lambda>r. r\<lparr>cr_cancel_requested := True,
                   cr_cancel_requested_at :=
                     Some (case cr_cancel_requested_at r of None \<Rightarrow> now | Some t \<Rightarrow> t),
                   cr_updated_at := now\<rparr>)) (\<lambda>n.
     ret (n = 1)))"

definition request_running_cloud_run_cancel_and_log :: "string \<Rightarrow> int \<Rightarrow> cloud_run action" where
  "request_running_cloud_run_cancel_and_log cloud_run_id now =
     bnd (request_running_cloud_run_cancel cloud_run_id now) (\<lambda>requested.
     if \<not> requested
          then bnd rollback (\<lambda>_.
               bnd (get_cloud_run_or_404 cloud_run_id) (\<lambda>cloud_run.
               cloud_run_read cloud_run))
          else
            bnd (get_cloud_run_or_404 cloud_run_id) (\<lambda>cloud_run.
            bnd (db_refresh t_cloud_run cr_id cloud_run) (\<lambda>cloud_run.
            bnd (append_cloud_run_log cloud_run ''cancel_requested'' ''Cancellation requested.''
                   ''info'' None None) (\<lambda>_.
            bnd commit (\<lambda>_.
            bnd (db_refresh t_cloud_run cr_id cloud_run) (\<lambda>cloud_run.
            cloud_run_read cloud_run))))))"

definition audit_cancel :: "cloud_run \<Rightarrow> unit action" where
  "audit_cancel cloud_run =
     bnd (record_workspace_audit
            ((workspace_audit_defaults ''cloud_run.cancel'' ''cloud_run'' (Some (cr_id cloud_run))
                AL_HIGH_VALUE_WRITE True 200)\<lparr>wk_commit := True\<rparr>)) (\<lambda>_.
     ret ())"

definition cancel_cloud_run :: "string \<Rightarrow> cloud_run action" where
  "cancel_cloud_run cloud_run_id =
     bnd (get_cloud_run_or_404 cloud_run_id) (\<lambda>cloud_run.
     bnd (require_audited_permission_if_authenticated ''run.write'' ''cloud_run.cancel'' ''cloud_run''
            (Some (cr_id cloud_run))) (\<lambda>_.
     if is_terminal_run cloud_run
          then bnd (cloud_run_read cloud_run) (\<lambda>result.
               bnd (audit_cancel cloud_run) (\<lambda>_.
               ret result))
          else
     bnd utc_now (\<lambda>now.
     if cr_status cloud_run = ''queued''
          then
            bnd (cancel_queued_cloud_run (cr_id cloud_run) now) (\<lambda>cancelled.
            if \<not> cancelled
                 then
                   bnd rollback (\<lambda>_.
                   bnd (get_cloud_run_or_404 cloud_run_id) (\<lambda>cloud_run.
                   if is_terminal_run cloud_run
                        then bnd (cloud_run_read cloud_run) (\<lambda>result.
                             bnd (audit_cancel cloud_run) (\<lambda>_.
                             ret result))
                        else
                          bnd utc_now (\<lambda>now.
                          bnd (request_running_cloud_run_cancel_and_log
                                 (cr_id cloud_run) now) (\<lambda>result.
                          bnd (audit_cancel cloud_run) (\<lambda>_.
                          ret result)))))
                 else
     bnd (db_refresh t_cloud_run cr_id cloud_run) (\<lambda>cloud_run.
     bnd (if cr_callback_token_hash cloud_run \<noteq> None \<and> cr_callback_token_used_at cloud_run = None
             then set_cloud_run cloud_run (\<lambda>r. r\<lparr>cr_callback_token_used_at := Some now\<rparr>)
             else ret cloud_run) (\<lambda>cloud_run.
     bnd (get_cloud_run_local_run_or_404 cloud_run) (\<lambda>local_run.
     bnd (set_local_task_run local_run (\<lambda>r. r\<lparr>lr_status := ''cancelled'', lr_updated_at := now\<rparr>)) (\<lambda>_.
     bnd (append_cloud_run_log cloud_run ''cancelled'' ''Queued cloud run cancelled.'' ''info''
            None None) (\<lambda>_.
     bnd (release_cloud_run_reservation cloud_run) (\<lambda>cloud_run.
     bnd commit (\<lambda>_.
     bnd (db_refresh t_cloud_run cr_id cloud_run) (\<lambda>cloud_run.
     bnd (cloud_run_read cloud_run) (\<lambda>result.
     bnd (audit_cancel cloud_run) (\<lambda>_.
     ret result)))))))))))
          else
            bnd (request_running_cloud_run_cancel_and_log (cr_id cloud_run) now) (\<lambda>result.
            bnd (audit_cancel cloud_run) (\<lambda>_.
            ret result)))))"

section \<open>Checking a request\<close>

definition validate_cloud_run_provider_selection :: "cloud_run_create \<Rightarrow> unit action" where
  "validate_cloud_run_provider_selection data =
     bnd (only_if (crc_queue_provider data = ''aliyun_mns'' \<and> crc_runtime_provider data = None \<and>
                   crc_storage_provider data = None)
            (raise (http 400 ''Aliyun MNS pull cloud runs require storage_provider''))) (\<lambda>_.
     try_catch
            (bnd (get_cloud_queue_provider (crc_queue_provider data)) (\<lambda>queue.
             bnd (opt_act (\<lambda>n. get_object_storage_provider (Some n))
                    (crc_storage_provider data)) (\<lambda>storage.
             bnd (get_remote_runtime_provider (crc_runtime_provider data)) (\<lambda>runtime.
             bnd (queue_validate_configuration queue) (\<lambda>_.
             bnd (case storage of None \<Rightarrow> ret () | Some s \<Rightarrow> storage_validate_configuration s) (\<lambda>_.
             (case runtime of None \<Rightarrow> ret () | Some r \<Rightarrow> runtime_validate_configuration r)))))))
            (\<lambda>exc. case exc of
               AliyunConfigurationError msg \<Rightarrow> raise (http 400 msg)
             | CloudQueueProviderNotFound msg \<Rightarrow> raise (http 400 msg)
             | ObjectStorageProviderNotFound msg \<Rightarrow> raise (http 400 msg)
             | RemoteRuntimeProviderNotFound msg \<Rightarrow> raise (http 400 msg)
             | _ \<Rightarrow> raise exc))"

definition requires_protected_worker_token :: "cloud_run_create \<Rightarrow> bool" where
  "requires_protected_worker_token data \<longleftrightarrow>
     crc_runtime_provider data \<noteq> None \<or> crc_queue_provider data = ''aliyun_mns''"

definition remote_runtime_worker_id :: "string \<Rightarrow> string \<Rightarrow> string" where
  "remote_runtime_worker_id runtime_provider cloud_run_id =
     (if runtime_provider = ''aliyun_eci'' then ''aliyun-eci-'' @ cloud_run_id
      else runtime_provider @ ''-'' @ cloud_run_id)"

definition protected_worker_id :: "cloud_run_create \<Rightarrow> string \<Rightarrow> string option" where
  "protected_worker_id data cloud_run_id =
     (case crc_runtime_provider data of
        Some p \<Rightarrow> Some (remote_runtime_worker_id p cloud_run_id)
      | None \<Rightarrow>
          if crc_queue_provider data = ''aliyun_mns'' then Some (''aliyun-mns-'' @ cloud_run_id)
          else None)"

definition should_enqueue_cloud_queue_message :: "cloud_run_create \<Rightarrow> bool" where
  "should_enqueue_cloud_queue_message data \<longleftrightarrow>
     \<not> (crc_queue_provider data = ''aliyun_mns'' \<and> crc_runtime_provider data = Some ''aliyun_eci'')"

text \<open>The sandbox profile of a run, when it needs one: its id and the keys of its commands.\<close>

definition sandbox_selection ::
  "cloud_run_create \<Rightarrow> task \<Rightarrow> repository \<Rightarrow> cloud_sandbox_executor \<Rightarrow>
     (string option \<times> string option \<times> string list) action" where
  "sandbox_selection data task repository executor =
     (if sandbox_kind executor \<noteq> ''docker_local'' \<and> crc_runtime_provider data = None
      then ret (None, None, [])
      else
        (case crc_sandbox_profile_id data of
           None \<Rightarrow>
             if crc_runtime_provider data \<noteq> None
             then raise (http 400 ''Remote runtime cloud runs require a sandbox profile'')
             else raise (http 400 ''Docker cloud runs require a sandbox profile'')
         | Some profile_id \<Rightarrow>
     bnd (only_if (sandbox_kind executor = ''docker_local'')
            (bnd (only_if (rp_github_credential_id repository = None)
                    (raise (http 404 ''GitHub credential not found''))) (\<lambda>_.
             bnd (check (validate_github_repository_url (rp_repo_url repository)
                    (str_or (rp_github_owner repository) []) (str_or (rp_github_repo repository) []))) (\<lambda>_.
             ret ())))) (\<lambda>_.
     bnd (validate_sandbox_profile_for_repo profile_id (tk_project_id task)
            (rp_id repository)) (\<lambda>profile.
     bnd (select_profile_commands profile data) (\<lambda>(patch_command, test_commands).
     ret (Some (sp_id profile), Some (sc_key patch_command), map sc_key test_commands))))))"

section \<open>Enqueueing\<close>

definition create_queued_run ::
  "cloud_run_create \<Rightarrow> task \<Rightarrow> repository \<Rightarrow> cloud_sandbox_executor \<Rightarrow>
     string option \<times> string option \<times> string list \<Rightarrow> (cloud_run \<times> local_task_run) action" where
  "create_queued_run data task repository executor selection =
     (case selection of (sandbox_profile_id, patch_command_key, test_command_keys) \<Rightarrow>
     bnd (reserve_cloud_run_budget (tk_project_id task) (tk_id task)) (\<lambda>budget_reservation.
     bnd (new_cloud_run (\<lambda>r. r\<lparr>
            cr_workspace_id := rp_workspace_id repository,
            cr_project_id := tk_project_id task,
            cr_task_id := tk_id task,
            cr_repo_id := rp_id repository,
            cr_base_branch := rp_default_branch repository,
            cr_head_branch := [],
            cr_status := ''queued'',
            cr_sandbox_kind := sandbox_kind executor,
            cr_sandbox_profile_id := sandbox_profile_id,
            cr_patch_command_key := patch_command_key,
            cr_test_command_keys := test_command_keys,
            cr_queue_provider := crc_queue_provider data,
            cr_runtime_provider := crc_runtime_provider data,
            cr_storage_provider := crc_storage_provider data,
            cr_budget_reservation_id := Some (rs_id budget_reservation),
            cr_estimated_cost_cents := rs_reserved_cents budget_reservation,
            cr_cost_summary_json := JObj
              [(''reservation_id'', JStr (rs_id budget_reservation)),
               (''reserved_cents'', JInt (rs_reserved_cents budget_reservation))]\<rparr>)) (\<lambda>cloud_run.
     bnd (add_cloud_run cloud_run) (\<lambda>_.
     bnd utc_now (\<lambda>now.
     bnd (set_budget_reservation budget_reservation (\<lambda>r. r\<lparr>
            rs_cloud_run_id := Some (cr_id cloud_run), rs_updated_at := now\<rparr>)) (\<lambda>_.
     let head_branch = ''ai-scdc/task-'' @ tk_id task @ ''-'' @ cr_id cloud_run in
     bnd (set_cloud_run cloud_run (\<lambda>r. r\<lparr>cr_head_branch := head_branch\<rparr>)) (\<lambda>cloud_run.
     bnd (new_local_task_run (\<lambda>r. r\<lparr>
            lr_workspace_id := rp_workspace_id repository,
            lr_project_id := tk_project_id task,
            lr_task_id := tk_id task,
            lr_repo_id := rp_id repository,
            lr_status := ''queued'',
            lr_runner_kind := sandbox_kind executor,
            lr_base_branch := rp_default_branch repository\<rparr>)) (\<lambda>local_run.
     bnd (add_local_task_run local_run) (\<lambda>_.
     bnd utc_now (\<lambda>now.
     bnd (set_cloud_run cloud_run (\<lambda>r. r\<lparr>
            cr_local_run_id := Some (lr_id local_run), cr_updated_at := now\<rparr>)) (\<lambda>cloud_run.
     bnd (append_cloud_run_log cloud_run ''queued'' ''Cloud run queued.'' ''info''
            (Some (JObj
              [(''repo_id'', JStr (rp_id repository)),
               (''sandbox_kind'', JStr (sandbox_kind executor)),
               (''sandbox_profile_id'', jopt sandbox_profile_id),
               (''patch_command_key'', jopt patch_command_key),
               (''test_command_keys'', jstrs test_command_keys),
               (''queue_provider'', JStr (crc_queue_provider data)),
               (''runtime_provider'', jopt (crc_runtime_provider data)),
               (''storage_provider'', jopt (crc_storage_provider data))])) None) (\<lambda>_.
     bnd commit (\<lambda>_.
     bnd (db_refresh t_cloud_run cr_id cloud_run) (\<lambda>cloud_run.
     bnd (db_refresh t_local_task_run lr_id local_run) (\<lambda>local_run.
     ret (cloud_run, local_run))))))))))))))))"

text \<open>The worker a protected run is meant for, and the token it must present.\<close>

record worker_grant =
  wg_worker_id :: "string option"
  wg_callback_token :: "string option"
  wg_expires_at :: "int option"

definition protect_worker_token ::
  "cloud_run_create \<Rightarrow> cloud_run \<Rightarrow> (cloud_run \<times> worker_grant) action" where
  "protect_worker_token data cloud_run =
     (if \<not> requires_protected_worker_token data
      then ret (cloud_run, \<lparr>wg_worker_id = None, wg_callback_token = None, wg_expires_at = None\<rparr>)
      else
        (case protected_worker_id data (cr_id cloud_run) of
           None \<Rightarrow> raise (http 400 ''Cloud run worker id could not be resolved'')
         | Some worker_id \<Rightarrow>
     bnd generate_callback_token (\<lambda>callback_token.
     bnd utc_now (\<lambda>now.
     let expires_at = now + seconds 3600 in
     bnd (gets w_env) (\<lambda>env.
     bnd (set_cloud_run cloud_run (\<lambda>r. r\<lparr>
            cr_worker_id := Some worker_id,
            cr_callback_token_hash :=
              Some (hash_callback_token env (cr_id cloud_run) worker_id callback_token),
            cr_callback_token_expires_at := Some expires_at,
            cr_callback_token_used_at := None\<rparr>)) (\<lambda>cloud_run.
     bnd commit (\<lambda>_.
     bnd (db_refresh t_cloud_run cr_id cloud_run) (\<lambda>cloud_run.
     ret (cloud_run, \<lparr>wg_worker_id = Some worker_id, wg_callback_token = Some callback_token,
                           wg_expires_at = Some expires_at\<rparr>)))))))))"

text \<open>\<^verbatim>\<open>datetime.isoformat()\<close> of a time in UTC.\<close>

definition pad :: "nat \<Rightarrow> int \<Rightarrow> string" where
  "pad k n = (let s = show_int n in replicate (k - length s) (CHR ''0'') @ s)"

definition isoformat :: "int \<Rightarrow> string" where
  "isoformat t =
     (let n = day_of t; y = year_of_day n; m = month_of_day n;
          d = n - days_before_year y - days_before_month y m;
          r = t mod day_us; us = r mod 1000000; s = r div 1000000
      in pad 4 y @ ''-'' @ pad 2 (int m) @ ''-'' @ pad 2 d @ ''T'' @ pad 2 (s div 3600) @ '':'' @
         pad 2 (s div 60 mod 60) @ '':'' @ pad 2 (s mod 60) @
         (if us = 0 then [] else ''.'' @ pad 6 us) @ ''+00:00'')"

definition queue_enqueue_failed ::
  "cloud_run_create \<Rightarrow> cloud_run \<Rightarrow> local_task_run \<Rightarrow> string \<Rightarrow> 'a action" where
  "queue_enqueue_failed data cloud_run local_run msg =
     bnd utc_now (\<lambda>completed_at.
     bnd (set_cloud_run cloud_run (\<lambda>r. r\<lparr>
            cr_status := ''failed'',
            cr_failure_reason := Some ''queue_enqueue_failed'',
            cr_last_queue_error := Some ''queue_enqueue_failed'',
            cr_external_status := Some ''failed'',
            cr_external_error := Some msg,
            cr_completed_at := Some completed_at,
            cr_updated_at := completed_at\<rparr>)) (\<lambda>cloud_run.
     bnd (set_local_task_run local_run (\<lambda>r. r\<lparr>lr_status := ''failed'',
            lr_failure_reason := Some ''queue_enqueue_failed'', lr_updated_at := completed_at\<rparr>)) (\<lambda>_.
     bnd (append_cloud_run_log cloud_run ''queue_enqueue_failed'' ''Cloud run queue enqueue failed.''
            ''error''
            (Some (JObj [(''queue_provider'', JStr (crc_queue_provider data)),
                         (''failure_reason'', JStr ''queue_enqueue_failed'')])) None) (\<lambda>_.
     bnd (release_cloud_run_reservation cloud_run) (\<lambda>_.
     bnd commit (\<lambda>_.
     raise (http 502 msg)))))))"

definition enqueue_queue_message ::
  "services \<Rightarrow> cloud_run_create \<Rightarrow> cloud_run \<Rightarrow> local_task_run \<Rightarrow> worker_grant \<Rightarrow> cloud_run action" where
  "enqueue_queue_message sv data cloud_run local_run grant =
     (if should_enqueue_cloud_queue_message data
      then
        bnd (get_cloud_queue_provider (crc_queue_provider data)) (\<lambda>provider.
        bnd (try_catch
               (bnd (queue_enqueue sv provider
                       \<lparr>qr_workspace_id = cr_workspace_id cloud_run,
                        qr_project_id = cr_project_id cloud_run,
                        qr_task_id = cr_task_id cloud_run,
                        qr_cloud_run_id = cr_id cloud_run,
                        qr_queue_provider = cr_queue_provider cloud_run,
                        qr_runtime_provider = cr_runtime_provider cloud_run,
                        qr_storage_provider = cr_storage_provider cloud_run,
                        qr_worker_id = wg_worker_id grant,
                        qr_callback_token = wg_callback_token grant,
                        qr_callback_token_expires_at = map_option isoformat (wg_expires_at grant)\<rparr>) (\<lambda>result.
                ret result))
               (\<lambda>exc. case exc of
                  CloudQueueProviderError msg \<Rightarrow> queue_enqueue_failed data cloud_run local_run msg
                | _ \<Rightarrow> raise exc)) (\<lambda>queue_result.
        set_cloud_run cloud_run (\<lambda>r. r\<lparr>
               cr_queue_message_id := qe_queue_message_id queue_result,
               cr_queue_receipt := qe_queue_receipt queue_result,
               cr_external_status :=
                 (case qe_external_status queue_result of
                    None \<Rightarrow> cr_external_status r | Some s \<Rightarrow> Some s)\<rparr>)))
      else
        bnd (append_cloud_run_log cloud_run ''queue_enqueue_skipped''
               ''Cloud run queue message skipped for assigned remote runtime.'' ''info''
               (Some (JObj [(''queue_provider'', JStr (crc_queue_provider data)),
                            (''runtime_provider'', jopt (crc_runtime_provider data))])) None) (\<lambda>_.
        ret cloud_run))"

definition runtime_submission_failed ::
  "string \<Rightarrow> string \<Rightarrow> string \<Rightarrow> 'a action" where
  "runtime_submission_failed runtime_provider cloud_run_id msg =
     bnd rollback (\<lambda>_.
     bnd (get_cloud_run_or_404 cloud_run_id) (\<lambda>cloud_run.
     bnd (get_cloud_run_local_run_or_404 cloud_run) (\<lambda>local_run.
     bnd utc_now (\<lambda>completed_at.
     let failure_detail = str_or (redact_external_error (Some msg))
            ''Remote runtime submission failed'' in
     bnd (set_cloud_run cloud_run (\<lambda>r. r\<lparr>
            cr_status := ''failed'',
            cr_failure_reason := Some ''runtime_submission_failed'',
            cr_external_status := Some ''failed'',
            cr_external_error := Some failure_detail,
            cr_completed_at := Some completed_at,
            cr_updated_at := completed_at\<rparr>)) (\<lambda>cloud_run.
     bnd (set_local_task_run local_run (\<lambda>r. r\<lparr>lr_status := ''failed'',
            lr_failure_reason := Some ''runtime_submission_failed'', lr_updated_at := completed_at\<rparr>)) (\<lambda>_.
     bnd (append_cloud_run_log cloud_run ''remote_runtime_submission_failed''
            ''Remote runtime submission failed.'' ''error''
            (Some (JObj [(''runtime_provider'', JStr runtime_provider),
                         (''failure_reason'', JStr ''runtime_submission_failed'')])) None) (\<lambda>_.
     bnd (settle_cloud_run_budget cloud_run) (\<lambda>_.
     bnd commit (\<lambda>_.
     raise (http 400 failure_detail))))))))))"

definition submitted_row :: "remote_runtime_submission_result \<Rightarrow> cloud_run \<Rightarrow> cloud_run" where
  "submitted_row x r =
     (let r = r\<lparr>cr_runtime_job_id := Some (rx_runtime_job_id x),
                cr_artifact_manifest_uri := artifact_manifest_uri x,
                cr_log_stream_uri := log_stream_uri x,
                cr_external_status := Some (rx_external_status x)\<rparr>;
          r = (case rx_artifact_manifest_ref x of
                 None \<Rightarrow> r
               | Some ref \<Rightarrow> r\<lparr>cr_artifact_manifest_sha256 := Some (or_sha256 ref),
                              cr_artifact_manifest_size_bytes := Some (or_size_bytes ref),
                              cr_artifact_manifest_content_type := Some (or_content_type ref)\<rparr>)
      in (case rx_log_stream_ref x of
            None \<Rightarrow> r
          | Some ref \<Rightarrow> r\<lparr>cr_log_stream_sha256 := Some (or_sha256 ref),
                         cr_log_stream_size_bytes := Some (or_size_bytes ref),
                         cr_log_stream_content_type := Some (or_content_type ref)\<rparr>))"

definition submit_to_runtime ::
  "services \<Rightarrow> remote_runtime_provider \<Rightarrow> string \<Rightarrow> cloud_run \<Rightarrow> worker_grant \<Rightarrow> cloud_run action" where
  "submit_to_runtime sv provider runtime_provider cloud_run grant =
     bnd utc_now (\<lambda>now.
     bnd (set_cloud_run cloud_run (\<lambda>r. r\<lparr>cr_updated_at := now\<rparr>)) (\<lambda>cloud_run.
     bnd (try_catch
            (runtime_submit sv provider
               \<lparr>rm_workspace_id = cr_workspace_id cloud_run,
                rm_project_id = cr_project_id cloud_run,
                rm_task_id = cr_task_id cloud_run,
                rm_cloud_run_id = cr_id cloud_run,
                rm_worker_id = wg_worker_id grant,
                rm_callback_token = wg_callback_token grant,
                rm_callback_token_expires_at = wg_expires_at grant,
                rm_queue_provider = cr_queue_provider cloud_run,
                rm_runtime_provider = runtime_provider,
                rm_storage_provider = cr_storage_provider cloud_run,
                rm_status = ''submitted''\<rparr>)
            (\<lambda>exc. case exc of
               RemoteRuntimeSubmissionError msg \<Rightarrow>
                 runtime_submission_failed runtime_provider (cr_id cloud_run) msg
             | _ \<Rightarrow> raise exc)) (\<lambda>submission.
     bnd (set_cloud_run cloud_run (submitted_row submission)) (\<lambda>cloud_run.
     bnd (append_cloud_run_log cloud_run ''remote_runtime_submitted''
            (''Remote runtime submitted via '' @ runtime_provider @ ''.'') ''info''
            (Some (JObj
              [(''runtime_provider'', JStr runtime_provider),
               (''runtime_job_id'', JStr (rx_runtime_job_id submission)),
               (''artifact_manifest_uri'', jopt (artifact_manifest_uri submission)),
               (''log_stream_uri'', jopt (log_stream_uri submission))])) None) (\<lambda>_.
     ret cloud_run)))))"

definition enqueue_cloud_run ::
  "services \<Rightarrow> string \<Rightarrow> cloud_run_create \<Rightarrow> cloud_run_result_read action" where
  "enqueue_cloud_run sv task_id data =
     bnd (get_task task_id) (\<lambda>task.
     bnd (get_repository (crc_repo_id data)) (\<lambda>repository.
     bnd (require_audited_permission_if_authenticated ''run.write'' ''cloud_run.start'' ''cloud_run''
            None) (\<lambda>_.
     bnd (only_if (rp_project_id repository \<noteq> tk_project_id task)
            (raise (http 400 ''Repository does not belong to task project''))) (\<lambda>_.
     bnd (only_if (rp_provider repository \<noteq> ''github'')
            (raise (http 400 ''Cloud runs require a GitHub repository''))) (\<lambda>_.
     bnd (only_if (rp_connection_status repository \<noteq> ''active'')
            (raise (http 400 ''GitHub repository is not active''))) (\<lambda>_.
     bnd (validate_cloud_run_provider_selection data) (\<lambda>_.
     bnd select_cloud_sandbox_executor (\<lambda>executor.
     bnd (sandbox_selection data task repository executor) (\<lambda>selection.
     bnd (create_queued_run data task repository executor selection) (\<lambda>(cloud_run, local_run).
     bnd (get_remote_runtime_provider (crc_runtime_provider data)) (\<lambda>runtime.
     bnd (protect_worker_token data cloud_run) (\<lambda>(cloud_run, grant).
     bnd (enqueue_queue_message sv data cloud_run local_run grant) (\<lambda>cloud_run.
     bnd utc_now (\<lambda>now.
     bnd (set_cloud_run cloud_run (\<lambda>r. r\<lparr>cr_updated_at := now\<rparr>)) (\<lambda>cloud_run.
     bnd commit (\<lambda>_.
     bnd (db_refresh t_cloud_run cr_id cloud_run) (\<lambda>cloud_run.
     bnd (case (runtime, crc_runtime_provider data) of
               (Some provider, Some name) \<Rightarrow> submit_to_runtime sv provider name cloud_run grant
             | _ \<Rightarrow> ret cloud_run) (\<lambda>cloud_run.
     bnd (record_workspace_audit
            (workspace_audit_defaults ''cloud_run.start'' ''cloud_run'' (Some (cr_id cloud_run))
               AL_HIGH_VALUE_WRITE True 201)) (\<lambda>_.
     bnd commit (\<lambda>_.
     bnd (db_refresh t_cloud_run cr_id cloud_run) (\<lambda>cloud_run.
     cloud_run_result cloud_run None)))))))))))))))))))))"

definition start_cloud_run ::
  "services \<Rightarrow> string \<Rightarrow> cloud_run_create \<Rightarrow> cloud_run_result_read action" where
  "start_cloud_run sv task_id data = enqueue_cloud_run sv task_id data"

end
