(* ===== verification/RunnerContract.thy ===== *)
theory RunnerContract
  imports CloudRunQueue
begin

text \<open>
  The interface between the cloud runner and the invariants of the database: which steps a row
  of \<^verbatim>\<open>cloud_run\<close> takes, and what an invariant must promise to survive every request. The ledger,
  the rows of the runs, the identity of a run and the usage ledger have such invariants.
\<close>

section \<open>The steps of a run\<close>

text \<open>
  A run is claimed at most \<^verbatim>\<open>max_attempts\<close> times, a terminal run has its completion time, and a
  lease comes with all its parts, so that \<^verbatim>\<open>_cloud_run_lease_read\<close> finds it complete.
\<close>

definition run_ok :: "cloud_run \<Rightarrow> bool" where
  "run_ok r \<longleftrightarrow>
     0 \<le> cr_attempt_count r \<and> cr_attempt_count r \<le> cr_max_attempts r \<and>
     (is_terminal_run r \<longrightarrow> cr_completed_at r \<noteq> None) \<and>
     (cr_lease_id r \<noteq> None \<longrightarrow>
        cr_lease_expires_at r \<noteq> None \<and> cr_heartbeat_at r \<noteq> None \<and> cr_worker_id r \<noteq> None \<and>
        cr_claimed_at r \<noteq> None \<and> 0 < cr_attempt_count r)"

text \<open>What a run never changes.\<close>

definition run_identity :: "cloud_run \<Rightarrow> string \<times> string \<times> string \<times> string \<times> string \<times> string \<times>
    string option \<times> string option \<times> string option \<times> int \<times> int" where
  "run_identity r =
     (cr_workspace_id r, cr_project_id r, cr_task_id r, cr_repo_id r, cr_sandbox_kind r,
      cr_queue_provider r, cr_runtime_provider r, cr_storage_provider r,
      cr_budget_reservation_id r, cr_max_attempts r, cr_created_at r)"

definition run_step :: "cloud_run \<Rightarrow> cloud_run \<Rightarrow> bool" where
  "run_step r r' \<longleftrightarrow>
     cr_id r' = cr_id r \<and> run_identity r' = run_identity r \<and>
     cr_attempt_count r \<le> cr_attempt_count r' \<and> (run_ok r \<longrightarrow> run_ok r')"

text \<open>The row changes that have a name.\<close>

lemma run_step_rows [simp]:
  "run_step r (attempts_exhausted_row t r)" "run_step r (requeued_row t r)"
  "run_step r (cancelled_run_row secrets x t r)" "run_step r (claimed_queue_fields a l t i r)"
  "run_step r (submitted_row y r)"
  by (auto simp: run_step_def run_ok_def run_identity_def is_terminal_run_def
      cloud_run_terminal_statuses_def attempts_exhausted_row_def requeued_row_def Let_def
      cancelled_run_row_def claimed_queue_fields_def submitted_row_def split: option.splits)

lemma run_step_claim: "lease_claimable r \<Longrightarrow> run_step r (lease_claimed a l t now r)"
  by (auto simp: run_step_def run_ok_def run_identity_def is_terminal_run_def
      cloud_run_terminal_statuses_def lease_claimed_def lease_claimable_def)

lemmas run_step_simps = run_step_def run_ok_def run_identity_def is_terminal_run_def
  cloud_run_terminal_statuses_def

section \<open>Invariants the runner keeps\<close>

text \<open>
  An invariant of the runner: it looks at the side tables in no way, steps of a run and new
  runs keep it, and so do the three ledger operations and the note of a reservation's run.
\<close>

locale runner_invariant = db_invariant +
  assumes set_row: "\<And>run f. (\<And>r. run_step r (f r)) \<Longrightarrow> keeps (good G) (safe G) (set_cloud_run run f)"
    and update_rows: "\<And>P f. (\<And>r. P r \<Longrightarrow> run_step r (f r)) \<Longrightarrow>
      keeps (good G) (safe G) (db_update_where t_cloud_run t_cloud_run_update P f)"
    and add_row: "\<And>r. run_ok r \<Longrightarrow> keeps (good G) (safe G) (add_cloud_run r)"
    and reserve_keeps [keeps_intros]:
      "\<And>project task. keeps (good G) (safe G) (reserve_cloud_run_budget project task)"
    and release_keeps [keeps_intros]:
      "\<And>run. keeps (good G) (safe G) (release_cloud_run_reservation run)"
    and settle_keeps [keeps_intros]:
      "\<And>run. keeps (good G) (safe G) (settle_cloud_run_budget run)"
    and attach_keeps [keeps_intros]:
      "\<And>r i t. keeps (good G) (safe G)
         (set_budget_reservation r (\<lambda>x. x\<lparr>rs_cloud_run_id := i, rs_updated_at := t\<rparr>))"
begin

lemmas run_rows [keeps_intros] = set_row update_rows

text \<open>A new run is added as soon as it is made.\<close>

lemma keeps_new_run:
  assumes "\<And>i t t'. run_ok (f (blank_cloud_run\<lparr>cr_id := i, cr_created_at := t, cr_updated_at := t'\<rparr>))"
    and "\<And>r. keeps (good G) (safe G) (k r)"
  shows "keeps (good G) (safe G) (bnd (new_cloud_run f) (\<lambda>r. bnd (add_cloud_run r) (\<lambda>_. k r)))"
  unfolding new_cloud_run_def bnd_assoc bnd_ret
  by (intro keeps_intros keeps_bnd [OF add_row [OF assms(1)] assms(2)])

end

section \<open>The ledger's invariant\<close>

interpretation books_runner: runner_invariant "books F" for F
proof unfold_locales
  show "keeps (good (books F)) (safe (books F)) (set_cloud_run run f)" for run f
    by (rule keeps_set_cloud_run)
  show "keeps (good (books F)) (safe (books F)) (db_update_where t_cloud_run t_cloud_run_update P f)"
    for P f by (rule keeps_update_where) simp
  show "keeps (good (books F)) (safe (books F)) (add_cloud_run r)" for r
    unfolding add_cloud_run_def by (rule keeps_insert) simp
qed (rule keeps_reserve keeps_release keeps_settle keeps_attach)+

section \<open>Invariants of rows\<close>

text \<open>
  An invariant that every single write of the ledger keeps is kept by its three operations:
  the second contract gives the first.
\<close>

locale row_invariant = db_invariant +
  assumes rows_set: "\<And>run f. (\<And>r. run_step r (f r)) \<Longrightarrow> keeps (good G) (safe G) (set_cloud_run run f)"
    and rows_update: "\<And>P f. (\<And>r. P r \<Longrightarrow> run_step r (f r)) \<Longrightarrow>
      keeps (good G) (safe G) (db_update_where t_cloud_run t_cloud_run_update P f)"
    and rows_add: "\<And>r. run_ok r \<Longrightarrow> keeps (good G) (safe G) (add_cloud_run r)"
    and ignores_wallet [simp]: "\<And>f d. G (t_credit_wallet_update f d) = G d"
    and ignores_reservation [simp]: "\<And>f d. G (t_budget_reservation_update f d) = G d"
    and usage_add [keeps_intros]: "\<And>u. keeps (good G) (safe G) (add_usage_ledger_entry u)"
begin

lemma keeps_ledger_rows [keeps_intros]:
  "keeps (good G) (safe G) (add_credit_wallet x)"
  "keeps (good G) (safe G) (set_credit_wallet x f)"
  "keeps (good G) (safe G) (add_budget_reservation y)"
  "keeps (good G) (safe G) (set_budget_reservation y h)"
  "keeps (good G) (safe G) (db_update_where t_budget_reservation t_budget_reservation_update P g)"
  unfolding add_credit_wallet_def set_credit_wallet_def add_budget_reservation_def
    set_budget_reservation_def
  by (rule keeps_insert keeps_row_modify keeps_update_where; simp)+

lemma keeps_ledger_parts [keeps_intros]:
  "keeps (good G) (safe G) (get_or_create_wallet_for_scope ws org)"
  "keeps (good G) (safe G) active_wallet_or_402"
  "keeps (good G) (safe G) (ensure_spend_limit_allows n)"
  "keeps (good G) (safe G) (active_reservation_for_cloud_run run)"
  "keeps (good G) (safe G) (transition_reserved_reservation r st c t)"
  "keeps (good G) (safe G) (cloud_run_usage_measurements run)"
  unfolding get_or_create_wallet_for_scope_def active_wallet_or_402_def
    ensure_spend_limit_allows_def current_month_reserved_and_settled_cents_def
    active_reservation_for_cloud_run_def transition_reserved_reservation_def
    cloud_run_usage_measurements_def cloud_run_object_storage_bytes_def
  by (intro keeps_intros)+

lemma keeps_append_usage_rows [keeps_intros]:
  "keeps (good G) (safe G) (append_cloud_run_usage run org m)"
proof -
  have "keeps (good G) (safe G) (try_catch (begin_nested (add_usage_ledger_entry u))
      (\<lambda>exc. if exc = IntegrityError then ret () else raise exc))" for u
    by (rule keeps_try_calm [OF keeps_begin_nested [OF usage_add]]) (intro keeps_intros)
  note this [keeps_intros]
  show ?thesis unfolding append_cloud_run_usage_def by (intro keeps_intros)
qed

lemma rows_ledger_operations:
  "keeps (good G) (safe G) (reserve_cloud_run_budget project task)"
  "keeps (good G) (safe G) (release_cloud_run_reservation run)"
  "keeps (good G) (safe G) (settle_cloud_run_budget run)"
  unfolding reserve_cloud_run_budget_def release_cloud_run_reservation_def
    settle_cloud_run_budget_def
  by (intro keeps_intros rows_set; simp add: run_step_simps)+

end

sublocale row_invariant \<subseteq> runner_invariant
  by unfold_locales
    (rule rows_set rows_update rows_add rows_ledger_operations keeps_ledger_rows; assumption?)+

section \<open>The runs' rows\<close>

definition runs_ok :: "db \<Rightarrow> bool" where
  "runs_ok d \<longleftrightarrow> keyed cr_id (t_cloud_run d) \<and> (\<forall>r \<in> set (rows (t_cloud_run d)). run_ok r)"

interpretation runs: row_invariant runs_ok
proof unfold_locales
  fix run :: cloud_run and f :: "cloud_run \<Rightarrow> cloud_run"
  assume f: "\<And>r. run_step r (f r)"
  then have k: "cr_id (f r) = cr_id r" and ok: "run_ok r \<Longrightarrow> run_ok (f r)" for r
    by (auto simp: run_step_def)
  show "keeps (good runs_ok) (safe runs_ok) (set_cloud_run run f)"
    unfolding set_cloud_run_def
  proof (rule keeps_row_modify)
    fix d assume d: "runs_ok d"
    then show "runs_ok (t_cloud_run_update (row_modify (cr_id run) f) d)"
      using set_rows_modify [of "cr_id run" f "t_cloud_run d"]
      by (auto simp: runs_ok_def keyed_row_modify k dest!: map_of_rows intro: ok)
  qed
next
  fix P :: "cloud_run \<Rightarrow> bool" and f :: "cloud_run \<Rightarrow> cloud_run"
  assume f: "\<And>r. P r \<Longrightarrow> run_step r (f r)"
  let ?f = "\<lambda>r. if P r then f r else r"
  have k: "cr_id (?f r) = cr_id r" and ok: "P r \<Longrightarrow> run_ok r \<Longrightarrow> run_ok (f r)" for r
    using f [of r] by (auto simp: run_step_def)
  have same: "rows_where P f t = rows_where (\<lambda>_. True) ?f t" for t
    by (simp add: rows_where_def)
  show "keeps (good runs_ok) (safe runs_ok) (db_update_where t_cloud_run t_cloud_run_update P f)"
    by (rule keeps_update_where)
      (auto simp: runs_ok_def same rows_rows_where keyed_rows_where k intro: ok)
next
  fix r assume "run_ok r"
  then show "keeps (good runs_ok) (safe runs_ok) (add_cloud_run r)"
    unfolding add_cloud_run_def by (intro keeps_insert) (auto simp: runs_ok_def keyed_insert)
next
  fix u
  show "keeps (good runs_ok) (safe runs_ok) (add_usage_ledger_entry u)"
    unfolding add_usage_ledger_entry_def by (rule keeps_insert) (simp add: runs_ok_def)
qed (simp_all add: runs_ok_def)

section \<open>One run\<close>

text \<open>The run \<open>k\<close> is there, is what it was created as, and has been attempted \<open>n\<close> times or more.\<close>

definition run_kept :: "string \<Rightarrow> cloud_run \<Rightarrow> db \<Rightarrow> bool" where
  "run_kept k r d \<longleftrightarrow>
     (case map_of (t_cloud_run d) k of
        None \<Rightarrow> False
      | Some r' \<Rightarrow> run_identity r' = run_identity r \<and> cr_attempt_count r \<le> cr_attempt_count r')"

interpretation kept: row_invariant "run_kept k r" for k r
proof unfold_locales
  fix run :: cloud_run and f :: "cloud_run \<Rightarrow> cloud_run"
  assume f: "\<And>r. run_step r (f r)"
  show "keeps (good (run_kept k r)) (safe (run_kept k r)) (set_cloud_run run f)"
    unfolding set_cloud_run_def
    using f order_trans
    by (intro keeps_row_modify)
      (fastforce simp: run_kept_def row_modify_def run_step_def update_conv split: option.splits)
next
  fix P :: "cloud_run \<Rightarrow> bool" and f :: "cloud_run \<Rightarrow> cloud_run"
  assume f: "\<And>r. P r \<Longrightarrow> run_step r (f r)"
  show "keeps (good (run_kept k r)) (safe (run_kept k r))
      (db_update_where t_cloud_run t_cloud_run_update P f)"
    using f order_trans
    by (intro keeps_update_where)
      (fastforce simp: run_kept_def map_of_rows_where run_step_def split: option.splits)
next
  show "keeps (good (run_kept k r)) (safe (run_kept k r)) (add_cloud_run x)" for x
    unfolding add_cloud_run_def
    by (rule keeps_insert) (auto simp: run_kept_def split: option.splits)
next
  show "keeps (good (run_kept k r)) (safe (run_kept k r)) (add_usage_ledger_entry u)" for u
    unfolding add_usage_ledger_entry_def by (rule keeps_insert) (simp add: run_kept_def)
qed (simp_all add: run_kept_def)

section \<open>The usage ledger\<close>

text \<open>A run is charged for each kind of usage once.\<close>

definition run_usage_key :: "usage_ledger_entry \<Rightarrow> string option \<times> usage_type" where
  "run_usage_key u = (ul_cloud_run_id u, ul_usage_type u)"

definition usage_once :: "db \<Rightarrow> bool" where
  "usage_once d \<longleftrightarrow>
     distinct (map run_usage_key
       (filter (\<lambda>u. ul_cloud_run_id u \<noteq> None) (rows (t_usage_ledger_entry d))))"

interpretation usage: row_invariant usage_once
proof unfold_locales
  show "keeps (good usage_once) (safe usage_once) (set_cloud_run run f)" for run f
    unfolding set_cloud_run_def by (rule keeps_row_modify) (simp add: usage_once_def)
  show "keeps (good usage_once) (safe usage_once) (db_update_where t_cloud_run t_cloud_run_update P f)"
    for P f by (rule keeps_update_where) (simp add: usage_once_def)
  show "keeps (good usage_once) (safe usage_once) (add_cloud_run r)" for r
    unfolding add_cloud_run_def by (rule keeps_insert) (simp add: usage_once_def)
  show "keeps (good usage_once) (safe usage_once) (add_usage_ledger_entry u)" for u
    unfolding add_usage_ledger_entry_def
    by (rule keeps_insert) (fastforce simp: usage_once_def run_usage_key_def list_ex_iff)
qed (simp_all add: usage_once_def)

section \<open>What the logs disclose\<close>

text \<open>
  No dictionary in the payload of a run's log entry or in the metadata of an audit record has
  anything but the mark under a sensitive key, and the texts of the audit log are short and
  printable.
\<close>

definition logs_redacted :: "db \<Rightarrow> bool" where
  "logs_redacted d \<longleftrightarrow>
     (\<forall>e \<in> set (rows (t_cloud_run_log_entry d)). \<forall>p. lg_payload e = Some p \<longrightarrow>
        masked is_sensitive_payload_key ''***REDACTED***'' p) \<and>
     (\<forall>l \<in> set (rows (t_workspace_audit_log d)).
        masked is_sensitive_audit_key ''[redacted]'' (wa_metadata_json l) \<and>
        list_all audit_text (texts (wa_metadata_json l)))"

interpretation redacted: row_invariant logs_redacted
proof unfold_locales
  show "keeps (good logs_redacted) (safe logs_redacted) (set_cloud_run run f)" for run f
    unfolding set_cloud_run_def by (rule keeps_row_modify) (simp add: logs_redacted_def)
  show "keeps (good logs_redacted) (safe logs_redacted)
      (db_update_where t_cloud_run t_cloud_run_update P f)"
    for P f by (rule keeps_update_where) (simp add: logs_redacted_def)
  show "keeps (good logs_redacted) (safe logs_redacted) (add_cloud_run r)" for r
    unfolding add_cloud_run_def by (rule keeps_insert) (simp add: logs_redacted_def)
  show "keeps (good logs_redacted) (safe logs_redacted) (add_usage_ledger_entry u)" for u
    unfolding add_usage_ledger_entry_def by (rule keeps_insert) (simp add: logs_redacted_def)
  show "logs_redacted (t_workspace_audit_log_update (\<lambda>t. t @ [(k, l)]) d) = logs_redacted d"
    if "wa_metadata_json l = redact_audit_metadata m" for l m k d
    using redact_audit_masked redact_audit_texts that by (auto simp: logs_redacted_def rows_def)
  show "logs_redacted (t_cloud_run_log_entry_update (\<lambda>t. t @ [(k, e)]) d) = logs_redacted d"
    if "lg_payload e = map_option redact_sensitive_values p" for e p k d
    using redact_sensitive_masked that by (cases p) (auto simp: logs_redacted_def rows_def)
qed (simp_all add: logs_redacted_def)

end
