(* ===== verification/RunnerLedger.thy ===== *)
theory RunnerLedger
  imports RunnerContract
begin

text \<open>
  Every operation of the cloud runner keeps every invariant of the ledger. What the providers
  do touches no table, so their exceptions may be handled in any way; whatever else is caught
  is either an \<^verbatim>\<open>HTTPException\<close> raised between two operations, or answered by a rollback.
\<close>

section \<open>Providers\<close>

lemma calm_queue [keeps_intros]:
  "keeps (good G) (\<lambda>_. good G) (get_cloud_queue_provider n)"
  "keeps (good G) (\<lambda>_. good G) (queue_validate_configuration q)"
  "keeps (good G) (\<lambda>_. good G) (queue_enqueue sv q r)"
  "keeps (good G) (\<lambda>_. good G) (queue_delete sv q i)"
  subgoal unfolding get_cloud_queue_provider_def by (intro keeps_intros; assumption?)
  subgoal by (cases q; simp only: queue_validate_configuration.simps; intro keeps_intros; assumption?)
  subgoal by (cases q; simp only: queue_enqueue.simps Let_def; intro keeps_intros; assumption?)
  subgoal by (cases q; simp only: queue_delete.simps; intro keeps_intros; assumption?)
  done

lemma calm_storage_parts [keeps_intros]:
  "keeps (good G) (\<lambda>_. good G) (sha256_hex t)"
  "keeps (good G) (\<lambda>_. good G) (validate_artifact_kind k)"
  "keeps (good G) (\<lambda>_. good G) (split_url u)"
  "keeps (good G) (\<lambda>_. good G) (get_object_storage_provider n)"
  "keeps (good G) (\<lambda>_. good G) (get_remote_runtime_provider n)"
  "keeps (good G) (\<lambda>_. good G) require_aliyun_oss_settings"
  unfolding sha256_hex_def validate_artifact_kind_def split_url_def get_object_storage_provider_def
    get_remote_runtime_provider_def require_aliyun_oss_settings_def
  by (intro keeps_intros; assumption?)+

lemma calm_storage [keeps_intros]:
  "keeps (good G) (\<lambda>_. good G) (parse_local_inline_object_id u)"
  "keeps (good G) (\<lambda>_. good G) (parse_oss_ref u)"
  "keeps (good G) (\<lambda>_. good G) (storage_validate_configuration p)"
  "keeps (good G) (\<lambda>_. good G) (runtime_validate_configuration q)"
  subgoal unfolding parse_local_inline_object_id_def by (intro keeps_intros; assumption?)
  subgoal unfolding parse_oss_ref_def by (intro keeps_intros; assumption?)
  subgoal by (cases p; simp only: storage_validate_configuration.simps; intro keeps_intros; assumption?)
  subgoal by (cases q; simp only: runtime_validate_configuration.simps; intro keeps_intros; assumption?)
  done

lemma calm_read_text [keeps_intros]:
  "keeps (good G) (\<lambda>_. good G) (read_text sv p r)"
  unfolding read_text_def read_text_local_inline_def read_text_aliyun_oss_def
  by (cases p; simp only: object_storage_provider.case; intro keeps_intros; assumption?)

lemma calm_executor_run [keeps_intros]: "keeps (good G) (\<lambda>_. good G) (executor_run sv x q)"
  unfolding executor_run_def by (cases x; simp; intro keeps_intros)

lemma calm_opt_storage [keeps_intros]:
  "keeps (good G) (\<lambda>_. good G) (opt_act (\<lambda>n. get_object_storage_provider (Some n)) x)"
  unfolding opt_act_def by (intro keeps_intros)

lemma keeps_queue_or_400 [keeps_intros]: "keeps (good G) (safe G) (queue_provider_or_400 n)"
  unfolding queue_provider_or_400_def
  by (rule keeps_try_calm; (intro keeps_intros)?; simp split: exn.split; intro keeps_intros conjI allI impI)

lemma keeps_try_queue_delete [keeps_intros]: "keeps (good G) (safe G) (try_queue_delete sv i)"
  unfolding try_queue_delete_def
  by (rule keeps_try_calm; (intro keeps_intros)?; simp split: exn.split; intro keeps_intros conjI allI impI)

lemma keeps_try_eci_delete [keeps_intros]: "keeps (good G) (safe G) (try_eci_delete sv i)"
  unfolding try_eci_delete_def by (rule keeps_try_calm; intro keeps_intros)

section \<open>Operations that move no money\<close>

context db_invariant
begin

lemma keeps_read_completion_diff [keeps_intros]:
  "keeps (good G) (safe G) (read_completion_diff sv r)"
proof -
  have "keeps (good G) (safe G) (try_catch (read_text sv p r)
      (\<lambda>exc. case exc of ObjectStorageReadError msg \<Rightarrow> raise (http 400 msg) | _ \<Rightarrow> raise exc))" for p
    by (rule keeps_try_calm [OF calm_read_text]; simp split: exn.split;
        intro keeps_intros conjI allI impI)
  then show ?thesis
    unfolding read_completion_diff_def object_storage_provider_name_from_uri_def
    by (intro keeps_intros)
qed

lemma keeps_provider_selection [keeps_intros]:
  "keeps (good G) (safe G) (validate_cloud_run_provider_selection d)"
  unfolding validate_cloud_run_provider_selection_def
  by (intro keeps_intros; rule keeps_try_calm; (intro keeps_intros)?; simp split: exn.split;
      intro keeps_intros conjI allI impI)

lemma keeps_resolve_artifacts [keeps_intros]:
  "keeps (good G) (safe G) (resolve_cloud_run_completion_artifacts sv run x)"
  unfolding resolve_cloud_run_completion_artifacts_def by (intro keeps_intros)

lemma keeps_claim_receipt [keeps_intros]:
  "keeps (good G) (safe G) (validated_aliyun_mns_claim_receipt a r)"
  unfolding validated_aliyun_mns_claim_receipt_def by (intro keeps_intros)

lemma keeps_explain [keeps_intros]:
  "keeps (good G) (safe G) (explain_unclaimable a now i)"
  unfolding explain_unclaimable_def by (intro keeps_intros)

lemma keeps_transition [keeps_intros]:
  "keeps (good G) (safe G) (transition_task_for_cloud_runner c t st)"
  "keeps (good G) (safe G) (transition_task_to_patch_ready c t)"
  unfolding transition_task_to_patch_ready_def transition_task_for_cloud_runner_def
  by (intro keeps_intros)+

lemma keeps_reload [keeps_intros]:
  "keeps (good G) (safe G) (reload_claimed_cloud_run i t x)"
  unfolding reload_claimed_cloud_run_def by (intro keeps_intros)

lemma keeps_existing [keeps_intros]:
  "keeps (good G) (safe G) (existing_cloud_run_result r)"
  unfolding existing_cloud_run_result_def by (intro keeps_intros)

lemma keeps_docker_setup [keeps_intros]:
  "keeps (good G) (safe G) (docker_setup_for sv r t p)"
  unfolding docker_setup_for_def by (intro keeps_intros)

lemma keeps_sandbox_selection [keeps_intros]:
  "keeps (good G) (safe G) (sandbox_selection d t r x)"
  unfolding sandbox_selection_def by (intro keeps_intros)

lemma keeps_audit_cancel [keeps_intros]: "keeps (good G) (safe G) (audit_cancel r)"
  unfolding audit_cancel_def by (intro keeps_intros)

lemma keeps_try_store_eci:
  "keeps (good G) (safe G) (try_catch (store_eci_submission sv x j)
     (\<lambda>exc. bnd (external f) (\<lambda>_.
            raise eci_submission_failed)))"
  unfolding keeps_def wp_try_catch
  using keepsD [OF keeps_store_eci [of sv x j]]
  by (force simp: wp_simps eci_submission_failed_def safe_def elim!: wp_mono)

lemma keeps_runtime_submit [keeps_intros]:
  "keeps (good G) (safe G) (runtime_submit sv p x)"
  unfolding runtime_submit_def submit_remote_stub_def submit_aliyun_eci_def
  by (cases p; simp only: remote_runtime_provider.case; intro keeps_intros keeps_try_store_eci)

end

section \<open>Leases\<close>

context runner_invariant
begin

lemma keeps_lease_claims [keeps_intros]:
  "keeps (good G) (safe G) (claim_cloud_run_lease a i l t now)"
  "keeps (good G) (safe G) (claim_cloud_run i worker now)"
  "keeps (good G) (safe G) (claim_cloud_run_finalization i now)"
  "keeps (good G) (safe G) (cancel_queued_cloud_run i now)"
  "keeps (good G) (safe G) (request_running_cloud_run_cancel i now)"
  unfolding claim_cloud_run_lease_def claim_cloud_run_def claim_cloud_run_finalization_def
    cancel_queued_cloud_run_def request_running_cloud_run_cancel_def
  by (intro keeps_intros; auto simp: run_step_simps lease_claimable_def lease_claimed_def)+

lemma keeps_finish_claim [keeps_intros]:
  "keeps (good G) (safe G) (finish_lease_claim a l now i r)"
  unfolding finish_lease_claim_def by (intro keeps_intros; (rule run_step_rows | simp add: run_step_simps))

lemma keeps_claim_candidates [keeps_intros]:
  "keeps (good G) (safe G) (claim_candidates a now ids)"
  by (induction ids; simp only: claim_candidates.simps; intro keeps_intros; assumption?)

lemma keeps_claim_next: "keeps (good G) (safe G) (claim_next_cloud_run_lease a)"
  unfolding claim_next_cloud_run_lease_def
  by (intro keeps_intros; cases "lc_cloud_run_id a"; (simp split: list.split)?;
      intro keeps_intros conjI allI impI)

lemma keeps_heartbeat: "keeps (good G) (safe G) (heartbeat_cloud_run_lease l worker t n b)"
  unfolding heartbeat_cloud_run_lease_def by (intro keeps_intros; (rule run_step_rows | simp add: run_step_simps))

lemma keeps_requeue_one [keeps_intros]: "keeps (good G) (safe G) (requeue_one r)"
  unfolding requeue_one_def by (intro keeps_intros; (rule run_step_rows | simp add: run_step_simps))

lemma keeps_requeue: "keeps (good G) (safe G) (requeue_expired_cloud_run_leases q n)"
  unfolding requeue_expired_cloud_run_leases_def by (intro keeps_intros)

lemma keeps_ack [keeps_intros]:
  "keeps (good G) (safe G) (ack_mns_queue_receipt_after_terminal_commit sv r)"
  unfolding ack_mns_queue_receipt_after_terminal_commit_def by (intro keeps_intros; (rule run_step_rows | simp add: run_step_simps))

lemma keeps_finish_operation [keeps_intros]:
  "keeps (good G) (safe G) (finish_provider_operation oper b st reason r)"
  unfolding finish_provider_operation_def by (intro keeps_intros; (rule run_step_rows | simp add: run_step_simps))

lemma keeps_mns_retry: "keeps (good G) (safe G) (retry_retained_mns_queue_receipt_delete sv i)"
  unfolding retry_retained_mns_queue_receipt_delete_def by (intro keeps_intros; (rule run_step_rows | simp add: run_step_simps))

lemma keeps_eci_cleanup: "keeps (good G) (safe G) (cleanup_aliyun_eci_terminal_runtime_job sv i)"
  unfolding cleanup_aliyun_eci_terminal_runtime_job_def by (intro keeps_intros; (rule run_step_rows | simp add: run_step_simps))

lemma keeps_upload: "keeps (good G) (safe G) (upload_cloud_run_lease_artifact sv l d b)"
proof -
  have "keeps (good G) (safe G) (try_catch m (\<lambda>exc. case exc of
      ObjectStorageProviderNotFound msg \<Rightarrow> bnd rollback (\<lambda>_.
                                          raise (http 400 msg))
    | ObjectStorageReadError msg \<Rightarrow> bnd rollback (\<lambda>_.
                                   raise (http 400 msg))
    | _ \<Rightarrow> raise exc))"
    if "keeps (good G) (safe G) m" for m :: "object_storage_ref action"
    by (rule keeps_try_rollback [OF that]) (auto split: exn.split intro!: keeps_intros)
  note this [keeps_intros]
  show ?thesis unfolding upload_cloud_run_lease_artifact_def by (intro keeps_intros)
qed

section \<open>Outcomes\<close>

lemma keeps_outcomes [keeps_intros]:
  "keeps (good G) (safe G) (mark_claimed_cloud_run_failed sv r lr reason msg)"
  "keeps (good G) (safe G) (mark_claimed_cloud_run_cancelled sv r lr x secrets c)"
  unfolding mark_claimed_cloud_run_failed_def mark_claimed_cloud_run_cancelled_def
  by (intro keeps_intros; (rule run_step_rows | simp add: run_step_simps))+

lemma keeps_finalize_parts [keeps_intros]:
  "keeps (good G) (safe G) (finalize_without_artifact sv r t lr x secrets c c')"
  "keeps (good G) (safe G) (finalize_with_artifact sv r t p lr x secrets c c')"
  unfolding finalize_without_artifact_def finalize_with_artifact_def
  by (intro keeps_intros; (rule run_step_rows | simp add: run_step_simps))+

lemma keeps_finalize [keeps_intros]:
  "keeps (good G) (safe G) (finalize_claimed_cloud_run_result sv r x secrets)"
  unfolding finalize_claimed_cloud_run_result_def Let_def by (intro keeps_intros)

lemma keeps_complete: "keeps (good G) (safe G) (complete_cloud_run_lease sv l worker t x b)"
  unfolding complete_cloud_run_lease_def by (intro keeps_intros; (rule run_step_rows | simp add: run_step_simps))

lemma keeps_execute [keeps_intros]:
  "keeps (good G) (safe G) (execute_claimed_cloud_run sv r)"
  unfolding execute_claimed_cloud_run_def by (intro keeps_intros keeps_try_calm)

lemma keeps_process [keeps_intros]: "keeps (good G) (safe G) (process_cloud_run sv i worker)"
  unfolding process_cloud_run_def
  by (intro keeps_intros; rule keeps_try_http; (intro keeps_intros)?;
      auto split: exn.split intro!: keeps_intros)

lemma keeps_process_next: "keeps (good G) (safe G) (process_next_cloud_run sv worker)"
  unfolding process_next_cloud_run_def by (intro keeps_intros)

section \<open>Queueing\<close>

lemma keeps_request_cancel [keeps_intros]:
  "keeps (good G) (safe G) (request_running_cloud_run_cancel_and_log i now)"
  unfolding request_running_cloud_run_cancel_and_log_def by (intro keeps_intros; (rule run_step_rows | simp add: run_step_simps))

lemma keeps_cancel: "keeps (good G) (safe G) (cancel_cloud_run i)"
  unfolding cancel_cloud_run_def by (intro keeps_intros; (rule run_step_rows | simp add: run_step_simps))

lemma keeps_create_queued_run [keeps_intros]:
  "keeps (good G) (safe G) (create_queued_run d t p x selection)"
proof (cases selection)
  case (fields profile patch_key test_keys)
  show ?thesis
    unfolding create_queued_run_def fields prod.case
  proof (rule keeps_bnd [OF reserve_keeps], rule keeps_new_run, goal_cases)
    case 1
    show ?case by (simp add: run_step_simps blank_cloud_run_def)
  next
    case 2
    show ?case by (intro keeps_intros; simp add: run_step_simps)
  qed
qed

lemma keeps_protect_worker_token [keeps_intros]:
  "keeps (good G) (safe G) (protect_worker_token d r)"
  unfolding protect_worker_token_def generate_callback_token_def
  by (intro keeps_intros; (rule run_step_rows | simp add: run_step_simps))

lemma keeps_enqueue_failures [keeps_intros]:
  "keeps (good G) (safe G) (queue_enqueue_failed d r lr msg)"
  "keeps (good G) (safe G) (runtime_submission_failed p i msg)"
  unfolding queue_enqueue_failed_def runtime_submission_failed_def
  by (intro keeps_intros; (rule run_step_rows | simp add: run_step_simps))+

lemma keeps_enqueue_message [keeps_intros]:
  "keeps (good G) (safe G) (enqueue_queue_message sv d r lr g)"
proof -
  have "keeps (good G) (safe G) (try_catch m (\<lambda>exc. case exc of
      CloudQueueProviderError msg \<Rightarrow> queue_enqueue_failed d r lr msg | _ \<Rightarrow> raise exc))"
    if "keeps (good G) (\<lambda>_. good G) m" for m :: "cloud_queue_enqueue_result action"
    by (rule keeps_try_calm [OF that]; simp split: exn.split; intro keeps_intros conjI allI impI)
  note this [keeps_intros]
  show ?thesis
    unfolding enqueue_queue_message_def by (intro keeps_intros; (rule run_step_rows | simp add: run_step_simps))
qed

lemma keeps_submit [keeps_intros]: "keeps (good G) (safe G) (submit_to_runtime sv p n r g)"
proof -
  have tail: "\<exists>k. runtime_submission_failed n i msg = bnd rollback (\<lambda>_. k) \<and> keeps (good G) (safe G) k"
    for i msg
    unfolding runtime_submission_failed_def
    by (intro exI conjI, rule refl, intro keeps_intros; simp add: run_step_simps)
  have "keeps (good G) (safe G) (try_catch m (\<lambda>exc. case exc of
      RemoteRuntimeSubmissionError msg \<Rightarrow> runtime_submission_failed n i msg | _ \<Rightarrow> raise exc))"
    if "keeps (good G) (safe G) m" for m :: "remote_runtime_submission_result action" and i
    by (rule keeps_try_rollback [OF that]) (simp add: tail split: exn.split)
  note this [keeps_intros]
  show ?thesis
    unfolding submit_to_runtime_def by (intro keeps_intros; (rule run_step_rows | simp add: run_step_simps))
qed

lemma keeps_enqueue: "keeps (good G) (safe G) (enqueue_cloud_run sv i d)"
  unfolding enqueue_cloud_run_def
  by (intro keeps_intros; ((simp add: run_step_simps; fail) | rule run_step_rows)?; simp split: option.split;
      intro keeps_intros conjI allI impI)

end

end
