(* ===== verification/Samples.thy ===== *)
theory Samples
  imports RunnerContract
begin

text \<open>
  A small concrete system on which the properties are exercised: a workspace with 400 cents, a
  repository, a task, one queued cloud run with its reservation of 100 cents, services that
  always answer, and no other session.
\<close>

definition sample_auth :: auth_context where
  "sample_auth = \<lparr>ac_user_id = ''u'', ac_workspace_id = ''w'', ac_organization_id = ''o'',
     ac_roles = {OWNER}, ac_auth_mode = ''user_session'', ac_device_session_id = None\<rparr>"

definition sample_env :: env where
  "sample_env = \<lparr>e_clock = (\<lambda>n. int n * 1000000), e_uuid = (\<lambda>n. replicate (Suc n) (CHR ''x'')),
     e_token = (\<lambda>n. replicate (Suc n) (CHR ''t'')), e_sha256 = (\<lambda>s. s), e_hmac = (\<lambda>k s. k @ s),
     e_environ = (\<lambda>_. None),
     e_others = (\<lambda>_ d. d), e_auth = Some sample_auth, e_audit = None\<rparr>"

definition sample_wallet :: credit_wallet where
  "sample_wallet = blank_credit_wallet\<lparr>wl_id := ''wallet'', wl_workspace_id := ''w'',
     wl_organization_id := ''o'', wl_balance_cents := 400\<rparr>"

definition sample_reservation :: budget_reservation where
  "sample_reservation = blank_budget_reservation\<lparr>rs_id := ''res'', rs_workspace_id := ''w'',
     rs_organization_id := ''o'', rs_cloud_run_id := Some ''run'', rs_reserved_cents := 100\<rparr>"

definition sample_project :: project where
  "sample_project = blank_project\<lparr>pj_id := ''p'', pj_workspace_id := ''w''\<rparr>"

definition sample_task :: task where
  "sample_task = blank_task\<lparr>tk_id := ''t'', tk_project_id := ''p'', tk_status := ASSIGNED\<rparr>"

definition sample_repository :: repository where
  "sample_repository = blank_repository\<lparr>rp_id := ''repo'', rp_workspace_id := ''w'',
     rp_project_id := ''p'', rp_provider := ''github'', rp_connection_status := ''active'',
     rp_repo_url := ''https://github.com/o/r.git'', rp_default_branch := ''main''\<rparr>"

definition sample_local_run :: local_task_run where
  "sample_local_run = blank_local_task_run\<lparr>lr_id := ''local'', lr_workspace_id := ''w'',
     lr_project_id := ''p'', lr_task_id := ''t'', lr_repo_id := ''repo'', lr_status := ''queued''\<rparr>"

definition sample_run :: cloud_run where
  "sample_run = blank_cloud_run\<lparr>cr_id := ''run'', cr_workspace_id := ''w'', cr_project_id := ''p'',
     cr_task_id := ''t'', cr_repo_id := ''repo'', cr_local_run_id := Some ''local'',
     cr_budget_reservation_id := Some ''res''\<rparr>"

definition empty_db :: db where
  "empty_db = \<lparr>t_project = [], t_conversation = [], t_user_account = [], t_organization = [],
     t_workspace = [], t_organization_member = [], t_external_identity = [],
     t_account_link_recovery = [], t_device_session = [], t_login_transaction = [],
     t_provider_logout_continuation = [], t_identity_audit_event = [], t_audit_retention_state = [], t_repository = [],
     t_planner_run = [], t_planner_task_draft = [], t_approval = [], t_model_provider = [],
     t_model_credential = [], t_github_credential = [],
     t_sandbox_profile = [], t_model_route = [], t_usage_ledger_entry = [], t_secret_access_audit_log = [],
     t_workspace_audit_log = [], t_credit_wallet = [], t_spend_limit = [],
     t_budget_reservation = [], t_task = [], t_local_task_run = [], t_cloud_run = [],
     t_cloud_run_log_entry = [], t_cloud_run_stored_object = [], t_patch_artifact = [],
     t_local_test_run = [], t_patch_review = [], t_patch_approval = [],
     t_pull_request_record = [], t_debug_attempt = [], t_task_event = []\<rparr>"

definition sample_db :: db where
  "sample_db = empty_db\<lparr>t_project := [(''p'', sample_project)],
     t_repository := [(''repo'', sample_repository)],
     t_credit_wallet := [(''wallet'', sample_wallet)],
     t_budget_reservation := [(''res'', sample_reservation)],
     t_task := [(''t'', sample_task)], t_local_task_run := [(''local'', sample_local_run)],
     t_cloud_run := [(''run'', sample_run)]\<rparr>"

definition blank_request :: request_state where
  "blank_request = \<lparr>rq_device_session = None, rq_cookie_rotation = None,
     rq_workspace_selection_required = False, rq_correlation_id = None\<rparr>"

definition world_of :: "db \<Rightarrow> world" where
  "world_of d = \<lparr>w_db = d, w_committed = d, w_env = sample_env, w_ticks = 0, w_ids = 0,
     w_tokens = 0, w_turns = 0, w_calls = 0, w_audit_seq = 0,
     w_request = blank_request\<rparr>"

definition sample_world :: world where
  "sample_world = world_of sample_db"

definition sample_claim :: lease_claim where
  "sample_claim = \<lparr>lc_worker_id = ''worker'', lc_worker_kind = ''remote'',
     lc_queue_provider = ''local_db'', lc_cloud_run_id = None, lc_callback_token = None,
     lc_queue_message_id = None, lc_queue_receipt = None, lc_lease_seconds = 60,
     lc_require_callback_token = False\<rparr>"

definition sample_services :: services where
  "sample_services = \<lparr>
     sv_mns_send = (\<lambda>_ _ _. Some (Some ''m'')), sv_mns_receive = (\<lambda>_ _ _. Some None),
     sv_mns_delete = (\<lambda>_ _ _. True), sv_oss_put = (\<lambda>_ _ _ _ _. True),
     sv_oss_get = (\<lambda>_ _ _. None), sv_eci_create = (\<lambda>_ _. Some (Some ''job'')),
     sv_eci_delete = (\<lambda>_ _ _. True), sv_eci_log = (\<lambda>_ _ _ _. None),
     sv_docker_run = (\<lambda>_ _. None), sv_vault_seal = (\<lambda>_ _. None), sv_vault_open = (\<lambda>_ _. None),
     sv_vault_rotate = (\<lambda>_ _ _. None), sv_vault_delete = (\<lambda>_ _. True)\<rparr>"

lemmas sample_defs = sample_auth_def sample_env_def sample_wallet_def sample_reservation_def
  sample_project_def sample_task_def sample_repository_def sample_local_run_def sample_run_def
  empty_db_def sample_db_def world_of_def blank_request_def sample_world_def sample_services_def
  blank_credit_wallet_def blank_budget_reservation_def blank_project_def blank_task_def
  blank_repository_def blank_local_task_run_def blank_cloud_run_def

lemma sample_quiet [simp]: "quiet (world_of d)"
  by (simp add: quiet_def world_of_def sample_env_def)

lemma sample_keyed [simp]:
  "keyed wl_id (t_credit_wallet sample_db)" "keyed rs_id (t_budget_reservation sample_db)"
  "keyed cr_id (t_cloud_run sample_db)"
  by (simp_all add: keyed_def sample_defs)

lemma good_world_of [simp]: "good G (world_of d) = G d"
  by (auto simp: good_def world_of_def sample_env_def)

lemma sample_books: "books (workspace_funds sample_db) sample_db"
  by (simp add: books_def) (simp add: sample_defs rows_def reservation_ok_def)

lemma sample_runs_ok: "runs_ok sample_db"
  by (simp add: runs_ok_def)
    (simp add: sample_defs rows_def run_ok_def is_terminal_run_def cloud_run_terminal_statuses_def)

end
