(* ===== verification/Runner.thy ===== *)
theory Runner
  imports RunnerLedger Samples
begin

text \<open>
  The cloud runner as a server: the requests its routes and workers make, in any order, each
  in a session of its own, with other sessions committing in between.
\<close>

datatype runner_request =
    Enqueue string cloud_run_create
  | ProcessNext string
  | Process string string
  | Claim lease_claim
  | Heartbeat string string "string option" int bool
  | Requeue string nat
  | Upload string cloud_run_artifact_upload bool
  | Complete string string "string option" cloud_run_execution_result_create bool
  | Cancel string
  | RetryReceiptDelete string
  | CleanupRuntime string

fun handle :: "services \<Rightarrow> runner_request \<Rightarrow> unit action" where
  "handle sv (Enqueue task_id data) = bnd (enqueue_cloud_run sv task_id data) (\<lambda>_.
                                      ret ())"
| "handle sv (ProcessNext worker_id) = bnd (process_next_cloud_run sv worker_id) (\<lambda>_.
                                       ret ())"
| "handle sv (Process run_id worker_id) = bnd (process_cloud_run sv run_id worker_id) (\<lambda>_.
                                          ret ())"
| "handle sv (Claim a) = bnd (claim_next_cloud_run_lease a) (\<lambda>_.
                         ret ())"
| "handle sv (Heartbeat lease_id worker_id token lease_seconds required) =
     bnd (heartbeat_cloud_run_lease lease_id worker_id token lease_seconds required) (\<lambda>_.
     ret ())"
| "handle sv (Requeue queue limit) = bnd (requeue_expired_cloud_run_leases queue limit) (\<lambda>_.
                                     ret ())"
| "handle sv (Upload lease_id data required) =
     bnd (upload_cloud_run_lease_artifact sv lease_id data required) (\<lambda>_.
     ret ())"
| "handle sv (Complete lease_id worker_id token result required) =
     bnd (complete_cloud_run_lease sv lease_id worker_id token result required) (\<lambda>_.
     ret ())"
| "handle sv (Cancel run_id) = bnd (cancel_cloud_run run_id) (\<lambda>_.
                               ret ())"
| "handle sv (RetryReceiptDelete run_id) =
     bnd (retry_retained_mns_queue_receipt_delete sv run_id) (\<lambda>_.
     ret ())"
| "handle sv (CleanupRuntime run_id) =
     bnd (cleanup_aliyun_eci_terminal_runtime_job sv run_id) (\<lambda>_.
     ret ())"

text \<open>Between two requests the others may commit.\<close>

definition serve_one :: "services \<Rightarrow> runner_request \<Rightarrow> world \<Rightarrow> world" where
  "serve_one sv q w = sync_world (snd (run_request (handle sv q) w))"

definition serve :: "services \<Rightarrow> runner_request list \<Rightarrow> world \<Rightarrow> world" where
  "serve sv qs w = fold (serve_one sv) qs w"

context runner_invariant
begin

lemma handle_keeps: "keeps (good G) (safe G) (handle sv q)"
  by (cases q; simp only: handle.simps;
      intro keeps_intros keeps_enqueue keeps_process_next keeps_claim_next keeps_heartbeat
        keeps_requeue keeps_upload keeps_complete keeps_cancel keeps_mns_retry keeps_eci_cleanup)

lemma serve_good: "good G w \<Longrightarrow> good G (serve sv qs w)"
  unfolding serve_def
proof (induction qs arbitrary: w)
  case Nil
  then show ?case by simp
next
  case (Cons q qs)
  have "good G (serve_one sv q w)"
    unfolding serve_one_def by (rule good_sync [OF run_request_good [OF handle_keeps Cons.prems]])
  then show ?case by (simp add: Cons.IH)
qed

end

section \<open>What survives every history\<close>

text \<open>A history the properties are exercised on: the sample run is claimed, cancelled, requeued.\<close>

definition sample_history :: "runner_request list" where
  "sample_history = [Claim sample_claim, Cancel ''run'', Requeue ''local_db'' 10]"



text \<open>
  C2: Attempts and completeness. After any history of requests, every committed run has been
  claimed at most \<^verbatim>\<open>max_attempts\<close> times, a run in a terminal status has a completion time, and a
  run with a lease has its expiry, heartbeat, worker and claim time, so that the lease can be
  reported to the worker.
\<close>

theorem runner_runs_ok:
  assumes "good runs_ok w"
  shows "\<forall>r \<in> set (rows (t_cloud_run (w_committed (serve sv qs w)))).
    cr_attempt_count r \<le> cr_max_attempts r \<and>
    (is_terminal_run r \<longrightarrow> cr_completed_at r \<noteq> None) \<and>
    (cr_lease_id r \<noteq> None \<longrightarrow> cr_lease_expires_at r \<noteq> None \<and> cr_heartbeat_at r \<noteq> None \<and>
       cr_worker_id r \<noteq> None \<and> cr_claimed_at r \<noteq> None \<and> 0 < cr_attempt_count r)"
  using good_committed [OF runs.serve_good [OF assms, of sv qs]]
  unfolding runs_ok_def run_ok_def by blast

theorem runner_runs_ok_witness:
  "list_all (\<lambda>r. cr_attempt_count r \<le> cr_max_attempts r \<and>
    (is_terminal_run r \<longrightarrow> cr_completed_at r \<noteq> None) \<and>
    (cr_lease_id r \<noteq> None \<longrightarrow> cr_lease_expires_at r \<noteq> None \<and> cr_heartbeat_at r \<noteq> None \<and>
       cr_worker_id r \<noteq> None \<and> cr_claimed_at r \<noteq> None \<and> 0 < cr_attempt_count r))
    (rows (t_cloud_run (w_committed (serve sample_services sample_history sample_world))))"
  unfolding list_all_iff by (rule runner_runs_ok) (simp add: sample_world_def sample_runs_ok)



text \<open>
  C4: A run stays what it was queued as. After any history of requests that starts with run
  \<open>k\<close>, the run exists, belongs to the same workspace, project, task, repository and reservation,
  has the same providers, and has been attempted at least as often.
\<close>

theorem runner_keeps_run:
  assumes "good (run_kept k r) w"
  shows "\<exists>r'. map_of (t_cloud_run (w_committed (serve sv qs w))) k = Some r' \<and>
    run_identity r' = run_identity r \<and> cr_attempt_count r \<le> cr_attempt_count r'"
  using good_committed [OF kept.serve_good [OF assms, of sv qs]]
  by (simp add: run_kept_def split: option.splits)

theorem runner_keeps_run_witness:
  "\<exists>r'. map_of (t_cloud_run (w_committed (serve sample_services sample_history sample_world))) ''run'' =
      Some r' \<and> run_identity r' = run_identity sample_run \<and>
      cr_attempt_count sample_run \<le> cr_attempt_count r'"
  by (rule runner_keeps_run) (simp add: sample_world_def run_kept_def, simp add: sample_db_def)

text \<open>
  C5: What the logs disclose. After any history of requests, in the payload of every log entry of
  a run and in the metadata of every audit record, at any depth, a sensitive key (token, secret,
  password, authorization and the like) has no value but the redaction mark, and every text of
  the audit metadata is printable and at most 259 characters long.
\<close>

theorem runner_discloses_no_secrets:
  assumes "good logs_redacted w"
  shows "(\<forall>e \<in> set (rows (t_cloud_run_log_entry (w_committed (serve sv qs w)))).
      \<forall>p. lg_payload e = Some p \<longrightarrow> (\<forall>(k, v) \<in> set (entries p).
        is_sensitive_payload_key k \<longrightarrow> v = JStr ''***REDACTED***'')) \<and>
    (\<forall>l \<in> set (rows (t_workspace_audit_log (w_committed (serve sv qs w)))).
      (\<forall>(k, v) \<in> set (entries (wa_metadata_json l)).
        is_sensitive_audit_key k \<longrightarrow> v = JStr ''[redacted]'') \<and>
      (\<forall>s \<in> set (texts (wa_metadata_json l)). length s \<le> 259 \<and> list_all is_printable s))"
  using good_committed [OF redacted.serve_good [OF assms, of sv qs]]
  unfolding logs_redacted_def masked_def audit_text_def list_all_iff .

theorem runner_discloses_no_secrets_witness:
  "list_all (\<lambda>e. case lg_payload e of None \<Rightarrow> True | Some p \<Rightarrow>
      list_all (\<lambda>(k, v). is_sensitive_payload_key k \<longrightarrow> v = JStr ''***REDACTED***'') (entries p))
    (rows (t_cloud_run_log_entry (w_committed (serve sample_services sample_history sample_world))))"
proof -
  have "good logs_redacted sample_world"
    by (simp add: sample_world_def logs_redacted_def, simp add: sample_db_def empty_db_def rows_def)
  from runner_discloses_no_secrets [OF this, of sample_services sample_history] show ?thesis
    by (auto simp: list_all_iff split: option.split)
qed

end
