(* ===== verification/LedgerEffects.thy ===== *)
theory LedgerEffects
  imports Samples
begin

text \<open>
  What the operations of \<^verbatim>\<open>budgeting.py\<close> do to the rows: how much a settlement keeps and gives
  back, that a reservation is paid out once, when a reservation is refused, what a month's use
  of a spend limit counts.
\<close>

section \<open>Frames\<close>

lemma ledger_frame_tables:
  assumes "ledger_frame w w'"
  shows "t_credit_wallet (w_db w') = t_credit_wallet (w_db w)"
    and "t_budget_reservation (w_db w') = t_budget_reservation (w_db w)"
    and "t_cloud_run (w_db w') = t_cloud_run (w_db w)"
    and "w_committed w' = w_committed w"
  using arg_cong [where f = t_credit_wallet, OF conjunct1 [OF assms [unfolded ledger_frame_def]]]
    arg_cong [where f = t_budget_reservation, OF conjunct1 [OF assms [unfolded ledger_frame_def]]]
    arg_cong [where f = t_cloud_run, OF conjunct1 [OF assms [unfolded ledger_frame_def]]] assms
  by (simp_all add: ledger_frame_def)

lemma moved_lookup:
  assumes "keyed rs_id (t_budget_reservation d)" and "open_reservation d run = Some r"
  shows "map_of (t_budget_reservation (move_reservation (rs_id r) st c t d)) (rs_id r) =
      Some (moved_reservation st c t r)"
    and "t_credit_wallet (move_reservation (rs_id r) st c t d) = t_credit_wallet d"
    and "t_cloud_run (move_reservation (rs_id r) st c t d) = t_cloud_run d"
  using open_reservation_row [OF assms]
  by (simp_all add: move_reservation_def map_of_rows_where)

text \<open>Whether a run's reservation is open depends on the reservations only.\<close>

lemma open_reservation_cong:
  "t_budget_reservation d' = t_budget_reservation d \<Longrightarrow>
     cr_budget_reservation_id run' = cr_budget_reservation_id run \<Longrightarrow>
     open_reservation d' run' = open_reservation d run"
  unfolding open_reservation_def by presburger

lemma moved_closes:
  assumes k: "keyed rs_id (t_budget_reservation d)" and o: "open_reservation d run = Some r"
    and st: "st \<noteq> BR_RESERVED"
  shows "open_reservation (move_reservation (rs_id r) st c t d) run = None"
proof -
  have "cr_budget_reservation_id run = Some (rs_id r)"
    using o keyed_key [OF k] by (auto simp: open_reservation_def split: option.splits if_splits)
  then show ?thesis
    using moved_lookup(1) [OF k o, of st c t] st
    by (simp add: open_reservation_def moved_reservation_def)
qed

section \<open>Paying out\<close>

text \<open>The end of a release and of a settlement, from the world after the guarded update.\<close>

lemma wp_pay_out:
  assumes "filter (\<lambda>x. wl_workspace_id x = ws) (rows (t_credit_wallet (w_db w))) = x # xs"
    and "keyed wl_id (t_credit_wallet (w_db w))"
    and "\<And>n t. Q (f run) (w\<lparr>w_ticks := n, w_db := t_cloud_run_update (row_modify (cr_id run) f)
      (t_credit_wallet_update (row_modify (wl_id x) (\<lambda>y. y\<lparr>wl_balance_cents := wl_balance_cents x + c,
         wl_updated_at := t\<rparr>)) (w_db w))\<rparr>)"
  shows "wp (bnd (get_or_create_wallet_for_scope ws org) (\<lambda>wallet.
     bnd utc_now (\<lambda>now.
     bnd (set_credit_wallet wallet (\<lambda>x. x\<lparr>wl_balance_cents := wl_balance_cents wallet + c,
       wl_updated_at := now\<rparr>)) (\<lambda>_. set_cloud_run run f)))) Q E w"
  using assms
  by (simp add: get_or_create_wallet_for_scope_def wp_simps first_of_def set_credit_wallet_def
      set_cloud_run_def)

lemma wallet_lookup:
  assumes "filter (\<lambda>x. wl_workspace_id x = ws) (rows t) = x # xs" and "keyed wl_id t"
  shows "map_of t (wl_id x) = Some x"
  using assms by (intro keyed_get) (auto simp: filter_eq_Cons_iff)

text \<open>What a settlement leaves: \<open>b\<close> cents are charged.\<close>

definition charged :: "budget_reservation \<Rightarrow> credit_wallet \<Rightarrow> int \<Rightarrow> world \<Rightarrow> cloud_run \<Rightarrow> world \<Rightarrow> bool" where
  "charged r x b w run' w' \<longleftrightarrow>
     cr_actual_cost_cents run' = b \<and> w_committed w' = w_committed w \<and>
     map_option wl_balance_cents (map_of (t_credit_wallet (w_db w')) (wl_id x)) =
       Some (wl_balance_cents x + (rs_reserved_cents r - b)) \<and>
     map_option (\<lambda>r'. (rs_status r', rs_settled_cents r'))
       (map_of (t_budget_reservation (w_db w')) (rs_id r)) = Some (BR_SETTLED, b)"

lemma wp_settle_charged:
  assumes "keyed rs_id (t_budget_reservation (w_db w))" and "keyed wl_id (t_credit_wallet (w_db w))"
    and "open_reservation (w_db w) run = Some r"
    and "filter (\<lambda>x. wl_workspace_id x = rs_workspace_id r) (rows (t_credit_wallet (w_db w))) = x # xs"
    and "cloud_run_usage_measurements run w = (Inr ms, w)"
    and "b = min (sum_list (map um_amount_cents ms)) (rs_reserved_cents r)"
  shows "wp (settle_cloud_run_budget run) (charged r x b w) (\<lambda>_ _. False) w"
proof -
  note x = wallet_lookup [OF assms(4,2)]
  have measured: "wp (cloud_run_usage_measurements run) Q E w = Q ms w" for Q E
    by (simp add: wp_def assms(5))
  have tail: "wp (bnd (for_each (append_cloud_run_usage run org) ms) (\<lambda>_.
      bnd (get_or_create_wallet_for_scope (rs_workspace_id r) org) (\<lambda>wallet.
      bnd utc_now (\<lambda>now.
      bnd (set_credit_wallet wallet (\<lambda>x. x\<lparr>wl_balance_cents := wl_balance_cents wallet + c,
        wl_updated_at := now\<rparr>)) (\<lambda>_. set_cloud_run run f)))))
      (charged r x b w) (\<lambda>_ _. False)
      (w\<lparr>w_ticks := n, w_db := move_reservation (rs_id r) BR_SETTLED b t (w_db w)\<rparr>)"
    if "c = rs_reserved_cents r - b" and "cr_actual_cost_cents (f run) = b" for org c f n t
    unfolding wp_bnd [of "for_each g zs" for g zs]
    by (rule wp_mono [OF wp_append_usages], rule wp_pay_out)
      (use that assms(2,4) x moved_lookup [OF assms(1,3), of BR_SETTLED b t] in
        \<open>auto simp: ledger_frame_tables moved_reservation_def charged_def\<close>)
  have refund: "max (rs_reserved_cents r - b) 0 = rs_reserved_cents r - b"
    using assms(6) by simp
  show ?thesis
    unfolding settle_cloud_run_budget_def
    by (simp add: budget_wp_bnds wp_bnd [of "cloud_run_usage_measurements x" for x] wp_utc_now
        measured assms(3) assms(6) [symmetric] wp_transition_open [where run = run] assms(1,3)
        Let_def refund tail)
qed

lemma sample_settlement:
  "keyed rs_id (t_budget_reservation (w_db sample_world))"
  "keyed wl_id (t_credit_wallet (w_db sample_world))"
  "open_reservation (w_db sample_world) sample_run = Some sample_reservation"
  "filter (\<lambda>x. wl_workspace_id x = rs_workspace_id sample_reservation)
     (rows (t_credit_wallet (w_db sample_world))) = sample_wallet # []"
  "cloud_run_usage_measurements sample_run sample_world =
     (Inr [\<lparr>um_usage_type = UT_WORKER_SUBMISSIONS, um_quantity = 1,
        um_unit_name = ''submission'', um_amount_cents = 25\<rparr>], sample_world)"
proof -
  show "cloud_run_usage_measurements sample_run sample_world =
     (Inr [\<lparr>um_usage_type = UT_WORKER_SUBMISSIONS, um_quantity = 1,
        um_unit_name = ''submission'', um_amount_cents = 25\<rparr>], sample_world)"
    by (simp add: cloud_run_usage_measurements_def cloud_run_object_storage_bytes_def bnd_def
        gets_def db_select_def ret_def sample_defs rows_def add_size_def
        cloud_run_runtime_seconds_def known_cloud_run_log_sync_calls_def jget_def int_instance_def
        worker_submission_cents_def)
qed (simp_all add: keyed_def open_reservation_def sample_defs rows_def)

text \<open>
  C9: A settlement keeps the measured cost of the run, at most what was reserved, and credits
  the rest of the reservation back to the wallet: the run's actual cost, the reservation's
  settled amount and the wallet's new balance all say the same amount. Nothing is committed by
  it, and it does not fail.
\<close>

theorem settle_charges_measured_cost:
  assumes "keyed rs_id (t_budget_reservation (w_db w))" and "keyed wl_id (t_credit_wallet (w_db w))"
    and "open_reservation (w_db w) run = Some r"
    and "filter (\<lambda>x. wl_workspace_id x = rs_workspace_id r) (rows (t_credit_wallet (w_db w))) = x # xs"
    and "cloud_run_usage_measurements run w = (Inr ms, w)"
  shows "wp (settle_cloud_run_budget run)
    (\<lambda>run' w'. let b = min (sum_list (map um_amount_cents ms)) (rs_reserved_cents r) in
       cr_actual_cost_cents run' = b \<and> w_committed w' = w_committed w \<and>
       map_option wl_balance_cents (map_of (t_credit_wallet (w_db w')) (wl_id x)) =
         Some (wl_balance_cents x + (rs_reserved_cents r - b)) \<and>
       map_option (\<lambda>r'. (rs_status r', rs_settled_cents r'))
         (map_of (t_budget_reservation (w_db w')) (rs_id r)) = Some (BR_SETTLED, b))
    (\<lambda>_ _. False) w"
  unfolding Let_def
  by (rule wp_settle_charged [OF assms refl, unfolded charged_def [abs_def]])

theorem settle_charges_measured_cost_witness:
  "wp (settle_cloud_run_budget sample_run) (\<lambda>run' w'.
      cr_actual_cost_cents run' = 25 \<and> w_committed w' = w_committed sample_world \<and>
      map_option wl_balance_cents (map_of (t_credit_wallet (w_db w')) ''wallet'') = Some 475 \<and>
      map_option (\<lambda>r'. (rs_status r', rs_settled_cents r'))
        (map_of (t_budget_reservation (w_db w')) ''res'') = Some (BR_SETTLED, 25))
    (\<lambda>_ _. False) sample_world"
  using settle_charges_measured_cost [OF sample_settlement]
  by (simp add: sample_wallet_def sample_reservation_def blank_credit_wallet_def
      blank_budget_reservation_def)

text \<open>A reservation that is not open is not paid out.\<close>

lemma closed_untouched:
  "open_reservation (w_db w) run = None \<Longrightarrow> settle_cloud_run_budget run w = (Inr run, w)"
  "open_reservation (w_db w) run = None \<Longrightarrow> release_cloud_run_reservation run w = (Inr run, w)"
  using wp_active_reservation [of run "\<lambda>x w'. x = open_reservation (w_db w) run \<and> w' = w" "\<lambda>_ _. False" w]
  by (simp_all add: settle_cloud_run_budget_def release_cloud_run_reservation_def bnd_def ret_def
      wp_def split: prod.splits sum.splits)

lemma wp_wallet_keeps_reservations:
  "wp (get_or_create_wallet_for_scope ws org)
     (\<lambda>_ w'. t_budget_reservation (w_db w') = t_budget_reservation (w_db w)) (\<lambda>_ _. True) w"
  by (simp add: get_or_create_wallet_for_scope_def wp_simps new_credit_wallet_def
      add_credit_wallet_def split: option.split)

lemma wp_pay_out_closed:
  assumes "open_reservation (w_db w) run = None"
    and "\<And>r. cr_budget_reservation_id (f r) = cr_budget_reservation_id r"
  shows "wp (bnd (get_or_create_wallet_for_scope ws org) (\<lambda>wallet.
     bnd utc_now (\<lambda>now.
     bnd (set_credit_wallet wallet (g wallet now)) (\<lambda>_. set_cloud_run run f))))
     (\<lambda>run' w'. open_reservation (w_db w') run' = None) (\<lambda>_ _. True) w"
  unfolding wp_bnd [of "get_or_create_wallet_for_scope ws org"]
proof (rule wp_mono [OF wp_wallet_keeps_reservations])
  fix x and w' :: world assume same: "t_budget_reservation (w_db w') = t_budget_reservation (w_db w)"
  have "open_reservation d (f run) = None"
    if "t_budget_reservation d = t_budget_reservation (w_db w')" for d
    using open_reservation_cong [of d "w_db w" "f run" run] that same assms by simp
  then show "wp (bnd utc_now (\<lambda>now. bnd (set_credit_wallet x (g x now)) (\<lambda>_. set_cloud_run run f)))
      (\<lambda>run' w'. open_reservation (w_db w') run' = None) (\<lambda>_ _. True) w'"
    by (simp add: wp_simps set_credit_wallet_def set_cloud_run_def)
qed simp

lemma wp_release_closes:
  assumes "keyed rs_id (t_budget_reservation (w_db w))"
  shows "wp (release_cloud_run_reservation run)
    (\<lambda>run' w'. open_reservation (w_db w') run' = None) (\<lambda>_ _. True) w"
proof (cases "open_reservation (w_db w) run")
  case None
  then show ?thesis by (simp add: wp_def closed_untouched)
next
  case (Some r)
  show ?thesis
    unfolding release_cloud_run_reservation_def
    by (simp add: budget_wp_bnds wp_utc_now Some wp_transition_open [where run = run] assms Some wp_pay_out_closed
        moved_closes [OF assms Some])
qed

lemma wp_settle_closes:
  assumes "keyed rs_id (t_budget_reservation (w_db w))"
  shows "wp (settle_cloud_run_budget run)
    (\<lambda>run' w'. open_reservation (w_db w') run' = None) (\<lambda>_ _. True) w"
proof (cases "open_reservation (w_db w) run")
  case None
  then show ?thesis by (simp add: wp_def closed_untouched)
next
  case (Some r)
  have tail: "wp (bnd (for_each (append_cloud_run_usage run org) ms) (\<lambda>_.
      bnd (get_or_create_wallet_for_scope ws org) (\<lambda>wallet.
      bnd utc_now (\<lambda>now.
      bnd (set_credit_wallet wallet (g wallet now)) (\<lambda>_. set_cloud_run run f)))))
      (\<lambda>run' w'. open_reservation (w_db w') run' = None) (\<lambda>_ _. True)
      (w\<lparr>w_ticks := n, w_db := move_reservation (rs_id r) BR_SETTLED c t (w_db w)\<rparr>)"
    if "\<And>r. cr_budget_reservation_id (f r) = cr_budget_reservation_id r" for ws org ms g f c n t
    unfolding wp_bnd [of "for_each g zs" for g zs]
    by (rule wp_mono [OF wp_append_usages], rule wp_pay_out_closed)
      (use that moved_closes [OF assms Some, of BR_SETTLED c t] in
        \<open>auto simp: ledger_frame_tables
           intro: open_reservation_cong [THEN trans]\<close>)
  show ?thesis
    unfolding settle_cloud_run_budget_def wp_bnd [of "active_reservation_for_cloud_run x" for x]
      wp_active_reservation Some option.case wp_bnd [of "cloud_run_usage_measurements x" for x]
    by (rule wp_mono [OF wp_measurements])
      (auto simp: budget_wp_bnds wp_utc_now Let_def wp_transition_open [where run = run] assms Some intro!: tail)
qed

text \<open>
  C10: A reservation is paid out once. After a settlement or a release of a run, neither a
  settlement nor a release of it changes anything: whichever of the cancelling request, the
  failing worker and the requeueing job comes second finds the reservation closed.
\<close>

theorem paid_out_once:
  assumes "keyed rs_id (t_budget_reservation (w_db w))"
    and "pay = settle_cloud_run_budget \<or> pay = release_cloud_run_reservation"
    and "pay run w = (Inr run', w')"
  shows "settle_cloud_run_budget run' w' = (Inr run', w') \<and>
    release_cloud_run_reservation run' w' = (Inr run', w')"
proof -
  have "open_reservation (w_db w') run' = None"
    using assms(2) wp_InrD [OF wp_settle_closes [OF assms(1)]]
      wp_InrD [OF wp_release_closes [OF assms(1)]] assms(3) by blast
  then show ?thesis by (simp add: closed_untouched)
qed

theorem paid_out_once_witness:
  "case settle_cloud_run_budget sample_run sample_world of
     (Inr run', w') \<Rightarrow> settle_cloud_run_budget run' w' = (Inr run', w') \<and>
       release_cloud_run_reservation run' w' = (Inr run', w') | _ \<Rightarrow> False"
proof -
  have k: "keyed rs_id (t_budget_reservation (w_db sample_world))"
    by (simp add: keyed_def sample_defs)
  have "wp (settle_cloud_run_budget sample_run) (\<lambda>_ _. True) (\<lambda>_ _. False) sample_world"
    by (rule wp_mono [OF wp_settle_charged [OF sample_settlement refl]]) simp_all
  then show ?thesis
    using paid_out_once [OF k, of settle_cloud_run_budget sample_run]
    by (auto simp: wp_def split: prod.splits sum.splits)
qed

section \<open>Reserving\<close>

text \<open>What counts against a monthly limit at time \<open>t\<close>, and when a reservation is possible.\<close>

definition month_use :: "string \<Rightarrow> int \<Rightarrow> db \<Rightarrow> int" where
  "month_use ws t d =
     sum_list (map rs_reserved_cents (filter (\<lambda>r. rs_workspace_id r = ws \<and>
       rs_status r = BR_RESERVED \<and> month_start t \<le> rs_created_at r \<and>
       rs_created_at r < next_month_start t) (rows (t_budget_reservation d)))) +
     sum_list (map rs_settled_cents (filter (\<lambda>r. rs_workspace_id r = ws \<and>
       rs_status r = BR_SETTLED \<and> (case rs_settled_at r of None \<Rightarrow> False
         | Some s \<Rightarrow> month_start t \<le> s \<and> s < next_month_start t)) (rows (t_budget_reservation d))))"

definition within_limit :: "string \<Rightarrow> int \<Rightarrow> db \<Rightarrow> spend_limit \<Rightarrow> bool" where
  "within_limit ws t d l \<longleftrightarrow>
     \<not> (0 < sl_per_run_limit_cents l \<and> sl_per_run_limit_cents l < 100) \<and>
     \<not> (0 < sl_monthly_limit_cents l \<and> sl_monthly_limit_cents l < month_use ws t d + 100)"

definition can_reserve :: "string \<Rightarrow> int \<Rightarrow> db \<Rightarrow> bool" where
  "can_reserve ws t d \<longleftrightarrow>
     (case filter (\<lambda>l. sl_workspace_id l = ws \<and> sl_status l = ''active'') (rows (t_spend_limit d)) of
        [] \<Rightarrow> True | l # _ \<Rightarrow> within_limit ws t d l) \<and>
     (case filter (\<lambda>x. wl_workspace_id x = ws) (rows (t_credit_wallet d)) of
        [] \<Rightarrow> False | x # _ \<Rightarrow> 100 \<le> wl_balance_cents x)"

lemma wp_month_use:
  "wp (current_month_reserved_and_settled_cents ws) Q E w =
     Q (month_use ws (e_clock (w_env w) (w_ticks w)) (w_db w)) (w\<lparr>w_ticks := Suc (w_ticks w)\<rparr>)"
  by (simp add: current_month_reserved_and_settled_cents_def wp_simps month_use_def Let_def)

lemma wp_spend_limit:
  assumes "e_auth (w_env w) = Some c"
    and "limits = filter (\<lambda>l. sl_workspace_id l = ac_workspace_id c \<and> sl_status l = ''active'')
      (rows (t_spend_limit (w_db w)))"
    and "ok \<longleftrightarrow> (case limits of [] \<Rightarrow> True | l # _ \<Rightarrow>
      within_limit (ac_workspace_id c) (e_clock (w_env w) (w_ticks w)) (w_db w) l)"
  shows "wp (ensure_spend_limit_allows 100)
    (\<lambda>_ w'. ok \<and> (\<exists>n. w' = w\<lparr>w_ticks := n\<rparr>))
    (\<lambda>e w'. \<not> ok \<and> http_status e = Some 402 \<and> w_db w' = w_db w) w"
proof -
  have self: "\<exists>n. w = w\<lparr>w_ticks := n\<rparr>" by (rule exI [of _ "w_ticks w"]) simp
  show ?thesis
    using assms(1,3) self
    by (cases limits) (auto simp: ensure_spend_limit_allows_def wp_simps wp_month_use first_of_def
        assms(2) [symmetric] within_limit_def http_def)
qed

lemma wp_wallet_402:
  assumes "e_auth (w_env w) = Some c"
    and "wallets = filter (\<lambda>x. wl_workspace_id x = ac_workspace_id c) (rows (t_credit_wallet (w_db w)))"
  shows "wp active_wallet_or_402 Q E w =
    (case wallets of
       [] \<Rightarrow> E (http 402 ''Insufficient credits'') w
     | x # _ \<Rightarrow> if wl_balance_cents x \<le> 0 then E (http 402 ''Insufficient credits'') w else Q x w)"
  using assms(1)
  by (simp add: active_wallet_or_402_def wp_simps first_of_def assms(2) [symmetric] split: list.split)

text \<open>
  C11: Reserving credit. A reservation succeeds exactly when the active spend limit, if there is
  one, allows 100 cents per run and in this month, and the wallet holds 100 cents; then the
  wallet is 100 cents lower and a reservation of 100 cents is open for the workspace. Otherwise
  the answer is 402 and nothing is written.
\<close>

theorem reserve_decides:
  assumes "e_auth (w_env w) = Some c" and "keyed wl_id (t_credit_wallet (w_db w))"
    and "map_of (t_budget_reservation (w_db w))
      (''budget_reservation_'' @ take 12 (e_uuid (w_env w) (w_ids w))) = None"
  shows "wp (reserve_cloud_run_budget project_id task_id)
    (\<lambda>r w'. can_reserve (ac_workspace_id c) (e_clock (w_env w) (w_ticks w)) (w_db w) \<and>
       (\<exists>x x'. wl_workspace_id x = ac_workspace_id c \<and>
          map_of (t_credit_wallet (w_db w)) (wl_id x) = Some x \<and>
          map_of (t_credit_wallet (w_db w')) (wl_id x) = Some x' \<and>
          wl_balance_cents x' = wl_balance_cents x - 100) \<and>
       map_of (t_budget_reservation (w_db w')) (rs_id r) = Some r \<and>
       rs_workspace_id r = ac_workspace_id c \<and> rs_project_id r = project_id \<and>
       rs_task_id r = task_id \<and> rs_reserved_cents r = 100 \<and> rs_status r = BR_RESERVED)
    (\<lambda>e w'. \<not> can_reserve (ac_workspace_id c) (e_clock (w_env w) (w_ticks w)) (w_db w) \<and>
       http_status e = Some 402 \<and> w_db w' = w_db w) w"
proof -
  let ?wallets = "filter (\<lambda>x. wl_workspace_id x = ac_workspace_id c) (rows (t_credit_wallet (w_db w)))"
  show ?thesis
    unfolding reserve_cloud_run_budget_def Let_def default_cloud_run_reservation_cents_def
      wp_bnd [of "ensure_spend_limit_allows 100"]
  proof (rule wp_mono [OF wp_spend_limit [OF assms(1) refl refl]], goal_cases)
    case (1 u w')
    then obtain n where w': "w' = w\<lparr>w_ticks := n\<rparr>" by blast
    show ?case
    proof (cases ?wallets)
      case Nil
      then show ?thesis
        using 1 assms(1)
        by (simp add: wp_bnd [of active_wallet_or_402] wp_wallet_402 [OF _ refl] w' can_reserve_def
            http_def)
    next
      case (Cons x xs)
      then have x: "wl_workspace_id x = ac_workspace_id c"
        "map_of (t_credit_wallet (w_db w)) (wl_id x) = Some x"
        using wallet_lookup [OF Cons assms(2)] by (auto simp: filter_eq_Cons_iff)
      show ?thesis
        using 1 assms(1,3) x Cons
        by (auto simp: wp_bnd [of active_wallet_or_402] wp_wallet_402 [OF _ refl] w' can_reserve_def
            http_def wp_simps set_credit_wallet_def new_budget_reservation_def
            add_budget_reservation_def blank_budget_reservation_def list_ex_iff map_of_append_new
            simp del: map_of_append)
    qed
  next
    case (2 e w')
    then show ?case by (auto simp: can_reserve_def)
  qed
qed

theorem reserve_decides_witness:
  "wp (reserve_cloud_run_budget ''p'' ''t'')
    (\<lambda>r w'. can_reserve ''w'' 0 sample_db \<and>
       (\<exists>x x'. wl_workspace_id x = ''w'' \<and>
          map_of (t_credit_wallet sample_db) (wl_id x) = Some x \<and>
          map_of (t_credit_wallet (w_db w')) (wl_id x) = Some x' \<and>
          wl_balance_cents x' = wl_balance_cents x - 100) \<and>
       map_of (t_budget_reservation (w_db w')) (rs_id r) = Some r \<and>
       rs_workspace_id r = ''w'' \<and> rs_project_id r = ''p'' \<and>
       rs_task_id r = ''t'' \<and> rs_reserved_cents r = 100 \<and> rs_status r = BR_RESERVED)
    (\<lambda>e w'. \<not> can_reserve ''w'' 0 sample_db \<and> http_status e = Some 402 \<and> w_db w' = sample_db)
    sample_world"
proof -
  have a: "e_auth (w_env sample_world) = Some sample_auth"
    and i: "map_of (t_budget_reservation (w_db sample_world))
      (''budget_reservation_'' @ take 12 (e_uuid (w_env sample_world) (w_ids sample_world))) = None"
    by (simp_all add: sample_defs)
  show ?thesis
    using reserve_decides [OF a _ i, of "''p''" "''t''"]
    by (simp add: sample_world_def world_of_def sample_auth_def) (simp add: sample_env_def)
qed

end
