(* ===== verification/LeaseLaws.thy ===== *)
theory LeaseLaws
  imports Samples
begin

text \<open>
  The laws of leases and of worker authentication: which token is accepted and what a refusal
  leaves behind, who a lease belongs to, which run a claim takes, and that a run is claimed by
  one worker only.
\<close>

section \<open>Worker tokens\<close>

text \<open>When a worker's token is good for a run at time \\<open>t\<close>.\<close>

definition token_accepted :: "env \<Rightarrow> cloud_run \<Rightarrow> string \<Rightarrow> string option \<Rightarrow> int \<Rightarrow> bool \<Rightarrow> bool" where
  "token_accepted env r worker_id callback_token t require_token \<longleftrightarrow>
     (case cr_callback_token_hash r of
        None \<Rightarrow> \<not> require_token
      | Some h \<Rightarrow>
          (case callback_token of
             None \<Rightarrow> False
           | Some token \<Rightarrow>
               e_sha256 env (cr_id r @ '':'' @ worker_id @ '':'' @ token) = h \<and>
               cr_callback_token_used_at r = None \<and>
               (case cr_callback_token_expires_at r of None \<Rightarrow> False | Some x \<Rightarrow> t \<le> x)))"

text \<open>
  A refusal: the answer is 401 or 403, or the audit row could not be inserted. It writes the
  audit row and nothing else.
\<close>

definition only_audited :: "world \<Rightarrow> world \<Rightarrow> bool" where
  "only_audited w w' \<longleftrightarrow>
     (\<exists>es. (w_db w')\<lparr>t_identity_audit_event := es\<rparr> = (w_db w)\<lparr>t_identity_audit_event := es\<rparr>)"

definition refused :: "exn \<Rightarrow> bool" where
  "refused e \<longleftrightarrow> http_status e = Some 401 \<or> http_status e = Some 403 \<or> e = IntegrityError"

lemma only_audited_refl [simp]: "only_audited w w"
  by (auto simp: only_audited_def)

lemma only_audited_runs: "only_audited w w' \<Longrightarrow> t_cloud_run (w_db w') = t_cloud_run (w_db w)"
  by (auto simp: only_audited_def dest: arg_cong [where f = t_cloud_run])

lemma wp_reject:
  assumes "quiet w" and "status = 401 \<or> status = 403"
  shows "wp (reject_worker_authentication reason status detail) Q
    (\<lambda>e w'. refused e \<and> only_audited w w') w"
proof -
  have "(d\<lparr>t_identity_audit_event := es\<rparr>)\<lparr>t_identity_audit_event := fs\<rparr> = d\<lparr>t_identity_audit_event := fs\<rparr>"
    for d :: db and es fs by simp
  show ?thesis
    using assms
    by (auto simp: reject_worker_authentication_def record_identity_audit_event_def wp_simps
        resolved_request_id_def resolved_audit_time_def next_occurred_at_def new_identity_audit_event_def
        add_identity_audit_event_def identity_audit_defaults_def refused_def only_audited_def
        split: option.split)
qed

lemma wp_verify:
  assumes "quiet w"
  shows "wp (verify_cloud_run_callback_token_or_403 r worker_id callback_token (Some t) required)
    (\<lambda>_ w'. w' = w \<and> token_accepted (w_env w) r worker_id callback_token t required)
    (\<lambda>e w'. \<not> token_accepted (w_env w) r worker_id callback_token t required \<and> refused e \<and>
       only_audited w w') w"
proof -
  have reject: "wp reject_callback_token Q (\<lambda>e w'. refused e \<and> only_audited w w') w"
    "wp (reject_worker_authentication reason 401 detail) Q (\<lambda>e w'. refused e \<and> only_audited w w') w"
    for Q :: "unit \<Rightarrow> world \<Rightarrow> bool" and reason detail
    unfolding reject_callback_token_def using assms by (auto intro: wp_reject)
  show ?thesis
    by (cases "cr_callback_token_hash r"; cases callback_token; cases "cr_callback_token_expires_at r")
      (auto simp: verify_cloud_run_callback_token_or_403_def token_accepted_def wp_simps
        verify_callback_token_def hash_callback_token_def intro!: reject)
qed

text \<open>
  Worker tokens. A protected run accepts a worker exactly when it presents the token whose
  digest (of run, worker and token) was stored, the token has not been used, and it has not
  expired; a run without a stored digest accepts any worker unless the route requires a token.
  A refusal (401 or 403) writes an audit event and changes no other table.
\<close>

theorem worker_token_accepted_iff:
  assumes "quiet w"
  shows "wp (verify_cloud_run_callback_token_or_403 r worker_id callback_token (Some t) required)
    (\<lambda>_ w'. w' = w \<and> token_accepted (w_env w) r worker_id callback_token t required)
    (\<lambda>e w'. \<not> token_accepted (w_env w) r worker_id callback_token t required \<and> refused e \<and>
       (\<exists>es. (w_db w')\<lparr>t_identity_audit_event := es\<rparr> = (w_db w)\<lparr>t_identity_audit_event := es\<rparr>)) w"
  using wp_verify [OF assms] by (simp add: only_audited_def)

text \<open>The sample run with a token of the worker that expires at time 10.\<close>

definition protected_run :: cloud_run where
  "protected_run = sample_run\<lparr>cr_callback_token_hash := Some ''run:worker:secret'',
     cr_callback_token_expires_at := Some 10\<rparr>"

theorem worker_token_accepted_iff_example:
  "wp (verify_cloud_run_callback_token_or_403 protected_run ''worker'' (Some ''secret'') (Some 9) True)
    (\<lambda>_ w'. w' = sample_world \<and>
       token_accepted (w_env sample_world) protected_run ''worker'' (Some ''secret'') 9 True)
    (\<lambda>e w'. False) sample_world"
proof -
  have "token_accepted (w_env sample_world) protected_run ''worker'' (Some ''secret'') 9 True"
    by (simp add: token_accepted_def protected_run_def sample_defs)
  moreover have "quiet sample_world" by (simp add: sample_world_def)
  ultimately show ?thesis
    using worker_token_accepted_iff [of sample_world protected_run "''worker''" "Some ''secret''" 9 True]
    by (simp add: wp_def split: prod.splits sum.splits)
qed

text \<open>
  Refusals are on record. A refused worker's answer carries a correlation identifier, and
  an identity audit event with the same identifier, the outcome failure and the reason is
  committed before the answer is given.
\<close>

theorem refusal_is_audited:
  assumes "quiet w"
    and "map_of (t_identity_audit_event (w_db w))
      (''identity_audit_'' @ take 12 (e_uuid (w_env w) (w_ids w))) = None"
  shows "wp (reject_worker_authentication reason status detail) (\<lambda>_ _. False)
    (\<lambda>e w'. \<exists>cid ev. e = HTTPException status (JStr detail) (Some cid) \<and>
       ev \<in> set (rows (t_identity_audit_event (w_committed w'))) \<and>
       ie_correlation_id ev = cid \<and> ie_outcome ev = ''failure'' \<and> ie_reason_code ev = reason \<and>
       ie_event_type ev = ''authentication_failure'') w"
  using assms
  by (auto simp: reject_worker_authentication_def record_identity_audit_event_def wp_simps
      resolved_request_id_def resolved_audit_time_def next_occurred_at_def new_identity_audit_event_def
      add_identity_audit_event_def identity_audit_defaults_def list_ex_iff rows_def
      split: option.split)

theorem refusal_is_audited_example:
  "wp (reject_worker_authentication ''worker_route_not_available'' 403 ''no'') (\<lambda>_ _. False)
    (\<lambda>e w'. \<exists>cid ev. e = HTTPException 403 (JStr ''no'') (Some cid) \<and>
       ev \<in> set (rows (t_identity_audit_event (w_committed w'))) \<and>
       ie_correlation_id ev = cid \<and> ie_outcome ev = ''failure'' \<and>
       ie_reason_code ev = ''worker_route_not_available'' \<and>
       ie_event_type ev = ''authentication_failure'') sample_world"
  by (rule refusal_is_audited) (simp_all add: sample_defs quiet_def)

section \<open>The holder of a lease\<close>

definition held_by :: "string \<Rightarrow> string \<Rightarrow> int \<Rightarrow> cloud_run \<Rightarrow> bool" where
  "held_by lease_id worker_id t r \<longleftrightarrow>
     cr_lease_id r = Some lease_id \<and> cr_worker_id r = Some worker_id \<and> cr_status r = ''running'' \<and>
     cr_completed_at r = None \<and>
     (case cr_lease_expires_at r of None \<Rightarrow> False | Some x \<Rightarrow> t \<le> x)"

lemma wp_ensure_current:
  "wp (ensure_current_cloud_run_lease_or_409 r worker_id) Q E w =
     (if cr_worker_id r = Some worker_id \<and> cr_status r = ''running'' \<and> cr_completed_at r = None
      then (case cr_lease_expires_at r of
              None \<Rightarrow> E lease_not_current w
            | Some x \<Rightarrow>
                if x < e_clock (w_env w) (w_ticks w)
                then E lease_not_current (w\<lparr>w_ticks := Suc (w_ticks w)\<rparr>)
                else Q () (w\<lparr>w_ticks := Suc (w_ticks w)\<rparr>))
      else E lease_not_current w)"
  by (simp add: ensure_current_cloud_run_lease_or_409_def wp_simps split: option.split)

lemma refused_cases: "refused (HTTPException 401 d i)" "refused (HTTPException 403 d i)"
  by (simp_all add: refused_def)

lemma wp_verify_now:
  assumes "quiet w"
  shows "wp (verify_cloud_run_callback_token_or_403 r worker_id callback_token None required)
    (\<lambda>_ w'. (w' = w \<or> w' = w\<lparr>w_ticks := Suc (w_ticks w)\<rparr>) \<and>
       token_accepted (w_env w) r worker_id callback_token (e_clock (w_env w) (w_ticks w)) required)
    (\<lambda>e w'. refused e \<and> only_audited w w') w"
proof -
  have frame: "only_audited (w\<lparr>w_ticks := n\<rparr>) w' = only_audited w w'" for n w'
    by (simp add: only_audited_def)
  have reject: "wp reject_callback_token Q (\<lambda>e w'. refused e \<and> only_audited w w') (w\<lparr>w_ticks := n\<rparr>)"
    "wp reject_callback_token Q (\<lambda>e w'. refused e \<and> only_audited w w') w"
    "wp (reject_worker_authentication reason 401 detail) Q (\<lambda>e w'. refused e \<and> only_audited w w') w"
    for Q :: "unit \<Rightarrow> world \<Rightarrow> bool" and reason detail n
    unfolding reject_callback_token_def
    using assms wp_reject [of "w\<lparr>w_ticks := n\<rparr>"] by (auto intro: wp_reject simp: frame)
  show ?thesis
    by (cases "cr_callback_token_hash r"; cases callback_token; cases "cr_callback_token_expires_at r")
      (auto simp: verify_cloud_run_callback_token_or_403_def token_accepted_def wp_simps
        verify_callback_token_def hash_callback_token_def intro!: reject)
qed

text \<open>What a callback finds: a run of which the worker is the current, authenticated holder.\<close>

definition callback_holder :: "string \<Rightarrow> string \<Rightarrow> string option \<Rightarrow> bool \<Rightarrow> world \<Rightarrow> cloud_run \<Rightarrow> bool" where
  "callback_holder lease_id worker_id callback_token required w r \<longleftrightarrow>
     r \<in> set (rows (t_cloud_run (w_db w))) \<and>
     (\<exists>n \<ge> w_ticks w. held_by lease_id worker_id (e_clock (w_env w) n) r) \<and>
     (\<exists>n \<ge> w_ticks w. token_accepted (w_env w) r worker_id callback_token (e_clock (w_env w) n) required)"

lemma wp_current_lease:
  "wp (get_current_cloud_run_lease_or_409 lease_id worker_id)
     (\<lambda>r w'. w' = w\<lparr>w_ticks := Suc (w_ticks w)\<rparr> \<and> r \<in> set (rows (t_cloud_run (w_db w))) \<and>
        held_by lease_id worker_id (e_clock (w_env w) (w_ticks w)) r)
     (\<lambda>e w'. e = lease_not_current \<and> w_db w' = w_db w) w"
  by (auto simp: get_current_cloud_run_lease_or_409_def wp_simps wp_ensure_current held_by_def
      first_of_def filter_eq_Cons_iff lease_not_current_def split: option.split list.split)

lemma wp_resolve:
  assumes q: "quiet w"
  shows "wp (resolve_cloud_run_callback_lease lease_id worker_id callback_token required)
    (\<lambda>r w'. w_db w' = w_db w \<and> w_env w' = w_env w \<and> w_ticks w \<le> w_ticks w' \<and>
       callback_holder lease_id worker_id callback_token required w r)
    (\<lambda>e w'. (refused e \<or> e = lease_not_current \<or> http_status e = Some 400) \<and>
       t_cloud_run (w_db w') = t_cloud_run (w_db w)) w"
proof (cases required)
  case False
  show ?thesis
    unfolding resolve_cloud_run_callback_lease_def eqTrueI [OF False] if_True not_False_eq_True
      wp_bnd [of "get_current_cloud_run_lease_or_409 x y" for x y]
  proof (rule wp_mono [OF wp_current_lease], goal_cases)
    case (1 r w')
    then have w': "w' = w\<lparr>w_ticks := Suc (w_ticks w)\<rparr>" and "quiet w'" using q by simp_all
    show ?case
      unfolding wp_bnd [of "verify_cloud_run_callback_token_or_403 a b c d e" for a b c d e]
      by (rule wp_mono [OF wp_verify_now [OF \<open>quiet w'\<close>]])
        (use 1 False in \<open>auto simp: wp_simps callback_holder_def dest: only_audited_runs
           intro: exI [of _ "w_ticks w"] exI [of _ "Suc (w_ticks w)"]\<close>)
  next
    case (2 e w')
    then show ?case by simp
  qed
next
  case True
  show ?thesis
  proof (cases callback_token)
    case None
    show ?thesis
      unfolding resolve_cloud_run_callback_lease_def
        require_presented_worker_callback_credential_def
      by (simp add: True None wp_bnd wp_only_if)
        (rule wp_mono [OF wp_reject [OF q]], auto dest: only_audited_runs)
  next
    case (Some token)
    show ?thesis
    proof (cases "filter (\<lambda>r. cr_lease_id r = Some lease_id) (rows (t_cloud_run (w_db w)))")
      case Nil
      have "wp reject_callback_token Q
          (\<lambda>e w'. (refused e \<or> e = lease_not_current \<or> http_status e = Some 400) \<and>
            t_cloud_run (w_db w') = t_cloud_run (w_db w)) w" for Q :: "cloud_run \<Rightarrow> world \<Rightarrow> bool"
        unfolding reject_callback_token_def
        by (rule wp_mono [OF wp_reject [OF q]]) (auto dest: only_audited_runs)
      then show ?thesis
        by (simp add: resolve_cloud_run_callback_lease_def
            require_presented_worker_callback_credential_def True Some wp_bnd wp_only_if
            wp_db_select Nil first_of_def)
    next
      case (Cons r rs)
      then have r: "r \<in> set (rows (t_cloud_run (w_db w)))" "cr_lease_id r = Some lease_id"
        by (auto simp: filter_eq_Cons_iff)
      have "wp (bnd (verify_cloud_run_callback_token_or_403 r worker_id callback_token None True)
          (\<lambda>_. bnd (ensure_current_cloud_run_lease_or_409 r worker_id) (\<lambda>_. ret r)))
        (\<lambda>r w'. w_db w' = w_db w \<and> w_env w' = w_env w \<and> w_ticks w \<le> w_ticks w' \<and>
           callback_holder lease_id worker_id callback_token required w r)
        (\<lambda>e w'. (refused e \<or> e = lease_not_current \<or> http_status e = Some 400) \<and>
           t_cloud_run (w_db w') = t_cloud_run (w_db w)) w"
        unfolding wp_bnd [of "verify_cloud_run_callback_token_or_403 a b c d e" for a b c d e]
        by (rule wp_mono [OF wp_verify_now [OF q]])
          (use r True in \<open>auto simp: wp_bnd wp_ret wp_ensure_current callback_holder_def held_by_def
             dest: only_audited_runs split: option.split
             intro: exI [of _ "w_ticks w"] exI [of _ "Suc (w_ticks w)"]\<close>)
      then show ?thesis
        by (simp add: resolve_cloud_run_callback_lease_def
            require_presented_worker_callback_credential_def True Some wp_bnd wp_only_if wp_ret
            wp_db_select Cons first_of_def)
    qed
  qed
qed

text \<open>
  C8: Callbacks. Heartbeats, uploads and completions go through one lookup: it returns a run
  only if the run is running, not completed, leased under this lease to this worker with an
  expiry that has not passed, and the presented token is accepted; otherwise the answer is 401,
  403, 409 or 400 and no run changes.
\<close>

theorem callback_needs_current_lease:
  assumes "quiet w"
  shows "wp (resolve_cloud_run_callback_lease lease_id worker_id callback_token required)
    (\<lambda>r w'. w_db w' = w_db w \<and> r \<in> set (rows (t_cloud_run (w_db w))) \<and>
       (\<exists>n \<ge> w_ticks w. held_by lease_id worker_id (e_clock (w_env w) n) r) \<and>
       (\<exists>n \<ge> w_ticks w. token_accepted (w_env w) r worker_id callback_token
          (e_clock (w_env w) n) required))
    (\<lambda>e w'. (refused e \<or> e = lease_not_current \<or> http_status e = Some 400) \<and>
       t_cloud_run (w_db w') = t_cloud_run (w_db w)) w"
  by (rule wp_mono [OF wp_resolve [OF assms]]) (auto simp: callback_holder_def)

text \<open>The protected run, leased to the worker.\<close>

definition leased_run :: cloud_run where
  "leased_run = protected_run\<lparr>cr_status := ''running'', cr_lease_id := Some ''lease'',
     cr_worker_id := Some ''worker'', cr_lease_expires_at := Some 60000000,
     cr_callback_token_expires_at := Some 60000000\<rparr>"

definition leased_world :: world where
  "leased_world = world_of (sample_db\<lparr>t_cloud_run := [(''run'', leased_run)]\<rparr>)"

theorem callback_needs_current_lease_witness:
  "wp (resolve_cloud_run_callback_lease ''lease'' ''thief'' (Some ''secret'') True)
    (\<lambda>_ _. False)
    (\<lambda>e w'. (refused e \<or> e = lease_not_current \<or> http_status e = Some 400) \<and>
       t_cloud_run (w_db w') = t_cloud_run (w_db leased_world)) leased_world"
proof -
  have nobody: "\<not> held_by ''lease'' ''thief'' t r" if "r \<in> set (rows (t_cloud_run (w_db leased_world)))" for r t
    using that
    by (auto simp: held_by_def leased_world_def world_of_def rows_def leased_run_def)
  have "quiet leased_world" by (simp add: leased_world_def)
  then show ?thesis
    by (rule wp_mono [OF callback_needs_current_lease]) (use nobody in blast)+
qed

section \<open>Claiming\<close>

text \<open>A guarded update that finds no row.\<close>

lemma rows_where_same: "(\<And>x. x \<in> set (rows t) \<Longrightarrow> \<not> P x) \<Longrightarrow> rows_where P f t = t"
  unfolding rows_where_def by (intro map_idI) (force simp: rows_def)

lemma row_by_key:
  "keyed key t \<Longrightarrow> x \<in> set (rows t) \<Longrightarrow> key x = k \<Longrightarrow> map_of t k = Some x"
  using keyed_get [of key t x] by simp

lemma guarded_update:
  assumes "keyed key t"
  shows "rows_where (\<lambda>x. key x = k \<and> Q x) f t =
    (case map_of t k of
       None \<Rightarrow> t
     | Some r \<Rightarrow> if Q r then AList.update k (f r) t else t)"
proof (cases "map_of t k")
  case None
  then show ?thesis
    using row_by_key [OF assms] by (auto intro!: rows_where_same)
next
  case (Some r)
  show ?thesis
  proof (cases "Q r")
    case True
    then show ?thesis using rows_where_one [OF assms Some] Some by simp
  next
    case False
    have "rows_where (\<lambda>x. key x = k \<and> Q x) f t = t"
      using row_by_key [OF assms] Some False by (intro rows_where_same) force
    then show ?thesis using Some False by simp
  qed
qed

lemma guarded_count:
  "keyed key t \<Longrightarrow> length (filter (\<lambda>x. key x = k \<and> Q x) (rows t)) =
     (case map_of t k of None \<Rightarrow> 0 | Some r \<Rightarrow> if Q r then 1 else 0)"
  using count_none [of key t k Q] count_one [of key t k _ Q] by (cases "map_of t k") auto

lemma wp_claim_lease:
  assumes "keyed cr_id (t_cloud_run (w_db (sync_world w)))"
  shows "wp (claim_cloud_run_lease a run_id lease_id expires_at now) Q E w =
    (case map_of (t_cloud_run (w_db (sync_world w))) run_id of
       None \<Rightarrow> Q False (sync_world w)
     | Some r \<Rightarrow>
         if lease_claimable r
         then Q True ((sync_world w)\<lparr>w_db := t_cloud_run_update
           (AList.update run_id (lease_claimed a lease_id expires_at now r)) (w_db (sync_world w))\<rparr>)
         else Q False (sync_world w))"
proof -
  have same: "(sync_world w)\<lparr>w_db := t_cloud_run_update f (w_db (sync_world w))\<rparr> = sync_world w"
    if "f (t_cloud_run (w_db (sync_world w))) = t_cloud_run (w_db (sync_world w))" for f
    using that by simp
  have upd: "t_cloud_run_update f d = t_cloud_run_update g d"
    if "f (t_cloud_run d) = g (t_cloud_run d)" for f g and d :: db
    using that by simp
  show ?thesis
    using assms guarded_update [OF assms, of run_id lease_claimable]
    by (auto simp: claim_cloud_run_lease_def wp_simps guarded_count same cong: upd
        split: option.split)
qed



lemma keyed_update:
  assumes "keyed key t" and "key r = k"
  shows "keyed key (AList.update k r t)"
proof -
  have "list_all (\<lambda>(k, r). key r = k) (AList.update k r t)"
    using assms by (induction t) (auto simp: keyed_def)
  then show ?thesis using assms(1) by (simp add: keyed_def distinct_update)
qed

lemma lease_claimed_simps [simp]:
  "cr_id (lease_claimed a l t now r) = cr_id r"
  "\<not> lease_claimable (lease_claimed a l t now r)"
  by (simp_all add: lease_claimed_def lease_claimable_def)

text \<open>
  C7: One worker per run. Of two claims of the same run, the second after the first has
  committed, at most one succeeds, whatever the workers, leases and times.
\<close>

theorem run_claimed_by_one_worker:
  assumes "quiet w" and "keyed cr_id (t_cloud_run (w_db w))"
  shows "wp (bnd (claim_cloud_run_lease a run_id lease_id expires_at now) (\<lambda>first.
      bnd commit (\<lambda>_.
      bnd (claim_cloud_run_lease a' run_id lease_id' expires_at' now') (\<lambda>second.
      ret (first, second)))))
    (\<lambda>(first, second) _. \<not> (first \<and> second)) (\<lambda>_ _. False) w"
proof -
  have key: "map_of (t_cloud_run (w_db w)) run_id = Some r \<Longrightarrow> cr_id r = run_id" for r
    using keyed_key [OF assms(2)] .
  show ?thesis
    using assms key
    by (auto simp: wp_bnd wp_commit wp_ret wp_claim_lease keyed_update update_conv
        split: option.split)
qed

theorem run_claimed_by_one_worker_witness:
  "wp (bnd (claim_cloud_run_lease sample_claim ''run'' ''lease'' 99 7) (\<lambda>first.
      bnd commit (\<lambda>_.
      bnd (claim_cloud_run_lease (sample_claim\<lparr>lc_worker_id := ''other''\<rparr>) ''run'' ''lease2'' 100 8) (\<lambda>second. ret (first, second)))))
    (\<lambda>(first, second) _. \<not> (first \<and> second)) (\<lambda>_ _. False) sample_world"
  by (rule run_claimed_by_one_worker) (simp_all add: sample_world_def, simp add: world_of_def)

section \<open>Which run a claim takes\<close>

lemma wp_known_queue:
  assumes "name \<in> {''local_db'', ''external_stub'', ''aliyun_mns''}"
  shows "wp (queue_provider_or_400 name) Q E w = Q () w"
  using assms by (auto simp: queue_provider_or_400_def get_cloud_queue_provider_def
      known_queue_providers_def wp_simps)

text \<open>
  The candidates of a claim are at most 25 of the runs of its queue that
  are queued, not cancelled and have attempts left, in order of creation (ties by identifier),
  and every such run that is left out is no older than those taken.
\<close>

theorem candidates_oldest_first:
  "sorted (map candidate_order (lease_candidates a d)) \<and> length (lease_candidates a d) \<le> 25 \<and>
   (\<forall>r \<in> set (lease_candidates a d). r \<in> set (rows (t_cloud_run d)) \<and> lease_claimable r \<and>
      cr_queue_provider r = lc_queue_provider a) \<and>
   (\<forall>r \<in> set (rows (t_cloud_run d)). lease_claimable r \<and> cr_queue_provider r = lc_queue_provider a \<and>
      lc_cloud_run_id a \<in> {None, Some (cr_id r)} \<and> r \<notin> set (lease_candidates a d) \<longrightarrow>
      (\<forall>c \<in> set (lease_candidates a d). candidate_order c \<le> candidate_order r))"
proof -
  define ok where "ok = filter (\<lambda>r. lease_claimable r \<and> cr_queue_provider r = lc_queue_provider a \<and>
    (lc_cloud_run_id a = None \<or> lc_cloud_run_id a = Some (cr_id r))) (rows (t_cloud_run d))"
  have c: "lease_candidates a d = take 25 (sort_key candidate_order ok)"
    by (simp add: lease_candidates_def default_lease_claim_candidate_limit_def ok_def)
  have s: "sorted (map candidate_order (sort_key candidate_order ok))"
    by simp
  have taken: "set (lease_candidates a d) \<subseteq> set ok"
    unfolding c using set_take_subset by fastforce
  have rest: "candidate_order x \<le> candidate_order r"
    if "r \<in> set ok" "r \<notin> set (lease_candidates a d)" "x \<in> set (lease_candidates a d)" for r x
  proof -
    have "sort_key candidate_order ok =
        lease_candidates a d @ drop 25 (sort_key candidate_order ok)"
      unfolding c by (rule append_take_drop_id [symmetric])
    with that(1,2) have "r \<in> set (drop 25 (sort_key candidate_order ok))"
      by (metis Un_iff set_append set_sort)
    moreover have "sorted (map candidate_order
        (lease_candidates a d @ drop 25 (sort_key candidate_order ok)))"
      unfolding c append_take_drop_id by (rule s)
    ultimately show ?thesis
      using that(3) by (auto simp: sorted_append)
  qed
  have "sorted (map candidate_order (lease_candidates a d))"
    unfolding c by (metis s sorted_wrt_take take_map)
  moreover have "length (lease_candidates a d) \<le> 25" by (simp add: c)
  ultimately show ?thesis
    using taken rest by (auto simp: ok_def)
qed

text \<open>The sample run is queued in \<^verbatim>\<open>local_db\<close>; the second run, younger, has a protected token.\<close>

definition second_run :: cloud_run where
  "second_run = sample_run\<lparr>cr_id := ''run2'', cr_created_at := 1\<rparr>"

definition two_runs :: db where
  "two_runs = sample_db\<lparr>t_cloud_run := [(''run2'', second_run), (''run'', sample_run)]\<rparr>"

lemma two_candidates: "lease_candidates sample_claim two_runs = [sample_run, second_run]"
  by (simp add: lease_candidates_def two_runs_def rows_def lease_claimable_def sample_claim_def
      candidate_order_def second_run_def sample_run_def blank_cloud_run_def
      default_lease_claim_candidate_limit_def)

theorem candidates_of_two_runs:
  "sorted (map candidate_order [sample_run, second_run]) \<and>
   lease_claimable sample_run \<and> lease_claimable second_run"
  using candidates_oldest_first [of sample_claim two_runs] by (simp add: two_candidates)

text \<open>
  C12: Head-of-line blocking. A worker without a token that asks for any run of its queue gets
  none if the oldest candidate is protected: the claim is refused with 401 and stops there, and
  the claimable runs behind it are not tried. No run changes.
\<close>

theorem protected_head_blocks_queue:
  assumes "quiet w" and "lease_candidates a (w_db w) = r # rs"
    and "map_of (t_cloud_run (w_db w)) (cr_id r) = Some r" and "cr_callback_token_hash r \<noteq> None"
    and "lc_callback_token a = None" and "lc_cloud_run_id a = None"
    and "\<not> lc_require_callback_token a" and "lc_queue_provider a \<in> {''local_db'', ''external_stub'', ''aliyun_mns''}"
  shows "wp (claim_next_cloud_run_lease a) (\<lambda>_ _. False)
    (\<lambda>e w'. (http_status e = Some 401 \<or> e = IntegrityError) \<and>
       t_cloud_run (w_db w') = t_cloud_run (w_db w)) w"
proof -
  have "wp (reject_worker_authentication reason 401 detail) Q
      (\<lambda>e w'. (http_status e = Some 401 \<or> e = IntegrityError) \<and>
        t_cloud_run (w_db w') = t_cloud_run (w_db w)) (w\<lparr>w_ticks := n\<rparr>)" for Q reason detail n
    using assms(1)
    by (auto simp: reject_worker_authentication_def record_identity_audit_event_def wp_simps
        resolved_request_id_def resolved_audit_time_def next_occurred_at_def
        new_identity_audit_event_def add_identity_audit_event_def identity_audit_defaults_def
        split: option.split)
  note reject = this
  show ?thesis
    using assms(3-7)
    by (auto simp: claim_next_cloud_run_lease_def wp_bnd wp_only_if wp_gets wp_utc_now wp_ret
        wp_known_queue [OF assms(8)] assms(2) wp_db_get verify_cloud_run_callback_token_or_403_def
        intro!: reject)
qed

text \<open>The oldest run protected, an unprotected one behind it.\<close>

definition blocked_world :: world where
  "blocked_world = world_of (sample_db\<lparr>t_cloud_run := [(''run'', protected_run), (''run2'', second_run)]\<rparr>)"

lemma blocked_candidates:
  "lease_candidates sample_claim (w_db blocked_world) = [protected_run, second_run]"
  by (simp add: lease_candidates_def blocked_world_def world_of_def rows_def lease_claimable_def
      sample_claim_def candidate_order_def protected_run_def second_run_def sample_run_def
      blank_cloud_run_def default_lease_claim_candidate_limit_def)

theorem protected_head_blocks_queue_witness:
  "lease_claimable second_run \<and> cr_callback_token_hash second_run = None \<and>
   wp (claim_next_cloud_run_lease sample_claim) (\<lambda>_ _. False)
    (\<lambda>e w'. (http_status e = Some 401 \<or> e = IntegrityError) \<and>
       t_cloud_run (w_db w') = t_cloud_run (w_db blocked_world)) blocked_world"
proof -
  have "wp (claim_next_cloud_run_lease sample_claim) (\<lambda>_ _. False)
    (\<lambda>e w'. (http_status e = Some 401 \<or> e = IntegrityError) \<and>
       t_cloud_run (w_db w') = t_cloud_run (w_db blocked_world)) blocked_world"
    by (rule protected_head_blocks_queue [OF _ blocked_candidates])
      (simp_all add: blocked_world_def, simp_all add: sample_claim_def protected_run_def
        sample_run_def world_of_def)
  then show ?thesis
    by (simp add: second_run_def sample_run_def blank_cloud_run_def lease_claimable_def)
qed

section \<open>A successful claim\<close>

text \<open>The operations on rows the handlers are made of, one rule each.\<close>

lemma wp_set_rows:
  "wp (set_cloud_run r f) Q E w =
     Q (f r) (w\<lparr>w_db := t_cloud_run_update (row_modify (cr_id r) f) (w_db w)\<rparr>)"
  "wp (set_local_task_run l g) Q' E w =
     Q' (g l) (w\<lparr>w_db := t_local_task_run_update (row_modify (lr_id l) g) (w_db w)\<rparr>)"
  by (simp_all add: set_cloud_run_def set_local_task_run_def wp_simps)

lemma wp_local_run:
  "wp (get_cloud_run_local_run_or_404 r) Q E w =
     (case Option.bind (cr_local_run_id r) (map_of (t_local_task_run (w_db w))) of
        None \<Rightarrow> E (http 404 ''Cloud run local run not found'') w
      | Some l \<Rightarrow> Q l w)"
  by (simp add: get_cloud_run_local_run_or_404_def wp_simps split: option.split)

lemmas wp_handler_bnds =
  wp_bnd [of utc_now] wp_bnd [of commit] wp_bnd [of rollback] wp_bnd [of "gets f" for f]
  wp_bnd [of "ret x" for x] wp_bnd [of "only_if c m" for c m] wp_bnd [of "db_get t k" for t k]
  wp_bnd [of "db_refresh t k r" for t k r] wp_bnd [of "prefixed_id p" for p]
  wp_bnd [of "set_cloud_run r f" for r f] wp_bnd [of "set_local_task_run r f" for r f]
  wp_bnd [of "get_cloud_run_local_run_or_404 r" for r]

lemma wp_cloud_run_read:
  assumes "cr_artifact_manifest_uri r = None" and "cr_log_stream_uri r = None"
  shows "wp (cloud_run_read r) Q E w =
    Q (r\<lparr>cr_artifact_manifest_uri := None, cr_log_stream_uri := None,
         cr_external_error := redact_external_error (cr_external_error r), cr_queue_receipt := None,
         cr_artifact_manifest_sha256 := None, cr_artifact_manifest_size_bytes := None,
         cr_artifact_manifest_content_type := None, cr_log_stream_sha256 := None,
         cr_log_stream_size_bytes := None, cr_log_stream_content_type := None,
         cr_callback_token_hash := None, cr_callback_token_expires_at := None,
         cr_callback_token_used_at := None\<rparr>) w"
  using assms by (simp add: cloud_run_read_def wp_simps redact_external_uri_def)

text \<open>What writes no run: the log, for one.\<close>

definition runs_frame :: "world \<Rightarrow> world \<Rightarrow> bool" where
  "runs_frame w w' \<longleftrightarrow> t_cloud_run (w_db w') = t_cloud_run (w_db w) \<and> w_env w' = w_env w"

lemma runs_frame_quiet: "runs_frame w w' \<Longrightarrow> quiet w' = quiet w"
  by (simp add: runs_frame_def quiet_def)

lemma wp_log_frame:
  "wp (append_cloud_run_log r event message level payload t)
     (\<lambda>_ w'. runs_frame w w') (\<lambda>e w'. e = IntegrityError) w"
  by (cases t) (simp_all add: append_cloud_run_log_def wp_simps new_cloud_run_log_entry_def
      add_cloud_run_log_entry_def runs_frame_def)

lemma wp_lease_tail:
  assumes "quiet w" and "\<And>k. map_of (t_cloud_run (w_db w)) k = m k" and "m (cr_id y) = Some x"
    and "cr_lease_id x = Some lease_id"
    and "cr_lease_expires_at x \<noteq> None" and "cr_heartbeat_at x \<noteq> None"
    and "cr_artifact_manifest_uri x = None" and "cr_log_stream_uri x = None"
  shows "wp (bnd (append_cloud_run_log y event message level payload None) (\<lambda>_.
      bnd commit (\<lambda>_. bnd (db_refresh t_cloud_run cr_id y) (\<lambda>y. cloud_run_lease_read y))))
    (\<lambda>l w'. cle_lease_id l = lease_id \<and> (\<forall>k. map_of (t_cloud_run (w_committed w')) k = m k))
    (\<lambda>e w'. e = IntegrityError \<or> http_status e = Some 404) w"
  unfolding wp_bnd [of "append_cloud_run_log a b c d e f" for a b c d e f]
proof (rule wp_mono [OF wp_log_frame], goal_cases)
  case (1 u w')
  then have q: "quiet w'" and m: "map_of (t_cloud_run (w_db w')) k = m k" for k
    using assms(1,2) runs_frame_quiet [of w w'] by (simp_all add: runs_frame_def)
  obtain t t' where x: "cr_lease_expires_at x = Some t" "cr_heartbeat_at x = Some t'"
    using assms(5,6) by blast
  show ?case
    by (simp add: wp_handler_bnds wp_commit wp_db_refresh cloud_run_lease_read_def q m x assms(3,4)
        wp_bnd [of "cloud_run_read r" for r] wp_cloud_run_read [OF assms(7,8)] wp_ret)
qed simp

lemma wp_finish_claim:
  assumes "quiet w" and "map_of (t_cloud_run (w_db w)) (cr_id r) = Some x"
    and "lc_queue_provider a = ''local_db''" and "cr_lease_id x = Some lease_id" "cr_id x = cr_id r"
    and "cr_lease_expires_at x \<noteq> None" and "cr_heartbeat_at x \<noteq> None"
    and "cr_artifact_manifest_uri x = None" and "cr_log_stream_uri x = None"
  shows "wp (finish_lease_claim a lease_id now None r)
    (\<lambda>l w'. cle_lease_id l = lease_id \<and>
       (\<forall>k. map_of (t_cloud_run (w_committed w')) k = map_of (t_cloud_run (w_db w)) k))
    (\<lambda>e w'. e = IntegrityError \<or> http_status e = Some 404) w"
proof -
  have same: "claimed_queue_fields a l now None = (\<lambda>r. r)" for l
    using assms(3) by (auto simp: claimed_queue_fields_def)
  have tail: "wp (bnd (append_cloud_run_log x event message level payload None) (\<lambda>_.
      bnd commit (\<lambda>_. bnd (db_refresh t_cloud_run cr_id x) (\<lambda>y. cloud_run_lease_read y))))
    (\<lambda>l w'. cle_lease_id l = lease_id \<and>
       (\<forall>k. map_of (t_cloud_run (w_committed w')) k = map_of (t_cloud_run (w_db w)) k))
    (\<lambda>e w'. e = IntegrityError \<or> http_status e = Some 404) w1"
    if "quiet w1" "\<And>k. map_of (t_cloud_run (w_db w1)) k = map_of (t_cloud_run (w_db w)) k"
    for w1 event message level payload
    by (rule wp_lease_tail [OF that]) (use assms in simp_all)
  show ?thesis
    unfolding finish_lease_claim_def
    using assms(1,2,5)
    by (auto simp: wp_handler_bnds wp_db_refresh wp_set_rows wp_local_run same http_def
        option.map_ident split: option.split intro!: tail)
qed

text \<open>
  The oldest run is claimed. In a quiet system a claim takes the first candidate if it
  needs no token: the committed row is running for this worker under the new lease, with one
  attempt more and the expiry asked for, and the worker is told this lease; no other run changes.
  (The claim may still fail if the log entry's random identifier is taken.)
\<close>

theorem claim_takes_oldest:
  assumes "quiet w" and "clean w" and "keyed cr_id (t_cloud_run (w_db w))"
    and "lease_candidates a (w_db w) = r # rs"
    and "cr_callback_token_hash r = None" and "cr_artifact_manifest_uri r = None"
    and "cr_log_stream_uri r = None" and "\<not> lc_require_callback_token a"
    and "lc_queue_provider a = ''local_db''"
  shows "wp (claim_next_cloud_run_lease a)
    (\<lambda>lease w'. \<exists>l r'. lease = Some l \<and> map_of (t_cloud_run (w_committed w')) (cr_id r) = Some r' \<and>
       cr_status r' = ''running'' \<and> cr_worker_id r' = Some (lc_worker_id a) \<and>
       cr_lease_id r' = Some (cle_lease_id l) \<and>
       cr_lease_expires_at r' = Some (e_clock (w_env w) (w_ticks w) + seconds (lc_lease_seconds a)) \<and>
       cr_attempt_count r' = cr_attempt_count r + 1 \<and> \<not> lease_claimable r' \<and>
       (\<forall>k. k \<noteq> cr_id r \<longrightarrow> map_of (t_cloud_run (w_committed w')) k = map_of (t_cloud_run (w_db w)) k))
    (\<lambda>e w'. e = IntegrityError \<or> http_status e = Some 404) w"
proof -
  have r: "r \<in> set (rows (t_cloud_run (w_db w)))" "lease_claimable r" "cr_queue_provider r = ''local_db''"
    using arg_cong [where f = set, OF assms(4)] assms(9)
    by (auto simp: lease_candidates_def dest!: equalityD2 [THEN subsetD, of _ _ r] in_set_takeD)
  then have k: "map_of (t_cloud_run (w_db w)) (cr_id r) = Some r"
    using keyed_get [OF assms(3)] by blast
  have w: "w_committed w = w_db w" using assms(2) by (simp add: clean_def)
  let ?lease = "''lease_'' @ take 12 (e_uuid (w_env w) (w_ids w))"
  let ?now = "e_clock (w_env w) (w_ticks w)"
  let ?x = "lease_claimed a ?lease (?now + seconds (lc_lease_seconds a)) ?now r"
  let ?w = "(sync_world (w\<lparr>w_ticks := Suc (w_ticks w), w_ids := Suc (w_ids w)\<rparr>))
    \<lparr>w_db := t_cloud_run_update (AList.update (cr_id r) ?x) (w_db w)\<rparr>"
  have fin: "wp (finish_lease_claim a ?lease ?now None r)
    (\<lambda>l w'. cle_lease_id l = ?lease \<and>
       (\<forall>k. map_of (t_cloud_run (w_committed w')) k = map_of (t_cloud_run (w_db ?w)) k))
    (\<lambda>e w'. e = IntegrityError \<or> http_status e = Some 404) ?w"
    by (rule wp_finish_claim [where x = ?x])
      (use assms in \<open>simp_all add: lease_claimed_def update_conv\<close>)
  have row: "map_of (t_cloud_run (w_db ?w)) k = (if k = cr_id r then Some ?x else map_of (t_cloud_run (w_db w)) k)"
    for k by (simp add: update_conv)
  have x: "cr_status ?x = ''running''" "cr_worker_id ?x = Some (lc_worker_id a)"
    "cr_lease_id ?x = Some ?lease" "cr_attempt_count ?x = cr_attempt_count r + 1"
    "cr_lease_expires_at ?x = Some (?now + seconds (lc_lease_seconds a))"
    by (simp_all add: lease_claimed_def)
  have tail: "wp (bnd (finish_lease_claim a ?lease ?now None r) (\<lambda>l. ret (Some l)))
    (\<lambda>lease w'. \<exists>l r'. lease = Some l \<and> map_of (t_cloud_run (w_committed w')) (cr_id r) = Some r' \<and>
       cr_status r' = ''running'' \<and> cr_worker_id r' = Some (lc_worker_id a) \<and>
       cr_lease_id r' = Some (cle_lease_id l) \<and>
       cr_lease_expires_at r' = Some (e_clock (w_env w) (w_ticks w) + seconds (lc_lease_seconds a)) \<and>
       cr_attempt_count r' = cr_attempt_count r + 1 \<and> \<not> lease_claimable r' \<and>
       (\<forall>k. k \<noteq> cr_id r \<longrightarrow> map_of (t_cloud_run (w_committed w')) k = map_of (t_cloud_run (w_db w)) k))
    (\<lambda>e w'. e = IntegrityError \<or> http_status e = Some 404) ?w"
    unfolding wp_bnd
    by (rule wp_mono [OF fin]) (simp_all only: wp_ret row, use x in auto)
  show ?thesis
    using assms(1,3,5-9) r(2) k tail
    by (simp add: claim_next_cloud_run_lease_def wp_bnd [of "queue_provider_or_400 n" for n]
        wp_handler_bnds
        wp_bnd [of "verify_cloud_run_callback_token_or_403 b c d e f" for b c d e f]
        wp_bnd [of "validated_aliyun_mns_claim_receipt b c" for b c]
        wp_bnd [of "claim_cloud_run_lease b c d e f" for b c d e f]
        wp_only_if wp_gets wp_utc_now wp_ret
        wp_known_queue assms(4) wp_db_get verify_cloud_run_callback_token_or_403_def
        validated_aliyun_mns_claim_receipt_def wp_prefixed_id wp_claim_lease w Let_def)
qed

lemma sample_candidates: "lease_candidates sample_claim (w_db sample_world) = [sample_run]"
  by (simp add: lease_candidates_def sample_defs rows_def lease_claimable_def sample_claim_def
      candidate_order_def default_lease_claim_candidate_limit_def)

theorem claim_takes_oldest_example:
  "wp (claim_next_cloud_run_lease sample_claim)
    (\<lambda>lease w'. \<exists>l r'. lease = Some l \<and> map_of (t_cloud_run (w_committed w')) ''run'' = Some r' \<and>
       cr_status r' = ''running'' \<and> cr_worker_id r' = Some ''worker'' \<and>
       cr_lease_id r' = Some (cle_lease_id l) \<and> cr_attempt_count r' = 1)
    (\<lambda>e w'. e = IntegrityError \<or> http_status e = Some 404) sample_world"
proof -
  have "quiet sample_world" "clean sample_world" "keyed cr_id (t_cloud_run (w_db sample_world))"
    by (simp_all add: sample_world_def, simp_all add: clean_def world_of_def)
  moreover have "cr_callback_token_hash sample_run = None" "cr_artifact_manifest_uri sample_run = None"
    "cr_log_stream_uri sample_run = None" "\<not> lc_require_callback_token sample_claim"
    "lc_queue_provider sample_claim = ''local_db''"
    by (simp_all add: sample_run_def blank_cloud_run_def sample_claim_def)
  ultimately show ?thesis
    by (rule wp_mono [OF claim_takes_oldest [OF _ _ _ sample_candidates]])
      (auto simp: sample_run_def blank_cloud_run_def sample_claim_def)
qed

end
