(* ===== verification/StorageLaws.thy ===== *)
theory StorageLaws
  imports Samples
begin

text \<open>
  The laws of the object store: what was put under a reference is what the reference reads.
\<close>

section \<open>The way into a reference and back\<close>

text \<open>An identifier of letters, figures and underscores survives the way into a URI and out of it.\<close>

definition id_char :: "char \<Rightarrow> bool" where
  "id_char c \<longleftrightarrow> is_alnum c \<or> c = CHR ''_''"

lemma id_char_plain:
  "id_char c \<Longrightarrow> c \<notin> set '':/?#[]@'' \<and> (32::nat) < of_char c"
  by (auto simp: id_char_def is_alnum_def Let_def)

lemma absent_while: "d \<notin> set s \<Longrightarrow> takeWhile (\<lambda>c. c \<noteq> d) s = s \<and> dropWhile (\<lambda>c. c \<noteq> d) s = []"
  by (induction s) auto

lemma urlsplit_local_inline:
  assumes "list_all id_char k"
  shows "urlsplit (local_inline_uri k) = Some \<lparr>url_scheme = ''local-inline'',
    url_netloc = ''cloud-run-objects'', url_path = CHR ''/'' # k, url_query = [], url_fragment = []\<rparr>"
proof -
  have k: "c \<in> set k \<Longrightarrow> c \<notin> set '':/?#[]@'' \<and> (32::nat) < of_char c" for c
    using assms id_char_plain by (auto simp: list_all_iff)
  have clean: "clean_url (local_inline_uri k) = local_inline_uri k"
    using k by (fastforce simp: clean_url_def local_inline_uri_def filter_id_conv)
  have absent: "CHR ''#'' \<notin> set k" "CHR ''?'' \<notin> set k" using k by fastforce+
  show ?thesis
    unfolding urlsplit_def clean
    by (simp add: local_inline_uri_def partition_at_def Let_def is_letter_def is_alnum_def scheme_char_def
        lower_def lower_char_def absent_while [OF absent(1)] absent_while [OF absent(2)])
qed

lemma wp_put_inline:
  assumes "ow_kind x \<in> set artifact_kinds"
    and "map_of (t_cloud_run_stored_object (w_db w)) (e_uuid (w_env w) (w_ids w)) = None"
  shows "wp (put_text_local_inline x)
    (\<lambda>ref w'. w_env w' = w_env w \<and> or_uri ref = local_inline_uri (e_uuid (w_env w) (w_ids w)) \<and>
      or_kind ref = ow_kind x \<and> or_sha256 ref = e_sha256 (w_env w) (ow_content x) \<and>
      or_size_bytes ref = utf8_length (ow_content x) \<and>
      (\<exists>y. map_of (t_cloud_run_stored_object (w_db w')) (e_uuid (w_env w) (w_ids w)) = Some y \<and>
         so_kind y = ow_kind x \<and> so_sha256 y = or_sha256 ref \<and> so_size_bytes y = or_size_bytes ref \<and>
         so_text_content y = ow_content x)) (\<lambda>_ _. False) w"
  using assms
  by (simp add: put_text_local_inline_def validate_artifact_kind_def sha256_hex_def
      new_cloud_run_stored_object_def add_cloud_run_stored_object_def set_cloud_run_stored_object_def
      wp_simps list_ex_iff map_add_def)

lemma wp_read_inline:
  assumes "or_uri ref = local_inline_uri k" and "list_all id_char k" and "k \<noteq> []"
    and "or_kind ref \<in> set artifact_kinds"
    and "map_of (t_cloud_run_stored_object (w_db w)) k = Some y"
    and "so_kind y = or_kind ref" and "so_sha256 y = or_sha256 ref"
    and "so_size_bytes y = or_size_bytes ref"
    and "e_sha256 (w_env w) (so_text_content y) = or_sha256 ref"
    and "utf8_length (so_text_content y) = or_size_bytes ref"
  shows "wp (read_text_local_inline ref) Q E w = Q (so_text_content y) w"
proof -
  obtain c cs where k: "k = c # cs" "c \<noteq> CHR ''/''"
    using assms(2,3) id_char_plain by (cases k) force+
  then have slash: "dropWhile (\<lambda>c. c = CHR ''/'') (CHR ''/'' # c # cs) = c # cs" by simp
  show ?thesis
    using assms k
    by (simp add: read_text_local_inline_def validate_artifact_kind_def sha256_hex_def
        parse_local_inline_object_id_def split_url_def urlsplit_local_inline wp_simps slash
        del: dropWhile.simps)
qed

text \<open>
  Stored texts come back. A text stored in the database under a fresh identifier is read back
  unchanged through the reference that was returned: neither call fails.
\<close>

theorem inline_text_roundtrip:
  assumes "ow_kind x \<in> set artifact_kinds"
    and "e_uuid (w_env w) (w_ids w) \<noteq> []" and "list_all id_char (e_uuid (w_env w) (w_ids w))"
    and "map_of (t_cloud_run_stored_object (w_db w)) (e_uuid (w_env w) (w_ids w)) = None"
  shows "wp (bnd (put_text sv LocalInlineObjectStorage x) (read_text sv LocalInlineObjectStorage))
    (\<lambda>t w'. t = ow_content x) (\<lambda>_ _. False) w"
  unfolding put_text_def read_text_def object_storage_provider.case wp_bnd
  by (rule wp_mono [OF wp_put_inline [OF assms(1,4)]])
    (use assms in \<open>auto simp: wp_read_inline\<close>)

theorem inline_text_roundtrip_example:
  "wp (bnd (put_text sample_services LocalInlineObjectStorage
        (plain_write ''w'' ''run'' ''log'' ''line'' ''text/plain''))
      (read_text sample_services LocalInlineObjectStorage))
    (\<lambda>t w'. t = ''line'') (\<lambda>_ _. False) sample_world"
  using inline_text_roundtrip [of "plain_write ''w'' ''run'' ''log'' ''line'' ''text/plain''" sample_world
    sample_services]
  by (simp add: plain_write_def artifact_kinds_def sample_defs id_char_def is_alnum_def)

end
