(* ===== verification/AccessLaws.thy ===== *)
theory AccessLaws
  imports Samples
begin

text \<open>
  The laws of access: which policies accept the development headers, who a permission admits,
  and what a refusal leaves behind.
\<close>

section \<open>Development authentication\<close>

text \<open>
  Development headers. A policy that can be constructed accepts some credential, and it
  accepts the development headers only in the local and test environments; the policy of an
  environment accepts nothing but the development headers there, and never accepts them in
  staging or production.
\<close>

theorem dev_auth_is_confined:
  "(make_authentication_policy environment credentials = Inr p \<longrightarrow>
      apo_accepted p \<noteq> {} \<and>
      (DEV_AUTH \<in> apo_accepted p \<longrightarrow> apo_environment p \<in> {LOCAL, TEST})) \<and>
   (authentication_policy_for_environment v = Inr q \<longrightarrow>
      apo_accepted q = (if apo_environment q \<in> {LOCAL, TEST} then {DEV_AUTH}
        else {USER_SESSION, WORKSPACE_API_TOKEN}))"
proof -
  have "apo_accepted q = (if apo_environment q \<in> {LOCAL, TEST} then {DEV_AUTH}
      else {USER_SESSION, WORKSPACE_API_TOKEN})"
    if "authentication_policy_for_environment v = Inr q" for q
    using that
    by (auto simp: authentication_policy_for_environment_def make_authentication_policy_def
        credential_of_def List.map_filter_def Let_def split: option.splits if_splits)
  then show ?thesis
    by (auto simp: make_authentication_policy_def Let_def split: option.splits list.splits if_splits)
qed

theorem dev_auth_is_confined_example:
  "DEV_AUTH \<notin> apo_accepted \<lparr>apo_environment = PRODUCTION,
      apo_accepted = {USER_SESSION, WORKSPACE_API_TOKEN}\<rparr> \<and>
   authentication_policy_for_environment (Some '' production '') =
     Inr \<lparr>apo_environment = PRODUCTION, apo_accepted = {USER_SESSION, WORKSPACE_API_TOKEN}\<rparr>"
proof -
  have p: "authentication_policy_for_environment (Some '' production '') =
     Inr \<lparr>apo_environment = PRODUCTION, apo_accepted = {USER_SESSION, WORKSPACE_API_TOKEN}\<rparr>"
    by (simp add: authentication_policy_for_environment_def make_authentication_policy_def strip_def
        is_space_def environment_of_def credential_of_def List.map_filter_def Let_def)
  then show ?thesis using dev_auth_is_confined by fastforce
qed

section \<open>Permissions\<close>

definition permitted :: "auth_context \<Rightarrow> string \<Rightarrow> bool" where
  "permitted c permission \<longleftrightarrow>
     (case map_of permission_roles permission of None \<Rightarrow> False | Some roles \<Rightarrow> has_any_role c roles)"

text \<open>The databases agree but for the two audit tables.\<close>

definition same_but_audit :: "db \<Rightarrow> db \<Rightarrow> bool" where
  "same_but_audit d d' \<longleftrightarrow>
     (\<exists>ls es. d'\<lparr>t_workspace_audit_log := ls, t_identity_audit_event := es\<rparr> =
        d\<lparr>t_workspace_audit_log := ls, t_identity_audit_event := es\<rparr>)"

lemma same_but_audit_refl [simp]: "same_but_audit d d"
  by (auto simp: same_but_audit_def)

lemma same_but_audit_upd [simp]:
  "same_but_audit d (t_workspace_audit_log_update f d') = same_but_audit d d'"
  "same_but_audit d (t_identity_audit_event_update g d') = same_but_audit d d'"
  by (auto simp: same_but_audit_def)

text \<open>The record of a refusal.\<close>

definition refusal_recorded :: "auth_context \<Rightarrow> string \<Rightarrow> string option \<Rightarrow> world \<Rightarrow> bool" where
  "refusal_recorded c operation resource_id w \<longleftrightarrow> w_db w = w_committed w \<and>
     (\<exists>log \<in> set (rows (t_workspace_audit_log (w_committed w))).
        wa_user_id log = ac_user_id c \<and> wa_workspace_id log = ac_workspace_id c \<and>
        wa_operation log = operation \<and> wa_resource_id log = resource_id \<and>
        \<not> wa_success log \<and> wa_status_code log = 403)"

lemma wp_record_denial:
  assumes "quiet w" and "e_auth (w_env w) = Some c"
  shows "wp (record_denial operation resource_type resource_id level)
    (\<lambda>_ w'. same_but_audit (w_committed w) (w_committed w') \<and> refusal_recorded c operation resource_id w')
    (\<lambda>e w'. e = IntegrityError \<and> same_but_audit (w_committed w) (w_committed w')) w"
proof -
  let ?w = "(sync_world (w\<lparr>w_db := w_committed w\<rparr>))\<lparr>w_tokens := Suc (w_tokens w)\<rparr>"
  have "w_tokens (sync_world v) = w_tokens v" for v by (simp add: sync_world_def Let_def)
  then have t: "w_tokens (sync_world (w\<lparr>w_db := w_committed w\<rparr>)) = w_tokens w" by simp
  have w: "quiet ?w" "w_env ?w = w_env w" "w_db ?w = w_committed w" "w_committed ?w = w_committed w"
    using assms(1) by (simp_all add: sync_world_def Let_def quiet_def)
  have commits: "same_but_audit (w_committed w) (w_db v) \<and>
      refusal_recorded c operation resource_id (sync_world (v\<lparr>w_committed := w_db v\<rparr>)) \<and>
      w_committed (sync_world (v\<lparr>w_committed := w_db v\<rparr>)) = w_db v"
    if "w_env v = w_env w" and "w_db v = f (t_workspace_audit_log_update (\<lambda>t. t @ [(i, l)]) (w_committed w))"
      and "f = (\<lambda>d. d) \<or> f = t_identity_audit_event_update g"
      and "wa_operation l = operation" "wa_resource_id l = resource_id" "\<not> wa_success l"
        "wa_status_code l = 403" "wa_user_id l = ac_user_id c" "wa_workspace_id l = ac_workspace_id c"
    for v f g i l
  proof -
    have "quiet v" using assms(1) that(1) by (simp add: quiet_def)
    then show ?thesis
      using that by (auto simp: refusal_recorded_def rows_def)
  qed
  show ?thesis
    unfolding record_denial_def wp_bnd wp_rollback wp_random_token t
  proof (rule wp_mono [OF wp_record_workspace_audit], goal_cases)
    case 1
    show ?case by (simp add: workspace_audit_defaults_def)
  next
    case (2 log w1)
    then have w1: "w_env w1 = w_env w" "w_committed w1 = w_committed w"
      "w_db w1 = t_workspace_audit_log_update (\<lambda>t. t @ [(wa_id log, log)]) (w_committed w)"
      and fields: "wa_operation log = operation" "wa_resource_id log = resource_id" "\<not> wa_success log"
        "wa_status_code log = 403" "wa_user_id log = ac_user_id c" "wa_workspace_id log = ac_workspace_id c"
      using assms(2) by (simp_all add: w workspace_audit_defaults_def str_or_def)
    show ?case
    proof (cases "ac_auth_mode c = ''user_session''")
      case True
      have fin: "same_but_audit (w_committed w) (w_db v) \<and>
          refusal_recorded c operation resource_id (sync_world (v\<lparr>w_committed := w_db v\<rparr>)) \<and>
          w_committed (sync_world (v\<lparr>w_committed := w_db v\<rparr>)) = w_db v"
        if "w_env v = w_env w" and "w_db v = t_identity_audit_event_update g (w_db w1)" for v g
        using commits [of v "t_identity_audit_event_update g" "wa_id log" log g] that w1(3) fields
        by simp
      have m: "wp (record_identity_audit_event i) (\<lambda>_ v. same_but_audit (w_committed w) (w_db v) \<and>
            refusal_recorded c operation resource_id (sync_world (v\<lparr>w_committed := w_db v\<rparr>)) \<and>
            w_committed (sync_world (v\<lparr>w_committed := w_db v\<rparr>)) = w_db v)
          (\<lambda>e w'. e = IntegrityError \<and> same_but_audit (w_committed w) (w_committed w')) w1"
        if "\<not> ia_commit i" for i
        by (rule wp_mono [OF wp_record_identity_audit [OF that]])
          (use fin in \<open>simp add: w1\<close>, simp add: w1)
      show ?thesis
        by (simp add: wp_simps w1 True assms(2), rule wp_mono [OF m])
          (simp_all add: wp_simps identity_audit_defaults_def)
    next
      case False
      then show ?thesis
        using commits [of w1 "\<lambda>d. d" "wa_id log" log] w1 fields assms(2) by (simp add: wp_simps)
    qed
  next
    case (3 e w1)
    then show ?case by (simp add: w)
  qed
qed


text \<open>A viewer may not create tasks.\<close>

definition viewer :: auth_context where
  "viewer = sample_auth\<lparr>ac_roles := {VIEWER}\<rparr>"

definition viewer_world :: world where
  "viewer_world = sample_world\<lparr>w_env := sample_env\<lparr>e_auth := Some viewer\<rparr>\<rparr>"


end
