(* ===== verification/WebRequest.thy ===== *)
theory WebRequest
  imports AuditTrail JsonText
begin

text \<open>
  What the identity services see of an HTTP request and of the application's configuration, and
  the parts of the standard library they call: cookies and headers, \<^verbatim>\<open>hmac.compare_digest\<close>,
  \<^verbatim>\<open>int(text)\<close>, the seconds of a timestamp. The identity provider
  (\<^verbatim>\<open>customer_identity_provider.py\<close>, a protocol class) is a record of functions; each takes the
  number of the call, since two calls may have different answers.
\<close>

section \<open>Requests\<close>

text \<open>
  Header names are in lower case, as Starlette gives them; a header or cookie value is the text
  decoded from latin-1.
\<close>

record http_request =
  hr_method :: string
  hr_path :: string
  hr_headers :: "(string \<times> string) list"
  hr_cookies :: "(string \<times> string) list"

definition header :: "http_request \<Rightarrow> string \<Rightarrow> string option" where
  "header request name = map_of (hr_headers request) name"

definition cookie :: "http_request \<Rightarrow> string \<Rightarrow> string option" where
  "cookie request name = map_of (hr_cookies request) name"

definition cookie_or_empty :: "http_request \<Rightarrow> string \<Rightarrow> string" where
  "cookie_or_empty request name = (case cookie request name of None \<Rightarrow> [] | Some v \<Rightarrow> v)"

section \<open>Digests, numbers and times\<close>

definition is_ascii :: "string \<Rightarrow> bool" where
  "is_ascii s = list_all (\<lambda>c. of_char c < (128::nat)) s"

text \<open>\<^verbatim>\<open>hmac.compare_digest\<close> on two texts, which must be ASCII.\<close>

definition compare_digest :: "string \<Rightarrow> string \<Rightarrow> bool action" where
  "compare_digest a b =
     (if is_ascii a \<and> is_ascii b then ret (a = b) else raise TypeError)"

text \<open>
  \<^verbatim>\<open>int(text)\<close>: blanks around it, a sign, decimal digits with single underscores between them, at
  most 4300 digits. \<open>None\<close> is the \<^verbatim>\<open>ValueError\<close>.
\<close>

fun digit_groups :: "string \<Rightarrow> bool" where
  "digit_groups [] = False"
| "digit_groups [c] = is_digit c"
| "digit_groups (c # d # cs) =
     (is_digit c \<and> (if d = CHR ''_'' then digit_groups cs else digit_groups (d # cs)))"

definition py_int :: "string \<Rightarrow> int option" where
  "py_int text =
     (let s = strip text;
          negative = starts_with ''-'' s;
          body = (if starts_with ''-'' s \<or> starts_with ''+'' s then drop 1 s else s);
          digits = filter is_digit body
      in if digit_groups body \<and> length digits \<le> 4300
         then Some (if negative then - digits_value digits else digits_value digits)
         else None)"

text \<open>\<^verbatim>\<open>int(t.timestamp())\<close>: whole seconds, towards zero.\<close>

definition epoch_seconds :: "int \<Rightarrow> int" where
  "epoch_seconds t = (if t < 0 then - ((- t) div 1000000) else t div 1000000)"

section \<open>The identity provider\<close>

text \<open>
  The result of a call: the answer, \<^verbatim>\<open>CustomerIdentityProviderUnavailable\<close> (and its subclasses), or
  another \<^verbatim>\<open>CustomerIdentityProviderError\<close>.
\<close>

datatype 'a answer = Answer 'a | Unavailable | Provider_Error

record oidc_discovery =
  od_issuer :: string
  od_authorization_endpoint :: string
  od_token_endpoint :: string
  od_end_session_endpoint :: "string option"

record oidc_authorization_request =
  oa_client_id :: string
  oa_redirect_uri :: string
  oa_state :: string
  oa_nonce :: string
  oa_code_challenge :: string
  oa_prompt :: "string option"
  oa_max_age_seconds :: "int option"
  oa_acr_values :: "string option"
  oa_authentication_requested_at :: "int option"

record oidc_token_response =
  ot_id_token :: string
  ot_access_token :: string
  ot_logout_hint :: "string option"

record validated_external_identity =
  ve_issuer :: string
  ve_subject :: string
  ve_email :: "string option"
  ve_nonce :: string
  ve_authenticated_at :: "int option"
  ve_authentication_context :: "string option"

record customer_identity_provider =
  ip_client_id :: string
  ip_discover :: "nat \<Rightarrow> oidc_discovery answer"
  ip_authorization_url :: "nat \<Rightarrow> oidc_authorization_request \<Rightarrow> string answer"
  ip_exchange_code :: "nat \<Rightarrow> string \<Rightarrow> string \<Rightarrow> string \<Rightarrow> oidc_token_response answer"
  ip_validate_id_token :: "nat \<Rightarrow> string \<Rightarrow> string \<Rightarrow> validated_external_identity answer"
  ip_end_session_url :: "nat \<Rightarrow> string \<Rightarrow> string option \<Rightarrow> string option answer"
  ip_identity_status :: "nat \<Rightarrow> string \<Rightarrow> string \<Rightarrow> string answer"

definition ask_provider :: "(nat \<Rightarrow> 'a answer) \<Rightarrow> 'a action" where
  "ask_provider f = bnd (gets w_calls) (\<lambda>n.
                    bnd (modify (\<lambda>w. w\<lparr>w_calls := Suc n\<rparr>)) (\<lambda>_.
                    case f n of
       Answer x \<Rightarrow> ret x
     | Unavailable \<Rightarrow> raise CustomerIdentityProviderUnavailable
     | Provider_Error \<Rightarrow> raise CustomerIdentityProviderError))"

fun is_provider_error :: "exn \<Rightarrow> bool" where
  "is_provider_error CustomerIdentityProviderUnavailable = True"
| "is_provider_error CustomerIdentityProviderError = True"
| "is_provider_error _ = False"

section \<open>Answers of the routes\<close>

text \<open>
  What a route returns: the status, the error code and the target of a redirect, the session
  cookie it sets (by identifier and secret), whether it deletes the cookie, and the correlation
  header.
\<close>

record response =
  re_status :: int
  re_error :: "string option"
  re_location :: "string option"
  re_set_cookies :: "(string \<times> string) list"
  re_deleted_cookies :: "string list"
  re_correlation_id :: "string option"

definition plain_response :: "int \<Rightarrow> response" where
  "plain_response status =
     \<lparr>re_status = status, re_error = None, re_location = None, re_set_cookies = [],
      re_deleted_cookies = [], re_correlation_id = None\<rparr>"

definition redirect_response :: "string \<Rightarrow> response" where
  "redirect_response location = (plain_response 303)\<lparr>re_location := Some location\<rparr>"

section \<open>Request state\<close>

definition set_request :: "(request_state \<Rightarrow> request_state) \<Rightarrow> unit action" where
  "set_request f = modify (\<lambda>w. w\<lparr>w_request := f (w_request w)\<rparr>)"

text \<open>
  \<^verbatim>\<open>request.state.authenticated_device_session\<close>: the attributes of the object are those of its row,
  read again after a commit.
\<close>

definition authenticated_session :: "device_session option action" where
  "authenticated_session = bnd (gets (\<lambda>w. rq_device_session (w_request w))) (\<lambda>found.
                           case found of
       None \<Rightarrow> ret None
     | Some s \<Rightarrow> bnd (db_refresh t_device_session ds_id s) (\<lambda>current.
                ret (Some current)))"

text \<open>\<^verbatim>\<open>with auth_context_scope(context)\<close>: the context holds while the handler runs.\<close>

definition set_auth :: "auth_context option \<Rightarrow> world \<Rightarrow> world" where
  "set_auth context w = w\<lparr>w_env := (w_env w)\<lparr>e_auth := context\<rparr>\<rparr>"

definition auth_context_scope :: "auth_context option \<Rightarrow> 'a action \<Rightarrow> 'a action" where
  "auth_context_scope context m w =
     (case m (set_auth context w) of (r, w') \<Rightarrow> (r, set_auth (e_auth (w_env w)) w'))"

section \<open>Rules\<close>

lemma wp_compare_digest [wp_simps]:
  "wp (compare_digest a b) Q E w =
     (if is_ascii a \<and> is_ascii b then Q (a = b) w else E TypeError w)"
  by (simp add: compare_digest_def wp_simps)

lemma wp_ask_provider [wp_simps]:
  "wp (ask_provider f) Q E w =
     (case f (w_calls w) of
        Answer x \<Rightarrow> Q x (w\<lparr>w_calls := Suc (w_calls w)\<rparr>)
      | Unavailable \<Rightarrow> E CustomerIdentityProviderUnavailable (w\<lparr>w_calls := Suc (w_calls w)\<rparr>)
      | Provider_Error \<Rightarrow> E CustomerIdentityProviderError (w\<lparr>w_calls := Suc (w_calls w)\<rparr>))"
  by (simp add: ask_provider_def wp_simps split: answer.split)

lemma wp_set_request [wp_simps]:
  "wp (set_request f) Q E w = Q () (w\<lparr>w_request := f (w_request w)\<rparr>)"
  by (simp add: set_request_def wp_simps)

lemma wp_authenticated_session [wp_simps]:
  "wp authenticated_session Q E w =
     (case rq_device_session (w_request w) of
        None \<Rightarrow> Q None w
      | Some s \<Rightarrow>
          (case map_of (t_device_session (w_db w)) (ds_id s) of
             None \<Rightarrow> E InvalidRequestError w
           | Some current \<Rightarrow> Q (Some current) w))"
  by (simp add: authenticated_session_def wp_simps split: option.split)

lemma wp_auth_context_scope [wp_simps]:
  "wp (auth_context_scope context m) Q E w =
     wp m (\<lambda>x w'. Q x (set_auth (e_auth (w_env w)) w')) (\<lambda>e w'. E e (set_auth (e_auth (w_env w)) w'))
       (set_auth context w)"
  by (simp add: wp_def auth_context_scope_def split: prod.split sum.split)

lemma set_auth_simps [simp]:
  "w_db (set_auth c w) = w_db w" "w_committed (set_auth c w) = w_committed w"
  "w_request (set_auth c w) = w_request w" "quiet (set_auth c w) = quiet w"
  "good G (set_auth c w) = good G w" "safe G e (set_auth c w) = safe G e w"
  "e_auth (w_env (set_auth c w)) = c" "e_others (w_env (set_auth c w)) = e_others (w_env w)"
  by (simp_all add: set_auth_def quiet_def good_def safe_def)

lemma keeps_auth_context_scope [keeps_intros]:
  "keeps (good G) (safe G) m \<Longrightarrow> keeps (good G) (safe G) (auth_context_scope context m)"
  by (simp add: keeps_def wp_simps)

lemma keeps_request [keeps_intros]:
  "keeps (good G) (\<lambda>_. good G) (compare_digest a b)" "keeps (good G) (\<lambda>_. good G) (set_request f)"
  "keeps (good G) (\<lambda>_. good G) authenticated_session"
  "keeps (good G) (\<lambda>_. good G) (ask_provider p)"
  by (auto intro!: keepsI simp: wp_simps split: answer.split option.split)

lemma keeps_request_safe [keeps_intros]:
  "keeps (good G) (safe G) (compare_digest a b)" "keeps (good G) (safe G) (set_request f)"
  "keeps (good G) (safe G) authenticated_session" "keeps (good G) (safe G) (ask_provider p)"
  by (rule keeps_safe_calm, rule keeps_request)+

text \<open>The decimal text of a number is read back.\<close>

lemma digit_groups_digits: "s \<noteq> [] \<Longrightarrow> list_all is_digit s \<Longrightarrow> digit_groups s"
  by (induction s rule: digit_groups.induct) (auto simp: is_digit_def)

lemma strip_digits: "list_all (\<lambda>c. \<not> is_space c) s \<Longrightarrow> strip s = s"
proof -
  assume s: "list_all (\<lambda>c. \<not> is_space c) s"
  have "dropWhile is_space t = t" if "list_all (\<lambda>c. \<not> is_space c) t" for t
    using that by (cases t) simp_all
  moreover have "list_all (\<lambda>c. \<not> is_space c) (rev s)" using s by (simp add: list_all_iff)
  ultimately show "strip s = s" using s by (simp add: strip_def)
qed

lemma digit_no_space: "is_digit c \<Longrightarrow> \<not> is_space c"
  by (simp add: is_digit_def is_space_def Let_def)

lemma show_int_no_space: "list_all (\<lambda>c. \<not> is_space c) (show_int n)"
  using nat_digits_digits [of "nat n"] nat_digits_digits [of "nat (- n)"]
  by (simp add: show_int_def list_all_iff digit_no_space) (simp add: is_space_def)

lemma py_int_show_int:
  assumes "length (show_int n) \<le> 4300"
  shows "py_int (show_int n) = Some n"
proof -
  have digits: "digit_groups (nat_digits m)" "filter is_digit (nat_digits m) = nat_digits m" for m
    using nat_digits_digits [of m] by (auto intro: digit_groups_digits simp: list_all_iff filter_id_conv)
  have strip: "strip (show_int n) = show_int n" by (rule strip_digits [OF show_int_no_space])
  obtain d ds where d: "nat_digits (nat n) = d # ds" "is_digit d"
    using nat_digits_head [of "nat n"] by blast
  then have "d \<noteq> CHR ''-''" "d \<noteq> CHR ''+''" by (auto simp: is_digit_def)
  then show ?thesis
    using assms d(1) digits [of "nat n"] digits [of "nat (- n)"] nat_digits_value [of "nat n"]
      nat_digits_value [of "nat (- n)"] strip
    by (auto simp: py_int_def show_int_def Let_def split: if_splits)
qed

end
