(* ===== verification/DeviceSessions.thy ===== *)
theory DeviceSessions
  imports WebRequest
begin

text \<open>
  Device sessions: the credential of the session cookie (\<^verbatim>\<open>user_session_credentials.py\<close>), the list of
  a user's sessions and their revocation (\<^verbatim>\<open>identity_device_sessions.py\<close>), recent authentication
  (\<^verbatim>\<open>recent_authentication.py\<close>) and the continuation of a logout at the provider
  (\<^verbatim>\<open>provider_logout_continuations.py\<close>).
\<close>

section \<open>Credentials\<close>

definition USER_SESSION_IDLE_SECONDS :: int where
  "USER_SESSION_IDLE_SECONDS = 30 * 24 * 60 * 60"

definition USER_SESSION_ROTATION_SECONDS :: int where
  "USER_SESSION_ROTATION_SECONDS = 24 * 60 * 60"

definition USER_SESSION_PREVIOUS_SECRET_SECONDS :: int where
  "USER_SESSION_PREVIOUS_SECRET_SECONDS = 2 * 60"

definition hash_session_secret :: "string \<Rightarrow> string action" where
  "hash_session_secret value = gets (\<lambda>w. e_sha256 (w_env w) value)"

definition reject_credential :: "string \<Rightarrow> string option \<Rightarrow> 'a action" where
  "reject_credential reason_code correlation_id =
     raise (UserSessionCredentialRejected reason_code correlation_id)"

record resolved_user_session_credential =
  rc_device_session :: device_session
  rc_presented_secret_hash :: string
  rc_uses_current_secret :: bool

text \<open>
  The audit event of a refused credential, under a fresh correlation identifier. Its commit also
  commits the change of the session's row.
\<close>

definition record_credential_event :: "string \<Rightarrow> string \<Rightarrow> device_session \<Rightarrow> string \<Rightarrow> unit action" where
  "record_credential_event event_type reason_code device_session correlation_id = bnd (record_identity_audit_event
       ((identity_audit_defaults event_type ''failure'' reason_code correlation_id)
        \<lparr>ia_user_id := Some (ds_user_id device_session),
         ia_device_session_id := Some (ds_id device_session)\<rparr>)) (\<lambda>_.
                                                                                  ret ())"

definition check_device_session ::
  "device_session \<Rightarrow> string \<Rightarrow> int \<Rightarrow> resolved_user_session_credential action" where
  "check_device_session device_session presented_secret_hash now =
     (let uses_current_secret = (ds_secret_hash device_session = presented_secret_hash);
          uses_previous_secret = (ds_previous_secret_hash device_session = Some presented_secret_hash)
      in
      if ds_status device_session = ''revoked'' then
        bnd (only_if (\<not> uses_current_secret \<and> \<not> uses_previous_secret)
            (reject_credential ''invalid_session_credential'' None)) (\<lambda>_.
        bnd random_token (\<lambda>correlation_id.
        bnd (record_credential_event ''session_credential_replay'' ''revoked_session_reuse''
            device_session correlation_id) (\<lambda>_.
        reject_credential ''invalid_session_credential'' (Some correlation_id))))
      else if ds_status device_session \<noteq> ''active'' then
        reject_credential ''invalid_session_credential'' None
      else if ds_idle_expires_at device_session \<le> now then
        bnd random_token (\<lambda>correlation_id.
        bnd (set_device_session device_session
            (\<lambda>s. s\<lparr>ds_status := ''expired'', ds_updated_at := now\<rparr>)) (\<lambda>expired.
        bnd (record_credential_event ''session_expired'' ''idle_timeout'' expired correlation_id) (\<lambda>_.
        reject_credential ''idle_timeout'' (Some correlation_id))))
      else if uses_previous_secret \<and>
          (case ds_previous_secret_valid_until device_session of
             None \<Rightarrow> True | Some valid_until \<Rightarrow> valid_until < now) then
        bnd random_token (\<lambda>correlation_id.
        bnd (set_device_session device_session
            (\<lambda>s. s\<lparr>ds_status := ''revoked'', ds_revoked_at := Some now, ds_updated_at := now\<rparr>)) (\<lambda>revoked.
        bnd (record_credential_event ''session_credential_replay'' ''suspected_replay''
            revoked correlation_id) (\<lambda>_.
        reject_credential ''suspected_replay'' (Some correlation_id))))
      else if \<not> uses_current_secret \<and> \<not> uses_previous_secret then
        reject_credential ''invalid_session_credential'' None
      else
        ret \<lparr>rc_device_session = device_session,
             rc_presented_secret_hash = presented_secret_hash,
             rc_uses_current_secret = uses_current_secret\<rparr>)"

definition resolve_user_session_credential ::
  "string \<Rightarrow> int \<Rightarrow> resolved_user_session_credential action" where
  "resolve_user_session_credential cookie_value now =
     (case partition_at (CHR ''.'') cookie_value of (session_id, separator, session_secret) \<Rightarrow>
        bnd (only_if (\<not> separator \<or> session_id = [] \<or> session_secret = [])
            (reject_credential ''invalid_session_credential'' None)) (\<lambda>_.
        bnd (db_get t_device_session session_id) (\<lambda>found.
        case found of
            None \<Rightarrow> reject_credential ''invalid_session_credential'' None
          | Some device_session \<Rightarrow>
              bnd (hash_session_secret session_secret) (\<lambda>presented_secret_hash.
              check_device_session device_session presented_secret_hash now))))"

section \<open>The sessions of a user\<close>

definition coarse_browser :: "string \<Rightarrow> string" where
  "coarse_browser normalized =
     (if is_infix ''edg/'' normalized then ''Edge''
      else if is_infix ''firefox/'' normalized \<or> is_infix ''fxios/'' normalized then ''Firefox''
      else if is_infix ''chrome/'' normalized \<or> is_infix ''crios/'' normalized then ''Chrome''
      else if is_infix ''safari/'' normalized then ''Safari''
      else ''Unknown browser'')"

definition coarse_device :: "string \<Rightarrow> string" where
  "coarse_device normalized =
     (if is_infix ''android'' normalized then ''Android''
      else if is_infix ''iphone'' normalized \<or> is_infix ''ipad'' normalized then ''iOS''
      else if is_infix ''windows'' normalized then ''Windows''
      else if is_infix ''macintosh'' normalized \<or> is_infix ''mac os x'' normalized then ''macOS''
      else if is_infix ''linux'' normalized then ''Linux''
      else ''Unknown device'')"

text \<open>
  \<^verbatim>\<open>str.casefold\<close>: the sharp s becomes a double s; the micro sign, whose folding is a Greek letter
  outside this character set, stands for that letter.
\<close>

definition casefold :: "string \<Rightarrow> string" where
  "casefold s = concat (map (\<lambda>c. if of_char c = (223::nat) then ''ss'' else [lower_char c]) s)"

definition coarse_device_description :: "string option \<Rightarrow> string" where
  "coarse_device_description user_agent =
     (let text = str_or user_agent [] in
      if text = [] then ''Unknown browser on Unknown device''
      else coarse_browser (casefold text) @ '' on '' @ coarse_device (casefold text))"

record device_session_read =
  sr_id :: string
  sr_device_description :: string
  sr_created_at :: int
  sr_last_seen_at :: int
  sr_status :: string
  sr_is_current :: bool

definition session_open :: "int \<Rightarrow> device_session \<Rightarrow> bool" where
  "session_open now s \<longleftrightarrow> ds_status s = ''active'' \<and> now < ds_idle_expires_at s"

text \<open>Newest first; \<^verbatim>\<open>sort_key\<close> puts the smallest key first and keeps the order of equal keys.\<close>

definition newest_first :: "device_session list \<Rightarrow> device_session list" where
  "newest_first ss = rev (sort_key (\<lambda>s. (ds_created_at s, ds_id s)) ss)"

definition active_device_sessions ::
  "string \<Rightarrow> string \<Rightarrow> int \<Rightarrow> device_session_read list action" where
  "active_device_sessions user_id current_device_session_id now = bnd (db_select t_device_session
       (\<lambda>s. ds_user_id s = user_id \<and> session_open now s)) (\<lambda>device_sessions.
                                                                  ret (map (\<lambda>s. \<lparr>sr_id = ds_id s, sr_device_description = ds_device_description s,
                    sr_created_at = ds_created_at s, sr_last_seen_at = ds_last_seen_at s,
                    sr_status = ds_status s,
                    sr_is_current = (ds_id s = current_device_session_id)\<rparr>)
            (newest_first device_sessions)))"

definition session_revoked :: "int \<Rightarrow> device_session \<Rightarrow> device_session" where
  "session_revoked now s =
     s\<lparr>ds_status := ''revoked'', ds_revoked_at := Some now, ds_updated_at := now\<rparr>"

definition revoke_active_device_session :: "string \<Rightarrow> string \<Rightarrow> int \<Rightarrow> bool action" where
  "revoke_active_device_session user_id device_session_id now = bnd sync (\<lambda>_.
                                                                bnd (db_update_where t_device_session t_device_session_update
       (\<lambda>s. ds_id s = device_session_id \<and> ds_user_id s = user_id \<and> session_open now s)
       (session_revoked now)) (\<lambda>n.
                                                                ret (n = 1)))"

definition revoke_other_active_device_sessions ::
  "string \<Rightarrow> string \<Rightarrow> int \<Rightarrow> string option \<Rightarrow> nat action" where
  "revoke_other_active_device_sessions user_id current_device_session_id now failure_mode = bnd sync (\<lambda>_.
                                                                                            bnd (db_update_where t_device_session t_device_session_update
       (\<lambda>s. ds_user_id s = user_id \<and> ds_id s \<noteq> current_device_session_id \<and> session_open now s)
       (session_revoked now)) (\<lambda>n.
                                                                                            bnd (only_if (failure_mode = Some ''database'')
       (raise (SQLAlchemyError ''injected_device_session_revocation_failure''))) (\<lambda>_.
                                                                                            bnd (only_if (failure_mode = Some ''operation'') (raise DeviceSessionRevocationOperationError)) (\<lambda>_.
                                                                                            ret n))))"

definition is_idle_expired :: "device_session \<Rightarrow> int \<Rightarrow> bool" where
  "is_idle_expired s now \<longleftrightarrow> ds_idle_expires_at s \<le> now"

section \<open>Recent authentication\<close>

definition RECENT_AUTHENTICATION_TTL_SECONDS :: int where
  "RECENT_AUTHENTICATION_TTL_SECONDS = 15 * 60"

definition recently_authenticated :: "device_session option \<Rightarrow> int \<Rightarrow> bool" where
  "recently_authenticated device_session now \<longleftrightarrow>
     (case Option.bind device_session ds_recent_authenticated_at of
        None \<Rightarrow> False
      | Some t \<Rightarrow> now < t + seconds RECENT_AUTHENTICATION_TTL_SECONDS)"

definition require_recent_authentication :: "string \<Rightarrow> string option \<Rightarrow> unit action" where
  "require_recent_authentication reason_code correlation_id = bnd get_current_auth_context (\<lambda>context.
                                                              case context of
       None \<Rightarrow> ret ()
     | Some auth \<Rightarrow>
         if ac_auth_mode auth \<noteq> ''user_session'' then ret ()
         else bnd authenticated_session (\<lambda>device_session.
              bnd utc_now (\<lambda>now.
              if recently_authenticated device_session now then ret ()
           else bnd (case Option.bind correlation_id (\<lambda>c. if c = [] then None else Some c) of
                  Some c \<Rightarrow> ret c
                | None \<Rightarrow> random_token) (\<lambda>resolved_correlation_id.
                bnd (record_identity_audit_event
               ((identity_audit_defaults ''recent_authentication_required'' ''failure''
                   reason_code resolved_correlation_id)
                \<lparr>ia_user_id := Some (ac_user_id auth),
                 ia_device_session_id := map_option ds_id device_session\<rparr>)) (\<lambda>_.
                raise (HTTPException 403 (JStr ''reauthentication_required'')
               (Some resolved_correlation_id)))))))"

section \<open>Continuations of a logout\<close>

definition replace_provider_logout_continuation ::
  "string \<Rightarrow> string option \<Rightarrow> int \<Rightarrow> unit action" where
  "replace_provider_logout_continuation device_session_id sealed_provider_hint now = bnd sync (\<lambda>_.
                                                                                     bnd (db_update_where t_provider_logout_continuation t_provider_logout_continuation_update
       (\<lambda>c. plc_device_session_id c = device_session_id \<and> plc_status c = ''available'')
       (\<lambda>c. c\<lparr>plc_sealed_provider_hint := None, plc_status := ''superseded'',
              plc_updated_at := now\<rparr>)) (\<lambda>_.
                                                                                     case sealed_provider_hint of
       None \<Rightarrow> ret ()
     | Some hint \<Rightarrow>
         bnd (new_provider_logout_continuation (\<lambda>c. c\<lparr>
             plc_device_session_id := device_session_id,
             plc_sealed_provider_hint := Some hint,
             plc_created_at := now,
             plc_updated_at := now\<rparr>)) (\<lambda>continuation.
         add_provider_logout_continuation continuation)))"

end
