(* ===== verification/BrowserProtection.thy ===== *)
theory BrowserProtection
  imports DeviceSessions
begin

text \<open>
  Protection of requests that carry the session cookie against forgery
  (\<^verbatim>\<open>browser_request_protection.py\<close>): the origin check and the signed CSRF token.
\<close>

section \<open>Tokens\<close>

definition CSRF_TOKEN_TTL_SECONDS :: int where
  "CSRF_TOKEN_TTL_SECONDS = 60 * 60"

definition unsafe_http_methods :: "string list" where
  "unsafe_http_methods = [''POST'', ''PUT'', ''PATCH'', ''DELETE'']"

definition upper :: "string \<Rightarrow> string" where
  "upper s = map (\<lambda>c. let n = (of_char c :: nat) in if 97 \<le> n \<and> n \<le> 122 then char_of (n - 32) else c) s"

definition csrf_payload :: "string \<Rightarrow> int \<Rightarrow> string \<Rightarrow> string" where
  "csrf_payload device_session_id expires_epoch nonce =
     device_session_id @ '':'' @ show_int expires_epoch @ '':'' @ nonce"

definition csrf_signature :: "string \<Rightarrow> string \<Rightarrow> string action" where
  "csrf_signature secret_hash payload = gets (\<lambda>w. e_hmac (w_env w) secret_hash payload)"

definition authenticated_device_session :: "device_session action" where
  "authenticated_device_session = bnd authenticated_session (\<lambda>found.
                                  case found of
       None \<Rightarrow> raise (http 401 ''User Session is not valid'')
     | Some device_session \<Rightarrow> ret device_session)"

definition issue_csrf_token :: "int \<Rightarrow> (string \<times> int) action" where
  "issue_csrf_token now = bnd authenticated_device_session (\<lambda>device_session.
                          let expires_at = now + seconds CSRF_TOKEN_TTL_SECONDS in
                          let expires_epoch = epoch_seconds expires_at in
                          bnd random_token (\<lambda>nonce.
                          bnd (csrf_signature (ds_secret_hash device_session)
       (csrf_payload (ds_id device_session) expires_epoch nonce)) (\<lambda>signature.
                          ret (''v1.'' @ show_int expires_epoch @ ''.'' @ nonce @ ''.'' @ signature, expires_at))))"

section \<open>Enforcement\<close>

definition reject_browser_request :: "string \<Rightarrow> string \<Rightarrow> device_session \<Rightarrow> 'a action" where
  "reject_browser_request event_type reason_code device_session = bnd random_token (\<lambda>correlation_id.
                                                                  bnd (record_identity_audit_event
       ((identity_audit_defaults event_type ''failure'' reason_code correlation_id)
        \<lparr>ia_user_id := Some (ds_user_id device_session),
         ia_device_session_id := Some (ds_id device_session)\<rparr>)) (\<lambda>_.
                                                                  raise (HTTPException 403 (JStr reason_code) (Some correlation_id))))"

text \<open>The parts of a token: version, expiry, nonce and signature, when it has that form.\<close>

definition parse_csrf_token :: "string \<Rightarrow> (int \<times> string \<times> string) option" where
  "parse_csrf_token token =
     (case split_on (CHR ''.'') token of
        [version, expires, nonce, signature] \<Rightarrow>
          if version \<noteq> ''v1'' then None
          else (case py_int expires of
                  None \<Rightarrow> None
                | Some expires_epoch \<Rightarrow>
                    if nonce = [] \<or> signature = [] then None
                    else Some (expires_epoch, nonce, signature))
      | _ \<Rightarrow> None)"

definition check_origin :: "string \<Rightarrow> http_request \<Rightarrow> device_session \<Rightarrow> unit action" where
  "check_origin public_origin request device_session =
     (case header request ''origin'' of
        None \<Rightarrow> reject_browser_request ''origin_rejected'' ''origin_required'' device_session
      | Some presented_origin \<Rightarrow>
          bnd (compare_digest presented_origin public_origin) (\<lambda>same.
          only_if (\<not> same)
              (reject_browser_request ''origin_rejected'' ''origin_mismatch'' device_session)))"

definition previous_signature_matches ::
  "device_session \<Rightarrow> int \<Rightarrow> string \<Rightarrow> string \<Rightarrow> bool action" where
  "previous_signature_matches device_session now presented payload =
     (case (ds_previous_secret_hash device_session, ds_previous_secret_valid_until device_session) of
        (Some previous, Some valid_until) \<Rightarrow>
          if now \<le> valid_until
          then bnd (csrf_signature previous payload) (\<lambda>expected.
               compare_digest presented expected)
          else ret False
      | _ \<Rightarrow> ret False)"

definition check_csrf_token :: "int \<Rightarrow> device_session \<Rightarrow> int \<times> string \<times> string \<Rightarrow> unit action" where
  "check_csrf_token now device_session parts =
     (case parts of (expires_epoch, nonce, presented_signature) \<Rightarrow> (let payload = csrf_payload (ds_id device_session) expires_epoch nonce in
                                                                  bnd (csrf_signature (ds_secret_hash device_session) payload) (\<lambda>expected.
                                                                  bnd (compare_digest presented_signature expected) (\<lambda>current.
                                                                  bnd (previous_signature_matches device_session now presented_signature payload) (\<lambda>previous.
                                                                  bnd (only_if (\<not> current \<and> \<not> previous)
          (reject_browser_request ''csrf_rejected'' ''csrf_token_mismatch'' device_session)) (\<lambda>_.
                                                                  only_if (expires_epoch \<le> epoch_seconds now)
          (reject_browser_request ''csrf_rejected'' ''csrf_token_expired'' device_session)))))))"

definition enforce_cookie_request_protection ::
  "string \<Rightarrow> http_request \<Rightarrow> int \<Rightarrow> unit action" where
  "enforce_cookie_request_protection public_origin request now =
     (if upper (hr_method request) \<notin> set unsafe_http_methods then ret ()
      else bnd authenticated_device_session (\<lambda>device_session.
           bnd (check_origin public_origin request device_session) (\<lambda>_.
           let token = (case header request ''x-csrf-token'' of None \<Rightarrow> [] | Some t \<Rightarrow> t) in
           if token = []
        then reject_browser_request ''csrf_rejected'' ''csrf_token_required'' device_session
        else
          (case parse_csrf_token token of
             None \<Rightarrow> reject_browser_request ''csrf_rejected'' ''csrf_token_malformed'' device_session
           | Some parts \<Rightarrow> check_csrf_token now device_session parts))))"

end
