(* ===== verification/IdentityRollout.thy ===== *)
theory IdentityRollout
  imports DeviceSessions
begin

text \<open>
  The stages of the identity rollout and the security rollback (\<^verbatim>\<open>identity_rollout.py\<close>).
\<close>

section \<open>Stages and gates\<close>

datatype identity_rollout_stage =
    STAGE_DISABLED
  | CIAM_TEST_TENANT
  | PRODUCTION_INTERNAL
  | EXISTING_BETA
  | PUBLIC_STAGE

fun stage_value :: "identity_rollout_stage \<Rightarrow> string" where
  "stage_value STAGE_DISABLED = ''disabled''"
| "stage_value CIAM_TEST_TENANT = ''ciam_test_tenant''"
| "stage_value PRODUCTION_INTERNAL = ''production_internal''"
| "stage_value EXISTING_BETA = ''existing_beta''"
| "stage_value PUBLIC_STAGE = ''public''"

definition stage_of :: "string \<Rightarrow> identity_rollout_stage option" where
  "stage_of v = map_of (map (\<lambda>s. (stage_value s, s))
     [STAGE_DISABLED, CIAM_TEST_TENANT, PRODUCTION_INTERNAL, EXISTING_BETA, PUBLIC_STAGE]) v"

definition required_identity_release_gates :: "string list" where
  "required_identity_release_gates =
     [''api_token_rbac_regression'', ''browser_cookie_csrf_e2e'', ''dependency_graph_complete'',
      ''fake_provider_automation'', ''identity_audit_regression'', ''migration_rollback_rehearsal'',
      ''real_ciam_smoke'', ''secret_access_audit_regression'', ''secret_leak_scan'',
      ''secret_vault_kms_regression'', ''worker_callback_regression'',
      ''workspace_audit_regression'', ''workspace_isolation_regression'']"

text \<open>A frozen set is a list here; the sets are only searched and printed sorted.\<close>

record rollout_policy =
  irp_stage :: identity_rollout_stage
  irp_passed_release_gates :: "string list"
  irp_internal_email_allowlist :: "string list"
  irp_security_rollback :: bool

definition missing_release_gates :: "rollout_policy \<Rightarrow> string list" where
  "missing_release_gates p =
     filter (\<lambda>g. g \<notin> set (irp_passed_release_gates p)) required_identity_release_gates"

text \<open>\<^verbatim>\<open>IdentityRolloutPolicy.__post_init__\<close>: the policy is normalized and checked when it is made.\<close>

definition make_identity_rollout_policy ::
  "string \<Rightarrow> string list \<Rightarrow> string list \<Rightarrow> bool \<Rightarrow> string + rollout_policy" where
  "make_identity_rollout_policy stage passed_gates allowlist security_rollback =
     (case stage_of stage of
        None \<Rightarrow> Inl (''Unsupported identity rollout stage: '' @ stage)
      | Some st \<Rightarrow>
          (let passed = filter (\<lambda>g. g \<noteq> []) (map strip passed_gates);
               unknown = filter (\<lambda>g. g \<notin> set required_identity_release_gates) passed;
               policy = \<lparr>irp_stage = st, irp_passed_release_gates = passed,
                 irp_internal_email_allowlist =
                   map (\<lambda>e. casefold (strip e)) (filter (\<lambda>e. strip e \<noteq> []) allowlist),
                 irp_security_rollback = security_rollback\<rparr>
           in
           if unknown \<noteq> []
           then Inl (''Unsupported identity release gates: '' @
                  join_with '', '' (sort (dedup unknown)))
           else if st = PUBLIC_STAGE \<and> missing_release_gates policy \<noteq> [] \<and> \<not> security_rollback
           then Inl ''Public self-registration requires every identity release gate''
           else Inr policy))"

definition oidc_login_enabled :: "rollout_policy \<Rightarrow> bool" where
  "oidc_login_enabled p \<longleftrightarrow> \<not> irp_security_rollback p \<and> irp_stage p \<noteq> STAGE_DISABLED"

definition cookie_authentication_enabled :: "rollout_policy \<Rightarrow> bool" where
  "cookie_authentication_enabled p \<longleftrightarrow> \<not> irp_security_rollback p"

definition self_registration :: "rollout_policy \<Rightarrow> string" where
  "self_registration p =
     (if irp_security_rollback p \<or> irp_stage p = STAGE_DISABLED then ''disabled''
      else case irp_stage p of
        PRODUCTION_INTERNAL \<Rightarrow> ''internal_allowlist''
      | EXISTING_BETA \<Rightarrow> ''existing_beta_only''
      | PUBLIC_STAGE \<Rightarrow> ''public''
      | _ \<Rightarrow> ''test_tenant'')"

definition admits_login :: "rollout_policy \<Rightarrow> string option \<Rightarrow> bool \<Rightarrow> bool \<Rightarrow> bool" where
  "admits_login p email has_external_identity has_legacy_account =
     (if \<not> oidc_login_enabled p then False
      else if irp_stage p = PRODUCTION_INTERNAL then
        (case email of
           None \<Rightarrow> False
         | Some e \<Rightarrow> casefold (strip e) \<in> set (irp_internal_email_allowlist p))
      else if irp_stage p = EXISTING_BETA then has_external_identity \<or> has_legacy_account
      else True)"

text \<open>The sorted texts of a set.\<close>

definition sorted_set :: "string list \<Rightarrow> json" where
  "sorted_set xs = jstrs (sort (dedup xs))"

definition public_status ::
  "rollout_policy \<Rightarrow> string \<Rightarrow> bool \<Rightarrow> string list \<Rightarrow> json" where
  "public_status p schema_migration_mode schema_ready pending_schema_actions = JObj
     [(''stage'', JStr (stage_value (irp_stage p))),
      (''oidc_login_enabled'', JBool (oidc_login_enabled p)),
      (''cookie_authentication_enabled'', JBool (cookie_authentication_enabled p)),
      (''self_registration'', JStr (self_registration p)),
      (''schema_migration'', JObj
        [(''mode'', JStr schema_migration_mode),
         (''schema_ready'', JBool schema_ready),
         (''pending_actions'', jstrs pending_schema_actions)]),
      (''release_gates'', JObj
        [(''passed'', sorted_set (irp_passed_release_gates p)),
         (''missing'', sorted_set (missing_release_gates p))])]"

definition identity_rollout_policy ::
  "authentication_environment \<Rightarrow> string option \<Rightarrow> string list \<Rightarrow> string list \<Rightarrow> bool \<Rightarrow>
     string + rollout_policy" where
  "identity_rollout_policy environment stage passed_gates allowlist security_rollback =
     (let resolved =
        (case stage of
           None \<Rightarrow> Inr (if environment = TEST then CIAM_TEST_TENANT else STAGE_DISABLED)
         | Some v \<Rightarrow>
             (case stage_of v of
                None \<Rightarrow> Inl (''Unsupported identity rollout stage: '' @ v)
              | Some st \<Rightarrow> Inr st))
      in case resolved of
        Inl message \<Rightarrow> Inl message
      | Inr st \<Rightarrow>
          if environment = PRODUCTION \<and> st = CIAM_TEST_TENANT \<and> \<not> security_rollback
          then Inl ''CIAM test-tenant rollout is not allowed in production''
          else make_identity_rollout_policy (stage_value st) passed_gates allowlist security_rollback)"

section \<open>The security rollback\<close>

text \<open>One session: its guarded update, then its audit event unless a former run wrote it.\<close>

definition rollback_session :: "int \<Rightarrow> string \<Rightarrow> nat action" where
  "rollback_session now device_session_id = bnd sync (\<lambda>_.
                                            bnd (db_update_where t_device_session t_device_session_update
       (\<lambda>s. ds_id s = device_session_id \<and> ds_status s = ''active'') (session_revoked now)) (\<lambda>n.
                                            if n \<noteq> 1 then ret 0
     else (let correlation_id = ''security_rollback_'' @ device_session_id in
          bnd (db_select t_identity_audit_event
         (\<lambda>e. ie_event_type e = ''identity_security_rollback'' \<and>
              ie_correlation_id e = correlation_id)) (\<lambda>existing_audit.
          if existing_audit \<noteq> [] then ret 1
       else bnd (db_get t_device_session device_session_id) (\<lambda>found.
            case found of
           None \<Rightarrow> raise AssertionError
         | Some device_session \<Rightarrow>
             bnd (record_identity_audit_event
                 ((identity_audit_defaults ''identity_security_rollback'' ''success''
                     ''user_sessions_revoked'' correlation_id)
                  \<lparr>ia_user_id := Some (ds_user_id device_session),
                   ia_device_session_id := Some device_session_id, ia_commit := False\<rparr>)) (\<lambda>_.
             ret 1))))))"

definition revoke_user_sessions_for_security_rollback :: "int \<Rightarrow> nat action" where
  "revoke_user_sessions_for_security_rollback now = bnd (db_select t_device_session (\<lambda>s. ds_status s = ''active'')) (\<lambda>active.
                                                    bnd (map_act (\<lambda>s. rollback_session now (ds_id s))
       (sort_key (\<lambda>s. (ds_created_at s, ds_id s)) active)) (\<lambda>counts.
                                                    bnd (only_if (sum_list counts \<noteq> 0) commit) (\<lambda>_.
                                                    ret (sum_list counts))))"

end
