(* ===== verification/IdentityStatus.thy ===== *)
theory IdentityStatus
  imports DeviceSessions
begin

text \<open>
  The status of external identities at the identity provider: the checks that are due and what a
  confirmed status does (\<^verbatim>\<open>identity_status_synchronization.py\<close>), and the controlled restoration of
  an identity by an operator (\<^verbatim>\<open>external_identity_restoration.py\<close>).
\<close>

section \<open>Statuses\<close>

definition IDENTITY_STATUS_SYNCHRONIZATION_INTERVAL :: int where
  "IDENTITY_STATUS_SYNCHRONIZATION_INTERVAL = seconds (5 * 60)"

definition inactive_identity_statuses :: "string list" where
  "inactive_identity_statuses = [''locked'', ''disabled'', ''missing'']"

definition controlled_restoration_statuses :: "string list" where
  "controlled_restoration_statuses = [''disabled'', ''missing'']"

definition confirmed_identity_statuses :: "string list" where
  "confirmed_identity_statuses = ''active'' # inactive_identity_statuses"

definition normalized_status :: "string \<Rightarrow> string" where
  "normalized_status value =
     (if value \<in> set confirmed_identity_statuses then value else ''unknown'')"

record identity_status_synchronization_result =
  ir_correlation_id :: "string option"
  ir_human_credentials_revoked :: bool

record identity_status_claim =
  ic_external_identity_id :: string
  ic_user_id :: string
  ic_issuer :: string
  ic_subject :: string
  ic_previous_status :: string
  ic_token :: string

section \<open>The effects of a confirmed status\<close>

definition sessions_revoked_of :: "string \<Rightarrow> int \<Rightarrow> nat action" where
  "sessions_revoked_of user_id confirmed_at = bnd sync (\<lambda>_.
                                              db_update_where t_device_session t_device_session_update
       (\<lambda>s. ds_user_id s = user_id \<and> ds_status s = ''active'') (session_revoked confirmed_at))"

definition api_tokens_revoked_of :: "string \<Rightarrow> int \<Rightarrow> nat action" where
  "api_tokens_revoked_of user_id confirmed_at =
     db_update_where t_organization_member t_organization_member_update
       (\<lambda>m. om_user_id m = user_id \<and> om_api_token_hash m \<noteq> None)
       (\<lambda>m. m\<lparr>om_api_token_hash := None, om_updated_at := confirmed_at\<rparr>)"

definition record_status_event ::
  "string \<Rightarrow> string \<Rightarrow> string \<Rightarrow> external_identity \<Rightarrow> string option \<Rightarrow> unit action" where
  "record_status_event event_type reason_code correlation_id external_identity device_session_id = bnd (record_identity_audit_event
       ((identity_audit_defaults event_type ''success'' reason_code correlation_id)
        \<lparr>ia_user_id := Some (xi_user_id external_identity),
         ia_external_identity_id := Some (xi_id external_identity),
         ia_device_session_id := device_session_id, ia_commit := False\<rparr>)) (\<lambda>_.
                                                                                                   ret ())"

definition record_confirmed_status_effects ::
  "external_identity \<Rightarrow> string \<Rightarrow> string \<Rightarrow> int \<Rightarrow> string \<Rightarrow> string option \<Rightarrow> bool \<Rightarrow>
     identity_status_synchronization_result action" where
  "record_confirmed_status_effects external_identity previous_status confirmed_status confirmed_at
       correlation_id device_session_id record_reconciliation = bnd (only_if record_reconciliation
       (record_status_event ''identity_status_reconciled'' (''identity_status_'' @ confirmed_status)
          correlation_id external_identity device_session_id)) (\<lambda>_.
                                                                bnd (only_if (previous_status \<noteq> confirmed_status)
       (record_status_event ''identity_status_transition_confirmed''
          (previous_status @ ''_to_'' @ confirmed_status)
          correlation_id external_identity device_session_id)) (\<lambda>_.
                                                                if confirmed_status = ''active''
     then ret \<lparr>ir_correlation_id = Some correlation_id, ir_human_credentials_revoked = False\<rparr>
     else bnd (sessions_revoked_of (xi_user_id external_identity) confirmed_at) (\<lambda>_.
          bnd (record_status_event ''identity_status_user_sessions_revoked''
         (''identity_status_'' @ confirmed_status) correlation_id external_identity device_session_id) (\<lambda>_.
          bnd (api_tokens_revoked_of (xi_user_id external_identity) confirmed_at) (\<lambda>_.
          bnd (record_status_event ''identity_status_workspace_api_tokens_revoked''
         (''identity_status_'' @ confirmed_status) correlation_id external_identity device_session_id) (\<lambda>_.
          ret \<lparr>ir_correlation_id = Some correlation_id, ir_human_credentials_revoked = True\<rparr>))))))"

definition record_confirmed_identity_status ::
  "external_identity \<Rightarrow> string \<Rightarrow> int \<Rightarrow> string \<Rightarrow> string option \<Rightarrow> bool \<Rightarrow>
     identity_status_synchronization_result action" where
  "record_confirmed_identity_status external_identity confirmed_status now correlation_id
       device_session_id record_reconciliation = bnd (only_if (confirmed_status \<notin> set confirmed_identity_statuses)
       (raise (ValueError ''Identity status is not a confirmed provider status''))) (\<lambda>_.
                                                 let previous_status = normalized_status (xi_last_confirmed_status external_identity) in
                                                 bnd (set_external_identity external_identity (\<lambda>x. x\<lparr>
       xi_last_confirmed_status := confirmed_status,
       xi_last_confirmed_at := now,
       xi_last_status_checked_at := now,
       xi_status_check_token := None,
       xi_status :=
         (if confirmed_status \<in> set controlled_restoration_statuses then confirmed_status
          else xi_status x),
       xi_updated_at := now\<rparr>)) (\<lambda>confirmed.
                                                 record_confirmed_status_effects confirmed previous_status confirmed_status now
       correlation_id device_session_id record_reconciliation))"

section \<open>Checks that are due\<close>

definition status_check_due :: "string \<Rightarrow> int \<Rightarrow> external_identity \<Rightarrow> bool" where
  "status_check_due user_id due_before x \<longleftrightarrow>
     xi_user_id x = user_id \<and> xi_status x = ''active'' \<and> xi_last_status_checked_at x \<le> due_before"

text \<open>\<^verbatim>\<open>UPDATE ... RETURNING\<close>: the rows the update touches, in the state it finds them.\<close>

definition claim_due_identity_status_checks ::
  "string \<Rightarrow> int \<Rightarrow> int \<Rightarrow> identity_status_claim list action" where
  "claim_due_identity_status_checks user_id checked_at synchronization_interval = (let due_before = checked_at - synchronization_interval in
                                                                                  bnd random_token (\<lambda>token.
                                                                                  bnd sync (\<lambda>_.
                                                                                  bnd (db_select t_external_identity (status_check_due user_id due_before)) (\<lambda>claimed.
                                                                                  bnd (db_update_where t_external_identity t_external_identity_update
       (status_check_due user_id due_before)
       (\<lambda>x. x\<lparr>xi_last_status_checked_at := checked_at, xi_status_check_token := Some token,
              xi_updated_at := checked_at\<rparr>)) (\<lambda>_.
                                                                                  bnd commit (\<lambda>_.
                                                                                  ret (map (\<lambda>x. \<lparr>ic_external_identity_id = xi_id x, ic_user_id = xi_user_id x,
                    ic_issuer = xi_issuer x, ic_subject = xi_subject x,
                    ic_previous_status = normalized_status (xi_last_confirmed_status x),
                    ic_token = token\<rparr>) claimed)))))))"

definition claim_current :: "identity_status_claim \<Rightarrow> external_identity \<Rightarrow> bool" where
  "claim_current claim x \<longleftrightarrow>
     xi_id x = ic_external_identity_id claim \<and> xi_status_check_token x = Some (ic_token claim)"

definition record_failed_claim ::
  "identity_status_claim \<Rightarrow> string \<Rightarrow> string option \<Rightarrow> string \<Rightarrow> unit action" where
  "record_failed_claim claim correlation_id device_session_id reason_code = bnd sync (\<lambda>_.
                                                                            bnd (db_update_where t_external_identity t_external_identity_update
       (claim_current claim) (\<lambda>x. x\<lparr>xi_status_check_token := None\<rparr>)) (\<lambda>completed.
                                                                            if completed \<noteq> 1 then rollback
     else bnd (record_identity_audit_event
         ((identity_audit_defaults ''identity_status_reconciliation'' ''failure'' reason_code
             correlation_id)
          \<lparr>ia_user_id := Some (ic_user_id claim),
           ia_external_identity_id := Some (ic_external_identity_id claim),
           ia_device_session_id := device_session_id, ia_commit := False\<rparr>)) (\<lambda>_.
          commit)))"

definition status_confirmed :: "string \<Rightarrow> int \<Rightarrow> external_identity \<Rightarrow> external_identity" where
  "status_confirmed confirmed_status confirmed_at x = x\<lparr>
     xi_status :=
       (if confirmed_status \<in> set controlled_restoration_statuses then confirmed_status
        else ''active''),
     xi_last_confirmed_status := confirmed_status,
     xi_last_confirmed_at := confirmed_at,
     xi_last_status_checked_at := confirmed_at,
     xi_status_check_token := None,
     xi_updated_at := confirmed_at\<rparr>"

definition apply_confirmed_claim ::
  "identity_status_claim \<Rightarrow> string \<Rightarrow> int \<Rightarrow> string \<Rightarrow> string option \<Rightarrow>
     identity_status_synchronization_result action" where
  "apply_confirmed_claim claim confirmed_status confirmed_at correlation_id device_session_id = bnd sync (\<lambda>_.
                                                                                                bnd (db_update_where t_external_identity t_external_identity_update
       (claim_current claim) (status_confirmed confirmed_status confirmed_at)) (\<lambda>applied.
                                                                                                if applied \<noteq> 1 then bnd rollback (\<lambda>_.
                         bnd (db_get t_external_identity (ic_external_identity_id claim)) (\<lambda>identity.
                         ret \<lparr>ir_correlation_id = Some correlation_id,
            ir_human_credentials_revoked =
              (case identity of
                 None \<Rightarrow> False
               | Some x \<Rightarrow> xi_last_confirmed_status x \<in> set inactive_identity_statuses)\<rparr>))
     else bnd (db_get t_external_identity (ic_external_identity_id claim)) (\<lambda>found.
          case found of
         None \<Rightarrow>
           bnd rollback (\<lambda>_.
           ret \<lparr>ir_correlation_id = Some correlation_id, ir_human_credentials_revoked = False\<rparr>)
       | Some external_identity \<Rightarrow>
           bnd (record_confirmed_status_effects external_identity (ic_previous_status claim)
               confirmed_status confirmed_at correlation_id device_session_id True) (\<lambda>result.
           bnd commit (\<lambda>_.
           ret result)))))"

definition synchronize_claim ::
  "customer_identity_provider \<Rightarrow> int \<Rightarrow> string \<Rightarrow> string option \<Rightarrow> identity_status_claim \<Rightarrow>
     bool action" where
  "synchronize_claim provider checked_at correlation_id device_session_id claim = bnd (try_catch
       (bnd (ask_provider (\<lambda>n. ip_identity_status provider n (ic_issuer claim) (ic_subject claim))) (\<lambda>s.
        ret (Some s)))
       (\<lambda>e. if is_provider_error e then ret None else raise e)) (\<lambda>provider_status.
                                                                                  case provider_status of
       None \<Rightarrow>
         bnd (record_failed_claim claim correlation_id device_session_id ''provider_unavailable'') (\<lambda>_.
         ret False)
     | Some confirmed_status \<Rightarrow>
         if confirmed_status \<notin> set confirmed_identity_statuses then
           bnd (record_failed_claim claim correlation_id device_session_id ''provider_status_invalid'') (\<lambda>_.
           ret False)
         else
           bnd (apply_confirmed_claim claim confirmed_status checked_at correlation_id
               device_session_id) (\<lambda>applied.
           ret (ir_human_credentials_revoked applied)))"

definition token_or :: "string option \<Rightarrow> string action" where
  "token_or value =
     (case Option.bind value (\<lambda>c. if c = [] then None else Some c) of
        Some c \<Rightarrow> ret c
      | None \<Rightarrow> random_token)"

definition synchronize_due_identity_status ::
  "customer_identity_provider \<Rightarrow> string \<Rightarrow> int \<Rightarrow> string option \<Rightarrow> string option \<Rightarrow> int \<Rightarrow>
     identity_status_synchronization_result action" where
  "synchronize_due_identity_status provider user_id checked_at device_session_id correlation_id
       synchronization_interval = bnd (claim_due_identity_status_checks user_id checked_at synchronization_interval) (\<lambda>claims.
                                  if claims = []
     then ret \<lparr>ir_correlation_id = None, ir_human_credentials_revoked = False\<rparr>
     else bnd (token_or correlation_id) (\<lambda>resolved_correlation_id.
          bnd (map_act
         (synchronize_claim provider checked_at resolved_correlation_id device_session_id) claims) (\<lambda>revoked.
          ret \<lparr>ir_correlation_id = Some resolved_correlation_id,
            ir_human_credentials_revoked = list_ex (\<lambda>b. b) revoked\<rparr>)))"

text \<open>
  The sweep over the users with an open session; every user has a database session of its own.
\<close>

definition own_session :: "'a action \<Rightarrow> 'a action" where
  "own_session m = run_request (bnd sync (\<lambda>_.
                                m))"

definition synchronize_active_device_session_users ::
  "customer_identity_provider \<Rightarrow> int \<Rightarrow> int \<Rightarrow> bool action" where
  "synchronize_active_device_session_users provider checked_at synchronization_interval = bnd (own_session (db_select t_device_session
       (\<lambda>s. ds_status s = ''active'' \<and> checked_at \<le> ds_idle_expires_at s))) (\<lambda>open_sessions.
                                                                                          bnd (map_act
       (\<lambda>user_id. own_session (synchronize_due_identity_status provider user_id checked_at None None
          synchronization_interval))
       (dedup (map ds_user_id open_sessions))) (\<lambda>results.
                                                                                          ret (list_ex (\<lambda>r. ir_correlation_id r \<noteq> None) results)))"

section \<open>Restoration by an operator\<close>

text \<open>A field of a request body may hold any JSON value.\<close>

definition stripped_text :: "json \<Rightarrow> string option" where
  "stripped_text value = (case value of JStr s \<Rightarrow> Some (strip s) | _ \<Rightarrow> None)"

record external_identity_restore =
  er_issuer :: json
  er_subject :: json
  er_reason :: json

record external_identity_restore_read =
  ew_correlation_id :: string
  ew_user_id :: string
  ew_external_identity_id :: string

definition restoration_reason :: "string option \<Rightarrow> string option" where
  "restoration_reason reason =
     (if reason = Some ''provider_identity_reactivated'' then reason else None)"

definition reject_restoration ::
  "string \<Rightarrow> string \<Rightarrow> string option \<Rightarrow> string \<Rightarrow> int \<Rightarrow> string \<Rightarrow> 'a action" where
  "reject_restoration correlation_id actor_user_id operator_reason reason_code status detail = bnd (record_identity_audit_event
       ((identity_audit_defaults ''external_identity_restoration_rejected'' ''failure'' reason_code
           correlation_id)
        \<lparr>ia_actor_user_id := Some actor_user_id,
         ia_operator_reason := restoration_reason operator_reason\<rparr>)) (\<lambda>_.
                                                                                               raise (HTTPException status (JStr detail) (Some correlation_id)))"

definition identity_named :: "string \<Rightarrow> string \<Rightarrow> external_identity \<Rightarrow> bool" where
  "identity_named issuer subject x \<longleftrightarrow> xi_issuer x = issuer \<and> xi_subject x = subject"

definition identity_restored :: "int \<Rightarrow> external_identity \<Rightarrow> external_identity" where
  "identity_restored restored_at x = x\<lparr>
     xi_status := ''active'',
     xi_last_confirmed_status := ''active'',
     xi_last_confirmed_at := restored_at,
     xi_last_status_checked_at := restored_at,
     xi_status_check_token := None,
     xi_updated_at := restored_at\<rparr>"

definition restore_confirmed_identity ::
  "auth_context \<Rightarrow> string \<Rightarrow> string \<Rightarrow> external_identity \<Rightarrow> int \<Rightarrow>
     external_identity_restore_read action" where
  "restore_confirmed_identity auth correlation_id operator_reason external_identity restored_at = bnd sync (\<lambda>_.
                                                                                                  bnd (db_update_where t_external_identity t_external_identity_update
       (\<lambda>x. xi_id x = xi_id external_identity \<and> xi_status x \<in> set controlled_restoration_statuses)
       (identity_restored restored_at)) (\<lambda>restored.
                                                                                                  bnd (only_if (restored \<noteq> 1)
       (bnd rollback (\<lambda>_.
        reject_restoration correlation_id (ac_user_id auth) (Some operator_reason)
            ''restoration_conflict'' 409 ''External Identity restoration state changed''))) (\<lambda>_.
                                                                                                  bnd (record_identity_audit_event
       ((identity_audit_defaults ''external_identity_restored'' ''success'' operator_reason
           correlation_id)
        \<lparr>ia_actor_user_id := Some (ac_user_id auth),
         ia_operator_reason := Some operator_reason,
         ia_user_id := Some (xi_user_id external_identity),
         ia_external_identity_id := Some (xi_id external_identity), ia_commit := False\<rparr>)) (\<lambda>_.
                                                                                                  bnd commit (\<lambda>_.
                                                                                                  ret \<lparr>ew_correlation_id = correlation_id, ew_user_id = xi_user_id external_identity,
          ew_external_identity_id = xi_id external_identity\<rparr>)))))"

definition may_operate :: "auth_context \<Rightarrow> string list \<Rightarrow> bool" where
  "may_operate auth operator_user_ids \<longleftrightarrow>
     ac_user_id auth \<in> set operator_user_ids \<and> has_any_role auth owner_admin_roles"

definition restore_external_identity ::
  "auth_context \<Rightarrow> external_identity_restore \<Rightarrow> string list \<Rightarrow> customer_identity_provider \<Rightarrow> int \<Rightarrow>
     external_identity_restore_read action" where
  "restore_external_identity auth data operator_user_ids provider now = bnd random_token (\<lambda>correlation_id.
                                                                        let operator_reason = stripped_text (er_reason data) in
                                                                        bnd (only_if (ac_auth_mode auth \<noteq> ''user_session'' \<or> \<not> may_operate auth operator_user_ids)
       (reject_restoration correlation_id (ac_user_id auth) operator_reason
          ''operator_not_authorized'' 403 ''External Identity restoration is not authorized'')) (\<lambda>_.
                                                                        let issuer = str_or (stripped_text (er_issuer data)) [] in
                                                                        let subject = str_or (stripped_text (er_subject data)) [] in
                                                                        bnd (only_if (issuer = [] \<or> subject = [] \<or> restoration_reason operator_reason = None)
       (reject_restoration correlation_id (ac_user_id auth) operator_reason
          ''invalid_request'' 400 ''External Identity restoration request is invalid'')) (\<lambda>_.
                                                                        bnd (require_recent_authentication ''external_identity_restoration'' (Some correlation_id)) (\<lambda>_.
                                                                        bnd (db_select t_external_identity (identity_named issuer subject)) (\<lambda>matches.
                                                                        case first_of matches of
       None \<Rightarrow>
         reject_restoration correlation_id (ac_user_id auth) operator_reason
           ''restoration_not_required'' 409 ''External Identity is not awaiting controlled restoration''
     | Some external_identity \<Rightarrow>
         if xi_status external_identity \<notin> set controlled_restoration_statuses then
           reject_restoration correlation_id (ac_user_id auth) operator_reason
             ''restoration_not_required'' 409
             ''External Identity is not awaiting controlled restoration''
         else
           bnd commit (\<lambda>_.
           bnd (try_catch
               (ask_provider (\<lambda>n. ip_identity_status provider n (xi_issuer external_identity)
                  (xi_subject external_identity)))
               (\<lambda>e. if is_provider_error e
                    then reject_restoration correlation_id (ac_user_id auth) operator_reason
                      ''provider_unavailable'' 503
                      ''External Identity status is temporarily unavailable''
                    else raise e)) (\<lambda>provider_status.
           bnd (only_if (provider_status \<noteq> ''active'')
               (reject_restoration correlation_id (ac_user_id auth) operator_reason
                  ''provider_identity_not_active'' 409
                  ''External Identity is not active at the provider'')) (\<lambda>_.
           restore_confirmed_identity auth correlation_id (str_or operator_reason [])
               external_identity now))))))))"

end
