(* ===== verification/SessionAuth.thy ===== *)
theory SessionAuth
  imports BrowserProtection IdentityRollout IdentityStatus
begin

text \<open>
  How a request is authenticated (\<^verbatim>\<open>auth_context.py\<close>): by development headers, by a workspace API
  token or by the session cookie, with the rotation of the session's secret, the check of the
  identity's status that is due, and the hourly renewal of the session.
\<close>

section \<open>The configuration of the application\<close>

text \<open>The attributes of \<^verbatim>\<open>app.state\<close> the identity services read.\<close>

record app_state =
  as_authentication_policy :: authentication_policy
  as_identity_rollout_policy :: rollout_policy
  as_user_session_cookie_name :: string
  as_public_origin :: string
  as_user_session_database_failure :: bool
  as_customer_identity_provider :: "customer_identity_provider option"
  as_identity_operator_user_ids :: "string list"
  as_allowed_login_return_destinations :: "string list"
  as_allowed_recent_authentication_return_destinations :: "string list"
  as_login_transaction_ttl_seconds :: int
  as_personal_onboarding_failure_step :: "string option"
  as_device_session_revocation_failure :: "string option"
  as_identity_schema_ready :: bool

section \<open>Refusals\<close>

definition record_authentication_failure ::
  "string \<Rightarrow> string option \<Rightarrow> string option \<Rightarrow> string action" where
  "record_authentication_failure reason_code user_id device_session_id = bnd random_token (\<lambda>correlation_id.
                                                                         bnd (record_identity_audit_event
       ((identity_audit_defaults ''authentication_failure'' ''failure'' reason_code correlation_id)
        \<lparr>ia_user_id := user_id, ia_device_session_id := device_session_id\<rparr>)) (\<lambda>_.
                                                                         ret correlation_id))"

definition invalid_user_session :: "string option \<Rightarrow> 'a action" where
  "invalid_user_session correlation_id =
     raise (HTTPException 401 (JStr ''User Session is not valid'') correlation_id)"

section \<open>Status checks of a request\<close>

definition synchronize_request_identity_status ::
  "app_state \<Rightarrow> string \<Rightarrow> string option \<Rightarrow> identity_status_synchronization_result action" where
  "synchronize_request_identity_status app user_id device_session_id =
     (case as_customer_identity_provider app of
        None \<Rightarrow> ret \<lparr>ir_correlation_id = None, ir_human_credentials_revoked = False\<rparr>
      | Some provider \<Rightarrow>
          bnd utc_now (\<lambda>now.
          bnd (gets (\<lambda>w. rq_correlation_id (w_request w))) (\<lambda>correlation_id.
          bnd (synchronize_due_identity_status provider user_id now device_session_id
              correlation_id IDENTITY_STATUS_SYNCHRONIZATION_INTERVAL) (\<lambda>result.
          bnd (only_if (ir_correlation_id result \<noteq> None)
              (set_request (\<lambda>q. q\<lparr>rq_correlation_id := ir_correlation_id result\<rparr>))) (\<lambda>_.
          ret result)))))"

section \<open>API tokens\<close>

definition hash_api_token :: "string \<Rightarrow> string action" where
  "hash_api_token token = gets (\<lambda>w. e_sha256 (w_env w) token)"

definition bearer_token :: "http_request \<Rightarrow> string action" where
  "bearer_token request =
     (let authorization = (case header request ''authorization'' of None \<Rightarrow> [] | Some v \<Rightarrow> v) in
      if \<not> starts_with ''Bearer '' authorization
      then raise (http 401 ''Bearer API token is required'')
      else (let token = strip (drop (length ''Bearer '') authorization) in
            if token = [] then raise (http 401 ''Bearer API token is required'') else ret token))"

text \<open>The scope of a membership is usable: user, workspace and organization are active and agree.\<close>

definition scope_active :: "workspace option \<Rightarrow> organization option \<Rightarrow> bool" where
  "scope_active workspace organization \<longleftrightarrow>
     (case (workspace, organization) of
        (Some ws, Some og) \<Rightarrow>
          ws_status ws = ''active'' \<and> og_status og = ''active'' \<and> ws_organization_id ws = og_id og
      | _ \<Rightarrow> False)"

definition user_active :: "user_account option \<Rightarrow> bool" where
  "user_active user \<longleftrightarrow> (case user of None \<Rightarrow> False | Some u \<Rightarrow> us_status u = ''active'')"

definition ensure_active_membership_scope :: "organization_member \<Rightarrow> unit action" where
  "ensure_active_membership_scope member = bnd (db_get t_user_account (om_user_id member)) (\<lambda>user.
                                           bnd (db_get t_workspace (om_workspace_id member)) (\<lambda>workspace.
                                           bnd (db_get t_organization (om_organization_id member)) (\<lambda>organization.
                                           only_if (\<not> user_active user \<or> \<not> scope_active workspace organization)
       (raise (http 401 ''Invalid API token'')))))"

text \<open>
  After the check of the status the request reads the member again when the check committed: the
  attributes of an object expire with a commit.
\<close>

definition reload_member :: "app_state \<Rightarrow> organization_member \<Rightarrow> organization_member action" where
  "reload_member app member =
     (if as_customer_identity_provider app = None then ret member
      else db_refresh t_organization_member om_id member)"

definition api_token_auth_context :: "app_state \<Rightarrow> http_request \<Rightarrow> auth_context action" where
  "api_token_auth_context app request = bnd (bearer_token request) (\<lambda>token.
                                        bnd (hash_api_token token) (\<lambda>token_hash.
                                        bnd (db_select t_organization_member
       (\<lambda>m. om_api_token_hash m = Some token_hash \<and> om_status m = ''active'')) (\<lambda>members.
                                        case first_of members of
       None \<Rightarrow> raise (http 401 ''Invalid API token'')
     | Some member \<Rightarrow>
         bnd (ensure_active_membership_scope member) (\<lambda>_.
         bnd (synchronize_request_identity_status app (om_user_id member) None) (\<lambda>synchronization.
         bnd (only_if (ir_human_credentials_revoked synchronization)
             (raise (HTTPException 401 (JStr ''Invalid API token'')
                (Some (str_or (ir_correlation_id synchronization) ''None''))))) (\<lambda>_.
         bnd (reload_member app member) (\<lambda>member.
         ret \<lparr>ac_user_id = om_user_id member, ac_workspace_id = om_workspace_id member,
                ac_organization_id = om_organization_id member, ac_roles = {om_role member},
                ac_auth_mode = ''api_token'', ac_device_session_id = None\<rparr>)))))))"

definition api_token_auth_context_or_audit :: "app_state \<Rightarrow> http_request \<Rightarrow> auth_context action" where
  "api_token_auth_context_or_audit app request =
     try_catch (api_token_auth_context app request)
       (\<lambda>e. case e of
          HTTPException code detail None \<Rightarrow>
            bnd (record_authentication_failure
                (if detail = JStr ''Bearer API token is required''
                 then ''workspace_api_token_required'' else ''invalid_workspace_api_token'')
                None None) (\<lambda>correlation_id.
            raise (HTTPException code detail (Some correlation_id)))
        | _ \<Rightarrow> raise e)"

section \<open>User sessions\<close>

text \<open>
  The scheduled rotation: the guarded update succeeds for one of several concurrent requests; a
  request that loses goes on when its secret has just become the previous one.
\<close>

definition rotation_lost :: "device_session \<Rightarrow> string \<Rightarrow> int \<Rightarrow> device_session action" where
  "rotation_lost device_session presented_secret_hash now = bnd rollback (\<lambda>_.
                                                            bnd (db_get t_device_session (ds_id device_session)) (\<lambda>current.
                                                            case current of
       None \<Rightarrow> invalid_user_session None
     | Some s \<Rightarrow>
         if ds_status s = ''active'' \<and> ds_previous_secret_hash s = Some presented_secret_hash \<and>
            (case ds_previous_secret_valid_until s of None \<Rightarrow> False | Some v \<Rightarrow> now \<le> v)
         then ret s
         else invalid_user_session None))"

definition secret_rotated :: "string \<Rightarrow> string \<Rightarrow> int \<Rightarrow> bool \<Rightarrow> device_session \<Rightarrow> device_session" where
  "secret_rotated new_secret_hash presented_secret_hash now renew s =
     (let s' = s\<lparr>ds_secret_hash := new_secret_hash,
                 ds_previous_secret_hash := Some presented_secret_hash,
                 ds_previous_secret_valid_until :=
                   Some (now + seconds USER_SESSION_PREVIOUS_SECRET_SECONDS),
                 ds_secret_rotated_at := now,
                 ds_updated_at := now\<rparr>
      in if renew
         then s'\<lparr>ds_last_seen_at := now, ds_idle_expires_at := now + seconds (30 * 24 * 60 * 60)\<rparr>
         else s')"

definition activity_due :: "device_session \<Rightarrow> int \<Rightarrow> bool" where
  "activity_due s now \<longleftrightarrow> ds_last_seen_at s + seconds (60 * 60) \<le> now"

definition rotate_user_session_credential ::
  "device_session \<Rightarrow> string \<Rightarrow> int \<Rightarrow> device_session action" where
  "rotate_user_session_credential device_session presented_secret_hash now = bnd random_token (\<lambda>new_secret.
                                                                             bnd (hash_session_secret new_secret) (\<lambda>new_secret_hash.
                                                                             bnd random_token (\<lambda>correlation_id.
                                                                             bnd sync (\<lambda>_.
                                                                             bnd (db_update_where t_device_session t_device_session_update
       (\<lambda>s. ds_id s = ds_id device_session \<and> ds_status s = ''active'' \<and>
            ds_secret_hash s = presented_secret_hash \<and>
            ds_secret_rotated_at s = ds_secret_rotated_at device_session)
       (secret_rotated new_secret_hash presented_secret_hash now (activity_due device_session now))) (\<lambda>rotated.
                                                                             if rotated \<noteq> 1 then rotation_lost device_session presented_secret_hash now
     else bnd (record_identity_audit_event
         ((identity_audit_defaults ''session_credential_rotated'' ''success'' ''scheduled_rotation''
             correlation_id)
          \<lparr>ia_user_id := Some (ds_user_id device_session),
           ia_device_session_id := Some (ds_id device_session), ia_commit := False\<rparr>)) (\<lambda>_.
          bnd commit (\<lambda>_.
          bnd (set_request (\<lambda>q. q\<lparr>rq_cookie_rotation := Some (ds_id device_session, new_secret),
                          rq_correlation_id := Some correlation_id\<rparr>)) (\<lambda>_.
          bnd (db_get t_device_session (ds_id device_session)) (\<lambda>current.
          case current of None \<Rightarrow> invalid_user_session None | Some s \<Rightarrow> ret s)))))))))"

text \<open>The workspace a session works in, as the roles of its member; an empty set when access is lost.\<close>

definition selected_membership ::
  "device_session \<Rightarrow> organization_member option action" where
  "selected_membership device_session = bnd (db_get t_workspace (ds_active_workspace_id device_session)) (\<lambda>workspace.
                                        bnd (db_get t_organization (ds_active_organization_id device_session)) (\<lambda>organization.
                                        bnd (db_select t_organization_member
       (\<lambda>m. om_user_id m = ds_user_id device_session \<and>
            om_workspace_id m = ds_active_workspace_id device_session \<and>
            om_organization_id m = ds_active_organization_id device_session \<and>
            om_status m = ''active'')) (\<lambda>members.
                                        ret (if scope_active workspace organization then first_of members else None))))"

definition session_auth_context :: "device_session \<Rightarrow> bool \<Rightarrow> auth_context action" where
  "session_auth_context device_session allow_workspace_selection_recovery = bnd (selected_membership device_session) (\<lambda>member.
                                                                            bnd (set_request (\<lambda>q. q\<lparr>rq_workspace_selection_required := (member = None)\<rparr>)) (\<lambda>_.
                                                                            bnd (only_if (member = None \<and> \<not> allow_workspace_selection_recovery)
       (bnd random_token (\<lambda>correlation_id.
        bnd (record_identity_audit_event
            ((identity_audit_defaults ''workspace_authorization_denied'' ''failure''
                ''workspace_access_lost'' correlation_id)
             \<lparr>ia_user_id := Some (ds_user_id device_session),
              ia_device_session_id := Some (ds_id device_session)\<rparr>)) (\<lambda>_.
        raise (HTTPException 409 (JStr ''workspace_access_lost'') (Some correlation_id)))))) (\<lambda>_.
                                                                            ret \<lparr>ac_user_id = ds_user_id device_session,
          ac_workspace_id = ds_active_workspace_id device_session,
          ac_organization_id = ds_active_organization_id device_session,
          ac_roles = (case member of None \<Rightarrow> {} | Some m \<Rightarrow> {om_role m}),
          ac_auth_mode = ''user_session'',
          ac_device_session_id = Some (ds_id device_session)\<rparr>)))"

definition renew_session_activity :: "device_session \<Rightarrow> int \<Rightarrow> unit action" where
  "renew_session_activity device_session now =
     only_if (activity_due device_session now)
       (bnd (gets (\<lambda>w. rq_correlation_id (w_request w))) (\<lambda>correlation.
        bnd (token_or correlation) (\<lambda>correlation_id.
        bnd sync (\<lambda>_.
        bnd (db_update_where t_device_session t_device_session_update
            (\<lambda>s. ds_id s = ds_id device_session \<and> ds_status s = ''active'' \<and>
                 ds_last_seen_at s = ds_last_seen_at device_session)
            (\<lambda>s. s\<lparr>ds_last_seen_at := now, ds_idle_expires_at := now + seconds (30 * 24 * 60 * 60),
                   ds_updated_at := now\<rparr>)) (\<lambda>renewed.
        if renewed = 1 then bnd (record_identity_audit_event
              ((identity_audit_defaults ''session_activity_renewed'' ''success''
                  ''hourly_activity_checkpoint'' correlation_id)
               \<lparr>ia_user_id := Some (ds_user_id device_session),
                ia_device_session_id := Some (ds_id device_session), ia_commit := False\<rparr>)) (\<lambda>_.
                              bnd commit (\<lambda>_.
                              set_request (\<lambda>q. q\<lparr>rq_correlation_id := Some correlation_id\<rparr>)))
          else rollback)))))"

definition reject_resolved :: "string \<Rightarrow> string option \<Rightarrow> 'a action" where
  "reject_resolved reason_code correlation_id = bnd (case correlation_id of
          Some c \<Rightarrow> ret c
        | None \<Rightarrow> record_authentication_failure reason_code None None) (\<lambda>correlation_id.
                                                invalid_user_session (Some correlation_id))"

definition resolve_cookie :: "string \<Rightarrow> int \<Rightarrow> resolved_user_session_credential action" where
  "resolve_cookie cookie_value now =
     try_catch (resolve_user_session_credential cookie_value now)
       (\<lambda>e. case e of
          UserSessionCredentialRejected reason_code correlation_id \<Rightarrow>
            reject_resolved reason_code correlation_id
        | _ \<Rightarrow> raise e)"

definition user_session_auth_context ::
  "app_state \<Rightarrow> http_request \<Rightarrow> bool \<Rightarrow> auth_context action" where
  "user_session_auth_context app request allow_workspace_selection_recovery = bnd utc_now (\<lambda>now.
                                                                              bnd (resolve_cookie
       (cookie_or_empty request (as_user_session_cookie_name app)) now) (\<lambda>credential.
                                                                              bnd (if rc_uses_current_secret credential \<and>
           ds_secret_rotated_at (rc_device_session credential) +
             seconds USER_SESSION_ROTATION_SECONDS \<le> now
        then rotate_user_session_credential (rc_device_session credential)
               (rc_presented_secret_hash credential) now
        else ret (rc_device_session credential)) (\<lambda>device_session.
                                                                              bnd (db_get t_user_account (ds_user_id device_session)) (\<lambda>user.
                                                                              bnd (set_request (\<lambda>q. q\<lparr>rq_device_session := Some device_session\<rparr>)) (\<lambda>_.
                                                                              bnd (only_if (\<not> user_active user)
       (bnd (record_authentication_failure ''user_session_user_inactive''
            (Some (ds_user_id device_session)) (Some (ds_id device_session))) (\<lambda>correlation_id.
        invalid_user_session (Some correlation_id)))) (\<lambda>_.
                                                                              bnd (session_auth_context device_session allow_workspace_selection_recovery) (\<lambda>context.
                                                                              bnd (synchronize_request_identity_status app (ds_user_id device_session)
       (Some (ds_id device_session))) (\<lambda>synchronization.
                                                                              bnd (only_if (ir_human_credentials_revoked synchronization)
       (invalid_user_session (ir_correlation_id synchronization))) (\<lambda>_.
                                                                              bnd (db_refresh t_device_session ds_id device_session) (\<lambda>current.
                                                                              bnd (renew_session_activity current now) (\<lambda>_.
                                                                              ret context)))))))))))"

definition user_session_auth_context_or_fail_closed ::
  "app_state \<Rightarrow> http_request \<Rightarrow> bool \<Rightarrow> auth_context action" where
  "user_session_auth_context_or_fail_closed app request allow_workspace_selection_recovery =
     try_catch
       (if as_user_session_database_failure app
        then raise (SQLAlchemyError ''Injected User Session database failure'')
        else user_session_auth_context app request allow_workspace_selection_recovery)
       (\<lambda>e. if is_sql_error e then
              bnd random_token (\<lambda>correlation_id.
              raise (HTTPException 503 (JStr ''User Session database is unavailable'')
                  (Some correlation_id)))
            else raise e)"

section \<open>The choice of a credential\<close>

definition has_bearer_credential :: "http_request \<Rightarrow> bool" where
  "has_bearer_credential request =
     (case header request ''authorization'' of
        None \<Rightarrow> False
      | Some authorization \<Rightarrow>
          casefold (fst (partition_at (CHR '' '') (strip authorization))) = ''bearer'')"

definition has_dev_auth_headers :: "http_request \<Rightarrow> bool" where
  "has_dev_auth_headers request =
     list_ex (\<lambda>(name, _). starts_with ''x-ai-scdc-'' (lower name)) (hr_headers request)"

definition dev_context :: "http_request \<Rightarrow> auth_context action" where
  "dev_context request =
     (case dev_auth_context (header request) of Inl e \<Rightarrow> raise e | Inr context \<Rightarrow> ret context)"

definition resolve_auth_context :: "app_state \<Rightarrow> http_request \<Rightarrow> bool \<Rightarrow> auth_context action" where
  "resolve_auth_context app request allow_workspace_selection_recovery =
     (let accepted = apo_accepted (as_authentication_policy app);
          has_cookie = (cookie request (as_user_session_cookie_name app) \<noteq> None)
      in
      if has_cookie \<and> has_bearer_credential request then
        bnd (record_authentication_failure ''ambiguous_credentials'' None None) (\<lambda>correlation_id.
        raise (HTTPException 400 (JStr ''ambiguous_credentials'') (Some correlation_id)))
      else if has_dev_auth_headers request \<and> DEV_AUTH \<notin> accepted then
        raise (http 401 ''Dev Auth is not allowed'')
      else if header request ''authorization'' \<noteq> None then
        (if WORKSPACE_API_TOKEN \<notin> accepted
         then raise (http 401 ''Workspace API token authentication is not allowed'')
         else api_token_auth_context_or_audit app request)
      else if has_dev_auth_headers request then dev_context request
      else if has_cookie then
        (if \<not> cookie_authentication_enabled (as_identity_rollout_policy app)
         then raise (http 401 ''User Session authentication is disabled'')
         else if USER_SESSION \<notin> accepted
         then raise (http 401 ''User Session authentication is not allowed'')
         else user_session_auth_context_or_fail_closed app request
                allow_workspace_selection_recovery)
      else if DEV_AUTH \<in> accepted then dev_context request
      else if USER_SESSION \<in> accepted then
        user_session_auth_context_or_fail_closed app request allow_workspace_selection_recovery
      else if WORKSPACE_API_TOKEN \<in> accepted then api_token_auth_context_or_audit app request
      else raise (http 500 ''Authentication policy cannot resolve human credentials''))"

section \<open>The dependency of the routes\<close>

definition is_worker_callback_path :: "string \<Rightarrow> bool" where
  "is_worker_callback_path path = starts_with ''/cloud-run-worker/'' path"

text \<open>
  \<^verbatim>\<open>_auth_context_dependency\<close>: the context is resolved, a request by cookie is checked against
  forgery, and the route's handler runs in the scope of the context.
\<close>

definition auth_context_dependency ::
  "app_state \<Rightarrow> http_request \<Rightarrow> bool \<Rightarrow> (auth_context option \<Rightarrow> 'a action) \<Rightarrow> 'a action" where
  "auth_context_dependency app request allow_workspace_selection_recovery handler =
     (if is_worker_callback_path (hr_path request)
      then auth_context_scope None (handler None)
      else bnd (resolve_auth_context app request allow_workspace_selection_recovery) (\<lambda>context.
           bnd (only_if (ac_auth_mode context = ''user_session'')
          (bnd utc_now (\<lambda>now.
           enforce_cookie_request_protection (as_public_origin app) request now))) (\<lambda>_.
           auth_context_scope (Some context) (handler (Some context)))))"

end
