(* ===== verification/Base64.thy ===== *)
theory Base64
  imports PyText
begin

text \<open>
  \<^verbatim>\<open>base64.urlsafe_b64encode\<close> without its padding, of a list of bytes, and the bytes of a
  hexadecimal digest.
\<close>

definition b64_alphabet :: string where
  "b64_alphabet =
     ''ABCDEFGHIJKLMNOPQRSTUVWXYZabcdefghijklmnopqrstuvwxyz0123456789-_''"

definition b64_char :: "nat \<Rightarrow> char" where
  "b64_char n = b64_alphabet ! (n mod 64)"

fun b64url :: "nat list \<Rightarrow> string" where
  "b64url [] = []"
| "b64url [a] = [b64_char (a div 4), b64_char (a mod 4 * 16)]"
| "b64url [a, b] =
     [b64_char (a div 4), b64_char (a mod 4 * 16 + b div 16), b64_char (b mod 16 * 4)]"
| "b64url (a # b # c # bs) =
     [b64_char (a div 4), b64_char (a mod 4 * 16 + b div 16), b64_char (b mod 16 * 4 + c div 64),
      b64_char (c mod 64)] @ b64url bs"

fun bytes_of_hex :: "string \<Rightarrow> nat list" where
  "bytes_of_hex (x # y # cs) =
     (case (hex_value x, hex_value y) of
        (Some a, Some b) \<Rightarrow> (16 * a + b) # bytes_of_hex cs
      | _ \<Rightarrow> bytes_of_hex cs)"
| "bytes_of_hex _ = []"

end
