(* ===== verification/IdentityLogin.thy ===== *)
theory IdentityLogin
  imports SessionAuth Base64
begin

text \<open>
  Login at the identity provider (\<^verbatim>\<open>identity_login.py\<close>): the transaction that starts it, the cookie
  that binds it to the browser, and the failures of the provider on the way.
\<close>

section \<open>Responses\<close>

definition LOGIN_BROWSER_COOKIE :: string where
  "LOGIN_BROWSER_COOKIE = ''__Host-ai_scdc_login''"

definition RECENT_AUTHENTICATION_EMAIL_ACR :: string where
  "RECENT_AUTHENTICATION_EMAIL_ACR = ''urn:ai-scdc:email-verification-code''"

definition RECENT_AUTHENTICATION_CLOCK_SKEW_SECONDS :: int where
  "RECENT_AUTHENTICATION_CLOCK_SKEW_SECONDS = 60"

definition safe_failure_response :: "string \<Rightarrow> string \<Rightarrow> int \<Rightarrow> response" where
  "safe_failure_response error correlation_id status =
     (plain_response status)\<lparr>re_error := Some error, re_correlation_id := Some correlation_id\<rparr>"

text \<open>The results are words of letters and underscores, which \<^verbatim>\<open>urlencode\<close> leaves as they are.\<close>

definition recent_authentication_return_response :: "string \<Rightarrow> string \<Rightarrow> string \<Rightarrow> response" where
  "recent_authentication_return_response return_to result correlation_id =
     (redirect_response
        (return_to @ (if CHR ''?'' \<in> set return_to then ''&'' else ''?'') @
         ''reauthentication='' @ result))\<lparr>re_correlation_id := Some correlation_id\<rparr>"

definition recent_authentication_redirect :: "login_transaction \<Rightarrow> string \<Rightarrow> response" where
  "recent_authentication_redirect transaction result =
     recent_authentication_return_response (lt_return_to transaction) result
       (lt_correlation_id transaction)"

section \<open>Starting a transaction\<close>

definition pkce_s256 :: "string \<Rightarrow> string action" where
  "pkce_s256 code_verifier = gets (\<lambda>w. b64url (bytes_of_hex (e_sha256 (w_env w) code_verifier)))"

definition secret_hash :: "string \<Rightarrow> string action" where
  "secret_hash value = gets (\<lambda>w. e_sha256 (w_env w) value)"

definition record_start_failure ::
  "string \<Rightarrow> string \<Rightarrow> string \<Rightarrow> device_session option \<Rightarrow> unit action" where
  "record_start_failure event_type reason_code correlation_id requested = bnd (record_identity_audit_event
       ((identity_audit_defaults event_type ''failure'' reason_code correlation_id)
        \<lparr>ia_user_id := map_option ds_user_id requested,
         ia_device_session_id := map_option ds_id requested\<rparr>)) (\<lambda>_.
                                                                          ret ())"

text \<open>
  The two calls of the provider fail in the same way: unavailable is 503, another error is 502;
  a recent authentication returns to its page instead.
\<close>

definition provider_failure_response ::
  "string \<Rightarrow> string \<Rightarrow> device_session option \<Rightarrow> string \<Rightarrow> string \<Rightarrow> exn \<Rightarrow> response action" where
  "provider_failure_response purpose return_to requested correlation_id step e =
     (let recent = (purpose = ''recent_authentication'') in
      if e = CustomerIdentityProviderUnavailable then
        bnd (record_start_failure ''identity_provider_unavailable'' (step @ ''_unavailable'')
            correlation_id requested) (\<lambda>_.
        ret (if recent
               then recent_authentication_return_response return_to ''provider_unavailable''
                      correlation_id
               else safe_failure_response ''identity_provider_unavailable'' correlation_id 503))
      else if e = CustomerIdentityProviderError then
        bnd (record_start_failure
            (if recent then ''recent_authentication_failed'' else ''login_failure'')
            (step @ ''_failed'') correlation_id requested) (\<lambda>_.
        ret (if recent
               then recent_authentication_return_response return_to ''failed'' correlation_id
               else safe_failure_response ''login_failed'' correlation_id 502))
      else raise e)"

definition rstrip_slashes :: "string \<Rightarrow> string" where
  "rstrip_slashes s = rev (dropWhile (\<lambda>c. c = CHR ''/'') (rev s))"

record login_secrets =
  ls_state :: string
  ls_nonce :: string
  ls_verifier :: string
  ls_browser :: string
  ls_challenge :: string

definition authorization_request ::
  "customer_identity_provider \<Rightarrow> string \<Rightarrow> login_secrets \<Rightarrow> string \<Rightarrow> int \<Rightarrow>
     oidc_authorization_request" where
  "authorization_request provider redirect_uri ls purpose current_time =
     (let fresh = (purpose = ''recent_authentication'' \<or> purpose = ''login'') in
      \<lparr>oa_client_id = ip_client_id provider, oa_redirect_uri = redirect_uri,
       oa_state = ls_state ls, oa_nonce = ls_nonce ls, oa_code_challenge = ls_challenge ls,
       oa_prompt = (if fresh then Some ''login'' else None),
       oa_max_age_seconds = (if fresh then Some 0 else None),
       oa_acr_values = (if fresh then Some RECENT_AUTHENTICATION_EMAIL_ACR else None),
       oa_authentication_requested_at = Some current_time\<rparr>)"

definition store_transaction ::
  "login_secrets \<Rightarrow> string \<Rightarrow> string \<Rightarrow> string \<Rightarrow> string \<Rightarrow> device_session option \<Rightarrow> int \<Rightarrow> int \<Rightarrow>
     login_transaction action" where
  "store_transaction ls redirect_uri return_to correlation_id purpose requested
       transaction_ttl_seconds current_time = bnd (secret_hash (ls_state ls)) (\<lambda>state_hash.
                                              bnd (secret_hash (ls_nonce ls)) (\<lambda>nonce_hash.
                                              bnd (secret_hash (ls_browser ls)) (\<lambda>browser_binding_hash.
                                              bnd (new_login_transaction (\<lambda>t. t\<lparr>
       lt_state_hash := state_hash,
       lt_nonce_hash := nonce_hash,
       lt_pkce_verifier := ls_verifier ls,
       lt_return_to := return_to,
       lt_browser_binding_hash := browser_binding_hash,
       lt_redirect_uri := redirect_uri,
       lt_correlation_id := correlation_id,
       lt_purpose := purpose,
       lt_requested_session_id := map_option ds_id requested,
       lt_expires_at := current_time + seconds transaction_ttl_seconds,
       lt_created_at := current_time\<rparr>)) (\<lambda>transaction.
                                              bnd (add_login_transaction transaction) (\<lambda>_.
                                              bnd (only_if (purpose = ''recent_authentication'')
       (bnd (record_identity_audit_event
            ((identity_audit_defaults ''recent_authentication_started'' ''success''
                ''forced_email_verification'' correlation_id)
             \<lparr>ia_user_id := map_option ds_user_id requested,
              ia_device_session_id := map_option ds_id requested, ia_commit := False\<rparr>)) (\<lambda>_.
        ret ()))) (\<lambda>_.
                                              bnd commit (\<lambda>_.
                                              db_refresh t_login_transaction lt_id transaction)))))))"

definition begin_at_provider ::
  "customer_identity_provider \<Rightarrow> string \<Rightarrow> string \<Rightarrow> int \<Rightarrow> string \<Rightarrow> device_session option \<Rightarrow> int \<Rightarrow>
     string \<Rightarrow> response action" where
  "begin_at_provider provider return_to public_origin transaction_ttl_seconds purpose requested
       current_time correlation_id = bnd random_token (\<lambda>state_value.
                                     bnd random_token (\<lambda>nonce_value.
                                     bnd random_token (\<lambda>code_verifier.
                                     bnd random_token (\<lambda>browser_secret.
                                     let redirect_uri = rstrip_slashes public_origin @ ''/auth/callback'' in
                                     let failed = provider_failure_response purpose return_to requested correlation_id in
                                     bnd (try_catch
       (bnd (ask_provider (ip_discover provider)) (\<lambda>_.
        ret None))
       (\<lambda>e. bnd (failed ''discovery'' e) (\<lambda>r.
            ret (Some r)))) (\<lambda>discovered.
                                     case discovered of
       Some response \<Rightarrow> ret response
     | None \<Rightarrow>
         bnd (pkce_s256 code_verifier) (\<lambda>code_challenge.
         let ls = \<lparr>ls_state = state_value, ls_nonce = nonce_value, ls_verifier = code_verifier,
                  ls_browser = browser_secret, ls_challenge = code_challenge\<rparr> in
         bnd (try_catch
             (bnd (ask_provider (\<lambda>n. ip_authorization_url provider n
                     (authorization_request provider redirect_uri ls purpose current_time))) (\<lambda>url.
              ret (Inr url)))
             (\<lambda>e. bnd (failed ''authorization'' e) (\<lambda>r.
                  ret (Inl r)))) (\<lambda>authorized.
         case authorized of
             Inl response \<Rightarrow> ret response
           | Inr authorization_url \<Rightarrow>
               bnd (store_transaction ls redirect_uri return_to correlation_id purpose
                   requested transaction_ttl_seconds current_time) (\<lambda>transaction.
               ret ((redirect_response authorization_url)
                      \<lparr>re_set_cookies :=
                         [(LOGIN_BROWSER_COOKIE, lt_id transaction @ ''.'' @ browser_secret)],
                       re_correlation_id := Some (lt_correlation_id transaction)\<rparr>)))))))))"

definition start_authentication_transaction ::
  "customer_identity_provider \<Rightarrow> string \<Rightarrow> string list \<Rightarrow> string \<Rightarrow> int \<Rightarrow> string \<Rightarrow>
     device_session option \<Rightarrow> int \<Rightarrow> response action" where
  "start_authentication_transaction provider return_to allowed_return_destinations public_origin
       transaction_ttl_seconds purpose requested current_time = bnd random_token (\<lambda>correlation_id.
                                                                let recent = (purpose = ''recent_authentication'') in
                                                                if return_to \<notin> set allowed_return_destinations then bnd (record_start_failure (if recent then ''recent_authentication_failed'' else ''login_failure'')
         ''return_destination_not_allowed'' correlation_id requested) (\<lambda>_.
                                                         ret (safe_failure_response
              (if recent then ''recent_authentication_failed'' else ''login_failed'')
              correlation_id 400))
     else
       begin_at_provider provider return_to public_origin transaction_ttl_seconds purpose requested
         current_time correlation_id)"

definition start_login ::
  "customer_identity_provider \<Rightarrow> string \<Rightarrow> string list \<Rightarrow> string \<Rightarrow> int \<Rightarrow> int \<Rightarrow> response action" where
  "start_login provider return_to allowed public_origin ttl now =
     start_authentication_transaction provider return_to allowed public_origin ttl ''login'' None now"

definition start_recent_authentication ::
  "customer_identity_provider \<Rightarrow> device_session \<Rightarrow> string \<Rightarrow> string list \<Rightarrow> string \<Rightarrow> int \<Rightarrow> int \<Rightarrow>
     response action" where
  "start_recent_authentication provider device_session return_to allowed public_origin ttl now =
     start_authentication_transaction provider return_to allowed public_origin ttl
       ''recent_authentication'' (Some device_session) now"

end
