(* ===== verification/LoginCallback.thy ===== *)
theory LoginCallback
  imports IdentityLogin
begin

text \<open>
  The callback of a login (\<^verbatim>\<open>identity_login.py\<close>): a transaction is claimed by one callback, the
  identity the provider vouches for is checked, and the login is completed for a known user, a
  new user (onboarding) or the running session (recent authentication), or refused.
\<close>

section \<open>Refusals\<close>

text \<open>The keyword parameters of \<^verbatim>\<open>_reject_callback\<close> with their defaults.\<close>

record rejection =
  rj_reason_code :: string
  rj_event_type :: string
  rj_error :: string
  rj_status_code :: int
  rj_terminalize_transaction :: bool

definition rejected :: "string \<Rightarrow> rejection" where
  "rejected reason_code =
     \<lparr>rj_reason_code = reason_code, rj_event_type = ''callback_rejected'',
      rj_error = ''login_callback_rejected'', rj_status_code = 400,
      rj_terminalize_transaction = True\<rparr>"

definition already_claimed :: rejection where
  "already_claimed = (rejected ''callback_already_claimed'')
     \<lparr>rj_error := ''login_callback_in_progress'', rj_status_code := 409,
      rj_terminalize_transaction := False\<rparr>"

definition provider_unavailable :: "string \<Rightarrow> rejection" where
  "provider_unavailable reason_code = (rejected reason_code)
     \<lparr>rj_event_type := ''identity_provider_unavailable'',
      rj_error := ''identity_provider_unavailable'', rj_status_code := 503\<rparr>"

definition terminalize :: "login_transaction \<Rightarrow> unit action" where
  "terminalize transaction =
     only_if (lt_status transaction = ''pending'' \<or> lt_status transaction = ''processing'')
       (bnd (set_login_transaction transaction (\<lambda>t. t\<lparr>lt_status := ''rejected''\<rparr>)) (\<lambda>_.
        ret ()))"

definition requested_session :: "login_transaction \<Rightarrow> device_session option action" where
  "requested_session transaction =
     (case (lt_purpose transaction = ''recent_authentication'', lt_requested_session_id transaction) of
        (True, Some i) \<Rightarrow> db_get t_device_session i
      | _ \<Rightarrow> ret None)"

definition refusal_result :: "rejection \<Rightarrow> string" where
  "refusal_result rj =
     (if rj_error rj = ''identity_provider_unavailable'' then ''provider_unavailable''
      else if rj_reason_code rj = ''provider_cancelled'' then ''cancelled''
      else ''failed'')"

definition record_rejection ::
  "rejection \<Rightarrow> string \<Rightarrow> bool \<Rightarrow> device_session option \<Rightarrow> unit action" where
  "record_rejection rj correlation_id recent device_session = bnd (record_identity_audit_event
       ((identity_audit_defaults
           (if recent \<and> rj_event_type rj = ''callback_rejected''
            then ''recent_authentication_failed'' else rj_event_type rj)
           ''failure'' (rj_reason_code rj) correlation_id)
        \<lparr>ia_user_id := map_option ds_user_id device_session,
         ia_device_session_id := map_option ds_id device_session\<rparr>)) (\<lambda>_.
                                                              ret ())"

definition reject_callback ::
  "login_transaction option \<Rightarrow> string \<Rightarrow> rejection \<Rightarrow> response action" where
  "reject_callback found correlation_id rj =
     (case found of
        None \<Rightarrow>
          bnd (record_rejection rj correlation_id False None) (\<lambda>_.
          ret (safe_failure_response (rj_error rj) correlation_id (rj_status_code rj)))
      | Some transaction \<Rightarrow>
          (let recent = (lt_purpose transaction = ''recent_authentication'') in
          bnd (only_if (rj_terminalize_transaction rj) (terminalize transaction)) (\<lambda>_.
          bnd (requested_session transaction) (\<lambda>device_session.
          bnd (record_rejection rj correlation_id recent device_session) (\<lambda>_.
          if recent
            then ret ((recent_authentication_redirect transaction (refusal_result rj))
                      \<lparr>re_deleted_cookies := [LOGIN_BROWSER_COOKIE],
                       re_correlation_id := Some correlation_id\<rparr>)
            else ret (safe_failure_response (rj_error rj) correlation_id (rj_status_code rj)))))))"

definition refuse :: "login_transaction \<Rightarrow> rejection \<Rightarrow> response action" where
  "refuse transaction rj = reject_callback (Some transaction) (lt_correlation_id transaction) rj"

text \<open>
  \<^verbatim>\<open>try: x = provider.call(...) except ...: return refused\<close>: the answer is handed on, and an
  error of the provider ends the callback with a refusal.
\<close>

definition ask_or_refuse ::
  "(nat \<Rightarrow> 'a answer) \<Rightarrow> (exn \<Rightarrow> response action) \<Rightarrow> ('a \<Rightarrow> response action) \<Rightarrow> response action" where
  "ask_or_refuse call refused_by k = bnd (try_catch
       (bnd (ask_provider call) (\<lambda>x.
        ret (Inr x)))
       (\<lambda>e. if is_provider_error e then bnd (refused_by e) (\<lambda>r.
                                        ret (Inl r)) else raise e)) (\<lambda>answered.
                                     case answered of Inl response \<Rightarrow> ret response | Inr x \<Rightarrow> k x)"

definition refused_step :: "login_transaction \<Rightarrow> string \<Rightarrow> rejection \<Rightarrow> exn \<Rightarrow> response action" where
  "refused_step transaction unavailable_reason otherwise e =
     refuse transaction
       (if e = CustomerIdentityProviderUnavailable then provider_unavailable unavailable_reason
        else otherwise)"

section \<open>Completed transactions\<close>

definition has_completed_session ::
  "app_state \<Rightarrow> http_request \<Rightarrow> login_transaction \<Rightarrow> int \<Rightarrow> bool action" where
  "has_completed_session app request transaction now =
     (if lt_completed_session_id transaction = None then ret False
      else bnd (resolve_user_session_credential
          (cookie_or_empty request (as_user_session_cookie_name app)) now) (\<lambda>credential.
           ret (Some (ds_id (rc_device_session credential)) = lt_completed_session_id transaction)))"

definition completed_redirect :: "login_transaction \<Rightarrow> response" where
  "completed_redirect transaction =
     ((if lt_purpose transaction = ''recent_authentication''
       then recent_authentication_redirect transaction ''confirmed''
       else redirect_response (lt_return_to transaction))
      \<lparr>re_correlation_id := Some (lt_correlation_id transaction)\<rparr>)"

definition completed_session_response ::
  "app_state \<Rightarrow> http_request \<Rightarrow> login_transaction \<Rightarrow> int \<Rightarrow> response option action" where
  "completed_session_response app request transaction now =
     try_catch
       (bnd (has_completed_session app request transaction now) (\<lambda>has.
        ret (if has then Some (completed_redirect transaction) else None)))
       (\<lambda>e. case e of
          UserSessionCredentialRejected _ None \<Rightarrow> ret None
        | UserSessionCredentialRejected _ (Some correlation_id) \<Rightarrow>
            ret (Some (safe_failure_response ''login_callback_rejected'' correlation_id 401))
        | _ \<Rightarrow> raise e)"

definition replayed_callback ::
  "app_state \<Rightarrow> http_request \<Rightarrow> login_transaction \<Rightarrow> int \<Rightarrow> response action" where
  "replayed_callback app request transaction now = bnd (completed_session_response app request transaction now) (\<lambda>response.
                                                   case response of
       Some r \<Rightarrow> ret r
     | None \<Rightarrow> refuse transaction (rejected ''completed_transaction_replay''))"

section \<open>The claim of a transaction\<close>

definition has_browser_binding :: "http_request \<Rightarrow> login_transaction \<Rightarrow> bool action" where
  "has_browser_binding request transaction =
     (case partition_at (CHR ''.'') (cookie_or_empty request LOGIN_BROWSER_COOKIE) of
        (transaction_id, separator, browser_secret) \<Rightarrow>
          bnd (secret_hash browser_secret) (\<lambda>binding.
          ret (separator \<and> transaction_id = lt_id transaction \<and>
                 binding = lt_browser_binding_hash transaction)))"

definition transaction_pending :: "string \<Rightarrow> login_transaction \<Rightarrow> bool" where
  "transaction_pending i t \<longleftrightarrow> lt_id t = i \<and> lt_status t = ''pending''"

text \<open>The refreshed transaction when the claim succeeds.\<close>

definition claim_login_transaction :: "login_transaction \<Rightarrow> login_transaction option action" where
  "claim_login_transaction transaction = bnd sync (\<lambda>_.
                                         bnd (db_update_where t_login_transaction t_login_transaction_update
       (transaction_pending (lt_id transaction)) (\<lambda>t. t\<lparr>lt_status := ''processing''\<rparr>)) (\<lambda>n.
                                         bnd commit (\<lambda>_.
                                         if n \<noteq> 1 then ret None
     else bnd (db_refresh t_login_transaction lt_id transaction) (\<lambda>claimed.
          ret (Some claimed)))))"

section \<open>The identity the provider vouches for\<close>

definition verified_email_time :: "validated_external_identity \<Rightarrow> login_transaction \<Rightarrow> int \<Rightarrow> int option" where
  "verified_email_time claims transaction now =
     (case ve_authenticated_at claims of
        None \<Rightarrow> None
      | Some authenticated_at \<Rightarrow>
          (let skew = seconds RECENT_AUTHENTICATION_CLOCK_SKEW_SECONDS in
           if ve_authentication_context claims \<noteq> Some RECENT_AUTHENTICATION_EMAIL_ACR \<or>
              authenticated_at < lt_created_at transaction - skew \<or> now + skew < authenticated_at
           then None else Some authenticated_at))"

text \<open>
  The first legacy user of the email: the oldest, then the smallest identifier. The database's
  \<^verbatim>\<open>lower\<close> is taken to be Python's.
\<close>

definition legacy_member :: "db \<Rightarrow> user_account \<Rightarrow> bool" where
  "legacy_member d u \<longleftrightarrow>
     list_ex (\<lambda>m. om_user_id m = us_id u \<and>
        (case map_of (t_organization d) (om_organization_id m) of
           None \<Rightarrow> False
         | Some og \<Rightarrow> og_account_kind og = AK_LEGACY)) (rows (t_organization_member d))"

definition legacy_user_matching_email :: "string option \<Rightarrow> user_account option action" where
  "legacy_user_matching_email email =
     (let normalized_email = lower (strip (str_or email [])) in
      if normalized_email = [] then ret None
      else gets (\<lambda>w. first_of (sort_key (\<lambda>u. (us_created_at u, us_id u))
             (filter (\<lambda>u. map_option lower (us_email u) = Some normalized_email \<and>
                          legacy_member (w_db w) u) (rows (t_user_account (w_db w)))))))"

section \<open>Onboarding\<close>

definition inject_personal_onboarding_failure :: "string option \<Rightarrow> string \<Rightarrow> unit action" where
  "inject_personal_onboarding_failure configured_step completed_step =
     only_if (configured_step = Some completed_step)
       (raise (PersonalOnboardingInjectedFailure completed_step))"

definition create_personal_onboarding ::
  "validated_external_identity \<Rightarrow> string option \<Rightarrow>
     (user_account \<times> organization_member \<times> external_identity) action" where
  "create_personal_onboarding claims failure_step = bnd (new_user_account (\<lambda>u. u\<lparr>us_email := ve_email claims,
       us_display_name := str_or (ve_email claims) ''AI-SCDC User''\<rparr>)) (\<lambda>user.
                                                    bnd (add_user_account user) (\<lambda>_.
                                                    bnd (inject_personal_onboarding_failure failure_step ''user'') (\<lambda>_.
                                                    bnd (new_organization (\<lambda>g. g\<lparr>og_name := ''Personal Account'',
       og_account_kind := AK_PERSONAL, og_personal_owner_user_id := Some (us_id user)\<rparr>)) (\<lambda>account.
                                                    bnd (add_organization account) (\<lambda>_.
                                                    bnd (inject_personal_onboarding_failure failure_step ''account'') (\<lambda>_.
                                                    bnd (new_workspace (\<lambda>s. s\<lparr>ws_organization_id := og_id account,
       ws_name := ''Default Workspace''\<rparr>)) (\<lambda>workspace.
                                                    bnd (add_workspace workspace) (\<lambda>_.
                                                    bnd (inject_personal_onboarding_failure failure_step ''workspace'') (\<lambda>_.
                                                    bnd (new_organization_member (\<lambda>m. m\<lparr>om_organization_id := og_id account,
       om_workspace_id := ws_id workspace, om_user_id := us_id user, om_role := OWNER\<rparr>)) (\<lambda>membership.
                                                    bnd (add_organization_member membership) (\<lambda>_.
                                                    bnd (inject_personal_onboarding_failure failure_step ''membership'') (\<lambda>_.
                                                    bnd (new_external_identity (\<lambda>x. x\<lparr>xi_issuer := ve_issuer claims,
       xi_subject := ve_subject claims, xi_user_id := us_id user, xi_email := ve_email claims\<rparr>)) (\<lambda>external_identity.
                                                    bnd (add_external_identity external_identity) (\<lambda>_.
                                                    bnd (inject_personal_onboarding_failure failure_step ''external_identity'') (\<lambda>_.
                                                    ret (user, membership, external_identity))))))))))))))))"

definition rollback_personal_onboarding :: "string \<Rightarrow> string \<Rightarrow> response action" where
  "rollback_personal_onboarding transaction_id correlation_id = bnd rollback (\<lambda>_.
                                                                bnd (db_get t_login_transaction transaction_id) (\<lambda>transaction.
                                                                bnd (case transaction of
       None \<Rightarrow> ret ()
     | Some t \<Rightarrow>
         only_if (lt_status t = ''processing'')
           (bnd (set_login_transaction t (\<lambda>t. t\<lparr>lt_status := ''rejected''\<rparr>)) (\<lambda>_.
            ret ()))) (\<lambda>_.
                                                                bnd (record_identity_audit_event
       (identity_audit_defaults ''onboarding_rollback'' ''failure'' ''persistence_failed''
          correlation_id)) (\<lambda>_.
                                                                ret (safe_failure_response ''login_failed'' correlation_id 500)))))"

text \<open>\<^verbatim>\<open>except (PersonalOnboardingInjectedFailure, SQLAlchemyError)\<close>.\<close>

fun is_onboarding_failure :: "exn \<Rightarrow> bool" where
  "is_onboarding_failure (PersonalOnboardingInjectedFailure _) = True"
| "is_onboarding_failure e = is_sql_error e"

end
