(* ===== verification/LoginCompletion.thy ===== *)
theory LoginCompletion
  imports LoginCallback
begin

text \<open>
  The end of a login (\<^verbatim>\<open>identity_login.py\<close>): a new session for the user, a fresh authentication
  of the running session, or the demand of an explicit account link; and the callback routes
  themselves.
\<close>

section \<open>An account link is required\<close>

definition commit_account_link_required ::
  "login_transaction \<Rightarrow> account_link_recovery \<Rightarrow> response action" where
  "commit_account_link_required transaction recovery = bnd (set_login_transaction transaction (\<lambda>t. t\<lparr>lt_status := ''rejected''\<rparr>)) (\<lambda>_.
                                                       bnd (record_identity_audit_event
       ((identity_audit_defaults ''account_link_required'' ''failure'' ''legacy_email_collision''
           (ar_correlation_id recovery))\<lparr>ia_commit := False\<rparr>)) (\<lambda>_.
                                                       bnd commit (\<lambda>_.
                                                       ret (safe_failure_response ''account_link_required'' (ar_correlation_id recovery) 409))))"

definition recovery_of :: "validated_external_identity \<Rightarrow> account_link_recovery option action" where
  "recovery_of claims = bnd (db_select t_account_link_recovery
       (\<lambda>r. ar_issuer r = ve_issuer claims \<and> ar_subject r = ve_subject claims)) (\<lambda>found.
                        ret (first_of found))"

definition require_explicit_account_link ::
  "login_transaction \<Rightarrow> validated_external_identity \<Rightarrow> response action" where
  "require_explicit_account_link transaction claims = bnd (recovery_of claims) (\<lambda>found.
                                                      try_catch
       (bnd (case found of
               Some r \<Rightarrow> ret r
             | None \<Rightarrow>
                 bnd (new_account_link_recovery (\<lambda>r. r\<lparr>
                     ar_issuer := ve_issuer claims,
                     ar_subject := ve_subject claims,
                     ar_verified_email := lower (strip (str_or (ve_email claims) [])),
                     ar_correlation_id := lt_correlation_id transaction\<rparr>)) (\<lambda>r.
                 bnd (add_account_link_recovery r) (\<lambda>_.
                 ret r))) (\<lambda>recovery.
        commit_account_link_required transaction recovery))
       (\<lambda>e. if e \<noteq> IntegrityError then raise e
            else bnd rollback (\<lambda>_.
                 bnd (recovery_of claims) (\<lambda>recovery.
                 bnd (db_get t_login_transaction (lt_id transaction)) (\<lambda>current.
                 case (recovery, current) of
                (Some r, Some t) \<Rightarrow> commit_account_link_required t r
              | _ \<Rightarrow> reject_callback current (lt_correlation_id transaction)
                      ((rejected ''account_link_recovery_persistence_failed'')
                       \<lparr>rj_error := ''login_failed'', rj_status_code := 500\<rparr>))))))"

section \<open>Recent authentication\<close>

definition session_cookies :: "app_state \<Rightarrow> string \<Rightarrow> string \<Rightarrow> response \<Rightarrow> response" where
  "session_cookies app session_id secret response =
     response\<lparr>re_set_cookies := [(as_user_session_cookie_name app, session_id @ ''.'' @ secret)],
              re_deleted_cookies := [LOGIN_BROWSER_COOKIE]\<rparr>"

definition completed :: "string \<Rightarrow> int \<Rightarrow> login_transaction \<Rightarrow> login_transaction" where
  "completed session_id now t = t\<lparr>lt_status := ''completed'',
     lt_completed_session_id := Some session_id, lt_completed_at := Some now\<rparr>"

definition record_login_event ::
  "string \<Rightarrow> string \<Rightarrow> login_transaction \<Rightarrow> string option \<Rightarrow> string \<Rightarrow> external_identity \<Rightarrow> string \<Rightarrow>
     unit action" where
  "record_login_event event_type reason_code transaction related user_id external_identity
       device_session_id = bnd (record_identity_audit_event
       ((identity_audit_defaults event_type ''success'' reason_code (lt_correlation_id transaction))
        \<lparr>ia_related_correlation_id := related, ia_user_id := Some user_id,
         ia_external_identity_id := Some (xi_id external_identity),
         ia_device_session_id := Some device_session_id, ia_commit := False\<rparr>)) (\<lambda>_.
                           ret ())"

definition confirm_recent_authentication ::
  "app_state \<Rightarrow> login_transaction \<Rightarrow> device_session \<Rightarrow> external_identity \<Rightarrow> string option \<Rightarrow> int \<Rightarrow> int \<Rightarrow>
     response action" where
  "confirm_recent_authentication app transaction device_session external_identity hint
       authenticated_at now = bnd random_token (\<lambda>new_secret.
                              bnd (hash_session_secret new_secret) (\<lambda>new_hash.
                              bnd sync (\<lambda>_.
                              bnd (db_update_where t_device_session t_device_session_update
       (\<lambda>s. ds_id s = ds_id device_session \<and> ds_status s = ''active'' \<and>
            ds_secret_hash s = ds_secret_hash device_session)
       (\<lambda>s. s\<lparr>ds_secret_hash := new_hash,
              ds_previous_secret_hash := Some (ds_secret_hash device_session),
              ds_previous_secret_valid_until :=
                Some (now + seconds USER_SESSION_PREVIOUS_SECRET_SECONDS),
              ds_secret_rotated_at := now,
              ds_recent_authenticated_at := Some authenticated_at,
              ds_updated_at := now\<rparr>)) (\<lambda>n.
                              if n \<noteq> 1 then bnd rollback (\<lambda>_.
                   bnd (db_get t_login_transaction (lt_id transaction)) (\<lambda>current.
                   reject_callback current (lt_correlation_id transaction) (rejected ''device_session_changed'')))
     else bnd (set_login_transaction transaction (completed (ds_id device_session) now)) (\<lambda>_.
          bnd (replace_provider_logout_continuation (ds_id device_session) hint now) (\<lambda>_.
          bnd (record_confirmed_identity_status external_identity ''active'' now
         (lt_correlation_id transaction) (Some (ds_id device_session)) False) (\<lambda>_.
          bnd (record_login_event ''session_credential_rotated'' ''recent_authentication'' transaction None
         (ds_user_id device_session) external_identity (ds_id device_session)) (\<lambda>_.
          bnd (record_login_event ''recent_authentication_succeeded'' ''email_verification_completed''
         transaction None (ds_user_id device_session) external_identity (ds_id device_session)) (\<lambda>_.
          bnd commit (\<lambda>_.
          ret (session_cookies app (ds_id device_session) new_secret
              (recent_authentication_redirect transaction ''confirmed''))))))))))))"

definition complete_recent_authentication ::
  "app_state \<Rightarrow> http_request \<Rightarrow> login_transaction \<Rightarrow> validated_external_identity \<Rightarrow> string option \<Rightarrow>
     int \<Rightarrow> response action" where
  "complete_recent_authentication app request transaction claims hint now =
     (if ve_authentication_context claims \<noteq> Some RECENT_AUTHENTICATION_EMAIL_ACR
      then refuse transaction (rejected ''authentication_method_not_satisfied'')
      else
        (case verified_email_time claims transaction now of
           None \<Rightarrow> refuse transaction (rejected ''authentication_not_fresh'')
         | Some authenticated_at \<Rightarrow>
             bnd (try_catch
                 (bnd (resolve_user_session_credential
                      (cookie_or_empty request (as_user_session_cookie_name app)) now) (\<lambda>c.
                  ret (Some c)))
                 (\<lambda>e. case e of UserSessionCredentialRejected _ _ \<Rightarrow> ret None | _ \<Rightarrow> raise e)) (\<lambda>credential.
             case credential of
                 None \<Rightarrow> refuse transaction (rejected ''device_session_not_valid'')
               | Some c \<Rightarrow>
                   (let device_session = rc_device_session c in
                   if lt_requested_session_id transaction \<noteq> Some (ds_id device_session)
                     then refuse transaction (rejected ''device_session_mismatch'')
                     else bnd (db_select t_external_identity
                         (identity_named (ve_issuer claims) (ve_subject claims))) (\<lambda>found.
                          bnd (db_get t_user_account (ds_user_id device_session)) (\<lambda>user.
                          case first_of found of
                         None \<Rightarrow> refuse transaction (rejected ''external_identity_mismatch'')
                       | Some external_identity \<Rightarrow>
                           if xi_status external_identity \<noteq> ''active'' \<or>
                              xi_user_id external_identity \<noteq> ds_user_id device_session \<or>
                              \<not> user_active user
                           then refuse transaction (rejected ''external_identity_mismatch'')
                           else confirm_recent_authentication app transaction device_session
                                  external_identity hint authenticated_at now))))))"

section \<open>A new session\<close>

definition store_device_session ::
  "http_request \<Rightarrow> user_account \<Rightarrow> workspace \<Rightarrow> organization \<Rightarrow> string \<Rightarrow> int \<Rightarrow> int \<Rightarrow>
     device_session action" where
  "store_device_session request user workspace organization hashed authenticated_at now = bnd (new_device_session (\<lambda>s. s\<lparr>
       ds_user_id := us_id user,
       ds_active_workspace_id := ws_id workspace,
       ds_active_organization_id := og_id organization,
       ds_secret_hash := hashed,
       ds_secret_rotated_at := now,
       ds_recent_authenticated_at := Some authenticated_at,
       ds_device_description := coarse_device_description (header request ''user-agent''),
       ds_idle_expires_at := now + seconds USER_SESSION_IDLE_SECONDS,
       ds_last_seen_at := now,
       ds_created_at := now,
       ds_updated_at := now\<rparr>)) (\<lambda>device_session.
                                                                                          bnd (add_device_session device_session) (\<lambda>_.
                                                                                          ret device_session))"

definition create_session ::
  "http_request \<Rightarrow> login_transaction \<Rightarrow> user_account \<Rightarrow> workspace \<Rightarrow> organization \<Rightarrow>
     external_identity \<Rightarrow> string \<Rightarrow> string option \<Rightarrow> bool \<Rightarrow> string option \<Rightarrow> int \<Rightarrow> int \<Rightarrow>
     device_session action" where
  "create_session request transaction user workspace organization external_identity hashed hint
       onboarding_created failure_step authenticated_at now = bnd (store_device_session request user workspace organization hashed
       authenticated_at now) (\<lambda>device_session.
                                                              bnd (only_if onboarding_created (inject_personal_onboarding_failure failure_step ''device_session'')) (\<lambda>_.
                                                              bnd (set_login_transaction transaction (completed (ds_id device_session) now)) (\<lambda>_.
                                                              bnd (replace_provider_logout_continuation (ds_id device_session) hint now) (\<lambda>_.
                                                              bnd (only_if onboarding_created
       (record_login_event ''onboarding_success'' ''personal_account_created'' transaction None
          (us_id user) external_identity (ds_id device_session))) (\<lambda>_.
                                                              bnd (record_login_event ''session_created'' ''oidc_callback'' transaction
       (xi_account_link_correlation_id external_identity) (us_id user) external_identity
       (ds_id device_session)) (\<lambda>_.
                                                              bnd (record_login_event ''login_success''
       (if onboarding_created then ''personal_account_onboarding'' else ''linked_external_identity'')
       transaction (xi_account_link_correlation_id external_identity) (us_id user)
       external_identity (ds_id device_session)) (\<lambda>_.
                                                              bnd commit (\<lambda>_.
                                                              ret device_session))))))))"

definition sign_in ::
  "app_state \<Rightarrow> http_request \<Rightarrow> login_transaction \<Rightarrow> user_account option \<Rightarrow>
     organization_member option \<Rightarrow> external_identity \<Rightarrow> string option \<Rightarrow> bool \<Rightarrow> int \<Rightarrow> int \<Rightarrow>
     response action" where
  "sign_in app request transaction user membership external_identity hint onboarding_created
       authenticated_at now =
     (case (user, membership) of
        (Some u, Some m) \<Rightarrow>
          if us_status u \<noteq> ''active''
          then refuse transaction (rejected ''account_scope_not_active'')
          else bnd (db_get t_workspace (om_workspace_id m)) (\<lambda>workspace.
               bnd (db_get t_organization (om_organization_id m)) (\<lambda>organization.
               case (workspace, organization) of
              (Some ws, Some og) \<Rightarrow>
                if \<not> scope_active workspace organization
                then refuse transaction (rejected ''account_scope_not_active'')
                else bnd random_token (\<lambda>session_secret.
                     bnd (secret_hash session_secret) (\<lambda>hashed.
                     bnd (record_confirmed_identity_status external_identity ''active'' now
                    (lt_correlation_id transaction) None False) (\<lambda>_.
                     bnd (try_catch
                    (bnd (create_session request transaction u ws og external_identity hashed hint
                         onboarding_created (as_personal_onboarding_failure_step app)
                         authenticated_at now) (\<lambda>s.
                     ret (Inr s)))
                    (\<lambda>e. if is_onboarding_failure e \<and> onboarding_created
                         then bnd (rollback_personal_onboarding (lt_id transaction)
                             (lt_correlation_id transaction)) (\<lambda>r.
                              ret (Inl r))
                         else raise e)) (\<lambda>created.
                     case created of
                    Inl response \<Rightarrow> ret response
                  | Inr device_session \<Rightarrow>
                      ret (session_cookies app (ds_id device_session) session_secret
                             ((redirect_response (lt_return_to transaction))
                              \<lparr>re_correlation_id := Some (lt_correlation_id transaction)\<rparr>))))))
            | _ \<Rightarrow> refuse transaction (rejected ''account_scope_not_active'')))
      | _ \<Rightarrow> refuse transaction (rejected ''account_scope_not_active''))"
section \<open>The callback\<close>

text \<open>The user, the membership and the identity a login signs in, or the refusal of the login.\<close>

definition known_account ::
  "external_identity \<Rightarrow> (user_account option \<times> organization_member option) action" where
  "known_account external_identity = bnd (db_get t_user_account (xi_user_id external_identity)) (\<lambda>user.
                                     bnd (db_select t_organization_member
       (\<lambda>m. om_user_id m = xi_user_id external_identity \<and> om_status m = ''active'')) (\<lambda>members.
                                     ret (user, first_of (sort_key (\<lambda>m. (om_created_at m, om_id m)) members))))"

definition onboard ::
  "app_state \<Rightarrow> http_request \<Rightarrow> login_transaction \<Rightarrow> validated_external_identity \<Rightarrow> string option \<Rightarrow>
     int \<Rightarrow> int \<Rightarrow> response action" where
  "onboard app request transaction claims hint authenticated_at now = bnd (try_catch
       (bnd (create_personal_onboarding claims (as_personal_onboarding_failure_step app)) (\<lambda>r.
        ret (Inr r)))
       (\<lambda>e. if is_onboarding_failure e
            then bnd (rollback_personal_onboarding (lt_id transaction) (lt_correlation_id transaction)) (\<lambda>r.
                 ret (Inl r))
            else raise e)) (\<lambda>created.
                                                                      case created of
       Inl response \<Rightarrow> ret response
     | Inr parts \<Rightarrow>
         (case parts of (user, membership, external_identity) \<Rightarrow>
            sign_in app request transaction (Some user) (Some membership) external_identity hint
              True authenticated_at now))"

definition complete_login ::
  "app_state \<Rightarrow> http_request \<Rightarrow> login_transaction \<Rightarrow> validated_external_identity \<Rightarrow>
     external_identity option \<Rightarrow> string option \<Rightarrow> int \<Rightarrow> response action" where
  "complete_login app request transaction claims found hint now =
     (case verified_email_time claims transaction now of
        None \<Rightarrow> refuse transaction (rejected ''authentication_method_not_satisfied'')
      | Some authenticated_at \<Rightarrow>
          bnd (if found = None then legacy_user_matching_email (ve_email claims) else ret None) (\<lambda>legacy_user.
          if \<not> admits_login (as_identity_rollout_policy app) (ve_email claims) (found \<noteq> None)
                 (legacy_user \<noteq> None)
            then refuse transaction ((rejected ''rollout_stage_not_eligible'')
                   \<lparr>rj_error := ''identity_rollout_denied'', rj_status_code := 403\<rparr>)
            else
              (case found of
                 None \<Rightarrow>
                   if legacy_user \<noteq> None then require_explicit_account_link transaction claims
                   else onboard app request transaction claims hint authenticated_at now
               | Some external_identity \<Rightarrow>
                   if xi_status external_identity \<noteq> ''active''
                   then refuse transaction (rejected ''external_identity_not_active'')
                   else bnd (known_account external_identity) (\<lambda>account.
                        sign_in app request transaction (fst account) (snd account)
                       external_identity hint False authenticated_at now))))"

text \<open>
  The identity's status decides first: a confirmed inactive status takes its effect whatever
  becomes of the login.
\<close>

definition complete_for_identity ::
  "app_state \<Rightarrow> http_request \<Rightarrow> login_transaction \<Rightarrow> oidc_token_response \<Rightarrow>
     validated_external_identity \<Rightarrow> string \<Rightarrow> int \<Rightarrow> response action" where
  "complete_for_identity app request transaction tokens claims identity_status now = bnd (db_select t_external_identity
       (identity_named (ve_issuer claims) (ve_subject claims))) (\<lambda>matches.
                                                                                     let found = first_of matches in
                                                                                     bnd (case found of
       None \<Rightarrow> ret ()
     | Some external_identity \<Rightarrow>
         only_if (identity_status \<in> set inactive_identity_statuses)
           (bnd (record_confirmed_identity_status external_identity identity_status now
                (lt_correlation_id transaction) (lt_requested_session_id transaction) True) (\<lambda>_.
            ret ()))) (\<lambda>_.
                                                                                     if identity_status \<noteq> ''active''
     then refuse transaction (rejected ''identity_status_inactive'')
     else if lt_purpose transaction = ''recent_authentication''
     then complete_recent_authentication app request transaction claims (ot_logout_hint tokens) now
     else if lt_purpose transaction \<noteq> ''login''
     then refuse transaction (rejected ''transaction_purpose_invalid'')
     else complete_login app request transaction claims found (ot_logout_hint tokens) now))"

definition complete_claimed_callback ::
  "app_state \<Rightarrow> http_request \<Rightarrow> login_transaction \<Rightarrow> string \<Rightarrow> int \<Rightarrow> response action" where
  "complete_claimed_callback app request transaction code now =
     (if \<not> oidc_login_enabled (as_identity_rollout_policy app)
      then refuse transaction ((rejected ''identity_rollout_disabled'')
             \<lparr>rj_error := ''identity_login_disabled'', rj_status_code := 503\<rparr>)
      else
        (case as_customer_identity_provider app of
           None \<Rightarrow> raise AssertionError
         | Some ip \<Rightarrow>
             ask_or_refuse
               (\<lambda>n. ip_exchange_code ip n code (lt_redirect_uri transaction)
                  (lt_pkce_verifier transaction))
               (refused_step transaction ''token_exchange_unavailable''
                  (rejected ''code_exchange_failed'')) (\<lambda>tokens.
             ask_or_refuse
               (\<lambda>n. ip_validate_id_token ip n (ot_id_token tokens) (ip_client_id ip))
               (refused_step transaction ''token_validation_unavailable''
                  (rejected ''invalid_id_token'')) (\<lambda>claims.
             ask_or_refuse (ip_discover ip)
               (refused_step transaction ''discovery_unavailable''
                  ((rejected ''discovery_failed'')\<lparr>rj_status_code := 502\<rparr>)) (\<lambda>discovery.
             if ve_issuer claims \<noteq> od_issuer discovery
             then refuse transaction (rejected ''issuer_mismatch'')
             else bnd (secret_hash (ve_nonce claims)) (\<lambda>nonce_hash.
                  if nonce_hash \<noteq> lt_nonce_hash transaction
               then refuse transaction (rejected ''nonce_mismatch'')
               else
                 ask_or_refuse
                   (\<lambda>n. ip_identity_status ip n (ve_issuer claims) (ve_subject claims))
                   (refused_step transaction ''identity_status_unavailable''
                      (provider_unavailable ''identity_status_unavailable'')) (\<lambda>identity_status.
                 complete_for_identity app request transaction tokens claims identity_status now)))))))"

text \<open>A callback that lost the claim answers for the state the winner left.\<close>

definition lost_claim ::
  "app_state \<Rightarrow> http_request \<Rightarrow> login_transaction \<Rightarrow> int \<Rightarrow> response action" where
  "lost_claim app request transaction now = bnd (db_get t_login_transaction (lt_id transaction)) (\<lambda>current.
                                            case current of
       None \<Rightarrow> reject_callback None (lt_correlation_id transaction) already_claimed
     | Some t \<Rightarrow>
         if lt_status t = ''completed'' then
           bnd (completed_session_response app request t now) (\<lambda>response.
           case response of
               Some r \<Rightarrow> ret r
             | None \<Rightarrow> refuse t ((rejected ''completed_transaction_replay'')
                        \<lparr>rj_terminalize_transaction := False\<rparr>))
         else reject_callback (Some t) (lt_correlation_id transaction) already_claimed)"

definition transaction_of_state :: "string \<Rightarrow> login_transaction option action" where
  "transaction_of_state state_value = bnd (secret_hash state_value) (\<lambda>state_hash.
                                      bnd (db_select t_login_transaction (\<lambda>t. lt_state_hash t = state_hash)) (\<lambda>found.
                                      ret (first_of found)))"

definition complete_login_callback ::
  "app_state \<Rightarrow> http_request \<Rightarrow> string \<Rightarrow> string \<Rightarrow> int \<Rightarrow> response action" where
  "complete_login_callback app request state_value code now = bnd (transaction_of_state state_value) (\<lambda>found.
                                                              case found of
       None \<Rightarrow>
         bnd random_token (\<lambda>correlation_id.
         reject_callback None correlation_id (rejected ''state_not_found''))
     | Some transaction \<Rightarrow>
         if lt_status transaction = ''completed'' then replayed_callback app request transaction now
         else if lt_status transaction = ''processing'' then refuse transaction already_claimed
         else if lt_status transaction \<noteq> ''pending''
         then refuse transaction (rejected ''transaction_not_pending'')
         else if lt_expires_at transaction \<le> now
         then refuse transaction (rejected ''transaction_expired'')
         else bnd (has_browser_binding request transaction) (\<lambda>bound.
              if \<not> bound then refuse transaction (rejected ''browser_binding_mismatch'')
           else bnd (claim_login_transaction transaction) (\<lambda>claimed.
                case claimed of
               None \<Rightarrow> lost_claim app request transaction now
             | Some t \<Rightarrow> complete_claimed_callback app request t code now)))"

definition reject_malformed_login_callback :: "response action" where
  "reject_malformed_login_callback = bnd random_token (\<lambda>correlation_id.
                                     reject_callback None correlation_id (rejected ''protocol_parameters_missing''))"

text \<open>The provider sent the browser back with an error.\<close>

definition provider_refusal :: "string \<Rightarrow> rejection" where
  "provider_refusal provider_error =
     (if provider_error \<in> {''temporarily_unavailable'', ''server_error''}
      then provider_unavailable (''provider_'' @ provider_error)
      else if provider_error \<noteq> ''access_denied'' then rejected ''provider_error''
      else rejected ''provider_cancelled'')"

definition refuse_pending ::
  "http_request \<Rightarrow> login_transaction \<Rightarrow> string \<Rightarrow> int \<Rightarrow> response action" where
  "refuse_pending request transaction provider_error now =
     (if lt_status transaction \<noteq> ''pending''
      then refuse transaction (rejected ''transaction_not_pending'')
      else if lt_expires_at transaction \<le> now
      then refuse transaction (rejected ''transaction_expired'')
      else bnd (has_browser_binding request transaction) (\<lambda>bound.
           refuse transaction
          (if \<not> bound then rejected ''browser_binding_mismatch''
           else provider_refusal provider_error)))"

definition reject_provider_callback ::
  "app_state \<Rightarrow> http_request \<Rightarrow> string \<Rightarrow> string \<Rightarrow> int \<Rightarrow> response action" where
  "reject_provider_callback app request state_value provider_error now = bnd (transaction_of_state state_value) (\<lambda>found.
                                                                         case found of
       None \<Rightarrow>
         bnd random_token (\<lambda>correlation_id.
         reject_callback None correlation_id (rejected ''state_not_found''))
     | Some transaction \<Rightarrow>
         bnd (if lt_status transaction = ''completed''
              then completed_session_response app request transaction now
              else ret None) (\<lambda>completed_response.
         case completed_response of
             Some r \<Rightarrow> ret r
           | None \<Rightarrow> refuse_pending request transaction provider_error now))"

end
