(* ===== verification/IdentityLogout.thy ===== *)
theory IdentityLogout
  imports SessionAuth
begin

text \<open>
  Signing a device out, and the continuation of the logout at the identity provider
  (\<^verbatim>\<open>identity_logout.py\<close>).
\<close>

section \<open>Destinations\<close>

text \<open>
  \<^verbatim>\<open>urlparse\<close>: as \<^verbatim>\<open>urlsplit\<close>, with the parameters of the last path segment cut off for the
  schemes that have them.
\<close>

definition uses_params :: "string list" where
  "uses_params = [[], ''ftp'', ''hdl'', ''prospero'', ''http'', ''https'', ''shttp'', ''rtsp'',
     ''rtsps'', ''rtspu'', ''sip'', ''sips'', ''mms'', ''sftp'', ''tel'']"

definition path_without_params :: "string \<Rightarrow> string" where
  "path_without_params path =
     (let segment = after_last (CHR ''/'') path;
          front = take (length path - length segment) path
      in front @ fst (partition_at (CHR '';'') segment))"

definition urlparse :: "string \<Rightarrow> url option" where
  "urlparse text =
     map_option (\<lambda>u. if url_scheme u \<in> set uses_params
                     then u\<lparr>url_path := path_without_params (url_path u)\<rparr> else u) (urlsplit text)"

text \<open>\<^verbatim>\<open>parse_qs(query, keep_blank_values=True).get(name, [])\<close>, for names and values in ASCII.\<close>

definition plus_as_blank :: "string \<Rightarrow> string" where
  "plus_as_blank s = map (\<lambda>c. if c = CHR ''+'' then CHR '' '' else c) s"

definition query_values :: "string \<Rightarrow> string \<Rightarrow> string list" where
  "query_values query name =
     map (\<lambda>p. unquote (plus_as_blank (snd (snd (partition_at (CHR ''='') p)))))
       (filter (\<lambda>p. p \<noteq> [] \<and> unquote (plus_as_blank (fst (partition_at (CHR ''='') p))) = name)
         (split_on (CHR ''&'') query))"

definition url_origin :: "url \<Rightarrow> string \<times> string" where
  "url_origin u = (casefold (url_scheme u), casefold (url_netloc u))"

definition plain_https :: "url \<Rightarrow> bool" where
  "plain_https u \<longleftrightarrow> url_scheme u = ''https'' \<and> url_netloc u \<noteq> [] \<and> url_username u = None \<and>
     url_password u = None \<and> url_fragment u = []"

definition valid_end_session_endpoint :: "string \<Rightarrow> string \<Rightarrow> bool option" where
  "valid_end_session_endpoint endpoint issuer =
     (case (urlparse endpoint, urlparse issuer) of
        (Some e, Some i) \<Rightarrow>
          Some (plain_https e \<and> url_query e = [] \<and> url_path e \<noteq> [] \<and> url_origin e = url_origin i)
      | _ \<Rightarrow> None)"

definition valid_end_session_redirect :: "string \<Rightarrow> string \<Rightarrow> string \<Rightarrow> bool option" where
  "valid_end_session_redirect redirect_to endpoint post_logout_redirect_uri =
     (case (urlparse redirect_to, urlparse endpoint) of
        (Some r, Some e) \<Rightarrow>
          Some (plain_https r \<and> url_origin r = url_origin e \<and> url_path r = url_path e \<and>
                query_values (url_query r) ''post_logout_redirect_uri'' = [post_logout_redirect_uri])
      | _ \<Rightarrow> None)"

text \<open>
  The redirect, the outcome and the reason code. A \<^verbatim>\<open>ValueError\<close> of a malformed URL counts as a
  rejected destination.
\<close>

type_synonym end_session = "string option \<times> string \<times> string"

definition end_session_rejected :: end_session where
  "end_session_rejected = (None, ''failure'', ''end_session_destination_rejected'')"

definition prepare_end_session_redirect ::
  "customer_identity_provider option \<Rightarrow> string \<Rightarrow> string option \<Rightarrow> end_session action" where
  "prepare_end_session_redirect provider post_logout_redirect_uri logout_hint =
     (case provider of
        None \<Rightarrow> raise AttributeError
      | Some ip \<Rightarrow>
          try_catch
            (bnd (ask_provider (ip_discover ip)) (\<lambda>discovery.
             case od_end_session_endpoint discovery of
                 None \<Rightarrow> ret (None, ''success'', ''end_session_not_configured'')
               | Some endpoint \<Rightarrow>
                   if valid_end_session_endpoint endpoint (od_issuer discovery) \<noteq> Some True
                   then ret end_session_rejected
                   else bnd (ask_provider
                       (\<lambda>n. ip_end_session_url ip n post_logout_redirect_uri logout_hint)) (\<lambda>redirect_to.
                        case redirect_to of
                       None \<Rightarrow> ret end_session_rejected
                     | Some location \<Rightarrow>
                         if valid_end_session_redirect location endpoint post_logout_redirect_uri
                              \<noteq> Some True
                         then ret end_session_rejected
                         else ret (Some location, ''success'', ''end_session_redirect_prepared''))))
            (\<lambda>e. if e = CustomerIdentityProviderUnavailable
                 then ret (None, ''failure'', ''provider_unavailable'')
                 else if e = CustomerIdentityProviderError
                 then ret (None, ''failure'', ''provider_error'')
                 else raise e))"

section \<open>Signing out\<close>

definition PROVIDER_LOGOUT_COOKIE :: string where
  "PROVIDER_LOGOUT_COOKIE = ''__Host-ai_scdc_provider_logout''"

definition PROVIDER_LOGOUT_CONTINUATION_PATH :: string where
  "PROVIDER_LOGOUT_CONTINUATION_PATH = ''/auth/logout/provider''"

definition PROVIDER_LOGOUT_CONTINUATION_SECONDS :: int where
  "PROVIDER_LOGOUT_CONTINUATION_SECONDS = 120"

definition newest_continuation ::
  "provider_logout_continuation list \<Rightarrow> provider_logout_continuation option" where
  "newest_continuation cs = first_of (rev (sort_key (\<lambda>c. (plc_created_at c, plc_id c)) cs))"

definition latest_provider_logout_continuation ::
  "string \<Rightarrow> provider_logout_continuation option action" where
  "latest_provider_logout_continuation device_session_id = bnd (db_select t_provider_logout_continuation
       (\<lambda>c. plc_device_session_id c = device_session_id \<and> plc_status c = ''available'' \<and>
            plc_sealed_provider_hint c \<noteq> None)) (\<lambda>candidates.
                                                           ret (newest_continuation candidates))"

definition prepare_continuation ::
  "provider_logout_continuation \<Rightarrow> string \<Rightarrow> int \<Rightarrow> string action" where
  "prepare_continuation continuation correlation_id now = bnd random_token (\<lambda>continuation_secret.
                                                          bnd (hash_session_secret continuation_secret) (\<lambda>secret_hash.
                                                          bnd (set_provider_logout_continuation continuation (\<lambda>c. c\<lparr>
       plc_status := ''prepared'',
       plc_correlation_id := Some correlation_id,
       plc_browser_secret_hash := Some secret_hash,
       plc_browser_secret_expires_at := Some (now + seconds PROVIDER_LOGOUT_CONTINUATION_SECONDS),
       plc_consumed_at := None,
       plc_updated_at := now\<rparr>)) (\<lambda>prepared.
                                                          bnd commit (\<lambda>_.
                                                          ret (plc_id prepared @ ''.'' @ continuation_secret)))))"

definition consume_continuation ::
  "provider_logout_continuation option \<Rightarrow> string \<Rightarrow> int \<Rightarrow> unit action" where
  "consume_continuation continuation correlation_id now =
     (case continuation of
        None \<Rightarrow> ret ()
      | Some c \<Rightarrow>
          bnd (set_provider_logout_continuation c (\<lambda>c. c\<lparr>
              plc_sealed_provider_hint := None,
              plc_status := ''consumed'',
              plc_correlation_id := Some correlation_id,
              plc_browser_secret_hash := None,
              plc_browser_secret_expires_at := None,
              plc_consumed_at := Some now,
              plc_updated_at := now\<rparr>)) (\<lambda>_.
          ret ()))"

definition record_provider_logout ::
  "end_session \<Rightarrow> string \<Rightarrow> string option \<Rightarrow> string option \<Rightarrow> unit action" where
  "record_provider_logout prepared correlation_id user_id device_session_id =
     (case prepared of (_, outcome, reason) \<Rightarrow>
        bnd (record_identity_audit_event
            ((identity_audit_defaults ''provider_logout'' outcome reason correlation_id)
             \<lparr>ia_user_id := user_id, ia_device_session_id := device_session_id, ia_commit := False\<rparr>)) (\<lambda>_.
        commit))"

text \<open>
  First the session is revoked and committed; then the provider is asked. Its hint was read
  before that commit; the continuation's row is written afterwards.
\<close>

definition sign_out_current_device ::
  "app_state \<Rightarrow> customer_identity_provider option \<Rightarrow> device_session \<Rightarrow> int \<Rightarrow> response action" where
  "sign_out_current_device app provider device_session now = bnd random_token (\<lambda>correlation_id.
                                                             bnd (latest_provider_logout_continuation (ds_id device_session)) (\<lambda>continuation.
                                                             let logout_hint = Option.bind continuation plc_sealed_provider_hint in
                                                             bnd (set_device_session device_session (session_revoked now)) (\<lambda>revoked.
                                                             bnd (record_identity_audit_event
       ((identity_audit_defaults ''session_signed_out'' ''success'' ''current_device_revoked''
           correlation_id)
        \<lparr>ia_user_id := Some (ds_user_id revoked), ia_device_session_id := Some (ds_id revoked),
         ia_commit := False\<rparr>)) (\<lambda>_.
                                                             bnd commit (\<lambda>_.
                                                             bnd (set_request (\<lambda>q. q\<lparr>rq_cookie_rotation := None\<rparr>)) (\<lambda>_.
                                                             bnd (prepare_end_session_redirect provider (as_public_origin app @ ''/'') logout_hint) (\<lambda>prepared.
                                                             let done_response = (plain_response 200)\<lparr>re_deleted_cookies := [as_user_session_cookie_name app],
           re_correlation_id := Some correlation_id\<rparr> in
                                                             case (fst prepared, continuation) of
       (Some redirect_to, Some c) \<Rightarrow>
         bnd (prepare_continuation c correlation_id now) (\<lambda>continuation_cookie.
         ret (done_response\<lparr>re_location := Some PROVIDER_LOGOUT_CONTINUATION_PATH,
             re_set_cookies := [(PROVIDER_LOGOUT_COOKIE, continuation_cookie)]\<rparr>))
     | (redirect_to, _) \<Rightarrow>
         bnd (consume_continuation continuation correlation_id now) (\<lambda>_.
         bnd (record_provider_logout prepared correlation_id (Some (ds_user_id revoked))
             (Some (ds_id revoked))) (\<lambda>_.
         ret (done_response\<lparr>re_location := redirect_to\<rparr>))))))))))"

section \<open>Continuing at the provider\<close>

definition provider_logout_redirect_response :: "string \<Rightarrow> response" where
  "provider_logout_redirect_response redirect_to =
     (redirect_response redirect_to)\<lparr>re_deleted_cookies := [PROVIDER_LOGOUT_COOKIE]\<rparr>"

definition continuation_usable :: "provider_logout_continuation \<Rightarrow> string \<Rightarrow> int \<Rightarrow> bool" where
  "continuation_usable c secret_hash now \<longleftrightarrow>
     plc_status c = ''prepared'' \<and> plc_sealed_provider_hint c \<noteq> None \<and>
     plc_browser_secret_hash c = Some secret_hash \<and>
     (case plc_browser_secret_expires_at c of None \<Rightarrow> False | Some t \<Rightarrow> now < t) \<and>
     plc_consumed_at c = None"

definition continue_with ::
  "customer_identity_provider option \<Rightarrow> string \<Rightarrow> provider_logout_continuation \<Rightarrow> int \<Rightarrow>
     response action" where
  "continue_with provider fallback continuation now = bnd (case provider of
          None \<Rightarrow> ret (None, ''failure'', ''identity_rollout_disabled'')
        | Some _ \<Rightarrow> prepare_end_session_redirect provider fallback
                     (plc_sealed_provider_hint continuation)) (\<lambda>prepared.
                                                      bnd sync (\<lambda>_.
                                                      bnd (db_update_where t_provider_logout_continuation t_provider_logout_continuation_update
       (\<lambda>c. plc_id c = plc_id continuation \<and> plc_status c = ''prepared'' \<and>
            plc_browser_secret_hash c = plc_browser_secret_hash continuation \<and>
            plc_consumed_at c = None)
       (\<lambda>c. c\<lparr>plc_sealed_provider_hint := None, plc_status := ''consumed'',
              plc_browser_secret_hash := None, plc_consumed_at := Some now,
              plc_updated_at := now\<rparr>)) (\<lambda>consumed.
                                                      if consumed \<noteq> 1 then bnd rollback (\<lambda>_.
                          ret (provider_logout_redirect_response fallback))
     else bnd (db_get t_device_session (plc_device_session_id continuation)) (\<lambda>device_session.
          bnd (token_or (plc_correlation_id continuation)) (\<lambda>correlation_id.
          bnd (record_provider_logout prepared correlation_id (map_option ds_user_id device_session)
         (Some (plc_device_session_id continuation))) (\<lambda>_.
          ret (provider_logout_redirect_response
              (case fst prepared of None \<Rightarrow> fallback | Some location \<Rightarrow> location))))))))"

definition continue_provider_logout ::
  "app_state \<Rightarrow> http_request \<Rightarrow> customer_identity_provider option \<Rightarrow> int \<Rightarrow> response action" where
  "continue_provider_logout app request provider now =
     (let fallback = as_public_origin app @ ''/'' in
      case partition_at (CHR ''.'') (cookie_or_empty request PROVIDER_LOGOUT_COOKIE) of
        (continuation_id, separator, continuation_secret) \<Rightarrow>
          if \<not> separator then ret (provider_logout_redirect_response fallback)
          else bnd (db_get t_provider_logout_continuation continuation_id) (\<lambda>found.
               bnd (hash_session_secret continuation_secret) (\<lambda>secret_hash.
               case found of
              None \<Rightarrow> ret (provider_logout_redirect_response fallback)
            | Some continuation \<Rightarrow>
                if continuation_usable continuation secret_hash now
                then continue_with provider fallback continuation now
                else ret (provider_logout_redirect_response fallback))))"

end
