(* ===== verification/AccountLinks.thy ===== *)
theory AccountLinks
  imports SessionAuth
begin

text \<open>
  The link of an external identity to a legacy account, made by an operator from a pending
  recovery (\<^verbatim>\<open>account_link_recovery.py\<close>).
\<close>

record account_link_create =
  al_correlation_id :: json
  al_issuer :: json
  al_subject :: json
  al_user_id :: json
  al_reason :: json

record account_link_read =
  aw_correlation_id :: string
  aw_user_id :: string
  aw_external_identity_id :: string

definition account_link_reasons :: "string list" where
  "account_link_reasons = [''legacy_account_migration'', ''verified_support_recovery'']"

definition link_reason :: "string option \<Rightarrow> string option" where
  "link_reason reason =
     (case reason of
        None \<Rightarrow> None
      | Some r \<Rightarrow> if r \<in> set account_link_reasons then Some r else None)"

definition reject_account_link ::
  "string \<Rightarrow> string \<Rightarrow> string option \<Rightarrow> string \<Rightarrow> int \<Rightarrow> string \<Rightarrow> 'a action" where
  "reject_account_link correlation_id actor_user_id operator_reason reason_code status detail = bnd (record_identity_audit_event
       ((identity_audit_defaults ''account_link_rejected'' ''failure'' reason_code
           (if correlation_id = [] then ''missing_correlation'' else correlation_id))
        \<lparr>ia_actor_user_id := Some actor_user_id,
         ia_operator_reason := link_reason operator_reason\<rparr>)) (\<lambda>_.
                                                                                                raise (http status detail))"

text \<open>Issuer, subject, user and reason of a request whose five fields are all given.\<close>

definition normalized_request ::
  "account_link_create \<Rightarrow> (string \<times> string \<times> string \<times> string) option" where
  "normalized_request data =
     (let text = (\<lambda>j. str_or (stripped_text j) []) in
      if text (al_correlation_id data) = [] \<or> text (al_issuer data) = [] \<or>
         text (al_subject data) = [] \<or> text (al_user_id data) = []
      then None
      else map_option (\<lambda>r. (text (al_issuer data), text (al_subject data), text (al_user_id data), r))
             (link_reason (stripped_text (al_reason data))))"

text \<open>The join over the user's active memberships and the active legacy organizations.\<close>

definition has_legacy_membership :: "db \<Rightarrow> string \<Rightarrow> bool" where
  "has_legacy_membership d user_id \<longleftrightarrow>
     list_ex (\<lambda>m. om_user_id m = user_id \<and> om_status m = ''active'' \<and>
        (case map_of (t_organization d) (om_organization_id m) of
           None \<Rightarrow> False
         | Some og \<Rightarrow> og_status og = ''active'' \<and> og_account_kind og = AK_LEGACY))
       (rows (t_organization_member d))"

definition email_key :: "string option \<Rightarrow> string" where
  "email_key email = lower (strip (str_or email []))"

text \<open>The write: the identity and the completed recovery, in one transaction.\<close>

definition write_account_link ::
  "string \<Rightarrow> string \<Rightarrow> string \<Rightarrow> account_link_recovery \<Rightarrow> user_account \<Rightarrow> string \<Rightarrow> string \<Rightarrow>
     external_identity action" where
  "write_account_link actor_user_id correlation_id operator_reason recovery user issuer subject = bnd (new_external_identity (\<lambda>x. x\<lparr>
       xi_issuer := issuer,
       xi_subject := subject,
       xi_user_id := us_id user,
       xi_email := Some (ar_verified_email recovery),
       xi_account_link_correlation_id := Some correlation_id\<rparr>)) (\<lambda>external_identity.
                                                                                                  bnd (add_external_identity external_identity) (\<lambda>_.
                                                                                                  bnd utc_now (\<lambda>completed_at.
                                                                                                  bnd (set_account_link_recovery recovery (\<lambda>r. r\<lparr>
       ar_status := ''completed'',
       ar_target_user_id := Some (us_id user),
       ar_completed_at := Some completed_at\<rparr>)) (\<lambda>_.
                                                                                                  bnd (record_identity_audit_event
       ((identity_audit_defaults ''account_link_created'' ''success'' ''operator_mapping''
           correlation_id)
        \<lparr>ia_actor_user_id := Some actor_user_id, ia_operator_reason := Some operator_reason,
         ia_user_id := Some (us_id user),
         ia_external_identity_id := Some (xi_id external_identity), ia_commit := False\<rparr>)) (\<lambda>_.
                                                                                                  bnd commit (\<lambda>_.
                                                                                                  ret external_identity))))))"

definition link_pending_recovery ::
  "auth_context \<Rightarrow> string \<Rightarrow> string \<Rightarrow> account_link_recovery \<Rightarrow> string \<Rightarrow> string \<Rightarrow> string \<Rightarrow>
     account_link_read action" where
  "link_pending_recovery auth correlation_id operator_reason recovery issuer subject user_id = (let reject = (\<lambda>reason status detail. reject_account_link correlation_id (ac_user_id auth)
           (Some operator_reason) reason status detail) in
                                                                                               bnd (db_get t_user_account user_id) (\<lambda>found.
                                                                                               bnd (gets (\<lambda>w. has_legacy_membership (w_db w) user_id)) (\<lambda>legacy.
                                                                                               case found of
       None \<Rightarrow> reject ''target_not_in_operator_scope'' 404 ''Target legacy User was not found''
     | Some user \<Rightarrow>
         if us_status user \<noteq> ''active'' \<or> \<not> legacy
         then reject ''target_not_in_operator_scope'' 404 ''Target legacy User was not found''
         else if email_key (us_email user) \<noteq> ar_verified_email recovery
         then reject ''target_email_mismatch'' 409 ''Target User does not match the verified email''
         else bnd (db_select t_external_identity (identity_named issuer subject)) (\<lambda>existing_identity.
              if existing_identity \<noteq> []
           then reject ''external_identity_already_linked'' 409 ''External Identity is already linked''
           else bnd (try_catch
               (write_account_link (ac_user_id auth) correlation_id operator_reason recovery user
                  issuer subject)
               (\<lambda>e. if e = IntegrityError
                    then bnd rollback (\<lambda>_.
                         reject_account_link correlation_id (ac_user_id auth) (Some operator_reason)
                        ''account_link_conflict'' 409 ''Account link recovery is no longer pending'')
                    else raise e)) (\<lambda>external_identity.
                ret \<lparr>aw_correlation_id = correlation_id, aw_user_id = us_id user,
                  aw_external_identity_id = xi_id external_identity\<rparr>)))))"

definition create_account_link ::
  "auth_context \<Rightarrow> account_link_create \<Rightarrow> string list \<Rightarrow> account_link_read action" where
  "create_account_link auth data operator_user_ids = (let correlation_id = str_or (stripped_text (al_correlation_id data)) [] in
                                                     let supplied_reason = stripped_text (al_reason data) in
                                                     bnd (only_if (\<not> may_operate auth operator_user_ids)
       (reject_account_link correlation_id (ac_user_id auth) supplied_reason
          ''operator_not_authorized'' 403 ''Account link operation is not authorized'')) (\<lambda>_.
                                                     case normalized_request data of
       None \<Rightarrow>
         reject_account_link correlation_id (ac_user_id auth) None
           ''invalid_request'' 400 ''Account link request is invalid''
     | Some (issuer, subject, user_id, operator_reason) \<Rightarrow>
         bnd (db_select t_account_link_recovery
             (\<lambda>r. ar_correlation_id r = correlation_id)) (\<lambda>found.
         case first_of found of
             None \<Rightarrow>
               reject_account_link correlation_id (ac_user_id auth) (Some operator_reason)
                 ''recovery_not_found'' 404 ''Account link recovery was not found''
           | Some recovery \<Rightarrow>
               if ar_status recovery \<noteq> ''pending'' then
                 reject_account_link correlation_id (ac_user_id auth) (Some operator_reason)
                   ''recovery_already_used'' 409 ''Account link recovery is no longer pending''
               else if ar_issuer recovery \<noteq> issuer \<or> ar_subject recovery \<noteq> subject then
                 reject_account_link correlation_id (ac_user_id auth) (Some operator_reason)
                   ''identity_mismatch'' 409 ''External Identity does not match the recovery''
               else
                 link_pending_recovery auth correlation_id operator_reason recovery issuer subject
                   user_id)))"

end
