(* ===== verification/IdentityRoutes.thy ===== *)
theory IdentityRoutes
  imports LoginCompletion IdentityLogout AccountLinks
begin

text \<open>
  The routes of \<^verbatim>\<open>api/identity_routes.py\<close>, without those that exist for the tests only, and one
  request after the other as the application serves them.
\<close>

section \<open>Login\<close>

definition get_login :: "app_state \<Rightarrow> http_request \<Rightarrow> string \<Rightarrow> response action" where
  "get_login app request return_to =
     (if \<not> oidc_login_enabled (as_identity_rollout_policy app) then
        bnd random_token (\<lambda>correlation_id.
        bnd (only_if (as_identity_schema_ready app)
            (bnd (record_identity_audit_event
                 (identity_audit_defaults ''login_failure'' ''failure'' ''identity_rollout_disabled''
                    correlation_id)) (\<lambda>_.
             ret ()))) (\<lambda>_.
        ret (safe_failure_response ''identity_login_disabled'' correlation_id 503)))
      else
        (case as_customer_identity_provider app of
           None \<Rightarrow> raise AttributeError
         | Some provider \<Rightarrow>
             bnd utc_now (\<lambda>now.
             start_login provider return_to (as_allowed_login_return_destinations app)
                 (as_public_origin app) (as_login_transaction_ttl_seconds app) now)))"

text \<open>The device session of the request, or the refusal of a request without one.\<close>

definition require_device_session :: "string \<Rightarrow> device_session action" where
  "require_device_session detail = bnd authenticated_session (\<lambda>found.
                                   case found of None \<Rightarrow> raise (http 400 detail) | Some s \<Rightarrow> ret s)"

definition get_recent_authentication :: "app_state \<Rightarrow> http_request \<Rightarrow> string \<Rightarrow> response action" where
  "get_recent_authentication app request return_to =
     auth_context_dependency app request True (\<lambda>_.
       bnd (require_device_session ''recent_authentication_requires_user_session'') (\<lambda>device_session.
       case as_customer_identity_provider app of
           None \<Rightarrow> raise AttributeError
         | Some provider \<Rightarrow>
             bnd utc_now (\<lambda>now.
             start_recent_authentication provider device_session return_to
                 (as_allowed_recent_authentication_return_destinations app) (as_public_origin app)
                 (as_login_transaction_ttl_seconds app) now)))"

definition get_callback ::
  "app_state \<Rightarrow> http_request \<Rightarrow> string option \<Rightarrow> string option \<Rightarrow> string option \<Rightarrow> response action" where
  "get_callback app request state code error =
     (let state_value = str_or state []; code_value = str_or code []; error_value = str_or error [] in
      if state_value \<noteq> [] \<and> error_value \<noteq> [] then
        bnd utc_now (\<lambda>now.
        reject_provider_callback app request state_value error_value now)
      else if state_value = [] \<or> code_value = [] then reject_malformed_login_callback
      else
        bnd utc_now (\<lambda>now.
        complete_login_callback app request state_value code_value now))"

section \<open>Sessions\<close>

definition get_csrf_token :: "app_state \<Rightarrow> http_request \<Rightarrow> (string \<times> int) action" where
  "get_csrf_token app request =
     auth_context_dependency app request True (\<lambda>_. bnd utc_now (\<lambda>now.
                                                   issue_csrf_token now))"

text \<open>A route of a signed-in user: the context must come from a session.\<close>

definition session_route ::
  "app_state \<Rightarrow> http_request \<Rightarrow> string \<Rightarrow> (auth_context \<Rightarrow> device_session \<Rightarrow> 'a action) \<Rightarrow> 'a action" where
  "session_route app request detail handler =
     auth_context_dependency app request True (\<lambda>context.
       case context of
         None \<Rightarrow> raise AttributeError
       | Some auth \<Rightarrow>
           if ac_auth_mode auth \<noteq> ''user_session'' then raise (http 400 detail)
           else bnd (require_device_session detail) (\<lambda>device_session.
                handler auth device_session))"

definition post_logout :: "app_state \<Rightarrow> http_request \<Rightarrow> response action" where
  "post_logout app request =
     session_route app request ''sign_out_requires_user_session'' (\<lambda>auth device_session.
       bnd utc_now (\<lambda>now.
       sign_out_current_device app (as_customer_identity_provider app) device_session now))"

definition get_provider_logout :: "app_state \<Rightarrow> http_request \<Rightarrow> response action" where
  "get_provider_logout app request = bnd utc_now (\<lambda>now.
                                     continue_provider_logout app request (as_customer_identity_provider app) now)"

definition record_session_event ::
  "string \<Rightarrow> string \<Rightarrow> string \<Rightarrow> string \<Rightarrow> string \<Rightarrow> string \<Rightarrow> bool \<Rightarrow> unit action" where
  "record_session_event event_type outcome reason_code correlation_id user_id device_session_id
       commits = bnd (record_identity_audit_event
       ((identity_audit_defaults event_type outcome reason_code correlation_id)
        \<lparr>ia_user_id := Some user_id, ia_device_session_id := Some device_session_id,
         ia_commit := commits\<rparr>)) (\<lambda>_.
                 ret ())"

definition get_device_sessions ::
  "app_state \<Rightarrow> http_request \<Rightarrow> device_session_read list action" where
  "get_device_sessions app request =
     session_route app request ''device_sessions_require_user_session'' (\<lambda>auth device_session.
       bnd random_token (\<lambda>correlation_id.
       bnd utc_now (\<lambda>now.
       bnd (active_device_sessions (ac_user_id auth) (ds_id device_session) now) (\<lambda>sessions.
       bnd (record_session_event ''device_sessions_listed'' ''success'' ''active_sessions_returned''
           correlation_id (ac_user_id auth) (ds_id device_session) True) (\<lambda>_.
       ret sessions)))))"

definition revocation_refused :: "device_session list \<Rightarrow> int \<Rightarrow> string" where
  "revocation_refused owned now =
     (case first_of owned of
        None \<Rightarrow> ''target_not_active_or_not_owned''
      | Some target \<Rightarrow>
          if ds_status target = ''revoked'' then ''target_already_revoked''
          else if ds_status target = ''active'' \<and> is_idle_expired target now then ''target_expired''
          else ''target_not_active_or_not_owned'')"

definition revoke_selected_session ::
  "auth_context \<Rightarrow> device_session \<Rightarrow> string \<Rightarrow> response action" where
  "revoke_selected_session auth current_session device_session_id = bnd random_token (\<lambda>correlation_id.
                                                                    bnd utc_now (\<lambda>now.
                                                                    bnd (only_if (device_session_id = ds_id current_session)
       (bnd (record_session_event ''device_session_revocation_rejected'' ''failure''
            ''current_session_requires_sign_out'' correlation_id (ac_user_id auth)
            (ds_id current_session) True) (\<lambda>_.
        raise (HTTPException 409 (JStr ''current_device_session_requires_sign_out'')
            (Some correlation_id))))) (\<lambda>_.
                                                                    bnd (revoke_active_device_session (ac_user_id auth) device_session_id now) (\<lambda>revoked.
                                                                    bnd (only_if (\<not> revoked)
       (bnd rollback (\<lambda>_.
        bnd (db_select t_device_session
            (\<lambda>s. ds_id s = device_session_id \<and> ds_user_id s = ac_user_id auth)) (\<lambda>owned.
        bnd (record_session_event ''device_session_revocation_rejected'' ''failure''
            (revocation_refused owned now) correlation_id (ac_user_id auth)
            (ds_id current_session) True) (\<lambda>_.
        raise (HTTPException 404 (JStr ''device_session_not_found'') (Some correlation_id))))))) (\<lambda>_.
                                                                    bnd (record_session_event ''device_session_revoked'' ''success'' ''selected_device_revoked''
       correlation_id (ac_user_id auth) device_session_id False) (\<lambda>_.
                                                                    bnd commit (\<lambda>_.
                                                                    ret ((plain_response 204)\<lparr>re_correlation_id := Some correlation_id\<rparr>))))))))"

definition delete_device_session :: "app_state \<Rightarrow> http_request \<Rightarrow> string \<Rightarrow> response action" where
  "delete_device_session app request device_session_id =
     session_route app request ''device_session_revocation_requires_user_session''
       (\<lambda>auth current_session. revoke_selected_session auth current_session device_session_id)"

definition revoke_other_sessions ::
  "app_state \<Rightarrow> auth_context \<Rightarrow> device_session \<Rightarrow> response action" where
  "revoke_other_sessions app auth current_session = bnd random_token (\<lambda>correlation_id.
                                                    let record = (\<lambda>event outcome reason commits. record_session_event event outcome reason
           correlation_id (ac_user_id auth) (ds_id current_session) commits) in
                                                    bnd (record ''other_device_sessions_revocation_requested'' ''success'' ''customer_requested'' False) (\<lambda>_.
                                                    bnd (try_catch
       (require_recent_authentication ''all_other_sessions_revocation'' (Some correlation_id))
       (\<lambda>e. if is_http e
            then bnd (record ''other_device_sessions_revocation_failed'' ''failure''
                ''recent_authentication_required'' True) (\<lambda>_.
                 raise e)
            else raise e)) (\<lambda>_.
                                                    bnd (record ''other_device_sessions_revocation_confirmed'' ''success''
       ''recent_authentication_confirmed'' True) (\<lambda>_.
                                                    bnd utc_now (\<lambda>now.
                                                    bnd (try_catch
       (bnd (revoke_other_active_device_sessions (ac_user_id auth) (ds_id current_session) now
            (as_device_session_revocation_failure app)) (\<lambda>_.
        bnd (record ''other_device_sessions_revoked'' ''success'' ''all_other_active_sessions_revoked''
            False) (\<lambda>_.
        commit)))
       (\<lambda>e. if is_sql_error e \<or> e = DeviceSessionRevocationOperationError
            then bnd rollback (\<lambda>_.
                 bnd (record ''other_device_sessions_revocation_failed'' ''failure''
                (if is_sql_error e then ''persistence_failed'' else ''operation_failed'') True) (\<lambda>_.
                 raise (HTTPException 503 (JStr ''device_session_revocation_failed'')
                (Some correlation_id))))
            else raise e)) (\<lambda>_.
                                                    ret ((plain_response 204)\<lparr>re_correlation_id := Some correlation_id\<rparr>)))))))"

definition post_revoke_other_device_sessions :: "app_state \<Rightarrow> http_request \<Rightarrow> response action" where
  "post_revoke_other_device_sessions app request =
     session_route app request ''device_session_revocation_requires_user_session''
       (revoke_other_sessions app)"

section \<open>Workspaces\<close>

definition accessible_scope ::
  "db \<Rightarrow> string \<Rightarrow> string \<Rightarrow> organization_member \<Rightarrow> (workspace \<times> organization) option" where
  "accessible_scope d user_id workspace_id m =
     (let workspace = map_of (t_workspace d) (om_workspace_id m);
          organization = map_of (t_organization d) (om_organization_id m)
      in case (workspace, organization) of
        (Some ws, Some og) \<Rightarrow>
          if om_user_id m = user_id \<and> om_workspace_id m = workspace_id \<and> om_status m = ''active'' \<and>
             scope_active workspace organization
          then Some (ws, og) else None
      | _ \<Rightarrow> None)"

definition select_workspace ::
  "auth_context \<Rightarrow> device_session \<Rightarrow> string \<Rightarrow> response action" where
  "select_workspace auth device_session workspace_id = bnd (gets (\<lambda>w. List.map_filter (accessible_scope (w_db w) (ac_user_id auth) workspace_id)
                             (rows (t_organization_member (w_db w))))) (\<lambda>selected.
                                                       case first_of selected of
       None \<Rightarrow>
         bnd random_token (\<lambda>correlation_id.
         bnd (record_session_event ''workspace_selection_rejected'' ''failure''
             ''workspace_not_accessible'' correlation_id (ac_user_id auth) (ds_id device_session) True) (\<lambda>_.
         raise (HTTPException 403 (JStr ''workspace_not_accessible'') (Some correlation_id))))
     | Some scope \<Rightarrow>
         bnd utc_now (\<lambda>now.
         bnd (set_device_session device_session (\<lambda>s. s\<lparr>
             ds_active_workspace_id := ws_id (fst scope),
             ds_active_organization_id := og_id (snd scope),
             ds_updated_at := now\<rparr>)) (\<lambda>_.
         bnd random_token (\<lambda>correlation_id.
         bnd (record_session_event ''workspace_selection_changed'' ''success''
             ''user_selected_workspace'' correlation_id (ac_user_id auth) (ds_id device_session) False) (\<lambda>_.
         bnd commit (\<lambda>_.
         ret ((plain_response 204)\<lparr>re_correlation_id := Some correlation_id\<rparr>)))))))"

definition put_workspace_selection :: "app_state \<Rightarrow> http_request \<Rightarrow> string \<Rightarrow> response action" where
  "put_workspace_selection app request workspace_id =
     session_route app request ''workspace_selection_requires_user_session''
       (\<lambda>auth device_session. select_workspace auth device_session workspace_id)"

section \<open>Operators\<close>

definition operator_route ::
  "app_state \<Rightarrow> http_request \<Rightarrow> (auth_context \<Rightarrow> 'a action) \<Rightarrow> 'a action" where
  "operator_route app request handler =
     auth_context_dependency app request False (\<lambda>context.
       case context of None \<Rightarrow> raise AttributeError | Some auth \<Rightarrow> handler auth)"

definition post_account_link ::
  "app_state \<Rightarrow> http_request \<Rightarrow> account_link_create \<Rightarrow> account_link_read action" where
  "post_account_link app request data =
     operator_route app request (\<lambda>auth.
       create_account_link auth data (as_identity_operator_user_ids app))"

definition post_external_identity_restoration ::
  "app_state \<Rightarrow> http_request \<Rightarrow> external_identity_restore \<Rightarrow> external_identity_restore_read action" where
  "post_external_identity_restoration app request data =
     operator_route app request (\<lambda>auth.
       case as_customer_identity_provider app of
         None \<Rightarrow> raise AttributeError
       | Some provider \<Rightarrow>
           bnd utc_now (\<lambda>now.
           restore_external_identity auth data (as_identity_operator_user_ids app) provider now))"

section \<open>The application\<close>

text \<open>A request to the identity routes, and the background sweep and rollback.\<close>

datatype identity_request =
    Login string
  | Reauthenticate string
  | Callback "string option" "string option" "string option"
  | Csrf
  | Logout
  | Provider_Logout
  | Device_Sessions
  | Revoke_Session string
  | Revoke_Others
  | Select_Workspace string
  | Link_Account account_link_create
  | Restore_Identity external_identity_restore
  | Any_Request
  | Status_Sweep int
  | Security_Rollback

definition forget :: "'a action \<Rightarrow> unit action" where
  "forget m = bnd m (\<lambda>_. ret ())"

text \<open>\<open>Any_Request\<close> stands for every other route: its authentication, and nothing else.\<close>

fun identity_route :: "app_state \<Rightarrow> http_request \<Rightarrow> identity_request \<Rightarrow> unit action" where
  "identity_route app q (Login return_to) = forget (get_login app q return_to)"
| "identity_route app q (Reauthenticate return_to) = forget (get_recent_authentication app q return_to)"
| "identity_route app q (Callback state code error) = forget (get_callback app q state code error)"
| "identity_route app q Csrf = forget (get_csrf_token app q)"
| "identity_route app q Logout = forget (post_logout app q)"
| "identity_route app q Provider_Logout = forget (get_provider_logout app q)"
| "identity_route app q Device_Sessions = forget (get_device_sessions app q)"
| "identity_route app q (Revoke_Session i) = forget (delete_device_session app q i)"
| "identity_route app q Revoke_Others = forget (post_revoke_other_device_sessions app q)"
| "identity_route app q (Select_Workspace i) = forget (put_workspace_selection app q i)"
| "identity_route app q (Link_Account data) = forget (post_account_link app q data)"
| "identity_route app q (Restore_Identity data) = forget (post_external_identity_restoration app q data)"
| "identity_route app q Any_Request = auth_context_dependency app q False (\<lambda>_. ret ())"
| "identity_route app q (Status_Sweep interval) =
     (case as_customer_identity_provider app of
        None \<Rightarrow> ret ()
      | Some provider \<Rightarrow>
          bnd utc_now (\<lambda>now.
          forget (synchronize_active_device_session_users provider now interval)))"
| "identity_route app q Security_Rollback =
     only_if (irp_security_rollback (as_identity_rollout_policy app))
       (bnd utc_now (\<lambda>now.
        forget (revoke_user_sessions_for_security_rollback now)))"

text \<open>A request starts with fresh request state in a session of its own.\<close>

definition fresh_request :: request_state where
  "fresh_request = \<lparr>rq_device_session = None, rq_cookie_rotation = None,
     rq_workspace_selection_required = False, rq_correlation_id = None\<rparr>"

definition serve_identity :: "app_state \<Rightarrow> http_request \<times> identity_request \<Rightarrow> world \<Rightarrow> world" where
  "serve_identity app rq w =
     snd (run_request (bnd (set_request (\<lambda>_. fresh_request)) (\<lambda>_.
                       bnd sync (\<lambda>_.
                       identity_route app (fst rq) (snd rq)))) w)"

definition serve_identities :: "app_state \<Rightarrow> (http_request \<times> identity_request) list \<Rightarrow> world \<Rightarrow> world" where
  "serve_identities app rqs w = fold (serve_identity app) rqs w"

end
