(* ===== verification/SessionContract.thy ===== *)
theory SessionContract
  imports IdentityRoutes
begin

text \<open>
  What every identity service keeps: an invariant of the database that looks at the device
  sessions only, and that survives the steps a session's row may take. No service leaves such an
  invariant broken, not even when it raises, so the rules ask for it on every way out.
\<close>

named_theorems calm_intros "actions that keep an invariant of the sessions on every way out"

section \<open>Actions that keep an invariant on every way out\<close>

abbreviation calm :: "(db \<Rightarrow> bool) \<Rightarrow> 'a action \<Rightarrow> bool" where
  "calm G m \<equiv> keeps (good G) (\<lambda>_. good G) m"

lemma calm_try [calm_intros]:
  "calm G m \<Longrightarrow> (\<And>e. calm G (h e)) \<Longrightarrow> calm G (try_catch m h)"
  by (rule keeps_try_catch [where C' = "\<lambda>_. good G"]) (auto dest: keepsD)

lemma calm_raise [calm_intros]: "calm G (raise e)"
  by (rule keeps_raise)

lemma calm_session [calm_intros]:
  "calm G utc_now" "calm G uuid_hex" "calm G (prefixed_id p)" "calm G random_token" "calm G sync"
  "calm G commit" "calm G rollback" "calm G (db_get tab k)" "calm G (db_select tab' P)"
  "calm G (db_refresh tab'' key r)"
  by (auto intro!: keepsI simp: wp_simps good_def sync_world_def Let_def split: option.split)

lemma calm_insert:
  assumes "\<And>d. G d \<Longrightarrow> map_of (tab d) (key r) = None \<Longrightarrow> G (upd (\<lambda>t. t @ [(key r, r)]) d)"
  shows "calm G (db_insert tab upd key clash r)"
  by (rule keepsI) (use assms in \<open>simp add: wp_simps good_def\<close>)

lemma calm_modify:
  assumes "\<And>d. G d \<Longrightarrow> G (upd (row_modify (key r) f) d)"
  shows "calm G (db_modify upd key r f)"
  by (rule keepsI) (use assms in \<open>simp add: wp_simps good_def\<close>)

lemma calm_update_where:
  assumes "\<And>d. G d \<Longrightarrow> G (upd (rows_where P f) d)"
  shows "calm G (db_update_where tab upd P f)"
  by (rule keepsI) (use assms in \<open>simp add: wp_simps good_def\<close>)

lemma calm_scope [calm_intros]: "calm G m \<Longrightarrow> calm G (auth_context_scope c m)"
  by (simp add: keeps_def wp_simps)

lemma calm_run_request [calm_intros]:
  assumes "calm G m"
  shows "calm G (run_request m)"
proof (rule keepsI)
  fix w assume "good G w"
  then have "wp m (\<lambda>_. good G) (\<lambda>_. good G) w" by (rule keepsD [OF assms])
  then have "good G (snd (m w))" by (auto simp: wp_def split: prod.splits sum.splits)
  then show "wp (run_request m) (\<lambda>_. good G) (\<lambda>_. good G) w"
    by (auto simp: wp_def run_request_def good_def split: prod.splits sum.splits)
qed

lemmas [calm_intros] = keeps_ret keeps_gets keeps_bnd keeps_only_if keeps_if keeps_option
  keeps_sum keeps_prod keeps_let keeps_for_each keeps_map_act keeps_request

lemma calm_new_row [calm_intros]:
  "calm G (new_identity_audit_event f1)" "calm G (new_provider_logout_continuation f2)"
  "calm G (new_external_identity f3)" "calm G (new_organization_member f4)"
  "calm G (new_login_transaction f5)" "calm G (new_account_link_recovery f6)"
  "calm G (new_user_account f7)" "calm G (new_organization f8)" "calm G (new_workspace f9)"
  "calm G (new_device_session f10)"
  unfolding new_row_defs by (intro calm_intros)+

lemma calm_request_good:
  assumes "calm G m" and "good G w"
  shows "good G (snd (run_request m w))"
  by (rule run_request_good [OF keeps_safe_calm [OF assms(1)] assms(2)])

section \<open>The steps of a session\<close>

text \<open>A session keeps its identifier and its user, and once it is not active it stays so.\<close>

definition session_step :: "device_session \<Rightarrow> device_session \<Rightarrow> bool" where
  "session_step s s' \<longleftrightarrow> ds_id s' = ds_id s \<and> ds_user_id s' = ds_user_id s \<and>
     (ds_status s \<noteq> ''active'' \<longrightarrow> ds_status s' \<noteq> ''active'')"

locale session_invariant =
  fixes G :: "db \<Rightarrow> bool"
  assumes ignores_identity_audit_event [simp]: "\<And>f d. G (t_identity_audit_event_update f d) = G d"
    and ignores_provider_logout_continuation [simp]:
      "\<And>f d. G (t_provider_logout_continuation_update f d) = G d"
    and ignores_external_identity [simp]: "\<And>f d. G (t_external_identity_update f d) = G d"
    and ignores_organization_member [simp]: "\<And>f d. G (t_organization_member_update f d) = G d"
    and ignores_login_transaction [simp]: "\<And>f d. G (t_login_transaction_update f d) = G d"
    and ignores_account_link_recovery [simp]: "\<And>f d. G (t_account_link_recovery_update f d) = G d"
    and ignores_user_account [simp]: "\<And>f d. G (t_user_account_update f d) = G d"
    and ignores_organization [simp]: "\<And>f d. G (t_organization_update f d) = G d"
    and ignores_workspace [simp]: "\<And>f d. G (t_workspace_update f d) = G d"
    and session_set: "\<And>d k f. G d \<Longrightarrow> (\<And>s. session_step s (f s)) \<Longrightarrow>
      G (t_device_session_update (row_modify k f) d)"
    and session_update: "\<And>d P f. G d \<Longrightarrow> (\<And>s. P s \<Longrightarrow> session_step s (f s)) \<Longrightarrow>
      G (t_device_session_update (rows_where P f) d)"
    and session_add: "\<And>d s. G d \<Longrightarrow> map_of (t_device_session d) (ds_id s) = None \<Longrightarrow>
      G (t_device_session_update (\<lambda>t. t @ [(ds_id s, s)]) d)"
begin

lemma calm_add [calm_intros]:
  "calm G (add_identity_audit_event r1)" "calm G (add_provider_logout_continuation r2)"
  "calm G (add_external_identity r3)" "calm G (add_organization_member r4)"
  "calm G (add_login_transaction r5)" "calm G (add_account_link_recovery r6)"
  "calm G (add_user_account r7)" "calm G (add_organization r8)" "calm G (add_workspace r9)"
  unfolding add_row_defs by (rule calm_insert; simp)+

lemma calm_add_session [calm_intros]: "calm G (add_device_session s)"
  unfolding add_device_session_def by (rule calm_insert) (rule session_add)

lemma calm_set [calm_intros]:
  "calm G (set_provider_logout_continuation r2 f2)" "calm G (set_external_identity r3 f3)"
  "calm G (set_login_transaction r5 f5)" "calm G (set_account_link_recovery r6 f6)"
  unfolding set_row_defs by (rule calm_modify; simp)+

lemma calm_set_session: "(\<And>s. session_step s (f s)) \<Longrightarrow> calm G (set_device_session r f)"
  unfolding set_device_session_def by (rule calm_modify) (rule session_set)

lemma calm_update [calm_intros]:
  "calm G (db_update_where t_provider_logout_continuation t_provider_logout_continuation_update P2 f2)"
  "calm G (db_update_where t_external_identity t_external_identity_update P3 f3)"
  "calm G (db_update_where t_organization_member t_organization_member_update P4 f4)"
  "calm G (db_update_where t_login_transaction t_login_transaction_update P5 f5)"
  by (rule calm_update_where; simp)+

lemma calm_update_session:
  "(\<And>s. P s \<Longrightarrow> session_step s (f s)) \<Longrightarrow>
     calm G (db_update_where t_device_session t_device_session_update P f)"
  by (rule calm_update_where) (rule session_update)

lemma calm_audit [calm_intros]: "calm G (record_identity_audit_event a)"
  unfolding record_identity_audit_event_def resolved_request_id_def resolved_audit_time_def
    next_occurred_at_def
  by (intro calm_intros; (rule keeps_modify)?; simp)

end

end
