(* ===== verification/SessionHandlers.thy ===== *)
theory SessionHandlers
  imports SessionContract
begin

text \<open>
  Every identity route keeps every invariant of the sessions: the contract of
  \<^verbatim>\<open>SessionContract\<close> for the operations in the order in which they call each other.
\<close>

lemma step_revoked [simp]: "session_step s (session_revoked now s)"
  by (simp add: session_step_def session_revoked_def)

lemma step_rotated [simp]: "session_step s (secret_rotated h p now renew s)"
  by (simp add: session_step_def secret_rotated_def Let_def)

context session_invariant
begin

section \<open>Credentials, sessions, CSRF\<close>

lemma calm_credentials [calm_intros]:
  "calm G (hash_session_secret v)" "calm G (reject_credential r c)"
  "calm G (record_credential_event e r s c')"
  unfolding hash_session_secret_def reject_credential_def record_credential_event_def
  by (intro calm_intros)+

lemma calm_check_session [calm_intros]: "calm G (check_device_session s h now)"
  unfolding check_device_session_def
  by (intro calm_intros calm_set_session; simp add: session_step_def)

lemma calm_resolve_credential [calm_intros]: "calm G (resolve_user_session_credential v now)"
  unfolding resolve_user_session_credential_def by (intro calm_intros)

lemma calm_revocations [calm_intros]:
  "calm G (active_device_sessions u c now)" "calm G (revoke_active_device_session u i now)"
  "calm G (revoke_other_active_device_sessions u c now fm)"
  unfolding active_device_sessions_def revoke_active_device_session_def
    revoke_other_active_device_sessions_def
  by (intro calm_intros calm_update_session; simp)+

lemma calm_recent [calm_intros]: "calm G (require_recent_authentication r c)"
  unfolding require_recent_authentication_def get_current_auth_context_def
  by (intro calm_intros)

lemma calm_replace_continuation [calm_intros]:
  "calm G (replace_provider_logout_continuation i h now)"
  unfolding replace_provider_logout_continuation_def by (intro calm_intros)

lemma calm_browser [calm_intros]:
  "calm G (csrf_signature k p)" "calm G authenticated_device_session"
  "calm G (reject_browser_request e r s)"
  unfolding csrf_signature_def authenticated_device_session_def reject_browser_request_def
  by (intro calm_intros)+

lemma calm_csrf [calm_intros]:
  "calm G (issue_csrf_token now)" "calm G (check_origin po q s)"
  "calm G (previous_signature_matches s now p pl)"
  unfolding issue_csrf_token_def check_origin_def previous_signature_matches_def
  by (intro calm_intros)+

lemma calm_enforce [calm_intros]:
  "calm G (check_csrf_token now s parts)" "calm G (enforce_cookie_request_protection po q now)"
  unfolding enforce_cookie_request_protection_def check_csrf_token_def
  by (intro calm_intros)+

section \<open>Rollback and status\<close>

lemma calm_rollback_session [calm_intros]: "calm G (rollback_session now i)"
  unfolding rollback_session_def by (intro calm_intros calm_update_session) simp

lemma calm_security_rollback [calm_intros]: "calm G (revoke_user_sessions_for_security_rollback now)"
  unfolding revoke_user_sessions_for_security_rollback_def by (intro calm_intros)

lemma calm_status_effects [calm_intros]:
  "calm G (sessions_revoked_of u t)" "calm G (api_tokens_revoked_of u t)"
  "calm G (record_status_event e r c x d)"
  unfolding sessions_revoked_of_def api_tokens_revoked_of_def record_status_event_def
  by (intro calm_intros calm_update_session; simp)+

lemma calm_confirmed_status [calm_intros]:
  "calm G (record_confirmed_status_effects x p c t cid d rr)"
  "calm G (record_confirmed_identity_status x c t cid d rr)"
  unfolding record_confirmed_identity_status_def record_confirmed_status_effects_def
  by (intro calm_intros)+

lemma calm_token_or [calm_intros]: "calm G (token_or v)"
  unfolding token_or_def by (intro calm_intros)

lemma calm_claims [calm_intros]:
  "calm G (claim_due_identity_status_checks u t i)" "calm G (record_failed_claim c cid d r)"
  "calm G (apply_confirmed_claim c s t cid d)"
  unfolding claim_due_identity_status_checks_def record_failed_claim_def apply_confirmed_claim_def
  by (intro calm_intros)+

lemma calm_synchronize [calm_intros]:
  "calm G (synchronize_claim ip t cid d c)"
  "calm G (synchronize_due_identity_status ip u t d cid' i)"
  unfolding synchronize_due_identity_status_def synchronize_claim_def by (intro calm_intros)+

lemma calm_sweep [calm_intros]: "calm G (synchronize_active_device_session_users ip t i)"
  unfolding synchronize_active_device_session_users_def own_session_def by (intro calm_intros)

lemma calm_restoration [calm_intros]:
  "calm G (reject_restoration c a r rc st dt)"
  "calm G (restore_confirmed_identity auth c r' x t)"
  "calm G (restore_external_identity auth data ops ip now)"
  unfolding restore_external_identity_def restore_confirmed_identity_def reject_restoration_def
  by (intro calm_intros)+

section \<open>Authentication\<close>

lemma calm_auth_parts [calm_intros]:
  "calm G (record_authentication_failure r u' d)" "calm G (invalid_user_session c)"
  "calm G (synchronize_request_identity_status app u d)" "calm G (bearer_token q)"
  "calm G (hash_api_token t)" "calm G (ensure_active_membership_scope m)" "calm G (reload_member app m)"
  "calm G (dev_context q)"
  unfolding record_authentication_failure_def invalid_user_session_def hash_api_token_def
    synchronize_request_identity_status_def bearer_token_def ensure_active_membership_scope_def
    reload_member_def dev_context_def
  by (intro calm_intros)+

lemma calm_api_token [calm_intros]:
  "calm G (api_token_auth_context app q)" "calm G (api_token_auth_context_or_audit app q)"
  unfolding api_token_auth_context_or_audit_def api_token_auth_context_def
  by (intro calm_intros; (auto intro!: calm_intros split: exn.split option.split)?)+

lemma calm_rotation [calm_intros]:
  "calm G (rotation_lost s h now)" "calm G (rotate_user_session_credential s h now)"
  unfolding rotation_lost_def rotate_user_session_credential_def
  by (intro calm_intros calm_update_session; simp)+

lemma calm_session_context [calm_intros]:
  "calm G (selected_membership s)" "calm G (session_auth_context s allow)"
  "calm G (renew_session_activity s now)" "calm G (reject_resolved r c)"
  unfolding selected_membership_def session_auth_context_def renew_session_activity_def
    reject_resolved_def
  by (intro calm_intros calm_update_session; simp add: session_step_def)+

lemma calm_resolve_cookie [calm_intros]: "calm G (resolve_cookie v now)"
  unfolding resolve_cookie_def
  by (intro calm_intros; auto intro!: calm_intros split: exn.split)

lemma calm_user_session [calm_intros]:
  "calm G (user_session_auth_context app q allow)"
  "calm G (user_session_auth_context_or_fail_closed app q allow)"
  unfolding user_session_auth_context_or_fail_closed_def user_session_auth_context_def
  by (intro calm_intros)+

lemma calm_resolve_auth [calm_intros]: "calm G (resolve_auth_context app q allow)"
  unfolding resolve_auth_context_def by (intro calm_intros)

lemma calm_dependency [calm_intros]:
  "(\<And>c. calm G (handler c)) \<Longrightarrow> calm G (auth_context_dependency app q allow handler)"
  unfolding auth_context_dependency_def by (intro calm_intros)

section \<open>Logout and account links\<close>

lemma calm_logout_parts [calm_intros]:
  "calm G (prepare_end_session_redirect ip u' h)" "calm G (latest_provider_logout_continuation i)"
  "calm G (prepare_continuation c cid now)" "calm G (consume_continuation c' cid now)"
  "calm G (record_provider_logout es cid u d)"
  unfolding prepare_end_session_redirect_def latest_provider_logout_continuation_def
    prepare_continuation_def consume_continuation_def record_provider_logout_def
  by (intro calm_intros)+

lemma calm_logout [calm_intros]:
  "calm G (sign_out_current_device app ip s now)" "calm G (continue_with ip fb c now)"
  "calm G (continue_provider_logout app q ip now)"
  unfolding sign_out_current_device_def continue_provider_logout_def continue_with_def Let_def
  by (intro calm_intros calm_set_session; simp)+

lemma calm_links [calm_intros]:
  "calm G (reject_account_link c a r rc st dt)" "calm G (write_account_link a c r' rec u i s)"
  "calm G (link_pending_recovery auth c r' rec i s u')"
  "calm G (create_account_link auth data ops)"
  unfolding create_account_link_def link_pending_recovery_def write_account_link_def
    reject_account_link_def Let_def
  by (intro calm_intros)+

section \<open>Login\<close>

lemma calm_login_start_parts [calm_intros]:
  "calm G (pkce_s256 v)" "calm G (secret_hash v)" "calm G (record_start_failure e r c s)"
  "calm G (provider_failure_response p rt s c step e')"
  "calm G (store_transaction ls ru rt c p s ttl now)"
  unfolding pkce_s256_def secret_hash_def record_start_failure_def provider_failure_response_def
    store_transaction_def
  by (intro calm_intros)+

lemma calm_login_start [calm_intros]:
  "calm G (begin_at_provider ip rt po ttl p s now c)"
  "calm G (start_authentication_transaction ip rt al po ttl p s now)"
  "calm G (start_login ip rt al po ttl now)"
  "calm G (start_recent_authentication ip s' rt al po ttl now)"
  unfolding start_login_def start_recent_authentication_def start_authentication_transaction_def
    begin_at_provider_def Let_def
  by (intro calm_intros)+

lemma calm_reject [calm_intros]:
  "calm G (terminalize t)" "calm G (requested_session t)" "calm G (record_rejection rj c r s)"
  "calm G (reject_callback found c rj)" "calm G (refuse t rj)"
  "calm G (refused_step t u rj e)"
  unfolding refused_step_def refuse_def reject_callback_def terminalize_def requested_session_def
    record_rejection_def
  by (intro calm_intros; (auto intro!: calm_intros split: bool.split option.split)?)+

lemma calm_ask_or_refuse [calm_intros]:
  "(\<And>e. calm G (h e)) \<Longrightarrow> (\<And>x. calm G (k x)) \<Longrightarrow> calm G (ask_or_refuse call h k)"
  unfolding ask_or_refuse_def by (intro calm_intros)

lemma calm_completed [calm_intros]:
  "calm G (has_completed_session app q t now)" "calm G (completed_session_response app q t now)"
  "calm G (replayed_callback app q t now)"
  unfolding replayed_callback_def completed_session_response_def has_completed_session_def
  by (intro calm_intros; (auto intro!: calm_intros split: exn.split option.split)?)+

lemma calm_claim_transaction [calm_intros]:
  "calm G (has_browser_binding q t)" "calm G (claim_login_transaction t)"
  "calm G (legacy_user_matching_email m)" "calm G (inject_personal_onboarding_failure a b)"
  unfolding has_browser_binding_def claim_login_transaction_def legacy_user_matching_email_def
    inject_personal_onboarding_failure_def
  by (intro calm_intros)+

lemma calm_onboarding [calm_intros]:
  "calm G (create_personal_onboarding c fs)" "calm G (rollback_personal_onboarding i cid)"
  unfolding create_personal_onboarding_def rollback_personal_onboarding_def
  by (intro calm_intros)+

lemma calm_account_link_required [calm_intros]:
  "calm G (commit_account_link_required t r)" "calm G (recovery_of c)"
  "calm G (require_explicit_account_link t c)"
  unfolding require_explicit_account_link_def recovery_of_def commit_account_link_required_def
  by (intro calm_intros; (auto intro!: calm_intros split: option.split)?)+

lemma calm_login_event [calm_intros]:
  "calm G (record_login_event e r t rel u x d)" "calm G (store_device_session q u' w g h a now)"
  "calm G (create_session q t u' w g x h hint oc fs a now)"
  unfolding record_login_event_def store_device_session_def create_session_def
  by (intro calm_intros)+

lemma calm_recent_completion [calm_intros]:
  "calm G (confirm_recent_authentication app t s x hint a now)"
  "calm G (complete_recent_authentication app q t c hint now)"
  unfolding complete_recent_authentication_def confirm_recent_authentication_def
  by (intro calm_intros calm_update_session;
      (auto intro!: calm_intros simp: session_step_def split: exn.split)?)+

lemma calm_sign_in [calm_intros]:
  "calm G (sign_in app q t u m x hint oc a now)"
  unfolding sign_in_def by (intro calm_intros; (auto intro!: calm_intros split: option.split)?)

lemma calm_complete [calm_intros]:
  "calm G (known_account x)" "calm G (onboard app q t c hint a now)"
  "calm G (complete_login app q t c found hint now)"
  "calm G (complete_for_identity app q t tokens c st now)"
  unfolding complete_for_identity_def complete_login_def onboard_def known_account_def
  by (intro calm_intros)+

lemma calm_callback [calm_intros]:
  "calm G (complete_claimed_callback app q t code now)" "calm G (lost_claim app q t now)"
  "calm G (transaction_of_state sv)" "calm G (complete_login_callback app q sv code now)"
  unfolding complete_login_callback_def complete_claimed_callback_def lost_claim_def
    transaction_of_state_def
  by (intro calm_intros)+

lemma calm_provider_callback [calm_intros]:
  "calm G reject_malformed_login_callback" "calm G (refuse_pending q t pe now)"
  "calm G (reject_provider_callback app q sv pe now)"
  unfolding reject_malformed_login_callback_def refuse_pending_def reject_provider_callback_def
  by (intro calm_intros)+

section \<open>The routes\<close>

lemma calm_login_routes [calm_intros]:
  "calm G (get_login app q rt)" "calm G (require_device_session dt)"
  "calm G (get_recent_authentication app q rt)" "calm G (get_callback app q st code err)"
  "calm G (get_csrf_token app q)" "calm G (record_session_event e oc r c u d cm)"
  unfolding get_login_def require_device_session_def get_recent_authentication_def get_callback_def
    get_csrf_token_def record_session_event_def
  by (intro calm_intros)+

lemma calm_session_route [calm_intros]:
  "(\<And>a s. calm G (h a s)) \<Longrightarrow> calm G (session_route app q dt h)"
  unfolding session_route_def by (intro calm_intros)

lemma calm_select_workspace [calm_intros]: "calm G (select_workspace auth s i)"
  unfolding select_workspace_def by (intro calm_intros calm_set_session) (simp add: session_step_def)

lemma calm_session_routes [calm_intros]:
  "calm G (post_logout app q)" "calm G (get_provider_logout app q)"
  "calm G (get_device_sessions app q)" "calm G (delete_device_session app q i)"
  "calm G (post_revoke_other_device_sessions app q)" "calm G (put_workspace_selection app q i)"
  unfolding post_logout_def get_provider_logout_def get_device_sessions_def delete_device_session_def
    post_revoke_other_device_sessions_def put_workspace_selection_def revoke_selected_session_def
    revoke_other_sessions_def Let_def
  by (intro calm_intros)+

lemma calm_operator_routes [calm_intros]:
  "calm G (post_account_link app q link)" "calm G (post_external_identity_restoration app q rest)"
  unfolding post_account_link_def post_external_identity_restoration_def operator_route_def
  by (intro calm_intros)+

lemma calm_forget [calm_intros]: "calm G m \<Longrightarrow> calm G (forget m)"
  unfolding forget_def by (intro calm_intros)

lemma calm_identity_route [calm_intros]: "calm G (identity_route app q r)"
  by (cases r; simp; intro calm_intros)

lemma serve_identity_good: "good G w \<Longrightarrow> good G (serve_identity app rq w)"
  unfolding serve_identity_def
  by (rule calm_request_good [where G = G]) (intro calm_intros)+

lemma serve_identities_good: "good G w \<Longrightarrow> good G (serve_identities app rqs w)"
  unfolding serve_identities_def
  by (induction rqs arbitrary: w) (simp_all add: serve_identity_good)

end

end
