(* ===== verification/IdentitySamples.thy ===== *)
theory IdentitySamples
  imports SessionHandlers Samples
begin

text \<open>
  A small identity system for the examples: one user with a personal account and an active
  session whose secret is \<^verbatim>\<open>s\<close>, a provider that vouches for everyone, and the application in its
  test configuration.
\<close>

definition sample_claims :: validated_external_identity where
  "sample_claims = \<lparr>ve_issuer = ''https://id.example'', ve_subject = ''subject'',
     ve_email = Some ''a@example.com'', ve_nonce = ''nonce'', ve_authenticated_at = Some 0,
     ve_authentication_context = Some RECENT_AUTHENTICATION_EMAIL_ACR\<rparr>"

definition sample_provider :: customer_identity_provider where
  "sample_provider = \<lparr>ip_client_id = ''client'',
     ip_discover = (\<lambda>_. Answer \<lparr>od_issuer = ''https://id.example'',
       od_authorization_endpoint = ''https://id.example/auth'',
       od_token_endpoint = ''https://id.example/token'',
       od_end_session_endpoint = Some ''https://id.example/logout''\<rparr>),
     ip_authorization_url = (\<lambda>_ r. Answer (''https://id.example/auth?state='' @ oa_state r)),
     ip_exchange_code = (\<lambda>_ _ _ _. Answer \<lparr>ot_id_token = ''token'', ot_access_token = ''access'',
       ot_logout_hint = Some ''hint''\<rparr>),
     ip_validate_id_token = (\<lambda>_ _ _. Answer sample_claims),
     ip_end_session_url = (\<lambda>_ u _. Answer (Some (''https://id.example/logout?post_logout_redirect_uri='' @ u))),
     ip_identity_status = (\<lambda>_ _ _. Answer ''active'')\<rparr>"

definition sample_app :: app_state where
  "sample_app = \<lparr>
     as_authentication_policy = \<lparr>apo_environment = TEST, apo_accepted = {USER_SESSION}\<rparr>,
     as_identity_rollout_policy = \<lparr>irp_stage = CIAM_TEST_TENANT, irp_passed_release_gates = [],
       irp_internal_email_allowlist = [], irp_security_rollback = False\<rparr>,
     as_user_session_cookie_name = ''__Host-ai_scdc_session'',
     as_public_origin = ''https://app'', as_user_session_database_failure = False,
     as_customer_identity_provider = Some sample_provider,
     as_identity_operator_user_ids = [''u''], as_allowed_login_return_destinations = [''/''],
     as_allowed_recent_authentication_return_destinations = [''/''],
     as_login_transaction_ttl_seconds = 600, as_personal_onboarding_failure_step = None,
     as_device_session_revocation_failure = None, as_identity_schema_ready = True\<rparr>"

definition sample_request :: http_request where
  "sample_request = \<lparr>hr_method = ''GET'', hr_path = ''/'', hr_headers = [],
     hr_cookies = [(''__Host-ai_scdc_session'', ''ds.s'')]\<rparr>"

definition sample_session :: device_session where
  "sample_session = blank_device_session\<lparr>ds_id := ''ds'', ds_user_id := ''u'',
     ds_active_workspace_id := ''w'', ds_active_organization_id := ''o'',
     ds_secret_hash := ''s'', ds_idle_expires_at := 1000000000\<rparr>"

definition sample_identity :: external_identity where
  "sample_identity = blank_external_identity\<lparr>xi_id := ''x'', xi_issuer := ''https://id.example'',
     xi_subject := ''subject'', xi_user_id := ''u''\<rparr>"

definition sample_member :: organization_member where
  "sample_member = blank_organization_member\<lparr>om_id := ''m'', om_organization_id := ''o'',
     om_workspace_id := ''w'', om_user_id := ''u'', om_role := OWNER, om_api_token_hash := Some ''t''\<rparr>"

definition identity_db :: db where
  "identity_db = empty_db\<lparr>
     t_user_account := [(''u'', blank_user_account\<lparr>us_id := ''u''\<rparr>)],
     t_organization := [(''o'', blank_organization\<lparr>og_id := ''o''\<rparr>)],
     t_workspace := [(''w'', blank_workspace\<lparr>ws_id := ''w'', ws_organization_id := ''o''\<rparr>)],
     t_organization_member := [(''m'', sample_member)],
     t_external_identity := [(''x'', sample_identity)],
     t_device_session := [(''ds'', sample_session)]\<rparr>"

lemmas identity_defs = sample_claims_def sample_provider_def sample_app_def sample_request_def
  sample_session_def sample_identity_def sample_member_def identity_db_def empty_db_def
  blank_device_session_def blank_external_identity_def blank_organization_member_def
  blank_user_account_def blank_organization_def blank_workspace_def

lemma sample_partition: "partition_at (CHR ''.'') ''ds.s'' = (''ds'', True, ''s'')"
  by (simp add: partition_at_def Let_def)

lemma clean_world_of [simp]: "clean (world_of d)"
  by (simp add: clean_def world_of_def)

lemma world_of_simps [simp]:
  "w_db (world_of d) = d" "w_committed (world_of d) = d" "w_env (world_of d) = sample_env"
  by (simp_all add: world_of_def)

end
