(* ===== verification/SessionSafety.thy ===== *)
theory SessionSafety
  imports IdentitySamples
begin

text \<open>
  The session cookie: when it is accepted, what a refusal leaves behind, and that a session that
  was revoked or that expired is never accepted again, whatever the application serves.
\<close>

section \<open>Sessions over time\<close>

lemma session_step_refl [simp]: "session_step s s"
  by (simp add: session_step_def)

lemma session_step_trans: "session_step s t \<Longrightarrow> session_step t u \<Longrightarrow> session_step s u"
  by (auto simp: session_step_def)

text \<open>Every session of the first database is still there and has moved by steps.\<close>

definition sessions_follow :: "db \<Rightarrow> db \<Rightarrow> bool" where
  "sessions_follow d0 d \<longleftrightarrow>
     (\<forall>k s. map_of (t_device_session d0) k = Some s \<longrightarrow>
        (\<exists>s'. map_of (t_device_session d) k = Some s' \<and> session_step s s'))"

lemma sessions_follow_refl [simp]: "sessions_follow d d"
  by (simp add: sessions_follow_def)

lemma sessions_follow_then:
  assumes "sessions_follow d0 d" and "sessions_follow d d'"
  shows "sessions_follow d0 d'"
  unfolding sessions_follow_def
proof (intro allI impI)
  fix k s assume "map_of (t_device_session d0) k = Some s"
  then obtain t where t: "map_of (t_device_session d) k = Some t" "session_step s t"
    using assms(1) unfolding sessions_follow_def by blast
  then obtain u where "map_of (t_device_session d') k = Some u" "session_step t u"
    using assms(2) unfolding sessions_follow_def by blast
  then show "\<exists>s'. map_of (t_device_session d') k = Some s' \<and> session_step s s'"
    using t(2) session_step_trans by blast
qed

interpretation follow: session_invariant "sessions_follow d0" for d0
proof unfold_locales
  fix d k and f :: "device_session \<Rightarrow> device_session"
  assume d: "sessions_follow d0 d" and f: "\<And>s. session_step s (f s)"
  show "sessions_follow d0 (t_device_session_update (row_modify k f) d)"
    by (rule sessions_follow_then [OF d]) (simp add: sessions_follow_def f)
next
  fix d P and f :: "device_session \<Rightarrow> device_session"
  assume d: "sessions_follow d0 d" and f: "\<And>s. P s \<Longrightarrow> session_step s (f s)"
  show "sessions_follow d0 (t_device_session_update (rows_where P f) d)"
    by (rule sessions_follow_then [OF d]) (simp add: sessions_follow_def map_of_rows_where f)
next
  fix d and s :: device_session
  assume d: "sessions_follow d0 d" and new: "map_of (t_device_session d) (ds_id s) = None"
  show "sessions_follow d0 (t_device_session_update (\<lambda>t. t @ [(ds_id s, s)]) d)"
    by (rule sessions_follow_then [OF d])
      (use new in \<open>auto simp: sessions_follow_def map_of_append_new simp del: map_of_append\<close>)
qed (simp_all add: sessions_follow_def)

section \<open>The verdict on a credential\<close>

definition presents_current :: "device_session \<Rightarrow> string \<Rightarrow> bool" where
  "presents_current s h \<longleftrightarrow> ds_secret_hash s = h"

definition presents_previous :: "device_session \<Rightarrow> string \<Rightarrow> bool" where
  "presents_previous s h \<longleftrightarrow> ds_previous_secret_hash s = Some h"

definition in_grace :: "device_session \<Rightarrow> int \<Rightarrow> bool" where
  "in_grace s now \<longleftrightarrow> (case ds_previous_secret_valid_until s of None \<Rightarrow> False | Some v \<Rightarrow> now \<le> v)"

text \<open>
  A session accepts a secret while it is active and not idle too long, if it is the current
  secret or, for the grace period after a rotation, the previous one.
\<close>

definition session_accepts :: "device_session \<Rightarrow> string \<Rightarrow> int \<Rightarrow> bool" where
  "session_accepts s h now \<longleftrightarrow> session_open now s \<and>
     (if presents_previous s h then in_grace s now else presents_current s h)"

definition session_after :: "device_session \<Rightarrow> string \<Rightarrow> int \<Rightarrow> device_session" where
  "session_after s h now =
     (if ds_status s = ''active'' \<and> ds_idle_expires_at s \<le> now
      then s\<lparr>ds_status := ''expired'', ds_updated_at := now\<rparr>
      else if ds_status s = ''active'' \<and> presents_previous s h \<and> \<not> in_grace s now
      then session_revoked now s
      else s)"

lemma wp_credential_event:
  assumes "quiet w"
  shows "wp (record_credential_event e r s c)
    (\<lambda>_ w'. w_committed w' = w_db w' \<and> t_device_session (w_db w') = t_device_session (w_db w))
    (\<lambda>x w'. x = IntegrityError) w"
  unfolding record_credential_event_def wp_bnd wp_ret
  by (rule wp_mono [OF wp_record_identity_committed [OF _ assms]])
    (simp_all add: identity_audit_defaults_def)

lemma record_event_mono:
  assumes "quiet w"
    and "\<And>w'. w_committed w' = w_db w' \<Longrightarrow> t_device_session (w_db w') = t_device_session (w_db w) \<Longrightarrow>
      Q () w'" and "\<And>w'. E IntegrityError w'"
  shows "wp (record_credential_event e r s c) Q E w"
  by (rule wp_mono [OF wp_credential_event [OF assms(1)]]) (use assms(2,3) in auto)

lemma wp_check_session:
  assumes "quiet w" and "clean w" and "map_of (t_device_session (w_db w)) (ds_id s) = Some s"
  shows "wp (check_device_session s h now)
    (\<lambda>r w'. session_accepts s h now \<and> w' = w \<and> rc_device_session r = s)
    (\<lambda>e w'. e = IntegrityError \<or> (\<exists>r c. e = UserSessionCredentialRejected r c) \<and>
       \<not> session_accepts s h now \<and>
       map_of (t_device_session (w_committed w')) (ds_id s) = Some (session_after s h now) \<and>
       (\<forall>k. k \<noteq> ds_id s \<longrightarrow> map_of (t_device_session (w_committed w')) k =
          map_of (t_device_session (w_db w)) k)) w"
  using assms
  by (auto simp: check_device_session_def wp_simps reject_credential_def set_device_session_def
      session_accepts_def session_open_def session_after_def presents_current_def
      presents_previous_def in_grace_def session_revoked_def clean_def Let_def
      split: option.splits intro!: record_event_mono)

text \<open>
  C16: The session cookie. A request with the cookie of a stored session is accepted exactly if the
  session is active and not idle past its limit and the secret is the current one or, within the
  grace period, the previous one; nothing changes then. A refusal has committed its
  consequence: a session that was idle too long is expired, and one whose previous secret comes
  back too late (a replay) is revoked; no other session changes. (A taken identifier of the audit
  event is the only other error.)
\<close>

theorem session_cookie_decided:
  assumes "quiet w" and "clean w" and "keyed ds_id (t_device_session (w_db w))"
    and "map_of (t_device_session (w_db w)) i = Some s"
    and "partition_at (CHR ''.'') cookie_value = (i, True, secret)" and "i \<noteq> []" and "secret \<noteq> []"
  shows "wp (resolve_user_session_credential cookie_value now)
    (\<lambda>r w'. session_accepts s (e_sha256 (w_env w) secret) now \<and> w' = w \<and> rc_device_session r = s)
    (\<lambda>e w'. e = IntegrityError \<or> (\<exists>r c. e = UserSessionCredentialRejected r c) \<and>
       \<not> session_accepts s (e_sha256 (w_env w) secret) now \<and>
       map_of (t_device_session (w_committed w')) i =
         Some (session_after s (e_sha256 (w_env w) secret) now) \<and>
       (\<forall>k. k \<noteq> i \<longrightarrow> map_of (t_device_session (w_committed w')) k =
          map_of (t_device_session (w_db w)) k)) w"
proof -
  have i: "ds_id s = i" using keyed_key [OF assms(3,4)] .
  have "wp (check_device_session s h now)
    (\<lambda>r w'. session_accepts s h now \<and> w' = w \<and> rc_device_session r = s)
    (\<lambda>e w'. e = IntegrityError \<or> (\<exists>r c. e = UserSessionCredentialRejected r c) \<and>
       \<not> session_accepts s h now \<and>
       map_of (t_device_session (w_committed w')) i = Some (session_after s h now) \<and>
       (\<forall>k. k \<noteq> i \<longrightarrow> map_of (t_device_session (w_committed w')) k =
          map_of (t_device_session (w_db w)) k)) w" for h
    using wp_check_session [of w s h now] assms(1,2,4) i by simp
  then show ?thesis
    using assms(4-7)
    by (simp add: resolve_user_session_credential_def hash_session_secret_def wp_simps)
qed

theorem session_cookie_decided_witness:
  "wp (resolve_user_session_credential ''ds.s'' 5)
    (\<lambda>r w'. w' = world_of identity_db \<and> rc_device_session r = sample_session)
    (\<lambda>e _. e = IntegrityError) (world_of identity_db)"
proof -
  have s: "map_of (t_device_session identity_db) ''ds'' = Some sample_session"
    "session_accepts sample_session ''s'' 5" "keyed ds_id (t_device_session identity_db)"
    by (simp_all add: identity_defs session_accepts_def session_open_def presents_previous_def
        presents_current_def keyed_def)
  have h: "e_sha256 sample_env ''s'' = ''s''" by (simp add: sample_env_def)
  show ?thesis
    by (rule wp_mono [OF session_cookie_decided
          [of "world_of identity_db" "''ds''" sample_session "''ds.s''" "''s''" 5]])
      (use s h in \<open>auto simp: sample_partition\<close>)
qed

section \<open>A session that ended stays ended\<close>

text \<open>
  C17: Once a session is revoked or expired, no later history of requests, logins, sweeps and
  rollbacks, with any answers of the provider, makes the application accept a cookie of it
  again; as long as the other database sessions only make the steps this program makes.
\<close>

theorem ended_session_never_accepted:
  assumes "clean w"
    and "\<And>k d. sessions_follow (w_committed w) d \<Longrightarrow>
      sessions_follow (w_committed w) (e_others (w_env w) k d)"
    and "map_of (t_device_session (w_committed w)) i = Some s" and "ds_status s \<noteq> ''active''"
    and "fst (partition_at (CHR ''.'') cookie_value) = i"
  shows "wp (resolve_user_session_credential cookie_value now)
    (\<lambda>_ _. False) (\<lambda>_ _. True) (serve_identities app requests w)"
proof -
  let ?w = "serve_identities app requests w"
  have "good (sessions_follow (w_committed w)) w"
    using assms(1,2) by (simp add: good_def clean_def)
  then have "good (sessions_follow (w_committed w)) ?w" by (rule follow.serve_identities_good)
  then have "sessions_follow (w_committed w) (w_db ?w)" by (simp add: good_def)
  then obtain s' where s': "map_of (t_device_session (w_db ?w)) i = Some s'" "session_step s s'"
    using assms(3) unfolding sessions_follow_def by blast
  then have ended: "ds_status s' \<noteq> ''active''" using assms(4) by (simp add: session_step_def)
  have raises: "wp m (\<lambda>_ _. True) (\<lambda>_ _. True) v" for m :: "'b action" and v
    by (auto simp: wp_def split: prod.split sum.split)
  have "wp (check_device_session s' h now) (\<lambda>_ _. False) (\<lambda>_ _. True) v" for h v
    using ended
    by (auto simp: check_device_session_def wp_simps reject_credential_def Let_def
        intro: wp_mono [OF raises])
  then show ?thesis
    using assms(5) s'(1)
    by (auto simp: resolve_user_session_credential_def wp_simps hash_session_secret_def
        reject_credential_def split: prod.split)
qed

theorem ended_session_never_accepted_witness:
  "wp (resolve_user_session_credential ''ds.s'' 5) (\<lambda>_ _. False) (\<lambda>_ _. True)
     (serve_identities sample_app [(sample_request, Any_Request), (sample_request, Revoke_Others)]
        (world_of (t_device_session_update
           (\<lambda>_. [(''ds'', session_revoked 3 sample_session)]) identity_db)))"
  by (rule ended_session_never_accepted
      [where i = "''ds''" and s = "session_revoked 3 sample_session"])
    (simp_all add: sample_partition session_revoked_def, simp_all add: sample_env_def)

end
