(* ===== verification/BrowserLaws.thy ===== *)
theory BrowserLaws
  imports IdentitySamples
begin

text \<open>
  Cross-site request forgery: a token the application issued is accepted while it is valid, also
  across a rotation of the session's secret, and an unsafe request without the right origin and a
  valid token is refused and recorded.
\<close>

section \<open>The parts of a token\<close>

lemma split_on_plain: "c \<notin> set s \<Longrightarrow> split_on c s = [s]"
  by (induction s) auto

lemma split_on_append: "c \<notin> set a \<Longrightarrow> split_on c (a @ c # b) = a # split_on c b"
  by (induction a) auto

lemma show_int_no_dot: "CHR ''.'' \<notin> set (show_int n)"
  using nat_digits_digits [of "nat n"] nat_digits_digits [of "nat (- n)"]
  by (auto simp: show_int_def list_all_iff is_digit_def)

lemma parse_issued_token:
  assumes "length (show_int n) \<le> 4300"
    and "nonce \<noteq> []" and "CHR ''.'' \<notin> set nonce" and "sg \<noteq> []" and "CHR ''.'' \<notin> set sg"
  shows "parse_csrf_token (''v1.'' @ show_int n @ ''.'' @ nonce @ ''.'' @ sg) = Some (n, nonce, sg)"
  using assms split_on_append [OF show_int_no_dot, of n] split_on_append [OF assms(3)]
    split_on_plain [OF assms(5)]
  by (simp add: parse_csrf_token_def py_int_show_int)

section \<open>An issued token is accepted\<close>

text \<open>What the digest and the random tokens look like: text in ASCII without a dot, never empty.\<close>

definition plain_text :: "string \<Rightarrow> bool" where
  "plain_text s \<longleftrightarrow> s \<noteq> [] \<and> CHR ''.'' \<notin> set s \<and> is_ascii s"

definition session_of_request :: "world \<Rightarrow> device_session \<Rightarrow> bool" where
  "session_of_request w s \<longleftrightarrow> rq_device_session (w_request w) = Some s \<and>
     map_of (t_device_session (w_db w)) (ds_id s) = Some s"

text \<open>
  C18: A CSRF token that was issued to a session is accepted with every unsafe request of that
  session from the application's origin until the token expires, with the secret it was signed with
  or, in the grace period after a rotation, with the session's new secret; the check writes
  nothing.
\<close>

theorem csrf_token_roundtrip:
  assumes "issue_csrf_token now w = (Inr (token, expires_at), w')" and "session_of_request w s"
    and "session_of_request v s'" and "ds_id s' = ds_id s"
    and "e_hmac (w_env v) = e_hmac (w_env w)"
    and "ds_secret_hash s' = ds_secret_hash s \<or> ds_previous_secret_hash s' = Some (ds_secret_hash s) \<and>
      (\<exists>t. ds_previous_secret_valid_until s' = Some t \<and> now' \<le> t)"
    and "header request ''origin'' = Some public_origin" and "is_ascii public_origin"
    and "header request ''x-csrf-token'' = Some token"
    and "epoch_seconds now' < epoch_seconds expires_at"
    and "length (show_int (epoch_seconds expires_at)) \<le> 4300"
    and "\<And>k p. plain_text (e_hmac (w_env w) k p)" and "\<And>n. plain_text (e_token (w_env w) n)"
  shows "enforce_cookie_request_protection public_origin request now' v = (Inr (), v)"
proof -
  let ?n = "epoch_seconds expires_at"
  obtain nonce where nonce: "plain_text nonce"
    and token: "token = ''v1.'' @ show_int ?n @ ''.'' @ nonce @ ''.'' @
        e_hmac (w_env w) (ds_secret_hash s) (csrf_payload (ds_id s) ?n nonce)"
  proof -
    have "wp (issue_csrf_token now) (\<lambda>(t, e) _. \<exists>nonce. plain_text nonce \<and>
        t = ''v1.'' @ show_int (epoch_seconds e) @ ''.'' @ nonce @ ''.'' @
          e_hmac (w_env w) (ds_secret_hash s) (csrf_payload (ds_id s) (epoch_seconds e) nonce))
        (\<lambda>_ _. True) w"
      using assms(2,13)
      by (auto simp: issue_csrf_token_def authenticated_device_session_def csrf_signature_def
          session_of_request_def wp_simps Let_def)
    from wp_InrD [OF this assms(1)] show ?thesis using that by auto
  qed
  let ?sg = "e_hmac (w_env w) (ds_secret_hash s) (csrf_payload (ds_id s) ?n nonce)"
  have sg: "plain_text ?sg" by (rule assms(12))
  have parse: "parse_csrf_token token = Some (?n, nonce, ?sg)"
    using parse_issued_token [OF assms(11)] nonce sg unfolding token plain_text_def by simp
  have ascii: "is_ascii (e_hmac (w_env w) k p)" for k p using assms(12) by (simp add: plain_text_def)
  have "token \<noteq> []" by (simp add: token)
  have "wp (enforce_cookie_request_protection public_origin request now') (\<lambda>_ v'. v' = v) (\<lambda>_ _. False) v"
    using assms(3-10) \<open>token \<noteq> []\<close> parse ascii
    by (auto simp: enforce_cookie_request_protection_def authenticated_device_session_def
        session_of_request_def check_origin_def check_csrf_token_def csrf_signature_def
        previous_signature_matches_def wp_simps Let_def split: option.splits)
  then show ?thesis by (auto simp: wp_def split: prod.splits sum.splits)
qed

definition rotated_sample :: device_session where
  "rotated_sample = secret_rotated ''new'' ''s'' 10 False sample_session"

definition signing_world :: "device_session \<Rightarrow> world" where
  "signing_world s = (world_of (t_device_session_update (\<lambda>_. [(''ds'', s)]) identity_db))
     \<lparr>w_request := blank_request\<lparr>rq_device_session := Some s\<rparr>,
      w_env := sample_env\<lparr>e_hmac := (\<lambda>_ _. ''sig'')\<rparr>\<rparr>"

definition signed_request :: "string \<Rightarrow> http_request" where
  "signed_request token = sample_request\<lparr>hr_method := ''POST'',
     hr_headers := [(''origin'', ''https://app''), (''x-csrf-token'', token)]\<rparr>"

lemma show_3600: "show_int 3600 = ''3600''"
  by code_simp

theorem csrf_token_roundtrip_witness:
  "enforce_cookie_request_protection ''https://app'' (signed_request ''v1.3600.t.sig'') 20
     (signing_world rotated_sample) = (Inr (), signing_world rotated_sample)"
proof -
  have issued: "issue_csrf_token 0 (signing_world sample_session) =
    (Inr (''v1.3600.t.sig'', 3600000000), (signing_world sample_session)\<lparr>w_tokens := 1\<rparr>)"
    by (simp add: issue_csrf_token_def authenticated_device_session_def authenticated_session_def
        bnd_def gets_def ret_def db_refresh_def db_get_def random_token_def csrf_signature_def
        signing_world_def world_of_def identity_defs sample_env_def CSRF_TOKEN_TTL_SECONDS_def
        seconds_def epoch_seconds_def show_3600 Let_def)
  have plain: "plain_text ''sig''" "plain_text (replicate (Suc n) (CHR ''t''))" for n
    by (simp_all add: plain_text_def is_ascii_def list_all_iff)
  show ?thesis
    by (rule csrf_token_roundtrip [OF issued, of sample_session _ rotated_sample])
      (use plain in \<open>simp_all add: session_of_request_def signing_world_def rotated_sample_def
         secret_rotated_def signed_request_def identity_defs header_def is_ascii_def seconds_def
         USER_SESSION_PREVIOUS_SECRET_SECONDS_def epoch_seconds_def show_3600 sample_env_def\<close>)
qed

section \<open>Nothing else is accepted\<close>

text \<open>How a refused request ends.\<close>

definition browser_refusal :: "device_session \<Rightarrow> world \<Rightarrow> exn \<Rightarrow> world \<Rightarrow> bool" where
  "browser_refusal s w e w' \<longleftrightarrow> e = IntegrityError \<or> e = TypeError \<and> w' = w \<or>
     (\<exists>reason c. e = HTTPException 403 (JStr reason) (Some c) \<and>
       (\<exists>ev \<in> set (rows (t_identity_audit_event (w_committed w'))).
          ie_correlation_id ev = c \<and> ie_reason_code ev = reason \<and>
          ie_user_id ev = Some (ds_user_id s)))"

lemma wp_reject_browser [simp]:
  assumes "quiet w"
  shows "wp (reject_browser_request event reason s) Q (browser_refusal s w) w"
  unfolding reject_browser_request_def wp_bnd wp_random_token
  by (rule wp_mono [OF wp_record_identity_committed])
    (use assms in \<open>auto simp: identity_audit_defaults_def wp_simps rows_def browser_refusal_def\<close>)

text \<open>The token was signed for this session, with its secret or its previous one in the grace period.\<close>

definition signed_for :: "(string \<Rightarrow> string \<Rightarrow> string) \<Rightarrow> device_session \<Rightarrow> int \<Rightarrow> int \<times> string \<times> string \<Rightarrow> bool" where
  "signed_for hmac s now parts \<longleftrightarrow>
     (case parts of (expires_epoch, nonce, sg) \<Rightarrow>
        (let payload = csrf_payload (ds_id s) expires_epoch nonce in
         sg = hmac (ds_secret_hash s) payload \<or>
         (\<exists>k t. ds_previous_secret_hash s = Some k \<and> ds_previous_secret_valid_until s = Some t \<and>
            now \<le> t \<and> sg = hmac k payload)))"

lemma wp_check_origin:
  assumes "quiet w"
  shows "wp (check_origin public_origin request s)
    (\<lambda>_ w'. w' = w \<and> header request ''origin'' = Some public_origin) (browser_refusal s w) w"
  using assms by (simp add: check_origin_def wp_simps browser_refusal_def [of s w TypeError]
      split: option.split)

lemma wp_check_csrf_token:
  assumes "quiet w"
  shows "wp (check_csrf_token now s parts)
    (\<lambda>_ w'. w' = w \<and> signed_for (e_hmac (w_env w)) s now parts \<and> epoch_seconds now < fst parts)
    (browser_refusal s w) w"
proof -
  obtain n nonce sg where p: "parts = (n, nonce, sg)" by (cases parts)
  have t: "browser_refusal s w TypeError w" by (simp add: browser_refusal_def)
  show ?thesis
    using assms t
    by (auto simp: p check_csrf_token_def csrf_signature_def previous_signature_matches_def
        signed_for_def wp_simps Let_def split: option.split)
qed

text \<open>
  C19: An unsafe request by cookie passes only from the application's own origin and with a token
  signed for this session that has not expired, and then nothing is written. Every other one is
  answered 403 with the correlation identifier of an audit event of the session's user that has
  been committed. (Other ends: a taken identifier of the event, and the \<^verbatim>\<open>TypeError\<close> of
  \<^verbatim>\<open>hmac.compare_digest\<close> on a header that is not ASCII, which is answered 500 and not recorded.)
\<close>

theorem unsafe_request_needs_token:
  assumes "quiet w" and "session_of_request w s"
    and "upper (hr_method request) \<in> {''POST'', ''PUT'', ''PATCH'', ''DELETE''}"
  shows "wp (enforce_cookie_request_protection public_origin request now)
    (\<lambda>_ w'. w' = w \<and> header request ''origin'' = Some public_origin \<and>
       (\<exists>token parts. header request ''x-csrf-token'' = Some token \<and>
          parse_csrf_token token = Some parts \<and> signed_for (e_hmac (w_env w)) s now parts \<and>
          epoch_seconds now < fst parts))
    (browser_refusal s w) w"
proof -
  have rest: "wp (let token = case header request ''x-csrf-token'' of None \<Rightarrow> [] | Some t \<Rightarrow> t in
      if token = [] then reject_browser_request ''csrf_rejected'' ''csrf_token_required'' s
      else case parse_csrf_token token of
        None \<Rightarrow> reject_browser_request ''csrf_rejected'' ''csrf_token_malformed'' s
      | Some parts \<Rightarrow> check_csrf_token now s parts)
    (\<lambda>_ w'. w' = w \<and> (\<exists>token parts. header request ''x-csrf-token'' = Some token \<and>
       parse_csrf_token token = Some parts \<and> signed_for (e_hmac (w_env w)) s now parts \<and>
       epoch_seconds now < fst parts)) (browser_refusal s w) w"
    using assms(1)
    by (auto simp: wp_simps Let_def split: option.split
        intro: wp_mono [OF wp_check_csrf_token [OF assms(1)]])
  show ?thesis
    using assms
    by (auto simp: enforce_cookie_request_protection_def unsafe_http_methods_def
        authenticated_device_session_def session_of_request_def wp_bnd wp_ret wp_if wp_option
        wp_authenticated_session
        intro!: wp_mono [OF wp_check_origin] wp_mono [OF rest])
qed

theorem unsafe_request_needs_token_witness:
  "wp (enforce_cookie_request_protection ''https://app'' (signed_request ''v1.3600.t.sig'') 20)
    (\<lambda>_ w'. w' = signing_world sample_session)
    (\<lambda>e w'. e \<noteq> HTTPException 401 (JStr ''User Session is not valid'') None)
    (signing_world sample_session)"
  by (rule wp_mono [OF unsafe_request_needs_token [where s = sample_session]])
    (auto simp: browser_refusal_def signing_world_def session_of_request_def sample_session_def blank_device_session_def
      signed_request_def upper_def quiet_def sample_env_def)

end
