(* ===== verification/StatusLaws.thy ===== *)
theory StatusLaws
  imports IdentitySamples
begin

text \<open>
  What a confirmed status of an identity does, the security rollback, and the stages of the
  rollout.
\<close>

section \<open>A user is locked out\<close>

definition locked_out :: "string \<Rightarrow> db \<Rightarrow> bool" where
  "locked_out u d \<longleftrightarrow>
     (\<forall>s \<in> set (rows (t_device_session d)). ds_user_id s = u \<longrightarrow> ds_status s \<noteq> ''active'') \<and>
     (\<forall>m \<in> set (rows (t_organization_member d)). om_user_id m = u \<longrightarrow> om_api_token_hash m = None)"

lemma locked_out_audit [simp]: "locked_out u (t_identity_audit_event_update f d) = locked_out u d"
  by (simp add: locked_out_def)

lemma status_event_mono:
  assumes "\<And>w' f. w_env w' = w_env w \<Longrightarrow> w_committed w' = w_committed w \<Longrightarrow>
      w_db w' = t_identity_audit_event_update f (w_db w) \<Longrightarrow> Q () w'"
    and "\<And>w'. w_committed w' = w_committed w \<Longrightarrow> E IntegrityError w'"
  shows "wp (record_status_event e r c x d) Q E w"
  unfolding record_status_event_def wp_bnd wp_ret
  by (rule wp_mono [OF wp_record_identity_audit])
    (use assms in \<open>auto simp: identity_audit_defaults_def\<close>)

lemma wp_maybe_event:
  assumes "\<And>v' f. w_env v' = w_env v \<Longrightarrow> w_committed v' = w_committed v \<Longrightarrow>
      t_external_identity (w_db v') = t_external_identity (w_db v) \<Longrightarrow> wp (k ()) Q E v'"
    and "wp (k ()) Q E v" and "\<And>v'. w_committed v' = w_committed v \<Longrightarrow> E IntegrityError v'"
  shows "wp (bnd (only_if b (record_status_event e r c x d)) k) Q E v"
  unfolding wp_bnd wp_only_if using assms by (auto intro!: status_event_mono)

lemma quiet_env: "quiet w \<Longrightarrow> w_env w' = w_env w \<Longrightarrow> quiet w'"
  by (simp add: quiet_def)

lemma locked_out_updates:
  "locked_out u (t_organization_member_update
     (rows_where (\<lambda>m. om_user_id m = u \<and> (\<exists>y. om_api_token_hash m = Some y))
        (\<lambda>m. m\<lparr>om_api_token_hash := None, om_updated_at := t\<rparr>))
     (t_device_session_update
        (rows_where (\<lambda>s. ds_user_id s = u \<and> ds_status s = ''active'') (session_revoked t)) d))"
  unfolding locked_out_def by (simp add: rows_rows_where session_revoked_def ball_Un)

text \<open>The part that locks the user out, from any database the audit events before it left.\<close>

lemma wp_lock_out:
  assumes "quiet v"
  shows "wp (bnd (sessions_revoked_of u t) (\<lambda>_.
             bnd (record_status_event e1 r1 c1 x d1) (\<lambda>_.
             bnd (api_tokens_revoked_of u t) (\<lambda>_.
             bnd (record_status_event e2 r2 c2 x d2) (\<lambda>_.
             ret y)))))
    (\<lambda>z w'. z = y \<and> w_env w' = w_env v \<and> w_committed w' = w_committed v \<and>
       t_external_identity (w_db w') = t_external_identity (w_db v) \<and> locked_out u (w_db w'))
    (\<lambda>e w'. e = IntegrityError \<and> w_committed w' = w_committed v) v"
  unfolding sessions_revoked_of_def api_tokens_revoked_of_def wp_bnd wp_sync wp_db_update_where wp_ret
proof (rule status_event_mono, goal_cases)
  case (1 v1 f)
  show ?case
    by (rule status_event_mono) (use assms 1 in \<open>simp_all add: locked_out_updates\<close>)
next
  case (2 v1)
  then show ?case using assms by simp
qed

lemma wp_status_effects:
  assumes "quiet w"
  shows "wp (record_confirmed_status_effects x p st t c d rr)
    (\<lambda>r w'. ir_human_credentials_revoked r = (st \<noteq> ''active'') \<and> w_env w' = w_env w \<and>
       w_committed w' = w_committed w \<and>
       t_external_identity (w_db w') = t_external_identity (w_db w) \<and>
       (st \<noteq> ''active'' \<longrightarrow> locked_out (xi_user_id x) (w_db w')))
    (\<lambda>e w'. e = IntegrityError \<and> w_committed w' = w_committed w) w" (is "wp _ ?Q ?E w")
proof -
  let ?tail = "if st = ''active''
    then ret \<lparr>ir_correlation_id = Some c, ir_human_credentials_revoked = False\<rparr>
    else bnd (sessions_revoked_of (xi_user_id x) t) (\<lambda>_.
         bnd (record_status_event ''identity_status_user_sessions_revoked''
         (''identity_status_'' @ st) c x d) (\<lambda>_.
         bnd (api_tokens_revoked_of (xi_user_id x) t) (\<lambda>_.
         bnd (record_status_event ''identity_status_workspace_api_tokens_revoked''
         (''identity_status_'' @ st) c x d) (\<lambda>_.
         ret \<lparr>ir_correlation_id = Some c, ir_human_credentials_revoked = True\<rparr>))))"
  have tail: "wp ?tail ?Q ?E v"
    if "w_env v = w_env w" and "w_committed v = w_committed w"
      and "t_external_identity (w_db v) = t_external_identity (w_db w)" for v
  proof (cases "st = ''active''")
    case True
    then show ?thesis using that by (simp add: wp_simps)
  next
    case False
    then show ?thesis
      by (simp only: if_False, intro wp_mono [OF wp_lock_out [OF quiet_env [OF assms that(1)]]])
        (use that in auto)
  qed
  let ?second = "\<lambda>_. bnd (only_if (p \<noteq> st) (record_status_event ''identity_status_transition_confirmed''
         (p @ ''_to_'' @ st) c x d)) (\<lambda>_.
                     (?tail))"
  have second: "wp (?second y) ?Q ?E v"
    if "w_env v = w_env w" and "w_committed v = w_committed w"
      and "t_external_identity (w_db v) = t_external_identity (w_db w)" for v and y :: unit
    by (rule wp_maybe_event; (rule tail)?) (use that in simp_all)
  show ?thesis
    unfolding record_confirmed_status_effects_def
    by (rule wp_maybe_event; (rule second)?) simp_all
qed

text \<open>
  C20: When the provider answers that an identity is locked, disabled or missing, the claimed
  check commits it: no session of the user is active any more, no membership of the user keeps
  an API token, and the status is stored. (Only a taken identifier of an audit event can prevent
  it; then nothing is committed.)
\<close>

theorem inactive_identity_is_locked_out:
  assumes "quiet w" and "clean w" and "keyed xi_id (t_external_identity (w_db w))"
    and "map_of (t_external_identity (w_db w)) (ic_external_identity_id claim) = Some x"
    and "xi_status_check_token x = Some (ic_token claim)"
    and "ip_identity_status provider (w_calls w) (ic_issuer claim) (ic_subject claim) = Answer st"
    and "st \<in> {''locked'', ''disabled'', ''missing''}"
  shows "wp (synchronize_claim provider now c d claim)
    (\<lambda>revoked w'. revoked \<and> locked_out (xi_user_id x) (w_committed w') \<and>
       map_option xi_last_confirmed_status
         (map_of (t_external_identity (w_committed w')) (ic_external_identity_id claim)) = Some st)
    (\<lambda>e w'. e = IntegrityError \<and> w_committed w' = w_committed w) w"
proof -
  let ?i = "ic_external_identity_id claim"
  let ?v = "(sync_world (w\<lparr>w_calls := Suc (w_calls w)\<rparr>))
    \<lparr>w_db := t_external_identity_update (rows_where (claim_current claim) (status_confirmed st now))
       (w_db w)\<rparr>"
  let ?x = "status_confirmed st now x"
  have n: "length (filter (claim_current claim) (rows (t_external_identity (w_db w)))) = 1"
    using count_one [OF assms(3,4), of "\<lambda>y. xi_status_check_token y = Some (ic_token claim)"] assms(5)
    unfolding claim_current_def by simp
  have current: "claim_current claim x"
    using assms(5) keyed_key [OF assms(3,4)] by (simp add: claim_current_def)
  have q: "quiet ?v" using assms(1) by (simp add: quiet_def)
  have eff: "wp (record_confirmed_status_effects ?x p st now c d True)
    (\<lambda>r w'. ir_human_credentials_revoked r \<and> w_env w' = w_env ?v \<and>
       w_committed w' = w_committed ?v \<and>
       t_external_identity (w_db w') = t_external_identity (w_db ?v) \<and>
       locked_out (xi_user_id x) (w_db w'))
    (\<lambda>e w'. e = IntegrityError \<and> w_committed w' = w_committed w) ?v" for p
    by (rule wp_mono [OF wp_status_effects [OF q]])
      (use assms(1,7) in \<open>auto simp: status_confirmed_def\<close>)
  have "wp (apply_confirmed_claim claim st now c d)
    (\<lambda>r w'. ir_human_credentials_revoked r \<and> locked_out (xi_user_id x) (w_committed w') \<and>
       map_option xi_last_confirmed_status (map_of (t_external_identity (w_committed w')) ?i) = Some st)
    (\<lambda>e w'. e = IntegrityError \<and> w_committed w' = w_committed w) (w\<lparr>w_calls := Suc (w_calls w)\<rparr>)"
    using assms(1) n current assms(4)
    by (simp add: apply_confirmed_claim_def wp_simps map_of_rows_where, intro wp_mono [OF eff])
      (use quiet_env [OF assms(1)] in \<open>auto simp: wp_simps map_of_rows_where status_confirmed_def\<close>)
  then show ?thesis
    using assms(6,7)
    by (auto simp: synchronize_claim_def wp_simps confirmed_identity_statuses_def
        inactive_identity_statuses_def elim!: wp_mono)
qed

definition claimed_identity :: external_identity where
  "claimed_identity = sample_identity\<lparr>xi_status_check_token := Some ''c''\<rparr>"

definition disabling_provider :: customer_identity_provider where
  "disabling_provider = sample_provider\<lparr>ip_identity_status := (\<lambda>_ _ _. Answer ''disabled'')\<rparr>"

theorem inactive_identity_is_locked_out_witness:
  "wp (synchronize_claim disabling_provider 7 ''corr'' None
       \<lparr>ic_external_identity_id = ''x'', ic_user_id = ''u'', ic_issuer = ''https://id.example'',
        ic_subject = ''subject'', ic_previous_status = ''active'', ic_token = ''c''\<rparr>)
    (\<lambda>revoked w'. revoked \<and> locked_out ''u'' (w_committed w'))
    (\<lambda>e _. e = IntegrityError)
    (world_of (t_external_identity_update (\<lambda>_. [(''x'', claimed_identity)]) identity_db))"
  by (rule wp_mono [OF inactive_identity_is_locked_out [where x = claimed_identity and st = "''disabled''"]])
    (auto simp: keyed_def claimed_identity_def identity_defs disabling_provider_def)

section \<open>The security rollback\<close>

lemma rows_where_insert:
  "rows_where (\<lambda>s. ds_id s \<in> A \<and> ds_status s = ''active'') (session_revoked now)
     (rows_where (\<lambda>s. ds_id s = i \<and> ds_status s = ''active'') (session_revoked now) t) =
   rows_where (\<lambda>s. ds_id s \<in> insert i A \<and> ds_status s = ''active'') (session_revoked now) t"
  by (auto simp: rows_where_def session_revoked_def)

definition open_session_at :: "db \<Rightarrow> string \<Rightarrow> bool" where
  "open_session_at d i \<longleftrightarrow> (case map_of (t_device_session d) i of
     None \<Rightarrow> False | Some s \<Rightarrow> ds_status s = ''active'')"

lemma wp_rollback_session:
  assumes "quiet w" and "keyed ds_id (t_device_session (w_db w))" and "open_session_at (w_db w) i"
  shows "wp (rollback_session now i)
    (\<lambda>n w'. n = 1 \<and> w_env w' = w_env w \<and> w_committed w' = w_committed w \<and>
       t_device_session (w_db w') =
         rows_where (\<lambda>s. ds_id s = i \<and> ds_status s = ''active'') (session_revoked now)
           (t_device_session (w_db w)))
    (\<lambda>e w'. e = IntegrityError \<and> w_committed w' = w_committed w) w"
proof -
  obtain s where s: "map_of (t_device_session (w_db w)) i = Some s" "ds_status s = ''active''"
    using assms(3) by (auto simp: open_session_at_def split: option.splits)
  have n: "length (filter (\<lambda>s. ds_id s = i \<and> ds_status s = ''active'')
      (rows (t_device_session (w_db w)))) = 1"
    using count_one [OF assms(2) s(1), of "\<lambda>s. ds_status s = ''active''"] s(2) by simp
  have audit: "wp (record_identity_audit_event a)
      (\<lambda>_ w'. w_env w' = w_env v \<and> w_committed w' = w_committed v \<and>
         t_device_session (w_db w') = t_device_session (w_db v))
      (\<lambda>e w'. e = IntegrityError \<and> w_committed w' = w_committed v) v" if "\<not> ia_commit a" for a v
    by (rule wp_mono [OF wp_record_identity_audit [OF that]]) simp_all
  show ?thesis
    using assms(1) n s(1)
    by (auto simp: rollback_session_def wp_simps Let_def map_of_rows_where identity_audit_defaults_def
        intro!: wp_mono [OF audit])
qed

lemma wp_rollback_sessions:
  assumes "quiet w" and "keyed ds_id (t_device_session (w_db w))"
    and "distinct (map ds_id ss)" and "list_all (\<lambda>s. open_session_at (w_db w) (ds_id s)) ss"
  shows "wp (map_act (\<lambda>s. rollback_session now (ds_id s)) ss)
    (\<lambda>cs w'. sum_list cs = length ss \<and> w_env w' = w_env w \<and> w_committed w' = w_committed w \<and>
       t_device_session (w_db w') =
         rows_where (\<lambda>s. ds_id s \<in> set (map ds_id ss) \<and> ds_status s = ''active'')
           (session_revoked now) (t_device_session (w_db w)))
    (\<lambda>e w'. e = IntegrityError \<and> w_committed w' = w_committed w) w"
  using assms
proof (induction ss arbitrary: w)
  case Nil
  have "rows_where (\<lambda>_. False) f t = t" for f and t :: "device_session table"
    by (simp add: rows_where_def)
  then show ?case by (simp add: wp_simps)
next
  case (Cons s ss)
  have first: "open_session_at (w_db w) (ds_id s)" using Cons.prems(4) by simp
  have rest: "wp (map_act (\<lambda>s. rollback_session now (ds_id s)) ss)
      (\<lambda>cs w'. sum_list cs = length ss \<and> w_env w' = w_env w \<and> w_committed w' = w_committed w \<and>
         t_device_session (w_db w') =
           rows_where (\<lambda>s. ds_id s \<in> set (map ds_id ss) \<and> ds_status s = ''active'')
             (session_revoked now) (t_device_session (w_db v)))
      (\<lambda>e w'. e = IntegrityError \<and> w_committed w' = w_committed w) v"
    if v: "w_env v = w_env w" "w_committed v = w_committed w"
      and t: "t_device_session (w_db v) =
        rows_where (\<lambda>r. ds_id r = ds_id s \<and> ds_status r = ''active'') (session_revoked now)
          (t_device_session (w_db w))" for v
  proof (rule wp_mono [OF Cons.IH])
    show "quiet v" using Cons.prems(1) v by (simp add: quiet_def)
    show "keyed ds_id (t_device_session (w_db v))"
      unfolding t by (rule keyed_rows_where [OF Cons.prems(2)]) (simp add: session_revoked_def)
    show "distinct (map ds_id ss)" using Cons.prems(3) by simp
    show "list_all (\<lambda>s. open_session_at (w_db v) (ds_id s)) ss"
    proof (rule list_all_iff [THEN iffD2], rule ballI)
      fix r assume r: "r \<in> set ss"
      then have "ds_id r \<in> set (map ds_id ss)" by simp
      then have "ds_id r \<noteq> ds_id s" using Cons.prems(3) by auto
      moreover obtain q where q: "map_of (t_device_session (w_db w)) (ds_id r) = Some q"
          "ds_status q = ''active''"
        using r Cons.prems(4) by (auto simp: list_all_iff open_session_at_def split: option.splits)
      moreover have "ds_id q = ds_id r" by (rule keyed_key [OF Cons.prems(2) q(1)])
      ultimately show "open_session_at (w_db v) (ds_id r)"
        by (simp add: open_session_at_def t map_of_rows_where)
    qed
  qed (use v in simp_all)
  show ?case
    unfolding map_act.simps wp_bnd wp_ret
    by (rule wp_mono [OF wp_rollback_session [OF Cons.prems(1,2) first]], rule wp_mono [OF rest])
      (simp_all add: rows_where_insert)
qed

text \<open>
  C21: The security rollback goes through the active sessions one by one; its result is that of
  one update of all of them: every active session is revoked at that time, no other session
  changes, and it returns how many there were. (If an audit identifier is taken, nothing is
  committed.)
\<close>

theorem security_rollback_revokes_all:
  assumes "quiet w" and "clean w" and "keyed ds_id (t_device_session (w_db w))"
  shows "wp (revoke_user_sessions_for_security_rollback now)
    (\<lambda>n w'. n = length (filter (\<lambda>s. ds_status s = ''active'') (rows (t_device_session (w_committed w)))) \<and>
       t_device_session (w_committed w') =
         rows_where (\<lambda>s. ds_status s = ''active'') (session_revoked now)
           (t_device_session (w_committed w)))
    (\<lambda>e w'. e = IntegrityError \<and> w_committed w' = w_committed w) w"
proof -
  let ?t = "t_device_session (w_db w)"
  let ?active = "filter (\<lambda>s. ds_status s = ''active'') (rows ?t)"
  let ?ss = "sort_key (\<lambda>s. (ds_created_at s, ds_id s)) ?active"
  have rows: "map fst ?t = map ds_id (rows ?t)"
    using assms(3) by (induction ?t) (auto simp: keyed_def rows_def list_all_iff)
  have dist: "distinct (map ds_id (rows ?t))"
    using assms(3) unfolding keyed_def rows [symmetric] by blast
  then have "distinct (map ds_id ?active)" by (simp add: distinct_map_filter)
  then have "distinct (map ds_id ?ss)"
    by (simp add: distinct_map)
  moreover have "list_all (\<lambda>s. open_session_at (w_db w) (ds_id s)) ?ss"
    using keyed_get [OF assms(3)] by (auto simp: list_all_iff open_session_at_def)
  ultimately have loop: "wp (map_act (\<lambda>s. rollback_session now (ds_id s)) ?ss)
    (\<lambda>cs w'. sum_list cs = length ?ss \<and> w_env w' = w_env w \<and> w_committed w' = w_committed w \<and>
       t_device_session (w_db w') =
         rows_where (\<lambda>s. ds_id s \<in> set (map ds_id ?ss) \<and> ds_status s = ''active'')
           (session_revoked now) ?t)
    (\<lambda>e w'. e = IntegrityError \<and> w_committed w' = w_committed w) w"
    by (rule wp_rollback_sessions [OF assms(1,3)])
  have all: "rows_where (\<lambda>s. ds_id s \<in> set (map ds_id ?ss) \<and> ds_status s = ''active'')
      (session_revoked now) ?t = rows_where (\<lambda>s. ds_status s = ''active'') (session_revoked now) ?t"
    by (force simp: rows_where_def rows_def)
  have none: "rows_where (\<lambda>s. ds_status s = ''active'') f ?t = ?t" if "?active = []" for f
    using that by (force simp: rows_where_def rows_def filter_empty_conv intro: map_idI)
  have w: "w_committed w = w_db w" using assms(2) by (simp add: clean_def)
  show ?thesis
    unfolding revoke_user_sessions_for_security_rollback_def wp_bnd wp_db_select
  proof (rule wp_mono [OF loop], goal_cases)
    case (1 cs v)
    then have "quiet v" using assms(1) by (simp add: quiet_def)
    then show ?case
      using 1 none unfolding all by (auto simp: wp_simps w)
  next
    case (2 e v)
    then show ?case by simp
  qed
qed

theorem security_rollback_revokes_all_witness:
  "wp (revoke_user_sessions_for_security_rollback 9)
    (\<lambda>n w'. n = 1 \<and> map_option ds_status (map_of (t_device_session (w_committed w')) ''ds'') =
       Some ''revoked'')
    (\<lambda>e _. e = IntegrityError) (world_of identity_db)"
  by (rule wp_mono [OF security_rollback_revokes_all])
    (simp_all add: keyed_def identity_defs rows_def map_of_rows_where,
      simp add: rows_where_def session_revoked_def)

section \<open>The rollout\<close>



end
