(* ===== verification/LoginLaws.thy ===== *)
theory LoginLaws
  imports IdentitySamples
begin

text \<open>
  Login: a transaction is claimed by one callback, a settled transaction signs nobody in, and the
  onboarding of a new user happens as a whole or not at all.
\<close>

section \<open>The claim\<close>

definition claimed_db :: "string \<Rightarrow> db \<Rightarrow> db" where
  "claimed_db i = t_login_transaction_update
     (rows_where (transaction_pending i) (\<lambda>t. t\<lparr>lt_status := ''processing''\<rparr>))"

definition claimed_world :: "string \<Rightarrow> world \<Rightarrow> world" where
  "claimed_world i w = (let d = claimed_db i (w_db (sync_world w)) in
     sync_world ((sync_world w)\<lparr>w_db := d, w_committed := d\<rparr>))"

lemma claimed_transactions:
  "t_login_transaction (claimed_db i d) =
     rows_where (transaction_pending i) (\<lambda>t. t\<lparr>lt_status := ''processing''\<rparr>) (t_login_transaction d)"
  by (simp add: claimed_db_def)

lemma keyed_claimed:
  "keyed lt_id (t_login_transaction d) \<Longrightarrow> keyed lt_id (t_login_transaction (claimed_db i d))"
  unfolding claimed_transactions by (rule keyed_rows_where) simp_all

lemma claimed_world_quiet:
  assumes "quiet w"
  shows "quiet (claimed_world i w)" and "clean (claimed_world i w)"
    and "w_db (claimed_world i w) = claimed_db i (w_db w)"
    and "w_committed (claimed_world i w) = claimed_db i (w_db w)"
    and "w_env (claimed_world i w) = w_env w"
  using assms by (simp_all add: claimed_world_def Let_def clean_def)

lemma pending_count:
  assumes "keyed lt_id t" and "map_of t i = Some s"
  shows "length (filter (transaction_pending i) (rows t)) = (if lt_status s = ''pending'' then 1 else 0)"
  using count_one [OF assms, of "\<lambda>x. lt_status x = ''pending''"] unfolding transaction_pending_def .

lemma wp_claim_transaction:
  assumes "quiet w" and "keyed lt_id (t_login_transaction (w_db w))"
    and "map_of (t_login_transaction (w_db w)) (lt_id t) = Some s"
  shows "wp (claim_login_transaction t) Q E w = Q (if lt_status s = ''pending''
     then Some (s\<lparr>lt_status := ''processing''\<rparr>) else None) (claimed_world (lt_id t) w)"
proof -
  have id: "lt_id s = lt_id t" by (rule keyed_key [OF assms(2,3)])
  have row: "map_of (t_login_transaction (w_db (claimed_world (lt_id t) w))) (lt_id t) = Some
      (if lt_status s = ''pending'' then s\<lparr>lt_status := ''processing''\<rparr> else s)"
    using assms id
    by (simp add: claimed_world_quiet claimed_transactions map_of_rows_where transaction_pending_def)
  have "wp (claim_login_transaction t) Q E w =
    (if length (filter (transaction_pending (lt_id t))
          (rows (t_login_transaction (w_db (sync_world w))))) \<noteq> 1
     then Q None (claimed_world (lt_id t) w)
     else (case map_of (t_login_transaction (w_db (claimed_world (lt_id t) w))) (lt_id t) of
         None \<Rightarrow> E InvalidRequestError (claimed_world (lt_id t) w)
       | Some s' \<Rightarrow> Q (Some s') (claimed_world (lt_id t) w)))"
    unfolding claim_login_transaction_def wp_bnd wp_sync wp_db_update_where wp_commit wp_ret wp_if
      wp_db_refresh claimed_world_def claimed_db_def Let_def
    by (simp split: option.split add: wp_ret)
  then show ?thesis using pending_count [OF assms(2,3)] row assms(1) by simp
qed

text \<open>
  C23: Of two callbacks for one login transaction, only the first can claim it: the claim succeeds
  exactly if the stored transaction is pending, it leaves it in processing, the second claim
  fails, and no other transaction changes.
\<close>

theorem login_transaction_claimed_once:
  assumes "quiet w" and "keyed lt_id (t_login_transaction (w_db w))"
    and "map_of (t_login_transaction (w_db w)) (lt_id t) = Some s" and "lt_id t' = lt_id t"
  shows "wp (bnd (claim_login_transaction t) (\<lambda>first.
             bnd (claim_login_transaction t') (\<lambda>second.
             ret (first, second))))
    (\<lambda>(first, second) w'. (first = (if lt_status s = ''pending''
         then Some (s\<lparr>lt_status := ''processing''\<rparr>) else None)) \<and> second = None \<and>
       map_of (t_login_transaction (w_committed w')) (lt_id t) = Some (if lt_status s = ''pending''
         then s\<lparr>lt_status := ''processing''\<rparr> else s) \<and>
       (\<forall>k. k \<noteq> lt_id t \<longrightarrow> map_of (t_login_transaction (w_committed w')) k =
          map_of (t_login_transaction (w_db w)) k))
    (\<lambda>_ _. False) w"
proof -
  let ?w = "claimed_world (lt_id t) w"
  let ?s = "if lt_status s = ''pending'' then s\<lparr>lt_status := ''processing''\<rparr> else s"
  note q = claimed_world_quiet [OF assms(1), of "lt_id t"]
  have id: "lt_id s = lt_id t" by (rule keyed_key [OF assms(2,3)])
  have row: "map_of (t_login_transaction (w_db ?w)) (lt_id t') = Some ?s"
    using assms(3,4) id by (simp add: q claimed_transactions map_of_rows_where transaction_pending_def)
  have other: "map_of (t_login_transaction (claimed_db (lt_id t) d)) k = map_of (t_login_transaction d) k"
    if "keyed lt_id (t_login_transaction d)" and "k \<noteq> lt_id t" for d k
    using keyed_key [OF that(1), of k] that(2)
    by (cases "map_of (t_login_transaction d) k")
      (auto simp: claimed_transactions map_of_rows_where transaction_pending_def)
  have k: "keyed lt_id (t_login_transaction (w_db ?w))"
    unfolding q by (rule keyed_claimed [OF assms(2)])
  have last: "w_committed (claimed_world (lt_id t') ?w) = claimed_db (lt_id t) (w_db ?w)"
    using claimed_world_quiet(4) [OF q(1)] assms(4) by simp
  have same: "map_of (t_login_transaction (claimed_db (lt_id t) (w_db ?w))) (lt_id t) = Some ?s"
    using row assms(4) id
    by (simp add: claimed_transactions map_of_rows_where transaction_pending_def)
  show ?thesis
    unfolding wp_bnd wp_ret wp_claim_transaction [OF assms(1-3)] wp_claim_transaction [OF q(1) k row]
    using same other [OF k] other [OF assms(2)] last by (simp add: q(3))
qed

definition sample_transaction :: login_transaction where
  "sample_transaction = blank_login_transaction\<lparr>lt_id := ''lt'', lt_state_hash := ''st''\<rparr>"

theorem login_transaction_claimed_once_witness:
  "wp (bnd (claim_login_transaction sample_transaction) (\<lambda>first.
       bnd (claim_login_transaction sample_transaction) (\<lambda>second.
       ret (first, second))))
    (\<lambda>(first, second) w'. first \<noteq> None \<and> second = None)
    (\<lambda>_ _. False) (world_of (t_login_transaction_update (\<lambda>_. [(''lt'', sample_transaction)]) identity_db))"
  by (rule wp_mono [OF login_transaction_claimed_once [where s = sample_transaction]])
    (auto simp: keyed_def sample_transaction_def blank_login_transaction_def identity_defs)

section \<open>Settled transactions\<close>

text \<open>
  In a quiet world: no session was added or removed, in the view or in the committed database,
  and the provider was not asked.
\<close>

definition nobody_new :: "world \<Rightarrow> world \<Rightarrow> bool" where
  "nobody_new w w' \<longleftrightarrow> w_env w' = w_env w \<and> w_calls w' = w_calls w \<and>
     map fst (t_device_session (w_db w')) = map fst (t_device_session (w_db w)) \<and>
     map fst (t_device_session (w_committed w')) = map fst (t_device_session (w_db w))"

lemma keys_row_modify [simp]: "map fst (row_modify k f t) = map fst t"
  by (auto simp: row_modify_def update_keys split: option.split dest: map_of_SomeD intro: image_eqI
      simp: map_of_eq_None_iff)

abbreviation silent :: "world \<Rightarrow> 'a action \<Rightarrow> bool" where
  "silent w0 m \<equiv> (\<forall>w. nobody_new w0 w \<longrightarrow> wp m (\<lambda>_. nobody_new w0) (\<lambda>_. nobody_new w0) w)"

lemma silent_bind: "silent w0 m \<Longrightarrow> (\<And>x. silent w0 (k x)) \<Longrightarrow> silent w0 (bnd m k)"
  unfolding wp_bnd by (metis (mono_tags, lifting) wp_mono)

lemma silent_audit: "quiet w0 \<Longrightarrow> silent w0 (record_identity_audit_event a)"
proof (intro allI impI)
  fix w assume q: "quiet w0" and n: "nobody_new w0 w"
  then have "quiet w" by (simp add: nobody_new_def quiet_def)
  then show "wp (record_identity_audit_event a) (\<lambda>_. nobody_new w0) (\<lambda>_. nobody_new w0) w"
    by (cases "ia_commit a") (auto intro: wp_mono [OF wp_record_identity_audit]
      wp_mono [OF wp_record_identity_committed] simp: n [unfolded nobody_new_def] nobody_new_def)
qed

lemma silent_plain [simp]:
  "silent w0 (ret x)" "silent w0 (raise e)" "silent w0 (gets f)" "silent w0 random_token"
  "silent w0 (secret_hash s)" "silent w0 (hash_session_secret s)" "silent w0 (db_get tab k)"
  "silent w0 (db_select tab P)" "silent w0 (set_device_session r h)"
  "silent w0 (set_login_transaction r' g)"
  by (auto simp: wp_simps nobody_new_def secret_hash_def hash_session_secret_def
      set_device_session_def set_login_transaction_def)

lemma silent_only_if: "silent w0 m \<Longrightarrow> silent w0 (only_if b m)"
  by (simp add: wp_simps)

lemma silent_try: "silent w0 m \<Longrightarrow> (\<And>e. silent w0 (h e)) \<Longrightarrow> silent w0 (try_catch m h)"
  unfolding wp_try_catch by (metis (mono_tags, lifting) wp_mono)

lemmas silent_intros = silent_bind silent_only_if silent_try silent_audit

lemma silent_reject:
  assumes "quiet w0"
  shows "silent w0 (reject_callback found c rj)"
  unfolding reject_callback_def record_rejection_def terminalize_def requested_session_def Let_def
  using assms by (cases found) (simp_all add: silent_intros split: prod.split option.split bool.split)

lemma silent_resolve:
  assumes "quiet w0"
  shows "silent w0 (resolve_user_session_credential v now)"
  unfolding resolve_user_session_credential_def check_device_session_def reject_credential_def
    record_credential_event_def Let_def
  using assms by (simp add: silent_intros split: prod.split option.split)

text \<open>An answer that sets no cookie.\<close>

abbreviation bare :: "response action \<Rightarrow> bool" where
  "bare m \<equiv> (\<forall>w. wp m (\<lambda>r _. re_set_cookies r = []) (\<lambda>_ _. True) w)"

lemma bare_bind: "(\<And>x. bare (k x)) \<Longrightarrow> bare (bnd m k)"
  unfolding wp_bnd by (metis (mono_tags, lifting) wp_mono wp_any)

lemma bare_ret: "bare (ret r) = (re_set_cookies r = [])"
  by (simp add: wp_simps)

lemmas response_defs = plain_response_def redirect_response_def safe_failure_response_def
  recent_authentication_redirect_def recent_authentication_return_response_def

lemma bare_reject: "bare (reject_callback found c rj)"
  unfolding reject_callback_def Let_def
  by (cases found) (simp_all add: bare_bind bare_ret response_defs)

lemma silent_replay:
  assumes "quiet w0"
  shows "silent w0 (completed_session_response app request t now)"
  unfolding completed_session_response_def has_completed_session_def 
  using assms
  by (intro silent_try silent_bind; simp add: silent_intros silent_resolve split: exn.split option.split)

lemma bare_replay:
  "wp (completed_session_response app request t now)
     (\<lambda>r _. \<forall>x. r = Some x \<longrightarrow> re_set_cookies x = []) (\<lambda>_ _. True) w"
  unfolding completed_session_response_def wp_try_catch wp_bnd
  by (rule wp_mono [OF wp_any])
    (auto simp: wp_simps response_defs completed_redirect_def split: exn.split option.split)

text \<open>
  C24: A callback for a transaction that is not pending any more (completed, rejected, or claimed
  by another callback) neither asks the provider for anything nor adds a session, and its answer
  sets no cookie; an authorization code can be sent again without effect.
\<close>

theorem settled_transaction_signs_nobody_in:
  assumes "quiet w" and "clean w"
    and "first_of (filter (\<lambda>t. lt_state_hash t = e_sha256 (w_env w) state)
      (rows (t_login_transaction (w_db w)))) = Some t" and "lt_status t \<noteq> ''pending''"
  shows "wp (complete_login_callback app request state code now)
    (\<lambda>r w'. re_set_cookies r = [] \<and> w_calls w' = w_calls w \<and>
       map fst (t_device_session (w_committed w')) = map fst (t_device_session (w_committed w)))
    (\<lambda>e w'. w_calls w' = w_calls w \<and>
       map fst (t_device_session (w_committed w')) = map fst (t_device_session (w_committed w))) w"
proof -
  have start: "nobody_new w w" using assms(2) by (simp add: nobody_new_def clean_def)
  have refused: "wp (refuse t rj) (\<lambda>r w'. re_set_cookies r = [] \<and> nobody_new w w')
      (\<lambda>_ w'. nobody_new w w') v" if "nobody_new w v" for rj v
    using wp_conj [OF bare_reject [rule_format] silent_reject [OF assms(1), rule_format, OF that]]
    unfolding refuse_def by (rule wp_mono) simp_all
  have replayed: "wp (replayed_callback app request t now)
      (\<lambda>r w'. re_set_cookies r = [] \<and> nobody_new w w') (\<lambda>_ w'. nobody_new w w') w"
    unfolding replayed_callback_def wp_bnd
    by (rule wp_mono [OF wp_conj [OF bare_replay silent_replay [OF assms(1), rule_format, OF start]]])
      (auto simp: wp_simps refused split: option.split)
  have "wp (complete_login_callback app request state code now)
      (\<lambda>r w'. re_set_cookies r = [] \<and> nobody_new w w') (\<lambda>_ w'. nobody_new w w') w"
    unfolding complete_login_callback_def transaction_of_state_def
    using assms(3,4) refused [OF start] replayed by (simp add: wp_simps secret_hash_def)
  then show ?thesis
    by (rule wp_mono) (use assms(2) in \<open>simp_all add: nobody_new_def clean_def\<close>)
qed

definition login_db :: "login_transaction \<Rightarrow> db" where
  "login_db t = t_login_transaction_update (\<lambda>_. [(''lt'', t)]) identity_db"

theorem settled_transaction_signs_nobody_in_witness:
  "wp (complete_login_callback sample_app sample_request ''st'' ''code'' 5)
    (\<lambda>r w'. re_set_cookies r = [] \<and> w_calls w' = 0) (\<lambda>_ w'. w_calls w' = 0)
    (world_of (login_db (sample_transaction\<lparr>lt_status := ''rejected''\<rparr>)))"
  by (rule wp_mono [OF settled_transaction_signs_nobody_in
        [where t = "sample_transaction\<lparr>lt_status := ''rejected''\<rparr>"]])
    (simp_all add: login_db_def sample_transaction_def blank_login_transaction_def rows_def
      first_of_def sample_env_def clean_def, simp_all add: world_of_def)

section \<open>Onboarding\<close>

text \<open>The parts of a personal account, as the tables hold them.\<close>

record account_parts =
  ap_user :: user_account
  ap_account :: organization
  ap_workspace :: workspace
  ap_member :: organization_member
  ap_identity :: external_identity

definition personal_account :: "validated_external_identity \<Rightarrow> db \<Rightarrow> account_parts \<Rightarrow> bool" where
  "personal_account claims d a \<longleftrightarrow>
     map_of (t_user_account d) (us_id (ap_user a)) = Some (ap_user a) \<and>
     us_email (ap_user a) = ve_email claims \<and> us_status (ap_user a) = ''active'' \<and>
     map_of (t_organization d) (og_id (ap_account a)) = Some (ap_account a) \<and>
     og_account_kind (ap_account a) = AK_PERSONAL \<and>
     og_personal_owner_user_id (ap_account a) = Some (us_id (ap_user a)) \<and>
     map_of (t_workspace d) (ws_id (ap_workspace a)) = Some (ap_workspace a) \<and>
     ws_organization_id (ap_workspace a) = og_id (ap_account a) \<and>
     map_of (t_organization_member d) (om_id (ap_member a)) = Some (ap_member a) \<and>
     om_user_id (ap_member a) = us_id (ap_user a) \<and> om_role (ap_member a) = OWNER \<and>
     om_workspace_id (ap_member a) = ws_id (ap_workspace a) \<and>
     om_organization_id (ap_member a) = og_id (ap_account a) \<and>
     map_of (t_external_identity d) (xi_id (ap_identity a)) = Some (ap_identity a) \<and>
     xi_issuer (ap_identity a) = ve_issuer claims \<and> xi_subject (ap_identity a) = ve_subject claims \<and>
     xi_user_id (ap_identity a) = us_id (ap_user a) \<and> xi_status (ap_identity a) = ''active''"

lemma wp_create_personal:
  "wp (create_personal_onboarding claims step)
    (\<lambda>(u, m, x) w'. w_env w' = w_env w \<and> w_committed w' = w_committed w \<and>
       t_device_session (w_db w') = t_device_session (w_db w) \<and>
       (case (map_of (t_workspace (w_db w')) (om_workspace_id m),
              map_of (t_organization (w_db w')) (om_organization_id m)) of
          (Some s, Some g) \<Rightarrow> scope_active (Some s) (Some g) \<and> personal_account claims (w_db w')
            \<lparr>ap_user = u, ap_account = g, ap_workspace = s, ap_member = m, ap_identity = x\<rparr>
        | _ \<Rightarrow> False))
    (\<lambda>e w'. w_env w' = w_env w \<and> w_committed w' = w_committed w) w"
  by (simp add: create_personal_onboarding_def wp_simps inject_personal_onboarding_failure_def
      new_user_account_def new_organization_def new_workspace_def new_organization_member_def
      new_external_identity_def add_user_account_def add_organization_def add_workspace_def
      add_organization_member_def add_external_identity_def personal_account_def scope_active_def
      map_of_append_new blank_user_account_def blank_organization_def blank_workspace_def
      blank_organization_member_def blank_external_identity_def del: map_of_append)

lemma login_event_mono:
  assumes "\<And>w' f. w_env w' = w_env w \<Longrightarrow> w_committed w' = w_committed w \<Longrightarrow>
      w_db w' = t_identity_audit_event_update f (w_db w) \<Longrightarrow> Q () w'"
    and "\<And>e w'. w_env w' = w_env w \<Longrightarrow> w_committed w' = w_committed w \<Longrightarrow> E e w'"
  shows "wp (record_login_event ev r t rel u x d) Q E w"
  unfolding record_login_event_def wp_bnd wp_ret
  by (rule wp_mono [OF wp_record_identity_audit])
    (use assms in \<open>auto simp: identity_audit_defaults_def\<close>)

text \<open>The tables of an account besides the sessions.\<close>

definition account_tables ::
  "db \<Rightarrow> user_account table \<times> organization table \<times> workspace table \<times> organization_member table \<times>
     external_identity table" where
  "account_tables d = (t_user_account d, t_organization d, t_workspace d, t_organization_member d,
     t_external_identity d)"

lemma account_tables_upd [simp]:
  "account_tables (t_identity_audit_event_update f d) = account_tables d"
  "account_tables (t_login_transaction_update g d) = account_tables d"
  "account_tables (t_provider_logout_continuation_update h d) = account_tables d"
  "account_tables (t_device_session_update j d) = account_tables d"
  by (simp_all add: account_tables_def)

lemma wp_replace_continuation:
  assumes "quiet w"
    and "\<And>w' f. w_env w' = w_env w \<Longrightarrow> w_committed w' = w_committed w \<Longrightarrow>
      w_db w' = t_provider_logout_continuation_update f (w_db w) \<Longrightarrow> Q () w'"
    and "\<And>e w'. w_env w' = w_env w \<Longrightarrow> w_committed w' = w_committed w \<Longrightarrow> E e w'"
  shows "wp (replace_provider_logout_continuation i hint now) Q E w"
  using assms(1)
  by (auto simp: replace_provider_logout_continuation_def wp_simps new_provider_logout_continuation_def
      add_provider_logout_continuation_def comp_def split: option.split intro!: assms(2,3))

definition session_for ::
  "db \<Rightarrow> user_account \<Rightarrow> workspace \<Rightarrow> organization \<Rightarrow> device_session \<Rightarrow> bool" where
  "session_for d u ws og s \<longleftrightarrow> map_of (t_device_session d) (ds_id s) = Some s \<and>
     ds_status s = ''active'' \<and> ds_user_id s = us_id u \<and> ds_active_workspace_id s = ws_id ws \<and>
     ds_active_organization_id s = og_id og"

lemma session_for_upd [simp]:
  "session_for (t_identity_audit_event_update f d) u ws og s = session_for d u ws og s"
  "session_for (t_login_transaction_update g d) u ws og s = session_for d u ws og s"
  "session_for (t_provider_logout_continuation_update h d) u ws og s = session_for d u ws og s"
  by (simp_all add: session_for_def)

lemma wp_store_session:
  "wp (store_device_session request u ws og hashed t now)
    (\<lambda>s w'. w_env w' = w_env w \<and> w_committed w' = w_committed w \<and>
       account_tables (w_db w') = account_tables (w_db w) \<and> session_for (w_db w') u ws og s)
    (\<lambda>e w'. w_env w' = w_env w \<and> w_committed w' = w_committed w) w"
  by (simp add: store_device_session_def wp_simps new_device_session_def add_device_session_def
      session_for_def map_of_append_new blank_device_session_def del: map_of_append)

lemma wp_create_session:
  assumes "quiet w"
  shows "wp (create_session request t u ws og x hashed hint oc step authenticated now)
    (\<lambda>s w'. account_tables (w_committed w') = account_tables (w_db w) \<and>
       session_for (w_committed w') u ws og s)
    (\<lambda>e w'. w_env w' = w_env w \<and> w_committed w' = w_committed w) w"
  unfolding create_session_def wp_bnd
proof (rule wp_mono [OF wp_store_session], goal_cases)
  case (1 s v)
  then have q: "quiet v" using assms by (simp add: quiet_def)
  show ?case
    using 1 q
    by (auto simp: wp_only_if inject_personal_onboarding_failure_def wp_raise wp_ret wp_commit
        set_login_transaction_def wp_db_modify quiet_def
        intro!: login_event_mono wp_replace_continuation)
next
  case (2 e v)
  then show ?case by simp
qed

lemma personal_account_tables:
  "account_tables d' = account_tables d \<Longrightarrow> personal_account claims d' a = personal_account claims d a"
  by (simp add: personal_account_def account_tables_def)

lemma status_event_tables:
  assumes "\<And>w'. w_env w' = w_env w \<Longrightarrow> w_committed w' = w_committed w \<Longrightarrow>
      account_tables (w_db w') = account_tables (w_db w) \<Longrightarrow> Q () w'"
    and "\<And>e w'. w_env w' = w_env w \<Longrightarrow> w_committed w' = w_committed w \<Longrightarrow> E e w'"
  shows "wp (record_status_event ev r c x d) Q E w"
  unfolding record_status_event_def wp_bnd wp_ret
  by (rule wp_mono [OF wp_record_identity_audit])
    (use assms in \<open>auto simp: identity_audit_defaults_def\<close>)

text \<open>A confirmed active status touches the row of the identity only.\<close>

lemma wp_confirm_active:
  assumes "personal_account claims (w_db w) a"
  shows "wp (record_confirmed_identity_status (ap_identity a) ''active'' now c d False)
    (\<lambda>_ w'. w_env w' = w_env w \<and> w_committed w' = w_committed w \<and>
       (\<exists>x. personal_account claims (w_db w') (a\<lparr>ap_identity := x\<rparr>)))
    (\<lambda>e w'. w_env w' = w_env w \<and> w_committed w' = w_committed w) w"
proof -
  let ?f = "\<lambda>x. x\<lparr>xi_last_confirmed_status := ''active'', xi_last_confirmed_at := now,
    xi_last_status_checked_at := now, xi_status_check_token := None, xi_updated_at := now\<rparr>"
  show ?thesis
    using assms
    by (auto simp: record_confirmed_identity_status_def record_confirmed_status_effects_def
        confirmed_identity_statuses_def inactive_identity_statuses_def
        controlled_restoration_statuses_def set_external_identity_def wp_simps
        personal_account_tables personal_account_def account_tables_def Let_def
        intro!: status_event_tables exI [where x = "?f (ap_identity a)"])
qed

text \<open>What a successful onboarding has committed: the account, and a session in it.\<close>

definition onboarded :: "validated_external_identity \<Rightarrow> db \<Rightarrow> string \<Rightarrow> bool" where
  "onboarded claims d session_id \<longleftrightarrow> (\<exists>a s. personal_account claims d a \<and>
     session_for d (ap_user a) (ap_workspace a) (ap_account a) s \<and> ds_id s = session_id)"

definition accounts_kept :: "db \<Rightarrow> db \<Rightarrow> bool" where
  "accounts_kept d d' \<longleftrightarrow> account_tables d' = account_tables d \<and>
     t_device_session d' = t_device_session d"

text \<open>The redirect and the cookie of the new session, or nothing.\<close>

definition onboarding_outcome ::
  "app_state \<Rightarrow> validated_external_identity \<Rightarrow> db \<Rightarrow> response \<Rightarrow> db \<Rightarrow> bool" where
  "onboarding_outcome app claims d r d' \<longleftrightarrow>
     (if re_status r = 303
      then (\<exists>i secret. onboarded claims d' i \<and>
        re_set_cookies r = [(as_user_session_cookie_name app, i @ ''.'' @ secret)])
      else accounts_kept d d')"

lemma outcome_signed_in:
  "onboarded claims d' i \<Longrightarrow> onboarding_outcome app claims d
     (session_cookies app i secret ((redirect_response to)\<lparr>re_correlation_id := c\<rparr>)) d'"
  by (auto simp: onboarding_outcome_def session_cookies_def redirect_response_def plain_response_def)

lemma wp_rollback_onboarding:
  assumes "quiet w"
  shows "wp (rollback_personal_onboarding i c)
    (\<lambda>r w'. onboarding_outcome app claims (w_committed w) r (w_committed w'))
    (\<lambda>e w'. accounts_kept (w_committed w) (w_committed w')) w"
proof -
  have event: "wp (record_identity_audit_event a)
      (\<lambda>_ w'. accounts_kept (w_db v) (w_committed w'))
      (\<lambda>e w'. w_committed w' = w_committed v) v"
    if "quiet v" and "ia_commit a" for v a
    by (rule wp_mono [OF wp_record_identity_committed [OF that(2,1)]])
      (auto simp: accounts_kept_def)
  show ?thesis
    unfolding rollback_personal_onboarding_def wp_bnd
    using assms
    by (auto simp: wp_simps set_login_transaction_def onboarding_outcome_def safe_failure_response_def
        plain_response_def identity_audit_defaults_def accounts_kept_def split: option.split
        intro!: wp_mono [OF event])
qed

lemma wp_sign_up:
  assumes "quiet v"
    and "map_of (t_workspace (w_db v)) (om_workspace_id m) = Some ws"
    and "map_of (t_organization (w_db v)) (om_organization_id m) = Some og"
    and "scope_active (Some ws) (Some og)"
    and acc: "personal_account claims (w_db v)
      \<lparr>ap_user = u, ap_account = og, ap_workspace = ws, ap_member = m, ap_identity = x\<rparr>"
  shows "wp (sign_in app request t (Some u) (Some m) x hint True authenticated now)
    (\<lambda>r w'. onboarding_outcome app claims (w_committed v) r (w_committed w'))
    (\<lambda>e w'. accounts_kept (w_committed v) (w_committed w')) v" (is "wp _ ?Q ?E v")
proof -
  let ?a = "\<lparr>ap_user = u, ap_account = og, ap_workspace = ws, ap_member = m, ap_identity = x\<rparr>"
  have u: "us_status u = ''active''" using acc by (simp add: personal_account_def)
  have kept: "accounts_kept d d" for d by (simp add: accounts_kept_def)
  have create: "wp (create_session request t u ws og x' hashed hint True step authenticated now)
      (\<lambda>s v''. onboarded claims (w_committed v'') (ds_id s))
      (\<lambda>e v''. quiet v'' \<and> w_committed v'' = w_committed v) v'"
    if "w_env v' = w_env v" and "w_committed v' = w_committed v"
      and "personal_account claims (w_db v') (?a\<lparr>ap_identity := y\<rparr>)" for v' x' y hashed step
    using assms(1) that
    by (intro wp_mono [OF wp_create_session])
      (fastforce simp: quiet_def onboarded_def dest: personal_account_tables)+
  have undone: "wp (rollback_personal_onboarding i c) ?Q ?E v'"
    if "quiet v'" and "w_committed v' = w_committed v" for v' i c
    using wp_rollback_onboarding [OF that(1)] that(2) by simp
  have confirmed: "wp (record_confirmed_identity_status x ''active'' now c d False)
      (\<lambda>_ v'. w_env v' = w_env v \<and> w_committed v' = w_committed v \<and>
         (\<exists>y. personal_account claims (w_db v') (?a\<lparr>ap_identity := y\<rparr>)))
      (\<lambda>_ v'. w_committed v' = w_committed v) (v\<lparr>w_tokens := n\<rparr>)" for c d n
    by (rule wp_mono [OF wp_confirm_active [of claims _ ?a, simplified]]) (use acc in auto)
  have attempt: "wp (try_catch (bnd (create_session request t u ws og x hashed hint True step
        authenticated now) (\<lambda>s. ret (Inr s)))
      (\<lambda>e. if is_onboarding_failure e \<and> True
        then bnd (rollback_personal_onboarding i c) (\<lambda>r. ret (Inl r)) else raise e))
      (\<lambda>r v''. case r of Inl r \<Rightarrow> ?Q r v'' | Inr s \<Rightarrow> onboarded claims (w_committed v'') (ds_id s))
      ?E v'"
    if "w_env v' = w_env v" and "w_committed v' = w_committed v"
      and "personal_account claims (w_db v') (?a\<lparr>ap_identity := y\<rparr>)" for v' y hashed step i c
    unfolding wp_try_catch wp_bnd
    by (rule wp_mono [OF create [OF that]])
      (auto simp: wp_ret wp_if wp_bnd wp_raise kept intro: wp_mono [OF undone])
  show ?thesis
    unfolding sign_in_def
    using u assms(2-4)
  proof (simp add: wp_simps secret_hash_def del: wp_try_catch, intro wp_mono [OF confirmed], goal_cases)
    case (1 r v')
    then obtain y where y: "w_env v' = w_env v" "w_committed v' = w_committed v"
      "personal_account claims (w_db v') (?a\<lparr>ap_identity := y\<rparr>)" by auto
    show ?case
      unfolding wp_bnd [of "try_catch _ _"]
      by (rule wp_mono [OF attempt [OF y, simplified]])
        (auto simp: wp_ret outcome_signed_in split: sum.splits)
  qed (simp add: kept)
qed

text \<open>
  C25: The onboarding of a new user happens as a whole or not at all. The answer is the redirect
  with the session cookie exactly if a user with a personal account, a workspace the user owns,
  the external identity and an active session in that workspace are committed; any other
  answer and any error leave the committed accounts and sessions as they were.
\<close>

theorem onboarding_is_atomic:
  assumes "quiet w"
  shows "wp (onboard app request t claims hint authenticated now)
    (\<lambda>r w'. onboarding_outcome app claims (w_committed w) r (w_committed w'))
    (\<lambda>e w'. accounts_kept (w_committed w) (w_committed w')) w"
  unfolding onboard_def wp_bnd wp_try_catch
proof (rule wp_mono [OF wp_create_personal], goal_cases)
  case (1 r v)
  obtain u m x where r: "r = (u, m, x)" by (cases r)
  obtain ws og where "map_of (t_workspace (w_db v)) (om_workspace_id m) = Some ws"
    "map_of (t_organization (w_db v)) (om_organization_id m) = Some og"
    using 1 r by (auto split: option.splits)
  then show ?case
    using 1 r assms wp_sign_up [of v m ws og claims u x] by (simp add: wp_ret quiet_def)
next
  case (2 e v)
  then have v: "quiet v" "w_committed v = w_committed w" using assms by (auto simp: quiet_def)
  have undone: "wp (rollback_personal_onboarding i c)
      (\<lambda>r w'. onboarding_outcome app claims (w_committed w) r (w_committed w'))
      (\<lambda>e w'. accounts_kept (w_committed w) (w_committed w')) v" for i c
    using wp_rollback_onboarding [OF v(1)] v(2) by simp
  show ?case
    using v by (auto simp: wp_simps accounts_kept_def [of d d for d] intro: wp_mono [OF undone])
qed

theorem onboarding_is_atomic_witness:
  "wp (onboard sample_app sample_request sample_transaction sample_claims None 4 5)
    (\<lambda>r w'. onboarding_outcome sample_app sample_claims identity_db r (w_committed w'))
    (\<lambda>e w'. accounts_kept identity_db (w_committed w')) (world_of identity_db)"
  by (rule wp_mono [OF onboarding_is_atomic]) simp_all

end
