(* ===== verification/PathRules.thy ===== *)
theory PathRules
  imports PyText Auth
begin

text \<open>
  Which files a task may change (\<^verbatim>\<open>ai_company_worker/local_runner.py\<close>): the patterns of
  \<^verbatim>\<open>allowed_paths\<close> and \<^verbatim>\<open>fnmatch\<close>, which matches them.
\<close>

section \<open>Shell patterns\<close>

text \<open>
  \<^verbatim>\<open>fnmatch.fnmatchcase\<close>. The set between brackets: a closing bracket in the first place belongs to
  the set, without a closing bracket the opening one is an ordinary character. A hyphen between two
  characters makes a range, which is empty when its ends are in the wrong order.
\<close>

fun set_items :: "string \<Rightarrow> char \<Rightarrow> bool" where
  "set_items [] x = False"
| "set_items [a] x = (x = a)"
| "set_items [a, b] x = (x = a \<or> x = b)"
| "set_items (a # b # c # rest) x =
     (if b = CHR ''-'' then (of_char a \<le> (of_char x :: nat) \<and> of_char x \<le> (of_char c :: nat)) \<or> set_items rest x
      else x = a \<or> set_items (b # c # rest) x)"

definition in_set :: "string \<Rightarrow> char \<Rightarrow> bool" where
  "in_set stuff x =
     (case stuff of
        [] \<Rightarrow> False
      | c # rest \<Rightarrow> if c = CHR ''!'' then \<not> set_items rest x else set_items stuff x)"

text \<open>The set after an opening bracket, and the pattern after its closing one.\<close>

definition bracket_set :: "string \<Rightarrow> (string \<times> string) option" where
  "bracket_set p =
     (let front = (case p of c # _ \<Rightarrow> if c = CHR ''!'' then 1 else 0 | [] \<Rightarrow> 0);
          first = (case drop front p of c # _ \<Rightarrow> if c = CHR '']'' then front + 1 else front | [] \<Rightarrow> front);
          inside = takeWhile (\<lambda>c. c \<noteq> CHR '']'') (drop first p)
      in case drop (first + length inside) p of
           [] \<Rightarrow> None
         | _ # rest \<Rightarrow> Some (take (first + length inside) p, rest))"

lemma bracket_set_shorter: "bracket_set p = Some (s, rest) \<Longrightarrow> length rest < length p"
proof -
  assume "bracket_set p = Some (s, rest)"
  then obtain n c where "drop n p = c # rest" unfolding bracket_set_def Let_def by (auto split: list.splits)
  then have "length p - n = Suc (length rest)" by (metis length_Cons length_drop)
  then show ?thesis by simp
qed

function fnmatchcase :: "string \<Rightarrow> string \<Rightarrow> bool" where
  "fnmatchcase [] name \<longleftrightarrow> name = []"
| "fnmatchcase (c # pat) name \<longleftrightarrow>
     (if c = CHR ''*''
      then fnmatchcase pat name \<or> (case name of [] \<Rightarrow> False | _ # rest \<Rightarrow> fnmatchcase (c # pat) rest)
      else
        (case name of
           [] \<Rightarrow> False
         | x # rest \<Rightarrow>
             if c = CHR ''?'' then fnmatchcase pat rest
             else if c = CHR ''['' then
               (case bracket_set pat of
                  None \<Rightarrow> x = c \<and> fnmatchcase pat rest
                | Some (stuff, pat') \<Rightarrow> in_set stuff x \<and> fnmatchcase pat' rest)
             else x = c \<and> fnmatchcase pat rest))"
  by pat_completeness auto
termination
  by (relation "measure (\<lambda>(p, s). length p + length s)") (auto dest: bracket_set_shorter)

section \<open>Allowed paths\<close>

definition normalize_path_pattern :: "string \<Rightarrow> string" where
  "normalize_path_pattern path_pattern =
     strip (map (\<lambda>c. if c = CHR 0x5C then CHR ''/'' else c) path_pattern)"

definition has_drive :: "string \<Rightarrow> bool" where
  "has_drive p = (case p of c # d # _ \<Rightarrow> is_letter c \<and> d = CHR '':'' | _ \<Rightarrow> False)"

definition is_safe_relative_pattern :: "string \<Rightarrow> bool" where
  "is_safe_relative_pattern path_pattern \<longleftrightarrow>
     path_pattern \<noteq> [] \<and> \<not> (hd path_pattern = CHR ''/'' \<or> has_drive path_pattern) \<and>
     ''..'' \<notin> set (filter (\<lambda>part. part \<notin> {[], ''.''}) (split_on (CHR ''/'') path_pattern))"

definition ends_with :: "string \<Rightarrow> string \<Rightarrow> bool" where
  "ends_with s suffix \<longleftrightarrow> length suffix \<le> length s \<and> drop (length s - length suffix) s = suffix"

definition path_matches_allowed :: "string \<Rightarrow> string \<Rightarrow> bool" where
  "path_matches_allowed file_changed allowed_path =
     (let normalized_allowed = normalize_path_pattern allowed_path in
      if \<not> is_safe_relative_pattern normalized_allowed then False
      else if ends_with normalized_allowed ''/**''
      then (let front = take (length normalized_allowed - 3) normalized_allowed in
            file_changed = front \<or> starts_with (front @ ''/'') file_changed)
      else fnmatchcase normalized_allowed file_changed)"

text \<open>\<^verbatim>\<open>LocalRunnerError\<close> is the left side.\<close>

definition ensure_changed_files_allowed :: "string list \<Rightarrow> string list \<Rightarrow> string + unit" where
  "ensure_changed_files_allowed files_changed allowed_paths =
     (if allowed_paths = [] then Inl ''Task has no allowed_paths for local runner changes''
      else
        (case filter (\<lambda>f. \<not> list_ex (path_matches_allowed f) allowed_paths)
                (map normalize_path_pattern files_changed) of
           [] \<Rightarrow> Inr ()
         | f # _ \<Rightarrow> Inl (''Changed file is outside allowed_paths: '' @ f)))"

section \<open>Names of worktrees\<close>

definition segment_char :: "char \<Rightarrow> bool" where
  "segment_char c \<longleftrightarrow> is_letter c \<or> c \<in> set ''0123456789_.-''"

text \<open>\<^verbatim>\<open>re.sub(r"[^A-Za-z0-9_.-]+", "-", value)\<close>.\<close>

fun squeeze_segment :: "bool \<Rightarrow> string \<Rightarrow> string" where
  "squeeze_segment replaced [] = []"
| "squeeze_segment replaced (c # s) =
     (if segment_char c then c # squeeze_segment False s
      else if replaced then squeeze_segment True s
      else CHR ''-'' # squeeze_segment True s)"

definition strip_segment :: "string \<Rightarrow> string" where
  "strip_segment s =
     (let edge = (\<lambda>c. c = CHR ''.'' \<or> c = CHR ''-'') in rev (dropWhile edge (rev (dropWhile edge s))))"

definition safe_segment :: "string \<Rightarrow> string" where
  "safe_segment value =
     (let segment = strip_segment (squeeze_segment False value) in
      if segment = [] then ''run'' else segment)"

definition worktree_name :: "string \<Rightarrow> string \<Rightarrow> string" where
  "worktree_name task_id run_id = safe_segment task_id @ ''-'' @ safe_segment run_id"

end
