(* ===== verification/TestRunner.thy ===== *)
theory TestRunner
  imports PathRules CloudRunFinalize
begin

text \<open>
  Running a task's test commands (\<^verbatim>\<open>ai_company_worker/test_runner.py\<close>). The shell and the directory
  of the worktree are parameters; the loop over the commands is the code's.
\<close>

record test_command_result =
  tcr_command :: string
  tcr_exit_code :: "int option"
  tcr_stdout :: string
  tcr_stderr :: string
  tcr_duration_ms :: int

text \<open>The host: a path resolved, whether it is a directory, and one command run in it.\<close>

record test_host =
  th_resolve :: "nat \<Rightarrow> string \<Rightarrow> string"
  th_is_directory :: "nat \<Rightarrow> string \<Rightarrow> bool"
  th_run_command :: "nat \<Rightarrow> string \<Rightarrow> string \<Rightarrow> test_command_result"

record test_runner_result =
  trr_status :: string
  trr_command_results :: "test_command_result list"

text \<open>The commands in their order, up to the first that fails.\<close>

fun run_commands :: "test_host \<Rightarrow> string \<Rightarrow> string list \<Rightarrow> test_command_result list action" where
  "run_commands host worktree_path [] = ret []"
| "run_commands host worktree_path (command # commands) = bnd (external (\<lambda>n. th_run_command host n worktree_path command)) (\<lambda>result.
                                                          if tcr_exit_code result \<noteq> Some 0 then ret [result]
     else bnd (run_commands host worktree_path commands) (\<lambda>results.
          ret (result # results)))"

text \<open>A \<^verbatim>\<open>TestRunnerError\<close> is the left side.\<close>

definition run_tests :: "test_host \<Rightarrow> string \<Rightarrow> string list \<Rightarrow> (string + test_runner_result) action" where
  "run_tests host path commands = bnd (external (\<lambda>n. th_resolve host n path)) (\<lambda>worktree_path.
                                  bnd (external (\<lambda>n. th_is_directory host n worktree_path)) (\<lambda>found.
                                  if \<not> found then ret (Inl (''Worktree path does not exist: '' @ worktree_path))
     else if commands = [] then ret (Inl ''No test commands configured'')
     else bnd (run_commands host worktree_path commands) (\<lambda>results.
          ret (Inr \<lparr>trr_status = (if list_all (\<lambda>r. tcr_exit_code r = Some 0) results then ''passed''
                              else ''failed''),
                 trr_command_results = results\<rparr>))))"

text \<open>\<^verbatim>\<open>model_dump()\<close>.\<close>

definition command_result_dump :: "test_command_result \<Rightarrow> json" where
  "command_result_dump r = JObj
     [(''command'', JStr (tcr_command r)),
      (''exit_code'', (case tcr_exit_code r of None \<Rightarrow> JNull | Some n \<Rightarrow> JInt n)),
      (''stdout'', JStr (tcr_stdout r)), (''stderr'', JStr (tcr_stderr r)),
      (''duration_ms'', JInt (tcr_duration_ms r))]"

section \<open>What the runner does\<close>

text \<open>
  Every command but the last run succeeded, and the run is a prefix of what was asked for: the whole
  of it when the status is \<^verbatim>\<open>passed\<close>.
\<close>

lemma wp_run_commands:
  assumes "\<And>n p c. tcr_command (th_run_command host n p c) = c"
  shows "wp (run_commands host path commands)
    (\<lambda>rs w'. w_db w' = w_db w \<and> w_committed w' = w_committed w \<and> w_env w' = w_env w \<and>
       map tcr_command rs = take (length rs) commands \<and>
       (\<forall>r \<in> set (butlast rs). tcr_exit_code r = Some 0) \<and>
       (list_all (\<lambda>r. tcr_exit_code r = Some 0) rs \<longrightarrow> map tcr_command rs = commands))
    (\<lambda>_ _. False) w"
proof (induction commands arbitrary: w)
  case Nil
  then show ?case by (simp add: wp_simps)
next
  case (Cons c cs)
  show ?case
    using assms by (auto simp: wp_simps intro!: wp_mono [OF Cons.IH])
qed

end
