(* ===== verification/PatchTests.thy ===== *)
theory PatchTests
  imports TestRunner
begin

text \<open>
  Tests of a patch artifact (\<^verbatim>\<open>test_review_debug.py\<close>): the run of the task's test commands in the
  worktree, or the result a cloud run brought along, and the debug attempt that follows a failure.
\<close>

section \<open>Events and transitions\<close>

definition create_workflow_event ::
  "event_clock \<Rightarrow> string \<Rightarrow> string \<Rightarrow> json \<Rightarrow> event_clock action" where
  "create_workflow_event clock task_id event_type payload = bnd (create_task_event task_id event_type ''system'' ''test_runner'' payload) (\<lambda>event.
                                                            let (clock, time) = event_clock_next clock in
                                                            bnd (set_task_event event (\<lambda>e. e\<lparr>te_created_at := time\<rparr>)) (\<lambda>_.
                                                            ret clock))"

definition transition_task_for_workflow ::
  "event_clock \<Rightarrow> task \<Rightarrow> task_status \<Rightarrow> (event_clock \<times> task) action" where
  "transition_task_for_workflow clock task requested_status =
     (let current_status = tk_status task in
      case validate_transition current_status requested_status ''system'' of
        Inl msg \<Rightarrow> raise (transition_error msg current_status requested_status)
      | Inr next_status \<Rightarrow>
          bnd utc_now (\<lambda>now.
          bnd (set_task task (\<lambda>t. t\<lparr>tk_status := next_status, tk_updated_at := now\<rparr>)) (\<lambda>task.
          bnd (create_workflow_event clock (tk_id task) ''task_transitioned''
              (transition_payload current_status next_status)) (\<lambda>clock.
          ret (clock, task)))))"

section \<open>Lookups\<close>

text \<open>\<^verbatim>\<open>session.get(cls, id)\<close>, 404 when there is no row, then the check of its workspace.\<close>

definition get_owned :: "(db \<Rightarrow> 'r table) \<Rightarrow> ('r \<Rightarrow> string) \<Rightarrow> string \<Rightarrow> string \<Rightarrow> 'r action" where
  "get_owned tab workspace_of detail i = bnd (db_get tab i) (\<lambda>found.
                                         case found of
       None \<Rightarrow> raise (http 404 detail)
     | Some r \<Rightarrow> bnd (enforce_workspace_access (workspace_of r) detail) (\<lambda>_.
                ret r))"

definition get_patch_artifact_entity :: "string \<Rightarrow> patch_artifact action" where
  "get_patch_artifact_entity = get_owned t_patch_artifact pa_workspace_id ''Patch artifact not found''"

definition get_local_run_entity :: "string \<Rightarrow> local_task_run action" where
  "get_local_run_entity = get_owned t_local_task_run lr_workspace_id ''Local task run not found''"

definition get_test_run_entity :: "string \<Rightarrow> local_test_run action" where
  "get_test_run_entity = get_owned t_local_test_run tr_workspace_id ''Local test run not found''"

definition newest_test_run :: "local_test_run list \<Rightarrow> local_test_run option" where
  "newest_test_run rs = first_of (rev (sort_key (\<lambda>r. (tr_created_at r, tr_id r)) rs))"

definition latest_test_run :: "string \<Rightarrow> local_test_run option action" where
  "latest_test_run patch_artifact_id = bnd (db_select t_local_test_run (\<lambda>r. tr_patch_artifact_id r = Some patch_artifact_id)) (\<lambda>found.
                                       ret (newest_test_run found))"

definition latest_test_run_for_local_run :: "string \<Rightarrow> string \<Rightarrow> local_test_run option action" where
  "latest_test_run_for_local_run patch_artifact_id local_run_id = bnd (db_select t_local_test_run
       (\<lambda>r. tr_patch_artifact_id r = Some patch_artifact_id \<and> tr_local_run_id r = local_run_id)) (\<lambda>found.
                                                                  ret (newest_test_run found))"

section \<open>The result of a run\<close>

definition complete_test_run ::
  "local_test_run \<Rightarrow> patch_artifact \<Rightarrow> string \<Rightarrow> json list \<Rightarrow> string option \<Rightarrow>
     (local_test_run \<times> patch_artifact) action" where
  "complete_test_run test_run artifact status command_results failure_reason = bnd utc_now (\<lambda>now.
                                                                               bnd (set_local_test_run test_run (\<lambda>r. r\<lparr>
       tr_status := status,
       tr_command_results := command_results,
       tr_failure_reason := failure_reason,
       tr_completed_at := Some now\<rparr>)) (\<lambda>test_run.
                                                                               bnd (set_patch_artifact artifact (\<lambda>a. a\<lparr>
       pa_tests_run := tr_commands test_run,
       pa_test_result := (if status = ''passed'' then ''passed'' else ''failed'')\<rparr>)) (\<lambda>artifact.
                                                                               ret (test_run, artifact))))"

text \<open>\<^verbatim>\<open>exit_code != 0\<close> of a JSON value: \<^verbatim>\<open>False\<close> and \<^verbatim>\<open>0.0\<close> are zero too.\<close>

definition is_zero :: "json option \<Rightarrow> bool" where
  "is_zero j \<longleftrightarrow> j \<in> {Some (JInt 0), Some (JBool False), Some (JFloat ''0.0''), Some (JFloat ''-0.0'')}"

text \<open>\<^verbatim>\<open>str(d.get(key) or "").strip()\<close>.\<close>

definition stripped_output :: "json \<Rightarrow> string \<Rightarrow> string" where
  "stripped_output command_result key =
     (case jget command_result key of
        None \<Rightarrow> []
      | Some j \<Rightarrow> if jtruthy j then strip (detail_text j) else [])"

definition failure_reason_of :: "json \<Rightarrow> string" where
  "failure_reason_of command_result =
     (let command = (case jget command_result ''command'' of None \<Rightarrow> [] | Some j \<Rightarrow> detail_text j);
          stderr = stripped_output command_result ''stderr'';
          stdout = stripped_output command_result ''stdout'';
          detail = (if stderr \<noteq> [] then stderr else stdout)
      in ''Test command failed: '' @ command @ (if detail = [] then [] else '': '' @ detail))"

definition failure_reason :: "json list \<Rightarrow> string" where
  "failure_reason command_results =
     (case filter (\<lambda>r. \<not> is_zero (jget r ''exit_code'')) command_results of
        [] \<Rightarrow> ''Test command failed.''
      | r # _ \<Rightarrow> failure_reason_of r)"

definition create_debug_attempt ::
  "event_clock \<Rightarrow> task \<Rightarrow> patch_artifact \<Rightarrow> local_test_run option \<Rightarrow> patch_review option \<Rightarrow> string \<Rightarrow>
     string \<Rightarrow> (event_clock \<times> debug_attempt) action" where
  "create_debug_attempt clock task artifact test_run review root_cause fix_summary = bnd (new_debug_attempt (\<lambda>d. d\<lparr>
       da_workspace_id := pa_workspace_id artifact,
       da_project_id := tk_project_id task,
       da_task_id := tk_id task,
       da_patch_artifact_id := pa_id artifact,
       da_review_id := map_option rv_id review,
       da_test_run_id := map_option tr_id test_run,
       da_root_cause := root_cause,
       da_fix_summary := fix_summary\<rparr>)) (\<lambda>debug_attempt.
                                                                                     bnd (add_debug_attempt debug_attempt) (\<lambda>_.
                                                                                     bnd (create_workflow_event clock (tk_id task) ''debug_attempt_created''
       (JObj [(''patch_artifact_id'', JStr (pa_id artifact)),
              (''review_id'', jopt (map_option rv_id review)),
              (''test_run_id'', jopt (map_option tr_id test_run)),
              (''debug_attempt_id'', JStr (da_id debug_attempt))])) (\<lambda>clock.
                                                                                     ret (clock, debug_attempt))))"

definition test_fix_summary :: string where
  "test_fix_summary = ''Fix the failing test command output, then rerun local tests.''"

section \<open>Starting tests\<close>

record patch_test_run_result =
  ptr_task :: task
  ptr_patch_artifact :: patch_artifact
  ptr_test_run :: local_test_run
  ptr_debug_attempt :: "debug_attempt option"

definition new_artifact_test_run ::
  "patch_artifact \<Rightarrow> task \<Rightarrow> local_task_run \<Rightarrow> (local_test_run \<Rightarrow> local_test_run) \<Rightarrow> local_test_run action" where
  "new_artifact_test_run artifact task local_run f = bnd (new_local_test_run (\<lambda>r. f (r\<lparr>
       tr_workspace_id := pa_workspace_id artifact,
       tr_project_id := tk_project_id task,
       tr_task_id := tk_id task,
       tr_local_run_id := lr_id local_run,
       tr_patch_artifact_id := Some (pa_id artifact)\<rparr>))) (\<lambda>test_run.
                                                     bnd (add_local_test_run test_run) (\<lambda>_.
                                                     ret test_run))"

definition test_run_event ::
  "event_clock \<Rightarrow> task \<Rightarrow> string \<Rightarrow> patch_artifact \<Rightarrow> local_test_run \<Rightarrow> (string \<times> json) list \<Rightarrow>
     event_clock action" where
  "test_run_event clock task event_type artifact test_run rest =
     create_workflow_event clock (tk_id task) event_type
       (JObj ([(''patch_artifact_id'', JStr (pa_id artifact)), (''test_run_id'', JStr (tr_id test_run))]
              @ rest))"

text \<open>\<^verbatim>\<open>session.refresh\<close> of what the answer shows.\<close>

definition refreshed_result ::
  "task \<Rightarrow> patch_artifact \<Rightarrow> local_test_run \<Rightarrow> debug_attempt option \<Rightarrow> patch_test_run_result action" where
  "refreshed_result task artifact test_run debug_attempt = bnd (db_refresh t_task tk_id task) (\<lambda>task.
                                                           bnd (db_refresh t_patch_artifact pa_id artifact) (\<lambda>artifact.
                                                           bnd (db_refresh t_local_test_run tr_id test_run) (\<lambda>test_run.
                                                           bnd (opt_act (db_refresh t_debug_attempt da_id) debug_attempt) (\<lambda>debug_attempt.
                                                           ret \<lparr>ptr_task = task, ptr_patch_artifact = artifact, ptr_test_run = test_run,
          ptr_debug_attempt = debug_attempt\<rparr>))))"

text \<open>The simulated cloud run passes every test.\<close>

definition cloud_fake_result :: "string \<Rightarrow> json" where
  "cloud_fake_result command = JObj
     [(''command'', JStr command), (''exit_code'', JInt 0),
      (''stdout'', JStr ''cloud fake test passed''), (''stderr'', JStr []), (''duration_ms'', JInt 0)]"

definition start_cloud_fake_test_run ::
  "patch_artifact \<Rightarrow> task \<Rightarrow> local_task_run \<Rightarrow> patch_test_run_result action" where
  "start_cloud_fake_test_run artifact task local_run = bnd event_clock_new (\<lambda>clock.
                                                       let commands = (if tk_required_tests task = [] then [''cloud fake test''] else tk_required_tests task) in
                                                       bnd (new_artifact_test_run artifact task local_run
       (\<lambda>r. r\<lparr>tr_status := ''running'', tr_commands := commands\<rparr>)) (\<lambda>test_run.
                                                       bnd (test_run_event clock task ''test_run_started'' artifact test_run []) (\<lambda>clock.
                                                       bnd (transition_task_for_workflow clock task SELF_TESTING) (\<lambda>(clock, task).
                                                       bnd (complete_test_run test_run artifact ''passed''
       (map cloud_fake_result commands) None) (\<lambda>(test_run, artifact).
                                                       bnd (test_run_event clock task ''test_run_completed'' artifact test_run
       [(''status'', JStr (tr_status test_run))]) (\<lambda>clock.
                                                       bnd (transition_task_for_workflow clock task REVIEWING) (\<lambda>(clock, task).
                                                       bnd commit (\<lambda>_.
                                                       refreshed_result task artifact test_run None))))))))"

text \<open>The verdict of a completed run moves the task on to its review, or back to be fixed.\<close>

definition after_tests ::
  "event_clock \<Rightarrow> task \<Rightarrow> patch_artifact \<Rightarrow> local_test_run \<Rightarrow> bool \<Rightarrow> string \<Rightarrow>
     (task \<times> debug_attempt option) action" where
  "after_tests clock task artifact test_run passed root_cause =
     (if passed then bnd (transition_task_for_workflow clock task REVIEWING) (\<lambda>(clock, task).
                     ret (task, None))
      else bnd (create_debug_attempt clock task artifact (Some test_run) None
          root_cause test_fix_summary) (\<lambda>(clock, debug_attempt).
           bnd (transition_task_for_workflow clock task FIX_REQUESTED) (\<lambda>(clock, task).
           ret (task, Some debug_attempt))))"

definition docker_root_cause :: "local_test_run \<Rightarrow> string" where
  "docker_root_cause test_run =
     (let reason = failure_reason (tr_command_results test_run) in
      if reason = ''Test command failed.'' then str_or (tr_failure_reason test_run) reason else reason)"

definition start_persisted_docker_test_run ::
  "patch_artifact \<Rightarrow> task \<Rightarrow> local_task_run \<Rightarrow> patch_test_run_result action" where
  "start_persisted_docker_test_run artifact task local_run = bnd (latest_test_run_for_local_run (pa_id artifact) (lr_id local_run)) (\<lambda>found.
                                                             bnd (case found of
          Some r \<Rightarrow> ret r
        | None \<Rightarrow>
            bnd utc_now (\<lambda>now.
            new_artifact_test_run artifact task local_run
                (\<lambda>r. r\<lparr>tr_status := ''passed'', tr_commands := [], tr_command_results := [],
                       tr_failure_reason := None, tr_completed_at := Some now\<rparr>))) (\<lambda>test_run.
                                                             bnd event_clock_new (\<lambda>clock.
                                                             bnd (test_run_event clock task ''test_run_started'' artifact test_run []) (\<lambda>clock.
                                                             bnd (transition_task_for_workflow clock task SELF_TESTING) (\<lambda>(clock, task).
                                                             bnd (complete_test_run test_run artifact (tr_status test_run)
       (tr_command_results test_run) (tr_failure_reason test_run)) (\<lambda>(test_run, artifact).
                                                             bnd (test_run_event clock task ''test_run_completed'' artifact test_run
       [(''status'', JStr (tr_status test_run)),
        (''failure_reason'', jopt (tr_failure_reason test_run))]) (\<lambda>clock.
                                                             bnd (after_tests clock task artifact test_run
       (tr_status test_run = ''passed'') (docker_root_cause test_run)) (\<lambda>(task, debug_attempt).
                                                             bnd commit (\<lambda>_.
                                                             refreshed_result task artifact test_run debug_attempt)))))))))"

text \<open>What the runner reported, recorded on the rows as they are after it ran.\<close>

definition record_test_outcome ::
  "event_clock \<Rightarrow> string + test_runner_result \<Rightarrow> task \<Rightarrow> patch_artifact \<Rightarrow> local_test_run \<Rightarrow>
     (task \<times> patch_artifact \<times> local_test_run \<times> debug_attempt option) action" where
  "record_test_outcome clock outcome task artifact test_run =
     (case outcome of
        Inl message \<Rightarrow>
          bnd (complete_test_run test_run artifact ''failed'' [] (Some message)) (\<lambda>(test_run, artifact).
          bnd (test_run_event clock task ''test_run_completed'' artifact test_run
              [(''status'', JStr (tr_status test_run)),
               (''failure_reason'', jopt (tr_failure_reason test_run))]) (\<lambda>clock.
          bnd (after_tests clock task artifact test_run False
              (''Test command failed: '' @ message)) (\<lambda>(task, debug_attempt).
          ret (task, artifact, test_run, debug_attempt))))
      | Inr result \<Rightarrow>
          (let results = map command_result_dump (trr_command_results result) in
          let reason = (if trr_status result = ''failed'' then Some (failure_reason results) else None) in
          bnd (complete_test_run test_run artifact (trr_status result) results reason) (\<lambda>(test_run, artifact).
          bnd (test_run_event clock task ''test_run_completed'' artifact test_run
              [(''status'', JStr (tr_status test_run))]) (\<lambda>clock.
          bnd (after_tests clock task artifact test_run
              (trr_status result = ''passed'') (str_or reason ''Test command failed.'')) (\<lambda>(task, debug_attempt).
          ret (task, artifact, test_run, debug_attempt))))))"

definition audit_success :: "string \<Rightarrow> string \<Rightarrow> string \<Rightarrow> int \<Rightarrow> bool \<Rightarrow> unit action" where
  "audit_success operation resource_type resource_id status_code commits = bnd (record_workspace_audit
       ((workspace_audit_defaults operation resource_type (Some resource_id)
           AL_HIGH_VALUE_WRITE True status_code)\<lparr>wk_commit := commits\<rparr>)) (\<lambda>_.
                                                                           ret ())"

definition start_local_test_run ::
  "test_host \<Rightarrow> patch_artifact \<Rightarrow> task \<Rightarrow> local_task_run \<Rightarrow> string \<Rightarrow> patch_test_run_result action" where
  "start_local_test_run host artifact task local_run worktree_path = bnd event_clock_new (\<lambda>clock.
                                                                     let commands = tk_required_tests task in
                                                                     bnd (new_artifact_test_run artifact task local_run
       (\<lambda>r. r\<lparr>tr_status := ''running'', tr_commands := commands\<rparr>)) (\<lambda>test_run.
                                                                     bnd (test_run_event clock task ''test_run_started'' artifact test_run []) (\<lambda>clock.
                                                                     bnd (transition_task_for_workflow clock task SELF_TESTING) (\<lambda>(clock, started).
                                                                     bnd commit (\<lambda>_.
                                                                     bnd (run_tests host worktree_path commands) (\<lambda>outcome.
                                                                     bnd (get_task (tk_id started)) (\<lambda>task.
                                                                     bnd (get_patch_artifact_entity (pa_id artifact)) (\<lambda>artifact.
                                                                     bnd (get_test_run_entity (tr_id test_run)) (\<lambda>test_run.
                                                                     bnd (record_test_outcome clock outcome task artifact test_run) (\<lambda>(task, artifact, test_run, debug_attempt).
                                                                     bnd (audit_success ''patch_test.start'' ''patch_artifact'' (pa_id artifact) 201 False) (\<lambda>_.
                                                                     bnd commit (\<lambda>_.
                                                                     refreshed_result task artifact test_run debug_attempt))))))))))))"

text \<open>The body of the 400 when the task is not where the operation needs it.\<close>

definition status_required :: "string \<Rightarrow> task \<Rightarrow> task_status \<Rightarrow> exn" where
  "status_required message task expected = HTTPException 400
     (JObj [(''message'', JStr message),
            (''current_status'', JStr (task_status_value (tk_status task))),
            (''expected_status'', JStr (task_status_value expected)),
            (''allowed_next_statuses'', jstrs (allowed_next_statuses (tk_status task)))]) None"

definition start_patch_test_run :: "test_host \<Rightarrow> string \<Rightarrow> patch_test_run_result action" where
  "start_patch_test_run host patch_artifact_id = bnd (get_patch_artifact_entity patch_artifact_id) (\<lambda>artifact.
                                                 bnd (get_task (pa_task_id artifact)) (\<lambda>task.
                                                 bnd (require_audited_permission_if_authenticated ''run.write'' ''patch_test.start'' ''patch_artifact''
       (Some (pa_id artifact))) (\<lambda>_.
                                                 bnd (only_if (tk_status task \<noteq> PATCH_READY)
       (raise (status_required ''Task must be PATCH_READY before tests can run'' task PATCH_READY))) (\<lambda>_.
                                                 bnd (get_local_run_entity (pa_local_run_id artifact)) (\<lambda>local_run.
                                                 if lr_runner_kind local_run = ''cloud_fake'' then bnd (start_cloud_fake_test_run artifact task local_run) (\<lambda>result.
                                                       bnd (audit_success ''patch_test.start'' ''patch_artifact'' (pa_id artifact) 201 True) (\<lambda>_.
                                                       ret result))
     else if lr_runner_kind local_run = ''docker_local'' then bnd (start_persisted_docker_test_run artifact task local_run) (\<lambda>result.
                                                              bnd (audit_success ''patch_test.start'' ''patch_artifact'' (pa_id artifact) 201 True) (\<lambda>_.
                                                              ret result))
     else
       (case str_or (lr_worktree_path local_run) [] of
          [] \<Rightarrow> raise (HTTPException 400
            (JObj [(''message'', JStr ''Local run has no worktree_path''),
                   (''local_run_id'', JStr (lr_id local_run))]) None)
        | c # path \<Rightarrow> start_local_test_run host artifact task local_run (c # path)))))))"

section \<open>Reading\<close>

text \<open>A list or a row of execution evidence: its reading is permitted and recorded.\<close>

definition audited_read ::
  "string \<Rightarrow> string \<Rightarrow> string option \<Rightarrow> 'a action \<Rightarrow> ('a \<Rightarrow> (string \<times> json) list) \<Rightarrow>
     'a action" where
  "audited_read operation resource_type resource_id reading metadata = bnd (require_audited_workspace_permission_if_authenticated
       ''execution.evidence.read'' operation resource_type resource_id AL_HIGH_SENSITIVE_READ) (\<lambda>should_audit.
                                                                       bnd reading (\<lambda>result.
                                                                       bnd (only_if should_audit
       (bnd (record_workspace_audit
            ((workspace_audit_defaults operation resource_type resource_id
                AL_HIGH_SENSITIVE_READ True 200)\<lparr>wk_metadata := metadata result, wk_commit := True\<rparr>)) (\<lambda>_.
        ret ()))) (\<lambda>_.
                                                                       ret result)))"

definition list_patch_test_runs :: "string \<Rightarrow> local_test_run list action" where
  "list_patch_test_runs patch_artifact_id = bnd (get_patch_artifact_entity patch_artifact_id) (\<lambda>artifact.
                                            audited_read ''patch_test.list'' ''local_test_run'' None
       (bnd (db_select t_local_test_run (\<lambda>r. tr_patch_artifact_id r = Some patch_artifact_id)) (\<lambda>runs.
        ret (sort_key (\<lambda>r. (tr_created_at r, tr_id r)) runs)))
       (\<lambda>runs. [(''patch_artifact_id'', JStr (pa_id artifact)),
                (''count'', JInt (int (length runs)))]))"

definition get_test_run :: "string \<Rightarrow> local_test_run action" where
  "get_test_run test_run_id = bnd (get_test_run_entity test_run_id) (\<lambda>test_run.
                              audited_read ''patch_test.read'' ''local_test_run'' (Some (tr_id test_run)) (ret test_run)
       (\<lambda>r. [(''patch_artifact_id'', jopt (tr_patch_artifact_id r)),
             (''local_run_id'', JStr (tr_local_run_id r)),
             (''command_count'', JInt (int (length (tr_commands r))))]))"

definition list_debug_attempts :: "string \<Rightarrow> debug_attempt list action" where
  "list_debug_attempts task_id = bnd (get_task task_id) (\<lambda>task.
                                 audited_read ''debug_attempt.list'' ''debug_attempt'' None
       (bnd (db_select t_debug_attempt (\<lambda>d. da_task_id d = task_id)) (\<lambda>attempts.
        ret (sort_key (\<lambda>d. (da_created_at d, da_id d)) attempts)))
       (\<lambda>attempts. [(''task_id'', JStr (tk_id task)), (''count'', JInt (int (length attempts)))]))"

end
