(* ===== verification/PatchReviews.thy ===== *)
theory PatchReviews
  imports PatchTests
begin

text \<open>
  The deterministic review of a patch artifact (\<^verbatim>\<open>test_review_debug.py\<close>): its findings, the verdict, and
  the row of the review, of which an artifact has one.
\<close>

section \<open>Findings\<close>

definition deterministic_reviewer_kind :: string where
  "deterministic_reviewer_kind = ''deterministic''"

record review_issue =
  ri_code :: string
  ri_message :: string

definition review_issue_of :: "string \<Rightarrow> string \<Rightarrow> review_issue" where
  "review_issue_of code message = \<lparr>ri_code = code, ri_message = message\<rparr>"

definition issue_json :: "review_issue \<Rightarrow> json" where
  "issue_json i = JObj [(''code'', JStr (ri_code i)), (''message'', JStr (ri_message i))]"

definition diff_issues :: "patch_artifact \<Rightarrow> review_issue list" where
  "diff_issues artifact =
     (if strip (pa_diff_text artifact) = []
      then [review_issue_of ''missing_diff_text'' ''Patch artifact diff_text is missing.'']
      else [])"

definition file_issues :: "task \<Rightarrow> patch_artifact \<Rightarrow> review_issue list" where
  "file_issues task artifact =
     (if pa_files_changed artifact = []
      then [review_issue_of ''no_changed_files'' ''Patch artifact has no changed files.'']
      else
        (case ensure_changed_files_allowed (pa_files_changed artifact) (tk_allowed_paths task) of
           Inl message \<Rightarrow> [review_issue_of ''changed_file_outside_allowed_paths'' message]
         | Inr _ \<Rightarrow> []))"

definition test_issues :: "local_test_run option \<Rightarrow> review_issue list" where
  "test_issues latest =
     (case latest of
        None \<Rightarrow> [review_issue_of ''missing_passing_test_run''
                  ''No latest local test run is linked to this patch artifact.'']
      | Some r \<Rightarrow>
          if tr_status r \<noteq> ''passed''
          then [review_issue_of ''latest_test_run_not_passed''
                  (''Latest local test run did not pass: '' @ tr_status r @ ''.'')]
          else [])"

definition deterministic_review_issues ::
  "task \<Rightarrow> patch_artifact \<Rightarrow> local_test_run option \<Rightarrow> review_issue list" where
  "deterministic_review_issues task artifact latest =
     diff_issues artifact @ file_issues task artifact @ test_issues latest"

definition review_root_cause :: "review_issue list \<Rightarrow> string" where
  "review_root_cause issues =
     ''deterministic review requested changes: '' @ join_with ''; '' (map ri_message issues)"

section \<open>The review\<close>

definition first_review :: "patch_review list \<Rightarrow> patch_review option" where
  "first_review rs = first_of (sort_key (\<lambda>r. (rv_created_at r, rv_id r)) rs)"

definition existing_deterministic_review :: "string \<Rightarrow> patch_review option action" where
  "existing_deterministic_review patch_artifact_id = bnd (db_select t_patch_review (\<lambda>r. rv_patch_artifact_id r = patch_artifact_id \<and>
       rv_reviewer_kind r = deterministic_reviewer_kind)) (\<lambda>found.
                                                     ret (first_review found))"

definition debug_attempt_for_review :: "string \<Rightarrow> debug_attempt option action" where
  "debug_attempt_for_review review_id = bnd (db_select t_debug_attempt (\<lambda>d. da_review_id d = Some review_id)) (\<lambda>found.
                                        ret (first_of (sort_key (\<lambda>d. (da_created_at d, da_id d)) found)))"

record patch_review_result =
  prv_task :: task
  prv_patch_artifact :: patch_artifact
  prv_review :: patch_review
  prv_debug_attempt :: "debug_attempt option"

definition review_result_read :: "patch_review \<Rightarrow> patch_review_result action" where
  "review_result_read review = bnd (get_task (rv_task_id review)) (\<lambda>task.
                               bnd (get_patch_artifact_entity (rv_patch_artifact_id review)) (\<lambda>artifact.
                               bnd (debug_attempt_for_review (rv_id review)) (\<lambda>debug_attempt.
                               ret \<lparr>prv_task = task, prv_patch_artifact = artifact, prv_review = review,
          prv_debug_attempt = debug_attempt\<rparr>)))"

definition review_fix_summary :: string where
  "review_fix_summary = ''Address deterministic review findings, then rerun local tests.''"

text \<open>The block of the \<^verbatim>\<open>try\<close>: the row, its event, and where the task goes from here.\<close>

definition write_patch_review ::
  "event_clock \<Rightarrow> task \<Rightarrow> patch_artifact \<Rightarrow> local_test_run option \<Rightarrow> review_issue list \<Rightarrow>
     patch_review action" where
  "write_patch_review clock task artifact latest issues = bnd (new_patch_review (\<lambda>r. r\<lparr>
       rv_workspace_id := pa_workspace_id artifact,
       rv_project_id := tk_project_id task,
       rv_task_id := tk_id task,
       rv_local_run_id := pa_local_run_id artifact,
       rv_patch_artifact_id := pa_id artifact,
       rv_test_run_id := map_option tr_id latest,
       rv_reviewer_kind := deterministic_reviewer_kind,
       rv_verdict := (if issues = [] then ''approved'' else ''changes_requested''),
       rv_issues := map issue_json issues,
       rv_required_changes := map ri_message issues\<rparr>)) (\<lambda>review.
                                                          bnd (add_patch_review review) (\<lambda>_.
                                                          bnd (create_workflow_event clock (tk_id task) ''patch_review_created''
       (JObj [(''patch_artifact_id'', JStr (pa_id artifact)),
              (''review_id'', JStr (rv_id review)),
              (''test_run_id'', jopt (rv_test_run_id review)),
              (''verdict'', JStr (rv_verdict review))])) (\<lambda>clock.
                                                          bnd (if issues = [] then bnd (transition_task_for_workflow clock task APPROVED) (\<lambda>_.
                         ret ())
     else bnd (create_debug_attempt clock task artifact latest (Some review)
         (review_root_cause issues) review_fix_summary) (\<lambda>(clock, debug_attempt).
          bnd (transition_task_for_workflow clock task FIX_REQUESTED) (\<lambda>_.
          ret ()))) (\<lambda>_.
                                                          bnd commit (\<lambda>_.
                                                          ret review)))))"

text \<open>Another session was faster: its review is the answer, or the conflict is reported.\<close>

definition review_conflict :: "string \<Rightarrow> patch_review_result action" where
  "review_conflict patch_artifact_id = bnd rollback (\<lambda>_.
                                       bnd (existing_deterministic_review patch_artifact_id) (\<lambda>existing_review.
                                       case existing_review of
       Some review \<Rightarrow> review_result_read review
     | None \<Rightarrow> raise (http 409
         ''Patch review could not be created because of a uniqueness conflict'')))"

definition review_created :: "patch_artifact \<Rightarrow> patch_review \<Rightarrow> patch_review_result action" where
  "review_created artifact written = bnd (db_refresh t_patch_review rv_id written) (\<lambda>review.
                                     bnd (audit_success ''patch_review.start'' ''patch_artifact'' (pa_id artifact) 201 True) (\<lambda>_.
                                     review_result_read review))"

definition create_patch_review :: "task \<Rightarrow> patch_artifact \<Rightarrow> patch_review_result action" where
  "create_patch_review task artifact = bnd event_clock_new (\<lambda>clock.
                                       bnd (latest_test_run (pa_id artifact)) (\<lambda>latest.
                                       let issues = deterministic_review_issues task artifact latest in
                                       bnd (try_catch
       (bnd (write_patch_review clock task artifact latest issues) (\<lambda>review.
        ret (Inl review)))
       (\<lambda>e. if e = IntegrityError
            then bnd (review_conflict (pa_id artifact)) (\<lambda>result.
                 ret (Inr result))
            else raise e)) (\<lambda>written.
                                       case written of
       Inr result \<Rightarrow> ret result
     | Inl review \<Rightarrow> review_created artifact review)))"

definition start_patch_review :: "string \<Rightarrow> patch_review_result action" where
  "start_patch_review patch_artifact_id = bnd (get_patch_artifact_entity patch_artifact_id) (\<lambda>artifact.
                                          bnd (require_audited_permission_if_authenticated ''review.write'' ''patch_review.start''
       ''patch_artifact'' (Some (pa_id artifact))) (\<lambda>_.
                                          bnd (existing_deterministic_review (pa_id artifact)) (\<lambda>existing_review.
                                          case existing_review of
       Some review \<Rightarrow>
         bnd (review_result_read review) (\<lambda>result.
         bnd (audit_success ''patch_review.start'' ''patch_artifact'' (pa_id artifact) 200 True) (\<lambda>_.
         ret result))
     | None \<Rightarrow>
         bnd (get_task (pa_task_id artifact)) (\<lambda>task.
         bnd (only_if (tk_status task \<noteq> REVIEWING)
             (raise (status_required ''Task must be REVIEWING before review can run'' task REVIEWING))) (\<lambda>_.
         create_patch_review task artifact)))))"

section \<open>Reading\<close>

definition list_patch_reviews :: "string \<Rightarrow> patch_review list action" where
  "list_patch_reviews patch_artifact_id = bnd (get_patch_artifact_entity patch_artifact_id) (\<lambda>artifact.
                                          audited_read ''patch_review.list'' ''patch_review'' None
       (bnd (db_select t_patch_review (\<lambda>r. rv_patch_artifact_id r = patch_artifact_id)) (\<lambda>reviews.
        ret (sort_key (\<lambda>r. (rv_created_at r, rv_id r)) reviews)))
       (\<lambda>reviews. [(''patch_artifact_id'', JStr (pa_id artifact)),
                   (''count'', JInt (int (length reviews)))]))"

definition get_patch_review_entity :: "string \<Rightarrow> patch_review action" where
  "get_patch_review_entity = get_owned t_patch_review rv_workspace_id ''Patch review not found''"

definition get_patch_review :: "string \<Rightarrow> patch_review action" where
  "get_patch_review review_id = bnd (get_patch_review_entity review_id) (\<lambda>review.
                                audited_read ''patch_review.read'' ''patch_review'' (Some (rv_id review)) (ret review)
       (\<lambda>r. [(''patch_artifact_id'', JStr (rv_patch_artifact_id r)),
             (''task_id'', JStr (rv_task_id r))]))"

end
