(* ===== verification/PatchApprovals.thy ===== *)
theory PatchApprovals
  imports PatchReviews
begin

text \<open>
  The approval of a reviewed patch artifact (\<^verbatim>\<open>services/patch_approval.py\<close>) and the request for a
  human's decision on it.
\<close>

section \<open>Events and transitions\<close>

definition create_approval_event ::
  "event_clock \<Rightarrow> string \<Rightarrow> string \<Rightarrow> json \<Rightarrow> event_clock action" where
  "create_approval_event clock task_id event_type payload = bnd (create_task_event task_id event_type ''system'' ''patch_approval'' payload) (\<lambda>event.
                                                            let (clock, time) = event_clock_next clock in
                                                            bnd (set_task_event event (\<lambda>e. e\<lparr>te_created_at := time\<rparr>)) (\<lambda>_.
                                                            ret clock))"

definition transition_task_for_patch_approval ::
  "event_clock \<Rightarrow> task \<Rightarrow> task_status \<Rightarrow> (event_clock \<times> task) action" where
  "transition_task_for_patch_approval clock task requested_status =
     (let current_status = tk_status task in
      case validate_transition current_status requested_status ''system'' of
        Inl msg \<Rightarrow> raise (transition_error msg current_status requested_status)
      | Inr next_status \<Rightarrow>
          bnd utc_now (\<lambda>now.
          bnd (set_task task (\<lambda>t. t\<lparr>tk_status := next_status, tk_updated_at := now\<rparr>)) (\<lambda>task.
          bnd (create_approval_event clock (tk_id task) ''task_transitioned''
              (transition_payload current_status next_status)) (\<lambda>clock.
          ret (clock, task)))))"

section \<open>Lookups and what an approval says\<close>

definition existing_patch_approval :: "string \<Rightarrow> patch_approval option action" where
  "existing_patch_approval patch_artifact_id = bnd (db_select t_patch_approval (\<lambda>r. pp_patch_artifact_id r = patch_artifact_id)) (\<lambda>found.
                                               ret (first_of (sort_key (\<lambda>r. (pp_created_at r, pp_id r)) found)))"

definition newest_review :: "patch_review list \<Rightarrow> patch_review option" where
  "newest_review rs = first_of (rev (sort_key (\<lambda>r. (rv_created_at r, rv_id r)) rs))"

definition latest_review :: "string \<Rightarrow> patch_review option action" where
  "latest_review patch_artifact_id = bnd (db_select t_patch_review (\<lambda>r. rv_patch_artifact_id r = patch_artifact_id)) (\<lambda>found.
                                     ret (newest_review found))"

definition merge_instructions_of :: "task \<Rightarrow> patch_artifact \<Rightarrow> string" where
  "merge_instructions_of task artifact =
     (let worktree = str_or (tk_worktree_ref task) ''the task worktree'';
          files = join_with '', '' (pa_files_changed artifact);
          changed_files = (if files = [] then [] else '' Changed files: '' @ files @ ''.'')
      in ''Inspect '' @ worktree @ '' before merging.'' @ changed_files @
         '' This workflow records approval only and does not run git merge, '' @
         ''git commit, git push, git apply, or create a pull request.'')"

record patch_approval_result =
  pap_task :: task
  pap_patch_artifact :: patch_artifact
  pap_review :: patch_review
  pap_approval :: patch_approval

definition approval_result_read :: "patch_approval \<Rightarrow> patch_approval_result action" where
  "approval_result_read approval = bnd (get_task (pp_task_id approval)) (\<lambda>task.
                                   bnd (get_patch_artifact_entity (pp_patch_artifact_id approval)) (\<lambda>artifact.
                                   bnd (get_patch_review_entity (pp_review_id approval)) (\<lambda>review.
                                   ret \<lparr>pap_task = task, pap_patch_artifact = artifact, pap_review = review,
          pap_approval = approval\<rparr>)))"

section \<open>Approving an artifact\<close>

text \<open>The block of the \<^verbatim>\<open>try\<close>: the approval, its event, the task ready to be merged.\<close>

definition write_patch_approval ::
  "event_clock \<Rightarrow> task \<Rightarrow> patch_artifact \<Rightarrow> patch_review \<Rightarrow> patch_approval action" where
  "write_patch_approval clock task artifact review = bnd current_user_id (\<lambda>user_id.
                                                     bnd (new_patch_approval (\<lambda>a. a\<lparr>
       pp_workspace_id := pa_workspace_id artifact,
       pp_project_id := tk_project_id task,
       pp_task_id := tk_id task,
       pp_local_run_id := pa_local_run_id artifact,
       pp_patch_artifact_id := pa_id artifact,
       pp_review_id := rv_id review,
       pp_status := ''approved'',
       pp_approved_by := user_id,
       pp_merge_instructions := merge_instructions_of task artifact\<rparr>)) (\<lambda>approval.
                                                     bnd (add_patch_approval approval) (\<lambda>_.
                                                     bnd (create_approval_event clock (tk_id task) ''patch_approval_created''
       (JObj [(''patch_approval_id'', JStr (pp_id approval)),
              (''patch_artifact_id'', JStr (pa_id artifact)),
              (''review_id'', JStr (rv_id review)),
              (''status'', JStr (pp_status approval))])) (\<lambda>clock.
                                                     bnd (transition_task_for_patch_approval clock task MERGE_READY) (\<lambda>_.
                                                     bnd (audit_success ''patch_artifact.approve'' ''patch_artifact'' (pa_id artifact) 201 False) (\<lambda>_.
                                                     bnd commit (\<lambda>_.
                                                     ret approval)))))))"

definition approval_conflict :: "string \<Rightarrow> (patch_approval_result \<times> int) action" where
  "approval_conflict patch_artifact_id = bnd rollback (\<lambda>_.
                                         bnd (existing_patch_approval patch_artifact_id) (\<lambda>existing_approval.
                                         case existing_approval of
       Some approval \<Rightarrow> bnd (approval_result_read approval) (\<lambda>result.
                       ret (result, 200))
     | None \<Rightarrow> raise (http 409
         ''Patch approval could not be created because of a uniqueness conflict'')))"

definition approval_created :: "patch_approval \<Rightarrow> (patch_approval_result \<times> int) action" where
  "approval_created written = bnd (db_refresh t_patch_approval pp_id written) (\<lambda>approval.
                              bnd (approval_result_read approval) (\<lambda>result.
                              ret (result, 201)))"

definition create_patch_approval ::
  "task \<Rightarrow> patch_artifact \<Rightarrow> patch_review \<Rightarrow> (patch_approval_result \<times> int) action" where
  "create_patch_approval task artifact review = bnd event_clock_new (\<lambda>clock.
                                                bnd (try_catch
       (bnd (write_patch_approval clock task artifact review) (\<lambda>approval.
        ret (Inl approval)))
       (\<lambda>e. if e = IntegrityError
            then bnd (approval_conflict (pa_id artifact)) (\<lambda>result.
                 ret (Inr result))
            else raise e)) (\<lambda>written.
                                                case written of
       Inr result \<Rightarrow> ret result
     | Inl approval \<Rightarrow> approval_created approval))"

definition review_required :: "patch_artifact \<Rightarrow> exn" where
  "review_required artifact = HTTPException 400
     (JObj [(''message'', JStr ''Patch approval requires an approved review''),
            (''patch_artifact_id'', JStr (pa_id artifact))]) None"

definition approve_patch_artifact :: "string \<Rightarrow> (patch_approval_result \<times> int) action" where
  "approve_patch_artifact patch_artifact_id = bnd (get_patch_artifact_entity patch_artifact_id) (\<lambda>artifact.
                                              bnd (require_audited_permission_if_authenticated ''approval.write'' ''patch_artifact.approve''
       ''patch_artifact'' (Some (pa_id artifact))) (\<lambda>_.
                                              bnd (existing_patch_approval (pa_id artifact)) (\<lambda>existing_approval.
                                              case existing_approval of
       Some approval \<Rightarrow>
         bnd (approval_result_read approval) (\<lambda>result.
         bnd (audit_success ''patch_artifact.approve'' ''patch_artifact'' (pa_id artifact) 200 True) (\<lambda>_.
         ret (result, 200)))
     | None \<Rightarrow>
         bnd (get_task (pa_task_id artifact)) (\<lambda>task.
         bnd (only_if (tk_status task \<noteq> APPROVED)
             (raise (status_required ''Task must be APPROVED before patch approval'' task APPROVED))) (\<lambda>_.
         bnd (latest_review (pa_id artifact)) (\<lambda>newest.
         case newest of
             None \<Rightarrow> raise (review_required artifact)
           | Some review \<Rightarrow>
               if rv_verdict review \<noteq> ''approved'' then raise (review_required artifact)
               else create_patch_approval task artifact review))))))"

section \<open>Reading and asking a human\<close>

definition get_patch_approval :: "string \<Rightarrow> patch_approval action" where
  "get_patch_approval = get_owned t_patch_approval pp_workspace_id ''Patch approval not found''"

definition list_patch_approvals :: "string \<Rightarrow> patch_approval list action" where
  "list_patch_approvals patch_artifact_id = bnd (get_patch_artifact_entity patch_artifact_id) (\<lambda>_.
                                            bnd (db_select t_patch_approval (\<lambda>r. pp_patch_artifact_id r = patch_artifact_id)) (\<lambda>approvals.
                                            ret (sort_key (\<lambda>r. (pp_created_at r, pp_id r)) approvals)))"

definition request_human_approval :: "string \<Rightarrow> patch_approval_result action" where
  "request_human_approval approval_id = bnd (get_patch_approval approval_id) (\<lambda>approval.
                                        bnd (get_task (pp_task_id approval)) (\<lambda>task.
                                        bnd (require_audited_permission_if_authenticated ''approval.write'' ''patch_approval.request_human''
       ''patch_approval'' (Some (pp_id approval))) (\<lambda>_.
                                        bnd (only_if (tk_status task \<noteq> MERGE_READY)
       (raise (status_required ''Task must be MERGE_READY before human approval can be requested''
          task MERGE_READY))) (\<lambda>_.
                                        bnd event_clock_new (\<lambda>clock.
                                        bnd (create_approval_event clock (tk_id task) ''human_approval_requested''
       (JObj [(''patch_approval_id'', JStr (pp_id approval)),
              (''patch_artifact_id'', JStr (pp_patch_artifact_id approval)),
              (''review_id'', JStr (pp_review_id approval))])) (\<lambda>clock.
                                        bnd (transition_task_for_patch_approval clock task HUMAN_APPROVAL) (\<lambda>_.
                                        bnd (audit_success ''patch_approval.request_human'' ''patch_approval'' (pp_id approval) 200 False) (\<lambda>_.
                                        bnd commit (\<lambda>_.
                                        bnd (db_refresh t_patch_approval pp_id approval) (\<lambda>refreshed.
                                        approval_result_read refreshed))))))))))"

end
