(* ===== verification/Workflow.thy ===== *)
theory Workflow
  imports PatchApprovals
begin

text \<open>
  The workflow of tasks as a server: the requests that create tasks, decide on plans, move a task, and
  take its patch through tests, review and approval, in any order, each in a session of its own,
  with other sessions committing in between. The cloud runner is served by \<^verbatim>\<open>Runner\<close>.
\<close>

datatype workflow_request =
    CreateTask string task_create
  | ApprovePlan string
  | RejectPlan string string
  | MoveTask string task_status string string
  | StartTests string
  | StartReview string
  | ApproveArtifact string
  | RequestHuman string

fun handle_workflow :: "test_host \<Rightarrow> workflow_request \<Rightarrow> unit action" where
  "handle_workflow host (CreateTask project_id data) = bnd (create_task project_id data) (\<lambda>_.
                                                       ret ())"
| "handle_workflow host (ApprovePlan planner_run_id) = bnd (approve_planner_run planner_run_id) (\<lambda>_.
                                                       ret ())"
| "handle_workflow host (RejectPlan planner_run_id reason) =
     bnd (reject_planner_run planner_run_id reason) (\<lambda>_.
     ret ())"
| "handle_workflow host (MoveTask task_id status actor_type actor_id) =
     bnd (transition_task task_id status actor_type actor_id) (\<lambda>_.
     ret ())"
| "handle_workflow host (StartTests artifact_id) = bnd (start_patch_test_run host artifact_id) (\<lambda>_.
                                                   ret ())"
| "handle_workflow host (StartReview artifact_id) = bnd (start_patch_review artifact_id) (\<lambda>_.
                                                    ret ())"
| "handle_workflow host (ApproveArtifact artifact_id) =
     bnd (approve_patch_artifact artifact_id) (\<lambda>_.
     ret ())"
| "handle_workflow host (RequestHuman approval_id) = bnd (request_human_approval approval_id) (\<lambda>_.
                                                     ret ())"

definition serve_workflow_one :: "test_host \<Rightarrow> workflow_request \<Rightarrow> world \<Rightarrow> world" where
  "serve_workflow_one host q w = sync_world (snd (run_request (handle_workflow host q) w))"

definition serve_workflow :: "test_host \<Rightarrow> workflow_request list \<Rightarrow> world \<Rightarrow> world" where
  "serve_workflow host qs w = fold (serve_workflow_one host) qs w"

section \<open>The environment of a request\<close>

text \<open>No request changes the clock, the identifiers or the behaviour of the others.\<close>

abbreviation in_env :: "env \<Rightarrow> world \<Rightarrow> bool" where
  "in_env v w \<equiv> w_env w = v"

abbreviation env_kept :: "env \<Rightarrow> 'a action \<Rightarrow> bool" where
  "env_kept v \<equiv> keeps (in_env v) (\<lambda>_. in_env v)"

lemma env_kept_session [keeps_intros]:
  "env_kept v utc_now" "env_kept v uuid_hex" "env_kept v (prefixed_id p)" "env_kept v random_token"
  "env_kept v sync" "env_kept v commit" "env_kept v rollback" "env_kept v (db_get tab k)"
  "env_kept v (db_select tab' P)" "env_kept v (db_refresh tab'' key r)"
  "env_kept v (db_insert tab1 upd1 key1 clash r1)" "env_kept v (db_modify upd2 key2 r2 f2)"
  "env_kept v (modify (w_audit_seq_update g))" "env_kept v (external h)"
  by (auto intro!: keepsI simp: wp_simps split: option.split)

lemma keeps_list [keeps_intros]:
  "(x = [] \<Longrightarrow> keeps I C m) \<Longrightarrow> (\<And>y ys. x = y # ys \<Longrightarrow> keeps I C (f y ys)) \<Longrightarrow>
     keeps I C (case x of [] \<Rightarrow> m | y # ys \<Rightarrow> f y ys)"
  by (simp split: list.split)

lemma env_kept_raise [keeps_intros]: "env_kept v (raise e)"
  by (rule keeps_raise)

lemma env_kept_catch [keeps_intros]:
  "env_kept v m \<Longrightarrow> (\<And>e. env_kept v (h e)) \<Longrightarrow> env_kept v (try_catch m h)"
  by (rule keeps_try_catch [of _ "\<lambda>_. in_env v"]) (auto dest: keepsD)

lemma env_kept_rows [keeps_intros]:
  "env_kept v (add_task t)" "env_kept v (set_task t ft)"
  "env_kept v (add_task_event te)" "env_kept v (set_task_event te fe)"
  "env_kept v (add_local_test_run tr)" "env_kept v (set_local_test_run tr fr)"
  "env_kept v (set_patch_artifact pa fa)" "env_kept v (add_debug_attempt da)"
  "env_kept v (add_patch_review rv)" "env_kept v (add_patch_approval pp)"
  "env_kept v (add_approval ap)" "env_kept v (set_planner_run pr fp)"
  "env_kept v (add_workspace_audit_log wa)" "env_kept v (add_identity_audit_event ie)"
  unfolding add_task_def set_task_def add_task_event_def set_task_event_def add_local_test_run_def
    set_local_test_run_def set_patch_artifact_def add_debug_attempt_def add_patch_review_def
    add_patch_approval_def add_approval_def set_planner_run_def add_workspace_audit_log_def
    add_identity_audit_event_def
  by (rule env_kept_session)+

lemma env_kept_new [keeps_intros]:
  "env_kept v (new_task ft)" "env_kept v (new_task_event fe)" "env_kept v (new_local_test_run fr)"
  "env_kept v (new_debug_attempt fd)" "env_kept v (new_patch_review fv)"
  "env_kept v (new_patch_approval fp)" "env_kept v (new_approval fa)"
  "env_kept v (new_workspace_audit_log fw)" "env_kept v (new_identity_audit_event fi)"
  unfolding new_row_defs by (intro keeps_intros)+

lemma env_kept_context [keeps_intros]:
  "env_kept v require_current_auth_context" "env_kept v get_current_auth_context"
  "env_kept v current_user_id" "env_kept v current_workspace_id"
  "env_kept v (enforce_workspace_access ws detail)"
  by (auto intro!: keepsI simp: wp_simps split: option.split)

lemma env_kept_audit [keeps_intros]:
  "env_kept v (record_workspace_audit a)" "env_kept v (record_identity_audit_event b)"
  unfolding record_workspace_audit_def record_identity_audit_event_def resolved_request_id_def
    resolved_correlation_id_def resolved_audit_time_def next_occurred_at_def
  by (intro keeps_intros)+

lemma env_kept_permission [keeps_intros]:
  "env_kept v (record_denial operation resource_type resource_id level)"
  "env_kept v (require_workspace_permission p)"
  unfolding record_denial_def require_workspace_permission_def allowed_roles_for_permission_def
    require_workspace_role_def
  by (intro keeps_intros)+

lemma env_kept_audited [keeps_intros]:
  "env_kept v (require_audited_permission_if_authenticated p operation resource_type resource_id)"
  unfolding require_audited_permission_if_authenticated_def require_audited_workspace_permission_def
  by (intro keeps_intros) (auto intro!: keeps_intros split: exn.split)

lemma env_kept_reads [keeps_intros]:
  "env_kept v (get_project i)" "env_kept v (get_repository i)" "env_kept v (get_conversation i)"
  "env_kept v (get_task i)" "env_kept v (get_planner_run i)" "env_kept v (list_planner_task_drafts i)"
  "env_kept v (get_owned tab ws detail i)"
  unfolding get_project_def get_repository_def get_conversation_def get_task_def
    get_planner_run_def list_planner_task_drafts_def get_owned_def
  by (intro keeps_intros)+

lemma env_kept_opt_act [keeps_intros]:
  "(\<And>y. env_kept v (f y)) \<Longrightarrow> env_kept v (opt_act f x)"
  unfolding opt_act_def by (intro keeps_intros)

lemma env_kept_task_events [keeps_intros]:
  "env_kept v event_clock_new" "env_kept v (create_task_event i typ actor actor_id payload)"
  unfolding event_clock_new_def create_task_event_def by (intro keeps_intros)+

lemma env_kept_planning [keeps_intros]:
  "env_kept v (create_task i d)" "env_kept v (transition_task i st actor actor_id)"
  "env_kept v (approve_planner_run i)" "env_kept v (reject_planner_run i reason)"
  unfolding create_task_def transition_task_def approve_planner_run_def reject_planner_run_def
    ensure_planner_run_is_drafted_def already_decided_def create_task_from_draft_def
  by (intro keeps_intros)+

lemma env_kept_events [keeps_intros]:
  "env_kept v (create_workflow_event c i typ payload)"
  "env_kept v (create_approval_event c i typ payload)"
  "env_kept v (audit_success operation resource_type resource_id code commits)"
  unfolding create_workflow_event_def create_approval_event_def audit_success_def
  by (intro keeps_intros)+

lemma env_kept_transitions [keeps_intros]:
  "env_kept v (transition_task_for_workflow c t s)"
  "env_kept v (transition_task_for_patch_approval c t s)"
  unfolding transition_task_for_workflow_def transition_task_for_patch_approval_def
  by (intro keeps_intros)+

lemma env_kept_test_parts [keeps_intros]:
  "env_kept v (complete_test_run r a s results reason)"
  "env_kept v (create_debug_attempt c t a run_opt review_opt root_cause fix)"
  "env_kept v (new_artifact_test_run a t l f)" "env_kept v (test_run_event c t typ a r rest)"
  "env_kept v (latest_test_run i)" "env_kept v (latest_test_run_for_local_run i j)"
  "env_kept v (get_patch_artifact_entity i)" "env_kept v (get_local_run_entity i)"
  "env_kept v (get_test_run_entity i)"
  unfolding complete_test_run_def create_debug_attempt_def new_artifact_test_run_def
    test_run_event_def latest_test_run_def latest_test_run_for_local_run_def
    get_patch_artifact_entity_def get_local_run_entity_def get_test_run_entity_def
  by (intro keeps_intros)+

lemma env_kept_after_tests [keeps_intros]:
  "env_kept v (after_tests c t a r passed root_cause)"
  "env_kept v (refreshed_result t a r attempt)"
  unfolding after_tests_def refreshed_result_def by (intro keeps_intros)+

lemma env_kept_run_commands [keeps_intros]: "env_kept v (run_commands host path cs)"
  by (induction cs) (auto intro!: keeps_intros)

lemma env_kept_tests [keeps_intros]:
  "env_kept v (start_cloud_fake_test_run a t l)" "env_kept v (start_persisted_docker_test_run a t l)"
  "env_kept v (start_local_test_run host a t l path)"
  unfolding start_cloud_fake_test_run_def start_persisted_docker_test_run_def
    start_local_test_run_def run_tests_def record_test_outcome_def
  by (intro keeps_intros)+

lemma env_kept_review_parts [keeps_intros]:
  "env_kept v (existing_deterministic_review i)" "env_kept v (debug_attempt_for_review i)"
  "env_kept v (get_patch_review_entity i)" "env_kept v (existing_patch_approval i)"
  "env_kept v (latest_review i)" "env_kept v (get_patch_approval i)"
  unfolding existing_deterministic_review_def debug_attempt_for_review_def
    get_patch_review_entity_def existing_patch_approval_def latest_review_def get_patch_approval_def
  by (intro keeps_intros)+

lemma env_kept_results [keeps_intros]:
  "env_kept v (review_result_read r)" "env_kept v (approval_result_read a)"
  unfolding review_result_read_def approval_result_read_def by (intro keeps_intros)+

lemma env_kept_writes [keeps_intros]:
  "env_kept v (create_patch_review t a)" "env_kept v (create_patch_approval t a r)"
  unfolding create_patch_review_def write_patch_review_def review_conflict_def review_created_def
    create_patch_approval_def write_patch_approval_def approval_conflict_def approval_created_def
  by (intro keeps_intros)+

lemma env_kept_handle: "env_kept v (handle_workflow host q)"
  by (cases q; simp only: handle_workflow.simps start_patch_test_run_def start_patch_review_def
        approve_patch_artifact_def request_human_approval_def)
    (intro keeps_intros)+

end
