(* ===== verification/WorkflowContract.thy ===== *)
theory WorkflowContract
  imports Workflow
begin

text \<open>
  The contract between the workflow and an invariant of the database: what an invariant must
  promise of the single writes, and that every request then keeps it.
\<close>

section \<open>In the middle of a transaction\<close>

abbreviation has_row :: "(db \<Rightarrow> 'r table) \<Rightarrow> ('r \<Rightarrow> string) \<Rightarrow> 'r \<Rightarrow> db \<Rightarrow> bool" where
  "has_row tab key r d \<equiv> map_of (tab d) (key r) = Some r"

text \<open>
  \<open>working G v A\<close>: the invariant holds, the environment is \<open>v\<close>, and the session sees \<open>A\<close>: the rows a
  handler has at hand.
\<close>

definition working :: "(db \<Rightarrow> bool) \<Rightarrow> env \<Rightarrow> (db \<Rightarrow> bool) \<Rightarrow> world \<Rightarrow> bool" where
  "working G v A w \<longleftrightarrow> good G w \<and> w_env w = v \<and> A (w_db w)"

lemma working_good: "working G v A w \<Longrightarrow> good G w"
  by (simp add: working_def)

lemma working_safe [intro, keeps_intros]: "working G v A w \<Longrightarrow> safe G e w"
  by (simp add: working_def good_safe)

lemma working_upd [simp]:
  "working G v A (w\<lparr>w_audit_seq := n\<rparr>) = working G v A w"
  "working G v A (w\<lparr>w_calls := n\<rparr>) = working G v A w"
  "working G v A (w\<lparr>w_ticks := n\<rparr>) = working G v A w" "working G v A (w\<lparr>w_ids := n\<rparr>) = working G v A w"
  by (simp_all add: working_def)

lemma working_weaken: "working G v A w \<Longrightarrow> (\<And>d. A d \<Longrightarrow> B d) \<Longrightarrow> working G v B w"
  by (simp add: working_def)

lemma working_set: "working G v A w \<Longrightarrow> G d \<Longrightarrow> B d \<Longrightarrow> working G v B (w\<lparr>w_db := d\<rparr>)"
  by (auto simp: working_def good_def)

lemma working_tick_set:
  "working G v A w \<Longrightarrow> G d \<Longrightarrow> B d \<Longrightarrow> working G v B (w\<lparr>w_ticks := n, w_db := d\<rparr>)"
  by (rule working_set) simp_all

lemma working_view: "working G v A w \<Longrightarrow> G (w_db w) \<and> A (w_db w)"
  by (simp add: working_def good_def)

lemma keepsD_use:
  "keeps I C m \<Longrightarrow> I w \<Longrightarrow> (\<And>x w'. I w' \<Longrightarrow> Q x w') \<Longrightarrow> wp m Q C w"
  by (blast intro: wp_mono keepsD)

lemma work_session [keeps_intros]:
  "keeps (working G v A) (safe G) utc_now" "keeps (working G v A) (safe G) (prefixed_id p)"
  "keeps (working G v A) (safe G) (db_get tab k)" "keeps (working G v A) (safe G) (db_select tab' P)"
  "keeps (working G v A) (safe G) (db_refresh tab'' key r)"
  "keeps (working G v A) (safe G) (external h)" "keeps (working G v A) (safe G) event_clock_new"
  by (auto intro!: keepsI working_safe simp: wp_simps event_clock_new_def split: option.split)

lemma wp_then_raise: "wp m (\<lambda>x. wp (raise (e x)) Q (\<lambda>_ _. True)) (\<lambda>_ _. True) w"
  by (rule wp_mono [OF wp_any]) (simp_all add: wp_simps)

lemma work_enforce [keeps_intros]:
  "keeps (working G v A) (safe G) (enforce_workspace_access ws detail)"
  by (auto intro!: keepsI working_safe simp: wp_simps split: option.split)

lemma work_raise [keeps_intros]: "keeps (working G v A) (safe G) (raise e)"
  by (rule keeps_raise) (rule working_safe)

lemma work_insert:
  assumes "\<And>d. G d \<Longrightarrow> A d \<Longrightarrow> map_of (tab d) (key r) = None \<Longrightarrow> G (upd (\<lambda>t. t @ [(key r, r)]) d)"
    and "\<And>d. A d \<Longrightarrow> map_of (tab d) (key r) = None \<Longrightarrow> A (upd (\<lambda>t. t @ [(key r, r)]) d)"
  shows "keeps (working G v A) (safe G) (db_insert tab upd key clash r)"
  by (rule keepsI) (use assms in \<open>auto simp: wp_simps working_def good_def safe_def\<close>)

lemma work_modify:
  assumes "\<And>d. G d \<Longrightarrow> A d \<Longrightarrow> G (upd (row_modify (key r) f) d)"
    and "\<And>d. A d \<Longrightarrow> A (upd (row_modify (key r) f) d)"
  shows "keeps (working G v A) (safe G) (db_modify upd key r f)"
  by (rule keepsI) (use assms in \<open>auto simp: wp_simps working_def good_def\<close>)

section \<open>What the others leave alone\<close>

text \<open>
  A test run of this process, and that no other session settles it: a run is completed by the
  process that started it.
\<close>

definition own_run :: "env \<Rightarrow> nat \<Rightarrow> string" where
  "own_run v k = ''test_run'' @ ''_'' @ take 12 (e_uuid v k)"

definition unsettled :: "(string \<Rightarrow> bool) \<Rightarrow> string \<Rightarrow> db \<Rightarrow> bool" where
  "unsettled settled i d \<longleftrightarrow> (\<forall>r. map_of (t_local_test_run d) i = Some r \<longrightarrow> \<not> settled (tr_status r))"

definition leaves_runs :: "(string \<Rightarrow> bool) \<Rightarrow> env \<Rightarrow> bool" where
  "leaves_runs settled v \<longleftrightarrow>
     (\<forall>n d k. unsettled settled (own_run v k) d \<longrightarrow> unsettled settled (own_run v k) (e_others v n d))"

text \<open>What a review was based on: the task, the artifact and the test run it saw.\<close>

definition rests_on ::
  "patch_review \<Rightarrow> task \<Rightarrow> patch_artifact \<Rightarrow> local_test_run option \<Rightarrow> bool" where
  "rests_on rv t a latest \<longleftrightarrow>
     rv_task_id rv = tk_id t \<and> pa_task_id a = tk_id t \<and> rv_patch_artifact_id rv = pa_id a \<and>
     rv_test_run_id rv = map_option tr_id latest \<and>
     (\<forall>r. latest = Some r \<longrightarrow> tr_patch_artifact_id r = Some (pa_id a)) \<and>
     (rv_verdict rv = ''approved'' \<longrightarrow> deterministic_review_issues t a latest = [])"

text \<open>What an approval was based on.\<close>

definition approves :: "patch_approval \<Rightarrow> patch_artifact \<Rightarrow> patch_review \<Rightarrow> bool" where
  "approves ap a rv \<longleftrightarrow>
     pp_task_id ap = pa_task_id a \<and> pp_patch_artifact_id ap = pa_id a \<and> pp_review_id ap = rv_id rv \<and>
     rv_patch_artifact_id rv = pa_id a \<and> rv_verdict rv = ''approved''"

section \<open>The contract\<close>

text \<open>
  The rows a handler looks up sit under their keys; tasks are created new and move along the
  table of transitions; a run that is settled stays so; reviews and approvals are written on the
  grounds above. \<open>settled\<close> are the statuses of a test run that others may rely on.
\<close>

locale workflow_invariant = audit_invariant +
  fixes settled :: "string \<Rightarrow> bool"
  assumes ignores_task_event [simp]: "\<And>f d. G (t_task_event_update f d) = G d"
    and ignores_debug_attempt [simp]: "\<And>f d. G (t_debug_attempt_update f d) = G d"
    and ignores_approval [simp]: "\<And>f d. G (t_approval_update f d) = G d"
    and ignores_planner_run [simp]: "\<And>f d. G (t_planner_run_update f d) = G d"
    and keys: "\<And>d. G d \<Longrightarrow> keyed tk_id (t_task d) \<and> keyed pa_id (t_patch_artifact d) \<and>
      keyed tr_id (t_local_test_run d) \<and> keyed rv_id (t_patch_review d)"
    and settled_passed: "\<And>s. settled s \<Longrightarrow> s = ''passed''"
    and task_created: "\<And>d t. G d \<Longrightarrow> map_of (t_task d) (tk_id t) = None \<Longrightarrow> tk_status t = CREATED \<Longrightarrow>
      G (t_task_update (\<lambda>ts. ts @ [(tk_id t, t)]) d)"
    and task_moved: "\<And>d t actor s now. G d \<Longrightarrow> has_row t_task tk_id t d \<Longrightarrow>
      task_step actor (tk_status t) s \<Longrightarrow>
      G (t_task_update (row_modify (tk_id t) (\<lambda>t. t\<lparr>tk_status := s, tk_updated_at := now\<rparr>)) d)"
    and run_added: "\<And>d r. G d \<Longrightarrow> map_of (t_local_test_run d) (tr_id r) = None \<Longrightarrow>
      G (t_local_test_run_update (\<lambda>rs. rs @ [(tr_id r, r)]) d)"
    and run_completed: "\<And>d i status results reason now. G d \<Longrightarrow>
      settled status \<or> unsettled settled i d \<Longrightarrow>
      G (t_local_test_run_update (row_modify i (\<lambda>r::local_test_run. r\<lparr>tr_status := status,
        tr_command_results := results, tr_failure_reason := reason, tr_completed_at := Some now\<rparr>)) d)"
    and artifact_tested: "\<And>d i cs result. G d \<Longrightarrow>
      G (t_patch_artifact_update (row_modify i
        (\<lambda>a. a\<lparr>pa_tests_run := cs, pa_test_result := result\<rparr>)) d)"
    and review_added: "\<And>d rv t a latest. G d \<Longrightarrow> map_of (t_patch_review d) (rv_id rv) = None \<Longrightarrow>
      has_row t_task tk_id t d \<Longrightarrow> has_row t_patch_artifact pa_id a d \<Longrightarrow>
      (\<And>r. latest = Some r \<Longrightarrow> has_row t_local_test_run tr_id r d) \<Longrightarrow> rests_on rv t a latest \<Longrightarrow>
      G (t_patch_review_update (\<lambda>rs. rs @ [(rv_id rv, rv)]) d)"
    and approval_added: "\<And>d ap a rv. G d \<Longrightarrow> map_of (t_patch_approval d) (pp_id ap) = None \<Longrightarrow>
      has_row t_patch_artifact pa_id a d \<Longrightarrow> has_row t_patch_review rv_id rv d \<Longrightarrow> approves ap a rv \<Longrightarrow>
      G (t_patch_approval_update (\<lambda>rs. rs @ [(pp_id ap, ap)]) d)"
begin

text \<open>Events, debug attempts and audit records leave the rows at hand.\<close>

lemma work_side_rows [keeps_intros]:
  "(\<And>f d. A (t_task_event_update f d) = A d) \<Longrightarrow> keeps (working G v A) (safe G) (add_task_event e)"
  "(\<And>f d. A (t_task_event_update f d) = A d) \<Longrightarrow>
     keeps (working G v A) (safe G) (set_task_event e fe)"
  "(\<And>f d. A (t_debug_attempt_update f d) = A d) \<Longrightarrow>
     keeps (working G v A) (safe G) (add_debug_attempt x)"
  unfolding add_task_event_def set_task_event_def add_debug_attempt_def
  by (rule work_insert work_modify; simp)+

lemma work_side_new [keeps_intros]:
  "keeps (working G v A) (safe G) (new_task_event fe)"
  "keeps (working G v A) (safe G) (new_debug_attempt fd)"
  "keeps (working G v A) (safe G) (new_local_test_run fr)"
  unfolding new_row_defs by (intro keeps_intros)+

lemma work_events [keeps_intros]:
  assumes "\<And>f d. A (t_task_event_update f d) = A d"
  shows "keeps (working G v A) (safe G) (create_workflow_event c i typ payload)"
    and "keeps (working G v A) (safe G) (create_approval_event c i typ payload)"
    and "keeps (working G v A) (safe G) (test_run_event c t typ a r rest)"
  using assms
  unfolding create_workflow_event_def create_approval_event_def test_run_event_def create_task_event_def
  by (intro keeps_intros; simp)+

lemma work_debug_attempt [keeps_intros]:
  assumes "\<And>f d. A (t_task_event_update f d) = A d" and "\<And>f d. A (t_debug_attempt_update f d) = A d"
  shows "keeps (working G v A) (safe G) (create_debug_attempt c t a r rv cause fix)"
  using assms unfolding create_debug_attempt_def by (intro keeps_intros; simp)

lemma work_audit [keeps_intros]:
  assumes "\<And>f d. A (t_workspace_audit_log_update f d) = A d"
  shows "keeps (working G v A) (safe G) (audit_success operation typ i code False)"
proof (rule keepsI)
  fix w assume w: "working G v A w"
  let ?a = "(workspace_audit_defaults operation typ (Some i) AL_HIGH_VALUE_WRITE True code)\<lparr>wk_commit := False\<rparr>"
  have "\<not> wk_commit ?a" by simp
  note logged = wp_conj [OF keepsD [OF keeps_record_audit(2) working_good [OF w]]
      wp_record_workspace_audit [OF this, of w]]
  show "wp (audit_success operation typ i code False) (\<lambda>_. working G v A) (safe G) w"
    unfolding audit_success_def
    by (simp only: wp_bnd, rule wp_mono [OF logged])
      (use w assms in \<open>auto simp: working_def wp_simps\<close>)
qed

text \<open>A permission that is granted changes nothing.\<close>

lemma work_permission [keeps_intros]:
  "keeps (working G v A) (safe G) (require_audited_permission_if_authenticated p operation typ i)"
proof (rule keepsI)
  fix w assume w: "working G v A w"
  have "wp (require_audited_permission_if_authenticated p operation typ i) (\<lambda>_ w'. w' = w) (\<lambda>_ _. True) w"
    unfolding require_audited_permission_if_authenticated_def
      require_audited_workspace_permission_def require_workspace_permission_def
      allowed_roles_for_permission_def require_workspace_role_def
    by (auto simp: wp_simps wp_then_raise split: option.split exn.split)
  from wp_conj [OF keepsD [OF keeps_audited_permission_if(2) working_good [OF w]] this]
  show "wp (require_audited_permission_if_authenticated p operation typ i) (\<lambda>_. working G v A)
      (safe G) w"
    by (rule wp_mono) (use w in auto)
qed

text \<open>Reading a task or an artifact gives the row under its key.\<close>

lemma wp_get_task:
  assumes "working G v A w"
  shows "wp (get_task i) (\<lambda>t w'. working G v (\<lambda>d. has_row t_task tk_id t d \<and> A d) w' \<and> tk_id t = i)
    (safe G) w"
  using assms keys [of "w_db w"] keyed_key [of tk_id "t_task (w_db w)" i]
  unfolding get_task_def get_project_def
  by (auto simp: wp_simps working_def good_safe good_def split: option.split)

lemma wp_get_artifact:
  assumes "working G v A w"
  shows "wp (get_patch_artifact_entity i)
    (\<lambda>a w'. working G v (\<lambda>d. has_row t_patch_artifact pa_id a d \<and> A d) w' \<and> pa_id a = i) (safe G) w"
  using assms keys [of "w_db w"] keyed_key [of pa_id "t_patch_artifact (w_db w)" i]
  unfolding get_patch_artifact_entity_def get_owned_def
  by (auto simp: wp_simps working_def good_safe good_def split: option.split)

lemma wp_get_run:
  assumes "working G v A w"
  shows "wp (get_test_run_entity i)
    (\<lambda>r w'. working G v (\<lambda>d. has_row t_local_test_run tr_id r d \<and> A d) w' \<and> tr_id r = i) (safe G) w"
  using assms keys [of "w_db w"] keyed_key [of tr_id "t_local_test_run (w_db w)" i]
  unfolding get_test_run_entity_def get_owned_def
  by (auto simp: wp_simps working_def good_safe good_def split: option.split)

lemma work_lookups [keeps_intros]:
  "keeps (working G v A) (safe G) (get_local_run_entity i)"
  "keeps (working G v A) (safe G) (get_patch_review_entity i)"
  "keeps (working G v A) (safe G) (get_patch_approval i)"
  "keeps (working G v A) (safe G) (existing_deterministic_review i)"
  "keeps (working G v A) (safe G) (existing_patch_approval i)"
  unfolding get_local_run_entity_def get_patch_review_entity_def get_patch_approval_def get_owned_def
    existing_deterministic_review_def existing_patch_approval_def
  by ((rule work_raise | rule keeps_intros)+)

section \<open>Moving a task\<close>

text \<open>Both services move a task by the same three steps, with an event of their own.\<close>

lemma wp_move:
  assumes "working G v (\<lambda>d. has_row t_task tk_id t d \<and> A d) w"
    and "\<And>f d. A (t_task_update f d) = A d" and "task_step actor (tk_status t) s"
  shows "wp (set_task t (\<lambda>t. t\<lparr>tk_status := s, tk_updated_at := now\<rparr>))
    (\<lambda>t' w'. working G v (\<lambda>d. has_row t_task tk_id t' d \<and> A d) w' \<and> tk_id t' = tk_id t) (safe G) w"
  using assms task_moved [of "w_db w" t actor s now]
  by (auto simp: set_task_def wp_simps working_def good_def)

lemma wp_transition:
  assumes w: "working G v (\<lambda>d. has_row t_task tk_id t d \<and> A d) w"
    and A: "\<And>f d. A (t_task_update f d) = A d" "\<And>f d. A (t_task_event_update f d) = A d"
  shows "wp (transition_task_for_workflow c t s)
      (\<lambda>(c', t') w'. working G v (\<lambda>d. has_row t_task tk_id t' d \<and> A d) w' \<and> tk_id t' = tk_id t)
      (safe G) w"
    and "wp (transition_task_for_patch_approval c t s)
      (\<lambda>(c', t') w'. working G v (\<lambda>d. has_row t_task tk_id t' d \<and> A d) w' \<and> tk_id t' = tk_id t)
      (safe G) w"
proof -
  have ev: "keeps (working G v (\<lambda>d. map_of (t_task d) j = Some t' \<and> A d)) (safe G)
      (create_workflow_event c' i ty payload)"
    "keeps (working G v (\<lambda>d. map_of (t_task d) j = Some t' \<and> A d)) (safe G)
      (create_approval_event c' i ty payload)" for j t' c' i ty payload
    by (rule work_events; simp add: A)+
  have step: "task_step ''system'' (tk_status t) s'"
    if "validate_transition (tk_status t) s ''system'' = Inr s'" for s'
    using that by (auto simp: task_step_def validate_transition_Inr)
  show "wp (transition_task_for_workflow c t s)
      (\<lambda>(c', t') w'. working G v (\<lambda>d. has_row t_task tk_id t' d \<and> A d) w' \<and> tk_id t' = tk_id t)
      (safe G) w"
  proof (cases "validate_transition (tk_status t) s ''system''")
    case (Inl msg)
    then show ?thesis by (simp add: transition_task_for_workflow_def Let_def wp_simps working_safe [OF w])
  next
    case (Inr s')
    show ?thesis
      unfolding transition_task_for_workflow_def Let_def Inr sum.case wp_bnd wp_utc_now
    proof (rule wp_mono [OF wp_move [where A = A and v = v, OF _ A(1) step [OF Inr]]], goal_cases)
      case 1
      show ?case using w by simp
    next
      case (2 t' w')
      then have eq: "tk_id t' = tk_id t" by simp
      have "working G v (\<lambda>d. map_of (t_task d) (tk_id t) = Some t' \<and> A d) w'"
        using 2 unfolding eq by simp
      then show ?case by (rule keepsD_use [OF ev(1)]) (simp add: wp_simps eq)
    qed
  qed
  show "wp (transition_task_for_patch_approval c t s)
      (\<lambda>(c', t') w'. working G v (\<lambda>d. has_row t_task tk_id t' d \<and> A d) w' \<and> tk_id t' = tk_id t)
      (safe G) w"
  proof (cases "validate_transition (tk_status t) s ''system''")
    case (Inl msg)
    then show ?thesis by (simp add: transition_task_for_patch_approval_def Let_def wp_simps working_safe [OF w])
  next
    case (Inr s')
    show ?thesis
      unfolding transition_task_for_patch_approval_def Let_def Inr sum.case wp_bnd wp_utc_now
    proof (rule wp_mono [OF wp_move [where A = A and v = v, OF _ A(1) step [OF Inr]]], goal_cases)
      case 1
      show ?case using w by simp
    next
      case (2 t' w')
      then have eq: "tk_id t' = tk_id t" by simp
      have "working G v (\<lambda>d. map_of (t_task d) (tk_id t) = Some t' \<and> A d) w'"
        using 2 unfolding eq by simp
      then show ?case by (rule keepsD_use [OF ev(2)]) (simp add: wp_simps eq)
    qed
  qed
qed

section \<open>Test runs\<close>

lemma wp_new_run:
  assumes w: "working G v A w" and "\<And>f d. A (t_local_test_run_update f d) = A d"
    and f: "\<And>r. tr_id (f r) = tr_id r" "\<And>r. tr_status (f r) = s"
  shows "wp (new_artifact_test_run a t l f)
    (\<lambda>r w'. working G v (\<lambda>d. has_row t_local_test_run tr_id r d \<and> A d) w' \<and>
       tr_status r = s \<and> (\<exists>k. tr_id r = own_run v k)) (safe G) w"
proof -
  have added: "wp (add_local_test_run r) (\<lambda>_ w'. working G v (\<lambda>d. has_row t_local_test_run tr_id r d \<and> A d) w')
      (safe G) u" if "working G v A u" for r u
  proof (cases "map_of (t_local_test_run (w_db u)) (tr_id r)")
    case None
    then show ?thesis
      using working_view [OF that] assms(2) working_safe [OF that] unfolding add_local_test_run_def
      by (simp add: wp_simps working_set [OF that] run_added map_of_append_new del: map_of_append)
  next
    case (Some r')
    then show ?thesis
      using working_safe [OF that] unfolding add_local_test_run_def by (simp add: wp_simps)
  qed
  have add: "wp (add_local_test_run r) Q (safe G) u"
    if "working G v A u"
      and "\<And>w'. working G v (\<lambda>d. has_row t_local_test_run tr_id r d \<and> A d) w' \<Longrightarrow> Q () w'" for r u Q
    by (rule wp_mono [OF added [OF that(1)]]) (simp_all add: that(2))
  have v: "w_env w = v" using w by (simp add: working_def)
  show ?thesis
    unfolding new_artifact_test_run_def new_local_test_run_def wp_bnd wp_prefixed_id wp_utc_now wp_ret
  proof (rule add, goal_cases)
    case 1
    show ?case using w by simp
  next
    case (2 w')
    have id: "tr_id (f (x\<lparr>tr_id := i, tr_started_at := t0, tr_created_at := t1, tr_workspace_id := ws,
        tr_project_id := p, tr_task_id := j, tr_local_run_id := k, tr_patch_artifact_id := y\<rparr>)) = i"
      for x i t0 t1 ws p j k y by (simp add: f)
    have "\<exists>k. ''test_run'' @ ''_'' @ take 12 (e_uuid (w_env w) (w_ids w)) = own_run v k"
      unfolding own_run_def v by blast
    then show ?case using 2 by (simp only: wp_ret id f(2) simp_thms)
  qed
qed

lemma wp_complete:
  assumes w: "working G v (\<lambda>d. (settled s \<or> unsettled settled (tr_id r) d) \<and> A d) w"
    and "\<And>f d. A (t_local_test_run_update f d) = A d" "\<And>f d. A (t_patch_artifact_update f d) = A d"
  shows "wp (complete_test_run r a s results reason) (\<lambda>(r', a') w'. working G v A w' \<and> tr_status r' = s)
    (safe G) w"
proof -
  let ?f = "\<lambda>now (r::local_test_run). r\<lparr>tr_status := s, tr_command_results := results, tr_failure_reason := reason,
    tr_completed_at := Some now\<rparr>"
  have "G (t_local_test_run_update (row_modify (tr_id r) (?f now)) (w_db w))" for now
    using w run_completed [of "w_db w" s "tr_id r"] by (auto simp: working_def good_def)
  from artifact_tested [OF this, of "pa_id a"] show ?thesis
    using working_view [OF w] assms(2,3)
    unfolding complete_test_run_def set_local_test_run_def set_patch_artifact_def
    by (simp add: wp_simps working_tick_set [OF w])
qed

end

end
