(* ===== verification/WorkflowHandlers.thy ===== *)
theory WorkflowHandlers
  imports WorkflowContract
begin

text \<open>
  Every request of the workflow keeps an invariant that fulfils the contract, whatever the other sessions
  commit in between, as long as they keep it too and leave the test runs of this process alone.
\<close>

section \<open>Reading\<close>

text \<open>What only reads keeps any invariant.\<close>

lemma good_reads [keeps_intros]:
  "keeps (good G) (safe G) (get_project i)" "keeps (good G) (safe G) (get_repository i)"
  "keeps (good G) (safe G) (get_conversation i)" "keeps (good G) (safe G) (get_task i)"
  "keeps (good G) (safe G) (get_planner_run i)" "keeps (good G) (safe G) (list_planner_task_drafts i)"
  "keeps (good G) (safe G) (get_owned tab ws detail i)"
  unfolding get_project_def get_repository_def get_conversation_def get_task_def
    get_planner_run_def list_planner_task_drafts_def get_owned_def
  by (intro keeps_intros)+

lemma good_opt_act [keeps_intros]:
  "(\<And>y. keeps (good G) (safe G) (f y)) \<Longrightarrow> keeps (good G) (safe G) (opt_act f x)"
  unfolding opt_act_def by (intro keeps_intros)

lemma good_patch_reads [keeps_intros]:
  "keeps (good G) (safe G) (get_patch_artifact_entity i)"
  "keeps (good G) (safe G) (get_patch_review_entity i)"
  "keeps (good G) (safe G) (existing_deterministic_review i)"
  "keeps (good G) (safe G) (existing_patch_approval i)"
  "keeps (good G) (safe G) (debug_attempt_for_review i)"
  unfolding get_patch_artifact_entity_def get_patch_review_entity_def
    existing_deterministic_review_def existing_patch_approval_def debug_attempt_for_review_def
  by (intro keeps_intros)+

lemma good_results [keeps_intros]:
  "keeps (good G) (safe G) (review_result_read r)" "keeps (good G) (safe G) (approval_result_read a)"
  unfolding review_result_read_def approval_result_read_def by (intro keeps_intros)+

lemma newest_test_run_in: "newest_test_run rs = Some r \<Longrightarrow> r \<in> set rs"
  by (auto simp: newest_test_run_def first_of_def split: list.splits dest!: arg_cong [where f = set])

lemma newest_review_in: "newest_review rs = Some r \<Longrightarrow> r \<in> set rs"
  by (auto simp: newest_review_def first_of_def split: list.splits dest!: arg_cong [where f = set])

context workflow_invariant
begin

section \<open>Tests\<close>

text \<open>Between transactions only the invariant is known.\<close>

lemma work_commit: "working G v A w \<Longrightarrow> wp commit (\<lambda>_. working G v (\<lambda>_. True)) (safe G) w"
  by (auto simp: wp_simps working_def good_def sync_world_def Let_def)

lemma work_opt_act [keeps_intros]:
  "(\<And>y. keeps (working G v A) (safe G) (f y)) \<Longrightarrow> keeps (working G v A) (safe G) (opt_act f x)"
  unfolding opt_act_def by (intro keeps_intros)

lemma work_refreshed [keeps_intros]: "keeps (working G v A) (safe G) (refreshed_result t a r x)"
  unfolding refreshed_result_def by (intro keeps_intros)

lemma wp_after_tests:
  assumes w: "working G v (\<lambda>d. has_row t_task tk_id t d) w"
  shows "wp (after_tests c t a r passed cause) (\<lambda>_. working G v (\<lambda>_. True)) (safe G) w"
proof -
  have move: "wp (transition_task_for_workflow c' t s)
      (\<lambda>_. working G v (\<lambda>_. True)) (safe G) u"
    if "working G v (\<lambda>d. has_row t_task tk_id t d) u" for c' s u
    by (rule wp_mono [OF wp_transition(1) [where A = "\<lambda>_. True" and v = v]])
      (use that in \<open>auto simp: working_def\<close>)
  have attempt: "keeps (working G v (\<lambda>d. has_row t_task tk_id t d)) (safe G)
      (create_debug_attempt c t a (Some r) None cause test_fix_summary)"
    by (rule work_debug_attempt) simp_all
  show ?thesis
    unfolding after_tests_def
    by (auto simp: wp_simps w intro!: wp_mono [OF move] keepsD_use [OF attempt])
qed

text \<open>
  The rules of the contract, ready to follow the statements of a handler: \<open>at_task v t B\<close> holds the
  task and what else is known of the session's view.
\<close>

abbreviation at_task :: "env \<Rightarrow> task \<Rightarrow> (db \<Rightarrow> bool) \<Rightarrow> world \<Rightarrow> bool" where
  "at_task v t B \<equiv> working G v (\<lambda>d. has_row t_task tk_id t d \<and> B d)"

abbreviation any :: "db \<Rightarrow> bool" where
  "any \<equiv> \<lambda>_. True"

lemma use_transition:
  assumes "at_task v t B w"
    and "\<And>f d. B (t_task_update f d) = B d" "\<And>f d. B (t_task_event_update f d) = B d"
    and "\<And>c' t' w'. at_task v t' B w' \<Longrightarrow> Q (c', t') w'"
  shows "wp (transition_task_for_workflow c t s) Q (safe G) w"
    and "wp (transition_task_for_patch_approval c t s) Q (safe G) w"
  using assms(4)
  by (auto intro!: wp_mono [OF wp_transition(1) [OF assms(1-3)]]
      wp_mono [OF wp_transition(2) [OF assms(1-3)]])

lemma use_new_run:
  assumes "at_task v t B w" and "\<And>f d. B (t_local_test_run_update f d) = B d"
    and "\<And>r. tr_id (f r) = tr_id r" "\<And>r. tr_status (f r) = s"
    and "\<And>r w' k. at_task v t (\<lambda>d. has_row t_local_test_run tr_id r d \<and> B d) w' \<Longrightarrow>
      tr_status r = s \<Longrightarrow> tr_id r = own_run v k \<Longrightarrow> Q r w'"
  shows "wp (new_artifact_test_run a t' l f) Q (safe G) w"
proof (rule wp_mono [OF wp_new_run [where s = s, OF assms(1) _ assms(3,4)]], goal_cases)
  case (2 r w')
  then show ?case by (auto intro!: assms(5) elim: working_weaken)
qed (simp_all add: assms(2))

lemma use_complete:
  assumes "at_task v t B w" and "\<And>d. B d \<Longrightarrow> settled s \<or> unsettled settled (tr_id r) d"
    and "\<And>r' a' w'. at_task v t any w' \<Longrightarrow> tr_status r' = s \<Longrightarrow> Q (r', a') w'"
  shows "wp (complete_test_run r a s results reason) Q (safe G) w"
proof (rule wp_mono [OF wp_complete [where v = v and A = "\<lambda>d. has_row t_task tk_id t d \<and> any d"]], goal_cases)
  case 1
  show ?case by (rule working_weaken [OF assms(1)]) (simp add: assms(2))
qed (auto intro!: assms(3))

lemma passed_settles: "settled ''passed'' \<or> unsettled settled i d"
  using settled_passed by (auto simp: unsettled_def)

lemma use_event:
  assumes "at_task v t B w" and "\<And>f d. B (t_task_event_update f d) = B d"
    and "\<And>c' w'. at_task v t B w' \<Longrightarrow> Q c' w'"
  shows "wp (test_run_event c t' typ a r rest) Q (safe G) w"
    and "wp (create_workflow_event c i typ payload) Q (safe G) w"
    and "wp (create_approval_event c i typ payload) Q (safe G) w"
  using assms(3)
  by (auto intro!: keepsD_use [OF work_events(3) assms(1)] keepsD_use [OF work_events(1) assms(1)]
      keepsD_use [OF work_events(2) assms(1)] simp: assms(2))

lemma use_commit:
  "working G v A w \<Longrightarrow> (\<And>w'. working G v any w' \<Longrightarrow> Q () w') \<Longrightarrow> wp commit Q (safe G) w"
  by (rule wp_mono [OF work_commit]) simp_all

lemma use_clock:
  "working G v A w \<Longrightarrow> (\<And>c w'. working G v A w' \<Longrightarrow> Q c w') \<Longrightarrow> wp event_clock_new Q (safe G) w"
  by (rule keepsD_use [OF work_session(7)])

lemma use_after_tests:
  "at_task v t B w \<Longrightarrow> (\<And>x w'. working G v any w' \<Longrightarrow> Q x w') \<Longrightarrow>
     wp (after_tests c t a r passed cause) Q (safe G) w"
  by (rule wp_mono [OF wp_after_tests]) (auto elim: working_weaken)

lemma use_refreshed:
  "working G v A w \<Longrightarrow> (\<And>x w'. working G v any w' \<Longrightarrow> Q x w') \<Longrightarrow>
     wp (refreshed_result t a r x) Q (safe G) w"
  by (rule keepsD_use [OF work_refreshed], assumption, drule working_weaken [where B = any]) simp_all

lemma wp_cloud_fake:
  "at_task v t any w \<Longrightarrow> wp (start_cloud_fake_test_run a t l) (\<lambda>_. working G v any) (safe G) w"
  unfolding start_cloud_fake_test_run_def Let_def wp_bnd
  apply (erule use_clock)
  apply (simp (no_asm) only: split_beta fst_conv snd_conv wp_bnd)?
  apply (erule use_new_run [where s = "''running''"], (simp; fail)+)
  apply (simp (no_asm) only: split_beta fst_conv snd_conv wp_bnd)?
  apply (erule use_event, (simp; fail)+)
  apply (simp (no_asm) only: split_beta fst_conv snd_conv wp_bnd)?
  apply (erule use_transition, (simp; fail)+)
  apply (simp (no_asm) only: split_beta fst_conv snd_conv wp_bnd)?
  apply (erule use_complete, rule passed_settles)
  apply (simp (no_asm) only: split_beta fst_conv snd_conv wp_bnd)?
  apply (erule use_event, (simp; fail)+)
  apply (simp (no_asm) only: split_beta fst_conv snd_conv wp_bnd)?
  apply (erule use_transition, (simp; fail)+)
  apply (simp (no_asm) only: split_beta fst_conv snd_conv wp_bnd)?
  apply (erule use_commit)
  apply (simp (no_asm) only: split_beta fst_conv snd_conv wp_bnd)?
  apply (erule use_refreshed, assumption)
  done

text \<open>A run that came with a cloud run keeps its status.\<close>

lemma use_persisted_run:
  assumes "at_task v t any w"
    and "\<And>r w'. at_task v t (\<lambda>d. settled (tr_status r) \<or> unsettled settled (tr_id r) d) w' \<Longrightarrow> Q r w'"
  shows "wp (latest_test_run_for_local_run i j) (\<lambda>found. wp
     (case found of Some r \<Rightarrow> ret r
      | None \<Rightarrow> bnd utc_now (\<lambda>now. new_artifact_test_run a t' l (\<lambda>r. r\<lparr>tr_status := ''passed'',
          tr_commands := [], tr_command_results := [], tr_failure_reason := None,
          tr_completed_at := Some now\<rparr>))) Q (safe G)) (safe G) w"
proof -
  have old: "at_task v t (\<lambda>d. settled (tr_status r) \<or> unsettled settled (tr_id r) d) w"
    if "newest_test_run (filter P (rows (t_local_test_run (w_db w)))) = Some r" for r P
  proof -
    have "r \<in> set (rows (t_local_test_run (w_db w)))"
      using newest_test_run_in [OF that] by simp
    then have "has_row t_local_test_run tr_id r (w_db w)"
      using keys [of "w_db w"] working_view [OF assms(1)] by (auto intro: keyed_get)
    then show ?thesis
      using assms(1) by (auto simp: working_def unsettled_def)
  qed
  have new: "wp (new_artifact_test_run a t' l (\<lambda>r. r\<lparr>tr_status := ''passed'', tr_commands := [],
      tr_command_results := [], tr_failure_reason := None, tr_completed_at := x\<rparr>)) Q (safe G) (w\<lparr>w_ticks := n\<rparr>)"
    for x n
  proof (rule use_new_run [where B = any and s = "''passed''" and v = v and t = t], goal_cases)
    case (5 r w' k)
    have "settled (tr_status r) \<or> unsettled settled (tr_id r) d" for d
      using passed_settles [of "tr_id r" d] 5(2) by simp
    then show ?case using 5(1) by (intro assms(2) working_weaken [OF 5(1)]) auto
  qed (use assms(1) in simp_all)
  show ?thesis
    unfolding latest_test_run_for_local_run_def
    by (auto simp: wp_simps new assms(2) [OF old] split: option.split)
qed

lemma wp_docker:
  "at_task v t any w \<Longrightarrow> wp (start_persisted_docker_test_run a t l) (\<lambda>_. working G v any) (safe G) w"
  unfolding start_persisted_docker_test_run_def wp_bnd
  apply (erule use_persisted_run)
  apply (simp (no_asm) only: split_beta fst_conv snd_conv wp_bnd)?
  apply (erule use_clock)
  apply (simp (no_asm) only: split_beta fst_conv snd_conv wp_bnd)?
  apply (erule use_event, (simp add: unsettled_def; fail)+)
  apply (simp (no_asm) only: split_beta fst_conv snd_conv wp_bnd)?
  apply (erule use_transition, (simp add: unsettled_def; fail)+)
  apply (simp (no_asm) only: split_beta fst_conv snd_conv wp_bnd)?
  apply (erule use_complete, assumption)
  apply (simp (no_asm) only: split_beta fst_conv snd_conv wp_bnd)?
  apply (erule use_event, (simp; fail)+)
  apply (simp (no_asm) only: split_beta fst_conv snd_conv wp_bnd)?
  apply (erule use_after_tests)
  apply (simp (no_asm) only: split_beta fst_conv snd_conv wp_bnd)?
  apply (erule use_commit)
  apply (simp (no_asm) only: split_beta fst_conv snd_conv wp_bnd)?
  apply (erule use_refreshed, assumption)
  done

text \<open>While the commands run the session has no transaction: the others may commit.\<close>

lemma use_gap:
  assumes "at_task v t (\<lambda>d. has_row t_local_test_run tr_id r d \<and> B d) w"
    and "tr_status r = ''running''" "tr_id r = own_run v k" "leaves_runs settled v"
    and "\<And>w'. working G v (unsettled settled (tr_id r)) w' \<Longrightarrow> Q () w'"
  shows "wp commit Q (safe G) w"
proof -
  have now: "unsettled settled (tr_id r) (w_db w)"
    using working_view [OF assms(1)] assms(2) settled_passed [of "tr_status r"]
    by (auto simp: unsettled_def)
  have env: "w_env w = v" using assms(1) by (simp add: working_def)
  have "unsettled settled (tr_id r) (w_db (sync_world (w\<lparr>w_committed := w_db w\<rparr>)))"
    using now assms(4) unfolding leaves_runs_def assms(3)
    by (simp add: sync_world_def Let_def env)
  moreover have "working G v any (sync_world (w\<lparr>w_committed := w_db w\<rparr>))"
    using wp_mono [OF work_commit [OF assms(1)], of "\<lambda>_. working G v any"] by (simp add: wp_simps)
  ultimately show ?thesis
    by (simp add: wp_simps assms(5) working_def)
qed

lemma use_get_task:
  assumes "working G v A w" and "\<And>t w'. at_task v t A w' \<Longrightarrow> tk_id t = i \<Longrightarrow> Q t w'"
  shows "wp (get_task i) Q (safe G) w"
  by (rule wp_mono [OF wp_get_task [OF assms(1)]]) (auto intro: assms(2))

lemma use_get_artifact:
  assumes "working G v A w"
    and "\<And>a w'. working G v (\<lambda>d. has_row t_patch_artifact pa_id a d \<and> A d) w' \<Longrightarrow> pa_id a = i \<Longrightarrow> Q a w'"
  shows "wp (get_patch_artifact_entity i) Q (safe G) w"
  by (rule wp_mono [OF wp_get_artifact [OF assms(1)]]) (auto intro: assms(2))

lemma use_get_run:
  assumes "working G v A w" and "\<And>r w'. working G v A w' \<Longrightarrow> tr_id r = i \<Longrightarrow> Q r w'"
  shows "wp (get_test_run_entity i) Q (safe G) w"
  by (rule wp_mono [OF wp_get_run [OF assms(1)]]) (auto intro: assms(2) elim: working_weaken)

lemma work_run_tests [keeps_intros]:
  "keeps (working G v A) (safe G) (run_tests host path cs)"
proof -
  have [keeps_intros]: "keeps (working G v A) (safe G) (run_commands host path cs)" for path
    by (induction cs) (auto intro!: keeps_intros)
  show ?thesis unfolding run_tests_def by (intro keeps_intros)
qed

lemma wp_outcome:
  assumes "at_task v t (unsettled settled (tr_id r)) w"
  shows "wp (record_test_outcome c outcome t a r) (\<lambda>_. working G v any) (safe G) w"
proof (cases outcome)
  case (Inl message)
  show ?thesis
    unfolding record_test_outcome_def Inl sum.case wp_bnd
    apply (rule use_complete [OF assms], simp)
    apply (simp (no_asm) only: split_beta fst_conv snd_conv wp_bnd)
    apply (erule use_event, (simp; fail)+)
    apply (simp (no_asm) only: wp_bnd)?
    apply (erule use_after_tests)
    apply (simp add: wp_simps split_beta)
    done
next
  case (Inr result)
  show ?thesis
    unfolding record_test_outcome_def Inr sum.case Let_def wp_bnd
    apply (rule use_complete [OF assms], simp)
    apply (simp (no_asm) only: split_beta fst_conv snd_conv wp_bnd)
    apply (erule use_event, (simp; fail)+)
    apply (simp (no_asm) only: wp_bnd)?
    apply (erule use_after_tests)
    apply (simp add: wp_simps split_beta)
    done
qed

lemma use_outcome:
  "at_task v t (unsettled settled (tr_id r)) w \<Longrightarrow> (\<And>x w'. working G v any w' \<Longrightarrow> Q x w') \<Longrightarrow>
     wp (record_test_outcome c outcome t a r) Q (safe G) w"
  by (rule wp_mono [OF wp_outcome]) simp_all

lemma use_audit:
  "working G v any w \<Longrightarrow> (\<And>w'. working G v any w' \<Longrightarrow> Q () w') \<Longrightarrow>
     wp (audit_success operation typ i code False) Q (safe G) w"
  by (rule keepsD_use [OF work_audit]) simp_all

lemma wp_local:
  assumes "leaves_runs settled v" and "at_task v t any w"
  shows "wp (start_local_test_run host a t l path) (\<lambda>_. working G v any) (safe G) w"
  using assms(2)
  unfolding start_local_test_run_def Let_def wp_bnd
  apply -
  apply (erule use_clock)
  apply (simp (no_asm) only: split_beta fst_conv snd_conv wp_bnd)?
  apply (erule use_new_run [where s = "''running''"], (simp; fail)+)
  apply (simp (no_asm) only: split_beta fst_conv snd_conv wp_bnd)?
  apply (erule use_event, (simp; fail)+)
  apply (simp (no_asm) only: split_beta fst_conv snd_conv wp_bnd)?
  apply (erule use_transition, (simp; fail)+)
  apply (simp (no_asm) only: split_beta fst_conv snd_conv wp_bnd)?
  apply (erule use_gap, assumption, assumption, rule assms(1))
  apply (simp (no_asm) only: split_beta fst_conv snd_conv wp_bnd)?
  apply (erule keepsD_use [OF work_run_tests])
  apply (simp (no_asm) only: split_beta fst_conv snd_conv wp_bnd)?
  apply (erule use_get_task)
  apply (simp (no_asm) only: split_beta fst_conv snd_conv wp_bnd)?
  apply (erule use_get_artifact)
  apply (simp (no_asm) only: split_beta fst_conv snd_conv wp_bnd)?
  apply (erule use_get_run)
  apply (simp (no_asm) only: split_beta fst_conv snd_conv wp_bnd)?
  apply (rule use_outcome, erule working_weaken, simp)
  apply (simp (no_asm) only: split_beta fst_conv snd_conv wp_bnd)?
  apply (erule use_audit)
  apply (simp (no_asm) only: split_beta fst_conv snd_conv wp_bnd)?
  apply (erule use_commit)
  apply (simp (no_asm) only: split_beta fst_conv snd_conv wp_bnd)?
  apply (erule use_refreshed, assumption)
  done

lemma use_only_if:
  "working G v A w \<Longrightarrow> (\<not> c \<Longrightarrow> working G v A w \<Longrightarrow> Q () w) \<Longrightarrow> wp (only_if c (raise e)) Q (safe G) w"
  by (cases c) (simp_all add: wp_simps working_safe)

lemma use_if:
  "(c \<Longrightarrow> wp m Q E w) \<Longrightarrow> (\<not> c \<Longrightarrow> wp n Q E w) \<Longrightarrow> wp (if c then m else n) Q E w"
  by simp

lemma use_permission:
  "working G v A w \<Longrightarrow> (\<And>w'. working G v A w' \<Longrightarrow> Q () w') \<Longrightarrow>
     wp (require_audited_permission_if_authenticated p operation typ i) Q (safe G) w"
  by (rule keepsD_use [OF work_permission]) simp_all

text \<open>After the last commit only the invariant is left to keep.\<close>

lemma keeps_audit_success [keeps_intros]:
  "keeps (good G) (safe G) (audit_success operation typ i code commits)"
  unfolding audit_success_def by (intro keeps_intros)

lemma use_last:
  "keeps (good G) (safe G) m \<Longrightarrow> working G v A w \<Longrightarrow> wp m (\<lambda>_. good G) (safe G) w"
  by (rule keepsD) (simp_all add: working_good)

lemma use_then_last:
  "working G v A w \<Longrightarrow> wp (audit_success operation typ i code commits)
     (\<lambda>u. wp (ret x) (\<lambda>_. good G) (safe G)) (safe G) w"
  by (rule keepsD_use [OF keeps_audit_success working_good]) (simp_all add: wp_simps)

lemma wp_start_tests:
  assumes "leaves_runs settled v" and "working G v any w"
  shows "wp (start_patch_test_run host i) (\<lambda>_. good G) (safe G) w"
  using assms(2)
  unfolding start_patch_test_run_def wp_bnd
  apply -
  apply (erule use_get_artifact)
  apply (simp (no_asm) only: split_beta fst_conv snd_conv wp_bnd)?
  apply (erule use_get_task)
  apply (simp (no_asm) only: split_beta fst_conv snd_conv wp_bnd)?
  apply (erule use_permission)
  apply (simp (no_asm) only: split_beta fst_conv snd_conv wp_bnd)?
  apply (erule use_only_if)
  apply (simp (no_asm) only: split_beta fst_conv snd_conv wp_bnd)?
  apply (erule keepsD_use [OF work_lookups(1)])
  apply (intro use_if)
  subgoal by (auto simp: wp_bnd intro!: wp_mono [OF wp_cloud_fake] use_then_last elim!: working_weaken)
  subgoal by (auto simp: wp_bnd intro!: wp_mono [OF wp_docker] use_then_last elim!: working_weaken)
  subgoal by (auto simp: wp_simps working_safe split: list.split
      intro!: wp_mono [OF wp_local [OF assms(1)]] working_good elim!: working_weaken)
  done

section \<open>Reviews\<close>

lemma use_latest_run:
  assumes "at_task v t B w"
    and "\<And>latest. at_task v t (\<lambda>d. (\<forall>r. latest = Some r \<longrightarrow> has_row t_local_test_run tr_id r d \<and>
      tr_patch_artifact_id r = Some i) \<and> B d) w \<Longrightarrow> Q latest w"
  shows "wp (latest_test_run i) Q (safe G) w"
proof -
  let ?P = "\<lambda>r. tr_patch_artifact_id r = Some i"
  have "has_row t_local_test_run tr_id r (w_db w) \<and> tr_patch_artifact_id r = Some i"
    if "newest_test_run (filter ?P (rows (t_local_test_run (w_db w)))) = Some r" for r
  proof -
    have "r \<in> set (rows (t_local_test_run (w_db w)))" and "?P r"
      using newest_test_run_in [OF that] by simp_all
    then show ?thesis
      using keys [of "w_db w"] working_view [OF assms(1)] by (simp add: keyed_get)
  qed
  then have "at_task v t (\<lambda>d. (\<forall>r. newest_test_run (filter ?P (rows (t_local_test_run (w_db w)))) = Some r \<longrightarrow>
      has_row t_local_test_run tr_id r d \<and> tr_patch_artifact_id r = Some i) \<and> B d) w"
    using assms(1) unfolding working_def by blast
  then show ?thesis
    unfolding latest_test_run_def wp_bnd wp_db_select wp_ret by (rule assms(2))
qed

lemma use_add_review:
  assumes "at_task v t (\<lambda>d. (\<forall>r. latest = Some r \<longrightarrow> has_row t_local_test_run tr_id r d \<and>
      tr_patch_artifact_id r = Some (pa_id a)) \<and> has_row t_patch_artifact pa_id a d) w"
    and "rests_on rv t a latest" and "\<And>w'. at_task v t any w' \<Longrightarrow> Q () w'"
  shows "wp (add_patch_review rv) Q (safe G) w"
proof -
  have "map_of (t_patch_review (w_db w)) (rv_id rv) = None \<Longrightarrow>
    G (t_patch_review_update (\<lambda>rs. rs @ [(rv_id rv, rv)]) (w_db w))"
    using working_view [OF assms(1)] by (auto intro!: review_added [OF _ _ _ _ _ assms(2)])
  then show ?thesis
    using working_view [OF assms(1)] working_safe [OF assms(1)] unfolding add_patch_review_def
    by (auto simp: wp_simps intro!: assms(3) working_set [OF assms(1)])
qed

lemma use_new_review:
  assumes "working G v A w" and "\<And>r. rests_on (f r) t a latest"
    and "\<And>r w'. working G v A w' \<Longrightarrow> rests_on r t a latest \<Longrightarrow> Q r w'"
  shows "wp (new_patch_review f) Q (safe G) w"
  using assms unfolding new_patch_review_def by (simp add: wp_simps)

lemma use_debug_attempt:
  assumes "at_task v t B w" and "\<And>f d. B (t_task_event_update f d) = B d"
    and "\<And>f d. B (t_debug_attempt_update f d) = B d"
    and "\<And>x w'. at_task v t B w' \<Longrightarrow> Q x w'"
  shows "wp (create_debug_attempt c t' a r rv cause fix) Q (safe G) w"
  by (rule keepsD_use [OF work_debug_attempt assms(1)]) (simp_all add: assms(2-4))

lemma wp_write_review:
  assumes "at_task v t (\<lambda>d. (\<forall>r. latest = Some r \<longrightarrow> has_row t_local_test_run tr_id r d \<and>
      tr_patch_artifact_id r = Some (pa_id a)) \<and> has_row t_patch_artifact pa_id a d) w"
    and "tk_id t = pa_task_id a"
  shows "wp (write_patch_review c t a latest (deterministic_review_issues t a latest))
    (\<lambda>_. working G v any) (safe G) w"
proof -
  have runs: "\<forall>r. latest = Some r \<longrightarrow> tr_patch_artifact_id r = Some (pa_id a)"
    using working_view [OF assms(1)] by simp
  show ?thesis
    unfolding write_patch_review_def wp_bnd
    apply (rule use_new_review [OF assms(1), where t = t and a = a and latest = latest])
    subgoal using assms(2) runs by (simp add: rests_on_def)
  apply (simp (no_asm) only: split_beta fst_conv snd_conv wp_bnd)?
    apply (erule use_add_review, assumption)
  apply (simp (no_asm) only: split_beta fst_conv snd_conv wp_bnd)?
    apply (erule use_event, (simp; fail)+)
  apply (simp (no_asm) only: split_beta fst_conv snd_conv wp_bnd)?
    apply (intro use_if)
    subgoal
      apply (simp (no_asm) only: wp_bnd)
      apply (erule use_transition, (simp; fail)+)
      apply (simp (no_asm) only: split_beta fst_conv snd_conv wp_bnd wp_ret)
      apply (erule use_commit)
      apply (simp add: wp_simps)
      done
    subgoal
      apply (simp (no_asm) only: wp_bnd)
      apply (erule use_debug_attempt, (simp; fail)+)
      apply (simp (no_asm) only: split_beta wp_bnd)
      apply (erule use_transition, (simp; fail)+)
      apply (simp (no_asm) only: split_beta fst_conv snd_conv wp_bnd wp_ret)
      apply (erule use_commit)
      apply (simp add: wp_simps)
      done
    done
qed

lemma keeps_review_conflict [keeps_intros]: "keeps (good G) (safe G) (review_conflict i)"
  unfolding review_conflict_def by (intro keeps_intros)

lemma keeps_review_created [keeps_intros]: "keeps (good G) (safe G) (review_created a r)"
  unfolding review_created_def by (intro keeps_intros)

text \<open>A write in a \<^verbatim>\<open>try\<close> block: after a conflict it is rolled back.\<close>

lemma use_try:
  assumes "wp m (\<lambda>_. working G v any) (safe G) w"
    and "\<And>e u. e = IntegrityError \<Longrightarrow> safe G e u \<Longrightarrow> wp h (\<lambda>_. good G) (safe G) u"
    and "\<And>x u. good G u \<Longrightarrow> wp (k x) (\<lambda>_. good G) (safe G) u"
  shows "wp (bnd (try_catch (bnd m (\<lambda>x. ret (Inl x)))
      (\<lambda>e. if e = IntegrityError then bnd h (\<lambda>x. ret (Inr x)) else raise e))
      (\<lambda>y. case y of Inr x \<Rightarrow> ret x | Inl x \<Rightarrow> k x)) (\<lambda>_. good G) (safe G) w"
  unfolding wp_bnd wp_try_catch
  by (rule wp_mono [OF assms(1)])
    (auto simp: wp_simps working_good intro!: assms(3) wp_mono [OF assms(2)])

lemma safe_rolled_back: "safe G e u \<Longrightarrow> keeps (good G) (safe G) m \<Longrightarrow>
    wp (bnd rollback (\<lambda>_. m)) (\<lambda>_. good G) (safe G) u"
  by (simp add: wp_simps keepsD safe_rollback)

lemma wp_create_review:
  assumes "at_task v t (has_row t_patch_artifact pa_id a) w" and "tk_id t = pa_task_id a"
  shows "wp (create_patch_review t a) (\<lambda>_. good G) (safe G) w"
proof -
  have conflict: "wp (review_conflict (pa_id a)) (\<lambda>_. good G) (safe G) u" if "safe G e u" for e u
    unfolding review_conflict_def by (rule safe_rolled_back [OF that]) (intro keeps_intros)
  show ?thesis
    unfolding create_patch_review_def Let_def
    apply (simp (no_asm) only: wp_bnd [of event_clock_new])
    apply (rule use_clock [OF assms(1)])
    apply (simp (no_asm) only: wp_bnd [of "latest_test_run _"])
    apply (erule use_latest_run)
    apply (rule use_try)
      apply (erule wp_write_review [OF _ assms(2)])
     apply (erule conflict)
    apply (erule keepsD [OF keeps_review_created])
    done
qed

lemma wp_start_review:
  assumes "working G v any w"
  shows "wp (start_patch_review i) (\<lambda>_. good G) (safe G) w"
  using assms
  unfolding start_patch_review_def wp_bnd
  apply -
  apply (erule use_get_artifact)
  apply (simp (no_asm) only: split_beta fst_conv snd_conv wp_bnd)?
  apply (erule use_permission)
  apply (simp (no_asm) only: split_beta fst_conv snd_conv wp_bnd)?
  apply (erule keepsD_use [OF work_lookups(4)])
  subgoal for a w1 w2 existing w3
    apply (cases existing)
     apply (simp (no_asm_simp) only: option.case wp_bnd)
     apply (erule use_get_task)
     apply (simp (no_asm) only: wp_bnd)
     apply (erule use_only_if)
     apply (rule wp_create_review; (rule working_weaken)?; simp)
    apply (simp (no_asm_simp) only: option.case)
    apply (rule use_last; (intro keeps_intros)?)
    apply assumption
    done
  done

section \<open>Approvals\<close>

text \<open>What the approval rests on: the artifact and its newest review.\<close>

abbreviation approvable :: "patch_artifact \<Rightarrow> patch_review \<Rightarrow> db \<Rightarrow> bool" where
  "approvable a rv d \<equiv> has_row t_patch_review rv_id rv d \<and> rv_patch_artifact_id rv = pa_id a \<and>
     has_row t_patch_artifact pa_id a d"

lemma use_latest_review:
  assumes "at_task v t (has_row t_patch_artifact pa_id a) w"
    and "\<And>latest. (\<forall>rv. latest = Some rv \<longrightarrow> at_task v t (approvable a rv) w) \<Longrightarrow> Q latest w"
  shows "wp (latest_review (pa_id a)) Q (safe G) w"
proof -
  let ?P = "\<lambda>r. rv_patch_artifact_id r = pa_id a"
  have "at_task v t (approvable a rv) w"
    if "newest_review (filter ?P (rows (t_patch_review (w_db w)))) = Some rv" for rv
  proof -
    have "rv \<in> set (rows (t_patch_review (w_db w)))" and "?P rv"
      using newest_review_in [OF that] by simp_all
    then have "approvable a rv (w_db w)"
      using keys [of "w_db w"] working_view [OF assms(1)] by (simp add: keyed_get)
    then show ?thesis using assms(1) unfolding working_def by blast
  qed
  then show ?thesis
    unfolding latest_review_def wp_bnd wp_db_select wp_ret by (intro assms(2)) blast
qed

lemma use_add_approval:
  assumes "at_task v t (approvable a rv) w" and "approves ap a rv"
    and "\<And>w'. at_task v t any w' \<Longrightarrow> Q () w'"
  shows "wp (add_patch_approval ap) Q (safe G) w"
proof -
  have "map_of (t_patch_approval (w_db w)) (pp_id ap) = None \<Longrightarrow>
    G (t_patch_approval_update (\<lambda>rs. rs @ [(pp_id ap, ap)]) (w_db w))"
    using working_view [OF assms(1)] by (auto intro!: approval_added [OF _ _ _ _ assms(2)])
  then show ?thesis
    using working_view [OF assms(1)] working_safe [OF assms(1)] unfolding add_patch_approval_def
    by (auto simp: wp_simps intro!: assms(3) working_set [OF assms(1)])
qed

lemma use_new_approval:
  assumes "working G v A w" and "\<And>r. approves (f r) a rv"
    and "\<And>r w'. working G v A w' \<Longrightarrow> approves r a rv \<Longrightarrow> Q r w'"
  shows "wp (new_patch_approval f) Q (safe G) w"
  using assms unfolding new_patch_approval_def by (simp add: wp_simps)

lemma use_user:
  "working G v A w \<Longrightarrow> (\<And>u. working G v A w \<Longrightarrow> Q u w) \<Longrightarrow> wp current_user_id Q (safe G) w"
  by (auto simp: wp_simps working_safe split: option.split)

lemma wp_write_approval:
  assumes "at_task v t (approvable a rv) w" and "tk_id t = pa_task_id a"
    and "rv_verdict rv = ''approved''"
  shows "wp (write_patch_approval c t a rv) (\<lambda>_. working G v any) (safe G) w"
proof -
  have grounds: "rv_patch_artifact_id rv = pa_id a" using working_view [OF assms(1)] by simp
  show ?thesis
    unfolding write_patch_approval_def wp_bnd
    apply (rule use_user [OF assms(1)])
  apply (simp (no_asm) only: split_beta fst_conv snd_conv wp_bnd)?
    apply (erule use_new_approval [where a = a and rv = rv])
    subgoal using assms(2,3) grounds by (simp add: approves_def)
  apply (simp (no_asm) only: split_beta fst_conv snd_conv wp_bnd)?
    apply (erule use_add_approval, assumption)
  apply (simp (no_asm) only: split_beta fst_conv snd_conv wp_bnd)?
    apply (erule use_event, (simp; fail)+)
  apply (simp (no_asm) only: split_beta fst_conv snd_conv wp_bnd)?
    apply (erule use_transition, (simp; fail)+)
  apply (simp (no_asm) only: split_beta fst_conv snd_conv wp_bnd)?
    apply (rule use_audit, erule working_weaken, simp)
  apply (simp (no_asm) only: split_beta fst_conv snd_conv wp_bnd)?
    apply (erule use_commit)
    apply (simp add: wp_simps)
    done
qed

lemma keeps_approval_created [keeps_intros]: "keeps (good G) (safe G) (approval_created ap)"
  unfolding approval_created_def by (intro keeps_intros)

lemma wp_create_approval:
  assumes "at_task v t (approvable a rv) w" and "tk_id t = pa_task_id a"
    and "rv_verdict rv = ''approved''"
  shows "wp (create_patch_approval t a rv) (\<lambda>_. good G) (safe G) w"
proof -
  have conflict: "wp (approval_conflict (pa_id a)) (\<lambda>_. good G) (safe G) u" if "safe G e u" for e u
    unfolding approval_conflict_def by (rule safe_rolled_back [OF that]) (intro keeps_intros)
  show ?thesis
    unfolding create_patch_approval_def
    apply (simp (no_asm) only: wp_bnd [of event_clock_new])
    apply (rule use_clock [OF assms(1)])
    apply (rule use_try)
      apply (erule wp_write_approval [OF _ assms(2,3)])
     apply (erule conflict)
    apply (erule keepsD [OF keeps_approval_created])
    done
qed

lemma wp_approve:
  assumes "working G v any w"
  shows "wp (approve_patch_artifact i) (\<lambda>_. good G) (safe G) w"
  using assms
  unfolding approve_patch_artifact_def wp_bnd
  apply -
  apply (erule use_get_artifact)
  apply (simp (no_asm) only: split_beta fst_conv snd_conv wp_bnd)?
  apply (erule use_permission)
  apply (simp (no_asm) only: split_beta fst_conv snd_conv wp_bnd)?
  apply (erule keepsD_use [OF work_lookups(5)])
  subgoal for a w1 w2 existing w3
    apply (cases existing)
     apply (hypsubst_thin, simp (no_asm) only: option.case wp_bnd)
     apply (erule use_get_task)
     apply (simp (no_asm) only: wp_bnd)
     apply (erule use_only_if)
     apply (simp (no_asm) only: wp_bnd)
    subgoal for t w4
      apply (rule use_latest_review [where v = v and t = t])
       apply (erule working_weaken, simp)
      subgoal for latest
        by (cases latest) (auto simp: wp_simps intro!: wp_create_approval working_safe)
      done
    apply (simp (no_asm_simp) only: option.case)
    apply (rule use_last; (intro keeps_intros)?)
    apply assumption
    done
  done

lemma wp_request_human:
  assumes "working G v any w"
  shows "wp (request_human_approval i) (\<lambda>_. good G) (safe G) w"
  using assms
  unfolding request_human_approval_def wp_bnd
  apply -
  apply (erule keepsD_use [OF work_lookups(3)])
  apply (simp (no_asm) only: split_beta fst_conv snd_conv wp_bnd)?
  apply (erule use_get_task)
  apply (simp (no_asm) only: split_beta fst_conv snd_conv wp_bnd)?
  apply (erule use_permission)
  apply (simp (no_asm) only: split_beta fst_conv snd_conv wp_bnd)?
  apply (erule use_only_if)
  apply (simp (no_asm) only: split_beta fst_conv snd_conv wp_bnd)?
  apply (erule use_clock)
  apply (simp (no_asm) only: split_beta fst_conv snd_conv wp_bnd)?
  apply (erule use_event, (simp; fail)+)
  apply (simp (no_asm) only: split_beta fst_conv snd_conv wp_bnd)?
  apply (erule use_transition, (simp; fail)+)
  apply (simp (no_asm) only: split_beta fst_conv snd_conv wp_bnd)?
  apply (rule use_audit, erule working_weaken, simp)
  apply (simp (no_asm) only: split_beta fst_conv snd_conv wp_bnd)?
  apply (erule use_commit)
  apply (simp (no_asm) only: wp_bnd [symmetric])
  apply (rule use_last; (intro keeps_intros)?)
  apply assumption
  done

section \<open>Tasks and plans\<close>

lemma keeps_side [keeps_intros]:
  "keeps (good G) (safe G) (add_task_event e)" "keeps (good G) (safe G) (add_approval ap)"
  "keeps (good G) (safe G) (set_planner_run r f)"
  unfolding add_task_event_def add_approval_def set_planner_run_def
  by (rule keeps_insert keeps_row_modify; simp)+

lemma keeps_event [keeps_intros]:
  "keeps (good G) (safe G) (create_task_event i typ actor actor_id payload)"
  unfolding create_task_event_def by (intro keeps_intros)

lemma wp_transition_task:
  assumes "working G v any w"
  shows "wp (transition_task i s actor actor_id) (\<lambda>_. good G) (safe G) w"
  using assms
  unfolding transition_task_def wp_bnd
  apply -
  apply (erule use_get_task)
  apply (simp (no_asm) only: Let_def wp_bnd)
  apply (erule use_permission)
  subgoal for t w1 w2
  proof (cases "validate_transition (tk_status t) s actor")
    case (Inl msg)
    then show ?thesis
      if "at_task v t any w2" using that by (simp add: wp_simps working_safe)
  next
    case (Inr s')
    then have step: "task_step actor (tk_status t) s'"
      by (auto simp: task_step_def validate_transition_Inr)
    show ?thesis if w2: "at_task v t any w2"
    proof -
      have w: "at_task v t any (w2\<lparr>w_ticks := n\<rparr>)" for n using w2 by simp
      show ?thesis
        unfolding Inr sum.case wp_bnd wp_utc_now
        by (rule wp_mono [OF wp_move [OF w _ step]], simp, simp only: wp_bnd [symmetric],
            rule use_last, (intro keeps_intros)?, blast, assumption)
    qed
  qed
  done

text \<open>A task is added as soon as it is made, in its first status.\<close>

lemma keeps_new_task:
  assumes "\<And>t. tk_status (f t) = tk_status t" and "\<And>t. keeps (good G) (safe G) (k t)"
  shows "keeps (good G) (safe G) (bnd (new_task f) (\<lambda>t. bnd (add_task t) (\<lambda>_. k t)))"
proof -
  have "keeps (good G) (safe G) (add_task t)" if "tk_status t = CREATED" for t
    unfolding add_task_def by (rule keeps_insert) (simp add: task_created that)
  then have add: "keeps (good G) (safe G)
      (add_task (f (blank_task\<lparr>tk_id := i, tk_created_at := t0, tk_updated_at := t1\<rparr>)))" for i t0 t1
    by (simp add: assms(1) blank_task_def)
  show ?thesis
    unfolding new_task_def bnd_assoc bnd_ret by (intro keeps_intros keeps_bnd [OF add] assms(2))
qed

lemma keeps_create_task [keeps_intros]: "keeps (good G) (safe G) (create_task i d)"
  unfolding create_task_def
  by (intro keeps_intros keeps_new_task | simp)+

lemma keeps_draft [keeps_intros]:
  "keeps (good G) (safe G) (create_task_from_draft project r u d)"
  unfolding create_task_from_draft_def by (rule keeps_new_task) (simp, intro keeps_intros)

lemma keeps_decided [keeps_intros]:
  assumes "keeps (good G) (safe G) m"
  shows "keeps (good G) (safe G) (already_decided m)"
  unfolding already_decided_def
  by (rule keeps_try_rollback [OF assms]) (auto intro: keeps_intros)

lemma keeps_plans [keeps_intros]:
  "keeps (good G) (safe G) (approve_planner_run i)"
  "keeps (good G) (safe G) (reject_planner_run i reason)"
  unfolding approve_planner_run_def reject_planner_run_def ensure_planner_run_is_drafted_def
  by (intro keeps_intros)+

section \<open>Every request, every history\<close>

lemma handle_workflow_good:
  assumes "leaves_runs settled (w_env w)" and "good G w"
  shows "wp (handle_workflow host q) (\<lambda>_. good G) (safe G) w"
proof -
  have w: "working G (w_env w) any w" using assms(2) by (simp add: working_def)
  have unit: "wp (bnd m (\<lambda>_. ret ())) (\<lambda>_. good G) (safe G) w"
    if "wp m (\<lambda>_. good G) (safe G) w" for m :: "'a action"
    unfolding wp_bnd by (rule wp_mono [OF that]) (simp_all add: wp_simps)
  show ?thesis
  proof (cases q)
    case (MoveTask i s actor actor_id)
    then show ?thesis using unit [OF wp_transition_task [OF w]] by simp
  next
    case (StartTests i)
    then show ?thesis using unit [OF wp_start_tests [OF assms(1) w]] by simp
  next
    case (StartReview i)
    then show ?thesis using unit [OF wp_start_review [OF w]] by simp
  next
    case (ApproveArtifact i)
    then show ?thesis using unit [OF wp_approve [OF w]] by simp
  next
    case (RequestHuman i)
    then show ?thesis using unit [OF wp_request_human [OF w]] by simp
  qed (use assms(2) in \<open>auto intro!: unit keepsD [OF keeps_create_task] keepsD [OF keeps_plans(1)]
      keepsD [OF keeps_plans(2)]\<close>)
qed

lemma serve_workflow_good:
  assumes "leaves_runs settled (w_env w)" and "good G w"
  shows "good G (serve_workflow host qs w)"
  using assms unfolding serve_workflow_def
proof (induction qs arbitrary: w)
  case Nil
  then show ?case by simp
next
  case (Cons q qs)
  let ?w = "serve_workflow_one host q w"
  have "good G (snd (run_request (handle_workflow host q) w))"
    using handle_workflow_good [OF Cons.prems, of host q]
    by (auto simp: wp_def run_request_def good_def safe_def split: prod.splits sum.splits)
  moreover have "w_env (snd (run_request (handle_workflow host q) w)) = w_env w"
    using keepsD [OF env_kept_handle, of w "w_env w" host q]
    by (auto simp: wp_def run_request_def split: prod.splits sum.splits)
  ultimately have "good G ?w" and "w_env ?w = w_env w"
    by (simp_all add: serve_workflow_one_def good_sync)
  with Cons.IH [of ?w] Cons.prems show ?case by simp
qed

end

end
