(* ===== verification/WorkflowLaws.thy ===== *)
theory WorkflowLaws
  imports WorkflowHandlers Samples
begin

text \<open>
  What the workflow promises over any history of requests: the statuses of tasks follow the abstract
  lifecycle (a refinement), and an approval rests on a review that rests on evidence.
\<close>

section \<open>The keys of the tables\<close>

definition keys_ok :: "db \<Rightarrow> bool" where
  "keys_ok d \<longleftrightarrow> keyed tk_id (t_task d) \<and> keyed pa_id (t_patch_artifact d) \<and>
     keyed tr_id (t_local_test_run d) \<and> keyed rv_id (t_patch_review d)"

lemma keys_ok_side [simp]:
  "keys_ok (t_workspace_audit_log_update fa d) = keys_ok d"
  "keys_ok (t_identity_audit_event_update fi d) = keys_ok d"
  "keys_ok (t_task_event_update fe d) = keys_ok d" "keys_ok (t_debug_attempt_update fd d) = keys_ok d"
  "keys_ok (t_approval_update fp d) = keys_ok d" "keys_ok (t_planner_run_update fr d) = keys_ok d"
  "keys_ok (t_patch_approval_update fq d) = keys_ok d"
  by (simp_all add: keys_ok_def)

lemma keys_ok_insert:
  "keys_ok d \<Longrightarrow> map_of (t_task d) (tk_id t) = None \<Longrightarrow> keys_ok (t_task_update (\<lambda>ts. ts @ [(tk_id t, t)]) d)"
  "keys_ok d \<Longrightarrow> map_of (t_local_test_run d) (tr_id r) = None \<Longrightarrow>
     keys_ok (t_local_test_run_update (\<lambda>rs. rs @ [(tr_id r, r)]) d)"
  "keys_ok d \<Longrightarrow> map_of (t_patch_review d) (rv_id rv) = None \<Longrightarrow>
     keys_ok (t_patch_review_update (\<lambda>rs. rs @ [(rv_id rv, rv)]) d)"
  by (simp_all add: keys_ok_def keyed_insert)

lemma keys_ok_modify:
  "keys_ok d \<Longrightarrow> (\<And>t. tk_id (ft t) = tk_id t) \<Longrightarrow> keys_ok (t_task_update (row_modify i ft) d)"
  "keys_ok d \<Longrightarrow> (\<And>r. tr_id (fr r) = tr_id r) \<Longrightarrow> keys_ok (t_local_test_run_update (row_modify i fr) d)"
  "keys_ok d \<Longrightarrow> (\<And>a. pa_id (fa a) = pa_id a) \<Longrightarrow> keys_ok (t_patch_artifact_update (row_modify i fa) d)"
  by (simp_all add: keys_ok_def keyed_row_modify)

section \<open>The abstract lifecycle\<close>

text \<open>
  The abstract machine: a map from tasks to statuses, in which a step creates one task or moves one
  task along the table of transitions.
\<close>

definition task_statuses :: "db \<Rightarrow> string \<Rightarrow> task_status option" where
  "task_statuses d i = map_option tk_status (map_of (t_task d) i)"

inductive lifecycle_move ::
  "(string \<Rightarrow> task_status option) \<Rightarrow> (string \<Rightarrow> task_status option) \<Rightarrow> bool" where
  created: "a i = None \<Longrightarrow> lifecycle_move a (a(i \<mapsto> CREATED))"
| moved: "a i = Some s \<Longrightarrow> task_step actor s t \<Longrightarrow> lifecycle_move a (a(i \<mapsto> t))"

inductive_cases lifecycle_moveE: "lifecycle_move a b"

text \<open>What the abstract machine guarantees of each task.\<close>

lemma lifecycle_keeps_task:
  assumes "lifecycle_move\<^sup>*\<^sup>* a b" and "a i = Some s"
  shows "\<exists>t. b i = Some t \<and> (\<lambda>x y. \<exists>actor. task_step actor x y)\<^sup>*\<^sup>* s t"
  using assms
proof (induction rule: rtranclp_induct)
  case base
  then show ?case by blast
next
  case (step b c)
  then obtain t where t: "b i = Some t" "(\<lambda>x y. \<exists>actor. task_step actor x y)\<^sup>*\<^sup>* s t" by blast
  from step(2) show ?case
  proof (cases rule: lifecycle_move.cases)
    case (created j)
    then show ?thesis using t by auto
  next
    case (moved j u actor x)
    then show ?thesis
      using t by (cases "j = i") (auto intro: rtranclp.rtrancl_into_rtrancl)
  qed
qed

definition lawful :: "(string \<Rightarrow> task_status option) \<Rightarrow> db \<Rightarrow> bool" where
  "lawful a d \<longleftrightarrow> keys_ok d \<and> lifecycle_move\<^sup>*\<^sup>* a (task_statuses d)"

lemma task_statuses_side [simp]:
  "task_statuses (t_workspace_audit_log_update fa d) = task_statuses d"
  "task_statuses (t_identity_audit_event_update fi d) = task_statuses d"
  "task_statuses (t_task_event_update fe d) = task_statuses d"
  "task_statuses (t_debug_attempt_update fd d) = task_statuses d"
  "task_statuses (t_approval_update fp d) = task_statuses d"
  "task_statuses (t_planner_run_update fr d) = task_statuses d"
  "task_statuses (t_patch_approval_update fq d) = task_statuses d"
  "task_statuses (t_patch_review_update fv d) = task_statuses d"
  "task_statuses (t_patch_artifact_update fx d) = task_statuses d"
  "task_statuses (t_local_test_run_update fl d) = task_statuses d"
  by (simp_all add: task_statuses_def fun_eq_iff)

lemma task_statuses_insert:
  assumes "map_of (t_task d) (tk_id t) = None"
  shows "task_statuses (t_task_update (\<lambda>ts. ts @ [(tk_id t, t)]) d) =
    (task_statuses d)(tk_id t \<mapsto> tk_status t)"
  using assms by (simp add: task_statuses_def fun_eq_iff map_of_append_new del: map_of_append)

lemma task_statuses_modify:
  assumes "map_of (t_task d) i = Some t"
  shows "task_statuses (t_task_update (row_modify i f) d) =
    (task_statuses d)(i \<mapsto> tk_status (f t))"
  using assms by (simp add: task_statuses_def fun_eq_iff)

interpretation lifecycle_workflow: workflow_invariant "lawful a" "\<lambda>_. False" for a
proof unfold_locales
  fix a d and t :: task
  assume d: "lawful a d" and new: "map_of (t_task d) (tk_id t) = None" and "tk_status t = CREATED"
  then have "lifecycle_move (task_statuses d) (task_statuses (t_task_update (\<lambda>ts. ts @ [(tk_id t, t)]) d))"
    unfolding task_statuses_insert [OF new] by (simp add: created task_statuses_def)
  then show "lawful a (t_task_update (\<lambda>ts. ts @ [(tk_id t, t)]) d)"
    using d new unfolding lawful_def
    by (auto intro: keys_ok_insert rtranclp.rtrancl_into_rtrancl)
next
  fix a d actor s now and t :: task
  assume d: "lawful a d" and row: "has_row t_task tk_id t d" and step: "task_step actor (tk_status t) s"
  let ?d = "t_task_update (row_modify (tk_id t) (\<lambda>t. t\<lparr>tk_status := s, tk_updated_at := now\<rparr>)) d"
  have "lifecycle_move (task_statuses d) (task_statuses ?d)"
    unfolding task_statuses_modify [OF row]
    using row step by (simp add: lifecycle_move.moved task_statuses_def)
  then show "lawful a ?d"
    using d unfolding lawful_def
    by (auto intro: keys_ok_modify rtranclp.rtrancl_into_rtrancl)
qed (auto simp: lawful_def keys_ok_insert keys_ok_modify, simp_all add: keys_ok_def)

section \<open>Evidence\<close>

text \<open>The review that a test run and the files of the artifact justify.\<close>

definition reviewed_soundly :: "db \<Rightarrow> patch_review \<Rightarrow> bool" where
  "reviewed_soundly d rv \<longleftrightarrow> (\<exists>t a i r.
     map_of (t_task d) (rv_task_id rv) = Some t \<and>
     map_of (t_patch_artifact d) (rv_patch_artifact_id rv) = Some a \<and> pa_task_id a = rv_task_id rv \<and>
     rv_test_run_id rv = Some i \<and> map_of (t_local_test_run d) i = Some r \<and>
     tr_patch_artifact_id r = Some (rv_patch_artifact_id rv) \<and> tr_status r = ''passed'' \<and>
     strip (pa_diff_text a) \<noteq> [] \<and> pa_files_changed a \<noteq> [] \<and>
     (\<forall>f \<in> set (pa_files_changed a).
        list_ex (path_matches_allowed (normalize_path_pattern f)) (tk_allowed_paths t)))"

lemma allowed_files:
  "ensure_changed_files_allowed fs ps = Inr u \<longleftrightarrow>
     ps \<noteq> [] \<and> (\<forall>f \<in> set fs. list_ex (path_matches_allowed (normalize_path_pattern f)) ps)"
proof -
  let ?bad = "filter (\<lambda>f. \<not> list_ex (path_matches_allowed f) ps) (map normalize_path_pattern fs)"
  have "?bad = [] \<longleftrightarrow> (\<forall>f \<in> set fs. list_ex (path_matches_allowed (normalize_path_pattern f)) ps)"
    by (simp add: filter_empty_conv)
  then show ?thesis
    unfolding ensure_changed_files_allowed_def by (cases ?bad) (simp_all del: filter.simps)
qed

lemma no_issues:
  "deterministic_review_issues t a latest = [] \<longleftrightarrow>
     strip (pa_diff_text a) \<noteq> [] \<and> pa_files_changed a \<noteq> [] \<and>
     ensure_changed_files_allowed (pa_files_changed a) (tk_allowed_paths t) = Inr () \<and>
     (\<exists>r. latest = Some r \<and> tr_status r = ''passed'')"
  by (auto simp: deterministic_review_issues_def diff_issues_def file_issues_def test_issues_def
      split: sum.splits option.splits)

lemma rests_on_sound:
  assumes "rests_on rv t a latest" and "rv_verdict rv = ''approved''"
    and "has_row t_task tk_id t d" "has_row t_patch_artifact pa_id a d"
    and "\<And>r. latest = Some r \<Longrightarrow> has_row t_local_test_run tr_id r d"
  shows "reviewed_soundly d rv"
  using assms by (auto simp: rests_on_def no_issues allowed_files reviewed_soundly_def)

text \<open>Later changes leave the grounds of a review.\<close>

lemma reviewed_soundly_mono:
  assumes "reviewed_soundly d rv"
    and "\<And>i t. map_of (t_task d) i = Some t \<Longrightarrow>
      \<exists>t'. map_of (t_task d') i = Some t' \<and> tk_allowed_paths t' = tk_allowed_paths t"
    and "\<And>i a. map_of (t_patch_artifact d) i = Some a \<Longrightarrow>
      \<exists>a'. map_of (t_patch_artifact d') i = Some a' \<and> pa_task_id a' = pa_task_id a \<and>
        pa_diff_text a' = pa_diff_text a \<and> pa_files_changed a' = pa_files_changed a"
    and "\<And>i r. map_of (t_local_test_run d) i = Some r \<Longrightarrow> tr_status r = ''passed'' \<Longrightarrow>
      \<exists>r'. map_of (t_local_test_run d') i = Some r' \<and> tr_status r' = ''passed'' \<and>
        tr_patch_artifact_id r' = tr_patch_artifact_id r"
  shows "reviewed_soundly d' rv"
  using assms(1) unfolding reviewed_soundly_def
  by (auto dest!: assms(2-4))

definition evidenced :: "db \<Rightarrow> bool" where
  "evidenced d \<longleftrightarrow> keys_ok d \<and>
     (\<forall>rv \<in> set (rows (t_patch_review d)). rv_verdict rv = ''approved'' \<longrightarrow> reviewed_soundly d rv) \<and>
     (\<forall>ap \<in> set (rows (t_patch_approval d)). \<exists>rv. map_of (t_patch_review d) (pp_review_id ap) = Some rv \<and>
        rv_verdict rv = ''approved'' \<and> rv_patch_artifact_id rv = pp_patch_artifact_id ap \<and>
        rv_task_id rv = pp_task_id ap)"

text \<open>A change of the other tables keeps the evidence.\<close>

lemma evidenced_mono:
  assumes "evidenced d" and "keys_ok d'"
    and "t_patch_review d' = t_patch_review d" and "t_patch_approval d' = t_patch_approval d"
    and "\<And>rv. reviewed_soundly d rv \<Longrightarrow> reviewed_soundly d' rv"
  shows "evidenced d'"
  using assms by (auto simp: evidenced_def)

lemma evidenced_side [simp]:
  "evidenced (t_workspace_audit_log_update fa d) = evidenced d"
  "evidenced (t_identity_audit_event_update fi d) = evidenced d"
  "evidenced (t_task_event_update fe d) = evidenced d" "evidenced (t_debug_attempt_update fd d) = evidenced d"
  "evidenced (t_approval_update fp d) = evidenced d" "evidenced (t_planner_run_update fr d) = evidenced d"
  by (simp_all add: evidenced_def reviewed_soundly_def)

lemma insert_keeps_row: "map_of t k = None \<Longrightarrow> map_of t i = Some r \<Longrightarrow> map_of (t @ [(k, x)]) i = Some r"
  by (auto simp: map_add_def)

interpretation evidence_workflow: workflow_invariant evidenced "\<lambda>s. s = ''passed''"
proof unfold_locales
  fix d and t :: task
  assume d: "evidenced d" and new: "map_of (t_task d) (tk_id t) = None"
  show "evidenced (t_task_update (\<lambda>ts. ts @ [(tk_id t, t)]) d)"
    by (rule evidenced_mono [OF d]) (use d new in \<open>auto simp: evidenced_def keys_ok_insert
        intro!: insert_keeps_row elim!: reviewed_soundly_mono simp del: map_of_append\<close>)
next
  fix d actor s now and t :: task
  assume d: "evidenced d"
  show "evidenced (t_task_update (row_modify (tk_id t) (\<lambda>t. t\<lparr>tk_status := s, tk_updated_at := now\<rparr>)) d)"
    by (rule evidenced_mono [OF d]) (use d in \<open>auto simp: evidenced_def keys_ok_modify
        elim!: reviewed_soundly_mono\<close>)
next
  fix d and r :: local_test_run
  assume d: "evidenced d" and new: "map_of (t_local_test_run d) (tr_id r) = None"
  show "evidenced (t_local_test_run_update (\<lambda>rs. rs @ [(tr_id r, r)]) d)"
    by (rule evidenced_mono [OF d]) (use d new in \<open>auto simp: evidenced_def keys_ok_insert
        intro!: insert_keeps_row elim!: reviewed_soundly_mono simp del: map_of_append\<close>)
next
  fix d i status results reason and now :: int
  assume d: "evidenced d" and "status = ''passed'' \<or> unsettled (\<lambda>s. s = ''passed'') i d"
  then show "evidenced (t_local_test_run_update (row_modify i (\<lambda>r. r\<lparr>tr_status := status,
        tr_command_results := results, tr_failure_reason := reason, tr_completed_at := Some now\<rparr>)) d)"
    by (intro evidenced_mono [OF d]) (auto simp: evidenced_def keys_ok_modify unsettled_def
        elim!: reviewed_soundly_mono)
next
  fix d i cs result
  assume d: "evidenced d"
  show "evidenced (t_patch_artifact_update (row_modify i
        (\<lambda>a. a\<lparr>pa_tests_run := cs, pa_test_result := result\<rparr>)) d)"
    by (rule evidenced_mono [OF d]) (use d in \<open>auto simp: evidenced_def keys_ok_modify
        elim!: reviewed_soundly_mono\<close>)
next
  fix d and t :: task and a :: patch_artifact and rv latest
  assume d: "evidenced d" and new: "map_of (t_patch_review d) (rv_id rv) = None"
    and rows: "has_row t_task tk_id t d" "has_row t_patch_artifact pa_id a d"
      "\<And>r. latest = Some r \<Longrightarrow> has_row t_local_test_run tr_id r d"
    and grounds: "rests_on rv t a latest"
  let ?d = "t_patch_review_update (\<lambda>rs. rs @ [(rv_id rv, rv)]) d"
  have sound: "reviewed_soundly ?d x \<longleftrightarrow> reviewed_soundly d x" for x
    by (simp add: reviewed_soundly_def)
  show "evidenced ?d"
    using d new rests_on_sound [OF grounds _ rows] unfolding evidenced_def sound
    by (auto simp: keys_ok_insert insert_keeps_row rows_append simp del: map_of_append)
next
  fix d and ap :: patch_approval and a :: patch_artifact and rv
  assume d: "evidenced d" and new: "map_of (t_patch_approval d) (pp_id ap) = None"
    and rows: "has_row t_patch_artifact pa_id a d" "has_row t_patch_review rv_id rv d"
    and grounds: "approves ap a rv"
  let ?d = "t_patch_approval_update (\<lambda>rs. rs @ [(pp_id ap, ap)]) d"
  have sound: "reviewed_soundly ?d x \<longleftrightarrow> reviewed_soundly d x" for x
    by (simp add: reviewed_soundly_def)
  have "reviewed_soundly d rv"
    using d rows(2) grounds map_of_SomeD [OF rows(2)]
    by (auto simp: evidenced_def approves_def rows_def)
  then have "rv_task_id rv = pp_task_id ap"
    using rows(1) grounds by (auto simp: reviewed_soundly_def approves_def)
  then show "evidenced ?d"
    using d rows(2) grounds unfolding evidenced_def sound
    by (auto simp: rows_append approves_def)
qed (simp_all, simp_all add: evidenced_def keys_ok_def)

section \<open>A patch on its way\<close>

text \<open>A task with a patch of one allowed file, tested and reviewed.\<close>

definition sample_patch :: patch_artifact where
  "sample_patch = blank_patch_artifact\<lparr>pa_id := ''patch'', pa_workspace_id := ''w'', pa_project_id := ''p'',
     pa_task_id := ''t'', pa_local_run_id := ''local'', pa_files_changed := [''src/a''],
     pa_diff_text := ''diff''\<rparr>"

definition sample_test_run :: local_test_run where
  "sample_test_run = blank_local_test_run\<lparr>tr_id := ''tests'', tr_workspace_id := ''w'',
     tr_task_id := ''t'', tr_local_run_id := ''local'', tr_patch_artifact_id := Some ''patch'',
     tr_status := ''passed''\<rparr>"

definition sample_review :: patch_review where
  "sample_review = blank_patch_review\<lparr>rv_id := ''review'', rv_workspace_id := ''w'',
     rv_task_id := ''t'', rv_local_run_id := ''local'', rv_patch_artifact_id := ''patch'',
     rv_test_run_id := Some ''tests'', rv_reviewer_kind := ''deterministic'',
     rv_verdict := ''approved''\<rparr>"

definition patch_db :: db where
  "patch_db = sample_db\<lparr>
     t_task := [(''t'', sample_task\<lparr>tk_status := APPROVED, tk_allowed_paths := [''src/**'']\<rparr>)],
     t_patch_artifact := [(''patch'', sample_patch)],
     t_local_test_run := [(''tests'', sample_test_run)],
     t_patch_review := [(''review'', sample_review)]\<rparr>"

text \<open>Enough different identifiers for the steps of the workflow.\<close>

definition patch_world :: world where
  "patch_world = (world_of patch_db)\<lparr>w_env := sample_env\<lparr>
     e_uuid := (\<lambda>n. [''ABCDEFGHIJKLMNOPQRSTUVWXYZabcdefghijklmnopqrstuvwxyz'' ! n])\<rparr>\<rparr>"

lemma patch_world_fields [simp]:
  "w_db patch_world = patch_db" "w_committed patch_world = patch_db"
  "e_others (w_env patch_world) = (\<lambda>_ d. d)"
  by (simp_all add: patch_world_def world_of_def sample_env_def)

definition sample_host :: test_host where
  "sample_host = \<lparr>th_resolve = (\<lambda>_ p. p), th_is_directory = (\<lambda>_ _. True),
     th_run_command = (\<lambda>_ _ c. \<lparr>tcr_command = c, tcr_exit_code = Some 0, tcr_stdout = [],
       tcr_stderr = [], tcr_duration_ms = 0\<rparr>)\<rparr>"

definition sample_steps :: "workflow_request list" where
  "sample_steps = [ApproveArtifact ''patch'', MoveTask ''t'' HUMAN_APPROVAL ''user'' ''u'']"

lemmas patch_db_defs = patch_db_def sample_db_def empty_db_def sample_task_def sample_patch_def
  sample_test_run_def sample_review_def

lemma patch_db_keys: "keys_ok patch_db"
  by (simp add: keys_ok_def keyed_def patch_db_defs)

lemma patch_file_allowed: "path_matches_allowed (normalize_path_pattern ''src/a'') ''src/**''"
  by code_simp

lemma patch_db_evidenced: "evidenced patch_db"
proof -
  have "strip ''diff'' \<noteq> []" by code_simp
  then have "reviewed_soundly patch_db sample_review"
    using patch_file_allowed by (simp add: reviewed_soundly_def patch_db_defs)
  then show ?thesis
    using patch_db_keys by (simp add: evidenced_def) (simp add: patch_db_def sample_db_def empty_db_def rows_def)
qed

text \<open>The sample patch is approved in the end.\<close>

lemma sample_approval:
  "map pp_patch_artifact_id (rows (t_patch_approval (w_committed
     (serve_workflow sample_host sample_steps patch_world)))) = [''patch'']"
  by code_simp

section \<open>Properties\<close>



text \<open>
  C33: An approval rests on evidence. In every history, each patch approval that is committed names
  a review of the same artifact and task with the verdict approved; the artifact has a diff and
  changed files, every one of them matched by an allowed path of its task, and the test run the
  review names belongs to the artifact and has passed. Other sessions may commit in between if
  they keep this too and do not complete the test runs that this process has started.
\<close>

theorem approvals_rest_on_evidence:
  assumes "w_db w = w_committed w" and "evidenced (w_committed w)"
    and "\<And>n d. evidenced d \<Longrightarrow> evidenced (e_others (w_env w) n d)"
    and "leaves_runs (\<lambda>s. s = ''passed'') (w_env w)"
    and "ap \<in> set (rows (t_patch_approval (w_committed (serve_workflow host qs w))))"
  shows "\<exists>rv. map_of (t_patch_review (w_committed (serve_workflow host qs w))) (pp_review_id ap) = Some rv \<and>
    rv_verdict rv = ''approved'' \<and> rv_patch_artifact_id rv = pp_patch_artifact_id ap \<and>
    rv_task_id rv = pp_task_id ap \<and>
    reviewed_soundly (w_committed (serve_workflow host qs w)) rv"
proof -
  have "good evidenced w" using assms(1-3) by (simp add: good_def)
  then have "evidenced (w_committed (serve_workflow host qs w))"
    using evidence_workflow.serve_workflow_good [OF assms(4)] by (simp add: good_def)
  with assms(5) show ?thesis
    unfolding evidenced_def rows_def by (fastforce dest: map_of_SomeD)
qed

theorem approvals_rest_on_evidence_witness:
  "list_all (\<lambda>ap. \<exists>rv. map_of (t_patch_review (w_committed (serve_workflow sample_host sample_steps patch_world)))
      (pp_review_id ap) = Some rv \<and> rv_verdict rv = ''approved'' \<and>
      rv_patch_artifact_id rv = pp_patch_artifact_id ap \<and> rv_task_id rv = pp_task_id ap \<and>
      reviewed_soundly (w_committed (serve_workflow sample_host sample_steps patch_world)) rv)
    (rows (t_patch_approval (w_committed (serve_workflow sample_host sample_steps patch_world)))) \<and>
   map pp_patch_artifact_id (rows (t_patch_approval (w_committed
     (serve_workflow sample_host sample_steps patch_world)))) = [''patch'']"
proof -
  have "evidenced (w_committed patch_world)" by (simp add: patch_db_evidenced)
  moreover have "leaves_runs (\<lambda>s. s = ''passed'') (w_env patch_world)"
    by (simp add: leaves_runs_def)
  ultimately show ?thesis
    using approvals_rest_on_evidence [of patch_world _ sample_host sample_steps]
    unfolding list_all_iff using sample_approval by simp
qed

end
