(* ===== verification/SqlSchema.thy ===== *)
theory SqlSchema
  imports PyText
begin

text \<open>
  What the schema upgrades of \<^verbatim>\<open>db/session.py\<close> use of a relational database: tables with their columns, rows
  and indexes, and the statements that change them. A row is an association list from columns to
  values; the rows stand in the order of their \<^verbatim>\<open>rowid\<close>.
\<close>

section \<open>Tables\<close>

datatype sql_value = SNull | SText string | SInt int

text \<open>Values are ordered as SQLite sorts them: NULL, then the numbers, then the texts.\<close>

fun value_rank :: "sql_value \<Rightarrow> nat \<times> int \<times> string" where
  "value_rank SNull = (0, 0, [])"
| "value_rank (SInt n) = (1, n, [])"
| "value_rank (SText s) = (2, 0, s)"

lemma value_rank_inject: "value_rank v = value_rank w \<Longrightarrow> v = w"
  by (cases v; cases w) simp_all

instantiation sql_value :: linorder
begin

definition less_eq_sql_value :: "sql_value \<Rightarrow> sql_value \<Rightarrow> bool" where
  "less_eq_sql_value v w \<longleftrightarrow> value_rank v \<le> value_rank w"

definition less_sql_value :: "sql_value \<Rightarrow> sql_value \<Rightarrow> bool" where
  "less_sql_value v w \<longleftrightarrow> value_rank v < value_rank w"

instance
  by standard (auto simp: less_eq_sql_value_def less_sql_value_def value_rank_inject)

end

text \<open>A column with its declaration, as in \<^verbatim>\<open>ADD COLUMN name declaration\<close>, and its default.\<close>

record sql_column =
  sc_name :: string
  sc_decl :: string
  sc_default :: sql_value

definition not_null :: "sql_column \<Rightarrow> bool" where
  "not_null c \<longleftrightarrow> is_infix ''NOT NULL'' (sc_decl c)"

type_synonym sql_row = "(string \<times> sql_value) list"

definition cell :: "sql_row \<Rightarrow> string \<Rightarrow> sql_value" where
  "cell r c = (case map_of r c of None \<Rightarrow> SNull | Some v \<Rightarrow> v)"

text \<open>
  The condition of a partial index. An index that belongs to a constraint of the table
  (\<^verbatim>\<open>origin\<close> \<^verbatim>\<open>u\<close> or \<^verbatim>\<open>pk\<close>) cannot be dropped.
\<close>

datatype index_origin = Created | OfConstraint | OfPrimaryKey

datatype sql_condition = IsNotNull string | IsText string string

fun holds :: "sql_condition \<Rightarrow> sql_row \<Rightarrow> bool" where
  "holds (IsNotNull c) r = (cell r c \<noteq> SNull)"
| "holds (IsText c v) r = (cell r c = SText v)"

record sql_index =
  si_name :: string
  si_columns :: "string list"
  si_unique :: bool
  si_origin :: index_origin
  si_where :: "sql_condition option"

record sql_table =
  st_sql :: string
  st_columns :: "sql_column list"
  st_rows :: "sql_row list"
  st_indexes :: "sql_index list"

datatype sql_error = NoSuchTable string | NoSuchColumn string string | DuplicateColumn string string
  | TableExists string | UniqueViolation string | NotNullViolation string | IndexExists string | ConstraintIndex string

text \<open>
  The database, with the dialect of its engine and what a rollback would restore. On PostgreSQL that
  is set when the block begins; Python's driver of SQLite begins a transaction only before the first
  statement that writes rows, so a schema change before it stays.
\<close>

datatype dialect = Sqlite | Postgresql

record database =
  dbs_dialect :: dialect
  dbs_tables :: "(string \<times> sql_table) list"
  dbs_saved :: "(string \<times> sql_table) list option"

type_synonym 'a sql = "(database, sql_error, 'a) act"

section \<open>Reading the schema\<close>

definition is_sqlite :: "bool sql" where
  "is_sqlite = gets (\<lambda>s. dbs_dialect s = Sqlite)"

definition table_exists :: "string \<Rightarrow> bool sql" where
  "table_exists n = gets (\<lambda>s. map_of (dbs_tables s) n \<noteq> None)"

definition column_names :: "sql_table \<Rightarrow> string list" where
  "column_names t = map sc_name (st_columns t)"

text \<open>\<^verbatim>\<open>PRAGMA table_info\<close>: of a table that is not there, no columns.\<close>

definition existing_columns :: "string \<Rightarrow> string list sql" where
  "existing_columns n = gets (\<lambda>s. case map_of (dbs_tables s) n of None \<Rightarrow> [] | Some t \<Rightarrow> column_names t)"

definition existing_indexes :: "string \<Rightarrow> sql_index list sql" where
  "existing_indexes n = gets (\<lambda>s. case map_of (dbs_tables s) n of None \<Rightarrow> [] | Some t \<Rightarrow> st_indexes t)"

definition existing_rows :: "string \<Rightarrow> sql_row list sql" where
  "existing_rows n = gets (\<lambda>s. case map_of (dbs_tables s) n of None \<Rightarrow> [] | Some t \<Rightarrow> st_rows t)"

section \<open>Statements\<close>

definition put_table :: "string \<Rightarrow> sql_table \<Rightarrow> unit sql" where
  "put_table n t = modify (\<lambda>s. s\<lparr>dbs_tables := AList.update n t (dbs_tables s)\<rparr>)"

definition the_table :: "string \<Rightarrow> sql_table sql" where
  "the_table n = bnd (gets (\<lambda>s. map_of (dbs_tables s) n)) (\<lambda>found.
                 case found of None \<Rightarrow> raise (NoSuchTable n) | Some t \<Rightarrow> ret t)"

text \<open>A statement that names a column the table does not have is refused.\<close>

definition require_columns :: "string \<Rightarrow> sql_table \<Rightarrow> string list \<Rightarrow> unit sql" where
  "require_columns n t cs =
     (case filter (\<lambda>c. c \<notin> set (column_names t)) cs of
        [] \<Rightarrow> ret ()
      | c # _ \<Rightarrow> raise (NoSuchColumn n c))"

text \<open>
  \<^verbatim>\<open>ALTER TABLE n ADD COLUMN c\<close>: the rows get the default. A \<^verbatim>\<open>NOT NULL\<close> column needs one: on SQLite
  always, on PostgreSQL when there are rows.
\<close>

definition added_column :: "sql_column \<Rightarrow> sql_table \<Rightarrow> sql_table" where
  "added_column c t = t\<lparr>
     st_sql := st_sql t @ '', '' @ sc_name c @ '' '' @ sc_decl c,
     st_columns := st_columns t @ [c],
     st_rows := map (\<lambda>r. r @ [(sc_name c, sc_default c)]) (st_rows t)\<rparr>"

definition add_column :: "string \<Rightarrow> sql_column \<Rightarrow> unit sql" where
  "add_column n c = bnd (the_table n) (\<lambda>t.
                    bnd (only_if (sc_name c \<in> set (column_names t)) (raise (DuplicateColumn n (sc_name c)))) (\<lambda>_.
                    bnd is_sqlite (\<lambda>sqlite.
                    bnd (only_if (not_null c \<and> sc_default c = SNull \<and> (sqlite \<or> st_rows t \<noteq> []))
       (raise (NotNullViolation (sc_name c)))) (\<lambda>_.
                    put_table n (added_column c t)))))"

definition set_cell :: "string \<Rightarrow> sql_value \<Rightarrow> sql_row \<Rightarrow> sql_row" where
  "set_cell c v r = AList.update c v r"

text \<open>
  \<^verbatim>\<open>CREATE [UNIQUE] INDEX IF NOT EXISTS\<close>: the names of indexes are those of the whole database. A
  unique index is refused when two of the rows it covers agree in its columns and none is NULL.
\<close>

definition index_keys :: "sql_index \<Rightarrow> sql_row list \<Rightarrow> sql_value list list" where
  "index_keys i rs = filter (\<lambda>k. SNull \<notin> set k)
     (map (\<lambda>r. map (cell r) (si_columns i))
        (filter (\<lambda>r. case si_where i of None \<Rightarrow> True | Some c \<Rightarrow> holds c r) rs))"

text \<open>A statement that writes rows checks the constraints of the table.\<close>

definition violated :: "sql_table \<Rightarrow> sql_error option" where
  "violated t =
     (case filter (\<lambda>i. si_unique i \<and> \<not> distinct (index_keys i (st_rows t))) (st_indexes t) of
        i # _ \<Rightarrow> Some (UniqueViolation (si_name i))
      | [] \<Rightarrow>
          (case filter (\<lambda>c. not_null c \<and> list_ex (\<lambda>r. cell r (sc_name c) = SNull) (st_rows t)) (st_columns t) of
             c # _ \<Rightarrow> Some (NotNullViolation (sc_name c))
           | [] \<Rightarrow> None))"

definition begin_writing :: "unit sql" where
  "begin_writing = modify (\<lambda>s. case dbs_saved s of
     None \<Rightarrow> s\<lparr>dbs_saved := Some (dbs_tables s)\<rparr> | Some _ \<Rightarrow> s)"

definition write_rows :: "string \<Rightarrow> sql_table \<Rightarrow> sql_row list \<Rightarrow> unit sql" where
  "write_rows n t rs = bnd begin_writing (\<lambda>_.
                       case violated (t\<lparr>st_rows := rs\<rparr>) of
       Some e \<Rightarrow> raise e
     | None \<Rightarrow> put_table n (t\<lparr>st_rows := rs\<rparr>))"

text \<open>\<^verbatim>\<open>UPDATE n SET ... WHERE ...\<close>, whose text mentions the columns \<open>cs\<close>.\<close>

definition sql_update :: "string \<Rightarrow> string list \<Rightarrow> (sql_row \<Rightarrow> bool) \<Rightarrow> (sql_row \<Rightarrow> sql_row) \<Rightarrow> unit sql" where
  "sql_update n cs P f = bnd (the_table n) (\<lambda>t.
                         bnd (require_columns n t cs) (\<lambda>_.
                         write_rows n t (map (\<lambda>r. if P r then f r else r) (st_rows t))))"

text \<open>
  \<^verbatim>\<open>INSERT INTO n (columns) SELECT ... FROM m\<close>: a column takes an expression over the old row, or its
  default.
\<close>

definition insert_select :: "string \<Rightarrow> (string \<times> (sql_row \<Rightarrow> sql_value)) list \<Rightarrow> string \<Rightarrow> unit sql" where
  "insert_select n exprs m = bnd (the_table m) (\<lambda>source.
                             bnd (the_table n) (\<lambda>t.
                             bnd (require_columns n t (map fst exprs)) (\<lambda>_.
                             let value = (\<lambda>r c. case map_of exprs (sc_name c) of Some f \<Rightarrow> f r | None \<Rightarrow> sc_default c) in
                             write_rows n t (st_rows t @
       map (\<lambda>r. map (\<lambda>c. (sc_name c, value r c)) (st_columns t)) (st_rows source)))))"

definition index_exists :: "database \<Rightarrow> string \<Rightarrow> bool" where
  "index_exists s x \<longleftrightarrow> list_ex (\<lambda>(n, t). list_ex (\<lambda>i. si_name i = x) (st_indexes t)) (dbs_tables s)"

definition condition_columns :: "sql_condition option \<Rightarrow> string list" where
  "condition_columns condition =
     (case condition of None \<Rightarrow> [] | Some (IsNotNull c) \<Rightarrow> [c] | Some (IsText c v) \<Rightarrow> [c])"

definition index_refs :: "sql_index \<Rightarrow> string list" where
  "index_refs i = si_columns i @ condition_columns (si_where i)"

definition with_index :: "sql_index \<Rightarrow> sql_table \<Rightarrow> sql_table" where
  "with_index i t = t\<lparr>st_indexes := st_indexes t @ [i]\<rparr>"

definition create_index :: "string \<Rightarrow> sql_index \<Rightarrow> unit sql" where
  "create_index n i = bnd (gets (\<lambda>s. index_exists s (si_name i))) (\<lambda>exists.
                      only_if (\<not> exists) (bnd (the_table n) (\<lambda>t.
                         bnd (require_columns n t (index_refs i)) (\<lambda>_.
                         bnd (only_if (si_unique i \<and> \<not> distinct (index_keys i (st_rows t))) (raise (UniqueViolation (si_name i)))) (\<lambda>_.
                         put_table n (with_index i t))))))"

definition plain_index :: "string \<Rightarrow> string \<Rightarrow> sql_index" where
  "plain_index name column = \<lparr>si_name = name, si_columns = [column], si_unique = False,
     si_origin = Created, si_where = None\<rparr>"

definition without_index :: "sql_index \<Rightarrow> sql_table \<Rightarrow> sql_table" where
  "without_index i t = t\<lparr>st_indexes := filter (\<lambda>j. si_name j \<noteq> si_name i) (st_indexes t)\<rparr>"

definition drop_index :: "sql_index \<Rightarrow> unit sql" where
  "drop_index i = bnd (only_if (si_origin i \<noteq> Created) (raise (ConstraintIndex (si_name i)))) (\<lambda>_.
                  modify (\<lambda>s. s\<lparr>dbs_tables := map (\<lambda>(n, t). (n, without_index i t)) (dbs_tables s)\<rparr>))"

text \<open>\<^verbatim>\<open>Table.create\<close> creates the table and its indexes.\<close>

definition create_table :: "string \<Rightarrow> sql_table \<Rightarrow> unit sql" where
  "create_table n t = bnd (table_exists n) (\<lambda>exists.
                      bnd (only_if exists (raise (TableExists n))) (\<lambda>_.
                      bnd (gets (\<lambda>s. filter (\<lambda>i. index_exists s (si_name i)) (st_indexes t))) (\<lambda>taken.
                      case taken of
       [] \<Rightarrow> modify (\<lambda>s. s\<lparr>dbs_tables := dbs_tables s @ [(n, t)]\<rparr>)
     | i # _ \<Rightarrow> raise (IndexExists (si_name i)))))"

definition drop_table :: "string \<Rightarrow> unit sql" where
  "drop_table n = bnd (the_table n) (\<lambda>_.
                  modify (\<lambda>s. s\<lparr>dbs_tables := filter (\<lambda>(m, _). m \<noteq> n) (dbs_tables s)\<rparr>))"

text \<open>The automatic indexes of constraints are named after their table.\<close>

definition auto_index_prefix :: "string \<Rightarrow> string" where
  "auto_index_prefix n = ''sqlite_autoindex_'' @ n @ ''_''"

definition renamed_index :: "string \<Rightarrow> string \<Rightarrow> sql_index \<Rightarrow> sql_index" where
  "renamed_index n m i =
     (if si_origin i \<noteq> Created \<and> starts_with (auto_index_prefix n) (si_name i)
      then i\<lparr>si_name := auto_index_prefix m @ drop (length (auto_index_prefix n)) (si_name i)\<rparr>
      else i)"

definition renamed_table :: "string \<Rightarrow> string \<Rightarrow> string \<times> sql_table \<Rightarrow> string \<times> sql_table" where
  "renamed_table n m entry = (case entry of (k, t) \<Rightarrow>
     if k = n then (m, t\<lparr>st_indexes := map (renamed_index n m) (st_indexes t)\<rparr>) else (k, t))"

definition rename_table :: "string \<Rightarrow> string \<Rightarrow> unit sql" where
  "rename_table n m = bnd (the_table n) (\<lambda>t.
                      bnd (table_exists m) (\<lambda>exists.
                      bnd (only_if exists (raise (TableExists m))) (\<lambda>_.
                      modify (\<lambda>s. s\<lparr>dbs_tables := map (renamed_table n m) (dbs_tables s)\<rparr>))))"

text \<open>\<^verbatim>\<open>with engine.begin() as connection\<close>: an exception rolls the block back.\<close>

definition begin_transaction :: "database \<Rightarrow> database" where
  "begin_transaction s = s\<lparr>dbs_saved := if dbs_dialect s = Postgresql then Some (dbs_tables s) else None\<rparr>"

definition roll_back :: "database \<Rightarrow> database" where
  "roll_back s = (case dbs_saved s of None \<Rightarrow> s | Some ts \<Rightarrow> s\<lparr>dbs_tables := ts, dbs_saved := None\<rparr>)"

definition commit_transaction :: "database \<Rightarrow> database" where
  "commit_transaction s = s\<lparr>dbs_saved := None\<rparr>"

definition transaction :: "'a sql \<Rightarrow> 'a sql" where
  "transaction m s = (case m (begin_transaction s) of
     (Inl e, s') \<Rightarrow> (Inl e, roll_back s')
   | (Inr x, s') \<Rightarrow> (Inr x, commit_transaction s'))"

text \<open>The effect of a block, as a rule.\<close>

lemma wp_transaction [wp_simps]:
  "wp (transaction m) Q E s =
     wp m (\<lambda>x s'. Q x (commit_transaction s')) (\<lambda>e s'. E e (roll_back s')) (begin_transaction s)"
  by (simp add: wp_def transaction_def split: prod.split sum.split)

end
