(* ===== verification/Migrations.thy ===== *)
theory Migrations
  imports SqlSchema JsonText Entities
begin

text \<open>
  The schema upgrades at the start of the application (\<^verbatim>\<open>db/session.py\<close>): columns and indexes that older
  databases lack, rows that newer constraints would refuse. \<open>init_db\<close> runs them in their order; the
  tables of the model classes are a parameter.
\<close>

section \<open>Adding what is missing\<close>

definition add_missing_columns :: "string \<Rightarrow> sql_column list \<Rightarrow> unit sql" where
  "add_missing_columns n columns = bnd (existing_columns n) (\<lambda>existing.
                                   for_each (\<lambda>c. only_if (sc_name c \<notin> set existing) (add_column n c)) columns)"

definition create_indexes :: "string \<Rightarrow> string list \<Rightarrow> unit sql" where
  "create_indexes n columns =
     for_each (\<lambda>c. create_index n (plain_index (''ix_'' @ n @ ''_'' @ c) c)) columns"

text \<open>The shape most upgrades share.\<close>

definition upgrade_table :: "string \<Rightarrow> sql_column list \<Rightarrow> string list \<Rightarrow> unit sql" where
  "upgrade_table n columns indexed = bnd is_sqlite (\<lambda>sqlite.
                                     only_if sqlite (transaction (bnd (table_exists n) (\<lambda>exists.
                                  only_if exists (bnd (add_missing_columns n columns) (\<lambda>_.
                       create_indexes n indexed))))))"

definition nullable :: "string \<Rightarrow> string \<Rightarrow> sql_column" where
  "nullable name decl = \<lparr>sc_name = name, sc_decl = decl, sc_default = SNull\<rparr>"

definition with_default :: "string \<Rightarrow> string \<Rightarrow> sql_value \<Rightarrow> sql_column" where
  "with_default name decl v = \<lparr>sc_name = name, sc_decl = decl, sc_default = v\<rparr>"

definition sql_quote :: "string \<Rightarrow> string" where
  "sql_quote s = [CHR 0x27] @ s @ [CHR 0x27]"

definition text_default :: "string \<Rightarrow> string \<Rightarrow> string \<Rightarrow> sql_column" where
  "text_default name decl v = with_default name (decl @ '' DEFAULT '' @ sql_quote v) (SText v)"

definition int_default :: "string \<Rightarrow> string \<Rightarrow> int \<Rightarrow> sql_column" where
  "int_default name decl v = with_default name (decl @ '' DEFAULT '' @ show_int v) (SInt v)"

definition is_unset :: "string \<Rightarrow> sql_row \<Rightarrow> bool" where
  "is_unset c r \<longleftrightarrow> cell r c = SNull \<or> cell r c = SText []"

section \<open>Identity\<close>

definition identity_schema_tables :: "string list" where
  "identity_schema_tables = [''external_identity'', ''account_link_recovery'', ''device_session'',
     ''login_transaction'', ''provider_logout_continuation'', ''identity_audit_event'',
     ''audit_retention_state'']"

definition identity_additive_columns :: "(string \<times> sql_column list) list" where
  "identity_additive_columns =
     [(''organization'',
        [text_default ''account_kind'' ''VARCHAR NOT NULL'' ''legacy'',
         nullable ''personal_owner_user_id'' ''VARCHAR'']),
      (''external_identity'',
        [nullable ''account_link_correlation_id'' ''VARCHAR'',
         nullable ''last_confirmed_at'' ''DATETIME'',
         nullable ''last_status_checked_at'' ''DATETIME'',
         nullable ''status_check_token'' ''VARCHAR'']),
      (''device_session'',
        [nullable ''previous_secret_hash'' ''VARCHAR'',
         nullable ''previous_secret_valid_until'' ''DATETIME'',
         nullable ''secret_rotated_at'' ''DATETIME'',
         nullable ''recent_authenticated_at'' ''DATETIME'',
         nullable ''device_description'' ''VARCHAR'']),
      (''login_transaction'',
        [text_default ''purpose'' ''VARCHAR NOT NULL'' ''login'',
         nullable ''requested_session_id'' ''VARCHAR'']),
      (''identity_audit_event'',
        [nullable ''related_correlation_id'' ''VARCHAR'', nullable ''actor_user_id'' ''VARCHAR'',
         nullable ''operator_reason'' ''VARCHAR'', nullable ''request_id'' ''VARCHAR'',
         nullable ''client_ip_address'' ''VARCHAR'', nullable ''user_agent'' ''VARCHAR'']),
      (''workspace_audit_log'',
        [nullable ''request_id'' ''VARCHAR'', nullable ''correlation_id'' ''VARCHAR'']),
      (''secret_access_audit_log'',
        [nullable ''request_id'' ''VARCHAR'', nullable ''correlation_id'' ''VARCHAR''])]"

definition unique_where :: "string \<Rightarrow> string \<Rightarrow> sql_condition \<Rightarrow> sql_index" where
  "unique_where name column condition = \<lparr>si_name = name, si_columns = [column], si_unique = True,
     si_origin = Created, si_where = Some condition\<rparr>"

definition identity_additive_indexes :: "(string \<times> sql_index list) list" where
  "identity_additive_indexes =
     [(''organization'',
        [plain_index ''ix_organization_account_kind'' ''account_kind'',
         unique_where ''uq_organization_personal_owner_user'' ''personal_owner_user_id''
           (IsNotNull ''personal_owner_user_id'')]),
      (''external_identity'',
        [plain_index ''ix_external_identity_account_link_correlation_id'' ''account_link_correlation_id'',
         plain_index ''ix_external_identity_last_confirmed_at'' ''last_confirmed_at'',
         plain_index ''ix_external_identity_last_status_checked_at'' ''last_status_checked_at'',
         plain_index ''ix_external_identity_status_check_token'' ''status_check_token'']),
      (''device_session'',
        [plain_index ''ix_device_session_previous_secret_valid_until'' ''previous_secret_valid_until'',
         plain_index ''ix_device_session_secret_rotated_at'' ''secret_rotated_at'',
         plain_index ''ix_device_session_recent_authenticated_at'' ''recent_authenticated_at'']),
      (''login_transaction'',
        [plain_index ''ix_login_transaction_purpose'' ''purpose'',
         plain_index ''ix_login_transaction_requested_session_id'' ''requested_session_id'']),
      (''identity_audit_event'',
        [plain_index ''ix_identity_audit_event_related_correlation_id'' ''related_correlation_id'',
         plain_index ''ix_identity_audit_event_actor_user_id'' ''actor_user_id'',
         plain_index ''ix_identity_audit_event_request_id'' ''request_id'',
         unique_where ''uq_identity_security_rollback_correlation'' ''correlation_id''
           (IsText ''event_type'' ''identity_security_rollback'')]),
      (''workspace_audit_log'',
        [plain_index ''ix_workspace_audit_log_request_id'' ''request_id'',
         plain_index ''ix_workspace_audit_log_correlation_id'' ''correlation_id'']),
      (''secret_access_audit_log'',
        [plain_index ''ix_secret_access_audit_log_request_id'' ''request_id'',
         plain_index ''ix_secret_access_audit_log_correlation_id'' ''correlation_id''])]"

text \<open>What the migration would do, as the rollout reports it.\<close>

definition columns_missing :: "string \<Rightarrow> string list \<Rightarrow> bool sql" where
  "columns_missing n wanted = bnd (table_exists n) (\<lambda>exists.
                              bnd (existing_columns n) (\<lambda>existing.
                              ret (exists \<and> \<not> set wanted \<subseteq> set existing)))"

definition additive_names :: "string \<Rightarrow> string list" where
  "additive_names n = (case map_of identity_additive_columns n of None \<Rightarrow> [] | Some cs \<Rightarrow> map sc_name cs)"

text \<open>An audit table whose correlation is not complete yet.\<close>

definition correlation_pending :: "string \<Rightarrow> bool sql" where
  "correlation_pending n = bnd (table_exists n) (\<lambda>exists.
                           bnd (columns_missing n [''request_id'', ''correlation_id'']) (\<lambda>missing.
                           bnd (existing_rows n) (\<lambda>rs.
                           ret (exists \<and> (missing \<or> list_ex (is_unset ''correlation_id'') rs)))))"

definition plan_identity_schema_migration :: "string list sql" where
  "plan_identity_schema_migration = bnd (columns_missing ''organization'' [''account_kind'', ''personal_owner_user_id'']) (\<lambda>classify.
                                    bnd (gets (\<lambda>s. map fst (dbs_tables s))) (\<lambda>tables.
                                    bnd (map_act (\<lambda>n. columns_missing n (additive_names n))
       [''external_identity'', ''device_session'', ''login_transaction'', ''identity_audit_event'']) (\<lambda>extend.
                                    bnd (map_act correlation_pending [''workspace_audit_log'', ''secret_access_audit_log'']) (\<lambda>correlate.
                                    ret ((if classify then [''add_account_classification''] else []) @
          (if \<not> set identity_schema_tables \<subseteq> set tables then [''create_identity_tables''] else []) @
          (if True \<in> set extend then [''extend_identity_records''] else []) @
          (if True \<in> set correlate then [''extend_audit_correlation''] else []))))))"

text \<open>The type of a time differs between the dialects; PostgreSQL skips a column that is there.\<close>

definition resolved_column :: "dialect \<Rightarrow> sql_column \<Rightarrow> sql_column" where
  "resolved_column dialect c = c\<lparr>sc_decl := replace_all ''DATETIME''
     (if dialect = Postgresql then ''TIMESTAMP WITHOUT TIME ZONE'' else ''DATETIME'') (sc_decl c)\<rparr>"

definition add_identity_columns :: "string \<times> sql_column list \<Rightarrow> unit sql" where
  "add_identity_columns entry = bnd (table_exists (fst entry)) (\<lambda>exists.
                                bnd (gets dbs_dialect) (\<lambda>dialect.
                                only_if exists (add_missing_columns (fst entry) (map (resolved_column dialect) (snd entry)))))"

definition backfill_confirmations :: "unit sql" where
  "backfill_confirmations = bnd (table_exists ''external_identity'') (\<lambda>exists.
                            only_if exists (bnd (sql_update ''external_identity'' [''last_confirmed_at'', ''updated_at'']
         (\<lambda>r. cell r ''last_confirmed_at'' = SNull)
         (\<lambda>r. set_cell ''last_confirmed_at'' (cell r ''updated_at'') r)) (\<lambda>_.
                     sql_update ''external_identity'' [''last_status_checked_at'', ''last_confirmed_at'']
         (\<lambda>r. cell r ''last_status_checked_at'' = SNull)
         (\<lambda>r. set_cell ''last_status_checked_at'' (cell r ''last_confirmed_at'') r))))"

definition backfill_sessions :: "unit sql" where
  "backfill_sessions = bnd (table_exists ''device_session'') (\<lambda>exists.
                       only_if exists (bnd (sql_update ''device_session'' [''secret_rotated_at'', ''created_at'']
         (\<lambda>r. cell r ''secret_rotated_at'' = SNull)
         (\<lambda>r. set_cell ''secret_rotated_at'' (cell r ''created_at'') r)) (\<lambda>_.
                     sql_update ''device_session'' [''device_description'']
         (is_unset ''device_description'')
         (set_cell ''device_description'' (SText ''Unknown browser on Unknown device'')))))"

text \<open>\<^verbatim>\<open>:legacy_prefix || id\<close>: NULL when the identifier is.\<close>

definition sql_str :: "sql_value \<Rightarrow> string" where
  "sql_str v = (case v of SNull \<Rightarrow> ''None'' | SText s \<Rightarrow> s | SInt n \<Rightarrow> show_int n)"

definition sql_concat :: "string \<Rightarrow> sql_value \<Rightarrow> sql_value" where
  "sql_concat p v = (case v of SNull \<Rightarrow> SNull | _ \<Rightarrow> SText (p @ sql_str v))"

definition backfill_correlation :: "string \<times> string \<Rightarrow> unit sql" where
  "backfill_correlation entry = bnd (table_exists (fst entry)) (\<lambda>exists.
                                only_if exists (sql_update (fst entry) [''correlation_id'', ''id''] (is_unset ''correlation_id'')
       (\<lambda>r. set_cell ''correlation_id'' (sql_concat (snd entry) (cell r ''id'')) r)))"

definition create_identity_indexes :: "string \<times> sql_index list \<Rightarrow> unit sql" where
  "create_identity_indexes entry = bnd (table_exists (fst entry)) (\<lambda>exists.
                                   bnd (existing_columns (fst entry)) (\<lambda>columns.
                                   bnd (existing_indexes (fst entry)) (\<lambda>indexes.
                                   only_if exists (for_each (\<lambda>i. only_if (si_name i \<notin> set (map si_name indexes) \<and>
         set (si_columns i) \<subseteq> set columns) (create_index (fst entry) i)) (snd entry)))))"

definition upgrade_identity_additive_columns :: "unit sql" where
  "upgrade_identity_additive_columns = transaction (bnd (for_each add_identity_columns identity_additive_columns) (\<lambda>_.
                                                    bnd (table_exists ''organization'') (\<lambda>exists.
                                                    bnd (only_if exists (sql_update ''organization'' [''account_kind''] (is_unset ''account_kind'')
       (set_cell ''account_kind'' (SText ''legacy'')))) (\<lambda>_.
                                                    bnd backfill_confirmations (\<lambda>_.
                                                    bnd backfill_sessions (\<lambda>_.
                                                    bnd (for_each backfill_correlation
       [(''workspace_audit_log'', ''legacy_workspace_audit_''),
        (''secret_access_audit_log'', ''legacy_secret_access_audit_'')]) (\<lambda>_.
                                                    for_each create_identity_indexes identity_additive_indexes)))))))"

section \<open>SQLite: identity\<close>

definition on_sqlite :: "unit sql \<Rightarrow> unit sql" where
  "on_sqlite m = bnd is_sqlite (\<lambda>sqlite.
                 only_if sqlite (transaction m))"

definition additive_columns_of :: "string \<Rightarrow> sql_column list" where
  "additive_columns_of n = (case map_of identity_additive_columns n of None \<Rightarrow> [] | Some cs \<Rightarrow> cs)"

definition upgrade_sqlite_user_session_columns :: "unit sql" where
  "upgrade_sqlite_user_session_columns = on_sqlite (bnd (table_exists ''device_session'') (\<lambda>sessions.
                                                    only_if sessions (bnd (add_missing_columns ''device_session'' (additive_columns_of ''device_session'')) (\<lambda>_.
                       bnd backfill_sessions (\<lambda>_.
                       bnd (create_indexes ''device_session''
         [''previous_secret_valid_until'', ''secret_rotated_at'', ''recent_authenticated_at'']) (\<lambda>_.
                       bnd (table_exists ''login_transaction'') (\<lambda>transactions.
                       only_if transactions (bnd (add_missing_columns ''login_transaction'' (additive_columns_of ''login_transaction'')) (\<lambda>_.
                             create_indexes ''login_transaction'' [''purpose'', ''requested_session_id''])))))))))"

definition recovery_indexed_columns :: "(string \<times> string list) list" where
  "recovery_indexed_columns =
     [(''external_identity'', [''account_link_correlation_id'', ''last_confirmed_at'',
        ''last_status_checked_at'', ''status_check_token'']),
      (''identity_audit_event'', [''related_correlation_id'', ''actor_user_id'', ''request_id'']),
      (''workspace_audit_log'', [''request_id'', ''correlation_id'']),
      (''secret_access_audit_log'', [''request_id'', ''correlation_id''])]"

definition upgrade_recovery_table :: "string \<times> string list \<Rightarrow> unit sql" where
  "upgrade_recovery_table entry = bnd (table_exists (fst entry)) (\<lambda>exists.
                                  only_if exists (bnd (add_missing_columns (fst entry) (additive_columns_of (fst entry))) (\<lambda>_.
                     create_indexes (fst entry) (snd entry))))"

definition upgrade_sqlite_identity_recovery_columns :: "unit sql" where
  "upgrade_sqlite_identity_recovery_columns = on_sqlite (bnd (for_each upgrade_recovery_table recovery_indexed_columns) (\<lambda>_.
                                                         backfill_confirmations))"

definition sqlite_has_unique_index :: "string \<Rightarrow> string list \<Rightarrow> bool sql" where
  "sqlite_has_unique_index n columns = bnd (existing_indexes n) (\<lambda>indexes.
                                       ret (list_ex (\<lambda>i. si_unique i \<and> si_columns i = columns) indexes))"

definition upgrade_sqlite_account_classification :: "unit sql" where
  "upgrade_sqlite_account_classification = on_sqlite (bnd (table_exists ''organization'') (\<lambda>exists.
                                                      only_if exists (bnd (add_missing_columns ''organization'' (additive_columns_of ''organization'')) (\<lambda>_.
                     bnd (create_indexes ''organization'' [''account_kind'']) (\<lambda>_.
                     bnd (sqlite_has_unique_index ''organization'' [''personal_owner_user_id'']) (\<lambda>indexed.
                     only_if (\<not> indexed) (create_index ''organization''
         (unique_where ''uq_organization_personal_owner_user'' ''personal_owner_user_id''
            (IsNotNull ''personal_owner_user_id'')))))))))"

section \<open>SQLite: repositories and cloud runs\<close>

definition upgrade_sqlite_repository_phase_7_columns :: "unit sql" where
  "upgrade_sqlite_repository_phase_7_columns = upgrade_table ''repository''
     [text_default ''provider'' ''VARCHAR'' ''local'', text_default ''repo_url'' ''VARCHAR'' '''',
      nullable ''github_owner'' ''VARCHAR'', nullable ''github_repo'' ''VARCHAR'',
      nullable ''github_credential_id'' ''VARCHAR'', text_default ''connection_status'' ''VARCHAR'' ''active'']
     [''provider'', ''github_owner'', ''github_repo'', ''github_credential_id'', ''connection_status'']"

definition upgrade_sqlite_cloud_run_phase_8_columns :: "unit sql" where
  "upgrade_sqlite_cloud_run_phase_8_columns = upgrade_table ''cloud_run''
     [nullable ''sandbox_profile_id'' ''VARCHAR'', nullable ''patch_command_key'' ''VARCHAR'',
      nullable ''test_command_keys'' ''JSON'', nullable ''command_results'' ''JSON'']
     [''sandbox_profile_id'']"

definition upgrade_sqlite_cloud_run_phase_9_columns :: "unit sql" where
  "upgrade_sqlite_cloud_run_phase_9_columns = upgrade_table ''cloud_run''
     [int_default ''cancel_requested'' ''BOOLEAN NOT NULL'' 0, nullable ''cancel_requested_at'' ''DATETIME'',
      nullable ''cancelled_at'' ''DATETIME'', nullable ''worker_id'' ''VARCHAR'',
      nullable ''claimed_at'' ''DATETIME'', nullable ''completed_at'' ''DATETIME'']
     [''cancel_requested'', ''worker_id'']"

definition upgrade_sqlite_cloud_run_phase_10a_columns :: "unit sql" where
  "upgrade_sqlite_cloud_run_phase_10a_columns = upgrade_table ''cloud_run''
     [text_default ''queue_provider'' ''VARCHAR NOT NULL'' ''local_db'',
      nullable ''remote_worker_kind'' ''VARCHAR'', nullable ''lease_id'' ''VARCHAR'',
      nullable ''lease_expires_at'' ''DATETIME'', nullable ''heartbeat_at'' ''DATETIME'',
      int_default ''attempt_count'' ''INTEGER NOT NULL'' 0, int_default ''max_attempts'' ''INTEGER NOT NULL'' 3,
      nullable ''last_queue_error'' ''VARCHAR'']
     [''queue_provider'', ''remote_worker_kind'', ''lease_id'', ''lease_expires_at'']"

definition upgrade_sqlite_cloud_run_phase_10b_columns :: "unit sql" where
  "upgrade_sqlite_cloud_run_phase_10b_columns = upgrade_table ''cloud_run''
     [nullable ''queue_message_id'' ''VARCHAR'', nullable ''queue_receipt'' ''VARCHAR'',
      nullable ''runtime_provider'' ''VARCHAR'', nullable ''runtime_job_id'' ''VARCHAR'',
      nullable ''storage_provider'' ''VARCHAR'', nullable ''artifact_manifest_uri'' ''VARCHAR'',
      nullable ''log_stream_uri'' ''VARCHAR'', nullable ''external_status'' ''VARCHAR'',
      nullable ''external_error'' ''VARCHAR'']
     [''queue_message_id'', ''runtime_provider'', ''runtime_job_id'', ''storage_provider'',
      ''external_status'']"

definition upgrade_sqlite_cloud_run_phase_10d_columns :: "unit sql" where
  "upgrade_sqlite_cloud_run_phase_10d_columns = upgrade_table ''cloud_run''
     [nullable ''callback_token_hash'' ''VARCHAR'', nullable ''callback_token_expires_at'' ''DATETIME'',
      nullable ''callback_token_used_at'' ''DATETIME'']
     [''callback_token_hash'', ''callback_token_expires_at'']"

definition upgrade_sqlite_cloud_run_phase_12a_columns :: "unit sql" where
  "upgrade_sqlite_cloud_run_phase_12a_columns = upgrade_table ''cloud_run''
     [nullable ''artifact_manifest_sha256'' ''VARCHAR'', nullable ''artifact_manifest_size_bytes'' ''INTEGER'',
      nullable ''artifact_manifest_content_type'' ''VARCHAR'', nullable ''log_stream_sha256'' ''VARCHAR'',
      nullable ''log_stream_size_bytes'' ''INTEGER'', nullable ''log_stream_content_type'' ''VARCHAR'']
     []"

definition upgrade_sqlite_cloud_run_stored_object_phase_12d_columns :: "unit sql" where
  "upgrade_sqlite_cloud_run_stored_object_phase_12d_columns = upgrade_table ''cloud_run_stored_object''
     [nullable ''expires_at'' ''DATETIME'', nullable ''retention_policy'' ''VARCHAR'']
     [''expires_at'', ''retention_policy'']"

definition upgrade_sqlite_cloud_run_phase_13c_cost_columns :: "unit sql" where
  "upgrade_sqlite_cloud_run_phase_13c_cost_columns = upgrade_table ''cloud_run''
     [nullable ''budget_reservation_id'' ''VARCHAR'',
      int_default ''estimated_cost_cents'' ''INTEGER NOT NULL'' 0,
      int_default ''actual_cost_cents'' ''INTEGER NOT NULL'' 0,
      text_default ''cost_summary_json'' ''JSON NOT NULL'' ''{}'']
     [''budget_reservation_id'', ''estimated_cost_cents'', ''actual_cost_cents'']"

definition upgrade_sqlite_task_execution_constraints :: "unit sql" where
  "upgrade_sqlite_task_execution_constraints = upgrade_table ''task''
     [nullable ''allowed_paths'' ''JSON'', nullable ''required_tests'' ''JSON''] []"

text \<open>The planner's upgrade comes after \<^verbatim>\<open>create_all\<close> and takes its table for granted.\<close>

definition upgrade_sqlite_planner_run_metadata :: "unit sql" where
  "upgrade_sqlite_planner_run_metadata = on_sqlite (bnd (add_missing_columns ''planner_run''
       [nullable ''model_route_id'' ''VARCHAR'', nullable ''model_provider_name'' ''VARCHAR'',
        nullable ''model_name'' ''VARCHAR'', nullable ''fallback_reason'' ''VARCHAR'']) (\<lambda>_.
                                                    create_indexes ''planner_run'' [''model_route_id'']))"

section \<open>SQLite: rebuilding tables\<close>

definition local_test_run_columns :: "sql_column list" where
  "local_test_run_columns =
     [nullable ''id'' ''VARCHAR NOT NULL PRIMARY KEY'', nullable ''workspace_id'' ''VARCHAR NOT NULL'',
      nullable ''project_id'' ''VARCHAR NOT NULL'', nullable ''task_id'' ''VARCHAR NOT NULL'',
      nullable ''local_run_id'' ''VARCHAR NOT NULL'', nullable ''patch_artifact_id'' ''VARCHAR'',
      nullable ''status'' ''VARCHAR NOT NULL'', nullable ''commands'' ''JSON NOT NULL'',
      nullable ''command_results'' ''JSON NOT NULL'', nullable ''failure_reason'' ''VARCHAR'',
      nullable ''started_at'' ''DATETIME NOT NULL'', nullable ''completed_at'' ''DATETIME'',
      nullable ''created_at'' ''DATETIME NOT NULL'']"

definition local_test_run_key :: sql_index where
  "local_test_run_key = \<lparr>si_name = ''sqlite_autoindex_local_test_run_1'', si_columns = [''id''],
     si_unique = True, si_origin = OfPrimaryKey, si_where = None\<rparr>"

definition select_same :: "string list \<Rightarrow> (string \<times> (sql_row \<Rightarrow> sql_value)) list" where
  "select_same cs = map (\<lambda>c. (c, \<lambda>r. cell r c)) cs"

definition rebuild_local_test_run :: "unit sql" where
  "rebuild_local_test_run = bnd (rename_table ''local_test_run'' ''local_test_run_notnull_legacy'') (\<lambda>_.
                            bnd (create_table ''local_test_run'' \<lparr>st_sql = ''CREATE TABLE local_test_run'',
       st_columns = local_test_run_columns, st_rows = [], st_indexes = [local_test_run_key]\<rparr>) (\<lambda>_.
                            bnd (the_table ''local_test_run_notnull_legacy'') (\<lambda>old.
                            bnd (require_columns ''local_test_run_notnull_legacy'' old (map sc_name local_test_run_columns)) (\<lambda>_.
                            bnd (insert_select ''local_test_run'' (select_same (map sc_name local_test_run_columns))
       ''local_test_run_notnull_legacy'') (\<lambda>_.
                            bnd (drop_table ''local_test_run_notnull_legacy'') (\<lambda>_.
                            create_indexes ''local_test_run'' [''workspace_id'', ''project_id'', ''task_id'', ''local_run_id'',
       ''patch_artifact_id'', ''status'', ''created_at'']))))))"

definition upgrade_sqlite_local_test_run_nullable_patch_artifact :: "unit sql" where
  "upgrade_sqlite_local_test_run_nullable_patch_artifact = on_sqlite (bnd (gets (\<lambda>s. map_of (dbs_tables s) ''local_test_run'')) (\<lambda>found.
                                                                      case found of
       None \<Rightarrow> ret ()
     | Some t \<Rightarrow>
         only_if (list_ex (\<lambda>c. sc_name c = ''patch_artifact_id'' \<and> not_null c) (st_columns t))
           rebuild_local_test_run))"

section \<open>SQLite: the usage ledger\<close>

text \<open>An old CHECK constraint that does not know every usage type.\<close>

definition usage_types :: "usage_type list" where
  "usage_types = [UT_MODEL_TOKENS, UT_CLOUD_RUN_RUNTIME_SECONDS, UT_WORKER_SUBMISSIONS,
     UT_OBJECT_STORAGE_BYTES, UT_OBJECT_STORAGE_READS, UT_LOG_SYNC_CALLS, UT_QUEUE_MESSAGES,
     UT_PR_PUBLISH_ATTEMPTS]"

definition sqlite_usage_ledger_needs_phase_13c_rebuild :: "bool sql" where
  "sqlite_usage_ledger_needs_phase_13c_rebuild = bnd (gets (\<lambda>s. map_of (dbs_tables s) ''usage_ledger_entry'')) (\<lambda>found.
                                                 case found of
       None \<Rightarrow> ret False
     | Some t \<Rightarrow>
         (let normalized_sql = lower (st_sql t) in
          ret (is_infix ''check'' normalized_sql \<and> is_infix ''usage_type'' normalized_sql \<and>
            list_ex (\<lambda>u. \<not> is_infix (usage_type_value u) normalized_sql) usage_types)))"

text \<open>The search for a name that is free: it stops, for the names tried are different.\<close>

definition numbered :: "string \<Rightarrow> nat \<Rightarrow> string" where
  "numbered base suffix = base @ show_int (int suffix)"

lemma numbered_inject [simp]: "numbered base m = numbered base n \<longleftrightarrow> m = n"
proof
  assume "numbered base m = numbered base n"
  then have "digits_value (nat_digits m) = digits_value (nat_digits n)"
    by (simp add: numbered_def show_int_def)
  then show "m = n" by (simp add: nat_digits_value)
qed simp

definition taken_from :: "string list \<Rightarrow> string \<Rightarrow> nat \<Rightarrow> nat set" where
  "taken_from taken base n = {m. n \<le> m \<and> numbered base m \<in> set taken}"

lemma taken_finite: "finite (taken_from taken base n)"
proof (rule inj_on_finite)
  show "inj_on (numbered base) (taken_from taken base n)" by (simp add: inj_on_def)
  show "numbered base ` taken_from taken base n \<subseteq> set taken" by (auto simp: taken_from_def)
qed simp

lemma taken_shrinks:
  assumes "numbered base n \<in> set taken"
  shows "card (taken_from taken base (Suc n)) < card (taken_from taken base n)"
proof (rule psubset_card_mono [OF taken_finite])
  have "n \<in> taken_from taken base n" using assms by (simp add: taken_from_def)
  moreover have "n \<notin> taken_from taken base (Suc n)" by (simp add: taken_from_def)
  moreover have "taken_from taken base (Suc n) \<subseteq> taken_from taken base n" by (auto simp: taken_from_def)
  ultimately show "taken_from taken base (Suc n) \<subset> taken_from taken base n" by blast
qed

function free_number :: "string list \<Rightarrow> string \<Rightarrow> nat \<Rightarrow> string" where
  "free_number taken base suffix =
     (if numbered base suffix \<in> set taken then free_number taken base (Suc suffix)
      else numbered base suffix)"
  by pat_completeness auto
termination
  by (relation "measure (\<lambda>(taken, base, n). card (taken_from taken base n))") (auto simp: taken_shrinks)

declare free_number.simps [simp del]

definition free_name :: "string list \<Rightarrow> string \<Rightarrow> string \<Rightarrow> string" where
  "free_name taken base separator =
     (if base \<notin> set taken then base else free_number taken (base @ separator) 2)"

definition sqlite_legacy_table_name :: "string \<Rightarrow> string sql" where
  "sqlite_legacy_table_name base_name =
     gets (\<lambda>s. free_name (map fst (dbs_tables s)) base_name ''_'')"

definition drop_sqlite_indexes_for_table :: "string \<Rightarrow> unit sql" where
  "drop_sqlite_indexes_for_table n = bnd (existing_indexes n) (\<lambda>indexes.
                                     for_each (\<lambda>i. only_if (si_origin i \<noteq> OfPrimaryKey) (drop_index i)) indexes)"

text \<open>What the columns the old table lacks are filled with; the time is that of the statement.\<close>

definition rebuild_defaults :: "sql_value \<Rightarrow> (string \<times> sql_value) list" where
  "rebuild_defaults now =
     [(''cloud_run_id'', SNull), (''quantity'', SInt 0), (''unit_name'', SText ''''),
      (''unit_price_cents'', SInt 0), (''amount_cents'', SInt 0), (''prompt_tokens'', SInt 0),
      (''completion_tokens'', SInt 0), (''total_tokens'', SInt 0), (''raw_usage_json'', SText ''{}''),
      (''created_at'', now)]"

definition rebuild_expressions ::
  "sql_value \<Rightarrow> string list \<Rightarrow> string list \<Rightarrow> (string \<times> (sql_row \<Rightarrow> sql_value)) list" where
  "rebuild_expressions now legacy_columns current_columns =
     concat (map (\<lambda>c.
       if c \<in> set legacy_columns then [(c, \<lambda>r. cell r c)]
       else (case map_of (rebuild_defaults now) c of None \<Rightarrow> [] | Some v \<Rightarrow> [(c, \<lambda>r. v)])) current_columns)"

definition rebuild_sqlite_usage_ledger_entry :: "sql_value \<Rightarrow> sql_table \<Rightarrow> unit sql" where
  "rebuild_sqlite_usage_ledger_entry now usage_table = bnd (sqlite_legacy_table_name ''usage_ledger_entry_phase13c_legacy'') (\<lambda>legacy_table_name.
                                                       bnd (rename_table ''usage_ledger_entry'' legacy_table_name) (\<lambda>_.
                                                       bnd (drop_sqlite_indexes_for_table legacy_table_name) (\<lambda>_.
                                                       bnd (create_table ''usage_ledger_entry'' usage_table) (\<lambda>_.
                                                       bnd (existing_columns legacy_table_name) (\<lambda>legacy_columns.
                                                       bnd (existing_columns ''usage_ledger_entry'') (\<lambda>current_columns.
                                                       bnd (insert_select ''usage_ledger_entry'' (rebuild_expressions now legacy_columns current_columns)
       legacy_table_name) (\<lambda>_.
                                                       drop_table legacy_table_name)))))))"

definition upgrade_sqlite_usage_ledger_phase_13c_columns :: "sql_value \<Rightarrow> sql_table \<Rightarrow> unit sql" where
  "upgrade_sqlite_usage_ledger_phase_13c_columns now usage_table = on_sqlite (bnd (table_exists ''usage_ledger_entry'') (\<lambda>exists.
                                                                              only_if exists (bnd sqlite_usage_ledger_needs_phase_13c_rebuild (\<lambda>rebuild.
                     bnd (only_if rebuild (rebuild_sqlite_usage_ledger_entry now usage_table)) (\<lambda>_.
                     bnd (add_missing_columns ''usage_ledger_entry''
         [nullable ''cloud_run_id'' ''VARCHAR'', int_default ''quantity'' ''INTEGER NOT NULL'' 0,
          text_default ''unit_name'' ''VARCHAR'' '''']) (\<lambda>_.
                     create_indexes ''usage_ledger_entry'' [''cloud_run_id'', ''quantity'']))))))"

text \<open>
  \<^verbatim>\<open>rowid NOT IN (SELECT MIN(rowid) ... GROUP BY cloud_run_id, usage_type)\<close>: of the entries of one run
  and usage type the first stays.
\<close>

definition usage_key :: "sql_row \<Rightarrow> sql_value \<times> sql_value" where
  "usage_key r = (cell r ''cloud_run_id'', cell r ''usage_type'')"

fun first_entries :: "(sql_value \<times> sql_value) list \<Rightarrow> sql_row list \<Rightarrow> sql_row list" where
  "first_entries seen [] = []"
| "first_entries seen (r # rs) =
     (if cell r ''cloud_run_id'' = SNull then r # first_entries seen rs
      else if usage_key r \<in> set seen then first_entries seen rs
      else r # first_entries (usage_key r # seen) rs)"

definition delete_repeated_usage :: "unit sql" where
  "delete_repeated_usage = bnd (the_table ''usage_ledger_entry'') (\<lambda>t.
                           bnd (require_columns ''usage_ledger_entry'' t [''cloud_run_id'', ''usage_type'']) (\<lambda>_.
                           write_rows ''usage_ledger_entry'' t (first_entries [] (st_rows t))))"

definition unique_usage_index :: sql_index where
  "unique_usage_index = \<lparr>si_name = ''uq_usage_ledger_cloud_run_usage_type'',
     si_columns = [''cloud_run_id'', ''usage_type''], si_unique = True, si_origin = Created,
     si_where = Some (IsNotNull ''cloud_run_id'')\<rparr>"

definition upgrade_sqlite_usage_ledger_phase_13c_unique_cloud_run_usage :: "unit sql" where
  "upgrade_sqlite_usage_ledger_phase_13c_unique_cloud_run_usage = on_sqlite (bnd (table_exists ''usage_ledger_entry'') (\<lambda>exists.
                                                                             only_if exists (bnd delete_repeated_usage (\<lambda>_.
                     bnd (sqlite_has_unique_index ''usage_ledger_entry'' [''cloud_run_id'', ''usage_type'']) (\<lambda>indexed.
                     only_if (\<not> indexed) (create_index ''usage_ledger_entry'' unique_usage_index))))))"

section \<open>SQLite: one review per artifact and kind\<close>

definition review_key :: "sql_row \<Rightarrow> sql_value \<times> sql_value" where
  "review_key r = (cell r ''patch_artifact_id'', cell r ''reviewer_kind'')"

definition review_order :: "sql_row \<Rightarrow> (sql_value \<times> sql_value) \<times> sql_value \<times> sql_value" where
  "review_order r = (review_key r, cell r ''created_at'', cell r ''id'')"

text \<open>
  \<^verbatim>\<open>ROW_NUMBER() OVER (PARTITION BY patch_artifact_id, reviewer_kind ORDER BY created_at, id)\<close> of
  rows that are already in that order.
\<close>

fun numbered_rows :: "sql_row list \<Rightarrow> sql_row list \<Rightarrow> (sql_row \<times> nat) list" where
  "numbered_rows prior [] = []"
| "numbered_rows prior (r # rs) =
     (r, Suc (length (filter (\<lambda>q. review_key q = review_key r) prior))) # numbered_rows (prior @ [r]) rs"

definition duplicate_candidates :: "(sql_row \<times> nat) list sql" where
  "duplicate_candidates = bnd (the_table ''patch_review'') (\<lambda>t.
                          bnd (require_columns ''patch_review'' t [''id'', ''patch_artifact_id'', ''reviewer_kind'', ''created_at'']) (\<lambda>_.
                          ret (numbered_rows [] (sort_key review_order (st_rows t)))))"

text \<open>The dictionary from an artifact to the kinds of its reviews.\<close>

type_synonym kind_map = "(string \<times> string list) list"

definition kinds_of :: "kind_map \<Rightarrow> string \<Rightarrow> string list" where
  "kinds_of m artifact = (case map_of m artifact of None \<Rightarrow> [] | Some ks \<Rightarrow> ks)"

definition add_kind :: "string \<Rightarrow> string \<Rightarrow> kind_map \<Rightarrow> kind_map" where
  "add_kind artifact kind m = AList.update artifact (kind # kinds_of m artifact) m"

definition artifact_of :: "sql_row \<Rightarrow> string" where
  "artifact_of r = sql_str (cell r ''patch_artifact_id'')"

definition kind_of :: "sql_row \<Rightarrow> string" where
  "kind_of r = sql_str (cell r ''reviewer_kind'')"

definition reviewer_kinds_by_artifact :: "(sql_row \<times> nat) list \<Rightarrow> kind_map" where
  "reviewer_kinds_by_artifact candidates =
     fold (\<lambda>(r, _). add_kind (artifact_of r) (kind_of r)) candidates []"

definition duplicate_kind :: "kind_map \<Rightarrow> sql_row \<Rightarrow> string" where
  "duplicate_kind m r = free_name (kinds_of m (artifact_of r))
     (''legacy_duplicate:'' @ kind_of r @ '':'' @ sql_str (cell r ''id'')) '':''"

definition has_id :: "sql_value \<Rightarrow> sql_row \<Rightarrow> bool" where
  "has_id v q \<longleftrightarrow> v \<noteq> SNull \<and> cell q ''id'' = v"

definition rename_review :: "sql_row \<Rightarrow> string \<Rightarrow> unit sql" where
  "rename_review r kind = sql_update ''patch_review'' [''reviewer_kind'', ''id''] (has_id (cell r ''id''))
     (set_cell ''reviewer_kind'' (SText kind))"

fun reclassify_each :: "kind_map \<Rightarrow> (sql_row \<times> nat) list \<Rightarrow> unit sql" where
  "reclassify_each m [] = ret ()"
| "reclassify_each m ((r, position) # rest) =
     (if position = 1 then reclassify_each m rest
      else (let kind = duplicate_kind m r in
        bnd (rename_review r kind) (\<lambda>_. reclassify_each (add_kind (artifact_of r) kind m) rest)))"

definition reclassify_sqlite_patch_review_duplicates :: "unit sql" where
  "reclassify_sqlite_patch_review_duplicates = bnd duplicate_candidates (\<lambda>candidates.
                                               reclassify_each (reviewer_kinds_by_artifact candidates) candidates)"

definition unique_review_index :: sql_index where
  "unique_review_index = \<lparr>si_name = ''uq_patch_review_artifact_reviewer_kind'',
     si_columns = [''patch_artifact_id'', ''reviewer_kind''], si_unique = True, si_origin = Created,
     si_where = None\<rparr>"

definition upgrade_sqlite_patch_review_uniqueness :: "unit sql" where
  "upgrade_sqlite_patch_review_uniqueness = on_sqlite (bnd (table_exists ''patch_review'') (\<lambda>exists.
                                                       only_if exists (bnd (sqlite_has_unique_index ''patch_review'' [''patch_artifact_id'', ''reviewer_kind'']) (\<lambda>indexed.
                     only_if (\<not> indexed) (bnd reclassify_sqlite_patch_review_duplicates (\<lambda>_.
                            create_index ''patch_review'' unique_review_index))))))"

section \<open>Starting the database\<close>

text \<open>\<^verbatim>\<open>SQLModel.metadata.create_all\<close>: the tables of the model classes that are not there yet.\<close>

type_synonym metadata = "(string \<times> sql_table) list"

definition create_missing :: "string \<times> sql_table \<Rightarrow> unit sql" where
  "create_missing entry = bnd (table_exists (fst entry)) (\<lambda>exists.
                          only_if (\<not> exists) (create_table (fst entry) (snd entry)))"

definition create_all :: "metadata \<Rightarrow> unit sql" where
  "create_all tables = transaction (for_each create_missing tables)"

definition metadata_table :: "metadata \<Rightarrow> string \<Rightarrow> sql_table" where
  "metadata_table tables n = (case map_of tables n of
     None \<Rightarrow> \<lparr>st_sql = [], st_columns = [], st_rows = [], st_indexes = []\<rparr> | Some t \<Rightarrow> t)"

definition init_db :: "sql_value \<Rightarrow> metadata \<Rightarrow> unit sql" where
  "init_db now tables = bnd upgrade_identity_additive_columns (\<lambda>_.
                        bnd upgrade_sqlite_account_classification (\<lambda>_.
                        bnd upgrade_sqlite_identity_recovery_columns (\<lambda>_.
                        bnd upgrade_sqlite_user_session_columns (\<lambda>_.
                        bnd upgrade_sqlite_cloud_run_phase_9_columns (\<lambda>_.
                        bnd upgrade_sqlite_cloud_run_phase_10a_columns (\<lambda>_.
                        bnd upgrade_sqlite_cloud_run_phase_10b_columns (\<lambda>_.
                        bnd upgrade_sqlite_cloud_run_phase_10d_columns (\<lambda>_.
                        bnd upgrade_sqlite_cloud_run_phase_12a_columns (\<lambda>_.
                        bnd upgrade_sqlite_cloud_run_stored_object_phase_12d_columns (\<lambda>_.
                        bnd upgrade_sqlite_cloud_run_phase_13c_cost_columns (\<lambda>_.
                        bnd (upgrade_sqlite_usage_ledger_phase_13c_columns now (metadata_table tables ''usage_ledger_entry'')) (\<lambda>_.
                        bnd upgrade_sqlite_usage_ledger_phase_13c_unique_cloud_run_usage (\<lambda>_.
                        bnd (create_all tables) (\<lambda>_.
                        bnd upgrade_sqlite_repository_phase_7_columns (\<lambda>_.
                        bnd upgrade_sqlite_cloud_run_phase_8_columns (\<lambda>_.
                        bnd upgrade_sqlite_local_test_run_nullable_patch_artifact (\<lambda>_.
                        bnd upgrade_sqlite_planner_run_metadata (\<lambda>_.
                        bnd upgrade_sqlite_task_execution_constraints (\<lambda>_.
                        upgrade_sqlite_patch_review_uniqueness)))))))))))))))))))"

end
