(* ===== verification/SchemaContract.thy ===== *)
theory SchemaContract
  imports Migrations
begin

text \<open>
  What a statement of the schema upgrades promises, as the locale \<open>schema_law\<close>: a property \<open>K\<close> of the
  tables that every kind of statement keeps is kept by the whole of \<open>init_db\<close>, whether it succeeds or
  fails and is rolled back. Tables that \<open>K\<close> protects are neither renamed nor dropped.
\<close>

section \<open>Rules for the statements\<close>

definition wf_table :: "sql_table \<Rightarrow> bool" where
  "wf_table t \<longleftrightarrow> distinct (column_names t) \<and>
     (\<forall>r \<in> set (st_rows t). map fst r = column_names t) \<and>
     (\<forall>i \<in> set (st_indexes t). set (index_refs i) \<subseteq> set (column_names t)) \<and>
     violated t = None"

lemma wp_the_table [wp_simps]:
  "wp (the_table n) Q E s =
     (case map_of (dbs_tables s) n of None \<Rightarrow> E (NoSuchTable n) s | Some t \<Rightarrow> Q t s)"
  by (simp add: the_table_def wp_simps split: option.split)

lemma wp_is_sqlite [wp_simps]: "wp is_sqlite Q E s = Q (dbs_dialect s = Sqlite) s"
  by (simp add: is_sqlite_def wp_simps)

lemma wp_table_exists [wp_simps]: "wp (table_exists n) Q E s = Q (map_of (dbs_tables s) n \<noteq> None) s"
  by (simp add: table_exists_def wp_simps)

lemma wp_existing_columns [wp_simps]: "wp (existing_columns n) Q E s =
     Q (case map_of (dbs_tables s) n of None \<Rightarrow> [] | Some t \<Rightarrow> column_names t) s"
  by (simp add: existing_columns_def wp_simps)

lemma wp_existing_indexes [wp_simps]: "wp (existing_indexes n) Q E s =
     Q (case map_of (dbs_tables s) n of None \<Rightarrow> [] | Some t \<Rightarrow> st_indexes t) s"
  by (simp add: existing_indexes_def wp_simps)

lemma wp_require_columns [wp_simps]:
  "wp (require_columns n t cs) Q E s =
     (case filter (\<lambda>c. c \<notin> set (column_names t)) cs of [] \<Rightarrow> Q () s | c # _ \<Rightarrow> E (NoSuchColumn n c) s)"
  by (simp add: require_columns_def wp_simps split: list.split)

lemma wp_put_table [wp_simps]:
  "wp (put_table n t) Q E s = Q () (s\<lparr>dbs_tables := AList.update n t (dbs_tables s)\<rparr>)"
  by (simp add: put_table_def wp_simps)

text \<open>The state after the first statement that writes rows.\<close>

definition writing :: "database \<Rightarrow> database" where
  "writing s = (case dbs_saved s of None \<Rightarrow> s\<lparr>dbs_saved := Some (dbs_tables s)\<rparr> | Some _ \<Rightarrow> s)"

lemma writing_tables [simp]: "dbs_tables (writing s) = dbs_tables s"
  by (simp add: writing_def split: option.split)

lemma wp_write_rows [wp_simps]:
  "wp (write_rows n t rs) Q E s =
     (case violated (t\<lparr>st_rows := rs\<rparr>) of
        Some e \<Rightarrow> E e (writing s)
      | None \<Rightarrow> Q () ((writing s)\<lparr>dbs_tables := AList.update n (t\<lparr>st_rows := rs\<rparr>) (dbs_tables s)\<rparr>))"
  by (simp add: write_rows_def begin_writing_def wp_simps writing_def split: option.split)

lemma no_missing_columns: "filter (\<lambda>c. c \<notin> A) cs = [] \<longleftrightarrow> set cs \<subseteq> A"
  by (auto simp: filter_empty_conv)

section \<open>What statements leave alone\<close>

lemma transaction_tables [simp]:
  "dbs_tables (begin_transaction s) = dbs_tables s" "dbs_tables (commit_transaction s) = dbs_tables s"
  by (simp_all add: begin_transaction_def commit_transaction_def)

lemma column_names_rows: "column_names (t\<lparr>st_rows := rs\<rparr>) = column_names t"
  by (simp add: column_names_def)

lemma index_names_update:
  "map_of ts n = Some t \<Longrightarrow> st_indexes t' = st_indexes t \<Longrightarrow>
     list_ex (\<lambda>(n, t). list_ex (\<lambda>i. si_name i = x) (st_indexes t)) (AList.update n t' ts) =
     list_ex (\<lambda>(n, t). list_ex (\<lambda>i. si_name i = x) (st_indexes t)) ts"
  by (induction ts) (auto split: if_splits)

lemma index_exists_update:
  "map_of (dbs_tables s) n = Some t \<Longrightarrow> st_indexes t' = st_indexes t \<Longrightarrow>
     index_exists (s'\<lparr>dbs_tables := AList.update n t' (dbs_tables s)\<rparr>) x = index_exists s x"
  by (simp add: index_exists_def index_names_update)

section \<open>The contract\<close>

text \<open>The columns that the upgrades fill in, where they are not set yet.\<close>

definition backfilled :: "string \<Rightarrow> string list" where
  "backfilled n =
     (if n = ''organization'' then [''account_kind'']
      else if n = ''external_identity'' then [''last_confirmed_at'', ''last_status_checked_at'']
      else if n = ''device_session'' then [''secret_rotated_at'', ''device_description'']
      else if n \<in> {''workspace_audit_log'', ''secret_access_audit_log''} then [''correlation_id'']
      else if n = ''patch_review'' then [''reviewer_kind''] else [])"

locale schema_law =
  fixes K :: "(string \<times> sql_table) list \<Rightarrow> bool"
    and protected :: "string set"
  assumes grow: "K ts \<Longrightarrow> map_of ts n = Some t \<Longrightarrow> sc_name col \<notin> set (column_names t) \<Longrightarrow>
      (not_null col \<longrightarrow> sc_default col \<noteq> SNull \<or> st_rows t = []) \<Longrightarrow>
      K (AList.update n (added_column col t) ts)"
    and backfill: "K ts \<Longrightarrow> map_of ts n = Some t \<Longrightarrow> c \<in> set (backfilled n) \<Longrightarrow>
      c \<in> set (column_names t) \<Longrightarrow> (\<And>r. P r \<Longrightarrow> is_unset c r \<or> n = ''patch_review'') \<Longrightarrow>
      violated (t\<lparr>st_rows := rs\<rparr>) = None \<Longrightarrow>
      rs = map (\<lambda>r. if P r then set_cell c (g r) r else r) (st_rows t) \<Longrightarrow>
      K (AList.update n (t\<lparr>st_rows := rs\<rparr>) ts)"
    and index: "K ts \<Longrightarrow> map_of ts n = Some t \<Longrightarrow> set (index_refs i) \<subseteq> set (column_names t) \<Longrightarrow>
      (si_unique i \<longrightarrow> distinct (index_keys i (st_rows t))) \<Longrightarrow> K (AList.update n (with_index i t) ts)"
    and unindex: "K ts \<Longrightarrow> K (map (\<lambda>(n, t). (n, without_index i t)) ts)"
    and create: "K ts \<Longrightarrow> map_of ts n = None \<Longrightarrow> wf_table t \<Longrightarrow> K (ts @ [(n, t)])"
    and rename: "K ts \<Longrightarrow> map_of ts m = None \<Longrightarrow> n \<notin> protected \<Longrightarrow> K (map (renamed_table n m) ts)"
    and drop: "K ts \<Longrightarrow> n \<notin> protected \<Longrightarrow> K (filter (\<lambda>(m, _). m \<noteq> n) ts)"
    and refill: "K ts \<Longrightarrow> map_of ts n = Some t \<Longrightarrow> n \<notin> protected \<Longrightarrow>
      (\<And>r. r \<in> set rs \<Longrightarrow> r \<in> set (st_rows t) \<or> map fst r = column_names t) \<Longrightarrow>
      violated (t\<lparr>st_rows := rs\<rparr>) = None \<Longrightarrow> K (AList.update n (t\<lparr>st_rows := rs\<rparr>) ts)"
    and present: "K ts \<Longrightarrow> n \<in> protected \<Longrightarrow> map_of ts n \<noteq> None"
    and unprotected: "''usage_ledger_entry'' \<notin> protected" "''local_test_run'' \<notin> protected"
begin

definition kept :: "database \<Rightarrow> bool" where
  "kept s \<longleftrightarrow> K (dbs_tables s) \<and> (\<forall>ts. dbs_saved s = Some ts \<longrightarrow> K ts)"

text \<open>\<open>sound m\<close>: the action \<open>m\<close> keeps the property, and an exception leaves it as well.\<close>

abbreviation sound :: "'a sql \<Rightarrow> bool" where
  "sound m \<equiv> keeps kept (\<lambda>_. kept) m"

lemma kept_tables: "kept s \<Longrightarrow> K ts \<Longrightarrow> kept (s\<lparr>dbs_tables := ts\<rparr>)"
  by (simp add: kept_def)

lemma kept_now: "kept s \<Longrightarrow> K (dbs_tables s)"
  by (simp add: kept_def)

lemma kept_writing: "kept s \<Longrightarrow> kept (writing s)"
  by (auto simp: kept_def writing_def split: option.split)

lemma sound_reads [keeps_intros]:
  "sound is_sqlite" "sound (table_exists n)" "sound (existing_columns n)" "sound (existing_indexes n)"
  "sound (the_table n)" "sound (require_columns n t cs)"
  by (auto intro!: keepsI simp: wp_simps split: option.split list.split)

lemma sound_transaction [keeps_intros]:
  assumes "sound m" shows "sound (transaction m)"
proof (rule keepsI)
  fix s assume "kept s"
  then have "kept (begin_transaction s)" by (simp add: kept_def begin_transaction_def)
  from keepsD [OF assms this] show "wp (transaction m) (\<lambda>_. kept) (\<lambda>_. kept) s"
    unfolding wp_transaction
    by (rule wp_mono) (auto simp: kept_def roll_back_def commit_transaction_def split: option.split)
qed

lemma sound_add_column [keeps_intros]: "sound (add_column n c)"
  unfolding add_column_def
  by (auto intro!: keepsI kept_tables grow dest: kept_now simp: wp_simps split: option.split)

lemma sound_create_index [keeps_intros]: "sound (create_index n i)"
  unfolding create_index_def
  by (auto intro!: keepsI kept_tables index dest: kept_now simp: wp_simps no_missing_columns
      split: option.split list.split)

lemma sound_drop_index [keeps_intros]: "sound (drop_index i)"
  unfolding drop_index_def
  by (auto intro!: keepsI kept_tables unindex dest: kept_now simp: wp_simps)

lemma sound_create_table [keeps_intros]: "wf_table t \<Longrightarrow> sound (create_table n t)"
  unfolding create_table_def
  by (auto intro!: keepsI kept_tables create dest: kept_now simp: wp_simps split: list.split)

lemma sound_update:
  assumes "c \<in> set (backfilled n)" "c \<in> set cs" "\<And>r. P r \<Longrightarrow> is_unset c r \<or> n = ''patch_review''"
  shows "sound (sql_update n cs P (\<lambda>r. set_cell c (g r) r))"
  unfolding sql_update_def
  using assms
  by (auto intro!: keepsI kept_tables kept_writing backfill [where P = P and g = g] dest: kept_now
      simp: wp_simps no_missing_columns subset_iff split: option.split list.split)

text \<open>Columns, indexes and the values they start with.\<close>

lemma sound_for_each: "(\<And>x. x \<in> set xs \<Longrightarrow> sound (f x)) \<Longrightarrow> sound (for_each f xs)"
  by (induction xs) (auto intro!: keeps_intros)

lemma sound_add_missing [keeps_intros]: "sound (add_missing_columns n cs)"
  unfolding add_missing_columns_def by (intro keeps_intros)

lemma sound_create_indexes [keeps_intros]: "sound (create_indexes n cs)"
  unfolding create_indexes_def by (intro keeps_intros)

lemma sound_upgrade_table [keeps_intros]: "sound (upgrade_table n cs indexed)"
  unfolding upgrade_table_def by (intro keeps_intros)

lemma sound_on_sqlite [keeps_intros]: "sound m \<Longrightarrow> sound (on_sqlite m)"
  unfolding on_sqlite_def by (intro keeps_intros)

lemma sound_unique_lookup [keeps_intros]: "sound (sqlite_has_unique_index n cs)"
  unfolding sqlite_has_unique_index_def by (intro keeps_intros)

lemma sound_confirmations [keeps_intros]: "sound backfill_confirmations"
  unfolding backfill_confirmations_def
  by (intro keeps_intros sound_update) (simp_all add: backfilled_def is_unset_def)

lemma sound_sessions [keeps_intros]: "sound backfill_sessions"
  unfolding backfill_sessions_def
  by (intro keeps_intros sound_update) (simp_all add: backfilled_def is_unset_def)

lemma sound_correlation: "n \<in> {''workspace_audit_log'', ''secret_access_audit_log''} \<Longrightarrow>
    sound (backfill_correlation (n, prefix))"
  unfolding backfill_correlation_def
  by (intro keeps_intros sound_update) (auto simp: backfilled_def)

lemma sound_identity_indexes [keeps_intros]: "sound (create_identity_indexes entry)"
  unfolding create_identity_indexes_def by (intro keeps_intros)

lemma sound_identity_columns [keeps_intros]: "sound (add_identity_columns entry)"
  unfolding add_identity_columns_def by (intro keeps_intros)

lemma sound_identity: "sound upgrade_identity_additive_columns"
  unfolding upgrade_identity_additive_columns_def
  by (intro keeps_intros sound_update sound_for_each [of _ backfill_correlation])
    (auto simp: backfilled_def intro: sound_correlation)

lemma sound_sqlite_identity:
  "sound upgrade_sqlite_account_classification"
  "sound upgrade_sqlite_identity_recovery_columns"
  "sound upgrade_sqlite_user_session_columns"
  unfolding upgrade_sqlite_account_classification_def upgrade_sqlite_identity_recovery_columns_def
    upgrade_sqlite_user_session_columns_def upgrade_recovery_table_def
  by (intro keeps_intros)+

text \<open>Rebuilding a table: what is renamed and dropped has a name that was free.\<close>

lemma free_unprotected: "kept s \<Longrightarrow> map_of (dbs_tables s) m = None \<Longrightarrow> m \<notin> protected"
  using present kept_now by blast

lemma sound_rename:
  assumes "n \<notin> protected" "\<And>u. m \<notin> protected \<Longrightarrow> sound (k u)"
  shows "sound (bnd (rename_table n m) k)"
  unfolding rename_table_def
  by (auto intro!: keepsI kept_tables rename keepsD [OF assms(2)] assms(1)
      simp: kept_now free_unprotected wp_simps split: option.split)

lemma sound_drop_table: "n \<notin> protected \<Longrightarrow> sound (drop_table n)"
  unfolding drop_table_def
  by (auto intro!: keepsI kept_tables drop dest: kept_now simp: wp_simps split: option.split)

lemma sound_write_rows:
  assumes "n \<notin> protected"
    and "\<And>r. r \<in> set rs \<Longrightarrow> r \<in> set (st_rows t) \<or> map fst r = column_names t"
  shows "kept s \<Longrightarrow> map_of (dbs_tables s) n = Some t \<Longrightarrow> wp (write_rows n t rs) (\<lambda>_. kept) (\<lambda>_. kept) s"
  using assms
  by (auto intro!: kept_tables kept_writing refill dest: kept_now simp: wp_simps split: option.split)

lemma sound_insert_select:
  assumes "n \<notin> protected" shows "sound (insert_select n exprs m)"
  unfolding insert_select_def
  by (auto intro!: keepsI sound_write_rows [OF assms] simp: wp_simps column_names_def
      split: option.split list.split simp del: wp_write_rows)

lemma wf_local_test_run:
  "wf_table \<lparr>st_sql = x, st_columns = local_test_run_columns, st_rows = [], st_indexes = [local_test_run_key]\<rparr>"
  by (simp add: wf_table_def column_names_def local_test_run_columns_def nullable_def index_refs_def
      condition_columns_def local_test_run_key_def violated_def index_keys_def)

lemma sound_local_test_run: "sound upgrade_sqlite_local_test_run_nullable_patch_artifact"
  unfolding upgrade_sqlite_local_test_run_nullable_patch_artifact_def rebuild_local_test_run_def
  by (intro keeps_intros sound_rename sound_insert_select sound_drop_table wf_local_test_run unprotected)

lemma sound_rebuild_usage: "wf_table t \<Longrightarrow> sound (rebuild_sqlite_usage_ledger_entry now t)"
  unfolding rebuild_sqlite_usage_ledger_entry_def sqlite_legacy_table_name_def drop_sqlite_indexes_for_table_def
  by (intro keeps_intros sound_rename sound_insert_select sound_drop_table unprotected)

lemma sound_usage_columns: "wf_table t \<Longrightarrow> sound (upgrade_sqlite_usage_ledger_phase_13c_columns now t)"
  unfolding upgrade_sqlite_usage_ledger_phase_13c_columns_def sqlite_usage_ledger_needs_phase_13c_rebuild_def
  by (intro keeps_intros sound_rebuild_usage)

lemma first_entries_subset: "set (first_entries seen rs) \<subseteq> set rs"
  by (induction seen rs rule: first_entries.induct) auto

lemma sound_delete_repeated [keeps_intros]: "sound delete_repeated_usage"
  unfolding delete_repeated_usage_def
  by (auto intro!: keepsI sound_write_rows unprotected dest: subsetD [OF first_entries_subset]
      simp: wp_simps simp del: wp_write_rows split: option.split list.split)

lemma sound_usage_unique: "sound upgrade_sqlite_usage_ledger_phase_13c_unique_cloud_run_usage"
  unfolding upgrade_sqlite_usage_ledger_phase_13c_unique_cloud_run_usage_def
  by (intro keeps_intros)

text \<open>The model classes.\<close>

lemma sound_create_all: "list_all (\<lambda>(n, t). wf_table t) tables \<Longrightarrow> sound (create_all tables)"
  unfolding create_all_def create_missing_def
  by (auto intro!: keeps_intros sound_for_each simp: list_all_iff)

lemma wf_empty: "wf_table \<lparr>st_sql = x, st_columns = [], st_rows = [], st_indexes = []\<rparr>"
  by (simp add: wf_table_def column_names_def violated_def)

lemma wf_metadata_table: "list_all (\<lambda>(n, t). wf_table t) tables \<Longrightarrow> wf_table (metadata_table tables n)"
  by (auto simp: metadata_table_def list_all_iff wf_empty dest!: map_of_SomeD split: option.split)

text \<open>The reviews.\<close>

lemma sound_reclassify: "sound (reclassify_each m candidates)"
  by (induction m candidates rule: reclassify_each.induct)
    (auto intro!: keeps_intros sound_update simp: rename_review_def backfilled_def Let_def)

lemma sound_reviews: "sound upgrade_sqlite_patch_review_uniqueness"
  unfolding upgrade_sqlite_patch_review_uniqueness_def reclassify_sqlite_patch_review_duplicates_def
    duplicate_candidates_def
  by (intro keeps_intros sound_reclassify)

lemma sound_columns:
  "sound upgrade_sqlite_cloud_run_phase_9_columns" "sound upgrade_sqlite_cloud_run_phase_10a_columns"
  "sound upgrade_sqlite_cloud_run_phase_10b_columns" "sound upgrade_sqlite_cloud_run_phase_10d_columns"
  "sound upgrade_sqlite_cloud_run_phase_12a_columns" "sound upgrade_sqlite_cloud_run_phase_8_columns"
  "sound upgrade_sqlite_cloud_run_stored_object_phase_12d_columns"
  "sound upgrade_sqlite_cloud_run_phase_13c_cost_columns"
  "sound upgrade_sqlite_repository_phase_7_columns" "sound upgrade_sqlite_planner_run_metadata"
  "sound upgrade_sqlite_task_execution_constraints"
  unfolding upgrade_sqlite_cloud_run_phase_9_columns_def upgrade_sqlite_cloud_run_phase_10a_columns_def
    upgrade_sqlite_cloud_run_phase_10b_columns_def upgrade_sqlite_cloud_run_phase_10d_columns_def
    upgrade_sqlite_cloud_run_phase_12a_columns_def upgrade_sqlite_cloud_run_phase_8_columns_def
    upgrade_sqlite_cloud_run_stored_object_phase_12d_columns_def
    upgrade_sqlite_cloud_run_phase_13c_cost_columns_def upgrade_sqlite_repository_phase_7_columns_def
    upgrade_sqlite_planner_run_metadata_def upgrade_sqlite_task_execution_constraints_def
  by (intro keeps_intros)+

theorem sound_init_db:
  assumes "list_all (\<lambda>(n, t). wf_table t) tables"
  shows "sound (init_db now tables)"
  unfolding init_db_def
  by (intro keeps_intros sound_identity sound_sqlite_identity sound_columns sound_usage_unique
      sound_usage_columns sound_create_all sound_local_test_run sound_reviews wf_metadata_table assms)

theorem init_db_kept:
  assumes "list_all (\<lambda>(n, t). wf_table t) tables" "kept s" "init_db now tables s = (result, s')"
  shows "K (dbs_tables s')"
proof (cases result)
  case (Inl e)
  then show ?thesis using wp_InlD [OF keepsD [OF sound_init_db]] assms kept_now by metis
next
  case (Inr x)
  then show ?thesis using wp_InrD [OF keepsD [OF sound_init_db]] assms kept_now by metis
qed

end

end
