(* ===== verification/MigrationLaws.thy ===== *)
theory MigrationLaws
  imports SchemaContract "HOL-Library.Sublist"
begin

text \<open>
  What the start of the application promises about the database it finds: no value is lost, no constraint
  is broken, and the repeated rows that a new unique index would refuse are resolved before it is made.
\<close>

section \<open>Cells and constraints\<close>

lemma cell_added: "c \<noteq> x \<Longrightarrow> cell (r @ [(x, v)]) c = cell r c"
  by (auto simp: cell_def map_add_def split: option.split)

lemma cell_new: "x \<notin> fst ` set r \<Longrightarrow> cell (r @ [(x, v)]) x = v"
  unfolding cell_def map_of_eq_None_iff [symmetric] by (simp add: map_add_def)

lemma cell_set: "cell (set_cell x v r) c = (if c = x then v else cell r c)"
  by (simp add: cell_def set_cell_def map_of_update)

lemma fst_set_cell: "x \<in> fst ` set r \<Longrightarrow> map fst (set_cell x v r) = map fst r"
  unfolding set_cell_def by (induction r) auto

lemma first_found_None:
  "(case filter P xs of [] \<Rightarrow> y | x # _ \<Rightarrow> Some (f x)) = None \<longleftrightarrow> (\<forall>x \<in> set xs. \<not> P x) \<and> y = None"
  by (induction xs) auto

lemma violated_None: "violated t = None \<longleftrightarrow>
    (\<forall>i \<in> set (st_indexes t). si_unique i \<longrightarrow> distinct (index_keys i (st_rows t))) \<and>
    (\<forall>c \<in> set (st_columns t). not_null c \<longrightarrow> (\<forall>r \<in> set (st_rows t). cell r (sc_name c) \<noteq> SNull))"
  by (auto simp: violated_def first_found_None list_ex_iff)

lemma index_keys_cong:
  assumes "list_all2 (\<lambda>r r'. \<forall>c \<in> set (index_refs i). cell r c = cell r' c) rs rs'"
  shows "index_keys i rs = index_keys i rs'"
  using assms
proof (induction rs rs' rule: list_all2_induct)
  case (Cons r rs r' rs')
  have "map (cell r) (si_columns i) = map (cell r') (si_columns i)"
    using Cons.hyps by (simp add: index_refs_def)
  moreover have "(case si_where i of None \<Rightarrow> True | Some c \<Rightarrow> holds c r) =
      (case si_where i of None \<Rightarrow> True | Some c \<Rightarrow> holds c r')"
  proof (cases "si_where i")
    case (Some c)
    then show ?thesis using Cons.hyps by (cases c) (simp_all add: index_refs_def condition_columns_def)
  qed simp
  ultimately show ?case
    using Cons.IH by (simp add: index_keys_def)
qed (simp add: index_keys_def)

lemma index_keys_added:
  assumes "x \<notin> set (index_refs i)"
  shows "index_keys i (map (\<lambda>r. r @ [(x, v)]) rs) = index_keys i rs"
  by (rule index_keys_cong) (use assms in \<open>auto simp: list_all2_conv_all_nth intro!: cell_added\<close>)

lemma wf_grow:
  assumes "wf_table t" "sc_name c \<notin> set (column_names t)"
    and "not_null c \<longrightarrow> sc_default c \<noteq> SNull \<or> st_rows t = []"
  shows "wf_table (added_column c t)"
proof -
  have "sc_name c \<notin> set (index_refs i)" if "i \<in> set (st_indexes t)" for i
    using assms that by (auto simp: wf_table_def)
  moreover have "cell (r @ [(sc_name c, sc_default c)]) (sc_name d) = cell r (sc_name d)"
    if "d \<in> set (st_columns t)" for r d
    using assms(2) that by (intro cell_added) (metis column_names_def image_eqI list.set_map)
  moreover have "cell (r @ [(sc_name c, sc_default c)]) (sc_name c) = sc_default c" if "r \<in> set (st_rows t)" for r
  proof (rule cell_new)
    have "map fst r = column_names t" using assms(1) that by (simp add: wf_table_def)
    then show "sc_name c \<notin> fst ` set r" using assms(2) by (metis list.set_map)
  qed
  ultimately show ?thesis
    using assms unfolding wf_table_def violated_None added_column_def
    by (auto simp: column_names_def index_keys_added)
qed

lemma wf_unindex: "wf_table t \<Longrightarrow> wf_table (without_index i t)"
  by (auto simp: wf_table_def violated_None without_index_def column_names_def)

lemma wf_index:
  "wf_table t \<Longrightarrow> set (index_refs i) \<subseteq> set (column_names t) \<Longrightarrow>
    (si_unique i \<longrightarrow> distinct (index_keys i (st_rows t))) \<Longrightarrow> wf_table (with_index i t)"
  by (auto simp: wf_table_def violated_None with_index_def column_names_def)

lemma renamed_index_fields [simp]:
  "si_columns (renamed_index n m i) = si_columns i" "si_unique (renamed_index n m i) = si_unique i"
  "si_where (renamed_index n m i) = si_where i" "index_refs (renamed_index n m i) = index_refs i"
  "index_keys (renamed_index n m i) rs = index_keys i rs"
  by (simp_all add: renamed_index_def index_refs_def index_keys_def)

lemma wf_renamed: "wf_table t \<Longrightarrow> wf_table (t\<lparr>st_indexes := map (renamed_index n m) (st_indexes t)\<rparr>)"
  by (auto simp: wf_table_def violated_None column_names_def)

lemma wf_rows:
  assumes "wf_table t" "violated (t\<lparr>st_rows := rs\<rparr>) = None"
    and "\<And>r. r \<in> set rs \<Longrightarrow> r \<in> set (st_rows t) \<or> map fst r = column_names t"
  shows "wf_table (t\<lparr>st_rows := rs\<rparr>)"
  using assms by (auto simp: wf_table_def column_names_def)

lemma wf_backfill:
  assumes "wf_table t" "violated (t\<lparr>st_rows := rs\<rparr>) = None" "c \<in> set (column_names t)"
    and "rs = map (\<lambda>r. if P r then set_cell c (g r) r else r) (st_rows t)"
  shows "wf_table (t\<lparr>st_rows := rs\<rparr>)"
proof (rule wf_rows [OF assms(1,2)])
  fix r assume "r \<in> set rs"
  then obtain q where q: "q \<in> set (st_rows t)" "r = (if P q then set_cell c (g q) q else q)"
    using assms(4) by auto
  then have "map fst q = column_names t" using assms(1) by (simp add: wf_table_def)
  moreover from this have "c \<in> fst ` set q" using assms(3) by (metis list.set_map)
  ultimately show "r \<in> set (st_rows t) \<or> map fst r = column_names t"
    using q by (simp add: fst_set_cell)
qed

text \<open>An old database: an organization without its classification, and usage counted twice.\<close>

definition legacy_organization :: sql_table where
  "legacy_organization = \<lparr>st_sql = ''CREATE TABLE organization'',
     st_columns = [nullable ''id'' ''VARCHAR NOT NULL'', nullable ''name'' ''VARCHAR NOT NULL''],
     st_rows = [[(''id'', SText ''o1''), (''name'', SText ''Acme'')]],
     st_indexes = [\<lparr>si_name = ''sqlite_autoindex_organization_1'', si_columns = [''id''], si_unique = True,
       si_origin = OfPrimaryKey, si_where = None\<rparr>]\<rparr>"

definition usage_row :: "string \<Rightarrow> sql_value \<Rightarrow> string \<Rightarrow> sql_row" where
  "usage_row i run kind = [(''id'', SText i), (''cloud_run_id'', run), (''usage_type'', SText kind)]"

definition legacy_usage :: sql_table where
  "legacy_usage = \<lparr>st_sql = ''CREATE TABLE usage_ledger_entry'',
     st_columns = [nullable ''id'' ''VARCHAR NOT NULL'', nullable ''cloud_run_id'' ''VARCHAR'',
       nullable ''usage_type'' ''VARCHAR NOT NULL''],
     st_rows = [usage_row ''u1'' (SText ''run1'') ''queue_messages'', usage_row ''u2'' SNull ''queue_messages'',
       usage_row ''u3'' (SText ''run1'') ''queue_messages'', usage_row ''u4'' SNull ''queue_messages''],
     st_indexes = []\<rparr>"

definition legacy_database :: database where
  "legacy_database = \<lparr>dbs_dialect = Sqlite,
     dbs_tables = [(''organization'', legacy_organization), (''usage_ledger_entry'', legacy_usage)],
     dbs_saved = None\<rparr>"

lemma legacy_wf: "list_all (\<lambda>(n, t). wf_table t) (dbs_tables legacy_database)"
  by code_simp

section \<open>The constraints hold\<close>

definition wf_tables :: "(string \<times> sql_table) list \<Rightarrow> bool" where
  "wf_tables ts \<longleftrightarrow> list_all (\<lambda>(n, t). wf_table t) ts"

lemma wf_tables_lookup: "wf_tables ts \<Longrightarrow> map_of ts n = Some t \<Longrightarrow> wf_table t"
  by (auto simp: wf_tables_def list_all_iff dest!: map_of_SomeD)

lemma wf_tables_update: "wf_tables ts \<Longrightarrow> wf_table t \<Longrightarrow> wf_tables (AList.update n t ts)"
  unfolding wf_tables_def by (induction ts) auto

interpretation constraints: schema_law wf_tables "{}"
proof unfold_locales
  fix ts n t col assume "wf_tables ts" "map_of ts n = Some t" "sc_name col \<notin> set (column_names t)"
    "not_null col \<longrightarrow> sc_default col \<noteq> SNull \<or> st_rows t = []"
  then show "wf_tables (AList.update n (added_column col t) ts)"
    by (intro wf_tables_update wf_grow) (auto dest: wf_tables_lookup)
next
  fix ts n t c P rs and g :: "sql_row \<Rightarrow> sql_value"
  assume "wf_tables ts" "map_of ts n = Some t" "c \<in> set (column_names t)"
    "violated (t\<lparr>st_rows := rs\<rparr>) = None"
    "rs = map (\<lambda>r. if P r then set_cell c (g r) r else r) (st_rows t)"
  then show "wf_tables (AList.update n (t\<lparr>st_rows := rs\<rparr>) ts)"
    by (intro wf_tables_update wf_backfill [where P = P and g = g]) (auto dest: wf_tables_lookup)
next
  fix ts n t i assume "wf_tables ts" "map_of ts n = Some t" "set (index_refs i) \<subseteq> set (column_names t)"
    "si_unique i \<longrightarrow> distinct (index_keys i (st_rows t))"
  then show "wf_tables (AList.update n (with_index i t) ts)"
    by (intro wf_tables_update wf_index) (auto dest: wf_tables_lookup)
next
  fix ts and rs :: "sql_row list" and n t
  assume "wf_tables ts" "map_of ts n = Some t" "violated (t\<lparr>st_rows := rs\<rparr>) = None"
    "\<And>r. r \<in> set rs \<Longrightarrow> r \<in> set (st_rows t) \<or> map fst r = column_names t"
  then show "wf_tables (AList.update n (t\<lparr>st_rows := rs\<rparr>) ts)"
    by (intro wf_tables_update wf_rows) (auto dest: wf_tables_lookup)
qed (auto simp: wf_tables_def list_all_iff wf_unindex renamed_table_def wf_renamed split: if_splits)



section \<open>The data stay\<close>

text \<open>
  The rows of a table are those it had: a cell of an old column keeps its value, unless it was not set
  and belongs to the columns that are filled in; only the kinds of reviews are rewritten.
\<close>

definition same_cell :: "string \<Rightarrow> string \<Rightarrow> sql_row \<Rightarrow> sql_row \<Rightarrow> bool" where
  "same_cell n c r0 r \<longleftrightarrow> cell r c = cell r0 c \<or>
     (c \<in> set (backfilled n) \<and> (is_unset c r0 \<or> n = ''patch_review''))"

definition same_data :: "string \<Rightarrow> sql_table \<Rightarrow> sql_table \<Rightarrow> bool" where
  "same_data n t0 t \<longleftrightarrow> set (column_names t0) \<subseteq> set (column_names t) \<and>
     list_all2 (\<lambda>r0 r. \<forall>c \<in> set (column_names t0). same_cell n c r0 r) (st_rows t0) (st_rows t)"

definition lasting :: "(string \<times> sql_table) list \<Rightarrow> string set" where
  "lasting initial = dom (map_of initial) - {''usage_ledger_entry'', ''local_test_run''}"

definition data_kept :: "(string \<times> sql_table) list \<Rightarrow> (string \<times> sql_table) list \<Rightarrow> bool" where
  "data_kept initial ts \<longleftrightarrow> (\<forall>n \<in> lasting initial. \<forall>t0. map_of initial n = Some t0 \<longrightarrow>
     (\<exists>t. map_of ts n = Some t \<and> same_data n t0 t))"

lemma data_kept_refl: "data_kept ts ts"
  by (auto simp: data_kept_def lasting_def same_data_def same_cell_def list_all2_same)

lemma data_kept_change:
  assumes "data_kept initial ts" "map_of ts n = Some t"
    and "\<And>t0. n \<in> lasting initial \<Longrightarrow> same_data n t0 t \<Longrightarrow> same_data n t0 t'"
  shows "data_kept initial (AList.update n t' ts)"
  using assms by (fastforce simp: data_kept_def map_of_update)

lemma same_data_grow:
  assumes "same_data n t0 t" "sc_name c \<notin> set (column_names t)"
  shows "same_data n t0 (added_column c t)"
proof -
  have "cell (r @ [(sc_name c, sc_default c)]) d = cell r d" if "d \<in> set (column_names t0)" for r d
    using assms that by (intro cell_added) (auto simp: same_data_def)
  then show ?thesis
    using assms by (auto simp: same_data_def same_cell_def added_column_def column_names_def list_all2_map2
        elim!: list_all2_mono)
qed

lemma same_data_backfill:
  assumes "same_data n t0 t" "c \<in> set (backfilled n)"
    and "\<And>r. P r \<Longrightarrow> is_unset c r \<or> n = ''patch_review''"
    and "rs = map (\<lambda>r. if P r then set_cell c (g r) r else r) (st_rows t)"
  shows "same_data n t0 (t\<lparr>st_rows := rs\<rparr>)"
proof -
  have "same_cell n d r0 (set_cell c (g r) r)" if "same_cell n d r0 r" "P r" for d r0 r
    using that assms(2) assms(3) [of r] by (auto simp: same_cell_def cell_set is_unset_def)
  then show ?thesis
    using assms(1,4) by (auto simp: same_data_def column_names_def list_all2_map2 elim!: list_all2_mono)
qed

lemma same_data_index:
  "same_data n t0 (with_index i t) = same_data n t0 t"
  "same_data n t0 (without_index i t) = same_data n t0 t"
  by (simp_all add: same_data_def with_index_def without_index_def column_names_def)

lemma lookup_map_tables: "map_of (map (\<lambda>(n, t). (n, f t)) ts) n = map_option f (map_of ts n)"
  by (induction ts) auto

lemma lookup_renamed: "k \<noteq> n \<Longrightarrow> k \<noteq> m \<Longrightarrow> map_of (map (renamed_table n m) ts) k = map_of ts k"
  by (induction ts) (auto simp: renamed_table_def)

lemma lookup_dropped: "k \<noteq> n \<Longrightarrow> map_of (filter (\<lambda>(m, _). m \<noteq> n) ts) k = map_of ts k"
  by (induction ts) auto

lemma data_kept_lookup: "data_kept initial ts \<Longrightarrow> n \<in> lasting initial \<Longrightarrow> map_of ts n \<noteq> None"
  by (fastforce simp: data_kept_def lasting_def)

lemma data_kept_others:
  assumes "data_kept initial ts" "\<And>n. n \<in> lasting initial \<Longrightarrow> map_of ts' n = map_of ts n"
  shows "data_kept initial ts'"
  using assms by (simp add: data_kept_def)

interpretation data: schema_law "data_kept initial" "lasting initial" for initial
proof unfold_locales
  fix ts n t and col :: sql_column assume "data_kept initial ts" "map_of ts n = Some t" "sc_name col \<notin> set (column_names t)"
  then show "data_kept initial (AList.update n (added_column col t) ts)"
    by (intro data_kept_change same_data_grow)
next
  fix ts n t c P rs and g :: "sql_row \<Rightarrow> sql_value"
  assume *: "data_kept initial ts" "map_of ts n = Some t" "c \<in> set (backfilled n)"
    "\<And>r. P r \<Longrightarrow> is_unset c r \<or> n = ''patch_review''"
    "rs = map (\<lambda>r. if P r then set_cell c (g r) r else r) (st_rows t)"
  show "data_kept initial (AList.update n (t\<lparr>st_rows := rs\<rparr>) ts)"
    by (rule data_kept_change [OF *(1,2)]) (rule same_data_backfill [OF _ *(3-5)])
next
  fix ts n t i assume "data_kept initial ts" "map_of ts n = Some t"
  then show "data_kept initial (AList.update n (with_index i t) ts)"
    by (rule data_kept_change) (simp add: same_data_index)
next
  fix ts i assume "data_kept initial ts"
  then show "data_kept initial (map (\<lambda>(n, t). (n, without_index i t)) ts)"
    unfolding data_kept_def lookup_map_tables by (metis option.map(2) same_data_index(2))
next
  fix ts n and t :: sql_table assume *: "data_kept initial ts" "map_of ts n = None"
  then have "k \<noteq> n" if "k \<in> lasting initial" for k
    using that data_kept_lookup by metis
  then show "data_kept initial (ts @ [(n, t)])"
    by (intro data_kept_others [OF *(1)]) (simp add: map_add_def split: option.split)
next
  fix ts m n assume *: "data_kept initial ts" "map_of ts m = None" "n \<notin> lasting initial"
  then have "k \<noteq> n \<and> k \<noteq> m" if "k \<in> lasting initial" for k
    using that data_kept_lookup by metis
  then show "data_kept initial (map (renamed_table n m) ts)"
    by (intro data_kept_others [OF *(1)]) (simp add: lookup_renamed)
next
  fix ts n assume *: "data_kept initial ts" "n \<notin> lasting initial"
  then have "k \<noteq> n" if "k \<in> lasting initial" for k using that by metis
  then show "data_kept initial (filter (\<lambda>(m, _). m \<noteq> n) ts)"
    by (intro data_kept_others [OF *(1)]) (simp add: lookup_dropped)
next
  fix ts n t rs assume *: "data_kept initial ts" "n \<notin> lasting initial"
  then have "k \<noteq> n" if "k \<in> lasting initial" for k using that by metis
  then show "data_kept initial (AList.update n (t\<lparr>st_rows := rs\<rparr>) ts)"
    by (intro data_kept_others [OF *(1)]) (simp add: map_of_update)
next
  fix ts n assume "data_kept initial ts" "n \<in> lasting initial"
  then show "map_of ts n \<noteq> None" by (rule data_kept_lookup)
qed (auto simp: lasting_def)



section \<open>One entry per run and usage type\<close>

text \<open>The reference: an entry stays when it belongs to no run, or no entry before it has its run and type.\<close>

definition stays_after :: "(sql_value \<times> sql_value) list \<Rightarrow> sql_row list \<Rightarrow> nat \<Rightarrow> bool" where
  "stays_after seen rs i \<longleftrightarrow> cell (rs ! i) ''cloud_run_id'' = SNull \<or>
     (usage_key (rs ! i) \<notin> set seen \<and> (\<forall>j < i. usage_key (rs ! j) \<noteq> usage_key (rs ! i)))"

lemma nths_tail:
  assumes "\<And>i. i < length rs \<Longrightarrow> Suc i \<in> A \<longleftrightarrow> i \<in> B"
  shows "nths (r # rs) A = (if 0 \<in> A then [r] else []) @ nths rs B"
proof -
  have "nths rs {j. Suc j \<in> A} = nths rs B"
    unfolding nths_def by (rule arg_cong [where f = "map fst"], rule filter_cong)
      (auto simp: assms in_set_zip)
  then show ?thesis by (simp add: nths_Cons)
qed

lemma first_entries_nths: "first_entries seen rs = nths rs {i. stays_after seen rs i}"
proof (induction seen rs rule: first_entries.induct)
  case (2 seen r rs)
  have same_run: "usage_key r = usage_key q \<Longrightarrow> cell q ''cloud_run_id'' = cell r ''cloud_run_id''" for q
    by (simp add: usage_key_def)
  have tail: "Suc i \<in> {i. stays_after seen (r # rs) i} \<longleftrightarrow> i \<in> {i. stays_after seen' rs i}"
    if "seen' = (if cell r ''cloud_run_id'' = SNull \<or> usage_key r \<in> set seen then seen else usage_key r # seen)"
    for i seen'
    using same_run [of "rs ! i"] by (auto simp: that stays_after_def less_Suc_eq_0_disj)
  have head: "stays_after seen (r # rs) 0 \<longleftrightarrow> cell r ''cloud_run_id'' = SNull \<or> usage_key r \<notin> set seen"
    by (simp add: stays_after_def)
  show ?case
    using 2 by (subst nths_tail [OF tail [OF refl]]) (simp add: head)
qed simp

lemma subseq_index_keys:
  assumes "distinct (index_keys i rs)"
  shows "distinct (index_keys i (nths rs A))"
proof -
  have "subseq (index_keys i (nths rs A)) (index_keys i rs)"
    unfolding index_keys_def by (intro subseq_filter subseq_map) (auto simp: subseq_conv_nths)
  then show ?thesis using assms by (auto simp: subseq_conv_nths)
qed

lemma violated_fewer_rows: "violated t = None \<Longrightarrow> violated (t\<lparr>st_rows := nths (st_rows t) A\<rparr>) = None"
  by (auto simp: violated_None subseq_index_keys dest: in_set_nthsD)

lemma first_entries_distinct:
  "distinct (map usage_key (filter (\<lambda>r. cell r ''cloud_run_id'' \<noteq> SNull) (first_entries seen rs))) \<and>
   (\<forall>r \<in> set (first_entries seen rs). cell r ''cloud_run_id'' \<noteq> SNull \<longrightarrow> usage_key r \<notin> set seen)"
proof (induction seen rs rule: first_entries.induct)
  case (2 seen r rs)
  then show ?case
    by (cases "cell r ''cloud_run_id'' = SNull"; cases "usage_key r \<in> set seen") (simp_all add: image_iff, metis)
qed simp

lemma usage_index_keys: "distinct (index_keys unique_usage_index (first_entries [] rs))"
proof -
  have "map (\<lambda>r. map (cell r) (si_columns unique_usage_index)) xs = map (\<lambda>(a, k). [a, k]) (map usage_key xs)" for xs
    by (simp add: unique_usage_index_def usage_key_def)
  then show ?thesis
    using first_entries_distinct [of "[]" rs]
    by (auto simp: index_keys_def unique_usage_index_def distinct_map inj_on_def usage_key_def)
qed

text \<open>
  C37: The upgrade that makes usage unique keeps, of the entries of one run and usage type, exactly the first
  in the order of the table, and every entry that belongs to no run; then the unique index can be
  made, and no run is charged twice for one type of usage.
\<close>

theorem usage_entries_deduplicated:
  assumes "dbs_dialect s = Sqlite" "map_of (dbs_tables s) ''usage_ledger_entry'' = Some t" "wf_table t"
    and "{''cloud_run_id'', ''usage_type''} \<subseteq> set (column_names t)"
    and "\<not> index_exists s ''uq_usage_ledger_cloud_run_usage_type''"
  shows "\<exists>t' s'. upgrade_sqlite_usage_ledger_phase_13c_unique_cloud_run_usage s = (Inr (), s') \<and>
     map_of (dbs_tables s') ''usage_ledger_entry'' = Some t' \<and>
     st_rows t' = nths (st_rows t) {i. stays_after [] (st_rows t) i} \<and>
     list_ex (\<lambda>i. si_unique i \<and> si_columns i = [''cloud_run_id'', ''usage_type'']) (st_indexes t')"
proof -
  have rows: "first_entries [] (st_rows t) = nths (st_rows t) {i. stays_after [] (st_rows t) i}"
    by (rule first_entries_nths)
  have "violated (t\<lparr>st_rows := first_entries [] (st_rows t)\<rparr>) = None"
    using assms(3) by (simp add: rows violated_fewer_rows wf_table_def)
  then have "wp upgrade_sqlite_usage_ledger_phase_13c_unique_cloud_run_usage
      (\<lambda>_ s'. \<exists>t'. map_of (dbs_tables s') ''usage_ledger_entry'' = Some t' \<and>
        st_rows t' = first_entries [] (st_rows t) \<and>
        list_ex (\<lambda>i. si_unique i \<and> si_columns i = [''cloud_run_id'', ''usage_type'']) (st_indexes t'))
      (\<lambda>_ _. False) s"
    using assms(1,2,4,5) usage_index_keys
    by (simp add: upgrade_sqlite_usage_ledger_phase_13c_unique_cloud_run_usage_def on_sqlite_def
        delete_repeated_usage_def sqlite_has_unique_index_def create_index_def wp_simps
        map_of_update index_exists_update column_names_rows with_index_def unique_usage_index_def
        index_refs_def condition_columns_def)
  then obtain s' t' where "upgrade_sqlite_usage_ledger_phase_13c_unique_cloud_run_usage s = (Inr (), s')"
    "map_of (dbs_tables s') ''usage_ledger_entry'' = Some t'" "st_rows t' = first_entries [] (st_rows t)"
    "list_ex (\<lambda>i. si_unique i \<and> si_columns i = [''cloud_run_id'', ''usage_type'']) (st_indexes t')"
    unfolding wp_run by (cases "upgrade_sqlite_usage_ledger_phase_13c_unique_cloud_run_usage s")
      (auto split: sum.splits)
  then show ?thesis unfolding rows by blast
qed

theorem usage_entries_deduplicated_witness:
  "\<exists>t' s'. upgrade_sqlite_usage_ledger_phase_13c_unique_cloud_run_usage legacy_database = (Inr (), s') \<and>
     map_of (dbs_tables s') ''usage_ledger_entry'' = Some t' \<and>
     st_rows t' = nths (st_rows legacy_usage) {i. stays_after [] (st_rows legacy_usage) i} \<and>
     list_ex (\<lambda>i. si_unique i \<and> si_columns i = [''cloud_run_id'', ''usage_type'']) (st_indexes t')"
proof (rule usage_entries_deduplicated)
  show "wf_table legacy_usage" using legacy_wf by (simp add: legacy_database_def)
  show "\<not> index_exists legacy_database ''uq_usage_ledger_cloud_run_usage_type''" by code_simp
qed (simp_all add: legacy_database_def legacy_usage_def column_names_def nullable_def)

end
