(* ===== verification/ReviewUpgrade.thy ===== *)
theory ReviewUpgrade
  imports MigrationLaws
begin

text \<open>
  The upgrade that makes the review of an artifact unique per kind: what the search for free names
  and the numbering of duplicates achieve, and that the unique index can be made afterwards.
\<close>

section \<open>Free names\<close>

lemma free_number_free: "free_number taken base n \<notin> set taken"
  by (induction taken base n rule: free_number.induct) (simp add: free_number.simps)

lemma free_name_free: "free_name taken base separator \<notin> set taken"
  by (simp add: free_name_def free_number_free)

lemma free_number_prefix: "\<exists>k. free_number taken base n = base @ k"
  by (induction taken base n rule: free_number.induct) (simp add: free_number.simps numbered_def)

lemma free_name_prefix: "\<exists>k. free_name taken (p @ b) separator = p @ k"
  using free_number_prefix [of taken "p @ b @ separator" 2] by (auto simp: free_name_def)

section \<open>The dictionary of kinds\<close>

lemma kinds_of_add: "kinds_of (add_kind a k m) b = (if a = b then k # kinds_of m a else kinds_of m b)"
  by (simp add: kinds_of_def add_kind_def map_of_update)

lemma kinds_of_fold:
  "k \<in> set (kinds_of (fold (\<lambda>(r, _). add_kind (artifact_of r) (kind_of r)) cs m) a) \<longleftrightarrow>
     k \<in> set (kinds_of m a) \<or> (\<exists>(r, p) \<in> set cs. artifact_of r = a \<and> kind_of r = k)"
  by (induction cs arbitrary: m) (auto simp: kinds_of_add split: if_splits)

definition known_keys :: "kind_map \<Rightarrow> (sql_value \<times> sql_value) set" where
  "known_keys m = {(SText a, SText k) | a k. k \<in> set (kinds_of m a)}"

lemma known_keys_add: "known_keys (add_kind a k m) = insert (SText a, SText k) (known_keys m)"
  by (auto simp: known_keys_def kinds_of_add split: if_splits)

section \<open>The outcome of the loop\<close>

text \<open>The new kinds by the identifiers of the rows, and the keys that the candidates end up with.\<close>

fun renames :: "kind_map \<Rightarrow> (sql_row \<times> nat) list \<Rightarrow> (sql_value \<times> string) list" where
  "renames m [] = []"
| "renames m ((r, position) # rest) =
     (if position = 1 then renames m rest
      else (cell r ''id'', duplicate_kind m r) # renames (add_kind (artifact_of r) (duplicate_kind m r) m) rest)"

fun settled_keys :: "kind_map \<Rightarrow> (sql_row \<times> nat) list \<Rightarrow> (sql_value \<times> sql_value) list" where
  "settled_keys m [] = []"
| "settled_keys m ((r, position) # rest) =
     (if position = 1 then review_key r # settled_keys m rest
      else (cell r ''patch_artifact_id'', SText (duplicate_kind m r)) #
        settled_keys (add_kind (artifact_of r) (duplicate_kind m r) m) rest)"

definition renamed_row :: "(sql_value \<times> string) list \<Rightarrow> sql_row \<Rightarrow> sql_row" where
  "renamed_row rn r = (case map_of rn (cell r ''id'') of
     None \<Rightarrow> r | Some k \<Rightarrow> set_cell ''reviewer_kind'' (SText k) r)"

lemma renamed_row_none: "map_of rn (cell r ''id'') = None \<Longrightarrow> renamed_row rn r = r"
  by (simp add: renamed_row_def)

lemma renamed_row_head:
  "review_key (renamed_row ((cell r ''id'', k) # rn) r) = (cell r ''patch_artifact_id'', SText k)"
  by (simp add: renamed_row_def review_key_def cell_set)

definition first_keys :: "(sql_row \<times> nat) list \<Rightarrow> (sql_value \<times> sql_value) list" where
  "first_keys cs = map (\<lambda>(r, _). review_key r) (filter (\<lambda>(_, p). p = 1) cs)"

definition text_keys :: "sql_row \<Rightarrow> bool" where
  "text_keys r \<longleftrightarrow> (\<exists>a k. cell r ''patch_artifact_id'' = SText a \<and> cell r ''reviewer_kind'' = SText k)"

lemma text_key: "text_keys r \<Longrightarrow> review_key r = (SText (artifact_of r), SText (kind_of r))"
  by (auto simp: text_keys_def review_key_def artifact_of_def kind_of_def sql_str_def)

lemma renames_ids: "fst ` set (renames m cs) \<subseteq> (\<lambda>(r, p). cell r ''id'') ` set cs"
  by (induction m cs rule: renames.induct) auto

lemma renamed_keys:
  assumes "distinct (map (\<lambda>(r, p). cell r ''id'') cs)"
  shows "map (\<lambda>(r, p). review_key (renamed_row (renames m cs) r)) cs = settled_keys m cs"
  using assms
proof (induction m cs rule: renames.induct)
  case (2 m r position rest)
  have fresh: "map_of (renames m' rest) (cell r ''id'') = None" for m'
    using "2.prems" renames_ids [of m' rest] by (force simp: map_of_eq_None_iff)
  have others: "map (\<lambda>(q, p). review_key (renamed_row ((cell r ''id'', k) # rn) q)) rest =
      map (\<lambda>(q, p). review_key (renamed_row rn q)) rest" for k rn
    using "2.prems" by (force simp: renamed_row_def)
  show ?case
  proof (cases "position = 1")
    case True
    then show ?thesis using 2 fresh by (simp add: renamed_row_none)
  next
    case False
    then show ?thesis using 2 by (simp add: others renamed_row_head)
  qed
qed simp

text \<open>Every candidate has a key of its own at the end.\<close>

lemma duplicate_kind_new: "(SText (artifact_of r), SText (duplicate_kind m r)) \<notin> known_keys m"
  using free_name_free by (simp add: known_keys_def duplicate_kind_def)

lemma text_artifact: "text_keys r \<Longrightarrow> cell r ''patch_artifact_id'' = SText (artifact_of r)"
  by (auto simp: text_keys_def artifact_of_def sql_str_def)

lemma first_keys_Cons:
  "first_keys ((r, p) # cs) = (if p = 1 then review_key r # first_keys cs else first_keys cs)"
  by (simp add: first_keys_def)

lemma settled_subset:
  assumes "\<forall>(r, p) \<in> set cs. text_keys r"
  shows "set (settled_keys m cs) \<subseteq> set (first_keys cs) \<union> - known_keys m"
  using assms
proof (induction m cs rule: settled_keys.induct)
  case (2 m r position rest)
  show ?case
  proof (cases "position = 1")
    case True
    then show ?thesis using 2 by (auto simp: first_keys_Cons)
  next
    case False
    then have "set (settled_keys (add_kind (artifact_of r) (duplicate_kind m r) m) rest)
        \<subseteq> set (first_keys rest) \<union> - known_keys m"
      using 2 by (auto simp: known_keys_add)
    then show ?thesis
      using False "2.prems" duplicate_kind_new [of r m] by (simp add: first_keys_Cons text_artifact)
  qed
qed simp

lemma settled_distinct:
  assumes "\<forall>(r, p) \<in> set cs. text_keys r" "distinct (first_keys cs)" "set (first_keys cs) \<subseteq> known_keys m"
  shows "distinct (settled_keys m cs)"
  using assms
proof (induction m cs rule: settled_keys.induct)
  case (2 m r position rest)
  show ?case
  proof (cases "position = 1")
    case True
    then have "review_key r \<notin> set (settled_keys m rest)"
      using "2.prems" settled_subset [of rest m] by (auto simp: first_keys_Cons)
    then show ?thesis using True 2 by (simp add: first_keys_Cons)
  next
    case False
    let ?key = "(SText (artifact_of r), SText (duplicate_kind m r))"
    let ?m = "add_kind (artifact_of r) (duplicate_kind m r) m"
    have "?key \<notin> set (settled_keys ?m rest)"
      using settled_subset [of rest ?m] duplicate_kind_new [of r m] "2.prems" False
      by (auto simp: first_keys_Cons known_keys_add)
    moreover have "set (first_keys rest) \<subseteq> known_keys ?m"
      using "2.prems"(3) False by (auto simp: first_keys_Cons known_keys_add)
    ultimately show ?thesis
      using 2 False by (simp add: text_artifact first_keys_Cons)
  qed
qed simp

section \<open>The numbering of duplicates\<close>

definition oldest_review :: "sql_row list \<Rightarrow> sql_row \<Rightarrow> bool" where
  "oldest_review rs r \<longleftrightarrow> (\<forall>q \<in> set rs. review_key q = review_key r \<longrightarrow>
     (cell r ''created_at'', cell r ''id'') \<le> (cell q ''created_at'', cell q ''id''))"

lemma numbered_rows_fst [simp]: "map fst (numbered_rows before rs) = rs"
  by (induction before rs rule: numbered_rows.induct) simp_all

lemma first_keys_numbered:
  "distinct (first_keys (numbered_rows before rs)) \<and>
   set (first_keys (numbered_rows before rs)) \<inter> review_key ` set before = {}"
  by (induction before rs rule: numbered_rows.induct)
    (auto simp: first_keys_def filter_empty_conv)

lemma numbered_rows_split:
  "(r, p) \<in> set (numbered_rows before rs) \<Longrightarrow> \<exists>xs ys. rs = xs @ r # ys \<and>
     p = Suc (length (filter (\<lambda>q. review_key q = review_key r) (before @ xs)))"
proof (induction before rs rule: numbered_rows.induct)
  case (2 before q rs)
  show ?case
  proof (cases "(r, p) \<in> set (numbered_rows (before @ [q]) rs)")
    case True
    then obtain xs ys where "rs = xs @ r # ys"
      "p = Suc (length (filter (\<lambda>q. review_key q = review_key r) (before @ (q # xs))))"
      using "2.IH" by auto
    then show ?thesis by (rule_tac exI [of _ "q # xs"], rule_tac exI [of _ ys]) simp
  next
    case False
    then show ?thesis using "2.prems" by (rule_tac exI [of _ "[]"], rule_tac exI [of _ rs]) simp
  qed
qed simp

lemma position_oldest:
  assumes "(r, p) \<in> set (numbered_rows [] rs)" "sorted (map review_order rs)"
    and "distinct (map (\<lambda>r. cell r ''id'') rs)"
  shows "p = 1 \<longleftrightarrow> oldest_review rs r"
proof -
  obtain xs ys where rs: "rs = xs @ r # ys"
    and p: "p = Suc (length (filter (\<lambda>q. review_key q = review_key r) xs))"
    using numbered_rows_split [OF assms(1)] by auto
  have before: "(cell q ''created_at'', cell q ''id'') < (cell r ''created_at'', cell r ''id'')"
    if "q \<in> set xs" "review_key q = review_key r" for q
  proof -
    have "review_order q \<le> review_order r" using assms(2) that by (simp add: rs sorted_append)
    moreover have "cell q ''id'' \<noteq> cell r ''id''" using assms(3) that(1) by (auto simp: rs image_iff)
    ultimately show ?thesis using that(2) by (auto simp: review_order_def)
  qed
  have after: "(cell r ''created_at'', cell r ''id'') \<le> (cell q ''created_at'', cell q ''id'')"
    if "q \<in> set ys" "review_key q = review_key r" for q
    using assms(2) that by (auto simp: rs sorted_append review_order_def)
  show ?thesis
    using before after by (fastforce simp: p oldest_review_def rs filter_empty_conv)
qed

section \<open>Running the loop\<close>

text \<open>What the loop relies on: only the kinds change, and no other unique index mentions them.\<close>

definition reviews_ready :: "sql_table \<Rightarrow> bool" where
  "reviews_ready t \<longleftrightarrow> violated t = None \<and>
     {''id'', ''patch_artifact_id'', ''reviewer_kind'', ''created_at''} \<subseteq> set (column_names t) \<and>
     (\<forall>i \<in> set (st_indexes t). si_unique i \<longrightarrow> ''reviewer_kind'' \<notin> set (index_refs i))"

definition with_rows :: "sql_table \<Rightarrow> (sql_row \<Rightarrow> sql_row) \<Rightarrow> sql_table" where
  "with_rows t f = t\<lparr>st_rows := map f (st_rows t)\<rparr>"

lemma ready_renamed:
  assumes "reviews_ready t"
  shows "reviews_ready (with_rows t (\<lambda>r. if P r then set_cell ''reviewer_kind'' (SText k) r else r))"
proof -
  have "index_keys i (map (\<lambda>r. if P r then set_cell ''reviewer_kind'' (SText k) r else r) (st_rows t)) =
      index_keys i (st_rows t)" if "''reviewer_kind'' \<notin> set (index_refs i)" for i
    by (rule index_keys_cong) (use that in \<open>auto simp: list_all2_conv_all_nth cell_set\<close>)
  then show ?thesis
    using assms unfolding reviews_ready_def with_rows_def violated_None column_names_rows
    by (auto simp: cell_set split: if_splits)
qed

text \<open>The run of the loop: it ends normally, and the rows are renamed as \<open>renames\<close> says.\<close>

definition reclassified :: "sql_table \<Rightarrow> database \<Rightarrow> database \<Rightarrow> bool" where
  "reclassified t s s' \<longleftrightarrow> map_of (dbs_tables s') ''patch_review'' = Some t \<and>
     (\<forall>x. index_exists s' x = index_exists s x)"

lemma wp_rename_review:
  assumes "reviews_ready t" "map_of (dbs_tables s) ''patch_review'' = Some t"
    and "\<And>s'. reclassified (with_rows t (\<lambda>q. if has_id (cell r ''id'') q
        then set_cell ''reviewer_kind'' (SText kind) q else q)) s s' \<Longrightarrow> Q () s'"
  shows "wp (rename_review r kind) Q E s"
proof -
  let ?f = "\<lambda>q. if has_id (cell r ''id'') q then set_cell ''reviewer_kind'' (SText kind) q else q"
  have "violated (t\<lparr>st_rows := map ?f (st_rows t)\<rparr>) = None"
    using ready_renamed [OF assms(1), of "has_id (cell r ''id'')" kind]
    by (simp add: reviews_ready_def with_rows_def)
  moreover have "''reviewer_kind'' \<in> set (column_names t)" "''id'' \<in> set (column_names t)"
    using assms(1) by (simp_all add: reviews_ready_def)
  ultimately show ?thesis
    unfolding rename_review_def sql_update_def using assms(2,3)
    by (simp add: wp_simps reclassified_def map_of_update index_exists_update with_rows_def)
qed

lemma with_rows_id: "(\<And>r. f r = r) \<Longrightarrow> with_rows t f = t"
  by (simp add: with_rows_def map_idI)

lemma with_rows_twice: "with_rows (with_rows t f) g = with_rows t (\<lambda>r. g (f r))"
  by (simp add: with_rows_def comp_def)

lemma renamed_row_step:
  assumes "map_of rn v = None" "v \<noteq> SNull"
  shows "renamed_row rn (if has_id v q then set_cell ''reviewer_kind'' (SText k) q else q) =
    renamed_row ((v, k) # rn) q"
  using assms by (auto simp: renamed_row_def has_id_def cell_set)

lemma wp_reclassify_each:
  assumes "reviews_ready t" "map_of (dbs_tables s) ''patch_review'' = Some t"
    and "distinct (map (\<lambda>(r, p). cell r ''id'') cs)" "\<forall>(r, p) \<in> set cs. cell r ''id'' \<noteq> SNull"
  shows "wp (reclassify_each m cs)
    (\<lambda>_ s'. reclassified (with_rows t (renamed_row (renames m cs))) s s') (\<lambda>_ _. False) s"
  using assms
proof (induction m cs arbitrary: t s rule: reclassify_each.induct)
  case (1 m)
  then show ?case by (simp add: wp_simps reclassified_def with_rows_id renamed_row_none)
next
  case (2 m r position rest)
  show ?case
  proof (cases "position = 1")
    case True
    then show ?thesis using 2 by simp
  next
    case False
    let ?k = "duplicate_kind m r" and ?m = "add_kind (artifact_of r) (duplicate_kind m r) m"
    let ?t = "with_rows t (\<lambda>q. if has_id (cell r ''id'') q
      then set_cell ''reviewer_kind'' (SText ?k) q else q)"
    have "map_of (renames ?m rest) (cell r ''id'') = None"
      using "2.prems"(3) renames_ids [of ?m rest] by (force simp: map_of_eq_None_iff)
    then have rows: "with_rows ?t (renamed_row (renames ?m rest)) =
        with_rows t (renamed_row (renames m ((r, position) # rest)))"
      using "2.prems"(4) False by (simp add: with_rows_twice renamed_row_step)
    have tail: "wp (reclassify_each ?m rest)
        (\<lambda>_ s''. reclassified (with_rows t (renamed_row (renames m ((r, position) # rest)))) s s'')
        (\<lambda>_ _. False) s'" if "reclassified ?t s s'" for s'
    proof (rule wp_mono)
      show "wp (reclassify_each ?m rest)
          (\<lambda>_ s''. reclassified (with_rows ?t (renamed_row (renames ?m rest))) s' s'') (\<lambda>_ _. False) s'"
        using that False "2.prems" by (intro "2.IH"(2)) (auto simp: reclassified_def ready_renamed)
    qed (use that in \<open>auto simp: reclassified_def rows\<close>)
    have "wp (rename_review r ?k) (\<lambda>_. wp (reclassify_each ?m rest)
        (\<lambda>_ s''. reclassified (with_rows t (renamed_row (renames m ((r, position) # rest)))) s s'')
        (\<lambda>_ _. False)) (\<lambda>_ _. False) s"
      using "2.prems"(1,2) tail by (rule wp_rename_review)
    then show ?thesis using False by (simp add: wp_simps)
  qed
qed

section \<open>The upgrade\<close>

lemma renames_lookup:
  assumes "(r, p) \<in> set cs" "distinct (map (\<lambda>(r, p). cell r ''id'') cs)"
  shows "if p = 1 then map_of (renames m cs) (cell r ''id'') = None
    else \<exists>m'. map_of (renames m cs) (cell r ''id'') = Some (duplicate_kind m' r)"
  using assms
proof (induction m cs rule: renames.induct)
  case (2 m q position rest)
  show ?case
  proof (cases "(r, p) = (q, position)")
    case True
    then have "map_of (renames m rest) (cell r ''id'') = None"
      using "2.prems"(2) renames_ids [of m rest] by (force simp: map_of_eq_None_iff)
    then show ?thesis using True by auto
  next
    case False
    then have "cell r ''id'' \<noteq> cell q ''id''" using "2.prems" by force
    then show ?thesis using 2 False by auto
  qed
qed simp

lemma map_fst_pairs: "map (\<lambda>(x, y). g x) zs = map g (map fst zs)"
  by (induction zs) auto

lemma reviews_settled:
  fixes rs :: "sql_row list"
  defines "cs \<equiv> numbered_rows [] (sort_key review_order rs)"
  defines "f \<equiv> renamed_row (renames (reviewer_kinds_by_artifact cs) cs)"
  assumes texts: "list_all text_keys rs" and ids: "distinct (map (\<lambda>r. cell r ''id'') rs)"
  shows "distinct (map review_key (map f rs))"
    and "r \<in> set rs \<Longrightarrow> if oldest_review rs r then f r = r
      else \<exists>k. f r = set_cell ''reviewer_kind'' (SText (''legacy_duplicate:'' @ k)) r"
proof -
  let ?sorted = "sort_key review_order rs"
  have rows: "map fst cs = ?sorted" by (simp add: cs_def)
  have members: "(q, p) \<in> set cs \<Longrightarrow> q \<in> set rs" for q p
    using rows by (metis fst_conv image_eqI list.set_map set_sort)
  have "map (\<lambda>(r, p). cell r ''id'') cs = map (\<lambda>r. cell r ''id'') ?sorted"
    unfolding rows [symmetric] by auto
  then have ids': "distinct (map (\<lambda>(r, p). cell r ''id'') cs)" and ids_sorted: "distinct (map (\<lambda>r. cell r ''id'') ?sorted)"
    using ids by (simp_all add: distinct_map)
  have texts': "\<forall>(r, p) \<in> set cs. text_keys r"
    using texts members by (auto simp: list_all_iff)
  have "set (first_keys cs) \<subseteq> known_keys (reviewer_kinds_by_artifact cs)"
    using texts' by (fastforce simp: first_keys_def known_keys_def reviewer_kinds_by_artifact_def
        kinds_of_fold text_key)
  then have "distinct (settled_keys (reviewer_kinds_by_artifact cs) cs)"
    using first_keys_numbered texts' by (intro settled_distinct) (auto simp: cs_def)
  then have "distinct (map (\<lambda>r. review_key (f r)) (map fst cs))"
    using renamed_keys [OF ids'] by (simp only: f_def map_fst_pairs [symmetric])
  then show "distinct (map review_key (map f rs))"
    using ids unfolding rows by (simp add: distinct_map comp_def)
  assume "r \<in> set rs"
  then obtain p where p: "(r, p) \<in> set cs"
    using rows by (metis (no_types, lifting) imageE list.set_map prod.collapse set_sort)
  have "p = 1 \<longleftrightarrow> oldest_review ?sorted r"
    by (rule position_oldest) (use p ids_sorted in \<open>simp_all add: cs_def\<close>)
  then have "p = 1 \<longleftrightarrow> oldest_review rs r" by (simp add: oldest_review_def)
  note known = this renames_lookup [OF p ids', of "reviewer_kinds_by_artifact cs"]
  show "if oldest_review rs r then f r = r
      else \<exists>k. f r = set_cell ''reviewer_kind'' (SText (''legacy_duplicate:'' @ k)) r"
  proof (cases "oldest_review rs r")
    case True
    then show ?thesis using known by (simp add: f_def renamed_row_none)
  next
    case False
    then obtain m' where "map_of (renames (reviewer_kinds_by_artifact cs) cs) (cell r ''id'') =
        Some (duplicate_kind m' r)"
      using known by auto
    moreover obtain k where "duplicate_kind m' r = ''legacy_duplicate:'' @ k"
      unfolding duplicate_kind_def using free_name_prefix by blast
    ultimately have "f r = set_cell ''reviewer_kind'' (SText (''legacy_duplicate:'' @ k)) r"
      by (simp add: f_def renamed_row_def)
    then show ?thesis using False by metis
  qed
qed

lemma review_index_keys:
  assumes "distinct (map review_key rs)"
  shows "distinct (index_keys unique_review_index rs)"
proof -
  have "map (\<lambda>r. map (cell r) (si_columns unique_review_index)) rs =
      map (\<lambda>(a, k). [a, k]) (map review_key rs)"
    by (simp add: unique_review_index_def review_key_def)
  then have "distinct (map (\<lambda>r. map (cell r) (si_columns unique_review_index)) rs)"
    using assms by (auto simp: distinct_map inj_on_def split: prod.splits)
  then show ?thesis by (simp add: index_keys_def unique_review_index_def)
qed

text \<open>
  C34: The upgrade that makes reviews unique ends normally: the search for a free kind stops for every
  duplicate. Of the reviews of one artifact and kind the oldest is left as it is and every other gets a kind of
  its own that marks it as a legacy duplicate; no other cell changes, no two reviews have the same artifact and kind,
  and the unique index is there.
\<close>

theorem reviews_become_unique:
  assumes "dbs_dialect s = Sqlite" "map_of (dbs_tables s) ''patch_review'' = Some t" "reviews_ready t"
    and "\<not> list_ex (\<lambda>i. si_unique i \<and> si_columns i = [''patch_artifact_id'', ''reviewer_kind'']) (st_indexes t)"
    and "\<not> index_exists s ''uq_patch_review_artifact_reviewer_kind''"
    and "list_all text_keys (st_rows t)" "list_all (\<lambda>r. cell r ''id'' \<noteq> SNull) (st_rows t)"
    and "distinct (map (\<lambda>r. cell r ''id'') (st_rows t))"
  shows "\<exists>t' s'. upgrade_sqlite_patch_review_uniqueness s = (Inr (), s') \<and>
     map_of (dbs_tables s') ''patch_review'' = Some t' \<and>
     list_all2 (\<lambda>r r'. if oldest_review (st_rows t) r then r' = r
       else \<exists>k. r' = set_cell ''reviewer_kind'' (SText (''legacy_duplicate:'' @ k)) r)
       (st_rows t) (st_rows t') \<and>
     distinct (map review_key (st_rows t')) \<and> unique_review_index \<in> set (st_indexes t')"
proof -
  define cs where "cs = numbered_rows [] (sort_key review_order (st_rows t))"
  define f where "f = renamed_row (renames (reviewer_kinds_by_artifact cs) cs)"
  let ?s = "begin_transaction s" and ?t = "with_rows t f"
  note settled = reviews_settled [OF assms(6,8), folded cs_def, folded f_def]
  have rows: "map fst cs = sort_key review_order (st_rows t)" by (simp add: cs_def)
  have "map (\<lambda>(r, p). cell r ''id'') cs = map (\<lambda>r. cell r ''id'') (map fst cs)" by auto
  then have ids: "distinct (map (\<lambda>(r, p). cell r ''id'') cs)"
    using assms(8) by (simp add: rows distinct_map)
  have set_ids: "\<forall>(r, p) \<in> set cs. cell r ''id'' \<noteq> SNull"
    using assms(7) rows by (metis (mono_tags, lifting) case_prodI2 fst_conv image_eqI list.set_map list_all_iff set_sort)
  have loop: "wp (reclassify_each (reviewer_kinds_by_artifact cs) cs)
      (\<lambda>_. reclassified ?t ?s) (\<lambda>_ _. False) ?s"
    unfolding f_def by (rule wp_reclassify_each [OF assms(3) _ ids set_ids])
      (simp add: begin_transaction_def assms(2))
  have columns: "{''id'', ''patch_artifact_id'', ''reviewer_kind'', ''created_at''} \<subseteq> set (column_names t)"
    using assms(3) by (simp add: reviews_ready_def)
  have index: "wp (create_index ''patch_review'' unique_review_index)
      (\<lambda>_ s'. map_of (dbs_tables s') ''patch_review'' = Some (with_index unique_review_index ?t))
      (\<lambda>_ _. False) s'" if "reclassified ?t ?s s'" for s'
    using that assms(5) columns review_index_keys [OF settled(1)]
    by (simp add: create_index_def wp_simps reclassified_def map_of_update with_rows_def column_names_rows
        begin_transaction_def index_exists_def unique_review_index_def index_refs_def condition_columns_def)
  have finished: "wp (reclassify_each (reviewer_kinds_by_artifact cs) cs)
      (\<lambda>_. wp (create_index ''patch_review'' unique_review_index)
        (\<lambda>_ s'. map_of (dbs_tables (commit_transaction s')) ''patch_review'' =
          Some (with_index unique_review_index ?t)) (\<lambda>_ _. False)) (\<lambda>_ _. False) ?s"
    by (rule wp_mono [OF loop]) (simp_all add: index commit_transaction_def)
  have "wp upgrade_sqlite_patch_review_uniqueness
      (\<lambda>_ s'. map_of (dbs_tables s') ''patch_review'' = Some (with_index unique_review_index ?t))
      (\<lambda>_ _. False) s"
    using assms(1,2,4) columns finished
    by (simp add: upgrade_sqlite_patch_review_uniqueness_def on_sqlite_def sqlite_has_unique_index_def
        reclassify_sqlite_patch_review_duplicates_def duplicate_candidates_def wp_simps cs_def)
  then obtain s' where "upgrade_sqlite_patch_review_uniqueness s = (Inr (), s')"
    "map_of (dbs_tables s') ''patch_review'' = Some (with_index unique_review_index ?t)"
    unfolding wp_run by (cases "upgrade_sqlite_patch_review_uniqueness s") (auto split: sum.splits)
  moreover have "list_all2 (\<lambda>r r'. if oldest_review (st_rows t) r then r' = r
      else \<exists>k. r' = set_cell ''reviewer_kind'' (SText (''legacy_duplicate:'' @ k)) r)
      (st_rows t) (map f (st_rows t))"
    unfolding list_all2_map2 list_all2_same using settled(2) by blast
  ultimately show ?thesis
    using settled(1) by (auto simp: with_index_def with_rows_def intro!: exI)
qed

text \<open>A table with four reviews of one artifact: two repeat a kind, and one has the kind the first of them would get.\<close>

definition review_columns :: "sql_column list" where
  "review_columns = [nullable ''id'' ''VARCHAR NOT NULL'', nullable ''patch_artifact_id'' ''VARCHAR NOT NULL'',
     nullable ''reviewer_kind'' ''VARCHAR NOT NULL'', nullable ''created_at'' ''DATETIME NOT NULL'']"

definition review_row :: "string \<Rightarrow> string \<Rightarrow> int \<Rightarrow> sql_row" where
  "review_row i kind at = [(''id'', SText i), (''patch_artifact_id'', SText ''a1''),
     (''reviewer_kind'', SText kind), (''created_at'', SInt at)]"

definition sample_reviews :: sql_table where
  "sample_reviews = \<lparr>st_sql = ''CREATE TABLE patch_review'', st_columns = review_columns,
     st_rows = [review_row ''r2'' ''reviewer'' 20, review_row ''r1'' ''reviewer'' 10,
       review_row ''r3'' ''legacy_duplicate:reviewer:r2'' 30, review_row ''r4'' ''reviewer'' 40],
     st_indexes = [\<lparr>si_name = ''sqlite_autoindex_patch_review_1'', si_columns = [''id''], si_unique = True,
       si_origin = OfPrimaryKey, si_where = None\<rparr>]\<rparr>"

definition sample_review_db :: database where
  "sample_review_db = \<lparr>dbs_dialect = Sqlite, dbs_tables = [(''patch_review'', sample_reviews)], dbs_saved = None\<rparr>"

lemmas sample_review_defs = sample_review_db_def sample_reviews_def review_columns_def review_row_def

theorem reviews_become_unique_witness:
  "\<exists>t' s'. upgrade_sqlite_patch_review_uniqueness sample_review_db = (Inr (), s') \<and>
     map_of (dbs_tables s') ''patch_review'' = Some t' \<and>
     list_all2 (\<lambda>r r'. if oldest_review (st_rows sample_reviews) r then r' = r
       else \<exists>k. r' = set_cell ''reviewer_kind'' (SText (''legacy_duplicate:'' @ k)) r)
       (st_rows sample_reviews) (st_rows t') \<and>
     distinct (map review_key (st_rows t')) \<and> unique_review_index \<in> set (st_indexes t')"
proof (rule reviews_become_unique)
  show "reviews_ready sample_reviews" by code_simp
  show "list_all text_keys (st_rows sample_reviews)"
    by (simp add: sample_review_defs text_keys_def cell_def)
  show "list_all (\<lambda>r. cell r ''id'' \<noteq> SNull) (st_rows sample_reviews)" by code_simp
  show "distinct (map (\<lambda>r. cell r ''id'') (st_rows sample_reviews))" by code_simp
qed (simp_all add: sample_review_db_def, code_simp+)

end
