(* ===== verification/ArtifactPlane.thy ===== *)
theory ArtifactPlane
  imports CloudRunQueue
begin

text \<open>
  \<^verbatim>\<open>artifact_plane.py\<close>: the artifacts of a run as clients see them. They come from the stored objects of
  the run, the references its result names, and its patch artifact; their URIs lose credentials and
  queries before they are shown. Expired objects are cleaned up.
\<close>

section \<open>Artifacts\<close>

record cloud_run_artifact_descriptor_read =
  ad_id :: string
  ad_cloud_run_id :: string
  ad_kind :: string
  ad_label :: string
  ad_provider :: string
  ad_uri :: string
  ad_redacted_uri :: string
  ad_sha256 :: string
  ad_size_bytes :: int
  ad_content_type :: string
  ad_created_at :: "int option"
  ad_expires_at :: "int option"
  ad_retention_policy :: "string option"
  ad_download_url :: string

record artifact_source =
  af_descriptor :: cloud_run_artifact_descriptor_read
  af_storage_ref :: "object_storage_ref option"
  af_stored_object_id :: "string option"
  af_patch_artifact_id :: "string option"

definition artifact_labels :: "(string \<times> string) list" where
  "artifact_labels = [(''diff'', ''Unified diff''), (''log'', ''Log stream''),
     (''command_result'', ''Command result''), (''test_result'', ''Test result''),
     (''manifest'', ''Artifact manifest'')]"

definition artifact_order :: "string \<Rightarrow> nat" where
  "artifact_order kind =
     (case map_of [(''diff'', 0), (''log'', 1), (''command_result'', 2), (''test_result'', 3),
        (''manifest'', 4)] kind of None \<Rightarrow> 99 | Some n \<Rightarrow> n)"

definition artifact_kind_or_none :: "string \<Rightarrow> string option" where
  "artifact_kind_or_none kind = (if map_of artifact_labels kind = None then None else Some kind)"

definition artifact_label :: "string \<Rightarrow> string" where
  "artifact_label kind = str_or (map_of artifact_labels kind) []"

section \<open>URIs\<close>

definition is_local_inline_uri :: "string \<Rightarrow> bool action" where
  "is_local_inline_uri uri = bnd (split_url uri) (\<lambda>parsed.
                             ret (url_scheme parsed = ''local-inline''))"

definition local_inline_object_id :: "string \<Rightarrow> string option action" where
  "local_inline_object_id uri = bnd (split_url uri) (\<lambda>parsed.
                                let stored_object_id = dropWhile (\<lambda>c. c = CHR ''/'') (url_path parsed) in
                                ret (if url_scheme parsed \<noteq> ''local-inline'' \<or> url_netloc parsed \<noteq> ''cloud-run-objects'' \<or>
             stored_object_id = [] then None else Some stored_object_id))"

definition provider_name_from_uri :: "string \<Rightarrow> string action" where
  "provider_name_from_uri uri = bnd (split_url uri) (\<lambda>parsed.
                                ret (if url_scheme parsed = ''local-inline'' then ''local_inline''
          else if url_scheme parsed = ''oss'' then ''aliyun_oss''
          else if url_scheme parsed = ''patch-artifact'' then ''patch_artifact'' else ''unknown''))"

text \<open>
  \<^verbatim>\<open>SplitResult.port\<close>: \<open>None\<close> for an absent port and for one that is not a number up to 65535, where it
  raises \<^verbatim>\<open>ValueError\<close>.
\<close>

definition digits_nat :: "string \<Rightarrow> nat" where
  "digits_nat s = foldl (\<lambda>n c. 10 * n + (of_char c - 48)) 0 s"

definition url_port_text :: "url \<Rightarrow> string" where
  "url_port_text u =
     (case rpartition_at (CHR ''@'') (url_netloc u) of
        (_, _, hostinfo) \<Rightarrow>
          (case partition_at (CHR ''['') hostinfo of
             (_, bracket, bracketed) \<Rightarrow>
               (let rest = (if bracket then snd (snd (partition_at (CHR '']'') bracketed)) else hostinfo)
                in snd (snd (partition_at (CHR '':'') rest)))))"

definition url_port :: "url \<Rightarrow> nat option" where
  "url_port u =
     (let text = url_port_text u in
      if text \<noteq> [] \<and> list_all (\<lambda>c. 48 \<le> (of_char c :: nat) \<and> of_char c \<le> (57 :: nat)) text \<and>
         digits_nat text \<le> 65535
      then Some (digits_nat text) else None)"

definition redacted_netloc :: "url \<Rightarrow> string" where
  "redacted_netloc parsed =
     (case url_hostname parsed of
        None \<Rightarrow> []
      | Some hostname \<Rightarrow>
          (let host = (if CHR '':'' \<in> set hostname \<and> \<not> starts_with ''['' hostname
                       then ''['' @ hostname @ '']'' else hostname)
           in case url_port parsed of
                None \<Rightarrow> host
              | Some port \<Rightarrow> host @ '':'' @ show_int (int port)))"

definition redacted_url :: "url \<Rightarrow> string" where
  "redacted_url parsed = url_without_query (parsed\<lparr>url_netloc := redacted_netloc parsed\<rparr>)"

definition redact_uri :: "string \<Rightarrow> string action" where
  "redact_uri uri = bnd (split_url uri) (\<lambda>parsed.
                    ret (redacted_url parsed))"

definition stable_artifact_id :: "string \<Rightarrow> string \<Rightarrow> string \<Rightarrow> string action" where
  "stable_artifact_id kind uri sha256_value = bnd (sha256_hex (kind @ [CHR 0x00] @ uri @ [CHR 0x00] @ sha256_value)) (\<lambda>digest.
                                              ret (kind @ ''_'' @ take 16 digest))"

section \<open>Sources\<close>

definition artifact_not_found :: exn where
  "artifact_not_found = http 404 ''Cloud run artifact not found''"

text \<open>The keyword parameters of \<^verbatim>\<open>_descriptor_read\<close> that vary besides the run.\<close>

definition descriptor_read ::
  "cloud_run \<Rightarrow> string \<Rightarrow> string \<Rightarrow> string \<Rightarrow> string \<Rightarrow> string \<Rightarrow> int \<Rightarrow> string \<Rightarrow> int option \<Rightarrow> int option \<Rightarrow>
     string option \<Rightarrow> cloud_run_artifact_descriptor_read action" where
  "descriptor_read cloud_run kind artifact_id provider uri sha256 size_bytes content_type created_at
       expires_at retention_policy = bnd (redact_uri uri) (\<lambda>redacted_uri.
                                     ret \<lparr>ad_id = artifact_id, ad_cloud_run_id = cr_id cloud_run, ad_kind = kind,
       ad_label = artifact_label kind, ad_provider = provider, ad_uri = redacted_uri,
       ad_redacted_uri = redacted_uri, ad_sha256 = sha256, ad_size_bytes = size_bytes,
       ad_content_type = content_type, ad_created_at = created_at, ad_expires_at = expires_at,
       ad_retention_policy = retention_policy,
       ad_download_url = ''/cloud-runs/'' @ cr_id cloud_run @ ''/artifacts/'' @ artifact_id @ ''/content''\<rparr>)"

definition source_from_stored_object ::
  "cloud_run \<Rightarrow> cloud_run_stored_object \<Rightarrow> artifact_source option action" where
  "source_from_stored_object cloud_run stored_object =
     (case artifact_kind_or_none (so_kind stored_object) of
        None \<Rightarrow> ret None
      | Some kind \<Rightarrow> bnd (provider_name_from_uri (so_uri stored_object)) (\<lambda>provider.
                    bnd (local_inline_object_id (so_uri stored_object)) (\<lambda>object_id.
                    if provider = ''local_inline'' \<and> object_id \<noteq> Some (so_id stored_object) then ret None
          else bnd (descriptor_read cloud_run kind (kind @ ''_'' @ so_id stored_object) provider
              (so_uri stored_object) (so_sha256 stored_object) (so_size_bytes stored_object)
              (so_content_type stored_object) (Some (so_created_at stored_object))
              (so_expires_at stored_object) (so_retention_policy stored_object)) (\<lambda>descriptor.
               ret (Some \<lparr>af_descriptor = descriptor,
              af_storage_ref = Some \<lparr>or_kind = kind, or_uri = so_uri stored_object,
                or_sha256 = so_sha256 stored_object, or_size_bytes = so_size_bytes stored_object,
                or_content_type = so_content_type stored_object\<rparr>,
              af_stored_object_id = Some (so_id stored_object), af_patch_artifact_id = None\<rparr>)))))"

definition local_inline_stored_object :: "string \<Rightarrow> cloud_run_stored_object option action" where
  "local_inline_stored_object uri = bnd (local_inline_object_id uri) (\<lambda>stored_object_id.
                                    case stored_object_id of
       None \<Rightarrow> ret None
     | Some i \<Rightarrow> db_get t_cloud_run_stored_object i)"

definition metadata_ref_source ::
  "cloud_run \<Rightarrow> string \<Rightarrow> string option \<Rightarrow> string option \<Rightarrow> int option \<Rightarrow> string option \<Rightarrow>
     artifact_source option action" where
  "metadata_ref_source cloud_run kind uri sha256_value size_bytes content_type =
     (case (uri, sha256_value, size_bytes, content_type) of
        (Some uri, Some sha256_value, Some size_bytes, Some content_type) \<Rightarrow> bnd (is_local_inline_uri uri) (\<lambda>inline.
                                                                            if inline then bnd (local_inline_stored_object uri) (\<lambda>stored_object.
                         case stored_object of
              None \<Rightarrow> ret None
            | Some x \<Rightarrow>
                if so_workspace_id x \<noteq> cr_workspace_id cloud_run \<or> so_cloud_run_id x \<noteq> cr_id cloud_run \<or>
                   so_kind x \<noteq> kind then ret None
                else source_from_stored_object cloud_run x)
          else bnd (stable_artifact_id kind uri sha256_value) (\<lambda>artifact_id.
               bnd (provider_name_from_uri uri) (\<lambda>provider.
               bnd (descriptor_read cloud_run kind artifact_id provider uri sha256_value size_bytes
              content_type None None None) (\<lambda>descriptor.
               ret (Some \<lparr>af_descriptor = descriptor,
              af_storage_ref = Some \<lparr>or_kind = kind, or_uri = uri, or_sha256 = sha256_value,
                or_size_bytes = size_bytes, or_content_type = content_type\<rparr>,
              af_stored_object_id = None, af_patch_artifact_id = None\<rparr>)))))
      | _ \<Rightarrow> ret None)"

definition cloud_run_metadata_ref_sources :: "cloud_run \<Rightarrow> artifact_source list action" where
  "cloud_run_metadata_ref_sources cloud_run = bnd (metadata_ref_source cloud_run ''manifest'' (cr_artifact_manifest_uri cloud_run)
       (cr_artifact_manifest_sha256 cloud_run) (cr_artifact_manifest_size_bytes cloud_run)
       (cr_artifact_manifest_content_type cloud_run)) (\<lambda>manifest_source.
                                              bnd (metadata_ref_source cloud_run ''log'' (cr_log_stream_uri cloud_run)
       (cr_log_stream_sha256 cloud_run) (cr_log_stream_size_bytes cloud_run)
       (cr_log_stream_content_type cloud_run)) (\<lambda>log_source.
                                              ret (List.map_filter id [manifest_source, log_source])))"

definition patch_artifact_diff_source :: "cloud_run \<Rightarrow> artifact_source option action" where
  "patch_artifact_diff_source cloud_run =
     (case cr_patch_artifact_id cloud_run of
        None \<Rightarrow> ret None
      | Some i \<Rightarrow> bnd (db_get t_patch_artifact i) (\<lambda>found.
                 case found of
            None \<Rightarrow> ret None
          | Some patch_artifact \<Rightarrow>
              if pa_workspace_id patch_artifact \<noteq> cr_workspace_id cloud_run \<or>
                 pa_task_id patch_artifact \<noteq> cr_task_id cloud_run then ret None
              else bnd (sha256_hex (pa_diff_text patch_artifact)) (\<lambda>digest.
                   bnd (descriptor_read cloud_run ''diff'' (''diff_'' @ pa_id patch_artifact)
                  ''patch_artifact'' (''patch-artifact://'' @ pa_id patch_artifact @ ''/diff'') digest
                  (utf8_length (pa_diff_text patch_artifact)) ''text/x-diff''
                  (Some (pa_created_at patch_artifact)) None None) (\<lambda>descriptor.
                   ret (Some \<lparr>af_descriptor = descriptor, af_storage_ref = None, af_stored_object_id = None,
                  af_patch_artifact_id = Some (pa_id patch_artifact)\<rparr>)))))"

text \<open>References whose shown URI was not listed yet.\<close>

fun unseen_sources :: "string list \<Rightarrow> artifact_source list \<Rightarrow> artifact_source list" where
  "unseen_sources seen [] = []"
| "unseen_sources seen (x # xs) =
     (let uri = ad_uri (af_descriptor x) in
      if uri \<in> set seen then unseen_sources seen xs else x # unseen_sources (uri # seen) xs)"

definition source_order :: "artifact_source \<Rightarrow> nat \<times> string \<times> string" where
  "source_order x = (let d = af_descriptor x in
     (artifact_order (ad_kind d),
      (case ad_created_at d of None \<Rightarrow> [] | Some t \<Rightarrow> isoformat t), ad_id d))"

definition cloud_run_artifact_sources :: "cloud_run \<Rightarrow> artifact_source list action" where
  "cloud_run_artifact_sources cloud_run = bnd (db_select t_cloud_run_stored_object
       (\<lambda>x. so_cloud_run_id x = cr_id cloud_run \<and> so_workspace_id x = cr_workspace_id cloud_run)) (\<lambda>found.
                                          let stored_objects = sort_key (\<lambda>x. (so_created_at x, so_id x)) found in
                                          bnd (map_act (source_from_stored_object cloud_run) stored_objects) (\<lambda>stored.
                                          let listed = List.map_filter id stored in
                                          let seen_uris = map (so_uri \<circ> fst) (filter (\<lambda>(x, s). s \<noteq> None) (zip stored_objects stored)) in
                                          bnd (cloud_run_metadata_ref_sources cloud_run) (\<lambda>metadata.
                                          let sources = listed @ unseen_sources seen_uris metadata in
                                          bnd (if list_ex (\<lambda>x. ad_kind (af_descriptor x) = ''diff'') sources then ret None
                      else patch_artifact_diff_source cloud_run) (\<lambda>patch_source.
                                          ret (sort_key source_order
       (sources @ (case patch_source of None \<Rightarrow> [] | Some x \<Rightarrow> [x])))))))"

definition cloud_run_artifact_source_for_run :: "cloud_run \<Rightarrow> string \<Rightarrow> artifact_source action" where
  "cloud_run_artifact_source_for_run cloud_run artifact_id = bnd (cloud_run_artifact_sources cloud_run) (\<lambda>sources.
                                                             case first_of (filter (\<lambda>x. ad_id (af_descriptor x) = artifact_id) sources) of
       None \<Rightarrow> raise artifact_not_found
     | Some x \<Rightarrow> ret x)"

section \<open>Reading\<close>

definition may_read_artifacts :: "string \<Rightarrow> string \<Rightarrow> bool action" where
  "may_read_artifacts operation resource_id =
     require_audited_workspace_permission_if_authenticated ''artifact.sensitive.read'' operation
       ''cloud_run_artifact'' (Some resource_id) AL_HIGH_SENSITIVE_READ"

definition audit_artifact_read ::
  "bool \<Rightarrow> string \<Rightarrow> string \<Rightarrow> (string \<times> json) list \<Rightarrow> unit action" where
  "audit_artifact_read should_audit operation resource_id metadata =
     only_if should_audit
       (audit_sensitive_read operation ''cloud_run_artifact'' (Some resource_id) metadata)"

definition descriptor_metadata :: "cloud_run_artifact_descriptor_read \<Rightarrow> (string \<times> json) list" where
  "descriptor_metadata d = [(''cloud_run_id'', JStr (ad_cloud_run_id d)), (''kind'', JStr (ad_kind d)),
     (''size_bytes'', JInt (ad_size_bytes d))]"

record artifact_retention_read =
  ar_policy :: string
  ar_expires_at :: "int option"
  ar_cleanup_supported :: bool

definition retention_read :: "artifact_source list \<Rightarrow> artifact_retention_read" where
  "retention_read sources =
     (let expires_at_values = List.map_filter (\<lambda>x. ad_expires_at (af_descriptor x)) sources;
          retention_policy =
            first_of (List.map_filter (\<lambda>x. ad_retention_policy (af_descriptor x)) sources)
      in \<lparr>ar_policy = str_or retention_policy ''unspecified'',
          ar_expires_at = first_of (sort expires_at_values),
          ar_cleanup_supported =
            list_ex (\<lambda>x. ad_provider (af_descriptor x) = ''local_inline'') sources\<rparr>)"

record cloud_run_artifact_manifest_read =
  am_version :: int
  am_cloud_run_id :: string
  am_workspace_id :: string
  am_generated_at :: int
  am_retention :: artifact_retention_read
  am_artifacts :: "cloud_run_artifact_descriptor_read list"

definition build_cloud_run_artifact_manifest :: "string \<Rightarrow> cloud_run_artifact_manifest_read action" where
  "build_cloud_run_artifact_manifest cloud_run_id = bnd (get_cloud_run_or_404 cloud_run_id) (\<lambda>cloud_run.
                                                    bnd (may_read_artifacts ''artifact.manifest.read'' (cr_id cloud_run)) (\<lambda>should_audit.
                                                    bnd (cloud_run_artifact_sources cloud_run) (\<lambda>sources.
                                                    bnd utc_now (\<lambda>generated_at.
                                                    let result = \<lparr>am_version = 1, am_cloud_run_id = cr_id cloud_run,
       am_workspace_id = cr_workspace_id cloud_run, am_generated_at = generated_at,
       am_retention = retention_read sources, am_artifacts = map af_descriptor sources\<rparr> in
                                                    bnd (audit_artifact_read should_audit ''artifact.manifest.read'' (cr_id cloud_run)
       [(''cloud_run_id'', JStr (cr_id cloud_run)), (''count'', JInt (int (length (am_artifacts result))))]) (\<lambda>_.
                                                    ret result)))))"

definition list_cloud_run_artifacts :: "string \<Rightarrow> cloud_run_artifact_descriptor_read list action" where
  "list_cloud_run_artifacts cloud_run_id = bnd (get_cloud_run_or_404 cloud_run_id) (\<lambda>cloud_run.
                                           bnd (may_read_artifacts ''artifact.list'' (cr_id cloud_run)) (\<lambda>should_audit.
                                           bnd (cloud_run_artifact_sources cloud_run) (\<lambda>sources.
                                           let artifacts = map af_descriptor sources in
                                           bnd (audit_artifact_read should_audit ''artifact.list'' (cr_id cloud_run)
       [(''cloud_run_id'', JStr (cr_id cloud_run)), (''count'', JInt (int (length artifacts)))]) (\<lambda>_.
                                           ret artifacts))))"

definition get_cloud_run_artifact_source :: "string \<Rightarrow> string \<Rightarrow> artifact_source action" where
  "get_cloud_run_artifact_source cloud_run_id artifact_id = bnd (get_cloud_run_or_404 cloud_run_id) (\<lambda>cloud_run.
                                                            cloud_run_artifact_source_for_run cloud_run artifact_id)"

definition get_cloud_run_artifact_descriptor ::
  "string \<Rightarrow> string \<Rightarrow> cloud_run_artifact_descriptor_read action" where
  "get_cloud_run_artifact_descriptor cloud_run_id artifact_id = bnd (get_cloud_run_artifact_source cloud_run_id artifact_id) (\<lambda>source.
                                                                let d = af_descriptor source in
                                                                bnd (may_read_artifacts ''artifact.descriptor.read'' (ad_id d)) (\<lambda>should_audit.
                                                                bnd (audit_artifact_read should_audit ''artifact.descriptor.read'' (ad_id d) (descriptor_metadata d)) (\<lambda>_.
                                                                ret d)))"

definition raise_if_expired :: "int option \<Rightarrow> unit action" where
  "raise_if_expired expires_at =
     (case expires_at of
        None \<Rightarrow> ret ()
      | Some t \<Rightarrow> bnd utc_now (\<lambda>now.
                 only_if (t \<le> now) (raise (http 410 ''Cloud run artifact expired''))))"

definition read_patch_artifact_diff :: "cloud_run \<Rightarrow> string \<Rightarrow> string action" where
  "read_patch_artifact_diff cloud_run patch_artifact_id = bnd (db_get t_patch_artifact patch_artifact_id) (\<lambda>found.
                                                          case found of
       None \<Rightarrow> raise artifact_not_found
     | Some patch_artifact \<Rightarrow> bnd (only_if (Some (pa_id patch_artifact) \<noteq> cr_patch_artifact_id cloud_run) (raise artifact_not_found)) (\<lambda>_.
                             bnd (only_if (pa_workspace_id patch_artifact \<noteq> cr_workspace_id cloud_run) (raise artifact_not_found)) (\<lambda>_.
                             bnd (only_if (pa_task_id patch_artifact \<noteq> cr_task_id cloud_run) (raise artifact_not_found)) (\<lambda>_.
                             ret (pa_diff_text patch_artifact)))))"

definition validate_local_inline_scope :: "cloud_run \<Rightarrow> artifact_source \<Rightarrow> unit action" where
  "validate_local_inline_scope cloud_run source =
     (case af_storage_ref source of
        None \<Rightarrow> ret ()
      | Some ref \<Rightarrow> bnd (is_local_inline_uri (or_uri ref)) (\<lambda>inline.
                   only_if inline (bnd (local_inline_object_id (or_uri ref)) (\<lambda>target.
                          case target of
              None \<Rightarrow> raise artifact_not_found
            | Some target_object_id \<Rightarrow> bnd (only_if (af_stored_object_id source \<noteq> None \<and>
                    af_stored_object_id source \<noteq> Some target_object_id) (raise artifact_not_found)) (\<lambda>_.
                                      bnd (db_get t_cloud_run_stored_object target_object_id) (\<lambda>found.
                                      case found of
                  None \<Rightarrow> raise artifact_not_found
                | Some stored_object \<Rightarrow> bnd (only_if (so_cloud_run_id stored_object \<noteq> cr_id cloud_run \<or>
                        so_workspace_id stored_object \<noteq> cr_workspace_id cloud_run \<or>
                        so_kind stored_object \<noteq> ad_kind (af_descriptor source)) (raise artifact_not_found)) (\<lambda>_.
                                       bnd (raise_if_expired (so_expires_at stored_object)) (\<lambda>_.
                                       only_if (so_content_type stored_object \<noteq> or_content_type ref)
                      (raise (http 400 ''Object storage reference content type mismatch''))))))))))"

text \<open>The errors of the object storage that become a 400.\<close>

definition storage_or_400 :: "'a action \<Rightarrow> 'a action" where
  "storage_or_400 m = try_catch m (\<lambda>exc. case exc of
       ObjectStorageProviderNotFound msg \<Rightarrow> raise (http 400 msg)
     | ObjectStorageReadError msg \<Rightarrow> raise (http 400 msg)
     | AliyunConfigurationError msg \<Rightarrow> raise (http 400 msg)
     | _ \<Rightarrow> raise exc)"

record cloud_run_artifact_content_read =
  rd_artifact :: cloud_run_artifact_descriptor_read
  rd_content :: string

definition artifact_content :: "services \<Rightarrow> cloud_run \<Rightarrow> artifact_source \<Rightarrow> string action" where
  "artifact_content sv cloud_run source =
     (case af_patch_artifact_id source of
        Some patch_artifact_id \<Rightarrow> read_patch_artifact_diff cloud_run patch_artifact_id
      | None \<Rightarrow>
          (case af_storage_ref source of
             None \<Rightarrow> raise artifact_not_found
           | Some ref \<Rightarrow> bnd (validate_local_inline_scope cloud_run source) (\<lambda>_.
                        storage_or_400 (bnd (get_object_storage_provider (Some (ad_provider (af_descriptor source)))) (\<lambda>provider.
                               read_text sv provider ref)))))"

definition read_cloud_run_artifact_content ::
  "services \<Rightarrow> string \<Rightarrow> string \<Rightarrow> cloud_run_artifact_content_read action" where
  "read_cloud_run_artifact_content sv cloud_run_id artifact_id = bnd (get_cloud_run_or_404 cloud_run_id) (\<lambda>cloud_run.
                                                                 bnd (cloud_run_artifact_source_for_run cloud_run artifact_id) (\<lambda>source.
                                                                 let d = af_descriptor source in
                                                                 bnd (may_read_artifacts ''artifact.content.read'' (ad_id d)) (\<lambda>should_audit.
                                                                 bnd (raise_if_expired (ad_expires_at d)) (\<lambda>_.
                                                                 bnd (artifact_content sv cloud_run source) (\<lambda>content.
                                                                 bnd (audit_artifact_read should_audit ''artifact.content.read'' (ad_id d)
       [(''cloud_run_id'', JStr (cr_id cloud_run)), (''kind'', JStr (ad_kind d)),
        (''size_bytes'', JInt (ad_size_bytes d))]) (\<lambda>_.
                                                                 ret \<lparr>rd_artifact = d, rd_content = content\<rparr>))))))"

record cloud_run_artifact_download_read =
  dl_artifact :: cloud_run_artifact_descriptor_read
  dl_download_url :: string
  dl_expires_at :: "int option"
  dl_content_type :: string
  dl_size_bytes :: int
  dl_sha256 :: string

definition build_cloud_run_artifact_download ::
  "string \<Rightarrow> string \<Rightarrow> cloud_run_artifact_download_read action" where
  "build_cloud_run_artifact_download cloud_run_id artifact_id = bnd (get_cloud_run_artifact_source cloud_run_id artifact_id) (\<lambda>source.
                                                                let d = af_descriptor source in
                                                                bnd (may_read_artifacts ''artifact.download.create'' (ad_id d)) (\<lambda>should_audit.
                                                                bnd (audit_artifact_read should_audit ''artifact.download.create'' (ad_id d) (descriptor_metadata d)) (\<lambda>_.
                                                                ret \<lparr>dl_artifact = d, dl_download_url = ad_download_url d, dl_expires_at = ad_expires_at d,
       dl_content_type = ad_content_type d, dl_size_bytes = ad_size_bytes d, dl_sha256 = ad_sha256 d\<rparr>)))"

section \<open>Cleaning up\<close>

record cloud_run_artifact_cleanup_request =
  cq_before :: "int option"
  cq_limit :: int

record cloud_run_artifact_cleanup_item_read =
  ci_artifact_id :: string
  ci_cloud_run_id :: string
  ci_provider :: string
  ci_action :: string
  ci_redacted_uri :: string
  ci_reason :: string

record cloud_run_artifact_cleanup_result_read =
  cx_before :: int
  cx_deleted_count :: int
  cx_lifecycle_only_count :: int
  cx_items :: "cloud_run_artifact_cleanup_item_read list"

definition delete_cloud_run_stored_object :: "cloud_run_stored_object \<Rightarrow> unit action" where
  "delete_cloud_run_stored_object x = modify (\<lambda>w. w\<lparr>w_db :=
     t_cloud_run_stored_object_update (filter (\<lambda>(k, _). k \<noteq> so_id x)) (w_db w)\<rparr>)"

definition cleanup_item ::
  "cloud_run_stored_object \<Rightarrow> string \<Rightarrow> string \<Rightarrow> string \<Rightarrow> string \<Rightarrow>
     cloud_run_artifact_cleanup_item_read action" where
  "cleanup_item stored_object kind provider act reason = bnd (redact_uri (so_uri stored_object)) (\<lambda>redacted_uri.
                                                         bnd (stable_artifact_id kind redacted_uri (so_sha256 stored_object)) (\<lambda>artifact_id.
                                                         ret \<lparr>ci_artifact_id = artifact_id, ci_cloud_run_id = so_cloud_run_id stored_object,
       ci_provider = provider, ci_action = act, ci_redacted_uri = redacted_uri, ci_reason = reason\<rparr>))"

text \<open>
  The two passes over the expired objects: objects of the database that refer to themselves are deleted, the
  others are only listed. Each stops at the limit; \<open>room\<close> is what is left of it.
\<close>

fun delete_expired ::
  "int \<Rightarrow> cloud_run_stored_object list \<Rightarrow> (string \<times> cloud_run_artifact_cleanup_item_read) list action" where
  "delete_expired room [] = ret []"
| "delete_expired room (x # xs) =
     (if room \<le> 0 then ret []
      else case artifact_kind_or_none (so_kind x) of
        None \<Rightarrow> delete_expired room xs
      | Some kind \<Rightarrow>
          bnd (provider_name_from_uri (so_uri x)) (\<lambda>provider.
          bnd (local_inline_object_id (so_uri x)) (\<lambda>object_id.
          if provider \<noteq> ''local_inline'' \<or> object_id \<noteq> Some (so_id x) then delete_expired room xs
          else
            bnd (cleanup_item x kind provider ''deleted'' ''local_inline_expired'') (\<lambda>item.
            bnd (delete_cloud_run_stored_object x) (\<lambda>_.
            bnd (delete_expired (room - 1) xs) (\<lambda>rest.
            ret ((so_id x, item) # rest)))))))"

fun list_expired ::
  "string list \<Rightarrow> int \<Rightarrow> cloud_run_stored_object list \<Rightarrow> cloud_run_artifact_cleanup_item_read list action" where
  "list_expired deleted_ids room [] = ret []"
| "list_expired deleted_ids room (x # xs) =
     (if room \<le> 0 then ret []
      else if so_id x \<in> set deleted_ids then list_expired deleted_ids room xs
      else case artifact_kind_or_none (so_kind x) of
        None \<Rightarrow> list_expired deleted_ids room xs
      | Some kind \<Rightarrow>
          bnd (provider_name_from_uri (so_uri x)) (\<lambda>provider.
          bnd (local_inline_object_id (so_uri x)) (\<lambda>object_id.
          if provider = ''local_inline'' \<and> object_id = Some (so_id x) then list_expired deleted_ids room xs
          else
            bnd (cleanup_item x kind provider ''lifecycle_only''
              (if provider = ''local_inline'' then ''local_inline_reference_mismatch''
               else ''external_provider_cleanup_not_supported_by_api'')) (\<lambda>item.
            bnd (list_expired deleted_ids (room - 1) xs) (\<lambda>rest. ret (item # rest))))))"

definition cleanup_expired_cloud_run_artifacts ::
  "cloud_run_artifact_cleanup_request \<Rightarrow> bool \<Rightarrow> cloud_run_artifact_cleanup_result_read action" where
  "cleanup_expired_cloud_run_artifacts request commits = bnd get_current_auth_context (\<lambda>context.
                                                         bnd (only_if (context \<noteq> None)
       (bnd (require_workspace_role [OWNER, ADMIN] ''Insufficient workspace role'') (\<lambda>_.
        ret ()))) (\<lambda>_.
                                                         bnd (case cq_before request of Some t \<Rightarrow> ret t | None \<Rightarrow> utc_now) (\<lambda>cutoff.
                                                         bnd (db_select t_cloud_run_stored_object
       (\<lambda>x. (case so_expires_at x of None \<Rightarrow> False | Some t \<Rightarrow> t \<le> cutoff) \<and>
            (case context of None \<Rightarrow> True | Some c \<Rightarrow> so_workspace_id x = ac_workspace_id c))) (\<lambda>found.
                                                         let expired = sort_key (\<lambda>x. (the (so_expires_at x), so_id x)) found in
                                                         bnd (delete_expired (cq_limit request) expired) (\<lambda>deleted.
                                                         bnd (list_expired (map fst deleted) (cq_limit request) expired) (\<lambda>listed.
                                                         bnd (only_if commits commit) (\<lambda>_.
                                                         ret \<lparr>cx_before = cutoff, cx_deleted_count = int (length deleted),
       cx_lifecycle_only_count = int (length listed), cx_items = map snd deleted @ listed\<rparr>)))))))"

text \<open>The route \<^verbatim>\<open>POST /cloud-runs/artifacts/cleanup-expired\<close>.\<close>

definition post_cloud_run_artifact_cleanup_expired ::
  "cloud_run_artifact_cleanup_request \<Rightarrow> cloud_run_artifact_cleanup_result_read action" where
  "post_cloud_run_artifact_cleanup_expired data = bnd (require_audited_workspace_permission ''artifact.cleanup'' ''artifact.cleanup_expired''
       ''cloud_run_artifact'' None AL_HIGH_VALUE_WRITE) (\<lambda>_.
                                                  bnd (cleanup_expired_cloud_run_artifacts data False) (\<lambda>result.
                                                  bnd (record_workspace_audit
       ((workspace_audit_defaults ''artifact.cleanup_expired'' ''cloud_run_artifact'' None
          AL_HIGH_VALUE_WRITE True 200)
        \<lparr>wk_metadata := [(''deleted_count'', JInt (cx_deleted_count result)),
           (''lifecycle_only_count'', JInt (cx_lifecycle_only_count result))],
         wk_commit := True\<rparr>)) (\<lambda>_.
                                                  ret result)))"

end
