(* ===== verification/CleanupLaws.thy ===== *)
theory CleanupLaws
  imports ArtifactPlane AccessLaws
begin

text \<open>
  What a cleanup of artifacts deletes: expired objects of the caller's workspace whose content is kept in
  the database, no more than asked for, and all of them where the limit leaves room.
\<close>

section \<open>Deletion\<close>

definition inline_id :: "url \<Rightarrow> string option" where
  "inline_id u = (let i = dropWhile (\<lambda>c. c = CHR ''/'') (url_path u) in
     if url_scheme u \<noteq> ''local-inline'' \<or> url_netloc u \<noteq> ''cloud-run-objects'' \<or> i = [] then None else Some i)"

lemma inline_id_scheme: "inline_id u = Some i \<Longrightarrow> url_scheme u = ''local-inline''"
  by (simp add: inline_id_def Let_def split: if_splits)

lemma wp_inline_uri:
  "urlsplit uri = Some u \<Longrightarrow> wp (local_inline_object_id uri) Q E w = Q (inline_id u) w"
  by (simp add: local_inline_object_id_def inline_id_def split_url_def wp_simps Let_def)

lemma wp_provider_name:
  assumes "urlsplit uri = Some u"
  obtains p where "p = ''local_inline'' \<longleftrightarrow> url_scheme u = ''local-inline''"
    "\<And>Q E w. wp (provider_name_from_uri uri) Q E w = Q p w"
  by (rule that [of "if url_scheme u = ''local-inline'' then ''local_inline''
      else if url_scheme u = ''oss'' then ''aliyun_oss''
      else if url_scheme u = ''patch-artifact'' then ''patch_artifact'' else ''unknown''"])
    (simp_all add: provider_name_from_uri_def split_url_def wp_simps assms)

text \<open>The object keeps its own content: its URI names itself.\<close>

definition self_inline :: "cloud_run_stored_object \<Rightarrow> bool" where
  "self_inline x \<longleftrightarrow> artifact_kind_or_none (so_kind x) \<noteq> None \<and>
     (case urlsplit (so_uri x) of None \<Rightarrow> False | Some u \<Rightarrow> inline_id u = Some (so_id x))"

definition without_objects :: "string list \<Rightarrow> db \<Rightarrow> db" where
  "without_objects ids = t_cloud_run_stored_object_update (filter (\<lambda>(k, _). k \<notin> set ids))"

lemma without_objects_Nil [simp]: "without_objects [] d = d"
  by (simp add: without_objects_def)

lemma without_objects_Cons:
  "without_objects ids (t_cloud_run_stored_object_update (filter (\<lambda>(k, _). k \<noteq> i)) d) =
     without_objects (i # ids) d"
proof -
  have "filter (\<lambda>(k, _). k \<notin> set ids) (filter (\<lambda>(k, _). k \<noteq> i) t) = filter (\<lambda>(k, _). k \<notin> set (i # ids)) t"
    for t :: "cloud_run_stored_object table"
    by (induction t) auto
  then show ?thesis by (simp add: without_objects_def comp_def)
qed

lemma wp_cleanup_item: "wp (cleanup_item x kind provider act reason) (\<lambda>_ w'. w' = w) (\<lambda>_ _. True) w"
  by (auto simp: cleanup_item_def redact_uri_def stable_artifact_id_def split_url_def sha256_hex_def
      wp_simps split: option.splits)

definition deleted_ok :: "int \<Rightarrow> cloud_run_stored_object list \<Rightarrow> world \<Rightarrow>
    (string \<times> cloud_run_artifact_cleanup_item_read) list \<Rightarrow> world \<Rightarrow> bool" where
  "deleted_ok room xs w items w' \<longleftrightarrow>
     (let ids = map fst items in
      w_db w' = without_objects ids (w_db w) \<and> w_env w' = w_env w \<and>
      int (length ids) \<le> max 0 room \<and> (distinct (map so_id xs) \<longrightarrow> distinct ids) \<and> set ids \<subseteq> so_id ` {x \<in> set xs. self_inline x} \<and>
      (int (length ids) < room \<longrightarrow> (\<forall>x \<in> set xs. self_inline x \<longrightarrow> so_id x \<in> set ids)))"

lemma deleted_ok_skip:
  "\<not> self_inline x \<Longrightarrow> deleted_ok room xs w items w' \<Longrightarrow> deleted_ok room (x # xs) w items w'"
  by (auto simp: deleted_ok_def Let_def)

lemma deleted_ok_Cons:
  assumes "0 < room" "self_inline x" "w_env v = w_env w"
    and "w_db v = t_cloud_run_stored_object_update (filter (\<lambda>(k, _). k \<noteq> so_id x)) (w_db w)"
    and "deleted_ok (room - 1) xs v items w'"
  shows "deleted_ok room (x # xs) w ((so_id x, item) # items) w'"
  using assms by (auto simp: deleted_ok_def Let_def without_objects_Cons)

lemma wp_delete_expired: "wp (delete_expired room xs) (deleted_ok room xs w) (\<lambda>_ _. True) w"
proof (induction room xs arbitrary: w rule: delete_expired.induct)
  case (1 room)
  then show ?case by (simp add: deleted_ok_def wp_simps)
next
  case (2 room x xs)
  show ?case
  proof (cases "room \<le> 0")
    case True
    then show ?thesis by (simp add: deleted_ok_def wp_simps)
  next
    case room: False
    show ?thesis
    proof (cases "artifact_kind_or_none (so_kind x)")
      case None
      then have "\<not> self_inline x" by (simp add: self_inline_def)
      then show ?thesis
        using room None by (simp add: wp_mono [OF "2.IH"(1)] deleted_ok_skip)
    next
      case kind: (Some kind)
      show ?thesis
      proof (cases "urlsplit (so_uri x)")
        case None
        then show ?thesis
          using room kind None by (simp add: provider_name_from_uri_def split_url_def wp_simps)
      next
        case (Some u)
        note uri = Some
        obtain p where p: "p = ''local_inline'' \<longleftrightarrow> url_scheme u = ''local-inline''"
          "\<And>Q E v. wp (provider_name_from_uri (so_uri x)) Q E v = Q p v"
          by (rule wp_provider_name [OF uri]) (rule that)
        have self: "self_inline x \<longleftrightarrow> inline_id u = Some (so_id x)"
          by (simp add: self_inline_def uri kind)
        show ?thesis
        proof (cases "inline_id u = Some (so_id x)")
          case True
          have step: "deleted_ok room (x # xs) w ((so_id x, item) # items) w'"
            if "deleted_ok (room - 1) xs (w\<lparr>w_db := t_cloud_run_stored_object_update
              (filter (\<lambda>(k, _). k \<noteq> so_id x)) (w_db w)\<rparr>) items w'" for item items w'
            by (rule deleted_ok_Cons [OF _ _ _ _ that]) (use room self True in auto)
          have "p = ''local_inline''" using p(1) inline_id_scheme [OF True] by blast
          then show ?thesis
            using room
            by (simp add: kind wp_bnd p(2) wp_inline_uri [OF uri] True)
              (rule wp_mono [OF wp_cleanup_item],
                simp_all add: delete_cloud_run_stored_object_def wp_simps,
                rule wp_mono [OF "2.IH"(3)], auto simp: wp_simps kind True intro!: step)
        next
          case False
          then have "wp (delete_expired room xs) (deleted_ok room (x # xs) w) (\<lambda>_ _. True) w"
            using room kind self by (auto intro!: wp_mono [OF "2.IH"(2)] deleted_ok_skip)
          then show ?thesis
            using room False by (simp add: kind wp_bnd p(2) wp_inline_uri [OF uri])
        qed
      qed
    qed
  qed
qed

lemma wp_list_expired: "wp (list_expired ids room xs) (\<lambda>_ w'. w' = w) (\<lambda>_ _. True) w"
proof (induction ids room xs rule: list_expired.induct)
  case (2 ids room x xs)
  show ?case
  proof (cases "urlsplit (so_uri x)")
    case None
    then show ?thesis
      using "2.IH"(1,2)
      by (auto simp: provider_name_from_uri_def split_url_def wp_simps split: option.split)
  next
    case (Some u)
    obtain p where p: "p = ''local_inline'' \<longleftrightarrow> url_scheme u = ''local-inline''"
      "\<And>Q E v. wp (provider_name_from_uri (so_uri x)) Q E v = Q p v"
      by (rule wp_provider_name [OF Some]) (rule that)
    show ?thesis
      using "2.IH"(1,2)
      by (auto simp: wp_bnd wp_ret p(2) wp_inline_uri [OF Some] split: option.split
          intro!: wp_mono [OF wp_cleanup_item] wp_mono [OF "2.IH"(4)])
        (use "2.IH"(3) in auto)
  qed
qed (simp add: wp_simps)

text \<open>An object that may be deleted on behalf of \<open>a\<close>.\<close>

definition due :: "auth_context option \<Rightarrow> int \<Rightarrow> cloud_run_stored_object \<Rightarrow> bool" where
  "due a cutoff x \<longleftrightarrow> (\<exists>t. so_expires_at x = Some t \<and> t \<le> cutoff) \<and>
     (\<forall>c. a = Some c \<longrightarrow> so_workspace_id x = ac_workspace_id c)"

lemma due_alt: "due a cutoff x \<longleftrightarrow>
    (case so_expires_at x of None \<Rightarrow> False | Some t \<Rightarrow> t \<le> cutoff) \<and>
    (case a of None \<Rightarrow> True | Some c \<Rightarrow> so_workspace_id x = ac_workspace_id c)"
  by (auto simp: due_def split: option.splits)

definition cleaned :: "cloud_run_artifact_cleanup_request \<Rightarrow> auth_context option \<Rightarrow> db \<Rightarrow>
    cloud_run_artifact_cleanup_result_read \<Rightarrow> db \<Rightarrow> bool" where
  "cleaned request a d r d' \<longleftrightarrow>
     (\<exists>items xs w w'. w_db w = d \<and> w_db w' = d' \<and> deleted_ok (cq_limit request) xs w items w' \<and>
        cx_deleted_count r = int (length items) \<and>
        xs = sort_key (\<lambda>x. (the (so_expires_at x), so_id x))
          (filter (due a (cx_before r)) (rows (t_cloud_run_stored_object d))))"

lemma wp_cleanup: "wp (cleanup_expired_cloud_run_artifacts request False)
    (\<lambda>r w'. cleaned request (e_auth (w_env w)) (w_db w) r (w_db w')) (\<lambda>_ _. True) w"
proof -
  let ?a = "e_auth (w_env w)"
  let ?xs = "\<lambda>P. sort_key (\<lambda>x. (the (so_expires_at x), so_id x))
      (filter P (rows (t_cloud_run_stored_object (w_db w))))"
  have rest: "wp (delete_expired (cq_limit request) (?xs P))
      (\<lambda>deleted. wp (bnd (list_expired (map fst deleted) (cq_limit request) (?xs P))
          (\<lambda>listed. bnd (only_if False commit) (\<lambda>_. ret \<lparr>cx_before = cutoff,
             cx_deleted_count = int (length deleted), cx_lifecycle_only_count = int (length listed),
             cx_items = map snd deleted @ listed\<rparr>)))
        (\<lambda>r w'. cleaned request a (w_db w) r (w_db w')) (\<lambda>_ _. True)) (\<lambda>_ _. True) v"
    if "w_db v = w_db w" "\<And>x. P x = due a cutoff x" for v cutoff P a
    unfolding wp_bnd
  proof (rule wp_mono [OF wp_delete_expired], rule wp_mono [OF wp_list_expired])
    fix deleted v' listed v''
    assume ok: "deleted_ok (cq_limit request) (?xs P) v deleted v'" and v'': "v'' = v'"
    have "P = due a cutoff" using that(2) by blast
    then have "cleaned request a (w_db w) \<lparr>cx_before = cutoff, cx_deleted_count = int (length deleted),
        cx_lifecycle_only_count = int (length listed), cx_items = map snd deleted @ listed\<rparr> (w_db v'')"
      unfolding cleaned_def using that ok v''
      by (intro exI [of _ deleted] exI [of _ "?xs P"] exI [of _ v] exI [of _ v']) auto
    then show "wp (only_if False commit) (\<lambda>_. wp (ret \<lparr>cx_before = cutoff,
          cx_deleted_count = int (length deleted), cx_lifecycle_only_count = int (length listed),
          cx_items = map snd deleted @ listed\<rparr>) (\<lambda>r w'. cleaned request a (w_db w) r (w_db w')) (\<lambda>_ _. True))
        (\<lambda>_ _. True) v''"
      by (simp add: wp_simps)
  qed simp_all
  show ?thesis
    by (cases ?a; cases "cq_before request")
      (auto simp: cleanup_expired_cloud_run_artifacts_def require_workspace_role_def wp_simps
        Let_def due_alt split del: option.split intro!: rest)
qed

lemma filter_out_length:
  assumes "distinct (map fst t)" "distinct ids" "set ids \<subseteq> fst ` set t"
  shows "length (filter (\<lambda>(k, _). k \<notin> set ids) t) + length ids = length t"
proof -
  have "length (filter (\<lambda>(k, _). k \<in> set ids) t) = card (set (map fst (filter (\<lambda>(k, _). k \<in> set ids) t)))"
    using distinct_card [of "map fst (filter (\<lambda>(k, _). k \<in> set ids) t)"] distinct_map_filter [OF assms(1)]
    by simp
  also have "set (map fst (filter (\<lambda>(k, _). k \<in> set ids) t)) = set ids" using assms(3) by force
  finally have "length (filter (\<lambda>(k, _). k \<in> set ids) t) = length ids" using distinct_card [OF assms(2)] by simp
  then show ?thesis
    using sum_length_filter_compl [of "\<lambda>(k, _). k \<in> set ids" t] by (simp add: case_prod_beta')
qed

lemma map_of_filter_out:
  "map_of (filter (\<lambda>(k, _). k \<notin> ids) t) i = (if i \<in> ids then None else map_of t i)"
  by (induction t) auto

text \<open>
  C39: Cleaning up. A cleanup changes the stored objects only: it removes as many as it reports, at most the
  limit of the request; what it removes has expired, belongs to the caller's workspace and is kept in the
  database; the others stay as they are. Where fewer than the limit were removed, no such object is left.
\<close>

theorem cleanup_deletes_expired:
  assumes "keyed so_id (t_cloud_run_stored_object (w_db w))"
    and "cleanup_expired_cloud_run_artifacts request False w = (Inr r, w')"
  shows "let t = t_cloud_run_stored_object (w_db w); t' = t_cloud_run_stored_object (w_db w');
      goes = (\<lambda>x. due (e_auth (w_env w)) (cx_before r) x \<and> self_inline x) in
    w_db w' = t_cloud_run_stored_object_update (\<lambda>_. t') (w_db w) \<and>
    int (length t) = int (length t') + cx_deleted_count r \<and>
    cx_deleted_count r \<le> max 0 (cq_limit request) \<and>
    (\<forall>i x. map_of t i = Some x \<longrightarrow> map_of t' i = Some x \<or> map_of t' i = None \<and> goes x) \<and>
    (cx_deleted_count r < cq_limit request \<longrightarrow> (\<forall>i x. map_of t' i = Some x \<longrightarrow> \<not> goes x))"
proof -
  have "cleaned request (e_auth (w_env w)) (w_db w) r (w_db w')"
    using wp_InrD [OF wp_cleanup assms(2)] .
  then obtain items v v' where d: "w_db v = w_db w" "w_db v' = w_db w'" "cx_deleted_count r = int (length items)"
    and ok: "deleted_ok (cq_limit request) (sort_key (\<lambda>x. (the (so_expires_at x), so_id x))
          (filter (due (e_auth (w_env w)) (cx_before r)) (rows (t_cloud_run_stored_object (w_db w)))))
          v items v'"
    by (auto simp: cleaned_def)
  let ?t = "t_cloud_run_stored_object (w_db w)" and ?ids = "map fst items"
  have t': "w_db w' = without_objects ?ids (w_db w)" using ok d by (simp add: deleted_ok_def Let_def)
  then have t: "t_cloud_run_stored_object (w_db w') = filter (\<lambda>(k, _). k \<notin> set ?ids) ?t"
    by (simp add: without_objects_def)
  let ?goes = "\<lambda>x. due (e_auth (w_env w)) (cx_before r) x \<and> self_inline x"
  have mem: "x \<in> set (rows ?t) \<longleftrightarrow> map_of ?t (so_id x) = Some x" for x
    using assms(1) by (force simp: rows_def keyed_def list_all_iff)
  have ids: "map so_id (rows ?t) = map fst ?t"
    using assms(1) by (auto simp: rows_def keyed_def list_all_iff)
  have "distinct (map so_id (rows ?t))" using assms(1) by (simp add: ids keyed_def)
  then have "distinct (map so_id (filter P (rows ?t)))" for P by (rule distinct_map_filter)
  then have "distinct (map so_id (sort_key f (filter P (rows ?t))))" for f :: "_ \<Rightarrow> int \<times> string" and P
    by (simp add: distinct_map)
  then have distinct: "distinct ?ids" using ok by (simp add: deleted_ok_def Let_def)
  have removed: "set ?ids \<subseteq> so_id ` {x \<in> set (rows ?t). ?goes x}"
    using ok by (auto simp: deleted_ok_def Let_def)
  have left: "\<forall>x \<in> set (rows ?t). ?goes x \<longrightarrow> so_id x \<in> set ?ids" if "cx_deleted_count r < cq_limit request"
    using ok d(3) that by (simp add: deleted_ok_def Let_def)
  have gone: "\<exists>x. map_of ?t i = Some x \<and> ?goes x" if "i \<in> set ?ids" for i
    using removed that mem by auto
  then have "set ?ids \<subseteq> fst ` set ?t" by (force dest: map_of_SomeD)
  then have count: "length (filter (\<lambda>(k, _). k \<notin> set ?ids) ?t) + length ?ids = length ?t"
    using assms(1) distinct by (intro filter_out_length) (simp_all add: keyed_def)
  have all: "i \<in> set ?ids"
    if "map_of ?t i = Some x" "?goes x" "cx_deleted_count r < cq_limit request" for i x
  proof -
    have "so_id x = i" using keyed_key [OF assms(1) that(1)] .
    then show ?thesis using left [OF that(3)] that(1,2) mem [of x] by auto
  qed
  have "w_db w' = t_cloud_run_stored_object_update (\<lambda>_. t_cloud_run_stored_object (w_db w')) (w_db w)"
    by (simp add: t' without_objects_def)
  moreover have "cx_deleted_count r \<le> max 0 (cq_limit request)"
    using ok d(3) by (simp add: deleted_ok_def Let_def)
  moreover have "\<forall>i x. map_of ?t i = Some x \<longrightarrow> i \<notin> set ?ids \<or> ?goes x"
    by (metis gone option.inject)
  moreover have "\<forall>i x. map_of ?t i = Some x \<longrightarrow> cx_deleted_count r < cq_limit request \<longrightarrow> i \<notin> set ?ids \<longrightarrow> \<not> ?goes x"
    by (metis all)
  moreover have "int (length ?t) = int (length (filter (\<lambda>(k, _). k \<notin> set ?ids) ?t)) + cx_deleted_count r"
    using count d(3) by simp
  ultimately show ?thesis
    unfolding Let_def t map_of_filter_out by simp
qed

text \<open>A run with one stored log.\<close>

definition stored_log :: cloud_run_stored_object where
  "stored_log = blank_cloud_run_stored_object\<lparr>so_id := ''obj'', so_workspace_id := ''w'',
     so_cloud_run_id := ''run'', so_kind := ''log'', so_uri := ''local-inline://cloud-run-objects/obj'',
     so_sha256 := ''hello'', so_size_bytes := 5, so_content_type := ''text/plain'',
     so_text_content := ''hello'', so_expires_at := Some 5000000\<rparr>"

definition artifact_db :: db where
  "artifact_db = sample_db\<lparr>t_cloud_run_stored_object := [(''obj'', stored_log)]\<rparr>"

theorem cleanup_deletes_expired_witness:
  "\<exists>r w'. cleanup_expired_cloud_run_artifacts \<lparr>cq_before = Some 9000000, cq_limit = 10\<rparr> False
       (world_of artifact_db) = (Inr r, w') \<and>
     t_cloud_run_stored_object (w_db w') = []"
proof -
  define out where "out = cleanup_expired_cloud_run_artifacts \<lparr>cq_before = Some 9000000, cq_limit = 10\<rparr> False
    (world_of artifact_db)"
  have "case fst out of Inl _ \<Rightarrow> False | Inr r \<Rightarrow> cx_deleted_count r = 1"
    unfolding out_def by code_simp
  then obtain r where r: "fst out = Inr r" "cx_deleted_count r = 1" by (auto split: sum.splits)
  have db: "w_db (world_of artifact_db) = artifact_db" by (simp add: world_of_def)
  have t: "t_cloud_run_stored_object artifact_db = [(''obj'', stored_log)]" by (simp add: artifact_db_def)
  have "keyed so_id (t_cloud_run_stored_object artifact_db)"
    by (simp add: t keyed_def stored_log_def)
  then have "length (t_cloud_run_stored_object (w_db (snd out))) = 0"
    using cleanup_deletes_expired [of "world_of artifact_db"
        "\<lparr>cq_before = Some 9000000, cq_limit = 10\<rparr>" r "snd out"] r
    by (simp add: out_def db t Let_def prod_eq_iff)
  then show ?thesis using r(1) by (metis length_0_conv out_def prod.collapse)
qed

end
