(* ===== verification/ArtifactLaws.thy ===== *)
theory ArtifactLaws
  imports CleanupLaws
begin

text \<open>
  What the artifact plane promises: a content that is shown is that of its descriptor and belongs to the
  caller's workspace, the shown URIs carry no credentials, and a cleanup deletes expired objects only.
\<close>

section \<open>Shown URIs\<close>

lemma wp_split_url [wp_simps]:
  "wp (split_url uri) Q E w =
     (case urlsplit uri of None \<Rightarrow> E (ValueError ''Invalid IPv6 URL'') w | Some u \<Rightarrow> Q u w)"
  by (simp add: split_url_def wp_simps split: option.split)

lemma wp_sha256_hex [wp_simps]: "wp (sha256_hex s) Q E w = Q (e_sha256 (w_env w) s) w"
  by (simp add: sha256_hex_def wp_simps)

text \<open>No query, no fragment, and an authority without user information.\<close>

definition shown_uri :: "string \<Rightarrow> bool" where
  "shown_uri s \<longleftrightarrow> CHR ''?'' \<notin> set s \<and> CHR ''#'' \<notin> set s \<and>
     (\<exists>u. s = url_without_query u \<and> CHR ''@'' \<notin> set (url_netloc u))"

lemma set_partition_at:
  "partition_at d s = (a, b, c) \<Longrightarrow> set a \<subseteq> set s \<and> set c \<subseteq> set s \<and> d \<notin> set a"
  by (auto simp: partition_at_def Let_def dest: set_takeWhileD in_set_dropD set_dropWhileD)

lemma rpartition_tail:
  assumes "rpartition_at d s = (a, b, c)"
  shows "set c \<subseteq> set s - {d}"
proof -
  obtain x y z where p: "partition_at d (rev s) = (x, y, z)" by (cases "partition_at d (rev s)")
  have "set x \<subseteq> set s - {d}" using set_partition_at [OF p] by auto
  moreover have "c = rev x \<or> (c = s \<and> d \<notin> set s)"
    using assms p by (auto simp: rpartition_at_def partition_at_def Let_def dropWhile_eq_Nil_conv
        split: bool.splits)
  ultimately show ?thesis by auto
qed

lemma lower_keeps:
  assumes "c \<in> set (lower s)" "(of_char c :: nat) < 65"
  shows "c \<in> set s"
proof -
  obtain x where x: "x \<in> set s" "c = lower_char x" using assms(1) by (auto simp: lower_def)
  have "(of_char (lower_char x) :: nat) < 65 \<Longrightarrow> lower_char x = x"
    by (auto simp: lower_char_def Let_def)
  then show ?thesis using x assms(2) by simp
qed

text \<open>The host of a URL takes its characters from behind the user information.\<close>

lemma hostname_chars:
  assumes "url_hostname u = Some h" "c \<in> set h" "(of_char c :: nat) < 65"
  shows "c \<in> set (url_netloc u) - {CHR ''@''}"
proof -
  obtain info at hostinfo where r: "rpartition_at (CHR ''@'') (url_netloc u) = (info, at, hostinfo)"
    by (cases "rpartition_at (CHR ''@'') (url_netloc u)")
  obtain pre bracket bracketed where b: "partition_at (CHR ''['') hostinfo = (pre, bracket, bracketed)"
    by (cases "partition_at (CHR ''['') hostinfo")
  define host where "host = (if bracket then fst (partition_at (CHR '']'') bracketed)
    else fst (partition_at (CHR '':'') hostinfo))"
  have inner: "set (fst (partition_at d x)) \<subseteq> set x" for d x
    using set_partition_at [of d x] by (cases "partition_at d x") auto
  have host: "set host \<subseteq> set hostinfo"
    using set_partition_at [OF b] inner [of "CHR '']''" bracketed] inner [of "CHR '':''" hostinfo]
    by (auto simp: host_def)
  obtain name percent zone where p: "partition_at (CHR ''%'') host = (name, percent, zone)"
    by (cases "partition_at (CHR ''%'') host")
  have h: "h = lower name @ (if percent then ''%'' @ zone else [])" and "host \<noteq> []"
    using assms(1) r b p by (auto simp: url_hostname_def host_def [symmetric] Let_def split: if_splits)
  have "percent \<Longrightarrow> CHR ''%'' \<in> set host"
    using p by (auto simp: partition_at_def Let_def)
  then have "c \<in> set host"
    using assms(2,3) h lower_keeps set_partition_at [OF p] by (auto split: if_splits)
  then show ?thesis using host rpartition_tail [OF r] by auto
qed

lemma show_nat_chars: "c \<in> set (show_int (int n)) \<Longrightarrow> is_digit c"
  using nat_digits_digits [of n] by (auto simp: show_int_def list_all_iff)

lemma redacted_netloc_chars:
  assumes "CHR ''?'' \<notin> set (url_netloc u)" "CHR ''#'' \<notin> set (url_netloc u)"
    and "d \<in> {CHR ''@'', CHR ''?'', CHR ''#''}"
  shows "d \<notin> set (redacted_netloc u)"
proof -
  have "(of_char d :: nat) < 65" using assms(3) by auto
  then have "d \<notin> set h" if "url_hostname u = Some h" for h
    using hostname_chars [OF that, of d] assms by auto
  moreover have "d \<notin> set (show_int (int n))" for n
    using show_nat_chars [of d n] assms(3) by (auto simp: is_digit_def Let_def)
  moreover have "d \<notin> {CHR ''['', CHR '']'', CHR '':''}" using assms(3) by auto
  ultimately show ?thesis
    by (cases "url_hostname u"; cases "url_port u") (simp_all add: redacted_netloc_def Let_def)
qed

lemma fst_partition_at: "c \<in> set (fst (partition_at d s)) \<Longrightarrow> c \<in> set s \<and> c \<noteq> d"
  using set_partition_at [of d s] by (cases "partition_at d s") auto

lemma path_chars:
  "c \<in> set (fst (partition_at (CHR ''?'') (fst (partition_at (CHR ''#'') s)))) \<Longrightarrow>
     c \<noteq> CHR ''?'' \<and> c \<noteq> CHR ''#''"
  using fst_partition_at [of c "CHR ''?''" "fst (partition_at (CHR ''#'') s)"]
    fst_partition_at [of c "CHR ''#''" s] by blast

lemma urlsplit_chars:
  assumes "urlsplit s = Some u" "d = CHR ''?'' \<or> d = CHR ''#''"
  shows "d \<notin> set (url_scheme u)" "d \<notin> set (url_netloc u)" "d \<notin> set (url_path u)"
proof -
  have "\<not> scheme_char d" "(of_char d :: nat) < 65"
    using assms(2) by (auto simp: scheme_char_def is_alnum_def Let_def)
  then have "d \<notin> set (lower a)" if "list_all scheme_char a" for a
    using that lower_keeps [of d a] by (auto simp: list_all_iff)
  then show "d \<notin> set (url_scheme u)"
    using assms(1) by (simp add: urlsplit_def Let_def case_prod_beta split: if_splits) (auto split: if_splits)
  show "d \<notin> set (url_netloc u)"
    using assms by (simp add: urlsplit_def Let_def case_prod_beta split: if_splits)
      (auto dest: set_takeWhileD split: if_splits)
  show "d \<notin> set (url_path u)"
    using assms by (simp add: urlsplit_def Let_def case_prod_beta split: if_splits)
      (auto dest!: path_chars split: if_splits)
qed

lemma redacted_shown:
  assumes "urlsplit s = Some u" shows "shown_uri (redacted_url u)"
proof -
  note chars = urlsplit_chars [OF assms]
  have "CHR ''@'' \<notin> set (redacted_netloc u)" "CHR ''?'' \<notin> set (redacted_netloc u)"
    "CHR ''#'' \<notin> set (redacted_netloc u)"
    by (rule redacted_netloc_chars; simp add: chars)+
  then have "shown_uri (redacted_url u)" if "v = u\<lparr>url_netloc := redacted_netloc u\<rparr>" for v
    unfolding shown_uri_def
    by (intro conjI exI [of _ v])
      (auto simp: redacted_url_def that url_without_query_def Let_def chars split: if_splits)
  then show ?thesis by simp
qed

section \<open>Sources\<close>

text \<open>
  What holds of a source: the reference it keeps, or the patch artifact it stands for, is that of its
  descriptor; the run is the one asked for.
\<close>

definition source_ok :: "world \<Rightarrow> cloud_run \<Rightarrow> artifact_source \<Rightarrow> bool" where
  "source_ok w run x \<longleftrightarrow>
     (let d = af_descriptor x in
      ad_cloud_run_id d = cr_id run \<and> ad_redacted_uri d = ad_uri d \<and> shown_uri (ad_uri d) \<and>
      (case af_patch_artifact_id x of
         Some i \<Rightarrow> ad_provider d = ''patch_artifact'' \<and> (\<exists>k pa. map_of (t_patch_artifact (w_db w)) k = Some pa \<and> pa_id pa = i \<and>
           ad_sha256 d = e_sha256 (w_env w) (pa_diff_text pa) \<and>
           ad_size_bytes d = utf8_length (pa_diff_text pa))
       | None \<Rightarrow> (\<exists>ref. af_storage_ref x = Some ref \<and> or_sha256 ref = ad_sha256 d \<and>
           or_size_bytes ref = ad_size_bytes d \<and>
           (ad_provider d = ''local_inline'' \<longrightarrow>
              (\<exists>u. urlsplit (or_uri ref) = Some u \<and> url_scheme u = ''local-inline''))) \<and>
           ad_provider d \<in> {''local_inline'', ''aliyun_oss'', ''patch_artifact'', ''unknown''}))"

text \<open>Actions that read and change nothing, with what their result satisfies.\<close>

definition reads :: "world \<Rightarrow> ('a \<Rightarrow> bool) \<Rightarrow> 'a action \<Rightarrow> bool" where
  "reads w P m \<longleftrightarrow> wp m (\<lambda>x w'. w' = w \<and> P x) (\<lambda>_ w'. w' = w) w"

lemma reads_ret: "P x \<Longrightarrow> reads w P (ret x)"
  by (simp add: reads_def wp_simps)

lemma reads_raise: "reads w P (raise e)"
  by (simp add: reads_def wp_simps)

lemma reads_bnd:
  assumes "reads w P m" "\<And>x. P x \<Longrightarrow> reads w Q (k x)"
  shows "reads w Q (bnd m k)"
  unfolding reads_def wp_bnd
  by (rule wp_mono [OF assms(1) [unfolded reads_def]]) (use assms(2) in \<open>auto simp: reads_def\<close>)

lemma reads_only_if: "(c \<Longrightarrow> reads w (\<lambda>_. True) m) \<Longrightarrow> reads w (\<lambda>_. True) (only_if c m)"
  by (simp add: only_if_def reads_ret)

lemma reads_weaken: "reads w P m \<Longrightarrow> (\<And>x. P x \<Longrightarrow> Q x) \<Longrightarrow> reads w Q m"
  unfolding reads_def by (erule wp_mono) auto

lemma reads_map_act: "(\<And>x. x \<in> set xs \<Longrightarrow> reads w P (f x)) \<Longrightarrow> reads w (\<lambda>ys. list_all P ys) (map_act f xs)"
proof (induction xs)
  case (Cons x xs)
  have "reads w (list_all P) (map_act f xs)" using Cons by simp
  then show ?case
    using Cons.prems [of x] by (auto intro!: reads_bnd [of w P] reads_bnd [of w "list_all P"] reads_ret)
qed (simp add: reads_ret)

lemma reads_descriptor:
  "reads w (\<lambda>d. ad_cloud_run_id d = cr_id run \<and> ad_redacted_uri d = ad_uri d \<and> shown_uri (ad_uri d) \<and>
      ad_sha256 d = sha \<and> ad_size_bytes d = bytes \<and> ad_provider d = provider)
    (descriptor_read run kind i provider uri sha bytes ctype created expires policy)"
  by (simp add: reads_def descriptor_read_def redact_uri_def wp_simps redacted_shown split: option.split)

lemma reads_provider: "reads w (\<lambda>p. (p = ''local_inline'' \<longrightarrow>
      (\<exists>u. urlsplit uri = Some u \<and> url_scheme u = ''local-inline'')) \<and>
      p \<in> {''local_inline'', ''aliyun_oss'', ''patch_artifact'', ''unknown''}) (provider_name_from_uri uri)"
  by (simp add: reads_def provider_name_from_uri_def wp_simps split: option.split)

lemma reads_uri_parts:
  "reads w (\<lambda>_. True) (local_inline_object_id uri)" "reads w (\<lambda>_. True) (is_local_inline_uri uri)"
  "reads w (\<lambda>_. True) (stable_artifact_id kind uri sha)" "reads w (\<lambda>_. True) (local_inline_stored_object uri)"
  by (simp_all add: reads_def local_inline_object_id_def is_local_inline_uri_def stable_artifact_id_def
      local_inline_stored_object_def wp_simps Let_def split: option.split)

lemma source_ok_ref:
  assumes "ad_cloud_run_id d = cr_id run \<and> ad_redacted_uri d = ad_uri d \<and> shown_uri (ad_uri d) \<and>
      ad_sha256 d = or_sha256 ref \<and> ad_size_bytes d = or_size_bytes ref \<and> ad_provider d = p"
    and "(p = ''local_inline'' \<longrightarrow> (\<exists>u. urlsplit (or_uri ref) = Some u \<and> url_scheme u = ''local-inline'')) \<and>
      p \<in> {''local_inline'', ''aliyun_oss'', ''patch_artifact'', ''unknown''}"
  shows "source_ok w run \<lparr>af_descriptor = d, af_storage_ref = Some ref, af_stored_object_id = obj,
    af_patch_artifact_id = None\<rparr>"
  using assms by (simp add: source_ok_def)

lemma source_ok_patch:
  assumes "ad_cloud_run_id d = cr_id run \<and> ad_redacted_uri d = ad_uri d \<and> shown_uri (ad_uri d) \<and>
      ad_sha256 d = e_sha256 (w_env w) (pa_diff_text pa) \<and> ad_size_bytes d = utf8_length (pa_diff_text pa) \<and>
      ad_provider d = ''patch_artifact''"
    and "map_of (t_patch_artifact (w_db w)) k = Some pa"
  shows "source_ok w run \<lparr>af_descriptor = d, af_storage_ref = None, af_stored_object_id = None,
    af_patch_artifact_id = Some (pa_id pa)\<rparr>"
  using assms by (auto simp: source_ok_def)

definition all_ok :: "world \<Rightarrow> cloud_run \<Rightarrow> artifact_source option \<Rightarrow> bool" where
  "all_ok w run s \<longleftrightarrow> (\<forall>x. s = Some x \<longrightarrow> source_ok w run x)"

lemma all_ok_simps [simp]: "all_ok w run None" "all_ok w run (Some x) = source_ok w run x"
  by (simp_all add: all_ok_def)

lemma reads_if: "(c \<Longrightarrow> reads w P m) \<Longrightarrow> (\<not> c \<Longrightarrow> reads w P n) \<Longrightarrow> reads w P (if c then m else n)"
  by simp

lemma reads_stored: "reads w (all_ok w run) (source_from_stored_object run obj)"
proof (cases "artifact_kind_or_none (so_kind obj)")
  case None
  then show ?thesis by (simp add: source_from_stored_object_def reads_ret)
next
  case (Some kind)
  show ?thesis
    unfolding source_from_stored_object_def Some option.case
    by (intro reads_bnd [OF reads_provider] reads_bnd [OF reads_uri_parts(1)] reads_if
        reads_bnd [OF reads_descriptor] reads_ret) (simp, simp, rule source_ok_ref, simp_all)
qed

lemma reads_metadata: "reads w (all_ok w run) (metadata_ref_source run kind uri sha bytes ctype)"
proof -
  have inline: "reads w (all_ok w run) (case obj of None \<Rightarrow> ret None
      | Some x \<Rightarrow> if c x then ret None else source_from_stored_object run x)" for obj c
    by (cases obj) (simp_all add: reads_ret reads_stored)
  show ?thesis
    unfolding metadata_ref_source_def
    by (cases uri; cases sha; cases bytes; cases ctype; simp add: reads_ret)
      (intro reads_bnd [OF reads_uri_parts(2)] reads_if reads_bnd [OF reads_uri_parts(4)] inline
        reads_bnd [OF reads_uri_parts(3)] reads_bnd [OF reads_provider] reads_bnd [OF reads_descriptor]
        reads_ret, simp, rule source_ok_ref, simp_all)
qed

lemma reads_patch: "reads w (all_ok w run) (patch_artifact_diff_source run)"
proof -
  have get: "reads w (\<lambda>f. f = map_of (t_patch_artifact (w_db w)) i) (db_get t_patch_artifact i)" for i
    by (simp add: reads_def wp_simps)
  have sha: "reads w (\<lambda>d. d = e_sha256 (w_env w) s) (sha256_hex s)" for s
    by (simp add: reads_def wp_simps)
  have found: "reads w (all_ok w run) (case f of None \<Rightarrow> ret None | Some pa \<Rightarrow>
      if c pa then ret None else bnd (sha256_hex (pa_diff_text pa)) (\<lambda>digest.
                                 bnd (descriptor_read run ''diff'' (i pa) ''patch_artifact'' (u pa) digest
          (utf8_length (pa_diff_text pa)) ''text/x-diff'' (Some (t pa)) None None) (\<lambda>descriptor.
                                 ret (Some \<lparr>af_descriptor = descriptor, af_storage_ref = None, af_stored_object_id = None,
          af_patch_artifact_id = Some (pa_id pa)\<rparr>))))"
    if "f = map_of (t_patch_artifact (w_db w)) k" for f k c i u t
  proof (cases f)
    case (Some pa)
    show ?thesis
      unfolding Some option.case
      by (intro reads_if reads_bnd [OF sha] reads_bnd [OF reads_descriptor] reads_ret)
        (use that Some in \<open>auto intro!: source_ok_patch [where k = k]\<close>)
  qed (simp add: reads_ret)
  show ?thesis
    unfolding patch_artifact_diff_source_def
    by (cases "cr_patch_artifact_id run") (simp_all add: reads_ret, rule reads_bnd [OF get], rule found)
qed

lemma unseen_subset: "set (unseen_sources seen xs) \<subseteq> set xs"
  by (induction seen xs rule: unseen_sources.induct) (auto simp: Let_def)

lemma filtered_ok: "list_all (all_ok w run) ss \<Longrightarrow> x \<in> set (List.map_filter id ss) \<Longrightarrow> source_ok w run x"
  by (auto simp: List.map_filter_def list_all_iff all_ok_def)

lemma reads_sources: "reads w (\<lambda>xs. \<forall>x \<in> set xs. source_ok w run x) (cloud_run_artifact_sources run)"
proof -
  have metadata: "reads w (\<lambda>xs. \<forall>x \<in> set xs. source_ok w run x) (cloud_run_metadata_ref_sources run)"
    unfolding cloud_run_metadata_ref_sources_def
    by (intro reads_bnd [OF reads_metadata] reads_ret) (auto simp: List.map_filter_simps split: option.splits)
  have select: "reads w (\<lambda>_. True) (db_select tab P)" for tab :: "db \<Rightarrow> 'r table" and P
    by (simp add: reads_def wp_simps)
  have patch: "reads w (all_ok w run) (if c then ret None else patch_artifact_diff_source run)" for c
    by (simp add: reads_ret reads_patch)
  show ?thesis
    unfolding cloud_run_artifact_sources_def Let_def
    by (intro reads_bnd [OF select] reads_bnd [OF reads_map_act [OF reads_stored]]
        reads_bnd [OF metadata] reads_bnd [OF patch] reads_ret)
      (auto dest: filtered_ok subsetD [OF unseen_subset] split: option.splits)
qed

section \<open>Reading\<close>

definition same_view :: "world \<Rightarrow> world \<Rightarrow> bool" where
  "same_view w w' \<longleftrightarrow> w_env w' = w_env w \<and> w_db w' = w_db w"

lemma same_view_refl [simp]: "same_view w w"
  by (simp add: same_view_def)

text \<open>The caller's own run, and the permission to read its artifacts.\<close>

definition own_run :: "world \<Rightarrow> string \<Rightarrow> cloud_run \<Rightarrow> bool" where
  "own_run w i run \<longleftrightarrow> map_of (t_cloud_run (w_db w)) i = Some run \<and>
     (\<forall>c. e_auth (w_env w) = Some c \<longrightarrow> cr_workspace_id run = ac_workspace_id c)"

lemma reads_run: "reads w (own_run w i) (get_cloud_run_or_404 i)"
  by (auto simp: reads_def own_run_def get_cloud_run_or_404_def wp_simps split: option.splits)

definition may_read :: "world \<Rightarrow> bool" where
  "may_read w \<longleftrightarrow> (\<forall>c. e_auth (w_env w) = Some c \<longrightarrow> permitted c ''artifact.sensitive.read'')"

lemma wp_may_read: "wp (may_read_artifacts oper i) (\<lambda>_ w'. w' = w \<and> may_read w) (\<lambda>_ _. True) w"
proof -
  have denial: "wp (record_denial a b c d) (\<lambda>x. wp (raise (e x)) Q (\<lambda>_ _. True)) (\<lambda>_ _. True) v"
    for a b c d e Q v
    by (rule wp_mono [OF wp_any]) (simp_all add: wp_simps)
  show ?thesis
    using denial
    by (auto simp: may_read_artifacts_def require_audited_workspace_permission_if_authenticated_def
        require_audited_workspace_permission_def require_workspace_permission_def
        allowed_roles_for_permission_def require_workspace_role_def may_read_def permitted_def wp_simps
        http_def split: option.splits)
qed

lemma wp_raise_if_expired:
  "wp (raise_if_expired e) (\<lambda>_ w'. same_view w w' \<and> (\<forall>t. e = Some t \<longrightarrow> (\<exists>n. e_clock (w_env w) n < t)))
    (\<lambda>_ _. True) w"
  by (auto simp: raise_if_expired_def same_view_def wp_simps not_le split: option.split)

text \<open>A text that is read has the digest and the size of its reference.\<close>

definition object_at :: "string \<Rightarrow> string" where
  "object_at uri = (case urlsplit uri of None \<Rightarrow> [] | Some u \<Rightarrow> dropWhile (\<lambda>c. c = CHR ''/'') (url_path u))"

lemma wp_load_settings: "wp load_aliyun_settings (\<lambda>_ w'. w' = w) (\<lambda>_ w'. w' = w) w"
  by (simp add: load_aliyun_settings_def stripped_env_def environ_def wp_simps)

lemma wp_read_text: "wp (read_text sv p ref)
    (\<lambda>content w'. same_view w w' \<and> e_sha256 (w_env w) content = or_sha256 ref \<and>
       utf8_length content = or_size_bytes ref \<and>
       (p = LocalInlineObjectStorage \<longrightarrow> (\<exists>x. map_of (t_cloud_run_stored_object (w_db w)) (object_at (or_uri ref)) =
          Some x \<and> so_text_content x = content))) (\<lambda>_ _. True) w"
proof (cases p)
  case LocalInlineObjectStorage
  then show ?thesis
    by (auto simp: read_text_def read_text_local_inline_def validate_artifact_kind_def
        parse_local_inline_object_id_def object_at_def wp_simps Let_def split: option.splits)
next
  case AliyunOssObjectStorage
  have settings: "wp (require_aliyun_settings n names) Q (\<lambda>_ _. True) w"
    if "\<And>x. Q x w" for n names and Q :: "aliyun_settings \<Rightarrow> world \<Rightarrow> bool"
    unfolding require_aliyun_settings_def wp_bnd
    by (rule wp_mono [OF wp_load_settings]) (use that in \<open>simp_all add: wp_simps Let_def\<close>)
  have checked: "wp (storage_validate_configuration AliyunOssObjectStorage) Q (\<lambda>_ _. True) w"
    if "Q () w" for Q
    using that by (simp add: wp_bnd) (rule settings, simp add: wp_simps)
  show ?thesis
    unfolding AliyunOssObjectStorage read_text_def object_storage_provider.case read_text_aliyun_oss_def
      require_aliyun_oss_settings_def wp_bnd
    by (rule checked, simp add: validate_artifact_kind_def wp_simps, intro impI, rule settings)
      (auto simp: parse_oss_ref_def external_or_def same_view_def wp_simps Let_def split: option.splits)
qed

lemma wp_scope:
  assumes "source_ok w run x" "af_patch_artifact_id x = None" "af_storage_ref x = Some ref"
  shows "wp (validate_local_inline_scope run x) (\<lambda>_ w'. same_view w w' \<and>
      (ad_provider (af_descriptor x) = ''local_inline'' \<longrightarrow>
        (\<exists>y. map_of (t_cloud_run_stored_object (w_db w)) (object_at (or_uri ref)) = Some y \<and>
           so_cloud_run_id y = cr_id run \<and> so_workspace_id y = cr_workspace_id run))) (\<lambda>_ _. True) w"
proof -
  have scheme: "ad_provider (af_descriptor x) = ''local_inline'' \<Longrightarrow>
      \<exists>u. urlsplit (or_uri ref) = Some u \<and> url_scheme u = ''local-inline''"
    using assms by (auto simp: source_ok_def Let_def)
  have expired: "wp (raise_if_expired e) (\<lambda>_. wp (only_if c (raise r)) (\<lambda>_. same_view w) (\<lambda>_ _. True))
      (\<lambda>_ _. True) w" for e c r
    by (rule wp_mono [OF wp_raise_if_expired]) (auto simp: wp_simps)
  show ?thesis
  proof (cases "\<exists>u. urlsplit (or_uri ref) = Some u \<and> url_scheme u = ''local-inline''")
    case False
    then have "ad_provider (af_descriptor x) \<noteq> ''local_inline''" using scheme by blast
    then show ?thesis
      using False by (simp add: validate_local_inline_scope_def assms(3) is_local_inline_uri_def wp_simps
          split: option.split)
  next
    case True
    then obtain u where u: "urlsplit (or_uri ref) = Some u" "url_scheme u = ''local-inline''" by auto
    let ?k = "dropWhile (\<lambda>c. c = CHR ''/'') (url_path u)"
    have k: "object_at (or_uri ref) = ?k" by (simp add: object_at_def u)
    show ?thesis
    proof (cases "map_of (t_cloud_run_stored_object (w_db w)) ?k")
      case None
      then show ?thesis
        by (simp add: validate_local_inline_scope_def assms(3) is_local_inline_uri_def u
            local_inline_object_id_def wp_simps Let_def)
    next
      case (Some y)
      show ?thesis
        unfolding k Some
        by (simp add: validate_local_inline_scope_def assms(3) is_local_inline_uri_def u
            local_inline_object_id_def wp_simps Let_def Some expired)
    qed
  qed
qed

text \<open>Where a content may come from.\<close>

definition content_in_scope :: "db \<Rightarrow> cloud_run \<Rightarrow> string \<Rightarrow> string \<Rightarrow> bool" where
  "content_in_scope d run provider content \<longleftrightarrow>
     (provider = ''local_inline'' \<longrightarrow>
        (\<exists>k x. map_of (t_cloud_run_stored_object d) k = Some x \<and> so_cloud_run_id x = cr_id run \<and>
           so_workspace_id x = cr_workspace_id run \<and> so_text_content x = content)) \<and>
     (provider = ''patch_artifact'' \<longrightarrow>
        (\<exists>k p. map_of (t_patch_artifact d) k = Some p \<and> cr_patch_artifact_id run = Some k \<and>
           pa_workspace_id p = cr_workspace_id run \<and> pa_task_id p = cr_task_id run \<and>
           pa_diff_text p = content)) \<and>
     provider \<in> {''local_inline'', ''patch_artifact'', ''aliyun_oss''}"

lemma wp_artifact_content:
  assumes "source_ok w run x" "keyed pa_id (t_patch_artifact (w_db w))" "same_view w v"
  shows "wp (artifact_content sv run x) (\<lambda>content v'.
      e_sha256 (w_env w) content = ad_sha256 (af_descriptor x) \<and>
      utf8_length content = ad_size_bytes (af_descriptor x) \<and>
      content_in_scope (w_db w) run (ad_provider (af_descriptor x)) content) (\<lambda>_ _. True) v"
proof (cases "af_patch_artifact_id x")
  case (Some i)
  then obtain k pa where pa: "map_of (t_patch_artifact (w_db w)) k = Some pa" "pa_id pa = i"
    "ad_sha256 (af_descriptor x) = e_sha256 (w_env w) (pa_diff_text pa)"
    "ad_size_bytes (af_descriptor x) = utf8_length (pa_diff_text pa)"
    "ad_provider (af_descriptor x) = ''patch_artifact''"
    using assms(1) by (auto simp: source_ok_def Let_def)
  then have "k = i" using keyed_key [OF assms(2) pa(1)] by simp
  have "pa_task_id pa = cr_task_id run \<Longrightarrow> pa_workspace_id pa = cr_workspace_id run \<Longrightarrow>
      Some i = cr_patch_artifact_id run \<Longrightarrow> content_in_scope (w_db w) run ''patch_artifact'' (pa_diff_text pa)"
    unfolding content_in_scope_def using pa(1) \<open>k = i\<close> by (intro conjI impI exI [of _ k] exI [of _ pa]) auto
  then show ?thesis
    using pa \<open>k = i\<close> assms(3)
    by (simp add: artifact_content_def Some read_patch_artifact_diff_def wp_simps same_view_def)
next
  case None
  then obtain ref where ref: "af_storage_ref x = Some ref" "or_sha256 ref = ad_sha256 (af_descriptor x)"
    "or_size_bytes ref = ad_size_bytes (af_descriptor x)"
    and provider: "ad_provider (af_descriptor x) \<in> {''local_inline'', ''aliyun_oss'', ''patch_artifact'', ''unknown''}"
    using assms(1) by (auto simp: source_ok_def Let_def)
  have ok: "source_ok v run x" using assms(1,3) None by (simp add: source_ok_def same_view_def Let_def)
  let ?Q = "\<lambda>content. e_sha256 (w_env w) content = ad_sha256 (af_descriptor x) \<and>
      utf8_length content = ad_size_bytes (af_descriptor x) \<and>
      content_in_scope (w_db w) run (ad_provider (af_descriptor x)) content"
  have reading: "wp (bnd (get_object_storage_provider (Some (ad_provider (af_descriptor x)))) (\<lambda>provider.
                     read_text sv provider ref)) (\<lambda>content _. ?Q content) (\<lambda>_ _. True) v'"
    if "same_view v v'" and "ad_provider (af_descriptor x) = ''local_inline'' \<longrightarrow>
        (\<exists>y. map_of (t_cloud_run_stored_object (w_db v)) (object_at (or_uri ref)) = Some y \<and>
           so_cloud_run_id y = cr_id run \<and> so_workspace_id y = cr_workspace_id run)" for v'
  proof -
    let ?p = "ad_provider (af_descriptor x)"
    have view: "w_env v' = w_env w" "w_db v' = w_db w" "w_db v = w_db w"
      using that(1) assms(3) by (simp_all add: same_view_def)
    consider (inline) "?p = ''local_inline''" | (oss) "?p = ''aliyun_oss''" |
      (other) "?p = ''patch_artifact'' \<or> ?p = ''unknown''" using provider by auto
    then show ?thesis
    proof cases
      case inline
      then show ?thesis
        using that(2)
        by (simp add: get_object_storage_provider_def wp_simps)
          (rule wp_mono [OF wp_read_text], auto simp: view ref content_in_scope_def, metis)
    next
      case oss
      then show ?thesis
        by (simp add: get_object_storage_provider_def wp_simps)
          (rule wp_mono [OF wp_read_text], auto simp: view ref content_in_scope_def)
    next
      case other
      then show ?thesis by (auto simp: get_object_storage_provider_def wp_simps)
    qed
  qed
  have any: "wp (storage_or_400 m) Q (\<lambda>_ _. True) v'" if "wp m Q (\<lambda>_ _. True) v'" for m v' and Q :: "string \<Rightarrow> world \<Rightarrow> bool"
    unfolding storage_or_400_def wp_try_catch
    by (rule wp_mono [OF that]) (auto simp: wp_simps split: exn.split)
  show ?thesis
    unfolding artifact_content_def None ref(1) option.case wp_bnd
    by (rule wp_mono [OF wp_scope [OF ok None ref(1)]]) (auto intro!: any reading)
qed

lemma reads_source:
  "reads w (source_ok w run) (cloud_run_artifact_source_for_run run i)"
  unfolding cloud_run_artifact_source_for_run_def
proof (rule reads_bnd [OF reads_sources])
  fix xs assume ok: "\<forall>x \<in> set xs. source_ok w run x"
  have "x \<in> set xs" if "first_of (filter P xs) = Some x" for P x
    using that by (cases "filter P xs") (auto simp: first_of_def dest!: filter_eq_ConsD)
  then show "reads w (source_ok w run) (case first_of (filter (\<lambda>x. ad_id (af_descriptor x) = i) xs) of
      None \<Rightarrow> raise artifact_not_found | Some x \<Rightarrow> ret x)"
    using ok by (auto simp: reads_raise reads_ret split: option.split)
qed

lemma wp_reads: "reads w P m \<Longrightarrow> (\<And>x. P x \<Longrightarrow> Q x w) \<Longrightarrow> wp m Q (\<lambda>_ _. True) w"
  unfolding reads_def by (erule wp_mono) auto



end
