(* ===== verification/RunLogs.thy ===== *)
theory RunLogs
  imports CloudRunQueue Base64
begin

text \<open>
  \<^verbatim>\<open>cloud_run_logs.py\<close>, \<^verbatim>\<open>cloud_run_log_sync.py\<close>: the log of a run in pages. A page takes first the log
  entries of the control plane, then the lines of the run's log stream; its cursor says where
  the next one begins. The stream may be fetched from the runtime before.
\<close>

section \<open>Times in texts\<close>

text \<open>
  \<^verbatim>\<open>datetime.isoformat\<close> and \<^verbatim>\<open>datetime.fromisoformat\<close> of a time without offset, as the database returns it.
  The reader takes dates with hyphens and times with colons, to any precision; an offset is checked
  and, as the database column has none, forgotten. The formats without these signs and those with
  week numbers are not read here.
\<close>

definition naive_isoformat :: "int \<Rightarrow> string" where
  "naive_isoformat t =
     (let n = day_of t; y = year_of_day n; m = month_of_day n;
          d = n - days_before_year y - days_before_month y m;
          r = t mod day_us; us = r mod 1000000; s = r div 1000000
      in pad 4 y @ ''-'' @ pad 2 (int m) @ ''-'' @ pad 2 d @ ''T'' @ pad 2 (s div 3600) @ '':'' @
         pad 2 (s div 60 mod 60) @ '':'' @ pad 2 (s mod 60) @
         (if us = 0 then [] else ''.'' @ pad 6 us))"

text \<open>A number of exactly \<open>k\<close> figures at the front of a text.\<close>

definition read_figures :: "nat \<Rightarrow> string \<Rightarrow> (int \<times> string) option" where
  "read_figures k s =
     (if k \<le> length s \<and> list_all is_digit (take k s) then Some (digits_value (take k s), drop k s) else None)"

definition read_sign :: "char \<Rightarrow> (int \<times> string) option \<Rightarrow> (int \<times> string) option" where
  "read_sign c found =
     (case found of Some (v, d # rest) \<Rightarrow> if d = c then Some (v, rest) else None | _ \<Rightarrow> None)"

definition read_date :: "string \<Rightarrow> (int \<times> string) option" where
  "read_date s =
     (case read_sign (CHR ''-'') (read_figures 4 s) of
        None \<Rightarrow> None
      | Some (y, s) \<Rightarrow>
          (case read_sign (CHR ''-'') (read_figures 2 s) of
             None \<Rightarrow> None
           | Some (m, s) \<Rightarrow>
               (case read_figures 2 s of
                  None \<Rightarrow> None
                | Some (d, s) \<Rightarrow>
                    if 1 \<le> y \<and> 1 \<le> m \<and> m \<le> 12 \<and> 1 \<le> d \<and> d \<le> month_lengths y ! (nat m - 1)
                    then Some (ymd2ord y (nat m) d, s) else None)))"

definition read_fraction :: "string \<Rightarrow> (int \<times> string) option" where
  "read_fraction s =
     (case s of
        c # cs \<Rightarrow>
          if c = CHR ''.'' \<or> c = CHR '','' then
            (let ds = takeWhile is_digit cs
             in if ds = [] then None
                else Some (digits_value (take 6 (ds @ ''00000'')), dropWhile is_digit cs))
          else Some (0, s)
      | [] \<Rightarrow> Some (0, []))"

text \<open>Hours, then minutes and seconds when there are colons; the result counts microseconds.\<close>

definition read_clock :: "string \<Rightarrow> (int \<times> string) option" where
  "read_clock s =
     (case read_figures 2 s of
        None \<Rightarrow> None
      | Some (h, s) \<Rightarrow>
          if \<not> starts_with '':'' s then Some (h * 3600000000, s)
          else
            (case read_figures 2 (drop 1 s) of
               None \<Rightarrow> None
             | Some (m, s) \<Rightarrow>
                 if 60 \<le> m then None
                 else if \<not> starts_with '':'' s then Some (h * 3600000000 + m * 60000000, s)
                 else
                   (case read_figures 2 (drop 1 s) of
                      None \<Rightarrow> None
                    | Some (x, s) \<Rightarrow>
                        if 60 \<le> x then None
                        else map_option (\<lambda>(us, s). (h * 3600000000 + m * 60000000 + x * 1000000 + us, s))
                          (read_fraction s))))"

definition offset_valid :: "string \<Rightarrow> bool" where
  "offset_valid s =
     (case s of
        [] \<Rightarrow> True
      | c # cs \<Rightarrow>
          if c = CHR ''Z'' then cs = []
          else (c = CHR ''+'' \<or> c = CHR ''-'') \<and>
            (case read_clock cs of Some (v, rest) \<Rightarrow> rest = [] \<and> v < day_us | None \<Rightarrow> False))"

definition fromisoformat :: "string \<Rightarrow> int option" where
  "fromisoformat s =
     (case read_date s of
        None \<Rightarrow> None
      | Some (n, []) \<Rightarrow> Some ((n - epoch_day) * day_us)
      | Some (n, _ # clock) \<Rightarrow>
          (case read_clock clock of
             None \<Rightarrow> None
           | Some (v, offset) \<Rightarrow>
               if v < day_us \<and> offset_valid offset then Some ((n - epoch_day) * day_us + v) else None))"

section \<open>Cursors\<close>

record log_window_cursor =
  wc_source :: string
  wc_created_at :: "int option"
  wc_id :: "string option"
  wc_stream_line :: "int option"

text \<open>
  \<^verbatim>\<open>base64.urlsafe_b64decode\<close> of a text of its alphabet, whose padding was completed; \<open>None\<close> is
  \<^verbatim>\<open>binascii.Error\<close>, for a lone character at the end.
\<close>

definition b64_value :: "char \<Rightarrow> nat option" where
  "b64_value c =
     (let n = (of_char c :: nat) in
      if 65 \<le> n \<and> n \<le> 90 then Some (n - 65)
      else if 97 \<le> n \<and> n \<le> 122 then Some (n - 71)
      else if 48 \<le> n \<and> n \<le> 57 then Some (n + 4)
      else if n = 45 then Some 62
      else if n = 95 then Some 63
      else None)"

fun sextets_bytes :: "nat list \<Rightarrow> nat list option" where
  "sextets_bytes [] = Some []"
| "sextets_bytes [a] = None"
| "sextets_bytes [a, b] = Some [4 * a + b div 16]"
| "sextets_bytes [a, b, c] = Some [4 * a + b div 16, b mod 16 * 16 + c div 4]"
| "sextets_bytes (a # b # c # d # xs) =
     map_option (\<lambda>bs. [4 * a + b div 16, b mod 16 * 16 + c div 4, c mod 4 * 64 + d] @ bs) (sextets_bytes xs)"

text \<open>
  \<^verbatim>\<open>bytes.decode("utf-8")\<close>: one byte below 128, two for the other characters of this model. A text
  with further characters is refused.
\<close>

fun utf8_decode :: "nat list \<Rightarrow> string option" where
  "utf8_decode [] = Some []"
| "utf8_decode [a] = (if a < 128 then Some [char_of a] else None)"
| "utf8_decode (a # b # bs) =
     (if a < 128 then map_option ((#) (char_of a)) (utf8_decode (b # bs))
      else if (a = 194 \<or> a = 195) \<and> 128 \<le> b \<and> b < 192
      then map_option ((#) (char_of (64 * (a - 192) + (b - 128)))) (utf8_decode bs)
      else None)"

text \<open>\<open>None\<close> is a \<^verbatim>\<open>ValueError\<close>. A Boolean is an instance of \<^verbatim>\<open>int\<close>.\<close>

definition cursor_from_payload :: "json \<Rightarrow> log_window_cursor option" where
  "cursor_from_payload payload =
     (case jget payload ''source'' of
        Some (JStr source) \<Rightarrow>
          if source = ''control_plane'' then
            (case (jget payload ''created_at'', jget payload ''id'') of
               (Some (JStr created_at_value), Some (JStr entry_id)) \<Rightarrow>
                 map_option (\<lambda>t. \<lparr>wc_source = ''control_plane'', wc_created_at = Some t,
                   wc_id = Some entry_id, wc_stream_line = None\<rparr>) (fromisoformat created_at_value)
             | _ \<Rightarrow> None)
          else if source = ''log_stream'' then
            (let stream_cursor = (\<lambda>line. \<lparr>wc_source = ''log_stream'', wc_created_at = None, wc_id = None,
               wc_stream_line = line\<rparr>)
             in case jget payload ''stream_line'' of
                  None \<Rightarrow> Some (stream_cursor None)
                | Some JNull \<Rightarrow> Some (stream_cursor None)
                | Some (JInt n) \<Rightarrow> if n < 0 then None else Some (stream_cursor (Some n))
                | Some (JBool b) \<Rightarrow> Some (stream_cursor (Some (if b then 1 else 0)))
                | _ \<Rightarrow> None)
          else None
      | _ \<Rightarrow> None)"

definition cursor_payload :: "string \<Rightarrow> json option" where
  "cursor_payload after =
     (case those (map b64_value after) of
        None \<Rightarrow> None
      | Some sextets \<Rightarrow>
          if after = [] then None
          else Option.bind (Option.bind (sextets_bytes sextets) utf8_decode) json_loads)"

definition decode_cursor :: "string option \<Rightarrow> log_window_cursor option action" where
  "decode_cursor after =
     (case after of
        None \<Rightarrow> ret None
      | Some a \<Rightarrow>
          (case cursor_payload a of
             Some (JObj kvs) \<Rightarrow>
               (case cursor_from_payload (JObj kvs) of
                  None \<Rightarrow> raise (http 400 ''Invalid log cursor'')
                | Some cursor \<Rightarrow> ret (Some cursor))
           | _ \<Rightarrow> raise (http 400 ''Invalid log cursor'')))"

text \<open>\<^verbatim>\<open>json.dumps\<close> of the four members of a cursor, in the order of their names and without blanks.\<close>

definition encode_cursor :: "json \<Rightarrow> json \<Rightarrow> json \<Rightarrow> json \<Rightarrow> string" where
  "encode_cursor created_at i source stream_line =
     b64url (map of_char
       (''{'' @ json_string ''created_at'' @ '':'' @ json_dumps created_at @ '','' @
        json_string ''id'' @ '':'' @ json_dumps i @ '','' @
        json_string ''source'' @ '':'' @ json_dumps source @ '','' @
        json_string ''stream_line'' @ '':'' @ json_dumps stream_line @ ''}''))"

section \<open>Entries\<close>

record cloud_run_log_window_entry_read =
  we_id :: string
  we_cloud_run_id :: string
  we_source :: string
  we_level :: string
  we_event :: string
  we_message :: string
  we_payload :: "json option"
  we_created_at :: int
  we_sequence :: int

record cloud_run_log_window_read =
  wr_entries :: "cloud_run_log_window_entry_read list"
  wr_next_cursor :: "string option"
  wr_has_more :: bool

definition entry_cursor :: "cloud_run_log_window_entry_read \<Rightarrow> string" where
  "entry_cursor entry =
     (if we_source entry = ''log_stream''
      then encode_cursor JNull JNull (JStr ''log_stream'') (JInt (we_sequence entry + 1))
      else encode_cursor (JStr (naive_isoformat (we_created_at entry))) (JStr (we_id entry))
        (JStr (we_source entry)) JNull)"

definition log_window_entry_read :: "cloud_run_log_entry \<Rightarrow> nat \<Rightarrow> cloud_run_log_window_entry_read" where
  "log_window_entry_read entry sequence =
     \<lparr>we_id = lg_id entry, we_cloud_run_id = lg_cloud_run_id entry, we_source = ''control_plane'',
      we_level = lg_level entry, we_event = lg_event entry, we_message = lg_message entry,
      we_payload = lg_payload entry, we_created_at = lg_created_at entry, we_sequence = int sequence\<rparr>"

definition after_cursor :: "log_window_cursor option \<Rightarrow> cloud_run_log_entry \<Rightarrow> bool" where
  "after_cursor cursor entry =
     (case cursor of
        None \<Rightarrow> True
      | Some c \<Rightarrow>
          (case (wc_created_at c, wc_id c) of
             (Some t, Some i) \<Rightarrow> t < lg_created_at entry \<or> lg_created_at entry = t \<and> i < lg_id entry
           | _ \<Rightarrow> True))"

definition of_stream :: "log_window_cursor option \<Rightarrow> bool" where
  "of_stream cursor = (case cursor of None \<Rightarrow> False | Some c \<Rightarrow> wc_source c = ''log_stream'')"

definition control_plane_entries ::
  "cloud_run \<Rightarrow> log_window_cursor option \<Rightarrow> int \<Rightarrow> cloud_run_log_window_entry_read list action" where
  "control_plane_entries cloud_run cursor limit =
     (if of_stream cursor then ret []
      else bnd (db_select t_cloud_run_log_entry
          (\<lambda>x. lg_cloud_run_id x = cr_id cloud_run \<and> after_cursor cursor x)) (\<lambda>found.
           let listed = take (nat limit) (sort_key (\<lambda>x. (lg_created_at x, lg_id x)) found) in
           ret (map (\<lambda>(n, x). log_window_entry_read x n) (enumerate 0 listed))))"

section \<open>The log stream\<close>

text \<open>\<^verbatim>\<open>str.splitlines\<close>.\<close>

definition line_end :: "char \<Rightarrow> bool" where
  "line_end c \<longleftrightarrow> of_char c \<in> {10, 11, 12, 13, 28, 29, 30, 133::nat}"

fun split_lines :: "string \<Rightarrow> string \<Rightarrow> string list" where
  "split_lines line [] = (if line = [] then [] else [line])"
| "split_lines line (c # cs) =
     (if c = CHR 0x0D \<and> starts_with [CHR 0x0A] cs then line # split_lines [] (drop 1 cs)
      else if line_end c then line # split_lines [] cs
      else split_lines (line @ [c]) cs)"

definition splitlines :: "string \<Rightarrow> string list" where
  "splitlines s = split_lines [] s"

text \<open>
  The matches of \<^verbatim>\<open>STREAM_SECRET_PATTERN\<close> and \<^verbatim>\<open>STREAM_BEARER_PATTERN\<close> at the front of a text: the key and what
  follows the match, and what follows it. The characters of a key reach as far as they can, because only
  blanks, a colon or an equals sign may follow the key.
\<close>

definition stream_key_char :: "char \<Rightarrow> bool" where
  "stream_key_char c \<longleftrightarrow> is_alnum c \<or> c \<in> set ''_.-''"

definition stream_keywords :: "string list" where
  "stream_keywords = [''access_token'', ''access-token'', ''accesstoken'', ''authorization'', ''password'',
     ''secret'', ''token'', ''api_key'', ''api-key'', ''apikey'', ''sig'']"

fun has_keyword :: "string \<Rightarrow> bool" where
  "has_keyword [] = False"
| "has_keyword (c # cs) = (list_ex (\<lambda>k. starts_with k (c # cs)) stream_keywords \<or> has_keyword cs)"

definition not_blank :: "char \<Rightarrow> bool" where
  "not_blank c \<longleftrightarrow> \<not> is_space c"

definition after_bearer :: "string \<Rightarrow> string option" where
  "after_bearer s = Option.bind (Option.bind (after_word ''bearer'' s) after_spaces) (after_value not_blank)"

definition stream_secret_match :: "string \<Rightarrow> (string \<times> string) option" where
  "stream_secret_match s =
     (let key = takeWhile stream_key_char s in
      if has_keyword (lower key) \<and> word_char (last key)
      then map_option (Pair key)
        (Option.bind (after_separator (dropWhile stream_key_char s))
          (\<lambda>v. case after_bearer v of Some r \<Rightarrow> Some r | None \<Rightarrow> after_value not_blank v))
      else None)"

text \<open>\<^verbatim>\<open>pattern.sub\<close> at the boundaries of words; \<open>inside\<close> says that a character of a word precedes.\<close>

primrec sub_stream_secrets :: "nat \<Rightarrow> bool \<Rightarrow> string \<Rightarrow> string" where
  "sub_stream_secrets 0 inside s = s"
| "sub_stream_secrets (Suc n) inside s =
     (case s of
        [] \<Rightarrow> []
      | c # cs \<Rightarrow>
          (case (if inside = word_char c then None else stream_secret_match s) of
             Some (key, rest) \<Rightarrow> key @ ''=[redacted]'' @ sub_stream_secrets n False rest
           | None \<Rightarrow> c # sub_stream_secrets n (word_char c) cs))"

primrec sub_stream_bearers :: "nat \<Rightarrow> bool \<Rightarrow> string \<Rightarrow> string" where
  "sub_stream_bearers 0 inside s = s"
| "sub_stream_bearers (Suc n) inside s =
     (case s of
        [] \<Rightarrow> []
      | c # cs \<Rightarrow>
          (case (if inside then None else after_bearer s) of
             Some rest \<Rightarrow> ''Bearer [redacted]'' @ sub_stream_bearers n False rest
           | None \<Rightarrow> c # sub_stream_bearers n (word_char c) cs))"

definition redact_stream_line :: "string \<Rightarrow> string" where
  "redact_stream_line line =
     (let redacted = sub_stream_secrets (length line) False line
      in sub_stream_bearers (length redacted) False redacted)"

text \<open>The reference the row keeps, the same in both files.\<close>

definition log_stream_ref :: "cloud_run \<Rightarrow> object_storage_ref option" where
  "log_stream_ref cloud_run =
     (case (cr_log_stream_uri cloud_run, cr_log_stream_sha256 cloud_run, cr_log_stream_size_bytes cloud_run,
            cr_log_stream_content_type cloud_run) of
        (Some uri, Some sha256, Some size_bytes, Some content_type) \<Rightarrow>
          Some \<lparr>or_kind = ''log'', or_uri = uri, or_sha256 = sha256, or_size_bytes = size_bytes,
            or_content_type = content_type\<rparr>
      | _ \<Rightarrow> None)"

definition object_storage_provider_name :: "string \<Rightarrow> string option action" where
  "object_storage_provider_name uri = bnd (split_url uri) (\<lambda>parsed.
                                      ret (if url_scheme parsed = ''local-inline'' then Some ''local_inline''
          else if url_scheme parsed = ''oss'' then Some ''aliyun_oss'' else None))"

definition max_log_stream_read_bytes :: int where
  "max_log_stream_read_bytes = 1024 * 1024"

definition stream_entry ::
  "cloud_run \<Rightarrow> string \<Rightarrow> nat \<times> string \<Rightarrow> cloud_run_log_window_entry_read" where
  "stream_entry cloud_run redacted_uri =
     (\<lambda>(line_number, line). \<lparr>we_id = cr_id cloud_run @ '':log-stream:'' @ show_int (int line_number),
        we_cloud_run_id = cr_id cloud_run, we_source = ''log_stream'', we_level = ''info'',
        we_event = ''log_stream'', we_message = redact_stream_line line,
        we_payload = Some (JObj [(''source'', JStr ''log_stream''), (''line'', JInt (int line_number + 1)),
          (''uri'', JStr redacted_uri)]),
        we_created_at = cr_created_at cloud_run, we_sequence = int line_number\<rparr>)"

definition log_stream_entries ::
  "services \<Rightarrow> cloud_run \<Rightarrow> log_window_cursor option \<Rightarrow> int \<Rightarrow> cloud_run_log_window_entry_read list action" where
  "log_stream_entries sv cloud_run cursor limit =
     (if limit \<le> 0 then ret []
      else
        (let start_line = (if of_stream cursor
               then (case Option.bind cursor wc_stream_line of None \<Rightarrow> 0 | Some n \<Rightarrow> n) else 0)
         in case log_stream_ref cloud_run of
              None \<Rightarrow> ret []
            | Some ref \<Rightarrow>
                if max_log_stream_read_bytes < or_size_bytes ref then ret []
                else bnd (object_storage_provider_name (or_uri ref)) (\<lambda>provider_name.
                     case provider_name of
                    None \<Rightarrow> ret []
                  | Some name \<Rightarrow> bnd (try_catch (bnd (get_object_storage_provider (Some name)) (\<lambda>provider.
                                              bnd (read_text sv provider ref) (\<lambda>content.
                                              ret (Some content)))) (\<lambda>_. ret None)) (\<lambda>text_read.
                                case text_read of
                        None \<Rightarrow> ret []
                      | Some content \<Rightarrow> bnd (split_url (or_uri ref)) (\<lambda>parsed.
                                       ret (take (nat limit) (map (stream_entry cloud_run (url_without_query parsed))
                            (filter (\<lambda>(line_number, _). start_line \<le> int line_number)
                              (enumerate 0 (splitlines content))))))))))"

section \<open>Synchronisation\<close>

definition persist_log_stream_ref :: "object_storage_ref \<Rightarrow> cloud_run \<Rightarrow> cloud_run" where
  "persist_log_stream_ref ref r = r\<lparr>
     cr_log_stream_uri := Some (or_uri ref),
     cr_log_stream_sha256 := Some (or_sha256 ref),
     cr_log_stream_size_bytes := Some (or_size_bytes ref),
     cr_log_stream_content_type := Some (or_content_type ref)\<rparr>"

definition sync_logs ::
  "services \<Rightarrow> remote_runtime_provider \<Rightarrow> remote_runtime_log_sync_request \<Rightarrow>
     remote_runtime_log_sync_result action" where
  "sync_logs sv provider =
     (case provider of RemoteStubRuntime \<Rightarrow> sync_logs_remote_stub sv | AliyunEciRuntime \<Rightarrow> sync_logs_aliyun_eci sv)"

text \<open>The reason that is recorded for an exception of the provider.\<close>

definition failed_sync_reason :: "exn \<Rightarrow> string" where
  "failed_sync_reason exc = (case exc of
     AliyunConfigurationError _ \<Rightarrow> ''log_sync_provider_unavailable''
   | ObjectStorageReadError _ \<Rightarrow> ''log_sync_provider_unavailable''
   | ObjectStorageProviderNotFound _ \<Rightarrow> ''log_sync_provider_unavailable''
   | _ \<Rightarrow> ''log_sync_provider_failed'')"

text \<open>The run is handed on as the session sees it afterwards.\<close>

definition sync_cloud_run_log_stream ::
  "services \<Rightarrow> cloud_run \<Rightarrow> (remote_runtime_log_sync_result \<times> cloud_run) action" where
  "sync_cloud_run_log_stream sv cloud_run = bnd (try_catch (bnd (get_remote_runtime_provider (cr_runtime_provider cloud_run)) (\<lambda>p. ret (Some p)))
       (\<lambda>exc. case exc of RemoteRuntimeProviderNotFound _ \<Rightarrow> ret None | _ \<Rightarrow> raise exc)) (\<lambda>looked_up.
                                            case looked_up of
       None \<Rightarrow> ret (sync_result LS_UNSUPPORTED (Some ''unknown_runtime_provider''), cloud_run)
     | Some None \<Rightarrow> ret (sync_result LS_SKIPPED (Some ''missing_runtime_provider''), cloud_run)
     | Some (Some provider) \<Rightarrow> bnd (try_catch (bnd (sync_logs sv provider
             \<lparr>lq_workspace_id = cr_workspace_id cloud_run, lq_project_id = cr_project_id cloud_run,
              lq_task_id = cr_task_id cloud_run, lq_cloud_run_id = cr_id cloud_run,
              lq_runtime_job_id = cr_runtime_job_id cloud_run,
              lq_storage_provider = cr_storage_provider cloud_run,
              lq_current_log_stream_ref = log_stream_ref cloud_run\<rparr>) (\<lambda>r. ret (Inr r)))
           (\<lambda>exc. ret (Inl (failed_sync_reason exc)))) (\<lambda>outcome.
                              case outcome of
           Inl reason \<Rightarrow> bnd rollback (\<lambda>_.
                        bnd (db_refresh t_cloud_run cr_id cloud_run) (\<lambda>cloud_run.
                        ret (sync_result LS_SKIPPED (Some reason), cloud_run)))
         | Inr result \<Rightarrow>
             (case (ly_status result, ly_log_stream_ref result) of
                (LS_UPDATED, Some ref) \<Rightarrow> bnd (set_cloud_run cloud_run (persist_log_stream_ref ref)) (\<lambda>cloud_run.
                                         bnd commit (\<lambda>_.
                                         bnd (db_refresh t_cloud_run cr_id cloud_run) (\<lambda>cloud_run.
                                         ret (result, cloud_run))))
              | _ \<Rightarrow> ret (result, cloud_run))))"

section \<open>Pages\<close>

text \<open>The part between the permission and the audit record.\<close>

definition log_window_of ::
  "services \<Rightarrow> cloud_run \<Rightarrow> log_window_cursor option \<Rightarrow> int \<Rightarrow> bool \<Rightarrow> cloud_run_log_window_read action" where
  "log_window_of sv cloud_run cursor limit include_stream = bnd (control_plane_entries cloud_run cursor (limit + 1)) (\<lambda>entries.
                                                            bnd (if include_stream \<and> int (length entries) \<le> limit
       then log_stream_entries sv cloud_run cursor (limit + 1 - int (length entries)) else ret []) (\<lambda>stream.
                                                            let entries = entries @ stream in
                                                            ret (if limit < int (length entries)
       then \<lparr>wr_entries = take (nat limit) entries,
         wr_next_cursor = Some (entry_cursor (last (take (nat limit) entries))), wr_has_more = True\<rparr>
       else \<lparr>wr_entries = entries, wr_next_cursor = None, wr_has_more = False\<rparr>)))"

definition list_cloud_run_log_window ::
  "services \<Rightarrow> string \<Rightarrow> string option \<Rightarrow> int \<Rightarrow> bool \<Rightarrow> bool \<Rightarrow> cloud_run_log_window_read action" where
  "list_cloud_run_log_window sv cloud_run_id after limit include_stream sync_stream = bnd (get_cloud_run_or_404 cloud_run_id) (\<lambda>cloud_run.
                                                                                      bnd (require_audited_workspace_permission_if_authenticated ''log.sensitive.read''
       ''cloud_log.window.read'' ''cloud_run_log'' (Some (cr_id cloud_run)) AL_HIGH_SENSITIVE_READ) (\<lambda>should_audit.
                                                                                      bnd (decode_cursor after) (\<lambda>cursor.
                                                                                      bnd (if include_stream \<and> sync_stream
       then bnd (sync_cloud_run_log_stream sv cloud_run) (\<lambda>(_, cloud_run). ret cloud_run) else ret cloud_run) (\<lambda>cloud_run.
                                                                                      bnd (log_window_of sv cloud_run cursor limit include_stream) (\<lambda>result.
                                                                                      bnd (only_if should_audit (audit_sensitive_read ''cloud_log.window.read'' ''cloud_run_log''
       (Some (cr_id cloud_run)) [(''count'', JInt (int (length (wr_entries result)))),
         (''has_more'', JBool (wr_has_more result))])) (\<lambda>_.
                                                                                      ret result))))))"

end
