(* ===== verification/LogCursors.thy ===== *)
theory LogCursors
  imports RunLogs
begin

text \<open>
  A cursor that was written is read back: the figures of a time, base64, UTF-8 and the members of
  the JSON object.
\<close>

section \<open>Figures\<close>

lemma digits_value_Nil [simp]: "digits_value [] = 0"
  by (simp add: digits_value_def)

lemma digits_value_zeros [simp]: "digits_value (replicate m (CHR ''0'') @ s) = digits_value s"
  by (induction m) (simp_all add: digits_value_def)

lemma nat_digits_length: "n < 10 ^ k \<Longrightarrow> 0 < k \<Longrightarrow> length (nat_digits n) \<le> k"
proof (induction n arbitrary: k rule: nat_digits.induct)
  case (1 n)
  show ?case
  proof (cases "n < 10")
    case True
    then show ?thesis using "1.prems" by (subst nat_digits.simps) simp
  next
    case False
    then obtain j where j: "k = Suc j" "0 < j" using "1.prems" by (cases k; cases "k - 1") auto
    then have "n div 10 < 10 ^ j" using "1.prems"(1) by (simp add: less_mult_imp_div_less mult.commute)
    then show ?thesis using "1.IH" [OF False _ j(2)] False j(1) by (subst nat_digits.simps) simp
  qed
qed

lemma show_int_nat: "0 \<le> n \<Longrightarrow> show_int n = nat_digits (nat n)"
  by (simp add: show_int_def)

lemma pad_digits:
  assumes "0 \<le> n" "n < 10 ^ k" "0 < k"
  shows "length (pad k n) = k" "list_all is_digit (pad k n)" "digits_value (pad k n) = n"
proof -
  have "nat n < 10 ^ k" using assms by (simp add: nat_less_iff)
  then have "length (nat_digits (nat n)) \<le> k" using nat_digits_length assms(3) by blast
  then show "length (pad k n) = k" using assms by (simp add: pad_def Let_def show_int_nat)
  show "list_all is_digit (pad k n)"
    using assms nat_digits_digits [of "nat n"]
    by (auto simp: pad_def Let_def show_int_nat list_all_iff is_digit_def set_replicate_conv_if split: if_splits)
  show "digits_value (pad k n) = n"
    using assms nat_digits_value [of "nat n"] by (simp add: pad_def Let_def show_int_nat)
qed

lemma read_pad:
  assumes "0 \<le> n" "n < 10 ^ k" "0 < k"
  shows "read_figures k (pad k n @ r) = Some (n, r)"
  using pad_digits [OF assms] by (simp add: read_figures_def)

lemma read_pad2: "0 \<le> n \<Longrightarrow> n < 100 \<Longrightarrow> read_figures 2 (pad 2 n @ r) = Some (n, r)"
  by (rule read_pad) simp_all

lemma read_fraction_pad:
  assumes "0 \<le> us" "us < 1000000"
  shows "read_fraction (CHR ''.'' # pad 6 us) = Some (us, [])"
proof -
  have p: "length (pad 6 us) = 6" "list_all is_digit (pad 6 us)" "digits_value (pad 6 us) = us"
    using assms by (simp_all add: pad_digits)
  then have tw: "takeWhile is_digit (pad 6 us) = pad 6 us" and "dropWhile is_digit (pad 6 us) = []"
    and "pad 6 us \<noteq> []"
    by (auto simp: list_all_iff takeWhile_eq_all_conv dropWhile_eq_Nil_conv)
  then show ?thesis using p(1,3) by (simp add: read_fraction_def Let_def tw)
qed

section \<open>Times\<close>

text \<open>The times Python can represent, from year 1 to year 9999.\<close>

definition datetime_range :: "int \<Rightarrow> bool" where
  "datetime_range t \<longleftrightarrow> - (719162 * day_us) \<le> t \<and> t < 2932897 * day_us"

lemma days_before_year_mono: "a \<le> b \<Longrightarrow> days_before_year a \<le> days_before_year b"
proof (induction b rule: int_ge_induct)
  case (step i)
  then show ?case using days_before_year_less [of i] by simp
qed simp

lemma date_bounds:
  assumes "datetime_range t"
  defines "n \<equiv> day_of t"
  shows "1 \<le> year_of_day n" "year_of_day n < 10000" "1 \<le> month_of_day n" "month_of_day n \<le> 12"
    and "1 \<le> n - days_before_year (year_of_day n) - days_before_month (year_of_day n) (month_of_day n)"
    and "n - days_before_year (year_of_day n) - days_before_month (year_of_day n) (month_of_day n)
      \<le> month_lengths (year_of_day n) ! (month_of_day n - 1)"
proof -
  define y where "y = year_of_day n"
  define m where "m = month_of_day n"
  have n: "1 \<le> n" "n \<le> days_before_year 10000"
    using assms(1) mult_div_mod_eq [of 86400000000 t] pos_mod_sign [of 86400000000 t]
      pos_mod_bound [of 86400000000 t]
    by (simp_all add: datetime_range_def n_def day_of_def day_us_def epoch_day_def
        days_before_year_def) linarith+
  note year = year_of_day_bounds [OF n(1), folded y_def]
  show "1 \<le> year_of_day n"
  proof (rule ccontr)
    assume "\<not> 1 \<le> year_of_day n"
    then have "days_before_year (y + 1) \<le> days_before_year 1"
      by (intro days_before_year_mono) (simp add: y_def)
    then show False using year n(1) by (simp add: days_before_year_def)
  qed
  show "year_of_day n < 10000"
  proof (rule ccontr)
    assume "\<not> year_of_day n < 10000"
    then have "days_before_year 10000 \<le> days_before_year y"
      by (intro days_before_year_mono) (simp add: y_def)
    then show False using year n(2) by simp
  qed
  note month = month_of_day_bounds [OF n(1), folded y_def m_def]
  then show "1 \<le> month_of_day n" "month_of_day n \<le> 12" by (simp_all add: m_def)
  have "days_before_year (y + 1) = days_before_year y + days_before_month y 13"
    using sum_month_lengths [of y] by (simp add: days_before_month_def month_lengths_def)
  then have "1 \<le> n - days_before_year y - days_before_month y m \<and>
      n - days_before_year y - days_before_month y m \<le> month_lengths y ! (m - 1)"
    using month days_before_next_month [of m y]
    by (auto simp: ymd2ord_def days_before_month_def [of _ "Suc 0"] split: if_splits)
  then show "1 \<le> n - days_before_year (year_of_day n) - days_before_month (year_of_day n) (month_of_day n)"
    and "n - days_before_year (year_of_day n) - days_before_month (year_of_day n) (month_of_day n)
      \<le> month_lengths (year_of_day n) ! (month_of_day n - 1)"
    by (simp_all add: y_def m_def)
qed

lemma read_date_iso:
  assumes "datetime_range t"
  defines "n \<equiv> day_of t"
  shows "read_date (pad 4 (year_of_day n) @ ''-'' @ pad 2 (int (month_of_day n)) @ ''-'' @
      pad 2 (n - days_before_year (year_of_day n) - days_before_month (year_of_day n) (month_of_day n)) @ r) =
    Some (n, r)"
proof -
  note b = date_bounds [OF assms(1), folded n_def]
  have len: "month_lengths y ! k \<le> 31" if "k < 12" for y k
    using that unfolding month_lengths_def by (auto simp: less_Suc_eq numeral_eq_Suc)
  have d: "n - days_before_year (year_of_day n) - days_before_month (year_of_day n) (month_of_day n) < 100"
    using b(6) len [of "month_of_day n - 1" "year_of_day n"] b(3,4) by linarith
  have y: "read_figures 4 (pad 4 (year_of_day n) @ s) = Some (year_of_day n, s)" for s
    using b(1,2) by (intro read_pad) simp_all
  show ?thesis
    using b d by (simp add: read_date_def y read_sign_def read_pad2 ymd2ord_def)
qed

lemma read_fraction_Nil: "read_fraction [] = Some (0, [])"
  by (simp add: read_fraction_def)

lemma read_clock_parts:
  assumes "0 \<le> h" "h < 100" "0 \<le> m" "m < 60" "0 \<le> x" "x < 60" "0 \<le> us" "us < 1000000"
  shows "read_clock (pad 2 h @ '':'' @ pad 2 m @ '':'' @ pad 2 x @
      (if us = 0 then [] else ''.'' @ pad 6 us)) =
    Some (h * 3600000000 + m * 60000000 + x * 1000000 + us, [])"
proof -
  have figures: "read_figures 2 (pad 2 h @ r) = Some (h, r)" "read_figures 2 (pad 2 m @ r) = Some (m, r)"
    "read_figures 2 (pad 2 x @ r) = Some (x, r)" for r
    using assms by (simp_all add: read_pad2)
  show ?thesis
    using assms(4,6) read_fraction_pad [OF assms(7,8)] figures(3) [of "[]"]
    by (cases "us = 0") (simp_all add: read_clock_def figures not_le read_fraction_Nil)
qed

lemma read_clock_iso:
  assumes "0 \<le> r" "r < day_us"
  shows "read_clock (pad 2 (r div 1000000 div 3600) @ '':'' @ pad 2 (r div 1000000 div 60 mod 60) @ '':'' @
      pad 2 (r div 1000000 mod 60) @ (if r mod 1000000 = 0 then [] else ''.'' @ pad 6 (r mod 1000000))) =
    Some (r, [])"
proof -
  define s where "s = r div 1000000"
  have s: "0 \<le> s" "s < 86400" using assms by (auto simp: s_def day_us_def)
  then have h: "0 \<le> s div 3600" "s div 3600 < 100" by auto
  have "s div 60 div 60 = s div 3600" by (simp add: zdiv_zmult2_eq [symmetric])
  moreover have "s = 60 * (s div 60) + s mod 60" "r = 1000000 * s + r mod 1000000"
    "s div 60 = 60 * (s div 60 div 60) + s div 60 mod 60"
    by (simp_all only: mult_div_mod_eq s_def)
  ultimately have "s div 3600 * 3600000000 + s div 60 mod 60 * 60000000 + s mod 60 * 1000000 + r mod 1000000 = r"
    by linarith
  then show ?thesis
    unfolding s_def [symmetric] using read_clock_parts [OF h, of "s div 60 mod 60" "s mod 60" "r mod 1000000"]
    by (simp only: pos_mod_sign pos_mod_bound zero_less_numeral)
qed

lemma fromisoformat_naive:
  assumes "datetime_range t"
  shows "fromisoformat (naive_isoformat t) = Some t"
proof -
  have m: "0 \<le> t mod day_us" "t mod day_us < day_us" by (simp_all add: day_us_def)
  have "(day_of t - epoch_day) * day_us + t mod day_us = t" by (simp add: day_of_def)
  then show ?thesis
    unfolding fromisoformat_def naive_isoformat_def Let_def
    using read_date_iso [OF assms] read_clock_iso [OF m] m
    by (simp add: offset_valid_def)
qed

section \<open>Bytes\<close>

lemma b64_value_char [simp]: "b64_value (b64_char n) = Some (n mod 64)"
proof -
  have "map b64_value b64_alphabet = map Some [0..<64]"
    by (simp add: b64_alphabet_def b64_value_def Let_def upt_rec)
  then have "map b64_value b64_alphabet ! k = map Some [0..<64] ! k" for k by simp
  moreover have "length b64_alphabet = 64" by (simp add: b64_alphabet_def)
  ultimately have "b64_value (b64_alphabet ! k) = Some k" if "k < 64" for k
    using that by (metis add_0 length_upt minus_nat.diff_0 nth_map nth_upt)
  then show ?thesis by (simp add: b64_char_def)
qed

lemma b64url_decoded:
  "list_all (\<lambda>x. x < 256) bs \<Longrightarrow>
     \<exists>xs. those (map b64_value (b64url bs)) = Some xs \<and> sextets_bytes xs = Some bs"
proof (induction bs rule: b64url.induct)
  case (2 a)
  have "(a mod 4 * 16) div 16 = a mod 4" by simp
  then show ?case using 2 by simp
next
  case (3 a b)
  then have "b div 16 < 16" "a div 4 < 64" by (simp_all add: less_mult_imp_div_less)
  moreover have "(a mod 4 * 16 + b div 16) div 16 = a mod 4" "(a mod 4 * 16 + b div 16) mod 16 = b div 16"
    using calculation by simp_all
  ultimately show ?case using 3 by simp
next
  case (4 a b c bs)
  obtain xs where xs: "those (map b64_value (b64url bs)) = Some xs" "sextets_bytes xs = Some bs"
    using 4 by auto
  have b: "b div 16 < 16" "a div 4 < 64" and c: "c div 64 < 4"
    using 4 by (simp_all add: less_mult_imp_div_less)
  have "(a mod 4 * 16 + b div 16) div 16 = a mod 4" "(a mod 4 * 16 + b div 16) mod 16 = b div 16"
    "(b mod 16 * 4 + c div 64) div 4 = b mod 16" "(b mod 16 * 4 + c div 64) mod 4 = c div 64"
    using b c by simp_all
  then show ?case using 4 b c xs by simp
qed simp

lemma b64url_front: "bs \<noteq> [] \<Longrightarrow> b64url bs \<noteq> []"
  by (cases bs rule: b64url.cases) auto

definition ascii :: "string \<Rightarrow> bool" where
  "ascii s \<longleftrightarrow> list_all (\<lambda>c. (of_char c :: nat) < 128) s"

lemma ascii_append [simp]: "ascii (s @ t) \<longleftrightarrow> ascii s \<and> ascii t"
  by (simp add: ascii_def)

lemma ascii_Cons [simp]: "ascii (c # s) \<longleftrightarrow> (of_char c :: nat) < 128 \<and> ascii s"
  by (simp add: ascii_def)

lemma ascii_Nil [simp]: "ascii []"
  by (simp add: ascii_def)

lemma utf8_decode_Cons: "a < 128 \<Longrightarrow> utf8_decode (a # bs) = map_option ((#) (char_of a)) (utf8_decode bs)"
  by (cases bs) simp_all

lemma utf8_decode_ascii: "ascii s \<Longrightarrow> utf8_decode (map of_char s) = Some s"
  by (induction s) (simp_all add: utf8_decode_Cons)

lemma ascii_hex_digit: "n < 16 \<Longrightarrow> (of_char (hex_digit n) :: nat) < 128"
  by (simp add: hex_digit_def)

lemma ascii_json_string: "ascii (json_string s)"
proof -
  have "ascii (json_char c)" for c
  proof -
    have "(of_char c :: nat) < 256" by simp
    then show ?thesis
      using ascii_hex_digit [of "of_char c div 16"] ascii_hex_digit [of "of_char c mod 16"]
      by (simp add: json_char_def Let_def less_mult_imp_div_less)
  qed
  then have "ascii (concat (map json_char s))" by (induction s) simp_all
  then show ?thesis by (simp add: json_string_def)
qed

lemma ascii_show_int: "ascii (show_int n)"
proof -
  have "(of_char c :: nat) < 128" if "is_digit c" for c
    using that by (auto simp: is_digit_def Let_def)
  then have "ascii (nat_digits k)" for k
    using nat_digits_digits [of k] by (simp add: ascii_def list_all_iff)
  then show ?thesis by (simp add: show_int_def)
qed

section \<open>Objects\<close>

text \<open>The values of a cursor's members.\<close>

fun scalar :: "json \<Rightarrow> bool" where
  "scalar JNull = True"
| "scalar (JStr s) = True"
| "scalar (JInt n) = True"
| "scalar _ = False"

lemma scalar_dumps: "scalar j \<Longrightarrow> ascii (json_dumps j) \<and> plain j \<and> sorted_json j = j"
  by (cases j) (simp_all add: ascii_json_string ascii_show_int)

lemma scan_member:
  assumes "scalar j" "2 * length (json_dumps j) + 2 \<le> n"
  shows "scan_members (Suc n) (json_string k @ '':'' @ json_dumps j @ '','' @ rest) =
      map_option (\<lambda>(kvs, r). ((k, j) # kvs, r)) (scan_members n (skip_blanks rest))"
    and "scan_members (Suc n) (json_string k @ '':'' @ json_dumps j @ ''}'' @ rest) = Some ([(k, j)], rest)"
proof -
  have j: "plain j" "sorted_json j = j" using scalar_dumps [OF assms(1)] by auto
  then have "scan_value n (json_dumps j @ r) = Some (j, r)" if "stops r" for r
    using reads_plain [OF j(1)] assms(2) that by (simp add: reads_def)
  then show "scan_members (Suc n) (json_string k @ '':'' @ json_dumps j @ '','' @ rest) =
      map_option (\<lambda>(kvs, r). ((k, j) # kvs, r)) (scan_members n (skip_blanks rest))"
    and "scan_members (Suc n) (json_string k @ '':'' @ json_dumps j @ ''}'' @ rest) = Some ([(k, j)], rest)"
    using scan_json_string [of k] j by (simp_all add: json_string_def)
qed

lemma compact_object:
  assumes "scalar a" "scalar b" "scalar c" "scalar d" "distinct [k1, k2, k3, k4]"
  shows "json_loads (''{'' @ json_string k1 @ '':'' @ json_dumps a @ '','' @ json_string k2 @ '':'' @ json_dumps b @
      '','' @ json_string k3 @ '':'' @ json_dumps c @ '','' @ json_string k4 @ '':'' @ json_dumps d @ ''}'') =
    Some (JObj [(k1, a), (k2, b), (k3, c), (k4, d)])"
proof -
  have front: "skip_blanks (json_string k @ r) = json_string k @ r" for k r
    by (simp add: json_string_def)
  define s4 where "s4 = json_string k4 @ '':'' @ json_dumps d @ ''}''"
  define s3 where "s3 = json_string k3 @ '':'' @ json_dumps c @ '','' @ s4"
  define s2 where "s2 = json_string k2 @ '':'' @ json_dumps b @ '','' @ s3"
  define s1 where "s1 = json_string k1 @ '':'' @ json_dumps a @ '','' @ s2"
  define n where "n = 2 * length s1 - 1"
  have len: "2 * length s1 + 4 = Suc (Suc (Suc (Suc (Suc n))))"
    by (simp add: n_def s1_def)
  have n: "2 * length (json_dumps a) + 2 \<le> n" "2 * length (json_dumps b) + 2 \<le> n"
    "2 * length (json_dumps c) + 2 \<le> n" "2 * length (json_dumps d) + 2 \<le> n"
    by (simp_all add: n_def s1_def s2_def s3_def s4_def)
  have skip: "skip_blanks s4 = s4" "skip_blanks s3 = s3" "skip_blanks s2 = s2" "skip_blanks s1 = s1"
    by (simp_all only: s4_def s3_def s2_def s1_def front)
  have "scan_members (Suc n) s4 = Some ([(k4, d)], [])"
    using scan_member(2) [OF assms(4) n(4), of k4 "[]"] by (simp add: s4_def)
  then have "scan_members (Suc (Suc n)) s3 = Some ([(k3, c), (k4, d)], [])"
    using scan_member(1) [OF assms(3), of "Suc n" k3 s4] n(3) by (simp only: s3_def skip) simp
  then have "scan_members (Suc (Suc (Suc n))) s2 = Some ([(k2, b), (k3, c), (k4, d)], [])"
    using scan_member(1) [OF assms(2), of "Suc (Suc n)" k2 s3] n(2) by (simp only: s2_def skip) simp
  then have members: "scan_members (Suc (Suc (Suc (Suc n)))) s1 = Some ([(k1, a), (k2, b), (k3, c), (k4, d)], [])"
    using scan_member(1) [OF assms(1), of "Suc (Suc (Suc n))" k1 s2] n(1) by (simp only: s1_def skip) simp
  have "\<not> starts_with ''}'' s1" by (simp add: s1_def json_string_def)
  then have "scan_value (Suc (Suc (Suc (Suc (Suc n))))) (CHR ''{'' # s1) =
      Some (JObj [(k1, a), (k2, b), (k3, c), (k4, d)], [])"
    using members assms(5) by (simp add: scan_value.simps(2) skip dict_of_distinct del: scan_members.simps)
  moreover have "2 * length (CHR ''{'' # s1) + 2 = Suc (Suc (Suc (Suc (Suc n))))" using len by simp
  moreover have "skip_blanks (CHR ''{'' # s1) = CHR ''{'' # s1" by simp
  ultimately have "json_loads (CHR ''{'' # s1) = Some (JObj [(k1, a), (k2, b), (k3, c), (k4, d)])"
    unfolding json_loads_def by (simp only: option.case prod.case skip_blanks_Cons if_True simp_thms)
  then show ?thesis by (simp add: s1_def s2_def s3_def s4_def)
qed

section \<open>Cursors\<close>

lemma cursor_payload_written:
  assumes "scalar a" "scalar b" "scalar c" "scalar d"
  shows "cursor_payload (encode_cursor a b c d) =
    Some (JObj [(''created_at'', a), (''id'', b), (''source'', c), (''stream_line'', d)])"
proof -
  define s where "s = ''{'' @ json_string ''created_at'' @ '':'' @ json_dumps a @ '','' @
    json_string ''id'' @ '':'' @ json_dumps b @ '','' @ json_string ''source'' @ '':'' @ json_dumps c @
    '','' @ json_string ''stream_line'' @ '':'' @ json_dumps d @ ''}''"
  have "ascii s" using assms scalar_dumps ascii_json_string by (simp add: s_def)
  then have "utf8_decode (map of_char s) = Some s" by (rule utf8_decode_ascii)
  moreover obtain xs where "those (map b64_value (b64url (map of_char s))) = Some xs"
    "sextets_bytes xs = Some (map of_char s)"
    using b64url_decoded [of "map of_char s"] by (auto simp: list_all_iff)
  moreover have "b64url (map of_char s) \<noteq> []" by (rule b64url_front) (simp add: s_def)
  moreover have "json_loads s =
      Some (JObj [(''created_at'', a), (''id'', b), (''source'', c), (''stream_line'', d)])"
    unfolding s_def by (rule compact_object [OF assms]) simp
  ultimately show ?thesis by (simp add: cursor_payload_def encode_cursor_def s_def)
qed

text \<open>
  The cursor written for an entry is read back as the place of this entry: its time and
  identifier, or the number of the next line of the stream.
\<close>

lemma cursor_read_back:
  assumes "we_source entry = ''log_stream'' \<Longrightarrow> 0 \<le> we_sequence entry"
    and "we_source entry \<noteq> ''log_stream'' \<Longrightarrow> we_source entry = ''control_plane'' \<and>
      datetime_range (we_created_at entry)"
  shows "wp (decode_cursor (Some (entry_cursor entry)))
    (\<lambda>cursor w'. w' = w \<and> cursor = Some (if we_source entry = ''log_stream''
       then \<lparr>wc_source = ''log_stream'', wc_created_at = None, wc_id = None,
         wc_stream_line = Some (we_sequence entry + 1)\<rparr>
       else \<lparr>wc_source = ''control_plane'', wc_created_at = Some (we_created_at entry),
         wc_id = Some (we_id entry), wc_stream_line = None\<rparr>)) (\<lambda>_ _. False) w"
proof (cases "we_source entry = ''log_stream''")
  case True
  then show ?thesis
    using assms(1)
    by (simp add: decode_cursor_def entry_cursor_def cursor_payload_written cursor_from_payload_def
        jget_def Let_def wp_simps)
next
  case False
  then show ?thesis
    using assms(2)
    by (simp add: decode_cursor_def entry_cursor_def cursor_payload_written cursor_from_payload_def
        jget_def Let_def wp_simps fromisoformat_naive)
qed

end
