(* ===== verification/LogPages.thy ===== *)
theory LogPages
  imports LogCursors AccessLaws
begin

text \<open>
  Reading the log of a run page by page: following the cursors gives every entry once, in order.
\<close>

section \<open>The whole log\<close>

definition log_rows :: "db \<Rightarrow> cloud_run \<Rightarrow> cloud_run_log_entry list" where
  "log_rows d run = sort_key (\<lambda>x. (lg_created_at x, lg_id x))
     (filter (\<lambda>x. lg_cloud_run_id x = cr_id run) (rows (t_cloud_run_log_entry d)))"

text \<open>The lines of a log stream that is kept in the database; there are none if it cannot be read.\<close>

definition stream_content :: "services \<Rightarrow> world \<Rightarrow> object_storage_ref \<Rightarrow> string option" where
  "stream_content sv w ref =
     (case fst (read_text sv LocalInlineObjectStorage ref w) of Inl _ \<Rightarrow> None | Inr content \<Rightarrow> Some content)"

definition stream_lines :: "services \<Rightarrow> world \<Rightarrow> cloud_run \<Rightarrow> (nat \<times> string) list" where
  "stream_lines sv w run =
     (case log_stream_ref run of
        None \<Rightarrow> []
      | Some ref \<Rightarrow>
          if max_log_stream_read_bytes < or_size_bytes ref then []
          else (case stream_content sv w ref of None \<Rightarrow> [] | Some content \<Rightarrow> enumerate 0 (splitlines content)))"

definition stream_uri :: "cloud_run \<Rightarrow> string" where
  "stream_uri run =
     (case log_stream_ref run of
        None \<Rightarrow> []
      | Some ref \<Rightarrow> (case urlsplit (or_uri ref) of None \<Rightarrow> [] | Some u \<Rightarrow> url_without_query u))"

definition local_stream :: "cloud_run \<Rightarrow> bool" where
  "local_stream run \<longleftrightarrow> (case log_stream_ref run of
     None \<Rightarrow> True
   | Some ref \<Rightarrow> (case urlsplit (or_uri ref) of None \<Rightarrow> False | Some u \<Rightarrow> url_scheme u = ''local-inline''))"

text \<open>The number of an entry of the control plane counts within its page; it is left out here.\<close>

definition unnumbered :: "cloud_run_log_window_entry_read \<Rightarrow> cloud_run_log_window_entry_read" where
  "unnumbered e = e\<lparr>we_sequence := 0\<rparr>"

definition whole_log :: "services \<Rightarrow> world \<Rightarrow> cloud_run \<Rightarrow> cloud_run_log_window_entry_read list" where
  "whole_log sv w run = map (\<lambda>x. log_window_entry_read x 0) (log_rows (w_db w) run) @
     map (stream_entry run (stream_uri run)) (stream_lines sv w run)"

definition same_log :: "world \<Rightarrow> world \<Rightarrow> bool" where
  "same_log w v \<longleftrightarrow> w_env v = w_env w \<and> t_cloud_run (w_db v) = t_cloud_run (w_db w) \<and>
     t_cloud_run_log_entry (w_db v) = t_cloud_run_log_entry (w_db w) \<and>
     t_cloud_run_stored_object (w_db v) = t_cloud_run_stored_object (w_db w)"

lemma local_read:
  assumes "same_log w v"
  shows "wp (read_text sv LocalInlineObjectStorage ref) (\<lambda>x v'. v' = v \<and> stream_content sv w ref = Some x)
    (\<lambda>_ v'. v' = v \<and> stream_content sv w ref = None) v"
  using assms
  unfolding stream_content_def read_text_def object_storage_provider.case read_text_local_inline_def
    parse_local_inline_object_id_def split_url_def validate_artifact_kind_def sha256_hex_def same_log_def
  by (auto simp: wp_simps db_get_def gets_def bnd_def ret_def raise_def only_if_def Let_def
      split: option.splits)

section \<open>The places between entries\<close>

text \<open>
  The cursor of place \<open>p\<close> in a log with the rows \<open>C\<close> of the control plane.
\<close>

definition cursor_at :: "cloud_run_log_entry list \<Rightarrow> nat \<Rightarrow> log_window_cursor option" where
  "cursor_at C p =
     (if p = 0 then None
      else if p \<le> length C then Some \<lparr>wc_source = ''control_plane'',
        wc_created_at = Some (lg_created_at (C ! (p - 1))), wc_id = Some (lg_id (C ! (p - 1))),
        wc_stream_line = None\<rparr>
      else Some \<lparr>wc_source = ''log_stream'', wc_created_at = None, wc_id = None,
        wc_stream_line = Some (int (p - length C))\<rparr>)"

lemma of_stream_cursor [simp]: "of_stream (cursor_at C p) \<longleftrightarrow> length C < p"
  by (simp add: of_stream_def cursor_at_def)

lemma filter_drop:
  assumes "\<And>i. i < length xs \<Longrightarrow> P (xs ! i) \<longleftrightarrow> p \<le> i"
  shows "filter P xs = drop p xs"
  using assms
proof (induction xs arbitrary: p)
  case (Cons x xs)
  have "P x \<longleftrightarrow> p = 0" using Cons.prems [of 0] by simp
  moreover have "filter P xs = drop (p - 1) xs" by (rule Cons.IH) (use Cons.prems [of "Suc _"] in force)
  ultimately show ?case by (cases p) simp_all
qed simp

lemma log_rows_strict:
  assumes "keyed lg_id (t_cloud_run_log_entry d)" "i < j" "j < length (log_rows d run)"
  defines "k \<equiv> \<lambda>x. (lg_created_at x, lg_id x)"
  shows "k (log_rows d run ! i) < k (log_rows d run ! j)"
proof -
  have "map lg_id (rows (t_cloud_run_log_entry d)) = map fst (t_cloud_run_log_entry d)"
    using assms(1) by (auto simp: rows_def keyed_def list_all_iff)
  then have "distinct (map lg_id (rows (t_cloud_run_log_entry d)))" using assms(1) by (simp add: keyed_def)
  then have "distinct (map lg_id (log_rows d run))"
    by (simp add: log_rows_def distinct_map_filter distinct_map inj_on_def)
  then have "lg_id (log_rows d run ! i) \<noteq> lg_id (log_rows d run ! j)"
    using assms(2,3) by (simp add: distinct_conv_nth)
  moreover have "k (log_rows d run ! i) \<le> k (log_rows d run ! j)"
    using sorted_nth_mono [of "map k (log_rows d run)" i j] assms(2,3) by (simp add: log_rows_def k_def)
  ultimately show ?thesis by (auto simp: k_def less_prod_def)
qed

lemma rows_after_cursor:
  assumes "keyed lg_id (t_cloud_run_log_entry d)" "p \<le> length (log_rows d run)"
  shows "filter (after_cursor (cursor_at (log_rows d run) p)) (log_rows d run) = drop p (log_rows d run)"
proof (rule filter_drop)
  fix i assume i: "i < length (log_rows d run)"
  let ?C = "log_rows d run" and ?k = "\<lambda>x. (lg_created_at x, lg_id x)"
  show "after_cursor (cursor_at ?C p) (?C ! i) \<longleftrightarrow> p \<le> i"
  proof (cases "p = 0")
    case False
    have "after_cursor (cursor_at ?C p) (?C ! i) \<longleftrightarrow> ?k (?C ! (p - 1)) < ?k (?C ! i)"
      using False assms(2) by (auto simp: after_cursor_def cursor_at_def less_prod_def)
    moreover have "?k (?C ! (p - 1)) < ?k (?C ! i)" if "p - 1 < i"
      using log_rows_strict [OF assms(1) that i] .
    moreover have "\<not> ?k (?C ! (p - 1)) < ?k (?C ! i)" if "i \<le> p - 1"
    proof -
      have "p - 1 < length ?C" using assms(2) False by linarith
      then show ?thesis
        using log_rows_strict [OF assms(1), of i "p - 1" run] that by (cases "i = p - 1") auto
    qed
    ultimately show ?thesis using False by (cases "p - 1 < i") auto
  qed (simp add: cursor_at_def after_cursor_def)
qed

section \<open>One page\<close>

lemma map_enumerate_rows:
  "map unnumbered (map (\<lambda>(n, x). log_window_entry_read x n) (enumerate k xs)) =
     map (\<lambda>x. log_window_entry_read x 0) xs"
  by (induction xs arbitrary: k) (simp_all add: unnumbered_def log_window_entry_read_def)

lemma wp_control_plane:
  assumes "same_log w v" "keyed lg_id (t_cloud_run_log_entry (w_db w))"
  shows "wp (control_plane_entries run (cursor_at (log_rows (w_db w) run) p) k)
    (\<lambda>es v'. v' = v \<and> es = map (\<lambda>(n, x). log_window_entry_read x n)
       (enumerate 0 (take (nat k) (drop p (log_rows (w_db w) run))))) (\<lambda>_ _. False) v"
proof (cases "p \<le> length (log_rows (w_db w) run)")
  case True
  let ?C = "log_rows (w_db w) run" and ?rows = "rows (t_cloud_run_log_entry (w_db w))"
  have "sort_key (\<lambda>x. (lg_created_at x, lg_id x))
      (filter (\<lambda>x. lg_cloud_run_id x = cr_id run \<and> after_cursor (cursor_at ?C p) x) ?rows) =
    filter (after_cursor (cursor_at ?C p)) ?C"
    by (simp add: log_rows_def filter_sort conj_commute)
  also have "filter (after_cursor (cursor_at ?C p)) ?C = drop p ?C" by (rule rows_after_cursor [OF assms(2) True])
  finally show ?thesis
    using assms(1) True by (simp add: control_plane_entries_def wp_simps same_log_def Let_def)
next
  case False
  then show ?thesis by (simp add: control_plane_entries_def wp_simps)
qed

lemma filter_enumerate: "filter (\<lambda>(n, _). k \<le> int n) (enumerate 0 xs) = drop (nat k) (enumerate 0 xs)"
  by (rule filter_drop) (auto simp: nth_enumerate_eq)

lemma wp_log_stream:
  assumes "same_log w v" "local_stream run"
  shows "wp (log_stream_entries sv run cursor k)
    (\<lambda>es v'. v' = v \<and> es = take (nat k) (map (stream_entry run (stream_uri run))
       (drop (if of_stream cursor then (case Option.bind cursor wc_stream_line of None \<Rightarrow> 0 | Some n \<Rightarrow> nat n) else 0)
         (stream_lines sv w run)))) (\<lambda>_ _. False) v"
proof (cases "log_stream_ref run")
  case None
  then show ?thesis by (simp add: log_stream_entries_def stream_lines_def wp_simps)
next
  case (Some ref)
  then obtain u where u: "urlsplit (or_uri ref) = Some u" "url_scheme u = ''local-inline''"
    using assms(2) by (auto simp: local_stream_def split: option.splits)
  define start where "start = (if of_stream cursor then (case Option.bind cursor wc_stream_line of None \<Rightarrow> 0 | Some n \<Rightarrow> n) else 0)"
  have start: "(if of_stream cursor then (case Option.bind cursor wc_stream_line of None \<Rightarrow> 0 | Some n \<Rightarrow> nat n) else 0) =
      nat start"
    by (simp add: start_def split: option.split)
  have big: "stream_lines sv w run = []" if "max_log_stream_read_bytes < or_size_bytes ref"
    using that by (simp add: stream_lines_def Some)
  have uri: "stream_uri run = url_without_query u" by (simp add: stream_uri_def Some u)
  have lines: "stream_lines sv w run =
      (case stream_content sv w ref of None \<Rightarrow> [] | Some content \<Rightarrow> enumerate 0 (splitlines content))"
    if "\<not> max_log_stream_read_bytes < or_size_bytes ref"
    using that by (simp add: stream_lines_def Some)
  show ?thesis
    unfolding start unfolding log_stream_entries_def Some option.case start_def [symmetric] Let_def
    using big u lines uri
    by (simp add: object_storage_provider_name_def split_url_def get_object_storage_provider_def wp_simps
        filter_enumerate)
      (intro impI, rule wp_mono [OF local_read [OF assms(1)]], simp_all add: wp_simps filter_enumerate)
qed

text \<open>The entries a page looks at from place \<open>p\<close>, one more than it may show.\<close>

definition page_entries :: "services \<Rightarrow> world \<Rightarrow> cloud_run \<Rightarrow> nat \<Rightarrow> nat \<Rightarrow> cloud_run_log_window_entry_read list" where
  "page_entries sv w run p k =
     (let C = log_rows (w_db w) run;
          control = map (\<lambda>(n, x). log_window_entry_read x n) (enumerate 0 (take (k + 1) (drop p C)))
      in control @ take (k + 1 - length control)
           (drop (p - length C) (map (stream_entry run (stream_uri run)) (stream_lines sv w run))))"

lemma unnumbered_stream_entry: "unnumbered (unnumbered e) = unnumbered e"
  by (simp add: unnumbered_def)

lemma whole_log_length:
  "length (whole_log sv w run) = length (log_rows (w_db w) run) + length (stream_lines sv w run)"
  by (simp add: whole_log_def)

lemma page_entries_shown:
  "map unnumbered (page_entries sv w run p k) = take (k + 1) (drop p (map unnumbered (whole_log sv w run)))"
proof -
  have "map unnumbered (map (\<lambda>x. log_window_entry_read x 0) xs) = map (\<lambda>x. log_window_entry_read x 0) xs" for xs
    by (simp add: unnumbered_def log_window_entry_read_def)
  then show ?thesis
    by (simp add: page_entries_def Let_def map_enumerate_rows [unfolded map_map] whole_log_def take_map drop_map
        min_def)
qed

lemma page_entries_length:
  "length (page_entries sv w run p k) = min (k + 1) (length (whole_log sv w run) - p)"
  using arg_cong [OF page_entries_shown, of length sv w run p k] by simp

lemma stream_lines_numbered: "j < length (stream_lines sv w run) \<Longrightarrow> fst (stream_lines sv w run ! j) = j"
  by (auto simp: stream_lines_def nth_enumerate_eq split: option.splits if_splits)

lemma page_entry:
  assumes "i < length (page_entries sv w run p k)"
  defines "C \<equiv> log_rows (w_db w) run"
  shows "p + i < length C \<Longrightarrow> page_entries sv w run p k ! i = log_window_entry_read (C ! (p + i)) i"
    and "length C \<le> p + i \<Longrightarrow> page_entries sv w run p k ! i =
      stream_entry run (stream_uri run) (stream_lines sv w run ! (p + i - length C))"
proof -
  have i: "i < k + 1" "p + i < length C + length (stream_lines sv w run)"
    using assms(1) by (auto simp: page_entries_length whole_log_length C_def)
  show "page_entries sv w run p k ! i = log_window_entry_read (C ! (p + i)) i" if "p + i < length C"
    using that i by (simp add: page_entries_def Let_def C_def nth_append nth_enumerate_eq)
  show "page_entries sv w run p k ! i =
      stream_entry run (stream_uri run) (stream_lines sv w run ! (p + i - length C))" if "length C \<le> p + i"
  proof -
    have "\<not> i < length (take (k + 1) (drop p C))" "i - (length C - p) + (p - length C) = p + i - length C"
      using that i by auto
    moreover have "length (take (k + 1) (drop p C)) = length C - p" using that i by simp
    ultimately show ?thesis
      using that i by (simp add: page_entries_def Let_def C_def nth_append add.commute)
  qed
qed

lemma stream_start:
  "(if of_stream (cursor_at C p) then (case Option.bind (cursor_at C p) wc_stream_line of None \<Rightarrow> 0 | Some n \<Rightarrow> nat n)
    else 0) = p - length C"
  by (cases "p \<le> length C") (simp_all add: cursor_at_def of_stream_def flip: of_nat_diff)

lemma wp_page_entries:
  assumes "same_log w v" "keyed lg_id (t_cloud_run_log_entry (w_db w))" "local_stream run"
    and "wp (m (page_entries sv w run p k)) Q (\<lambda>_ _. False) v"
  shows "wp (bnd (control_plane_entries run (cursor_at (log_rows (w_db w) run) p) (int k + 1)) (\<lambda>entries.
             bnd (if True \<and> int (length entries) \<le> int k
        then log_stream_entries sv run (cursor_at (log_rows (w_db w) run) p) (int k + 1 - int (length entries))
        else ret []) (\<lambda>stream.
             m (entries @ stream)))) Q (\<lambda>_ _. False) v"
proof -
  let ?C = "log_rows (w_db w) run"
  let ?E = "map (\<lambda>(n, x). log_window_entry_read x n) (enumerate 0 (take (nat (int k + 1)) (drop p ?C)))"
  let ?S = "drop (p - length ?C) (map (stream_entry run (stream_uri run)) (stream_lines sv w run))"
  have k: "nat (int k + 1) = k + 1" by simp
  have page: "page_entries sv w run p k = ?E @ take (k + 1 - length ?E) ?S"
    by (simp only: page_entries_def Let_def k)
  show ?thesis
    unfolding wp_bnd
  proof (rule wp_mono [OF wp_control_plane [OF assms(1,2)]], elim conjE)
    fix entries v' assume e: "v' = v" "entries = ?E"
    show "wp (if True \<and> int (length entries) \<le> int k
        then log_stream_entries sv run (cursor_at ?C p) (int k + 1 - int (length entries)) else ret [])
        (\<lambda>stream. wp (m (entries @ stream)) Q (\<lambda>_ _. False)) (\<lambda>_ _. False) v'"
    proof (cases "length ?E \<le> k")
      case True
      have n: "nat (int k + 1 - int (length ?E)) = k + 1 - length ?E" by linarith
      have "wp (log_stream_entries sv run (cursor_at ?C p) (int k + 1 - int (length ?E)))
          (\<lambda>stream. wp (m (?E @ stream)) Q (\<lambda>_ _. False)) (\<lambda>_ _. False) v"
      proof (rule wp_mono [OF wp_log_stream [OF assms(1,3)]], elim conjE)
        fix stream v'' assume v'': "v'' = v" and "stream = take (nat (int k + 1 - int (length ?E)))
          (map (stream_entry run (stream_uri run)) (drop (if of_stream (cursor_at ?C p)
            then (case Option.bind (cursor_at ?C p) wc_stream_line of None \<Rightarrow> 0 | Some n \<Rightarrow> nat n) else 0)
            (stream_lines sv w run)))"
        then have "page_entries sv w run p k = ?E @ stream"
          by (simp only: page n stream_start drop_map)
        then show "wp (m (?E @ stream)) Q (\<lambda>_ _. False) v''" using assms(4) v'' by simp
      qed simp
      then show ?thesis unfolding e simp_thms using True by (simp only: of_nat_le_iff if_True)
    next
      case False
      then have "page_entries sv w run p k = ?E" by (simp add: page)
      then show ?thesis
        unfolding e simp_thms using False assms(4) by (simp only: of_nat_le_iff if_False wp_ret append_Nil2)
    qed
  qed simp
qed

definition cursor_means :: "string option \<Rightarrow> log_window_cursor option \<Rightarrow> bool" where
  "cursor_means after cursor \<longleftrightarrow>
     (\<forall>u. wp (decode_cursor after) (\<lambda>c u'. u' = u \<and> c = cursor) (\<lambda>_ _. False) u)"

lemma page_cursor:
  assumes "k < length (page_entries sv w run p k)" "0 < k"
    and "list_all (\<lambda>x. datetime_range (lg_created_at x)) (rows (t_cloud_run_log_entry (w_db w)))"
  shows "cursor_means (Some (entry_cursor (last (take k (page_entries sv w run p k)))))
    (cursor_at (log_rows (w_db w) run) (p + k))"
proof -
  let ?es = "page_entries sv w run p k" and ?C = "log_rows (w_db w) run"
  have "take k ?es \<noteq> []" using assms(1,2) by auto
  then have last: "last (take k ?es) = ?es ! (k - 1)" "k - 1 < length ?es"
    using assms(1,2) by (simp_all add: last_conv_nth)
  show ?thesis
  proof (cases "p + (k - 1) < length ?C")
    case True
    then have e: "last (take k ?es) = log_window_entry_read (?C ! (p + (k - 1))) (k - 1)"
      using page_entry(1) [OF last(2)] last(1) by simp
    have "set ?C \<subseteq> set (rows (t_cloud_run_log_entry (w_db w)))" by (auto simp: log_rows_def)
    then have "datetime_range (lg_created_at (?C ! (p + (k - 1))))"
      using assms(3) nth_mem [OF True] by (auto simp: list_all_iff)
    moreover have "p + (k - 1) = p + k - 1" using assms(2) by simp
    ultimately show ?thesis
      unfolding cursor_means_def e using True assms(2)
      by (intro allI wp_mono [OF cursor_read_back]) (auto simp: log_window_entry_read_def cursor_at_def)
  next
    case False
    define j where "j = p + (k - 1) - length ?C"
    have "length ?es = min (k + 1) (length (whole_log sv w run) - p)" by (rule page_entries_length)
    then have "j < length (stream_lines sv w run)"
      using False assms(1) by (simp add: j_def whole_log_length)
    then obtain line where line: "stream_lines sv w run ! j = (j, line)"
      using stream_lines_numbered by (metis prod.collapse)
    then have e: "last (take k ?es) = stream_entry run (stream_uri run) (j, line)"
      using page_entry(2) [OF last(2)] last(1) False by (simp add: j_def)
    have "cursor_at ?C (p + k) = Some \<lparr>wc_source = ''log_stream'', wc_created_at = None, wc_id = None,
        wc_stream_line = Some (int j + 1)\<rparr>"
      using False assms(2) by (auto simp: cursor_at_def j_def)
    then show ?thesis
      unfolding cursor_means_def e
      by (intro allI wp_mono [OF cursor_read_back]) (auto simp: stream_entry_def)
  qed
qed

text \<open>From place \<open>p\<close> a page takes the next entries, and its cursor stands behind them.\<close>

lemma wp_window:
  assumes "same_log w v" "keyed lg_id (t_cloud_run_log_entry (w_db w))" "local_stream run" "0 < k"
    and "list_all (\<lambda>x. datetime_range (lg_created_at x)) (rows (t_cloud_run_log_entry (w_db w)))"
  shows "wp (log_window_of sv run (cursor_at (log_rows (w_db w) run) p) (int k) True)
    (\<lambda>r v'. v' = v \<and>
       map unnumbered (wr_entries r) = take k (drop p (map unnumbered (whole_log sv w run))) \<and>
       (case wr_next_cursor r of
          None \<Rightarrow> length (whole_log sv w run) \<le> p + k
        | Some c \<Rightarrow> p + k < length (whole_log sv w run) \<and>
            cursor_means (Some c) (cursor_at (log_rows (w_db w) run) (p + k)))) (\<lambda>_ _. False) v"
proof -
  let ?es = "page_entries sv w run p k"
  have more: "k < length ?es \<longleftrightarrow> p + k < length (whole_log sv w run)"
    by (auto simp: page_entries_length)
  have shown: "map unnumbered (take k ?es) = take k (drop p (map unnumbered (whole_log sv w run)))"
    by (simp add: page_entries_shown flip: take_map)
  have short: "\<not> k < length ?es \<Longrightarrow> take k ?es = ?es" by simp
  show ?thesis
    unfolding log_window_of_def
    by (rule wp_page_entries [OF assms(1-3), where m = "\<lambda>es. let entries = es in ret (if int k < int (length entries)
        then \<lparr>wr_entries = take (nat (int k)) entries,
          wr_next_cursor = Some (entry_cursor (last (take (nat (int k)) entries))), wr_has_more = True\<rparr>
        else \<lparr>wr_entries = entries, wr_next_cursor = None, wr_has_more = False\<rparr>)"])
      (use more shown short page_cursor [OF _ assms(4,5)] in \<open>auto simp: wp_simps Let_def not_less\<close>)
qed

section \<open>All pages\<close>

text \<open>A client that follows the cursors, for at most the given number of pages.\<close>

primrec follow_log ::
  "services \<Rightarrow> string \<Rightarrow> int \<Rightarrow> nat \<Rightarrow> string option \<Rightarrow> cloud_run_log_window_entry_read list option action" where
  "follow_log sv i limit 0 after = ret None"
| "follow_log sv i limit (Suc n) after =
     bnd (list_cloud_run_log_window sv i after limit True False) (\<lambda>page.
     case wr_next_cursor page of
       None \<Rightarrow> ret (Some (wr_entries page))
     | Some c \<Rightarrow> bnd (follow_log sv i limit n (Some c)) (\<lambda>rest. ret (map_option ((@) (wr_entries page)) rest)))"

lemma wp_audited_read:
  assumes "quiet v"
  shows "wp (audit_sensitive_read operation resource_type resource_id metadata)
    (\<lambda>_. same_log v) (\<lambda>e _. e = IntegrityError) v"
  using assms
  by (auto simp: audit_sensitive_read_def record_workspace_audit_def resolved_request_id_def
      resolved_correlation_id_def resolved_audit_time_def next_occurred_at_def new_workspace_audit_log_def
      add_workspace_audit_log_def workspace_audit_defaults_def same_log_def wp_simps split: option.splits)

lemma same_log_trans: "same_log w v \<Longrightarrow> same_log v u \<Longrightarrow> same_log w u"
  by (simp add: same_log_def)

text \<open>The caller may read the log of the run.\<close>

definition reader_of :: "world \<Rightarrow> string \<Rightarrow> cloud_run \<Rightarrow> bool" where
  "reader_of w i run \<longleftrightarrow> map_of (t_cloud_run (w_db w)) i = Some run \<and>
     (\<forall>c. e_auth (w_env w) = Some c \<longrightarrow>
        cr_workspace_id run = ac_workspace_id c \<and> permitted c ''log.sensitive.read'')"

lemma wp_list_window:
  assumes "same_log w v" "quiet w" "reader_of w i run" "cursor_means after cursor"
    and "wp (log_window_of sv run cursor limit True) (\<lambda>r v'. v' = v \<and> P r) (\<lambda>_ _. False) v"
  shows "wp (list_cloud_run_log_window sv i after limit True False)
    (\<lambda>r v'. same_log w v' \<and> P r) (\<lambda>e _. e = IntegrityError) v"
proof -
  have q: "quiet v" using assms(1,2) by (simp add: same_log_def quiet_def)
  have audited: "wp (only_if b (audit_sensitive_read op kind rid md)) (\<lambda>_. same_log w) (\<lambda>e _. e = IntegrityError) v"
    for b op kind rid md
    using wp_mono [OF wp_audited_read [OF q, of op kind rid md]] assms(1) same_log_trans by (simp add: wp_simps)
  have tail: "wp (bnd (decode_cursor after) (\<lambda>cursor. bnd (ret run) (\<lambda>run.
      bnd (log_window_of sv run cursor limit True) (\<lambda>r. bnd (only_if b (audit_sensitive_read op kind (rid run) (md r)))
        (\<lambda>_. ret r))))) (\<lambda>r v'. same_log w v' \<and> P r) (\<lambda>e _. e = IntegrityError) v" for b op kind rid md
    unfolding wp_bnd
    by (rule wp_mono [OF assms(4) [unfolded cursor_means_def, rule_format]], simp_all add: wp_ret,
        rule wp_mono [OF assms(5)], simp_all, rule wp_mono [OF audited], simp_all add: wp_ret)
  have run: "map_of (t_cloud_run (w_db v)) i = Some run" "w_env v = w_env w"
    using assms(1,3) by (simp_all add: same_log_def reader_of_def)
  have get: "wp (get_cloud_run_or_404 i) Q E v = Q run v" for Q E
    using assms(3) run
    by (auto simp: get_cloud_run_or_404_def reader_of_def wp_simps split: option.split)
  obtain b where permission: "\<And>Q E. wp (require_audited_workspace_permission_if_authenticated
      ''log.sensitive.read'' ''cloud_log.window.read'' ''cloud_run_log'' (Some (cr_id run))
      AL_HIGH_SENSITIVE_READ) Q E v = Q b v"
  proof
    show "wp (require_audited_workspace_permission_if_authenticated
        ''log.sensitive.read'' ''cloud_log.window.read'' ''cloud_run_log'' (Some (cr_id run))
        AL_HIGH_SENSITIVE_READ) Q E v = Q (e_auth (w_env w) \<noteq> None) v" for Q E
      using assms(3) run
      by (auto simp: require_audited_workspace_permission_if_authenticated_def reader_of_def
          require_audited_workspace_permission_def require_workspace_permission_def
          allowed_roles_for_permission_def require_workspace_role_def permitted_def wp_simps
          split: option.splits)
  qed
  show ?thesis
    unfolding list_cloud_run_log_window_def
    by (simp only: wp_bnd get permission) (use tail in \<open>simp only: wp_bnd simp_thms if_False\<close>)
qed

text \<open>
  C40: Pages of a log. A client that may read the log of a run and follows the cursors from page to page,
  with any page length, gets to the end after at most as many pages as there are entries and one more,
  and has then seen every entry of the control plane and every line of the stored stream exactly once,
  the former by time and identifier, the latter in their order. (Only an identifier of an audit record
  that is already taken can stop it.)
\<close>

theorem log_pages_complete:
  assumes "quiet w" "reader_of w i run" "local_stream run" "1 \<le> limit"
    and "keyed lg_id (t_cloud_run_log_entry (w_db w))"
    and "list_all (\<lambda>x. datetime_range (lg_created_at x)) (rows (t_cloud_run_log_entry (w_db w)))"
  shows "wp (follow_log sv i limit (Suc (length (whole_log sv w run))) None)
    (\<lambda>r _. \<exists>es. r = Some es \<and> map unnumbered es = map unnumbered (whole_log sv w run))
    (\<lambda>e _. e = IntegrityError) w"
proof -
  let ?U = "map unnumbered (whole_log sv w run)" and ?C = "log_rows (w_db w) run"
  define k where "k = nat limit"
  then have k: "0 < k" "limit = int k" using assms(4) by simp_all
  have "wp (follow_log sv i limit n after)
      (\<lambda>r _. \<exists>es. r = Some es \<and> map unnumbered es = drop p ?U) (\<lambda>e _. e = IntegrityError) v"
    if "same_log w v" "cursor_means after (cursor_at ?C p)" "length ?U - p < n" for n p after v
    using that
  proof (induction n arbitrary: p after v)
    case (Suc n)
    note page = wp_list_window [OF Suc.prems(1) assms(1,2) Suc.prems(2), where limit = limit,
        unfolded k(2), OF wp_window [OF Suc.prems(1) assms(5,3) k(1) assms(6)]]
    show ?case
      unfolding follow_log.simps wp_bnd k(2)
    proof (rule wp_mono [OF page], elim conjE)
      fix r v' assume v': "same_log w v'"
        and r: "map unnumbered (wr_entries r) = take k (drop p ?U)"
        and c: "case wr_next_cursor r of None \<Rightarrow> length (whole_log sv w run) \<le> p + k
          | Some c \<Rightarrow> p + k < length (whole_log sv w run) \<and> cursor_means (Some c) (cursor_at ?C (p + k))"
      show "wp (case wr_next_cursor r of None \<Rightarrow> ret (Some (wr_entries r))
          | Some c \<Rightarrow> bnd (follow_log sv i (int k) n (Some c)) (\<lambda>rest. ret (map_option ((@) (wr_entries r)) rest)))
        (\<lambda>r _. \<exists>es. r = Some es \<and> map unnumbered es = drop p ?U) (\<lambda>e _. e = IntegrityError) v'"
      proof (cases "wr_next_cursor r")
        case None
        then show ?thesis using c r by (simp add: wp_ret)
      next
        case (Some c')
        then have more: "cursor_means (Some c') (cursor_at ?C (p + k))" "length ?U - (p + k) < n"
          using c Suc.prems(3) k(1) by auto
        have "drop p ?U = take k (drop p ?U) @ drop (p + k) ?U"
          by (metis add.commute append_take_drop_id drop_drop)
        then show ?thesis
          unfolding Some option.case wp_bnd
          by (intro wp_mono [OF Suc.IH [OF v' more, unfolded k(2)]]) (auto simp: wp_ret r)
      qed
    qed simp
  qed simp
  from this [of w None 0 "Suc (length ?U)"]
  show ?thesis by (simp add: same_log_def cursor_means_def cursor_at_def decode_cursor_def wp_ret)
qed

text \<open>Two entries of the control plane and a stream of two lines.\<close>

definition logged :: "string \<Rightarrow> int \<Rightarrow> string \<Rightarrow> cloud_run_log_entry" where
  "logged i t message = \<lparr>lg_id = i, lg_cloud_run_id = ''run'', lg_workspace_id = ''w'', lg_level = ''info'',
     lg_event = ''event'', lg_message = message, lg_payload = None, lg_created_at = t\<rparr>"

definition stream_text :: string where
  "stream_text = ''one'' @ [CHR 0x0A] @ ''token=abc'' @ [CHR 0x0A]"

definition streamed_log :: cloud_run_stored_object where
  "streamed_log = blank_cloud_run_stored_object\<lparr>so_id := ''obj'', so_workspace_id := ''w'',
     so_cloud_run_id := ''run'', so_kind := ''log'', so_uri := ''local-inline://cloud-run-objects/obj'',
     so_sha256 := stream_text, so_size_bytes := 14, so_content_type := ''text/plain'',
     so_text_content := stream_text\<rparr>"

definition streamed_run :: cloud_run where
  "streamed_run = sample_run\<lparr>cr_log_stream_uri := Some ''local-inline://cloud-run-objects/obj'',
     cr_log_stream_sha256 := Some stream_text, cr_log_stream_size_bytes := Some 14,
     cr_log_stream_content_type := Some ''text/plain''\<rparr>"

definition log_db :: db where
  "log_db = sample_db\<lparr>t_cloud_run := [(''run'', streamed_run)],
     t_cloud_run_log_entry := [(''e2'', logged ''e2'' 7 ''second''), (''e1'', logged ''e1'' 7 ''first'')],
     t_cloud_run_stored_object := [(''obj'', streamed_log)]\<rparr>"

theorem log_pages_complete_witness:
  "map we_message (whole_log sample_services (world_of log_db) streamed_run) =
     [''first'', ''second'', ''one'', ''token=[redacted]''] \<and>
   wp (follow_log sample_services ''run'' 1
       (Suc (length (whole_log sample_services (world_of log_db) streamed_run))) None)
     (\<lambda>r _. \<exists>es. r = Some es \<and> map unnumbered es =
        map unnumbered (whole_log sample_services (world_of log_db) streamed_run))
     (\<lambda>e _. e = IntegrityError) (world_of log_db)"
proof
  show "map we_message (whole_log sample_services (world_of log_db) streamed_run) =
      [''first'', ''second'', ''one'', ''token=[redacted]'']"
    by code_simp
  have log: "t_cloud_run_log_entry (w_db (world_of log_db)) =
      [(''e2'', logged ''e2'' 7 ''second''), (''e1'', logged ''e1'' 7 ''first'')]"
    by (simp add: world_of_def log_db_def)
  show "wp (follow_log sample_services ''run'' 1
       (Suc (length (whole_log sample_services (world_of log_db) streamed_run))) None)
     (\<lambda>r _. \<exists>es. r = Some es \<and> map unnumbered es =
        map unnumbered (whole_log sample_services (world_of log_db) streamed_run))
     (\<lambda>e _. e = IntegrityError) (world_of log_db)"
  proof (rule log_pages_complete)
    show "quiet (world_of log_db)" by simp
    show "reader_of (world_of log_db) ''run'' streamed_run"
      by (simp add: reader_of_def log_db_def world_of_def sample_env_def sample_auth_def permitted_def
          streamed_run_def sample_run_def permission_roles_def has_any_role_def
          evidence_read_roles_def)
    show "local_stream streamed_run" by code_simp
    show "keyed lg_id (t_cloud_run_log_entry (w_db (world_of log_db)))"
      by (simp add: log keyed_def logged_def)
    show "list_all (\<lambda>x. datetime_range (lg_created_at x)) (rows (t_cloud_run_log_entry (w_db (world_of log_db))))"
      by (simp add: log rows_def logged_def datetime_range_def day_us_def)
  qed simp
qed

end
