(* ===== verification/PullRequests.thy ===== *)
theory PullRequests
  imports PatchApprovals
begin

text \<open>
  \<^verbatim>\<open>github_pull_request.py\<close>: the pull request for an approved patch. Its record is committed before
  GitHub is asked, so that no second request is made for the same approval; the answer is committed
  before the task moves on, so that the rest can be made up for later.
\<close>

section \<open>Asking GitHub\<close>

record created_pull_request =
  cp_number :: int
  cp_url :: string

text \<open>The keyword arguments of \<^verbatim>\<open>create_pull_request\<close>.\<close>

record pull_request_call =
  pc_owner :: string
  pc_repo :: string
  pc_repo_url :: string
  pc_token :: string
  pc_base_branch :: string
  pc_head_branch :: string
  pc_diff_text :: string
  pc_title :: string
  pc_body :: string

text \<open>
  What the adapter uses of the host, a parameter. \<open>gs_git\<close> runs \<^verbatim>\<open>git\<close> with its arguments, directory and
  the variables added to its environment, where the file \<^verbatim>\<open>ai-scdc.patch\<close> of the work tree has the given
  text; it raises an exception with a text, or gives return code, output and error output. \<open>gs_post\<close> sends a
  JSON text with the token to an address and gives \<^verbatim>\<open>number\<close> and \<^verbatim>\<open>html_url\<close> of the answer, or an
  exception's text. \<open>gs_temp_dir\<close> names a new directory, \<open>gs_str\<close> is the text of an exception.
\<close>

record git_call =
  gl_args :: "string list"
  gl_cwd :: "string option"
  gl_env :: "(string \<times> string) list"
  gl_patch :: "string option"

record git_host =
  gs_temp_dir :: "nat \<Rightarrow> string"
  gs_git :: "nat \<Rightarrow> git_call \<Rightarrow> string + int \<times> string \<times> string"
  gs_post :: "nat \<Rightarrow> string \<Rightarrow> string \<Rightarrow> string \<Rightarrow> string + int \<times> string"
  gs_str :: "exn \<Rightarrow> string"

definition redact_token :: "string \<Rightarrow> string \<Rightarrow> string" where
  "redact_token message token =
     (if token \<noteq> [] then replace_all token ''[redacted]'' message else message)"

definition git_config_parameters_without_credential_helper :: "string option \<Rightarrow> string" where
  "git_config_parameters_without_credential_helper existing =
     (let disable_credential_helper = [CHR 0x27] @ ''credential.helper='' @ [CHR 0x27];
          existing_parameters = strip (str_or existing [])
      in if existing_parameters = [] then disable_credential_helper
         else if occurs_in disable_credential_helper existing_parameters then existing_parameters
         else existing_parameters @ '' '' @ disable_credential_helper)"

definition git_auth_env :: "string \<Rightarrow> string \<Rightarrow> (string \<times> string) list action" where
  "git_auth_env askpass_path token = bnd (environ ''GIT_CONFIG_PARAMETERS'') (\<lambda>existing.
                                     ret [(''AI_SCDC_GIT_TOKEN'', token), (''GIT_ASKPASS'', askpass_path),
       (''GIT_CONFIG_PARAMETERS'', git_config_parameters_without_credential_helper existing),
       (''GIT_TERMINAL_PROMPT'', ''0'')])"

text \<open>\<open>Inl\<close> is the text of the exception that was raised.\<close>

definition run_git :: "git_host \<Rightarrow> string \<Rightarrow> git_call \<Rightarrow> (string + unit) action" where
  "run_git host token call = bnd (external (\<lambda>n. gs_git host n call)) (\<lambda>result.
                             ret (case result of
            Inl message \<Rightarrow> Inl message
          | Inr (code, stdout, stderr) \<Rightarrow>
              if code \<noteq> 0 then Inl (redact_token (if stderr \<noteq> [] then stderr else stdout) token)
              else Inr ()))"

fun run_gits :: "git_host \<Rightarrow> string \<Rightarrow> git_call list \<Rightarrow> (string + unit) action" where
  "run_gits host token [] = ret (Inr ())"
| "run_gits host token (call # calls) =
     bnd (run_git host token call) (\<lambda>result.
     case result of Inl message \<Rightarrow> ret (Inl message) | Inr _ \<Rightarrow> run_gits host token calls)"

definition pull_request_git_calls ::
  "pull_request_call \<Rightarrow> string \<Rightarrow> (string \<times> string) list \<Rightarrow> git_call list" where
  "pull_request_git_calls call worktree env =
     (let in_tree = (\<lambda>patch args. \<lparr>gl_args = args, gl_cwd = Some worktree, gl_env = env, gl_patch = patch\<rparr>)
      in [\<lparr>gl_args = [''clone'', pc_repo_url call, worktree], gl_cwd = None, gl_env = env, gl_patch = None\<rparr>,
          in_tree None [''checkout'', ''-B'', pc_head_branch call, ''origin/'' @ pc_base_branch call],
          in_tree (Some (pc_diff_text call)) [''apply'', worktree @ ''/ai-scdc.patch''],
          in_tree None [''add'', ''-A''],
          in_tree None [''-c'', ''user.email=ai-scdc@example.local'', ''-c'', ''user.name=AI SCDC'',
            ''commit'', ''-m'', pc_title call],
          in_tree None [''push'', ''origin'', ''HEAD:'' @ pc_head_branch call]])"

text \<open>\<^verbatim>\<open>json.dumps\<close> in the order of the members, with blanks.\<close>

definition pull_request_body :: "pull_request_call \<Rightarrow> string" where
  "pull_request_body call =
     ''{'' @ json_string ''title'' @ '': '' @ json_string (pc_title call) @ '', '' @
     json_string ''head'' @ '': '' @ json_string (pc_head_branch call) @ '', '' @
     json_string ''base'' @ '': '' @ json_string (pc_base_branch call) @ '', '' @
     json_string ''body'' @ '': '' @ json_string (pc_body call) @ ''}''"

definition creation_failed :: "pull_request_call \<Rightarrow> string \<Rightarrow> string" where
  "creation_failed call message =
     ''GitHub pull request creation failed: '' @ redact_token message (pc_token call)"

definition create_github_pull_request ::
  "git_host \<Rightarrow> pull_request_call \<Rightarrow> (string + created_pull_request) action" where
  "create_github_pull_request host call = bnd (external (gs_temp_dir host)) (\<lambda>temp_dir.
                                          let worktree = temp_dir @ ''/'' @ pc_repo call in
                                          bnd (git_auth_env (temp_dir @ ''/git-askpass.sh'') (pc_token call)) (\<lambda>git_env.
                                          bnd (run_gits host (pc_token call) (pull_request_git_calls call worktree git_env)) (\<lambda>pushed.
                                          case pushed of
       Inl message \<Rightarrow> ret (Inl (creation_failed call message))
     | Inr _ \<Rightarrow> bnd (external (\<lambda>n. gs_post host n
           (''https://api.github.com/repos/'' @ pc_owner call @ ''/'' @ pc_repo call @ ''/pulls'')
           (pc_token call) (pull_request_body call))) (\<lambda>answer.
               ret (case answer of
                Inl message \<Rightarrow> Inl (creation_failed call message)
              | Inr (number, url) \<Rightarrow> Inr \<lparr>cp_number = number, cp_url = url\<rparr>)))))"

definition create_fake_pull_request :: "pull_request_call \<Rightarrow> (string + created_pull_request) action" where
  "create_fake_pull_request call = ret (Inr \<lparr>cp_number = 1,
     cp_url = ''https://github.com/'' @ pc_owner call @ ''/'' @ pc_repo call @ ''/pull/1''\<rparr>)"

datatype pull_request_adapter = GitHubPullRequestAdapter | FakeGitHubPullRequestAdapter

definition default_pull_request_adapter :: "pull_request_adapter action" where
  "default_pull_request_adapter = bnd (environ ''AI_SCDC_GITHUB_PR_ADAPTER'') (\<lambda>configured.
                                  ret (if lower (strip (str_or configured [])) = ''real'' then GitHubPullRequestAdapter
          else FakeGitHubPullRequestAdapter))"

definition create_pull_request ::
  "git_host \<Rightarrow> pull_request_adapter \<Rightarrow> pull_request_call \<Rightarrow> (string + created_pull_request) action" where
  "create_pull_request host adapter call =
     (case adapter of
        GitHubPullRequestAdapter \<Rightarrow> create_github_pull_request host call
      | FakeGitHubPullRequestAdapter \<Rightarrow> create_fake_pull_request call)"

section \<open>Lookups\<close>

definition existing_pull_request :: "string \<Rightarrow> pull_request_record option action" where
  "existing_pull_request approval_id = bnd (db_select t_pull_request_record (\<lambda>r. pl_patch_approval_id r = approval_id)) (\<lambda>found.
                                       ret (first_of (sort_key (\<lambda>r. (pl_created_at r, pl_id r)) found)))"

definition newest_cloud_run :: "cloud_run list \<Rightarrow> cloud_run option" where
  "newest_cloud_run rs = first_of (rev (sort_key (\<lambda>r. (cr_created_at r, cr_id r)) rs))"

definition latest_cloud_run_for_artifact :: "patch_artifact \<Rightarrow> cloud_run option action" where
  "latest_cloud_run_for_artifact artifact = bnd (db_select t_cloud_run (\<lambda>r. cr_patch_artifact_id r = Some (pa_id artifact) \<and>
       cr_workspace_id r = pa_workspace_id artifact)) (\<lambda>found.
                                            case newest_cloud_run found of
       Some cloud_run \<Rightarrow> ret (Some cloud_run)
     | None \<Rightarrow> bnd (db_select t_cloud_run (\<lambda>r. cr_task_id r = pa_task_id artifact \<and>
           cr_local_run_id r = Some (pa_local_run_id artifact) \<and>
           cr_workspace_id r = pa_workspace_id artifact)) (\<lambda>related.
              ret (newest_cloud_run related)))"

definition get_github_repository :: "string \<Rightarrow> repository action" where
  "get_github_repository repo_id = bnd (get_owned t_repository rp_workspace_id ''Repository not found'' repo_id) (\<lambda>repository.
                                   bnd (only_if (rp_provider repository \<noteq> ''github'')
       (raise (http 400 ''Pull requests require a GitHub repository''))) (\<lambda>_.
                                   bnd (only_if (rp_connection_status repository \<noteq> ''active'')
       (raise (http 400 ''GitHub repository is not active''))) (\<lambda>_.
                                   bnd (only_if (str_or (rp_github_owner repository) [] = [] \<or> str_or (rp_github_repo repository) [] = [])
       (raise (http 400 ''GitHub repository metadata is incomplete''))) (\<lambda>_.
                                   bnd (check (validate_github_repository_url (rp_repo_url repository)
       (str_or (rp_github_owner repository) []) (str_or (rp_github_repo repository) []))) (\<lambda>_.
                                   ret repository)))))"

record pull_request_result_read =
  pq_task :: task
  pq_patch_artifact :: patch_artifact
  pq_approval :: patch_approval
  pq_pull_request :: pull_request_record

definition pull_request_result :: "pull_request_record \<Rightarrow> pull_request_result_read action" where
  "pull_request_result pull = bnd (get_task (pl_task_id pull)) (\<lambda>task.
                              bnd (get_patch_artifact_entity (pl_patch_artifact_id pull)) (\<lambda>artifact.
                              bnd (get_patch_approval (pl_patch_approval_id pull)) (\<lambda>approval.
                              ret \<lparr>pq_task = task, pq_patch_artifact = artifact, pq_approval = approval,
          pq_pull_request = pull\<rparr>)))"

section \<open>The record of a pull request\<close>

definition get_pull_request :: "string \<Rightarrow> pull_request_record action" where
  "get_pull_request = get_owned t_pull_request_record pl_workspace_id ''Pull request not found''"

definition list_pull_requests_for_patch_artifact :: "string \<Rightarrow> pull_request_record list action" where
  "list_pull_requests_for_patch_artifact patch_artifact_id = bnd (get_patch_artifact_entity patch_artifact_id) (\<lambda>_.
                                                             bnd (db_select t_pull_request_record (\<lambda>r. pl_patch_artifact_id r = patch_artifact_id)) (\<lambda>records.
                                                             ret (sort_key (\<lambda>r. (pl_created_at r, pl_id r)) records)))"

definition transition_task_to_pr_created :: "task \<Rightarrow> task action" where
  "transition_task_to_pr_created task =
     (let current_status = tk_status task in
      case validate_transition current_status PR_CREATED ''system'' of
        Inl msg \<Rightarrow> raise (transition_error msg current_status PR_CREATED)
      | Inr next_status \<Rightarrow> bnd utc_now (\<lambda>now.
                          bnd (set_task task (\<lambda>t. t\<lparr>tk_status := next_status, tk_updated_at := now\<rparr>)) (\<lambda>task.
                          bnd (create_task_event (tk_id task) ''task_transitioned'' ''system'' ''github_pull_request''
            (transition_payload current_status next_status)) (\<lambda>_.
                          ret task))))"

definition finalize_pull_request :: "string \<Rightarrow> int \<Rightarrow> (pull_request_result_read \<times> int) action" where
  "finalize_pull_request record_id status_code = bnd (get_pull_request record_id) (\<lambda>found.
                                                 bnd (get_task (pl_task_id found)) (\<lambda>task.
                                                 bnd (only_if (tk_status task \<noteq> PR_CREATED) (bnd (transition_task_to_pr_created task) (\<lambda>task.
                                            bnd (create_task_event (tk_id task) ''pull_request_created'' ''system'' ''github_pull_request''
         (JObj [(''pull_request_id'', JStr (pl_id found)),
                (''patch_approval_id'', JStr (pl_patch_approval_id found)),
                (''patch_artifact_id'', JStr (pl_patch_artifact_id found)),
                (''github_pr_number'', JInt (pl_github_pr_number found)),
                (''github_pr_url'', JStr (pl_github_pr_url found))])) (\<lambda>_.
                                            ret ())))) (\<lambda>_.
                                                 bnd (set_pull_request_record found (\<lambda>r. r\<lparr>pl_status := ''created''\<rparr>)) (\<lambda>changed.
                                                 bnd commit (\<lambda>_.
                                                 bnd (db_refresh t_pull_request_record pl_id changed) (\<lambda>refreshed.
                                                 bnd (pull_request_result refreshed) (\<lambda>result.
                                                 ret (result, status_code))))))))"

definition handle_existing_pull_request ::
  "pull_request_record \<Rightarrow> (pull_request_result_read \<times> int) action" where
  "handle_existing_pull_request found =
     (if pl_status found = ''created''
      then bnd (pull_request_result found) (\<lambda>result.
           ret (result, 200))
      else if pl_status found = ''creating''
      then raise (http 409 ''Pull request is already being created for this patch approval'')
      else if pl_status found = ''failed''
      then raise (http 409 ''Pull request creation previously failed for this patch approval'')
      else if pl_status found = ''finalizing''
      then if 0 < pl_github_pr_number found \<and> pl_github_pr_url found \<noteq> []
           then finalize_pull_request (pl_id found) 200
           else raise (http 409 ''Pull request finalization is missing GitHub metadata'')
      else raise (http 409 (''Pull request is in unsupported status '' @ pl_status found)))"

definition persist_pull_request_finalizing :: "string \<Rightarrow> created_pull_request \<Rightarrow> unit action" where
  "persist_pull_request_finalizing record_id created_pr = bnd (get_pull_request record_id) (\<lambda>found.
                                                          bnd (set_pull_request_record found (\<lambda>r. r\<lparr>pl_github_pr_number := cp_number created_pr,
       pl_github_pr_url := cp_url created_pr, pl_status := ''finalizing''\<rparr>)) (\<lambda>_.
                                                          commit))"

definition mark_pull_request_failed :: "string \<Rightarrow> unit action" where
  "mark_pull_request_failed record_id = bnd (db_get t_pull_request_record record_id) (\<lambda>found.
                                        case found of
       None \<Rightarrow> ret ()
     | Some r \<Rightarrow> bnd (set_pull_request_record r (\<lambda>r. r\<lparr>pl_status := ''failed''\<rparr>)) (\<lambda>_.
                commit))"

section \<open>Publishing\<close>

definition linked_run_required :: "patch_artifact \<Rightarrow> exn" where
  "linked_run_required artifact = HTTPException 400
     (JObj [(''message'', JStr ''Pull request creation requires a linked cloud run''),
            (''patch_artifact_id'', JStr (pa_id artifact))]) None"

definition creation_refused :: "string \<Rightarrow> exn" where
  "creation_refused message = HTTPException 502
     (JObj [(''message'', JStr ''Pull request creation failed''), (''error'', JStr message)]) None"

text \<open>
  The record and its commit; \<open>None\<close> when another request was faster, whose record then decides.
\<close>

definition reserve_pull_request ::
  "patch_approval \<Rightarrow> patch_artifact \<Rightarrow> cloud_run \<Rightarrow> repository \<Rightarrow> string \<Rightarrow>
     (pull_request_record + pull_request_result_read \<times> int) action" where
  "reserve_pull_request approval artifact cloud_run repository base_branch = bnd current_user_id (\<lambda>user_id.
                                                                             bnd (new_pull_request_record (\<lambda>r. r\<lparr>
       pl_workspace_id := pp_workspace_id approval,
       pl_project_id := pp_project_id approval,
       pl_task_id := pp_task_id approval,
       pl_repo_id := rp_id repository,
       pl_patch_artifact_id := pa_id artifact,
       pl_patch_approval_id := pp_id approval,
       pl_cloud_run_id := Some (cr_id cloud_run),
       pl_head_branch := cr_head_branch cloud_run,
       pl_base_branch := base_branch,
       pl_github_pr_number := 0,
       pl_github_pr_url := [],
       pl_status := ''creating'',
       pl_created_by := user_id\<rparr>)) (\<lambda>new_record.
                                                                             bnd (try_catch (bnd (add_pull_request_record new_record) (\<lambda>_.
                          bnd commit (\<lambda>_.
                          ret True)))
       (\<lambda>e. if e = IntegrityError then bnd rollback (\<lambda>_.
                                       ret False) else raise e)) (\<lambda>stored.
                                                                             if stored then bnd (db_refresh t_pull_request_record pl_id new_record) (\<lambda>refreshed.
                    ret (Inl refreshed))
     else bnd (existing_pull_request (pp_id approval)) (\<lambda>existing.
          case existing of
         Some found \<Rightarrow> bnd (handle_existing_pull_request found) (\<lambda>result.
                      ret (Inr result))
       | None \<Rightarrow> raise (http 409
           ''Pull request record could not be created because of a uniqueness conflict'')))))"

text \<open>
  The call of the adapter with the rows as they are after the commit; an exception becomes its text.
\<close>

definition ask_github ::
  "git_host \<Rightarrow> pull_request_adapter option \<Rightarrow> patch_artifact \<Rightarrow> task \<Rightarrow> cloud_run \<Rightarrow> repository \<Rightarrow> string \<Rightarrow>
     string \<Rightarrow> (string + created_pull_request) action" where
  "ask_github host adapter artifact task cloud_run repository token base_branch =
     try_catch (bnd (case adapter of Some a \<Rightarrow> ret a | None \<Rightarrow> default_pull_request_adapter) (\<lambda>chosen.
                bnd (db_refresh t_repository rp_id repository) (\<lambda>repository.
                bnd (db_refresh t_cloud_run cr_id cloud_run) (\<lambda>cloud_run.
                bnd (db_refresh t_patch_artifact pa_id artifact) (\<lambda>artifact.
                bnd (db_refresh t_task tk_id task) (\<lambda>task.
                create_pull_request host chosen
         \<lparr>pc_owner = str_or (rp_github_owner repository) [], pc_repo = str_or (rp_github_repo repository) [],
          pc_repo_url = rp_repo_url repository, pc_token = token, pc_base_branch = base_branch,
          pc_head_branch = cr_head_branch cloud_run, pc_diff_text = pa_diff_text artifact,
          pc_title = tk_title task,
          pc_body = ''Created from patch artifact '' @ pa_id artifact @ ''.''\<rparr>))))))
       (\<lambda>exc. ret (Inl (gs_str host exc)))"

definition publish_pull_request ::
  "services \<Rightarrow> git_host \<Rightarrow> pull_request_adapter option \<Rightarrow> patch_approval \<Rightarrow> (pull_request_result_read \<times> int) action" where
  "publish_pull_request sv host adapter approval = bnd (get_patch_artifact_entity (pp_patch_artifact_id approval)) (\<lambda>artifact.
                                                   bnd (get_task (pp_task_id approval)) (\<lambda>task.
                                                   bnd (only_if (tk_status task \<noteq> HUMAN_APPROVAL)
       (raise (status_required ''Task must be HUMAN_APPROVAL before pull request creation'' task
          HUMAN_APPROVAL))) (\<lambda>_.
                                                   bnd (latest_cloud_run_for_artifact artifact) (\<lambda>linked.
                                                   case linked of
       None \<Rightarrow> raise (linked_run_required artifact)
     | Some cloud_run \<Rightarrow> bnd (get_github_repository (cr_repo_id cloud_run)) (\<lambda>repository.
                        case rp_github_credential_id repository of
           None \<Rightarrow> raise (http 400 ''GitHub credential is required'')
         | Some credential_id \<Rightarrow> bnd (get_active_github_credential credential_id) (\<lambda>credential.
                                bnd (open_secret sv (gc_encrypted_token credential)
               (credential_access (gc_id credential) ''open'' ''github_pull_request_create''
                  (gc_workspace_id credential))) (\<lambda>token.
                                let base_branch = (if cr_base_branch cloud_run \<noteq> [] then cr_base_branch cloud_run
                                else rp_default_branch repository) in
                                bnd (reserve_pull_request approval artifact cloud_run repository base_branch) (\<lambda>reserved.
                                case reserved of
               Inr result \<Rightarrow> ret result
             | Inl pull \<Rightarrow> bnd (ask_github host adapter artifact task cloud_run repository token base_branch) (\<lambda>asked.
                          case asked of
                   Inl message \<Rightarrow> bnd (mark_pull_request_failed (pl_id pull)) (\<lambda>_.
                                 raise (creation_refused (redact_token message token)))
                 | Inr created_pr \<Rightarrow> bnd (persist_pull_request_finalizing (pl_id pull) created_pr) (\<lambda>_.
                                    bnd (finalize_pull_request (pl_id pull) 201) (\<lambda>finished.
                                    bnd (audit_success ''pull_request.publish'' ''patch_approval'' (pp_id approval)
                       (snd finished) True) (\<lambda>_.
                                    ret finished))))))))))))"

definition create_pull_request_for_approval ::
  "services \<Rightarrow> git_host \<Rightarrow> pull_request_adapter option \<Rightarrow> string \<Rightarrow> (pull_request_result_read \<times> int) action" where
  "create_pull_request_for_approval sv host adapter approval_id = bnd (get_patch_approval approval_id) (\<lambda>approval.
                                                                  bnd (require_audited_permission_if_authenticated ''pull_request.publish'' ''pull_request.publish''
       ''patch_approval'' (Some (pp_id approval))) (\<lambda>_.
                                                                  bnd (existing_pull_request (pp_id approval)) (\<lambda>existing.
                                                                  case existing of
       Some found \<Rightarrow> bnd (handle_existing_pull_request found) (\<lambda>handled.
                    bnd (audit_success ''pull_request.publish'' ''patch_approval'' (pp_id approval) (snd handled) True) (\<lambda>_.
                    ret handled))
     | None \<Rightarrow> publish_pull_request sv host adapter approval)))"

text \<open>The route \<^verbatim>\<open>POST /patch-approvals/{approval_id}/pull-requests\<close>; the number is the status of the answer.\<close>

definition post_patch_approval_pull_request ::
  "services \<Rightarrow> git_host \<Rightarrow> string \<Rightarrow> (pull_request_result_read \<times> int) action" where
  "post_patch_approval_pull_request sv host approval_id =
     create_pull_request_for_approval sv host None approval_id"

end
