(* ===== verification/PullRequestLaws.thy ===== *)
theory PullRequestLaws
  imports PullRequests WorkflowHandlers Samples AccessLaws
begin

text \<open>
  A pull request is asked for once: its record is committed before GitHub is asked, and a request that
  finds the record makes no external call. The token stays out of every answer.
\<close>

section \<open>What a request does aside from the database\<close>

text \<open>The environment stays, and so does the number of external calls, but for the calls themselves.\<close>

abbreviation aside :: "env \<Rightarrow> nat \<Rightarrow> world \<Rightarrow> bool" where
  "aside v n w \<equiv> w_env w = v \<and> w_calls w = n"

abbreviation silent :: "env \<Rightarrow> nat \<Rightarrow> 'a action \<Rightarrow> bool" where
  "silent v n \<equiv> keeps (aside v n) (\<lambda>_. aside v n)"

lemma silent_session [keeps_intros]:
  "silent v n utc_now" "silent v n (prefixed_id p)" "silent v n random_token"
  "silent v n commit" "silent v n rollback" "silent v n (db_get tab k)"
  "silent v n (db_select tab' P)" "silent v n (db_refresh tab'' key r)"
  "silent v n (db_insert tab1 upd1 key1 clash r1)" "silent v n (db_modify upd2 key2 r2 f2)"
  "silent v n (modify (w_audit_seq_update g))"
  by (auto intro!: keepsI simp: wp_simps split: option.split)

lemma silent_raise [keeps_intros]: "silent v n (raise e)"
  by (rule keeps_raise)

lemma silent_catch [keeps_intros]:
  "silent v n m \<Longrightarrow> (\<And>e. silent v n (h e)) \<Longrightarrow> silent v n (try_catch m h)"
  by (rule keeps_try_catch [of _ "\<lambda>_. aside v n"]) (auto dest: keepsD)

lemma silent_context [keeps_intros]:
  "silent v n require_current_auth_context" "silent v n get_current_auth_context"
  "silent v n current_user_id" "silent v n (enforce_workspace_access ws detail)"
  by (auto intro!: keepsI simp: wp_simps split: option.split)

lemma silent_logs [keeps_intros]:
  "silent v n (record_workspace_audit a)" "silent v n (record_identity_audit_event b)"
  unfolding record_workspace_audit_def record_identity_audit_event_def resolved_request_id_def
    resolved_correlation_id_def resolved_audit_time_def next_occurred_at_def new_row_defs add_row_defs
  by (intro keeps_intros)+

lemma silent_permission [keeps_intros]:
  "silent v n (record_denial operation resource_type resource_id level)"
  "silent v n (require_workspace_permission p)"
  unfolding record_denial_def require_workspace_permission_def allowed_roles_for_permission_def
    require_workspace_role_def
  by (intro keeps_intros)+

lemma silent_audited [keeps_intros]:
  "silent v n (require_audited_permission_if_authenticated p operation resource_type resource_id)"
  "silent v n (audit_success operation typ i code commits)"
  unfolding require_audited_permission_if_authenticated_def require_audited_workspace_permission_def
    audit_success_def
  by ((intro keeps_intros)?; (auto intro!: keeps_intros split: exn.split)?)+

lemma silent_reads [keeps_intros]:
  "silent v n (get_task i)" "silent v n (get_owned tab ws detail i)"
  "silent v n (get_patch_approval i)" "silent v n (get_patch_artifact_entity i)"
  "silent v n (get_pull_request i)" "silent v n (pull_request_result r)"
  "silent v n (existing_pull_request i)" "silent v n (latest_cloud_run_for_artifact a)"
  "silent v n (check r')" "silent v n (get_github_repository i)"
  "silent v n (get_active_github_credential i)"
  unfolding get_task_def get_project_def get_owned_def get_patch_approval_def get_patch_artifact_entity_def
    get_pull_request_def pull_request_result_def existing_pull_request_def
    latest_cloud_run_for_artifact_def check_def get_github_repository_def
    get_active_github_credential_def
  by (intro keeps_intros)+

lemma silent_writes [keeps_intros]:
  "silent v n (create_task_event i typ actor actor_id payload)"
  "silent v n (transition_task_to_pr_created t)"
  "silent v n (finalize_pull_request i code)" "silent v n (handle_existing_pull_request r)"
  unfolding create_task_event_def transition_task_to_pr_created_def finalize_pull_request_def
    handle_existing_pull_request_def new_row_defs add_row_defs set_row_defs
  by (intro keeps_intros)+

lemma silent_secret_access [keeps_intros]: "silent v n (record_secret_access a success commits)"
  unfolding record_secret_access_def secret_organization_id_def current_workspace_id_def
    current_organization_id_def resolved_request_id_def
    resolved_correlation_id_def resolved_audit_time_def next_occurred_at_def new_row_defs add_row_defs
  by (intro keeps_intros)

lemma wp_open_secret:
  assumes "aside v n w"
  shows "wp (open_secret sv s a) (\<lambda>_. aside v (Suc n)) (\<lambda>_. aside v (Suc n)) w"
proof -
  have rest: "silent v (Suc n) (case opened of
      None \<Rightarrow> bnd (record_secret_access a False False) (\<lambda>_. raise SdkError)
    | Some secret \<Rightarrow> bnd (record_secret_access a True False) (\<lambda>_. ret secret))" for opened
    by (intro keeps_intros)
  show ?thesis
    unfolding open_secret_def wp_bnd [of "external _"] wp_external
    by (rule keepsD [OF rest]) (use assms in simp)
qed

section \<open>The record stays\<close>

definition recorded :: "string \<Rightarrow> db \<Rightarrow> bool" where
  "recorded a d \<longleftrightarrow> list_ex (\<lambda>r. pl_patch_approval_id r = a) (rows (t_pull_request_record d))"

lemma recorded_modify:
  assumes "recorded a d" and "\<And>r. pl_patch_approval_id (f r) = pl_patch_approval_id r"
  shows "recorded a (t_pull_request_record_update (row_modify k f) d)"
proof -
  have "list_ex P (rows (AList.update k (f r) t))"
    if "list_ex P (rows t)" "map_of t k = Some r" "\<And>r. P (f r) = P r"
    for P r and t :: "pull_request_record table"
    using that by (induction t) (auto simp: rows_def split: if_splits)
  then have "list_ex P (rows (row_modify k f t))" if "list_ex P (rows t)" "\<And>r. P (f r) = P r"
    for P and t :: "pull_request_record table"
    using that by (auto simp: row_modify_def split: option.split)
  then show ?thesis using assms by (simp add: recorded_def)
qed

lemma recorded_insert: "recorded a d \<Longrightarrow> recorded a (t_pull_request_record_update (\<lambda>t. t @ [x]) d)"
  by (simp add: recorded_def rows_def)

text \<open>An approval sits under its own identifier.\<close>

definition approval_sound :: "string \<Rightarrow> db \<Rightarrow> bool" where
  "approval_sound a d \<longleftrightarrow>
     (case map_of (t_patch_approval d) a of None \<Rightarrow> True | Some r \<Rightarrow> pp_id r = a)"

text \<open>
  The contract of the publication: what is kept by the audit trail, by tasks and their events, by the
  log of secrets, and by new pull request records and changes that leave them with their approval.
\<close>

locale pull_invariant = audit_invariant +
  assumes ignores_task [simp]: "\<And>f d. G (t_task_update f d) = G d"
    and ignores_task_event [simp]: "\<And>f d. G (t_task_event_update f d) = G d"
    and ignores_secret_log [simp]: "\<And>f d. G (t_secret_access_audit_log_update f d) = G d"
    and pull_added: "\<And>x d. G d \<Longrightarrow> G (t_pull_request_record_update (\<lambda>t. t @ [x]) d)"
    and pull_changed: "\<And>k f d. G d \<Longrightarrow> (\<And>r. pl_patch_approval_id (f r) = pl_patch_approval_id r) \<Longrightarrow>
      G (t_pull_request_record_update (row_modify k f) d)"
begin

lemma keeps_pull_rows [keeps_intros]:
  "keeps (good G) (safe G) (add_pull_request_record r)"
  "keeps (good G) (safe G) (add_task_event e)" "keeps (good G) (safe G) (set_task t ft)"
  "keeps (good G) (safe G) (add_secret_access_audit_log l)"
  unfolding add_pull_request_record_def add_task_event_def set_task_def add_secret_access_audit_log_def
  by (rule keeps_insert keeps_row_modify; simp add: pull_added)+

lemma keeps_set_pull [keeps_intros]:
  "(\<And>r. pl_patch_approval_id (f r) = pl_patch_approval_id r) \<Longrightarrow>
     keeps (good G) (safe G) (set_pull_request_record r f)"
  unfolding set_pull_request_record_def by (rule keeps_row_modify) (rule pull_changed)

lemma keeps_pull_reads [keeps_intros]:
  "keeps (good G) (safe G) (get_patch_approval i)"
  "keeps (good G) (safe G) (get_pull_request i)" "keeps (good G) (safe G) (pull_request_result r)"
  "keeps (good G) (safe G) (existing_pull_request i)"
  "keeps (good G) (safe G) (latest_cloud_run_for_artifact a)" "keeps (good G) (safe G) (check r')"
  "keeps (good G) (safe G) (get_github_repository i)"
  "keeps (good G) (safe G) (get_active_github_credential i)"
  unfolding get_patch_approval_def get_pull_request_def pull_request_result_def
    existing_pull_request_def latest_cloud_run_for_artifact_def check_def get_github_repository_def
    get_active_github_credential_def
  by (intro keeps_intros)+

lemma keeps_pull_secrets [keeps_intros]:
  "keeps (good G) (safe G) (open_secret sv s a)"
  unfolding open_secret_def record_secret_access_def secret_organization_id_def
  by (intro keeps_intros)

lemma keeps_pull_task_event [keeps_intros]:
  "keeps (good G) (safe G) (create_task_event i typ actor actor_id payload)"
  unfolding create_task_event_def by (intro keeps_intros)

lemma keeps_pull_writes [keeps_intros]:
  "keeps (good G) (safe G) (transition_task_to_pr_created t)"
  "keeps (good G) (safe G) (finalize_pull_request i code)"
  "keeps (good G) (safe G) (handle_existing_pull_request r)"
  "keeps (good G) (safe G) (persist_pull_request_finalizing i created)"
  "keeps (good G) (safe G) (mark_pull_request_failed i)"
  "keeps (good G) (safe G) (audit_success operation typ j code commits)"
  unfolding transition_task_to_pr_created_def finalize_pull_request_def handle_existing_pull_request_def
    persist_pull_request_finalizing_def mark_pull_request_failed_def audit_success_def
  by (intro keeps_intros; simp)+

lemma keeps_reserve_pull [keeps_intros]:
  "keeps (good G) (safe G) (reserve_pull_request approval artifact run repository branch)"
proof -
  have "keeps (good G) (safe G) (try_catch (bnd (add_pull_request_record r)
      (\<lambda>_. bnd commit (\<lambda>_. ret True)))
      (\<lambda>e. if e = IntegrityError then bnd rollback (\<lambda>_. ret False) else raise e))" for r
  proof (rule keeps_try_rollback)
    show "(if e = IntegrityError then bnd rollback (\<lambda>_. ret False) else raise e) = raise e \<or>
        (\<exists>k. (if e = IntegrityError then bnd rollback (\<lambda>_. ret False) else raise e) =
          bnd rollback (\<lambda>_. k) \<and> keeps (good G) (safe G) k)" for e
      using keeps_ret [of "good G" "safe G" False] by auto
  qed (intro keeps_intros)
  then show ?thesis unfolding reserve_pull_request_def by (intro keeps_intros)
qed

end

section \<open>Asking GitHub writes nothing\<close>

lemma calm_calls [keeps_intros]:
  "keeps (good G) (\<lambda>_. good G) (db_refresh tab key r)"
  "keeps (good G) (\<lambda>_. good G) (environ name)"
  "keeps (good G) (\<lambda>_. good G) (run_git host token call)"
  unfolding environ_def run_git_def db_refresh_def by (intro keeps_intros; assumption?)+

lemma calm_run_gits [keeps_intros]:
  "keeps (good G) (\<lambda>_. good G) (run_gits host token calls)"
  by (induction calls) (auto intro!: keeps_intros)

lemma keeps_ask_github [keeps_intros]:
  "keeps (good G) (safe G) (ask_github host adapter artifact task run repository token branch)"
proof -
  have "keeps (good G) (\<lambda>_. good G) (create_pull_request host chosen call)" for chosen call
    unfolding create_pull_request_def create_github_pull_request_def create_fake_pull_request_def
      git_auth_env_def Let_def
    by (cases chosen) (auto intro!: keeps_intros)
  then show ?thesis
    unfolding ask_github_def default_pull_request_adapter_def
    by (intro keeps_try_calm keeps_intros; assumption?)
qed

context pull_invariant
begin

lemma keeps_publish [keeps_intros]:
  "keeps (good G) (safe G) (publish_pull_request sv host adapter approval)"
  unfolding publish_pull_request_def by (intro keeps_intros)

lemma keeps_create_pull_request:
  "keeps (good G) (safe G) (create_pull_request_for_approval sv host adapter i)"
  unfolding create_pull_request_for_approval_def by (intro keeps_intros)

end

interpretation soundness: pull_invariant "approval_sound a" for a
  by unfold_locales (simp_all add: approval_sound_def)

interpretation recording: pull_invariant "recorded a" for a
  by unfold_locales (auto simp: recorded_insert recorded_modify, auto simp: recorded_def)

section \<open>Asked once\<close>

lemma wp_reserve:
  assumes "aside v n w" and "\<And>k d. recorded a d \<Longrightarrow> recorded a (e_others v k d)"
    and "pp_id approval = a"
  shows "wp (reserve_pull_request approval artifact run repository branch)
    (\<lambda>res w'. case res of Inl _ \<Rightarrow> good (recorded a) w' | Inr _ \<Rightarrow> aside v n w')
    (\<lambda>_ w'. aside v n w' \<or> based (recorded a) w') w"
proof -
  have stored: "good (recorded a) (sync_world (u\<lparr>w_db := d, w_committed := d\<rparr>))"
    if "recorded a d" "w_env u = v" for u d
    using that assms(2) by (intro good_sync) (simp add: good_def)
  have refresh: "wp (bnd (db_refresh t_pull_request_record pl_id r) (\<lambda>x. ret (Inl x)))
      (\<lambda>res w'. case res of Inl _ \<Rightarrow> good (recorded a) w' | Inr _ \<Rightarrow> aside v n w')
      (\<lambda>_ w'. aside v n w' \<or> based (recorded a) w') u" if "good (recorded a) u" for u r
    using that by (auto simp: wp_simps good_based split: option.split)
  have other: "wp (bnd (existing_pull_request a) (\<lambda>x. case x of
        Some found \<Rightarrow> bnd (handle_existing_pull_request found) (\<lambda>y. ret (Inr y))
      | None \<Rightarrow> raise e))
      (\<lambda>res w'. case res of Inl _ \<Rightarrow> good (recorded a) w' | Inr _ \<Rightarrow> aside v n w')
      (\<lambda>_ w'. aside v n w' \<or> based (recorded a) w') u" if "aside v n u" for u e
  proof -
    have "silent v n (bnd (existing_pull_request a) (\<lambda>x. case x of
        Some found \<Rightarrow> handle_existing_pull_request found | None \<Rightarrow> raise e))"
      by (intro keeps_intros)
    from keepsD [OF this that] show ?thesis
      unfolding wp_bnd wp_option
      by (rule wp_mono) (auto simp: wp_simps split: option.splits elim: wp_mono)
  qed
  let ?Q = "\<lambda>res w'. case res of Inl _ \<Rightarrow> good (recorded a) w' | Inr _ \<Rightarrow> aside v n w'"
  let ?E = "\<lambda>_ w'. aside v n w' \<or> based (recorded a) w'"
  have add: "wp (try_catch (bnd (add_pull_request_record r) (\<lambda>_. bnd commit (\<lambda>_. ret True)))
        (\<lambda>e. if e = IntegrityError then bnd rollback (\<lambda>_. ret False) else raise e))
      (\<lambda>stored w'. if stored then good (recorded a) w' else aside v n w') ?E u"
    if "aside v n u" "pl_patch_approval_id r = a" for r u
    using that by (simp add: add_pull_request_record_def wp_simps stored recorded_def rows_def)
  have row: "wp (new_pull_request_record (\<lambda>r. r\<lparr>pl_workspace_id := x1, pl_project_id := x2,
        pl_task_id := x3, pl_repo_id := x4, pl_patch_artifact_id := x5, pl_patch_approval_id := a,
        pl_cloud_run_id := x6, pl_head_branch := x7, pl_base_branch := x8, pl_github_pr_number := x9,
        pl_github_pr_url := x10, pl_status := x11, pl_created_by := x12\<rparr>))
      (\<lambda>r w'. aside v n w' \<and> pl_patch_approval_id r = a) ?E u" if "aside v n u"
    for u x1 x2 x3 x4 x5 x6 x7 x8 x9 x10 x11 x12
    using that by (simp add: new_pull_request_record_def wp_simps)
  have user: "wp current_user_id (\<lambda>_. aside v n) (\<lambda>_. aside v n) w"
    by (rule keepsD [OF silent_context(3)]) (rule assms(1))
  show ?thesis
    unfolding reserve_pull_request_def wp_bnd [of current_user_id] assms(3)
    apply (rule wp_mono [OF user])
    subgoal for i u
      apply (subst wp_bnd, rule wp_mono [OF row], assumption)
      subgoal for r u'
        apply (subst wp_bnd, rule wp_mono [OF add], simp, simp)
        subgoal for stored u'' using refresh other by (cases stored) simp_all
        subgoal by assumption
        done
      subgoal by assumption
      done
    subgoal by simp
    done
qed

text \<open>Without a record before the commit the credential is opened, and no other call is made.\<close>

definition asked_rightly :: "env \<Rightarrow> nat \<Rightarrow> string \<Rightarrow> world \<Rightarrow> bool" where
  "asked_rightly v n a w \<longleftrightarrow> w_env w = v \<and> w_calls w \<le> Suc n \<or> based (recorded a) w"

lemma wp_publish:
  assumes "aside v n w" and "\<And>k d. recorded a d \<Longrightarrow> recorded a (e_others v k d)"
    and "pp_id approval = a"
  shows "wp (publish_pull_request sv host adapter approval)
    (\<lambda>_. asked_rightly v n a) (\<lambda>_. asked_rightly v n a) w"
proof -
  let ?A = "\<lambda>_. asked_rightly v n a"
  have early: "asked_rightly v n a u" if "aside v n u" for u
    using that by (simp add: asked_rightly_def)
  have quietly: "wp m Q ?A u" if "silent v n m" "aside v n u" "\<And>x u'. aside v n u' \<Longrightarrow> Q x u'" for m Q u
    by (rule wp_mono [OF keepsD [OF that(1,2)]]) (use that(3) early in auto)
  have opened: "wp (open_secret sv s acc) Q ?A u"
    if "aside v n u" "\<And>x u'. aside v (Suc n) u' \<Longrightarrow> Q x u'" for s acc Q u
    by (rule wp_mono [OF wp_open_secret [OF that(1)]]) (use that(2) in \<open>auto simp: asked_rightly_def\<close>)
  have reserved: "wp (reserve_pull_request approval artifact run repository branch) Q ?A u"
    if "aside v (Suc n) u" "\<And>x u'. good (recorded a) u' \<Longrightarrow> Q (Inl x) u'"
      "\<And>x u'. aside v (Suc n) u' \<Longrightarrow> Q (Inr x) u'" for artifact run repository branch Q u
    by (rule wp_mono [OF wp_reserve [OF that(1) assms(2,3)]])
      (use that(2,3) in \<open>auto simp: asked_rightly_def split: sum.splits\<close>)
  have later: "wp m ?A ?A u" if "keeps (good (recorded a)) (safe (recorded a)) m" "good (recorded a) u" for m u
    by (rule wp_mono [OF keepsD [OF that]]) (auto simp: asked_rightly_def good_based safe_based)
  have option: "wp (case x of None \<Rightarrow> m | Some y \<Rightarrow> f y) Q ?A u"
    if "wp m Q ?A u" "\<And>y. wp (f y) Q ?A u" for x and m f Q u
    using that by (cases x) simp_all
  have refuse: "wp (raise e) Q ?A u" if "aside v n u" for e Q u
    using early that by (simp add: wp_simps)
  have rest: "keeps (good (recorded a)) (safe (recorded a))
      (bnd (ask_github host adapter artifact task run repository token branch) (\<lambda>asked. case asked of
         Inl message \<Rightarrow> bnd (mark_pull_request_failed i) (\<lambda>_.
           raise (creation_refused (redact_token message token)))
       | Inr created \<Rightarrow> bnd (persist_pull_request_finalizing i created) (\<lambda>_.
           bnd (finalize_pull_request i 201) (\<lambda>finished.
           bnd (audit_success ''pull_request.publish'' ''patch_approval'' (pp_id approval) (snd finished) True)
             (\<lambda>_. ret finished)))))" for artifact task run repository token branch i
    by (intro keeps_intros recording.keeps_pull_writes)
  show ?thesis
    unfolding publish_pull_request_def Let_def
    apply (subst wp_bnd, rule quietly, rule silent_reads, rule assms(1))
    apply (subst wp_bnd, rule quietly, rule silent_reads, assumption)
    apply (subst wp_bnd, rule quietly, rule keeps_only_if, rule silent_raise, assumption)
    apply (subst wp_bnd, rule quietly, rule silent_reads, assumption)
    apply (rule option, rule refuse, assumption)
    apply (subst wp_bnd, rule quietly, rule silent_reads, assumption)
    apply (rule option, rule refuse, assumption)
    apply (subst wp_bnd, rule quietly, rule silent_reads, assumption)
    apply (subst wp_bnd, rule opened, assumption)
    apply (subst wp_bnd, rule reserved, assumption)
     apply (subst sum.case, rule later, rule rest, assumption)
    apply (simp add: wp_simps asked_rightly_def)
    done
qed

lemma wp_create_pull_request:
  assumes "aside v n w" and "good (approval_sound a) w"
    and "\<And>k d. recorded a d \<Longrightarrow> recorded a (e_others v k d)"
  shows "wp (create_pull_request_for_approval sv host adapter a)
    (\<lambda>_. asked_rightly v n a) (\<lambda>_. asked_rightly v n a) w"
proof -
  let ?A = "\<lambda>_. asked_rightly v n a"
  have quietly: "wp m Q ?A u" if "silent v n m" "aside v n u" "\<And>x u'. aside v n u' \<Longrightarrow> Q x u'" for m Q u
    by (rule wp_mono [OF keepsD [OF that(1,2)]]) (use that(3) in \<open>auto simp: asked_rightly_def\<close>)
  have handled: "silent v n (bnd (handle_existing_pull_request found) (\<lambda>handled.
      bnd (audit_success ''pull_request.publish'' ''patch_approval'' i (snd handled) True)
        (\<lambda>_. ret handled)))" for found i
    by (intro keeps_intros)
  have found: "wp (get_patch_approval a) (\<lambda>approval u. aside v n u \<and> pp_id approval = a) ?A w"
  proof -
    have "wp (get_patch_approval a) (\<lambda>approval u. pp_id approval = a) (\<lambda>_ _. True) w"
      using assms(2)
      by (auto simp: get_patch_approval_def get_owned_def enforce_workspace_access_def
          get_current_auth_context_def good_def approval_sound_def wp_simps split: option.splits)
    moreover have "wp (get_patch_approval a) (\<lambda>_. aside v n) (\<lambda>_. aside v n) w"
      by (rule keepsD, rule silent_reads) (rule assms(1))
    ultimately show ?thesis
      by (rule wp_mono [OF wp_conj]) (auto simp: asked_rightly_def)
  qed
  show ?thesis
    unfolding create_pull_request_for_approval_def
    apply (subst wp_bnd, rule wp_mono [OF found])
    subgoal for approval u
      apply (subst wp_bnd, rule quietly, rule silent_audited, simp)
      apply (subst wp_bnd, rule quietly, rule silent_reads, simp)
      subgoal for u1 u2 existing u3
        apply (cases existing)
         apply (simp, rule wp_publish, simp, rule assms(3), assumption, simp)
        apply (simp, rule quietly, rule handled, simp)
        apply (simp add: asked_rightly_def)
        done
      done
    subgoal by assumption
    done
qed

text \<open>A request that finds a record makes no call at all.\<close>

lemma wp_recorded_request:
  assumes "aside v n w" and "good (approval_sound a) w" and "good (recorded a) w"
  shows "wp (create_pull_request_for_approval sv host adapter a)
    (\<lambda>_. aside v n) (\<lambda>_. aside v n) w"
proof -
  have handled: "silent v n (bnd (handle_existing_pull_request found) (\<lambda>handled.
      bnd (audit_success ''pull_request.publish'' ''patch_approval'' i (snd handled) True)
        (\<lambda>_. ret handled)))" for found i
    by (intro keeps_intros)
  have found: "wp (get_patch_approval a)
      (\<lambda>approval u. aside v n u \<and> good (recorded a) u \<and> pp_id approval = a) (\<lambda>_. aside v n) w"
    using assms
    by (auto simp: get_patch_approval_def get_owned_def enforce_workspace_access_def
        get_current_auth_context_def good_def approval_sound_def wp_simps split: option.splits)
  have permitted: "wp (require_audited_permission_if_authenticated p oper rtype i)
      (\<lambda>_ u. aside v n u \<and> good (recorded a) u) (\<lambda>_. aside v n) u"
    if "aside v n u" "good (recorded a) u" for p oper rtype i u
    using wp_conj [OF keepsD [OF silent_audited(1) that(1)]
        keepsD [OF recording.keeps_audited_permission_if(2) that(2)]]
    by (rule wp_mono) auto
  have existing: "wp (existing_pull_request a) (\<lambda>x u. aside v n u \<and> x \<noteq> None) (\<lambda>_. aside v n) u"
    if "aside v n u" "good (recorded a) u" for u
  proof -
    have "filter (\<lambda>r. pl_patch_approval_id r = a) (rows (t_pull_request_record (w_db u))) \<noteq> []"
      using that(2) by (auto simp: good_def recorded_def list_ex_iff filter_empty_conv)
    then have "sort_key f (filter (\<lambda>r. pl_patch_approval_id r = a)
        (rows (t_pull_request_record (w_db u)))) \<noteq> []" for f :: "pull_request_record \<Rightarrow> int \<times> string"
      by (metis set_empty set_sort)
    then show ?thesis
      using that(1) by (auto simp: existing_pull_request_def wp_simps first_of_def split: list.split)
  qed
  show ?thesis
    unfolding create_pull_request_for_approval_def
    apply (subst wp_bnd, rule wp_mono [OF found])
    subgoal for approval u
      apply (subst wp_bnd, rule wp_mono [OF permitted], simp, simp)
      subgoal for x u'
        apply (subst wp_bnd, simp, rule wp_mono [OF existing], simp, simp)
        subgoal for y u''
          apply (cases y)
           apply simp
          apply (simp only: option.case)
          apply (rule keepsD [OF handled])
          apply (erule conjunct1)
          done
        subgoal by assumption
        done
      subgoal by assumption
      done
    subgoal by assumption
    done
qed

text \<open>
  A history of requests for one approval, each with its adapter or that of the environment. A request
  asks GitHub when it makes more external calls than the one that opens the credential.
\<close>

fun askings ::
  "services \<Rightarrow> git_host \<Rightarrow> string \<Rightarrow> pull_request_adapter option list \<Rightarrow> world \<Rightarrow> nat" where
  "askings sv host a [] w = 0"
| "askings sv host a (adapter # adapters) w =
     (case run_request (create_pull_request_for_approval sv host adapter a) w of
        (_, w') \<Rightarrow> (if w_calls w' > Suc (w_calls w) then 1 else 0) +
          askings sv host a adapters (sync_world w'))"

lemma request_wp:
  assumes "wp m (\<lambda>_. P) (\<lambda>_. P) w" and "run_request m w = (r, w')"
  shows "\<exists>u. P u \<and> w' = u\<lparr>w_db := w_committed u\<rparr>"
  using assms by (auto simp: run_request_def wp_def split: prod.splits sum.splits)

lemma request_good:
  assumes "keeps (good G) (safe G) m" and "good G w" and "run_request m w = (r, w')"
  shows "good G (sync_world w')"
proof -
  have "wp m (\<lambda>_. based G) (\<lambda>_. based G) w"
    by (rule wp_mono [OF keepsD [OF assms(1,2)]]) (auto intro: good_based safe_based)
  from request_wp [OF this assms(3)] based_fresh show ?thesis by auto
qed

lemma recorded_never_asks:
  assumes "good (approval_sound a) w" and "good (recorded a) w"
  shows "askings sv host a adapters w = 0"
  using assms
proof (induction adapters arbitrary: w)
  case Nil
  then show ?case by simp
next
  case (Cons adapter adapters)
  obtain r w' where r: "run_request (create_pull_request_for_approval sv host adapter a) w = (r, w')"
    by fastforce
  from request_wp [OF wp_recorded_request [OF conjI [OF refl refl] Cons.prems] r]
  have "w_calls w' = w_calls w" by auto
  moreover have "good (approval_sound a) (sync_world w')" "good (recorded a) (sync_world w')"
    using request_good [OF soundness.keeps_create_pull_request Cons.prems(1) r]
      request_good [OF recording.keeps_create_pull_request Cons.prems(2) r] by simp_all
  ultimately show ?case using Cons.IH by (simp add: r)
qed

text \<open>
  C26: Of all requests to publish one approved patch, at most one asks GitHub for a pull request, however
  the earlier ones ended and whatever others commit in between, as long as they leave the approval
  and the record of a pull request in place.
\<close>

theorem pull_request_asked_once:
  assumes "good (approval_sound a) w"
    and "\<And>k d. recorded a d \<Longrightarrow> recorded a (e_others (w_env w) k d)"
  shows "askings sv host a adapters w \<le> 1"
  using assms
proof (induction adapters arbitrary: w)
  case Nil
  then show ?case by simp
next
  case (Cons adapter adapters)
  obtain r w' where r: "run_request (create_pull_request_for_approval sv host adapter a) w = (r, w')"
    by fastforce
  have sound: "good (approval_sound a) (sync_world w')"
    by (rule request_good [OF soundness.keeps_create_pull_request Cons.prems(1) r])
  obtain u where u: "asked_rightly (w_env w) (w_calls w) a u" "w' = u\<lparr>w_db := w_committed u\<rparr>"
    using request_wp [OF wp_create_pull_request [OF conjI [OF refl refl] Cons.prems] r] by blast
  show ?case
  proof (cases "based (recorded a) u")
    case True
    then have "good (recorded a) (sync_world w')" by (simp add: u(2) based_fresh)
    from recorded_never_asks [OF sound this] show ?thesis by (simp add: r)
  next
    case False
    then have env: "w_env w' = w_env w" and few: "\<not> w_calls w' > Suc (w_calls w)"
      using u by (auto simp: asked_rightly_def)
    have "askings sv host a adapters (sync_world w') \<le> 1"
      by (rule Cons.IH [OF sound]) (use Cons.prems(2) in \<open>simp add: env\<close>)
    with few show ?thesis by (simp add: r)
  qed
qed

text \<open>
  An approved patch of a run on a GitHub repository, whose credential the vault opens. Of two
  requests that would both ask GitHub, the first does and the second does not.
\<close>

definition answering_host :: git_host where
  "answering_host = \<lparr>gs_temp_dir = (\<lambda>_. ''/tmp''), gs_git = (\<lambda>_ _. Inr (0, [], [])),
     gs_post = (\<lambda>_ _ _ _. Inr (7, ''url'')), gs_str = (\<lambda>_. [])\<rparr>"

definition opening_services :: services where
  "opening_services = sample_services\<lparr>sv_vault_open := (\<lambda>_ _. Some ''secret'')\<rparr>"

definition approved_world :: world where
  "approved_world = world_of (sample_db\<lparr>
     t_task := [(''t'', sample_task\<lparr>tk_status := HUMAN_APPROVAL\<rparr>)],
     t_repository := [(''repo'', sample_repository\<lparr>rp_github_owner := Some ''o'', rp_github_repo := Some ''r'',
        rp_github_credential_id := Some ''cred''\<rparr>)],
     t_github_credential := [(''cred'', blank_github_credential\<lparr>gc_id := ''cred'', gc_workspace_id := ''w''\<rparr>)],
     t_cloud_run := [(''run'', sample_run\<lparr>cr_patch_artifact_id := Some ''pa''\<rparr>)],
     t_patch_artifact := [(''pa'', blank_patch_artifact\<lparr>pa_id := ''pa'', pa_workspace_id := ''w'',
        pa_task_id := ''t'', pa_local_run_id := ''local''\<rparr>)],
     t_patch_approval := [(''ap'', blank_patch_approval\<lparr>pp_id := ''ap'', pp_workspace_id := ''w'',
        pp_task_id := ''t'', pp_patch_artifact_id := ''pa''\<rparr>)]\<rparr>)"

theorem pull_request_asked_once_witness:
  defines "both \<equiv> [Some GitHubPullRequestAdapter, None]"
  shows "askings opening_services answering_host ''ap'' [Some GitHubPullRequestAdapter] approved_world = 1 \<and>
    askings opening_services answering_host ''ap'' both approved_world \<le> 1"
proof (rule conjI)
  show "askings opening_services answering_host ''ap'' [Some GitHubPullRequestAdapter] approved_world = 1"
    by code_simp
  show "askings opening_services answering_host ''ap'' both approved_world \<le> 1"
    by (rule pull_request_asked_once)
      (simp_all add: approved_world_def approval_sound_def sample_db_def empty_db_def
        blank_patch_approval_def world_of_def sample_env_def good_def)
qed

end
