(* ===== verification/UsageLedger.thy ===== *)
theory UsageLedger
  imports PatchTests
begin

text \<open>
  \<^verbatim>\<open>services/usage_ledger.py\<close> and its two routes: entries of the usage ledger that a workspace
  writes itself. What the settlement of a cloud run measures, only the settlement may book.
\<close>

definition settlement_owned_cloud_run_usage_types :: "usage_type list" where
  "settlement_owned_cloud_run_usage_types =
     [UT_WORKER_SUBMISSIONS, UT_QUEUE_MESSAGES, UT_CLOUD_RUN_RUNTIME_SECONDS,
      UT_OBJECT_STORAGE_BYTES, UT_LOG_SYNC_CALLS]"

record usage_ledger_create =
  uc_project_id :: "string option"
  uc_planner_run_id :: "string option"
  uc_task_id :: "string option"
  uc_cloud_run_id :: "string option"
  uc_usage_type :: usage_type
  uc_provider_name :: string
  uc_model_name :: string
  uc_prompt_tokens :: int
  uc_completion_tokens :: int
  uc_quantity :: int
  uc_unit_name :: string
  uc_unit_price_cents :: int
  uc_amount_cents :: int
  uc_raw_usage_json :: json

section \<open>References\<close>

text \<open>\<open>None\<close> for the identifier that is not given.\<close>

definition validate_project :: "string option \<Rightarrow> project option action" where
  "validate_project project_id =
     (case project_id of
        None \<Rightarrow> ret None
      | Some i \<Rightarrow> bnd (get_owned t_project pj_workspace_id ''Project not found'' i) (\<lambda>project.
                 ret (Some project)))"

text \<open>A row of another project than the one that was named.\<close>

definition belongs_elsewhere :: "string option \<Rightarrow> string \<Rightarrow> bool" where
  "belongs_elsewhere named owner = (case named of None \<Rightarrow> False | Some i \<Rightarrow> owner \<noteq> i)"

definition validate_task :: "string option \<Rightarrow> string option \<Rightarrow> task option action" where
  "validate_task task_id project_id =
     (case task_id of
        None \<Rightarrow> ret None
      | Some i \<Rightarrow> bnd (db_get t_task i) (\<lambda>found.
                 case found of
            None \<Rightarrow> raise (http 404 ''Task not found'')
          | Some task \<Rightarrow> bnd (validate_project (Some (tk_project_id task))) (\<lambda>_.
                        bnd (only_if (belongs_elsewhere project_id (tk_project_id task))
                (raise (http 400 ''Task does not belong to project''))) (\<lambda>_.
                        ret (Some task)))))"

definition validate_planner_run :: "string option \<Rightarrow> string option \<Rightarrow> planner_run option action" where
  "validate_planner_run planner_run_id project_id =
     (case planner_run_id of
        None \<Rightarrow> ret None
      | Some i \<Rightarrow> bnd (db_get t_planner_run i) (\<lambda>found.
                 case found of
            None \<Rightarrow> raise (http 404 ''Planner run not found'')
          | Some planner_run \<Rightarrow> bnd (validate_project (Some (pr_project_id planner_run))) (\<lambda>_.
                               bnd (only_if (belongs_elsewhere project_id (pr_project_id planner_run))
                (raise (http 400 ''Planner run does not belong to project''))) (\<lambda>_.
                               ret (Some planner_run)))))"

definition validate_cloud_run ::
  "string option \<Rightarrow> string option \<Rightarrow> string option \<Rightarrow> cloud_run option action" where
  "validate_cloud_run cloud_run_id project_id task_id =
     (case cloud_run_id of
        None \<Rightarrow> ret None
      | Some i \<Rightarrow> bnd (get_owned t_cloud_run cr_workspace_id ''Cloud run not found'' i) (\<lambda>cloud_run.
                 bnd (only_if (belongs_elsewhere task_id (cr_task_id cloud_run))
            (raise (http 400 ''Cloud run does not belong to task''))) (\<lambda>_.
                 bnd (only_if (belongs_elsewhere project_id (cr_project_id cloud_run))
            (raise (http 400 ''Cloud run does not belong to project''))) (\<lambda>_.
                 ret (Some cloud_run)))))"

definition reject_settlement_owned_cloud_run_usage :: "usage_ledger_create \<Rightarrow> unit action" where
  "reject_settlement_owned_cloud_run_usage data =
     only_if (uc_cloud_run_id data \<noteq> None \<and>
         uc_usage_type data \<in> set settlement_owned_cloud_run_usage_types)
       (raise (http 400 ''Cloud-run settlement owns this usage type for cloud_run_id entries''))"

section \<open>Entries\<close>

text \<open>The identifier that was given, else the one of the row that was found.\<close>

definition or_of :: "string option \<Rightarrow> ('r \<Rightarrow> string) \<Rightarrow> 'r option \<Rightarrow> string option" where
  "or_of given f found = (case given of Some i \<Rightarrow> Some i | None \<Rightarrow> map_option f found)"

definition append_usage_ledger_entry :: "usage_ledger_create \<Rightarrow> bool \<Rightarrow> usage_ledger_entry action" where
  "append_usage_ledger_entry data commit_now = bnd (validate_project (uc_project_id data)) (\<lambda>_.
                                               bnd (validate_task (uc_task_id data) (uc_project_id data)) (\<lambda>task.
                                               let project_id = or_of (uc_project_id data) tk_project_id task in
                                               bnd (validate_cloud_run (uc_cloud_run_id data) project_id (uc_task_id data)) (\<lambda>cloud_run.
                                               bnd (reject_settlement_owned_cloud_run_usage data) (\<lambda>_.
                                               let project_id = or_of project_id cr_project_id cloud_run in
                                               let task_id = or_of (uc_task_id data) cr_task_id cloud_run in
                                               bnd (validate_planner_run (uc_planner_run_id data) project_id) (\<lambda>planner_run.
                                               let project_id = or_of project_id pr_project_id planner_run in
                                               bnd current_workspace_id (\<lambda>workspace_id.
                                               bnd current_organization_id (\<lambda>organization_id.
                                               bnd current_user_id (\<lambda>user_id.
                                               bnd (new_usage_ledger_entry (\<lambda>e. e\<lparr>
       ul_workspace_id := workspace_id,
       ul_organization_id := organization_id,
       ul_user_id := user_id,
       ul_project_id := project_id,
       ul_task_id := task_id,
       ul_cloud_run_id := uc_cloud_run_id data,
       ul_planner_run_id := uc_planner_run_id data,
       ul_usage_type := uc_usage_type data,
       ul_provider_name := uc_provider_name data,
       ul_model_name := uc_model_name data,
       ul_prompt_tokens := uc_prompt_tokens data,
       ul_completion_tokens := uc_completion_tokens data,
       ul_total_tokens := uc_prompt_tokens data + uc_completion_tokens data,
       ul_quantity := uc_quantity data,
       ul_unit_name := uc_unit_name data,
       ul_unit_price_cents := uc_unit_price_cents data,
       ul_amount_cents := uc_amount_cents data,
       ul_raw_usage_json := uc_raw_usage_json data\<rparr>)) (\<lambda>entry.
                                               bnd (add_usage_ledger_entry entry) (\<lambda>_.
                                               bnd (only_if commit_now commit) (\<lambda>_.
                                               db_refresh t_usage_ledger_entry ul_id entry)))))))))))"

definition list_usage_ledger_entries ::
  "string option \<Rightarrow> string option \<Rightarrow> string option \<Rightarrow> usage_ledger_entry list action" where
  "list_usage_ledger_entries project_id planner_run_id task_id = bnd (validate_project project_id) (\<lambda>_.
                                                                 bnd (validate_task task_id project_id) (\<lambda>task.
                                                                 let project_id = or_of project_id tk_project_id task in
                                                                 bnd (validate_planner_run planner_run_id project_id) (\<lambda>planner_run.
                                                                 let project_id = or_of project_id pr_project_id planner_run in
                                                                 bnd get_current_auth_context (\<lambda>context.
                                                                 bnd (db_select t_usage_ledger_entry (\<lambda>e.
       (case context of None \<Rightarrow> True | Some c \<Rightarrow> ul_workspace_id e = ac_workspace_id c) \<and>
       given_is project_id (ul_project_id e) \<and>
       given_is planner_run_id (ul_planner_run_id e) \<and>
       given_is task_id (ul_task_id e))) (\<lambda>entries.
                                                                 ret (sort_key (\<lambda>e. (ul_created_at e, ul_id e)) entries))))))"

section \<open>Routes\<close>

definition get_usage_ledger ::
  "string option \<Rightarrow> string option \<Rightarrow> string option \<Rightarrow> usage_ledger_entry list action" where
  "get_usage_ledger project_id planner_run_id task_id = bnd (require_audited_workspace_permission ''billing.read'' ''usage_ledger.list'' ''usage_ledger''
       None AL_HIGH_SENSITIVE_READ) (\<lambda>_.
                                                        bnd (list_usage_ledger_entries project_id planner_run_id task_id) (\<lambda>result.
                                                        bnd (record_workspace_audit
       ((workspace_audit_defaults ''usage_ledger.list'' ''usage_ledger'' None
           AL_HIGH_SENSITIVE_READ True 200)\<lparr>
          wk_metadata := [(''count'', JInt (int (length result)))], wk_commit := True\<rparr>)) (\<lambda>_.
                                                        ret result)))"

definition post_usage_ledger_entry :: "usage_ledger_create \<Rightarrow> usage_ledger_entry action" where
  "post_usage_ledger_entry data = bnd (require_audited_workspace_permission ''billing.write'' ''usage_ledger.append'' ''usage_ledger''
       None AL_HIGH_VALUE_WRITE) (\<lambda>_.
                                  bnd (append_usage_ledger_entry data False) (\<lambda>result.
                                  bnd (audit_success ''usage_ledger.append'' ''usage_ledger'' (ul_id result) 201 True) (\<lambda>_.
                                  ret result)))"

end
