(* ===== verification/AuditOperations.thy ===== *)
theory AuditOperations
  imports IdentityRoutes
begin

text \<open>
  \<^verbatim>\<open>services/audit_operations.py\<close>: the export of audit events for operators, and the retention of
  the audit tables. Details of identity events go after 90 days and whole events after a year; the
  daily cleanup is claimed in the table \<^verbatim>\<open>audit_retention_state\<close>, so that of several processes one runs it.
\<close>

section \<open>Statements\<close>

text \<open>\<^verbatim>\<open>DELETE ... WHERE\<close> with its row count.\<close>

definition rows_without :: "('r \<Rightarrow> bool) \<Rightarrow> 'r table \<Rightarrow> 'r table" where
  "rows_without P t = filter (\<lambda>(k, r). \<not> P r) t"

definition db_delete_where ::
  "(db \<Rightarrow> 'r table) \<Rightarrow> (('r table \<Rightarrow> 'r table) \<Rightarrow> db \<Rightarrow> db) \<Rightarrow> ('r \<Rightarrow> bool) \<Rightarrow> nat action" where
  "db_delete_where tab upd P w =
     (Inr (length (filter P (rows (tab (w_db w))))), w\<lparr>w_db := upd (rows_without P) (w_db w)\<rparr>)"

text \<open>\<^verbatim>\<open>with Session(engine) as session\<close>: a session of its own, closed at the end of the block.\<close>

definition with_session :: "'a action \<Rightarrow> 'a action" where
  "with_session m = run_request (bnd rollback (\<lambda>_. m))"

definition days :: "int \<Rightarrow> int" where
  "days n = seconds (n * 86400)"

section \<open>The operator\<close>

definition require_audit_operator ::
  "auth_context \<Rightarrow> string list \<Rightarrow> string \<Rightarrow> string \<Rightarrow> unit action" where
  "require_audit_operator auth operator_user_ids correlation_id reason_code =
     bnd (if ac_auth_mode auth \<noteq> ''user_session'' \<or> ac_user_id auth \<notin> set operator_user_ids then ret False
          else bnd (allowed_roles_for_permission ''operator.write'') (\<lambda>roles.
               ret (has_any_role auth roles))) (\<lambda>authorized.
     if \<not> authorized then bnd (record_identity_audit_event
           ((identity_audit_defaults (reason_code @ ''_rejected'') ''failure''
               ''operator_not_authorized'' correlation_id)
            \<lparr>ia_actor_user_id := Some (ac_user_id auth), ia_user_id := Some (ac_user_id auth)\<rparr>)) (\<lambda>_.
                            raise (HTTPException 403 (JStr ''Audit operation is not authorized'') (Some correlation_id)))
       else require_recent_authentication reason_code (Some correlation_id))"

section \<open>Export\<close>

record audit_export =
  ax_identity_events :: "identity_audit_event list"
  ax_workspace_events :: "workspace_audit_log list"
  ax_secret_access_events :: "secret_access_audit_log list"

text \<open>
  The conditions of the three statements; \<open>given_is\<close> leaves a filter out that is not given. An export
  by event type alone selects no rows of the other two tables.
\<close>

definition identity_event_selected ::
  "string option \<Rightarrow> string option \<Rightarrow> string option \<Rightarrow> identity_audit_event \<Rightarrow> bool" where
  "identity_event_selected correlation_id request_id identity_event_type e \<longleftrightarrow>
     (given_is correlation_id (Some (ie_correlation_id e)) \<or>
      given_is correlation_id (ie_related_correlation_id e)) \<and>
     given_is request_id (ie_request_id e) \<and>
     given_is identity_event_type (Some (ie_event_type e))"

definition only_event_type :: "string option \<Rightarrow> string option \<Rightarrow> string option \<Rightarrow> bool" where
  "only_event_type correlation_id request_id identity_event_type \<longleftrightarrow>
     identity_event_type \<noteq> None \<and> correlation_id = None \<and> request_id = None"

definition workspace_event_selected ::
  "string option \<Rightarrow> string option \<Rightarrow> string option \<Rightarrow> workspace_audit_log \<Rightarrow> bool" where
  "workspace_event_selected correlation_id request_id identity_event_type l \<longleftrightarrow>
     given_is correlation_id (wa_correlation_id l) \<and> given_is request_id (wa_request_id l) \<and>
     \<not> only_event_type correlation_id request_id identity_event_type"

definition secret_event_selected ::
  "string option \<Rightarrow> string option \<Rightarrow> string option \<Rightarrow> secret_access_audit_log \<Rightarrow> bool" where
  "secret_event_selected correlation_id request_id identity_event_type l \<longleftrightarrow>
     given_is correlation_id (sx_correlation_id l) \<and> given_is request_id (sx_request_id l) \<and>
     \<not> only_event_type correlation_id request_id identity_event_type"

definition export_audit_events ::
  "auth_context \<Rightarrow> string list \<Rightarrow> string option \<Rightarrow> string option \<Rightarrow> string option \<Rightarrow> audit_export action" where
  "export_audit_events auth operator_user_ids correlation_id request_id identity_event_type = bnd (resolved_correlation_id None) (\<lambda>operation_correlation_id.
                                                                                              bnd (require_audit_operator auth operator_user_ids operation_correlation_id ''audit_export'') (\<lambda>_.
                                                                                              bnd (only_if (str_or correlation_id [] = [] \<and> str_or request_id [] = [] \<and>
         str_or identity_event_type [] = [])
       (raise (http 400 ''An audit export filter is required''))) (\<lambda>_.
                                                                                              bnd (db_select t_identity_audit_event
       (identity_event_selected correlation_id request_id identity_event_type)) (\<lambda>identity_events.
                                                                                              bnd (db_select t_workspace_audit_log
       (workspace_event_selected correlation_id request_id identity_event_type)) (\<lambda>workspace_events.
                                                                                              bnd (db_select t_secret_access_audit_log
       (secret_event_selected correlation_id request_id identity_event_type)) (\<lambda>secret_events.
                                                                                              bnd (record_identity_audit_event
       ((identity_audit_defaults ''audit_export_read'' ''success'' ''operator_requested''
           operation_correlation_id)
        \<lparr>ia_actor_user_id := Some (ac_user_id auth), ia_user_id := Some (ac_user_id auth)\<rparr>)) (\<lambda>_.
                                                                                              ret \<lparr>ax_identity_events = take 500 (sort_key (\<lambda>e. (ie_created_at e, ie_id e)) identity_events),
          ax_workspace_events = take 500 (sort_key (\<lambda>l. (wa_created_at l, wa_id l)) workspace_events),
          ax_secret_access_events =
            take 500 (sort_key (\<lambda>l. (sx_created_at l, sx_id l)) secret_events)\<rparr>)))))))"

section \<open>Cleanup\<close>

record audit_retention_cleanup =
  ak_correlation_id :: string
  ak_identity_details_removed :: nat
  ak_identity_events_deleted :: nat
  ak_workspace_events_deleted :: nat
  ak_secret_access_events_deleted :: nat

definition run_audit_retention_cleanup ::
  "int \<Rightarrow> string \<Rightarrow> string \<Rightarrow> string option \<Rightarrow> bool \<Rightarrow> audit_retention_cleanup action" where
  "run_audit_retention_cleanup cleanup_at correlation_id reason_code actor_user_id commits = (let core_cutoff = cleanup_at - days 365 in
                                                                                             let detail_cutoff = cleanup_at - days 90 in
                                                                                             bnd sync (\<lambda>_.
                                                                                             bnd (db_delete_where t_identity_audit_event t_identity_audit_event_update
       (\<lambda>e. ie_created_at e < core_cutoff)) (\<lambda>identity_deleted.
                                                                                             bnd (db_delete_where t_workspace_audit_log t_workspace_audit_log_update
       (\<lambda>l. wa_created_at l < core_cutoff)) (\<lambda>workspace_deleted.
                                                                                             bnd (db_delete_where t_secret_access_audit_log t_secret_access_audit_log_update
       (\<lambda>l. sx_created_at l < core_cutoff)) (\<lambda>secret_deleted.
                                                                                             bnd (db_update_where t_identity_audit_event t_identity_audit_event_update
       (\<lambda>e. ie_created_at e < detail_cutoff \<and>
          (ie_client_ip_address e \<noteq> None \<or> ie_user_agent e \<noteq> None))
       (\<lambda>e. e\<lparr>ie_client_ip_address := None, ie_user_agent := None\<rparr>)) (\<lambda>details_removed.
                                                                                             bnd (record_identity_audit_event
       ((identity_audit_defaults ''audit_retention_cleanup'' ''success'' reason_code correlation_id)
        \<lparr>ia_actor_user_id := actor_user_id, ia_user_id := actor_user_id,
         ia_created_at := Some cleanup_at, ia_commit := False\<rparr>)) (\<lambda>_.
                                                                                             bnd (only_if commits commit) (\<lambda>_.
                                                                                             ret \<lparr>ak_correlation_id = correlation_id, ak_identity_details_removed = details_removed,
          ak_identity_events_deleted = identity_deleted,
          ak_workspace_events_deleted = workspace_deleted,
          ak_secret_access_events_deleted = secret_deleted\<rparr>))))))))"

definition run_operator_audit_retention_cleanup ::
  "auth_context \<Rightarrow> string list \<Rightarrow> int \<Rightarrow> audit_retention_cleanup action" where
  "run_operator_audit_retention_cleanup auth operator_user_ids now = bnd (resolved_correlation_id None) (\<lambda>correlation_id.
                                                                     bnd (require_audit_operator auth operator_user_ids correlation_id ''audit_retention_cleanup'') (\<lambda>_.
                                                                     run_audit_retention_cleanup now correlation_id ''operator_requested'' (Some (ac_user_id auth)) True))"

section \<open>Routes\<close>

definition get_operator_audit_events ::
  "app_state \<Rightarrow> http_request \<Rightarrow> string option \<Rightarrow> string option \<Rightarrow> string option \<Rightarrow> audit_export action" where
  "get_operator_audit_events app request correlation_id request_id identity_event_type =
     operator_route app request (\<lambda>auth.
       export_audit_events auth (as_identity_operator_user_ids app) correlation_id request_id
         identity_event_type)"

definition post_operator_audit_retention_cleanup ::
  "app_state \<Rightarrow> http_request \<Rightarrow> audit_retention_cleanup action" where
  "post_operator_audit_retention_cleanup app request =
     operator_route app request (\<lambda>auth. bnd utc_now (\<lambda>now.
                                        run_operator_audit_retention_cleanup auth (as_identity_operator_user_ids app) now))"

section \<open>The daily cleanup\<close>

definition ensure_retention_state :: "unit action" where
  "ensure_retention_state = with_session (bnd (db_get t_audit_retention_state ''default'') (\<lambda>found.
                                          if found \<noteq> None then ret ()
     else try_catch
       (bnd (add_audit_retention_state (blank_audit_retention_state\<lparr>art_id := ''default''\<rparr>)) (\<lambda>_.
        commit))
       (\<lambda>e. if e = IntegrityError then rollback else raise e)))"

definition record_scheduled_cleanup_failure :: "int \<Rightarrow> string \<Rightarrow> unit action" where
  "record_scheduled_cleanup_failure occurred_at correlation_id = try_catch
     (with_session (bnd (record_identity_audit_event
          ((identity_audit_defaults ''audit_retention_cleanup'' ''failure''
              ''scheduled_daily_cleanup_failed'' correlation_id)
           \<lparr>ia_created_at := Some occurred_at\<rparr>)) (\<lambda>_.
                    ret ())))
     (\<lambda>_. ret ())"

text \<open>The condition of the claim: comparisons with an empty column do not hold.\<close>

definition retention_due :: "int \<Rightarrow> audit_retention_state \<Rightarrow> bool" where
  "retention_due cleanup_at s \<longleftrightarrow> art_id s = ''default'' \<and>
     (case art_last_completed_at s of None \<Rightarrow> True | Some t \<Rightarrow> t \<le> cleanup_at - days 1) \<and>
     (art_claim_token s = None \<or>
      (case art_claimed_at s of None \<Rightarrow> False | Some t \<Rightarrow> t \<le> cleanup_at - seconds 3600))"

definition claim_retention :: "int \<Rightarrow> string \<Rightarrow> nat action" where
  "claim_retention cleanup_at claim_token = with_session (bnd (db_update_where t_audit_retention_state t_audit_retention_state_update
       (retention_due cleanup_at)
       (\<lambda>s. s\<lparr>art_claim_token := Some claim_token, art_claimed_at := Some cleanup_at\<rparr>)) (\<lambda>claimed.
                                                          bnd commit (\<lambda>_.
                                                          ret claimed)))"

definition complete_retention :: "int \<Rightarrow> string \<Rightarrow> string \<Rightarrow> string option \<Rightarrow> bool action" where
  "complete_retention cleanup_at claim_token correlation_id failure_step = with_session (bnd (only_if (failure_step = Some ''before_cleanup'')
       (raise (RuntimeError ''Injected audit retention cleanup failure''))) (\<lambda>_.
                                                                                         bnd (run_audit_retention_cleanup cleanup_at correlation_id ''scheduled_daily_cleanup'' None False) (\<lambda>_.
                                                                                         bnd (db_update_where t_audit_retention_state t_audit_retention_state_update
       (\<lambda>s. art_id s = ''default'' \<and> art_claim_token s = Some claim_token)
       (\<lambda>s. s\<lparr>art_last_completed_at := Some cleanup_at, art_claim_token := None,
              art_claimed_at := None\<rparr>)) (\<lambda>completed.
                                                                                         if completed \<noteq> 1 then bnd rollback (\<lambda>_.
                           ret False)
     else bnd commit (\<lambda>_.
          ret True)))))"

definition run_scheduled_audit_retention_if_due :: "int \<Rightarrow> string option \<Rightarrow> bool action" where
  "run_scheduled_audit_retention_if_due cleanup_at failure_step = bnd ensure_retention_state (\<lambda>_.
                                                                  bnd random_token (\<lambda>claim_token.
                                                                  bnd (claim_retention cleanup_at claim_token) (\<lambda>claimed.
                                                                  if claimed = 0 then ret False
     else bnd random_token (\<lambda>t.
          let correlation_id = ''retention_'' @ t in
          try_catch (complete_retention cleanup_at claim_token correlation_id failure_step)
         (\<lambda>e. bnd (record_scheduled_cleanup_failure cleanup_at correlation_id) (\<lambda>_.
              raise e))))))"

text \<open>
  The loop of the background task over its rounds: whether the task was stopped before a round,
  the monotonic clock (at the start, after the run, and read once more), whether it was stopped
  while waiting the given time, and the time of the run. It reports its health after each round
  in which the cleanup ran or failed.
\<close>

record retention_round =
  rr_stopped :: bool
  rr_monotonic :: int
  rr_stopped_within :: "int \<Rightarrow> bool"
  rr_now :: int
  rr_after :: int
  rr_again :: int

fun maintain_rounds :: "retention_round list \<Rightarrow> int \<Rightarrow> int \<Rightarrow> string option \<Rightarrow> bool list action" where
  "maintain_rounds [] poll next_sweep_at failure_step = ret []"
| "maintain_rounds (r # rs) poll next_sweep_at failure_step =
     (if rr_stopped r \<or> rr_stopped_within r (max 0 (next_sweep_at - rr_monotonic r)) then ret []
      else
        bnd (try_catch
              (bnd (run_scheduled_audit_retention_if_due (rr_now r) failure_step) (\<lambda>b. ret (Some b)))
              (\<lambda>_. ret None)) (\<lambda>outcome.
        case outcome of
          None \<Rightarrow>
            bnd (maintain_rounds rs poll (next_sweep_at + poll) failure_step) (\<lambda>reports.
            ret (False # reports))
        | Some cleaned \<Rightarrow>
            bnd (maintain_rounds rs poll
                  (if next_sweep_at + poll < rr_after r then rr_again r else next_sweep_at + poll)
                  failure_step) (\<lambda>reports.
            ret (if cleaned then True # reports else reports))))"

definition maintain_audit_retention ::
  "retention_round list \<Rightarrow> int \<Rightarrow> int \<Rightarrow> string option \<Rightarrow> bool list action" where
  "maintain_audit_retention rounds started poll failure_step =
     maintain_rounds rounds poll (started + poll) failure_step"

end
