(* ===== verification/RetentionLaws.thy ===== *)
theory RetentionLaws
  imports AuditOperations Workflow IdentitySamples AccessLaws
begin

text \<open>
  The daily cleanup among several processes. The claim in \<^verbatim>\<open>audit_retention_state\<close> is what keeps them
  apart: others may claim, complete and take over stale claims in between, but never under a token of
  ours. Then no two cleanups of ours are less than a day apart, whatever fails in between.
\<close>

section \<open>The state of the retention\<close>

definition retention_row :: "db \<Rightarrow> audit_retention_state option" where
  "retention_row d = map_of (t_audit_retention_state d) ''default''"

definition last_cleanup :: "audit_retention_state option \<Rightarrow> int option" where
  "last_cleanup x = Option.bind x art_last_completed_at"

text \<open>Time does not go back.\<close>

definition not_before :: "int option \<Rightarrow> int option \<Rightarrow> bool" where
  "not_before a b = (case a of None \<Rightarrow> True | Some s \<Rightarrow> (case b of None \<Rightarrow> False | Some t \<Rightarrow> s \<le> t))"

text \<open>What others may do to the row, where \<open>T\<close> holds our tokens: a step, and so any number of steps.\<close>

definition others_step ::
  "string set \<Rightarrow> audit_retention_state option \<Rightarrow> audit_retention_state option \<Rightarrow> bool" where
  "others_step T x y \<longleftrightarrow> y = x \<or>
     not_before (last_cleanup x) (last_cleanup y) \<and>
     (\<forall>s. y = Some s \<longrightarrow> (\<forall>k. art_claim_token s = Some k \<longrightarrow> k \<notin> T))"

definition claims_kept :: "string set \<Rightarrow> audit_retention_state option \<Rightarrow> db \<Rightarrow> bool" where
  "claims_kept T x d \<longleftrightarrow> keyed art_id (t_audit_retention_state d) \<and> others_step T x (retention_row d)"

definition cleanups_shared :: "env \<Rightarrow> bool" where
  "cleanups_shared v \<longleftrightarrow> (\<forall>n d. keyed art_id (t_audit_retention_state d) \<longrightarrow>
     keyed art_id (t_audit_retention_state (e_others v n d)) \<and>
     others_step (range (e_token v)) (retention_row d) (retention_row (e_others v n d)))"

lemma not_before_refl [simp]: "not_before a a"
  by (simp add: not_before_def split: option.split)

lemma not_before_trans: "not_before a b \<Longrightarrow> not_before b c \<Longrightarrow> not_before a c"
  by (auto simp: not_before_def split: option.splits)

lemma not_before_None [simp]: "not_before None b"
  by (simp add: not_before_def)

lemma others_step_refl [simp]: "others_step T x x"
  by (simp add: others_step_def)

lemma others_step_later: "others_step T x y \<Longrightarrow> not_before (last_cleanup x) (last_cleanup y)"
  by (auto simp: others_step_def)

lemma others_step_trans: "others_step T x y \<Longrightarrow> others_step T y z \<Longrightarrow> others_step T x z"
  unfolding others_step_def by (auto intro: not_before_trans)

text \<open>Under a token of ours the row is still the one it was stored in.\<close>

lemma others_step_ours:
  "others_step T x (Some s) \<Longrightarrow> art_claim_token s = Some k \<Longrightarrow> k \<in> T \<Longrightarrow> x = Some s"
  by (auto simp: others_step_def)

interpretation claims: audit_invariant "claims_kept T x" for T x
  by unfold_locales (simp_all add: claims_kept_def retention_row_def)

section \<open>Sessions of their own\<close>

lemma wp_with_session:
  "wp (with_session m) Q E w =
     wp m (\<lambda>x w'. Q x (w'\<lparr>w_db := w_committed w'\<rparr>)) (\<lambda>e w'. E e (w'\<lparr>w_db := w_committed w'\<rparr>))
       (sync_world (w\<lparr>w_db := w_committed w\<rparr>))"
  by (simp add: with_session_def wp_def run_request_def rollback_def bnd_def modify_def
      split: prod.split sum.split)

lemma keeps_with_session:
  assumes "keeps (good G) (safe G) m"
  shows "keeps (based G) (\<lambda>_. based G) (with_session m)"
proof (rule keepsI)
  fix w assume "based G w"
  from keepsD [OF assms based_fresh [OF this]]
  show "wp (with_session m) (\<lambda>_. based G) (\<lambda>_. based G) w"
    unfolding wp_with_session by (rule wp_mono) (auto intro: good_based safe_based)
qed

lemma wp_db_delete_where [wp_simps]:
  "wp (db_delete_where tab upd P) Q E w =
     Q (length (filter P (rows (tab (w_db w))))) (w\<lparr>w_db := upd (rows_without P) (w_db w)\<rparr>)"
  by (simp add: wp_def db_delete_where_def)

lemma keeps_delete_where:
  assumes "\<And>d. G d \<Longrightarrow> G (upd (rows_without P) d)"
  shows "keeps (good G) (safe G) (db_delete_where tab upd P)"
  by (rule keepsI) (use assms in \<open>simp add: wp_simps good_def\<close>)

section \<open>The environment stays\<close>

lemma env_kept_more [keeps_intros]:
  "env_kept v (db_update_where tab upd P f)" "env_kept v (db_delete_where tab' upd' P')"
  by (auto intro!: keepsI simp: wp_simps)

lemma env_kept_with_session [keeps_intros]:
  assumes "env_kept v m"
  shows "env_kept v (with_session m)"
proof (rule keepsI)
  fix w :: world
  assume "w_env w = v"
  then have "w_env (sync_world (w\<lparr>w_db := w_committed w\<rparr>)) = v" by simp
  from keepsD [OF assms this]
  show "wp (with_session m) (\<lambda>_. in_env v) (\<lambda>_. in_env v) w"
    unfolding wp_with_session by (rule wp_mono) simp_all
qed

lemma env_kept_cleanup [keeps_intros]:
  "env_kept v (run_audit_retention_cleanup t c reason actor commits)"
  unfolding run_audit_retention_cleanup_def by (intro keeps_intros)

lemma env_kept_scheduled: "env_kept v (run_scheduled_audit_retention_if_due t f)"
  unfolding run_scheduled_audit_retention_if_due_def ensure_retention_state_def claim_retention_def
    complete_retention_def record_scheduled_cleanup_failure_def add_audit_retention_state_def
  by (intro keeps_intros)

section \<open>The steps of a scheduled cleanup\<close>

lemma keeps_claims_cleanup [keeps_intros]:
  "keeps (good (claims_kept T x)) (safe (claims_kept T x))
     (run_audit_retention_cleanup t c reason actor commits)"
  unfolding run_audit_retention_cleanup_def
  by (intro keeps_intros claims.keeps_record_audit keeps_delete_where keeps_update_where)
    (simp_all add: claims_kept_def retention_row_def)

lemma claims_kept_row:
  assumes "claims_kept T x d" and "retention_row d' = retention_row d"
    and "keyed art_id (t_audit_retention_state d')"
  shows "claims_kept T x d'"
  using assms by (simp add: claims_kept_def)

lemma keeps_claims_ensure:
  "keeps (based (claims_kept T x)) (\<lambda>_. based (claims_kept T x)) ensure_retention_state"
proof -
  have insert: "claims_kept T x (t_audit_retention_state_update
      (\<lambda>t. t @ [(art_id r, r)]) d)"
    if "claims_kept T x d" "map_of (t_audit_retention_state d) (art_id r) = None"
      "r = blank_audit_retention_state\<lparr>art_id := ''default''\<rparr>" for d r
  proof -
    have "keyed art_id (t_audit_retention_state d @ [(art_id r, r)])"
      using that by (intro keyed_insert) (simp_all add: claims_kept_def)
    moreover have "others_step T x (Some r)"
      using that by (auto simp: claims_kept_def others_step_def retention_row_def last_cleanup_def
          not_before_def blank_audit_retention_state_def split: option.splits)
    ultimately show ?thesis
      using that by (simp add: claims_kept_def retention_row_def blank_audit_retention_state_def
          map_of_append_new del: map_of_append)
  qed
  have undo: "rollback = bnd rollback (\<lambda>_. ret ())"
    by (rule ext) (simp add: bnd_def ret_def rollback_def modify_def)
  show ?thesis
    unfolding ensure_retention_state_def
    apply (rule keeps_with_session)
    apply (rule keeps_bnd, rule keeps_session, rule keeps_if, rule keeps_ret)
    apply (rule keeps_try_rollback)
     apply (rule keeps_bnd)
      apply (unfold add_audit_retention_state_def, rule keeps_insert, rule insert, assumption, assumption, rule refl)
     apply (rule keeps_session)
    subgoal for found e
      using undo keeps_ret [of "good (claims_kept T x)" "safe (claims_kept T x)" "()"]
      by (cases "e = IntegrityError") auto
    done
qed

text \<open>The claim: either the row is as it was, or it was due and is now ours.\<close>

lemma default_row_updated:
  assumes "keyed art_id (t_audit_retention_state d)" and "\<And>s. art_id (f s) = art_id s"
  shows "keyed art_id (t_audit_retention_state
      (t_audit_retention_state_update (rows_where P f) d))"
    and "retention_row (t_audit_retention_state_update (rows_where P f) d) =
      map_option (\<lambda>s. if P s then f s else s) (retention_row d)"
  using assms by (simp_all add: keyed_rows_where retention_row_def map_of_rows_where)

lemma default_rows:
  assumes "keyed art_id (t_audit_retention_state d)" and "\<And>s. P s \<Longrightarrow> art_id s = ''default''"
  shows "length (filter P (rows (t_audit_retention_state d))) =
    (case retention_row d of None \<Rightarrow> 0 | Some s \<Rightarrow> if P s then 1 else 0)"
proof -
  have P: "P = (\<lambda>s. art_id s = ''default'' \<and> P s)" using assms(2) by auto
  show ?thesis
  proof (cases "retention_row d")
    case None
    then show ?thesis
      using count_none [OF assms(1), of "''default''" P] P by (simp add: retention_row_def)
  next
    case (Some s)
    then show ?thesis
      using count_one [OF assms(1), of "''default''" s P] P by (simp add: retention_row_def)
  qed
qed

lemma claims_kept_others:
  assumes "cleanups_shared v" and "claims_kept (range (e_token v)) x d"
  shows "claims_kept (range (e_token v)) x (e_others v n d)"
  using assms others_step_trans by (simp add: cleanups_shared_def claims_kept_def) blast

lemma claims_based:
  assumes "cleanups_shared v" and "w_env w = v" and "claims_kept (range (e_token v)) x (w_committed w)"
  shows "based (claims_kept (range (e_token v)) x) w"
  using assms claims_kept_others by (simp add: based_def)

lemma committed_after_commit:
  "w_committed (sync_world (w\<lparr>w_committed := w_db w\<rparr>)) = e_others (w_env w) (w_turns w) (w_db w)"
  by (simp add: sync_world_def Let_def)

lemma wp_claim:
  assumes "cleanups_shared v" and "w_env w = v" and "claims_kept (range (e_token v)) x (w_committed w)"
  shows "wp (claim_retention t k)
    (\<lambda>n w'. w_env w' = v \<and>
       (if n = 0 then claims_kept (range (e_token v)) x (w_committed w')
        else \<exists>s. others_step (range (e_token v)) x (Some s) \<and> retention_due t s \<and>
          claims_kept (range (e_token v))
            (Some (s\<lparr>art_claim_token := Some k, art_claimed_at := Some t\<rparr>)) (w_committed w')))
    E w"
proof -
  let ?T = "range (e_token v)" and ?u = "sync_world (w\<lparr>w_db := w_committed w\<rparr>)"
  let ?f = "\<lambda>s. s\<lparr>art_claim_token := Some k, art_claimed_at := Some t\<rparr>"
  let ?d = "t_audit_retention_state_update (rows_where (retention_due t) ?f) (w_db ?u)"
  from based_fresh [OF claims_based [OF assms]] have u: "claims_kept ?T x (w_db ?u)"
    by (simp add: good_def)
  then have keyed: "keyed art_id (t_audit_retention_state (w_db ?u))" by (simp add: claims_kept_def)
  have count: "length (filter (retention_due t) (rows (t_audit_retention_state (w_db ?u)))) =
      (case retention_row (w_db ?u) of None \<Rightarrow> 0 | Some s \<Rightarrow> if retention_due t s then 1 else 0)"
    by (rule default_rows [OF keyed]) (simp add: retention_due_def)
  have row: "keyed art_id (t_audit_retention_state ?d)"
      "retention_row ?d = map_option (\<lambda>s. if retention_due t s then ?f s else s) (retention_row (w_db ?u))"
    using default_row_updated [OF keyed, of ?f "retention_due t"] by simp_all
  have later: "claims_kept ?T y (e_others v n ?d)" if "claims_kept ?T y ?d" for y n
    by (rule claims_kept_others [OF assms(1) that])
  show ?thesis
  proof (cases "\<exists>s. retention_row (w_db ?u) = Some s \<and> retention_due t s")
    case False
    then have "retention_row ?d = retention_row (w_db ?u)"
      using row(2) by (cases "retention_row (w_db ?u)") auto
    then have "claims_kept ?T x ?d" using u row(1) by (simp add: claims_kept_def)
    moreover have "length (filter (retention_due t) (rows (t_audit_retention_state (w_db ?u)))) = 0"
      using False count by (auto split: option.splits)
    ultimately show ?thesis
      using later assms(2)
      by (simp add: claim_retention_def wp_with_session wp_simps committed_after_commit [of "_\<lparr>w_db := _\<rparr>", simplified])
  next
    case True
    then obtain s where s: "retention_row (w_db ?u) = Some s" "retention_due t s" by blast
    then have "claims_kept ?T (Some (?f s)) ?d" using row by (simp add: claims_kept_def)
    moreover have "length (filter (retention_due t) (rows (t_audit_retention_state (w_db ?u)))) = 1"
      using s count by simp
    moreover have "others_step ?T x (Some s)" using u s(1) by (simp add: claims_kept_def)
    ultimately show ?thesis
      using later assms(2) s(2)
      by (auto simp add: claim_retention_def wp_with_session wp_simps committed_after_commit [of "_\<lparr>w_db := _\<rparr>", simplified])
  qed
qed

text \<open>The completion counts only while the claim is ours.\<close>

lemma wp_complete_retention:
  assumes "cleanups_shared v" and "w_env w = v"
    and "claims_kept (range (e_token v)) (Some s) (w_committed w)"
    and "art_claim_token s = Some k" and "k \<in> range (e_token v)"
  shows "wp (complete_retention t k c f)
    (\<lambda>done w'. w_env w' = v \<and>
       (if done then claims_kept (range (e_token v)) (Some (s\<lparr>art_last_completed_at := Some t,
            art_claim_token := None, art_claimed_at := None\<rparr>)) (w_committed w')
        else claims_kept (range (e_token v)) (Some s) (w_committed w')))
    (\<lambda>e w'. w_env w' = v \<and> claims_kept (range (e_token v)) (Some s) (w_committed w')) w"
proof -
  let ?T = "range (e_token v)" and ?u = "sync_world (w\<lparr>w_db := w_committed w\<rparr>)"
  let ?G = "claims_kept ?T (Some s)"
  let ?P = "\<lambda>r. art_id r = ''default'' \<and> art_claim_token r = Some k"
  let ?f = "\<lambda>r. r\<lparr>art_last_completed_at := Some t, art_claim_token := None, art_claimed_at := None\<rparr>"
  have u: "good ?G ?u" by (rule based_fresh [OF claims_based [OF assms(1-3)]])
  have env: "w_env ?u = v" using assms(2) by simp
  have step: "wp (db_update_where t_audit_retention_state t_audit_retention_state_update ?P ?f)
      (\<lambda>n w'. wp (if n \<noteq> 1 then bnd rollback (\<lambda>_. ret False) else bnd commit (\<lambda>_. ret True))
        (\<lambda>x w'. w_env w' = v \<and> (if x then claims_kept ?T (Some (?f s)) (w_committed w')
           else ?G (w_committed w'))) E w') E y"
    if g: "good ?G y" and e: "w_env y = v" for y E
  proof -
    let ?d = "t_audit_retention_state_update (rows_where ?P ?f) (w_db y)"
    have d: "?G (w_db y)" and c: "?G (w_committed y)" using g by (simp_all add: good_def)
    then have keyed: "keyed art_id (t_audit_retention_state (w_db y))" by (simp add: claims_kept_def)
    have count: "length (filter ?P (rows (t_audit_retention_state (w_db y)))) =
        (case retention_row (w_db y) of None \<Rightarrow> 0 | Some r \<Rightarrow> if ?P r then 1 else 0)"
      by (rule default_rows [OF keyed]) simp
    show ?thesis
    proof (cases "\<exists>r. retention_row (w_db y) = Some r \<and> ?P r")
      case False
      then have "length (filter ?P (rows (t_audit_retention_state (w_db y)))) \<noteq> 1"
        using count by (auto split: option.splits)
      then show ?thesis
        using claims_kept_others [OF assms(1) c] c e
        by (simp add: wp_simps sync_world_def Let_def)
    next
      case True
      then obtain r where r: "retention_row (w_db y) = Some r" "?P r" by blast
      then have "r = s"
        using d others_step_ours [of ?T "Some s" r k] assms(5) by (simp add: claims_kept_def)
      then have "claims_kept ?T (Some (?f s)) ?d"
        using r default_row_updated [OF keyed, of ?f ?P] by (simp add: claims_kept_def)
      moreover have "length (filter ?P (rows (t_audit_retention_state (w_db y)))) = 1"
        using r count by simp
      ultimately show ?thesis
        using claims_kept_others [OF assms(1)] e by (simp add: wp_simps sync_world_def Let_def)
    qed
  qed
  have start: "wp (only_if (f = Some ''before_cleanup'')
       (raise (RuntimeError ''Injected audit retention cleanup failure'')))
      (\<lambda>_ y. good ?G y \<and> w_env y = v) (\<lambda>e y. safe ?G e y \<and> w_env y = v) ?u"
    using u env by (simp add: wp_simps good_safe)
  have cleanup: "wp (run_audit_retention_cleanup t c reason actor commits)
      (\<lambda>_ y. good ?G y \<and> w_env y = v) (\<lambda>e y. safe ?G e y \<and> w_env y = v) y"
    if "good ?G y \<and> w_env y = v" for y reason actor commits
    using wp_conj [OF keepsD [OF keeps_claims_cleanup] keepsD [OF env_kept_cleanup]] that by blast
  have failed: "w_env (y\<lparr>w_db := z\<rparr>) = v \<and> ?G (w_committed (y\<lparr>w_db := z\<rparr>))"
    if "safe ?G e y \<and> w_env y = v" for e y z
    using that by (simp add: safe_def)
  show ?thesis
    unfolding complete_retention_def wp_with_session wp_bnd
    apply (rule wp_mono [OF start])
    subgoal for x y
      apply (rule wp_mono [OF cleanup], assumption)
      subgoal for x' y'
        apply (rule wp_mono [OF step])
           apply simp
          apply simp
         apply (erule wp_mono)
          apply simp
         apply assumption
        apply simp
        done
      subgoal for e y' by (rule failed)
      done
    subgoal for e y by (rule failed)
    done
qed

section \<open>Any history of scheduled cleanups\<close>

text \<open>The last completed cleanup is not before a time.\<close>

definition cleaned_since :: "env \<Rightarrow> int option \<Rightarrow> world \<Rightarrow> bool" where
  "cleaned_since v a w \<longleftrightarrow> w_env w = v \<and> keyed art_id (t_audit_retention_state (w_committed w)) \<and>
     not_before a (last_cleanup (retention_row (w_committed w)))"

lemma claims_cleaned_since:
  assumes "w_env w = v" and "claims_kept T x (w_committed w)" and "not_before a (last_cleanup x)"
  shows "cleaned_since v a w"
  using assms not_before_trans others_step_later by (simp add: cleaned_since_def claims_kept_def) blast

lemma keeps_claims_failure:
  "keeps (based (claims_kept T x)) (\<lambda>_. based (claims_kept T x))
     (record_scheduled_cleanup_failure t c)"
  unfolding record_scheduled_cleanup_failure_def
  by (rule keeps_try_catch [of _ "\<lambda>_. based (claims_kept T x)"], rule keeps_with_session)
    (simp_all add: wp_simps keeps_bnd keeps_ret claims.keeps_record_audit)

lemma env_kept_failure: "env_kept v (record_scheduled_cleanup_failure t c)"
  unfolding record_scheduled_cleanup_failure_def by (intro keeps_intros)

lemma env_kept_ensure: "env_kept v ensure_retention_state"
  unfolding ensure_retention_state_def add_audit_retention_state_def by (intro keeps_intros)

lemma wp_scheduled:
  assumes "cleanups_shared v" and "cleaned_since v a w"
  shows "wp (run_scheduled_audit_retention_if_due t f)
    (\<lambda>done w'. cleaned_since v a w' \<and>
       (done \<longrightarrow> (\<forall>l. a = Some l \<longrightarrow> l + days 1 \<le> t) \<and> cleaned_since v (Some t) w'))
    (\<lambda>_. cleaned_since v a) w"
proof -
  let ?T = "range (e_token v)"
  obtain x where x: "x = retention_row (w_committed w)" by blast
  have a: "not_before a (last_cleanup x)" using assms(2) by (simp add: cleaned_since_def x)
  have "claims_kept ?T x (w_committed w)"
    using assms(2) by (simp add: cleaned_since_def claims_kept_def x)
  then have "based (claims_kept ?T x) w" "w_env w = v"
    using claims_based [OF assms(1)] assms(2) by (simp_all add: cleaned_since_def)
  from wp_conj [OF keepsD [OF keeps_claims_ensure this(1)] keepsD [OF env_kept_ensure this(2)]]
  have ensured: "wp ensure_retention_state
      (\<lambda>_ y. claims_kept ?T x (w_committed y) \<and> w_env y = v)
      (\<lambda>_ y. claims_kept ?T x (w_committed y) \<and> w_env y = v) w"
    by (rule wp_mono) (simp_all add: based_def)
  have since: "cleaned_since v a y" if "w_env y = v" "claims_kept ?T x (w_committed y)" for y
    by (rule claims_cleaned_since [OF that a])
  have finish: "wp (try_catch (complete_retention t k c f)
        (\<lambda>e. bnd (record_scheduled_cleanup_failure t c) (\<lambda>_. raise e)))
      (\<lambda>done w'. cleaned_since v a w' \<and>
         (done \<longrightarrow> (\<forall>l. a = Some l \<longrightarrow> l + days 1 \<le> t) \<and> cleaned_since v (Some t) w'))
      (\<lambda>_. cleaned_since v a) y"
    if y: "w_env y = v" "claims_kept ?T (Some s') (w_committed y)"
      and s: "others_step ?T x (Some s)" "retention_due t s" "k \<in> ?T"
      and s': "s' = s\<lparr>art_claim_token := Some k, art_claimed_at := Some t\<rparr>" for y s s' k c
  proof -
    have last: "last_cleanup (Some s') = last_cleanup (Some s)" by (simp add: s' last_cleanup_def)
    then have ahead: "not_before a (last_cleanup (Some s'))"
      using not_before_trans [OF a others_step_later [OF s(1)]] by simp
    have due: "l + days 1 \<le> t" if "a = Some l" for l
      using ahead s(2) that
      by (auto simp: s' last_cleanup_def not_before_def retention_due_def split: option.splits)
    have since': "cleaned_since v a z" if "w_env z = v" "claims_kept ?T (Some s') (w_committed z)" for z
      by (rule claims_cleaned_since [OF that ahead])
    have done': "cleaned_since v (Some t) z \<and> cleaned_since v a z"
      if "w_env z = v" "claims_kept ?T (Some (s'\<lparr>art_last_completed_at := Some t,
        art_claim_token := None, art_claimed_at := None\<rparr>)) (w_committed z)" for z
    proof -
      have "not_before a (Some t)" using due by (fastforce simp: not_before_def days_def seconds_def split: option.splits)
      then show ?thesis
        using claims_cleaned_since [OF that] by (simp add: last_cleanup_def)
    qed
    have report: "wp (bnd (record_scheduled_cleanup_failure t c) (\<lambda>_. raise e)) Q
        (\<lambda>_. cleaned_since v a) z"
      if z: "w_env z = v" "claims_kept ?T (Some s') (w_committed z)" for z e and Q :: "bool \<Rightarrow> world \<Rightarrow> bool"
      unfolding wp_bnd wp_raise using wp_conj [OF keepsD [OF keeps_claims_failure claims_based [OF assms(1) z]]
          keepsD [OF env_kept_failure z(1)]]
      by (rule wp_mono) (simp_all add: since' based_def)
    have "art_claim_token s' = Some k" by (simp add: s')
    from wp_complete_retention [OF assms(1) y this s(3), of t c f] show ?thesis
      unfolding wp_try_catch
    proof (rule wp_mono, goal_cases)
      case (1 x z)
      then show ?case using done' since' due by (cases x) auto
    next
      case (2 e z)
      then show ?case by (intro report) simp_all
    qed
  qed
  have claimed: "wp (bnd (claim_retention t k) (\<lambda>claimed. if claimed = 0 then ret False
        else bnd random_token (\<lambda>r. let c = ''retention_'' @ r in
          try_catch (complete_retention t k c f)
            (\<lambda>e. bnd (record_scheduled_cleanup_failure t c) (\<lambda>_. raise e)))))
      (\<lambda>done w'. cleaned_since v a w' \<and>
         (done \<longrightarrow> (\<forall>l. a = Some l \<longrightarrow> l + days 1 \<le> t) \<and> cleaned_since v (Some t) w'))
      (\<lambda>_. cleaned_since v a) y"
    if y: "w_env y = v" "claims_kept ?T x (w_committed y)" and k: "k \<in> ?T" for y k
    unfolding wp_bnd
  proof (rule wp_mono [OF wp_claim [OF assms(1) y, of t k]])
    fix n and z :: world
    assume z: "w_env z = v \<and>
       (if n = 0 then claims_kept ?T x (w_committed z)
        else \<exists>s. others_step ?T x (Some s) \<and> retention_due t s \<and>
          claims_kept ?T (Some (s\<lparr>art_claim_token := Some k, art_claimed_at := Some t\<rparr>)) (w_committed z))"
    show "wp (if n = 0 then ret False
        else bnd random_token (\<lambda>r. let c = ''retention_'' @ r in
          try_catch (complete_retention t k c f)
            (\<lambda>e. bnd (record_scheduled_cleanup_failure t c) (\<lambda>_. raise e))))
      (\<lambda>done w'. cleaned_since v a w' \<and>
         (done \<longrightarrow> (\<forall>l. a = Some l \<longrightarrow> l + days 1 \<le> t) \<and> cleaned_since v (Some t) w'))
      (\<lambda>_. cleaned_since v a) z"
    proof (cases "n = 0")
      case True
      then show ?thesis using z since by (simp add: wp_simps)
    next
      case False
      with z obtain s where "others_step ?T x (Some s)" "retention_due t s"
        and kept: "claims_kept ?T (Some (s\<lparr>art_claim_token := Some k, art_claimed_at := Some t\<rparr>))
          (w_committed z)" by auto
      from finish [OF _ _ this(1,2) k refl] False z kept show ?thesis
        by (simp add: wp_bnd wp_random_token Let_def)
    qed
  qed
  show ?thesis
    unfolding run_scheduled_audit_retention_if_due_def wp_bnd [of ensure_retention_state]
  proof (rule wp_mono [OF ensured])
    fix u and y :: world
    assume "claims_kept ?T x (w_committed y) \<and> w_env y = v"
    then show "wp (bnd random_token (\<lambda>k. bnd (claim_retention t k) (\<lambda>claimed. if claimed = 0 then ret False
        else bnd random_token (\<lambda>r. let c = ''retention_'' @ r in
          try_catch (complete_retention t k c f)
            (\<lambda>e. bnd (record_scheduled_cleanup_failure t c) (\<lambda>_. raise e))))))
      (\<lambda>done w'. cleaned_since v a w' \<and>
         (done \<longrightarrow> (\<forall>l. a = Some l \<longrightarrow> l + days 1 \<le> t) \<and> cleaned_since v (Some t) w'))
      (\<lambda>_. cleaned_since v a) y"
      unfolding wp_bnd [of random_token] wp_random_token by (intro claimed) auto
  qed (simp add: since)
qed

text \<open>The times of the runs that complete, one run after the other.\<close>

fun completed_runs :: "(int \<times> string option) list \<Rightarrow> world \<Rightarrow> int list" where
  "completed_runs [] w = []"
| "completed_runs ((t, f) # runs) w =
     (case run_scheduled_audit_retention_if_due t f w of
        (r, w') \<Rightarrow> (if r = Inr True then [t] else []) @ completed_runs runs w')"

lemma completed_after:
  assumes "cleanups_shared v" and "cleaned_since v a w"
  shows "sorted_wrt (\<lambda>s t. s + days 1 \<le> t) (completed_runs runs w) \<and>
    (\<forall>l. a = Some l \<longrightarrow> (\<forall>t \<in> set (completed_runs runs w). l + days 1 \<le> t))"
  using assms(2)
proof (induction runs arbitrary: a w)
  case Nil
  then show ?case by simp
next
  case (Cons run runs)
  obtain t f where run: "run = (t, f)" by (cases run)
  obtain r w' where r: "run_scheduled_audit_retention_if_due t f w = (r, w')" by fastforce
  note step = wp_scheduled [OF assms(1) Cons.prems, of t f, unfolded wp_def r]
  show ?case
  proof (cases "r = Inr True")
    case True
    with step have "\<forall>l. a = Some l \<longrightarrow> l + days 1 \<le> t" "cleaned_since v (Some t) w'" by simp_all
    with Cons.IH [OF this(2)] True show ?thesis
      by (auto simp: run r days_def seconds_def)
  next
    case False
    with step have "cleaned_since v a w'" by (cases r) auto
    from Cons.IH [OF this] False show ?thesis by (simp add: run r)
  qed
qed

text \<open>
  C28: Whatever runs of the daily cleanup are scheduled, at whatever times, with failures in between
  and with other processes that claim, take over stale claims and complete under tokens of their
  own: of the runs that complete, each comes at least a day after the one before.
\<close>

theorem cleanups_a_day_apart:
  assumes "cleanups_shared (w_env w)" and "keyed art_id (t_audit_retention_state (w_committed w))"
  shows "sorted_wrt (\<lambda>s t. s + days 1 \<le> t) (completed_runs runs w)"
proof -
  have "cleaned_since (w_env w) None w" using assms(2) by (simp add: cleaned_since_def)
  with completed_after [OF assms(1) this] show ?thesis by blast
qed

theorem cleanups_a_day_apart_witness:
  "completed_runs [(0, None), (1, None)] (world_of empty_db) = [0] \<and>
   sorted_wrt (\<lambda>s t. s + days 1 \<le> t) (completed_runs [(0, None), (1, None)] (world_of empty_db))"
proof (rule conjI)
  show "completed_runs [(0, None), (1, None)] (world_of empty_db) = [0]"
    by code_simp
  show "sorted_wrt (\<lambda>s t. s + days 1 \<le> t) (completed_runs [(0, None), (1, None)] (world_of empty_db))"
    by (rule cleanups_a_day_apart) (simp_all add: cleanups_shared_def keyed_def sample_defs)
qed

section \<open>What a cleanup does\<close>

lemma details_cleared:
  "rows_where (\<lambda>e. ie_created_at e < c \<and> (ie_client_ip_address e \<noteq> None \<or> ie_user_agent e \<noteq> None))
     (\<lambda>e. e\<lparr>ie_client_ip_address := None, ie_user_agent := None\<rparr>) t =
   map (\<lambda>(k, e). (k, if ie_created_at e < c
     then e\<lparr>ie_client_ip_address := None, ie_user_agent := None\<rparr> else e)) t"
  by (auto simp: rows_where_def)

text \<open>
  C29: The cleanup at a time removes the events of all three audit logs that are more than a year
  older, clears address and browser of the identity events more than 90 days older, records itself
  once, and leaves every other row of the database as it is; the counts it returns are the numbers
  of rows it removed.
\<close>

theorem cleanup_keeps_the_rest:
  assumes "quiet w"
  shows "wp (run_audit_retention_cleanup t c reason actor commits)
    (\<lambda>counts w'.
      (\<exists>e. ie_event_type e = ''audit_retention_cleanup'' \<and> ie_reason_code e = reason \<and>
        ie_created_at e = t \<and>
        w_db w' = (w_db w)\<lparr>
          t_identity_audit_event :=
            map (\<lambda>(k, e). (k, if ie_created_at e < t - days 90
                then e\<lparr>ie_client_ip_address := None, ie_user_agent := None\<rparr> else e))
              (filter (\<lambda>(k, e). t - days 365 \<le> ie_created_at e) (t_identity_audit_event (w_db w))) @
            [(ie_id e, e)],
          t_workspace_audit_log :=
            filter (\<lambda>(k, l). t - days 365 \<le> wa_created_at l) (t_workspace_audit_log (w_db w)),
          t_secret_access_audit_log :=
            filter (\<lambda>(k, l). t - days 365 \<le> sx_created_at l) (t_secret_access_audit_log (w_db w))\<rparr>) \<and>
      (commits \<longrightarrow> w_committed w' = w_db w') \<and>
      ak_identity_events_deleted counts =
        length (filter (\<lambda>(k, e). ie_created_at e < t - days 365) (t_identity_audit_event (w_db w))) \<and>
      ak_workspace_events_deleted counts =
        length (filter (\<lambda>(k, l). wa_created_at l < t - days 365) (t_workspace_audit_log (w_db w))) \<and>
      ak_secret_access_events_deleted counts =
        length (filter (\<lambda>(k, l). sx_created_at l < t - days 365) (t_secret_access_audit_log (w_db w))))
    (\<lambda>e _. e = IntegrityError) w"
proof -
  have written: "wp (record_identity_audit_event
        ((identity_audit_defaults ''audit_retention_cleanup'' ''success'' reason c)
         \<lparr>ia_actor_user_id := actor, ia_user_id := actor, ia_created_at := Some t, ia_commit := False\<rparr>))
      (\<lambda>e w'. w_env w' = w_env v \<and> ie_event_type e = ''audit_retention_cleanup'' \<and>
         ie_reason_code e = reason \<and> ie_created_at e = t \<and>
         w_db w' = t_identity_audit_event_update (\<lambda>t. t @ [(ie_id e, e)]) (w_db v))
      (\<lambda>e _. e = IntegrityError) v" for v
    by (auto simp: record_identity_audit_event_def resolved_request_id_def identity_audit_defaults_def
        resolved_audit_time_def next_occurred_at_def new_identity_audit_event_def
        add_identity_audit_event_def wp_simps split: option.splits)
  have count: "length (filter P (rows x)) = length (filter (\<lambda>(k, r). P r) x)" for P and x :: "'r table"
    by (induction x) (auto simp: rows_def)
  have kept: "rows_without (\<lambda>r. f r < y) x = filter (\<lambda>(k, r). y \<le> f r) x"
    for f :: "'r \<Rightarrow> int" and y x by (auto simp: rows_without_def not_less intro!: filter_cong)
  have db: "w_db (sync_world w) = w_db w" using assms by simp
  have env: "quiet v" if "w_env v = w_env w" for v using assms that by (simp add: quiet_def)
  show ?thesis
    unfolding run_audit_retention_cleanup_def Let_def
    apply (simp only: wp_simps db)
    apply (rule wp_mono [OF written])
    subgoal for e v
      using env [of v]
      apply (simp add: wp_simps count)
      apply (rule exI [of _ e])
      apply (simp, rule db.equality; simp add: kept details_cleared [simplified])
      done
    subgoal by simp
    done
qed

theorem cleanup_keeps_the_rest_witness:
  "wp (run_audit_retention_cleanup (days 400) ''c'' ''operator_requested'' None True)
    (\<lambda>counts w'. ak_identity_events_deleted counts = 1 \<and>
       ''kept'' \<in> ie_id ` set (rows (t_identity_audit_event (w_db w'))))
    (\<lambda>e _. e = IntegrityError)
    (world_of (empty_db\<lparr>t_identity_audit_event :=
       [(''old'', blank_identity_audit_event\<lparr>ie_id := ''old''\<rparr>),
        (''kept'', blank_identity_audit_event\<lparr>ie_id := ''kept'', ie_created_at := days 40\<rparr>)]\<rparr>))"
  by (rule wp_mono [OF cleanup_keeps_the_rest [OF sample_quiet]])
    (auto simp: world_of_def empty_db_def rows_def days_def seconds_def blank_identity_audit_event_def)

section \<open>What an operator may read\<close>

lemma take_sorted:
  fixes f :: "'r \<Rightarrow> 'k::linorder"
  assumes "ys = take n (sort_key f xs)"
  shows "set ys \<subseteq> set xs" and "length ys \<le> n" and "sorted (map f ys)"
    and "x \<in> set xs \<Longrightarrow> x \<in> set ys \<or> length ys = n \<and> (\<forall>y \<in> set ys. f y \<le> f x)"
proof -
  show "set ys \<subseteq> set xs" using set_take_subset [of n "sort_key f xs"] by (simp add: assms)
  show "length ys \<le> n" by (simp add: assms)
  show "sorted (map f ys)" by (simp add: assms flip: take_map)
  show "x \<in> set ys \<or> length ys = n \<and> (\<forall>y \<in> set ys. f y \<le> f x)" if "x \<in> set xs"
  proof -
    let ?s = "sort_key f xs"
    have "sorted (map f (take n ?s @ drop n ?s))" by simp
    then have *: "\<forall>y \<in> set (take n ?s). \<forall>z \<in> set (drop n ?s). f y \<le> f z"
      unfolding map_append sorted_append by simp
    have "x \<in> set (take n ?s @ drop n ?s)" using that by simp
    then consider "x \<in> set (take n ?s)" | "x \<in> set (drop n ?s)" unfolding set_append by blast
    then show ?thesis
    proof cases
      case 2
      then have "n \<le> length ?s" by (cases "n \<le> length ?s") auto
      then show ?thesis using * 2 by (simp add: assms)
    qed (simp add: assms)
  qed
qed

definition names_event :: "string option \<Rightarrow> string option \<Rightarrow> string option \<Rightarrow> identity_audit_event \<Rightarrow> bool" where
  "names_event correlation_id request_id event_type e \<longleftrightarrow>
     (correlation_id \<noteq> None \<longrightarrow>
        correlation_id = Some (ie_correlation_id e) \<or> correlation_id = ie_related_correlation_id e) \<and>
     (request_id \<noteq> None \<longrightarrow> request_id = ie_request_id e) \<and>
     (event_type \<noteq> None \<longrightarrow> event_type = Some (ie_event_type e))"

lemma identity_event_selected_iff: "identity_event_selected c r ty = names_event c r ty"
  by (rule ext) (auto simp: identity_event_selected_def names_event_def given_is_def split: option.splits)

lemma workspace_event_selected_iff:
  "c \<noteq> None \<or> r \<noteq> None \<or> ty \<noteq> None \<Longrightarrow> workspace_event_selected c r ty l \<longleftrightarrow>
     (c \<noteq> None \<or> r \<noteq> None) \<and> (c \<noteq> None \<longrightarrow> c = wa_correlation_id l) \<and> (r \<noteq> None \<longrightarrow> r = wa_request_id l)"
  by (auto simp: workspace_event_selected_def only_event_type_def given_is_def split: option.splits)

definition may_audit :: "auth_context \<Rightarrow> string list \<Rightarrow> bool" where
  "may_audit auth operator_user_ids \<longleftrightarrow> ac_auth_mode auth = ''user_session'' \<and>
     ac_user_id auth \<in> set operator_user_ids \<and> permitted auth ''operator.write''"

lemma wp_raise_after: "wp m (\<lambda>_. wp (raise e) Q (\<lambda>_ _. True)) (\<lambda>_ _. True) w"
  by (rule wp_mono [OF wp_any]) (simp_all add: wp_raise)

lemma wp_recent:
  "wp (require_recent_authentication reason c) (\<lambda>_ v. w_db v = w_db w) (\<lambda>_ _. True) w"
  by (auto simp: require_recent_authentication_def authenticated_session_def
      get_current_auth_context_def wp_simps wp_raise_after split: option.split)

lemma wp_require_audit_operator:
  "wp (require_audit_operator auth operators c reason)
     (\<lambda>_ v. may_audit auth operators \<and> w_db v = w_db w) (\<lambda>_ _. True) w"
proof -
  have roles: "map_of permission_roles ''operator.write'' = Some owner_admin_roles"
    by (simp add: permission_roles_def)
  show ?thesis
    by (simp add: require_audit_operator_def allowed_roles_for_permission_def roles wp_simps may_audit_def
        permitted_def wp_raise_after wp_recent)
qed

lemma wp_export:
  "wp (export_audit_events auth operators c r ty)
     (\<lambda>x _. may_audit auth operators \<and>
        \<not> (str_or c [] = [] \<and> str_or r [] = [] \<and> str_or ty [] = []) \<and>
        ax_identity_events x = take 500 (sort_key (\<lambda>e. (ie_created_at e, ie_id e))
          (filter (names_event c r ty) (rows (t_identity_audit_event (w_db w))))) \<and>
        ax_workspace_events x = take 500 (sort_key (\<lambda>l. (wa_created_at l, wa_id l))
          (filter (workspace_event_selected c r ty) (rows (t_workspace_audit_log (w_db w))))) \<and>
        ax_secret_access_events x = take 500 (sort_key (\<lambda>l. (sx_created_at l, sx_id l))
          (filter (secret_event_selected c r ty) (rows (t_secret_access_audit_log (w_db w))))))
     (\<lambda>_ _. True) w"
proof -
  have correlation: "wp (resolved_correlation_id None) (\<lambda>_ v. w_db v = w_db w) (\<lambda>_ _. True) w"
    by (auto simp: resolved_correlation_id_def wp_simps split: option.split)
  have recorded: "wp (bnd (record_identity_audit_event a) (\<lambda>_. ret x)) Q (\<lambda>_ _. True) v"
    if "\<And>v. Q x v" for a Q v and x :: audit_export
    unfolding wp_bnd by (rule wp_mono [OF wp_any]) (simp_all add: wp_ret that)
  show ?thesis
    unfolding export_audit_events_def wp_bnd [of "resolved_correlation_id None"]
    apply (rule wp_mono [OF correlation])
     apply (subst wp_bnd, rule wp_mono [OF wp_require_audit_operator])
    subgoal for cid v u v'
      unfolding wp_bnd [of "only_if _ _"] wp_only_if wp_raise
        wp_bnd [of "db_select _ _"] wp_db_select
      by (auto simp: identity_event_selected_iff intro!: recorded)
    by simp_all
qed


definition audited_world :: world where
  "audited_world = (world_of (empty_db\<lparr>
     t_device_session := [(''ds'', sample_session\<lparr>ds_recent_authenticated_at := Some 0\<rparr>)],
     t_identity_audit_event :=
       [(''e1'', blank_identity_audit_event\<lparr>ie_id := ''e1'', ie_correlation_id := ''other''\<rparr>),
        (''e2'', blank_identity_audit_event\<lparr>ie_id := ''e2'', ie_related_correlation_id := Some ''c''\<rparr>)]\<rparr>))
     \<lparr>w_request := blank_request\<lparr>rq_device_session := Some sample_session\<rparr>\<rparr>"

lemma sample_export:
  "\<exists>x w'. export_audit_events sample_auth [''u''] (Some ''c'') None None audited_world = (Inr x, w') \<and>
     map ie_id (ax_identity_events x) = [''e2'']"
proof -
  have "(case export_audit_events sample_auth [''u''] (Some ''c'') None None audited_world of
      (Inl e, w') \<Rightarrow> False | (Inr x, w') \<Rightarrow> map ie_id (ax_identity_events x) = [''e2''])"
    by code_simp
  then show ?thesis by (auto split: prod.splits sum.splits)
qed


end
