(* ===== verification/ModelSettings.thy ===== *)
theory ModelSettings
  imports GitHubRepo PatchTests DeviceSessions
begin

text \<open>
  \<^verbatim>\<open>services/model_settings.py\<close> with its routes: the model providers of a workspace, their sealed
  credentials, and the routes that give each agent role a model. A partial unique index allows one
  active route for a workspace and role.
\<close>

section \<open>Writing under a unique index\<close>

text \<open>
  The \<^verbatim>\<open>UPDATE\<close> of one row that a unique index may refuse: the row as it would be is compared with the others.
\<close>

definition db_modify_unique ::
  "(db \<Rightarrow> 'r table) \<Rightarrow> (('r table \<Rightarrow> 'r table) \<Rightarrow> db \<Rightarrow> db) \<Rightarrow> ('r \<Rightarrow> string) \<Rightarrow> ('r \<Rightarrow> 'r \<Rightarrow> bool) \<Rightarrow>
     'r \<Rightarrow> ('r \<Rightarrow> 'r) \<Rightarrow> 'r action" where
  "db_modify_unique tab upd key clash r f w =
     (if (case map_of (tab (w_db w)) (key r) of
            None \<Rightarrow> False
          | Some r0 \<Rightarrow> list_ex (\<lambda>r'. key r' \<noteq> key r \<and> clash (f r0) r') (rows (tab (w_db w))))
      then (Inl IntegrityError, w) else db_modify upd key r f w)"

definition routes_clash :: "model_route \<Rightarrow> model_route \<Rightarrow> bool" where
  "routes_clash r r' \<longleftrightarrow> mr_status r = MR_ACTIVE \<and> mr_status r' = MR_ACTIVE \<and>
     mr_workspace_id r = mr_workspace_id r' \<and> mr_agent_role r = mr_agent_role r'"

definition change_model_route :: "model_route \<Rightarrow> (model_route \<Rightarrow> model_route) \<Rightarrow> model_route action" where
  "change_model_route =
     db_modify_unique t_model_route t_model_route_update mr_id routes_clash"

text \<open>\<^verbatim>\<open>except IntegrityError\<close>: the transaction is rolled back and the request refused.\<close>

definition or_conflict :: "string \<Rightarrow> 'a action \<Rightarrow> 'a action" where
  "or_conflict detail m = try_catch m
     (\<lambda>e. if e = IntegrityError then bnd rollback (\<lambda>_. raise (http 409 detail)) else raise e)"

section \<open>Providers\<close>

definition secret_header_names :: "string list" where
  "secret_header_names =
     [''authorization'', ''api-key'', ''apikey'', ''cookie'', ''proxy-authorization'', ''x-api-key'',
      ''x-auth-token'']"

definition secret_header_substrings :: "string list" where
  "secret_header_substrings =
     [''api-key'', ''apikey'', ''authorization'', ''cookie'', ''credential'', ''password'', ''secret'',
      ''token'']"

definition is_secret_header :: "string \<Rightarrow> bool" where
  "is_secret_header key =
     (let normalized = replace_all (lower (strip key)) ''_'' ''-''
      in normalized \<in> set secret_header_names \<or>
         list_ex (\<lambda>s. occurs_in s normalized) secret_header_substrings)"

definition reject_secret_headers :: "(string \<times> string) list \<Rightarrow> unit action" where
  "reject_secret_headers headers =
     only_if (list_ex (\<lambda>(key, _). is_secret_header key) headers)
       (raise (http 400 ''Default headers must not contain secrets''))"

record model_provider_create =
  mpc_name :: string
  mpc_provider_type :: model_provider_type
  mpc_base_url :: "string option"
  mpc_default_headers :: "(string \<times> string) list"

definition get_model_provider :: "string \<Rightarrow> model_provider action" where
  "get_model_provider = get_owned t_model_provider mp_workspace_id ''Model provider not found''"

text \<open>The rows of the caller's workspace; without a context, of all.\<close>

definition of_caller :: "auth_context option \<Rightarrow> string \<Rightarrow> bool" where
  "of_caller context workspace_id =
     (case context of None \<Rightarrow> True | Some c \<Rightarrow> workspace_id = ac_workspace_id c)"

definition list_model_providers :: "model_provider list action" where
  "list_model_providers = bnd get_current_auth_context (\<lambda>context.
                          bnd (db_select t_model_provider (\<lambda>p. of_caller context (mp_workspace_id p))) (\<lambda>found.
                          ret (sort_key (\<lambda>p. (mp_created_at p, mp_id p)) found)))"

definition create_model_provider :: "model_provider_create \<Rightarrow> bool \<Rightarrow> model_provider action" where
  "create_model_provider data commit_now = bnd (reject_secret_headers (mpc_default_headers data)) (\<lambda>_.
                                           bnd current_workspace_id (\<lambda>workspace_id.
                                           bnd (new_model_provider (\<lambda>p. p\<lparr>
       mp_workspace_id := workspace_id,
       mp_name := mpc_name data,
       mp_provider_type := mpc_provider_type data,
       mp_base_url := mpc_base_url data,
       mp_default_headers := JObj (map (\<lambda>(k, v). (k, JStr v)) (mpc_default_headers data))\<rparr>)) (\<lambda>provider.
                                           bnd (or_conflict ''Model provider name already exists''
       (bnd (add_model_provider provider) (\<lambda>_.
        only_if commit_now commit))) (\<lambda>_.
                                           db_refresh t_model_provider mp_id provider))))"

section \<open>Credentials\<close>

definition get_model_credential :: "string \<Rightarrow> model_credential action" where
  "get_model_credential =
     get_owned t_model_credential mc_workspace_id ''Model credential not found''"

definition list_model_credentials :: "model_credential list action" where
  "list_model_credentials = bnd get_current_auth_context (\<lambda>context.
                            bnd (db_select t_model_credential (\<lambda>c. of_caller context (mc_workspace_id c))) (\<lambda>found.
                            ret (sort_key (\<lambda>c. (mc_created_at c, mc_id c)) found)))"

definition model_credential_access :: "string \<Rightarrow> string \<Rightarrow> string \<Rightarrow> string \<Rightarrow> secret_access" where
  "model_credential_access secret_id operation access_reason workspace_id =
     \<lparr>se_secret_kind = ''model_credential'', se_secret_id = secret_id,
      se_access_reason = access_reason, se_workspace_id = Some workspace_id,
      se_operation = operation\<rparr>"

definition create_model_credential ::
  "services \<Rightarrow> string \<Rightarrow> string \<Rightarrow> string \<Rightarrow> bool \<Rightarrow> model_credential action" where
  "create_model_credential sv provider_id display_name secret_value commit_now = bnd (get_model_provider provider_id) (\<lambda>provider.
                                                                                 bnd (only_if (mp_status provider \<noteq> MP_ACTIVE) (raise (http 400 ''Model provider is disabled''))) (\<lambda>_.
                                                                                 bnd (prefixed_id ''model_credential'') (\<lambda>credential_id.
                                                                                 bnd (external (\<lambda>n. sv_vault_seal sv n secret_value)) (\<lambda>sealed.
                                                                                 case sealed of
       None \<Rightarrow> fail_closed_secret_operation
         (model_credential_access credential_id ''create'' ''model_credential_create''
            (mp_workspace_id provider))
     | Some secret \<Rightarrow> bnd (new_model_credential (\<lambda>c. c\<lparr>
           mc_id := credential_id,
           mc_workspace_id := mp_workspace_id provider,
           mc_provider_id := mp_id provider,
           mc_display_name := display_name,
           mc_secret_last4 := ss_secret_last4 secret,
           mc_encrypted_secret := ss_encrypted_secret secret\<rparr>)) (\<lambda>credential.
                     bnd (add_model_credential credential) (\<lambda>_.
                     bnd (record_secret_access
           (model_credential_access (mc_id credential) ''create'' ''model_credential_create''
              (mc_workspace_id credential)) True False) (\<lambda>_.
                     bnd (only_if commit_now commit) (\<lambda>_.
                     db_refresh t_model_credential mc_id credential))))))))"

definition delete_model_credential :: "services \<Rightarrow> string \<Rightarrow> bool \<Rightarrow> model_credential action" where
  "delete_model_credential sv credential_id commit_now = bnd (get_model_credential credential_id) (\<lambda>credential.
                                                         bnd (require_audited_workspace_permission ''credential.write'' ''model_credential.delete''
       ''model_credential'' (Some (mc_id credential)) AL_HIGH_VALUE_WRITE) (\<lambda>_.
                                                         bnd (external (\<lambda>n. sv_vault_delete sv n (mc_encrypted_secret credential))) (\<lambda>deleted.
                                                         if \<not> deleted then fail_closed_secret_operation
       (model_credential_access (mc_id credential) ''delete'' ''model_credential_delete''
          (mc_workspace_id credential))
     else bnd utc_now (\<lambda>now.
          bnd (set_model_credential credential (\<lambda>c. c\<lparr>mc_status := MC_DELETED, mc_updated_at := now\<rparr>)) (\<lambda>changed.
          bnd (record_secret_access
         (model_credential_access (mc_id changed) ''delete'' ''model_credential_delete''
            (mc_workspace_id changed)) True False) (\<lambda>_.
          bnd (only_if commit_now commit) (\<lambda>_.
          db_refresh t_model_credential mc_id changed)))))))"

definition replace_model_credential ::
  "services \<Rightarrow> string \<Rightarrow> string \<Rightarrow> string \<Rightarrow> bool \<Rightarrow> model_credential action" where
  "replace_model_credential sv credential_id display_name secret_value commit_now = bnd (get_model_credential credential_id) (\<lambda>credential.
                                                                                    bnd (require_audited_workspace_permission ''credential.write'' ''model_credential.replace''
       ''model_credential'' (Some (mc_id credential)) AL_HIGH_VALUE_WRITE) (\<lambda>_.
                                                                                    bnd (external (\<lambda>n. sv_vault_rotate sv n (mc_encrypted_secret credential) secret_value)) (\<lambda>sealed.
                                                                                    case sealed of
       None \<Rightarrow> fail_closed_secret_operation
         (model_credential_access (mc_id credential) ''rotate'' ''model_credential_replace''
            (mc_workspace_id credential))
     | Some secret \<Rightarrow> bnd utc_now (\<lambda>now.
                     bnd (set_model_credential credential (\<lambda>c. c\<lparr>
           mc_display_name := display_name,
           mc_secret_last4 := ss_secret_last4 secret,
           mc_encrypted_secret := ss_encrypted_secret secret,
           mc_updated_at := now\<rparr>)) (\<lambda>changed.
                     bnd (record_secret_access
           (model_credential_access (mc_id changed) ''rotate'' ''model_credential_replace''
              (mc_workspace_id changed)) True False) (\<lambda>_.
                     bnd (only_if commit_now commit) (\<lambda>_.
                     db_refresh t_model_credential mc_id changed)))))))"

section \<open>Routes of agent roles\<close>

definition get_model_route :: "string \<Rightarrow> model_route action" where
  "get_model_route = get_owned t_model_route mr_workspace_id ''Model route not found''"

definition active_route_for_role :: "string \<Rightarrow> string option \<Rightarrow> model_route option action" where
  "active_route_for_role agent_role exclude_route_id = bnd current_workspace_id (\<lambda>workspace_id.
                                                       bnd (db_select t_model_route (\<lambda>r. mr_workspace_id r = workspace_id \<and>
       mr_agent_role r = agent_role \<and> mr_status r = MR_ACTIVE)) (\<lambda>routes.
                                                       ret (find (\<lambda>r. Some (mr_id r) \<noteq> exclude_route_id) routes)))"

definition validate_route_references ::
  "string \<Rightarrow> string option \<Rightarrow> (model_provider \<times> model_credential option) action" where
  "validate_route_references provider_id credential_id = bnd (get_model_provider provider_id) (\<lambda>provider.
                                                         case credential_id of
       None \<Rightarrow> ret (provider, None)
     | Some i \<Rightarrow> bnd (get_model_credential i) (\<lambda>credential.
                bnd (only_if (mc_provider_id credential \<noteq> mp_id provider)
           (raise (http 400 ''Credential does not belong to provider''))) (\<lambda>_.
                bnd (only_if (mc_workspace_id credential \<noteq> mp_workspace_id provider)
           (raise (http 400 ''Credential does not belong to provider workspace''))) (\<lambda>_.
                ret (provider, Some credential)))))"

definition list_model_routes :: "model_route list action" where
  "list_model_routes = bnd get_current_auth_context (\<lambda>context.
                       bnd (db_select t_model_route (\<lambda>r. of_caller context (mr_workspace_id r))) (\<lambda>found.
                       ret (sort_key (\<lambda>r. (mr_agent_role r, mr_created_at r, mr_id r)) found)))"

record model_route_create =
  mrc_agent_role :: string
  mrc_provider_id :: string
  mrc_credential_id :: "string option"
  mrc_model_name :: string
  mrc_fallback_models :: "string list"

definition role_taken :: string where
  "role_taken = ''Active model route already exists for role''"

definition create_model_route :: "model_route_create \<Rightarrow> bool \<Rightarrow> model_route action" where
  "create_model_route data commit_now = bnd (validate_route_references (mrc_provider_id data) (mrc_credential_id data)) (\<lambda>(provider, _).
                                        bnd (active_route_for_role (mrc_agent_role data) None) (\<lambda>active.
                                        bnd (only_if (active \<noteq> None) (raise (http 409 role_taken))) (\<lambda>_.
                                        bnd (new_model_route (\<lambda>r. r\<lparr>
       mr_workspace_id := mp_workspace_id provider,
       mr_agent_role := mrc_agent_role data,
       mr_provider_id := mrc_provider_id data,
       mr_credential_id := mrc_credential_id data,
       mr_model_name := mrc_model_name data,
       mr_fallback_models := mrc_fallback_models data\<rparr>)) (\<lambda>route.
                                        bnd (or_conflict role_taken (bnd (add_model_route route) (\<lambda>_.
                             only_if commit_now commit))) (\<lambda>_.
                                        db_refresh t_model_route mr_id route)))))"

text \<open>
  The body of a \<^verbatim>\<open>PATCH\<close>: \<open>mru_credential_id\<close> is \<open>None\<close> when the member is not in the body
  (\<^verbatim>\<open>model_fields_set\<close>), and \<open>Some None\<close> when it is null.
\<close>

record model_route_update =
  mru_provider_id :: "string option"
  mru_credential_id :: "string option option"
  mru_model_name :: "string option"
  mru_fallback_models :: "string list option"
  mru_status :: "model_route_status option"

definition route_updated :: "model_route_update \<Rightarrow> model_route \<Rightarrow> model_route" where
  "route_updated data r = r\<lparr>
     mr_provider_id := (case mru_provider_id data of None \<Rightarrow> mr_provider_id r | Some p \<Rightarrow> p),
     mr_credential_id := (case mru_credential_id data of None \<Rightarrow> mr_credential_id r | Some c \<Rightarrow> c),
     mr_model_name := (case mru_model_name data of None \<Rightarrow> mr_model_name r | Some m \<Rightarrow> m),
     mr_fallback_models :=
       (case mru_fallback_models data of None \<Rightarrow> mr_fallback_models r | Some m \<Rightarrow> m),
     mr_status := (case mru_status data of None \<Rightarrow> mr_status r | Some s \<Rightarrow> s)\<rparr>"

text \<open>
  The select of \<open>active_route_for_role\<close> flushes the changed attributes first (the session's autoflush);
  that flush is outside of the \<^verbatim>\<open>try\<close> around the last one.
\<close>

definition update_model_route :: "string \<Rightarrow> model_route_update \<Rightarrow> bool \<Rightarrow> model_route action" where
  "update_model_route route_id data commit_now = bnd (get_model_route route_id) (\<lambda>route.
                                                 bnd (require_audited_workspace_permission ''model_config.write'' ''model_route.update''
       ''model_route'' (Some (mr_id route)) AL_HIGH_VALUE_WRITE) (\<lambda>_.
                                                 let changed = route_updated data route in
                                                 bnd (validate_route_references (mr_provider_id changed) (mr_credential_id changed)) (\<lambda>_.
                                                 bnd (only_if (mr_status changed = MR_ACTIVE) (bnd (change_model_route route (route_updated data)) (\<lambda>_.
                                              bnd (active_route_for_role (mr_agent_role changed) (Some (mr_id changed))) (\<lambda>active.
                                              only_if (active \<noteq> None) (raise (http 409 role_taken)))))) (\<lambda>_.
                                                 bnd utc_now (\<lambda>now.
                                                 bnd (or_conflict role_taken (bnd (change_model_route route (\<lambda>r. (route_updated data r)\<lparr>mr_updated_at := now\<rparr>)) (\<lambda>updated.
                                        bnd (only_if commit_now commit) (\<lambda>_.
                                        ret updated)))) (\<lambda>updated.
                                                 db_refresh t_model_route mr_id updated))))))"

record resolved_model_route =
  rm_agent_role :: string
  rm_provider_name :: string
  rm_provider_type :: string
  rm_model_name :: string
  rm_fallback_models :: "string list"
  rm_credential_required :: bool
  rm_credential_available :: bool
  rm_is_available :: bool
  rm_resolution_source :: string
  rm_route_id :: "string option"

definition fallback_fake_route :: "string \<Rightarrow> resolved_model_route" where
  "fallback_fake_route agent_role =
     \<lparr>rm_agent_role = agent_role, rm_provider_name = ''fake'', rm_provider_type = ''fake'',
      rm_model_name = ''fake-'' @ agent_role, rm_fallback_models = [], rm_credential_required = False,
      rm_credential_available = False, rm_is_available = True,
      rm_resolution_source = ''fallback_fake'', rm_route_id = None\<rparr>"

definition resolve_model_route :: "string \<Rightarrow> resolved_model_route action" where
  "resolve_model_route agent_role = bnd (active_route_for_role agent_role None) (\<lambda>active.
                                    case active of
       None \<Rightarrow> ret (fallback_fake_route agent_role)
     | Some route \<Rightarrow> bnd (get_model_provider (mr_provider_id route)) (\<lambda>provider.
                    let credential_required = (mp_provider_type provider \<noteq> MT_FAKE) in
                    bnd (case mr_credential_id route of
              None \<Rightarrow> ret False
            | Some i \<Rightarrow> bnd (db_get t_model_credential i) (\<lambda>credential.
                       ret (case credential of None \<Rightarrow> False | Some c \<Rightarrow> mc_status c = MC_ACTIVE))) (\<lambda>credential_available.
                    ret \<lparr>rm_agent_role = agent_role, rm_provider_name = mp_name provider,
              rm_provider_type = model_provider_type_value (mp_provider_type provider),
              rm_model_name = mr_model_name route, rm_fallback_models = mr_fallback_models route,
              rm_credential_required = credential_required,
              rm_credential_available = credential_available,
              rm_is_available = (mp_status provider = MP_ACTIVE \<and>
                (\<not> credential_required \<or> credential_available)),
              rm_resolution_source = ''configured'', rm_route_id = Some (mr_id route)\<rparr>)))"

section \<open>HTTP routes\<close>

definition audit_list :: "string \<Rightarrow> string \<Rightarrow> 'a list \<Rightarrow> unit action" where
  "audit_list operation resource_type result = bnd (record_workspace_audit
       ((workspace_audit_defaults operation resource_type None AL_HIGH_SENSITIVE_READ True 200)\<lparr>
          wk_metadata := [(''count'', JInt (int (length result)))], wk_commit := True\<rparr>)) (\<lambda>_.
                                               ret ())"

definition get_model_providers :: "model_provider list action" where
  "get_model_providers = bnd (require_audited_workspace_permission ''model_config.read'' ''model_provider.list''
       ''model_provider'' None AL_HIGH_SENSITIVE_READ) (\<lambda>_.
                         bnd list_model_providers (\<lambda>result.
                         bnd (audit_list ''model_provider.list'' ''model_provider'' result) (\<lambda>_.
                         ret result)))"

definition post_model_provider :: "model_provider_create \<Rightarrow> model_provider action" where
  "post_model_provider data = bnd (require_audited_workspace_permission ''model_config.write'' ''model_provider.create''
       ''model_provider'' None AL_HIGH_VALUE_WRITE) (\<lambda>_.
                              bnd (create_model_provider data False) (\<lambda>result.
                              bnd (audit_success ''model_provider.create'' ''model_provider'' (mp_id result) 201 True) (\<lambda>_.
                              ret result)))"

definition get_model_credentials :: "model_credential list action" where
  "get_model_credentials = bnd (require_audited_workspace_permission ''credential.metadata.read'' ''model_credential.list''
       ''model_credential'' None AL_HIGH_SENSITIVE_READ) (\<lambda>_.
                           bnd list_model_credentials (\<lambda>result.
                           bnd (audit_list ''model_credential.list'' ''model_credential'' result) (\<lambda>_.
                           ret result)))"

definition post_model_credential :: "services \<Rightarrow> string \<Rightarrow> string \<Rightarrow> string \<Rightarrow> model_credential action" where
  "post_model_credential sv provider_id display_name secret_value = bnd (require_audited_workspace_permission ''credential.write'' ''model_credential.create''
       ''model_credential'' None AL_HIGH_VALUE_WRITE) (\<lambda>_.
                                                                    bnd (require_recent_authentication ''sensitive_credential_change'' None) (\<lambda>_.
                                                                    bnd (create_model_credential sv provider_id display_name secret_value False) (\<lambda>result.
                                                                    bnd (audit_success ''model_credential.create'' ''model_credential'' (mc_id result) 201 True) (\<lambda>_.
                                                                    ret result))))"

definition delete_model_credential_by_id :: "services \<Rightarrow> string \<Rightarrow> model_credential action" where
  "delete_model_credential_by_id sv credential_id = bnd (require_recent_authentication ''sensitive_credential_change'' None) (\<lambda>_.
                                                    bnd (delete_model_credential sv credential_id False) (\<lambda>result.
                                                    bnd (audit_success ''model_credential.delete'' ''model_credential'' (mc_id result) 200 True) (\<lambda>_.
                                                    ret result)))"

definition put_model_credential_by_id ::
  "services \<Rightarrow> string \<Rightarrow> string \<Rightarrow> string \<Rightarrow> model_credential action" where
  "put_model_credential_by_id sv credential_id display_name secret_value = bnd (require_recent_authentication ''sensitive_credential_change'' None) (\<lambda>_.
                                                                           bnd (replace_model_credential sv credential_id display_name secret_value False) (\<lambda>result.
                                                                           bnd (audit_success ''model_credential.replace'' ''model_credential'' (mc_id result) 200 True) (\<lambda>_.
                                                                           ret result)))"

definition get_model_routes :: "model_route list action" where
  "get_model_routes = bnd (require_audited_workspace_permission ''model_config.read'' ''model_route.list''
       ''model_route'' None AL_HIGH_SENSITIVE_READ) (\<lambda>_.
                      bnd list_model_routes (\<lambda>result.
                      bnd (audit_list ''model_route.list'' ''model_route'' result) (\<lambda>_.
                      ret result)))"

definition post_model_route :: "model_route_create \<Rightarrow> model_route action" where
  "post_model_route data = bnd (require_audited_workspace_permission ''model_config.write'' ''model_route.create''
       ''model_route'' None AL_HIGH_VALUE_WRITE) (\<lambda>_.
                           bnd (create_model_route data False) (\<lambda>result.
                           bnd (audit_success ''model_route.create'' ''model_route'' (mr_id result) 201 True) (\<lambda>_.
                           ret result)))"

definition patch_model_route :: "string \<Rightarrow> model_route_update \<Rightarrow> model_route action" where
  "patch_model_route route_id data = bnd (update_model_route route_id data False) (\<lambda>result.
                                     bnd (audit_success ''model_route.update'' ''model_route'' (mr_id result) 200 True) (\<lambda>_.
                                     ret result))"

definition resolve_model_route_for_role :: "string \<Rightarrow> resolved_model_route action" where
  "resolve_model_route_for_role agent_role = bnd (require_audited_workspace_permission ''model_config.read'' ''model_route.resolve''
       ''model_route'' None AL_HIGH_SENSITIVE_READ) (\<lambda>_.
                                             bnd (resolve_model_route agent_role) (\<lambda>result.
                                             bnd (record_workspace_audit
       ((workspace_audit_defaults ''model_route.resolve'' ''model_route'' (rm_route_id result)
           AL_HIGH_SENSITIVE_READ True 200)\<lparr>
          wk_metadata := [(''agent_role'', JStr agent_role)], wk_commit := True\<rparr>)) (\<lambda>_.
                                             ret result)))"

end
