(* ===== verification/ModelLaws.thy ===== *)
theory ModelLaws
  imports ModelSettings IdentitySamples AccessLaws
begin

text \<open>
  The partial unique index on the routes of a workspace and role: every request keeps it, and what the
  order of flush and check does to a request that would break it.
\<close>

section \<open>Any sequence of requests\<close>

datatype model_request =
    ListModelProviders
  | PostModelProvider model_provider_create
  | ListModelCredentials
  | PostModelCredential string string string
  | DeleteModelCredential string
  | PutModelCredential string string string
  | ListModelRoutes
  | PostModelRoute model_route_create
  | PatchModelRoute string model_route_update
  | ResolveModelRoute string

fun handle_model :: "services \<Rightarrow> model_request \<Rightarrow> unit action" where
  "handle_model sv ListModelProviders = bnd get_model_providers (\<lambda>_.
                                        ret ())"
| "handle_model sv (PostModelProvider data) = bnd (post_model_provider data) (\<lambda>_.
                                              ret ())"
| "handle_model sv ListModelCredentials = bnd get_model_credentials (\<lambda>_.
                                          ret ())"
| "handle_model sv (PostModelCredential i name secret) =
     bnd (post_model_credential sv i name secret) (\<lambda>_.
     ret ())"
| "handle_model sv (DeleteModelCredential i) = bnd (delete_model_credential_by_id sv i) (\<lambda>_.
                                               ret ())"
| "handle_model sv (PutModelCredential i name secret) =
     bnd (put_model_credential_by_id sv i name secret) (\<lambda>_.
     ret ())"
| "handle_model sv ListModelRoutes = bnd get_model_routes (\<lambda>_.
                                     ret ())"
| "handle_model sv (PostModelRoute data) = bnd (post_model_route data) (\<lambda>_.
                                           ret ())"
| "handle_model sv (PatchModelRoute i data) = bnd (patch_model_route i data) (\<lambda>_.
                                              ret ())"
| "handle_model sv (ResolveModelRoute agent_role) =
     bnd (resolve_model_route_for_role agent_role) (\<lambda>_.
     ret ())"

definition serve_model_one :: "services \<Rightarrow> model_request \<Rightarrow> world \<Rightarrow> world" where
  "serve_model_one sv q w = sync_world (snd (run_request (handle_model sv q) w))"

definition serve_model :: "services \<Rightarrow> model_request list \<Rightarrow> world \<Rightarrow> world" where
  "serve_model sv qs w = fold (serve_model_one sv) qs w"

section \<open>One active route\<close>

definition routes_unique :: "db \<Rightarrow> bool" where
  "routes_unique d \<longleftrightarrow> keyed mr_id (t_model_route d) \<and>
     (\<forall>r \<in> set (rows (t_model_route d)). \<forall>r' \<in> set (rows (t_model_route d)).
        routes_clash r r' \<longrightarrow> mr_id r = mr_id r')"

lemma routes_clash_sym: "routes_clash r r' = routes_clash r' r"
  by (auto simp: routes_clash_def)

lemma routes_insert:
  assumes "routes_unique d" and "map_of (t_model_route d) (mr_id r) = None"
    and "\<not> list_ex (routes_clash r) (rows (t_model_route d))"
  shows "routes_unique (t_model_route_update (\<lambda>t. t @ [(mr_id r, r)]) d)"
proof -
  have new: "\<not> routes_clash r r'" if "r' \<in> set (rows (t_model_route d))" for r'
    using assms(3) that by (simp add: list_ex_iff)
  then have "\<not> routes_clash r' r" if "r' \<in> set (rows (t_model_route d))" for r'
    using new [OF that] routes_clash_sym by blast
  with new show ?thesis
    using assms(1) keyed_insert [of mr_id _ r] assms(2)
    by (simp add: routes_unique_def rows_def ball_Un)
qed

lemma routes_modify:
  assumes "routes_unique d" and "\<And>r. mr_id (f r) = mr_id r"
    and "map_of (t_model_route d) k = Some r0"
    and "\<not> list_ex (\<lambda>r'. mr_id r' \<noteq> k \<and> routes_clash (f r0) r') (rows (t_model_route d))"
  shows "routes_unique (t_model_route_update (row_modify k f) d)"
proof -
  let ?t = "t_model_route d" and ?t' = "row_modify k f (t_model_route d)"
  have key: "mr_id r0 = k" using keyed_key assms(1,3) by (auto simp: routes_unique_def)
  have new: "\<not> routes_clash (f r0) r'" if "r' \<in> set (rows ?t)" "mr_id r' \<noteq> k" for r'
    using assms(4) that by (auto simp: list_ex_iff)
  have rows: "r \<in> set (rows ?t) \<or> r = f r0" if "r \<in> set (rows ?t')" for r
    using that set_rows_modify [of k f ?t] assms(3) by auto
  have old: "routes_clash r r' \<Longrightarrow> mr_id r = mr_id r'"
    if "r \<in> set (rows ?t)" "r' \<in> set (rows ?t)" for r r'
    using assms(1) that by (simp add: routes_unique_def)
  have "mr_id r = mr_id r'" if "r \<in> set (rows ?t')" "r' \<in> set (rows ?t')" "routes_clash r r'" for r r'
  proof (rule ccontr)
    assume ne: "mr_id r \<noteq> mr_id r'"
    from rows [OF that(1)] rows [OF that(2)] show False
    proof (elim disjE)
      assume "r \<in> set (rows ?t)" "r' \<in> set (rows ?t)"
      with old that(3) ne show False by blast
    next
      assume "r \<in> set (rows ?t)" "r' = f r0"
      with new [of r] ne that(3) assms(2) key routes_clash_sym show False by metis
    next
      assume "r = f r0" "r' \<in> set (rows ?t)"
      with new [of r'] ne that(3) assms(2) key show False by metis
    next
      assume "r = f r0" "r' = f r0"
      with ne show False by simp
    qed
  qed
  moreover have "keyed mr_id ?t'"
    using assms(1,2) by (intro keyed_row_modify) (simp_all add: routes_unique_def)
  ultimately show ?thesis by (simp add: routes_unique_def)
qed

interpretation model_db: db_invariant routes_unique
  by unfold_locales (simp_all add: routes_unique_def)

lemma keeps_change_route [keeps_intros]:
  assumes "\<And>r. mr_id (f r) = mr_id r"
  shows "keeps (good routes_unique) (safe routes_unique) (change_model_route route f)"
proof (rule keepsI)
  fix w assume w: "good routes_unique w"
  have "routes_unique (t_model_route_update (row_modify (mr_id route) f) (w_db w))"
    if "\<not> (case map_of (t_model_route (w_db w)) (mr_id route) of None \<Rightarrow> False
      | Some r0 \<Rightarrow> list_ex (\<lambda>r'. mr_id r' \<noteq> mr_id route \<and> routes_clash (f r0) r')
          (rows (t_model_route (w_db w))))"
  proof (cases "map_of (t_model_route (w_db w)) (mr_id route)")
    case None
    then have "t_model_route_update (row_modify (mr_id route) f) (w_db w) = w_db w"
      by (simp add: row_modify_def)
    then show ?thesis using w by (simp add: good_def)
  next
    case (Some r0)
    with that w show ?thesis by (intro routes_modify [OF _ assms]) (simp_all add: good_def)
  qed
  then show "wp (change_model_route route f) (\<lambda>_. good routes_unique) (safe routes_unique) w"
    using w by (auto simp: change_model_route_def db_modify_unique_def db_modify_def wp_def good_def safe_def)
qed

lemma keeps_or_conflict [keeps_intros]:
  assumes "keeps (good G) (safe G) m"
  shows "keeps (good G) (safe G) (or_conflict detail m)"
  unfolding or_conflict_def
proof (rule keeps_try_rollback [OF assms])
  fix e
  have "keeps (good G) (safe G) (raise (http 409 detail))" by (rule keeps_http)
  then show "(if e = IntegrityError then bnd rollback (\<lambda>_. raise (http 409 detail)) else raise e) = raise e \<or>
      (\<exists>k. (if e = IntegrityError then bnd rollback (\<lambda>_. raise (http 409 detail)) else raise e) =
        bnd rollback (\<lambda>_. k) \<and> keeps (good G) (safe G) k)"
    by auto
qed

lemma keeps_add_model [keeps_intros]:
  "keeps (good routes_unique) (safe routes_unique) (add_model_provider p)"
  "keeps (good routes_unique) (safe routes_unique) (add_model_credential c)"
  "keeps (good routes_unique) (safe routes_unique) (set_model_credential c f)"
  unfolding add_model_provider_def add_model_credential_def set_model_credential_def
  by (rule keeps_insert keeps_row_modify; simp add: routes_unique_def)+

lemma keeps_add_route [keeps_intros]:
  "keeps (good routes_unique) (safe routes_unique) (add_model_route r)"
  unfolding add_model_route_def
  by (rule keeps_insert) (simp add: routes_insert routes_clash_def [abs_def])

lemma keeps_model_reads [keeps_intros]:
  "keeps (good G) (safe G) (get_owned tab ws detail i)"
  "keeps (good G) (safe G) (get_model_provider i)" "keeps (good G) (safe G) (get_model_credential i)"
  "keeps (good G) (safe G) (get_model_route i)" "keeps (good G) (safe G) (active_route_for_role role x)"
  "keeps (good G) (safe G) (validate_route_references i c)"
  unfolding get_model_provider_def get_model_credential_def get_model_route_def
    active_route_for_role_def validate_route_references_def get_owned_def
  by (intro keeps_intros)+

lemma keeps_model_audit [keeps_intros]:
  "keeps (good routes_unique) (safe routes_unique) (audit_success operation typ i code commits)"
  "keeps (good routes_unique) (safe routes_unique) (audit_list operation typ xs)"
  "keeps (good routes_unique) (safe routes_unique) (require_recent_authentication reason c)"
  unfolding audit_success_def audit_list_def require_recent_authentication_def authenticated_session_def
  by (intro keeps_intros)+

lemma keeps_model_operations [keeps_intros]:
  "keeps (good routes_unique) (safe routes_unique) (create_model_provider p b)"
  "keeps (good routes_unique) (safe routes_unique) (create_model_credential sv i name secret b)"
  "keeps (good routes_unique) (safe routes_unique) (delete_model_credential sv i b)"
  "keeps (good routes_unique) (safe routes_unique) (replace_model_credential sv i name secret b)"
  "keeps (good routes_unique) (safe routes_unique) (create_model_route r b)"
  "keeps (good routes_unique) (safe routes_unique) (resolve_model_route role)"
  unfolding create_model_provider_def reject_secret_headers_def create_model_credential_def
    delete_model_credential_def replace_model_credential_def create_model_route_def
    resolve_model_route_def
  by (intro keeps_intros)+

lemma route_updated_id [simp]: "mr_id (route_updated data r) = mr_id r"
  by (simp add: route_updated_def)

lemma keeps_update_route [keeps_intros]:
  "keeps (good routes_unique) (safe routes_unique) (update_model_route i data b)"
  unfolding update_model_route_def by (intro keeps_intros) simp_all

lemma keeps_handle_model: "keeps (good routes_unique) (safe routes_unique) (handle_model sv q)"
  by (cases q) (simp_all add: get_model_providers_def list_model_providers_def post_model_provider_def
      get_model_credentials_def list_model_credentials_def post_model_credential_def
      delete_model_credential_by_id_def put_model_credential_by_id_def get_model_routes_def
      list_model_routes_def post_model_route_def patch_model_route_def
      resolve_model_route_for_role_def, (intro keeps_intros)+)

lemma serve_model_one_keeps:
  assumes "good routes_unique w"
  shows "good routes_unique (serve_model_one sv q w)"
proof -
  obtain r w' where m: "handle_model sv q w = (r, w')" by fastforce
  have "safe routes_unique e w'" if "r = Inl e" for e
    using keepsD [OF keeps_handle_model assms, of sv q] m that by (simp add: wp_def)
  moreover have "good routes_unique w'" if "r = Inr x" for x
    using keepsD [OF keeps_handle_model assms, of sv q] m that by (simp add: wp_def)
  ultimately have "good routes_unique (w'\<lparr>w_db := w_committed w'\<rparr>)"
    by (cases r) (simp_all add: good_def safe_def)
  then show ?thesis by (simp add: serve_model_one_def run_request_def m good_sync)
qed


definition two_routes :: world where
  "two_routes = world_of (empty_db\<lparr>
     t_model_provider := [(''p'', blank_model_provider\<lparr>mp_id := ''p'', mp_workspace_id := ''w''\<rparr>)],
     t_model_route :=
       [(''a'', blank_model_route\<lparr>mr_id := ''a'', mr_workspace_id := ''w'', mr_agent_role := ''planner'',
          mr_provider_id := ''p''\<rparr>),
        (''b'', blank_model_route\<lparr>mr_id := ''b'', mr_workspace_id := ''w'', mr_agent_role := ''planner'',
          mr_provider_id := ''p'', mr_status := MR_DISABLED\<rparr>)]\<rparr>)"

definition activate :: model_route_update where
  "activate = \<lparr>mru_provider_id = None, mru_credential_id = None, mru_model_name = None,
     mru_fallback_models = None, mru_status = Some MR_ACTIVE\<rparr>"

lemma two_routes_served:
  "map (\<lambda>r. (mr_id r, mr_status r)) (rows (t_model_route
     (w_committed (serve_model sample_services [PatchModelRoute ''b'' activate] two_routes)))) =
   [(''a'', MR_ACTIVE), (''b'', MR_DISABLED)]"
  by code_simp

lemma two_routes_good: "good routes_unique two_routes"
  by (simp add: two_routes_def routes_unique_def keyed_def empty_db_def rows_def routes_clash_def
      blank_model_route_def)


section \<open>A second active route\<close>

lemma permitted_passes:
  assumes "e_auth (w_env w) = Some c" and "permitted c permission"
  shows "wp (require_audited_workspace_permission permission operation typ i level) Q E w = Q () w"
  using assms
  by (auto simp: require_audited_workspace_permission_def require_workspace_permission_def
      allowed_roles_for_permission_def require_workspace_role_def wp_simps permitted_def
      split: option.splits)

text \<open>
  C31: A request that activates a route while another is active for the role is not answered with the
  conflict the code provides for: the select that looks for the other route first flushes the change,
  the unique index refuses it, and the \<^verbatim>\<open>IntegrityError\<close> leaves the handler. Nothing is committed.
\<close>

theorem second_activation_crashes:
  assumes "e_auth (w_env w) = Some c" and "permitted c ''model_config.write''"
    and "map_of (t_model_route (w_db w)) i = Some route" and "mr_id route = i"
    and "mr_workspace_id route = ac_workspace_id c"
    and "mr_status (route_updated data route) = MR_ACTIVE"
    and "mr_credential_id (route_updated data route) = None"
    and "map_of (t_model_provider (w_db w)) (mr_provider_id (route_updated data route)) = Some provider"
    and "mp_workspace_id provider = ac_workspace_id c"
    and "active \<in> set (rows (t_model_route (w_db w)))" and "mr_id active \<noteq> i"
    and "mr_status active = MR_ACTIVE" and "mr_workspace_id active = mr_workspace_id route"
    and "mr_agent_role active = mr_agent_role route"
  shows "patch_model_route i data w = (Inl IntegrityError, w)"
proof -
  have clash: "list_ex (\<lambda>r'. mr_id r' \<noteq> i \<and> routes_clash (route_updated data route) r')
      (rows (t_model_route (w_db w)))"
    using assms(5,6,10-14) by (auto simp: list_ex_iff routes_clash_def route_updated_def)
  have "wp (patch_model_route i data) (\<lambda>_ _. False) (\<lambda>e w'. e = IntegrityError \<and> w' = w) w"
    using assms(1-9) clash
    by (simp add: patch_model_route_def update_model_route_def get_model_route_def get_owned_def
        enforce_workspace_access_def get_current_auth_context_def validate_route_references_def
        get_model_provider_def permitted_passes wp_simps Let_def change_model_route_def
        wp_def [of "db_modify_unique _ _ _ _ _ _"] db_modify_unique_def)
  then show ?thesis by (auto simp: wp_def split: prod.splits sum.splits)
qed

theorem second_activation_crashes_witness:
  "patch_model_route ''b'' activate two_routes = (Inl IntegrityError, two_routes)"
  by (rule second_activation_crashes [where c = sample_auth and active =
      "blank_model_route\<lparr>mr_id := ''a'', mr_workspace_id := ''w'', mr_agent_role := ''planner'',
          mr_provider_id := ''p''\<rparr>" and route =
      "blank_model_route\<lparr>mr_id := ''b'', mr_workspace_id := ''w'', mr_agent_role := ''planner'',
          mr_provider_id := ''p'', mr_status := MR_DISABLED\<rparr>" and provider =
      "blank_model_provider\<lparr>mp_id := ''p'', mp_workspace_id := ''w''\<rparr>"])
    (simp_all add: two_routes_def world_of_def sample_env_def sample_auth_def empty_db_def rows_def
      activate_def route_updated_def blank_model_route_def blank_model_provider_def permitted_def
      permission_roles_def has_any_role_def owner_admin_roles_def)

end
