(* ===== verification/Spec2Isabelle.thy ===== *)
theory Spec2Isabelle
  imports TaskState Calendar Runner LedgerEffects LeaseLaws StorageLaws AccessLaws SessionSafety
    BrowserLaws StatusLaws LoginLaws WorkflowLaws ReviewUpgrade ArtifactLaws
    LogPages PullRequestLaws UsageLedger RetentionLaws ModelLaws
begin

text \<open>
  A model of the API of AI-SCDC (\<^verbatim>\<open>src/apps/api/app/ai_company_api\<close>): an application that plans
  software tasks, runs them in a sandbox on remote workers, charges the runs to a prepaid wallet,
  and lets people sign in through an external identity provider.

  How the program works. A request enters through FastAPI, gets a database session and an
  authentication context (\<open>SessionAuth\<close>), and calls one service function. The services read and
  write rows of one SQL database, call external providers (queue, object storage, container
  runtime, GitHub, identity provider, KMS) and commit. Several API processes and workers share the
  database; nothing but transactions and guarded updates orders them.

  The state (\<open>World\<close>). A \<open>world\<close> holds what the session sees (\<open>w_db\<close>), what is committed
  (\<open>w_committed\<close>), the request's own state, and an environment \<open>w_env\<close> with the clock, the fresh
  identifiers and tokens, the hash functions and what the other sessions do to the database between
  our transactions (\<open>e_others\<close>). \<open>commit\<close> publishes the view and takes in the others' changes,
  \<open>rollback\<close> drops it; an insert fails with \<open>IntegrityError\<close> on a primary key or a unique
  constraint of the class; a guarded \<^verbatim>\<open>UPDATE ... WHERE\<close> (\<open>db_update_where\<close>) decides on the rows as
  they are committed then. An action is a function from a world to a result or an exception, and a
  world, so that the writes made before a raise are not lost. Tables are association lists from
  keys to records (\<open>Entities\<close>, after \<^verbatim>\<open>models/entities.py\<close>). Datetimes are microseconds, Python's
  integers \<open>int\<close>, texts lists of characters. In the theories the \<^verbatim>\<open>bnd\<close> chains are Python's
  statements in their order.

  Theories and code.
  \<^item> \<open>Prelude\<close>, \<open>PyText\<close>, \<open>Keyed\<close>, \<open>Base64\<close>, \<open>JsonText\<close>, \<open>Calendar\<close>: actions with weakest
    preconditions, texts, keyed tables, base64, \<^verbatim>\<open>json.loads\<close>, the months of \<^verbatim>\<open>datetime\<close>.
  \<^item> \<open>TaskState\<close> (\<^verbatim>\<open>task_state.py\<close>), \<open>TaskRepo\<close> (\<^verbatim>\<open>repository.py\<close>): projects, tasks and the task state
    machine.
  \<^item> \<open>Redaction\<close>, \<open>AuditTrail\<close> (\<^verbatim>\<open>audit_request_context.py\<close>, \<^verbatim>\<open>workspace_audit.py\<close>,
    \<^verbatim>\<open>identity_audit.py\<close>): masking of secrets and the two audit logs; \<open>Auth\<close> (\<^verbatim>\<open>auth_policy.py\<close>,
    \<^verbatim>\<open>workspace_permissions.py\<close>, parts of \<^verbatim>\<open>auth_context.py\<close>).
  \<^item> \<open>Budgeting\<close> (\<^verbatim>\<open>budgeting.py\<close>): wallets, spend limits, reservations, settlement.
  \<^item> \<open>Providers\<close>, \<open>Queues\<close>, \<open>Storage\<close>, \<open>Sandbox\<close>, \<open>GitHubRepo\<close>: configuration and ports
    (\<^verbatim>\<open>aliyun_config.py\<close>, \<^verbatim>\<open>cloud_queue_providers.py\<close>, \<^verbatim>\<open>object_storage.py\<close>, \<^verbatim>\<open>remote_runtime.py\<close>,
    \<^verbatim>\<open>sandbox_profiles.py\<close>, \<^verbatim>\<open>cloud_sandbox_executor.py\<close>, \<^verbatim>\<open>github_repository.py\<close>,
    \<^verbatim>\<open>secret_access_audit.py\<close>).
  \<^item> \<open>CloudRunCore\<close>, \<open>CloudRunLease\<close>, \<open>CloudRunFinalize\<close>, \<open>CloudRunQueue\<close>
    (\<^verbatim>\<open>cloud_runner.py\<close>, \<^verbatim>\<open>worker_callback_auth.py\<close>, \<^verbatim>\<open>worker_route_auth.py\<close>): a run from its queueing to
    its settlement; \<open>Runner\<close> composes every operation on runs into \<open>serve_runner\<close>.
  \<^item> \<open>WebRequest\<close>, \<open>DeviceSessions\<close>, \<open>BrowserProtection\<close>, \<open>SessionAuth\<close>, \<open>IdentityRollout\<close>,
    \<open>IdentityStatus\<close>, \<open>IdentityLogin\<close>, \<open>LoginCallback\<close>, \<open>LoginCompletion\<close>, \<open>IdentityLogout\<close>,
    \<open>AccountLinks\<close>, \<open>IdentityRoutes\<close>: the identity services of the same names under
    \<^verbatim>\<open>services/\<close>, and \<^verbatim>\<open>api/identity_routes.py\<close>, which composes them; \<open>serve_identities\<close> serves any
    sequence of identity requests.
  \<^item> \<open>PathRules\<close>, \<open>TestRunner\<close>, \<open>PatchTests\<close>, \<open>PatchReviews\<close>, \<open>PatchApprovals\<close>
    (\<^verbatim>\<open>test_review_debug.py\<close>, \<^verbatim>\<open>patch_approval.py\<close>, parts of the worker's \<^verbatim>\<open>local_runner.py\<close> and
    \<^verbatim>\<open>test_runner.py\<close>): a patch artifact from its tests to the request for a human's approval; \<open>Workflow\<close> composes them
    with the requests on tasks and plans into \<open>serve_workflow\<close>.
  \<^item> \<open>PullRequests\<close> (\<^verbatim>\<open>github_pull_request.py\<close>): the pull request for an approved patch.
  \<^item> \<open>ArtifactPlane\<close> (\<^verbatim>\<open>artifact_plane.py\<close>): the artifacts of a run as clients see them, and their cleanup.
  \<^item> \<open>RunLogs\<close> (\<^verbatim>\<open>cloud_run_logs.py\<close>, \<^verbatim>\<open>cloud_run_log_sync.py\<close>): the log of a run in pages.
  \<^item> \<open>UsageLedger\<close> (\<^verbatim>\<open>usage_ledger.py\<close>), \<open>ModelSettings\<close> (\<^verbatim>\<open>model_settings.py\<close>), \<open>AuditOperations\<close>
    (\<^verbatim>\<open>audit_operations.py\<close>): what a workspace books itself, its models, and export and retention of the
    audit logs, each with its HTTP routes.
  \<^item> \<open>SqlSchema\<close>, \<open>Migrations\<close> (\<^verbatim>\<open>db/session.py\<close>): what the upgrades use of a relational database,
    its tables with their columns, rows, indexes and transactions, and the upgrades, composed by
    \<open>init_db\<close>. The tables of the model classes, which SQLModel declares, are its argument.

  What the lemmas show. \<open>Invariance\<close> states when a property of the database survives a request:
  the locale \<open>db_invariant\<close>, extended by \<open>runner_invariant\<close> and \<open>row_invariant\<close> in
  \<open>RunnerContract\<close>, where every operation of the runner is shown to keep it once and for all. It is
  interpreted for the books of the wallets (\<open>BudgetLaws\<close>), the states of runs, their history, the
  usage ledger and the redaction of logs; \<open>Runner\<close> draws the conclusions for any history of
  requests. \<open>SessionContract\<close> and \<open>SessionHandlers\<close> do the same for the identity services with
  \<open>session_invariant\<close>, interpreted in \<open>SessionSafety\<close>: sessions only move forward. \<open>WorkflowContract\<close>
  and \<open>WorkflowHandlers\<close> do it for the workflow with \<open>workflow_invariant\<close>, whose two interpretations in
  \<open>WorkflowLaws\<close> give the refinement of the task lifecycle and the evidence behind an approval.
  \<open>SchemaContract\<close> shows once that \<open>init_db\<close> keeps whatever every kind of statement keeps (\<open>schema_law\<close>);
  \<open>MigrationLaws\<close> interprets it for the data and for the constraints, and \<open>ReviewUpgrade\<close> follows the
  removal of duplicate reviews. \<open>ArtifactLaws\<close> shows that contents which are read stay within their run and
  workspace, \<open>CleanupLaws\<close> what a cleanup deletes, \<open>LogCursors\<close> and \<open>LogPages\<close> that following the
  cursors of a log shows all of it. \<open>PullRequestLaws\<close> shows through the locale \<open>pull_invariant\<close>,
  interpreted for the approvals and for the records, that GitHub is asked once; \<open>RetentionLaws\<close> what keeps the
  cleanups of several processes a day apart, and \<open>ModelLaws\<close> that a role has one active route. The other
  \<open>*Laws\<close> theories hold what single operations do, on every branch. The locale \<open>row_store\<close> is the
  interface of a table, interpreted for each of them; \<open>lifecycle\<close> that of the task state machine.

  Bounds and fuel. The JSON scanner takes twice the length of its text and one as fuel; it reads a
  character in each step, and \<open>scan_value_fuel\<close> shows that more changes nothing. The substitutions
  of \<open>Redaction\<close> take the length of their text. The search for a free name (\<open>free_number\<close>)
  ends because the names tried differ and finitely many are taken. Every other recursion is
  structural.

  Assumptions. The clients of external services are parameters, records of functions that may
  answer or fail in the ways the code distinguishes. A theorem about one request says so when it
  needs that no other session interferes (\<open>quiet\<close>); the invariants allow any interference that
  keeps the invariant itself.

  Not modelled: FastAPI's routing and parsing of bodies, the clients of
  hosted services (\<^verbatim>\<open>authing_ciam_provider.py\<close>, \<^verbatim>\<open>aliyun_clients.py\<close>, \<^verbatim>\<open>aliyun_kms.py\<close>), the loop of the
  remote worker and the local runner, which run git and containers, and the calls of language
  models. A character is a byte here: texts beyond Latin-1 do not occur.
\<close>

end
